(* ===== verification/Prelude.thy ===== *)
theory Prelude
  imports Main "HOL-Library.List_Lexorder" "HOL-Library.Char_ord" "HOL-Library.Product_Lexorder"
begin

text \<open>
  Shared vocabulary of the development: the exception values of the Python code, the
  error-or-value results of its operations, the JSON values it stores, identifiers, tables
  as row lists with key look-up and row replacement, and the interface of a keyed
  repository that every table of the database is an instance of.
\<close>

section \<open>Lemma collections\<close>

named_theorems table_simps \<open>look-up after a row replacement or an insertion\<close>
named_theorems store_simps \<open>effect of the repository operations on the tables\<close>
named_theorems flow_simps \<open>unfolding of transaction bodies\<close>

section \<open>Exceptions and results\<close>

text \<open>
  The exceptions of the modelled code.  Texts that the source writes in Chinese are rendered in
  English; machine readable codes are the source's own.  \<open>TaskExecutionError\<close> carries its code,
  message, retryable and blocked flags, \<open>PlanningApplicationError\<close> its HTTP status, message and
  result code.  \<open>OtherException\<close> stands for every further exception class, by class name.
\<close>

datatype error =
    ValueError string
  | RuntimeError string
  | IntegrityError string
  | ValidationError string
  | TaskExecutionError string string bool bool
  | PlanningApplicationError int string string
  | DocumentApplicationError int string
  | ClarificationApplicationError int string
  | OperationsQueryError int string
  | ContextQueryError int string
  | NotFoundError string
  | ConflictError string
  | OtherException string string

type_synonym 'a result = "error + 'a"

definition bind :: "'e + 'a \<Rightarrow> ('a \<Rightarrow> 'e + 'b) \<Rightarrow> 'e + 'b" where
  "bind r k = (case r of Inl e \<Rightarrow> Inl e | Inr v \<Rightarrow> k v)"

lemma bind_simps [simp]:
  "bind (Inl e) k = Inl e"
  "bind (Inr v) k = k v"
  by (simp_all add: bind_def)

lemma bind_eq_Inr: "bind r k = Inr y \<longleftrightarrow> (\<exists>v. r = Inr v \<and> k v = Inr y)"
  by (cases r) simp_all

definition of_option :: "'e \<Rightarrow> 'a option \<Rightarrow> 'e + 'a" where
  "of_option e v = (case v of None \<Rightarrow> Inl e | Some x \<Rightarrow> Inr x)"

lemma of_option_simps [simp]:
  "of_option e None = Inl e"
  "of_option e (Some x) = Inr x"
  by (simp_all add: of_option_def)

lemma of_option_eq_Inr [simp]: "of_option e v = Inr x \<longleftrightarrow> v = Some x"
  by (cases v) simp_all

definition require :: "bool \<Rightarrow> 'e \<Rightarrow> 'e + unit" where
  "require c e = (if c then Inr () else Inl e)"

lemma require_eq_Inr [simp]: "require c e = Inr u \<longleftrightarrow> c"
  by (simp add: require_def)

definition is_error :: "'e + 'a \<Rightarrow> bool" where
  "is_error r = (case r of Inl _ \<Rightarrow> True | Inr _ \<Rightarrow> False)"

lemma is_error_simps [simp]: "is_error (Inl e)" "\<not> is_error (Inr v)"
  by (simp_all add: is_error_def)

section \<open>JSON values, identifiers and time\<close>

datatype json =
    JNull
  | JBool bool
  | JInt int
  | JStr string
  | JList "json list"
  | JObj "(string \<times> json) list"

definition jopt :: "string option \<Rightarrow> json" where
  "jopt v = (case v of None \<Rightarrow> JNull | Some s \<Rightarrow> JStr s)"

fun json_get :: "json \<Rightarrow> string \<Rightarrow> json option" where
  "json_get (JObj kvs) k = map_of kvs k"
| "json_get _ k = None"

text \<open>
  \<open>uuids n\<close> is the hexadecimal text of the n-th \<open>uuid4()\<close> call of one transaction.  Times are
  seconds; one transaction reads the clock once (\<open>now\<close>).
\<close>

type_synonym ident = string
type_synonym time = int
type_synonym uuids = "nat \<Rightarrow> string"

definition new_id :: "string \<Rightarrow> string \<Rightarrow> ident" where
  "new_id prefix hex = prefix @ ''_'' @ hex"

lemma new_id_inject [simp]: "new_id p a = new_id p b \<longleftrightarrow> a = b"
  by (simp add: new_id_def)

section \<open>Lists\<close>

text \<open>\<open>dedup\<close> is Python's \<open>list(dict.fromkeys(xs))\<close>: first occurrences, in order.\<close>

fun dedup_onto :: "'a list \<Rightarrow> 'a list \<Rightarrow> 'a list" where
  "dedup_onto seen [] = []"
| "dedup_onto seen (x # xs) =
     (if x \<in> set seen then dedup_onto seen xs else x # dedup_onto (x # seen) xs)"

definition dedup :: "'a list \<Rightarrow> 'a list" where
  "dedup xs = dedup_onto [] xs"

lemma set_dedup_onto: "set (dedup_onto seen xs) = set xs - set seen"
  by (induction seen xs rule: dedup_onto.induct) auto

lemma distinct_dedup_onto: "distinct (dedup_onto seen xs)"
  by (induction seen xs rule: dedup_onto.induct) (auto simp: set_dedup_onto)

lemma set_dedup [simp]: "set (dedup xs) = set xs"
  by (simp add: dedup_def set_dedup_onto)

lemma distinct_dedup [simp]: "distinct (dedup xs)"
  by (simp add: dedup_def distinct_dedup_onto)

lemma dedup_onto_distinct:
  "distinct xs \<Longrightarrow> set xs \<inter> set seen = {} \<Longrightarrow> dedup_onto seen xs = xs"
  by (induction seen xs rule: dedup_onto.induct) auto

lemma dedup_distinct: "distinct xs \<Longrightarrow> dedup xs = xs"
  by (simp add: dedup_def dedup_onto_distinct)

lemma length_dedup_onto: "length (dedup_onto seen xs) \<le> length xs"
  by (induction seen xs rule: dedup_onto.induct) auto

lemma length_dedup: "length (dedup xs) \<le> length xs"
  by (simp add: dedup_def length_dedup_onto)

lemma length_dedup_eq [simp]: "length (dedup xs) = length xs \<longleftrightarrow> distinct xs"
  by (metis card_distinct dedup_distinct distinct_card distinct_dedup set_dedup)

lemma length_dedup_eq' [simp]:
  "length xs = length (dedup xs) \<longleftrightarrow> distinct xs"
  "length (dedup (map f ts)) = length ts \<longleftrightarrow> distinct (map f ts)"
  using length_dedup_eq [of xs] length_dedup_eq [of "map f ts"] by (metis, metis length_map)

lemma find_SomeD: "find P xs = Some x \<Longrightarrow> x \<in> set xs \<and> P x"
  by (auto simp: find_Some_iff)

section \<open>Texts\<close>

text \<open>
  Stored texts are lists of characters with code points below 256; \<open>py_strip\<close> is \<open>str.strip()\<close> on
  them (the white space of Latin-1).
\<close>

definition py_space :: "char \<Rightarrow> bool" where
  "py_space c = (let n = (of_char c :: nat) in
     (9 \<le> n \<and> n \<le> 13) \<or> (28 \<le> n \<and> n \<le> 32) \<or> n = 133 \<or> n = 160)"

definition py_strip :: "string \<Rightarrow> string" where
  "py_strip s = rev (dropWhile py_space (rev (dropWhile py_space s)))"

text \<open>\<open>sep.join(xs)\<close>.\<close>

definition join :: "string \<Rightarrow> string list \<Rightarrow> string" where
  "join sep xs = (case xs of [] \<Rightarrow> [] | y # ys \<Rightarrow> y @ concat (map (\<lambda>z. sep @ z) ys))"

lemma py_strip_empty: "py_strip s = [] \<longleftrightarrow> (\<forall>c\<in>set s. py_space c)"
proof -
  have "py_strip s = [] \<longleftrightarrow> (\<forall>c\<in>set (dropWhile py_space s). py_space c)"
    by (simp add: py_strip_def dropWhile_eq_Nil_conv)
  moreover have "(\<forall>c\<in>set (dropWhile py_space s). py_space c) \<longleftrightarrow> (\<forall>c\<in>set s. py_space c)"
    by (induction s) auto
  ultimately show ?thesis by simp
qed

section \<open>Tables: rows with a key\<close>

text \<open>
  A table is the list of its rows in insertion order.  \<open>get_row\<close> is a query on the primary key,
  \<open>put_row\<close> the flush of a modified entity: the row with the entity's key takes its new value.
\<close>

definition get_row :: "('r \<Rightarrow> 'k) \<Rightarrow> 'k \<Rightarrow> 'r list \<Rightarrow> 'r option" where
  "get_row key k rows = find (\<lambda>r. key r = k) rows"

definition put_row :: "('r \<Rightarrow> 'k) \<Rightarrow> 'r \<Rightarrow> 'r list \<Rightarrow> 'r list" where
  "put_row key r rows = map (\<lambda>x. if key x = key r then r else x) rows"

lemma get_row_Nil [table_simps]: "get_row key k [] = None"
  by (simp add: get_row_def)

lemma get_row_Cons [table_simps]:
  "get_row key k (r # rows) = (if key r = k then Some r else get_row key k rows)"
  by (simp add: get_row_def)

lemma get_row_SomeD: "get_row key k rows = Some r \<Longrightarrow> r \<in> set rows \<and> key r = k"
  by (induction rows) (auto simp: table_simps split: if_splits)

lemma get_row_None_iff: "get_row key k rows = None \<longleftrightarrow> k \<notin> key ` set rows"
  by (induction rows) (auto simp: table_simps)

lemma get_row_append [table_simps]:
  "get_row key k (xs @ ys) =
     (case get_row key k xs of None \<Rightarrow> get_row key k ys | Some r \<Rightarrow> Some r)"
  by (induction xs) (auto simp: table_simps)

lemma distinct_key_eq:
  "distinct (map key rows) \<Longrightarrow> a \<in> set rows \<Longrightarrow> b \<in> set rows \<Longrightarrow> key a = key b \<Longrightarrow> a = b"
  by (auto simp: distinct_map inj_on_def)

lemma get_row_in_set:
  "distinct (map key rows) \<Longrightarrow> r \<in> set rows \<Longrightarrow> get_row key (key r) rows = Some r"
  by (induction rows) (auto simp: table_simps)

lemma get_row_iff:
  "distinct (map key rows) \<Longrightarrow> get_row key k rows = Some r \<longleftrightarrow> r \<in> set rows \<and> key r = k"
  using get_row_in_set get_row_SomeD by fastforce

lemma get_put_row [table_simps]:
  "get_row key k (put_row key r rows) =
     (if k = key r then map_option (\<lambda>_. r) (get_row key k rows) else get_row key k rows)"
  by (induction rows) (auto simp: table_simps put_row_def)

lemma map_key_put_row [simp]: "map key (put_row key r rows) = map key rows"
  by (simp add: put_row_def)

lemma put_row_absent: "key r \<notin> key ` set rows \<Longrightarrow> put_row key r rows = rows"
  by (induction rows) (auto simp: put_row_def)

lemma set_put_row:
  assumes "distinct (map key rows)" and "get_row key (key r) rows = Some old"
  shows "set (put_row key r rows) = insert r (set rows - {old})"
  using assms
proof (induction rows)
  case (Cons x xs)
  have notin: "key ` set xs \<subseteq> - {key x}" using Cons.prems(1) by auto
  show ?case
  proof (cases "key x = key r")
    case True
    with notin have "key r \<notin> key ` set xs" by auto
    then have "put_row key r xs = xs" by (rule put_row_absent)
    moreover have "old = x" using True Cons.prems by (simp add: table_simps)
    moreover have "x \<notin> set xs" using Cons.prems(1) by auto
    ultimately show ?thesis using True by (auto simp: put_row_def)
  next
    case False
    then have IH: "set (put_row key r xs) = insert r (set xs - {old})"
      using Cons by (auto simp: table_simps)
    have old: "old \<in> set xs" using Cons.prems(2) False get_row_SomeD
      by (fastforce simp: table_simps)
    then have "old \<noteq> x" using notin by auto
    with False IH show ?thesis by (auto simp: put_row_def)
  qed
qed (simp add: table_simps)


lemma in_put_rowD: "x \<in> set (put_row key r rows) \<Longrightarrow> x = r \<or> x \<in> set rows \<and> key x \<noteq> key r"
  by (auto simp: put_row_def)

lemma in_put_row_other: "x \<in> set rows \<Longrightarrow> key x \<noteq> key r \<Longrightarrow> x \<in> set (put_row key r rows)"
  by (force simp: put_row_def)

lemma in_put_row_same: "key r \<in> key ` set rows \<Longrightarrow> r \<in> set (put_row key r rows)"
  by (force simp: put_row_def)

section \<open>Interface of a keyed repository\<close>

text \<open>
  What the use cases rely on when they fetch an entity under a row lock, change it and let the
  unit of work flush it: the fetched entity carries the key asked for; after the flush the key
  yields the new entity and every other key what it yielded before.
\<close>

locale keyed_repository =
  fixes key :: "'r \<Rightarrow> 'k"
    and fetch :: "'k \<Rightarrow> 's \<Rightarrow> 'r option"
    and save :: "'r \<Rightarrow> 's \<Rightarrow> 's"
  assumes fetch_key: "fetch k s = Some r \<Longrightarrow> key r = k"
    and fetch_save: "fetch k (save r s) =
      (if k = key r then map_option (\<lambda>_. r) (fetch k s) else fetch k s)"
begin

lemma fetch_save_same: "fetch (key r) s \<noteq> None \<Longrightarrow> fetch (key r) (save r s) = Some r"
  by (auto simp: fetch_save)

lemma fetch_save_other: "k \<noteq> key r \<Longrightarrow> fetch k (save r s) = fetch k s"
  by (simp add: fetch_save)

lemma fetched_then_saved:
  "fetch k s = Some old \<Longrightarrow> key r = k \<Longrightarrow> fetch k (save r s) = Some r"
  by (auto simp: fetch_save)

lemma save_keeps_domain: "fetch k (save r s) = None \<longleftrightarrow> fetch k s = None"
  by (auto simp: fetch_save)

lemma save_commute:
  assumes "key a \<noteq> key b"
  shows "fetch k (save a (save b s)) = fetch k (save b (save a s))"
  using assms by (auto simp: fetch_save)

end

section \<open>Queries and inserts\<close>

text \<open>\<open>latest_by\<close> is the first row of a query with \<open>ORDER BY c DESC\<close>.\<close>

fun latest_by :: "('r \<Rightarrow> int) \<Rightarrow> 'r list \<Rightarrow> 'r option" where
  "latest_by c [] = None"
| "latest_by c (r # rs) =
     (case latest_by c rs of
        None \<Rightarrow> Some r
      | Some q \<Rightarrow> if c q \<le> c r then Some r else Some q)"

lemma latest_by_None [simp]: "latest_by c rs = None \<longleftrightarrow> rs = []"
  by (cases rs) (auto split: option.splits)

lemma latest_by_SomeD: "latest_by c rs = Some r \<Longrightarrow> r \<in> set rs \<and> (\<forall>q \<in> set rs. c q \<le> c r)"
proof (induction rs arbitrary: r)
  case (Cons a rs)
  show ?case
  proof (cases "latest_by c rs")
    case None
    with Cons.prems show ?thesis by simp
  next
    case (Some q)
    with Cons.IH have "q \<in> set rs" "\<forall>q' \<in> set rs. c q' \<le> c q" by auto
    with Some Cons.prems show ?thesis by (auto split: if_splits)
  qed
qed simp

lemma latest_by_eqI:
  assumes "r \<in> set rs" and "\<And>q. q \<in> set rs \<Longrightarrow> q \<noteq> r \<Longrightarrow> c q < c r"
  shows "latest_by c rs = Some r"
proof -
  from assms(1) obtain q where q: "latest_by c rs = Some q" by (cases "latest_by c rs") auto
  with latest_by_SomeD [OF this] assms show ?thesis by force
qed

text \<open>\<open>add_row\<close> inserts a row whose columns \<open>u\<close> a unique constraint of that name covers.\<close>

definition add_row :: "(string \<times> ('r \<Rightarrow> 'r \<Rightarrow> bool)) list \<Rightarrow> 'r \<Rightarrow> 'r list \<Rightarrow> 'r list result" where
  "add_row constraints r rows =
     (case filter (\<lambda>(name, clash). list_ex (clash r) rows) constraints of
        (name, clash) # _ \<Rightarrow> Inl (IntegrityError name)
      | [] \<Rightarrow> Inr (rows @ [r]))"

lemma add_row_Inr:
  "add_row cs r rows = Inr rows' \<longleftrightarrow>
     rows' = rows @ [r] \<and> (\<forall>(n, clash) \<in> set cs. \<forall>x \<in> set rows. \<not> clash r x)"
proof -
  have "filter (\<lambda>(name, clash). list_ex (clash r) rows) cs = [] \<longleftrightarrow>
      (\<forall>(n, clash) \<in> set cs. \<forall>x \<in> set rows. \<not> clash r x)"
    by (auto simp: filter_empty_conv list_ex_iff)
  then show ?thesis by (auto simp: add_row_def split: list.splits)
qed

end
