(* ===== verification/Store.thy ===== *)
theory Store
  imports Prelude
begin

text \<open>
  The relational state of the orchestration half of the program: one record per ORM entity with
  the entity's columns, the enumerations of their status columns, the database as the record of
  the tables, and the repositories' queries and writes over it.

  A unit of work is a function from the database to an error or a result and the database after
  it: an exception, or leaving the \<open>with\<close> block without \<open>commit\<close>, gives back the database it
  started from (\<open>SQLAlchemyUnitOfWork.__exit__\<close> rolls back).  The row locks of \<open>FOR UPDATE\<close> make
  the transactions of one plan take effect one after the other, so a transaction is one atomic step.
\<close>

section \<open>Status columns\<close>

datatype plan_status =
    PLANNING | READY | PLAN_RUNNING | PLAN_COMPLETED | UNSUPPORTED | NEEDS_CLARIFICATION
  | RETRY_PENDING | REPLAN_PENDING | PLAN_FAILED | PLAN_CANCELLED | PLAN_SUPERSEDED

datatype task_status =
    DRAFT | PENDING | RUNNING | RETRY_WAIT | SUCCEEDED | BLOCKED | FAILED | CANCELLED | SUPERSEDED

datatype capability_code = PROCESS_DOCUMENT | BUILD_DOCUMENT_CHUNKS | INDEX_DOCUMENT_VECTORS

datatype execution_status =
    EXEC_RUNNING | COMPENSATION_REQUIRED | COMPENSATION_LOCKED | COMPENSATED
  | EXEC_SUCCEEDED | EXEC_FAILED

datatype lock_reason = RETRY_EXHAUSTED | SYSTEM_FAILURE | UNKNOWN

datatype outbox_status = EV_PENDING | EV_PUBLISHED | EV_DEAD_LETTER

datatype event_type = PLAN_WAKEUP | REPLAN_REQUESTED | AGGREGATION_REQUESTED

datatype clarification_status = CL_OPEN | CL_ANSWERED | CL_RESOLVED | CL_EXPIRED

datatype turn_status =
    ROUTING | CONTEXT_READY | PROCESSING | TURN_COMPLETED | TURN_FAILED | TURN_NEEDS_CLARIFICATION

fun plan_status_value :: "plan_status \<Rightarrow> string" where
  "plan_status_value PLANNING = ''planning''"
| "plan_status_value READY = ''ready''"
| "plan_status_value PLAN_RUNNING = ''running''"
| "plan_status_value PLAN_COMPLETED = ''completed''"
| "plan_status_value UNSUPPORTED = ''unsupported''"
| "plan_status_value NEEDS_CLARIFICATION = ''needs_clarification''"
| "plan_status_value RETRY_PENDING = ''retry_pending''"
| "plan_status_value REPLAN_PENDING = ''replan_pending''"
| "plan_status_value PLAN_FAILED = ''failed''"
| "plan_status_value PLAN_CANCELLED = ''cancelled''"
| "plan_status_value PLAN_SUPERSEDED = ''superseded''"

fun turn_status_value :: "turn_status \<Rightarrow> string" where
  "turn_status_value ROUTING = ''routing''"
| "turn_status_value CONTEXT_READY = ''context_ready''"
| "turn_status_value PROCESSING = ''processing''"
| "turn_status_value TURN_COMPLETED = ''completed''"
| "turn_status_value TURN_FAILED = ''failed''"
| "turn_status_value TURN_NEEDS_CLARIFICATION = ''needs_clarification''"

fun capability_value :: "capability_code \<Rightarrow> string" where
  "capability_value PROCESS_DOCUMENT = ''process_document''"
| "capability_value BUILD_DOCUMENT_CHUNKS = ''build_document_chunks''"
| "capability_value INDEX_DOCUMENT_VECTORS = ''index_document_vectors''"

fun event_type_value :: "event_type \<Rightarrow> string" where
  "event_type_value PLAN_WAKEUP = ''runtime.plan_wakeup''"
| "event_type_value REPLAN_REQUESTED = ''planning.replan_requested''"
| "event_type_value AGGREGATION_REQUESTED = ''aggregation.requested''"

section \<open>Entities\<close>

record plan =
  p_id :: ident
  p_workflow_id :: ident
  p_turn_id :: ident
  p_parent_plan_id :: "ident option"
  p_current_task_id :: "ident option"
  p_status :: plan_status
  p_revision :: int
  p_failure_code :: "string option"
  p_failure_reason :: "string option"
  p_started_at :: "time option"
  p_completed_at :: "time option"
  p_created_at :: time
  p_updated_at :: time

record task =
  t_id :: ident
  t_plan_id :: ident
  t_turn_id :: ident
  t_ref :: string
  t_capability_code :: string
  t_input_json :: json
  t_sequence :: int
  t_status :: task_status
  t_attempt_count :: int
  t_max_attempts :: int
  t_output_json :: "json option"
  t_last_error_code :: "string option"
  t_last_error_message :: "string option"
  t_started_at :: "time option"
  t_completed_at :: "time option"

record dependency =
  d_id :: ident
  d_plan_id :: ident
  d_task_id :: ident
  d_depends_on :: ident

record execution =
  x_id :: ident
  x_task_id :: ident
  x_plan_id :: ident
  x_workflow_id :: ident
  x_attempt :: int
  x_status :: execution_status
  x_executor_code :: string
  x_input_snapshot :: json
  x_output_json :: "json option"
  x_resource_refs :: "string list"
  x_error_code :: "string option"
  x_error_message :: "string option"
  x_retryable :: "bool option"
  x_blocked :: bool
  x_agent_run_id :: "ident option"
  x_operation_id :: ident
  x_compensation_attempt_count :: int
  x_compensation_last_error :: "string option"
  x_compensation_last_attempt_at :: "time option"
  x_compensation_locked_at :: "time option"
  x_compensation_lock_reason :: "lock_reason option"
  x_started_at :: time
  x_completed_at :: "time option"

record outbox_event =
  e_id :: ident
  e_type :: event_type
  e_aggregate_type :: string
  e_aggregate_id :: ident
  e_payload :: json
  e_status :: outbox_status
  e_attempts :: int
  e_available_at :: time
  e_published_at :: "time option"
  e_created_at :: time

record inbox_event =
  i_id :: ident
  i_consumer_name :: string
  i_event_id :: ident
  i_processed_at :: time

record clarification =
  c_id :: ident
  c_conversation_id :: ident
  c_source_turn_id :: ident
  c_source_plan_id :: ident
  c_kind :: string
  c_reason :: string
  c_question :: "string option"
  c_required_information :: "string list"
  c_known_resource_refs :: "string list"
  c_status :: clarification_status
  c_answer_turn_id :: "ident option"
  c_created_at :: time
  c_resolved_at :: "time option"

record turn =
  tn_id :: ident
  tn_conversation_id :: ident
  tn_user_input :: string
  tn_clarification_input :: "string option"
  tn_assistant_content :: "string option"
  tn_assistant_compact :: "string option"
  tn_task_ids :: "ident list"
  tn_task_result_summary :: "string option"
  tn_status :: turn_status
  tn_created_at :: time
  tn_completed_at :: "time option"

record db =
  plans :: "plan list"
  tasks :: "task list"
  task_dependencies :: "dependency list"
  task_executions :: "execution list"
  outbox :: "outbox_event list"
  inbox :: "inbox_event list"
  clarifications :: "clarification list"
  turns :: "turn list"

section \<open>PlanRepository\<close>

definition plan_get_by_id :: "ident \<Rightarrow> db \<Rightarrow> plan option" where
  "plan_get_by_id pid db = get_row p_id pid (plans db)"

definition plan_save :: "plan \<Rightarrow> db \<Rightarrow> db" where
  "plan_save p db = db\<lparr>plans := put_row p_id p (plans db)\<rparr>"

definition plan_create :: "plan \<Rightarrow> db \<Rightarrow> db result" where
  "plan_create p db = bind
     (add_row
       [(''PRIMARY'', \<lambda>a b. p_id a = p_id b),
        (''uq_plans_turn_revision'',
          \<lambda>a b. p_turn_id a = p_turn_id b \<and> p_revision a = p_revision b),
        (''uq_plans_workflow_revision'',
          \<lambda>a b. p_workflow_id a = p_workflow_id b \<and> p_revision a = p_revision b)]
       p (plans db))
     (\<lambda>rows. Inr (db\<lparr>plans := rows\<rparr>))"

definition plan_get_by_turn_and_revision :: "ident \<Rightarrow> int \<Rightarrow> db \<Rightarrow> plan option" where
  "plan_get_by_turn_and_revision tid rvn db =
     find (\<lambda>p. p_turn_id p = tid \<and> p_revision p = rvn) (plans db)"

definition plan_get_by_workflow_and_revision :: "ident \<Rightarrow> int \<Rightarrow> db \<Rightarrow> plan option" where
  "plan_get_by_workflow_and_revision wid rvn db =
     find (\<lambda>p. p_workflow_id p = wid \<and> p_revision p = rvn) (plans db)"

definition plan_get_latest_by_turn :: "ident \<Rightarrow> db \<Rightarrow> plan option" where
  "plan_get_latest_by_turn tid db = latest_by p_revision (filter (\<lambda>p. p_turn_id p = tid) (plans db))"

definition plan_set_status ::
  "plan \<Rightarrow> plan_status \<Rightarrow> string option \<Rightarrow> string option \<Rightarrow> plan" where
  "plan_set_status p status failure_reason failure_code =
     p\<lparr>p_status := status, p_failure_code := failure_code, p_failure_reason := failure_reason\<rparr>"

definition plan_set_current_task :: "plan \<Rightarrow> ident option \<Rightarrow> plan" where
  "plan_set_current_task p tid = p\<lparr>p_current_task_id := tid\<rparr>"

interpretation plan_repo: keyed_repository p_id plan_get_by_id plan_save
  by unfold_locales
     (auto simp: plan_get_by_id_def plan_save_def table_simps dest: get_row_SomeD)

section \<open>TaskRepository and TaskDependencyRepository\<close>

definition task_get_by_id :: "ident \<Rightarrow> db \<Rightarrow> task option" where
  "task_get_by_id tid db = get_row t_id tid (tasks db)"

definition task_save :: "task \<Rightarrow> db \<Rightarrow> db" where
  "task_save t db = db\<lparr>tasks := put_row t_id t (tasks db)\<rparr>"

definition task_create :: "task \<Rightarrow> db \<Rightarrow> db result" where
  "task_create t db = bind
     (add_row
       [(''PRIMARY'', \<lambda>a b. t_id a = t_id b),
        (''uq_tasks_plan_sequence'',
          \<lambda>a b. t_plan_id a = t_plan_id b \<and> t_sequence a = t_sequence b),
        (''uq_tasks_plan_task_ref'',
          \<lambda>a b. t_plan_id a = t_plan_id b \<and> t_ref a = t_ref b)]
       t (tasks db))
     (\<lambda>rows. Inr (db\<lparr>tasks := rows\<rparr>))"

definition by_sequence :: "task list \<Rightarrow> task list" where
  "by_sequence ts = sort_key (\<lambda>t. (t_sequence t, t_id t)) ts"

definition task_list_by_plan_id :: "ident \<Rightarrow> db \<Rightarrow> task list" where
  "task_list_by_plan_id pid db = by_sequence (filter (\<lambda>t. t_plan_id t = pid) (tasks db))"

definition task_list_by_plan_id_and_status :: "ident \<Rightarrow> task_status \<Rightarrow> db \<Rightarrow> task list" where
  "task_list_by_plan_id_and_status pid st db =
     by_sequence (filter (\<lambda>t. t_plan_id t = pid \<and> t_status t = st) (tasks db))"

definition predecessor_ids :: "ident \<Rightarrow> db \<Rightarrow> ident list" where
  "predecessor_ids tid db =
     map d_depends_on (filter (\<lambda>d. d_task_id d = tid) (task_dependencies db))"

definition dependencies_met :: "task_status \<Rightarrow> db \<Rightarrow> task \<Rightarrow> bool" where
  "dependencies_met succeeded db t =
     (let ps = predecessor_ids (t_id t) db in
      ps = [] \<or>
      length (filter (\<lambda>u. t_id u \<in> set ps \<and> t_status u = succeeded) (tasks db)) = length ps)"

definition task_get_next_runnable ::
  "ident \<Rightarrow> task_status \<Rightarrow> task_status \<Rightarrow> db \<Rightarrow> task option" where
  "task_get_next_runnable pid pending succeeded db =
     find (dependencies_met succeeded db) (task_list_by_plan_id_and_status pid pending db)"

definition task_count_by_plan_and_status :: "ident \<Rightarrow> task_status \<Rightarrow> db \<Rightarrow> nat" where
  "task_count_by_plan_and_status pid st db =
     length (filter (\<lambda>t. t_plan_id t = pid \<and> t_status t = st) (tasks db))"

fun task_set_status :: "task list \<Rightarrow> task_status \<Rightarrow> db \<Rightarrow> db" where
  "task_set_status [] st db = db"
| "task_set_status (t # ts) st db = task_set_status ts st (task_save (t\<lparr>t_status := st\<rparr>) db)"

definition task_set_unfinished_status :: "ident \<Rightarrow> task_status \<Rightarrow> db \<Rightarrow> db" where
  "task_set_unfinished_status pid st db =
     db\<lparr>tasks := map (\<lambda>t. if t_plan_id t = pid \<and>
                         t_status t \<notin> {SUCCEEDED, FAILED, CANCELLED, SUPERSEDED}
                       then t\<lparr>t_status := st\<rparr> else t) (tasks db)\<rparr>"

definition dependency_add :: "dependency \<Rightarrow> db \<Rightarrow> db result" where
  "dependency_add d db =
     (if d_task_id d = d_depends_on d then Inl (IntegrityError ''ck_task_dependencies_no_self'')
      else bind
        (add_row
          [(''PRIMARY'', \<lambda>a b. d_id a = d_id b),
           (''uq_task_dependencies_edge'',
             \<lambda>a b. d_task_id a = d_task_id b \<and> d_depends_on a = d_depends_on b)]
          d (task_dependencies db))
        (\<lambda>rows. Inr (db\<lparr>task_dependencies := rows\<rparr>)))"

fun dependency_add_all :: "dependency list \<Rightarrow> db \<Rightarrow> db result" where
  "dependency_add_all [] db = Inr db"
| "dependency_add_all (d # ds) db = bind (dependency_add d db) (dependency_add_all ds)"

definition dependency_list_by_plan_id :: "ident \<Rightarrow> db \<Rightarrow> dependency list" where
  "dependency_list_by_plan_id pid db =
     filter (\<lambda>d. d_plan_id d = pid) (task_dependencies db)"

interpretation task_repo: keyed_repository t_id task_get_by_id task_save
  by unfold_locales
     (auto simp: task_get_by_id_def task_save_def table_simps dest: get_row_SomeD)

section \<open>TaskExecutionRepository\<close>

definition execution_get_by_id :: "ident \<Rightarrow> db \<Rightarrow> execution option" where
  "execution_get_by_id xid db = get_row x_id xid (task_executions db)"

definition execution_save :: "execution \<Rightarrow> db \<Rightarrow> db" where
  "execution_save x db = db\<lparr>task_executions := put_row x_id x (task_executions db)\<rparr>"

definition execution_add :: "execution \<Rightarrow> db \<Rightarrow> db result" where
  "execution_add x db = bind
     (add_row
       [(''PRIMARY'', \<lambda>a b. x_id a = x_id b),
        (''uq_task_executions_task_attempt'',
          \<lambda>a b. x_task_id a = x_task_id b \<and> x_attempt a = x_attempt b)]
       x (task_executions db))
     (\<lambda>rows. Inr (db\<lparr>task_executions := rows\<rparr>))"

definition execution_get_latest_by_task :: "ident \<Rightarrow> db \<Rightarrow> execution option" where
  "execution_get_latest_by_task tid db =
     latest_by x_attempt (filter (\<lambda>x. x_task_id x = tid) (task_executions db))"

definition execution_get_latest_running_by_task :: "ident \<Rightarrow> db \<Rightarrow> execution option" where
  "execution_get_latest_running_by_task tid db =
     latest_by x_attempt
       (filter (\<lambda>x. x_task_id x = tid \<and> x_status x = EXEC_RUNNING) (task_executions db))"

definition execution_list_by_plan_id :: "ident \<Rightarrow> db \<Rightarrow> execution list" where
  "execution_list_by_plan_id pid db =
     sort_key x_started_at (filter (\<lambda>x. x_plan_id x = pid) (task_executions db))"

interpretation execution_repo: keyed_repository x_id execution_get_by_id execution_save
  by unfold_locales
     (auto simp: execution_get_by_id_def execution_save_def table_simps dest: get_row_SomeD)

section \<open>OutboxRepository and InboxRepository\<close>

definition outbox_add :: "outbox_event \<Rightarrow> db \<Rightarrow> db result" where
  "outbox_add e db = bind
     (add_row [(''PRIMARY'', \<lambda>a b. e_id a = e_id b)] e (outbox db))
     (\<lambda>rows. Inr (db\<lparr>outbox := rows\<rparr>))"

definition outbox_get_by_id :: "ident \<Rightarrow> db \<Rightarrow> outbox_event option" where
  "outbox_get_by_id eid db = get_row e_id eid (outbox db)"

definition outbox_save :: "outbox_event \<Rightarrow> db \<Rightarrow> db" where
  "outbox_save e db = db\<lparr>outbox := put_row e_id e (outbox db)\<rparr>"

text \<open>\<open>SKIP LOCKED\<close> may pass over rows that another publisher holds: \<open>locked\<close> is their ids.\<close>

definition outbox_list_available ::
  "outbox_status \<Rightarrow> time \<Rightarrow> nat \<Rightarrow> ident list \<Rightarrow> db \<Rightarrow> outbox_event list" where
  "outbox_list_available st now limit locked db =
     take limit (sort_key (\<lambda>e. (e_created_at e, e_id e))
       (filter (\<lambda>e. e_status e = st \<and> e_available_at e \<le> now \<and> e_id e \<notin> set locked)
         (outbox db)))"

definition inbox_exists :: "string \<Rightarrow> ident \<Rightarrow> db \<Rightarrow> bool" where
  "inbox_exists consumer eid db =
     list_ex (\<lambda>i. i_consumer_name i = consumer \<and> i_event_id i = eid) (inbox db)"

definition inbox_add :: "inbox_event \<Rightarrow> db \<Rightarrow> db result" where
  "inbox_add i db = bind
     (add_row
       [(''PRIMARY'', \<lambda>a b. i_id a = i_id b),
        (''uq_inbox_consumer_event'',
          \<lambda>a b. i_consumer_name a = i_consumer_name b \<and> i_event_id a = i_event_id b)]
       i (inbox db))
     (\<lambda>rows. Inr (db\<lparr>inbox := rows\<rparr>))"

interpretation outbox_repo: keyed_repository e_id outbox_get_by_id outbox_save
  by unfold_locales
     (auto simp: outbox_get_by_id_def outbox_save_def table_simps dest: get_row_SomeD)

section \<open>ClarificationRepository and ConversationTurnRepository\<close>

definition clarification_add :: "clarification \<Rightarrow> db \<Rightarrow> db result" where
  "clarification_add c db = bind
     (add_row
       [(''PRIMARY'', \<lambda>a b. c_id a = c_id b),
        (''uq_clarification_requests_source_plan'',
          \<lambda>a b. c_source_plan_id a = c_source_plan_id b),
        (''uq_clarification_requests_source_turn'',
          \<lambda>a b. c_source_turn_id a = c_source_turn_id b)]
       c (clarifications db))
     (\<lambda>rows. Inr (db\<lparr>clarifications := rows\<rparr>))"

definition clarification_get_by_id :: "ident \<Rightarrow> db \<Rightarrow> clarification option" where
  "clarification_get_by_id cid db = get_row c_id cid (clarifications db)"

definition clarification_save :: "clarification \<Rightarrow> db \<Rightarrow> db" where
  "clarification_save c db = db\<lparr>clarifications := put_row c_id c (clarifications db)\<rparr>"

definition clarification_get_by_source_turn_id :: "ident \<Rightarrow> db \<Rightarrow> clarification option" where
  "clarification_get_by_source_turn_id tid db =
     get_row c_source_turn_id tid (clarifications db)"

definition clarification_get_by_plan_id :: "ident \<Rightarrow> db \<Rightarrow> clarification option" where
  "clarification_get_by_plan_id pid db = get_row c_source_plan_id pid (clarifications db)"

definition clarification_get_open_for_conversation :: "ident \<Rightarrow> db \<Rightarrow> clarification option" where
  "clarification_get_open_for_conversation cid db =
     latest_by c_created_at
       (filter (\<lambda>c. c_conversation_id c = cid \<and> c_status c = CL_OPEN) (clarifications db))"

definition turn_get_by_id :: "ident \<Rightarrow> db \<Rightarrow> turn option" where
  "turn_get_by_id tid db = get_row tn_id tid (turns db)"

definition turn_save :: "turn \<Rightarrow> db \<Rightarrow> db" where
  "turn_save t db = db\<lparr>turns := put_row tn_id t (turns db)\<rparr>"

definition turn_set_task_ids :: "turn \<Rightarrow> ident list \<Rightarrow> turn" where
  "turn_set_task_ids t ids = t\<lparr>tn_task_ids := ids\<rparr>"

definition turn_set_status :: "turn \<Rightarrow> turn_status \<Rightarrow> turn" where
  "turn_set_status t st = t\<lparr>tn_status := st\<rparr>"

interpretation clarification_repo:
  keyed_repository c_id clarification_get_by_id clarification_save
  by unfold_locales
     (auto simp: clarification_get_by_id_def clarification_save_def table_simps
       dest: get_row_SomeD)

interpretation turn_repo: keyed_repository tn_id turn_get_by_id turn_save
  by unfold_locales
     (auto simp: turn_get_by_id_def turn_save_def table_simps dest: get_row_SomeD)

section \<open>Effects of the repository operations\<close>

lemma plan_save_tables [store_simps]:
  "plans (plan_save p db) = put_row p_id p (plans db)"
  "tasks (plan_save p db) = tasks db"
  "task_dependencies (plan_save p db) = task_dependencies db"
  "task_executions (plan_save p db) = task_executions db"
  "outbox (plan_save p db) = outbox db" "inbox (plan_save p db) = inbox db"
  "clarifications (plan_save p db) = clarifications db" "turns (plan_save p db) = turns db"
  by (simp_all add: plan_save_def)

lemma task_save_tables [store_simps]:
  "plans (task_save t db) = plans db"
  "tasks (task_save t db) = put_row t_id t (tasks db)"
  "task_dependencies (task_save t db) = task_dependencies db"
  "task_executions (task_save t db) = task_executions db"
  "outbox (task_save t db) = outbox db" "inbox (task_save t db) = inbox db"
  "clarifications (task_save t db) = clarifications db" "turns (task_save t db) = turns db"
  by (simp_all add: task_save_def)

lemma execution_save_tables [store_simps]:
  "plans (execution_save x db) = plans db"
  "tasks (execution_save x db) = tasks db"
  "task_dependencies (execution_save x db) = task_dependencies db"
  "task_executions (execution_save x db) = put_row x_id x (task_executions db)"
  "outbox (execution_save x db) = outbox db" "inbox (execution_save x db) = inbox db"
  "clarifications (execution_save x db) = clarifications db"
  "turns (execution_save x db) = turns db"
  by (simp_all add: execution_save_def)

lemma turn_save_tables [store_simps]:
  "plans (turn_save t db) = plans db" "tasks (turn_save t db) = tasks db"
  "task_dependencies (turn_save t db) = task_dependencies db"
  "task_executions (turn_save t db) = task_executions db"
  "outbox (turn_save t db) = outbox db" "inbox (turn_save t db) = inbox db"
  "clarifications (turn_save t db) = clarifications db"
  "turns (turn_save t db) = put_row tn_id t (turns db)"
  by (simp_all add: turn_save_def)

lemma clarification_save_tables [store_simps]:
  "plans (clarification_save c db) = plans db" "tasks (clarification_save c db) = tasks db"
  "task_dependencies (clarification_save c db) = task_dependencies db"
  "task_executions (clarification_save c db) = task_executions db"
  "outbox (clarification_save c db) = outbox db" "inbox (clarification_save c db) = inbox db"
  "clarifications (clarification_save c db) = put_row c_id c (clarifications db)"
  "turns (clarification_save c db) = turns db"
  by (simp_all add: clarification_save_def)

lemma execution_add_Inr [store_simps]:
  "execution_add x db = Inr db' \<longleftrightarrow>
     db' = db\<lparr>task_executions := task_executions db @ [x]\<rparr> \<and>
     x_id x \<notin> x_id ` set (task_executions db) \<and>
     (\<forall>y\<in>set (task_executions db). x_task_id y = x_task_id x \<longrightarrow> x_attempt y \<noteq> x_attempt x)"
  by (auto simp: execution_add_def bind_eq_Inr add_row_Inr image_iff)

lemma outbox_add_Inr [store_simps]:
  "outbox_add e db = Inr db' \<longleftrightarrow>
     db' = db\<lparr>outbox := outbox db @ [e]\<rparr> \<and> e_id e \<notin> e_id ` set (outbox db)"
  by (auto simp: outbox_add_def bind_eq_Inr add_row_Inr image_iff)

lemma inbox_add_Inr [store_simps]:
  "inbox_add i db = Inr db' \<longleftrightarrow>
     db' = db\<lparr>inbox := inbox db @ [i]\<rparr> \<and> i_id i \<notin> i_id ` set (inbox db) \<and>
     \<not> inbox_exists (i_consumer_name i) (i_event_id i) db"
  by (auto simp: inbox_add_def bind_eq_Inr add_row_Inr image_iff inbox_exists_def list_ex_iff)

lemma plan_create_Inr [store_simps]:
  "plan_create p db = Inr db' \<longleftrightarrow>
     db' = db\<lparr>plans := plans db @ [p]\<rparr> \<and> p_id p \<notin> p_id ` set (plans db) \<and>
     (\<forall>q\<in>set (plans db). p_revision q = p_revision p \<longrightarrow>
        p_turn_id q \<noteq> p_turn_id p \<and> p_workflow_id q \<noteq> p_workflow_id p)"
  by (auto simp: plan_create_def bind_eq_Inr add_row_Inr image_iff)

lemma task_create_Inr [store_simps]:
  "task_create t db = Inr db' \<longleftrightarrow>
     db' = db\<lparr>tasks := tasks db @ [t]\<rparr> \<and> t_id t \<notin> t_id ` set (tasks db) \<and>
     (\<forall>u\<in>set (tasks db). t_plan_id u = t_plan_id t \<longrightarrow>
        t_sequence u \<noteq> t_sequence t \<and> t_ref u \<noteq> t_ref t)"
  by (auto simp: task_create_def bind_eq_Inr add_row_Inr image_iff)

end
