(* ===== verification/Task_Runtime.thy ===== *)
theory Task_Runtime
  imports Store
begin

text \<open>
  The task runtime (modules/task_runtime): capability registry, the claim transaction with the
  recovery of stale executions, the completion, failure and compensation transactions, and
  \<open>execute_next\<close>, which runs them around the executor and the compensator.

  Executors and compensators run outside the transactions; what they answer is a parameter
  (\<open>exec_outcome\<close>, and an exception text or nothing for the compensator).  Every operation takes
  the service's configuration \<open>self\<close>, the clock reading \<open>now\<close> of its transaction and the
  \<open>uuid4\<close> texts \<open>u\<close> it draws, in the order of the calls in the code.
\<close>

section \<open>Capability registry (ports.py, registry.py, schemas.py)\<close>

record capability =
  cap_code :: string
  cap_input_model :: "json \<Rightarrow> json result"
  cap_output_model :: "json \<Rightarrow> json result"
  cap_executor_code :: string
  cap_compensator_code :: "string option"
  cap_max_attempts :: int
  cap_timeout_seconds :: int
  cap_side_effect :: bool

definition capability_registry :: "capability list \<Rightarrow> capability list result" where
  "capability_registry defs =
     (if length (dedup (map cap_code defs)) \<noteq> length defs
      then Inl (ValueError ''CapabilityDefinition capability_code must not repeat'')
      else Inr defs)"

definition require_capability :: "capability list \<Rightarrow> string \<Rightarrow> capability result" where
  "require_capability defs code =
     of_option (ValueError (''unknown Capability: '' @ code)) (get_row cap_code code defs)"

definition require_code :: "string \<Rightarrow> string list \<Rightarrow> string \<Rightarrow> unit result" where
  "require_code kind codes code =
     require (code \<in> set codes) (ValueError (''unknown '' @ kind @ '': '' @ code))"

text \<open>
  The payload models hold exactly one positive integer \<open>document_id\<close> and forbid other keys; the
  output models need their declared fields, with an integer or a string each, drop undeclared
  keys and dump in field order.  (The coercions of numeric texts and booleans that the validation
  library offers are left out: task inputs are written by the planner as integers.)
\<close>

fun document_payload :: "json \<Rightarrow> json result" where
  "document_payload (JObj [(k, JInt d)]) =
     (if k = ''document_id'' \<and> 0 < d then Inr (JObj [(k, JInt d)])
      else Inl (ValidationError ''document_id''))"
| "document_payload _ = Inl (ValidationError ''document_id'')"

datatype field_type = IntField | StrField

fun field_ok :: "field_type \<Rightarrow> json \<Rightarrow> bool" where
  "field_ok IntField (JInt _) = True"
| "field_ok StrField (JStr _) = True"
| "field_ok _ _ = False"

fun output_fields :: "(string \<times> field_type) list \<Rightarrow> json \<Rightarrow> (string \<times> json) list result" where
  "output_fields [] j = Inr []"
| "output_fields ((k, ty) # fs) j =
     (case json_get j k of
        None \<Rightarrow> Inl (ValidationError k)
      | Some v \<Rightarrow> if field_ok ty v
          then bind (output_fields fs j) (\<lambda>kvs. Inr ((k, v) # kvs))
          else Inl (ValidationError k))"

definition output_model :: "(string \<times> field_type) list \<Rightarrow> json \<Rightarrow> json result" where
  "output_model fs j = bind (output_fields fs j) (\<lambda>kvs. Inr (JObj kvs))"

definition process_document_output :: "json \<Rightarrow> json result" where
  "process_document_output = output_model
     [(''document_id'', IntField), (''status'', StrField), (''cleaned_uri'', StrField)]"

definition build_document_chunks_output :: "json \<Rightarrow> json result" where
  "build_document_chunks_output = output_model
     [(''document_id'', IntField), (''status'', StrField),
      (''parent_count'', IntField), (''child_count'', IntField)]"

definition index_document_vectors_output :: "json \<Rightarrow> json result" where
  "index_document_vectors_output = output_model
     [(''document_id'', IntField), (''status'', StrField),
      (''indexed_chunks'', IntField), (''failed_chunks'', IntField)]"

definition builtin_capabilities :: "capability list" where
  "builtin_capabilities =
    [\<lparr>cap_code = ''process_document'',
      cap_input_model = document_payload, cap_output_model = process_document_output,
      cap_executor_code = ''document.process'',
      cap_compensator_code = Some ''document.process'',
      cap_max_attempts = 3, cap_timeout_seconds = 300, cap_side_effect = True\<rparr>,
     \<lparr>cap_code = ''build_document_chunks'',
      cap_input_model = document_payload, cap_output_model = build_document_chunks_output,
      cap_executor_code = ''document.build_chunks'',
      cap_compensator_code = Some ''document.build_chunks'',
      cap_max_attempts = 3, cap_timeout_seconds = 300, cap_side_effect = True\<rparr>,
     \<lparr>cap_code = ''index_document_vectors'',
      cap_input_model = document_payload, cap_output_model = index_document_vectors_output,
      cap_executor_code = ''document.index_vectors'',
      cap_compensator_code = Some ''document.index_vectors'',
      cap_max_attempts = 3, cap_timeout_seconds = 900, cap_side_effect = True\<rparr>]"

definition build_capability_registry :: "capability list result" where
  "build_capability_registry = capability_registry builtin_capabilities"

section \<open>Service configuration, snapshots and results\<close>

record service =
  capabilities :: "capability list"
  executor_codes :: "string list"
  compensator_codes :: "string list"
  retry_delay_seconds :: int
  compensation_retry_delay_seconds :: int
  compensation_retry_max_delay_seconds :: int
  max_compensation_attempts :: int

definition task_runtime_service ::
  "capability list \<Rightarrow> string list \<Rightarrow> string list \<Rightarrow> int \<Rightarrow> int \<Rightarrow> int \<Rightarrow> int \<Rightarrow> service result" where
  "task_runtime_service caps execs comps retry cretry cmax attempts =
     (if cretry < 0 then Inl (ValueError ''compensation retry delay must not be negative'')
      else if cmax < 0 then Inl (ValueError ''compensation retry max delay must not be negative'')
      else if attempts < 1 then Inl (ValueError ''max compensation attempts must be positive'')
      else Inr \<lparr>capabilities = caps, executor_codes = execs, compensator_codes = comps,
                retry_delay_seconds = retry, compensation_retry_delay_seconds = cretry,
                compensation_retry_max_delay_seconds = cmax,
                max_compensation_attempts = attempts\<rparr>)"

text \<open>The recovery snapshot holds a subset of the fields of the claim's task snapshot.\<close>

record recovery_snapshot =
  s_task_id :: ident
  s_plan_id :: ident
  s_workflow_id :: ident
  s_conversation_id :: ident
  s_turn_id :: ident
  s_capability_code :: string
  s_input_json :: json
  s_attempt :: int
  s_max_attempts :: int
  s_execution_id :: ident
  s_operation_id :: ident
  s_agent_run_id :: ident

record task_snapshot = recovery_snapshot +
  s_sequence :: int
  s_executor_code :: string

datatype claim_outcome =
    Claimed | CompensationRequired | CompensationLocked | AlreadyRunning | NoTask | Terminal

record claim_result =
  outcome :: claim_outcome
  claimed_task :: "task_snapshot option"
  recovery :: "recovery_snapshot option"

definition claim_of :: "claim_outcome \<Rightarrow> claim_result" where
  "claim_of oc = \<lparr>outcome = oc, claimed_task = None, recovery = None\<rparr>"

datatype plan_outcome =
    TaskSucceeded | CompensationRetryScheduled | PlanCompensationLocked | RetryScheduled
  | ReplanRequested | PlanAlreadyRunning | PlanNoTask | PlanTerminal

record execute_result =
  r_plan_id :: ident
  r_outcome :: plan_outcome
  r_task_id :: "ident option"
  r_execution_id :: "ident option"

record task_error =
  err_code :: string
  err_message :: string
  err_retryable :: bool
  err_blocked :: bool

section \<open>Small helpers of the service\<close>

definition record_inbox :: "time \<Rightarrow> string \<Rightarrow> ident option \<Rightarrow> db \<Rightarrow> db result" where
  "record_inbox now hex event_id db =
     (case event_id of
        None \<Rightarrow> Inr db
      | Some e \<Rightarrow> inbox_add
          \<lparr>i_id = new_id ''inbox'' hex, i_consumer_name = ''task_runtime'',
           i_event_id = e, i_processed_at = now\<rparr> db)"

definition default_payload :: "plan \<Rightarrow> json" where
  "default_payload p =
     JObj [(''workflow_id'', JStr (p_workflow_id p)), (''plan_id'', JStr (p_id p))]"

definition event :: "time \<Rightarrow> string \<Rightarrow> plan \<Rightarrow> event_type \<Rightarrow> json option \<Rightarrow> time option \<Rightarrow> outbox_event"
  where
  "event now hex p ty payload available_at =
     \<lparr>e_id = new_id ''event'' hex, e_type = ty, e_aggregate_type = ''plan'',
      e_aggregate_id = p_id p,
      e_payload = (case payload of None \<Rightarrow> default_payload p | Some j \<Rightarrow> j),
      e_status = EV_PENDING, e_attempts = 0,
      e_available_at = (case available_at of None \<Rightarrow> now | Some t \<Rightarrow> t),
      e_published_at = None, e_created_at = now\<rparr>"

definition turn_conversation_id :: "db \<Rightarrow> ident \<Rightarrow> ident result" where
  "turn_conversation_id db tid =
     (case turn_get_by_id tid db of
        None \<Rightarrow> Inl (RuntimeError ''the Plan's Turn does not exist'')
      | Some t \<Rightarrow> Inr (tn_conversation_id t))"

definition recovery_snapshot_of :: "db \<Rightarrow> plan \<Rightarrow> task \<Rightarrow> execution \<Rightarrow> recovery_snapshot result" where
  "recovery_snapshot_of db p t x =
     (case x_agent_run_id x of
        None \<Rightarrow> Inl (RuntimeError ''TaskExecution has no agent_run_id'')
      | Some run \<Rightarrow> bind (turn_conversation_id db (p_turn_id p)) (\<lambda>cid. Inr
          \<lparr>s_task_id = t_id t, s_plan_id = p_id p, s_workflow_id = p_workflow_id p,
           s_conversation_id = cid, s_turn_id = p_turn_id p,
           s_capability_code = t_capability_code t, s_input_json = x_input_snapshot x,
           s_attempt = x_attempt x, s_max_attempts = t_max_attempts t,
           s_execution_id = x_id x, s_operation_id = x_operation_id x,
           s_agent_run_id = run\<rparr>))"

section \<open>The claim transaction\<close>

definition expire_lease :: "execution \<Rightarrow> execution" where
  "expire_lease x =
     x\<lparr>x_status := COMPENSATION_REQUIRED,
       x_error_code := Some ''execution_lease_expired'',
       x_error_message := Some ''Task Execution did not finish in time'',
       x_retryable := Some True, x_blocked := False, x_completed_at := None\<rparr>"

definition lease_live :: "capability \<Rightarrow> time \<Rightarrow> task \<Rightarrow> bool" where
  "lease_live c now t =
     (case t_started_at t of
        None \<Rightarrow> True
      | Some st \<Rightarrow> now < st + cap_timeout_seconds c)"

definition recovery_claim :: "claim_outcome \<Rightarrow> recovery_snapshot \<Rightarrow> claim_result option" where
  "recovery_claim oc r = Some \<lparr>outcome = oc, claimed_task = None, recovery = Some r\<rparr>"

definition recover_stale_execution ::
  "service \<Rightarrow> time \<Rightarrow> plan \<Rightarrow> ident \<Rightarrow> db \<Rightarrow> (claim_result option \<times> db) result" where
  "recover_stale_execution self now p tid db =
     (case task_get_by_id tid db of
        None \<Rightarrow> Inl (RuntimeError ''Plan current_task_id points to a missing Task'')
      | Some t \<Rightarrow> bind (require_capability (capabilities self) (t_capability_code t)) (\<lambda>c.
          case execution_get_latest_by_task (t_id t) db of
            None \<Rightarrow> Inl (RuntimeError ''Running Task has no TaskExecution'')
          | Some x \<Rightarrow>
              if x_status x = COMPENSATION_LOCKED then
                bind (recovery_snapshot_of db p t x)
                  (\<lambda>r. Inr (recovery_claim CompensationLocked r, db))
              else if x_status x = COMPENSATION_REQUIRED then
                bind (recovery_snapshot_of db p t x)
                  (\<lambda>r. Inr (recovery_claim CompensationRequired r, db))
              else if x_status x \<noteq> EXEC_RUNNING then
                Inl (RuntimeError ''TaskExecution of the running Task has another status'')
              else if lease_live c now t then Inr (None, db)
              else
                bind (recovery_snapshot_of db p t (expire_lease x))
                  (\<lambda>r. Inr (recovery_claim CompensationRequired r,
                             execution_save (expire_lease x) db))))"

text \<open>
  \<open>leave\<close> is the recurring ending of the claim: record the event in the inbox and commit only if
  there is an event; without one the transaction is rolled back to \<open>db0\<close>.
\<close>

definition leave ::
  "time \<Rightarrow> string \<Rightarrow> ident option \<Rightarrow> db \<Rightarrow> claim_result \<Rightarrow> db \<Rightarrow> (claim_result \<times> db) result" where
  "leave now hex event_id db0 r db =
     bind (record_inbox now hex event_id db)
       (\<lambda>db'. Inr (r, if event_id \<noteq> None then db' else db0))"

definition other_target :: "ident option \<Rightarrow> ident \<Rightarrow> bool" where
  "other_target wanted actual = (case wanted of None \<Rightarrow> False | Some w \<Rightarrow> actual \<noteq> w)"

definition claim_current ::
  "service \<Rightarrow> time \<Rightarrow> uuids \<Rightarrow> plan \<Rightarrow> ident \<Rightarrow> ident option \<Rightarrow> ident option \<Rightarrow> ident option \<Rightarrow> db
   \<Rightarrow> (claim_result \<times> db) result" where
  "claim_current self now u p tid event_id comp_xid comp_op db =
     bind (recover_stale_execution self now p tid db) (\<lambda>(rc, db1).
       case rc of
         None \<Rightarrow> leave now (u 0) event_id db (claim_of AlreadyRunning) db1
       | Some claim \<Rightarrow>
         (case recovery claim of
            None \<Rightarrow> Inl (RuntimeError ''compensation recovery has no snapshot'')
          | Some r \<Rightarrow>
              if other_target comp_xid (s_execution_id r) \<or> other_target comp_op (s_operation_id r)
              then leave now (u 0) event_id db (claim_of Terminal) db1
              else if outcome claim = CompensationLocked
              then leave now (u 0) event_id db claim db1
              else Inr (claim, db1)))"

definition start_task :: "capability \<Rightarrow> time \<Rightarrow> task \<Rightarrow> task" where
  "start_task c now t =
     t\<lparr>t_attempt_count := t_attempt_count t + 1, t_max_attempts := cap_max_attempts c,
       t_status := RUNNING, t_started_at := Some now\<rparr>"

definition start_plan :: "time \<Rightarrow> plan \<Rightarrow> plan" where
  "start_plan now p =
     p\<lparr>p_status := PLAN_RUNNING,
       p_started_at := (case p_started_at p of None \<Rightarrow> Some now | Some s \<Rightarrow> Some s)\<rparr>"

definition new_execution :: "capability \<Rightarrow> time \<Rightarrow> uuids \<Rightarrow> plan \<Rightarrow> task \<Rightarrow> execution" where
  "new_execution c now u p t =
     \<lparr>x_id = new_id ''execution'' (u 1), x_task_id = t_id t, x_plan_id = p_id p,
      x_workflow_id = p_workflow_id p, x_attempt = t_attempt_count t,
      x_status = EXEC_RUNNING, x_executor_code = cap_executor_code c,
      x_input_snapshot = t_input_json t, x_output_json = None, x_resource_refs = [],
      x_error_code = None, x_error_message = None, x_retryable = None, x_blocked = False,
      x_agent_run_id = Some (new_id ''agent_run'' (u 2)),
      x_operation_id = new_id ''operation'' (u 0),
      x_compensation_attempt_count = 0, x_compensation_last_error = None,
      x_compensation_last_attempt_at = None, x_compensation_locked_at = None,
      x_compensation_lock_reason = None, x_started_at = now, x_completed_at = None\<rparr>"

definition claim_snapshot ::
  "capability \<Rightarrow> uuids \<Rightarrow> plan \<Rightarrow> task \<Rightarrow> ident \<Rightarrow> task_snapshot" where
  "claim_snapshot c u p t cid =
     \<lparr>s_task_id = t_id t, s_plan_id = p_id p, s_workflow_id = p_workflow_id p,
      s_conversation_id = cid, s_turn_id = p_turn_id p,
      s_capability_code = t_capability_code t, s_input_json = t_input_json t,
      s_attempt = t_attempt_count t, s_max_attempts = t_max_attempts t,
      s_execution_id = new_id ''execution'' (u 1),
      s_operation_id = new_id ''operation'' (u 0),
      s_agent_run_id = new_id ''agent_run'' (u 2),
      s_sequence = t_sequence t, s_executor_code = cap_executor_code c\<rparr>"

definition claim_pending ::
  "service \<Rightarrow> time \<Rightarrow> uuids \<Rightarrow> plan \<Rightarrow> task \<Rightarrow> ident option \<Rightarrow> db \<Rightarrow> (claim_result \<times> db) result" where
  "claim_pending self now u p task event_id db =
     bind (require_capability (capabilities self) (t_capability_code task)) (\<lambda>c.
     bind (turn_conversation_id db (p_turn_id p)) (\<lambda>cid.
       let t = start_task c now task;
           p' = plan_set_current_task (start_plan now p) (Some (t_id t));
           db1 = plan_save p' (task_save t db) in
       bind (execution_add (new_execution c now u p' t) db1) (\<lambda>db2.
       bind (outbox_add (event now (u 3) p' PLAN_WAKEUP None
               (Some (now + cap_timeout_seconds c))) db2) (\<lambda>db3.
       bind (record_inbox now (u 4) event_id db3) (\<lambda>db4.
         Inr (\<lparr>outcome = Claimed, claimed_task = Some (claim_snapshot c u p' t cid),
               recovery = None\<rparr>, db4))))))"

definition claim_next_ready ::
  "service \<Rightarrow> time \<Rightarrow> uuids \<Rightarrow> plan \<Rightarrow> ident option \<Rightarrow> db \<Rightarrow> (claim_result \<times> db) result" where
  "claim_next_ready self now u p event_id db =
     (let retrying = task_list_by_plan_id_and_status (p_id p) RETRY_WAIT db;
          db1 = task_set_status retrying PENDING db in
      case task_get_next_runnable (p_id p) PENDING SUCCEEDED db1 of
        None \<Rightarrow>
          if retrying \<noteq> [] \<or> event_id \<noteq> None
          then bind (record_inbox now (u 0) event_id db1) (\<lambda>db2. Inr (claim_of NoTask, db2))
          else Inr (claim_of NoTask, db)
      | Some task \<Rightarrow> claim_pending self now u p task event_id db1)"

definition claim_next ::
  "service \<Rightarrow> time \<Rightarrow> uuids \<Rightarrow> ident \<Rightarrow> ident option \<Rightarrow> ident option \<Rightarrow> ident option \<Rightarrow> db
   \<Rightarrow> (claim_result \<times> db) result" where
  "claim_next self now u plan_id event_id comp_xid comp_op db =
     (if (case event_id of None \<Rightarrow> False | Some e \<Rightarrow> inbox_exists ''task_runtime'' e db)
      then Inr (claim_of Terminal, db)
      else case plan_get_by_id plan_id db of
        None \<Rightarrow> Inl (ValueError ''Plan does not exist'')
      | Some p \<Rightarrow>
          if p_status p \<in> {PLAN_COMPLETED, PLAN_FAILED, PLAN_CANCELLED, PLAN_SUPERSEDED,
                           REPLAN_PENDING}
          then leave now (u 0) event_id db (claim_of Terminal) db
          else (case p_current_task_id p of
            Some tid \<Rightarrow> claim_current self now u p tid event_id comp_xid comp_op db
          | None \<Rightarrow>
              if comp_xid \<noteq> None \<or> comp_op \<noteq> None
              then leave now (u 0) event_id db (claim_of Terminal) db
              else if p_status p \<notin> {READY, PLAN_RUNNING}
              then leave now (u 0) event_id db (claim_of Terminal) db
              else claim_next_ready self now u p event_id db))"

section \<open>Completion and failure transactions\<close>

definition lock_execution ::
  "task_snapshot \<Rightarrow> db \<Rightarrow> (plan \<times> task \<times> execution) result" where
  "lock_execution s db =
     (case (plan_get_by_id (s_plan_id s) db, task_get_by_id (s_task_id s) db,
            execution_get_by_id (s_execution_id s) db) of
        (Some p, Some t, Some x) \<Rightarrow>
          if p_current_task_id p \<noteq> Some (t_id t) \<or> t_status t \<noteq> RUNNING
             \<or> x_status x \<noteq> EXEC_RUNNING \<or> x_attempt x \<noteq> s_attempt s
             \<or> x_operation_id x \<noteq> s_operation_id s
             \<or> x_agent_run_id x \<noteq> Some (s_agent_run_id s)
          then Inl (RuntimeError ''Task Execution token is no longer valid'')
          else Inr (p, t, x)
      | _ \<Rightarrow> Inl (RuntimeError ''Task Runtime state record does not exist''))"

definition succeed_task :: "time \<Rightarrow> json \<Rightarrow> task \<Rightarrow> task" where
  "succeed_task now output t =
     t\<lparr>t_status := SUCCEEDED, t_output_json := Some output, t_last_error_code := None,
       t_last_error_message := None, t_completed_at := Some now\<rparr>"

definition succeed_execution :: "time \<Rightarrow> json \<Rightarrow> string list \<Rightarrow> execution \<Rightarrow> execution" where
  "succeed_execution now output refs x =
     x\<lparr>x_status := EXEC_SUCCEEDED, x_output_json := Some output,
       x_resource_refs := dedup refs, x_completed_at := Some now\<rparr>"

definition complete ::
  "time \<Rightarrow> uuids \<Rightarrow> task_snapshot \<Rightarrow> json \<Rightarrow> string list \<Rightarrow> db \<Rightarrow> (unit \<times> db) result" where
  "complete now u s output refs db =
     bind (lock_execution s db) (\<lambda>(p, t, x).
       let p1 = plan_set_current_task p None;
           db1 = plan_save p1 (execution_save (succeed_execution now output refs x)
                   (task_save (succeed_task now output t) db)) in
       if task_count_by_plan_and_status (p_id p) PENDING db1 \<noteq> 0
          \<or> task_count_by_plan_and_status (p_id p) RETRY_WAIT db1 \<noteq> 0
       then bind (outbox_add (event now (u 0) p1 PLAN_WAKEUP None None) db1)
              (\<lambda>db2. Inr ((), db2))
       else if filter (\<lambda>item. t_status item \<noteq> SUCCEEDED)
                 (task_list_by_plan_id (p_id p) db1) = []
       then let p2 = p1\<lparr>p_status := PLAN_COMPLETED, p_completed_at := Some now\<rparr> in
            bind (outbox_add (event now (u 0) p2 AGGREGATION_REQUESTED None None)
                    (plan_save p2 db1))
              (\<lambda>db2. Inr ((), db2))
       else Inr ((), db1))"

definition fail_execution :: "time \<Rightarrow> task_error \<Rightarrow> execution \<Rightarrow> execution" where
  "fail_execution now err x =
     x\<lparr>x_status := EXEC_FAILED, x_error_code := Some (err_code err),
       x_error_message := Some (err_message err), x_retryable := Some (err_retryable err),
       x_blocked := err_blocked err, x_completed_at := Some now\<rparr>"

definition note_failure :: "time \<Rightarrow> string option \<Rightarrow> string option \<Rightarrow> task \<Rightarrow> task" where
  "note_failure now code message t =
     t\<lparr>t_last_error_code := code, t_last_error_message := message, t_completed_at := Some now\<rparr>"

definition replan_payload ::
  "plan \<Rightarrow> ident \<Rightarrow> ident \<Rightarrow> bool \<Rightarrow> string option \<Rightarrow> string option \<Rightarrow> json" where
  "replan_payload p cid tid blocked code message = JObj
     [(''workflow_id'', JStr (p_workflow_id p)),
      (''conversation_id'', JStr cid),
      (''root_turn_id'', JStr (p_turn_id p)),
      (''previous_plan_id'', JStr (p_id p)),
      (''next_revision'', JInt (p_revision p + 1)),
      (''trigger_type'', JStr (if blocked then ''task_blocked'' else ''task_terminal_failure'')),
      (''source_task_id'', JStr tid),
      (''error_code'', jopt code),
      (''error_message'', jopt message)]"

definition request_replan :: "plan \<Rightarrow> string option \<Rightarrow> string option \<Rightarrow> plan" where
  "request_replan p code message =
     p\<lparr>p_status := REPLAN_PENDING, p_failure_code := code, p_failure_reason := message\<rparr>"

definition failed_status :: "bool \<Rightarrow> task_status" where
  "failed_status blocked = (if blocked then BLOCKED else FAILED)"

lemma failed_status_neq [simp]:
  "failed_status b \<noteq> RUNNING" "failed_status b \<noteq> PENDING" "failed_status b \<noteq> RETRY_WAIT"
  "failed_status b \<noteq> SUCCEEDED" "failed_status b \<noteq> DRAFT"
  by (simp_all add: failed_status_def)

definition fail ::
  "service \<Rightarrow> time \<Rightarrow> uuids \<Rightarrow> task_snapshot \<Rightarrow> task_error \<Rightarrow> db \<Rightarrow> (unit \<times> db) result" where
  "fail self now u s err db =
     bind (lock_execution s db) (\<lambda>(p, t, x).
       let t1 = note_failure now (Some (err_code err)) (Some (err_message err)) t;
           p1 = plan_set_current_task p None;
           db1 = plan_save p1 (execution_save (fail_execution now err x) db) in
       if err_retryable err \<and> t_attempt_count t < t_max_attempts t
       then bind (outbox_add (event now (u 0) p1 PLAN_WAKEUP None
                    (Some (now + retry_delay_seconds self)))
                    (task_save (t1\<lparr>t_status := RETRY_WAIT\<rparr>) db1))
              (\<lambda>db2. Inr ((), db2))
       else
         let t2 = t1\<lparr>t_status := failed_status (err_blocked err)\<rparr>;
             p2 = request_replan p1 (Some (err_code err)) (Some (err_message err));
             db2 = plan_save p2 (task_save t2 db1) in
         bind (turn_conversation_id db2 (p_turn_id p)) (\<lambda>cid.
         bind (outbox_add (event now (u 0) p2 REPLAN_REQUESTED
                 (Some (replan_payload p2 cid (t_id t) (err_blocked err)
                    (Some (err_code err)) (Some (err_message err)))) None) db2)
           (\<lambda>db3. Inr ((), db3))))"

definition require_compensation ::
  "task_snapshot \<Rightarrow> task_error \<Rightarrow> db \<Rightarrow> (unit \<times> db) result" where
  "require_compensation s err db =
     bind (lock_execution s db) (\<lambda>(p, t, x).
       Inr ((), execution_save
         (x\<lparr>x_status := COMPENSATION_REQUIRED, x_error_code := Some (err_code err),
            x_error_message := Some (err_message err), x_retryable := Some (err_retryable err),
            x_blocked := err_blocked err, x_completed_at := None\<rparr>) db))"

definition failure_result :: "task_snapshot \<Rightarrow> task_error \<Rightarrow> execute_result" where
  "failure_result s err =
     \<lparr>r_plan_id = s_plan_id s,
      r_outcome = (if err_retryable err \<and> s_attempt s < s_max_attempts s
                   then RetryScheduled else ReplanRequested),
      r_task_id = Some (s_task_id s), r_execution_id = Some (s_execution_id s)\<rparr>"

section \<open>Compensation transactions\<close>

definition assert_compensation_token ::
  "'a recovery_snapshot_scheme \<Rightarrow> db \<Rightarrow> (plan \<times> task \<times> execution) result" where
  "assert_compensation_token s db =
     (case (plan_get_by_id (s_plan_id s) db, task_get_by_id (s_task_id s) db,
            execution_get_by_id (s_execution_id s) db) of
        (Some p, Some t, Some x) \<Rightarrow>
          if p_current_task_id p \<noteq> Some (t_id t) \<or> t_status t \<noteq> RUNNING
             \<or> x_status x \<noteq> COMPENSATION_REQUIRED \<or> x_attempt x \<noteq> s_attempt s
             \<or> x_operation_id x \<noteq> s_operation_id s
          then Inl (RuntimeError ''Task Execution compensation token is no longer valid'')
          else Inr (p, t, x)
      | _ \<Rightarrow> Inl (RuntimeError ''Task Runtime compensation state record does not exist''))"

definition begin_compensation_attempt ::
  "time \<Rightarrow> 'a recovery_snapshot_scheme \<Rightarrow> db \<Rightarrow> (int \<times> db) result" where
  "begin_compensation_attempt now s db =
     bind (assert_compensation_token s db) (\<lambda>(p, t, x).
       let x' = x\<lparr>x_compensation_attempt_count := x_compensation_attempt_count x + 1,
                  x_compensation_last_attempt_at := Some now\<rparr> in
       Inr (x_compensation_attempt_count x', execution_save x' db))"

definition record_inbox_if_new :: "time \<Rightarrow> string \<Rightarrow> ident option \<Rightarrow> db \<Rightarrow> db result" where
  "record_inbox_if_new now hex event_id db =
     (case event_id of
        None \<Rightarrow> Inr db
      | Some e \<Rightarrow> if inbox_exists ''task_runtime'' e db then Inr db
                  else record_inbox now hex event_id db)"

definition lock_compensation_row :: "time \<Rightarrow> execution \<Rightarrow> execution" where
  "lock_compensation_row now x =
     x\<lparr>x_status := COMPENSATION_LOCKED, x_compensation_locked_at := Some now,
       x_compensation_lock_reason := Some RETRY_EXHAUSTED, x_completed_at := None\<rparr>"

definition compensation_delay :: "service \<Rightarrow> int \<Rightarrow> int" where
  "compensation_delay self attempt =
     min (compensation_retry_delay_seconds self * 2 ^ nat (attempt - 1))
         (compensation_retry_max_delay_seconds self)"

definition compensation_payload :: "plan \<Rightarrow> 'a recovery_snapshot_scheme \<Rightarrow> json" where
  "compensation_payload p s = JObj
     [(''workflow_id'', JStr (p_workflow_id p)), (''plan_id'', JStr (p_id p)),
      (''execution_id'', JStr (s_execution_id s)), (''operation_id'', JStr (s_operation_id s))]"

definition handle_compensation_failure ::
  "service \<Rightarrow> time \<Rightarrow> uuids \<Rightarrow> 'a recovery_snapshot_scheme \<Rightarrow> ident option \<Rightarrow> string \<Rightarrow> int \<Rightarrow> db
   \<Rightarrow> (execute_result \<times> db) result" where
  "handle_compensation_failure self now u s event_id error attempt db =
     bind (assert_compensation_token s db) (\<lambda>(p, t, x).
       if x_compensation_attempt_count x \<noteq> attempt
       then Inl (RuntimeError ''Task Execution compensation attempt is no longer valid'')
       else
         let x1 = x\<lparr>x_compensation_last_error := Some error\<rparr> in
         if max_compensation_attempts self \<le> attempt
         then bind (record_inbox_if_new now (u 0) event_id
                      (execution_save (lock_compensation_row now x1) db)) (\<lambda>db1.
                Inr (\<lparr>r_plan_id = p_id p, r_outcome = PlanCompensationLocked,
                      r_task_id = Some (t_id t), r_execution_id = Some (x_id x)\<rparr>, db1))
         else bind (outbox_add (event now (u 0) p PLAN_WAKEUP (Some (compensation_payload p s))
                      (Some (now + compensation_delay self attempt)))
                      (execution_save x1 db)) (\<lambda>db1.
              bind (record_inbox_if_new now (u 1) event_id db1) (\<lambda>db2.
                Inr (\<lparr>r_plan_id = p_id p, r_outcome = CompensationRetryScheduled,
                      r_task_id = Some (t_id t), r_execution_id = Some (x_id x)\<rparr>, db2))))"

definition complete_compensation ::
  "service \<Rightarrow> time \<Rightarrow> uuids \<Rightarrow> 'a recovery_snapshot_scheme \<Rightarrow> ident option \<Rightarrow> db
   \<Rightarrow> (execute_result \<times> db) result" where
  "complete_compensation self now u s event_id db =
     bind (assert_compensation_token s db) (\<lambda>(p, t, x).
       let x1 = x\<lparr>x_status := COMPENSATED, x_completed_at := Some now\<rparr>;
           t1 = note_failure now (x_error_code x) (x_error_message x) t;
           p1 = plan_set_current_task p None;
           db1 = plan_save p1 (execution_save x1 db);
           stale = (x_error_code x = Some ''execution_lease_expired'') in
       if x_retryable x = Some True \<and> t_attempt_count t < t_max_attempts t
       then
         bind (outbox_add (event now (u 0) p1 PLAN_WAKEUP None
                 (Some (if stale then now else now + retry_delay_seconds self)))
                 (task_save (t1\<lparr>t_status := (if stale then PENDING else RETRY_WAIT)\<rparr>) db1)) (\<lambda>db2.
         bind (record_inbox now (u 1) event_id db2) (\<lambda>db3.
           Inr (\<lparr>r_plan_id = p_id p, r_outcome = RetryScheduled,
                 r_task_id = Some (t_id t), r_execution_id = Some (x_id x)\<rparr>, db3)))
       else
         let p2 = request_replan p1 (x_error_code x) (x_error_message x);
             t2 = t1\<lparr>t_status := failed_status (x_blocked x)\<rparr> in
         bind (outbox_add (event now (u 0) p2 REPLAN_REQUESTED
                 (Some (replan_payload p2 (s_conversation_id s) (t_id t) (x_blocked x)
                    (x_error_code x) (x_error_message x))) None)
                 (plan_save p2 (task_save t2 db1))) (\<lambda>db2.
         bind (record_inbox now (u 1) event_id db2) (\<lambda>db3.
           Inr (\<lparr>r_plan_id = p_id p, r_outcome = ReplanRequested,
                 r_task_id = Some (t_id t), r_execution_id = Some (x_id x)\<rparr>, db3))))"

section \<open>Executing one step of a plan\<close>

text \<open>
  \<open>execute_next\<close> runs up to four transactions.  \<open>env\<close> gives, for the n-th of them, the clock
  reading, the identifiers drawn, and what other workers committed just before it (\<open>others\<close>, the
  identity when the worker is alone).  An exception leaves the transactions already committed in
  place, so the result is an error or a value together with the database reached.
\<close>

record runtime_context =
  ctx_workflow_id :: ident
  ctx_plan_id :: ident
  ctx_task_id :: ident
  ctx_conversation_id :: ident
  ctx_turn_id :: ident
  ctx_execution_id :: ident
  ctx_operation_id :: ident
  ctx_agent_run_id :: ident
  ctx_attempt :: int

definition runtime_context_of :: "'a recovery_snapshot_scheme \<Rightarrow> runtime_context" where
  "runtime_context_of s =
     \<lparr>ctx_workflow_id = s_workflow_id s, ctx_plan_id = s_plan_id s, ctx_task_id = s_task_id s,
      ctx_conversation_id = s_conversation_id s, ctx_turn_id = s_turn_id s,
      ctx_execution_id = s_execution_id s, ctx_operation_id = s_operation_id s,
      ctx_agent_run_id = s_agent_run_id s, ctx_attempt = s_attempt s\<rparr>"

datatype exec_outcome =
    Returned json "string list"
  | TimedOut
  | RaisedTask task_error
  | RaisedOther string

text \<open>What the registries hold under a code.\<close>

type_synonym executor = "string \<Rightarrow> json \<Rightarrow> runtime_context \<Rightarrow> exec_outcome"
type_synonym compensator = "string \<Rightarrow> ident \<Rightarrow> json \<Rightarrow> runtime_context \<Rightarrow> string option"

record run_env =
  clock :: "nat \<Rightarrow> time"
  hexes :: "nat \<Rightarrow> uuids"
  others :: "nat \<Rightarrow> db \<Rightarrow> db"

fun error_text :: "error \<Rightarrow> string" where
  "error_text (ValueError m) = m"
| "error_text (RuntimeError m) = m"
| "error_text (IntegrityError m) = m"
| "error_text (ValidationError m) = m"
| "error_text (TaskExecutionError c m r b) = m"
| "error_text (PlanningApplicationError n m c) = m"
| "error_text (DocumentApplicationError n m) = m"
| "error_text (ClarificationApplicationError n m) = m"
| "error_text (OperationsQueryError n m) = m"
| "error_text (ContextQueryError n m) = m"
| "error_text (NotFoundError m) = m"
| "error_text (ConflictError m) = m"
| "error_text (OtherException c m) = m"

text \<open>Running a transaction: on an error the database keeps the value it had before it.\<close>

definition transact :: "(db \<Rightarrow> ('a \<times> db) result) \<Rightarrow> db \<Rightarrow> 'a result \<times> db" where
  "transact tx db = (case tx db of Inl e \<Rightarrow> (Inl e, db) | Inr (v, db') \<Rightarrow> (Inr v, db'))"

definition run_compensator ::
  "service \<Rightarrow> capability \<Rightarrow> compensator \<Rightarrow> 'a recovery_snapshot_scheme \<Rightarrow> string option" where
  "run_compensator self c compensate s =
     (case cap_compensator_code c of
        None \<Rightarrow> if cap_side_effect c
                then Some ''Capability with side effects has no Compensator'' else None
      | Some code \<Rightarrow>
          (case cap_input_model c (s_input_json s) of
             Inl e \<Rightarrow> Some (error_text e)
           | Inr payload \<Rightarrow>
               (case require_code ''Compensator'' (compensator_codes self) code of
                  Inl e \<Rightarrow> Some (error_text e)
                | Inr _ \<Rightarrow> compensate code (s_operation_id s) payload (runtime_context_of s))))"

definition execute_compensation ::
  "service \<Rightarrow> run_env \<Rightarrow> nat \<Rightarrow> compensator \<Rightarrow> 'a recovery_snapshot_scheme \<Rightarrow> capability
   \<Rightarrow> ident option \<Rightarrow> db \<Rightarrow> execute_result result \<times> db" where
  "execute_compensation self env n compensate s c event_id db =
     (case transact (begin_compensation_attempt (clock env n) s) (others env n db) of
        (Inl e, db1) \<Rightarrow> (Inl e, db1)
      | (Inr attempt, db1) \<Rightarrow>
          (case run_compensator self c compensate s of
             Some err \<Rightarrow> transact
               (handle_compensation_failure self (clock env (n + 1)) (hexes env (n + 1)) s
                  event_id err attempt) (others env (n + 1) db1)
           | None \<Rightarrow> transact
               (complete_compensation self (clock env (n + 1)) (hexes env (n + 1)) s event_id)
               (others env (n + 1) db1)))"

definition handle_failure ::
  "service \<Rightarrow> run_env \<Rightarrow> nat \<Rightarrow> compensator \<Rightarrow> task_snapshot \<Rightarrow> capability \<Rightarrow> task_error \<Rightarrow> db
   \<Rightarrow> execute_result result \<times> db" where
  "handle_failure self env n compensate s c err db =
     (if \<not> cap_side_effect c then
        (case transact (fail self (clock env n) (hexes env n) s err) (others env n db) of
           (Inl e, db1) \<Rightarrow> (Inl e, db1)
         | (Inr _, db1) \<Rightarrow> (Inr (failure_result s err), db1))
      else
        (case transact (require_compensation s err) (others env n db) of
           (Inl e, db1) \<Rightarrow> (Inl e, db1)
         | (Inr _, db1) \<Rightarrow> execute_compensation self env (n + 1) compensate s c None db1))"

text \<open>What the executor phase ends in: a validated output, or the error it is turned into.\<close>

definition timeout_error :: task_error where
  "timeout_error =
     \<lparr>err_code = ''executor_timeout'', err_message = ''Task Executor timed out'',
      err_retryable = True, err_blocked = False\<rparr>"

definition system_error :: "string \<Rightarrow> task_error" where
  "system_error cls =
     \<lparr>err_code = ''executor_system_error'',
      err_message = ''Task Executor system exception: '' @ cls,
      err_retryable = False, err_blocked = False\<rparr>"

definition run_executor ::
  "capability \<Rightarrow> executor \<Rightarrow> task_snapshot \<Rightarrow> task_error + (json \<times> string list)" where
  "run_executor c run s =
     (case cap_input_model c (s_input_json s) of
        Inl e \<Rightarrow> Inl (system_error ''ValidationError'')
      | Inr payload \<Rightarrow>
          (case run (cap_executor_code c) payload (runtime_context_of s) of
             TimedOut \<Rightarrow> Inl timeout_error
           | RaisedTask err \<Rightarrow> Inl err
           | RaisedOther cls \<Rightarrow> Inl (system_error cls)
           | Returned out refs \<Rightarrow>
               (case cap_output_model c out of
                  Inl e \<Rightarrow> Inl (system_error ''ValidationError'')
                | Inr output \<Rightarrow> Inr (output, refs))))"

definition execute_result_of :: "ident \<Rightarrow> plan_outcome \<Rightarrow> execute_result" where
  "execute_result_of pid oc =
     \<lparr>r_plan_id = pid, r_outcome = oc, r_task_id = None, r_execution_id = None\<rparr>"

fun plan_outcome_of :: "claim_outcome \<Rightarrow> plan_outcome" where
  "plan_outcome_of AlreadyRunning = PlanAlreadyRunning"
| "plan_outcome_of NoTask = PlanNoTask"
| "plan_outcome_of CompensationLocked = PlanCompensationLocked"
| "plan_outcome_of _ = PlanTerminal"

definition execute_task ::
  "service \<Rightarrow> run_env \<Rightarrow> executor \<Rightarrow> compensator \<Rightarrow> task_snapshot \<Rightarrow> db
   \<Rightarrow> execute_result result \<times> db" where
  "execute_task self env run compensate s db =
     (case require_capability (capabilities self) (s_capability_code s) of
        Inl e \<Rightarrow> (Inl e, db)
      | Inr c \<Rightarrow>
          (case require_code ''Executor'' (executor_codes self) (cap_executor_code c) of
             Inl e \<Rightarrow> (Inl e, db)
           | Inr _ \<Rightarrow>
               (case run_executor c run s of
                  Inl err \<Rightarrow> handle_failure self env 1 compensate s c err db
                | Inr (output, refs) \<Rightarrow>
                    (case transact (complete (clock env 1) (hexes env 1) s output refs)
                            (others env 1 db) of
                       (Inl e, db1) \<Rightarrow> (Inl e, db1)
                     | (Inr _, db1) \<Rightarrow>
                         (Inr \<lparr>r_plan_id = s_plan_id s, r_outcome = TaskSucceeded,
                               r_task_id = Some (s_task_id s),
                               r_execution_id = Some (s_execution_id s)\<rparr>, db1)))))"

definition execute_next ::
  "service \<Rightarrow> run_env \<Rightarrow> executor \<Rightarrow> compensator \<Rightarrow> ident \<Rightarrow> ident option \<Rightarrow> ident option
   \<Rightarrow> ident option \<Rightarrow> db \<Rightarrow> execute_result result \<times> db" where
  "execute_next self env run compensate plan_id event_id comp_xid comp_op db =
     (case transact (claim_next self (clock env 0) (hexes env 0) plan_id event_id comp_xid comp_op)
             (others env 0 db) of
        (Inl e, db1) \<Rightarrow> (Inl e, db1)
      | (Inr cl, db1) \<Rightarrow>
          if outcome cl = CompensationLocked then
            (Inr \<lparr>r_plan_id = plan_id, r_outcome = PlanCompensationLocked,
                  r_task_id = map_option s_task_id (recovery cl),
                  r_execution_id = map_option s_execution_id (recovery cl)\<rparr>, db1)
          else (case recovery cl of
            Some r \<Rightarrow>
              (case require_capability (capabilities self) (s_capability_code r) of
                 Inl e \<Rightarrow> (Inl e, db1)
               | Inr c \<Rightarrow> execute_compensation self env 1 compensate r c event_id db1)
          | None \<Rightarrow>
              (case claimed_task cl of
                 None \<Rightarrow> (Inr (execute_result_of plan_id (plan_outcome_of (outcome cl))), db1)
               | Some s \<Rightarrow> execute_task self env run compensate s db1)))"

end
