(* ===== verification/Runtime_Invariant.thy ===== *)
theory Runtime_Invariant
  imports Task_Runtime
begin

text \<open>
  The invariant of the task runtime over the plan, task and execution tables: a plan's
  \<open>current_task_id\<close> names exactly its one running task; a running task has exactly one live
  execution (running, waiting for compensation, or locked), the one of its latest attempt; no
  other execution is live; attempts never pass the limit of the capability.  Each transaction of
  the runtime makes one of four moves on the tables (change of a live execution, claim, release,
  resumption of waiting tasks); each move is shown to keep the invariant once, over sets of rows,
  and each transaction is then an instance.
\<close>

section \<open>The invariant\<close>

definition live :: "execution \<Rightarrow> bool" where
  "live x \<longleftrightarrow> x_status x \<in> {EXEC_RUNNING, COMPENSATION_REQUIRED, COMPENSATION_LOCKED}"

definition attempt_limit :: "service \<Rightarrow> task \<Rightarrow> int" where
  "attempt_limit self t =
     (case require_capability (capabilities self) (t_capability_code t) of
        Inl _ \<Rightarrow> 1
      | Inr c \<Rightarrow> max 1 (cap_max_attempts c))"

definition plan_ok :: "task set \<Rightarrow> plan \<Rightarrow> bool" where
  "plan_ok T p \<longleftrightarrow>
     (case p_current_task_id p of
        None \<Rightarrow> True
      | Some tid \<Rightarrow> p_status p = PLAN_RUNNING \<and>
          (\<exists>t\<in>T. t_id t = tid \<and> t_plan_id t = p_id p \<and> t_status t = RUNNING))"

definition task_ok :: "service \<Rightarrow> plan set \<Rightarrow> execution set \<Rightarrow> task \<Rightarrow> bool" where
  "task_ok self P X t \<longleftrightarrow>
     0 \<le> t_attempt_count t \<and> t_attempt_count t \<le> attempt_limit self t \<and>
     (t_status t \<in> {DRAFT, PENDING, RETRY_WAIT} \<longrightarrow> t_attempt_count t < attempt_limit self t) \<and>
     (t_status t = RUNNING \<longrightarrow>
        t_max_attempts t \<le> attempt_limit self t \<and>
        (\<exists>p\<in>P. p_id p = t_plan_id t \<and> p_current_task_id p = Some (t_id t)) \<and>
        (\<exists>x\<in>X. x_task_id x = t_id t \<and> x_attempt x = t_attempt_count t \<and> live x))"

definition execution_ok :: "task set \<Rightarrow> execution \<Rightarrow> bool" where
  "execution_ok T x \<longleftrightarrow>
     (\<exists>t\<in>T. t_id t = x_task_id x \<and> t_plan_id t = x_plan_id x \<and>
        1 \<le> x_attempt x \<and> x_attempt x \<le> t_attempt_count t \<and>
        (live x \<longrightarrow> t_status t = RUNNING \<and> x_attempt x = t_attempt_count t))"

abbreviation attempt_key :: "execution \<Rightarrow> ident \<times> int" where
  "attempt_key x \<equiv> (x_task_id x, x_attempt x)"

definition rows_ok :: "service \<Rightarrow> plan set \<Rightarrow> task set \<Rightarrow> execution set \<Rightarrow> bool" where
  "rows_ok self P T X \<longleftrightarrow>
     inj_on p_id P \<and> inj_on t_id T \<and> inj_on attempt_key X \<and>
     (\<forall>p\<in>P. plan_ok T p) \<and> (\<forall>t\<in>T. task_ok self P X t) \<and> (\<forall>x\<in>X. execution_ok T x)"

definition runtime_inv :: "service \<Rightarrow> db \<Rightarrow> bool" where
  "runtime_inv self db \<longleftrightarrow>
     distinct (map p_id (plans db)) \<and> distinct (map t_id (tasks db)) \<and>
     distinct (map x_id (task_executions db)) \<and>
     rows_ok self (set (plans db)) (set (tasks db)) (set (task_executions db))"

lemma runtime_inv_cong:
  "plans db' = plans db \<Longrightarrow> tasks db' = tasks db \<Longrightarrow> task_executions db' = task_executions db \<Longrightarrow>
   runtime_inv self db' = runtime_inv self db"
  by (simp add: runtime_inv_def)

section \<open>The four moves over sets of rows\<close>

lemma rows_okD:
  assumes "rows_ok self P T X"
  shows "p \<in> P \<Longrightarrow> q \<in> P \<Longrightarrow> p_id p = p_id q \<Longrightarrow> p = q"
    and "t \<in> T \<Longrightarrow> t2 \<in> T \<Longrightarrow> t_id t = t_id t2 \<Longrightarrow> t = t2"
    and "x \<in> X \<Longrightarrow> y \<in> X \<Longrightarrow> x_task_id x = x_task_id y \<Longrightarrow> x_attempt x = x_attempt y \<Longrightarrow> x = y"
    and "p \<in> P \<Longrightarrow> plan_ok T p" and "t \<in> T \<Longrightarrow> task_ok self P X t"
    and "x \<in> X \<Longrightarrow> execution_ok T x"
  using assms by (auto simp: rows_ok_def inj_on_def)

lemma rows_okI:
  assumes "\<And>p q. p \<in> P \<Longrightarrow> q \<in> P \<Longrightarrow> p_id p = p_id q \<Longrightarrow> p = q"
    and "\<And>s t. s \<in> T \<Longrightarrow> t \<in> T \<Longrightarrow> t_id s = t_id t \<Longrightarrow> s = t"
    and "\<And>x y. x \<in> X \<Longrightarrow> y \<in> X \<Longrightarrow> x_task_id x = x_task_id y \<Longrightarrow> x_attempt x = x_attempt y \<Longrightarrow> x = y"
    and "\<And>p. p \<in> P \<Longrightarrow> plan_ok T p" and "\<And>t. t \<in> T \<Longrightarrow> task_ok self P X t"
    and "\<And>x. x \<in> X \<Longrightarrow> execution_ok T x"
  shows "rows_ok self P T X"
  using assms by (auto simp: rows_ok_def inj_on_def)

text \<open>Move 1: a live execution changes and stays live, or a finished one stays finished.\<close>

lemma rows_ok_change_execution:
  assumes inv: "rows_ok self P T X" and x: "x \<in> X"
    and same: "x_task_id x' = x_task_id x" "x_attempt x' = x_attempt x"
      "x_plan_id x' = x_plan_id x" "live x' = live x"
  shows "rows_ok self P T (insert x' (X - {x}))"
proof (rule rows_okI)
  note D = rows_okD [OF inv]
  fix y z assume "y \<in> insert x' (X - {x})" "z \<in> insert x' (X - {x})"
    "x_task_id y = x_task_id z" "x_attempt y = x_attempt z"
  then show "y = z" using D(3) x same by fastforce
next
  note D = rows_okD [OF inv]
  fix t assume "t \<in> T"
  then have "task_ok self P X t" by (rule D(5))
  then show "task_ok self P (insert x' (X - {x})) t"
    using same by (fastforce simp: task_ok_def)
next
  note D = rows_okD [OF inv]
  fix y assume "y \<in> insert x' (X - {x})"
  then show "execution_ok T y"
    using D(6) [of y] D(6) [OF x] same by (auto simp: execution_ok_def)
qed (use rows_okD [OF inv] in blast)+

text \<open>Move 2: an idle plan claims one of its pending tasks with a fresh execution.\<close>

lemma rows_ok_claim:
  assumes inv: "rows_ok self P T X" and p: "p \<in> P" and t: "t \<in> T"
    and idle: "p_current_task_id p = None"
    and mine: "t_plan_id t = p_id p" and ready: "t_status t = PENDING"
    and p': "p_id p' = p_id p" "p_current_task_id p' = Some (t_id t)" "p_status p' = PLAN_RUNNING"
    and t': "t_id t' = t_id t" "t_plan_id t' = t_plan_id t"
      "t_capability_code t' = t_capability_code t" "t_status t' = RUNNING"
      "t_attempt_count t' = t_attempt_count t + 1" "t_max_attempts t' \<le> attempt_limit self t"
    and x: "x_task_id x = t_id t" "x_plan_id x = t_plan_id t"
      "x_attempt x = t_attempt_count t + 1" "live x"
  shows "rows_ok self (insert p' (P - {p})) (insert t' (T - {t})) (insert x X)"
proof (rule rows_okI)
  note D = rows_okD [OF inv]
  show "q = r" if "q \<in> insert p' (P - {p})" "r \<in> insert p' (P - {p})" "p_id q = p_id r" for q r
    using that D(1) p p'(1) by fastforce
  show "s = u" if "s \<in> insert t' (T - {t})" "u \<in> insert t' (T - {t})" "t_id s = t_id u" for s u
    using that D(2) t t'(1) by fastforce
  have below: "x_attempt y \<le> t_attempt_count t" if "y \<in> X" "x_task_id y = t_id t" for y
    using D(6) [OF that(1)] D(2) t that(2) by (auto simp: execution_ok_def)
  show "y = z" if "y \<in> insert x X" "z \<in> insert x X" "x_task_id y = x_task_id z"
      "x_attempt y = x_attempt z" for y z
  proof -
    have older: "x_attempt w < x_attempt x" if "w \<in> X" "x_task_id w = x_task_id x" for w
      using below [OF that(1)] that(2) x by simp
    show ?thesis
      using that D(3) [of y z] older [of y] older [of z] by (cases "y = x"; cases "z = x") auto
  qed
  show "plan_ok (insert t' (T - {t})) q" if "q \<in> insert p' (P - {p})" for q
  proof (cases "q = p'")
    case True then show ?thesis using p' t' mine by (auto simp: plan_ok_def)
  next
    case False
    with that have "q \<in> P" by auto
    then show ?thesis using D(4) [OF \<open>q \<in> P\<close>] ready
      by (auto simp: plan_ok_def split: option.splits)
  qed
  show "task_ok self (insert p' (P - {p})) (insert x X) s" if "s \<in> insert t' (T - {t})" for s
  proof (cases "s = t'")
    case True
    have "attempt_limit self t' = attempt_limit self t" using t' by (simp add: attempt_limit_def)
    then show ?thesis using True D(5) [OF t] ready t' p' x mine by (auto simp: task_ok_def)
  next
    case False
    with that have s: "s \<in> T" by auto
    have "p \<noteq> q" if "p_current_task_id q = Some (t_id s)" for q using that idle by auto
    then show ?thesis using D(5) [OF s] by (fastforce simp: task_ok_def)
  qed
  show "execution_ok (insert t' (T - {t})) y" if "y \<in> insert x X" for y
  proof (cases "y = x")
    case True
    then show ?thesis using x t' D(5) [OF t] by (auto simp: execution_ok_def task_ok_def)
  next
    case False
    with that have y: "y \<in> X" by auto
    from D(6) [OF y] obtain s where s: "s \<in> T" "t_id s = x_task_id y" "t_plan_id s = x_plan_id y"
      "1 \<le> x_attempt y" "x_attempt y \<le> t_attempt_count s"
      "live y \<Longrightarrow> t_status s = RUNNING \<and> x_attempt y = t_attempt_count s"
      by (auto simp: execution_ok_def)
    show ?thesis
    proof (cases "s = t")
      case True
      then show ?thesis using s ready t' by (auto simp: execution_ok_def intro!: bexI [of _ t'])
    next
      case False
      then show ?thesis using s by (auto simp: execution_ok_def intro!: bexI [of _ s])
    qed
  qed
qed

text \<open>Move 3: the current task is released: its execution finishes, the plan becomes idle.\<close>

lemma rows_ok_release:
  assumes inv: "rows_ok self P T X" and p: "p \<in> P" and t: "t \<in> T" and x: "x \<in> X"
    and cur: "p_current_task_id p = Some (t_id t)" and run: "t_status t = RUNNING"
    and xt: "x_task_id x = t_id t" "live x"
    and p': "p_id p' = p_id p" "p_current_task_id p' = None"
    and t': "t_id t' = t_id t" "t_plan_id t' = t_plan_id t"
      "t_capability_code t' = t_capability_code t" "t_status t' \<noteq> RUNNING"
      "t_attempt_count t' = t_attempt_count t"
    and retry: "t_status t' \<in> {DRAFT, PENDING, RETRY_WAIT} \<Longrightarrow> t_attempt_count t < t_max_attempts t"
    and x': "x_task_id x' = x_task_id x" "x_attempt x' = x_attempt x"
      "x_plan_id x' = x_plan_id x" "\<not> live x'"
  shows "rows_ok self (insert p' (P - {p})) (insert t' (T - {t})) (insert x' (X - {x}))"
proof (rule rows_okI)
  note D = rows_okD [OF inv]
  show "q = r" if "q \<in> insert p' (P - {p})" "r \<in> insert p' (P - {p})" "p_id q = p_id r" for q r
    using that D(1) p p'(1) by fastforce
  show "s = u" if "s \<in> insert t' (T - {t})" "u \<in> insert t' (T - {t})" "t_id s = t_id u" for s u
    using that D(2) t t'(1) by fastforce
  show "y = z" if "y \<in> insert x' (X - {x})" "z \<in> insert x' (X - {x})"
      "x_task_id y = x_task_id z" "x_attempt y = x_attempt z" for y z
    using that D(3) x x' by fastforce
  have att: "x_attempt x = t_attempt_count t"
    using D(6) [OF x] xt D(2) t by (auto simp: execution_ok_def)
  have tplan: "t_plan_id t = p_id p"
    using D(4) [OF p] cur D(2) t by (auto simp: plan_ok_def)
  show "plan_ok (insert t' (T - {t})) q" if "q \<in> insert p' (P - {p})" for q
  proof (cases "q = p'")
    case True then show ?thesis using p' by (auto simp: plan_ok_def)
  next
    case False
    with that have q: "q \<in> P" "q \<noteq> p" by auto
    have "t_plan_id t \<noteq> p_id q" using D(1) q p tplan by auto
    then show ?thesis using D(4) [OF q(1)]
      by (auto simp: plan_ok_def split: option.splits)
  qed
  show "task_ok self (insert p' (P - {p})) (insert x' (X - {x})) s"
    if "s \<in> insert t' (T - {t})" for s
  proof (cases "s = t'")
    case True
    have "attempt_limit self t' = attempt_limit self t" using t' by (simp add: attempt_limit_def)
    then show ?thesis using True D(5) [OF t] run t' retry by (auto simp: task_ok_def)
  next
    case False
    with that have s: "s \<in> T" "s \<noteq> t" by auto
    have "p_current_task_id p \<noteq> Some (t_id s)" using D(2) s t cur by auto
    moreover have "x_task_id x \<noteq> t_id s" using D(2) s t xt by auto
    ultimately show ?thesis using D(5) [OF s(1)] by (fastforce simp: task_ok_def)
  qed
  show "execution_ok (insert t' (T - {t})) y" if "y \<in> insert x' (X - {x})" for y
  proof (cases "y = x'")
    case True
    then show ?thesis using D(6) [OF x] D(2) t xt x' t'
      by (auto simp: execution_ok_def)
  next
    case False
    with that have y: "y \<in> X" "y \<noteq> x" by auto
    from D(6) [OF y(1)] obtain s where s: "s \<in> T" "t_id s = x_task_id y"
      "t_plan_id s = x_plan_id y" "1 \<le> x_attempt y" "x_attempt y \<le> t_attempt_count s"
      "live y \<Longrightarrow> t_status s = RUNNING \<and> x_attempt y = t_attempt_count s"
      by (auto simp: execution_ok_def)
    show ?thesis
    proof (cases "s = t")
      case True
      then have "\<not> live y" using s y D(3) [OF y(1) x] att xt by auto
      then show ?thesis using s t' True by (auto simp: execution_ok_def intro!: bexI [of _ t'])
    next
      case False
      then show ?thesis using s by (auto simp: execution_ok_def intro!: bexI [of _ s])
    qed
  qed
qed

text \<open>Move 4: a task that waits for its retry becomes pending.\<close>

lemma rows_ok_resume:
  assumes inv: "rows_ok self P T X" and t: "t \<in> T" and wait: "t_status t = RETRY_WAIT"
  shows "rows_ok self P (insert (t\<lparr>t_status := PENDING\<rparr>) (T - {t})) X"
proof (rule rows_okI)
  note D = rows_okD [OF inv]
  let ?t = "t\<lparr>t_status := PENDING\<rparr>"
  show "s = u" if "s \<in> insert ?t (T - {t})" "u \<in> insert ?t (T - {t})" "t_id s = t_id u" for s u
    using that D(2) t by fastforce
  show "plan_ok (insert ?t (T - {t})) q" if "q \<in> P" for q
    using D(4) [OF that] wait
    by (auto simp: plan_ok_def split: option.splits)
  have "attempt_limit self ?t = attempt_limit self t" by (simp add: attempt_limit_def)
  then show "task_ok self P X s" if "s \<in> insert ?t (T - {t})" for s
    using that D(5) t wait by (auto simp: task_ok_def)
  show "execution_ok (insert ?t (T - {t})) y" if "y \<in> X" for y
  proof -
    from D(6) [OF that] obtain s where s: "s \<in> T" "t_id s = x_task_id y"
      "t_plan_id s = x_plan_id y" "1 \<le> x_attempt y" "x_attempt y \<le> t_attempt_count s"
      "live y \<Longrightarrow> t_status s = RUNNING \<and> x_attempt y = t_attempt_count s"
      by (auto simp: execution_ok_def)
    then show ?thesis using wait
      by (cases "s = t") (auto simp: execution_ok_def intro!: bexI [of _ ?t] bexI [of _ s])
  qed
qed (use rows_okD [OF inv] in blast)+

section \<open>The moves on the database\<close>

lemma runtime_inv_rows:
  assumes "runtime_inv self db"
  shows "rows_ok self (set (plans db)) (set (tasks db)) (set (task_executions db))"
    and "distinct (map p_id (plans db))" and "distinct (map t_id (tasks db))"
    and "distinct (map x_id (task_executions db))"
  using assms by (auto simp: runtime_inv_def)

lemma fetched_rows:
  shows "plan_get_by_id k db = Some p \<Longrightarrow> p \<in> set (plans db) \<and> p_id p = k"
    and "task_get_by_id k db = Some t \<Longrightarrow> t \<in> set (tasks db) \<and> t_id t = k"
    and "execution_get_by_id k db = Some x \<Longrightarrow> x \<in> set (task_executions db) \<and> x_id x = k"
  by (auto simp: plan_get_by_id_def task_get_by_id_def execution_get_by_id_def
      dest: get_row_SomeD)

lemma inv_change_execution:
  assumes inv: "runtime_inv self db" and x: "execution_get_by_id (x_id x') db = Some x"
    and same: "x_task_id x' = x_task_id x" "x_attempt x' = x_attempt x"
      "x_plan_id x' = x_plan_id x" "live x' = live x"
    and db': "plans db' = plans db" "tasks db' = tasks db"
      "task_executions db' = put_row x_id x' (task_executions db)"
  shows "runtime_inv self db'"
proof -
  note R = runtime_inv_rows [OF inv]
  have "get_row x_id (x_id x') (task_executions db) = Some x"
    using x by (simp add: execution_get_by_id_def)
  from set_put_row [OF R(4) this] have
    "set (task_executions db') = insert x' (set (task_executions db) - {x})"
    by (simp add: db')
  moreover have "x \<in> set (task_executions db)" using x fetched_rows(3) by blast
  ultimately show ?thesis
    using rows_ok_change_execution [OF R(1) _ same] R db' by (simp add: runtime_inv_def)
qed

lemma inv_release:
  assumes inv: "runtime_inv self db"
    and p: "plan_get_by_id (p_id p') db = Some p"
    and t: "task_get_by_id (t_id t') db = Some t"
    and x: "execution_get_by_id (x_id x') db = Some x"
    and cur: "p_current_task_id p = Some (t_id t)" "t_status t = RUNNING"
      "x_task_id x = t_id t" "live x"
    and p': "p_current_task_id p' = None"
    and t': "t_plan_id t' = t_plan_id t"
      "t_capability_code t' = t_capability_code t" "t_status t' \<noteq> RUNNING"
      "t_attempt_count t' = t_attempt_count t"
      "t_status t' \<in> {DRAFT, PENDING, RETRY_WAIT} \<Longrightarrow> t_attempt_count t < t_max_attempts t"
    and x': "x_task_id x' = x_task_id x" "x_attempt x' = x_attempt x"
      "x_plan_id x' = x_plan_id x" "\<not> live x'"
    and db': "plans db' = put_row p_id p' (plans db)" "tasks db' = put_row t_id t' (tasks db)"
      "task_executions db' = put_row x_id x' (task_executions db)"
  shows "runtime_inv self db'"
proof -
  note R = runtime_inv_rows [OF inv]
  have "get_row p_id (p_id p') (plans db) = Some p" "get_row t_id (t_id t') (tasks db) = Some t"
    "get_row x_id (x_id x') (task_executions db) = Some x"
    using p t x by (simp_all add: plan_get_by_id_def task_get_by_id_def execution_get_by_id_def)
  from set_put_row [OF R(2) this(1)] set_put_row [OF R(3) this(2)] set_put_row [OF R(4) this(3)]
  have sets: "set (plans db') = insert p' (set (plans db) - {p})"
    "set (tasks db') = insert t' (set (tasks db) - {t})"
    "set (task_executions db') = insert x' (set (task_executions db) - {x})"
    by (simp_all add: db')
  have ids: "p_id p' = p_id p" "t_id t' = t_id t"
    using p t fetched_rows by metis+
  have "rows_ok self (set (plans db')) (set (tasks db')) (set (task_executions db'))"
    unfolding sets
    by (rule rows_ok_release [OF R(1)])
       (use p t x fetched_rows cur ids p' t' x' in \<open>blast | simp\<close>)+
  then show ?thesis using R db' by (simp add: runtime_inv_def)
qed

lemma inv_claim:
  assumes inv: "runtime_inv self db"
    and p: "plan_get_by_id (p_id p') db = Some p"
    and t: "task_get_by_id (t_id t') db = Some t"
    and idle: "p_current_task_id p = None" "t_plan_id t = p_id p" "t_status t = PENDING"
    and p': "p_current_task_id p' = Some (t_id t)" "p_status p' = PLAN_RUNNING"
    and t': "t_plan_id t' = t_plan_id t"
      "t_capability_code t' = t_capability_code t" "t_status t' = RUNNING"
      "t_attempt_count t' = t_attempt_count t + 1" "t_max_attempts t' \<le> attempt_limit self t"
    and x: "x_task_id x = t_id t" "x_plan_id x = t_plan_id t"
      "x_attempt x = t_attempt_count t + 1" "live x" "x_id x \<notin> x_id ` set (task_executions db)"
    and db': "plans db' = put_row p_id p' (plans db)" "tasks db' = put_row t_id t' (tasks db)"
      "task_executions db' = task_executions db @ [x]"
  shows "runtime_inv self db'"
proof -
  note R = runtime_inv_rows [OF inv]
  have "get_row p_id (p_id p') (plans db) = Some p" "get_row t_id (t_id t') (tasks db) = Some t"
    using p t by (simp_all add: plan_get_by_id_def task_get_by_id_def)
  from set_put_row [OF R(2) this(1)] set_put_row [OF R(3) this(2)]
  have sets: "set (plans db') = insert p' (set (plans db) - {p})"
    "set (tasks db') = insert t' (set (tasks db) - {t})"
    "set (task_executions db') = insert x (set (task_executions db))"
    by (simp_all add: db')
  have ids: "p_id p' = p_id p" "t_id t' = t_id t"
    using p t fetched_rows by metis+
  have "rows_ok self (set (plans db')) (set (tasks db')) (set (task_executions db'))"
    unfolding sets
    by (rule rows_ok_claim [OF R(1)])
       (use p t fetched_rows idle ids p' t' x in \<open>blast | simp\<close>)+
  then show ?thesis using R db' x by (simp add: runtime_inv_def)
qed

lemma inv_resume:
  assumes inv: "runtime_inv self db" and t: "task_get_by_id (t_id t) db = Some t"
    and wait: "t_status t = RETRY_WAIT"
  shows "runtime_inv self (task_save (t\<lparr>t_status := PENDING\<rparr>) db)"
proof -
  note R = runtime_inv_rows [OF inv]
  have "get_row t_id (t_id (t\<lparr>t_status := PENDING\<rparr>)) (tasks db) = Some t"
    using t by (simp add: task_get_by_id_def)
  from set_put_row [OF R(3) this] have
    "set (tasks (task_save (t\<lparr>t_status := PENDING\<rparr>) db)) =
      insert (t\<lparr>t_status := PENDING\<rparr>) (set (tasks db) - {t})"
    by (simp add: task_save_def)
  moreover have "t \<in> set (tasks db)" using t fetched_rows(2) by blast
  ultimately show ?thesis
    using rows_ok_resume [OF R(1) _ wait] R by (simp add: runtime_inv_def task_save_def)
qed

end
