(* ===== verification/Runtime_Safety.thy ===== *)
theory Runtime_Safety
  imports Runtime_Invariant
begin

text \<open>
  Every transaction of the task runtime keeps the runtime invariant; a worker whose token is no
  longer the one on record changes nothing; what each transaction does to the event tables.
\<close>

section \<open>Events recorded by a transaction\<close>

lemma record_inbox_tables:
  assumes "record_inbox now h ev db = Inr db'"
  shows "plans db' = plans db" "tasks db' = tasks db" "task_executions db' = task_executions db"
    "outbox db' = outbox db" "turns db' = turns db" "task_dependencies db' = task_dependencies db"
    "clarifications db' = clarifications db"
  using assms by (auto simp: record_inbox_def store_simps split: option.splits)

lemma record_inbox_exists:
  assumes "record_inbox now h (Some e) db = Inr db'"
  shows "inbox_exists ''task_runtime'' e db'"
  using assms by (auto simp: record_inbox_def store_simps inbox_exists_def)

lemma record_inbox_if_new_tables:
  assumes "record_inbox_if_new now h ev db = Inr db'"
  shows "plans db' = plans db" "tasks db' = tasks db" "task_executions db' = task_executions db"
    "outbox db' = outbox db" "turns db' = turns db"
  using assms record_inbox_tables
  by (auto simp: record_inbox_if_new_def split: option.splits if_splits)

lemma inv_record_inbox:
  "record_inbox now h ev db = Inr db' \<Longrightarrow> runtime_inv self db' = runtime_inv self db"
  by (rule runtime_inv_cong) (rule record_inbox_tables, assumption)+

lemma inv_record_inbox_if_new:
  "record_inbox_if_new now h ev db = Inr db' \<Longrightarrow> runtime_inv self db' = runtime_inv self db"
  by (rule runtime_inv_cong) (rule record_inbox_if_new_tables, assumption)+

lemma inv_outbox_add:
  "outbox_add e db = Inr db' \<Longrightarrow> runtime_inv self db' = runtime_inv self db"
  by (rule runtime_inv_cong) (auto simp: store_simps)

section \<open>Locked rows\<close>

lemma lock_execution_Inr:
  "lock_execution s db = Inr (p, t, x) \<longleftrightarrow>
     plan_get_by_id (s_plan_id s) db = Some p \<and> task_get_by_id (s_task_id s) db = Some t \<and>
     execution_get_by_id (s_execution_id s) db = Some x \<and>
     p_current_task_id p = Some (t_id t) \<and> t_status t = RUNNING \<and>
     x_status x = EXEC_RUNNING \<and> x_attempt x = s_attempt s \<and>
     x_operation_id x = s_operation_id s \<and> x_agent_run_id x = Some (s_agent_run_id s)"
  by (auto simp: lock_execution_def split: option.splits if_splits)

lemma assert_compensation_token_Inr:
  "assert_compensation_token s db = Inr (p, t, x) \<longleftrightarrow>
     plan_get_by_id (s_plan_id s) db = Some p \<and> task_get_by_id (s_task_id s) db = Some t \<and>
     execution_get_by_id (s_execution_id s) db = Some x \<and>
     p_current_task_id p = Some (t_id t) \<and> t_status t = RUNNING \<and>
     x_status x = COMPENSATION_REQUIRED \<and> x_attempt x = s_attempt s \<and>
     x_operation_id x = s_operation_id s"
  by (auto simp: assert_compensation_token_def split: option.splits if_splits)

lemmas token_simps = lock_execution_Inr assert_compensation_token_Inr

text \<open>
  The execution a snapshot names belongs to the snapshot's task.  The code does not check it: the
  execution id alone identifies the execution, and snapshots are only made by the claim.
\<close>

definition snapshot_ok :: "'a recovery_snapshot_scheme \<Rightarrow> db \<Rightarrow> bool" where
  "snapshot_ok s db \<longleftrightarrow>
     (\<forall>x. execution_get_by_id (s_execution_id s) db = Some x \<longrightarrow> x_task_id x = s_task_id s)"

section \<open>Completion, failure and compensation keep the invariant\<close>

lemma inv_releaseI:
  assumes "runtime_inv self db" "snapshot_ok s db"
    and "plan_get_by_id (s_plan_id s) db = Some p" "task_get_by_id (s_task_id s) db = Some t"
      "execution_get_by_id (s_execution_id s) db = Some x"
    and "p_current_task_id p = Some (t_id t)" "t_status t = RUNNING" "live x"
    and "p_id p' = p_id p" "p_current_task_id p' = None"
    and "t_id t' = t_id t" "t_plan_id t' = t_plan_id t"
      "t_capability_code t' = t_capability_code t" "t_status t' \<noteq> RUNNING"
      "t_attempt_count t' = t_attempt_count t"
      "t_status t' \<in> {DRAFT, PENDING, RETRY_WAIT} \<Longrightarrow> t_attempt_count t < t_max_attempts t"
    and "x_id x' = x_id x" "x_task_id x' = x_task_id x" "x_attempt x' = x_attempt x"
      "x_plan_id x' = x_plan_id x" "\<not> live x'"
    and "plans db' = put_row p_id p' (plans db)" "tasks db' = put_row t_id t' (tasks db)"
      "task_executions db' = put_row x_id x' (task_executions db)"
  shows "runtime_inv self db'"
proof -
  have "p_id p = s_plan_id s" "t_id t = s_task_id s" "x_id x = s_execution_id s"
    using assms(3-5) fetched_rows by blast+
  moreover have "x_task_id x = s_task_id s" using assms(2,5) by (simp add: snapshot_ok_def)
  ultimately show ?thesis
    by (intro inv_release [OF assms(1), of p' p t' t x' x]) (use assms in auto)
qed

lemma put_row_twice [table_simps]: "key a = key b \<Longrightarrow> put_row key b (put_row key a rows) = put_row key b rows"
  by (auto simp: put_row_def)

lemma complete_inv:
  assumes inv: "runtime_inv self db" "snapshot_ok s db"
    and step: "complete now u s out refs db = Inr ((), db')"
  shows "runtime_inv self db'"
proof -
  from step obtain p t x where l: "lock_execution s db = Inr (p, t, x)"
    by (auto simp: complete_def bind_eq_Inr)
  note step = step [unfolded complete_def l bind_simps Let_def prod.case]
  have "plans db' = put_row p_id (p\<lparr>p_current_task_id := None\<rparr>) (plans db) \<or>
      plans db' = put_row p_id (p\<lparr>p_current_task_id := None, p_status := PLAN_COMPLETED,
        p_completed_at := Some now\<rparr>) (plans db)"
    "tasks db' = put_row t_id (succeed_task now out t) (tasks db)"
    "task_executions db' = put_row x_id (succeed_execution now out refs x) (task_executions db)"
    using step
    by (auto simp: bind_eq_Inr store_simps plan_set_current_task_def table_simps split: if_splits)
  then show ?thesis
    using l by (elim disjE; intro inv_releaseI [OF inv])
      (auto simp: token_simps live_def succeed_task_def succeed_execution_def)
qed

text \<open>The tables after a failed or compensated attempt, whichever way the plan continues.\<close>

definition released :: "plan \<Rightarrow> task \<Rightarrow> execution \<Rightarrow> db \<Rightarrow> db \<Rightarrow> bool" where
  "released p t x' db db' \<longleftrightarrow>
     (\<exists>p' t'. p_id p' = p_id p \<and> p_current_task_id p' = None \<and> t_id t' = t_id t \<and>
        t_plan_id t' = t_plan_id t \<and> t_capability_code t' = t_capability_code t \<and>
        t_attempt_count t' = t_attempt_count t \<and> t_status t' \<noteq> RUNNING \<and>
        (t_status t' \<in> {DRAFT, PENDING, RETRY_WAIT} \<longrightarrow> t_attempt_count t < t_max_attempts t) \<and>
        plans db' = put_row p_id p' (plans db) \<and> tasks db' = put_row t_id t' (tasks db) \<and>
        task_executions db' = put_row x_id x' (task_executions db))"

lemma releasedI:
  assumes "plans db' = put_row p_id p' (plans db)" "tasks db' = put_row t_id t' (tasks db)"
    "task_executions db' = put_row x_id x' (task_executions db)"
    and "p_id p' = p_id p" "p_current_task_id p' = None" "t_id t' = t_id t"
      "t_plan_id t' = t_plan_id t" "t_capability_code t' = t_capability_code t"
      "t_attempt_count t' = t_attempt_count t" "t_status t' \<noteq> RUNNING"
      "t_status t' \<in> {DRAFT, PENDING, RETRY_WAIT} \<Longrightarrow> t_attempt_count t < t_max_attempts t"
  shows "released p t x' db db'"
  unfolding released_def using assms by blast

lemma released_inv:
  assumes rel: "released p t x' db db'" and inv: "runtime_inv self db" "snapshot_ok s db"
    and "plan_get_by_id (s_plan_id s) db = Some p" "task_get_by_id (s_task_id s) db = Some t"
      "execution_get_by_id (s_execution_id s) db = Some x"
    and "p_current_task_id p = Some (t_id t)" "t_status t = RUNNING" "live x"
    and "x_id x' = x_id x" "x_task_id x' = x_task_id x" "x_attempt x' = x_attempt x"
      "x_plan_id x' = x_plan_id x" "\<not> live x'"
  shows "runtime_inv self db'"
  using rel unfolding released_def
  by (elim exE conjE, intro inv_releaseI [OF inv]) (use assms(4-) in auto)

lemma fail_released:
  assumes step: "fail self now u s err db = Inr ((), db')"
    and l: "lock_execution s db = Inr (p, t, x)"
  shows "released p t (fail_execution now err x) db db'"
proof (cases "err_retryable err \<and> t_attempt_count t < t_max_attempts t")
  case True
  then show ?thesis using step
    by (intro releasedI [where p' = "plan_set_current_task p None" and
        t' = "note_failure now (Some (err_code err)) (Some (err_message err)) t
                \<lparr>t_status := RETRY_WAIT\<rparr>"])
      (auto simp: fail_def l Let_def bind_eq_Inr store_simps plan_set_current_task_def
        note_failure_def)
next
  case False
  then show ?thesis using step
    by (intro releasedI [where p' = "request_replan (plan_set_current_task p None)
          (Some (err_code err)) (Some (err_message err))" and
        t' = "note_failure now (Some (err_code err)) (Some (err_message err)) t
                \<lparr>t_status := failed_status (err_blocked err)\<rparr>"])
      (auto simp: fail_def l Let_def bind_eq_Inr store_simps plan_set_current_task_def
        note_failure_def request_replan_def table_simps)
qed

lemma complete_compensation_released:
  assumes step: "complete_compensation self now u s ev db = Inr (r, db')"
    and l: "assert_compensation_token s db = Inr (p, t, x)"
  shows "released p t (x\<lparr>x_status := COMPENSATED, x_completed_at := Some now\<rparr>) db db'"
proof (cases "x_retryable x = Some True \<and> t_attempt_count t < t_max_attempts t")
  case True
  then show ?thesis using step
    by (intro releasedI [where p' = "plan_set_current_task p None" and
        t' = "note_failure now (x_error_code x) (x_error_message x) t
                \<lparr>t_status := (if x_error_code x = Some ''execution_lease_expired''
                             then PENDING else RETRY_WAIT)\<rparr>"])
      (auto simp: complete_compensation_def l Let_def bind_eq_Inr store_simps record_inbox_tables
        plan_set_current_task_def note_failure_def)
next
  case False
  then show ?thesis using step
    by (intro releasedI [where p' = "request_replan (plan_set_current_task p None)
          (x_error_code x) (x_error_message x)" and
        t' = "note_failure now (x_error_code x) (x_error_message x) t
                \<lparr>t_status := failed_status (x_blocked x)\<rparr>"])
      (auto simp: complete_compensation_def l Let_def bind_eq_Inr store_simps record_inbox_tables
        plan_set_current_task_def note_failure_def request_replan_def table_simps)
qed

lemma fail_inv:
  assumes inv: "runtime_inv self db" "snapshot_ok s db"
    and step: "fail self now u s err db = Inr ((), db')"
  shows "runtime_inv self db'"
proof -
  from step obtain p t x where l: "lock_execution s db = Inr (p, t, x)"
    by (auto simp: fail_def bind_eq_Inr)
  show ?thesis
    using l by (intro released_inv [OF fail_released [OF step l] inv])
      (auto simp: token_simps live_def fail_execution_def)
qed

lemma complete_compensation_inv:
  assumes inv: "runtime_inv self db" "snapshot_ok s db"
    and step: "complete_compensation self now u s ev db = Inr (r, db')"
  shows "runtime_inv self db'"
proof -
  from step obtain p t x where l: "assert_compensation_token s db = Inr (p, t, x)"
    by (auto simp: complete_compensation_def bind_eq_Inr)
  show ?thesis
    using l by (intro released_inv [OF complete_compensation_released [OF step l] inv])
      (auto simp: token_simps live_def)
qed

lemma inv_save_execution:
  assumes "runtime_inv self db" "execution_get_by_id k db = Some x"
    and "x_id x' = x_id x" "x_task_id x' = x_task_id x" "x_attempt x' = x_attempt x"
      "x_plan_id x' = x_plan_id x" "live x' = live x"
  shows "runtime_inv self (execution_save x' db)"
  using assms fetched_rows(3) [OF assms(2)]
  by (intro inv_change_execution [OF assms(1)]) (auto simp: store_simps)

lemma require_compensation_inv:
  assumes inv: "runtime_inv self db" and step: "require_compensation s err db = Inr ((), db')"
  shows "runtime_inv self db'"
  using step inv
  by (auto simp: require_compensation_def bind_eq_Inr token_simps live_def
      elim!: inv_save_execution)

lemma begin_compensation_attempt_inv:
  assumes inv: "runtime_inv self db"
    and step: "begin_compensation_attempt now s db = Inr (n, db')"
  shows "runtime_inv self db'"
  using step inv
  by (auto simp: begin_compensation_attempt_def bind_eq_Inr token_simps live_def Let_def
      elim!: inv_save_execution)

lemma handle_compensation_failure_inv:
  assumes inv: "runtime_inv self db"
    and step: "handle_compensation_failure self now u s ev msg n db = Inr (r, db')"
  shows "runtime_inv self db'"
proof -
  from step obtain p t x where l: "assert_compensation_token s db = Inr (p, t, x)"
    by (auto simp: handle_compensation_failure_def bind_eq_Inr)
  then have "runtime_inv self (execution_save (x\<lparr>x_compensation_last_error := Some msg\<rparr>) db)"
    "runtime_inv self (execution_save
       (lock_compensation_row now (x\<lparr>x_compensation_last_error := Some msg\<rparr>)) db)"
    using inv
    by (auto simp: token_simps live_def lock_compensation_row_def elim!: inv_save_execution)
  then show ?thesis
    using step
    by (auto simp: handle_compensation_failure_def l Let_def bind_eq_Inr
        inv_record_inbox_if_new inv_outbox_add split: if_splits)
qed

section \<open>The claim keeps the invariant\<close>

lemma by_sequence_set [simp]: "set (by_sequence ts) = set ts"
  by (simp add: by_sequence_def)

lemma listed_tasks:
  "t \<in> set (task_list_by_plan_id_and_status pid st db) \<longleftrightarrow>
     t \<in> set (tasks db) \<and> t_plan_id t = pid \<and> t_status t = st"
  by (auto simp: task_list_by_plan_id_and_status_def)

lemma next_runnable_SomeD:
  assumes "task_get_next_runnable pid st su db = Some t"
  shows "t \<in> set (tasks db) \<and> t_plan_id t = pid \<and> t_status t = st \<and> dependencies_met su db t"
  using assms by (auto simp: task_get_next_runnable_def listed_tasks dest!: find_SomeD)

lemma distinct_listed:
  assumes "distinct (map t_id (tasks db))"
  shows "distinct (map t_id (task_list_by_plan_id_and_status pid st db))"
proof -
  have "distinct (map t_id (filter P (tasks db)))" for P
    using assms by (simp add: distinct_map_filter)
  then show ?thesis
    unfolding task_list_by_plan_id_and_status_def by_sequence_def
    by (metis (mono_tags, lifting) distinct_map distinct_sort set_sort)
qed

lemma task_get_in_set:
  "distinct (map t_id (tasks db)) \<Longrightarrow> t \<in> set (tasks db) \<Longrightarrow> task_get_by_id (t_id t) db = Some t"
  by (simp add: task_get_by_id_def get_row_in_set)

lemma task_set_status_tables [store_simps]:
  "plans (task_set_status ts st db) = plans db"
  "task_executions (task_set_status ts st db) = task_executions db"
  "outbox (task_set_status ts st db) = outbox db" "inbox (task_set_status ts st db) = inbox db"
  "turns (task_set_status ts st db) = turns db"
  "task_dependencies (task_set_status ts st db) = task_dependencies db"
  by (induction ts arbitrary: db) (simp_all add: store_simps)

lemma inv_resume_all:
  assumes "runtime_inv self db" "distinct (map t_id ts)"
    and "\<And>t. t \<in> set ts \<Longrightarrow> task_get_by_id (t_id t) db = Some t \<and> t_status t = RETRY_WAIT"
  shows "runtime_inv self (task_set_status ts PENDING db)"
  using assms
proof (induction ts arbitrary: db)
  case (Cons t ts)
  have "runtime_inv self (task_save (t\<lparr>t_status := PENDING\<rparr>) db)"
    using Cons.prems by (intro inv_resume) auto
  moreover have "task_get_by_id (t_id s) (task_save (t\<lparr>t_status := PENDING\<rparr>) db) = Some s"
    if "s \<in> set ts" for s
  proof -
    have "t_id t \<notin> t_id ` set ts" using Cons.prems(2) by simp
    then have "t_id s \<noteq> t_id t" using that by (metis imageI)
    then show ?thesis using Cons.prems(3) that by (subst task_repo.fetch_save_other) auto
  qed
  ultimately show ?case using Cons by auto
qed simp

lemma inv_resume_waiting:
  assumes "runtime_inv self db"
  shows "runtime_inv self
    (task_set_status (task_list_by_plan_id_and_status pid RETRY_WAIT db) PENDING db)"
  using assms runtime_inv_rows [OF assms]
  by (intro inv_resume_all distinct_listed) (auto simp: listed_tasks task_get_in_set)

lemma recover_stale_inv:
  assumes inv: "runtime_inv self db"
    and step: "recover_stale_execution self now p tid db = Inr (rc, db')"
  shows "runtime_inv self db'"
proof -
  note R = runtime_inv_rows [OF inv]
  have "runtime_inv self (execution_save (expire_lease x) db)"
    if "execution_get_latest_by_task k db = Some x" "x_status x = EXEC_RUNNING" for k x
  proof -
    have "x \<in> set (task_executions db)"
      using that latest_by_SomeD by (fastforce simp: execution_get_latest_by_task_def)
    then have "execution_get_by_id (x_id x) db = Some x"
      using R(4) by (simp add: execution_get_by_id_def get_row_in_set)
    from inv_save_execution [OF inv this] that(2) show ?thesis
      by (simp add: expire_lease_def live_def)
  qed
  then show ?thesis using step inv
    by (auto simp: recover_stale_execution_def bind_eq_Inr split: option.splits if_splits)
qed

lemma leave_inv:
  assumes "leave now h ev db0 r db = Inr (r', db')"
    and "runtime_inv self db0" "runtime_inv self db"
  shows "runtime_inv self db'"
  using assms by (auto simp: leave_def bind_eq_Inr inv_record_inbox split: if_splits)

lemma claim_pending_inv:
  assumes inv: "runtime_inv self db"
    and p: "plan_get_by_id pid db = Some p" and idle: "p_current_task_id p = None"
    and t: "task_get_by_id (t_id t) db = Some t" "t_plan_id t = p_id p" "t_status t = PENDING"
    and step: "claim_pending self now u p t ev db = Inr (r, db')"
  shows "runtime_inv self db'"
proof -
  from step obtain c cid where c: "require_capability (capabilities self) (t_capability_code t) = Inr c"
    and cid: "turn_conversation_id db (p_turn_id p) = Inr cid"
    by (auto simp: claim_pending_def bind_eq_Inr)
  have pid: "p_id p = pid" using p fetched_rows by blast
  let ?p = "plan_set_current_task (start_plan now p) (Some (t_id t))"
  let ?t = "start_task c now t"
  let ?x = "new_execution c now u ?p ?t"
  from step have db': "plans db' = put_row p_id ?p (plans db)" "tasks db' = put_row t_id ?t (tasks db)"
    "task_executions db' = task_executions db @ [?x]"
    and fresh: "x_id ?x \<notin> x_id ` set (task_executions db)"
    by (auto simp: claim_pending_def c cid bind_eq_Inr Let_def store_simps record_inbox_tables
        start_task_def)
  show ?thesis
    by (rule inv_claim [OF inv _ _ idle _ _ _ _ _ _ _ _ _ _ _ _ _ fresh db', of t])
      (use p t c pid in \<open>simp_all add: plan_set_current_task_def start_plan_def start_task_def
          new_execution_def live_def attempt_limit_def\<close>)
qed

lemma claim_next_ready_inv:
  assumes inv: "runtime_inv self db"
    and p: "plan_get_by_id pid db = Some p" and idle: "p_current_task_id p = None"
    and step: "claim_next_ready self now u p ev db = Inr (r, db')"
  shows "runtime_inv self db'"
proof -
  let ?db = "task_set_status (task_list_by_plan_id_and_status (p_id p) RETRY_WAIT db) PENDING db"
  have inv': "runtime_inv self ?db" using inv by (rule inv_resume_waiting)
  have p': "plan_get_by_id pid ?db = Some p"
    using p by (simp add: plan_get_by_id_def store_simps)
  show ?thesis
  proof (cases "task_get_next_runnable (p_id p) PENDING SUCCEEDED ?db")
    case None
    then show ?thesis using step inv inv'
      by (auto simp: claim_next_ready_def Let_def bind_eq_Inr inv_record_inbox split: if_splits)
  next
    case (Some t)
    from next_runnable_SomeD [OF this] have "t \<in> set (tasks ?db)" "t_plan_id t = p_id p"
      "t_status t = PENDING" by auto
    moreover from this(1) have "task_get_by_id (t_id t) ?db = Some t"
      using task_get_in_set runtime_inv_rows [OF inv'] by blast
    ultimately show ?thesis
      using claim_pending_inv [OF inv' p' idle] step Some
      by (simp add: claim_next_ready_def Let_def)
  qed
qed

lemma claim_current_inv:
  assumes inv: "runtime_inv self db"
    and step: "claim_current self now u p tid ev cx co db = Inr (r, db')"
  shows "runtime_inv self db'"
proof -
  from step obtain rc db1 where rc: "recover_stale_execution self now p tid db = Inr (rc, db1)"
    by (auto simp: claim_current_def bind_eq_Inr)
  have "runtime_inv self db1" using recover_stale_inv [OF inv rc] .
  then show ?thesis using step inv
    by (auto simp: claim_current_def rc split: option.splits if_splits elim: leave_inv)
qed

lemma claim_next_inv:
  assumes inv: "runtime_inv self db"
    and step: "claim_next self now u pid ev cx co db = Inr (r, db')"
  shows "runtime_inv self db'"
  using step inv
  by (auto simp: claim_next_def split: option.splits if_splits
      elim: leave_inv claim_current_inv claim_next_ready_inv)

end
