(* ===== verification/Runtime_Steps.thy ===== *)
theory Runtime_Steps
  imports Runtime_Safety
begin

text \<open>
  The runtime as a state machine: the database and the snapshots that workers hold.  Any number
  of workers claim, complete, fail and compensate in any order, at any clock readings, with any
  delivered event; a worker may vanish at any moment.  The runtime invariant, the life cycle of
  an execution and what a held snapshot guarantees are shown for every reachable state.
\<close>

section \<open>States and steps\<close>

record runtime_state =
  store :: db
  held_tasks :: "task_snapshot set"
  held_recoveries :: "recovery_snapshot set"

definition compensable :: "runtime_state \<Rightarrow> recovery_snapshot set" where
  "compensable \<sigma> = held_recoveries \<sigma> \<union> recovery_snapshot.truncate ` held_tasks \<sigma>"

inductive rt_step :: "service \<Rightarrow> runtime_state \<Rightarrow> runtime_state \<Rightarrow> bool" for self where
  claim: "claim_next self now u pid ev cx co (store \<sigma>) = Inr (r, db') \<Longrightarrow>
    rt_step self \<sigma> (\<sigma>\<lparr>store := db', held_tasks := held_tasks \<sigma> \<union> set_option (claimed_task r),
      held_recoveries := held_recoveries \<sigma> \<union> set_option (recovery r)\<rparr>)"
| complete: "s \<in> held_tasks \<sigma> \<Longrightarrow> complete now u s out refs (store \<sigma>) = Inr ((), db') \<Longrightarrow>
    rt_step self \<sigma> (\<sigma>\<lparr>store := db'\<rparr>)"
| fail: "s \<in> held_tasks \<sigma> \<Longrightarrow> fail self now u s err (store \<sigma>) = Inr ((), db') \<Longrightarrow>
    rt_step self \<sigma> (\<sigma>\<lparr>store := db'\<rparr>)"
| require_compensation: "s \<in> held_tasks \<sigma> \<Longrightarrow>
    require_compensation s err (store \<sigma>) = Inr ((), db') \<Longrightarrow>
    rt_step self \<sigma> (\<sigma>\<lparr>store := db'\<rparr>)"
| begin_compensation: "c \<in> compensable \<sigma> \<Longrightarrow>
    begin_compensation_attempt now c (store \<sigma>) = Inr (n, db') \<Longrightarrow>
    rt_step self \<sigma> (\<sigma>\<lparr>store := db'\<rparr>)"
| compensation_failed: "c \<in> compensable \<sigma> \<Longrightarrow>
    handle_compensation_failure self now u c ev msg n (store \<sigma>) = Inr (res, db') \<Longrightarrow>
    rt_step self \<sigma> (\<sigma>\<lparr>store := db'\<rparr>)"
| compensated: "c \<in> compensable \<sigma> \<Longrightarrow>
    complete_compensation self now u c ev (store \<sigma>) = Inr (res, db') \<Longrightarrow>
    rt_step self \<sigma> (\<sigma>\<lparr>store := db'\<rparr>)"
| crash: "T \<subseteq> held_tasks \<sigma> \<Longrightarrow> R \<subseteq> held_recoveries \<sigma> \<Longrightarrow>
    rt_step self \<sigma> (\<sigma>\<lparr>held_tasks := T, held_recoveries := R\<rparr>)"

inductive reachable :: "service \<Rightarrow> db \<Rightarrow> runtime_state \<Rightarrow> bool" for self db0 where
  start: "reachable self db0 \<lparr>store = db0, held_tasks = {}, held_recoveries = {}\<rparr>"
| step: "reachable self db0 \<sigma> \<Longrightarrow> rt_step self \<sigma> \<sigma>' \<Longrightarrow> reachable self db0 \<sigma>'"

text \<open>A task snapshot and the part of it that compensation uses act alike.\<close>

lemma truncate_fields [simp]:
  "s_task_id (recovery_snapshot.truncate s) = s_task_id s"
  "s_plan_id (recovery_snapshot.truncate s) = s_plan_id s"
  "s_conversation_id (recovery_snapshot.truncate s) = s_conversation_id s"
  "s_attempt (recovery_snapshot.truncate s) = s_attempt s"
  "s_execution_id (recovery_snapshot.truncate s) = s_execution_id s"
  "s_operation_id (recovery_snapshot.truncate s) = s_operation_id s"
  by (simp_all add: recovery_snapshot.truncate_def)

lemma assert_token_truncate:
  "assert_compensation_token (recovery_snapshot.truncate s) db = assert_compensation_token s db"
  unfolding assert_compensation_token_def truncate_fields by (rule refl)

lemma compensation_truncate:
  "begin_compensation_attempt now (recovery_snapshot.truncate s) db =
     begin_compensation_attempt now s db"
  "handle_compensation_failure self now u (recovery_snapshot.truncate s) ev msg n db =
     handle_compensation_failure self now u s ev msg n db"
  "complete_compensation self now u (recovery_snapshot.truncate s) ev db =
     complete_compensation self now u s ev db"
  unfolding begin_compensation_attempt_def handle_compensation_failure_def
    complete_compensation_def compensation_payload_def assert_token_truncate truncate_fields
  by (rule refl)+

section \<open>How a transaction changes the executions\<close>

text \<open>
  The life cycle of an execution.  \<open>advances\<close> relates the executions before and after a step:
  none disappears or changes its identity, and its status follows the life cycle.
\<close>

fun next_status :: "execution_status \<Rightarrow> execution_status list" where
  "next_status EXEC_RUNNING = [EXEC_RUNNING, COMPENSATION_REQUIRED, EXEC_SUCCEEDED, EXEC_FAILED]"
| "next_status COMPENSATION_REQUIRED = [COMPENSATION_REQUIRED, COMPENSATION_LOCKED, COMPENSATED]"
| "next_status s = [s]"

definition advances :: "db \<Rightarrow> db \<Rightarrow> bool" where
  "advances db db' \<longleftrightarrow>
     (\<forall>x\<in>set (task_executions db). \<exists>x'\<in>set (task_executions db').
        x_id x' = x_id x \<and> x_task_id x' = x_task_id x \<and> x_attempt x' = x_attempt x \<and>
        x_operation_id x' = x_operation_id x \<and>
        x_status x' \<in> set (next_status (x_status x)))"

lemma next_status_refl [simp]: "s \<in> set (next_status s)"
  by (cases s) auto

lemma advances_refl: "task_executions db' = task_executions db \<Longrightarrow> advances db db'"
  by (auto simp: advances_def)

lemma advances_append: "task_executions db' = task_executions db @ xs \<Longrightarrow> advances db db'"
  by (auto simp: advances_def)

lemma advances_put:
  assumes "runtime_inv self db" and "execution_get_by_id k db = Some x"
    and "task_executions db' = put_row x_id x' (task_executions db)"
    and "x_id x' = x_id x" "x_task_id x' = x_task_id x" "x_attempt x' = x_attempt x"
      "x_operation_id x' = x_operation_id x" "x_status x' \<in> set (next_status (x_status x))"
  shows "advances db db'"
proof -
  have "get_row x_id (x_id x') (task_executions db) = Some x"
    using assms(2,4) fetched_rows(3) by (auto simp: execution_get_by_id_def)
  from set_put_row [OF runtime_inv_rows(4) [OF assms(1)] this] assms(3)
  have "set (task_executions db') = insert x' (set (task_executions db) - {x})" by simp
  then show ?thesis using assms(4-) unfolding advances_def
    by (metis DiffI insertCI next_status_refl singletonD)
qed

lemma complete_advances:
  assumes inv: "runtime_inv self db" and step: "complete now u s out refs db = Inr ((), db')"
  shows "advances db db'"
proof -
  from step obtain p t x where l: "lock_execution s db = Inr (p, t, x)"
    by (auto simp: complete_def bind_eq_Inr)
  have eq: "task_executions db' = put_row x_id (succeed_execution now out refs x) (task_executions db)"
    using step
    by (auto simp: complete_def l Let_def bind_eq_Inr store_simps split: if_splits)
  show ?thesis using l by (intro advances_put [OF inv _ eq, of "s_execution_id s" x]) (auto simp: token_simps succeed_execution_def)
qed

lemma fail_advances:
  assumes inv: "runtime_inv self db" and step: "fail self now u s err db = Inr ((), db')"
  shows "advances db db'"
proof -
  from step obtain p t x where l: "lock_execution s db = Inr (p, t, x)"
    by (auto simp: fail_def bind_eq_Inr)
  from fail_released [OF step l]
  have eq: "task_executions db' = put_row x_id (fail_execution now err x) (task_executions db)"
    by (auto simp: released_def)
  show ?thesis using l by (intro advances_put [OF inv _ eq, of "s_execution_id s" x]) (auto simp: token_simps fail_execution_def)
qed

lemma complete_compensation_advances:
  assumes inv: "runtime_inv self db"
    and step: "complete_compensation self now u s ev db = Inr (r, db')"
  shows "advances db db'"
proof -
  from step obtain p t x where l: "assert_compensation_token s db = Inr (p, t, x)"
    by (auto simp: complete_compensation_def bind_eq_Inr)
  from complete_compensation_released [OF step l]
  have eq: "task_executions db' =
      put_row x_id (x\<lparr>x_status := COMPENSATED, x_completed_at := Some now\<rparr>) (task_executions db)"
    by (auto simp: released_def)
  show ?thesis using l by (intro advances_put [OF inv _ eq, of "s_execution_id s" x]) (auto simp: token_simps)
qed

lemma advances_save:
  assumes "runtime_inv self db" and "execution_get_by_id k db = Some x"
    and "x_id x' = x_id x" "x_task_id x' = x_task_id x" "x_attempt x' = x_attempt x"
      "x_operation_id x' = x_operation_id x" "x_status x' \<in> set (next_status (x_status x))"
  shows "advances db (execution_save x' db)"
  using assms by (intro advances_put [OF assms(1,2)]) (simp_all add: store_simps)

lemma advances_cong:
  "task_executions db2 = task_executions db1 \<Longrightarrow> advances db db2 = advances db db1"
  by (simp add: advances_def)

lemma require_compensation_advances:
  assumes inv: "runtime_inv self db" and step: "require_compensation s err db = Inr ((), db')"
  shows "advances db db'"
  using step inv
  by (auto simp: require_compensation_def bind_eq_Inr token_simps intro!: advances_save)

lemma begin_compensation_advances:
  assumes inv: "runtime_inv self db"
    and step: "begin_compensation_attempt now s db = Inr (n, db')"
  shows "advances db db'"
  using step inv
  by (auto simp: begin_compensation_attempt_def bind_eq_Inr token_simps Let_def
      intro!: advances_save)

lemma handle_compensation_failure_advances:
  assumes inv: "runtime_inv self db"
    and step: "handle_compensation_failure self now u s ev msg n db = Inr (r, db')"
  shows "advances db db'"
proof -
  from step obtain p t x where l: "assert_compensation_token s db = Inr (p, t, x)"
    by (auto simp: handle_compensation_failure_def bind_eq_Inr)
  let ?x = "x\<lparr>x_compensation_last_error := Some msg\<rparr>"
  have "task_executions db' = task_executions (execution_save ?x db) \<or>
      task_executions db' = task_executions (execution_save (lock_compensation_row now ?x) db)"
    using step by (auto simp: handle_compensation_failure_def l Let_def bind_eq_Inr store_simps
        record_inbox_if_new_tables split: if_splits)
  moreover have "advances db (execution_save ?x db)"
    "advances db (execution_save (lock_compensation_row now ?x) db)"
    using l by (auto simp: token_simps lock_compensation_row_def intro!: advances_save [OF inv])
  ultimately show ?thesis using advances_cong by blast
qed

lemma recover_stale_advances:
  assumes inv: "runtime_inv self db"
    and step: "recover_stale_execution self now p tid db = Inr (rc, db')"
  shows "advances db db'"
proof -
  note R = runtime_inv_rows [OF inv]
  have "advances db (execution_save (expire_lease x) db)"
    if "execution_get_latest_by_task k db = Some x" "x_status x = EXEC_RUNNING" for k x
  proof -
    have "x \<in> set (task_executions db)"
      using that latest_by_SomeD by (fastforce simp: execution_get_latest_by_task_def)
    then have "execution_get_by_id (x_id x) db = Some x"
      using R(4) by (simp add: execution_get_by_id_def get_row_in_set)
    from advances_save [OF inv this] that(2) show ?thesis
      by (simp add: expire_lease_def)
  qed
  then show ?thesis using step
    by (auto simp: recover_stale_execution_def bind_eq_Inr advances_refl
        split: option.splits if_splits)
qed

lemma leave_executions:
  "leave now h ev db0 r db = Inr (r', db') \<Longrightarrow>
     task_executions db' = task_executions db \<or> task_executions db' = task_executions db0"
  by (auto simp: leave_def bind_eq_Inr record_inbox_tables)

lemma claim_next_ready_executions:
  assumes "claim_next_ready self now u p ev db = Inr (r, db')"
  shows "\<exists>xs. task_executions db' = task_executions db @ xs"
  using assms
  by (auto simp: claim_next_ready_def claim_pending_def Let_def bind_eq_Inr store_simps
      record_inbox_tables split: option.splits if_splits)

lemma claim_next_advances:
  assumes inv: "runtime_inv self db"
    and step: "claim_next self now u pid ev cx co db = Inr (r, db')"
  shows "advances db db'"
proof -
  have leave: "advances db db'" if "leave now h ev db c db = Inr (r, db')" for c h
    using leave_executions [OF that] by (auto intro: advances_refl)
  have current: "advances db db'" if "claim_current self now u p tid ev cx co db = Inr (r, db')" for p tid
  proof -
    from that obtain rc db1 where rc: "recover_stale_execution self now p tid db = Inr (rc, db1)"
      by (auto simp: claim_current_def bind_eq_Inr)
    note a = recover_stale_advances [OF inv rc]
    have "task_executions db' = task_executions db1 \<or> task_executions db' = task_executions db"
      using that by (auto simp: claim_current_def rc split: option.splits if_splits
          dest: leave_executions)
    then show ?thesis using a advances_cong advances_refl by metis
  qed
  show ?thesis using step
    by (auto simp: claim_next_def advances_refl split: option.splits if_splits
        intro: leave current dest!: claim_next_ready_executions advances_append)
qed

section \<open>Held snapshots\<close>

definition issued :: "db \<Rightarrow> 'a recovery_snapshot_scheme \<Rightarrow> bool" where
  "issued db s \<longleftrightarrow>
     (\<exists>x\<in>set (task_executions db). x_id x = s_execution_id s \<and> x_task_id x = s_task_id s \<and>
        x_attempt x = s_attempt s \<and> x_operation_id x = s_operation_id s)"

lemma issued_advances: "issued db s \<Longrightarrow> advances db db' \<Longrightarrow> issued db' s"
  unfolding issued_def advances_def by metis

lemma issued_snapshot_ok: "runtime_inv self db \<Longrightarrow> issued db s \<Longrightarrow> snapshot_ok s db"
  by (auto simp: issued_def snapshot_ok_def execution_get_by_id_def dest!: runtime_inv_rows(4))
    (metis get_row_in_set option.inject)

lemma recovery_snapshot_of_fields:
  assumes "recovery_snapshot_of db p t x = Inr r"
  shows "s_execution_id r = x_id x" "s_task_id r = t_id t" "s_attempt r = x_attempt x"
    "s_operation_id r = x_operation_id x" "s_plan_id r = p_id p"
  using assms by (auto simp: recovery_snapshot_of_def bind_eq_Inr split: option.splits)

lemma expire_lease_ids [simp]:
  "x_id (expire_lease x) = x_id x" "x_task_id (expire_lease x) = x_task_id x"
  "x_attempt (expire_lease x) = x_attempt x" "x_operation_id (expire_lease x) = x_operation_id x"
  by (simp_all add: expire_lease_def)

lemma recover_stale_issued:
  assumes step: "recover_stale_execution self now p tid db = Inr (Some c, db')"
    and r: "recovery c = Some r"
  shows "issued db' r"
proof -
  from step r obtain t x x' where t: "task_get_by_id tid db = Some t"
    and x: "execution_get_latest_by_task (t_id t) db = Some x"
    and r': "recovery_snapshot_of db p t x' = Inr r"
    and alt: "x' = x \<and> db' = db \<or> x' = expire_lease x \<and> db' = execution_save x' db"
    by (auto simp: recover_stale_execution_def bind_eq_Inr recovery_claim_def
        split: option.splits if_splits)
  have x_in: "x \<in> set (task_executions db)" "x_task_id x = t_id t"
    using x latest_by_SomeD by (fastforce simp: execution_get_latest_by_task_def)+
  from x_in(1) have "expire_lease x \<in> set (put_row x_id (expire_lease x) (task_executions db))"
    by (intro in_put_row_same) auto
  with alt x_in have "x' \<in> set (task_executions db')" "x_task_id x' = t_id t"
    by (auto simp: store_simps)
  then show ?thesis using recovery_snapshot_of_fields [OF r'] unfolding issued_def by auto
qed

lemma claim_next_issued:
  assumes step: "claim_next self now u pid ev cx co db = Inr (r, db')"
  shows "recovery r = Some rec \<Longrightarrow> issued db' rec"
    and "claimed_task r = Some s \<Longrightarrow> issued db' s"
proof -
  have none: "recovery c = None \<and> claimed_task c = None" if "leave now h ev db c0 d = Inr (c, db')"
    and "c0 = claim_of oc" for h c0 c oc d
    using that by (auto simp: leave_def bind_eq_Inr claim_of_def)
  have ready: "recovery r = None \<and> (\<forall>s. claimed_task r = Some s \<longrightarrow> issued db' s)"
    if "claim_next_ready self now u p ev db = Inr (r, db')" for p
    using that
    by (auto simp: claim_next_ready_def claim_pending_def Let_def bind_eq_Inr claim_of_def
        store_simps record_inbox_tables issued_def new_execution_def claim_snapshot_def
        start_task_def plan_set_current_task_def split: option.splits if_splits)
  have current: "claimed_task r = None \<and> (\<forall>rec. recovery r = Some rec \<longrightarrow> issued db' rec)"
    if cur: "claim_current self now u p tid ev cx co db = Inr (r, db')" for p tid
  proof -
    from cur obtain rc db1 where rc: "recover_stale_execution self now p tid db = Inr (rc, db1)"
      by (auto simp: claim_current_def bind_eq_Inr)
    have rec: "claimed_task c = None" if "rc = Some c" for c
      using rc that by (auto simp: recover_stale_execution_def bind_eq_Inr recovery_claim_def
          split: option.splits if_splits)
    have unchanged: "db1 = db" if "rc = Some c" "outcome c = CompensationLocked" for c
      using rc that by (auto simp: recover_stale_execution_def bind_eq_Inr recovery_claim_def
          split: option.splits if_splits)
    have "r = claim_of AlreadyRunning \<or> r = claim_of Terminal \<or>
        rc = Some r \<and> task_executions db' = task_executions db1"
      using cur unchanged
      by (auto simp: claim_current_def rc leave_def bind_eq_Inr record_inbox_tables
          split: option.splits if_splits)
    then show ?thesis
    proof (elim disjE conjE)
      assume "rc = Some r" "task_executions db' = task_executions db1"
      then show ?thesis using rec recover_stale_issued rc by (fastforce simp: issued_def)
    qed (simp_all add: claim_of_def)
  qed
  show "recovery r = Some rec \<Longrightarrow> issued db' rec" "claimed_task r = Some s \<Longrightarrow> issued db' s"
    using step ready current none
    by (auto simp: claim_next_def claim_of_def split: option.splits if_splits)
qed

end
