(* ===== verification/Runtime_Properties.thy ===== *)
theory Runtime_Properties
  imports Runtime_Steps
begin

text \<open>
  What the task runtime guarantees in every reachable state: the invariant and its consequences
  (one live execution per plan, bounded attempts), the life cycle of executions, rejection of
  stale workers, once-only consumption of events, and the choice the claim makes.
\<close>

section \<open>Steps keep the invariant\<close>

definition state_ok :: "service \<Rightarrow> runtime_state \<Rightarrow> bool" where
  "state_ok self \<sigma> \<longleftrightarrow>
     runtime_inv self (store \<sigma>) \<and> (\<forall>s\<in>held_tasks \<sigma>. issued (store \<sigma>) s) \<and>
     (\<forall>r\<in>held_recoveries \<sigma>. issued (store \<sigma>) r)"

lemma issued_truncate [simp]: "issued db (recovery_snapshot.truncate s) = issued db s"
  by (simp add: issued_def)

lemma state_ok_compensable: "state_ok self \<sigma> \<Longrightarrow> c \<in> compensable \<sigma> \<Longrightarrow> issued (store \<sigma>) c"
  by (auto simp: state_ok_def compensable_def)

lemma state_ok_store:
  assumes ok: "state_ok self \<sigma>" and "runtime_inv self db'" "advances (store \<sigma>) db'"
  shows "state_ok self (\<sigma>\<lparr>store := db'\<rparr>) \<and> advances (store \<sigma>) (store (\<sigma>\<lparr>store := db'\<rparr>))"
  using assms by (auto simp: state_ok_def intro: issued_advances)

lemma state_ok_held:
  assumes "state_ok self \<sigma>"
  shows "runtime_inv self (store \<sigma>)"
    and "s \<in> held_tasks \<sigma> \<Longrightarrow> snapshot_ok s (store \<sigma>)"
    and "c \<in> compensable \<sigma> \<Longrightarrow> snapshot_ok c (store \<sigma>)"
  using assms by (auto simp: state_ok_def intro: issued_snapshot_ok state_ok_compensable [OF assms])

lemma rt_step_ok:
  assumes "rt_step self \<sigma> \<sigma>'" "state_ok self \<sigma>"
  shows "state_ok self \<sigma>' \<and> advances (store \<sigma>) (store \<sigma>')"
  using assms
proof (cases rule: rt_step.cases)
  case (claim now u pid ev cx co r db')
  have inv: "runtime_inv self (store \<sigma>)" using assms(2) by (simp add: state_ok_def)
  note a = claim_next_advances [OF inv claim(2)]
  from claim_next_inv [OF inv claim(2)] a assms(2) claim_next_issued [OF claim(2)]
  have "state_ok self \<sigma>'"
    by (auto simp: state_ok_def claim(1) dest: issued_advances)
  with a show ?thesis by (simp add: claim(1))
next
  case (crash T R)
  then show ?thesis using assms(2) by (auto simp: state_ok_def advances_refl)
next
  note held = state_ok_held [OF assms(2)]
  case (complete s now u out refs db')
  show ?thesis unfolding complete(1)
    by (rule state_ok_store [OF assms(2) complete_inv [OF held(1) held(2) [OF complete(2)] complete(3)]
          complete_advances [OF held(1) complete(3)]])
next
  note held = state_ok_held [OF assms(2)]
  case (fail s now u err db')
  show ?thesis unfolding fail(1)
    by (rule state_ok_store [OF assms(2) fail_inv [OF held(1) held(2) [OF fail(2)] fail(3)]
          fail_advances [OF held(1) fail(3)]])
next
  note held = state_ok_held [OF assms(2)]
  case (require_compensation s err db')
  show ?thesis unfolding require_compensation(1)
    by (rule state_ok_store [OF assms(2) require_compensation_inv [OF held(1) require_compensation(3)]
          require_compensation_advances [OF held(1) require_compensation(3)]])
next
  note held = state_ok_held [OF assms(2)]
  case (begin_compensation c now n db')
  show ?thesis unfolding begin_compensation(1)
    by (rule state_ok_store [OF assms(2) begin_compensation_attempt_inv [OF held(1) begin_compensation(3)]
          begin_compensation_advances [OF held(1) begin_compensation(3)]])
next
  note held = state_ok_held [OF assms(2)]
  case (compensation_failed c now u ev msg n res db')
  show ?thesis unfolding compensation_failed(1)
    by (rule state_ok_store [OF assms(2) handle_compensation_failure_inv [OF held(1) compensation_failed(3)]
          handle_compensation_failure_advances [OF held(1) compensation_failed(3)]])
next
  note held = state_ok_held [OF assms(2)]
  case (compensated c now u ev res db')
  show ?thesis unfolding compensated(1)
    by (rule state_ok_store [OF assms(2) complete_compensation_inv [OF held(1) held(3) [OF compensated(2)] compensated(3)]
          complete_compensation_advances [OF held(1) compensated(3)]])
qed

lemma reachable_ok:
  assumes "reachable self db0 \<sigma>" "runtime_inv self db0"
  shows "state_ok self \<sigma>"
  using assms by (induction) (auto simp: state_ok_def dest: rt_step_ok [unfolded state_ok_def])

text \<open>Facts that hold between a state and every later one.\<close>

lemma rt_steps_ok:
  assumes "(rt_step self)\<^sup>*\<^sup>* \<sigma> \<sigma>'" "state_ok self \<sigma>"
  shows "state_ok self \<sigma>'"
  using assms by (induction) (auto dest: rt_step_ok)

definition finished :: "execution_status \<Rightarrow> bool" where
  "finished s \<longleftrightarrow> s \<in> {COMPENSATION_LOCKED, COMPENSATED, EXEC_SUCCEEDED, EXEC_FAILED}"

lemma next_status_finished: "finished s \<Longrightarrow> next_status s = [s]"
  by (cases s) (auto simp: finished_def)

lemma next_status_not_running: "s' \<in> set (next_status s) \<Longrightarrow> s \<noteq> EXEC_RUNNING \<Longrightarrow> s' \<noteq> EXEC_RUNNING"
  by (cases s) auto

section \<open>Demonstration data\<close>

definition demo_self :: service where
  "demo_self =
     \<lparr>capabilities = builtin_capabilities,
      executor_codes = [''document.process'', ''document.build_chunks'', ''document.index_vectors''],
      compensator_codes = [''document.process'', ''document.build_chunks'', ''document.index_vectors''],
      retry_delay_seconds = 30, compensation_retry_delay_seconds = 30,
      compensation_retry_max_delay_seconds = 300, max_compensation_attempts = 5\<rparr>"

definition demo_plan :: plan where
  "demo_plan =
     \<lparr>p_id = ''P'', p_workflow_id = ''W'', p_turn_id = ''T'', p_parent_plan_id = None,
      p_current_task_id = None, p_status = READY, p_revision = 1, p_failure_code = None,
      p_failure_reason = None, p_started_at = None, p_completed_at = None,
      p_created_at = 0, p_updated_at = 0\<rparr>"

definition demo_task :: "ident \<Rightarrow> string \<Rightarrow> int \<Rightarrow> task" where
  "demo_task tid code sq =
     \<lparr>t_id = tid, t_plan_id = ''P'', t_turn_id = ''T'', t_ref = tid, t_capability_code = code,
      t_input_json = JObj [(''document_id'', JInt 7)], t_sequence = sq, t_status = PENDING,
      t_attempt_count = 0, t_max_attempts = 3, t_output_json = None, t_last_error_code = None,
      t_last_error_message = None, t_started_at = None, t_completed_at = None\<rparr>"

definition demo_turn :: turn where
  "demo_turn =
     \<lparr>tn_id = ''T'', tn_conversation_id = ''C'', tn_user_input = ''index it'',
      tn_clarification_input = None, tn_assistant_content = None, tn_assistant_compact = None,
      tn_task_ids = [''A'', ''B''], tn_task_result_summary = None, tn_status = PROCESSING,
      tn_created_at = 0, tn_completed_at = None\<rparr>"

text \<open>A published plan of two tasks, the second depending on the first.\<close>

definition demo_db :: db where
  "demo_db =
     \<lparr>plans = [demo_plan],
      tasks = [demo_task ''A'' ''process_document'' 1, demo_task ''B'' ''build_document_chunks'' 2],
      task_dependencies =
        [\<lparr>d_id = ''d'', d_plan_id = ''P'', d_task_id = ''B'', d_depends_on = ''A''\<rparr>],
      task_executions = [], outbox = [], inbox = [], clarifications = [], turns = [demo_turn]\<rparr>"

definition demo_uuids :: "string \<Rightarrow> uuids" where
  "demo_uuids s n = s @ (if n = 0 then ''0'' else if n = 1 then ''1'' else if n = 2 then ''2''
     else if n = 3 then ''3'' else ''4'')"

definition run_tx :: "('a \<times> db) result \<Rightarrow> db" where
  "run_tx r = (case r of Inl _ \<Rightarrow> demo_db | Inr (_, db) \<Rightarrow> db)"

definition run_val :: "('a \<times> db) result \<Rightarrow> 'a option" where
  "run_val r = (case r of Inl _ \<Rightarrow> None | Inr (v, _) \<Rightarrow> Some v)"

definition claimed_db :: db where
  "claimed_db = run_tx (claim_next demo_self 100 (demo_uuids ''a'') ''P'' (Some ''e'') None None demo_db)"

lemmas demo_defs = demo_self_def demo_plan_def demo_task_def demo_turn_def demo_db_def demo_uuids_def

lemma demo_db_inv: "runtime_inv demo_self demo_db"
  by (simp add: runtime_inv_def rows_ok_def demo_defs plan_ok_def task_ok_def attempt_limit_def
      require_capability_def builtin_capabilities_def table_simps)

definition claimed_snapshot :: task_snapshot where
  "claimed_snapshot = the (claimed_task (the (run_val
     (claim_next demo_self 100 (demo_uuids ''a'') ''P'' (Some ''e'') None None demo_db))))"

lemma demo_claim:
  "claim_next demo_self 100 (demo_uuids ''a'') ''P'' (Some ''e'') None None demo_db =
     Inr (\<lparr>outcome = Claimed, claimed_task = Some claimed_snapshot, recovery = None\<rparr>, claimed_db)"
  by code_simp

definition demo_start :: runtime_state where
  "demo_start = \<lparr>store = demo_db, held_tasks = {}, held_recoveries = {}\<rparr>"

definition demo_claimed :: runtime_state where
  "demo_claimed = \<lparr>store = claimed_db, held_tasks = {claimed_snapshot}, held_recoveries = {}\<rparr>"

lemma demo_claimed_step: "rt_step demo_self demo_start demo_claimed"
  using rt_step.claim [of demo_self 100 "demo_uuids ''a''" "''P''" "Some ''e''" None None demo_start]
  by (simp add: demo_claim demo_start_def demo_claimed_def)

lemma demo_claimed_reachable: "reachable demo_self demo_db demo_claimed"
  using reachable.step [OF reachable.start] demo_claimed_step by (simp add: demo_start_def)

text \<open>The lease of the claim runs out and another worker takes the execution over.\<close>

definition expired_claim :: "(claim_result \<times> db) result" where
  "expired_claim = claim_next demo_self 400 (demo_uuids ''b'') ''P'' (Some ''f'') None None claimed_db"

definition expired_db :: db where
  "expired_db = run_tx expired_claim"

definition expired_snapshot :: recovery_snapshot where
  "expired_snapshot = the (recovery (the (run_val expired_claim)))"

lemma demo_expired:
  "claim_next demo_self 400 (demo_uuids ''b'') ''P'' (Some ''f'') None None claimed_db =
     Inr (\<lparr>outcome = CompensationRequired, claimed_task = None, recovery = Some expired_snapshot\<rparr>,
          expired_db)"
  by code_simp

definition demo_expired_state :: runtime_state where
  "demo_expired_state =
     \<lparr>store = expired_db, held_tasks = {claimed_snapshot}, held_recoveries = {expired_snapshot}\<rparr>"

lemma demo_expired_step: "rt_step demo_self demo_claimed demo_expired_state"
  using rt_step.claim [of demo_self 400 "demo_uuids ''b''" "''P''" "Some ''f''" None None demo_claimed]
  by (simp add: demo_expired demo_claimed_def demo_expired_state_def)

lemma demo_expired_reachable: "reachable demo_self demo_db demo_expired_state"
  using reachable.step [OF demo_claimed_reachable demo_expired_step] .

section \<open>Properties of every reachable state\<close>

text \<open>
  C1: In every state the workers can reach from a consistent database, whatever the interleaving
  of claims, completions, failures, compensations and crashes, the database satisfies the runtime
  invariant.
\<close>

theorem runtime_invariant_reachable:
  assumes "runtime_inv self db0" and "reachable self db0 \<sigma>"
  shows "runtime_inv self (store \<sigma>)"
  using reachable_ok [OF assms(2,1)] by (simp add: state_ok_def)

theorem runtime_invariant_reachable_witness: "runtime_inv demo_self expired_db"
  using runtime_invariant_reachable [OF demo_db_inv demo_expired_reachable]
  by (simp add: demo_expired_state_def)

lemma live_current:
  assumes inv: "runtime_inv self db" and x: "x \<in> set (task_executions db)" "live x"
  shows "\<exists>t\<in>set (tasks db). \<exists>p\<in>set (plans db).
    t_id t = x_task_id x \<and> t_plan_id t = x_plan_id x \<and> p_id p = x_plan_id x \<and>
    p_current_task_id p = Some (t_id t) \<and> t_status t = RUNNING \<and>
    x_attempt x = t_attempt_count t"
proof -
  note D = rows_okD [OF runtime_inv_rows(1) [OF inv]]
  from D(6) [OF x(1)] x(2) obtain t where t: "t \<in> set (tasks db)" "t_id t = x_task_id x"
    "t_plan_id t = x_plan_id x" "t_status t = RUNNING" "x_attempt x = t_attempt_count t"
    by (auto simp: execution_ok_def)
  moreover from D(5) [OF t(1)] t(4) obtain p where "p \<in> set (plans db)" "p_id p = t_plan_id t"
    "p_current_task_id p = Some (t_id t)" by (auto simp: task_ok_def)
  ultimately show ?thesis by metis
qed

text \<open>
  C2: Concurrency one per plan: in every reachable state a plan has at most one execution that is
  running, waiting for compensation or locked.
\<close>

theorem one_live_execution_per_plan:
  assumes "runtime_inv self db0" and "reachable self db0 \<sigma>"
    and x: "x \<in> set (task_executions (store \<sigma>))" "live x"
    and y: "y \<in> set (task_executions (store \<sigma>))" "live y"
    and plan: "x_plan_id x = x_plan_id y"
  shows "x = y"
proof -
  have inv: "runtime_inv self (store \<sigma>)"
    using reachable_ok [OF assms(2,1)] by (simp add: state_ok_def)
  note D = rows_okD [OF runtime_inv_rows(1) [OF inv]]
  from live_current [OF inv x] live_current [OF inv y] plan D(1) D(2)
  have "x_task_id x = x_task_id y" "x_attempt x = x_attempt y" by (metis option.inject)+
  with D(3) x(1) y(1) show ?thesis by blast
qed

theorem one_live_execution_per_plan_witness:
  "let x = hd (task_executions expired_db) in live x \<and> x = last (task_executions expired_db)"
proof -
  have "hd (task_executions expired_db) \<in> set (task_executions expired_db)"
    "last (task_executions expired_db) \<in> set (task_executions expired_db)"
    "live (hd (task_executions expired_db))" "live (last (task_executions expired_db))"
    "x_plan_id (hd (task_executions expired_db)) = x_plan_id (last (task_executions expired_db))"
    by code_simp+
  then show ?thesis
    using one_live_execution_per_plan [OF demo_db_inv demo_expired_reachable]
    by (simp add: demo_expired_state_def Let_def)
qed

text \<open>
  C6: The life cycle of an execution: no step removes an execution or changes its identity, task,
  attempt or operation token, and its status moves only from running to succeeded, failed or
  compensation required, and from there to compensated or locked.
\<close>

theorem execution_life_cycle:
  assumes "runtime_inv self db0" and "reachable self db0 \<sigma>" and "rt_step self \<sigma> \<sigma>'"
    and "x \<in> set (task_executions (store \<sigma>))"
  shows "\<exists>x'\<in>set (task_executions (store \<sigma>')).
    x_id x' = x_id x \<and> x_task_id x' = x_task_id x \<and> x_attempt x' = x_attempt x \<and>
    x_operation_id x' = x_operation_id x \<and> x_status x' \<in> set (next_status (x_status x))"
  using rt_step_ok [OF assms(3) reachable_ok [OF assms(2,1)]] assms(4)
  by (auto simp: advances_def)

theorem execution_life_cycle_witness:
  "\<exists>x'\<in>set (task_executions expired_db).
     x_id x' = ''execution_a1'' \<and> x_status x' \<in> set (next_status EXEC_RUNNING)"
proof -
  let ?x = "hd (task_executions claimed_db)"
  have "?x \<in> set (task_executions claimed_db)" "x_id ?x = ''execution_a1''"
    "x_status ?x = EXEC_RUNNING" by code_simp+
  then show ?thesis
    using execution_life_cycle [OF demo_db_inv demo_claimed_reachable demo_expired_step, of ?x]
    by (auto simp: demo_claimed_def demo_expired_state_def)
qed

section \<open>Stale workers\<close>

lemma not_running_stays:
  assumes "(rt_step self)\<^sup>*\<^sup>* \<sigma> \<sigma>'" "state_ok self \<sigma>"
    and "x \<in> set (task_executions (store \<sigma>))" "x_status x \<noteq> EXEC_RUNNING"
  shows "\<exists>x'\<in>set (task_executions (store \<sigma>')). x_id x' = x_id x \<and> x_status x' \<noteq> EXEC_RUNNING"
  using assms(1)
proof (induction)
  case (step \<sigma>1 \<sigma>2)
  then obtain x1 where x1: "x1 \<in> set (task_executions (store \<sigma>1))" "x_id x1 = x_id x"
    "x_status x1 \<noteq> EXEC_RUNNING" by auto
  have "advances (store \<sigma>1) (store \<sigma>2)"
    using rt_step_ok [OF step(2)] rt_steps_ok [OF step(1) assms(2)] by blast
  with x1 show ?case unfolding advances_def by (metis next_status_not_running)
qed (use assms in auto)

lemma lock_execution_not_running:
  assumes "runtime_inv self db" "x \<in> set (task_executions db)" "x_id x = s_execution_id s"
    "x_status x \<noteq> EXEC_RUNNING"
  shows "\<exists>m. lock_execution s db = Inl (RuntimeError m)"
proof -
  have "execution_get_by_id (s_execution_id s) db = Some x"
    using assms(2) runtime_inv_rows(4) [OF assms(1)] assms(3) [symmetric]
    by (simp add: execution_get_by_id_def get_row_in_set)
  then show ?thesis using assms(4) by (auto simp: lock_execution_def split: option.splits)
qed

text \<open>
  C3: A worker that has lost its execution stays locked out: once the execution of its snapshot
  has left the running state (a lease take-over, a recorded failure, a completion), then in every
  later state its completion, its failure report and its request for compensation all raise, so
  none of them changes the database.
\<close>

theorem stale_worker_locked_out:
  assumes "runtime_inv self db0" and "reachable self db0 \<sigma>"
    and "x \<in> set (task_executions (store \<sigma>))" "x_id x = s_execution_id s"
      "x_status x \<noteq> EXEC_RUNNING"
    and "(rt_step self)\<^sup>*\<^sup>* \<sigma> \<sigma>'"
  shows "is_error (complete now u s out refs (store \<sigma>')) \<and>
    is_error (fail self now u s err (store \<sigma>')) \<and>
    is_error (require_compensation s err (store \<sigma>'))"
proof -
  have ok: "state_ok self \<sigma>" using reachable_ok [OF assms(2,1)] .
  obtain x' where "x' \<in> set (task_executions (store \<sigma>'))" "x_id x' = s_execution_id s"
    "x_status x' \<noteq> EXEC_RUNNING"
    using not_running_stays [OF assms(6) ok assms(3,5)] assms(4) by auto
  moreover have "runtime_inv self (store \<sigma>')"
    using rt_steps_ok [OF assms(6) ok] by (simp add: state_ok_def)
  ultimately obtain m where "lock_execution s (store \<sigma>') = Inl (RuntimeError m)"
    using lock_execution_not_running by blast
  then show ?thesis by (simp add: complete_def fail_def require_compensation_def)
qed

theorem stale_worker_locked_out_witness:
  "is_error (complete 500 (demo_uuids ''c'') claimed_snapshot (JObj []) [] expired_db)"
proof -
  let ?x = "hd (task_executions expired_db)"
  have "?x \<in> set (task_executions expired_db)" "x_id ?x = s_execution_id claimed_snapshot"
    "x_status ?x \<noteq> EXEC_RUNNING" by code_simp+
  then show ?thesis
    using stale_worker_locked_out [OF demo_db_inv demo_expired_reachable, of ?x claimed_snapshot
        demo_expired_state]
    by (simp add: demo_expired_state_def)
qed

section \<open>Attempts\<close>

text \<open>
  C7: Attempts are bounded: in every reachable state the number of executions ever started for a
  task is at most its attempt count, which is at most the limit its capability sets (or one).
\<close>

theorem attempts_bounded:
  assumes "runtime_inv self db0" and "reachable self db0 \<sigma>" and "t \<in> set (tasks (store \<sigma>))"
  shows "int (card {x \<in> set (task_executions (store \<sigma>)). x_task_id x = t_id t}) \<le> t_attempt_count t \<and>
    t_attempt_count t \<le> attempt_limit self t"
proof -
  let ?X = "{x \<in> set (task_executions (store \<sigma>)). x_task_id x = t_id t}"
  have inv: "runtime_inv self (store \<sigma>)"
    using reachable_ok [OF assms(2,1)] by (simp add: state_ok_def)
  note D = rows_okD [OF runtime_inv_rows(1) [OF inv]]
  have t: "0 \<le> t_attempt_count t" "t_attempt_count t \<le> attempt_limit self t"
    using D(5) [OF assms(3)] by (auto simp: task_ok_def)
  have "1 \<le> x_attempt x \<and> x_attempt x \<le> t_attempt_count t" if "x \<in> ?X" for x
    using that D(6) D(2) assms(3) by (fastforce simp: execution_ok_def)
  then have "x_attempt ` ?X \<subseteq> {1..t_attempt_count t}" by auto
  moreover have "inj_on x_attempt ?X" using D(3) by (auto simp: inj_on_def)
  ultimately have "card ?X \<le> card {1..t_attempt_count t}"
    by (metis card_image card_mono finite_atLeastAtMost_int)
  then show ?thesis using t by simp
qed

theorem attempts_bounded_witness:
  "t_attempt_count (hd (tasks claimed_db)) \<le> attempt_limit demo_self (hd (tasks claimed_db))"
proof -
  have "hd (tasks claimed_db) \<in> set (tasks claimed_db)" by code_simp
  then show ?thesis
    using attempts_bounded [OF demo_db_inv demo_claimed_reachable, of "hd (tasks claimed_db)"]
    by (simp add: demo_claimed_def)
qed

section \<open>What the claim chooses\<close>

lemma dependencies_met_iff:
  assumes "distinct (map t_id (tasks db))"
  shows "dependencies_met SUCCEEDED db t \<Longrightarrow>
    d \<in> set (task_dependencies db) \<Longrightarrow> d_task_id d = t_id t \<Longrightarrow>
    \<exists>u\<in>set (tasks db). t_id u = d_depends_on d \<and> t_status u = SUCCEEDED"
proof -
  assume met: "dependencies_met SUCCEEDED db t"
    and d: "d \<in> set (task_dependencies db)" "d_task_id d = t_id t"
  let ?ps = "predecessor_ids (t_id t) db"
  let ?us = "filter (\<lambda>u. t_id u \<in> set ?ps \<and> t_status u = SUCCEEDED) (tasks db)"
  have dep: "d_depends_on d \<in> set ?ps" using d by (auto simp: predecessor_ids_def)
  then have len: "length ?us = length ?ps" using met by (auto simp: dependencies_met_def Let_def)
  have dist: "distinct (map t_id ?us)" using assms by (simp add: distinct_map_filter)
  have "t_id ` set ?us = set ?ps"
  proof (rule card_seteq)
    show "t_id ` set ?us \<subseteq> set ?ps" by auto
    have "card (t_id ` set ?us) = length ?us"
      using distinct_card [OF dist] by simp
    then show "card (set ?ps) \<le> card (t_id ` set ?us)" using len card_length [of ?ps] by simp
  qed simp
  then show ?thesis using dep by force
qed

text \<open>The waiting tasks of a plan as the claim's resumption leaves them.\<close>

definition resumed :: "ident \<Rightarrow> task \<Rightarrow> task" where
  "resumed pid t =
     (if t_plan_id t = pid \<and> t_status t = RETRY_WAIT then t\<lparr>t_status := PENDING\<rparr> else t)"

lemma resumed_fields [simp]:
  "t_id (resumed pid t) = t_id t" "t_plan_id (resumed pid t) = t_plan_id t"
  "t_sequence (resumed pid t) = t_sequence t"
  "t_attempt_count (resumed pid t) = t_attempt_count t"
  "t_status (resumed pid t) = SUCCEEDED \<longleftrightarrow> t_status t = SUCCEEDED"
  by (auto simp: resumed_def)

lemma task_set_status_map:
  assumes "distinct (map t_id (tasks db))" "set ts \<subseteq> set (tasks db)" "distinct (map t_id ts)"
  shows "tasks (task_set_status ts st db) =
    map (\<lambda>t. if t_id t \<in> t_id ` set ts then t\<lparr>t_status := st\<rparr> else t) (tasks db)"
  using assms
proof (induction ts arbitrary: db)
  case (Cons t ts)
  let ?db = "task_save (t\<lparr>t_status := st\<rparr>) db"
  have same: "x = t" if "x \<in> set (tasks db)" "t_id x = t_id t" for x
    using that Cons.prems(1,2) by (auto simp: distinct_map inj_on_def)
  have "set ts \<subseteq> set (tasks ?db)"
  proof
    fix x assume x: "x \<in> set ts"
    then have "t_id x \<noteq> t_id t" using Cons.prems(3) by (metis distinct.simps(2) imageI list.simps(9) set_map)
    then show "x \<in> set (tasks ?db)"
      using x Cons.prems(2) by (auto simp: store_simps intro!: in_put_row_other)
  qed
  then have "tasks (task_set_status ts st ?db) =
      map (\<lambda>t. if t_id t \<in> t_id ` set ts then t\<lparr>t_status := st\<rparr> else t) (tasks ?db)"
    using Cons by (simp add: store_simps)
  also have "\<dots> = map (\<lambda>x. if t_id x \<in> t_id ` set (t # ts) then x\<lparr>t_status := st\<rparr> else x) (tasks db)"
    using same Cons.prems(3) by (auto simp: store_simps put_row_def)
  finally show ?case by simp
qed simp

lemma resume_waiting_map:
  assumes "distinct (map t_id (tasks db))"
  shows "tasks (task_set_status (task_list_by_plan_id_and_status pid RETRY_WAIT db) PENDING db) =
    map (resumed pid) (tasks db)"
proof -
  let ?ts = "task_list_by_plan_id_and_status pid RETRY_WAIT db"
  have "t_id t \<in> t_id ` set ?ts \<longleftrightarrow> t_plan_id t = pid \<and> t_status t = RETRY_WAIT"
    if "t \<in> set (tasks db)" for t
  proof
    assume "t_id t \<in> t_id ` set ?ts"
    then obtain s where "s \<in> set ?ts" "t_id t = t_id s" by blast
    with distinct_key_eq [OF assms that, of s]
    show "t_plan_id t = pid \<and> t_status t = RETRY_WAIT" by (simp add: listed_tasks)
  qed (use that in \<open>auto simp: listed_tasks\<close>)
  moreover have "set ?ts \<subseteq> set (tasks db)" by (auto simp: listed_tasks)
  ultimately show ?thesis
    unfolding task_set_status_map [OF assms \<open>set ?ts \<subseteq> set (tasks db)\<close> distinct_listed [OF assms]]
    by (intro map_cong refl) (simp only: resumed_def)
qed

lemma dependencies_met_map:
  assumes "tasks db' = map (resumed pid) (tasks db)"
    and "task_dependencies db' = task_dependencies db"
  shows "dependencies_met SUCCEEDED db' (resumed pid t) = dependencies_met SUCCEEDED db t"
proof -
  have "length (filter (\<lambda>u. t_id u \<in> S \<and> t_status u = SUCCEEDED) (map (resumed pid) us)) =
      length (filter (\<lambda>u. t_id u \<in> S \<and> t_status u = SUCCEEDED) us)" for S us
    by (induction us) simp_all
  then show ?thesis
    unfolding dependencies_met_def predecessor_ids_def assms Let_def resumed_fields by simp
qed

lemma next_runnable_first:
  assumes "task_get_next_runnable pid st su db = Some t"
    and "v \<in> set (tasks db)" "t_plan_id v = pid" "t_status v = st"
    and "(t_sequence v, t_id v) < (t_sequence t, t_id t)"
  shows "\<not> dependencies_met su db v"
proof -
  let ?k = "\<lambda>t. (t_sequence t, t_id t)"
  let ?ts = "task_list_by_plan_id_and_status pid st db"
  have sorted: "sorted (map ?k ?ts)"
    unfolding task_list_by_plan_id_and_status_def by_sequence_def by (rule sorted_sort_key)
  from assms(1) obtain i where i: "i < length ?ts" "?ts ! i = t"
    "\<forall>j<i. \<not> dependencies_met su db (?ts ! j)"
    unfolding task_get_next_runnable_def find_Some_iff by blast
  from assms(2-4) have "v \<in> set ?ts" by (simp add: listed_tasks)
  then obtain j where j: "j < length ?ts" "?ts ! j = v" by (auto simp: in_set_conv_nth)
  have "j < i"
  proof (rule ccontr)
    assume "\<not> j < i"
    then have "map ?k ?ts ! i \<le> map ?k ?ts ! j"
      using i(1) j(1) by (intro sorted_nth_mono [OF sorted]) simp_all
    then have "?k t \<le> ?k v" by (simp only: nth_map i(1,2) j)
    from leD [OF this] assms(5) show False by (rule notE)
  qed
  then show ?thesis using i(3) j(2) by auto
qed

lemma recover_stale_no_task:
  "recover_stale_execution self now p tid db = Inr (Some c, db1) \<Longrightarrow> claimed_task c = None"
  by (auto simp: recover_stale_execution_def bind_eq_Inr recovery_claim_def
      split: option.splits if_splits)

lemma claim_current_no_task:
  assumes "claim_current self now u p tid ev cx co db = Inr (r, db')"
  shows "claimed_task r = None"
proof -
  from assms obtain rc db1 where "recover_stale_execution self now p tid db = Inr (rc, db1)"
    by (auto simp: claim_current_def bind_eq_Inr)
  with assms recover_stale_no_task show ?thesis
    by (auto simp: claim_current_def leave_def bind_eq_Inr claim_of_def
        split: option.splits if_splits)
qed

lemma leave_no_task:
  "leave now h ev d (claim_of oc) d' = Inr (r, db') \<Longrightarrow> claimed_task r = None"
  by (auto simp: leave_def bind_eq_Inr claim_of_def)

lemma claim_next_claimed:
  assumes "claim_next self now u pid ev cx co db = Inr (r, db')" "claimed_task r = Some s"
  shows "\<exists>p t. plan_get_by_id pid db = Some p \<and> p_id p = pid \<and> p_current_task_id p = None \<and>
    p_status p \<in> {READY, PLAN_RUNNING} \<and>
    task_get_next_runnable pid PENDING SUCCEEDED
      (task_set_status (task_list_by_plan_id_and_status pid RETRY_WAIT db) PENDING db) = Some t \<and>
    claim_pending self now u p t ev
      (task_set_status (task_list_by_plan_id_and_status pid RETRY_WAIT db) PENDING db) = Inr (r, db')"
proof -
  from assms obtain p where p: "plan_get_by_id pid db = Some p" "p_current_task_id p = None"
      "p_status p \<in> {READY, PLAN_RUNNING}"
    and ready: "claim_next_ready self now u p ev db = Inr (r, db')"
    by (auto simp: claim_next_def claim_of_def split: option.splits if_splits
        dest: leave_no_task [unfolded claim_of_def] claim_current_no_task)
  moreover have "p_id p = pid" using p(1) fetched_rows by blast
  ultimately show ?thesis using assms(2)
    by (auto simp: claim_next_ready_def Let_def bind_eq_Inr claim_of_def
        split: option.splits if_splits)
qed

lemma claim_pending_effect:
  assumes p: "plan_get_by_id pid db = Some p" and t: "task_get_by_id (t_id t) db = Some t"
    and step: "claim_pending self now u p t ev db = Inr (r, db')" and s: "claimed_task r = Some s"
  shows "s_task_id s = t_id t"
    and "map_option p_current_task_id (plan_get_by_id pid db') = Some (Some (t_id t))"
    and "map_option t_status (task_get_by_id (t_id t) db') = Some RUNNING"
    and "map_option t_attempt_count (task_get_by_id (t_id t) db') = Some (t_attempt_count t + 1)"
proof -
  have pid: "p_id p = pid" using p fetched_rows by blast
  from step obtain c where
    db': "plans db' = put_row p_id (plan_set_current_task (start_plan now p) (Some (t_id t))) (plans db)"
      "tasks db' = put_row t_id (start_task c now t) (tasks db)"
    and "s_task_id s = t_id t"
    using s by (auto simp: claim_pending_def bind_eq_Inr Let_def store_simps record_inbox_tables
        start_task_def claim_snapshot_def)
  then show "s_task_id s = t_id t" by simp
  show "map_option p_current_task_id (plan_get_by_id pid db') = Some (Some (t_id t))"
    using p pid by (simp add: plan_get_by_id_def db' table_simps plan_set_current_task_def start_plan_def)
  show "map_option t_status (task_get_by_id (t_id t) db') = Some RUNNING"
    "map_option t_attempt_count (task_get_by_id (t_id t) db') = Some (t_attempt_count t + 1)"
    using t by (simp_all add: task_get_by_id_def db' table_simps start_task_def)
qed

text \<open>
  C4: The claim starts the first ready task: when a claim hands out a task, its plan was idle and
  ready or running, the task was pending or waiting for a retry, every task it depends on had
  succeeded, and no waiting task before it in the order of sequence numbers had its dependencies
  met; afterwards it is the plan's current task and running with one more attempt.
\<close>

theorem claim_starts_first_ready_task:
  assumes inv: "runtime_inv self db"
    and step: "claim_next self now u pid ev cx co db = Inr (r, db')"
    and s: "claimed_task r = Some s"
  shows "\<exists>p t. plan_get_by_id pid db = Some p \<and> p_current_task_id p = None \<and>
    p_status p \<in> {READY, PLAN_RUNNING} \<and>
    task_get_by_id (s_task_id s) db = Some t \<and> t_plan_id t = pid \<and>
    t_status t \<in> {PENDING, RETRY_WAIT} \<and>
    (\<forall>d\<in>set (task_dependencies db). d_task_id d = t_id t \<longrightarrow>
       (\<exists>v\<in>set (tasks db). t_id v = d_depends_on d \<and> t_status v = SUCCEEDED)) \<and>
    (\<forall>v\<in>set (tasks db). t_plan_id v = pid \<longrightarrow> t_status v \<in> {PENDING, RETRY_WAIT} \<longrightarrow>
       (t_sequence v, t_id v) < (t_sequence t, t_id t) \<longrightarrow> \<not> dependencies_met SUCCEEDED db v) \<and>
    map_option p_current_task_id (plan_get_by_id pid db') = Some (Some (t_id t)) \<and>
    map_option t_status (task_get_by_id (t_id t) db') = Some RUNNING \<and>
    map_option t_attempt_count (task_get_by_id (t_id t) db') = Some (t_attempt_count t + 1)"
proof -
  let ?db = "task_set_status (task_list_by_plan_id_and_status pid RETRY_WAIT db) PENDING db"
  from claim_next_claimed [OF step s] obtain p t1 where
    p: "plan_get_by_id pid db = Some p" "p_current_task_id p = None" "p_status p \<in> {READY, PLAN_RUNNING}"
    and next1: "task_get_next_runnable pid PENDING SUCCEEDED ?db = Some t1"
    and cl: "claim_pending self now u p t1 ev ?db = Inr (r, db')" by blast
  note dist = runtime_inv_rows(3) [OF inv]
  note dist1 = runtime_inv_rows(3) [OF inv_resume_waiting [OF inv, of pid]]
  note map1 = resume_waiting_map [OF dist, of pid]
  have deps1: "task_dependencies ?db = task_dependencies db" by (simp add: store_simps)
  note met = dependencies_met_map [OF map1 deps1]
  from next_runnable_SomeD [OF next1] have t1: "t1 \<in> set (tasks ?db)" "t_plan_id t1 = pid"
    "t_status t1 = PENDING" "dependencies_met SUCCEEDED ?db t1" by auto
  then obtain t where t: "t \<in> set (tasks db)" "t1 = resumed pid t" by (auto simp: map1)
  have wait: "t_status t \<in> {PENDING, RETRY_WAIT}" "t_plan_id t = pid"
    using t1 t by (auto simp: resumed_def split: if_splits)
  have met_t: "dependencies_met SUCCEEDED db t" using t1(4) t(2) met by simp
  have first: "\<not> dependencies_met SUCCEEDED db v"
    if v: "v \<in> set (tasks db)" "t_plan_id v = pid" "t_status v \<in> {PENDING, RETRY_WAIT}"
      and less: "(t_sequence v, t_id v) < (t_sequence t, t_id t)" for v
  proof -
    have "\<not> dependencies_met SUCCEEDED ?db (resumed pid v)"
    proof (rule next_runnable_first [OF next1])
      show "resumed pid v \<in> set (tasks ?db)" using v by (simp add: map1)
      show "t_status (resumed pid v) = PENDING" using v by (auto simp: resumed_def)
      show "(t_sequence (resumed pid v), t_id (resumed pid v)) < (t_sequence t1, t_id t1)"
        using less unfolding t(2) resumed_fields .
    qed (simp add: v)
    then show ?thesis by (simp only: met not_False_eq_True)
  qed
  have p1: "plan_get_by_id pid ?db = Some p" using p(1) by (simp add: plan_get_by_id_def store_simps)
  have t1': "task_get_by_id (t_id t1) ?db = Some t1" using task_get_in_set [OF dist1 t1(1)] .
  note eff = claim_pending_effect [OF p1 t1' cl s]
  have "task_get_by_id (s_task_id s) db = Some t"
    using task_get_in_set [OF dist t(1)] eff(1) t(2) by simp
  with p wait eff(2-4) dependencies_met_iff [OF dist met_t] first show ?thesis
    unfolding t(2) resumed_fields by blast
qed

theorem claim_starts_first_ready_task_witness:
  "map_option t_status (task_get_by_id ''A'' demo_db) = Some PENDING \<and>
   map_option t_status (task_get_by_id ''A'' claimed_db) = Some RUNNING"
proof -
  have "s_task_id claimed_snapshot = ''A''" by code_simp
  moreover have "map_option t_status (task_get_by_id ''A'' demo_db) = Some PENDING" by code_simp
  ultimately show ?thesis
    using claim_starts_first_ready_task [OF demo_db_inv demo_claim, of claimed_snapshot]
    by (auto dest: fetched_rows(2))
qed

section \<open>Once-only consumption of events\<close>

lemma inbox_exists_append:
  "inbox db' = inbox db @ is \<Longrightarrow> inbox_exists c e db \<Longrightarrow> inbox_exists c e db'"
  by (auto simp: inbox_exists_def)

lemma record_inbox_grows: "record_inbox now h ev db = Inr db' \<Longrightarrow> \<exists>is. inbox db' = inbox db @ is"
  by (auto simp: record_inbox_def store_simps split: option.splits)

lemma record_inbox_if_new_grows:
  "record_inbox_if_new now h ev db = Inr db' \<Longrightarrow> \<exists>is. inbox db' = inbox db @ is"
  by (auto simp: record_inbox_if_new_def split: option.splits if_splits dest: record_inbox_grows)

lemma recover_stale_inbox:
  "recover_stale_execution self now p tid db = Inr (rc, db') \<Longrightarrow> inbox db' = inbox db"
  by (auto simp: recover_stale_execution_def bind_eq_Inr store_simps split: option.splits if_splits)

lemma claim_next_inbox_grows:
  assumes "claim_next self now u pid ev cx co db = Inr (r, db')"
  shows "\<exists>is. inbox db' = inbox db @ is"
proof -
  have leave: "\<exists>is. inbox db' = inbox db @ is"
    if "leave now h ev db c d = Inr (r, db')" "inbox d = inbox db" for h c d
    using that by (auto simp: leave_def bind_eq_Inr dest: record_inbox_grows split: if_splits)
  have current: "\<exists>is. inbox db' = inbox db @ is"
    if cur: "claim_current self now u p tid ev cx co db = Inr (r, db')" for p tid
  proof -
    from cur obtain rc db1 where rc: "recover_stale_execution self now p tid db = Inr (rc, db1)"
      by (auto simp: claim_current_def bind_eq_Inr)
    note i = recover_stale_inbox [OF rc]
    show ?thesis using cur i
      by (auto simp: claim_current_def rc split: option.splits if_splits intro: leave)
  qed
  have ready: "\<exists>is. inbox db' = inbox db @ is"
    if "claim_next_ready self now u p ev db = Inr (r, db')" for p
    using that by (fastforce simp: claim_next_ready_def claim_pending_def Let_def bind_eq_Inr
        store_simps split: option.splits if_splits dest: record_inbox_grows)
  show ?thesis using assms
    by (auto simp: claim_next_def split: option.splits if_splits intro: leave current ready)
qed

lemma rt_step_inbox_grows:
  assumes "rt_step self \<sigma> \<sigma>'"
  shows "\<exists>is. inbox (store \<sigma>') = inbox (store \<sigma>) @ is"
  using assms
proof (cases rule: rt_step.cases)
  case (claim now u pid ev cx co r db')
  then show ?thesis using claim_next_inbox_grows by simp
next
  case (complete s now u out refs db')
  then show ?thesis
    by (auto simp: complete_def bind_eq_Inr Let_def store_simps split: if_splits)
next
  case (fail s now u err db')
  then show ?thesis
    by (auto simp: fail_def bind_eq_Inr Let_def store_simps split: if_splits)
next
  case (require_compensation s err db')
  then show ?thesis by (auto simp: require_compensation_def bind_eq_Inr store_simps)
next
  case (begin_compensation c now n db')
  then show ?thesis
    by (auto simp: begin_compensation_attempt_def bind_eq_Inr Let_def store_simps)
next
  case (compensation_failed c now u ev msg n res db')
  then show ?thesis
    by (fastforce simp: handle_compensation_failure_def bind_eq_Inr Let_def store_simps
        split: if_splits dest: record_inbox_if_new_grows)
next
  case (compensated c now u ev res db')
  then show ?thesis
    by (fastforce simp: complete_compensation_def bind_eq_Inr Let_def store_simps
        split: if_splits dest: record_inbox_grows)
qed simp

lemma rt_steps_inbox:
  assumes "(rt_step self)\<^sup>*\<^sup>* \<sigma> \<sigma>'" "inbox_exists c e (store \<sigma>)"
  shows "inbox_exists c e (store \<sigma>')"
  using assms
  by (induction) (auto dest!: rt_step_inbox_grows intro: inbox_exists_append)

lemma claim_next_records:
  assumes "claim_next self now u pid (Some e) cx co db = Inr (r, db')"
    and "outcome r \<noteq> CompensationRequired"
  shows "inbox_exists ''task_runtime'' e db'"
proof -
  have leave: "inbox_exists ''task_runtime'' e db'" if "leave now h (Some e) d0 c d = Inr (r, db')"
    for h d0 c d using that by (auto simp: leave_def bind_eq_Inr dest: record_inbox_exists)
  have current: "inbox_exists ''task_runtime'' e db'"
    if cur: "claim_current self now u p tid (Some e) cx co db = Inr (r, db')" for p tid
  proof -
    from cur obtain rc db1 where rc: "recover_stale_execution self now p tid db = Inr (rc, db1)"
      by (auto simp: claim_current_def bind_eq_Inr)
    have "outcome c \<in> {CompensationLocked, CompensationRequired}" if "rc = Some c" for c
      using rc that by (auto simp: recover_stale_execution_def bind_eq_Inr recovery_claim_def
          split: option.splits if_splits)
    then show ?thesis using cur assms(2)
      by (auto simp: claim_current_def rc split: option.splits if_splits intro: leave)
  qed
  have ready: "inbox_exists ''task_runtime'' e db'"
    if "claim_next_ready self now u p (Some e) db = Inr (r, db')" for p
    using that by (auto simp: claim_next_ready_def claim_pending_def Let_def bind_eq_Inr
        split: option.splits if_splits dest: record_inbox_exists)
  show ?thesis using assms(1)
    by (auto simp: claim_next_def split: option.splits if_splits intro: leave current ready)
qed

text \<open>
  C5: An event is consumed once: after a claim made for an event has committed with any outcome
  but a recovery (whose event stays open until its compensation ends), every later claim for
  the same event, in any later state, answers terminal and leaves the database as it is.
\<close>

theorem event_consumed_once:
  assumes "claim_next self now u pid (Some e) cx co (store \<sigma>) = Inr (r, db')"
    and "outcome r \<noteq> CompensationRequired"
    and "(rt_step self)\<^sup>*\<^sup>* (\<sigma>\<lparr>store := db'\<rparr>) \<sigma>'"
  shows "claim_next self now' u' pid' (Some e) cx' co' (store \<sigma>') =
    Inr (claim_of Terminal, store \<sigma>')"
  using rt_steps_inbox [OF assms(3)] claim_next_records [OF assms(1,2)]
  by (simp add: claim_next_def)

theorem event_consumed_once_witness:
  "claim_next demo_self 150 (demo_uuids ''z'') ''P'' (Some ''e'') None None claimed_db =
     Inr (claim_of Terminal, claimed_db)"
  using event_consumed_once [of demo_self 100 "demo_uuids ''a''" "''P''" "''e''" None None demo_start
      _ claimed_db "demo_start\<lparr>store := claimed_db\<rparr>"] demo_claim
  by (simp add: demo_start_def)

section \<open>Compensation\<close>

text \<open>
  A failed compensation is retried or frozen by its attempt number: below the limit the
  execution keeps waiting for compensation and one wake-up event that names it is added, due
  after the base delay doubled with every attempt but never more than the maximum; at the limit
  or above the execution is locked, no event is added, and the plan keeps its current task.
\<close>

theorem compensation_failure_effect:
  assumes inv: "runtime_inv self db"
    and step: "handle_compensation_failure self now u s ev msg n db = Inr (r, db')"
  shows "plans db' = plans db \<and> tasks db' = tasks db \<and>
    (if n < max_compensation_attempts self
     then r_outcome r = CompensationRetryScheduled \<and>
       map_option x_status (execution_get_by_id (s_execution_id s) db') = Some COMPENSATION_REQUIRED \<and>
       (\<exists>p e. plan_get_by_id (s_plan_id s) db = Some p \<and> outbox db' = outbox db @ [e] \<and>
          e_type e = PLAN_WAKEUP \<and> e_payload e = compensation_payload p s \<and>
          e_available_at e = now + compensation_delay self n)
     else r_outcome r = PlanCompensationLocked \<and> outbox db' = outbox db \<and>
       map_option x_status (execution_get_by_id (s_execution_id s) db') = Some COMPENSATION_LOCKED)"
proof -
  from step obtain p t x where l: "assert_compensation_token s db = Inr (p, t, x)"
    by (auto simp: handle_compensation_failure_def bind_eq_Inr)
  have x: "get_row x_id (s_execution_id s) (task_executions db) = Some x" "x_id x = s_execution_id s"
    using l fetched_rows(3) by (auto simp: token_simps execution_get_by_id_def)
  show ?thesis using step l x
    by (auto simp: handle_compensation_failure_def Let_def bind_eq_Inr store_simps token_simps
        record_inbox_if_new_tables execution_get_by_id_def table_simps lock_compensation_row_def
        event_def split: if_splits)
qed

definition begun_db :: db where
  "begun_db = run_tx (begin_compensation_attempt 401 expired_snapshot expired_db)"

lemma demo_begun: "begin_compensation_attempt 401 expired_snapshot expired_db = Inr (1, begun_db)"
  by code_simp

definition demo_comp_failed :: "(execute_result \<times> db) result" where
  "demo_comp_failed =
     handle_compensation_failure demo_self 410 (demo_uuids ''q'') expired_snapshot None ''disk'' 1
       begun_db"

lemma demo_begun_inv: "runtime_inv demo_self begun_db"
proof -
  have "runtime_inv demo_self (store demo_expired_state)"
    using reachable_ok [OF demo_expired_reachable demo_db_inv] by (simp add: state_ok_def)
  then show ?thesis using begin_compensation_attempt_inv [OF _ demo_begun]
    by (simp add: demo_expired_state_def)
qed

theorem compensation_failure_effect_witness:
  "\<exists>e. outbox (run_tx demo_comp_failed) = outbox begun_db @ [e] \<and> e_available_at e = 440"
proof -
  have ok: "handle_compensation_failure demo_self 410 (demo_uuids ''q'') expired_snapshot None
      ''disk'' 1 begun_db = Inr (the (run_val demo_comp_failed), run_tx demo_comp_failed)"
    by code_simp
  have "1 < max_compensation_attempts demo_self" "compensation_delay demo_self 1 = 30"
    by code_simp+
  with compensation_failure_effect [OF demo_begun_inv ok] show ?thesis by auto
qed

section \<open>One step of a plan from end to end\<close>

lemma transact_Inr: "tx db = Inr (v, db') \<Longrightarrow> transact tx db = (Inr v, db')"
  by (simp add: transact_def)

text \<open>
  The outcome of completing the snapshot just claimed: the token is valid right after the claim.
\<close>

lemma claimed_lock:
  assumes inv: "runtime_inv self db"
    and step: "claim_next self now u pid ev cx co db = Inr (r, db')"
    and s: "claimed_task r = Some s"
  shows "\<exists>p t x. lock_execution s db' = Inr (p, t, x) \<and> p_id p = pid \<and>
    x_resource_refs x = [] \<and> t_id t = s_task_id s \<and> t_plan_id t = pid \<and>
    s_plan_id s = pid \<and> t_attempt_count t = s_attempt s \<and> t_max_attempts t = s_max_attempts s"
proof -
  let ?db = "task_set_status (task_list_by_plan_id_and_status pid RETRY_WAIT db) PENDING db"
  from claim_next_claimed [OF step s] obtain p t where
    p: "plan_get_by_id pid db = Some p" and pid: "p_id p = pid" "p_current_task_id p = None"
    and next1: "task_get_next_runnable pid PENDING SUCCEEDED ?db = Some t"
    and cl: "claim_pending self now u p t ev ?db = Inr (r, db')" by blast
  note dist1 = runtime_inv_rows(3) [OF inv_resume_waiting [OF inv, of pid]]
  have t: "task_get_by_id (t_id t) ?db = Some t" "t_plan_id t = pid"
    using next_runnable_SomeD [OF next1] task_get_in_set [OF dist1] by auto
  have p1: "plan_get_by_id pid ?db = Some p" using p by (simp add: plan_get_by_id_def store_simps)
  from cl s obtain c cid where
    s': "s = claim_snapshot c u (plan_set_current_task (start_plan now p) (Some (t_id t)))
          (start_task c now t) cid"
    and db': "plans db' = put_row p_id (plan_set_current_task (start_plan now p) (Some (t_id t))) (plans ?db)"
      "tasks db' = put_row t_id (start_task c now t) (tasks ?db)"
      "task_executions db' = task_executions ?db @
         [new_execution c now u (plan_set_current_task (start_plan now p) (Some (t_id t)))
           (start_task c now t)]"
    and fresh: "new_id ''execution'' (u 1) \<notin> x_id ` set (task_executions ?db)"
    by (auto simp: claim_pending_def bind_eq_Inr Let_def store_simps record_inbox_tables
        start_task_def new_execution_def)
  have "get_row x_id (new_id ''execution'' (u 1)) (task_executions ?db) = None"
    using fresh by (simp add: get_row_None_iff)
  then show ?thesis using p1 t pid
    by (simp add: token_simps s' claim_snapshot_def plan_get_by_id_def task_get_by_id_def
        execution_get_by_id_def db' table_simps plan_set_current_task_def start_plan_def
        start_task_def new_execution_def)
qed

lemma event_id [simp]: "e_id (event now h p ty pl av) = new_id ''event'' h"
  by (simp add: event_def)

lemma outbox_add_fresh:
  "e_id e \<notin> e_id ` set (outbox db) \<Longrightarrow> outbox_add e db = Inr (db\<lparr>outbox := outbox db @ [e]\<rparr>)"
  by (simp add: store_simps)

lemma complete_total:
  assumes l: "lock_execution s db = Inr (p, t, x)"
    and fresh: "new_id ''event'' (u 0) \<notin> e_id ` set (outbox db)"
  shows "\<exists>db'. complete now u s out refs db = Inr ((), db')"
  unfolding complete_def l bind_simps Let_def prod.case
  using fresh by (simp add: outbox_add_fresh store_simps)

lemma count_zero_iff:
  "task_count_by_plan_and_status pid st db = 0 \<longleftrightarrow>
     (\<forall>t\<in>set (tasks db). t_plan_id t = pid \<longrightarrow> t_status t \<noteq> st)"
  by (auto simp: task_count_by_plan_and_status_def filter_empty_conv)

lemma unfinished_Nil_iff:
  "filter (\<lambda>item. t_status item \<noteq> SUCCEEDED) (task_list_by_plan_id pid db) = [] \<longleftrightarrow>
     (\<forall>t\<in>set (tasks db). t_plan_id t = pid \<longrightarrow> t_status t = SUCCEEDED)"
  by (auto simp: filter_empty_conv task_list_by_plan_id_def)

definition waiting_in :: "ident \<Rightarrow> db \<Rightarrow> bool" where
  "waiting_in pid db \<longleftrightarrow>
     (\<exists>t\<in>set (tasks db). t_plan_id t = pid \<and> t_status t \<in> {PENDING, RETRY_WAIT})"

definition all_succeeded :: "ident \<Rightarrow> db \<Rightarrow> bool" where
  "all_succeeded pid db \<longleftrightarrow> (\<forall>t\<in>set (tasks db). t_plan_id t = pid \<longrightarrow> t_status t = SUCCEEDED)"

lemma waiting_count:
  "task_count_by_plan_and_status pid PENDING db \<noteq> 0 \<or>
   task_count_by_plan_and_status pid RETRY_WAIT db \<noteq> 0 \<longleftrightarrow> waiting_in pid db"
  by (auto simp: count_zero_iff waiting_in_def)

lemma complete_token:
  assumes "complete now u s out refs db = Inr ((), db')"
  shows "\<exists>p t x. lock_execution s db = Inr (p, t, x) \<and>
    plan_get_by_id (s_plan_id s) db = Some p \<and> p_id p = s_plan_id s \<and>
    task_get_by_id (s_task_id s) db = Some t \<and> t_id t = s_task_id s \<and>
    execution_get_by_id (s_execution_id s) db = Some x \<and> x_id x = s_execution_id s \<and>
    (let db1 = plan_save (plan_set_current_task p None)
       (execution_save (succeed_execution now out refs x) (task_save (succeed_task now out t) db)) in
     tasks db' = tasks db1 \<and> task_executions db' = task_executions db1)"
proof -
  from assms obtain p t x where l: "lock_execution s db = Inr (p, t, x)"
    by (auto simp: complete_def bind_eq_Inr)
  then show ?thesis
    using assms fetched_rows
    by (auto simp: token_simps complete_def Let_def bind_eq_Inr store_simps split: if_splits)
qed

text \<open>What a completion leaves in the task and the plan, whatever event follows.\<close>

lemma complete_rows:
  assumes step: "complete now u s out refs db = Inr ((), db')"
  shows "\<exists>t x p. task_get_by_id (s_task_id s) db' = Some t \<and> t_status t = SUCCEEDED \<and>
      t_output_json t = Some out \<and>
    execution_get_by_id (s_execution_id s) db' = Some x \<and> x_status x = EXEC_SUCCEEDED \<and>
      distinct (x_resource_refs x) \<and> set (x_resource_refs x) = set refs \<and>
    plan_get_by_id (s_plan_id s) db' = Some p \<and> p_current_task_id p = None"
proof -
  from complete_token [OF step] obtain p t x where l: "lock_execution s db = Inr (p, t, x)"
    and rows: "get_row p_id (s_plan_id s) (plans db) = Some p" "p_id p = s_plan_id s"
      "get_row t_id (s_task_id s) (tasks db) = Some t" "t_id t = s_task_id s"
      "get_row x_id (s_execution_id s) (task_executions db) = Some x" "x_id x = s_execution_id s"
    and tables: "tasks db' = put_row t_id (succeed_task now out t) (tasks db)"
      "task_executions db' = put_row x_id (succeed_execution now out refs x) (task_executions db)"
    by (auto simp: Let_def store_simps plan_get_by_id_def task_get_by_id_def execution_get_by_id_def)
  have "plans db' = put_row p_id (plan_set_current_task p None) (plans db) \<or> plans db' =
      put_row p_id (plan_set_current_task p None\<lparr>p_status := PLAN_COMPLETED, p_completed_at := Some now\<rparr>) (plans db)"
    using step by (auto simp: complete_def l Let_def bind_eq_Inr store_simps table_simps
        plan_set_current_task_def split: if_splits)
  then have "\<exists>p. plan_get_by_id (s_plan_id s) db' = Some p \<and> p_current_task_id p = None"
    using rows by (auto simp: plan_get_by_id_def table_simps plan_set_current_task_def)
  then show ?thesis
    using rows by (simp add: task_get_by_id_def execution_get_by_id_def tables table_simps
        succeed_task_def succeed_execution_def)
qed

text \<open>
  C8: Completing a task records the success and decides how the plan goes on: the task and its
  execution are succeeded with the output, resource references without repetitions, and the plan
  is idle; if tasks of the plan still wait, one wake-up event is added; if all have succeeded the
  plan is completed and one aggregation event is added; otherwise no event is added.
\<close>

theorem complete_effect:
  assumes step: "complete now u s out refs db = Inr ((), db')"
  shows "\<exists>t x p. task_get_by_id (s_task_id s) db' = Some t \<and> t_status t = SUCCEEDED \<and>
      t_output_json t = Some out \<and>
    execution_get_by_id (s_execution_id s) db' = Some x \<and> x_status x = EXEC_SUCCEEDED \<and>
      distinct (x_resource_refs x) \<and> set (x_resource_refs x) = set refs \<and>
    plan_get_by_id (s_plan_id s) db' = Some p \<and> p_current_task_id p = None \<and>
    (if waiting_in (s_plan_id s) db'
     then \<exists>e. outbox db' = outbox db @ [e] \<and> e_type e = PLAN_WAKEUP \<and>
       e_aggregate_id e = s_plan_id s \<and> e_available_at e = now
     else if all_succeeded (s_plan_id s) db'
     then p_status p = PLAN_COMPLETED \<and> (\<exists>e. outbox db' = outbox db @ [e] \<and>
       e_type e = AGGREGATION_REQUESTED \<and> e_aggregate_id e = s_plan_id s)
     else outbox db' = outbox db)"
proof -
  from complete_token [OF step] obtain p t x where l: "lock_execution s db = Inr (p, t, x)"
    and rows: "get_row p_id (s_plan_id s) (plans db) = Some p" "p_id p = s_plan_id s"
    and tables: "tasks db' = tasks (plan_save (plan_set_current_task p None)
      (execution_save (succeed_execution now out refs x) (task_save (succeed_task now out t) db)))"
    by (auto simp: Let_def plan_get_by_id_def)
  let ?db = "plan_save (plan_set_current_task p None)
      (execution_save (succeed_execution now out refs x) (task_save (succeed_task now out t) db))"
  have w: "waiting_in (s_plan_id s) db' = waiting_in (s_plan_id s) ?db"
    "all_succeeded (s_plan_id s) db' = all_succeeded (s_plan_id s) ?db"
    by (simp_all add: waiting_in_def all_succeeded_def tables)
  have "\<exists>p. plan_get_by_id (s_plan_id s) db' = Some p \<and> p_current_task_id p = None \<and>
    (if waiting_in (s_plan_id s) ?db
     then \<exists>e. outbox db' = outbox db @ [e] \<and> e_type e = PLAN_WAKEUP \<and>
       e_aggregate_id e = s_plan_id s \<and> e_available_at e = now
     else if all_succeeded (s_plan_id s) ?db
     then p_status p = PLAN_COMPLETED \<and> (\<exists>e. outbox db' = outbox db @ [e] \<and>
       e_type e = AGGREGATION_REQUESTED \<and> e_aggregate_id e = s_plan_id s)
     else outbox db' = outbox db)"
    using step [unfolded complete_def l bind_simps Let_def prod.case waiting_count
        unfinished_Nil_iff all_succeeded_def [symmetric]] rows
    by (auto simp: bind_eq_Inr store_simps table_simps plan_get_by_id_def
        plan_set_current_task_def event_def split: if_splits)
  with complete_rows [OF step] show ?thesis unfolding w by blast
qed

definition done_a :: "(unit \<times> db) result" where
  "done_a = complete 120 (demo_uuids ''c'') claimed_snapshot (JObj []) [''r'', ''s'', ''r''] claimed_db"

theorem complete_effect_witness:
  "\<exists>e. outbox (run_tx done_a) = outbox claimed_db @ [e] \<and> e_type e = PLAN_WAKEUP"
proof -
  have ok: "complete 120 (demo_uuids ''c'') claimed_snapshot (JObj []) [''r'', ''s'', ''r''] claimed_db =
      Inr ((), run_tx done_a)" by code_simp
  have "waiting_in (s_plan_id claimed_snapshot) (run_tx done_a)" by code_simp
  with complete_effect [OF ok] show ?thesis by auto
qed

text \<open>
  A successful step from end to end: a worker that is alone, claims a task whose capability and
  executor are registered, and gets a valid output from the executor, reports the task succeeded,
  and the database it leaves shows it succeeded with that output and the plan idle.
\<close>

theorem execute_next_success:
  assumes inv: "runtime_inv self db" and alone: "others env = (\<lambda>n d. d)"
    and claim: "claim_next self (clock env 0) (hexes env 0) pid ev cx co db = Inr (r, db1)"
    and s: "outcome r = Claimed" "claimed_task r = Some s" "recovery r = None"
    and cap: "require_capability (capabilities self) (s_capability_code s) = Inr c"
      "cap_executor_code c \<in> set (executor_codes self)"
    and run: "run_executor c run s = Inr (out, refs)"
    and fresh: "new_id ''event'' (hexes env 1 0) \<notin> e_id ` set (outbox db1)"
  shows "\<exists>db2 t p. execute_next self env run compensate pid ev cx co db =
      (Inr \<lparr>r_plan_id = pid, r_outcome = TaskSucceeded, r_task_id = Some (s_task_id s),
            r_execution_id = Some (s_execution_id s)\<rparr>, db2) \<and>
    task_get_by_id (s_task_id s) db2 = Some t \<and> t_status t = SUCCEEDED \<and>
    t_output_json t = Some out \<and>
    plan_get_by_id pid db2 = Some p \<and> p_current_task_id p = None \<and> runtime_inv self db2"
proof -
  from claimed_lock [OF inv claim s(2)] obtain p t x where
    l: "lock_execution s db1 = Inr (p, t, x)" and pid: "s_plan_id s = pid" by blast
  from fresh obtain db2 where db2: "complete (clock env 1) (hexes env 1) s out refs db1 = Inr ((), db2)"
    using complete_total [OF l] by blast
  have inv1: "runtime_inv self db1" using claim_next_inv [OF inv claim] .
  have "snapshot_ok s db1"
    using issued_snapshot_ok [OF inv1 claim_next_issued(2) [OF claim s(2)]] .
  then have "runtime_inv self db2" using complete_inv [OF inv1 _ db2] by blast
  moreover have "execute_next self env run compensate pid ev cx co db =
      (Inr \<lparr>r_plan_id = pid, r_outcome = TaskSucceeded, r_task_id = Some (s_task_id s),
            r_execution_id = Some (s_execution_id s)\<rparr>, db2)"
    using transact_Inr [where tx = "claim_next self (clock env 0) (hexes env 0) pid ev cx co"
          and db = db, OF claim]
      transact_Inr [where tx = "complete (clock env 1) (hexes env 1) s out refs" and db = db1, OF db2]
    by (simp add: execute_next_def execute_task_def alone s cap run require_code_def require_def pid)
  ultimately show ?thesis using complete_rows [OF db2] pid by blast
qed

definition demo_env :: run_env where
  "demo_env = \<lparr>clock = (\<lambda>n. 100), hexes = (\<lambda>n. if n = 0 then demo_uuids ''a'' else demo_uuids ''b''),
     others = (\<lambda>n d. d)\<rparr>"

definition demo_executor :: executor where
  "demo_executor code payload ctx = Returned
     (JObj [(''document_id'', JInt 7), (''status'', JStr ''processed''), (''cleaned_uri'', JStr ''u'')])
     [''document:7'']"

theorem execute_next_success_witness:
  "\<exists>db2 t. execute_next demo_self demo_env demo_executor (\<lambda>code op j c. None) ''P'' (Some ''e'') None None
      demo_db = (Inr \<lparr>r_plan_id = ''P'', r_outcome = TaskSucceeded, r_task_id = Some ''A'',
         r_execution_id = Some ''execution_a1''\<rparr>, db2) \<and>
    task_get_by_id ''A'' db2 = Some t \<and> t_status t = SUCCEEDED"
proof -
  have s: "s_task_id claimed_snapshot = ''A''" "s_execution_id claimed_snapshot = ''execution_a1''"
    "s_capability_code claimed_snapshot = ''process_document''" by code_simp+
  let ?c = "hd builtin_capabilities"
  have cap: "require_capability (capabilities demo_self) (s_capability_code claimed_snapshot) = Inr ?c"
    by (simp add: s demo_self_def require_capability_def builtin_capabilities_def table_simps)
  have codes: "cap_executor_code ?c \<in> set (executor_codes demo_self)" by code_simp
  obtain out refs where run: "run_executor ?c demo_executor claimed_snapshot = Inr (out, refs)"
    by (rule that) code_simp
  have env: "others demo_env = (\<lambda>n d. d)" "clock demo_env 0 = 100" "hexes demo_env 0 = demo_uuids ''a''"
    by (simp_all add: demo_env_def)
  have fresh: "new_id ''event'' (hexes demo_env 1 0) \<notin> e_id ` set (outbox claimed_db)" by code_simp
  have cl: "claim_next demo_self (clock demo_env 0) (hexes demo_env 0) ''P'' (Some ''e'') None None
      demo_db = Inr (\<lparr>outcome = Claimed, claimed_task = Some claimed_snapshot, recovery = None\<rparr>,
        claimed_db)"
    using demo_claim by (simp add: env)
  from execute_next_success [OF demo_db_inv env(1) cl _ _ _ cap codes run fresh,
      where compensate = "\<lambda>code op j c. None"]
  show ?thesis by (auto simp: s)
qed

end
