(* ===== verification/Unicode_Text.thy ===== *)
theory Unicode_Text
  imports Prelude
begin

text \<open>
  Python's \<open>str\<close> as the document pipeline uses it: a text is the list of its code points.  The
  methods of the standard library that the cleaning and chunking code calls: \<open>strip\<close>, \<open>rstrip\<close>,
  \<open>splitlines\<close>, \<open>split\<close>, \<open>replace\<close> of line ends, \<open>join\<close>, and \<open>re.split\<close> on blank lines.  The lemmas
  are about the visible characters of a text, those that are no white space.
\<close>

type_synonym utext = "int list"

section \<open>White space\<close>

definition u_space :: "int \<Rightarrow> bool" where
  "u_space c \<longleftrightarrow> 9 \<le> c \<and> c \<le> 13 \<or> 28 \<le> c \<and> c \<le> 32 \<or> c = 133 \<or> c = 160 \<or> c = 5760 \<or>
     8192 \<le> c \<and> c \<le> 8202 \<or> c = 8232 \<or> c = 8233 \<or> c = 8239 \<or> c = 8287 \<or> c = 12288"

definition u_rstrip :: "utext \<Rightarrow> utext" where
  "u_rstrip t = rev (dropWhile u_space (rev t))"

definition u_strip :: "utext \<Rightarrow> utext" where
  "u_strip t = u_rstrip (dropWhile u_space t)"

text \<open>The ASCII code points of a literal.\<close>

definition u_ascii :: "string \<Rightarrow> utext" where
  "u_ascii s = map of_char s"

text \<open>\<open>sep.join(ts)\<close>.\<close>

definition u_join :: "utext \<Rightarrow> utext list \<Rightarrow> utext" where
  "u_join sep ts = (case ts of [] \<Rightarrow> [] | t # us \<Rightarrow> t @ concat (map (\<lambda>u. sep @ u) us))"

section \<open>Lines and separators\<close>

text \<open>\<open>text.replace("\r\n", "\n").replace("\r", "\n")\<close>.\<close>

fun u_newlines :: "utext \<Rightarrow> utext" where
  "u_newlines [] = []"
| "u_newlines [c] = [if c = 13 then 10 else c]"
| "u_newlines (c # d # cs) =
     (if c = 13 \<and> d = 10 then 10 # u_newlines cs
      else (if c = 13 then 10 else c) # u_newlines (d # cs))"

definition u_line_break :: "int \<Rightarrow> bool" where
  "u_line_break c \<longleftrightarrow> 10 \<le> c \<and> c \<le> 13 \<or> 28 \<le> c \<and> c \<le> 30 \<or> c = 133 \<or> c = 8232 \<or> c = 8233"

text \<open>\<open>splitlines()\<close>: a line end closes a line, a last line needs none.\<close>

fun u_splitlines_from :: "utext \<Rightarrow> utext \<Rightarrow> utext list" where
  "u_splitlines_from line [] = (if line = [] then [] else [rev line])"
| "u_splitlines_from line [c] = (if u_line_break c then [rev line] else [rev (c # line)])"
| "u_splitlines_from line (c # d # cs) =
     (if c = 13 \<and> d = 10 then rev line # u_splitlines_from [] cs
      else if u_line_break c then rev line # u_splitlines_from [] (d # cs)
      else u_splitlines_from (c # line) (d # cs))"

definition u_splitlines :: "utext \<Rightarrow> utext list" where
  "u_splitlines t = u_splitlines_from [] t"

text \<open>\<open>text.split(sep)\<close> for a separator of one character, and for two line feeds.\<close>

fun u_split :: "int \<Rightarrow> utext \<Rightarrow> utext list" where
  "u_split s [] = [[]]"
| "u_split s (c # cs) =
     (if c = s then [] # u_split s cs
      else case u_split s cs of [] \<Rightarrow> [[c]] | t # ts \<Rightarrow> (c # t) # ts)"

fun u_split_blank_line :: "utext \<Rightarrow> utext list" where
  "u_split_blank_line [] = [[]]"
| "u_split_blank_line [c] = [[c]]"
| "u_split_blank_line (c # d # cs) =
     (if c = 10 \<and> d = 10 then [] # u_split_blank_line cs
      else case u_split_blank_line (d # cs) of [] \<Rightarrow> [[c]] | t # ts \<Rightarrow> (c # t) # ts)"

text \<open>
  \<open>re.split(r"\n\s*\n", text)\<close>: a separator runs from a line feed to the last line feed of the
  white space that follows it.
\<close>

fun after_blank :: "utext \<Rightarrow> utext option" where
  "after_blank [] = None"
| "after_blank (c # cs) =
     (if \<not> u_space c then None
      else case after_blank cs of
        Some rest \<Rightarrow> Some rest
      | None \<Rightarrow> if c = 10 then Some cs else None)"

lemma after_blank_shorter: "after_blank cs = Some rest \<Longrightarrow> length rest < length cs"
proof (induction cs arbitrary: rest)
  case (Cons c cs)
  then show ?case by (fastforce split: if_splits option.splits)
qed simp

function u_split_paragraphs :: "utext \<Rightarrow> utext list" where
  "u_split_paragraphs [] = [[]]"
| "u_split_paragraphs (c # cs) =
     (case (if c = 10 then after_blank cs else None) of
        Some rest \<Rightarrow> [] # u_split_paragraphs rest
      | None \<Rightarrow> (case u_split_paragraphs cs of [] \<Rightarrow> [[c]] | t # ts \<Rightarrow> (c # t) # ts))"
  by pat_completeness auto
termination u_split_paragraphs
  by (relation "measure length") (auto dest: after_blank_shorter split: if_splits)

section \<open>The visible characters of a text\<close>

definition visible :: "utext \<Rightarrow> utext" where
  "visible t = filter (\<lambda>c. \<not> u_space c) t"

named_theorems visible_simps \<open>visible characters after an operation on texts\<close>

lemma visible_basic [simp]:
  "visible [] = []"
  "visible (a @ b) = visible a @ visible b"
  "visible (c # t) = (if u_space c then visible t else c # visible t)"
  by (simp_all add: visible_def)

lemma visible_concat: "visible (concat ts) = concat (map visible ts)"
  by (induction ts) auto

lemma visible_rev: "visible (rev t) = rev (visible t)"
  by (simp add: visible_def rev_filter)

lemma visible_dropWhile: "visible (dropWhile u_space t) = visible t"
  by (induction t) auto

lemma visible_rstrip [visible_simps, simp]: "visible (u_rstrip t) = visible t"
  by (simp add: u_rstrip_def visible_rev visible_dropWhile)

lemma visible_strip [visible_simps, simp]: "visible (u_strip t) = visible t"
  by (simp add: u_strip_def visible_dropWhile)

lemma visible_empty: "visible t = [] \<longleftrightarrow> (\<forall>c\<in>set t. u_space c)"
  by (auto simp: visible_def filter_empty_conv)

lemma strip_empty: "u_strip t = [] \<longleftrightarrow> visible t = []"
proof
  assume "visible t = []"
  then have "dropWhile u_space t = []" by (simp add: visible_empty dropWhile_eq_Nil_conv)
  then show "u_strip t = []" by (auto simp: u_strip_def u_rstrip_def dest: set_dropWhileD)
next
  assume "u_strip t = []"
  then have "visible (u_strip t) = []" by simp
  then show "visible t = []" by simp
qed

lemma length_strip: "length (u_strip t) \<le> length t"
  using length_dropWhile_le [of u_space "rev (dropWhile u_space t)"] length_dropWhile_le [of u_space t]
  by (simp add: u_strip_def u_rstrip_def)

lemma space_breaks [simp]: "u_space 10" "u_space 13" "u_space 32"
  by (simp_all add: u_space_def)

lemma space_line_break: "u_line_break c \<Longrightarrow> u_space c"
  by (auto simp: u_space_def u_line_break_def)

lemma visible_newlines [visible_simps, simp]: "visible (u_newlines t) = visible t"
  by (induction t rule: u_newlines.induct) (auto split: list.splits)

lemma visible_join: "visible sep = [] \<Longrightarrow> visible (u_join sep ts) = concat (map visible ts)"
  by (auto simp: u_join_def visible_concat comp_def split: list.splits)

lemma visible_split: "u_space s \<Longrightarrow> concat (map visible (u_split s t)) = visible t"
  by (induction t) (auto split: list.splits)

lemma visible_split_blank_line: "concat (map visible (u_split_blank_line t)) = visible t"
  by (induction t rule: u_split_blank_line.induct) (auto split: list.splits if_splits)

lemma after_blank_visible: "after_blank cs = Some rest \<Longrightarrow> visible rest = visible cs"
  by (induction cs arbitrary: rest) (auto split: if_splits option.splits)

lemma visible_split_paragraphs: "concat (map visible (u_split_paragraphs t)) = visible t"
proof (induction t rule: u_split_paragraphs.induct)
  case (2 c cs)
  then show ?case
    by (auto simp: after_blank_visible split: list.splits option.splits if_splits)
qed simp

lemma visible_splitlines_from: "concat (map visible (u_splitlines_from line t)) = visible (rev line @ t)"
  by (induction line t rule: u_splitlines_from.induct)
     (auto simp: space_line_break)

lemma visible_splitlines: "concat (map visible (u_splitlines t)) = visible t"
  by (simp add: u_splitlines_def visible_splitlines_from)

text \<open>Dropping blank pieces and stripping the others keeps the visible characters.\<close>

lemma visible_pieces:
  "concat (map visible (filter (\<lambda>t. t \<noteq> []) (map u_strip ts))) = concat (map visible ts)"
  by (induction ts) (auto simp: strip_empty)

end
