(* ===== verification/Chunking.thy ===== *)
theory Chunking
  imports Unicode_Text
begin

text \<open>
  The chunkers of the document pipeline (\<open>infrastructure/chunking\<close>): splitting a cleaned text into
  parent blocks of at most 4000 characters and child chunks of at most 600, for plain text by
  paragraph and for Markdown by section.  The reading of the cleaned file is the argument \<open>text\<close>.
\<close>

section \<open>Data (domain/models.py)\<close>

record parent_block_data =
  pd_block_type :: string
  pd_title :: "utext option"
  pd_section_path :: "utext list option"
  pd_content :: utext
  pd_block_index :: nat
  pd_semantic_group_index :: nat
  pd_segment_index :: nat

record child_chunk_data =
  cd_content :: utext
  cd_embedding_text :: utext
  cd_chunk_index :: nat
  cd_section_path :: "utext list option"
  cd_source_row_index :: "nat option"
  cd_chunk_type :: string

text \<open>A dict from block index to children is an association list in insertion order.\<close>

record chunk_build_result =
  br_parents :: "parent_block_data list"
  br_children_by_parent_index :: "(nat \<times> child_chunk_data list) list"

section \<open>Shared splitting (common.py)\<close>

definition PARENT_BLOCK_MAX_CHARS :: nat where "PARENT_BLOCK_MAX_CHARS = 4000"
definition CHILD_CHUNK_MAX_CHARS :: nat where "CHILD_CHUNK_MAX_CHARS = 600"

definition normalize_text :: "utext \<Rightarrow> utext" where
  "normalize_text text = u_strip (u_newlines text)"

text \<open>The pieces that are not blank, stripped.\<close>

definition stripped :: "utext list \<Rightarrow> utext list" where
  "stripped ts = filter (\<lambda>t. t \<noteq> []) (map u_strip ts)"

definition split_paragraphs :: "utext \<Rightarrow> utext list" where
  "split_paragraphs text = stripped (u_split_paragraphs (normalize_text text))"

text \<open>The full-width and ASCII full stop, exclamation mark, question mark and semicolon.\<close>

definition sentence_endings :: "int list" where
  "sentence_endings = [12290, 65281, 65311, 65307, 46, 33, 63, 59]"

fun split_sentences :: "utext \<Rightarrow> utext \<Rightarrow> utext list" where
  "split_sentences buffer [] = stripped [buffer]"
| "split_sentences buffer (c # cs) =
     (if c \<in> set sentence_endings
      then stripped [buffer @ [c]] @ split_sentences [] cs
      else split_sentences (buffer @ [c]) cs)"

function hard_split :: "nat \<Rightarrow> utext \<Rightarrow> utext list" where
  "hard_split max_len text =
     (if max_len = 0 \<or> text = [] then []
      else stripped [take max_len text] @ hard_split max_len (drop max_len text))"
  by pat_completeness auto
termination hard_split
  by (relation "measure (\<lambda>(_, text). length text)") auto

declare hard_split.simps [simp del]

text \<open>
  The greedy loop of both \<open>split_text_to_child_chunks\<close> and \<open>_split_long_sentence\<close>: \<open>current\<close> grows by
  the next piece while it fits, and a piece that is too long by itself is split further.
\<close>

fun merge_pieces :: "(utext \<Rightarrow> utext list) \<Rightarrow> nat \<Rightarrow> utext \<Rightarrow> utext list \<Rightarrow> utext list" where
  "merge_pieces split_long max_len current [] = stripped [current]"
| "merge_pieces split_long max_len current (piece # pieces) =
     (if length piece > max_len then
        stripped [current] @ split_long piece @
        merge_pieces split_long max_len (if u_strip current = [] then current else []) pieces
      else
        (let candidate = (if current = [] then piece else current @ [32] @ piece) in
         if length candidate \<le> max_len then merge_pieces split_long max_len candidate pieces
         else stripped [current] @ merge_pieces split_long max_len piece pieces))"

definition split_long_sentence :: "nat \<Rightarrow> utext \<Rightarrow> utext list" where
  "split_long_sentence max_len text =
     (let parts = u_split 32 text in
      if length parts \<le> 1 then hard_split max_len text
      else merge_pieces (hard_split max_len) max_len [] parts)"

definition split_text_to_child_chunks :: "nat \<Rightarrow> utext \<Rightarrow> utext list" where
  "split_text_to_child_chunks max_len text =
     (let text = normalize_text text in
      if text = [] then []
      else merge_pieces (split_long_sentence max_len) max_len [] (split_sentences [] text))"

definition join_paragraphs :: "utext list \<Rightarrow> utext" where
  "join_paragraphs parts = u_join [10, 10] parts"

fun group_paragraphs :: "nat \<Rightarrow> utext list \<Rightarrow> nat \<Rightarrow> utext list \<Rightarrow> utext list" where
  "group_paragraphs max_chars parts len [] = (if parts = [] then [] else [join_paragraphs parts])"
| "group_paragraphs max_chars parts len (p # ps) =
     (let addition = (if parts = [] then 0 else 2) + length p;
          full = (parts \<noteq> [] \<and> len + addition > max_chars);
          flushed = (if full then [join_paragraphs parts] else []);
          parts1 = (if full then [] else parts);
          len1 = (if full then 0 else len) in
      if length p \<le> max_chars then
        flushed @ group_paragraphs max_chars (parts1 @ [p])
          (len1 + (if parts1 = [] then 0 else 2) + length p) ps
      else flushed @ (if parts1 = [] then [] else [join_paragraphs parts1]) @
        split_text_to_child_chunks max_chars p @ group_paragraphs max_chars [] 0 ps)"

definition split_text_to_parent_segments :: "nat \<Rightarrow> utext \<Rightarrow> utext list" where
  "split_text_to_parent_segments max_chars text =
     (let text = u_strip text in
      if text = [] then []
      else if length text \<le> max_chars then [text]
      else group_paragraphs max_chars [] 0 (stripped (u_split_blank_line text)))"

text \<open>\<open>build_embedding_text\<close> prefixes the section path: the two Chinese labels are code points.\<close>

definition title_path_label :: utext where
  "title_path_label = [26631, 39064, 36335, 24452, 65306]"

definition body_label :: utext where
  "body_label = [10, 27491, 25991, 65306]"

definition build_embedding_text :: "utext list option \<Rightarrow> utext \<Rightarrow> utext" where
  "build_embedding_text path content =
     (case path of
        Some (t # ts) \<Rightarrow> title_path_label @ u_join [62] (t # ts) @ body_label @ content
      | _ \<Rightarrow> content)"

section \<open>Plain text (text.py)\<close>

text \<open>
  The blocks in order, each with its semantic group and its segment in the group; their position
  is the block index that the source counts up.
\<close>

definition child_chunks_of :: "utext list option \<Rightarrow> utext \<Rightarrow> child_chunk_data list" where
  "child_chunks_of path parent_content =
     map (\<lambda>(i, child_text).
        \<lparr>cd_content = child_text, cd_embedding_text = build_embedding_text path child_text,
         cd_chunk_index = i, cd_section_path = path, cd_source_row_index = None,
         cd_chunk_type = ''text''\<rparr>)
       (enumerate 0 (split_text_to_child_chunks CHILD_CHUNK_MAX_CHARS parent_content))"

definition text_segments :: "utext list \<Rightarrow> (nat \<times> nat \<times> utext) list" where
  "text_segments paragraphs = concat (map (\<lambda>(g, p). map (\<lambda>(s, content). (g, s, content))
       (enumerate 0 (split_text_to_parent_segments PARENT_BLOCK_MAX_CHARS p)))
     (enumerate 0 paragraphs))"

definition build_text :: "utext \<Rightarrow> chunk_build_result" where
  "build_text text =
     (let blocks = enumerate 0 (text_segments (split_paragraphs text)) in
      \<lparr>br_parents = map (\<lambda>(i, g, s, content).
         \<lparr>pd_block_type = ''paragraph'', pd_title = None, pd_section_path = None,
          pd_content = content, pd_block_index = i, pd_semantic_group_index = g,
          pd_segment_index = s\<rparr>) blocks,
       br_children_by_parent_index =
         map (\<lambda>(i, g, s, content). (i, child_chunks_of None content)) blocks\<rparr>)"

section \<open>Markdown (markdown.py)\<close>

text \<open>
  A section with its 1-based lines.  \<open>heading\<close> is the match of \<open>^(#{1,6})\s+(.+?)\s*$\<close> on a line:
  the level and the stripped title.  The pattern needs a white space after the marks and one
  further character, which may itself be white space.
\<close>

record section_data =
  sd_level :: "nat option"
  sd_title :: "utext option"
  sd_section_path :: "utext list"
  sd_heading_line :: "nat option"
  sd_start_line :: nat
  sd_end_line :: nat

definition heading :: "utext \<Rightarrow> (nat \<times> utext) option" where
  "heading line =
     (let level = length (takeWhile (\<lambda>c. c = 35) line);
          rest = dropWhile (\<lambda>c. c = 35) line in
      if 1 \<le> level \<and> level \<le> 6 \<and> 2 \<le> length rest \<and> u_space (hd rest)
      then Some (level, u_strip rest) else None)"

text \<open>The ancestor stack: headings of the same or a deeper level leave it.\<close>

definition push_heading :: "nat \<Rightarrow> utext \<Rightarrow> (nat \<times> utext) list \<Rightarrow> (nat \<times> utext) list" where
  "push_heading level title stack =
     rev (dropWhile (\<lambda>h. level \<le> fst h) (rev stack)) @ [(level, title)]"

definition close_section :: "section_data option \<Rightarrow> nat \<Rightarrow> section_data list" where
  "close_section current end_line =
     (case current of None \<Rightarrow> [] | Some sec \<Rightarrow> [sec\<lparr>sd_end_line := end_line\<rparr>])"

text \<open>One pass over the lines, for any recogniser of headings; \<open>n\<close> is the number of the next line.\<close>

fun sections_from ::
  "(utext \<Rightarrow> (nat \<times> utext) option) \<Rightarrow> (nat \<times> utext) list \<Rightarrow> section_data option \<Rightarrow> nat \<Rightarrow>
     utext list \<Rightarrow> section_data list" where
  "sections_from h stack current n [] = close_section current (n - 1)"
| "sections_from h stack current n (line # lines) =
     (case h line of
        Some (level, title) \<Rightarrow>
          (let stack' = push_heading level title stack in
           close_section current (n - 1) @
           sections_from h stack'
             (Some \<lparr>sd_level = Some level, sd_title = Some title,
                sd_section_path = map snd stack', sd_heading_line = Some n,
                sd_start_line = n, sd_end_line = n\<rparr>) (n + 1) lines)
      | None \<Rightarrow>
          sections_from h stack
            (if current = None \<and> u_strip line \<noteq> []
             then Some \<lparr>sd_level = None, sd_title = None, sd_section_path = [],
               sd_heading_line = None, sd_start_line = n, sd_end_line = n\<rparr>
             else current) (n + 1) lines)"

definition parse_sections :: "utext list \<Rightarrow> section_data list" where
  "parse_sections lines = sections_from heading [] None 1 lines"

definition extract_section_content :: "utext list \<Rightarrow> section_data \<Rightarrow> utext" where
  "extract_section_content lines sec =
     (let content_start_line =
            (case sd_heading_line sec of Some l \<Rightarrow> l + 1 | None \<Rightarrow> sd_start_line sec) in
      u_strip (u_join [10]
        (drop (content_start_line - 1) (take (sd_end_line sec) lines))))"

definition section_segments ::
  "utext list \<Rightarrow> section_data list \<Rightarrow> (nat \<times> section_data \<times> nat \<times> utext) list" where
  "section_segments lines sections =
     concat (map (\<lambda>(g, sec). map (\<lambda>(s, content). (g, sec, s, content))
       (enumerate 0 (split_text_to_parent_segments PARENT_BLOCK_MAX_CHARS
         (extract_section_content lines sec)))) (enumerate 0 sections))"

definition path_of :: "section_data \<Rightarrow> utext list option" where
  "path_of sec = (if sd_section_path sec = [] then None else Some (sd_section_path sec))"

definition build_markdown :: "section_data list option \<Rightarrow> utext \<Rightarrow> chunk_build_result" where
  "build_markdown metadata_sections text =
     (let lines = u_splitlines text;
          sections = (case metadata_sections of
            Some (sec # secs) \<Rightarrow> sec # secs | _ \<Rightarrow> parse_sections lines);
          blocks = enumerate 0 (section_segments lines sections) in
      \<lparr>br_parents = map (\<lambda>(i, g, sec, s, content).
         \<lparr>pd_block_type = ''section'', pd_title = sd_title sec,
          pd_section_path = path_of sec, pd_content = content, pd_block_index = i,
          pd_semantic_group_index = g, pd_segment_index = s\<rparr>) blocks,
       br_children_by_parent_index =
         map (\<lambda>(i, g, sec, s, content). (i, child_chunks_of (path_of sec) content)) blocks\<rparr>)"

end
