(* ===== verification/Parsing.thy ===== *)
theory Parsing
  imports Chunking
begin

text \<open>
  The cleaning processors for plain text and Markdown (\<open>infrastructure/parsing\<close>): from the decoded
  text of a source file to the cleaned text and its metadata.  Reading and decoding the file and
  writing the result are left to the caller.
\<close>

section \<open>Results (domain/models.py)\<close>

text \<open>The metadata of the three processors; each fills in its own entries.\<close>

record process_metadata =
  pm_paragraph_count :: "nat option"
  pm_blank_line_count :: "nat option"
  pm_heading_count :: "nat option"
  pm_sections :: "section_data list option"
  pm_headers :: "utext list option"
  pm_row_count :: "nat option"
  pm_blank_row_count :: "nat option"

definition no_metadata :: process_metadata where
  "no_metadata = \<lparr>pm_paragraph_count = None, pm_blank_line_count = None, pm_heading_count = None,
     pm_sections = None, pm_headers = None, pm_row_count = None, pm_blank_row_count = None\<rparr>"

record process_result =
  pr_cleaned :: utext
  pr_source_type :: string
  pr_char_count :: nat
  pr_line_count :: nat
  pr_metadata :: process_metadata

section \<open>Lines shared by both processors\<close>

text \<open>
  The loop over the lines: \<open>fmt\<close> is what is kept of a line that is not blank, runs of blank lines
  become one empty line; the second component counts the blank lines.
\<close>

definition without_nul :: "utext \<Rightarrow> utext" where
  "without_nul text = u_newlines (filter (\<lambda>c. c \<noteq> 0) text)"

fun clean_lines :: "(utext \<Rightarrow> utext) \<Rightarrow> utext list \<times> nat \<Rightarrow> utext list \<Rightarrow> utext list \<times> nat" where
  "clean_lines fmt (cleaned, blanks) [] = (cleaned, blanks)"
| "clean_lines fmt (cleaned, blanks) (raw_line # raw_lines) =
     (let line = u_rstrip raw_line in
      if u_strip line = [] then
        clean_lines fmt (if cleaned \<noteq> [] \<and> last cleaned \<noteq> [] then cleaned @ [[]] else cleaned,
          blanks + 1) raw_lines
      else clean_lines fmt (cleaned @ [fmt line], blanks) raw_lines)"

definition trim_empty :: "utext list \<Rightarrow> utext list" where
  "trim_empty ls = rev (dropWhile (\<lambda>l. l = []) (rev (dropWhile (\<lambda>l. l = []) ls)))"

definition finish_text :: "utext list \<Rightarrow> utext" where
  "finish_text ls = (let text = u_join [10] (trim_empty ls) in if text = [] then [] else text @ [10])"

section \<open>TxtProcessor (text.py)\<close>

definition clean_text :: "utext \<Rightarrow> utext \<times> process_metadata" where
  "clean_text text =
     (let (ls, blanks) = clean_lines (\<lambda>l. l) ([], 0) (u_split 10 (without_nul text));
          cleaned = finish_text ls in
      (cleaned, no_metadata
        \<lparr>pm_paragraph_count := Some (length (filter (\<lambda>p. u_strip p \<noteq> [])
           (u_split_blank_line (u_strip cleaned)))),
         pm_blank_line_count := Some blanks\<rparr>))"

definition process_txt :: "utext \<Rightarrow> process_result" where
  "process_txt text =
     (let (cleaned, metadata) = clean_text text in
      \<lparr>pr_cleaned = cleaned, pr_source_type = ''txt'', pr_char_count = length cleaned,
       pr_line_count = length (u_splitlines cleaned), pr_metadata = metadata\<rparr>)"

section \<open>MdProcessor (markdown.py)\<close>

text \<open>
  The match of \<open>^[ \t]{0,3}(#{1,6})[ \t]+(.+?)\s*$\<close>: at most three blanks, the marks, a blank and
  one further character; the title is stripped.
\<close>

definition md_blank :: "int \<Rightarrow> bool" where
  "md_blank c \<longleftrightarrow> c = 32 \<or> c = 9"

definition md_heading :: "utext \<Rightarrow> (nat \<times> utext) option" where
  "md_heading line =
     (let body = dropWhile md_blank line;
          level = length (takeWhile (\<lambda>c. c = 35) body);
          rest = dropWhile (\<lambda>c. c = 35) body in
      if length (takeWhile md_blank line) \<le> 3 \<and> 1 \<le> level \<and> level \<le> 6 \<and>
         2 \<le> length rest \<and> md_blank (hd rest)
      then Some (level, u_strip rest) else None)"

definition md_line :: "utext \<Rightarrow> utext" where
  "md_line line = (case md_heading line of
     Some (level, title) \<Rightarrow> replicate level 35 @ [32] @ title
   | None \<Rightarrow> line)"

definition md_normalize_text :: "utext \<Rightarrow> utext" where
  "md_normalize_text text =
     finish_text (fst (clean_lines md_line ([], 0) (u_split 10 (without_nul text))))"

definition extract_sections :: "utext \<Rightarrow> section_data list" where
  "extract_sections text = sections_from md_heading [] None 1 (u_splitlines text)"

definition process_md :: "utext \<Rightarrow> process_result" where
  "process_md text =
     (let cleaned = md_normalize_text text; sections = extract_sections cleaned in
      \<lparr>pr_cleaned = cleaned, pr_source_type = ''md'', pr_char_count = length cleaned,
       pr_line_count = length (u_splitlines cleaned),
       pr_metadata = no_metadata
         \<lparr>pm_heading_count := Some (length (filter (\<lambda>s. sd_heading_line s \<noteq> None) sections)),
          pm_sections := Some sections\<rparr>\<rparr>)"

section \<open>The cleaned text keeps every visible character\<close>

lemma visible_without_nul: "visible (without_nul text) = visible (filter (\<lambda>c. c \<noteq> 0) text)"
  by (simp add: without_nul_def)

lemma visible_clean_lines:
  assumes "\<And>l. visible (fmt l) = visible l"
  shows "concat (map visible (fst (clean_lines fmt st ls))) =
    concat (map visible (fst st)) @ concat (map visible ls)"
  using assms
  by (induction fmt st ls rule: clean_lines.induct) (auto simp: Let_def strip_empty)

lemma visible_trim: "concat (map visible (trim_empty ls)) = concat (map visible ls)"
proof -
  have drop: "concat (map visible (dropWhile (\<lambda>l. l = []) ls)) = concat (map visible ls)" for ls
    by (induction ls) auto
  have "concat (map visible (rev (dropWhile (\<lambda>l. l = []) (rev ls)))) = concat (map visible ls)" for ls
  proof (induction ls rule: rev_induct)
    case (snoc l ls)
    then show ?case by auto
  qed simp
  then show ?thesis by (simp add: trim_empty_def drop)
qed

lemma visible_finish: "visible (finish_text ls) = concat (map visible ls)"
  using visible_join [of "[10]" "trim_empty ls"]
  by (auto simp: finish_text_def Let_def visible_trim [of ls, symmetric])

lemma md_heading_visible:
  assumes "md_heading line = Some (level, title)"
  shows "visible line = replicate level 35 @ visible title"
proof -
  have blanks: "visible (takeWhile md_blank line) = []"
    by (auto simp: visible_empty md_blank_def u_space_def dest!: set_takeWhileD)
  let ?body = "dropWhile md_blank line"
  have marks: "takeWhile (\<lambda>c. c = 35) xs = replicate (length (takeWhile (\<lambda>c. c = 35) xs)) (35 :: int)" for xs
    by (induction xs) auto
  have "\<not> u_space 35" by (simp add: u_space_def)
  then have "visible (replicate n 35) = replicate n 35" for n by (induction n) auto
  then have "visible ?body = replicate level 35 @ visible title"
    using assms marks [of ?body]
    by (auto simp: md_heading_def Let_def split: if_splits)
       (metis takeWhile_dropWhile_id visible_basic(2))
  then show ?thesis using blanks by (metis append_Nil takeWhile_dropWhile_id visible_basic(2))
qed

lemma visible_md_line: "visible (md_line line) = visible line"
proof -
  have "\<not> u_space 35" by (simp add: u_space_def)
  then have "visible (replicate n 35) = replicate n 35" for n by (induction n) auto
  then show ?thesis using md_heading_visible [of line]
    by (auto simp: md_line_def split: option.splits)
qed

lemma cleaned_visible:
  "visible (pr_cleaned (process_txt text)) = visible (filter (\<lambda>c. c \<noteq> 0) text)"
  "visible (pr_cleaned (process_md text)) = visible (filter (\<lambda>c. c \<noteq> 0) text)"
  by (simp_all add: process_txt_def process_md_def clean_text_def md_normalize_text_def Let_def
      case_prod_unfold visible_finish visible_clean_lines visible_md_line visible_split
      visible_without_nul)

end
