(* ===== verification/Csv_Format.thy ===== *)
theory Csv_Format
  imports Parsing
begin

text \<open>
  Python's \<open>csv\<close> module as the document pipeline uses it: the writer with comma, double quote,
  minimal quoting and line feed (\<open>parsing/csv.py\<close>), and the reader of the default dialect with
  which \<open>csv.DictReader\<close> reads the cleaned file back (\<open>chunking/csv.py\<close>).  What is written is read
  back unchanged.
\<close>

section \<open>Writer\<close>

definition csv_special :: "int \<Rightarrow> bool" where
  "csv_special c \<longleftrightarrow> c = 44 \<or> c = 34 \<or> c = 10 \<or> c = 13"

definition csv_field :: "utext \<Rightarrow> utext" where
  "csv_field t =
     (if list_ex csv_special t
      then 34 # concat (map (\<lambda>c. if c = 34 then [34, 34] else [c]) t) @ [34] else t)"

definition csv_row :: "utext list \<Rightarrow> utext" where
  "csv_row fs = (if fs = [[]] then [34, 34] else u_join [44] (map csv_field fs)) @ [10]"

definition csv_write :: "utext list list \<Rightarrow> utext" where
  "csv_write rows = concat (map csv_row rows)"

section \<open>Reader\<close>

text \<open>
  The states of the reader inside a record.  \<open>At_Field\<close> is the start of a field; with no field read
  yet it is the start of a record.  A carriage return ends a record like a line feed and takes a
  line feed that follows with it; the end of the text ends the last record, also inside quotes.
\<close>

datatype csv_state = At_Field | In_Field | In_Quoted | Quote_In_Quoted

definition skip_line_feed :: "int \<Rightarrow> utext \<Rightarrow> utext" where
  "skip_line_feed c cs = (if c = 13 \<and> cs \<noteq> [] \<and> hd cs = 10 then tl cs else cs)"

lemma length_skip_line_feed: "length (skip_line_feed c cs) \<le> length cs"
  by (simp add: skip_line_feed_def)

function csv_read :: "csv_state \<Rightarrow> utext \<Rightarrow> utext list \<Rightarrow> utext \<Rightarrow> utext list list" where
  "csv_read state field row [] =
     (if state = At_Field \<and> row = [] then [] else [row @ [field]])"
| "csv_read state field row (c # cs) =
     (if state = In_Quoted then
        if c = 34 then csv_read Quote_In_Quoted field row cs
        else csv_read In_Quoted (field @ [c]) row cs
      else if state = Quote_In_Quoted \<and> c = 34 then csv_read In_Quoted (field @ [34]) row cs
      else if c = 10 \<or> c = 13 then
        (if state = At_Field \<and> row = [] then [] else row @ [field]) #
        csv_read At_Field [] [] (skip_line_feed c cs)
      else if c = 44 then csv_read At_Field [] (row @ [field]) cs
      else if state = At_Field \<and> c = 34 then csv_read In_Quoted [] row cs
      else csv_read In_Field (field @ [c]) row cs)"
  by pat_completeness auto
termination csv_read
  by (relation "measure (\<lambda>(_, _, _, text). length text)")
     (auto intro: le_imp_less_Suc length_skip_line_feed)

definition csv_records :: "utext \<Rightarrow> utext list list" where
  "csv_records text = csv_read At_Field [] [] text"

text \<open>
  \<open>DictReader\<close>: the first record names the fields, empty records are skipped, missing fields are
  absent and the last of several equal names wins.
\<close>

definition csv_fieldnames :: "utext \<Rightarrow> utext list" where
  "csv_fieldnames text = (case csv_records text of [] \<Rightarrow> [] | h # _ \<Rightarrow> h)"

definition csv_dicts :: "utext \<Rightarrow> (utext \<times> utext) list list" where
  "csv_dicts text =
     (case csv_records text of
        [] \<Rightarrow> []
      | h # rows \<Rightarrow> map (\<lambda>row. zip h row) (filter (\<lambda>row. row \<noteq> []) rows))"

definition dict_get :: "(utext \<times> utext) list \<Rightarrow> utext \<Rightarrow> utext option" where
  "dict_get d k = map_of (rev d) k"

section \<open>Reading what was written\<close>

lemma read_plain:
  assumes "\<not> list_ex csv_special t" "state \<in> {At_Field, In_Field}"
  shows "csv_read state field row (t @ c # cs) =
    csv_read (if t = [] then state else In_Field) (field @ t) row (c # cs)"
  using assms
proof (induction t arbitrary: state field)
  case (Cons x t)
  then have x: "x \<noteq> 10" "x \<noteq> 13" "x \<noteq> 44" "x \<noteq> 34" by (auto simp: csv_special_def)
  have "csv_read state field row ((x # t) @ c # cs) = csv_read In_Field (field @ [x]) row (t @ c # cs)"
    using x Cons.prems(2) by auto
  also have "\<dots> = csv_read In_Field (field @ x # t) row (c # cs)"
    using Cons.IH [of In_Field "field @ [x]"] Cons.prems(1) by (simp add: if_split)
  finally show ?case by simp
qed simp

lemma read_quoted:
  "csv_read In_Quoted field row (concat (map (\<lambda>c. if c = 34 then [34, 34] else [c]) t) @ 34 # cs) =
    csv_read Quote_In_Quoted (field @ t) row cs"
  by (induction t arbitrary: field) auto

text \<open>A written field followed by a comma or a line feed is read as this field.\<close>

lemma read_field:
  assumes "c = 44 \<or> c = 10" "t \<noteq> [] \<or> row \<noteq> [] \<or> c = 44"
  shows "csv_read At_Field [] row (csv_field t @ c # cs) =
    (if c = 44 then csv_read At_Field [] (row @ [t]) cs
     else (row @ [t]) # csv_read At_Field [] [] cs)"
proof (cases "list_ex csv_special t")
  case True
  then have "csv_read At_Field [] row (csv_field t @ c # cs) = csv_read Quote_In_Quoted t row (c # cs)"
    using read_quoted [of "[]" row t "c # cs"] by (simp add: csv_field_def)
  then show ?thesis using assms(1) by (auto simp: skip_line_feed_def)
next
  case False
  then show ?thesis using read_plain [OF False, of At_Field "[]" row c cs] assms
    by (auto simp: csv_field_def skip_line_feed_def)
qed

lemma read_fields:
  "fs \<noteq> [] \<Longrightarrow> row \<noteq> [] \<or> fs \<noteq> [[]] \<Longrightarrow>
   csv_read At_Field [] row (u_join [44] (map csv_field fs) @ 10 # cs) =
     (row @ fs) # csv_read At_Field [] [] cs"
proof (induction fs arbitrary: row)
  case (Cons f fs)
  show ?case
  proof (cases fs)
    case Nil
    then show ?thesis using read_field [of 10 f row cs] Cons.prems by (auto simp: u_join_def)
  next
    case (Cons g gs)
    have "u_join [44] (map csv_field (f # fs)) @ 10 # cs =
        csv_field f @ 44 # (u_join [44] (map csv_field fs) @ 10 # cs)"
      by (simp add: u_join_def Cons)
    then show ?thesis using read_field [of 44 f row] Cons.IH [of "row @ [f]"] Cons by simp
  qed
qed simp

lemma read_row: "csv_read At_Field [] [] (csv_row fs @ cs) = fs # csv_read At_Field [] [] cs"
proof -
  consider "fs = []" | "fs = [[]]" | "fs \<noteq> []" "fs \<noteq> [[]]" by blast
  then show ?thesis
  proof cases
    case 3
    then show ?thesis using read_fields [of fs "[]" cs] by (simp add: csv_row_def)
  qed (auto simp: csv_row_def u_join_def skip_line_feed_def)
qed

lemma csv_read_write: "csv_records (csv_write rows) = rows"
  by (induction rows) (simp_all add: csv_records_def csv_write_def read_row)

end
