(* ===== verification/Chunking_Properties.thy ===== *)
theory Chunking_Properties
  imports Parsing
begin

text \<open>
  What chunking guarantees: no visible character of the source is lost, repeated or moved, every
  block and chunk is within its length limit and not blank, the indices are consecutive, and what is
  under a heading of a Markdown text is labelled with the path of its headings.
\<close>

section \<open>Nothing is lost\<close>

abbreviation visible_all :: "utext list \<Rightarrow> utext" where
  "visible_all ts \<equiv> concat (map visible ts)"

lemma visible_stripped [simp]: "visible_all (stripped ts) = visible_all ts"
  unfolding stripped_def by (rule visible_pieces)

lemma visible_sentences: "visible_all (split_sentences buffer text) = visible buffer @ visible text"
  by (induction buffer "text" rule: split_sentences.induct) auto

lemma visible_hard_split: "0 < m \<Longrightarrow> visible_all (hard_split m text) = visible text"
proof (induction m "text" rule: hard_split.induct)
  case (1 m "text")
  have "visible (take m text) @ visible (drop m text) = visible text"
    by (metis append_take_drop_id visible_basic(2))
  then show ?case using 1 by (subst hard_split.simps) auto
qed

lemma visible_merge:
  assumes "\<And>p. visible_all (long p) = visible p"
  shows "visible_all (merge_pieces long m current pieces) = visible current @ visible_all pieces"
  using assms
  by (induction long m current pieces rule: merge_pieces.induct)
     (auto simp: Let_def strip_empty)

lemma visible_long_sentence: "0 < m \<Longrightarrow> visible_all (split_long_sentence m text) = visible text"
  by (simp add: split_long_sentence_def Let_def visible_hard_split visible_merge visible_split)

lemma visible_normalize [simp]: "visible (normalize_text text) = visible text"
  by (simp add: normalize_text_def)

lemma visible_child_chunks:
  assumes "0 < m"
  shows "visible_all (split_text_to_child_chunks m text) = visible text"
proof (cases "normalize_text text = []")
  case True
  then have "visible text = []" by (metis visible_basic(1) visible_normalize)
  with True show ?thesis by (simp add: split_text_to_child_chunks_def)
next
  case False
  then show ?thesis using assms
    by (simp add: split_text_to_child_chunks_def visible_merge visible_long_sentence visible_sentences)
qed

lemma visible_join_paragraphs [simp]: "visible (join_paragraphs ps) = visible_all ps"
  by (simp add: join_paragraphs_def visible_join)

lemma visible_group:
  "0 < m \<Longrightarrow> visible_all (group_paragraphs m parts len ps) = visible_all parts @ visible_all ps"
  by (induction m parts len ps rule: group_paragraphs.induct)
     (auto simp: Let_def visible_child_chunks)

lemma visible_parent_segments:
  assumes "0 < m"
  shows "visible_all (split_text_to_parent_segments m text) = visible text"
proof (cases "u_strip text = []")
  case True
  then show ?thesis by (simp add: split_text_to_parent_segments_def strip_empty)
next
  case False
  then show ?thesis using assms
    by (simp add: split_text_to_parent_segments_def Let_def visible_group visible_split_blank_line)
qed

lemma visible_paragraphs: "visible_all (split_paragraphs text) = visible text"
  by (simp add: split_paragraphs_def visible_split_paragraphs)

section \<open>Limits\<close>

text \<open>A piece is fine for a limit when it is not blank and not longer.\<close>

definition fits :: "nat \<Rightarrow> utext \<Rightarrow> bool" where
  "fits m t \<longleftrightarrow> length t \<le> m \<and> visible t \<noteq> []"

lemma fits_stripped: "(\<And>t. t \<in> set ts \<Longrightarrow> length t \<le> m) \<Longrightarrow> t \<in> set (stripped ts) \<Longrightarrow> fits m t"
  by (auto simp: stripped_def fits_def strip_empty intro: order_trans [OF length_strip])

lemma stripped_visible: "t \<in> set (stripped ts) \<Longrightarrow> visible t \<noteq> []"
  by (auto simp: stripped_def strip_empty)

lemma fits_hard_split: "t \<in> set (hard_split m text) \<Longrightarrow> fits m t"
proof (induction m "text" rule: hard_split.induct)
  case (1 m "text")
  then show ?case
    by (subst (asm) (2) hard_split.simps) (auto split: if_splits elim!: fits_stripped [rotated])
qed

lemma fits_merge:
  assumes "\<And>p t. t \<in> set (long p) \<Longrightarrow> fits m t"
  shows "length current \<le> m \<Longrightarrow> t \<in> set (merge_pieces long m current pieces) \<Longrightarrow> fits m t"
  using assms
  by (induction long m current pieces rule: merge_pieces.induct)
     (auto simp: Let_def elim!: fits_stripped [rotated] split: if_splits)

lemma fits_long_sentence: "t \<in> set (split_long_sentence m text) \<Longrightarrow> fits m t"
  by (auto simp: split_long_sentence_def Let_def split: if_splits
      intro: fits_hard_split fits_merge [of _ m "[]"])

lemma fits_child_chunks: "t \<in> set (split_text_to_child_chunks m text) \<Longrightarrow> fits m t"
  by (auto simp: split_text_to_child_chunks_def Let_def split: if_splits
      intro: fits_long_sentence fits_merge [of _ m "[]"])

lemma join_snoc: "ps \<noteq> [] \<Longrightarrow> join_paragraphs (ps @ [p]) = join_paragraphs ps @ [10, 10] @ p"
  by (cases ps) (auto simp: join_paragraphs_def u_join_def)

lemma group_steps:
  "length p \<le> m \<Longrightarrow> parts = [] \<or> len + 2 + length p \<le> m \<Longrightarrow>
    group_paragraphs m parts len (p # ps) =
    group_paragraphs m (parts @ [p]) (len + (if parts = [] then 0 else 2) + length p) ps"
  "length p \<le> m \<Longrightarrow> parts \<noteq> [] \<Longrightarrow> m < len + 2 + length p \<Longrightarrow>
    group_paragraphs m parts len (p # ps) = join_paragraphs parts # group_paragraphs m [p] (length p) ps"
  "m < length p \<Longrightarrow>
    group_paragraphs m parts len (p # ps) = (if parts = [] then [] else [join_paragraphs parts]) @
      split_text_to_child_chunks m p @ group_paragraphs m [] 0 ps"
  by (auto simp: Let_def)

lemma fits_group:
  assumes "parts \<noteq> [] \<Longrightarrow> len = length (join_paragraphs parts) \<and> fits m (join_paragraphs parts)"
    and "parts = [] \<Longrightarrow> len = 0" and "\<forall>p\<in>set ps. visible p \<noteq> []"
  shows "\<forall>t\<in>set (group_paragraphs m parts len ps). fits m t"
  using assms
proof (induction ps arbitrary: parts len)
  case (Cons p ps)
  have one: "join_paragraphs [p] = p" by (simp add: join_paragraphs_def u_join_def)
  consider (grow) "length p \<le> m" "parts = [] \<or> len + 2 + length p \<le> m"
    | (full) "length p \<le> m" "parts \<noteq> []" "m < len + 2 + length p"
    | (long) "m < length p" by linarith
  then show ?case
  proof cases
    case grow
    have "\<forall>t\<in>set (group_paragraphs m (parts @ [p])
        (len + (if parts = [] then 0 else 2) + length p) ps). fits m t"
    proof (rule Cons.IH)
      show "len + (if parts = [] then 0 else 2) + length p = length (join_paragraphs (parts @ [p])) \<and>
          fits m (join_paragraphs (parts @ [p]))"
        using grow Cons.prems one by (cases "parts = []") (auto simp: join_snoc fits_def)
    qed (use Cons.prems in auto)
    then show ?thesis using group_steps(1) [OF grow] by simp
  next
    case full
    have "\<forall>t\<in>set (group_paragraphs m [p] (length p) ps). fits m t"
      by (rule Cons.IH) (use full Cons.prems one in \<open>auto simp: fits_def\<close>)
    then show ?thesis using group_steps(2) [OF full] Cons.prems(1) full by simp
  next
    case long
    have "\<forall>t\<in>set (group_paragraphs m [] 0 ps). fits m t"
      by (rule Cons.IH) (use Cons.prems in auto)
    then show ?thesis using group_steps(3) [OF long] Cons.prems(1) fits_child_chunks by auto
  qed
qed auto

declare group_paragraphs.simps [simp del]

lemma fits_parent_segments: "t \<in> set (split_text_to_parent_segments m text) \<Longrightarrow> fits m t"
  using fits_group [of "[]" 0 m "stripped (u_split_blank_line (u_strip text))"] stripped_visible
  by (auto simp: split_text_to_parent_segments_def Let_def fits_def strip_empty split: if_splits)

section \<open>Sections of a Markdown text\<close>

text \<open>
  The text of a section, and of the section that is open while the lines are read.
\<close>

definition content_from :: "section_data \<Rightarrow> nat" where
  "content_from sec = (case sd_heading_line sec of Some l \<Rightarrow> l + 1 | None \<Rightarrow> sd_start_line sec)"

definition open_text :: "utext list \<Rightarrow> section_data option \<Rightarrow> utext" where
  "open_text pre current =
     (case current of None \<Rightarrow> [] | Some sec \<Rightarrow> visible_all (drop (content_from sec - 1) pre))"

definition section_texts :: "utext list \<Rightarrow> section_data list \<Rightarrow> utext" where
  "section_texts lines secs = visible_all (map (extract_section_content lines) secs)"

lemma close_section_text:
  "section_texts (pre @ rest) (close_section current (length pre)) = open_text pre current"
  by (auto simp: section_texts_def close_section_def open_text_def extract_section_content_def
      content_from_def visible_join split: option.splits)

lemma section_texts_append [simp]:
  "section_texts lines (xs @ ys) = section_texts lines xs @ section_texts lines ys"
  by (simp add: section_texts_def)

section \<open>Section paths\<close>

text \<open>
  The headings that enclose a place, from all headings before it: a heading encloses it when every
  later one is deeper.
\<close>

fun enclosing :: "(nat \<times> utext) list \<Rightarrow> (nat \<times> utext) list" where
  "enclosing [] = []"
| "enclosing ((level, title) # hs) =
     (if list_all (\<lambda>(l, t). level < l) hs then [(level, title)] else []) @ enclosing hs"

text \<open>Every visible character of the lines that are no headings, with the titles that enclose its line.\<close>

definition labelled :: "utext list \<Rightarrow> utext \<Rightarrow> (int \<times> utext list) list" where
  "labelled path t = map (\<lambda>c. (c, path)) (visible t)"

fun labelled_lines ::
  "(utext \<Rightarrow> (nat \<times> utext) option) \<Rightarrow> (nat \<times> utext) list \<Rightarrow> utext list \<Rightarrow> (int \<times> utext list) list" where
  "labelled_lines h hs [] = []"
| "labelled_lines h hs (line # lines) =
     (case h line of
        Some x \<Rightarrow> labelled_lines h (hs @ [x]) lines
      | None \<Rightarrow> labelled (map snd (enclosing hs)) line @ labelled_lines h hs lines)"

definition titles :: "utext list option \<Rightarrow> utext list" where
  "titles path = (case path of None \<Rightarrow> [] | Some ts \<Rightarrow> ts)"

lemma labelled_text: "map fst (labelled path t) = visible t"
  by (simp add: labelled_def comp_def)

lemma labelled_concat: "concat (map (labelled path) ts) = map (\<lambda>c. (c, path)) (visible_all ts)"
  by (induction ts) (simp_all add: labelled_def)

lemma enclosing_subset: "set (enclosing hs) \<subseteq> set hs"
  by (induction hs rule: enclosing.induct) auto

lemma enclosing_append: "enclosing (hs @ [(level, title)]) = filter (\<lambda>h. fst h < level) (enclosing hs) @ [(level, title)]"
proof (induction hs rule: enclosing.induct)
  case (2 l t hs)
  then show ?case by (auto simp: case_prod_unfold)
qed simp

lemma enclosing_sorted: "sorted_wrt (<) (map fst (enclosing hs))"
  using enclosing_subset
  by (induction hs rule: enclosing.induct) (fastforce simp: list_all_iff)+

lemma drop_deeper:
  "sorted_wrt (<) (map fst hs) \<Longrightarrow> rev (dropWhile (\<lambda>h. level \<le> fst h) (rev hs)) = filter (\<lambda>h. fst h < level) hs"
  for level :: nat
proof (induction hs rule: rev_induct)
  case (snoc x hs)
  show ?case
  proof (cases "level \<le> fst x")
    case False
    then have "filter (\<lambda>h. fst h < level) hs = hs"
      using snoc.prems by (force simp: sorted_wrt_append filter_id_conv)
    then show ?thesis using False by simp
  qed (use snoc in \<open>simp add: sorted_wrt_append\<close>)
qed simp

lemma push_enclosing: "push_heading level title (enclosing hs) = enclosing (hs @ [(level, title)])"
  by (simp add: push_heading_def drop_deeper [OF enclosing_sorted] enclosing_append)

lemma labelled_lines_text: "map fst (labelled_lines h hs lines) = visible_all (filter (\<lambda>line. h line = None) lines)"
  by (induction h hs lines rule: labelled_lines.induct) (auto simp: labelled_text split: option.split)

lemma labelled_lines_blank:
  assumes "visible_all lines = []"
  shows "labelled_lines h hs lines = []"
proof -
  have "visible_all (filter (\<lambda>line. h line = None) lines) = []" using assms by (auto simp: concat_eq_Nil_conv)
  then show ?thesis using labelled_lines_text [of h hs lines] by (metis map_is_Nil_conv)
qed

definition section_labels :: "utext list \<Rightarrow> section_data list \<Rightarrow> (int \<times> utext list) list" where
  "section_labels lines secs =
     concat (map (\<lambda>sec. labelled (sd_section_path sec) (extract_section_content lines sec)) secs)"

lemma section_labels_append [simp]:
  "section_labels lines (xs @ ys) = section_labels lines xs @ section_labels lines ys"
  by (simp add: section_labels_def)

definition open_labels :: "utext list \<Rightarrow> section_data option \<Rightarrow> (int \<times> utext list) list" where
  "open_labels pre current = (case current of None \<Rightarrow> []
     | Some sec \<Rightarrow> map (\<lambda>c. (c, sd_section_path sec)) (open_text pre (Some sec)))"

lemma close_section_labels:
  "section_labels (pre @ rest) (close_section current (length pre)) = open_labels pre current"
  using close_section_text [of pre rest current]
  by (cases current) (simp_all add: section_labels_def section_texts_def labelled_def open_labels_def close_section_def)

lemma sections_labelled:
  assumes "lines = pre @ rest" "n = length pre + 1"
    and "\<And>sec. current = Some sec \<Longrightarrow> content_from sec - 1 \<le> length pre \<and> sd_section_path sec = map snd (enclosing hs)"
    and "current = None \<Longrightarrow> enclosing hs = []"
  shows "section_labels lines (sections_from h (enclosing hs) current n rest) =
    open_labels pre current @ labelled_lines h hs rest"
  using assms
proof (induction rest arbitrary: pre n hs current)
  case Nil
  then show ?case using close_section_labels [of pre "[]" current] by simp
next
  case (Cons line rest)
  have step: "section_labels lines (sections_from h (enclosing gs) c (n + 1) rest) =
      open_labels (pre @ [line]) c @ labelled_lines h gs rest"
    if "\<And>sec. c = Some sec \<Longrightarrow> content_from sec - 1 \<le> length pre + 1 \<and> sd_section_path sec = map snd (enclosing gs)"
      "c = None \<Longrightarrow> enclosing gs = []" for gs c
    using Cons.IH [of "pre @ [line]" "n + 1" c gs] Cons.prems(1,2) that by auto
  show ?case
  proof (cases "h line")
    case None
    let ?c = "if current = None \<and> u_strip line \<noteq> []
      then Some \<lparr>sd_level = None, sd_title = None, sd_section_path = [],
        sd_heading_line = None, sd_start_line = n, sd_end_line = n\<rparr> else current"
    have "open_labels (pre @ [line]) ?c = open_labels pre current @ labelled (map snd (enclosing hs)) line"
      using Cons.prems
      by (cases current) (auto simp: open_labels_def open_text_def content_from_def strip_empty labelled_def)
    moreover have "content_from sec - 1 \<le> length pre + 1 \<and> sd_section_path sec = map snd (enclosing hs)"
      if "?c = Some sec" for sec
      using that Cons.prems(2-4) by (force simp: content_from_def split: if_splits)
    moreover have "?c = None \<Longrightarrow> enclosing hs = []" using Cons.prems(4) by (auto split: if_splits)
    ultimately show ?thesis using None step [of ?c hs] by simp
  next
    case (Some ht)
    obtain level title where ht: "ht = (level, title)" by force
    let ?st = "enclosing (hs @ [(level, title)])"
    let ?c = "Some \<lparr>sd_level = Some level, sd_title = Some title, sd_section_path = map snd ?st,
      sd_heading_line = Some n, sd_start_line = n, sd_end_line = n\<rparr>"
    have "section_labels lines (sections_from h ?st ?c (n + 1) rest) = labelled_lines h (hs @ [(level, title)]) rest"
      using step [of ?c "hs @ [(level, title)]"] Cons.prems(2) by (simp add: open_labels_def open_text_def content_from_def)
    then show ?thesis
      using Some ht close_section_labels [of pre "line # rest" current] Cons.prems(1,2) by (simp add: Let_def push_enclosing)
  qed
qed

lemma sections_labels: "section_labels lines (sections_from h [] None 1 lines) = labelled_lines h [] lines"
  using sections_labelled [of lines "[]" lines 1 None "[]" h] by (simp add: open_labels_def)

text \<open>A section's title is the last of its path.\<close>

definition titled :: "utext option \<Rightarrow> utext list \<Rightarrow> bool" where
  "titled t path \<longleftrightarrow> t = (if path = [] then None else Some (last path))"

lemma section_titles:
  "sec \<in> set (sections_from h stack current n lines) \<Longrightarrow>
   (\<And>c. current = Some c \<Longrightarrow> titled (sd_title c) (sd_section_path c)) \<Longrightarrow> titled (sd_title sec) (sd_section_path sec)"
proof (induction lines arbitrary: stack current n)
  case Nil
  then show ?case by (auto simp: close_section_def split: option.splits)
next
  case (Cons line lines)
  let ?new = "\<lambda>level title st. \<lparr>sd_level = Some level, sd_title = Some title, sd_section_path = map snd st,
      sd_heading_line = Some n, sd_start_line = n, sd_end_line = n\<rparr>"
  have "titled (Some title) (map snd (push_heading level title st))" for level title st
    by (simp add: titled_def push_heading_def)
  moreover have "titled None []" by (simp add: titled_def)
  ultimately show ?case
    using Cons.prems Cons.IH
    by (auto simp: close_section_def Let_def simp del: push_heading_def split: option.splits if_splits) fastforce+
qed

section \<open>The results of the chunkers\<close>

text \<open>Every child chunk, in the order of the parents.\<close>

definition children_of :: "chunk_build_result \<Rightarrow> child_chunk_data list" where
  "children_of r = concat (map snd (br_children_by_parent_index r))"

text \<open>
  The shape of a build result: block indices count from 0, each parent has its children under its
  index, at least one, numbered from 0; sizes are within the limits; and the text to embed ends
  with the content, prefixed by the section path when there is one.
\<close>

definition well_built :: "chunk_build_result \<Rightarrow> bool" where
  "well_built r \<longleftrightarrow>
     map pd_block_index (br_parents r) = [0..<length (br_parents r)] \<and>
     map fst (br_children_by_parent_index r) = [0..<length (br_parents r)] \<and>
     (\<forall>p\<in>set (br_parents r). fits 4000 (pd_content p)) \<and>
     (\<forall>(i, cs)\<in>set (br_children_by_parent_index r). cs \<noteq> [] \<and>
        map cd_chunk_index cs = [0..<length cs] \<and>
        (\<forall>c\<in>set cs. fits 600 (cd_content c) \<and>
           cd_embedding_text c = build_embedding_text (cd_section_path c) (cd_content c)))"

lemma children_shape:
  assumes "visible content \<noteq> []"
  shows "child_chunks_of path content \<noteq> []"
    and "map cd_chunk_index (child_chunks_of path content) = [0..<length (child_chunks_of path content)]"
    and "c \<in> set (child_chunks_of path content) \<Longrightarrow> fits 600 (cd_content c) \<and>
      cd_embedding_text c = build_embedding_text (cd_section_path c) (cd_content c)"
    and "visible_all (map cd_content (child_chunks_of path content)) = visible content"
proof -
  let ?ts = "split_text_to_child_chunks CHILD_CHUNK_MAX_CHARS content"
  have v: "visible_all ?ts = visible content"
    by (rule visible_child_chunks) (simp add: CHILD_CHUNK_MAX_CHARS_def)
  then show "child_chunks_of path content \<noteq> []" using assms
    by (auto simp: child_chunks_of_def enumerate_eq_zip)
  show "map cd_chunk_index (child_chunks_of path content) = [0..<length (child_chunks_of path content)]"
    by (simp add: child_chunks_of_def comp_def case_prod_unfold map_fst_enumerate [simplified])
  show "c \<in> set (child_chunks_of path content) \<Longrightarrow> fits 600 (cd_content c) \<and>
      cd_embedding_text c = build_embedding_text (cd_section_path c) (cd_content c)"
    using fits_child_chunks [of _ CHILD_CHUNK_MAX_CHARS content]
    by (auto simp: child_chunks_of_def CHILD_CHUNK_MAX_CHARS_def enumerate_eq_zip dest: set_zip_rightD)
  have "map cd_content (child_chunks_of path content) = map snd (enumerate 0 ?ts)"
    by (simp add: child_chunks_of_def comp_def case_prod_unfold)
  then show "visible_all (map cd_content (child_chunks_of path content)) = visible content"
    using v by simp
qed


text \<open>Blocks built from a numbered list of contents, in whatever way parents are labelled.\<close>

lemma blocks_result:
  assumes r: "r = \<lparr>br_parents = map (\<lambda>(i, x). mk i x) (enumerate 0 xs),
      br_children_by_parent_index = map (\<lambda>(i, x). (i, child_chunks_of (path x) (content x))) (enumerate 0 xs)\<rparr>"
    and mk: "\<And>i x. pd_block_index (mk i x) = i \<and> pd_content (mk i x) = content x"
    and fit: "\<And>x. x \<in> set xs \<Longrightarrow> fits 4000 (content x)"
  shows "well_built r" and "length (br_parents r) = length xs"
    and "visible_all (map pd_content (br_parents r)) = visible_all (map content xs)"
    and "visible_all (map cd_content (children_of r)) = visible_all (map content xs)"
proof -
  have snds: "x \<in> set xs" if "(i, x) \<in> set (enumerate 0 xs)" for i x
    using that by (auto simp: enumerate_eq_zip dest: set_zip_rightD)
  have index: "map fst (enumerate 0 xs) = [0..<length xs]" using map_fst_enumerate [of 0 xs] by simp
  show "length (br_parents r) = length xs" by (simp add: r)
  have "map pd_block_index (br_parents r) = map fst (enumerate 0 xs)"
    using mk by (simp add: r case_prod_unfold comp_def)
  moreover have "map fst (br_children_by_parent_index r) = map fst (enumerate 0 xs)"
    by (simp add: r case_prod_unfold comp_def)
  moreover have "\<forall>p\<in>set (br_parents r). fits 4000 (pd_content p)"
    using fit snds mk by (fastforce simp: r)
  moreover have "\<forall>(i, cs)\<in>set (br_children_by_parent_index r). cs \<noteq> [] \<and>
      map cd_chunk_index cs = [0..<length cs] \<and>
      (\<forall>c\<in>set cs. fits 600 (cd_content c) \<and>
         cd_embedding_text c = build_embedding_text (cd_section_path c) (cd_content c))"
  proof (clarify, intro conjI ballI)
    fix i cs assume "(i, cs) \<in> set (br_children_by_parent_index r)"
    then obtain x where x: "x \<in> set xs" "cs = child_chunks_of (path x) (content x)"
      using snds by (auto simp: r)
    then have v: "visible (content x) \<noteq> []" using fit by (auto simp: fits_def)
    note cs = children_shape [OF v, where path = "path x"]
    show "cs \<noteq> []" "map cd_chunk_index cs = [0..<length cs]" using cs(1,2) x(2) by auto
    fix c assume "c \<in> set cs"
    with cs(3) x(2) show "fits 600 (cd_content c)"
      "cd_embedding_text c = build_embedding_text (cd_section_path c) (cd_content c)" by auto
  qed
  ultimately show "well_built r" by (simp add: well_built_def index \<open>length (br_parents r) = length xs\<close>)
  have snd: "map snd (enumerate 0 xs) = xs" by simp
  have "map pd_content (br_parents r) = map content (map snd (enumerate 0 xs))"
    using mk by (simp add: r case_prod_unfold comp_def del: map_snd_enumerate)
  then show "visible_all (map pd_content (br_parents r)) = visible_all (map content xs)" by simp
  have "visible_all (map cd_content (concat (map (\<lambda>x. child_chunks_of (path x) (content x)) ys))) =
      visible_all (map content ys)" if "set ys \<subseteq> set xs" for ys
    using that
  proof (induction ys)
    case (Cons y ys)
    then have "visible (content y) \<noteq> []" using fit by (auto simp: fits_def)
    from children_shape(4) [OF this] Cons show ?case by simp
  qed simp
  moreover have "children_of r = concat (map (\<lambda>x. child_chunks_of (path x) (content x))
      (map snd (enumerate 0 xs)))"
    by (simp add: children_of_def r case_prod_unfold comp_def del: map_snd_enumerate)
  ultimately show "visible_all (map cd_content (children_of r)) = visible_all (map content xs)" by simp
qed


lemma segments_visible:
  "visible_all (map f (concat (map (\<lambda>(g, p). map (\<lambda>(s, content). mk g p s content)
      (enumerate 0 (split_text_to_parent_segments PARENT_BLOCK_MAX_CHARS (body p)))) (enumerate n ps)))) =
    visible_all (map body ps)"
  if "\<And>g p s content. f (mk g p s content) = content"
proof (induction ps arbitrary: n)
  case (Cons p ps)
  let ?segs = "split_text_to_parent_segments PARENT_BLOCK_MAX_CHARS (body p)"
  have "map f (map (\<lambda>(s, content). mk n p s content) (enumerate 0 ?segs)) = map snd (enumerate 0 ?segs)"
    using that by (simp add: comp_def case_prod_unfold)
  also have "visible_all \<dots> = visible (body p)"
    using visible_parent_segments [of PARENT_BLOCK_MAX_CHARS "body p"]
    by (simp add: PARENT_BLOCK_MAX_CHARS_def)
  finally show ?case using Cons [of "Suc n"] by simp
qed simp

lemma segments_fit:
  assumes "x \<in> set (concat (map (\<lambda>(g, p). map (\<lambda>(s, content). mk g p s content)
      (enumerate 0 (split_text_to_parent_segments PARENT_BLOCK_MAX_CHARS (body p)))) (enumerate n ps)))"
    and "\<And>g p s content. f (mk g p s content) = content"
  shows "fits 4000 (f x)"
  using assms fits_parent_segments [of _ PARENT_BLOCK_MAX_CHARS]
  by (fastforce simp: PARENT_BLOCK_MAX_CHARS_def enumerate_eq_zip dest: set_zip_rightD)

lemma build_text_result:
  shows "well_built (build_text text)"
    and "br_parents (build_text text) = [] \<longleftrightarrow> visible text = []"
    and "visible_all (map pd_content (br_parents (build_text text))) = visible text"
    and "visible_all (map cd_content (children_of (build_text text))) = visible text"
proof -
  let ?content = "\<lambda>(g, s, content). content"
  let ?xs = "text_segments (split_paragraphs text)"
  have v: "visible_all (map ?content ?xs) = visible text"
    unfolding text_segments_def
    by (subst segments_visible [where body = "\<lambda>p. p"]) (simp_all add: visible_paragraphs)
  have fit: "fits 4000 (?content x)" if "x \<in> set ?xs" for x
    using that unfolding text_segments_def by (rule segments_fit) simp
  have r: "build_text text = \<lparr>br_parents = map (\<lambda>(i, x). (\<lambda>(g, s, content).
         \<lparr>pd_block_type = ''paragraph'', pd_title = None, pd_section_path = None,
          pd_content = content, pd_block_index = i, pd_semantic_group_index = g,
          pd_segment_index = s\<rparr>) x) (enumerate 0 ?xs),
      br_children_by_parent_index = map (\<lambda>(i, x). (i, child_chunks_of None (?content x))) (enumerate 0 ?xs)\<rparr>"
    by (simp add: build_text_def Let_def case_prod_unfold)
  note res = blocks_result [OF r _ fit]
  show "well_built (build_text text)" by (rule res(1)) (auto split: prod.splits)
  show "visible_all (map pd_content (br_parents (build_text text))) = visible text"
    by (subst res(3)) (use v in \<open>auto split: prod.splits\<close>)
  show "visible_all (map cd_content (children_of (build_text text))) = visible text"
    by (subst res(4)) (use v in \<open>auto split: prod.splits\<close>)
  have "?xs = [] \<longleftrightarrow> visible text = []"
    using v fit [of "hd ?xs"] by (cases ?xs) (auto simp: fits_def)
  then show "br_parents (build_text text) = [] \<longleftrightarrow> visible text = []"
    by (simp add: build_text_def Let_def enumerate_eq_zip)
qed


text \<open>A section list that the Markdown chunker may use: the metadata, when there is any.\<close>

definition sections_used :: "section_data list option \<Rightarrow> utext \<Rightarrow> section_data list" where
  "sections_used metadata text = (case metadata of
     Some (sec # secs) \<Rightarrow> sec # secs | _ \<Rightarrow> parse_sections (u_splitlines text))"

lemma build_markdown_result:
  fixes metadata "text"
  defines "r \<equiv> build_markdown metadata text"
    and "body \<equiv> section_texts (u_splitlines text) (sections_used metadata text)"
  shows "well_built r" and "br_parents r = [] \<longleftrightarrow> body = []"
    and "visible_all (map pd_content (br_parents r)) = body"
    and "visible_all (map cd_content (children_of r)) = body"
proof -
  let ?content = "\<lambda>(g, sec, s, content). content" and ?path = "\<lambda>(g, sec, s, content). path_of sec"
  let ?xs = "section_segments (u_splitlines text) (sections_used metadata text)"
  have v: "visible_all (map ?content ?xs) = body"
    unfolding section_segments_def body_def section_texts_def
    by (subst segments_visible) simp_all
  have fit: "fits 4000 (?content x)" if "x \<in> set ?xs" for x
    using that unfolding section_segments_def by (rule segments_fit) simp
  have r: "r = \<lparr>br_parents = map (\<lambda>(i, x). (\<lambda>(g, sec, s, content).
         \<lparr>pd_block_type = ''section'', pd_title = sd_title sec, pd_section_path = path_of sec,
          pd_content = content, pd_block_index = i, pd_semantic_group_index = g,
          pd_segment_index = s\<rparr>) x) (enumerate 0 ?xs),
      br_children_by_parent_index =
        map (\<lambda>(i, x). (i, child_chunks_of (?path x) (?content x))) (enumerate 0 ?xs)\<rparr>"
    by (simp add: r_def build_markdown_def sections_used_def Let_def case_prod_unfold)
  note res = blocks_result [OF r _ fit]
  show "well_built r" by (rule res(1)) (auto split: prod.splits)
  show "visible_all (map pd_content (br_parents r)) = body"
    by (subst res(3)) (use v in \<open>auto split: prod.splits\<close>)
  show "visible_all (map cd_content (children_of r)) = body"
    by (subst res(4)) (use v in \<open>auto split: prod.splits\<close>)
  have "?xs = [] \<longleftrightarrow> body = []"
    using v fit [of "hd ?xs"] by (cases ?xs) (auto simp: fits_def)
  then show "br_parents r = [] \<longleftrightarrow> body = []" by (simp add: r enumerate_eq_zip)
qed

lemma open_section_found: "sections_from h stack (Some sec) n lines \<noteq> []"
  by (induction lines arbitrary: stack sec n)
     (auto simp: close_section_def Let_def split: option.splits)

lemma no_sections_blank:
  "sections_from h stack None n lines = [] \<Longrightarrow> visible_all lines = []"
  by (induction lines arbitrary: stack n)
     (auto simp: Let_def open_section_found strip_empty split: option.splits if_splits)

section \<open>The labels of blocks and chunks\<close>

definition parent_labels :: "chunk_build_result \<Rightarrow> (int \<times> utext list) list" where
  "parent_labels r = concat (map (\<lambda>p. labelled (titles (pd_section_path p)) (pd_content p)) (br_parents r))"

definition chunk_labels :: "chunk_build_result \<Rightarrow> (int \<times> utext list) list" where
  "chunk_labels r = concat (map (\<lambda>c. labelled (titles (cd_section_path c)) (cd_content c)) (children_of r))"

lemma children_labels:
  assumes "visible content \<noteq> []"
  shows "concat (map (\<lambda>c. labelled (titles (cd_section_path c)) (cd_content c)) (child_chunks_of path content)) =
    labelled (titles path) content"
proof -
  have "cd_section_path c = path" if "c \<in> set (child_chunks_of path content)" for c
    using that by (auto simp: child_chunks_of_def)
  then have "map (\<lambda>c. labelled (titles (cd_section_path c)) (cd_content c)) (child_chunks_of path content) =
    map (labelled (titles path)) (map cd_content (child_chunks_of path content))" by simp
  then show ?thesis
    using children_shape(4) [OF assms, of path] by (simp only: labelled_concat) (simp add: labelled_def)
qed

lemma segments_labelled:
  "concat (map (\<lambda>(g, sec, s, content). labelled (titles (path_of sec)) content) (section_segments lines secs)) =
    section_labels lines secs"
proof -
  have one: "concat (map (\<lambda>(s, content). labelled path content)
      (enumerate 0 (split_text_to_parent_segments PARENT_BLOCK_MAX_CHARS t))) = labelled path t" for path t
  proof -
    let ?segs = "split_text_to_parent_segments PARENT_BLOCK_MAX_CHARS t"
    have "map (\<lambda>(s, content). labelled path content) (enumerate 0 ?segs) = map (labelled path) (map snd (enumerate 0 ?segs))"
      by (simp add: case_prod_unfold del: map_snd_enumerate)
    then show ?thesis
      using visible_parent_segments [of PARENT_BLOCK_MAX_CHARS t]
      by (simp only: map_snd_enumerate labelled_concat) (simp add: labelled_def PARENT_BLOCK_MAX_CHARS_def)
  qed
  have path: "titles (path_of sec) = sd_section_path sec" for sec by (simp add: titles_def path_of_def)
  have "concat (map (\<lambda>(g, sec, s, content). labelled (titles (path_of sec)) content)
      (concat (map (\<lambda>(g, sec). map (\<lambda>(s, content). (g, sec, s, content))
        (enumerate 0 (split_text_to_parent_segments PARENT_BLOCK_MAX_CHARS (extract_section_content lines sec))))
        (enumerate n secs)))) = section_labels lines secs" for n
  proof (induction secs arbitrary: n)
    case (Cons sec secs)
    then show ?case
      using one [of "sd_section_path sec" "extract_section_content lines sec"]
      by (simp add: section_labels_def path comp_def case_prod_unfold)
  qed (simp add: section_labels_def)
  then show ?thesis unfolding section_segments_def by blast
qed

lemma build_markdown_labels:
  fixes metadata "text"
  defines "r \<equiv> build_markdown metadata text"
    and "labels \<equiv> section_labels (u_splitlines text) (sections_used metadata text)"
  shows "parent_labels r = labels" "chunk_labels r = labels"
    "p \<in> set (br_parents r) \<Longrightarrow> \<exists>sec\<in>set (sections_used metadata text). pd_title p = sd_title sec \<and> pd_section_path p = path_of sec"
proof -
  let ?xs = "section_segments (u_splitlines text) (sections_used metadata text)"
  have fit: "visible content \<noteq> []" if "(g, sec, s, content) \<in> set ?xs" for g sec s content
    using that segments_fit [of "(g, sec, s, content)" "\<lambda>g p s content. (g, p, s, content)" "extract_section_content (u_splitlines text)"
      0 "sections_used metadata text" "\<lambda>(g, sec, s, content). content"]
    by (simp add: section_segments_def fits_def)
  have parents: "br_parents r = map (\<lambda>(i, g, sec, s, content).
         \<lparr>pd_block_type = ''section'', pd_title = sd_title sec, pd_section_path = path_of sec,
          pd_content = content, pd_block_index = i, pd_semantic_group_index = g, pd_segment_index = s\<rparr>) (enumerate 0 ?xs)"
    and kids: "children_of r = concat (map (\<lambda>(g, sec, s, content). child_chunks_of (path_of sec) content)
        (map snd (enumerate 0 ?xs)))"
    by (simp_all add: r_def build_markdown_def children_of_def sections_used_def Let_def case_prod_unfold comp_def
        del: map_snd_enumerate)
  have "map (\<lambda>p. labelled (titles (pd_section_path p)) (pd_content p)) (br_parents r) =
      map (\<lambda>(g, sec, s, content). labelled (titles (path_of sec)) content) (map snd (enumerate 0 ?xs))"
    by (simp add: parents case_prod_unfold comp_def del: map_snd_enumerate)
  then show "parent_labels r = labels"
    by (simp only: parent_labels_def map_snd_enumerate segments_labelled labels_def)
  have "concat (map (\<lambda>c. labelled (titles (cd_section_path c)) (cd_content c))
      (concat (map (\<lambda>(g, sec, s, content). child_chunks_of (path_of sec) content) ys))) =
      concat (map (\<lambda>(g, sec, s, content). labelled (titles (path_of sec)) content) ys)" if "set ys \<subseteq> set ?xs" for ys
    using that
  proof (induction ys)
    case (Cons y ys)
    obtain g sec s content where y: "y = (g, sec, s, content)" by (cases y)
    then have "visible content \<noteq> []" using fit Cons.prems by auto
    from children_labels [OF this, of "path_of sec"] Cons y show ?case by simp
  qed simp
  from this [of ?xs] show "chunk_labels r = labels"
    by (simp only: chunk_labels_def kids map_snd_enumerate segments_labelled labels_def)
  assume "p \<in> set (br_parents r)"
  then obtain i g sec s content where x: "(i, g, sec, s, content) \<in> set (enumerate 0 ?xs)"
    "pd_title p = sd_title sec" "pd_section_path p = path_of sec" by (auto simp: parents)
  then have "(g, sec, s, content) \<in> set ?xs" by (auto simp: enumerate_eq_zip dest: set_zip_rightD)
  then have "sec \<in> set (sections_used metadata text)"
    by (auto simp: section_segments_def enumerate_eq_zip dest: set_zip_rightD)
  then show "\<exists>sec\<in>set (sections_used metadata text). pd_title p = sd_title sec \<and> pd_section_path p = path_of sec"
    using x by blast
qed

lemma build_markdown_titled:
  assumes "sections_used metadata text \<in> {sections_from h [] None 1 lines, sections_from h' [] None 1 lines}"
  shows "list_all (\<lambda>b. titled (pd_title b) (titles (pd_section_path b))) (br_parents (build_markdown metadata text))"
proof -
  have "titles (path_of sec) = sd_section_path sec" for sec by (simp add: titles_def path_of_def)
  moreover have "titled (sd_title sec) (sd_section_path sec)" if "sec \<in> set (sections_used metadata text)" for sec
    using assms that section_titles [of sec _ "[]" None 1 lines] by auto
  ultimately show ?thesis by (auto simp: list_all_iff dest!: build_markdown_labels(3))
qed

section \<open>Properties\<close>

text \<open>
  C25: Cleaning and chunking a plain text keeps every visible character except NUL, in order and
  exactly once, both in the parent blocks and in the child chunks; no block is longer than 4000
  and no chunk longer than 600 characters, none is blank, blocks and chunks are numbered
  consecutively, and there are no blocks only when the source is blank.
\<close>

theorem text_source_chunked:
  fixes source :: utext
  defines "r \<equiv> build_text (pr_cleaned (process_txt source))"
  shows "well_built r \<and>
   visible_all (map pd_content (br_parents r)) = visible (filter (\<lambda>c. c \<noteq> 0) source) \<and>
   visible_all (map cd_content (children_of r)) = visible (filter (\<lambda>c. c \<noteq> 0) source) \<and>
   (br_parents r = [] \<longleftrightarrow> visible (filter (\<lambda>c. c \<noteq> 0) source) = [])"
  unfolding r_def by (intro conjI) (simp_all only: build_text_result cleaned_visible)

text \<open>
  C26: Cleaning a Markdown source keeps every visible character except NUL, and chunking the cleaned
  text partitions it into its sections: the parent blocks, and the child chunks, hold every visible
  character of the lines that are no headings, in order and exactly once, each under the section
  path of its line, which is the titles of the headings before it that have no heading of the same
  or a higher level behind them.  The title of a block is the last of its path, and the blocks and chunks are
  well built.  Chunking a text without stored sections does the same with the headings the
  chunker finds itself.
\<close>

theorem markdown_source_chunked:
  fixes source other :: utext
  defines "p \<equiv> process_md source"
  defines "r \<equiv> build_markdown (pm_sections (pr_metadata p)) (pr_cleaned p)"
    and "r2 \<equiv> build_markdown None other"
  shows "visible (pr_cleaned p) = visible (filter (\<lambda>c. c \<noteq> 0) source) \<and>
    well_built r \<and> parent_labels r = labelled_lines md_heading [] (u_splitlines (pr_cleaned p)) \<and>
    chunk_labels r = labelled_lines md_heading [] (u_splitlines (pr_cleaned p)) \<and>
    list_all (\<lambda>b. titled (pd_title b) (titles (pd_section_path b))) (br_parents r) \<and>
    well_built r2 \<and> parent_labels r2 = labelled_lines heading [] (u_splitlines other) \<and>
    chunk_labels r2 = labelled_lines heading [] (u_splitlines other) \<and>
    list_all (\<lambda>b. titled (pd_title b) (titles (pd_section_path b))) (br_parents r2)"
proof -
  let ?lines = "u_splitlines (pr_cleaned p)"
  have secs: "pm_sections (pr_metadata p) = Some (sections_from md_heading [] None 1 ?lines)"
    by (simp add: p_def process_md_def extract_sections_def Let_def)
  have used: "section_labels ?lines (sections_used (pm_sections (pr_metadata p)) (pr_cleaned p)) =
      labelled_lines md_heading [] ?lines"
  proof (cases "sections_from md_heading [] None 1 ?lines")
    case Nil
    then have "visible_all ?lines = []" by (rule no_sections_blank)
    then have "labelled_lines h [] ?lines = []" for h by (rule labelled_lines_blank)
    then show ?thesis using Nil
      by (simp only: secs sections_used_def option.case list.case parse_sections_def sections_labels)
  next
    case (Cons sec rest)
    then show ?thesis
      using sections_labels [of ?lines md_heading] by (simp add: secs sections_used_def)
  qed
  have found: "section_labels (u_splitlines other) (sections_used None other) = labelled_lines heading [] (u_splitlines other)"
    by (simp only: sections_used_def parse_sections_def sections_labels option.case)
  have "sections_used (pm_sections (pr_metadata p)) (pr_cleaned p) \<in>
      {sections_from md_heading [] None 1 ?lines, sections_from heading [] None 1 ?lines}"
    by (auto simp: secs sections_used_def parse_sections_def split: list.split)
  then have "list_all (\<lambda>b. titled (pd_title b) (titles (pd_section_path b))) (br_parents r)"
    unfolding r_def by (rule build_markdown_titled)
  moreover have "sections_used None other \<in> {sections_from heading [] None 1 (u_splitlines other)}"
    by (simp add: sections_used_def parse_sections_def)
  then have "list_all (\<lambda>b. titled (pd_title b) (titles (pd_section_path b))) (br_parents r2)"
    unfolding r2_def by (intro build_markdown_titled) auto
  ultimately show ?thesis
    using build_markdown_result(1) build_markdown_labels(1,2)
    unfolding r_def r2_def by (simp only: p_def cleaned_visible used [unfolded p_def] found simp_thms)
qed

text \<open>A small document: an introduction, a heading with two sub-headings, and text under each.\<close>

definition demo_markdown :: utext where
  "demo_markdown = u_ascii ''intro line'' @ [10] @ u_ascii ''# One'' @ [10] @
     u_ascii ''First. Second.'' @ [10] @ u_ascii ''## Two '' @ [10, 10] @ u_ascii ''Third'' @ [10] @
     u_ascii ''## Three'' @ [10] @ u_ascii ''Last''"

lemma demo_markdown_sections:
  "map sd_title (sections_used None demo_markdown) =
     [None, Some (u_ascii ''One''), Some (u_ascii ''Two''), Some (u_ascii ''Three'')] \<and>
   map (\<lambda>c. (cd_section_path c, cd_content c)) (children_of (build_markdown None demo_markdown)) =
     [(None, u_ascii ''intro line''), (Some [u_ascii ''One''], u_ascii ''First. Second.''),
      (Some [u_ascii ''One'', u_ascii ''Two''], u_ascii ''Third''),
      (Some [u_ascii ''One'', u_ascii ''Three''], u_ascii ''Last'')]"
  by code_simp

end
