(* ===== verification/Csv_Pipeline.thy ===== *)
theory Csv_Pipeline
  imports Csv_Format Chunking_Properties
begin

text \<open>
  CSV documents: the cleaning of a source table (\<open>parsing/csv.py\<close>), given the records that the
  reader with the sniffed encoding and dialect yields, and the chunker (\<open>chunking/csv.py\<close>) that
  groups the records of the cleaned table into parent blocks.
\<close>

section \<open>CsvProcessor\<close>

definition csv_process_error :: "string \<Rightarrow> error" where
  "csv_process_error message = OtherException ''CsvProcessError'' message"

definition clean_cell :: "utext \<Rightarrow> utext" where
  "clean_cell value = u_strip (without_nul value)"

text \<open>\<open>re.sub(r"\s+", " ", text)\<close>.\<close>

fun squeeze :: "utext \<Rightarrow> utext" where
  "squeeze [] = []"
| "squeeze (c # cs) =
     (if u_space c then 32 # (if cs \<noteq> [] \<and> u_space (hd cs) then tl (squeeze cs) else squeeze cs)
      else c # squeeze cs)"

fun check_headers :: "utext list \<Rightarrow> utext list \<Rightarrow> utext list result" where
  "check_headers seen [] = Inr (rev seen)"
| "check_headers seen (h # hs) =
     (if h = [] then Inl (csv_process_error ''empty header'')
      else if h \<in> set seen then Inl (csv_process_error ''duplicate header'')
      else check_headers (h # seen) hs)"

definition normalize_headers :: "utext list \<Rightarrow> utext list result" where
  "normalize_headers headers =
     (let cleaned = map (\<lambda>h. squeeze (clean_cell h)) headers in
      if headers = [] \<or> \<not> list_ex (\<lambda>h. h \<noteq> []) cleaned
      then Inl (csv_process_error ''empty header row'')
      else check_headers [] cleaned)"

definition is_blank_row :: "utext list \<Rightarrow> bool" where
  "is_blank_row row = list_all (\<lambda>cell. cell = []) row"

text \<open>The rows that are kept, and the number of blank rows.\<close>

fun clean_rows :: "nat \<Rightarrow> utext list list \<Rightarrow> (utext list list \<times> nat) result" where
  "clean_rows column_count [] = Inr ([], 0)"
| "clean_rows column_count (row # rows) =
     (let cleaned_row = map clean_cell row in
      if is_blank_row cleaned_row then
        bind (clean_rows column_count rows) (\<lambda>(kept, blank). Inr (kept, blank + 1))
      else if length cleaned_row \<noteq> column_count then
        Inl (csv_process_error ''wrong number of fields'')
      else bind (clean_rows column_count rows) (\<lambda>(kept, blank). Inr (cleaned_row # kept, blank)))"

text \<open>\<open>records\<close> is what the reader yields for a file that is not empty.\<close>

definition process_csv :: "utext list list \<Rightarrow> process_result result" where
  "process_csv records =
     (case records of
        [] \<Rightarrow> Inl (csv_process_error ''empty header row'')
      | raw_headers # rows \<Rightarrow>
          bind (normalize_headers raw_headers) (\<lambda>headers.
          bind (clean_rows (length headers) rows) (\<lambda>(kept, blank).
            let cleaned = csv_write (headers # kept) in
            Inr \<lparr>pr_cleaned = cleaned, pr_source_type = ''csv'', pr_char_count = length cleaned,
              pr_line_count = length kept + 1,
              pr_metadata = no_metadata
                \<lparr>pm_headers := Some headers, pm_row_count := Some (length kept),
                 pm_blank_row_count := Some blank\<rparr>\<rparr>)))"

section \<open>JSON texts\<close>

text \<open>\<open>json.dumps\<close> with \<open>ensure_ascii=False\<close> and compact separators.\<close>

definition hex_digit :: "int \<Rightarrow> int" where
  "hex_digit d = (if d < 10 then 48 + d else 87 + d)"

definition json_char :: "int \<Rightarrow> utext" where
  "json_char c =
     (if c = 34 then [92, 34] else if c = 92 then [92, 92]
      else if c = 10 then [92, 110] else if c = 13 then [92, 114] else if c = 9 then [92, 116]
      else if c = 8 then [92, 98] else if c = 12 then [92, 102]
      else if 0 \<le> c \<and> c < 32 then [92, 117, 48, 48, hex_digit (c div 16), hex_digit (c mod 16)]
      else [c])"

definition json_string :: "utext \<Rightarrow> utext" where
  "json_string t = 34 # concat (map json_char t) @ [34]"

fun json_nat :: "nat \<Rightarrow> utext" where
  "json_nat n = (if n < 10 then [48 + int n] else json_nat (n div 10) @ [48 + int (n mod 10)])"

declare json_nat.simps [simp del]

definition json_list :: "utext list \<Rightarrow> utext" where
  "json_list ts = [91] @ u_join [44] ts @ [93]"

definition json_object :: "(utext \<times> utext) list \<Rightarrow> utext" where
  "json_object kvs = [123] @ u_join [44] (map (\<lambda>(k, v). json_string k @ [58] @ v) kvs) @ [125]"

section \<open>CsvChunker\<close>

definition CSV_PARENT_MAX_ROWS :: nat where "CSV_PARENT_MAX_ROWS = 50"
definition CSV_PARENT_MAX_CHARS :: nat where "CSV_PARENT_MAX_CHARS = 12000"
definition CSV_CHILD_MAX_CHARS :: nat where "CSV_CHILD_MAX_CHARS = 8000"

text \<open>A record of the table: each header with its value, \<open>""\<close> when the row has none.\<close>

type_synonym csv_record = "(utext \<times> utext) list"

definition record_of :: "utext list \<Rightarrow> (utext \<times> utext) list \<Rightarrow> csv_record" where
  "record_of headers raw_record =
     map (\<lambda>h. (h, case dict_get raw_record h of Some v \<Rightarrow> v | None \<Rightarrow> [])) (dedup headers)"

definition build_csv_child_content :: "csv_record \<Rightarrow> utext" where
  "build_csv_child_content r = json_object (map (\<lambda>(k, v). (k, json_string v)) r)"

definition build_csv_embedding_text :: "csv_record \<Rightarrow> utext" where
  "build_csv_embedding_text r =
     u_join [10] (map (\<lambda>(k, v). k @ [65306] @ v) (filter (\<lambda>(k, v). v \<noteq> []) r))"

definition build_parent_content :: "utext list \<Rightarrow> nat \<Rightarrow> nat \<Rightarrow> csv_record list \<Rightarrow> utext" where
  "build_parent_content headers row_start row_end rs =
     json_object
       [(u_ascii ''schema'', json_list (map json_string headers)),
        (u_ascii ''row_start'', json_nat row_start), (u_ascii ''row_end'', json_nat row_end),
        (u_ascii ''records'', json_list (map build_csv_child_content rs))]"

definition csv_child :: "csv_record \<Rightarrow> nat \<Rightarrow> nat \<Rightarrow> child_chunk_data" where
  "csv_child r index source_row =
     \<lparr>cd_content = build_csv_child_content r, cd_embedding_text = build_csv_embedding_text r,
      cd_chunk_index = index, cd_section_path = None, cd_source_row_index = Some source_row,
      cd_chunk_type = ''csv_row''\<rparr>"

text \<open>A batch that becomes a parent block: first and last row, records, children.\<close>

record csv_batch =
  cb_row_start :: nat
  cb_row_end :: nat
  cb_records :: "csv_record list"
  cb_children :: "child_chunk_data list"

text \<open>
  The loop over the raw records; \<open>row\<close> is the 1-based index of the next record, \<open>start\<close> and the two
  lists the batch being filled.
\<close>

fun csv_batches ::
  "utext list \<Rightarrow> nat \<Rightarrow> csv_record list \<Rightarrow> child_chunk_data list \<Rightarrow> nat \<Rightarrow>
     (utext \<times> utext) list list \<Rightarrow> csv_batch list result" where
  "csv_batches headers start rs cs row [] =
     Inr (if rs = [] then []
          else [\<lparr>cb_row_start = start, cb_row_end = start + length rs - 1, cb_records = rs,
                 cb_children = cs\<rparr>])"
| "csv_batches headers start rs cs row (raw # raws) =
     (let r = record_of headers raw in
      if length (build_csv_child_content r) > CSV_CHILD_MAX_CHARS
      then Inl (ValueError ''CSV record is too large'')
      else
        let candidate = build_parent_content headers start row (rs @ [r]);
            full = (rs \<noteq> [] \<and> (length rs + 1 > CSV_PARENT_MAX_ROWS \<or>
                      length candidate > CSV_PARENT_MAX_CHARS)) in
        if full then
          (if length (build_parent_content headers row row [r]) > CSV_PARENT_MAX_CHARS
           then Inl (ValueError ''CSV record exceeds the block limit'')
           else bind (csv_batches headers row [r] [csv_child r 0 row] (row + 1) raws) (\<lambda>batches.
             Inr (\<lparr>cb_row_start = start, cb_row_end = row - 1, cb_records = rs, cb_children = cs\<rparr>
                  # batches)))
        else if rs = [] \<and> length candidate > CSV_PARENT_MAX_CHARS
        then Inl (ValueError ''CSV record exceeds the block limit'')
        else csv_batches headers start (rs @ [r]) (cs @ [csv_child r (length cs) row]) (row + 1) raws)"

definition csv_title :: "nat \<Rightarrow> nat \<Rightarrow> utext" where
  "csv_title row_start row_end = [31532, 32] @ json_nat row_start @ [45] @ json_nat row_end @ [32, 34892]"

definition csv_parent :: "utext list \<Rightarrow> nat \<Rightarrow> csv_batch \<Rightarrow> parent_block_data" where
  "csv_parent headers i b =
     \<lparr>pd_block_type = ''csv_rows'', pd_title = Some (csv_title (cb_row_start b) (cb_row_end b)),
      pd_section_path = None,
      pd_content = build_parent_content headers (cb_row_start b) (cb_row_end b) (cb_records b),
      pd_block_index = i, pd_semantic_group_index = i, pd_segment_index = 0\<rparr>"

definition build_csv :: "utext list option \<Rightarrow> utext \<Rightarrow> chunk_build_result result" where
  "build_csv expected_headers text =
     (let headers = csv_fieldnames text in
      if headers = [] then Inl (ValueError ''CSV cleaned file has no header'')
      else if expected_headers \<notin> {None, Some [], Some headers}
      then Inl (ValueError ''CSV header differs from the metadata'')
      else bind (csv_batches headers 1 [] [] 1 (csv_dicts text)) (\<lambda>batches.
        Inr \<lparr>br_parents = map (\<lambda>(i, b). csv_parent headers i b) (enumerate 0 batches),
             br_children_by_parent_index =
               map (\<lambda>(i, b). (i, cb_children b)) (enumerate 0 batches)\<rparr>))"

end
