(* ===== verification/Document_Store.thy ===== *)
theory Document_Store
  imports Csv_Pipeline
begin

text \<open>
  The relational state of the document half: documents with their three status columns and the
  ownership token, derived artifacts, parent blocks and child chunks, and the repositories'
  operations over them.  Auto-increment keys come from counters that are never reset.  A path is
  the list of its components.
\<close>

type_synonym path = "string list"

section \<open>Status columns (domain/enums.py)\<close>

datatype document_status =
    DOC_UPLOADED | DOC_PROCESSING | DOC_PROCESSED | DOC_CHUNKING | DOC_CHUNKED
  | DOC_INDEXING | DOC_INDEXED | DOC_FAILED

datatype lifecycle_status = LC_SCHEDULED | LC_ACTIVE | LC_EXPIRED | LC_REPLACED | LC_DELETED

datatype storage_status = ST_ACTIVE | ST_ARCHIVING | ST_ARCHIVED | ST_ARCHIVE_FAILED

datatype vector_status = VS_PENDING | VS_INDEXING | VS_INDEXED | VS_FAILED

datatype artifact_status = ART_CREATED | ART_ACTIVE | ART_SUPERSEDED | ART_FAILED

fun document_status_value :: "document_status \<Rightarrow> string" where
  "document_status_value DOC_UPLOADED = ''uploaded''"
| "document_status_value DOC_PROCESSING = ''processing''"
| "document_status_value DOC_PROCESSED = ''processed''"
| "document_status_value DOC_CHUNKING = ''chunking''"
| "document_status_value DOC_CHUNKED = ''chunked''"
| "document_status_value DOC_INDEXING = ''indexing''"
| "document_status_value DOC_INDEXED = ''indexed''"
| "document_status_value DOC_FAILED = ''failed''"

section \<open>Rows\<close>

record document =
  doc_id :: int
  doc_code :: string
  doc_kb_id :: int
  doc_domain_code :: string
  doc_business_scene :: "string option"
  doc_title :: string
  doc_source_type :: string
  doc_source_uri :: path
  doc_cleaned_uri :: "path option"
  doc_content_hash :: string
  doc_active_content_hash :: "string option"
  doc_lifecycle_status :: lifecycle_status
  doc_storage_status :: storage_status
  doc_version :: int
  doc_status :: document_status
  doc_active_operation_id :: "ident option"
  doc_replaced_by :: "int option"
  doc_risk_level :: "string option"
  doc_effective_at :: "time option"
  doc_expired_at :: "time option"
  doc_created_by :: "string option"
  doc_original_filename :: "string option"
  doc_file_size :: "int option"
  doc_indexed_at :: "time option"

record artifact =
  art_id :: int
  art_document_id :: int
  art_code :: string
  art_type :: string
  art_role :: string
  art_format :: string
  art_uri :: path
  art_hash :: "string option"
  art_provider :: "string option"
  art_processor :: "string option"
  art_file_size :: "int option"
  art_char_count :: "nat option"
  art_line_count :: "nat option"
  art_status :: artifact_status
  art_metadata :: process_metadata
  art_created_by :: "string option"
  art_created_at :: time

record parent_block =
  pb_id :: int
  pb_parent_code :: string
  pb_kb_id :: int
  pb_doc_id :: int
  pb_domain_code :: string
  pb_business_scene :: "string option"
  pb_data :: parent_block_data
  pb_content_hash :: string
  pb_active :: bool
  pb_version :: int

record child_chunk =
  cc_id :: int
  cc_chunk_code :: string
  cc_parent_id :: int
  cc_doc_id :: int
  cc_kb_id :: int
  cc_domain_code :: string
  cc_business_scene :: "string option"
  cc_data :: child_chunk_data
  cc_vector_status :: vector_status
  cc_qdrant_point_id :: "int option"
  cc_active :: bool
  cc_version :: int
  cc_indexed_at :: "time option"

record document_db =
  documents :: "document list"
  artifacts :: "artifact list"
  parent_blocks :: "parent_block list"
  child_chunks :: "child_chunk list"
  next_document_id :: int
  next_artifact_id :: int
  next_block_id :: int
  next_chunk_id :: int

section \<open>DocumentRepository\<close>

definition document_get_by_id :: "int \<Rightarrow> document_db \<Rightarrow> document option" where
  "document_get_by_id i db = get_row doc_id i (documents db)"

definition document_save :: "document \<Rightarrow> document_db \<Rightarrow> document_db" where
  "document_save d db = db\<lparr>documents := put_row doc_id d (documents db)\<rparr>"

text \<open>The insert takes the next key; codes and live content hashes of a knowledge base are unique.\<close>

definition document_create :: "document \<Rightarrow> document_db \<Rightarrow> (document \<times> document_db) result" where
  "document_create d0 db =
     (let d = d0\<lparr>doc_id := next_document_id db\<rparr> in
      bind (add_row
        [(''doc_code'', \<lambda>a b. doc_code a = doc_code b),
         (''uq_documents_kb_active_content_hash'',
           \<lambda>a b. doc_active_content_hash a \<noteq> None \<and> doc_kb_id a = doc_kb_id b \<and>
                 doc_active_content_hash a = doc_active_content_hash b)] d (documents db)) (\<lambda>rows.
      Inr (d, db\<lparr>documents := rows, next_document_id := next_document_id db + 1\<rparr>)))"

definition document_get_active_by_hash :: "int \<Rightarrow> string \<Rightarrow> document_db \<Rightarrow> document option" where
  "document_get_active_by_hash kb h db =
     find (\<lambda>d. doc_kb_id d = kb \<and> doc_active_content_hash d = Some h) (documents db)"

definition document_get_by_ids :: "int list \<Rightarrow> document_db \<Rightarrow> document list" where
  "document_get_by_ids ids db = sort_key doc_id (filter (\<lambda>d. doc_id d \<in> set ids) (documents db))"

definition document_deactivate :: "lifecycle_status \<Rightarrow> int option \<Rightarrow> document \<Rightarrow> document" where
  "document_deactivate lifecycle replaced_by d =
     (let d1 = d\<lparr>doc_lifecycle_status := lifecycle, doc_active_content_hash := None,
                 doc_storage_status := ST_ARCHIVING\<rparr> in
      if lifecycle = LC_REPLACED then d1\<lparr>doc_replaced_by := replaced_by\<rparr> else d1)"

interpretation document_repo: keyed_repository doc_id document_get_by_id document_save
  by unfold_locales
     (auto simp: document_get_by_id_def document_save_def table_simps dest: get_row_SomeD)

section \<open>DocumentArtifactRepository\<close>

definition artifact_create :: "time \<Rightarrow> artifact \<Rightarrow> document_db \<Rightarrow> document_db result" where
  "artifact_create now a0 db =
     bind (add_row [(''artifact_code'', \<lambda>a b. art_code a = art_code b)]
       (a0\<lparr>art_id := next_artifact_id db, art_created_at := now\<rparr>) (artifacts db)) (\<lambda>rows.
     Inr (db\<lparr>artifacts := rows, next_artifact_id := next_artifact_id db + 1\<rparr>))"

text \<open>\<open>None\<close> leaves a filter out.\<close>

definition artifact_matches ::
  "int \<Rightarrow> string \<Rightarrow> string option \<Rightarrow> string option \<Rightarrow> artifact \<Rightarrow> bool" where
  "artifact_matches did type role form a \<longleftrightarrow>
     art_document_id a = did \<and> art_type a = type \<and> art_status a = ART_ACTIVE \<and>
     (role = None \<or> role = Some (art_role a)) \<and> (form = None \<or> form = Some (art_format a))"

definition artifact_get_latest_active ::
  "int \<Rightarrow> string \<Rightarrow> string option \<Rightarrow> string option \<Rightarrow> document_db \<Rightarrow> artifact option" where
  "artifact_get_latest_active did type role form db =
     latest_by art_created_at (filter (artifact_matches did type role form) (artifacts db))"

definition artifact_mark_superseded ::
  "int \<Rightarrow> string \<Rightarrow> string option \<Rightarrow> string option \<Rightarrow> document_db \<Rightarrow> document_db" where
  "artifact_mark_superseded did type role form db = db\<lparr>artifacts :=
     map (\<lambda>a. if artifact_matches did type role form a then a\<lparr>art_status := ART_SUPERSEDED\<rparr> else a)
       (artifacts db)\<rparr>"

section \<open>ParentBlockRepository\<close>

definition block_delete_by_doc_id :: "int \<Rightarrow> document_db \<Rightarrow> document_db" where
  "block_delete_by_doc_id did db =
     db\<lparr>parent_blocks := filter (\<lambda>b. pb_doc_id b \<noteq> did) (parent_blocks db)\<rparr>"

text \<open>\<open>create_many\<close> inserts in order; the keys are handed back with the rows.\<close>

fun block_create_many :: "parent_block list \<Rightarrow> document_db \<Rightarrow> (parent_block list \<times> document_db) result" where
  "block_create_many [] db = Inr ([], db)"
| "block_create_many (b0 # bs) db =
     (let b = b0\<lparr>pb_id := next_block_id db\<rparr> in
      bind (add_row [(''parent_code'', \<lambda>x y. pb_parent_code x = pb_parent_code y)] b (parent_blocks db))
        (\<lambda>rows.
      bind (block_create_many bs
        (db\<lparr>parent_blocks := rows, next_block_id := next_block_id db + 1\<rparr>)) (\<lambda>(saved, db').
      Inr (b # saved, db'))))"

section \<open>ChildChunkRepository\<close>

definition chunk_delete_by_doc_id :: "int \<Rightarrow> document_db \<Rightarrow> document_db" where
  "chunk_delete_by_doc_id did db =
     db\<lparr>child_chunks := filter (\<lambda>c. cc_doc_id c \<noteq> did) (child_chunks db)\<rparr>"

fun chunk_create_many :: "child_chunk list \<Rightarrow> document_db \<Rightarrow> document_db result" where
  "chunk_create_many [] db = Inr db"
| "chunk_create_many (c0 # cs) db =
     bind (add_row [(''chunk_code'', \<lambda>x y. cc_chunk_code x = cc_chunk_code y)]
       (c0\<lparr>cc_id := next_chunk_id db\<rparr>) (child_chunks db)) (\<lambda>rows.
     chunk_create_many cs (db\<lparr>child_chunks := rows, next_chunk_id := next_chunk_id db + 1\<rparr>))"

definition chunk_exists_by_doc_id :: "int \<Rightarrow> document_db \<Rightarrow> bool" where
  "chunk_exists_by_doc_id did db = list_ex (\<lambda>c. cc_doc_id c = did \<and> cc_active c) (child_chunks db)"

definition chunk_exists_by_vector_status :: "int \<Rightarrow> vector_status \<Rightarrow> document_db \<Rightarrow> bool" where
  "chunk_exists_by_vector_status did vs db =
     list_ex (\<lambda>c. cc_doc_id c = did \<and> cc_active c \<and> cc_vector_status c = vs) (child_chunks db)"

definition chunk_count_active_not_indexed :: "int \<Rightarrow> document_db \<Rightarrow> nat" where
  "chunk_count_active_not_indexed did db =
     length (filter (\<lambda>c. cc_doc_id c = did \<and> cc_active c \<and> cc_vector_status c \<noteq> VS_INDEXED)
       (child_chunks db))"

definition chunk_list_indexable :: "int \<Rightarrow> vector_status list \<Rightarrow> document_db \<Rightarrow> child_chunk list" where
  "chunk_list_indexable did statuses db =
     sort_key (\<lambda>c. (cc_parent_id c, cd_chunk_index (cc_data c)))
       (filter (\<lambda>c. cc_doc_id c = did \<and> cc_active c \<and> cc_vector_status c \<in> set statuses)
         (child_chunks db))"

definition chunk_list_by_ids :: "int \<Rightarrow> int list \<Rightarrow> document_db \<Rightarrow> child_chunk list" where
  "chunk_list_by_ids did ids db =
     sort_key cc_id (filter (\<lambda>c. cc_doc_id c = did \<and> cc_id c \<in> set ids) (child_chunks db))"

text \<open>The three writes change loaded rows; \<open>ids\<close> are the keys of these rows.\<close>

definition chunk_update :: "int list \<Rightarrow> (child_chunk \<Rightarrow> child_chunk) \<Rightarrow> document_db \<Rightarrow> document_db" where
  "chunk_update ids f db =
     db\<lparr>child_chunks := map (\<lambda>c. if cc_id c \<in> set ids then f c else c) (child_chunks db)\<rparr>"

definition chunk_mark_indexing :: "child_chunk list \<Rightarrow> document_db \<Rightarrow> document_db" where
  "chunk_mark_indexing cs = chunk_update (map cc_id cs) (\<lambda>c. c\<lparr>cc_vector_status := VS_INDEXING\<rparr>)"

definition chunk_mark_indexed_many :: "time \<Rightarrow> child_chunk list \<Rightarrow> document_db \<Rightarrow> document_db" where
  "chunk_mark_indexed_many now cs = chunk_update (map cc_id cs) (\<lambda>c. c\<lparr>cc_vector_status := VS_INDEXED,
     cc_qdrant_point_id := Some (cc_id c), cc_indexed_at := Some now\<rparr>)"

definition chunk_mark_failed :: "child_chunk list \<Rightarrow> document_db \<Rightarrow> document_db" where
  "chunk_mark_failed cs = chunk_update (map cc_id cs) (\<lambda>c.
     if cc_vector_status c = VS_INDEXING then c\<lparr>cc_vector_status := VS_FAILED\<rparr> else c)"

end
