(* ===== verification/Aggregation.thy ===== *)
theory Aggregation
  imports Store
begin

text \<open>
  Aggregation of a completed plan (aggregation/application/aggregate_plan.py): the snapshot read
  from the database, the answer text built from it, the parsing of resource references and the
  resolution of the clarification the plan answers.  The context selection of the turn, which the
  context tables hold, is a parameter (\<open>None\<close>: no record); completing the turn belongs to the
  context component.
\<close>

section \<open>Python's text of a JSON value\<close>

fun digits_of :: "nat \<Rightarrow> nat \<Rightarrow> string" where
  "digits_of 0 n = []"
| "digits_of (Suc fuel) n =
     (if n < 10 then [char_of (48 + n)]
      else digits_of fuel (n div 10) @ [char_of (48 + n mod 10)])"

definition nat_text :: "nat \<Rightarrow> string" where
  "nat_text n = digits_of (Suc n) n"

definition int_text :: "int \<Rightarrow> string" where
  "int_text i = (if i < 0 then ''-'' @ nat_text (nat (- i)) else nat_text (nat i))"

definition hex_digit :: "nat \<Rightarrow> char" where
  "hex_digit n = char_of (if n < 10 then 48 + n else 87 + n)"

definition quote_char :: "string \<Rightarrow> char" where
  "quote_char s = (if CHR 0x27 \<in> set s \<and> CHR 0x22 \<notin> set s then CHR 0x22 else CHR 0x27)"

definition repr_char :: "char \<Rightarrow> char \<Rightarrow> string" where
  "repr_char q c = (let n = (of_char c :: nat) in
     if c = q \<or> n = 92 then [CHR 0x5C, c]
     else if n = 9 then [CHR 0x5C, CHR ''t'']
     else if n = 10 then [CHR 0x5C, CHR ''n'']
     else if n = 13 then [CHR 0x5C, CHR ''r'']
     else if n < 32 \<or> (127 \<le> n \<and> n \<le> 160) \<or> n = 173
     then [CHR 0x5C, CHR ''x'', hex_digit (n div 16), hex_digit (n mod 16)]
     else [c])"

definition str_repr :: "string \<Rightarrow> string" where
  "str_repr s = (let q = quote_char s in q # concat (map (repr_char q) s) @ [q])"

fun py_repr :: "json \<Rightarrow> string" where
  "py_repr JNull = ''None''"
| "py_repr (JBool b) = (if b then ''True'' else ''False'')"
| "py_repr (JInt i) = int_text i"
| "py_repr (JStr s) = str_repr s"
| "py_repr (JList js) = ''['' @ join '', '' (map py_repr js) @ '']''"
| "py_repr (JObj kvs) =
     ''{'' @ join '', '' (map (\<lambda>(k, v). str_repr k @ '': '' @ py_repr v) kvs) @ ''}''"

section \<open>The snapshot\<close>

record aggregation_snapshot =
  ag_turn_id :: ident
  ag_task_ids :: "ident list"
  ag_relevant_chain_ids :: "ident list"
  ag_summaries :: "string list"
  ag_resource_refs :: "string list"

text \<open>
  \<open>latest_by_task\<close> is the Python dictionary filled in the order of \<open>started_at\<close>: a later execution
  of the same task replaces the value and keeps the position of the key.
\<close>

fun dict_set :: "'k \<Rightarrow> 'v \<Rightarrow> ('k \<times> 'v) list \<Rightarrow> ('k \<times> 'v) list" where
  "dict_set k v [] = [(k, v)]"
| "dict_set k v ((k', v') # kvs) = (if k' = k then (k, v) # kvs else (k', v') # dict_set k v kvs)"

text \<open>\<open>dict.update\<close>, used for JSON objects by other parts.\<close>

definition dict_update :: "('k \<times> 'v) list \<Rightarrow> ('k \<times> 'v) list \<Rightarrow> ('k \<times> 'v) list" where
  "dict_update kvs new = fold (\<lambda>(k, v). dict_set k v) new kvs"

lemma map_of_dict_set: "map_of (dict_set k v kvs) = (map_of kvs)(k \<mapsto> v)"
  by (induction kvs) auto

lemma in_dict_set: "kv \<in> set (dict_set k v kvs) \<Longrightarrow> kv = (k, v) \<or> kv \<in> set kvs"
  by (induction kvs) (auto split: if_splits)

lemma keys_dict_set: "fst ` set (dict_set k v d) = insert k (fst ` set d)"
  by (induction k v d rule: dict_set.induct) auto

lemma map_of_dict_update: "map_of (dict_update kvs new) = map_of kvs ++ map_of (rev new)"
  by (induction new arbitrary: kvs)
    (auto simp: dict_update_def map_of_dict_set map_add_def fun_eq_iff split: option.splits)

lemma in_dict_update: "kv \<in> set (dict_update kvs new) \<Longrightarrow> kv \<in> set kvs \<or> kv \<in> set new"
  by (induction new arbitrary: kvs) (auto simp: dict_update_def dest!: in_dict_set)

definition latest_by_task :: "execution list \<Rightarrow> (ident \<times> execution) list" where
  "latest_by_task xs = fold (\<lambda>x. dict_set (x_task_id x) x) xs []"

definition task_summary :: "task \<Rightarrow> string" where
  "task_summary t = t_capability_code t @ '': '' @
     (case t_output_json t of None \<Rightarrow> ''None'' | Some j \<Rightarrow> py_repr j)"

definition load_snapshot :: "ident list option \<Rightarrow> ident \<Rightarrow> db \<Rightarrow> aggregation_snapshot result" where
  "load_snapshot selection plan_id db =
     (case plan_get_by_id plan_id db of
        None \<Rightarrow> Inl (ValueError ''Plan is not completed'')
      | Some p \<Rightarrow>
          if p_status p \<noteq> PLAN_COMPLETED then Inl (ValueError ''Plan is not completed'')
          else
            let ts = task_list_by_plan_id plan_id db in
            if ts = [] \<or> list_ex (\<lambda>t. t_status t \<noteq> SUCCEEDED) ts
            then Inl (ValueError ''Plan Tasks have not all succeeded'')
            else
              let latest = latest_by_task (filter (\<lambda>x. x_status x = EXEC_SUCCEEDED)
                    (execution_list_by_plan_id plan_id db)) in
              if set (map fst latest) \<noteq> set (map t_id ts)
              then Inl (ValueError ''successful Task executions are incomplete'')
              else (case selection of
                None \<Rightarrow> Inl (ValueError ''Turn has no Context Selection record'')
              | Some sel \<Rightarrow> Inr
                  \<lparr>ag_turn_id = p_turn_id p, ag_task_ids = map t_id ts,
                   ag_relevant_chain_ids = sel, ag_summaries = map task_summary ts,
                   ag_resource_refs =
                     dedup (concat (map (\<lambda>(k, x). x_resource_refs x) latest))\<rparr>))"

record context_resource_input =
  cr_resource_type :: string
  cr_resource_id :: string
  cr_relation :: string
  cr_summary :: string

text \<open>\<open>str.partition('':'')\<close>: the text before the first colon, whether there is one, the rest.\<close>

definition partition_colon :: "string \<Rightarrow> string \<times> bool \<times> string" where
  "partition_colon s = (case dropWhile (\<lambda>c. c \<noteq> CHR '':'') s of
     [] \<Rightarrow> (s, False, [])
   | _ # rest \<Rightarrow> (takeWhile (\<lambda>c. c \<noteq> CHR '':'') s, True, rest))"

definition resource_of :: "string \<Rightarrow> context_resource_input result" where
  "resource_of ref =
     (case partition_colon ref of (ty, sep, rid) \<Rightarrow>
        if \<not> sep \<or> ty = [] \<or> rid = [] then Inl (ValueError (''illegal resource reference: '' @ ref))
        else Inr \<lparr>cr_resource_type = ty, cr_resource_id = rid, cr_relation = ''task_output'',
                  cr_summary = ''resource produced by the Task Runtime''\<rparr>)"

fun resources_of :: "string list \<Rightarrow> context_resource_input list result" where
  "resources_of [] = Inr []"
| "resources_of (r # rs) =
     bind (resource_of r) (\<lambda>x. bind (resources_of rs) (\<lambda>xs. Inr (x # xs)))"

definition assistant_content :: "aggregation_snapshot \<Rightarrow> string" where
  "assistant_content s = ''completed '' @ nat_text (length (ag_task_ids s)) @ '' tasks. '' @
     join ''; '' (ag_summaries s)"

section \<open>Resolving the clarification\<close>

definition resolve_clarification :: "time \<Rightarrow> ident \<Rightarrow> db \<Rightarrow> (unit \<times> db) result" where
  "resolve_clarification now plan_id db =
     (case plan_get_by_id plan_id db of
        None \<Rightarrow> Inr ((), db)
      | Some p \<Rightarrow>
          (case p_parent_plan_id p of
             None \<Rightarrow> Inr ((), db)
           | Some parent \<Rightarrow>
               (case clarification_get_by_plan_id parent db of
                  None \<Rightarrow> Inr ((), db)
                | Some c \<Rightarrow>
                    if c_status c \<noteq> CL_ANSWERED then Inr ((), db)
                    else Inr ((), clarification_save
                      (c\<lparr>c_status := CL_RESOLVED, c_resolved_at := Some now\<rparr>) db))))"

end
