(* ===== verification/Planning_Dag.thy ===== *)
theory Planning_Dag
  imports Store
begin

text \<open>
  The validation of a plan's task graph (\<open>FinalizePlanUseCase._validate_dag\<close>): references of
  tasks to the tasks they depend on, the memoised depth-first computation of the depth of every
  task with its cycle check, and the proof that it accepts exactly the graphs whose references
  are sane and whose dependency chains have at most three tasks.
\<close>

section \<open>The code\<close>

definition MAX_TASKS_PER_PLAN :: nat where "MAX_TASKS_PER_PLAN = 10"
definition MAX_PLAN_DAG_DEPTH :: nat where "MAX_PLAN_DAG_DEPTH = 3"

type_synonym graph = "(string \<times> string list) list"

fun json_strings :: "json list \<Rightarrow> string list" where
  "json_strings [] = []"
| "json_strings (JStr s # js) = s # json_strings js"
| "json_strings (_ # js) = json_strings js"

definition depends_refs :: "task \<Rightarrow> string list" where
  "depends_refs t =
     (case json_get (t_input_json t) ''_depends_on_task_refs'' of
        Some (JList js) \<Rightarrow> json_strings js
      | _ \<Rightarrow> [])"

definition dag_error :: "string \<Rightarrow> string \<Rightarrow> error" where
  "dag_error message code = PlanningApplicationError 409 message code"

definition cycle_error :: error where
  "cycle_error = dag_error ''Task DAG must not contain cyclic dependencies''
     ''plan_task_dependency_cycle''"

text \<open>The number of references not on the recursion path: the measure of the search.\<close>

definition unvisited :: "graph \<Rightarrow> string list \<Rightarrow> nat" where
  "unvisited g vis = card (fst ` set g - set vis)"

lemma unvisited_less:
  assumes "r \<notin> set vis" "map_of g r = Some preds"
  shows "unvisited g (r # vis) < unvisited g vis"
proof -
  have "r \<in> fst ` set g" using assms(2) by (metis map_of_SomeD image_eqI fst_conv)
  then show ?thesis using assms(1) unfolding unvisited_def
    by (intro psubset_card_mono) auto
qed

text \<open>
  \<open>depth\<close> and the \<open>max\<close> over the depths of the predecessors.  \<open>ds\<close> is the memo table \<open>depths\<close>,
  \<open>vis\<close> the references on the current recursion path (\<open>visiting\<close>; an exception aborts the whole
  validation, so passing it downwards is the same as adding and removing).
\<close>

function (sequential)
  depth :: "graph \<Rightarrow> string list \<Rightarrow> (string \<rightharpoonup> nat) \<Rightarrow> string \<Rightarrow> error + (nat \<times> (string \<rightharpoonup> nat))"
and max_depth ::
  "graph \<Rightarrow> string list \<Rightarrow> (string \<rightharpoonup> nat) \<Rightarrow> string list \<Rightarrow> nat \<Rightarrow> error + (nat \<times> (string \<rightharpoonup> nat))"
where
  "depth g vis ds r =
     (case ds r of
        Some d \<Rightarrow> Inr (d, ds)
      | None \<Rightarrow>
          if r \<in> set vis then Inl cycle_error
          else (case map_of g r of
            None \<Rightarrow> Inl (OtherException ''KeyError'' r)
          | Some preds \<Rightarrow>
              (case max_depth g (r # vis) ds preds 0 of
                 Inl e \<Rightarrow> Inl e
               | Inr (m, ds') \<Rightarrow> Inr (1 + m, ds'(r \<mapsto> 1 + m)))))"
| "max_depth g vis ds [] acc = Inr (acc, ds)"
| "max_depth g vis ds (r # rs) acc =
     (case depth g vis ds r of
        Inl e \<Rightarrow> Inl e
      | Inr (d, ds') \<Rightarrow> max_depth g vis ds' rs (max acc d))"
  by pat_completeness auto

termination depth
  by (relation "measures [\<lambda>x. case x of Inl (g, vis, ds, r) \<Rightarrow> unvisited g vis
        | Inr (g, vis, ds, rs, acc) \<Rightarrow> unvisited g vis,
      \<lambda>x. case x of Inl (g, vis, ds, r) \<Rightarrow> 0 | Inr (g, vis, ds, rs, acc) \<Rightarrow> Suc (length rs)]")
    (auto simp: unvisited_less)

fun check_refs :: "string list \<Rightarrow> task list \<Rightarrow> graph result" where
  "check_refs known [] = Inr []"
| "check_refs known (t # ts) =
     (let refs = depends_refs t in
      if length refs \<noteq> length (dedup refs) then
        Inl (dag_error ''Task dependency refs must not repeat'' ''plan_task_dependency_invalid'')
      else if filter (\<lambda>r. r \<notin> set known) refs \<noteq> [] then
        Inl (dag_error (''Task dependency refs do not exist: '' @
               join '', '' (sort (filter (\<lambda>r. r \<notin> set known) refs)))
             ''plan_task_dependency_missing'')
      else if t_ref t \<in> set refs then
        Inl (dag_error ''Task must not depend on itself'' ''plan_task_dependency_invalid'')
      else bind (check_refs known ts) (\<lambda>g. Inr ((t_ref t, refs) # g)))"

definition task_by_ref :: "task list \<Rightarrow> string \<Rightarrow> task option" where
  "task_by_ref ts r = get_row t_ref r ts"

definition ref_id :: "task list \<Rightarrow> string \<Rightarrow> ident" where
  "ref_id ts r = (case task_by_ref ts r of Some t \<Rightarrow> t_id t | None \<Rightarrow> [])"

definition dependency_pairs :: "task list \<Rightarrow> graph \<Rightarrow> (ident \<times> ident) list" where
  "dependency_pairs ts g =
     concat (map (\<lambda>(r, refs). map (\<lambda>d. (ref_id ts r, ref_id ts d)) refs) g)"

definition validate_dag :: "task list \<Rightarrow> (ident \<times> ident) list result" where
  "validate_dag ts =
     (if length (dedup (map t_ref ts)) \<noteq> length ts then
        Inl (dag_error ''Task task_ref must be unique'' ''plan_task_ref_conflict'')
      else bind (check_refs (map t_ref ts) ts) (\<lambda>g.
        bind (max_depth g [] Map.empty (map fst g) 0) (\<lambda>(m, ds).
          if MAX_PLAN_DAG_DEPTH < m then
            Inl (dag_error ''Plan DAG depth must not exceed 3''
              ''plan_task_dependency_depth_exceeded'')
          else Inr (dependency_pairs ts g))))"

section \<open>Depth and chains\<close>

text \<open>A chain lists tasks each of which depends on the next.\<close>

definition edge :: "graph \<Rightarrow> string \<Rightarrow> string \<Rightarrow> bool" where
  "edge g r d \<longleftrightarrow> (\<exists>preds. map_of g r = Some preds \<and> d \<in> set preds)"

fun chain :: "graph \<Rightarrow> string list \<Rightarrow> bool" where
  "chain g [] \<longleftrightarrow> True"
| "chain g [r] \<longleftrightarrow> r \<in> fst ` set g"
| "chain g (r # d # rs) \<longleftrightarrow> edge g r d \<and> chain g (d # rs)"

text \<open>The memo table is right: each depth is one more than the largest depth below it.\<close>

definition good :: "graph \<Rightarrow> (string \<rightharpoonup> nat) \<Rightarrow> bool" where
  "good g ds \<longleftrightarrow>
     (\<forall>r d. ds r = Some d \<longrightarrow>
        (\<exists>preds. map_of g r = Some preds \<and> (\<forall>p\<in>set preds. \<exists>e. ds p = Some e \<and> e < d) \<and>
          (d = 1 \<or> (\<exists>p\<in>set preds. ds p = Some (d - 1))) \<and> 1 \<le> d))"

definition extends :: "(string \<rightharpoonup> nat) \<Rightarrow> (string \<rightharpoonup> nat) \<Rightarrow> bool" where
  "extends ds ds' \<longleftrightarrow> (\<forall>r d. ds r = Some d \<longrightarrow> ds' r = Some d)"

lemma extends_refl [simp]: "extends ds ds" by (simp add: extends_def)

lemma extends_trans: "extends a b \<Longrightarrow> extends b c \<Longrightarrow> extends a c"
  by (simp add: extends_def)

lemma depth_sound:
  "depth g vis ds r = Inr (d, ds') \<Longrightarrow> good g ds \<Longrightarrow> (\<forall>v\<in>set vis. ds v = None) \<Longrightarrow>
     good g ds' \<and> extends ds ds' \<and> ds' r = Some d \<and> (\<forall>v\<in>set vis. ds' v = None)"
  "max_depth g vis ds rs acc = Inr (m, ds') \<Longrightarrow> good g ds \<Longrightarrow> (\<forall>v\<in>set vis. ds v = None) \<Longrightarrow>
     good g ds' \<and> extends ds ds' \<and> (\<forall>v\<in>set vis. ds' v = None) \<and> acc \<le> m \<and>
     (\<forall>r\<in>set rs. \<exists>d. ds' r = Some d \<and> d \<le> m) \<and> (m = acc \<or> (\<exists>r\<in>set rs. ds' r = Some m))"
proof (induction g vis ds r and g vis ds rs acc arbitrary: d ds' and m ds'
    rule: depth_max_depth.induct)
  case (1 g vis ds r)
  show ?case
  proof (cases "ds r")
    case (Some e)
    with 1 show ?thesis by simp
  next
    case None
    with "1.prems"(1) obtain preds n ds1 where r: "r \<notin> set vis" "map_of g r = Some preds"
      and md: "max_depth g (r # vis) ds preds 0 = Inr (n, ds1)"
      and eq: "d = 1 + n" "ds' = ds1(r \<mapsto> 1 + n)"
      by (auto split: if_splits option.splits sum.splits)
    from "1.IH" [OF None r md] "1.prems"(2,3) None
    have g1: "good g ds1" "extends ds ds1" "ds1 r = None" "\<forall>v\<in>set vis. ds1 v = None"
      "\<forall>p\<in>set preds. \<exists>d. ds1 p = Some d \<and> d \<le> n" "n = 0 \<or> (\<exists>p\<in>set preds. ds1 p = Some n)"
      by auto
    have "good g ds'"
      unfolding good_def
    proof (intro allI impI)
      fix q e assume q: "ds' q = Some e"
      show "\<exists>preds. map_of g q = Some preds \<and> (\<forall>p\<in>set preds. \<exists>e'. ds' p = Some e' \<and> e' < e) \<and>
        (e = 1 \<or> (\<exists>p\<in>set preds. ds' p = Some (e - 1))) \<and> 1 \<le> e"
      proof (cases "q = r")
        case True
        then have "e = 1 + n" using q eq by simp
        then show ?thesis using True r(2) g1(3,5,6) eq by (fastforce simp: less_Suc_eq_le)
      next
        case False
        with q eq g1(1) have "\<exists>preds. map_of g q = Some preds \<and>
          (\<forall>p\<in>set preds. \<exists>e'. ds1 p = Some e' \<and> e' < e) \<and>
          (e = 1 \<or> (\<exists>p\<in>set preds. ds1 p = Some (e - 1))) \<and> 1 \<le> e"
          by (simp add: good_def)
        then show ?thesis using eq g1(3) by fastforce
      qed
    qed
    moreover have "extends ds ds'" using g1(2) eq None by (auto simp: extends_def)
    moreover have "ds' r = Some d \<and> (\<forall>v\<in>set vis. ds' v = None)" using eq g1(4) r(1) by auto
    ultimately show ?thesis by blast
  qed
next
  case (2 g vis ds acc)
  then show ?case by simp
next
  case (3 g vis ds r rs acc)
  from "3.prems"(1) obtain e ds1 where d1: "depth g vis ds r = Inr (e, ds1)"
    and m1: "max_depth g vis ds1 rs (max acc e) = Inr (m, ds')"
    by (auto split: sum.splits)
  from "3.IH"(1) [OF d1 "3.prems"(2,3)] have s1: "good g ds1" "extends ds ds1" "ds1 r = Some e"
    "\<forall>v\<in>set vis. ds1 v = None" by auto
  from "3.IH"(2) [OF d1 refl m1 s1(1,4)] s1 show ?case
    by (auto simp: extends_def max_def split: if_splits)
qed

lemma goodD:
  assumes "good g ds" "ds r = Some d"
  shows "\<exists>preds. map_of g r = Some preds \<and> (\<forall>p\<in>set preds. \<exists>e. ds p = Some e \<and> e < d) \<and>
    (d = 1 \<or> (\<exists>p\<in>set preds. ds p = Some (d - 1))) \<and> 1 \<le> d"
  using assms by (simp add: good_def)

lemma good_chain_bound:
  assumes "good g ds"
  shows "chain g (r # rs) \<Longrightarrow> ds r = Some d \<Longrightarrow> length (r # rs) \<le> d"
proof (induction rs arbitrary: r d)
  case Nil
  then show ?case using goodD [OF assms Nil.prems(2)] by auto
next
  case (Cons e rs)
  then have "edge g r e" "chain g (e # rs)" by auto
  with goodD [OF assms Cons.prems(2)] obtain d' where d': "ds e = Some d'" "d' < d"
    unfolding edge_def by (metis option.inject)
  with Cons.IH \<open>chain g (e # rs)\<close> have "length (e # rs) \<le> d'" by blast
  with d'(2) show ?case by simp
qed

lemma good_chain_exists:
  assumes "good g ds"
  shows "ds r = Some d \<Longrightarrow> \<exists>rs. chain g (r # rs) \<and> length (r # rs) = d"
proof (induction d arbitrary: r rule: less_induct)
  case (less d)
  from goodD [OF assms less.prems] obtain preds where p: "map_of g r = Some preds" "1 \<le> d"
    "d = 1 \<or> (\<exists>p\<in>set preds. ds p = Some (d - 1))"
    by blast
  show ?case
  proof (cases "d = 1")
    case True
    have "r \<in> fst ` set g" using p(1) by (metis map_of_SomeD image_eqI fst_conv)
    then show ?thesis using True by (intro exI [of _ "[]"]) simp
  next
    case False
    with p obtain q where q: "q \<in> set preds" "ds q = Some (d - 1)" by auto
    have "d - 1 < d" using p(2) by simp
    from less.IH [OF this q(2)] obtain rs where rs: "chain g (q # rs)" "length (q # rs) = d - 1"
      by blast
    have "edge g r q" using p(1) q(1) by (auto simp: edge_def)
    with rs have "chain g (r # q # rs) \<and> length (r # q # rs) = d" using p(2) by simp
    then show ?thesis by blast
  qed
qed

definition closed_graph :: "graph \<Rightarrow> bool" where
  "closed_graph g \<longleftrightarrow> (\<forall>r d. edge g r d \<longrightarrow> d \<in> fst ` set g)"

lemma map_of_key: "r \<in> fst ` set g \<Longrightarrow> \<exists>preds. map_of g r = Some preds"
  by (metis domD dom_map_of_conv_image_fst)

lemma depth_complete:
  assumes rank: "\<And>r d. edge g r d \<Longrightarrow> (f d :: nat) < f r" and cl: "closed_graph g"
  shows "r \<in> fst ` set g \<Longrightarrow> (\<forall>v\<in>set vis. f r < f v) \<Longrightarrow> \<exists>x. depth g vis ds r = Inr x"
    and "(\<forall>r\<in>set rs. r \<in> fst ` set g \<and> (\<forall>v\<in>set vis. f r < f v)) \<Longrightarrow>
      \<exists>x. max_depth g vis ds rs acc = Inr x"
  using rank cl
proof (induction g vis ds r and g vis ds rs acc rule: depth_max_depth.induct)
  case (1 g vis ds r)
  show ?case
  proof (cases "ds r")
    case None
    have r: "r \<notin> set vis" using "1.prems"(2) by (metis less_irrefl)
    obtain preds where p: "map_of g r = Some preds" using map_of_key [OF "1.prems"(1)] by blast
    have "\<exists>x. max_depth g (r # vis) ds preds 0 = Inr x"
    proof (rule "1.IH" [OF None r p _ "1.prems"(3,4)])
      show "\<forall>d\<in>set preds. d \<in> fst ` set g \<and> (\<forall>v\<in>set (r # vis). f d < f v)"
      proof
        fix d assume "d \<in> set preds"
        then have e: "edge g r d" using p by (simp add: edge_def)
        then have "f d < f r" by (rule "1.prems"(3))
        moreover have "d \<in> fst ` set g" using e "1.prems"(4) by (auto simp: closed_graph_def)
        ultimately show "d \<in> fst ` set g \<and> (\<forall>v\<in>set (r # vis). f d < f v)"
          using "1.prems"(2) by fastforce
      qed
    qed
    then show ?thesis using None r p by auto
  qed simp
next
  case (3 g vis ds r rs acc)
  have "\<exists>x. depth g vis ds r = Inr x" using "3.IH"(1) "3.prems" by simp
  then obtain d ds1 where d: "depth g vis ds r = Inr (d, ds1)" by auto
  from "3.IH"(2) [OF d refl] "3.prems" show ?case using d by simp
qed simp

text \<open>Bounded chains give a rank that falls along every edge.\<close>

lemma bounded_chains_rank:
  assumes bound: "\<And>c. chain g c \<Longrightarrow> length c \<le> n" and cl: "closed_graph g"
  shows "\<exists>f. \<forall>r d. edge g r d \<longrightarrow> (f d :: nat) < f r"
proof -
  let ?L = "\<lambda>r. {length c | c. chain g c \<and> c \<noteq> [] \<and> hd c = r}"
  have fin: "finite (?L r)" for r
    by (rule finite_subset [of _ "{..n}"]) (use bound in auto)
  have "Max (?L d) < Max (?L r)" if e: "edge g r d" for r d
  proof -
    have "chain g [d]" using e cl by (auto simp: closed_graph_def)
    then have "?L d \<noteq> {}" by fastforce
    from Max_in [OF fin this] obtain c where c: "chain g c" "c \<noteq> []" "hd c = d"
      "Max (?L d) = length c" by auto
    then obtain rs where "c = d # rs" by (cases c) auto
    with c e have "chain g (r # c)" by simp
    then have "length (r # c) \<in> ?L r" by (intro CollectI exI [of _ "r # c"]) simp
    from Max_ge [OF fin this] c(4) show ?thesis by simp
  qed
  then show ?thesis by (intro exI [of _ "\<lambda>r. Max (?L r)"]) blast
qed

text \<open>The maximum over all tasks bounds exactly the chains.\<close>

lemma max_depth_bounds_chains:
  assumes "max_depth g [] Map.empty (map fst g) 0 = Inr (m, ds)" and "closed_graph g"
  shows "(\<forall>c. chain g c \<longrightarrow> length c \<le> n) \<longleftrightarrow> m \<le> n"
proof -
  have empty: "good g Map.empty" by (simp add: good_def)
  from depth_sound(2) [OF assms(1) empty] have s: "good g ds"
    "\<forall>r\<in>fst ` set g. \<exists>d. ds r = Some d \<and> d \<le> m" "m = 0 \<or> (\<exists>r\<in>fst ` set g. ds r = Some m)"
    by auto
  show ?thesis
  proof
    assume all: "\<forall>c. chain g c \<longrightarrow> length c \<le> n"
    from s(3) show "m \<le> n"
    proof
      assume "\<exists>r\<in>fst ` set g. ds r = Some m"
      then obtain r rs where "chain g (r # rs)" "length (r # rs) = m"
        using good_chain_exists [OF s(1)] by blast
      with all show ?thesis by auto
    qed simp
  next
    assume "m \<le> n"
    show "\<forall>c. chain g c \<longrightarrow> length c \<le> n"
    proof (intro allI impI)
      fix c assume c: "chain g c"
      show "length c \<le> n"
      proof (cases c)
        case (Cons r rs)
        have "r \<in> fst ` set g"
          using c Cons by (cases rs) (auto simp: edge_def dest: map_of_SomeD intro: rev_image_eqI)
        with s(2) obtain d where "ds r = Some d" "d \<le> m" by auto
        with good_chain_bound [OF s(1)] c Cons \<open>m \<le> n\<close> show ?thesis by fastforce
      qed simp
    qed
  qed
qed

section \<open>Validation of a plan\<close>

definition task_graph :: "task list \<Rightarrow> graph" where
  "task_graph ts = map (\<lambda>t. (t_ref t, depends_refs t)) ts"

definition refs_sane :: "task list \<Rightarrow> task \<Rightarrow> bool" where
  "refs_sane ts t \<longleftrightarrow> distinct (depends_refs t) \<and> set (depends_refs t) \<subseteq> t_ref ` set ts \<and>
     t_ref t \<notin> set (depends_refs t)"

lemma check_refs_iff:
  "check_refs known ts = Inr g \<longleftrightarrow> g = task_graph ts \<and>
     (\<forall>t\<in>set ts. distinct (depends_refs t) \<and> set (depends_refs t) \<subseteq> set known \<and>
        t_ref t \<notin> set (depends_refs t))"
  by (induction ts arbitrary: g)
    (auto simp: task_graph_def Let_def bind_eq_Inr filter_empty_conv split: if_splits)

lemma fst_task_graph [simp]: "map fst (task_graph ts) = map t_ref ts"
  by (simp add: task_graph_def comp_def)

lemma map_of_task_graph:
  "distinct (map t_ref ts) \<Longrightarrow>
     map_of (task_graph ts) r = Some ps \<longleftrightarrow> (\<exists>t\<in>set ts. t_ref t = r \<and> depends_refs t = ps)"
  by (subst map_of_eq_Some_iff) (auto simp: task_graph_def comp_def)

lemma closed_task_graph:
  assumes "distinct (map t_ref ts)" "\<forall>t\<in>set ts. refs_sane ts t"
  shows "closed_graph (task_graph ts)"
proof -
  have "fst ` set (task_graph ts) = t_ref ` set ts" by (force simp: task_graph_def)
  then show ?thesis
    using assms(2) by (auto simp: closed_graph_def edge_def map_of_task_graph [OF assms(1)]
        refs_sane_def)
qed

text \<open>Accepted graphs are the sane ones with short chains.\<close>

lemma validate_dag_ok:
  "(\<exists>pairs. validate_dag ts = Inr pairs) \<longleftrightarrow>
     distinct (map t_ref ts) \<and> (\<forall>t\<in>set ts. refs_sane ts t) \<and>
     (\<forall>c. chain (task_graph ts) c \<longrightarrow> length c \<le> 3)"
proof (cases "distinct (map t_ref ts) \<and> (\<forall>t\<in>set ts. refs_sane ts t)")
  case True
  let ?g = "task_graph ts"
  have cl: "closed_graph ?g" using closed_task_graph True by blast
  have ok: "check_refs (map t_ref ts) ts = Inr ?g"
    using True by (simp add: check_refs_iff refs_sane_def)
  have unfold: "validate_dag ts = bind (max_depth ?g [] Map.empty (map fst ?g) 0) (\<lambda>(m, ds).
      if MAX_PLAN_DAG_DEPTH < m then Inl (dag_error ''Plan DAG depth must not exceed 3''
        ''plan_task_dependency_depth_exceeded'') else Inr (dependency_pairs ts ?g))"
    using True by (simp add: validate_dag_def ok)
  show ?thesis
  proof
    assume "\<exists>pairs. validate_dag ts = Inr pairs"
    then obtain m ds where "max_depth ?g [] Map.empty (map fst ?g) 0 = Inr (m, ds)" "m \<le> 3"
      by (auto simp: unfold bind_eq_Inr MAX_PLAN_DAG_DEPTH_def split: if_splits)
    with max_depth_bounds_chains [OF _ cl, of m ds 3] True show
      "distinct (map t_ref ts) \<and> (\<forall>t\<in>set ts. refs_sane ts t) \<and>
       (\<forall>c. chain ?g c \<longrightarrow> length c \<le> 3)" by simp
  next
    assume b: "distinct (map t_ref ts) \<and> (\<forall>t\<in>set ts. refs_sane ts t) \<and>
      (\<forall>c. chain ?g c \<longrightarrow> length c \<le> 3)"
    with bounded_chains_rank [OF _ cl, of 3] obtain f :: "string \<Rightarrow> nat"
      where f: "\<And>r d. edge ?g r d \<Longrightarrow> f d < f r" by blast
    have "\<exists>x. max_depth ?g [] Map.empty (map fst ?g) 0 = Inr x"
      by (rule depth_complete(2) [OF f cl]) (auto simp: task_graph_def image_image)
    then obtain m ds where md: "max_depth ?g [] Map.empty (map fst ?g) 0 = Inr (m, ds)" by auto
    with max_depth_bounds_chains [OF md cl, of 3] b show "\<exists>pairs. validate_dag ts = Inr pairs"
      by (simp add: unfold MAX_PLAN_DAG_DEPTH_def)
  qed
next
  case False
  then show ?thesis
    by (auto simp: validate_dag_def bind_eq_Inr check_refs_iff refs_sane_def split: if_splits)
qed

lemma ref_id_in:
  "distinct (map t_ref ts) \<Longrightarrow> t \<in> set ts \<Longrightarrow> ref_id ts (t_ref t) = t_id t"
  by (simp add: ref_id_def task_by_ref_def get_row_in_set)

lemma validate_dag_pairs:
  assumes "validate_dag ts = Inr pairs"
  shows "set pairs = {(t_id t, t_id u) | t u. t \<in> set ts \<and> u \<in> set ts \<and> t_ref u \<in> set (depends_refs t)}"
proof -
  from assms have d: "distinct (map t_ref ts)" and s: "\<forall>t\<in>set ts. refs_sane ts t"
    using validate_dag_ok by blast+
  have p: "pairs = dependency_pairs ts (task_graph ts)"
    using assms by (auto simp: validate_dag_def bind_eq_Inr check_refs_iff split: if_splits)
  have "set pairs = (\<Union>t\<in>set ts. (\<lambda>d. (t_id t, ref_id ts d)) ` set (depends_refs t))"
    using ref_id_in [OF d] by (auto simp: p dependency_pairs_def task_graph_def)
  also have "\<dots> = {(t_id t, t_id u) | t u. t \<in> set ts \<and> u \<in> set ts \<and> t_ref u \<in> set (depends_refs t)}"
  proof (intro set_eqI iffI)
    fix q assume "q \<in> (\<Union>t\<in>set ts. (\<lambda>d. (t_id t, ref_id ts d)) ` set (depends_refs t))"
    then obtain t r where t: "t \<in> set ts" "r \<in> set (depends_refs t)" "q = (t_id t, ref_id ts r)"
      by blast
    then obtain w where "w \<in> set ts" "r = t_ref w" using s by (auto simp: refs_sane_def)
    with t ref_id_in [OF d] show
      "q \<in> {(t_id t, t_id u) | t u. t \<in> set ts \<and> u \<in> set ts \<and> t_ref u \<in> set (depends_refs t)}"
      by auto
  next
    fix q assume "q \<in> {(t_id t, t_id u) | t u. t \<in> set ts \<and> u \<in> set ts \<and> t_ref u \<in> set (depends_refs t)}"
    then obtain t w where t: "t \<in> set ts" "w \<in> set ts" "t_ref w \<in> set (depends_refs t)"
      "q = (t_id t, t_id w)" by blast
    have "q = (t_id t, ref_id ts (t_ref w))" using t ref_id_in [OF d] by simp
    with t show "q \<in> (\<Union>t\<in>set ts. (\<lambda>d. (t_id t, ref_id ts d)) ` set (depends_refs t))" by blast
  qed
  finally show ?thesis .
qed

end
