(* ===== verification/Planning.thy ===== *)
theory Planning
  imports Planning_Dag
begin

text \<open>
  The planning use cases (modules/planning/application/use_cases.py): creating a plan revision and
  its draft tasks, publishing the plan, marking it unsupported, to be retried or in need of
  clarification, and setting the clarification question.  Each use case is one transaction.
\<close>

section \<open>Shared errors and events\<close>

definition plan_not_found :: error where
  "plan_not_found = PlanningApplicationError 404 ''Plan does not exist'' ''plan_not_found''"

definition turn_not_found :: error where
  "turn_not_found =
     PlanningApplicationError 404 ''Conversation Turn does not exist'' ''turn_not_found''"

definition require_planning :: "plan \<Rightarrow> unit result" where
  "require_planning p = require (p_status p = PLANNING)
     (PlanningApplicationError 409
       (''Plan state does not allow planning: '' @ plan_status_value (p_status p))
       ''plan_state_conflict'')"

definition require_turn_ownership :: "plan \<Rightarrow> ident \<Rightarrow> unit result" where
  "require_turn_ownership p tid = require (p_turn_id p = tid)
     (PlanningApplicationError 409 ''Plan and Conversation Turn do not belong together''
       ''plan_turn_conflict'')"

definition new_outbox_event ::
  "time \<Rightarrow> string \<Rightarrow> event_type \<Rightarrow> ident \<Rightarrow> json \<Rightarrow> outbox_event" where
  "new_outbox_event now hex ty aggregate payload =
     \<lparr>e_id = new_id ''event'' hex, e_type = ty, e_aggregate_type = ''plan'',
      e_aggregate_id = aggregate, e_payload = payload, e_status = EV_PENDING, e_attempts = 0,
      e_available_at = now, e_published_at = None, e_created_at = now\<rparr>"

section \<open>CreatePlanUseCase\<close>

record create_plan_input =
  cp_turn_id :: ident
  cp_revision :: int
  cp_workflow_id :: "ident option"
  cp_parent_plan_id :: "ident option"

definition create_plan ::
  "time \<Rightarrow> uuids \<Rightarrow> create_plan_input \<Rightarrow> db \<Rightarrow> (plan \<times> db) result" where
  "create_plan now u c db =
     (case turn_get_by_id (cp_turn_id c) db of
        None \<Rightarrow> Inl turn_not_found
      | Some _ \<Rightarrow>
          let existing = (case cp_workflow_id c of
                Some w \<Rightarrow> plan_get_by_workflow_and_revision w (cp_revision c) db
              | None \<Rightarrow> plan_get_by_turn_and_revision (cp_turn_id c) (cp_revision c) db) in
          if existing \<noteq> None then
            Inl (PlanningApplicationError 409 ''Plan revision of the Turn exists''
                   ''plan_revision_conflict'')
          else
            let wid = (case cp_workflow_id c of
                  Some w \<Rightarrow> if w = [] then new_id ''workflow'' (u 1) else w
                | None \<Rightarrow> new_id ''workflow'' (u 1));
                p = \<lparr>p_id = new_id ''plan'' (u 0), p_workflow_id = wid,
                     p_turn_id = cp_turn_id c, p_parent_plan_id = cp_parent_plan_id c,
                     p_current_task_id = None, p_status = PLANNING, p_revision = cp_revision c,
                     p_failure_code = None, p_failure_reason = None, p_started_at = None,
                     p_completed_at = None, p_created_at = now, p_updated_at = now\<rparr> in
            bind (plan_create p db) (\<lambda>db'. Inr (p, db')))"

section \<open>Creating draft tasks\<close>

record create_task_input =
  ct_plan_id :: ident
  ct_turn_id :: ident
  ct_document_id :: int
  ct_sequence :: int
  ct_task_ref :: string
  ct_depends_on :: "string list"

definition task_conflict :: "string \<Rightarrow> string \<Rightarrow> error" where
  "task_conflict message code = PlanningApplicationError 409 message code"

definition new_task ::
  "capability_code \<Rightarrow> uuids \<Rightarrow> plan \<Rightarrow> create_task_input \<Rightarrow> string list \<Rightarrow> task" where
  "new_task capability u p c deps =
     \<lparr>t_id = new_id ''task'' (u 0), t_plan_id = p_id p, t_turn_id = p_turn_id p,
      t_ref = ct_task_ref c, t_capability_code = capability_value capability,
      t_input_json = JObj [(''document_id'', JInt (ct_document_id c)),
                           (''_depends_on_task_refs'', JList (map JStr deps))],
      t_sequence = ct_sequence c, t_status = DRAFT, t_attempt_count = 0, t_max_attempts = 3,
      t_output_json = None, t_last_error_code = None, t_last_error_message = None,
      t_started_at = None, t_completed_at = None\<rparr>"

text \<open>Any integrity error of the insertion is reported as a conflict of sequence numbers.\<close>

definition task_create_checked :: "task \<Rightarrow> db \<Rightarrow> db result" where
  "task_create_checked t db =
     (case task_create t db of
        Inl (IntegrityError _) \<Rightarrow> Inl (task_conflict ''Task sequence must not repeat''
          ''plan_task_sequence_conflict'')
      | r \<Rightarrow> r)"

definition create_document_task ::
  "capability_code \<Rightarrow> uuids \<Rightarrow> create_task_input \<Rightarrow> db \<Rightarrow> (task \<times> db) result" where
  "create_document_task capability u c db =
     (case plan_get_by_id (ct_plan_id c) db of
        None \<Rightarrow> Inl plan_not_found
      | Some p \<Rightarrow>
          bind (require_planning p) (\<lambda>_.
          bind (require_turn_ownership p (ct_turn_id c)) (\<lambda>_.
          let drafts = task_list_by_plan_id_and_status (p_id p) DRAFT db;
              deps = dedup (ct_depends_on c);
              t = new_task capability u p c deps in
          if MAX_TASKS_PER_PLAN \<le> length drafts then
            Inl (task_conflict ''Plan must not have more than 10 draft Tasks''
                   ''plan_task_limit_exceeded'')
          else if list_ex (\<lambda>t. t_sequence t = ct_sequence c) drafts then
            Inl (task_conflict ''Task sequence must not repeat'' ''plan_task_sequence_conflict'')
          else if list_ex (\<lambda>t. t_ref t = ct_task_ref c) drafts then
            Inl (task_conflict ''task_ref must not repeat'' ''plan_task_ref_conflict'')
          else if ct_task_ref c \<in> set deps then
            Inl (task_conflict ''Task must not depend on its own task_ref''
                   ''plan_task_dependency_invalid'')
          else bind (task_create_checked t db) (\<lambda>db'. Inr (t, db')))))"

definition create_process_document_task :: "uuids \<Rightarrow> create_task_input \<Rightarrow> db \<Rightarrow> (task \<times> db) result" where
  "create_process_document_task = create_document_task PROCESS_DOCUMENT"

definition create_build_chunks_task :: "uuids \<Rightarrow> create_task_input \<Rightarrow> db \<Rightarrow> (task \<times> db) result" where
  "create_build_chunks_task = create_document_task BUILD_DOCUMENT_CHUNKS"

definition create_index_vectors_task :: "uuids \<Rightarrow> create_task_input \<Rightarrow> db \<Rightarrow> (task \<times> db) result" where
  "create_index_vectors_task = create_document_task INDEX_DOCUMENT_VECTORS"

section \<open>FinalizePlanUseCase\<close>

record finalize_result =
  f_plan_id :: ident
  f_turn_id :: ident
  f_plan_status :: plan_status
  f_task_ids :: "ident list"

fun drop_dependency_refs :: "json \<Rightarrow> json" where
  "drop_dependency_refs (JObj kvs) =
     JObj (filter (\<lambda>(k, v). k \<noteq> ''_depends_on_task_refs'') kvs)"
| "drop_dependency_refs j = j"

definition clean_input :: "task \<Rightarrow> task" where
  "clean_input t = t\<lparr>t_input_json := drop_dependency_refs (t_input_json t)\<rparr>"

fun dependency_rows :: "uuids \<Rightarrow> nat \<Rightarrow> ident \<Rightarrow> (ident \<times> ident) list \<Rightarrow> dependency list" where
  "dependency_rows u n pid [] = []"
| "dependency_rows u n pid ((t, d) # pairs) =
     \<lparr>d_id = new_id ''dependency'' (u n), d_plan_id = pid, d_task_id = t, d_depends_on = d\<rparr>
     # dependency_rows u (n + 1) pid pairs"

definition finalize_plan ::
  "time \<Rightarrow> uuids \<Rightarrow> ident \<Rightarrow> ident \<Rightarrow> db \<Rightarrow> (finalize_result \<times> db) result" where
  "finalize_plan now u plan_id turn_id db =
     (case plan_get_by_id plan_id db of
        None \<Rightarrow> Inl plan_not_found
      | Some p \<Rightarrow>
          bind (require_planning p) (\<lambda>_.
          bind (require_turn_ownership p turn_id) (\<lambda>_.
          let ts = task_list_by_plan_id_and_status (p_id p) DRAFT db in
          if ts = [] then
            Inl (task_conflict ''Plan needs at least one draft Task'' ''plan_task_count_invalid'')
          else if MAX_TASKS_PER_PLAN < length ts then
            Inl (task_conflict ''Plan must not have more than 10 Tasks'' ''plan_task_limit_exceeded'')
          else if map t_sequence ts \<noteq> map int [1..<length ts + 1] then
            Inl (task_conflict ''Task sequence must be unique and count from 1''
                   ''plan_task_sequence_invalid'')
          else bind (validate_dag ts) (\<lambda>pairs.
            case turn_get_by_id (p_turn_id p) db of
              None \<Rightarrow> Inl turn_not_found
            | Some tn \<Rightarrow>
                if tn_status tn \<notin> {CONTEXT_READY, PROCESSING} then
                  Inl (task_conflict ''Turn state does not allow publishing the Plan''
                         ''turn_state_conflict'')
                else
                  let ids = map t_id ts;
                      p' = plan_set_status p READY None None;
                      tn' = turn_set_status (turn_set_task_ids tn ids) PROCESSING in
                  bind (dependency_add_all (dependency_rows u 0 (p_id p) pairs) db) (\<lambda>db1.
                  bind (outbox_add (new_outbox_event now (u (length pairs)) PLAN_WAKEUP (p_id p)
                          (JObj [(''workflow_id'', JStr (p_workflow_id p)),
                                 (''plan_id'', JStr (p_id p))]))
                        (turn_save tn' (plan_save p'
                          (task_set_status (map clean_input ts) PENDING db1)))) (\<lambda>db2.
                    Inr (\<lparr>f_plan_id = p_id p, f_turn_id = p_turn_id p, f_plan_status = READY,
                          f_task_ids = ids\<rparr>, db2)))))))"

section \<open>Marking a plan\<close>

definition planner_failure_payload :: "plan \<Rightarrow> turn \<Rightarrow> string \<Rightarrow> json" where
  "planner_failure_payload p tn reason = JObj
     [(''workflow_id'', JStr (p_workflow_id p)),
      (''conversation_id'', JStr (tn_conversation_id tn)),
      (''root_turn_id'', JStr (p_turn_id p)),
      (''previous_plan_id'', JStr (p_id p)),
      (''next_revision'', JInt (p_revision p + 1)),
      (''trigger_type'', JStr ''planner_system_failure''),
      (''source_task_id'', JNull),
      (''error_code'', JStr ''planner_system_failure''),
      (''error_message'', JStr reason)]"

definition expire_clarification :: "time \<Rightarrow> ident \<Rightarrow> db \<Rightarrow> db" where
  "expire_clarification now plan_id db =
     (case clarification_get_by_plan_id plan_id db of
        None \<Rightarrow> db
      | Some c \<Rightarrow> clarification_save (c\<lparr>c_status := CL_EXPIRED, c_resolved_at := Some now\<rparr>) db)"

definition mark_plan ::
  "plan_status \<Rightarrow> time \<Rightarrow> uuids \<Rightarrow> ident \<Rightarrow> string \<Rightarrow> db \<Rightarrow> (plan \<times> db) result" where
  "mark_plan target now u plan_id reason db =
     (let why = py_strip reason in
      if why = [] then
        Inl (PlanningApplicationError 400 ''failure reason must not be empty''
               ''invalid_plan_failure_reason'')
      else case plan_get_by_id plan_id db of
        None \<Rightarrow> Inl plan_not_found
      | Some p \<Rightarrow>
          bind (if target = RETRY_PENDING \<and> p_status p = NEEDS_CLARIFICATION
                then Inr () else require_planning p) (\<lambda>_.
          let p' = plan_set_status p target (Some why)
                (Some (if target = RETRY_PENDING then ''planner_system_failure''
                       else ''unsupported''));
              db1 = plan_save p' db in
          if target \<noteq> RETRY_PENDING then Inr (p', db1)
          else case turn_get_by_id (p_turn_id p) db1 of
            None \<Rightarrow> Inl turn_not_found
          | Some tn \<Rightarrow>
              bind (outbox_add (new_outbox_event now (u 0) REPLAN_REQUESTED (p_id p)
                      (planner_failure_payload p' tn why))
                    (turn_save (turn_set_status tn PROCESSING)
                      (expire_clarification now (p_id p) db1))) (\<lambda>db2.
                Inr (p', db2))))"

definition mark_plan_unsupported ::
  "time \<Rightarrow> uuids \<Rightarrow> ident \<Rightarrow> string \<Rightarrow> db \<Rightarrow> (plan \<times> db) result" where
  "mark_plan_unsupported = mark_plan UNSUPPORTED"

definition mark_plan_retry_pending ::
  "time \<Rightarrow> uuids \<Rightarrow> ident \<Rightarrow> string \<Rightarrow> db \<Rightarrow> (plan \<times> db) result" where
  "mark_plan_retry_pending = mark_plan RETRY_PENDING"

record needs_clarification_input =
  nc_plan_id :: ident
  nc_conversation_id :: ident
  nc_kind :: string
  nc_reason :: string
  nc_required_information :: "string list"
  nc_known_resource_refs :: "string list"

definition mark_plan_needs_clarification ::
  "time \<Rightarrow> uuids \<Rightarrow> needs_clarification_input \<Rightarrow> db \<Rightarrow> (plan \<times> db) result" where
  "mark_plan_needs_clarification now u c db =
     (case plan_get_by_id (nc_plan_id c) db of
        None \<Rightarrow> Inl plan_not_found
      | Some p \<Rightarrow>
          bind (require_planning p) (\<lambda>_.
          case turn_get_by_id (p_turn_id p) db of
            None \<Rightarrow> Inl turn_not_found
          | Some tn \<Rightarrow>
              if tn_conversation_id tn \<noteq> nc_conversation_id c then
                Inl (PlanningApplicationError 409 ''Clarification conversation does not match''
                       ''clarification_conversation_conflict'')
              else if tn_status tn \<notin> {CONTEXT_READY, PROCESSING} then
                Inl (PlanningApplicationError 409
                       ''Turn state does not allow marking for clarification''
                       ''turn_state_conflict'')
              else if clarification_get_by_source_turn_id (p_turn_id p) db \<noteq> None then
                Inl (PlanningApplicationError 409 ''Turn already has a ClarificationRequest''
                       ''clarification_conflict'')
              else
                let p' = plan_set_status p NEEDS_CLARIFICATION (Some (nc_reason c))
                       (Some ''clarification_required'') in
                bind (clarification_add
                    \<lparr>c_id = new_id ''clarification'' (u 0),
                     c_conversation_id = nc_conversation_id c, c_source_turn_id = p_turn_id p,
                     c_source_plan_id = p_id p, c_kind = nc_kind c, c_reason = nc_reason c,
                     c_question = None, c_required_information = nc_required_information c,
                     c_known_resource_refs = nc_known_resource_refs c, c_status = CL_OPEN,
                     c_answer_turn_id = None, c_created_at = now, c_resolved_at = None\<rparr>
                    (turn_save (turn_set_status tn TURN_NEEDS_CLARIFICATION)
                      (plan_save p' db))) (\<lambda>db'.
                  Inr (p', db'))))"

definition set_clarification_question ::
  "ident \<Rightarrow> string \<Rightarrow> db \<Rightarrow> (string \<times> db) result" where
  "set_clarification_question plan_id question db =
     (case (plan_get_by_id plan_id db, clarification_get_by_plan_id plan_id db) of
        (Some p, Some c) \<Rightarrow>
          (case turn_get_by_id (p_turn_id p) db of
             None \<Rightarrow> Inl turn_not_found
           | Some tn \<Rightarrow>
               if p_status p \<noteq> NEEDS_CLARIFICATION then
                 Inl (PlanningApplicationError 409 ''Plan does not wait for clarification''
                        ''plan_state_conflict'')
               else if tn_status tn \<noteq> TURN_NEEDS_CLARIFICATION then
                 Inl (PlanningApplicationError 409 ''Turn does not wait for clarification''
                        ''turn_state_conflict'')
               else Inr (question,
                 turn_save (tn\<lparr>tn_assistant_content := Some question,
                     tn_assistant_compact := Some question,
                     tn_task_result_summary := Some ''waiting for additional information''\<rparr>)
                   (clarification_save (c\<lparr>c_question := Some question\<rparr>) db)))
      | _ \<Rightarrow> Inl (PlanningApplicationError 404 ''ClarificationRequest does not exist''
               ''clarification_not_found''))"

end
