(* ===== verification/Replan.thy ===== *)
theory Replan
  imports Planning
begin

text \<open>
  Replanning: the transaction that consumes a replan request and prepares the next plan revision
  (planning/application/replan.py), the answer to a clarification question that requests one
  (clarification/application/answer.py), and the shared inbox helper (messaging/application/inbox.py).
\<close>

section \<open>record_inbox_once\<close>

definition record_inbox_once ::
  "time \<Rightarrow> string \<Rightarrow> string \<Rightarrow> ident \<Rightarrow> db \<Rightarrow> (bool \<times> db) result" where
  "record_inbox_once now hex consumer eid db =
     (if inbox_exists consumer eid db then Inr (False, db)
      else bind (inbox_add \<lparr>i_id = new_id ''inbox'' hex, i_consumer_name = consumer,
                   i_event_id = eid, i_processed_at = now\<rparr> db)
             (\<lambda>db'. Inr (True, db')))"

section \<open>ReplanUseCase\<close>

definition MAX_PLAN_REVISIONS :: int where "MAX_PLAN_REVISIONS = 3"
definition PLANNER_RUN_LEASE_SECONDS :: int where "PLANNER_RUN_LEASE_SECONDS = 1800"

definition replan_consumer :: string where "replan_consumer = ''planning.replan''"

record replan_event =
  re_event_id :: ident
  re_workflow_id :: ident
  re_conversation_id :: ident
  re_root_turn_id :: ident
  re_previous_plan_id :: ident
  re_next_revision :: int
  re_trigger_type :: string
  re_source_task_id :: "ident option"
  re_error_code :: "string option"
  re_error_message :: "string option"

definition fail_at_revision_limit :: "time \<Rightarrow> plan \<Rightarrow> plan" where
  "fail_at_revision_limit now p =
     p\<lparr>p_status := PLAN_FAILED, p_failure_code := Some ''max_plan_revisions_exceeded'',
       p_failure_reason := Some ''Plan revisions reached the limit'', p_completed_at := Some now\<rparr>"

definition next_plan :: "time \<Rightarrow> string \<Rightarrow> replan_event \<Rightarrow> plan" where
  "next_plan now hex ev =
     \<lparr>p_id = new_id ''plan'' hex, p_workflow_id = re_workflow_id ev,
      p_turn_id = re_root_turn_id ev, p_parent_plan_id = Some (re_previous_plan_id ev),
      p_current_task_id = None, p_status = PLANNING, p_revision = re_next_revision ev,
      p_failure_code = None, p_failure_reason = None, p_started_at = None,
      p_completed_at = None, p_created_at = now, p_updated_at = now\<rparr>"

text \<open>
  The result is the plan and revision to run the planner on, or \<open>None\<close> when nothing is to be run.
  A return without \<open>commit\<close> gives back the database unchanged.
\<close>

definition resume_prepared ::
  "time \<Rightarrow> replan_event \<Rightarrow> db \<Rightarrow> ((ident \<times> int) option \<times> db) result" where
  "resume_prepared now ev db =
     (case plan_get_by_workflow_and_revision (re_workflow_id ev) (re_next_revision ev) db of
        None \<Rightarrow> Inr (None, db)
      | Some q \<Rightarrow>
          if p_status q \<noteq> PLANNING \<or> now < p_updated_at q + PLANNER_RUN_LEASE_SECONDS
          then Inr (None, db)
          else Inr (Some (p_id q, p_revision q), plan_save (q\<lparr>p_updated_at := now\<rparr>) db))"

definition prepare_revision ::
  "time \<Rightarrow> uuids \<Rightarrow> replan_event \<Rightarrow> db \<Rightarrow> ((ident \<times> int) option \<times> db) result" where
  "prepare_revision now u ev db =
     (if inbox_exists replan_consumer (re_event_id ev) db then resume_prepared now ev db
      else case (plan_get_by_id (re_previous_plan_id ev) db, turn_get_by_id (re_root_turn_id ev) db) of
        (Some prev, Some tn) \<Rightarrow>
          if p_workflow_id prev \<noteq> re_workflow_id ev \<or> tn_conversation_id tn \<noteq> re_conversation_id ev
          then Inl (ValueError ''Replan context does not match'')
          else if MAX_PLAN_REVISIONS < re_next_revision ev then
            bind (record_inbox_once now (u 0) replan_consumer (re_event_id ev)
                    (turn_save (turn_set_status tn TURN_FAILED)
                      (task_set_unfinished_status (p_id prev) FAILED
                        (plan_save (fail_at_revision_limit now prev) db))))
              (\<lambda>(_, db'). Inr (None, db'))
          else (case plan_get_by_workflow_and_revision (re_workflow_id ev) (re_next_revision ev) db of
            Some q \<Rightarrow>
              bind (record_inbox_once now (u 0) replan_consumer (re_event_id ev) db)
                (\<lambda>(_, db'). Inr (if p_status q = PLANNING then Some (p_id q, p_revision q) else None,
                               db'))
          | None \<Rightarrow>
              let prev' = prev\<lparr>p_status := PLAN_SUPERSEDED, p_completed_at := Some now\<rparr> in
              bind (plan_create (next_plan now (u 0) ev)
                      (task_set_unfinished_status (p_id prev) SUPERSEDED (plan_save prev' db)))
                (\<lambda>db1. bind (record_inbox_once now (u 1) replan_consumer (re_event_id ev) db1)
                   (\<lambda>(_, db2). Inr (Some (new_id ''plan'' (u 0), re_next_revision ev), db2))))
      | _ \<Rightarrow> Inl (ValueError ''Plan or Turn of the Replan does not exist''))"

section \<open>AnswerClarificationUseCase\<close>

definition clarification_error :: "int \<Rightarrow> string \<Rightarrow> error" where
  "clarification_error status message = ClarificationApplicationError status message"

definition answered_payload :: "plan \<Rightarrow> ident \<Rightarrow> ident \<Rightarrow> json" where
  "answered_payload p conversation_id source_turn_id = JObj
     [(''workflow_id'', JStr (p_workflow_id p)),
      (''conversation_id'', JStr conversation_id),
      (''root_turn_id'', JStr source_turn_id),
      (''previous_plan_id'', JStr (p_id p)),
      (''next_revision'', JInt (p_revision p + 1)),
      (''trigger_type'', JStr ''clarification_answered''),
      (''source_task_id'', JNull), (''error_code'', JNull), (''error_message'', JNull)]"

definition answer_clarification ::
  "time \<Rightarrow> uuids \<Rightarrow> ident \<Rightarrow> ident \<Rightarrow> string \<Rightarrow> db \<Rightarrow> (ident \<times> db) result" where
  "answer_clarification now u conversation_id source_turn_id answer db =
     (let text = py_strip answer in
      if text = [] then Inl (clarification_error 400 ''answer must not be empty'')
      else case clarification_get_by_source_turn_id source_turn_id db of
        None \<Rightarrow> Inl (clarification_error 404 ''Clarification does not exist'')
      | Some c \<Rightarrow>
          (case (turn_get_by_id source_turn_id db, plan_get_by_id (c_source_plan_id c) db) of
             (Some tn, Some p) \<Rightarrow>
               if tn_conversation_id tn \<noteq> conversation_id \<or> c_conversation_id c \<noteq> conversation_id
               then Inl (clarification_error 404 ''Clarification does not exist'')
               else if p_turn_id p \<noteq> source_turn_id \<or> c_status c \<noteq> CL_OPEN
                 \<or> tn_status tn \<noteq> TURN_NEEDS_CLARIFICATION \<or> p_status p \<noteq> NEEDS_CLARIFICATION
               then Inl (clarification_error 409 ''Clarification state does not allow an answer'')
               else if tn_clarification_input tn \<noteq> None
               then Inl (clarification_error 409 ''Clarification is already answered'')
               else
                 bind (outbox_add (new_outbox_event now (u 0) REPLAN_REQUESTED (p_id p)
                         (answered_payload p conversation_id source_turn_id))
                   (turn_save (tn\<lparr>tn_clarification_input := Some text, tn_status := PROCESSING\<rparr>)
                     (clarification_save
                       (c\<lparr>c_status := CL_ANSWERED, c_answer_turn_id := Some source_turn_id\<rparr>) db)))
                   (\<lambda>db'. Inr (p_id p, db'))
           | _ \<Rightarrow> Inl (clarification_error 409 ''Clarification state is incomplete'')))"

end
