(* ===== verification/Agent_Tools.thy ===== *)
theory Agent_Tools
  imports Replan
begin

text \<open>
  The boundary between an agent's tool calls and the use cases (agent_runtime/): permissions, the
  classification of errors into safe results, the audited execution of one call, and the tools of
  the planner's commit agent (planning/agent_tools/).  Which tools an agent calls and with which
  arguments is the model's choice, so it is an input here.
\<close>

section \<open>Errors as tool results\<close>

datatype tool_outcome = TOOL_SUCCEEDED | TOOL_REJECTED | TOOL_FAILED

record tool_error =
  te_outcome :: tool_outcome
  te_result_code :: string
  te_message :: string
  te_retryable :: bool
  te_resource_refs :: "string list"

fun error_class :: "error \<Rightarrow> string" where
  "error_class (ValueError m) = ''ValueError''"
| "error_class (RuntimeError m) = ''RuntimeError''"
| "error_class (IntegrityError m) = ''IntegrityError''"
| "error_class (ValidationError m) = ''ValidationError''"
| "error_class (TaskExecutionError c m r b) = ''TaskExecutionError''"
| "error_class (PlanningApplicationError n m c) = ''PlanningApplicationError''"
| "error_class (DocumentApplicationError n m) = ''DocumentApplicationError''"
| "error_class (ClarificationApplicationError n m) = ''ClarificationApplicationError''"
| "error_class (OperationsQueryError n m) = ''OperationsQueryError''"
| "error_class (ContextQueryError n m) = ''ContextQueryError''"
| "error_class (NotFoundError m) = ''NotFoundError''"
| "error_class (ConflictError m) = ''ConflictError''"
| "error_class (OtherException c m) = c"

text \<open>The attributes \<open>status_code\<close>, \<open>detail\<close> and \<open>result_code\<close> that an exception has.\<close>

fun error_status :: "error \<Rightarrow> (int \<times> string \<times> string option) option" where
  "error_status (PlanningApplicationError n m c) = Some (n, m, Some c)"
| "error_status (DocumentApplicationError n m) = Some (n, m, None)"
| "error_status (ClarificationApplicationError n m) = Some (n, m, None)"
| "error_status (OperationsQueryError n m) = Some (n, m, Some ''operations_query_rejected'')"
| "error_status (ContextQueryError n m) =
     Some (n, m, Some (if n = 404 then ''context_resource_not_found'' else ''context_query_rejected''))"
| "error_status _ = None"

text \<open>\<open>causes\<close> are the classes along the chain of causes of the error.\<close>

definition is_retryable :: "string list \<Rightarrow> int option \<Rightarrow> bool" where
  "is_retryable causes status \<longleftrightarrow>
     status \<in> {Some 502, Some 503, Some 504} \<or>
     list_ex (\<lambda>c. c \<in> {''TimeoutError'', ''ConnectionError'', ''ConnectionRefusedError'',
       ''ConnectionResetError'', ''ConnectionAbortedError'', ''BrokenPipeError''}) causes"

definition default_result_code :: "int \<Rightarrow> string" where
  "default_result_code status =
     (if status = 400 then ''invalid_request''
      else if status = 401 then ''authentication_required''
      else if status = 403 then ''permission_denied''
      else if status = 404 then ''document_not_found''
      else if status = 409 then ''document_state_conflict''
      else ''business_rejected'')"

definition classify_tool_error :: "string list \<Rightarrow> error \<Rightarrow> string list \<Rightarrow> tool_error" where
  "classify_tool_error causes e refs =
     (if error_class e = ''AgentToolPermissionError''
      then \<lparr>te_outcome = TOOL_REJECTED, te_result_code = ''permission_denied'',
            te_message = ''the Agent may not call this tool'', te_retryable = False,
            te_resource_refs = refs\<rparr>
      else if error_class e = ''AgentToolScopeError''
      then \<lparr>te_outcome = TOOL_REJECTED, te_result_code = ''task_scope_violation'',
            te_message = ''the request leaves the resources of this Agent Run'',
            te_retryable = False, te_resource_refs = refs\<rparr>
      else case error_status e of
        Some (status, detail, code) \<Rightarrow>
          if 400 \<le> status \<and> status < 500
          then \<lparr>te_outcome = TOOL_REJECTED,
                te_result_code = (case code of Some c \<Rightarrow> c | None \<Rightarrow> default_result_code status),
                te_message = detail, te_retryable = False, te_resource_refs = refs\<rparr>
          else \<lparr>te_outcome = TOOL_FAILED, te_result_code = ''tool_execution_failed'',
                te_message = ''tool execution failed'',
                te_retryable = is_retryable (error_class e # causes) (Some status),
                te_resource_refs = refs\<rparr>
      | None \<Rightarrow> \<lparr>te_outcome = TOOL_FAILED, te_result_code = ''tool_execution_failed'',
            te_message = ''tool execution failed'',
            te_retryable = is_retryable (error_class e # causes) None,
            te_resource_refs = refs\<rparr>)"

section \<open>Permissions and the audited call\<close>

definition require_permissions :: "string list \<Rightarrow> string list \<Rightarrow> unit result" where
  "require_permissions granted required =
     require (set required - set granted = {})
       (OtherException ''AgentToolPermissionError'' ''Agent Tool permission denied'')"

datatype audit_event =
    InvocationStarted
  | InvocationSucceeded string
  | InvocationRejected string bool
  | InvocationFailed string bool

text \<open>
  One audited call of \<open>op\<close> on the state \<open>s\<close>: the answer, the audit events it wrote and the state
  after it.  A use case is a transaction, so a call that raises leaves the state as it was.
\<close>

definition execute_audited_tool_call ::
  "string list \<Rightarrow> string list \<Rightarrow> string list \<Rightarrow> string \<Rightarrow> ('s \<Rightarrow> ('a \<times> 's) result) \<Rightarrow> 's
   \<Rightarrow> (tool_error + 'a) \<times> audit_event list \<times> 's" where
  "execute_audited_tool_call granted required refs success_code op s =
     (case bind (require_permissions granted required) (\<lambda>_. op s) of
        Inl e \<Rightarrow>
          let d = classify_tool_error [] e refs in
          (Inl d,
           [InvocationStarted,
            if te_outcome d = TOOL_REJECTED
            then InvocationRejected (te_result_code d) (te_retryable d)
            else InvocationFailed (te_result_code d) (te_retryable d)], s)
      | Inr (v, s') \<Rightarrow> (Inr v, [InvocationStarted, InvocationSucceeded success_code], s'))"

section \<open>Read-only tools\<close>

record 'a tool_reply =
  tr_outcome :: tool_outcome
  tr_result_code :: string
  tr_retryable :: bool
  tr_resource_refs :: "string list"
  tr_value :: "'a option"

text \<open>
  The body the read-only handlers share: an audited call that leaves the state alone, answered with
  its value or with the safe form of its error.
\<close>

definition read_tool ::
  "string list \<Rightarrow> string \<Rightarrow> string list \<Rightarrow> string \<Rightarrow> ('s \<Rightarrow> 'a result) \<Rightarrow> 's \<Rightarrow> 'a tool_reply \<times> audit_event list" where
  "read_tool granted permission refs code op s =
     (case execute_audited_tool_call granted [permission] refs code (\<lambda>s. bind (op s) (\<lambda>v. Inr (v, s))) s of
        (Inl d, ev, _) \<Rightarrow>
          (\<lparr>tr_outcome = te_outcome d, tr_result_code = te_result_code d, tr_retryable = te_retryable d,
            tr_resource_refs = te_resource_refs d, tr_value = None\<rparr>, ev)
      | (Inr v, ev, _) \<Rightarrow>
          (\<lparr>tr_outcome = TOOL_SUCCEEDED, tr_result_code = code, tr_retryable = False,
            tr_resource_refs = refs, tr_value = Some v\<rparr>, ev))"

definition invalid_reply :: "'a tool_reply" where
  "invalid_reply =
     \<lparr>tr_outcome = TOOL_REJECTED, tr_result_code = ''invalid_tool_arguments'', tr_retryable = False,
      tr_resource_refs = [], tr_value = None\<rparr>"

text \<open>Arguments that do not validate never reach the handler.\<close>

definition validated ::
  "bool \<Rightarrow> 'a tool_reply \<times> audit_event list \<Rightarrow> 'a tool_reply \<times> audit_event list" where
  "validated ok r = (if ok then r else (invalid_reply, []))"

section \<open>The planning tools\<close>

record agent_context =
  ac_permissions :: "string list"
  ac_conversation_id :: "ident option"
  ac_turn_id :: "ident option"
  ac_plan_id :: "ident option"
  ac_planning_services :: bool

definition PLANNING_WRITE_PERMISSION :: string where
  "PLANNING_WRITE_PERMISSION = ''planning:write''"

definition PLANNER_PERMISSIONS :: "string list" where
  "PLANNER_PERMISSIONS =
     [''document:read'', ''context:read'', ''operations:read'', ''planning:write'']"

definition planning_scope :: "agent_context \<Rightarrow> (ident \<times> ident) result" where
  "planning_scope ctx =
     (if \<not> ac_planning_services ctx
      then Inl (PlanningApplicationError 503 ''Planning Use Cases are not configured''
             ''planning_not_configured'')
      else case (ac_plan_id ctx, ac_turn_id ctx) of
        (Some p, Some t) \<Rightarrow> Inr (p, t)
      | _ \<Rightarrow> Inl (PlanningApplicationError 409 ''Planner Run has no Plan or Turn''
               ''planning_context_missing''))"

record task_arguments =
  ta_task_ref :: string
  ta_document_id :: int
  ta_sequence :: int
  ta_depends_on :: "string list"

text \<open>The field constraints of the tool input schemas and of the use cases' inputs.\<close>

definition valid_task_arguments :: "task_arguments \<Rightarrow> bool" where
  "valid_task_arguments a \<longleftrightarrow>
     1 \<le> length (ta_task_ref a) \<and> length (ta_task_ref a) \<le> 100 \<and> 0 < ta_document_id a \<and>
     1 \<le> ta_sequence a \<and> length (ta_depends_on a) \<le> 10"

definition valid_reason :: "string \<Rightarrow> bool" where
  "valid_reason r \<longleftrightarrow> 1 \<le> length r \<and> length r \<le> 4000"

datatype planning_call =
    CreateTask capability_code task_arguments
  | FinalizePlan
  | MarkUnsupported string

record planning_tool_output =
  po_outcome :: tool_outcome
  po_result_code :: string
  po_retryable :: bool
  po_resource_refs :: "string list"
  po_plan_id :: "ident option"
  po_task_id :: "ident option"
  po_status :: "string option"
  po_task_ids :: "ident list"

definition rejected_output :: "tool_error \<Rightarrow> planning_tool_output" where
  "rejected_output d =
     \<lparr>po_outcome = te_outcome d, po_result_code = te_result_code d, po_retryable = te_retryable d,
      po_resource_refs = te_resource_refs d, po_plan_id = None, po_task_id = None,
      po_status = None, po_task_ids = []\<rparr>"

text \<open>\<open>safe_tool_error_function\<close>: what the model gets for arguments that do not validate.\<close>

definition invalid_arguments :: planning_tool_output where
  "invalid_arguments =
     \<lparr>po_outcome = TOOL_REJECTED, po_result_code = ''invalid_tool_arguments'', po_retryable = False,
      po_resource_refs = [], po_plan_id = None, po_task_id = None, po_status = None,
      po_task_ids = []\<rparr>"

definition context_refs :: "agent_context \<Rightarrow> string list" where
  "context_refs ctx =
     (case ac_plan_id ctx of None \<Rightarrow> [] | Some p \<Rightarrow> if p = [] then [] else [''plan:'' @ p]) @
     (case ac_turn_id ctx of None \<Rightarrow> [] | Some t \<Rightarrow> if t = [] then [] else [''turn:'' @ t])"

definition created_code :: "capability_code \<Rightarrow> string" where
  "created_code cap =
     (case cap of
        PROCESS_DOCUMENT \<Rightarrow> ''process_document_task_created''
      | BUILD_DOCUMENT_CHUNKS \<Rightarrow> ''build_chunks_task_created''
      | INDEX_DOCUMENT_VECTORS \<Rightarrow> ''index_vectors_task_created'')"

definition create_task_input_of :: "ident \<Rightarrow> ident \<Rightarrow> task_arguments \<Rightarrow> create_task_input" where
  "create_task_input_of pid tid a =
     \<lparr>ct_plan_id = pid, ct_turn_id = tid, ct_document_id = ta_document_id a,
      ct_sequence = ta_sequence a, ct_task_ref = ta_task_ref a,
      ct_depends_on = ta_depends_on a\<rparr>"

text \<open>The three handlers that create a task differ in the use case and the result code.\<close>

definition create_task_handler ::
  "uuids \<Rightarrow> agent_context \<Rightarrow> capability_code \<Rightarrow> task_arguments \<Rightarrow> db
   \<Rightarrow> planning_tool_output \<times> audit_event list \<times> db" where
  "create_task_handler u ctx cap a db =
     (if \<not> valid_task_arguments a then (invalid_arguments, [], db)
      else case execute_audited_tool_call (ac_permissions ctx) [PLANNING_WRITE_PERMISSION]
          (context_refs ctx) (created_code cap)
          (\<lambda>db. bind (planning_scope ctx) (\<lambda>(pid, tid).
             create_document_task cap u (create_task_input_of pid tid a) db)) db of
        (Inl d, ev, db') \<Rightarrow> (rejected_output d, ev, db')
      | (Inr t, ev, db') \<Rightarrow>
          (\<lparr>po_outcome = TOOL_SUCCEEDED, po_result_code = created_code cap, po_retryable = False,
            po_resource_refs = [''plan:'' @ t_plan_id t, ''task:'' @ t_id t],
            po_plan_id = Some (t_plan_id t), po_task_id = Some (t_id t),
            po_status = Some ''draft'', po_task_ids = []\<rparr>, ev, db'))"

definition finalize_plan_handler ::
  "time \<Rightarrow> uuids \<Rightarrow> agent_context \<Rightarrow> db \<Rightarrow> planning_tool_output \<times> audit_event list \<times> db" where
  "finalize_plan_handler now u ctx db =
     (case execute_audited_tool_call (ac_permissions ctx) [PLANNING_WRITE_PERMISSION]
          (context_refs ctx) ''plan_finalized''
          (\<lambda>db. bind (planning_scope ctx) (\<lambda>(pid, tid). finalize_plan now u pid tid db)) db of
        (Inl d, ev, db') \<Rightarrow> (rejected_output d, ev, db')
      | (Inr r, ev, db') \<Rightarrow>
          (\<lparr>po_outcome = TOOL_SUCCEEDED, po_result_code = ''plan_finalized'', po_retryable = False,
            po_resource_refs = (''plan:'' @ f_plan_id r) # map (\<lambda>t. ''task:'' @ t) (f_task_ids r),
            po_plan_id = Some (f_plan_id r), po_task_id = None,
            po_status = Some (plan_status_value (f_plan_status r)),
            po_task_ids = f_task_ids r\<rparr>, ev, db'))"

definition mark_plan_unsupported_handler ::
  "time \<Rightarrow> uuids \<Rightarrow> agent_context \<Rightarrow> string \<Rightarrow> db
   \<Rightarrow> planning_tool_output \<times> audit_event list \<times> db" where
  "mark_plan_unsupported_handler now u ctx reason db =
     (if \<not> valid_reason reason then (invalid_arguments, [], db)
      else case execute_audited_tool_call (ac_permissions ctx) [PLANNING_WRITE_PERMISSION]
          (context_refs ctx) ''plan_marked_unsupported''
          (\<lambda>db. bind (planning_scope ctx) (\<lambda>(pid, _). mark_plan_unsupported now u pid reason db)) db of
        (Inl d, ev, db') \<Rightarrow> (rejected_output d, ev, db')
      | (Inr p, ev, db') \<Rightarrow>
          (\<lparr>po_outcome = TOOL_SUCCEEDED, po_result_code = ''plan_marked_unsupported'',
            po_retryable = False, po_resource_refs = [''plan:'' @ p_id p],
            po_plan_id = Some (p_id p), po_task_id = None,
            po_status = Some (plan_status_value (p_status p)), po_task_ids = []\<rparr>, ev, db'))"

definition run_planning_call ::
  "time \<Rightarrow> uuids \<Rightarrow> agent_context \<Rightarrow> planning_call \<Rightarrow> db
   \<Rightarrow> planning_tool_output \<times> audit_event list \<times> db" where
  "run_planning_call now u ctx call db =
     (case call of
        CreateTask cap a \<Rightarrow> create_task_handler u ctx cap a db
      | FinalizePlan \<Rightarrow> finalize_plan_handler now u ctx db
      | MarkUnsupported reason \<Rightarrow> mark_plan_unsupported_handler now u ctx reason db)"

end
