(* ===== verification/Listing.thy ===== *)
theory Listing
  imports Agent_Tools
begin

text \<open>
  What the paged searches of the repositories share: optional filters, the window that limit and
  offset cut out of the ordered matches, and the lemmas on a page.
\<close>

section \<open>Filters and windows\<close>

definition equals_if :: "'v option \<Rightarrow> 'v \<Rightarrow> bool" where
  "equals_if expected v \<longleftrightarrow> (case expected of None \<Rightarrow> True | Some e \<Rightarrow> v = e)"

text \<open>\<open>column.in_(values)\<close>, which the code only adds for a non-empty list.\<close>

definition in_if :: "'v list \<Rightarrow> 'v \<Rightarrow> bool" where
  "in_if values v \<longleftrightarrow> values = [] \<or> v \<in> set values"

definition between :: "time option \<Rightarrow> time option \<Rightarrow> time \<Rightarrow> bool" where
  "between lo hi t \<longleftrightarrow>
     (case lo of None \<Rightarrow> True | Some a \<Rightarrow> a \<le> t) \<and> (case hi of None \<Rightarrow> True | Some b \<Rightarrow> t \<le> b)"

text \<open>A comparison with a column that is NULL does not hold.\<close>

definition between_if :: "time option \<Rightarrow> time option \<Rightarrow> time option \<Rightarrow> bool" where
  "between_if lo hi t \<longleftrightarrow>
     (case t of None \<Rightarrow> lo = None \<and> hi = None | Some v \<Rightarrow> between lo hi v)"

definition window :: "int \<Rightarrow> int \<Rightarrow> 'a list \<Rightarrow> 'a list" where
  "window offset limit xs = take (nat limit) (drop (nat offset) xs)"

record 'a listing =
  ls_items :: "'a list"
  ls_total :: int
  ls_limit :: int
  ls_offset :: int

definition listing_of :: "int \<Rightarrow> int \<Rightarrow> 'a list \<Rightarrow> 'a listing" where
  "listing_of offset limit xs =
     \<lparr>ls_items = window offset limit xs, ls_total = int (length xs), ls_limit = limit,
      ls_offset = offset\<rparr>"

definition range_ok :: "time option \<Rightarrow> time option \<Rightarrow> bool" where
  "range_ok lo hi \<longleftrightarrow> (case (lo, hi) of (Some a, Some b) \<Rightarrow> a \<le> b | _ \<Rightarrow> True)"

definition window_ok :: "int \<Rightarrow> int \<Rightarrow> bool" where
  "window_ok limit offset \<longleftrightarrow> 1 \<le> limit \<and> limit \<le> 100 \<and> 0 \<le> offset"

text \<open>\<open>[prefix + id] if id else [fallback]\<close>.\<close>

definition ref_or :: "string \<Rightarrow> string \<Rightarrow> ident option \<Rightarrow> string list" where
  "ref_or prefix fallback i =
     (case i of Some (c # cs) \<Rightarrow> [prefix @ c # cs] | _ \<Rightarrow> [fallback])"

section \<open>Pages\<close>

definition page_in :: "('a \<Rightarrow> bool) \<Rightarrow> 'a listing \<Rightarrow> bool" where
  "page_in P l \<longleftrightarrow> (\<forall>x\<in>set (ls_items l). P x) \<and> length (ls_items l) \<le> 100"

lemma window_subset: "set (window offset limit xs) \<subseteq> set xs"
  by (auto simp: window_def dest: in_set_takeD in_set_dropD)

lemma page_in_listing:
  assumes "\<forall>x\<in>set xs. P x" "window_ok limit offset"
  shows "page_in P (listing_of offset limit xs)"
proof -
  have "nat limit \<le> 100" using assms(2) by (simp add: window_ok_def nat_le_iff)
  then have "length (window offset limit xs) \<le> 100" by (simp add: window_def)
  then show ?thesis using assms(1) window_subset [of offset limit xs]
    by (auto simp: page_in_def listing_of_def)
qed

text \<open>Windows one after the other list everything once and in order.\<close>

lemma windows_cover:
  assumes "length xs \<le> n * limit"
  shows "concat (map (\<lambda>i. window (int (i * limit)) (int limit) xs) [0..<n]) = xs"
proof -
  have "concat (map (\<lambda>i. window (int (i * limit)) (int limit) xs) [0..<k]) = take (k * limit) xs" for k
    by (induction k) (simp_all add: window_def take_add [symmetric] add.commute flip: of_nat_mult)
  from this [of n] assms show ?thesis by simp
qed

end
