(* ===== verification/Document_Query.thy ===== *)
theory Document_Query
  imports Document_Store Aggregation Listing
begin

text \<open>
  The read-only side of the documents: the searches and counts of the repositories
  (document/infrastructure/persistence), the query use cases and the function tools over them
  (document/agent_tools/query_tools.py).  The result models copy columns, so answers hold the rows.
  The time stamps of a document row that only these queries read and the table of knowledge bases
  are the record \<open>catalogue\<close>; \<open>ct_path_text\<close> is the text the database casts a JSON list to.
\<close>

section \<open>Columns\<close>

fun lifecycle_status_value :: "lifecycle_status \<Rightarrow> string" where
  "lifecycle_status_value LC_SCHEDULED = ''scheduled''"
| "lifecycle_status_value LC_ACTIVE = ''active''"
| "lifecycle_status_value LC_EXPIRED = ''expired''"
| "lifecycle_status_value LC_REPLACED = ''replaced''"
| "lifecycle_status_value LC_DELETED = ''deleted''"

fun storage_status_value :: "storage_status \<Rightarrow> string" where
  "storage_status_value ST_ACTIVE = ''active''"
| "storage_status_value ST_ARCHIVING = ''archiving''"
| "storage_status_value ST_ARCHIVED = ''archived''"
| "storage_status_value ST_ARCHIVE_FAILED = ''archive_failed''"

fun vector_status_value :: "vector_status \<Rightarrow> string" where
  "vector_status_value VS_PENDING = ''pending''"
| "vector_status_value VS_INDEXING = ''indexing''"
| "vector_status_value VS_INDEXED = ''indexed''"
| "vector_status_value VS_FAILED = ''failed''"

fun artifact_status_value :: "artifact_status \<Rightarrow> string" where
  "artifact_status_value ART_CREATED = ''created''"
| "artifact_status_value ART_ACTIVE = ''active''"
| "artifact_status_value ART_SUPERSEDED = ''superseded''"
| "artifact_status_value ART_FAILED = ''failed''"

definition active_value :: "bool \<Rightarrow> string" where
  "active_value b = (if b then ''active'' else ''inactive'')"

record knowledge_base =
  kb_id :: int
  kb_code :: string
  kb_name :: string
  kb_domain_code :: string
  kb_business_scene :: "string option"
  kb_status :: string
  kb_visibility :: string

record catalogue =
  ct_created_at :: "int \<Rightarrow> time"
  ct_updated_at :: "int \<Rightarrow> time"
  ct_knowledge_bases :: "knowledge_base list"
  ct_path_text :: "utext list \<Rightarrow> utext"

section \<open>Search queries (dto.py)\<close>

record document_list_query =
  dl_kb_id :: int
  dl_status :: "string option"
  dl_source_type :: "string option"
  dl_lifecycle_status :: "string option"
  dl_limit :: int
  dl_offset :: int

datatype sort_column = BY_ID | BY_CREATED_AT | BY_UPDATED_AT | BY_INDEXED_AT | BY_TITLE

record document_search_query =
  ds_kb_ids :: "int list"
  ds_document_ids :: "int list"
  ds_doc_codes :: "string list"
  ds_domain_codes :: "string list"
  ds_business_scenes :: "string list"
  ds_statuses :: "string list"
  ds_lifecycle_statuses :: "string list"
  ds_storage_statuses :: "string list"
  ds_source_types :: "string list"
  ds_risk_levels :: "string list"
  ds_keyword :: "string option"
  ds_original_filename :: "string option"
  ds_created_by :: "string option"
  ds_created_from :: "time option"
  ds_created_to :: "time option"
  ds_updated_from :: "time option"
  ds_updated_to :: "time option"
  ds_indexed_from :: "time option"
  ds_indexed_to :: "time option"
  ds_effective_at_before :: "time option"
  ds_expired_at_before :: "time option"
  ds_has_cleaned_output :: "bool option"
  ds_has_active_content_hash :: "bool option"
  ds_replaced_by :: "int option"
  ds_sort_by :: sort_column
  ds_ascending :: bool
  ds_limit :: int
  ds_offset :: int

record artifact_query =
  aq_document_ids :: "int list"
  aq_types :: "string list"
  aq_roles :: "string list"
  aq_formats :: "string list"
  aq_statuses :: "string list"
  aq_providers :: "string list"
  aq_processors :: "string list"
  aq_from :: "time option"
  aq_to :: "time option"
  aq_active_only :: "bool option"
  aq_limit :: int
  aq_offset :: int

record block_query =
  bq_document_ids :: "int list"
  bq_parent_ids :: "int list"
  bq_kb_ids :: "int list"
  bq_block_types :: "string list"
  bq_statuses :: "string list"
  bq_section_path_contains :: "utext option"
  bq_keyword :: "utext option"
  bq_limit :: int
  bq_offset :: int

record chunk_query =
  hq_document_id :: "int option"
  hq_parent_id :: "int option"
  hq_kb_id :: "int option"
  hq_vector_statuses :: "string list"
  hq_statuses :: "string list"
  hq_section_path_contains :: "utext option"
  hq_source_row_from :: "int option"
  hq_source_row_to :: "int option"
  hq_has_vector_id :: "bool option"
  hq_keyword :: "utext option"
  hq_limit :: int
  hq_offset :: int

definition positive :: "int list \<Rightarrow> bool" where
  "positive xs \<longleftrightarrow> list_all (\<lambda>n. 0 < n) xs"

definition positive_if :: "int option \<Rightarrow> bool" where
  "positive_if x \<longleftrightarrow> (case x of None \<Rightarrow> True | Some n \<Rightarrow> 0 < n)"

definition valid_document_list_query :: "document_list_query \<Rightarrow> bool" where
  "valid_document_list_query q \<longleftrightarrow> 0 < dl_kb_id q \<and> window_ok (dl_limit q) (dl_offset q)"

definition valid_document_search_query :: "document_search_query \<Rightarrow> bool" where
  "valid_document_search_query q \<longleftrightarrow>
     positive (ds_kb_ids q @ ds_document_ids q) \<and> positive_if (ds_replaced_by q) \<and>
     window_ok (ds_limit q) (ds_offset q) \<and> range_ok (ds_created_from q) (ds_created_to q) \<and>
     range_ok (ds_updated_from q) (ds_updated_to q) \<and> range_ok (ds_indexed_from q) (ds_indexed_to q)"

definition valid_artifact_query :: "artifact_query \<Rightarrow> bool" where
  "valid_artifact_query q \<longleftrightarrow>
     positive (aq_document_ids q) \<and> window_ok (aq_limit q) (aq_offset q) \<and> range_ok (aq_from q) (aq_to q)"

definition valid_block_query :: "block_query \<Rightarrow> bool" where
  "valid_block_query q \<longleftrightarrow>
     positive (bq_document_ids q @ bq_parent_ids q @ bq_kb_ids q) \<and> window_ok (bq_limit q) (bq_offset q)"

definition valid_chunk_query :: "chunk_query \<Rightarrow> bool" where
  "valid_chunk_query q \<longleftrightarrow>
     list_all positive_if [hq_document_id q, hq_parent_id q, hq_kb_id q] \<and>
     list_all (\<lambda>x. case x of None \<Rightarrow> True | Some n \<Rightarrow> 0 \<le> n) [hq_source_row_from q, hq_source_row_to q] \<and>
     range_ok (hq_source_row_from q) (hq_source_row_to q) \<and> window_ok (hq_limit q) (hq_offset q)"

section \<open>Filters\<close>

text \<open>\<open>column.contains(text)\<close>; a blank text adds no filter, a NULL column never contains one.\<close>

fun contains :: "'c list \<Rightarrow> 'c list \<Rightarrow> bool" where
  "contains s [] \<longleftrightarrow> s = []"
| "contains s (c # t) \<longleftrightarrow> take (length s) (c # t) = s \<or> contains s t"

definition contains_if :: "'c list \<Rightarrow> 'c list option list \<Rightarrow> bool" where
  "contains_if s columns \<longleftrightarrow>
     s = [] \<or> list_ex (\<lambda>c. case c of None \<Rightarrow> False | Some t \<Rightarrow> contains s t) columns"

definition stripped :: "string option \<Rightarrow> string" where
  "stripped s = (case s of None \<Rightarrow> [] | Some t \<Rightarrow> py_strip t)"

definition u_stripped :: "utext option \<Rightarrow> utext" where
  "u_stripped s = (case s of None \<Rightarrow> [] | Some t \<Rightarrow> u_strip t)"

definition is_null_if :: "bool option \<Rightarrow> 'v option \<Rightarrow> bool" where
  "is_null_if present v \<longleftrightarrow> (case present of None \<Rightarrow> True | Some b \<Rightarrow> (v \<noteq> None) = b)"

definition before_if :: "time option \<Rightarrow> time option \<Rightarrow> bool" where
  "before_if bound t \<longleftrightarrow>
     (case bound of None \<Rightarrow> True | Some b \<Rightarrow> (case t of None \<Rightarrow> False | Some v \<Rightarrow> v \<le> b))"

definition in_if_nullable :: "'v list \<Rightarrow> 'v option \<Rightarrow> bool" where
  "in_if_nullable values v \<longleftrightarrow> values = [] \<or> (case v of None \<Rightarrow> False | Some x \<Rightarrow> x \<in> set values)"

section \<open>DocumentRepository\<close>

definition document_list_matches :: "document_list_query \<Rightarrow> document \<Rightarrow> bool" where
  "document_list_matches q d \<longleftrightarrow>
     doc_kb_id d = dl_kb_id q \<and> equals_if (dl_status q) (document_status_value (doc_status d)) \<and>
     equals_if (dl_source_type q) (doc_source_type d) \<and>
     equals_if (dl_lifecycle_status q) (lifecycle_status_value (doc_lifecycle_status d))"

definition listed_documents :: "document_list_query \<Rightarrow> document_db \<Rightarrow> document list" where
  "listed_documents q db = sort_key (\<lambda>d. - doc_id d) (filter (document_list_matches q) (documents db))"

definition document_search_matches :: "catalogue \<Rightarrow> document_search_query \<Rightarrow> document \<Rightarrow> bool" where
  "document_search_matches ct q d \<longleftrightarrow>
     in_if (ds_kb_ids q) (doc_kb_id d) \<and> in_if (ds_document_ids q) (doc_id d) \<and>
     in_if (ds_doc_codes q) (doc_code d) \<and> in_if (ds_domain_codes q) (doc_domain_code d) \<and>
     in_if_nullable (ds_business_scenes q) (doc_business_scene d) \<and>
     in_if (ds_statuses q) (document_status_value (doc_status d)) \<and>
     in_if (ds_lifecycle_statuses q) (lifecycle_status_value (doc_lifecycle_status d)) \<and>
     in_if (ds_storage_statuses q) (storage_status_value (doc_storage_status d)) \<and>
     in_if (ds_source_types q) (doc_source_type d) \<and> in_if_nullable (ds_risk_levels q) (doc_risk_level d) \<and>
     contains_if (stripped (ds_keyword q)) [Some (doc_title d), Some (doc_code d), doc_original_filename d] \<and>
     contains_if (stripped (ds_original_filename q)) [doc_original_filename d] \<and>
     (case ds_created_by q of None \<Rightarrow> True | Some a \<Rightarrow> doc_created_by d = Some a) \<and>
     between (ds_created_from q) (ds_created_to q) (ct_created_at ct (doc_id d)) \<and>
     between (ds_updated_from q) (ds_updated_to q) (ct_updated_at ct (doc_id d)) \<and>
     between_if (ds_indexed_from q) (ds_indexed_to q) (doc_indexed_at d) \<and>
     before_if (ds_effective_at_before q) (doc_effective_at d) \<and>
     before_if (ds_expired_at_before q) (doc_expired_at d) \<and>
     is_null_if (ds_has_cleaned_output q) (doc_cleaned_uri d) \<and>
     is_null_if (ds_has_active_content_hash q) (doc_active_content_hash d) \<and>
     (case ds_replaced_by q of None \<Rightarrow> True | Some r \<Rightarrow> doc_replaced_by d = Some r)"

text \<open>
  The sort key of a column: a number or a text, then the id; NULL sorts first in ascending order.
\<close>

definition sort_value :: "catalogue \<Rightarrow> sort_column \<Rightarrow> document \<Rightarrow> (bool \<times> int) \<times> string \<times> int" where
  "sort_value ct col d =
     (case col of
        BY_ID \<Rightarrow> ((True, doc_id d), [], doc_id d)
      | BY_CREATED_AT \<Rightarrow> ((True, ct_created_at ct (doc_id d)), [], doc_id d)
      | BY_UPDATED_AT \<Rightarrow> ((True, ct_updated_at ct (doc_id d)), [], doc_id d)
      | BY_INDEXED_AT \<Rightarrow>
          (case doc_indexed_at d of None \<Rightarrow> ((False, 0), [], doc_id d)
           | Some t \<Rightarrow> ((True, t), [], doc_id d))
      | BY_TITLE \<Rightarrow> ((True, 0), doc_title d, doc_id d))"

definition searched_documents :: "catalogue \<Rightarrow> document_search_query \<Rightarrow> document_db \<Rightarrow> document list" where
  "searched_documents ct q db =
     (let xs = sort_key (sort_value ct (ds_sort_by q)) (filter (document_search_matches ct q) (documents db))
      in if ds_ascending q then xs else rev xs)"

definition document_count_for_kb :: "int \<Rightarrow> document_status option \<Rightarrow> lifecycle_status option \<Rightarrow> document_db \<Rightarrow> nat" where
  "document_count_for_kb kb status lifecycle db =
     length (filter (\<lambda>d. doc_kb_id d = kb \<and> equals_if status (doc_status d) \<and>
       equals_if lifecycle (doc_lifecycle_status d)) (documents db))"

section \<open>DocumentArtifactRepository\<close>

definition artifact_list_by_document_id :: "int \<Rightarrow> document_db \<Rightarrow> artifact list" where
  "artifact_list_by_document_id did db =
     sort_key (\<lambda>a. (art_created_at a, art_id a)) (filter (\<lambda>a. art_document_id a = did) (artifacts db))"

definition artifact_search_matches :: "artifact_query \<Rightarrow> artifact \<Rightarrow> bool" where
  "artifact_search_matches q a \<longleftrightarrow>
     in_if (aq_document_ids q) (art_document_id a) \<and> in_if (aq_types q) (art_type a) \<and>
     in_if (aq_roles q) (art_role a) \<and> in_if (aq_formats q) (art_format a) \<and>
     in_if (aq_statuses q) (artifact_status_value (art_status a)) \<and>
     in_if_nullable (aq_providers q) (art_provider a) \<and>
     in_if_nullable (aq_processors q) (art_processor a) \<and>
     between (aq_from q) (aq_to q) (art_created_at a) \<and>
     (case aq_active_only q of None \<Rightarrow> True | Some b \<Rightarrow> (art_status a = ART_ACTIVE) = b)"

definition searched_artifacts :: "artifact_query \<Rightarrow> document_db \<Rightarrow> artifact list" where
  "searched_artifacts q db =
     sort_key (\<lambda>a. (- art_created_at a, - art_id a)) (filter (artifact_search_matches q) (artifacts db))"

section \<open>ParentBlockRepository\<close>

definition path_text :: "catalogue \<Rightarrow> utext list option \<Rightarrow> utext option" where
  "path_text ct path = map_option (ct_path_text ct) path"

definition block_search_matches :: "catalogue \<Rightarrow> block_query \<Rightarrow> parent_block \<Rightarrow> bool" where
  "block_search_matches ct q b \<longleftrightarrow>
     in_if (bq_document_ids q) (pb_doc_id b) \<and> in_if (bq_parent_ids q) (pb_id b) \<and>
     in_if (bq_kb_ids q) (pb_kb_id b) \<and> in_if (bq_block_types q) (pd_block_type (pb_data b)) \<and>
     in_if (bq_statuses q) (active_value (pb_active b)) \<and>
     contains_if (u_stripped (bq_section_path_contains q)) [path_text ct (pd_section_path (pb_data b))] \<and>
     contains_if (u_stripped (bq_keyword q)) [pd_title (pb_data b), Some (pd_content (pb_data b))]"

definition searched_blocks :: "catalogue \<Rightarrow> block_query \<Rightarrow> document_db \<Rightarrow> parent_block list" where
  "searched_blocks ct q db =
     sort_key (\<lambda>b. (pb_doc_id b, pd_block_index (pb_data b), pb_id b))
       (filter (block_search_matches ct q) (parent_blocks db))"

text \<open>\<open>GROUP BY\<close>: one entry for each value that occurs.\<close>

definition counts :: "('r \<Rightarrow> 'v) \<Rightarrow> 'r list \<Rightarrow> ('v \<times> nat) list" where
  "counts f rows = map (\<lambda>v. (v, length (filter (\<lambda>r. f r = v) rows))) (dedup (map f rows))"

definition block_counts_by_status :: "int \<Rightarrow> document_db \<Rightarrow> (string \<times> nat) list" where
  "block_counts_by_status did db =
     counts (\<lambda>b. active_value (pb_active b)) (filter (\<lambda>b. pb_doc_id b = did) (parent_blocks db))"

definition block_count_active :: "int \<Rightarrow> document_db \<Rightarrow> nat" where
  "block_count_active did db = length (filter (\<lambda>b. pb_doc_id b = did \<and> pb_active b) (parent_blocks db))"

definition block_count_active_for_kb :: "int \<Rightarrow> document_db \<Rightarrow> nat" where
  "block_count_active_for_kb kb db = length (filter (\<lambda>b. pb_kb_id b = kb \<and> pb_active b) (parent_blocks db))"

section \<open>ChildChunkRepository\<close>

definition row_between :: "int option \<Rightarrow> int option \<Rightarrow> nat option \<Rightarrow> bool" where
  "row_between lo hi r \<longleftrightarrow> between_if lo hi (map_option int r)"

definition chunk_search_matches :: "catalogue \<Rightarrow> chunk_query \<Rightarrow> child_chunk \<Rightarrow> bool" where
  "chunk_search_matches ct q c \<longleftrightarrow>
     equals_if (hq_document_id q) (cc_doc_id c) \<and> equals_if (hq_parent_id q) (cc_parent_id c) \<and>
     equals_if (hq_kb_id q) (cc_kb_id c) \<and>
     in_if (hq_vector_statuses q) (vector_status_value (cc_vector_status c)) \<and>
     in_if (hq_statuses q) (active_value (cc_active c)) \<and>
     contains_if (u_stripped (hq_section_path_contains q)) [path_text ct (cd_section_path (cc_data c))] \<and>
     row_between (hq_source_row_from q) (hq_source_row_to q) (cd_source_row_index (cc_data c)) \<and>
     is_null_if (hq_has_vector_id q) (cc_qdrant_point_id c) \<and>
     contains_if (u_stripped (hq_keyword q)) [Some (cd_content (cc_data c)), Some (cd_embedding_text (cc_data c))]"

definition searched_chunks :: "catalogue \<Rightarrow> chunk_query \<Rightarrow> document_db \<Rightarrow> child_chunk list" where
  "searched_chunks ct q db =
     sort_key (\<lambda>c. (cc_doc_id c, cc_parent_id c, cd_chunk_index (cc_data c), cc_id c))
       (filter (chunk_search_matches ct q) (child_chunks db))"

definition chunks_of_document :: "int \<Rightarrow> document_db \<Rightarrow> child_chunk list" where
  "chunks_of_document did db = filter (\<lambda>c. cc_doc_id c = did) (child_chunks db)"

definition chunk_counts_by_status :: "int \<Rightarrow> document_db \<Rightarrow> (string \<times> nat) list" where
  "chunk_counts_by_status did db = counts (\<lambda>c. active_value (cc_active c)) (chunks_of_document did db)"

definition chunk_counts_by_vector_status :: "int \<Rightarrow> document_db \<Rightarrow> (vector_status \<times> nat) list" where
  "chunk_counts_by_vector_status did db =
     counts cc_vector_status (filter cc_active (chunks_of_document did db))"

definition chunk_counts_all_by_vector_status :: "int \<Rightarrow> document_db \<Rightarrow> (vector_status \<times> nat) list" where
  "chunk_counts_all_by_vector_status did db = counts cc_vector_status (chunks_of_document did db)"

definition chunk_counts_by_chunk_type :: "int \<Rightarrow> document_db \<Rightarrow> (string \<times> nat) list" where
  "chunk_counts_by_chunk_type did db = counts (\<lambda>c. cd_chunk_type (cc_data c)) (chunks_of_document did db)"

definition chunk_count_vector_id_presence :: "int \<Rightarrow> document_db \<Rightarrow> nat \<times> nat" where
  "chunk_count_vector_id_presence did db =
     (length (filter (\<lambda>c. cc_qdrant_point_id c \<noteq> None) (chunks_of_document did db)),
      length (filter (\<lambda>c. cc_qdrant_point_id c = None) (chunks_of_document did db)))"

definition chunk_count_active_for_kb :: "int \<Rightarrow> document_db \<Rightarrow> nat" where
  "chunk_count_active_for_kb kb db = length (filter (\<lambda>c. cc_kb_id c = kb \<and> cc_active c) (child_chunks db))"

definition chunk_counts_by_vector_status_for_kb :: "int \<Rightarrow> document_db \<Rightarrow> (vector_status \<times> nat) list" where
  "chunk_counts_by_vector_status_for_kb kb db =
     counts cc_vector_status (filter (\<lambda>c. cc_kb_id c = kb \<and> cc_active c) (child_chunks db))"

section \<open>Use cases\<close>

definition no_document :: error where
  "no_document = DocumentApplicationError 404 ''document does not exist''"

definition get_document :: "int \<Rightarrow> document_db \<Rightarrow> document result" where
  "get_document did db = of_option no_document (document_get_by_id did db)"

definition list_documents :: "document_list_query \<Rightarrow> document_db \<Rightarrow> document listing" where
  "list_documents q db = listing_of (dl_offset q) (dl_limit q) (listed_documents q db)"

definition search_documents :: "catalogue \<Rightarrow> document_search_query \<Rightarrow> document_db \<Rightarrow> document listing" where
  "search_documents ct q db = listing_of (ds_offset q) (ds_limit q) (searched_documents ct q db)"

definition search_artifacts :: "artifact_query \<Rightarrow> document_db \<Rightarrow> artifact listing" where
  "search_artifacts q db = listing_of (aq_offset q) (aq_limit q) (searched_artifacts q db)"

definition list_parent_blocks :: "catalogue \<Rightarrow> block_query \<Rightarrow> document_db \<Rightarrow> parent_block listing" where
  "list_parent_blocks ct q db = listing_of (bq_offset q) (bq_limit q) (searched_blocks ct q db)"

definition list_child_chunks :: "catalogue \<Rightarrow> chunk_query \<Rightarrow> document_db \<Rightarrow> child_chunk listing" where
  "list_child_chunks ct q db = listing_of (hq_offset q) (hq_limit q) (searched_chunks ct q db)"

definition list_document_artifacts :: "int \<Rightarrow> document_db \<Rightarrow> (document \<times> artifact list) result" where
  "list_document_artifacts did db =
     bind (get_document did db) (\<lambda>d. Inr (d, artifact_list_by_document_id did db))"

definition total :: "('v \<times> nat) list \<Rightarrow> nat" where
  "total kvs = sum_list (map snd kvs)"

record pipeline_state =
  ps_document :: document
  ps_parent_count :: nat
  ps_child_count :: nat
  ps_vector_status_counts :: "(vector_status \<times> nat) list"

definition get_document_pipeline_state :: "int \<Rightarrow> document_db \<Rightarrow> pipeline_state result" where
  "get_document_pipeline_state did db =
     bind (get_document did db) (\<lambda>d.
       let vs = chunk_counts_by_vector_status did db in
       Inr \<lparr>ps_document = d, ps_parent_count = block_count_active did db, ps_child_count = total vs,
         ps_vector_status_counts = vs\<rparr>)"

record chunk_statistics =
  cs_document_id :: int
  cs_doc_code :: string
  cs_parent_count :: nat
  cs_child_count :: nat
  cs_parent_status_counts :: "(string \<times> nat) list"
  cs_child_status_counts :: "(string \<times> nat) list"
  cs_vector_status_counts :: "(vector_status \<times> nat) list"
  cs_chunk_type_counts :: "(string \<times> nat) list"
  cs_chunks_with_vector_id :: nat
  cs_chunks_without_vector_id :: nat

definition get_document_chunk_statistics :: "int \<Rightarrow> document_db \<Rightarrow> chunk_statistics result" where
  "get_document_chunk_statistics did db =
     bind (get_document did db) (\<lambda>d.
       let ps = block_counts_by_status did db; cs = chunk_counts_by_status did db;
           ids = chunk_count_vector_id_presence did db in
       Inr \<lparr>cs_document_id = doc_id d, cs_doc_code = doc_code d, cs_parent_count = total ps,
         cs_child_count = total cs, cs_parent_status_counts = ps, cs_child_status_counts = cs,
         cs_vector_status_counts = chunk_counts_all_by_vector_status did db,
         cs_chunk_type_counts = chunk_counts_by_chunk_type did db,
         cs_chunks_with_vector_id = fst ids, cs_chunks_without_vector_id = snd ids\<rparr>)"

record knowledge_base_statistics =
  ks_knowledge_base :: knowledge_base
  ks_document_count :: nat
  ks_active_document_count :: nat
  ks_failed_document_count :: nat
  ks_indexed_document_count :: nat
  ks_parent_count :: nat
  ks_child_count :: nat
  ks_vector_status_counts :: "(vector_status \<times> nat) list"

definition knowledge_base_get_by_id :: "catalogue \<Rightarrow> int \<Rightarrow> knowledge_base option" where
  "knowledge_base_get_by_id ct i = get_row kb_id i (ct_knowledge_bases ct)"

definition get_knowledge_base_statistics ::
  "catalogue \<Rightarrow> int \<Rightarrow> document_db \<Rightarrow> knowledge_base_statistics result" where
  "get_knowledge_base_statistics ct i db =
     bind (of_option (DocumentApplicationError 404 ''knowledge base does not exist'')
            (knowledge_base_get_by_id ct i)) (\<lambda>kb.
     Inr \<lparr>ks_knowledge_base = kb, ks_document_count = document_count_for_kb i None None db,
       ks_active_document_count = document_count_for_kb i None (Some LC_ACTIVE) db,
       ks_failed_document_count = document_count_for_kb i (Some DOC_FAILED) None db,
       ks_indexed_document_count = document_count_for_kb i (Some DOC_INDEXED) None db,
       ks_parent_count = block_count_active_for_kb i db,
       ks_child_count = chunk_count_active_for_kb i db,
       ks_vector_status_counts = chunk_counts_by_vector_status_for_kb i db\<rparr>)"

section \<open>The tools\<close>

definition DOCUMENT_READ_PERMISSION :: string where
  "DOCUMENT_READ_PERMISSION = ''document:read''"

text \<open>\<open>[refs] or [fallback]\<close>.\<close>

definition refs_or :: "string \<Rightarrow> string list \<Rightarrow> string list" where
  "refs_or fallback refs = (if refs = [] then [fallback] else refs)"

definition int_ref :: "string \<Rightarrow> int \<Rightarrow> string" where
  "int_ref prefix i = prefix @ int_text i"

definition document_ref :: "int \<Rightarrow> string" where
  "document_ref = int_ref ''document:''"

definition kb_ref :: "int \<Rightarrow> string" where
  "kb_ref = int_ref ''knowledge_base:''"

definition get_document_handler ::
  "string list \<Rightarrow> int \<Rightarrow> document_db \<Rightarrow> document tool_reply \<times> audit_event list" where
  "get_document_handler granted did db = validated (0 < did)
     (read_tool granted DOCUMENT_READ_PERMISSION [document_ref did] ''document_retrieved''
       (get_document did) db)"

definition list_documents_handler ::
  "string list \<Rightarrow> document_list_query \<Rightarrow> document_db \<Rightarrow> document listing tool_reply \<times> audit_event list" where
  "list_documents_handler granted q db = validated (valid_document_list_query q)
     (read_tool granted DOCUMENT_READ_PERMISSION [kb_ref (dl_kb_id q)] ''documents_listed''
       (\<lambda>db. Inr (list_documents q db)) db)"

definition search_documents_handler ::
  "catalogue \<Rightarrow> string list \<Rightarrow> document_search_query \<Rightarrow> document_db \<Rightarrow>
     document listing tool_reply \<times> audit_event list" where
  "search_documents_handler ct granted q db = validated (valid_document_search_query q)
     (read_tool granted DOCUMENT_READ_PERMISSION
       (refs_or ''document:*'' (map kb_ref (ds_kb_ids q) @ map document_ref (ds_document_ids q)))
       ''documents_searched'' (\<lambda>db. Inr (search_documents ct q db)) db)"

definition get_document_pipeline_state_handler ::
  "string list \<Rightarrow> int \<Rightarrow> document_db \<Rightarrow> pipeline_state tool_reply \<times> audit_event list" where
  "get_document_pipeline_state_handler granted did db = validated (0 < did)
     (read_tool granted DOCUMENT_READ_PERMISSION [document_ref did]
       ''document_pipeline_state_retrieved'' (get_document_pipeline_state did) db)"

definition list_document_artifacts_handler ::
  "string list \<Rightarrow> int \<Rightarrow> document_db \<Rightarrow> (document \<times> artifact list) tool_reply \<times> audit_event list" where
  "list_document_artifacts_handler granted did db = validated (0 < did)
     (read_tool granted DOCUMENT_READ_PERMISSION [document_ref did] ''document_artifacts_listed''
       (list_document_artifacts did) db)"

definition search_document_artifacts_handler ::
  "string list \<Rightarrow> artifact_query \<Rightarrow> document_db \<Rightarrow> artifact listing tool_reply \<times> audit_event list" where
  "search_document_artifacts_handler granted q db = validated (valid_artifact_query q)
     (read_tool granted DOCUMENT_READ_PERMISSION
       (refs_or ''document_artifact:*'' (map document_ref (aq_document_ids q)))
       ''document_artifacts_searched'' (\<lambda>db. Inr (search_artifacts q db)) db)"

definition list_parent_blocks_handler ::
  "catalogue \<Rightarrow> string list \<Rightarrow> block_query \<Rightarrow> document_db \<Rightarrow>
     parent_block listing tool_reply \<times> audit_event list" where
  "list_parent_blocks_handler ct granted q db = validated (valid_block_query q)
     (read_tool granted DOCUMENT_READ_PERMISSION
       (refs_or ''parent_block:*'' (map document_ref (bq_document_ids q) @ map kb_ref (bq_kb_ids q)))
       ''parent_blocks_listed'' (\<lambda>db. Inr (list_parent_blocks ct q db)) db)"

definition optional_refs :: "(int \<Rightarrow> string) \<Rightarrow> int option \<Rightarrow> string list" where
  "optional_refs f i = (case i of None \<Rightarrow> [] | Some n \<Rightarrow> [f n])"

definition list_child_chunks_handler ::
  "catalogue \<Rightarrow> string list \<Rightarrow> chunk_query \<Rightarrow> document_db \<Rightarrow>
     child_chunk listing tool_reply \<times> audit_event list" where
  "list_child_chunks_handler ct granted q db = validated (valid_chunk_query q)
     (read_tool granted DOCUMENT_READ_PERMISSION
       (refs_or ''child_chunk:*''
         (optional_refs document_ref (hq_document_id q) @
          optional_refs (int_ref ''parent_block:'') (hq_parent_id q) @ optional_refs kb_ref (hq_kb_id q)))
       ''child_chunks_listed'' (\<lambda>db. Inr (list_child_chunks ct q db)) db)"

definition get_document_chunk_statistics_handler ::
  "string list \<Rightarrow> int \<Rightarrow> document_db \<Rightarrow> chunk_statistics tool_reply \<times> audit_event list" where
  "get_document_chunk_statistics_handler granted did db = validated (0 < did)
     (read_tool granted DOCUMENT_READ_PERMISSION [document_ref did]
       ''document_chunk_statistics_retrieved'' (get_document_chunk_statistics did) db)"

definition get_knowledge_base_statistics_handler ::
  "catalogue \<Rightarrow> string list \<Rightarrow> int \<Rightarrow> document_db \<Rightarrow>
     knowledge_base_statistics tool_reply \<times> audit_event list" where
  "get_knowledge_base_statistics_handler ct granted i db = validated (0 < i)
     (read_tool granted DOCUMENT_READ_PERMISSION [kb_ref i] ''knowledge_base_statistics_retrieved''
       (get_knowledge_base_statistics ct i) db)"

section \<open>Totals\<close>

lemma total_counts: "total (counts f rows) = length rows"
proof -
  have sum: "(\<Sum>v\<leftarrow>vs. length (filter (\<lambda>r. f r = v) rows)) = length (filter (\<lambda>r. f r \<in> set vs) rows)"
    if "distinct vs" for vs
    using that
  proof (induction vs)
    case (Cons v vs)
    have "length (filter (\<lambda>r. f r = v \<or> f r \<in> set vs) rows) =
        length (filter (\<lambda>r. f r = v) rows) + length (filter (\<lambda>r. f r \<in> set vs) rows)"
      using Cons.prems by (induction rows) auto
    with Cons show ?case by simp
  qed simp
  show ?thesis using sum [of "dedup (map f rows)"] by (simp add: total_def counts_def comp_def)
qed

text \<open>The figures of a document agree: every grouping counts the same chunks.\<close>

lemma statistics_agree:
  assumes "get_document_chunk_statistics did db = Inr s"
  shows "cs_child_count s = length (chunks_of_document did db)"
    "total (cs_vector_status_counts s) = cs_child_count s"
    "total (cs_chunk_type_counts s) = cs_child_count s"
    "cs_chunks_with_vector_id s + cs_chunks_without_vector_id s = cs_child_count s"
proof -
  have "length (filter P xs) + length (filter (\<lambda>x. \<not> P x) xs) = length xs" for P and xs :: "child_chunk list"
    by (simp add: sum_length_filter_compl)
  from this [of "\<lambda>c. cc_qdrant_point_id c \<noteq> None"] assms
  show "cs_child_count s = length (chunks_of_document did db)"
    "total (cs_vector_status_counts s) = cs_child_count s"
    "total (cs_chunk_type_counts s) = cs_child_count s"
    "cs_chunks_with_vector_id s + cs_chunks_without_vector_id s = cs_child_count s"
    by (auto simp: get_document_chunk_statistics_def bind_eq_Inr Let_def total_counts chunk_counts_by_status_def
        chunk_counts_all_by_vector_status_def chunk_counts_by_chunk_type_def chunk_count_vector_id_presence_def)
qed

lemma pipeline_state_agrees:
  assumes "get_document_pipeline_state did db = Inr p"
  shows "ps_child_count p = length (filter cc_active (chunks_of_document did db))"
  using assms by (auto simp: get_document_pipeline_state_def bind_eq_Inr Let_def total_counts
      chunk_counts_by_vector_status_def)

end
