(* ===== verification/Document_Process.thy ===== *)
theory Document_Process
  imports Document_Store "HOL-Library.Sublist"
begin

text \<open>
  Stage 2 of the document pipeline (\<open>use_cases/process_document.py\<close>,
  \<open>use_cases/prepare_document_source.py\<close>, \<open>domain/policies.py\<close>): claiming a document, converting and
  cleaning its source in a staging directory, promoting the results, registering them, and the
  compensation of an abandoned operation.  A file system is the list of its files with their texts;
  a directory exists when it holds a file.  The conversion service, the CSV reader with its sniffed
  dialect and the hash functions are the parameters in \<open>document_ports\<close>.
\<close>

section \<open>Files\<close>

type_synonym file_system = "(path \<times> utext) list"

definition file_text :: "file_system \<Rightarrow> path \<Rightarrow> utext option" where
  "file_text fs p = map_of fs p"

definition path_exists :: "file_system \<Rightarrow> path \<Rightarrow> bool" where
  "path_exists fs p = list_ex (\<lambda>(q, _). prefix p q) fs"

definition write_file :: "path \<Rightarrow> utext \<Rightarrow> file_system \<Rightarrow> file_system" where
  "write_file p t fs = (p, t) # filter (\<lambda>(q, _). q \<noteq> p) fs"

definition remove_tree :: "path \<Rightarrow> file_system \<Rightarrow> file_system" where
  "remove_tree p fs = filter (\<lambda>(q, _). \<not> prefix p q) fs"

definition path_name :: "path \<Rightarrow> string" where
  "path_name p = (if p = [] then [] else last p)"

text \<open>\<open>Path.stem\<close> of a name: without its last extension.\<close>

definition path_stem :: "string \<Rightarrow> string" where
  "path_stem n =
     (let r = dropWhile (\<lambda>c. c \<noteq> CHR ''.'') (rev n) in
      if r = [] \<or> tl r = [] \<or> r = rev n then n else rev (tl r))"

section \<open>Source types (domain/policies.py)\<close>

definition py_lower :: "string \<Rightarrow> string" where
  "py_lower s = map (\<lambda>c. let n = (of_char c :: int) in
     if 65 \<le> n \<and> n \<le> 90 \<or> 192 \<le> n \<and> n \<le> 222 \<and> n \<noteq> 215 then char_of (n + 32) else c) s"

definition py_upper_ascii :: "string \<Rightarrow> string" where
  "py_upper_ascii s = map (\<lambda>c. let n = (of_char c :: int) in
     if 97 \<le> n \<and> n \<le> 122 then char_of (n - 32) else c) s"

definition normalize_source_type :: "string \<Rightarrow> string" where
  "normalize_source_type s =
     (let n = dropWhile (\<lambda>c. c = CHR ''.'') (py_strip (py_lower s)) in
      if n = ''markdown'' then ''md'' else n)"

definition requires_external_processing :: "string \<Rightarrow> bool" where
  "requires_external_processing s \<longleftrightarrow>
     normalize_source_type s \<in> {''pdf'', ''ppt'', ''pptx'', ''doc'', ''docx''}"

definition get_expected_process_output_type :: "string \<Rightarrow> string" where
  "get_expected_process_output_type s =
     (let n = normalize_source_type s in if requires_external_processing n then ''md'' else n)"

section \<open>Ports and settings\<close>

text \<open>The reply of the conversion service: its status and the Markdown of the document.\<close>

record docling_reply =
  dr_status :: "string option"
  dr_md_content :: "utext option"

record document_ports =
  port_docling :: "path \<Rightarrow> string \<Rightarrow> docling_reply result"
  port_csv_records :: "utext \<Rightarrow> utext list list result"
  port_file_hash :: "utext \<Rightarrow> string"
  port_md5_text :: "utext \<Rightarrow> string"

record processing_settings =
  cleaned_storage_dir :: path
  secondary_text_storage_dir :: path
  staging_storage_dir :: path

text \<open>The bytes of a text in UTF-8.\<close>

definition utf8_size :: "utext \<Rightarrow> int" where
  "utf8_size t = sum_list (map (\<lambda>c. if c < 128 then 1 else if c < 2048 then 2
     else if c < 65536 then 3 else 4) t)"

definition convert_to_markdown :: "document_ports \<Rightarrow> path \<Rightarrow> string \<Rightarrow> (utext \<times> string) result" where
  "convert_to_markdown ports source source_type =
     bind (port_docling ports source (dropWhile (\<lambda>c. c = CHR ''.'') (py_lower source_type))) (\<lambda>reply.
       if dr_status reply \<notin> {Some ''success'', Some ''partial_success''}
       then Inl (RuntimeError ''Docling convert failed'')
       else case dr_md_content reply of
         None \<Rightarrow> Inl (RuntimeError ''Docling markdown empty'')
       | Some markdown \<Rightarrow>
           if u_strip markdown = [] then Inl (RuntimeError ''Docling markdown empty'')
           else Inr (u_strip markdown @ [10], ''docling''))"

definition get_processor :: "document_ports \<Rightarrow> string \<Rightarrow> (string \<times> (utext \<Rightarrow> process_result result)) result" where
  "get_processor ports source_type =
     (let n = normalize_source_type source_type in
      if n = ''txt'' then Inr (''TxtProcessor'', \<lambda>t. Inr (process_txt t))
      else if n = ''md'' then Inr (''MdProcessor'', \<lambda>t. Inr (process_md t))
      else if n = ''csv'' then Inr (''CsvProcessor'', \<lambda>t.
        if t = [] then Inl (csv_process_error ''empty file'')
        else bind (port_csv_records ports t) process_csv)
      else Inl (OtherException ''HTTPException'' ''unsupported source type''))"

section \<open>Guards shared by the three stages\<close>

text \<open>The life-cycle states in which a document may be processed, chunked and indexed.\<close>

definition USABLE_LIFECYCLE_STATUSES :: "lifecycle_status list" where
  "USABLE_LIFECYCLE_STATUSES = [LC_ACTIVE, LC_SCHEDULED]"

definition document_not_found :: error where
  "document_not_found = DocumentApplicationError 404 ''document does not exist''"

definition claimable :: "document_status list \<Rightarrow> int \<Rightarrow> document_db \<Rightarrow> document result" where
  "claimable statuses did db =
     (case document_get_by_id did db of
        None \<Rightarrow> Inl document_not_found
      | Some d \<Rightarrow>
          if doc_active_operation_id d \<noteq> None
          then Inl (DocumentApplicationError 409 ''an operation is not released'')
          else if doc_status d \<notin> set statuses
          then Inl (DocumentApplicationError 409 ''document status does not allow this'')
          else if doc_lifecycle_status d \<notin> set USABLE_LIFECYCLE_STATUSES
          then Inl (DocumentApplicationError 409 ''inactive document'')
          else if doc_storage_status d \<noteq> ST_ACTIVE
          then Inl (DocumentApplicationError 409 ''document is not in active storage'')
          else Inr d)"

definition take_over :: "document_status \<Rightarrow> ident \<Rightarrow> document \<Rightarrow> document_db \<Rightarrow> document_db" where
  "take_over status op d = document_save (d\<lparr>doc_status := status, doc_active_operation_id := Some op\<rparr>)"

text \<open>The check before results are registered; \<open>exc\<close> is the class of the abort error.\<close>

definition still_owned ::
  "string \<Rightarrow> document_status \<Rightarrow> int \<Rightarrow> ident \<Rightarrow> document_db \<Rightarrow> document result" where
  "still_owned exc status did op db =
     (case document_get_by_id did db of
        None \<Rightarrow> Inl document_not_found
      | Some d \<Rightarrow>
          if doc_status d \<noteq> status then Inl (OtherException exc ''document status has changed'')
          else if doc_active_operation_id d \<noteq> Some op
          then Inl (OtherException exc ''operation was taken over'')
          else if doc_lifecycle_status d \<notin> set USABLE_LIFECYCLE_STATUSES
          then Inl (OtherException exc ''document became inactive'')
          else if doc_storage_status d \<noteq> ST_ACTIVE
          then Inl (OtherException exc ''document is being archived'')
          else Inr d)"

text \<open>What the use case makes of an exception of its stages.\<close>

fun reported :: "string \<Rightarrow> error \<Rightarrow> error" where
  "reported aborted (DocumentApplicationError code detail) = DocumentApplicationError code detail"
| "reported aborted (OtherException c m) =
     (if c = aborted then DocumentApplicationError 409 m
      else DocumentApplicationError 500 ''document operation failed'')"
| "reported aborted e = DocumentApplicationError 500 ''document operation failed''"

section \<open>Claim\<close>

record processing_context =
  px_document_id :: int
  px_doc_code :: string
  px_kb_id :: int
  px_domain_code :: string
  px_business_scene :: "string option"
  px_source_type :: string
  px_source_path :: path
  px_created_by :: "string option"
  px_status_before :: document_status
  px_operation_id :: ident

definition claim_processing :: "int \<Rightarrow> ident \<Rightarrow> document_db \<Rightarrow> (processing_context \<times> document_db) result" where
  "claim_processing did op db =
     bind (claimable [DOC_UPLOADED, DOC_FAILED] did db) (\<lambda>d.
     Inr (\<lparr>px_document_id = doc_id d, px_doc_code = doc_code d, px_kb_id = doc_kb_id d,
           px_domain_code = doc_domain_code d, px_business_scene = doc_business_scene d,
           px_source_type = doc_source_type d, px_source_path = doc_source_uri d,
           px_created_by = doc_created_by d, px_status_before = doc_status d,
           px_operation_id = op\<rparr>, take_over DOC_PROCESSING op d db))"

section \<open>Execution outside the transaction\<close>

record pending_artifact =
  pa_type :: string
  pa_role :: string
  pa_format :: string
  pa_uri :: path
  pa_hash :: string
  pa_provider :: "string option"
  pa_processor :: "string option"
  pa_file_size :: int
  pa_char_count :: nat
  pa_line_count :: nat
  pa_metadata :: process_metadata

record prepared_source =
  ps_source_path :: path
  ps_source_type :: string
  ps_secondary_artifact :: "pending_artifact option"

record processing_result =
  xr_document_id :: int
  xr_operation_id :: ident
  xr_cleaned_path :: path
  xr_prepared_source :: prepared_source
  xr_cleaned_artifact :: pending_artifact

text \<open>\<open>_operation_scoped_dir\<close>: the operation id must be one plain path component.\<close>

definition operation_scoped_dir :: "path \<Rightarrow> ident \<Rightarrow> path result" where
  "operation_scoped_dir root op =
     (if op = [] \<or> CHR ''/'' \<in> set op \<or> op \<in> {''.'', ''..''}
      then Inl (ValueError ''operation_id is no path component'') else Inr (root @ [op]))"

text \<open>A code of at most 100 characters: the document code cut to make room for the suffix.\<close>

definition coded :: "string \<Rightarrow> string \<Rightarrow> string" where
  "coded code tail = take (100 - length tail) code @ tail"

definition generate_artifact_code :: "string \<Rightarrow> string \<Rightarrow> string" where
  "generate_artifact_code hex code =
     coded code (''_ART_DOCLING_MD_'' @ py_upper_ascii (take 12 hex))"

definition generate_cleaned_artifact_code :: "string \<Rightarrow> string \<Rightarrow> string \<Rightarrow> string" where
  "generate_cleaned_artifact_code hex code format =
     coded code (''_ART_CLEANED_'' @ py_upper_ascii format @ ''_'' @ py_upper_ascii (take 12 hex))"

definition prepare_process_source ::
  "document_ports \<Rightarrow> uuids \<Rightarrow> processing_context \<Rightarrow> path \<Rightarrow> file_system \<Rightarrow>
     (prepared_source \<times> file_system) result" where
  "prepare_process_source ports u ctx output_dir fs =
     (let source_type = normalize_source_type (px_source_type ctx) in
      if \<not> requires_external_processing source_type
      then Inr (\<lparr>ps_source_path = px_source_path ctx, ps_source_type = source_type,
                 ps_secondary_artifact = None\<rparr>, fs)
      else bind (convert_to_markdown ports (px_source_path ctx) source_type) (\<lambda>(markdown, provider).
        let secondary_path =
              output_dir @ [generate_artifact_code (u 0) (px_doc_code ctx) @ ''.md''] in
        Inr (\<lparr>ps_source_path = secondary_path, ps_source_type = ''md'',
              ps_secondary_artifact = Some \<lparr>pa_type = ''secondary_text'',
                pa_role = ''process_input'', pa_format = ''md'', pa_uri = secondary_path,
                pa_hash = port_file_hash ports markdown, pa_provider = Some provider,
                pa_processor = Some ''DoclingClient'', pa_file_size = utf8_size markdown,
                pa_char_count = length markdown, pa_line_count = length (u_splitlines markdown),
                pa_metadata = no_metadata\<rparr>\<rparr>, write_file secondary_path markdown fs)))"

definition execute_processing ::
  "document_ports \<Rightarrow> processing_settings \<Rightarrow> uuids \<Rightarrow> processing_context \<Rightarrow> file_system \<Rightarrow>
     (processing_result \<times> file_system) result" where
  "execute_processing ports st u ctx fs =
     (if \<not> path_exists fs (px_source_path ctx)
      then Inl (DocumentApplicationError 404 ''source file does not exist'')
      else if file_text fs (px_source_path ctx) = None
      then Inl (DocumentApplicationError 400 ''source path is no file'')
      else bind (operation_scoped_dir (staging_storage_dir st) (px_operation_id ctx)) (\<lambda>operation_dir.
        bind (prepare_process_source ports u ctx operation_dir fs) (\<lambda>(prepared, fs1).
        bind (get_processor ports (ps_source_type prepared)) (\<lambda>(name, process).
        let cleaned_path = operation_dir @ [px_doc_code ctx @ ''.cleaned.'' @ ps_source_type prepared] in
        bind (of_option (OtherException ''FileNotFoundError'' []) (file_text fs1 (ps_source_path prepared)))
          (\<lambda>source.
        bind (process source) (\<lambda>r.
          Inr (\<lparr>xr_document_id = px_document_id ctx, xr_operation_id = px_operation_id ctx,
                xr_cleaned_path = cleaned_path, xr_prepared_source = prepared,
                xr_cleaned_artifact = \<lparr>pa_type = ''cleaned_text'', pa_role = ''process_output'',
                  pa_format = pr_source_type r, pa_uri = cleaned_path,
                  pa_hash = port_file_hash ports (pr_cleaned r), pa_provider = None,
                  pa_processor = Some name, pa_file_size = utf8_size (pr_cleaned r),
                  pa_char_count = pr_char_count r, pa_line_count = pr_line_count r,
                  pa_metadata = pr_metadata r\<rparr>\<rparr>,
               write_file cleaned_path (pr_cleaned r) fs1)))))))"

definition assert_processing_owned :: "processing_context \<Rightarrow> document_db \<Rightarrow> unit result" where
  "assert_processing_owned ctx db =
     (case document_get_by_id (px_document_id ctx) db of
        None \<Rightarrow> Inl (OtherException ''ProcessingAbortedError'' ''ownership lost'')
      | Some d \<Rightarrow>
          if doc_status d \<noteq> DOC_PROCESSING \<or> doc_active_operation_id d \<noteq> Some (px_operation_id ctx)
          then Inl (OtherException ''ProcessingAbortedError'' ''ownership lost'')
          else if doc_lifecycle_status d \<notin> set USABLE_LIFECYCLE_STATUSES
          then Inl (OtherException ''ProcessingAbortedError'' ''document became inactive'')
          else if doc_storage_status d \<noteq> ST_ACTIVE
          then Inl (OtherException ''ProcessingAbortedError'' ''document is being archived'')
          else Inr ())"

section \<open>Promotion\<close>

definition promote_file :: "path \<Rightarrow> path \<Rightarrow> file_system \<Rightarrow> (path \<times> file_system) result" where
  "promote_file source dir fs =
     (let destination = dir @ [path_name source] in
      if path_exists fs destination then Inl (RuntimeError ''promoted path exists'')
      else bind (of_option (OtherException ''FileNotFoundError'' []) (file_text fs source)) (\<lambda>t.
        Inr (destination, write_file destination t (filter (\<lambda>(q, _). q \<noteq> source) fs))))"

definition promote_processing_artifacts ::
  "processing_settings \<Rightarrow> processing_result \<Rightarrow> file_system \<Rightarrow> (processing_result \<times> file_system) result" where
  "promote_processing_artifacts st r fs =
     bind (operation_scoped_dir (cleaned_storage_dir st) (xr_operation_id r)) (\<lambda>cleaned_dir.
     bind (promote_file (xr_cleaned_path r) cleaned_dir fs) (\<lambda>(cleaned_path, fs1).
     bind (case ps_secondary_artifact (xr_prepared_source r) of
             None \<Rightarrow> Inr (xr_prepared_source r, fs1)
           | Some a \<Rightarrow>
               bind (operation_scoped_dir (secondary_text_storage_dir st) (xr_operation_id r))
                 (\<lambda>secondary_dir.
               bind (promote_file (ps_source_path (xr_prepared_source r)) secondary_dir fs1)
                 (\<lambda>(secondary_path, fs2).
               Inr ((xr_prepared_source r)\<lparr>ps_source_path := secondary_path,
                      ps_secondary_artifact := Some (a\<lparr>pa_uri := secondary_path\<rparr>)\<rparr>, fs2))))
       (\<lambda>(prepared, fs2).
     bind (operation_scoped_dir (staging_storage_dir st) (xr_operation_id r)) (\<lambda>operation_dir.
     Inr (r\<lparr>xr_cleaned_path := cleaned_path, xr_prepared_source := prepared,
            xr_cleaned_artifact := (xr_cleaned_artifact r)\<lparr>pa_uri := cleaned_path\<rparr>\<rparr>,
          remove_tree operation_dir fs2)))))"

section \<open>Registration\<close>

definition persist_artifact ::
  "time \<Rightarrow> document \<Rightarrow> pending_artifact \<Rightarrow> string \<Rightarrow> document_db \<Rightarrow> document_db result" where
  "persist_artifact now d a code db =
     artifact_create now
       \<lparr>art_id = 0, art_document_id = doc_id d, art_code = code, art_type = pa_type a,
        art_role = pa_role a, art_format = pa_format a, art_uri = pa_uri a,
        art_hash = Some (pa_hash a), art_provider = pa_provider a, art_processor = pa_processor a,
        art_file_size = Some (pa_file_size a), art_char_count = Some (pa_char_count a),
        art_line_count = Some (pa_line_count a), art_status = ART_ACTIVE,
        art_metadata = pa_metadata a, art_created_by = doc_created_by d, art_created_at = now\<rparr>
       (artifact_mark_superseded (doc_id d) (pa_type a) (Some (pa_role a)) (Some (pa_format a)) db)"

record process_document_result =
  pdr_document_id :: int
  pdr_doc_code :: string
  pdr_source_type :: string
  pdr_source_uri :: path
  pdr_cleaned_uri :: path
  pdr_status :: document_status

definition complete_processing ::
  "time \<Rightarrow> uuids \<Rightarrow> processing_result \<Rightarrow> document_db \<Rightarrow> (process_document_result \<times> document_db) result" where
  "complete_processing now u r db =
     bind (still_owned ''ProcessingAbortedError'' DOC_PROCESSING (xr_document_id r) (xr_operation_id r) db)
       (\<lambda>d.
     bind (case ps_secondary_artifact (xr_prepared_source r) of
             None \<Rightarrow> Inr db
           | Some a \<Rightarrow> persist_artifact now d a (path_stem (path_name (pa_uri a))) db) (\<lambda>db1.
     bind (persist_artifact now d (xr_cleaned_artifact r)
             (generate_cleaned_artifact_code (u 0) (doc_code d) (pa_format (xr_cleaned_artifact r))) db1)
       (\<lambda>db2.
     Inr (\<lparr>pdr_document_id = doc_id d, pdr_doc_code = doc_code d, pdr_source_type = doc_source_type d,
           pdr_source_uri = doc_source_uri d, pdr_cleaned_uri = xr_cleaned_path r,
           pdr_status = DOC_PROCESSED\<rparr>,
          document_save (d\<lparr>doc_cleaned_uri := Some (xr_cleaned_path r),
            doc_status := DOC_PROCESSED, doc_active_operation_id := None\<rparr>) db2))))"

text \<open>
  The whole use case without interference: the result or the reported error, the database and the
  files after it.  An error after the claim leaves the claim in place; the runtime compensates it.
\<close>

definition process_document ::
  "document_ports \<Rightarrow> processing_settings \<Rightarrow> time \<Rightarrow> uuids \<Rightarrow> int \<Rightarrow> ident \<Rightarrow> document_db \<Rightarrow>
     file_system \<Rightarrow> process_document_result result \<times> document_db \<times> file_system" where
  "process_document ports st now u did op db fs =
     (let err = (\<lambda>e. Inl (reported ''ProcessingAbortedError'' e)) in
      case claim_processing did op db of
        Inl e \<Rightarrow> (err e, db, fs)
      | Inr (ctx, db1) \<Rightarrow>
          (case bind (assert_processing_owned ctx db1) (\<lambda>_. execute_processing ports st u ctx fs) of
             Inl e \<Rightarrow> (err e, db1, fs)
           | Inr (r, fs1) \<Rightarrow>
               (case promote_processing_artifacts st r fs1 of
                  Inl e \<Rightarrow> (err e, db1, fs1)
                | Inr (r2, fs2) \<Rightarrow>
                    (case complete_processing now (\<lambda>i. u (i + 1)) r2 db1 of
                       Inl e \<Rightarrow> (err e, db1, fs2)
                     | Inr (res, db2) \<Rightarrow> (Inr res, db2, fs2)))))"

section \<open>Compensation\<close>

record failure_state =
  fs_state_updated :: bool
  fs_status_before :: "document_status option"
  fs_status_after :: "document_status option"

definition NO_FAILURE_STATE_CHANGE :: failure_state where
  "NO_FAILURE_STATE_CHANGE =
     \<lparr>fs_state_updated = False, fs_status_before = None, fs_status_after = None\<rparr>"

definition fail_processing :: "int \<Rightarrow> ident \<Rightarrow> document_db \<Rightarrow> failure_state \<times> document_db" where
  "fail_processing did op db =
     (case document_get_by_id did db of
        None \<Rightarrow> (NO_FAILURE_STATE_CHANGE, db)
      | Some d \<Rightarrow>
          if doc_active_operation_id d = Some op \<and> doc_status d = DOC_PROCESSING
          then (\<lparr>fs_state_updated = True, fs_status_before = Some (doc_status d),
                 fs_status_after = Some DOC_FAILED\<rparr>, document_save (d\<lparr>doc_status := DOC_FAILED\<rparr>) db)
          else (\<lparr>fs_state_updated = False, fs_status_before = Some (doc_status d),
                 fs_status_after = Some (doc_status d)\<rparr>, db))"

definition owns_failed_operation :: "int \<Rightarrow> ident \<Rightarrow> document_db \<Rightarrow> bool" where
  "owns_failed_operation did op db =
     (case document_get_by_id did db of
        None \<Rightarrow> False
      | Some d \<Rightarrow> doc_active_operation_id d = Some op \<and> doc_status d = DOC_FAILED)"

definition clean_operation_dirs :: "processing_settings \<Rightarrow> ident \<Rightarrow> file_system \<Rightarrow> file_system result" where
  "clean_operation_dirs st op fs =
     bind (operation_scoped_dir (staging_storage_dir st) op) (\<lambda>a.
     bind (operation_scoped_dir (cleaned_storage_dir st) op) (\<lambda>b.
     bind (operation_scoped_dir (secondary_text_storage_dir st) op) (\<lambda>c.
     Inr (remove_tree c (remove_tree b (remove_tree a fs))))))"

definition release_operation :: "int \<Rightarrow> ident \<Rightarrow> document_db \<Rightarrow> document_db" where
  "release_operation did op db =
     (case document_get_by_id did db of
        None \<Rightarrow> db
      | Some d \<Rightarrow>
          if doc_active_operation_id d \<noteq> Some op then db
          else document_save (d\<lparr>doc_active_operation_id := None\<rparr>) db)"

definition compensate_processing ::
  "processing_settings \<Rightarrow> int \<Rightarrow> ident \<Rightarrow> document_db \<Rightarrow> file_system \<Rightarrow>
     failure_state result \<times> document_db \<times> file_system" where
  "compensate_processing st did op db fs =
     (let (r, db1) = fail_processing did op db in
      if \<not> owns_failed_operation did op db1 then (Inr r, db1, fs)
      else case clean_operation_dirs st op fs of
        Inl e \<Rightarrow> (Inl e, db1, fs)
      | Inr fs1 \<Rightarrow> (Inr r, release_operation did op db1, fs1))"

end
