(* ===== verification/Document_Chunks.thy ===== *)
theory Document_Chunks
  imports Document_Process
begin

text \<open>
  Stage 3 of the document pipeline (\<open>use_cases/build_chunks.py\<close>): claiming a document, chunking its
  cleaned text outside the transaction, validating the result, replacing the stored blocks and
  chunks in one transaction, and the compensation.
\<close>

section \<open>Claim\<close>

record chunking_context =
  kx_document_id :: int
  kx_doc_code :: string
  kx_source_type :: string
  kx_cleaned_path :: path
  kx_chunk_source_type :: string
  kx_document_title :: string
  kx_kb_id :: int
  kx_domain_code :: string
  kx_business_scene :: "string option"
  kx_version :: int
  kx_process_metadata :: process_metadata
  kx_status_before :: document_status
  kx_operation_id :: ident

text \<open>Where the cleaned text is: the latest artifact, or the column of old documents.\<close>

definition cleaned_source :: "document \<Rightarrow> document_db \<Rightarrow> (path \<times> string \<times> process_metadata) result" where
  "cleaned_source d db =
     (case artifact_get_latest_active (doc_id d) ''cleaned_text'' (Some ''process_output'') None db of
        Some a \<Rightarrow> Inr (art_uri a, art_format a, art_metadata a)
      | None \<Rightarrow> (case doc_cleaned_uri d of
          None \<Rightarrow> Inl (DocumentApplicationError 400 ''document is not processed'')
        | Some p \<Rightarrow> Inr (p, get_expected_process_output_type (doc_source_type d), no_metadata)))"

definition claim_chunking :: "int \<Rightarrow> ident \<Rightarrow> document_db \<Rightarrow> (chunking_context \<times> document_db) result" where
  "claim_chunking did op db =
     bind (claimable [DOC_PROCESSED, DOC_FAILED] did db) (\<lambda>d.
     if doc_status d = DOC_FAILED \<and> chunk_exists_by_doc_id (doc_id d) db
     then Inl (DocumentApplicationError 409 ''document has chunks already'')
     else bind (cleaned_source d db) (\<lambda>(cleaned_path, chunk_source_type, metadata).
     Inr (\<lparr>kx_document_id = doc_id d, kx_doc_code = doc_code d, kx_source_type = doc_source_type d,
           kx_cleaned_path = cleaned_path, kx_chunk_source_type = chunk_source_type,
           kx_document_title = doc_title d, kx_kb_id = doc_kb_id d,
           kx_domain_code = doc_domain_code d, kx_business_scene = doc_business_scene d,
           kx_version = doc_version d, kx_process_metadata = metadata,
           kx_status_before = doc_status d, kx_operation_id = op\<rparr>,
          take_over DOC_CHUNKING op d db)))"

section \<open>Execution\<close>

definition get_chunker ::
  "string \<Rightarrow> (process_metadata \<Rightarrow> utext \<Rightarrow> chunk_build_result result) result" where
  "get_chunker source_type =
     (let n = normalize_source_type source_type in
      if n = ''txt'' then Inr (\<lambda>m t. Inr (build_text t))
      else if n = ''md'' then Inr (\<lambda>m t. Inr (build_markdown (pm_sections m) t))
      else if n = ''csv'' then Inr (\<lambda>m t. build_csv (pm_headers m) t)
      else Inl (OtherException ''HTTPException'' ''unsupported source type''))"

text \<open>The checks run in this order; the last two for each list of children.\<close>

definition child_list_error :: "child_chunk_data list \<Rightarrow> error option" where
  "child_list_error cs =
     (if \<not> distinct (map cd_chunk_index cs)
      then Some (DocumentApplicationError 500 ''duplicate chunk_index'')
      else if list_ex (\<lambda>c. u_strip (cd_embedding_text c) = []) cs
      then Some (DocumentApplicationError 500 ''empty embedding_text'') else None)"

definition validate_chunk_build_result :: "chunk_build_result \<Rightarrow> unit result" where
  "validate_chunk_build_result r =
     (let indices = map pd_block_index (br_parents r) in
      if br_parents r = [] then Inl (DocumentApplicationError 400 ''no parent block'')
      else if \<not> distinct indices
      then Inl (DocumentApplicationError 500 ''duplicate block_index'')
      else if sum_list (map (\<lambda>(_, cs). length cs) (br_children_by_parent_index r)) = 0
      then Inl (DocumentApplicationError 400 ''no child chunk'')
      else if \<not> set (map fst (br_children_by_parent_index r)) \<subseteq> set indices
      then Inl (DocumentApplicationError 500 ''unknown parent block'')
      else case List.map_filter (\<lambda>(_, cs). child_list_error cs) (br_children_by_parent_index r) of
        [] \<Rightarrow> Inr () | e # _ \<Rightarrow> Inl e)"

definition execute_chunking :: "chunking_context \<Rightarrow> file_system \<Rightarrow> chunk_build_result result" where
  "execute_chunking ctx fs =
     (if \<not> path_exists fs (kx_cleaned_path ctx)
      then Inl (DocumentApplicationError 404 ''cleaned file does not exist'')
      else case file_text fs (kx_cleaned_path ctx) of
        None \<Rightarrow> Inl (DocumentApplicationError 400 ''cleaned path is no file'')
      | Some t \<Rightarrow>
          bind (get_chunker (kx_chunk_source_type ctx)) (\<lambda>build.
          bind (build (kx_process_metadata ctx) t) (\<lambda>r.
          bind (validate_chunk_build_result r) (\<lambda>_. Inr r))))"

section \<open>Registration\<close>

definition dec :: "nat \<Rightarrow> string" where
  "dec n = map char_of (json_nat n)"

text \<open>\<open>f"{n:04d}"\<close>.\<close>

definition dec4 :: "nat \<Rightarrow> string" where
  "dec4 n = replicate (4 - length (dec n)) CHR ''0'' @ dec n"

definition generate_parent_code :: "string \<Rightarrow> string \<Rightarrow> nat \<Rightarrow> string" where
  "generate_parent_code hex code block =
     ''PB_'' @ code @ ''_'' @ dec4 block @ ''_'' @ py_upper_ascii (take 6 hex)"

definition generate_chunk_code :: "string \<Rightarrow> string \<Rightarrow> nat \<Rightarrow> nat \<Rightarrow> string" where
  "generate_chunk_code hex code block chunk =
     ''CK_'' @ code @ ''_'' @ dec4 block @ ''_'' @ dec4 chunk @ ''_'' @ py_upper_ascii (take 6 hex)"

definition build_parent_block :: "document_ports \<Rightarrow> string \<Rightarrow> chunking_context \<Rightarrow> parent_block_data \<Rightarrow> parent_block" where
  "build_parent_block ports hex ctx p =
     \<lparr>pb_id = 0, pb_parent_code = generate_parent_code hex (kx_doc_code ctx) (pd_block_index p),
      pb_kb_id = kx_kb_id ctx, pb_doc_id = kx_document_id ctx,
      pb_domain_code = kx_domain_code ctx, pb_business_scene = kx_business_scene ctx,
      pb_data = p, pb_content_hash = port_md5_text ports (pd_content p), pb_active = True,
      pb_version = kx_version ctx\<rparr>"

definition build_child_chunk :: "string \<Rightarrow> chunking_context \<Rightarrow> int \<Rightarrow> nat \<Rightarrow> child_chunk_data \<Rightarrow> child_chunk" where
  "build_child_chunk hex ctx parent_id parent_index c =
     \<lparr>cc_id = 0,
      cc_chunk_code = generate_chunk_code hex (kx_doc_code ctx) parent_index (cd_chunk_index c),
      cc_parent_id = parent_id, cc_doc_id = kx_document_id ctx, cc_kb_id = kx_kb_id ctx,
      cc_domain_code = kx_domain_code ctx, cc_business_scene = kx_business_scene ctx,
      cc_data = c, cc_vector_status = VS_PENDING, cc_qdrant_point_id = None, cc_active = True,
      cc_version = kx_version ctx, cc_indexed_at = None\<rparr>"

text \<open>
  The children of the saved parents in order, each with the key of its parent; \<open>n\<close> counts the
  \<open>uuid4()\<close> calls.
\<close>

fun child_rows :: "uuids \<Rightarrow> nat \<Rightarrow> chunking_context \<Rightarrow> (int \<times> nat \<times> child_chunk_data) list \<Rightarrow> child_chunk list" where
  "child_rows u n ctx [] = []"
| "child_rows u n ctx ((pid, index, c) # cs) =
     build_child_chunk (u n) ctx pid index c # child_rows u (n + 1) ctx cs"

definition placed_children :: "chunk_build_result \<Rightarrow> parent_block list \<Rightarrow> (int \<times> nat \<times> child_chunk_data) list" where
  "placed_children r saved = concat (map (\<lambda>p.
     let i = pd_block_index p;
         pid = (case find (\<lambda>b. pd_block_index (pb_data b) = i) (rev saved) of
                  Some b \<Rightarrow> pb_id b | None \<Rightarrow> 0) in
     map (\<lambda>c. (pid, i, c))
       (case map_of (br_children_by_parent_index r) i of Some cs \<Rightarrow> cs | None \<Rightarrow> []))
     (br_parents r))"

record build_chunks_result =
  bcr_document_id :: int
  bcr_doc_code :: string
  bcr_source_type :: string
  bcr_parent_count :: nat
  bcr_child_count :: nat

definition complete_chunking ::
  "document_ports \<Rightarrow> uuids \<Rightarrow> chunking_context \<Rightarrow> chunk_build_result \<Rightarrow> document_db \<Rightarrow>
     (build_chunks_result \<times> document_db) result" where
  "complete_chunking ports u ctx r db =
     bind (still_owned ''ChunkingAbortedError'' DOC_CHUNKING (kx_document_id ctx) (kx_operation_id ctx) db)
       (\<lambda>d.
     let db1 = block_delete_by_doc_id (doc_id d) (chunk_delete_by_doc_id (doc_id d) db);
         blocks = map (\<lambda>(i, p). build_parent_block ports (u i) ctx p) (enumerate 0 (br_parents r)) in
     bind (block_create_many blocks db1) (\<lambda>(saved, db2).
     let children = child_rows u (length blocks) ctx (placed_children r saved) in
     bind (chunk_create_many children db2) (\<lambda>db3.
     Inr (\<lparr>bcr_document_id = doc_id d, bcr_doc_code = doc_code d, bcr_source_type = doc_source_type d,
           bcr_parent_count = length blocks, bcr_child_count = length children\<rparr>,
          document_save (d\<lparr>doc_status := DOC_CHUNKED, doc_active_operation_id := None\<rparr>) db3))))"

definition build_document_chunks ::
  "document_ports \<Rightarrow> uuids \<Rightarrow> int \<Rightarrow> ident \<Rightarrow> document_db \<Rightarrow> file_system \<Rightarrow>
     build_chunks_result result \<times> document_db" where
  "build_document_chunks ports u did op db fs =
     (let err = (\<lambda>e. Inl (reported ''ChunkingAbortedError'' e)) in
      case claim_chunking did op db of
        Inl e \<Rightarrow> (err e, db)
      | Inr (ctx, db1) \<Rightarrow>
          (case bind (execute_chunking ctx fs) (\<lambda>r. complete_chunking ports u ctx r db1) of
             Inl e \<Rightarrow> (err e, db1)
           | Inr (res, db2) \<Rightarrow> (Inr res, db2)))"

section \<open>Compensation\<close>

definition fail_chunking :: "int \<Rightarrow> ident \<Rightarrow> document_db \<Rightarrow> failure_state \<times> document_db" where
  "fail_chunking did op db =
     (case document_get_by_id did db of
        None \<Rightarrow> (NO_FAILURE_STATE_CHANGE, db)
      | Some d \<Rightarrow>
          if doc_status d = DOC_CHUNKING \<and> doc_active_operation_id d = Some op
          then (\<lparr>fs_state_updated = True, fs_status_before = Some (doc_status d),
                 fs_status_after = Some DOC_FAILED\<rparr>,
                document_save (d\<lparr>doc_status := DOC_FAILED, doc_active_operation_id := None\<rparr>) db)
          else (\<lparr>fs_state_updated = False, fs_status_before = Some (doc_status d),
                 fs_status_after = Some (doc_status d)\<rparr>, db))"

end
