(* ===== verification/Document_Index.thy ===== *)
theory Document_Index
  imports Document_Chunks
begin

text \<open>
  Stage 4 of the document pipeline (\<open>use_cases/index_vectors.py\<close>): claiming the chunks of a
  document, embedding them in batches, writing their points to the vector store, registering them,
  and the compensation that deletes the points of an abandoned operation.  The vector store maps
  point ids to points; the embedding service is a parameter.  Components of vectors are opaque
  numbers, only their count is looked at.
\<close>

section \<open>Snapshots\<close>

record indexing_chunk =
  ic_chunk_id :: int
  ic_chunk_code :: string
  ic_embedding_text :: utext
  ic_parent_id :: int
  ic_doc_id :: int
  ic_kb_id :: int
  ic_domain_code :: string
  ic_business_scene :: "string option"
  ic_chunk_index :: nat
  ic_section_path :: "utext list option"
  ic_source_row_index :: "nat option"

record indexing_context =
  ix_document_id :: int
  ix_source_type :: string
  ix_title :: string
  ix_original_filename :: "string option"
  ix_chunks :: "indexing_chunk list"
  ix_status_before :: document_status
  ix_pending_count :: nat
  ix_retry_count :: nat
  ix_operation_id :: ident

record point =
  pt_vector :: "int list"
  pt_document_id :: int
  pt_kb_id :: int
  pt_parent_block_id :: int
  pt_child_chunk_id :: int
  pt_chunk_index :: nat
  pt_chunk_code :: string
  pt_section_path :: "utext list option"
  pt_source_row_index :: "nat option"
  pt_domain_code :: string
  pt_business_scene :: "string option"
  pt_source_type :: string
  pt_title :: string
  pt_original_filename :: "string option"
  pt_operation_id :: ident

text \<open>The vector store (\<open>vector_store/qdrant.py\<close>): writing replaces, deleting ignores absent ids.\<close>

type_synonym vector_store = "(int \<times> point) list"

definition upsert_points :: "(int \<times> point) list \<Rightarrow> vector_store \<Rightarrow> vector_store" where
  "upsert_points ps vs = fold (\<lambda>(i, p) acc. (i, p) # filter (\<lambda>(j, _). j \<noteq> i) acc) ps vs"

definition delete_points :: "int list \<Rightarrow> vector_store \<Rightarrow> vector_store" where
  "delete_points ids vs = filter (\<lambda>(i, _). i \<notin> set ids) vs"

record indexing_settings =
  embedding_batch_size :: int
  embedding_vector_size :: nat

section \<open>Claim\<close>

definition INDEXABLE_VECTOR_STATUSES :: "vector_status list" where
  "INDEXABLE_VECTOR_STATUSES = [VS_PENDING, VS_FAILED]"

definition validate_indexing_chunk_ownership :: "document \<Rightarrow> child_chunk list \<Rightarrow> unit result" where
  "validate_indexing_chunk_ownership d cs =
     (if list_ex (\<lambda>c. cc_doc_id c \<noteq> doc_id d) cs
      then Inl (RuntimeError ''chunk of another document'')
      else if list_ex (\<lambda>c. cc_kb_id c \<noteq> doc_kb_id d) cs
      then Inl (RuntimeError ''chunk of another knowledge base'')
      else if list_ex (\<lambda>c. cc_domain_code c \<noteq> doc_domain_code d) cs
      then Inl (RuntimeError ''chunk of another domain'') else Inr ())"

definition to_chunk_input :: "child_chunk \<Rightarrow> indexing_chunk" where
  "to_chunk_input c =
     \<lparr>ic_chunk_id = cc_id c, ic_chunk_code = cc_chunk_code c,
      ic_embedding_text = cd_embedding_text (cc_data c), ic_parent_id = cc_parent_id c,
      ic_doc_id = cc_doc_id c, ic_kb_id = cc_kb_id c, ic_domain_code = cc_domain_code c,
      ic_business_scene = cc_business_scene c, ic_chunk_index = cd_chunk_index (cc_data c),
      ic_section_path = cd_section_path (cc_data c),
      ic_source_row_index = cd_source_row_index (cc_data c)\<rparr>"

definition claim_indexing :: "int \<Rightarrow> ident \<Rightarrow> document_db \<Rightarrow> (indexing_context \<times> document_db) result" where
  "claim_indexing did op db =
     bind (claimable [DOC_CHUNKED, DOC_FAILED] did db) (\<lambda>d.
     if chunk_exists_by_vector_status (doc_id d) VS_INDEXING db
     then Inl (DocumentApplicationError 409 ''unfinished indexing, recover first'')
     else
       let chunks = chunk_list_indexable (doc_id d) INDEXABLE_VECTOR_STATUSES db in
       if chunks = [] then Inl (DocumentApplicationError 409 ''no chunk to index'')
       else bind (validate_indexing_chunk_ownership d chunks) (\<lambda>_.
         Inr (\<lparr>ix_document_id = doc_id d, ix_source_type = doc_source_type d,
               ix_title = doc_title d, ix_original_filename = doc_original_filename d,
               ix_chunks = map to_chunk_input chunks, ix_status_before = doc_status d,
               ix_pending_count = length (filter (\<lambda>c. cc_vector_status c = VS_PENDING) chunks),
               ix_retry_count = length (filter (\<lambda>c. cc_vector_status c = VS_FAILED) chunks),
               ix_operation_id = op\<rparr>,
              take_over DOC_INDEXING op d (chunk_mark_indexing chunks db))))"

section \<open>Execution\<close>

definition validate_vectors :: "nat \<Rightarrow> indexing_chunk list \<Rightarrow> int list list \<Rightarrow> unit result" where
  "validate_vectors dim batch vectors =
     (if length vectors \<noteq> length batch then Inl (RuntimeError ''wrong number of embeddings'')
      else if list_ex (\<lambda>v. length v \<noteq> dim) vectors
      then Inl (RuntimeError ''wrong embedding dimension'') else Inr ())"

definition build_point :: "indexing_context \<Rightarrow> indexing_chunk \<Rightarrow> int list \<Rightarrow> int \<times> point" where
  "build_point ctx c v =
     (ic_chunk_id c,
      \<lparr>pt_vector = v, pt_document_id = ic_doc_id c, pt_kb_id = ic_kb_id c,
       pt_parent_block_id = ic_parent_id c, pt_child_chunk_id = ic_chunk_id c,
       pt_chunk_index = ic_chunk_index c, pt_chunk_code = ic_chunk_code c,
       pt_section_path = ic_section_path c, pt_source_row_index = ic_source_row_index c,
       pt_domain_code = ic_domain_code c, pt_business_scene = ic_business_scene c,
       pt_source_type = ix_source_type ctx, pt_title = ix_title ctx,
       pt_original_filename = ix_original_filename ctx,
       pt_operation_id = ix_operation_id ctx\<rparr>)"

text \<open>\<open>context.chunks[start:start + size]\<close> for every multiple of a positive size.\<close>

function batches :: "nat \<Rightarrow> 'a list \<Rightarrow> 'a list list" where
  "batches n xs = (if n = 0 \<or> xs = [] then [] else take n xs # batches n (drop n xs))"
  by pat_completeness auto
termination batches
  by (relation "measure (\<lambda>(_, xs). length xs)") auto

declare batches.simps [simp del]

definition assert_indexing_owned :: "indexing_context \<Rightarrow> document_db \<Rightarrow> unit result" where
  "assert_indexing_owned ctx db =
     (case document_get_by_id (ix_document_id ctx) db of
        None \<Rightarrow> Inl (OtherException ''IndexingAbortedError'' ''ownership lost'')
      | Some d \<Rightarrow>
          if doc_status d \<noteq> DOC_INDEXING \<or> doc_active_operation_id d \<noteq> Some (ix_operation_id ctx)
          then Inl (OtherException ''IndexingAbortedError'' ''ownership lost'') else Inr ())"

text \<open>The points of one batch: the embedding call, its validation, the construction.\<close>

definition batch_points ::
  "indexing_settings \<Rightarrow> (utext list \<Rightarrow> int list list result) \<Rightarrow> indexing_context \<Rightarrow>
     indexing_chunk list \<Rightarrow> (int \<times> point) list result" where
  "batch_points st embedder ctx batch =
     (case embedder (map ic_embedding_text batch) of
        Inl _ \<Rightarrow> Inl (OtherException ''IndexingExecutionError'' ''embedding'')
      | Inr vectors \<Rightarrow>
          (case validate_vectors (embedding_vector_size st) batch vectors of
             Inl _ \<Rightarrow> Inl (OtherException ''IndexingExecutionError'' ''vector_validation'')
           | Inr _ \<Rightarrow> Inr (map2 (build_point ctx) batch vectors)))"

fun index_batches ::
  "indexing_settings \<Rightarrow> (utext list \<Rightarrow> int list list result) \<Rightarrow> indexing_context \<Rightarrow> document_db \<Rightarrow>
     indexing_chunk list list \<Rightarrow> vector_store \<Rightarrow> unit result \<times> vector_store" where
  "index_batches st embedder ctx db [] vs = (Inr (), vs)"
| "index_batches st embedder ctx db (b # bs) vs =
     (case bind (batch_points st embedder ctx b) (\<lambda>ps.
             bind (assert_indexing_owned ctx db) (\<lambda>_. Inr ps)) of
        Inl e \<Rightarrow> (Inl e, vs)
      | Inr ps \<Rightarrow> index_batches st embedder ctx db bs (upsert_points ps vs))"

definition execute_indexing ::
  "indexing_settings \<Rightarrow> (utext list \<Rightarrow> int list list result) \<Rightarrow> indexing_context \<Rightarrow> document_db \<Rightarrow>
     vector_store \<Rightarrow> unit result \<times> vector_store" where
  "execute_indexing st embedder ctx db vs =
     (if embedding_batch_size st \<le> 0
      then (Inl (OtherException ''IndexingExecutionError'' ''vector_validation''), vs)
      else index_batches st embedder ctx db
             (batches (nat (embedding_batch_size st)) (ix_chunks ctx)) vs)"

section \<open>Registration\<close>

record index_vectors_result =
  ivr_document_id :: int
  ivr_total_chunks :: nat
  ivr_indexed_chunks :: nat
  ivr_failed_chunks :: nat

definition context_chunk_ids :: "indexing_context \<Rightarrow> int list" where
  "context_chunk_ids ctx = map ic_chunk_id (ix_chunks ctx)"

definition complete_indexing ::
  "time \<Rightarrow> indexing_context \<Rightarrow> document_db \<Rightarrow> (index_vectors_result \<times> document_db) result" where
  "complete_indexing now ctx db =
     bind (still_owned ''IndexingAbortedError'' DOC_INDEXING (ix_document_id ctx) (ix_operation_id ctx) db)
       (\<lambda>d.
     let ids = context_chunk_ids ctx; chunks = chunk_list_by_ids (doc_id d) ids db in
     if length chunks \<noteq> length ids \<or> list_ex (\<lambda>c. cc_vector_status c \<noteq> VS_INDEXING) chunks
     then Inl (OtherException ''IndexingAbortedError'' ''chunks have changed'')
     else
       let db1 = chunk_mark_indexed_many now chunks db in
       if chunk_count_active_not_indexed (doc_id d) db1 > 0
       then Inl (OtherException ''IndexingAbortedError'' ''chunks are left over'')
       else Inr (\<lparr>ivr_document_id = doc_id d, ivr_total_chunks = length chunks,
                  ivr_indexed_chunks = length chunks, ivr_failed_chunks = 0\<rparr>,
                 document_save (d\<lparr>doc_status := DOC_INDEXED, doc_active_operation_id := None,
                   doc_indexed_at := Some now\<rparr>) db1))"

definition index_document_vectors ::
  "indexing_settings \<Rightarrow> (utext list \<Rightarrow> int list list result) \<Rightarrow> time \<Rightarrow> int \<Rightarrow> ident \<Rightarrow> document_db \<Rightarrow>
     vector_store \<Rightarrow> index_vectors_result result \<times> document_db \<times> vector_store" where
  "index_document_vectors st embedder now did op db vs =
     (let err = (\<lambda>e. Inl (reported ''IndexingAbortedError'' e)) in
      case claim_indexing did op db of
        Inl e \<Rightarrow> (err e, db, vs)
      | Inr (ctx, db1) \<Rightarrow>
          (case execute_indexing st embedder ctx db1 vs of
             (Inl e, vs1) \<Rightarrow> (err e, db1, vs1)
           | (Inr _, vs1) \<Rightarrow>
               (case complete_indexing now ctx db1 of
                  Inl e \<Rightarrow> (err e, db1, vs1)
                | Inr (r, db2) \<Rightarrow> (Inr r, db2, vs1))))"

section \<open>Compensation\<close>

record compensation_snapshot =
  sn_document_id :: int
  sn_chunk_ids :: "int list"
  sn_status_before :: document_status

definition prepare_index_compensation ::
  "int \<Rightarrow> ident \<Rightarrow> document_db \<Rightarrow> compensation_snapshot option \<times> document_db" where
  "prepare_index_compensation did op db =
     (case document_get_by_id did db of
        None \<Rightarrow> (None, db)
      | Some d \<Rightarrow>
          if doc_active_operation_id d \<noteq> Some op \<or> doc_status d \<notin> {DOC_INDEXING, DOC_FAILED}
          then (None, db)
          else
            (Some \<lparr>sn_document_id = doc_id d,
               sn_chunk_ids = map cc_id (chunk_list_indexable (doc_id d) [VS_INDEXING] db),
               sn_status_before = doc_status d\<rparr>,
             if doc_status d = DOC_INDEXING
             then document_save (d\<lparr>doc_status := DOC_FAILED\<rparr>) db else db))"

record index_failure_state =
  if_document_updated :: bool
  if_chunk_count :: nat
  if_status_before :: "document_status option"
  if_status_after :: "document_status option"

definition NO_INDEX_FAILURE_STATE_CHANGE :: index_failure_state where
  "NO_INDEX_FAILURE_STATE_CHANGE = \<lparr>if_document_updated = False, if_chunk_count = 0,
     if_status_before = None, if_status_after = None\<rparr>"

definition complete_index_compensation ::
  "compensation_snapshot \<Rightarrow> ident \<Rightarrow> document_db \<Rightarrow> index_failure_state \<times> document_db" where
  "complete_index_compensation sn op db =
     (case document_get_by_id (sn_document_id sn) db of
        None \<Rightarrow> (NO_INDEX_FAILURE_STATE_CHANGE, db)
      | Some d \<Rightarrow>
          if doc_active_operation_id d \<noteq> Some op \<or> doc_status d \<noteq> DOC_FAILED
          then (NO_INDEX_FAILURE_STATE_CHANGE, db)
          else
            (let chunks = chunk_list_by_ids (doc_id d) (sn_chunk_ids sn) db in
             (\<lparr>if_document_updated = (sn_status_before sn \<noteq> doc_status d),
               if_chunk_count = length (filter (\<lambda>c. cc_vector_status c = VS_INDEXING) chunks),
               if_status_before = Some (sn_status_before sn),
               if_status_after = Some (doc_status d)\<rparr>,
              document_save (d\<lparr>doc_active_operation_id := None\<rparr>) (chunk_mark_failed chunks db))))"

definition compensate_indexing ::
  "int \<Rightarrow> ident \<Rightarrow> document_db \<Rightarrow> vector_store \<Rightarrow> index_failure_state \<times> document_db \<times> vector_store" where
  "compensate_indexing did op db vs =
     (case prepare_index_compensation did op db of
        (None, db1) \<Rightarrow> (NO_INDEX_FAILURE_STATE_CHANGE, db1, vs)
      | (Some sn, db1) \<Rightarrow>
          (let (r, db2) = complete_index_compensation sn op db1 in
           (r, db2, delete_points (sn_chunk_ids sn) vs)))"

end
