(* ===== verification/Document_Lifecycle.thy ===== *)
theory Document_Lifecycle
  imports Document_Process
begin

text \<open>
  Stage 1 of the document pipeline, the upload (\<open>use_cases/upload_document.py\<close>,
  \<open>infrastructure/storage/local.py\<close>), and the change of a document's business life cycle
  (\<open>use_cases/change_lifecycle.py\<close>).
\<close>

section \<open>Upload\<close>

definition http_error :: "string \<Rightarrow> error" where
  "http_error detail = OtherException ''HTTPException'' detail"

text \<open>\<open>needle in s\<close>.\<close>

definition contains_text :: "string \<Rightarrow> string \<Rightarrow> bool" where
  "contains_text needle s = sublist needle s"

definition validate_filename :: "string \<Rightarrow> unit result" where
  "validate_filename filename =
     (if filename = [] then Inl (http_error ''file name is empty'')
      else if list_ex (\<lambda>bad. contains_text bad filename) [''..'', ''/'', [CHR 0x5C], [CHR 0x00]]
      then Inl (http_error ''file name has illegal characters'') else Inr ())"

definition ALLOWED_EXTENSIONS :: "string list" where
  "ALLOWED_EXTENSIONS = [''pdf'', ''md'', ''markdown'', ''csv'', ''txt'', ''doc'', ''docx'', ''ppt'', ''pptx'']"

definition ALLOWED_CONTENT_TYPES :: "string list" where
  "ALLOWED_CONTENT_TYPES =
     [''text/plain'', ''text/markdown'', ''text/x-markdown'', ''text/csv'', ''application/csv'',
      ''application/vnd.ms-excel'', ''application/pdf'', ''application/msword'',
      ''application/vnd.openxmlformats-officedocument.wordprocessingml.document'',
      ''application/vnd.ms-powerpoint'',
      ''application/vnd.openxmlformats-officedocument.presentationml.presentation'',
      ''application/octet-stream'']"

definition get_safe_extension :: "string \<Rightarrow> string result" where
  "get_safe_extension filename =
     bind (validate_filename filename) (\<lambda>_.
     if CHR ''.'' \<notin> set filename then Inl (http_error ''no extension'')
     else
       let ext = py_strip (py_lower (rev (takeWhile (\<lambda>c. c \<noteq> CHR ''.'') (rev filename)))) in
       if ext \<in> set ALLOWED_EXTENSIONS then Inr ext else Inl (http_error ''unsupported type''))"

definition validate_content_type :: "string option \<Rightarrow> unit result" where
  "validate_content_type ct =
     (if ct \<in> Some ` set ALLOWED_CONTENT_TYPES then Inr ()
      else Inl (http_error ''unsupported Content-Type''))"

record upload_file =
  uf_filename :: "string option"
  uf_content_type :: "string option"
  uf_content :: utext

record upload_metadata =
  um_title :: string
  um_kb_id :: int
  um_domain_code :: string
  um_business_scene :: "string option"
  um_risk_level :: string
  um_effective_at :: "time option"
  um_expired_at :: "time option"

record upload_settings =
  raw_local_storage_dir :: path
  raw_external_storage_dir :: path
  max_upload_file_size :: int
  default_document_version :: int
  default_created_by_actor_code :: string

definition get_initial_lifecycle_status :: "time \<Rightarrow> time option \<Rightarrow> lifecycle_status" where
  "get_initial_lifecycle_status now effective_at =
     (case effective_at of Some e \<Rightarrow> if e > now then LC_SCHEDULED else LC_ACTIVE | None \<Rightarrow> LC_ACTIVE)"

definition get_raw_storage_dir :: "string \<Rightarrow> upload_settings \<Rightarrow> path" where
  "get_raw_storage_dir source_type st =
     (if requires_external_processing source_type then raw_external_storage_dir st
      else raw_local_storage_dir st)"

text \<open>The row that the use case creates; \<open>doc_id\<close> is set by the insert.\<close>

definition new_document ::
  "upload_settings \<Rightarrow> time \<Rightarrow> string \<Rightarrow> upload_metadata \<Rightarrow> string option \<Rightarrow> string \<Rightarrow> string \<Rightarrow> path \<Rightarrow> string \<Rightarrow>
     int \<Rightarrow> document" where
  "new_document st now code m actor filename source_type save_path content_hash byte_count =
     \<lparr>doc_id = 0, doc_code = code, doc_kb_id = um_kb_id m, doc_domain_code = um_domain_code m,
      doc_business_scene = um_business_scene m, doc_title = um_title m,
      doc_source_type = source_type, doc_source_uri = save_path, doc_cleaned_uri = None,
      doc_content_hash = content_hash, doc_active_content_hash = Some content_hash,
      doc_lifecycle_status = get_initial_lifecycle_status now (um_effective_at m),
      doc_storage_status = ST_ACTIVE, doc_version = default_document_version st,
      doc_status = DOC_UPLOADED, doc_active_operation_id = None, doc_replaced_by = None,
      doc_risk_level = Some (um_risk_level m), doc_effective_at = um_effective_at m,
      doc_expired_at = um_expired_at m,
      doc_created_by = Some (case actor of Some a \<Rightarrow> if a = [] then default_created_by_actor_code st else a
        | None \<Rightarrow> default_created_by_actor_code st),
      doc_original_filename = Some filename, doc_file_size = Some byte_count, doc_indexed_at = None\<rparr>"

text \<open>The transaction: the duplicate check, then the insert, whose unique key closes the race.\<close>

definition register_upload :: "document \<Rightarrow> document_db \<Rightarrow> (document \<times> document_db) result" where
  "register_upload d db =
     (case document_get_active_by_hash (doc_kb_id d) (doc_content_hash d) db of
        Some dup \<Rightarrow> Inl (DocumentApplicationError 409 (''same file exists: '' @ doc_code dup))
      | None \<Rightarrow>
          (case document_create d db of
             Inl (IntegrityError name) \<Rightarrow>
               Inl (if name = ''uq_documents_kb_active_content_hash''
                    then DocumentApplicationError 409 ''same file exists in this knowledge base''
                    else IntegrityError name)
           | r \<Rightarrow> r))"

text \<open>
  The use case: an error before the commit removes the saved file.  \<open>code\<close> is the generated
  document code; the size limit is checked while the file is read, so an oversized file is never
  stored completely.
\<close>

definition upload_document ::
  "document_ports \<Rightarrow> upload_settings \<Rightarrow> time \<Rightarrow> string \<Rightarrow> upload_file \<Rightarrow> upload_metadata \<Rightarrow> string option \<Rightarrow>
     document_db \<Rightarrow> file_system \<Rightarrow> document result \<times> document_db \<times> file_system" where
  "upload_document ports st now code f m actor db fs =
     (case uf_filename f of
        None \<Rightarrow> (Inl (DocumentApplicationError 400 ''a file is required''), db, fs)
      | Some filename \<Rightarrow>
          if filename = [] then (Inl (DocumentApplicationError 400 ''a file is required''), db, fs)
          else case bind (validate_content_type (uf_content_type f)) (\<lambda>_. get_safe_extension filename) of
            Inl e \<Rightarrow> (Inl e, db, fs)
          | Inr ext \<Rightarrow>
              (let source_type = normalize_source_type ext;
                   save_path = get_raw_storage_dir source_type st @ [code @ ''.'' @ ext];
                   byte_count = utf8_size (uf_content f);
                   cleaned_up = filter (\<lambda>(q, _). q \<noteq> save_path) fs in
               if byte_count > max_upload_file_size st
               then (Inl (DocumentApplicationError 400 ''file is too large''), db, cleaned_up)
               else if byte_count = 0 then (Inl (DocumentApplicationError 400 ''file is empty''), db, cleaned_up)
               else case register_upload (new_document st now code m actor filename source_type save_path
                        (port_file_hash ports (uf_content f)) byte_count) db of
                 Inl e \<Rightarrow> (Inl e, db, cleaned_up)
               | Inr (d, db') \<Rightarrow> (Inr d, db', write_file save_path (uf_content f) fs)))"

section \<open>Change of the life cycle\<close>

definition DEACTIVATION_REASONS :: "lifecycle_status list" where
  "DEACTIVATION_REASONS = [LC_EXPIRED, LC_REPLACED, LC_DELETED]"

definition validate_replacement :: "time \<Rightarrow> document \<Rightarrow> document \<Rightarrow> unit result" where
  "validate_replacement now d r =
     (if doc_id r = doc_id d then Inl (DocumentApplicationError 400 ''document cannot replace itself'')
      else if doc_kb_id r \<noteq> doc_kb_id d
      then Inl (DocumentApplicationError 409 ''replacement of another knowledge base'')
      else if doc_status r \<noteq> DOC_INDEXED
      then Inl (DocumentApplicationError 409 ''replacement is not indexed'')
      else if doc_lifecycle_status r \<noteq> LC_ACTIVE
      then Inl (DocumentApplicationError 409 ''replacement is not active'')
      else if doc_storage_status r \<noteq> ST_ACTIVE
      then Inl (DocumentApplicationError 409 ''replacement is not in active storage'')
      else if \<exists>e\<in>set_option (doc_effective_at r). e > now
      then Inl (DocumentApplicationError 409 ''replacement is not effective yet'')
      else if \<exists>e\<in>set_option (doc_expired_at r). e \<le> now
      then Inl (DocumentApplicationError 409 ''replacement has expired'') else Inr ())"

definition replacement_check ::
  "time \<Rightarrow> lifecycle_status \<Rightarrow> int option \<Rightarrow> document \<Rightarrow> document_db \<Rightarrow> unit result" where
  "replacement_check now reason replaced_by d db =
     (if reason \<noteq> LC_REPLACED then Inr ()
      else case replaced_by of
        None \<Rightarrow> Inl (DocumentApplicationError 400 ''replacement is required'')
      | Some r \<Rightarrow>
          if r = doc_id d then Inl (DocumentApplicationError 400 ''document cannot replace itself'')
          else case document_get_by_id r db of
            None \<Rightarrow> Inl (DocumentApplicationError 404 ''replacement does not exist'')
          | Some replacement \<Rightarrow> validate_replacement now d replacement)"

definition deactivate_document ::
  "time \<Rightarrow> int \<Rightarrow> lifecycle_status \<Rightarrow> int option \<Rightarrow> document_db \<Rightarrow> (document \<times> document_db) result" where
  "deactivate_document now did reason replaced_by db =
     (if reason \<notin> set DEACTIVATION_REASONS then Inl (ValueError ''unsupported reason'')
      else case document_get_by_id did db of
        None \<Rightarrow> Inl document_not_found
      | Some d \<Rightarrow>
          if doc_lifecycle_status d = reason then
            (if reason = LC_REPLACED \<and> doc_replaced_by d \<noteq> replaced_by
             then Inl (DocumentApplicationError 409 ''document was replaced by another'')
             else Inr (d, db))
          else if doc_lifecycle_status d \<in> set DEACTIVATION_REASONS
          then Inl (DocumentApplicationError 409 ''document is inactive already'')
          else bind (replacement_check now reason replaced_by d db) (\<lambda>_.
            let d' = document_deactivate reason replaced_by d in Inr (d', document_save d' db)))"

end
