(* ===== verification/Executors.thy ===== *)
theory Executors
  imports Task_Runtime Document_Query Document_Chunks Document_Index Document_Lifecycle
begin

text \<open>
  Where the task runtime meets the document pipeline: the command tools of the executor agents
  (document/agent_tools/command_tools.py), the executors that the runtime calls
  (task_runtime/infrastructure/executors: an agent run with one command tool, or the use case
  itself when no model is configured) and the compensators (infrastructure/compensators).

  A use case answers a result and a new state, because a failing one leaves its claim behind.  What
  a run of an agent did is an input (\<open>agent_report\<close>); the exception classes behind
  a reported failure, which the use case does not pass on, are the parameter \<open>causes\<close>.
\<close>

section \<open>Correlation of an operation (shared/observability/correlation.py)\<close>

record operation_context =
  oc_workflow_id :: ident
  oc_operation_id :: ident
  oc_attempt :: int
  oc_parent_operation_id :: "ident option"

definition checked_operation_context ::
  "ident \<Rightarrow> ident \<Rightarrow> int \<Rightarrow> ident option \<Rightarrow> operation_context result" where
  "checked_operation_context workflow_id operation_id attempt parent =
     (if py_strip workflow_id = [] then Inl (ValueError ''workflow_id must not be empty'')
      else if py_strip operation_id = [] then Inl (ValueError ''operation_id must not be empty'')
      else if attempt < 1 then Inl (ValueError ''attempt must be at least 1'')
      else Inr \<lparr>oc_workflow_id = workflow_id, oc_operation_id = operation_id, oc_attempt = attempt,
                oc_parent_operation_id = parent\<rparr>)"

text \<open>\<open>v or uuid4().hex\<close>: an absent and an empty identifier are both drawn anew.\<close>

definition given_or :: "string \<Rightarrow> ident option \<Rightarrow> ident" where
  "given_or fresh v = (case v of None \<Rightarrow> fresh | Some x \<Rightarrow> if x = [] then fresh else x)"

definition create_operation_context ::
  "uuids \<Rightarrow> ident option \<Rightarrow> ident option \<Rightarrow> int \<Rightarrow> ident option \<Rightarrow> operation_context result" where
  "create_operation_context u workflow_id operation_id attempt parent =
     checked_operation_context (given_or (u 0) workflow_id) (given_or (u 1) operation_id) attempt parent"

section \<open>The use cases with their state\<close>

text \<open>The database of the documents, the files and the vector store.\<close>

record document_state =
  dst_db :: document_db
  dst_files :: file_system
  dst_points :: vector_store

record document_services =
  dsv_ports :: document_ports
  dsv_processing :: processing_settings
  dsv_indexing :: indexing_settings
  dsv_embedder :: "utext list \<Rightarrow> int list list result"

definition run_process_document ::
  "document_services \<Rightarrow> time \<Rightarrow> uuids \<Rightarrow> int \<Rightarrow> ident \<Rightarrow> document_state \<Rightarrow>
     process_document_result result \<times> document_state" where
  "run_process_document sv now u did op s =
     (case process_document (dsv_ports sv) (dsv_processing sv) now u did op (dst_db s) (dst_files s) of
        (r, db, fs) \<Rightarrow> (r, s\<lparr>dst_db := db, dst_files := fs\<rparr>))"

definition run_build_chunks ::
  "document_services \<Rightarrow> uuids \<Rightarrow> int \<Rightarrow> ident \<Rightarrow> document_state \<Rightarrow>
     build_chunks_result result \<times> document_state" where
  "run_build_chunks sv u did op s =
     (case build_document_chunks (dsv_ports sv) u did op (dst_db s) (dst_files s) of
        (r, db) \<Rightarrow> (r, s\<lparr>dst_db := db\<rparr>))"

definition run_index_vectors ::
  "document_services \<Rightarrow> time \<Rightarrow> int \<Rightarrow> ident \<Rightarrow> document_state \<Rightarrow>
     index_vectors_result result \<times> document_state" where
  "run_index_vectors sv now did op s =
     (case index_document_vectors (dsv_indexing sv) (dsv_embedder sv) now did op (dst_db s)
         (dst_points s) of
        (r, db, vs) \<Rightarrow> (r, s\<lparr>dst_db := db, dst_points := vs\<rparr>))"

section \<open>Command tools\<close>

text \<open>
  \<open>execute_audited_tool_call\<close> for an operation that answers a result and a state: unlike a single
  transaction, a use case of several keeps what it did before it failed.
\<close>

definition audited_command ::
  "string list \<Rightarrow> string list \<Rightarrow> string list \<Rightarrow> string \<Rightarrow> string list \<Rightarrow> ('s \<Rightarrow> 'a result \<times> 's) \<Rightarrow> 's
   \<Rightarrow> (tool_error + 'a) \<times> audit_event list \<times> 's" where
  "audited_command granted required refs success_code causes op s =
     (case (case require_permissions granted required of Inl e \<Rightarrow> (Inl e, s) | Inr _ \<Rightarrow> op s) of
        (Inl e, s') \<Rightarrow>
          let d = classify_tool_error causes e refs in
          (Inl d,
           [InvocationStarted,
            if te_outcome d = TOOL_REJECTED
            then InvocationRejected (te_result_code d) (te_retryable d)
            else InvocationFailed (te_result_code d) (te_retryable d)], s')
      | (Inr v, s') \<Rightarrow> (Inr v, [InvocationStarted, InvocationSucceeded success_code], s'))"

text \<open>The part of \<open>AgentToolContext\<close> that the command tools read.\<close>

record tool_context =
  tcx_permissions :: "string list"
  tcx_workflow_id :: "ident option"
  tcx_operation_id :: "ident option"
  tcx_attempt :: int
  tcx_task_document_id :: "int option"

definition DOCUMENT_PROCESS_PERMISSION :: string where
  "DOCUMENT_PROCESS_PERMISSION = ''document:process''"

definition DOCUMENT_BUILD_CHUNKS_PERMISSION :: string where
  "DOCUMENT_BUILD_CHUNKS_PERMISSION = ''document:chunks:build''"

definition DOCUMENT_INDEX_VECTORS_PERMISSION :: string where
  "DOCUMENT_INDEX_VECTORS_PERMISSION = ''document:vectors:index''"

definition tool_operation_context :: "uuids \<Rightarrow> tool_context \<Rightarrow> operation_context result" where
  "tool_operation_context u ctx =
     create_operation_context u (tcx_workflow_id ctx) (tcx_operation_id ctx) (tcx_attempt ctx) None"

definition require_task_document_scope :: "tool_context \<Rightarrow> int \<Rightarrow> unit result" where
  "require_task_document_scope ctx did =
     require (tcx_task_document_id ctx = None \<or> tcx_task_document_id ctx = Some did)
       (OtherException ''AgentToolScopeError'' ''the Document Command leaves the resources of the Task'')"

definition execute_in_task_scope ::
  "tool_context \<Rightarrow> int \<Rightarrow> ('s \<Rightarrow> 'a result \<times> 's) \<Rightarrow> 's \<Rightarrow> 'a result \<times> 's" where
  "execute_in_task_scope ctx did op s =
     (case require_task_document_scope ctx did of Inl e \<Rightarrow> (Inl e, s) | Inr _ \<Rightarrow> op s)"

text \<open>The use case under the identity of the run, which is checked when it is made.\<close>

definition under_operation ::
  "operation_context result \<Rightarrow> (ident \<Rightarrow> 's \<Rightarrow> 'a result \<times> 's) \<Rightarrow> 's \<Rightarrow> 'a result \<times> 's" where
  "under_operation oc run s = (case oc of Inl e \<Rightarrow> (Inl e, s) | Inr c \<Rightarrow> run (oc_operation_id c) s)"

subsection \<open>Outputs\<close>

text \<open>The fields that the outputs of the three command tools have in common, then their own.\<close>

record command_output =
  tl_outcome :: tool_outcome
  tl_result_code :: string
  tl_message :: string
  tl_retryable :: bool
  tl_resource_refs :: "string list"
  tl_document_id :: int
  tl_document_status :: "string option"

record process_output = command_output +
  tl_cleaned_uri :: "string option"

record chunks_output = command_output +
  tl_parent_count :: "int option"
  tl_child_count :: "int option"

record index_output = command_output +
  tl_total_chunks :: "int option"
  tl_indexed_chunks :: "int option"
  tl_failed_chunks :: "int option"

text \<open>The chunk and the index use case answer the status text \<open>success\<close>, not the document's.\<close>

definition uri_text :: "path \<Rightarrow> string" where
  "uri_text p = join ''/'' p"

subsection \<open>Handlers\<close>

definition process_document_handler ::
  "document_services \<Rightarrow> time \<Rightarrow> uuids \<Rightarrow> string list \<Rightarrow> tool_context \<Rightarrow> int \<Rightarrow> document_state \<Rightarrow>
     process_output \<times> audit_event list \<times> document_state" where
  "process_document_handler sv now u causes ctx did s =
     (case audited_command (tcx_permissions ctx) [DOCUMENT_PROCESS_PERMISSION] [document_ref did]
         ''document_processed'' causes
         (execute_in_task_scope ctx did
           (under_operation (tool_operation_context u ctx) (run_process_document sv now u did))) s of
        (Inl d, ev, s') \<Rightarrow>
          (\<lparr>tl_outcome = te_outcome d, tl_result_code = te_result_code d, tl_message = te_message d,
            tl_retryable = te_retryable d, tl_resource_refs = te_resource_refs d,
            tl_document_id = did, tl_document_status = None, tl_cleaned_uri = None\<rparr>, ev, s')
      | (Inr r, ev, s') \<Rightarrow>
          (\<lparr>tl_outcome = TOOL_SUCCEEDED, tl_result_code = ''document_processed'',
            tl_message = ''document processed'', tl_retryable = False,
            tl_resource_refs = [document_ref did], tl_document_id = pdr_document_id r,
            tl_document_status = Some (document_status_value (pdr_status r)),
            tl_cleaned_uri = Some (uri_text (pdr_cleaned_uri r))\<rparr>, ev, s'))"

definition build_document_chunks_handler ::
  "document_services \<Rightarrow> uuids \<Rightarrow> string list \<Rightarrow> tool_context \<Rightarrow> int \<Rightarrow> document_state \<Rightarrow>
     chunks_output \<times> audit_event list \<times> document_state" where
  "build_document_chunks_handler sv u causes ctx did s =
     (case audited_command (tcx_permissions ctx) [DOCUMENT_BUILD_CHUNKS_PERMISSION] [document_ref did]
         ''document_chunks_built'' causes
         (execute_in_task_scope ctx did
           (under_operation (tool_operation_context u ctx) (run_build_chunks sv u did))) s of
        (Inl d, ev, s') \<Rightarrow>
          (\<lparr>tl_outcome = te_outcome d, tl_result_code = te_result_code d, tl_message = te_message d,
            tl_retryable = te_retryable d, tl_resource_refs = te_resource_refs d,
            tl_document_id = did, tl_document_status = None, tl_parent_count = None,
            tl_child_count = None\<rparr>, ev, s')
      | (Inr r, ev, s') \<Rightarrow>
          (\<lparr>tl_outcome = TOOL_SUCCEEDED, tl_result_code = ''document_chunks_built'',
            tl_message = ''document chunks built'', tl_retryable = False,
            tl_resource_refs = [document_ref did], tl_document_id = bcr_document_id r,
            tl_document_status = Some ''success'',
            tl_parent_count = Some (int (bcr_parent_count r)),
            tl_child_count = Some (int (bcr_child_count r))\<rparr>, ev, s'))"

definition index_document_vectors_handler ::
  "document_services \<Rightarrow> time \<Rightarrow> uuids \<Rightarrow> string list \<Rightarrow> tool_context \<Rightarrow> int \<Rightarrow> document_state \<Rightarrow>
     index_output \<times> audit_event list \<times> document_state" where
  "index_document_vectors_handler sv now u causes ctx did s =
     (case audited_command (tcx_permissions ctx) [DOCUMENT_INDEX_VECTORS_PERMISSION] [document_ref did]
         ''document_vectors_indexed'' causes
         (execute_in_task_scope ctx did
           (under_operation (tool_operation_context u ctx) (run_index_vectors sv now did))) s of
        (Inl d, ev, s') \<Rightarrow>
          (\<lparr>tl_outcome = te_outcome d, tl_result_code = te_result_code d, tl_message = te_message d,
            tl_retryable = te_retryable d, tl_resource_refs = te_resource_refs d,
            tl_document_id = did, tl_document_status = None, tl_total_chunks = None,
            tl_indexed_chunks = None, tl_failed_chunks = None\<rparr>, ev, s')
      | (Inr r, ev, s') \<Rightarrow>
          (\<lparr>tl_outcome = TOOL_SUCCEEDED, tl_result_code = ''document_vectors_indexed'',
            tl_message = ''document vectors indexed'', tl_retryable = False,
            tl_resource_refs = [document_ref did], tl_document_id = ivr_document_id r,
            tl_document_status = Some ''success'',
            tl_total_chunks = Some (int (ivr_total_chunks r)),
            tl_indexed_chunks = Some (int (ivr_indexed_chunks r)),
            tl_failed_chunks = Some (int (ivr_failed_chunks r))\<rparr>, ev, s'))"

section \<open>One run of an executor agent\<close>

text \<open>
  An executor agent has read-only tools and one command tool; the agent library runs it with one tool
  call at a time and ends the run with the output of the first call of the command (\<open>StopAtTools\<close>).
  The library and the model are outside: how a run went is an argument.  It called the command on a
  document, answered with a text (with what the text is as JSON, if it is), raised, or raised after
  a call of the command.
\<close>

datatype agent_report =
    Run_Called int
  | Run_Answered "json option"
  | Run_Raised string
  | Run_Raised_After int string

datatype 'o final_output = Tool_Result 'o | Output_Text "json option"

datatype 'o run_result = Run_Failed string | Run_Finished "'o final_output"

text \<open>What \<open>safe_tool_error_function\<close> answers for arguments that do not validate.\<close>

definition invalid_arguments_json :: json where
  "invalid_arguments_json = JObj
     [(''outcome'', JStr ''rejected''), (''result_code'', JStr ''invalid_tool_arguments''),
      (''message'', JStr ''the tool arguments are invalid''), (''retryable'', JBool False),
      (''resource_refs'', JList [])]"

text \<open>The tool validates its argument (\<open>gt=0\<close>) before the handler runs.\<close>

definition call_command ::
  "(int \<Rightarrow> 's \<Rightarrow> 'o \<times> 's) \<Rightarrow> int \<Rightarrow> 's \<Rightarrow> 'o final_output \<times> 's" where
  "call_command command did s =
     (if 0 < did then apfst Tool_Result (command did s)
      else (Output_Text (Some invalid_arguments_json), s))"

fun agent_run :: "(int \<Rightarrow> 's \<Rightarrow> 'o \<times> 's) \<Rightarrow> agent_report \<Rightarrow> 's \<Rightarrow> 'o run_result \<times> 's" where
  "agent_run command (Run_Called did) s = apfst Run_Finished (call_command command did s)"
| "agent_run command (Run_Answered j) s = (Run_Finished (Output_Text j), s)"
| "agent_run command (Run_Raised cls) s = (Run_Failed cls, s)"
| "agent_run command (Run_Raised_After did cls) s = (Run_Failed cls, snd (call_command command did s))"

subsection \<open>The output models\<close>

text \<open>
  A text output is read as JSON by the output model of the command tool: \<open>ToolResult\<close>'s five fields
  and the document are required, the rest may be missing.  (Coercions between the types of numbers,
  texts and flags that the validation library offers are left out.)
\<close>

fun str_field :: "json option \<Rightarrow> string result" where
  "str_field (Some (JStr s)) = Inr s"
| "str_field _ = Inl (ValidationError ''str'')"

fun int_field :: "json option \<Rightarrow> int result" where
  "int_field (Some (JInt i)) = Inr i"
| "int_field _ = Inl (ValidationError ''int'')"

fun bool_field :: "json option \<Rightarrow> bool result" where
  "bool_field (Some (JBool b)) = Inr b"
| "bool_field _ = Inl (ValidationError ''bool'')"

fun str_items :: "json list \<Rightarrow> string list result" where
  "str_items [] = Inr []"
| "str_items (j # js) = bind (str_field (Some j)) (\<lambda>s. bind (str_items js) (\<lambda>ss. Inr (s # ss)))"

fun str_list_field :: "json option \<Rightarrow> string list result" where
  "str_list_field (Some (JList js)) = str_items js"
| "str_list_field _ = Inl (ValidationError ''list'')"

text \<open>A field \<open>T | None = None\<close>.\<close>

definition optional_field :: "(json option \<Rightarrow> 'a result) \<Rightarrow> json option \<Rightarrow> 'a option result" where
  "optional_field f v =
     (if v = None \<or> v = Some JNull then Inr None else bind (f v) (\<lambda>x. Inr (Some x)))"

definition outcome_field :: "json option \<Rightarrow> tool_outcome result" where
  "outcome_field v = bind (str_field v) (\<lambda>s.
     if s = ''succeeded'' then Inr TOOL_SUCCEEDED
     else if s = ''rejected'' then Inr TOOL_REJECTED
     else if s = ''failed'' then Inr TOOL_FAILED
     else Inl (ValidationError ''literal''))"

definition command_output_model :: "json \<Rightarrow> command_output result" where
  "command_output_model j =
     bind (outcome_field (json_get j ''outcome'')) (\<lambda>oc.
     bind (str_field (json_get j ''result_code'')) (\<lambda>code.
     bind (str_field (json_get j ''message'')) (\<lambda>msg.
     bind (bool_field (json_get j ''retryable'')) (\<lambda>retryable.
     bind (str_list_field (json_get j ''resource_refs'')) (\<lambda>refs.
     bind (int_field (json_get j ''document_id'')) (\<lambda>did.
     bind (optional_field str_field (json_get j ''document_status'')) (\<lambda>status.
     Inr \<lparr>tl_outcome = oc, tl_result_code = code, tl_message = msg, tl_retryable = retryable,
          tl_resource_refs = refs, tl_document_id = did, tl_document_status = status\<rparr>)))))))"

definition process_output_model :: "json \<Rightarrow> process_output result" where
  "process_output_model j =
     bind (command_output_model j) (\<lambda>b.
     bind (optional_field str_field (json_get j ''cleaned_uri'')) (\<lambda>uri.
     Inr (command_output.extend b (process_output.fields uri))))"

definition chunks_output_model :: "json \<Rightarrow> chunks_output result" where
  "chunks_output_model j =
     bind (command_output_model j) (\<lambda>b.
     bind (optional_field int_field (json_get j ''parent_count'')) (\<lambda>parents.
     bind (optional_field int_field (json_get j ''child_count'')) (\<lambda>children.
     Inr (command_output.extend b (chunks_output.fields parents children)))))"

definition index_output_model :: "json \<Rightarrow> index_output result" where
  "index_output_model j =
     bind (command_output_model j) (\<lambda>b.
     bind (optional_field int_field (json_get j ''total_chunks'')) (\<lambda>total.
     bind (optional_field int_field (json_get j ''indexed_chunks'')) (\<lambda>indexed.
     bind (optional_field int_field (json_get j ''failed_chunks'')) (\<lambda>failed.
     Inr (command_output.extend b (index_output.fields total indexed failed))))))"

definition validate_tool_output :: "(json \<Rightarrow> 'o result) \<Rightarrow> 'o final_output \<Rightarrow> 'o result" where
  "validate_tool_output model out =
     (case out of
        Tool_Result o1 \<Rightarrow> Inr o1
      | Output_Text None \<Rightarrow> Inl (ValidationError ''json_invalid'')
      | Output_Text (Some j) \<Rightarrow> model j)"

subsection \<open>The adapters\<close>

text \<open>The task output models need every field, so a missing optional one is a validation error.\<close>

definition needed :: "'a option \<Rightarrow> 'a result" where
  "needed = of_option (ValidationError ''missing'')"

definition adapt_process_document_output :: "process_output \<Rightarrow> (json \<times> string list) result" where
  "adapt_process_document_output r =
     bind (needed (tl_document_status r)) (\<lambda>status.
     bind (needed (tl_cleaned_uri r)) (\<lambda>uri.
     Inr (JObj [(''document_id'', JInt (tl_document_id r)), (''status'', JStr status),
                (''cleaned_uri'', JStr uri)], tl_resource_refs r)))"

definition adapt_build_document_chunks_output :: "chunks_output \<Rightarrow> (json \<times> string list) result" where
  "adapt_build_document_chunks_output r =
     bind (needed (tl_document_status r)) (\<lambda>status.
     bind (needed (tl_parent_count r)) (\<lambda>parents.
     bind (needed (tl_child_count r)) (\<lambda>children.
     Inr (JObj [(''document_id'', JInt (tl_document_id r)), (''status'', JStr status),
                (''parent_count'', JInt parents), (''child_count'', JInt children)],
          tl_resource_refs r))))"

definition adapt_index_document_vectors_output :: "index_output \<Rightarrow> (json \<times> string list) result" where
  "adapt_index_document_vectors_output r =
     bind (needed (tl_document_status r)) (\<lambda>status.
     bind (needed (tl_indexed_chunks r)) (\<lambda>indexed.
     bind (needed (tl_failed_chunks r)) (\<lambda>failed.
     Inr (JObj [(''document_id'', JInt (tl_document_id r)), (''status'', JStr status),
                (''indexed_chunks'', JInt indexed), (''failed_chunks'', JInt failed)],
          tl_resource_refs r))))"

section \<open>Executors\<close>

definition task_failure :: "string \<Rightarrow> string \<Rightarrow> bool \<Rightarrow> bool \<Rightarrow> exec_outcome" where
  "task_failure code message retryable blocked =
     RaisedTask \<lparr>err_code = code, err_message = message, err_retryable = retryable,
       err_blocked = blocked\<rparr>"

text \<open>The document a task names: \<open>getattr(payload, ''document_id'')\<close> of the validated payload.\<close>

definition payload_document_id :: "json \<Rightarrow> int option" where
  "payload_document_id payload =
     (case json_get payload ''document_id'' of Some (JInt i) \<Rightarrow> Some i | _ \<Rightarrow> None)"

definition agent_tool_context :: "string list \<Rightarrow> runtime_context \<Rightarrow> int \<Rightarrow> tool_context" where
  "agent_tool_context permissions ctx did =
     \<lparr>tcx_permissions = permissions, tcx_workflow_id = Some (ctx_workflow_id ctx),
      tcx_operation_id = Some (ctx_operation_id ctx), tcx_attempt = ctx_attempt ctx,
      tcx_task_document_id = Some did\<rparr>"

definition command_verdict ::
  "('a command_output_scheme \<Rightarrow> (json \<times> string list) result) \<Rightarrow> int \<Rightarrow> 'a command_output_scheme \<Rightarrow>
     exec_outcome" where
  "command_verdict adapter did out =
     (if tl_document_id out \<noteq> did
      then task_failure ''task_scope_violation'' ''Command Tool Output is not about the Task'' False True
      else if tl_outcome out = TOOL_REJECTED
      then task_failure (tl_result_code out) (tl_message out) False True
      else if tl_outcome out = TOOL_FAILED
      then task_failure (tl_result_code out) (tl_message out) (tl_retryable out) False
      else case adapter out of
        Inl e \<Rightarrow> task_failure ''executor_invalid_command_output''
          ''Command Tool Output does not fit the Task result'' False False
      | Inr (j, refs) \<Rightarrow> Returned j refs)"

definition agent_task_executor ::
  "(json \<Rightarrow> 'a command_output_scheme result) \<Rightarrow> ('a command_output_scheme \<Rightarrow> (json \<times> string list) result) \<Rightarrow>
     string list \<Rightarrow> (tool_context \<Rightarrow> int \<Rightarrow> 's \<Rightarrow> 'a command_output_scheme \<times> audit_event list \<times> 's) \<Rightarrow>
     agent_report \<Rightarrow> json \<Rightarrow> runtime_context \<Rightarrow> 's \<Rightarrow> exec_outcome \<times> 's" where
  "agent_task_executor model adapter permissions handler report payload ctx s =
     (case payload_document_id payload of
        None \<Rightarrow> (task_failure ''executor_invalid_task_payload'' ''the Task Payload has no document_id''
                  False True, s)
      | Some did \<Rightarrow>
          (case agent_run
              (\<lambda>d s. case handler (agent_tool_context permissions ctx did) d s of (out, _, s') \<Rightarrow> (out, s'))
              report s of
             (Run_Failed cls, s') \<Rightarrow>
               (task_failure ''executor_agent_run_failed'' ''the Executor Agent run failed'' True False, s')
           | (Run_Finished final, s') \<Rightarrow>
               (case validate_tool_output model final of
                  Inl e \<Rightarrow> (task_failure ''executor_command_not_completed''
                    ''the Executor Agent gave no valid Command Tool Output'' True False, s')
                | Inr out \<Rightarrow> (command_verdict adapter did out, s'))))"

text \<open>
  A cancelled run (a timeout) is waited for until its side effects are over; only then does the
  cancellation reach the caller (\<open>_quiescence.py\<close>).
\<close>

definition await_side_effect_quiescence :: "bool \<Rightarrow> exec_outcome \<times> 's \<Rightarrow> exec_outcome \<times> 's" where
  "await_side_effect_quiescence cancelled r = (if cancelled then (TimedOut, snd r) else r)"

subsection \<open>Without a model: the use case itself\<close>

definition document_failure :: "error \<Rightarrow> exec_outcome" where
  "document_failure e =
     (case e of
        DocumentApplicationError status detail \<Rightarrow>
          task_failure ''document_operation_rejected'' detail (500 \<le> status) (status \<in> {400, 404, 409})
      | _ \<Rightarrow> RaisedOther (error_class e))"

definition runtime_operation_context :: "runtime_context \<Rightarrow> operation_context result" where
  "runtime_operation_context ctx =
     checked_operation_context (ctx_workflow_id ctx) (ctx_operation_id ctx) (ctx_attempt ctx) None"

definition deterministic_executor ::
  "(int \<Rightarrow> ident \<Rightarrow> 's \<Rightarrow> 'r result \<times> 's) \<Rightarrow> ('r \<Rightarrow> json) \<Rightarrow> ('r \<Rightarrow> int) \<Rightarrow>
     json \<Rightarrow> runtime_context \<Rightarrow> 's \<Rightarrow> exec_outcome \<times> 's" where
  "deterministic_executor run output result_id payload ctx s =
     (case bind (document_payload payload) (\<lambda>p. of_option (ValidationError ''document_id'') (payload_document_id p)) of
        Inl e \<Rightarrow> (RaisedOther (error_class e), s)
      | Inr did \<Rightarrow>
          (case under_operation (runtime_operation_context ctx) (run did) s of
             (Inl e, s') \<Rightarrow> (document_failure e, s')
           | (Inr r, s') \<Rightarrow> (Returned (output r) [document_ref (result_id r)], s')))"

text \<open>The task outputs of the three use cases.\<close>

definition process_task_output :: "process_document_result \<Rightarrow> json" where
  "process_task_output r = JObj
     [(''document_id'', JInt (pdr_document_id r)),
      (''status'', JStr (document_status_value (pdr_status r))),
      (''cleaned_uri'', JStr (uri_text (pdr_cleaned_uri r)))]"

definition chunks_task_output :: "build_chunks_result \<Rightarrow> json" where
  "chunks_task_output r = JObj
     [(''document_id'', JInt (bcr_document_id r)), (''status'', JStr ''success''),
      (''parent_count'', JInt (int (bcr_parent_count r))),
      (''child_count'', JInt (int (bcr_child_count r)))]"

definition index_task_output :: "index_vectors_result \<Rightarrow> json" where
  "index_task_output r = JObj
     [(''document_id'', JInt (ivr_document_id r)), (''status'', JStr ''success''),
      (''indexed_chunks'', JInt (int (ivr_indexed_chunks r))),
      (''failed_chunks'', JInt (int (ivr_failed_chunks r)))]"

definition deterministic_process_executor ::
  "document_services \<Rightarrow> time \<Rightarrow> uuids \<Rightarrow> json \<Rightarrow> runtime_context \<Rightarrow> document_state \<Rightarrow>
     exec_outcome \<times> document_state" where
  "deterministic_process_executor sv now u =
     deterministic_executor (run_process_document sv now u) process_task_output pdr_document_id"

definition deterministic_chunks_executor ::
  "document_services \<Rightarrow> uuids \<Rightarrow> json \<Rightarrow> runtime_context \<Rightarrow> document_state \<Rightarrow>
     exec_outcome \<times> document_state" where
  "deterministic_chunks_executor sv u =
     deterministic_executor (run_build_chunks sv u) chunks_task_output bcr_document_id"

definition deterministic_index_executor ::
  "document_services \<Rightarrow> time \<Rightarrow> json \<Rightarrow> runtime_context \<Rightarrow> document_state \<Rightarrow>
     exec_outcome \<times> document_state" where
  "deterministic_index_executor sv now =
     deterministic_executor (run_index_vectors sv now) index_task_output ivr_document_id"

subsection \<open>The executors as they are wired (bootstrap/lifespan.py)\<close>

datatype document_capability = Process_Capability | Chunks_Capability | Index_Capability

fun executor_code_value :: "document_capability \<Rightarrow> string" where
  "executor_code_value Process_Capability = ''document.process''"
| "executor_code_value Chunks_Capability = ''document.build_chunks''"
| "executor_code_value Index_Capability = ''document.index_vectors''"

fun executor_permissions :: "document_capability \<Rightarrow> string list" where
  "executor_permissions Process_Capability = [DOCUMENT_READ_PERMISSION, DOCUMENT_PROCESS_PERMISSION]"
| "executor_permissions Chunks_Capability = [DOCUMENT_READ_PERMISSION, DOCUMENT_BUILD_CHUNKS_PERMISSION]"
| "executor_permissions Index_Capability = [DOCUMENT_READ_PERMISSION, DOCUMENT_INDEX_VECTORS_PERMISSION]"

text \<open>What an execution meets outside: the clock, the drawn identifiers, the causes of failures.\<close>

record execution_env =
  xv_services :: document_services
  xv_now :: time
  xv_uuids :: uuids
  xv_causes :: "string list"
  xv_delete_error :: "error option"

definition agent_executor_of ::
  "execution_env \<Rightarrow> document_capability \<Rightarrow> agent_report \<Rightarrow> json \<Rightarrow> runtime_context \<Rightarrow> document_state \<Rightarrow>
     exec_outcome \<times> document_state" where
  "agent_executor_of xv cap =
     (case cap of
        Process_Capability \<Rightarrow>
          agent_task_executor process_output_model adapt_process_document_output
            (executor_permissions Process_Capability)
            (process_document_handler (xv_services xv) (xv_now xv) (xv_uuids xv) (xv_causes xv))
      | Chunks_Capability \<Rightarrow>
          agent_task_executor chunks_output_model adapt_build_document_chunks_output
            (executor_permissions Chunks_Capability)
            (build_document_chunks_handler (xv_services xv) (xv_uuids xv) (xv_causes xv))
      | Index_Capability \<Rightarrow>
          agent_task_executor index_output_model adapt_index_document_vectors_output
            (executor_permissions Index_Capability)
            (index_document_vectors_handler (xv_services xv) (xv_now xv) (xv_uuids xv) (xv_causes xv)))"

definition deterministic_executor_of ::
  "execution_env \<Rightarrow> document_capability \<Rightarrow> json \<Rightarrow> runtime_context \<Rightarrow> document_state \<Rightarrow>
     exec_outcome \<times> document_state" where
  "deterministic_executor_of xv cap =
     (case cap of
        Process_Capability \<Rightarrow> deterministic_process_executor (xv_services xv) (xv_now xv) (xv_uuids xv)
      | Chunks_Capability \<Rightarrow> deterministic_chunks_executor (xv_services xv) (xv_uuids xv)
      | Index_Capability \<Rightarrow> deterministic_index_executor (xv_services xv) (xv_now xv))"

text \<open>The registry of the executors: the one for a code, as the task runtime calls it.\<close>

definition capability_of_code :: "string \<Rightarrow> document_capability option" where
  "capability_of_code code =
     find (\<lambda>cap. executor_code_value cap = code) [Process_Capability, Chunks_Capability, Index_Capability]"

definition agent_executors :: "execution_env \<Rightarrow> agent_report \<Rightarrow> document_state \<Rightarrow> executor" where
  "agent_executors xv report s code payload ctx =
     (case capability_of_code code of
        Some cap \<Rightarrow> fst (agent_executor_of xv cap report payload ctx s)
      | None \<Rightarrow> RaisedOther ''KeyError'')"

section \<open>Compensators\<close>

definition operation_compensator ::
  "(int \<Rightarrow> ident \<Rightarrow> 's \<Rightarrow> unit result \<times> 's) \<Rightarrow> ident \<Rightarrow> json \<Rightarrow> 's \<Rightarrow> string option \<times> 's" where
  "operation_compensator compensate op payload s =
     (case bind (document_payload payload) (\<lambda>p. of_option (ValidationError ''document_id'') (payload_document_id p)) of
        Inl e \<Rightarrow> (Some (error_text e), s)
      | Inr did \<Rightarrow>
          (case compensate did op s of
             (Inl e, s') \<Rightarrow> (Some (error_text e), s')
           | (Inr _, s') \<Rightarrow> (None, s')))"

definition run_compensate_processing ::
  "document_services \<Rightarrow> int \<Rightarrow> ident \<Rightarrow> document_state \<Rightarrow> unit result \<times> document_state" where
  "run_compensate_processing sv did op s =
     (case compensate_processing (dsv_processing sv) did op (dst_db s) (dst_files s) of
        (r, db, fs) \<Rightarrow> (bind r (\<lambda>_. Inr ()), s\<lparr>dst_db := db, dst_files := fs\<rparr>))"

definition run_fail_chunking :: "int \<Rightarrow> ident \<Rightarrow> document_state \<Rightarrow> unit result \<times> document_state" where
  "run_fail_chunking did op s = (Inr (), s\<lparr>dst_db := snd (fail_chunking did op (dst_db s))\<rparr>)"

text \<open>\<open>delete_error\<close>: what the vector store raises when points are to be deleted, if it does.\<close>

definition run_compensate_indexing ::
  "error option \<Rightarrow> int \<Rightarrow> ident \<Rightarrow> document_state \<Rightarrow> unit result \<times> document_state" where
  "run_compensate_indexing delete_error did op s =
     (case prepare_index_compensation did op (dst_db s) of
        (Some sn, db1) \<Rightarrow>
          (case delete_error of
             Some e \<Rightarrow>
               if sn_chunk_ids sn \<noteq> [] then (Inl e, s\<lparr>dst_db := db1\<rparr>)
               else (Inr (), s\<lparr>dst_db := snd (complete_index_compensation sn op db1)\<rparr>)
           | None \<Rightarrow>
               (case compensate_indexing did op (dst_db s) (dst_points s) of
                  (_, db, vs) \<Rightarrow> (Inr (), s\<lparr>dst_db := db, dst_points := vs\<rparr>)))
      | (None, db1) \<Rightarrow> (Inr (), s\<lparr>dst_db := db1\<rparr>))"

definition compensator_of ::
  "execution_env \<Rightarrow> document_capability \<Rightarrow> ident \<Rightarrow> json \<Rightarrow> document_state \<Rightarrow>
     string option \<times> document_state" where
  "compensator_of xv cap =
     (case cap of
        Process_Capability \<Rightarrow> operation_compensator (run_compensate_processing (xv_services xv))
      | Chunks_Capability \<Rightarrow> operation_compensator run_fail_chunking
      | Index_Capability \<Rightarrow> operation_compensator (run_compensate_indexing (xv_delete_error xv)))"

end
