(* ===== verification/Stage_Errors.thy ===== *)
theory Stage_Errors
  imports Executors
begin

text \<open>
  The failures that the three stages of the pipeline report: whatever goes wrong inside, the use case
  raises a \<open>DocumentApplicationError\<close> with one of four statuses.
\<close>

named_theorems expected_intros \<open>results whose application errors have one of the four statuses\<close>

definition expected_error :: "error \<Rightarrow> bool" where
  "expected_error e \<longleftrightarrow> (\<forall>n m. e = DocumentApplicationError n m \<longrightarrow> n \<in> {400, 404, 409, 500})"

definition expected :: "'a result \<Rightarrow> bool" where
  "expected r \<longleftrightarrow> (\<forall>e. r = Inl e \<longrightarrow> expected_error e)"

lemma expected_simps [simp]:
  "expected (Inr v)"
  "expected (Inl e) = expected_error e"
  by (simp_all add: expected_def)

lemma expected_error_simps [simp]:
  "expected_error (DocumentApplicationError n m) \<longleftrightarrow> n \<in> {400, 404, 409, 500}"
  "expected_error (OtherException c m)"
  "expected_error (RuntimeError m)"
  "expected_error (ValueError m)"
  "expected_error (IntegrityError m)"
  "expected_error (ValidationError m)"
  by (simp_all add: expected_error_def)

lemma expected_bind [expected_intros]:
  "expected r \<Longrightarrow> (\<And>v. r = Inr v \<Longrightarrow> expected (k v)) \<Longrightarrow> expected (bind r k)"
  by (cases r) (simp_all add: expected_def)

lemma expected_of_option [expected_intros]: "expected_error e \<Longrightarrow> expected (of_option e v)"
  by (cases v) simp_all

lemma expected_add_row [expected_intros]: "expected (add_row cs r rows)"
  by (auto simp: add_row_def split: list.splits)

text \<open>The converters and readers of files are outside; they raise no application errors.\<close>

definition ports_expected :: "document_ports \<Rightarrow> bool" where
  "ports_expected ports \<longleftrightarrow>
     (\<forall>p t. expected (port_docling ports p t)) \<and> (\<forall>t. expected (port_csv_records ports t))"

section \<open>Claims and checks of ownership\<close>

lemma expected_claimable [expected_intros]: "expected (claimable ss did db)"
  by (auto simp: claimable_def document_not_found_def split: option.splits)

lemma expected_claim_processing [expected_intros]: "expected (claim_processing did op db)"
  by (auto simp: claim_processing_def intro!: expected_intros)

lemma expected_claim_chunking [expected_intros]: "expected (claim_chunking did op db)"
  by (auto simp: claim_chunking_def cleaned_source_def intro!: expected_intros split: option.splits)

lemma expected_claim_indexing [expected_intros]: "expected (claim_indexing did op db)"
  by (auto simp: claim_indexing_def Let_def validate_indexing_chunk_ownership_def require_def
      intro!: expected_intros split: option.splits)

lemma expected_still_owned [expected_intros]: "expected (still_owned exc s did op db)"
  by (auto simp: still_owned_def document_not_found_def split: option.splits)

lemma expected_assert_owned [expected_intros]:
  "expected (assert_processing_owned ctx db)" "expected (assert_indexing_owned ictx db)"
  by (auto simp: assert_processing_owned_def assert_indexing_owned_def split: option.splits)

section \<open>Execution\<close>

lemma expected_operation_scoped_dir [expected_intros]: "expected (operation_scoped_dir root op)"
  by (auto simp: operation_scoped_dir_def)

lemma expected_check_headers [expected_intros]: "expected (check_headers seen hs)"
  by (induction seen hs rule: check_headers.induct) (auto simp: csv_process_error_def)

lemma expected_clean_rows [expected_intros]: "expected (clean_rows n rows)"
  by (induction n rows rule: clean_rows.induct)
     (auto simp: csv_process_error_def Let_def intro!: expected_bind)

lemma expected_process_csv [expected_intros]: "expected (process_csv records)"
  by (auto simp: process_csv_def csv_process_error_def normalize_headers_def Let_def
      intro!: expected_intros split: list.splits)

lemma expected_convert [expected_intros]:
  "ports_expected ports \<Longrightarrow> expected (convert_to_markdown ports p t)"
  by (auto simp: convert_to_markdown_def ports_expected_def intro!: expected_bind split: option.splits)

lemma expected_prepare [expected_intros]:
  "ports_expected ports \<Longrightarrow> expected (prepare_process_source ports u ctx dir fs)"
  by (auto simp: prepare_process_source_def Let_def intro!: expected_intros)

lemma expected_get_processor:
  assumes "ports_expected ports"
  shows "expected (get_processor ports t)"
    and "get_processor ports t = Inr (name, process) \<Longrightarrow> expected (process source)"
  using assms by (auto simp: get_processor_def Let_def ports_expected_def csv_process_error_def
      intro!: expected_intros split: if_splits)

lemma expected_execute_processing [expected_intros]:
  "ports_expected ports \<Longrightarrow> expected (execute_processing ports st u ctx fs)"
  by (auto simp: execute_processing_def Let_def intro!: expected_intros expected_get_processor)

lemma expected_promote_file [expected_intros]: "expected (promote_file p dir fs)"
  by (auto simp: promote_file_def Let_def intro!: expected_intros)

lemma expected_promote [expected_intros]: "expected (promote_processing_artifacts st r fs)"
  by (auto simp: promote_processing_artifacts_def intro!: expected_intros split: option.splits)

lemma expected_csv_batches [expected_intros]: "expected (csv_batches hs start rs cs row raws)"
  by (induction raws arbitrary: start rs cs row) (auto simp: Let_def intro!: expected_bind)

lemma expected_build_csv [expected_intros]: "expected (build_csv hs t)"
  by (auto simp: build_csv_def Let_def intro!: expected_intros)

lemma expected_get_chunker:
  shows "expected (get_chunker t)"
    and "get_chunker t = Inr build \<Longrightarrow> expected (build m text)"
  by (auto simp: get_chunker_def Let_def intro!: expected_intros split: if_splits)

lemma child_list_error_expected: "child_list_error cs = Some e \<Longrightarrow> expected_error e"
  by (auto simp: child_list_error_def split: if_splits)

lemma expected_validate_chunks [expected_intros]: "expected (validate_chunk_build_result r)"
proof -
  have "expected_error e" if "List.map_filter (\<lambda>(_, cs). child_list_error cs) xs = e # es"
    for e es and xs :: "(nat \<times> child_chunk_data list) list"
  proof -
    from that have "e \<in> set (List.map_filter (\<lambda>(_, cs). child_list_error cs) xs)" by simp
    then show ?thesis by (auto simp: List.map_filter_def dest: child_list_error_expected)
  qed
  then show ?thesis by (auto simp: validate_chunk_build_result_def Let_def split: list.splits)
qed

lemma expected_execute_chunking [expected_intros]: "expected (execute_chunking ctx fs)"
  by (auto simp: execute_chunking_def intro!: expected_intros expected_get_chunker(1)
      intro: expected_get_chunker(2) split: option.splits)

lemma expected_batch_points [expected_intros]: "expected (batch_points st embedder ctx b)"
  by (auto simp: batch_points_def split: sum.splits)

lemma expected_index_batches: "index_batches st embedder ctx db bs vs = (r, vs') \<Longrightarrow> expected r"
proof (induction bs arbitrary: vs)
  case (Cons b bs)
  have "expected (bind (batch_points st embedder ctx b) (\<lambda>ps. bind (assert_indexing_owned ctx db) (\<lambda>_. Inr ps)))"
    by (auto intro!: expected_intros)
  with Cons show ?case by (auto split: sum.splits)
qed auto

lemma expected_execute_indexing:
  "execute_indexing st embedder ctx db vs = (r, vs') \<Longrightarrow> expected r"
  by (auto simp: execute_indexing_def expected_index_batches split: if_splits)

section \<open>Registration\<close>

lemma expected_persist_artifact [expected_intros]: "expected (persist_artifact now d a code db)"
  by (auto simp: persist_artifact_def artifact_create_def intro!: expected_intros)

lemma expected_complete_processing [expected_intros]: "expected (complete_processing now u r db)"
  by (auto simp: complete_processing_def Let_def intro!: expected_intros split: option.splits)

lemma expected_block_create_many [expected_intros]: "expected (block_create_many bs db)"
  by (induction bs db rule: block_create_many.induct) (auto simp: Let_def intro!: expected_intros)

lemma expected_chunk_create_many [expected_intros]: "expected (chunk_create_many cs db)"
  by (induction cs db rule: chunk_create_many.induct) (auto intro!: expected_intros)

lemma expected_complete_chunking [expected_intros]: "expected (complete_chunking ports u ctx r db)"
  by (auto simp: complete_chunking_def Let_def intro!: expected_intros)

lemma expected_complete_indexing [expected_intros]: "expected (complete_indexing now ctx db)"
  by (auto simp: complete_indexing_def Let_def intro!: expected_intros)

section \<open>What the use cases report\<close>

text \<open>A failure of a use case: always an application error, with one of the four statuses.\<close>

definition reported_error :: "error \<Rightarrow> bool" where
  "reported_error e \<longleftrightarrow> (\<exists>n m. e = DocumentApplicationError n m \<and> n \<in> {400, 404, 409, 500})"

lemma reported_is: "expected_error e \<Longrightarrow> reported_error (reported aborted e)"
  by (cases "(aborted, e)" rule: reported.cases) (auto simp: reported_error_def)

lemma expectedD: "expected r \<Longrightarrow> r = Inl e \<Longrightarrow> expected_error e"
  by (simp add: expected_def)

lemma process_document_reports:
  assumes "ports_expected ports" and "process_document ports st now u did op db fs = (Inl e, s')"
  shows "reported_error e"
proof -
  have "expected (bind (assert_processing_owned ctx db1) (\<lambda>_. execute_processing ports st u ctx fs))"
    for ctx db1 using assms(1) by (auto intro!: expected_intros)
  then show ?thesis
    using assms(2) by (auto simp: process_document_def Let_def expected_claim_processing
        expected_promote expected_complete_processing intro!: reported_is
        elim!: expectedD [rotated] split: sum.splits)
qed

lemma build_document_chunks_reports:
  assumes "build_document_chunks ports u did op db fs = (Inl e, s')"
  shows "reported_error e"
proof -
  have "expected (bind (execute_chunking ctx fs) (\<lambda>r. complete_chunking ports u ctx r db1))" for ctx db1
    by (auto intro!: expected_intros)
  then show ?thesis
    using assms by (auto simp: build_document_chunks_def Let_def intro!: reported_is
        elim!: expectedD [rotated] intro: expected_intros split: sum.splits)
qed

lemma index_document_vectors_reports:
  assumes "index_document_vectors st embedder now did op db vs = (Inl e, s')"
  shows "reported_error e"
  using assms
  by (auto simp: index_document_vectors_def Let_def intro!: reported_is
      elim!: expectedD [rotated] intro: expected_intros expected_execute_indexing
      split: sum.splits prod.splits dest: expected_execute_indexing)

end
