(* ===== verification/Document_Steps.thy ===== *)
theory Document_Steps
  imports Document_Index Document_Lifecycle
begin

text \<open>
  The document pipeline as it runs: any number of workers and compensators, each a thread that
  stops between its transactions, external calls and fenced sections, interleaved arbitrarily.
  \<open>external_effect_fence\<close> (\<open>infrastructure/database/named_lock.py\<close>) is a holder per document and
  stage; a thread that dies releases what it holds, as a closed connection does.  A call of the
  vector store or the file system that fails may have taken effect in part.
\<close>

datatype stage = Processing | Chunking | Indexing

text \<open>Where a thread stands, with its local variables.\<close>

datatype thread =
    Process_Claimed processing_context
  | Process_Fenced processing_context
  | Process_Promoted processing_result
  | Process_Comp_Failed int ident
  | Process_Comp_Owned int ident
  | Process_Comp_Cleaned int ident
  | Chunk_Claimed chunking_context
  | Chunk_Built chunking_context chunk_build_result
  | Index_Claimed indexing_context "indexing_chunk list list"
  | Index_Fenced indexing_context "(int \<times> point) list" "indexing_chunk list list"
  | Index_Comp_Prepared ident compensation_snapshot
  | Index_Comp_Fenced ident compensation_snapshot
  | Index_Comp_Deleted ident compensation_snapshot

text \<open>
  \<open>w_ops\<close> records the stage and document that an operation id was issued for; an id is issued once
  (\<open>uuid4\<close>), and a compensation is asked for the stage of its operation.
\<close>

record doc_world =
  w_db :: document_db
  w_files :: file_system
  w_points :: vector_store
  w_process_fence :: "int \<Rightarrow> nat option"
  w_index_fence :: "int \<Rightarrow> nat option"
  w_threads :: "nat \<Rightarrow> thread option"
  w_ops :: "ident \<Rightarrow> (stage \<times> int) option"

definition set_thread :: "nat \<Rightarrow> thread \<Rightarrow> doc_world \<Rightarrow> doc_world" where
  "set_thread a t w = w\<lparr>w_threads := (w_threads w)(a := Some t)\<rparr>"

text \<open>A thread ends, or dies: its fences are free again.\<close>

definition free_fence :: "nat \<Rightarrow> (int \<Rightarrow> nat option) \<Rightarrow> int \<Rightarrow> nat option" where
  "free_fence a holder d = (case holder d of None \<Rightarrow> None | Some b \<Rightarrow> if b = a then None else Some b)"

definition end_thread :: "nat \<Rightarrow> doc_world \<Rightarrow> doc_world" where
  "end_thread a w = w\<lparr>w_threads := (w_threads w)(a := None),
     w_process_fence := free_fence a (w_process_fence w),
     w_index_fence := free_fence a (w_index_fence w)\<rparr>"

definition issue :: "ident \<Rightarrow> stage \<Rightarrow> int \<Rightarrow> doc_world \<Rightarrow> doc_world" where
  "issue op s did w = w\<lparr>w_ops := (w_ops w)(op \<mapsto> (s, did))\<rparr>"

text \<open>The directories of one operation; a failing step changes files of these only.\<close>

definition operation_dirs :: "processing_settings \<Rightarrow> ident \<Rightarrow> path list" where
  "operation_dirs st op = map (\<lambda>root. root @ [op])
     [staging_storage_dir st, cleaned_storage_dir st, secondary_text_storage_dir st]"

definition same_outside :: "path list \<Rightarrow> file_system \<Rightarrow> file_system \<Rightarrow> bool" where
  "same_outside dirs fs fs' \<longleftrightarrow> (\<forall>p. (\<forall>dir\<in>set dirs. \<not> prefix dir p) \<longrightarrow> file_text fs' p = file_text fs p)"

inductive doc_step :: "processing_settings \<Rightarrow> doc_world \<Rightarrow> doc_world \<Rightarrow> bool" for st where
  upload:
    "upload_document ports ust now code f m actor (w_db w) (w_files w) = (r, db', fs') \<Longrightarrow>
     \<not> prefix (cleaned_storage_dir st) (raw_local_storage_dir ust) \<Longrightarrow>
     \<not> prefix (cleaned_storage_dir st) (raw_external_storage_dir ust) \<Longrightarrow>
     doc_step st w (w\<lparr>w_db := db', w_files := fs'\<rparr>)"
| deactivate:
    "deactivate_document now did reason replaced_by (w_db w) = Inr (d, db') \<Longrightarrow>
     doc_step st w (w\<lparr>w_db := db'\<rparr>)"
| thread_end:
    "doc_step st w (end_thread a w)"
| process_claim:
    "w_threads w a = None \<Longrightarrow> w_ops w op = None \<Longrightarrow>
     claim_processing did op (w_db w) = Inr (ctx, db') \<Longrightarrow>
     doc_step st w (set_thread a (Process_Claimed ctx) (issue op Processing did (w\<lparr>w_db := db'\<rparr>)))"
| process_enter:
    "w_threads w a = Some (Process_Claimed ctx) \<Longrightarrow> w_process_fence w (px_document_id ctx) = None \<Longrightarrow>
     assert_processing_owned ctx (w_db w) = Inr () \<Longrightarrow>
     doc_step st w (set_thread a (Process_Fenced ctx)
       (w\<lparr>w_process_fence := (w_process_fence w)(px_document_id ctx \<mapsto> a)\<rparr>))"
| process_promote:
    "w_threads w a = Some (Process_Fenced ctx) \<Longrightarrow>
     execute_processing ports st u ctx (w_files w) = Inr (r, fs1) \<Longrightarrow>
     promote_processing_artifacts st r fs1 = Inr (r2, fs2) \<Longrightarrow>
     doc_step st w (set_thread a (Process_Promoted r2) (end_thread a (w\<lparr>w_files := fs2\<rparr>)))"
| process_abort:
    "w_threads w a = Some (Process_Fenced ctx) \<Longrightarrow>
     same_outside (operation_dirs st (px_operation_id ctx)) (w_files w) fs' \<Longrightarrow>
     doc_step st w (end_thread a (w\<lparr>w_files := fs'\<rparr>))"
| process_complete:
    "w_threads w a = Some (Process_Promoted r) \<Longrightarrow>
     complete_processing now u r (w_db w) = Inr (res, db') \<Longrightarrow>
     doc_step st w (end_thread a (w\<lparr>w_db := db'\<rparr>))"
| process_comp_fail:
    "w_threads w a = None \<Longrightarrow> w_ops w op = Some (Processing, did) \<Longrightarrow>
     fail_processing did op (w_db w) = (r, db') \<Longrightarrow>
     doc_step st w (set_thread a (Process_Comp_Failed did op) (w\<lparr>w_db := db'\<rparr>))"
| process_comp_enter:
    "w_threads w a = Some (Process_Comp_Failed did op) \<Longrightarrow> w_process_fence w did = None \<Longrightarrow>
     owns_failed_operation did op (w_db w) \<Longrightarrow>
     doc_step st w (set_thread a (Process_Comp_Owned did op)
       (w\<lparr>w_process_fence := (w_process_fence w)(did \<mapsto> a)\<rparr>))"
| process_comp_clean:
    "w_threads w a = Some (Process_Comp_Owned did op) \<Longrightarrow>
     clean_operation_dirs st op (w_files w) = Inr fs' \<Longrightarrow>
     doc_step st w (set_thread a (Process_Comp_Cleaned did op) (w\<lparr>w_files := fs'\<rparr>))"
| process_comp_abort:
    "w_threads w a = Some (Process_Comp_Owned did op) \<Longrightarrow>
     same_outside (operation_dirs st op) (w_files w) fs' \<Longrightarrow>
     doc_step st w (end_thread a (w\<lparr>w_files := fs'\<rparr>))"
| process_comp_release:
    "w_threads w a = Some (Process_Comp_Cleaned did op) \<Longrightarrow>
     doc_step st w (end_thread a (w\<lparr>w_db := release_operation did op (w_db w)\<rparr>))"
| chunk_claim:
    "w_threads w a = None \<Longrightarrow> w_ops w op = None \<Longrightarrow>
     claim_chunking did op (w_db w) = Inr (ctx, db') \<Longrightarrow>
     doc_step st w (set_thread a (Chunk_Claimed ctx) (issue op Chunking did (w\<lparr>w_db := db'\<rparr>)))"
| chunk_build:
    "w_threads w a = Some (Chunk_Claimed ctx) \<Longrightarrow> execute_chunking ctx (w_files w) = Inr r \<Longrightarrow>
     doc_step st w (set_thread a (Chunk_Built ctx r) w)"
| chunk_complete:
    "w_threads w a = Some (Chunk_Built ctx r) \<Longrightarrow>
     complete_chunking ports u ctx r (w_db w) = Inr (res, db') \<Longrightarrow>
     doc_step st w (end_thread a (w\<lparr>w_db := db'\<rparr>))"
| chunk_fail:
    "w_ops w op = Some (Chunking, did) \<Longrightarrow> fail_chunking did op (w_db w) = (r, db') \<Longrightarrow>
     doc_step st w (w\<lparr>w_db := db'\<rparr>)"
| index_claim:
    "w_threads w a = None \<Longrightarrow> w_ops w op = None \<Longrightarrow>
     claim_indexing did op (w_db w) = Inr (ctx, db') \<Longrightarrow> 0 < n \<Longrightarrow>
     doc_step st w (set_thread a (Index_Claimed ctx (batches n (ix_chunks ctx)))
       (issue op Indexing did (w\<lparr>w_db := db'\<rparr>)))"
| index_enter:
    "w_threads w a = Some (Index_Claimed ctx (b # bs)) \<Longrightarrow>
     batch_points ist embedder ctx b = Inr ps \<Longrightarrow> w_index_fence w (ix_document_id ctx) = None \<Longrightarrow>
     assert_indexing_owned ctx (w_db w) = Inr () \<Longrightarrow>
     doc_step st w (set_thread a (Index_Fenced ctx ps bs)
       (w\<lparr>w_index_fence := (w_index_fence w)(ix_document_id ctx \<mapsto> a)\<rparr>))"
| index_upsert:
    "w_threads w a = Some (Index_Fenced ctx ps bs) \<Longrightarrow>
     doc_step st w (set_thread a (Index_Claimed ctx bs)
       (end_thread a (w\<lparr>w_points := upsert_points ps (w_points w)\<rparr>)))"
| index_abort:
    "w_threads w a = Some (Index_Fenced ctx ps bs) \<Longrightarrow> set qs \<subseteq> set ps \<Longrightarrow>
     doc_step st w (end_thread a (w\<lparr>w_points := upsert_points qs (w_points w)\<rparr>))"
| index_complete:
    "w_threads w a = Some (Index_Claimed ctx []) \<Longrightarrow>
     complete_indexing now ctx (w_db w) = Inr (res, db') \<Longrightarrow>
     doc_step st w (end_thread a (w\<lparr>w_db := db'\<rparr>))"
| index_comp_prepare:
    "w_threads w a = None \<Longrightarrow> w_ops w op = Some (Indexing, did) \<Longrightarrow>
     prepare_index_compensation did op (w_db w) = (Some sn, db') \<Longrightarrow>
     doc_step st w (set_thread a (Index_Comp_Prepared op sn) (w\<lparr>w_db := db'\<rparr>))"
| index_comp_enter:
    "w_threads w a = Some (Index_Comp_Prepared op sn) \<Longrightarrow> w_index_fence w (sn_document_id sn) = None \<Longrightarrow>
     doc_step st w (set_thread a (Index_Comp_Fenced op sn)
       (w\<lparr>w_index_fence := (w_index_fence w)(sn_document_id sn \<mapsto> a)\<rparr>))"
| index_comp_delete:
    "w_threads w a = Some (Index_Comp_Fenced op sn) \<Longrightarrow>
     doc_step st w (set_thread a (Index_Comp_Deleted op sn)
       (w\<lparr>w_points := delete_points (sn_chunk_ids sn) (w_points w)\<rparr>))"
| index_comp_abort:
    "w_threads w a = Some (Index_Comp_Fenced op sn) \<Longrightarrow> set ids \<subseteq> set (sn_chunk_ids sn) \<Longrightarrow>
     doc_step st w (end_thread a (w\<lparr>w_points := delete_points ids (w_points w)\<rparr>))"
| index_comp_complete:
    "w_threads w a = Some (Index_Comp_Deleted op sn) \<Longrightarrow>
     complete_index_compensation sn op (w_db w) = (r, db') \<Longrightarrow>
     doc_step st w (end_thread a (w\<lparr>w_db := db'\<rparr>))"

definition empty_world :: doc_world where
  "empty_world = \<lparr>w_db = \<lparr>documents = [], artifacts = [], parent_blocks = [], child_chunks = [],
     next_document_id = 1, next_artifact_id = 1, next_block_id = 1, next_chunk_id = 1\<rparr>,
     w_files = [], w_points = [], w_process_fence = (\<lambda>_. None), w_index_fence = (\<lambda>_. None),
     w_threads = (\<lambda>_. None), w_ops = (\<lambda>_. None)\<rparr>"

abbreviation doc_reachable :: "processing_settings \<Rightarrow> doc_world \<Rightarrow> bool" where
  "doc_reachable st w \<equiv> (doc_step st)\<^sup>*\<^sup>* empty_world w"

end
