(* ===== verification/Document_Safety.thy ===== *)
theory Document_Safety
  imports Document_Steps
begin

text \<open>
  What every transaction of the document pipeline does to the columns that the protocol is about:
  the ownership token and the status of a document, and the vector status of its chunks.
\<close>

named_theorems view_simps \<open>tokens, states and chunks after a repository operation\<close>

section \<open>Views of the database\<close>

definition owner :: "document_db \<Rightarrow> int \<Rightarrow> ident option" where
  "owner db did = Option.bind (document_get_by_id did db) doc_active_operation_id"

definition state :: "document_db \<Rightarrow> int \<Rightarrow> document_status option" where
  "state db did = map_option doc_status (document_get_by_id did db)"

definition chunk_ids :: "vector_status \<Rightarrow> document_db \<Rightarrow> int \<Rightarrow> int set" where
  "chunk_ids vs db did = cc_id ` {c \<in> set (child_chunks db). cc_doc_id c = did \<and> cc_vector_status c = vs}"

definition db_ok :: "document_db \<Rightarrow> bool" where
  "db_ok db \<longleftrightarrow> distinct (map doc_id (documents db)) \<and>
     (\<forall>d\<in>set (documents db). doc_id d < next_document_id db) \<and>
     distinct (map cc_id (child_chunks db)) \<and>
     (\<forall>c\<in>set (child_chunks db). cc_id c < next_chunk_id db \<and> cc_active c)"

lemma db_ok_chunk_eq:
  "db_ok db \<Longrightarrow> c \<in> set (child_chunks db) \<Longrightarrow> c' \<in> set (child_chunks db) \<Longrightarrow> cc_id c = cc_id c' \<Longrightarrow> c = c'"
  unfolding db_ok_def by (metis distinct_key_eq)

lemma chunk_ids_disjoint:
  "db_ok db \<Longrightarrow> i \<in> chunk_ids v db d \<Longrightarrow> i \<in> chunk_ids v' db d' \<Longrightarrow> v = v' \<and> d = d'"
  by (auto simp: chunk_ids_def dest: db_ok_chunk_eq)

section \<open>Repository operations\<close>

lemma document_save_fields [view_simps]:
  "child_chunks (document_save d db) = child_chunks db"
  "artifacts (document_save d db) = artifacts db"
  "next_document_id (document_save d db) = next_document_id db"
  "next_chunk_id (document_save d db) = next_chunk_id db"
  "next_artifact_id (document_save d db) = next_artifact_id db"
  by (simp_all add: document_save_def)

lemma chunk_ids_save [view_simps]: "chunk_ids v (document_save d db) = chunk_ids v db"
  by (simp add: chunk_ids_def fun_eq_iff document_save_def)

lemma owner_save [view_simps]:
  "document_get_by_id (doc_id d) db \<noteq> None \<Longrightarrow>
   owner (document_save d db) = (owner db)(doc_id d := doc_active_operation_id d)"
  by (auto simp: fun_eq_iff owner_def document_repo.fetch_save split: option.splits)

lemma state_save [view_simps]:
  "document_get_by_id (doc_id d) db \<noteq> None \<Longrightarrow>
   state (document_save d db) = (state db)(doc_id d := Some (doc_status d))"
  by (auto simp: fun_eq_iff state_def document_repo.fetch_save split: option.splits)

lemma db_ok_save [view_simps]:
  assumes "document_get_by_id (doc_id d) db \<noteq> None"
  shows "db_ok (document_save d db) = db_ok db"
proof -
  have ids: "map doc_id (put_row doc_id d (documents db)) = map doc_id (documents db)" by simp
  then have "doc_id ` set (put_row doc_id d (documents db)) = doc_id ` set (documents db)"
    by (metis list.set_map)
  then have "(\<forall>x\<in>set (put_row doc_id d (documents db)). doc_id x < n) \<longleftrightarrow>
      (\<forall>x\<in>set (documents db). doc_id x < n)" for n
    by (metis (no_types, lifting) image_iff)
  then show ?thesis by (simp add: db_ok_def document_save_def)
qed

lemma same_documents:
  assumes "documents db' = documents db"
  shows "owner db' = owner db" "state db' = state db" "document_get_by_id did db' = document_get_by_id did db"
  using assms by (simp_all add: fun_eq_iff owner_def state_def document_get_by_id_def)

lemma same_chunks:
  assumes "child_chunks db' = child_chunks db"
  shows "chunk_ids v db' = chunk_ids v db"
  using assms by (simp add: fun_eq_iff chunk_ids_def)

lemma chunk_update_fields [view_simps]:
  "documents (chunk_update ids f db) = documents db"
  "document_get_by_id did (chunk_update ids f db) = document_get_by_id did db"
  "owner (chunk_update ids f db) = owner db"
  "state (chunk_update ids f db) = state db"
  by (simp_all add: chunk_update_def document_get_by_id_def owner_def state_def fun_eq_iff)

lemma db_ok_chunk_update:
  assumes "\<And>c. cc_id (f c) = cc_id c" "\<And>c. cc_active (f c) = cc_active c"
  shows "db_ok (chunk_update ids f db) = db_ok db"
proof -
  define g where "g = (\<lambda>c. if cc_id c \<in> set ids then f c else c)"
  have g: "cc_id (g c) = cc_id c" "cc_active (g c) = cc_active c" for c
    using assms by (simp_all add: g_def)
  have "child_chunks (chunk_update ids f db) = map g (child_chunks db)"
    by (simp add: chunk_update_def g_def)
  moreover have "map cc_id (map g cs) = map cc_id cs" for cs by (simp add: g)
  moreover have "next_chunk_id (chunk_update ids f db) = next_chunk_id db"
    "documents (chunk_update ids f db) = documents db"
    "next_document_id (chunk_update ids f db) = next_document_id db" by (simp_all add: chunk_update_def)
  ultimately show ?thesis unfolding db_ok_def by (simp add: g comp_def)
qed

lemma chunk_ids_iff:
  "i \<in> chunk_ids v db d \<longleftrightarrow>
     (\<exists>c\<in>set (child_chunks db). cc_id c = i \<and> cc_doc_id c = d \<and> cc_vector_status c = v)"
  by (auto simp: chunk_ids_def)

lemma chunk_ids_chunk_update:
  assumes keys: "\<And>c. cc_id (f c) = cc_id c" "\<And>c. cc_doc_id (f c) = cc_doc_id c"
  shows "i \<in> chunk_ids v (chunk_update ids f db) d \<longleftrightarrow>
    (\<exists>c\<in>set (child_chunks db). cc_id c = i \<and> cc_doc_id c = d \<and>
       cc_vector_status (if cc_id c \<in> set ids then f c else c) = v)"
proof -
  define g where "g = (\<lambda>c. if cc_id c \<in> set ids then f c else c)"
  have g: "cc_id (g c) = cc_id c" "cc_doc_id (g c) = cc_doc_id c" for c
    using keys by (simp_all add: g_def)
  have "child_chunks (chunk_update ids f db) = map g (child_chunks db)"
    by (simp add: chunk_update_def g_def)
  then show ?thesis by (simp add: chunk_ids_iff g) (simp add: g_def)
qed

text \<open>The listed chunks of one document get a new status.\<close>

lemma chunk_ids_update:
  assumes ok: "db_ok db" and keys: "\<And>c. cc_id (f c) = cc_id c" "\<And>c. cc_doc_id (f c) = cc_doc_id c"
    and new: "\<And>c. c \<in> set cs \<Longrightarrow> cc_vector_status (f c) = new"
    and cs: "set cs \<subseteq> set (child_chunks db)" "\<And>c. c \<in> set cs \<Longrightarrow> cc_doc_id c = did"
  shows "chunk_ids v (chunk_update (map cc_id cs) f db) d =
    (if d = did then if v = new then chunk_ids v db d \<union> cc_id ` set cs else chunk_ids v db d - cc_id ` set cs
     else chunk_ids v db d)"
proof (rule set_eqI)
  fix i
  define g where "g = (\<lambda>c. if cc_id c \<in> set (map cc_id cs) then f c else c)"
  have "i \<in> chunk_ids v (chunk_update (map cc_id cs) f db) d \<longleftrightarrow>
      (\<exists>c\<in>set (child_chunks db). cc_id c = i \<and> cc_doc_id c = d \<and> cc_vector_status (g c) = v)"
    unfolding g_def by (rule chunk_ids_chunk_update [OF keys])
  also have "\<dots> \<longleftrightarrow> (if i \<in> cc_id ` set cs then d = did \<and> v = new else i \<in> chunk_ids v db d)"
  proof (cases "i \<in> cc_id ` set cs")
    case True
    then obtain c where c: "c \<in> set cs" "cc_id c = i" by auto
    have uniq: "c' = c" if "c' \<in> set (child_chunks db)" "cc_id c' = i" for c'
      using db_ok_chunk_eq [OF ok that(1)] c cs(1) that(2) by blast
    have st: "cc_vector_status (g c) = new" using new [OF c(1)] True c(2) by (simp add: g_def)
    have "(\<exists>c'\<in>set (child_chunks db). cc_id c' = i \<and> cc_doc_id c' = d \<and> cc_vector_status (g c') = v) \<longleftrightarrow>
        cc_doc_id c = d \<and> cc_vector_status (g c) = v"
      using uniq c cs(1) by blast
    then show ?thesis using True st cs(2) [OF c(1)] by auto
  next
    case False
    then show ?thesis by (auto simp: chunk_ids_iff g_def)
  qed
  also have "\<dots> \<longleftrightarrow> i \<in> (if d = did then if v = new then chunk_ids v db d \<union> cc_id ` set cs
      else chunk_ids v db d - cc_id ` set cs else chunk_ids v db d)"
  proof (cases "i \<in> cc_id ` set cs")
    case True
    then obtain c where c: "c \<in> set cs" "cc_id c = i" by auto
    have "i \<notin> chunk_ids v db d" if "d \<noteq> did"
    proof
      assume "i \<in> chunk_ids v db d"
      then obtain c' where "c' \<in> set (child_chunks db)" "cc_id c' = i" "cc_doc_id c' = d"
        by (auto simp: chunk_ids_iff)
      then show False using that db_ok_chunk_eq [OF ok, of c' c] c cs(2) subsetD [OF cs(1) c(1)] by metis
    qed
    then show ?thesis using True by auto
  qed auto
  finally show "i \<in> chunk_ids v (chunk_update (map cc_id cs) f db) d \<longleftrightarrow>
    i \<in> (if d = did then if v = new then chunk_ids v db d \<union> cc_id ` set cs
      else chunk_ids v db d - cc_id ` set cs else chunk_ids v db d)" .
qed

section \<open>Claims\<close>

lemma claimable_Inr:
  assumes "claimable statuses did db = Inr d"
  shows "document_get_by_id did db = Some d \<and> doc_id d = did \<and> owner db did = None \<and>
    state db did = Some (doc_status d) \<and> doc_status d \<in> set statuses"
proof -
  have "document_get_by_id did db = Some d" "doc_active_operation_id d = None" "doc_status d \<in> set statuses"
    using assms by (auto simp: claimable_def split: option.splits if_splits)
  then show ?thesis using document_repo.fetch_key by (auto simp: owner_def state_def)
qed

text \<open>What taking a document over for an operation does to the views.\<close>

lemma take_over_views:
  assumes "document_get_by_id did db = Some d"
  shows "owner (take_over s op d db) = (owner db)(did := Some op)"
    "state (take_over s op d db) = (state db)(did := Some s)"
    "chunk_ids v (take_over s op d db) = chunk_ids v db"
    "db_ok (take_over s op d db) = db_ok db"
    "child_chunks (take_over s op d db) = child_chunks db"
  using assms document_repo.fetch_key [OF assms] by (simp_all add: take_over_def view_simps)

lemma claim_processing_effect:
  assumes "claim_processing did op db = Inr (ctx, db')"
  shows "owner db did = None \<and> state db did \<in> {Some DOC_UPLOADED, Some DOC_FAILED} \<and>
    owner db' = (owner db)(did := Some op) \<and> state db' = (state db)(did := Some DOC_PROCESSING) \<and>
    chunk_ids v db' = chunk_ids v db \<and> db_ok db' = db_ok db \<and>
    px_document_id ctx = did \<and> px_operation_id ctx = op"
  using assms by (auto simp: claim_processing_def bind_eq_Inr take_over_views dest!: claimable_Inr)

lemma claim_chunking_effect:
  assumes "claim_chunking did op db = Inr (ctx, db')"
  shows "owner db did = None \<and> state db did \<in> {Some DOC_PROCESSED, Some DOC_FAILED} \<and>
    owner db' = (owner db)(did := Some op) \<and> state db' = (state db)(did := Some DOC_CHUNKING) \<and>
    chunk_ids v db' = chunk_ids v db \<and> db_ok db' = db_ok db \<and>
    kx_document_id ctx = did \<and> kx_operation_id ctx = op"
  using assms
  by (auto simp: claim_chunking_def bind_eq_Inr take_over_views split: if_splits dest!: claimable_Inr)

lemma indexable_rows:
  assumes "db_ok db"
  shows "set (chunk_list_indexable did vss db) =
    {c \<in> set (child_chunks db). cc_doc_id c = did \<and> cc_vector_status c \<in> set vss}"
  using assms by (auto simp: chunk_list_indexable_def db_ok_def)

lemma claim_indexing_effect:
  assumes "claim_indexing did op db = Inr (ctx, db')" and ok: "db_ok db"
  shows "owner db did = None \<and> state db did \<in> {Some DOC_CHUNKED, Some DOC_FAILED} \<and>
    owner db' = (owner db)(did := Some op) \<and> state db' = (state db)(did := Some DOC_INDEXING) \<and>
    chunk_ids VS_INDEXING db did = {} \<and>
    chunk_ids VS_INDEXING db' = (chunk_ids VS_INDEXING db)(did := set (context_chunk_ids ctx)) \<and>
    chunk_ids VS_INDEXED db' = chunk_ids VS_INDEXED db \<and> db_ok db' \<and>
    ix_document_id ctx = did \<and> ix_operation_id ctx = op"
proof -
  let ?cs = "chunk_list_indexable did INDEXABLE_VECTOR_STATUSES db"
  from assms obtain d where d: "claimable [DOC_CHUNKED, DOC_FAILED] did db = Inr d"
    and none: "\<not> chunk_exists_by_vector_status (doc_id d) VS_INDEXING db"
    and ctx: "map ic_chunk_id (ix_chunks ctx) = map cc_id (chunk_list_indexable (doc_id d) INDEXABLE_VECTOR_STATUSES db)"
      "ix_document_id ctx = doc_id d" "ix_operation_id ctx = op"
    and db': "db' = take_over DOC_INDEXING op d
      (chunk_mark_indexing (chunk_list_indexable (doc_id d) INDEXABLE_VECTOR_STATUSES db) db)"
    by (auto simp: claim_indexing_def bind_eq_Inr Let_def to_chunk_input_def comp_def split: if_splits)
  note D = claimable_Inr [OF d]
  have cs: "set ?cs \<subseteq> set (child_chunks db)" "\<And>c. c \<in> set ?cs \<Longrightarrow> cc_doc_id c = did"
    "\<And>c. c \<in> set ?cs \<Longrightarrow> cc_vector_status c \<noteq> VS_INDEXED"
    unfolding indexable_rows [OF ok] by (auto simp: INDEXABLE_VECTOR_STATUSES_def)
  have ids: "set (context_chunk_ids ctx) = cc_id ` set ?cs"
    using ctx(1) D by (simp add: context_chunk_ids_def)
  have marked: "chunk_ids v (chunk_mark_indexing ?cs db) x = (if x = did then
      if v = VS_INDEXING then chunk_ids v db x \<union> cc_id ` set ?cs else chunk_ids v db x - cc_id ` set ?cs
      else chunk_ids v db x)" for v x
    unfolding chunk_mark_indexing_def by (rule chunk_ids_update [OF ok]) (use cs in auto)
  have free: "chunk_ids VS_INDEXING db did = {}"
    using none ok D by (auto simp: chunk_exists_by_vector_status_def chunk_ids_iff list_ex_iff db_ok_def)
  have "chunk_ids VS_INDEXED db did \<inter> cc_id ` set ?cs = {}"
  proof (rule ccontr)
    assume "\<not> ?thesis"
    then obtain c c' where "c \<in> set ?cs" "c' \<in> set (child_chunks db)" "cc_id c' = cc_id c"
      "cc_vector_status c' = VS_INDEXED" by (auto simp: chunk_ids_iff)
    then show False using db_ok_chunk_eq [OF ok, of c' c] cs by blast
  qed
  then have "chunk_ids VS_INDEXED db did - cc_id ` set ?cs = chunk_ids VS_INDEXED db did" by blast
  moreover have "document_get_by_id did (chunk_mark_indexing ?cs db) = Some d"
    using D by (simp add: chunk_mark_indexing_def view_simps)
  moreover have "db_ok (chunk_mark_indexing ?cs db)"
    using ok by (simp add: chunk_mark_indexing_def db_ok_chunk_update)
  moreover have "owner (chunk_mark_indexing ?cs db) = owner db" "state (chunk_mark_indexing ?cs db) = state db"
    by (simp_all add: chunk_mark_indexing_def view_simps)
  ultimately have views: "owner db' = (owner db)(did := Some op)"
    "state db' = (state db)(did := Some DOC_INDEXING)" "db_ok db'"
    "chunk_ids VS_INDEXING db' = (chunk_ids VS_INDEXING db)(did := set (context_chunk_ids ctx))"
    "chunk_ids VS_INDEXED db' = chunk_ids VS_INDEXED db"
    using D db' free by (simp_all add: take_over_views marked fun_eq_iff ids)
  have "state db did \<in> {Some DOC_CHUNKED, Some DOC_FAILED}" using D by auto
  then show ?thesis using D views ctx free by simp
qed

section \<open>Registrations\<close>

lemma still_owned_Inr:
  assumes "still_owned exc s did op db = Inr d"
  shows "document_get_by_id did db = Some d \<and> doc_id d = did \<and> doc_status d = s \<and>
    owner db did = Some op \<and> state db did = Some s"
proof -
  have "document_get_by_id did db = Some d" "doc_status d = s" "doc_active_operation_id d = Some op"
    using assms by (auto simp: still_owned_def split: option.splits if_splits)
  then show ?thesis using document_repo.fetch_key by (auto simp: owner_def state_def)
qed

lemma persist_artifact_fields:
  assumes "persist_artifact now d a code db = Inr db'"
  shows "documents db' = documents db \<and> child_chunks db' = child_chunks db \<and>
    next_document_id db' = next_document_id db \<and> next_chunk_id db' = next_chunk_id db"
  using assms
  by (auto simp: persist_artifact_def artifact_create_def bind_eq_Inr artifact_mark_superseded_def)

lemma complete_processing_effect:
  assumes "complete_processing now u r db = Inr (res, db')"
  shows "owner db (xr_document_id r) = Some (xr_operation_id r) \<and>
    state db (xr_document_id r) = Some DOC_PROCESSING \<and>
    owner db' = (owner db)(xr_document_id r := None) \<and>
    state db' = (state db)(xr_document_id r := Some DOC_PROCESSED) \<and>
    chunk_ids v db' = chunk_ids v db \<and> db_ok db' = db_ok db"
proof -
  let ?did = "xr_document_id r"
  from assms obtain d db2 where d: "still_owned ''ProcessingAbortedError'' DOC_PROCESSING ?did (xr_operation_id r) db = Inr d"
    and same: "documents db2 = documents db" "child_chunks db2 = child_chunks db"
      "next_document_id db2 = next_document_id db" "next_chunk_id db2 = next_chunk_id db"
    and db': "db' = document_save (d\<lparr>doc_cleaned_uri := Some (xr_cleaned_path r),
        doc_status := DOC_PROCESSED, doc_active_operation_id := None\<rparr>) db2"
    by (auto simp: complete_processing_def bind_eq_Inr dest!: persist_artifact_fields split: option.splits)
  note D = still_owned_Inr [OF d] and S = same_documents [OF same(1)] same_chunks [OF same(2)]
  have "db_ok db2 = db_ok db" using same by (simp add: db_ok_def)
  moreover have "document_get_by_id ?did db2 = Some d" using D S by simp
  ultimately show ?thesis using D S by (simp add: db' view_simps)
qed

lemma block_create_many_fields:
  "block_create_many bs db = Inr (saved, db') \<Longrightarrow> documents db' = documents db \<and>
    child_chunks db' = child_chunks db \<and> next_document_id db' = next_document_id db \<and>
    next_chunk_id db' = next_chunk_id db \<and> artifacts db' = artifacts db"
  by (induction bs db arbitrary: saved rule: block_create_many.induct) (fastforce simp: Let_def bind_eq_Inr)+

text \<open>New chunks get keys that were never used.\<close>

lemma chunk_create_many_effect:
  assumes "chunk_create_many cs db = Inr db'" and "\<forall>c\<in>set cs. cc_active c" and "db_ok db"
  shows "documents db' = documents db \<and> db_ok db' \<and>
    (\<forall>c\<in>set (child_chunks db'). c \<in> set (child_chunks db) \<or> (\<exists>c0\<in>set cs. \<exists>i. c = c0\<lparr>cc_id := i\<rparr>)) \<and>
    set (child_chunks db) \<subseteq> set (child_chunks db') \<and> artifacts db' = artifacts db"
  using assms
proof (induction cs db rule: chunk_create_many.induct)
  case (2 c0 cs db)
  let ?c = "c0\<lparr>cc_id := next_chunk_id db\<rparr>"
  let ?db = "db\<lparr>child_chunks := child_chunks db @ [?c], next_chunk_id := next_chunk_id db + 1\<rparr>"
  from 2(2) have rest: "chunk_create_many cs ?db = Inr db'"
    by (auto simp: bind_eq_Inr add_row_Inr)
  have "db_ok ?db" using 2(3,4) by (fastforce simp: db_ok_def)
  moreover from 2(2) obtain rows where "add_row [(''chunk_code'', \<lambda>x y. cc_chunk_code x = cc_chunk_code y)]
      ?c (child_chunks db) = Inr rows" "rows = child_chunks db @ [?c]"
    by (auto simp: bind_eq_Inr add_row_Inr)
  ultimately show ?case using 2(1) [of rows] rest 2(3) by fastforce
qed auto

lemma child_rows_fresh:
  "c \<in> set (child_rows u n ctx pcs) \<Longrightarrow>
     cc_active c \<and> cc_doc_id c = kx_document_id ctx \<and> cc_vector_status c = VS_PENDING"
  by (induction u n ctx pcs rule: child_rows.induct) (auto simp: build_child_chunk_def)

lemma complete_chunking_effect:
  assumes step: "complete_chunking ports u ctx r db = Inr (res, db')" and ok: "db_ok db"
  shows "owner db (kx_document_id ctx) = Some (kx_operation_id ctx) \<and>
    state db (kx_document_id ctx) = Some DOC_CHUNKING \<and>
    owner db' = (owner db)(kx_document_id ctx := None) \<and>
    state db' = (state db)(kx_document_id ctx := Some DOC_CHUNKED) \<and> db_ok db' \<and>
    (v \<noteq> VS_PENDING \<longrightarrow> chunk_ids v db' = (chunk_ids v db)(kx_document_id ctx := {}))"
proof -
  let ?did = "kx_document_id ctx"
  let ?db1 = "block_delete_by_doc_id ?did (chunk_delete_by_doc_id ?did db)"
  from step obtain d saved db2 db3 where
    d: "still_owned ''ChunkingAbortedError'' DOC_CHUNKING ?did (kx_operation_id ctx) db = Inr d"
    and b: "block_create_many (map (\<lambda>(i, p). build_parent_block ports (u i) ctx p)
      (enumerate 0 (br_parents r))) (block_delete_by_doc_id (doc_id d) (chunk_delete_by_doc_id (doc_id d) db)) = Inr (saved, db2)"
    and c: "chunk_create_many (child_rows u (length (br_parents r)) ctx (placed_children r saved)) db2 = Inr db3"
    and db': "db' = document_save (d\<lparr>doc_status := DOC_CHUNKED, doc_active_operation_id := None\<rparr>) db3"
    by (auto simp: complete_chunking_def bind_eq_Inr Let_def)
  note D = still_owned_Inr [OF d]
  have same2: "documents db2 = documents db" "next_document_id db2 = next_document_id db"
    "child_chunks db2 = filter (\<lambda>c. cc_doc_id c \<noteq> ?did) (child_chunks db)" "next_chunk_id db2 = next_chunk_id db"
    using block_create_many_fields [OF b] D
    by (simp_all add: block_delete_by_doc_id_def chunk_delete_by_doc_id_def)
  then have "db_ok db2" using ok by (auto simp: db_ok_def distinct_map_filter)
  note C = chunk_create_many_effect [OF c _ this]
  have fresh: "\<forall>c\<in>set (child_rows u (length (br_parents r)) ctx (placed_children r saved)). cc_active c"
    using child_rows_fresh by blast
  note C = C [OF fresh]
  have docs: "documents db3 = documents db" using C same2(1) by simp
  have ids: "chunk_ids v db3 x = (if x = ?did then {} else chunk_ids v db x)" if "v \<noteq> VS_PENDING" for x
  proof (rule set_eqI)
    fix i
    have old: "c \<in> set (child_chunks db) \<and> cc_doc_id c \<noteq> ?did"
      if "c \<in> set (child_chunks db3)" "cc_vector_status c = v" for c
    proof -
      have "c \<in> set (child_chunks db2)" using C that \<open>v \<noteq> VS_PENDING\<close> child_rows_fresh by fastforce
      then show ?thesis by (simp add: same2)
    qed
    show "i \<in> chunk_ids v db3 x \<longleftrightarrow> i \<in> (if x = ?did then {} else chunk_ids v db x)"
      using old C same2(3) by (auto simp: chunk_ids_iff)
  qed
  have "document_get_by_id ?did db3 = Some d" using D by (simp add: same_documents(3) [OF docs])
  then show ?thesis
    using D C ids same_documents(1,2) [OF docs] by (auto simp: db' view_simps fun_eq_iff)
qed

lemma complete_indexing_effect:
  assumes step: "complete_indexing now ctx db = Inr (res, db')" and ok: "db_ok db"
  shows "owner db (ix_document_id ctx) = Some (ix_operation_id ctx) \<and>
    state db (ix_document_id ctx) = Some DOC_INDEXING \<and>
    owner db' = (owner db)(ix_document_id ctx := None) \<and>
    state db' = (state db)(ix_document_id ctx := Some DOC_INDEXED) \<and> db_ok db' \<and>
    chunk_ids VS_INDEXING db' = (chunk_ids VS_INDEXING db)(ix_document_id ctx := {}) \<and>
    chunk_ids VS_INDEXED db' = (chunk_ids VS_INDEXED db)(ix_document_id ctx :=
      chunk_ids VS_INDEXED db (ix_document_id ctx) \<union> chunk_ids VS_INDEXING db (ix_document_id ctx)) \<and>
    chunk_ids VS_INDEXING db (ix_document_id ctx) \<subseteq> set (context_chunk_ids ctx)"
proof -
  let ?did = "ix_document_id ctx" and ?ids = "context_chunk_ids ctx"
  let ?cs = "chunk_list_by_ids ?did ?ids db"
  let ?db1 = "chunk_mark_indexed_many now ?cs db"
  from step obtain d where
    d: "still_owned ''IndexingAbortedError'' DOC_INDEXING ?did (ix_operation_id ctx) db = Inr d"
    and all: "\<forall>c\<in>set (chunk_list_by_ids (doc_id d) ?ids db). cc_vector_status c = VS_INDEXING"
    and none: "chunk_count_active_not_indexed (doc_id d) (chunk_mark_indexed_many now (chunk_list_by_ids (doc_id d) ?ids db) db) = 0"
    and db': "db' = document_save (d\<lparr>doc_status := DOC_INDEXED, doc_active_operation_id := None,
       doc_indexed_at := Some now\<rparr>) (chunk_mark_indexed_many now (chunk_list_by_ids (doc_id d) ?ids db) db)"
    by (auto simp: complete_indexing_def bind_eq_Inr Let_def list_ex_iff split: if_splits)
  note D = still_owned_Inr [OF d]
  have id: "doc_id d = ?did" using D by simp
  note all = all [unfolded id] and none = none [unfolded id] and db' = db' [unfolded id]
  have cs: "set ?cs = {c \<in> set (child_chunks db). cc_doc_id c = ?did \<and> cc_id c \<in> set ?ids}"
    by (auto simp: chunk_list_by_ids_def)
  have marked: "chunk_ids v ?db1 x = (if x = ?did then
      if v = VS_INDEXED then chunk_ids v db x \<union> cc_id ` set ?cs else chunk_ids v db x - cc_id ` set ?cs
      else chunk_ids v db x)" for v x
    unfolding chunk_mark_indexed_many_def by (rule chunk_ids_update [OF ok]) (use cs in auto)
  have ok1: "db_ok ?db1" using ok by (simp add: chunk_mark_indexed_many_def db_ok_chunk_update)
  have "chunk_ids VS_INDEXING ?db1 ?did = {}"
    using none ok1 by (auto simp: chunk_count_active_not_indexed_def chunk_ids_iff db_ok_def filter_empty_conv)
  then have sub: "chunk_ids VS_INDEXING db ?did \<subseteq> cc_id ` set ?cs" by (auto simp: marked)
  moreover have "cc_id ` set ?cs \<subseteq> chunk_ids VS_INDEXING db ?did" 
    unfolding chunk_ids_def by (intro image_mono) (use all cs in auto)
  ultimately have eq: "cc_id ` set ?cs = chunk_ids VS_INDEXING db ?did" by blast
  have "cc_id ` set ?cs \<subseteq> set ?ids" using cs by auto
  moreover have "document_get_by_id ?did ?db1 = Some d" "owner ?db1 = owner db" "state ?db1 = state db"
    using D by (simp_all add: chunk_mark_indexed_many_def view_simps)
  ultimately show ?thesis
    using D ok1 id by (simp add: db' view_simps marked eq fun_eq_iff)
qed

section \<open>Failures, compensation, upload and life cycle\<close>

lemma owner_state_of:
  assumes "document_get_by_id did db = Some d"
  shows "doc_id d = did" "owner db did = doc_active_operation_id d" "state db did = Some (doc_status d)"
  using assms document_repo.fetch_key by (auto simp: owner_def state_def)

lemma fail_processing_effect:
  assumes "fail_processing did op db = (r, db')"
  shows "db' = db \<or>
    owner db did = Some op \<and> state db did = Some DOC_PROCESSING \<and> owner db' = owner db \<and>
    state db' = (state db)(did := Some DOC_FAILED) \<and> child_chunks db' = child_chunks db \<and>
    artifacts db' = artifacts db \<and> db_ok db' = db_ok db"
  using assms owner_state_of [of did db]
  by (auto simp: fail_processing_def view_simps split: option.splits if_splits)

lemma fail_chunking_effect:
  assumes "fail_chunking did op db = (r, db')"
  shows "db' = db \<or>
    owner db did = Some op \<and> state db did = Some DOC_CHUNKING \<and> owner db' = (owner db)(did := None) \<and>
    state db' = (state db)(did := Some DOC_FAILED) \<and> child_chunks db' = child_chunks db \<and>
    artifacts db' = artifacts db \<and> db_ok db' = db_ok db"
  using assms owner_state_of [of did db]
  by (auto simp: fail_chunking_def view_simps split: option.splits if_splits)

lemma release_operation_effect:
  "release_operation did op db = db \<or>
    owner db did = Some op \<and> owner (release_operation did op db) = (owner db)(did := None) \<and>
    state (release_operation did op db) = state db \<and>
    child_chunks (release_operation did op db) = child_chunks db \<and>
    artifacts (release_operation did op db) = artifacts db \<and> db_ok (release_operation did op db) = db_ok db"
  using owner_state_of [of did db]
  by (auto simp: release_operation_def view_simps split: option.splits if_splits)

lemma prepare_index_effect:
  assumes "prepare_index_compensation did op db = (Some sn, db')" and ok: "db_ok db"
  shows "owner db did = Some op \<and> state db did \<in> {Some DOC_INDEXING, Some DOC_FAILED} \<and>
    owner db' = owner db \<and> state db' = (state db)(did := Some DOC_FAILED) \<and>
    child_chunks db' = child_chunks db \<and> artifacts db' = artifacts db \<and> db_ok db' \<and>
    sn_document_id sn = did \<and> set (sn_chunk_ids sn) = chunk_ids VS_INDEXING db did"
proof -
  from assms obtain d where d: "document_get_by_id did db = Some d" "doc_active_operation_id d = Some op"
    "doc_status d \<in> {DOC_INDEXING, DOC_FAILED}" "sn_document_id sn = doc_id d"
    "sn_chunk_ids sn = map cc_id (chunk_list_indexable (doc_id d) [VS_INDEXING] db)"
    "db' = (if doc_status d = DOC_INDEXING then document_save (d\<lparr>doc_status := DOC_FAILED\<rparr>) db else db)"
    by (auto simp: prepare_index_compensation_def split: option.splits if_splits)
  note O = owner_state_of [OF d(1)]
  have "set (sn_chunk_ids sn) = chunk_ids VS_INDEXING db did"
    using O(1) by (auto simp: d(5) indexable_rows [OF ok] chunk_ids_def)
  then show ?thesis using d O ok by (auto simp: view_simps fun_eq_iff)
qed

lemma complete_index_comp_effect:
  assumes "complete_index_compensation sn op db = (r, db')" and ok: "db_ok db"
  shows "db' = db \<or>
    owner db (sn_document_id sn) = Some op \<and> state db (sn_document_id sn) = Some DOC_FAILED \<and>
    owner db' = (owner db)(sn_document_id sn := None) \<and> state db' = state db \<and> db_ok db' \<and>
    artifacts db' = artifacts db \<and>
    chunk_ids VS_INDEXING db' = (chunk_ids VS_INDEXING db)(sn_document_id sn :=
      chunk_ids VS_INDEXING db (sn_document_id sn) - set (sn_chunk_ids sn)) \<and>
    chunk_ids VS_INDEXED db' = chunk_ids VS_INDEXED db"
proof (cases "db' = db")
  case False
  let ?did = "sn_document_id sn" and ?ids = "sn_chunk_ids sn"
  from assms(1) False obtain d where d: "document_get_by_id ?did db = Some d"
    "doc_active_operation_id d = Some op" "doc_status d = DOC_FAILED"
    and db': "db' = document_save (d\<lparr>doc_active_operation_id := None\<rparr>)
      (chunk_mark_failed (chunk_list_by_ids (doc_id d) ?ids db) db)"
    by (auto simp: complete_index_compensation_def Let_def split: option.splits if_splits)
  note O = owner_state_of [OF d(1)]
  let ?cs = "chunk_list_by_ids ?did ?ids db"
  define f :: "child_chunk \<Rightarrow> child_chunk" where "f = (\<lambda>c. if cc_vector_status c = VS_INDEXING then c\<lparr>cc_vector_status := VS_FAILED\<rparr> else c)"
  have f: "cc_id (f c) = cc_id c" "cc_doc_id (f c) = cc_doc_id c" "cc_active (f c) = cc_active c" for c
    by (simp_all add: f_def)
  have cs: "set ?cs = {c \<in> set (child_chunks db). cc_doc_id c = ?did \<and> cc_id c \<in> set ?ids}"
    by (auto simp: chunk_list_by_ids_def)
  let ?g = "\<lambda>c. if cc_id c \<in> set (map cc_id ?cs) then f c else c"
  have db1: "chunk_mark_failed ?cs db = chunk_update (map cc_id ?cs) f db"
    by (simp add: chunk_mark_failed_def f_def [symmetric])
  have g: "cc_vector_status (?g c) = (if cc_doc_id c = ?did \<and> cc_id c \<in> set ?ids \<and>
      cc_vector_status c = VS_INDEXING then VS_FAILED else cc_vector_status c)"
    if "c \<in> set (child_chunks db)" for c
    using that db_ok_chunk_eq [OF ok that] cs by (auto simp: f_def)
  have chunks: "i \<in> chunk_ids v (chunk_mark_failed ?cs db) x \<longleftrightarrow>
      (\<exists>c\<in>set (child_chunks db). cc_id c = i \<and> cc_doc_id c = x \<and> cc_vector_status (?g c) = v)" for i v x
    unfolding db1 by (rule chunk_ids_chunk_update [OF f(1,2)])
  have ids: "chunk_ids VS_INDEXING (chunk_mark_failed ?cs db) x = (if x = ?did then
      chunk_ids VS_INDEXING db x - set ?ids else chunk_ids VS_INDEXING db x)" for x
    using g unfolding set_eq_iff chunks by (auto simp: chunk_ids_iff)
  have ids2: "chunk_ids VS_INDEXED (chunk_mark_failed ?cs db) x = chunk_ids VS_INDEXED db x" for x
    unfolding set_eq_iff chunks unfolding chunk_ids_iff
    by (intro allI bex_cong refl) (auto simp only: g split: if_splits)
  have "db_ok (chunk_mark_failed ?cs db)" unfolding db1 using ok by (simp add: db_ok_chunk_update f)
  moreover have "document_get_by_id ?did (chunk_mark_failed ?cs db) = Some d"
    "owner (chunk_mark_failed ?cs db) = owner db" "state (chunk_mark_failed ?cs db) = state db"
    "artifacts (chunk_mark_failed ?cs db) = artifacts db"
    using d by (simp_all add: db1 view_simps) (simp add: chunk_update_def)
  ultimately show ?thesis
    using d O by (simp add: db' view_simps ids ids2 fun_eq_iff)
qed simp


lemma document_create_effect:
  assumes step: "document_create d0 db = Inr (d, db')" and ok: "db_ok db"
    and new: "doc_active_operation_id d0 = None" "doc_status d0 = DOC_UPLOADED"
  shows "d = d0\<lparr>doc_id := next_document_id db\<rparr> \<and> document_get_by_id (doc_id d) db = None \<and>
    owner db' = owner db \<and> state db' = (state db)(doc_id d := Some DOC_UPLOADED) \<and>
    child_chunks db' = child_chunks db \<and> artifacts db' = artifacts db \<and> db_ok db' \<and>
    documents db' = documents db @ [d]"
proof -
  let ?d = "d0\<lparr>doc_id := next_document_id db\<rparr>"
  from step have d: "d = ?d" and db': "db' = db\<lparr>documents := documents db @ [?d],
      next_document_id := next_document_id db + 1\<rparr>"
    by (auto simp: document_create_def Let_def bind_eq_Inr add_row_Inr)
  have fresh: "document_get_by_id (next_document_id db) db = None"
    using ok by (auto simp: document_get_by_id_def get_row_None_iff db_ok_def)
  have get: "document_get_by_id x db' = (if x = next_document_id db then Some ?d else document_get_by_id x db)" for x
    using fresh by (auto simp: document_get_by_id_def db' get_row_append table_simps split: option.splits)
  have "db_ok db'" using ok by (fastforce simp: db_ok_def db')
  then show ?thesis using fresh new
    by (auto simp: d db' fun_eq_iff owner_def state_def get [unfolded db'])
qed

lemma upload_effect:
  assumes "upload_document ports ust now code f m actor db fs = (r, db', fs')" and ok: "db_ok db"
  shows "db' = db \<or> (\<exists>d. r = Inr d \<and> document_get_by_id (doc_id d) db = None \<and> owner db' = owner db \<and>
    state db' = (state db)(doc_id d := Some DOC_UPLOADED) \<and> child_chunks db' = child_chunks db \<and>
    artifacts db' = artifacts db \<and> db_ok db' \<and> documents db' = documents db @ [d] \<and> doc_cleaned_uri d = None)"
proof (cases "db' = db")
  case False
  with assms obtain d0 d where c: "document_create d0 db = Inr (d, db')" "r = Inr d"
    and d0: "doc_active_operation_id d0 = None" "doc_status d0 = DOC_UPLOADED" "doc_cleaned_uri d0 = None"
    by (auto simp: upload_document_def register_upload_def new_document_def Let_def
        split: option.splits if_splits sum.splits error.splits)
  from document_create_effect [OF c(1) ok d0(1,2)] c(2) d0(3) show ?thesis by auto
qed simp

lemma deactivate_effect:
  assumes "deactivate_document now did reason replaced_by db = Inr (d, db')"
  shows "owner db' = owner db \<and> state db' = state db \<and> child_chunks db' = child_chunks db \<and>
    artifacts db' = artifacts db \<and> db_ok db' = db_ok db"
proof -
  have keep: "owner (document_save (document_deactivate reason replaced_by d0) db) = owner db \<and>
      state (document_save (document_deactivate reason replaced_by d0) db) = state db \<and>
      db_ok (document_save (document_deactivate reason replaced_by d0) db) = db_ok db"
    if "document_get_by_id did db = Some d0" for d0
    using that owner_state_of [OF that]
    by (auto simp: view_simps document_deactivate_def Let_def fun_eq_iff)
  show ?thesis using assms keep
    by (auto simp: deactivate_document_def Let_def bind_eq_Inr view_simps split: option.splits if_splits)
qed

end
