(* ===== verification/Stage_Runs.thy ===== *)
theory Stage_Runs
  imports Executors Document_Safety
begin

text \<open>
  What a run of a stage of the pipeline does to the documents, as its callers see it, and what its
  compensation leaves for the next attempt.
\<close>

section \<open>What the stages do to the state\<close>

text \<open>The claim of a stage, without the context it hands on.\<close>

definition stage_claim ::
  "document_capability \<Rightarrow> int \<Rightarrow> ident \<Rightarrow> document_db \<Rightarrow> document_db result" where
  "stage_claim cap did op db =
     (case cap of
        Process_Capability \<Rightarrow> bind (claim_processing did op db) (\<lambda>(_, db'). Inr db')
      | Chunks_Capability \<Rightarrow> bind (claim_chunking did op db) (\<lambda>(_, db'). Inr db')
      | Index_Capability \<Rightarrow> bind (claim_indexing did op db) (\<lambda>(_, db'). Inr db'))"

definition settled_status :: "document_capability \<Rightarrow> document_status" where
  "settled_status cap = (case cap of Process_Capability \<Rightarrow> DOC_PROCESSED
     | Chunks_Capability \<Rightarrow> DOC_CHUNKED | Index_Capability \<Rightarrow> DOC_INDEXED)"

definition busy_status :: "document_capability \<Rightarrow> document_status" where
  "busy_status cap = (case cap of Process_Capability \<Rightarrow> DOC_PROCESSING
     | Chunks_Capability \<Rightarrow> DOC_CHUNKING | Index_Capability \<Rightarrow> DOC_INDEXING)"

text \<open>
  A run of the use case of a stage on a document: it fails before its claim and changes nothing, it
  fails after it and leaves the claim, or it succeeds and settles the document.
\<close>

definition stage_run ::
  "document_capability \<Rightarrow> int \<Rightarrow> ident \<Rightarrow> document_state \<Rightarrow> bool \<Rightarrow> document_state \<Rightarrow> bool" where
  "stage_run cap did op s success s' \<longleftrightarrow>
     (if success
      then (\<exists>db1. stage_claim cap did op (dst_db s) = Inr db1 \<and>
        owner (dst_db s') = (owner (dst_db s))(did := None) \<and>
        state (dst_db s') = (state (dst_db s))(did := Some (settled_status cap)) \<and>
        (\<forall>i. i \<noteq> did \<longrightarrow> document_get_by_id i (dst_db s') = document_get_by_id i (dst_db s)))
      else s' = s \<and> is_error (stage_claim cap did op (dst_db s)) \<or>
        stage_claim cap did op (dst_db s) = Inr (dst_db s'))"

lemma stage_run_success:
  assumes "stage_claim cap did op (dst_db s) = Inr db1"
    and "owner (dst_db s') = (owner (dst_db s))(did := None)"
    and "state (dst_db s') = (state (dst_db s))(did := Some (settled_status cap))"
    and "\<And>i. i \<noteq> did \<Longrightarrow> document_get_by_id i (dst_db s') = document_get_by_id i (dst_db s)"
  shows "stage_run cap did op s True s'"
  using assms by (simp add: stage_run_def)

section \<open>Rows of other documents\<close>

lemma save_other:
  "i \<noteq> doc_id d \<Longrightarrow> document_get_by_id i (document_save d db) = document_get_by_id i db"
  by (simp add: document_repo.fetch_save)

lemma same_documents_get: "documents db' = documents db \<Longrightarrow> document_get_by_id i db' = document_get_by_id i db"
  by (simp add: document_get_by_id_def)

lemma claimable_id: "claimable ss did db = Inr d \<Longrightarrow> doc_id d = did"
  by (simp add: claimable_Inr)

lemma still_owned_id: "still_owned exc s did op db = Inr d \<Longrightarrow> doc_id d = did"
  by (simp add: still_owned_Inr)

lemma stage_claim_other:
  assumes "stage_claim cap did op db = Inr db'" and "i \<noteq> did"
  shows "document_get_by_id i db' = document_get_by_id i db"
proof -
  have upd: "document_get_by_id i (chunk_mark_indexing cs db) = document_get_by_id i db" for cs
    by (simp add: document_get_by_id_def chunk_mark_indexing_def chunk_update_def)
  show ?thesis
    using assms by (cases cap) (auto simp: stage_claim_def claim_processing_def claim_chunking_def
      claim_indexing_def bind_eq_Inr Let_def take_over_def save_other upd split: if_splits dest!: claimable_id)
qed

lemma complete_processing_other:
  assumes "complete_processing now u r db = Inr (res, db')" and "i \<noteq> xr_document_id r"
  shows "document_get_by_id i db' = document_get_by_id i db"
  using assms by (auto simp: complete_processing_def bind_eq_Inr save_other
      dest!: persist_artifact_fields still_owned_id same_documents_get [where i = i] split: option.splits)

lemma chunk_create_many_documents: "chunk_create_many cs db = Inr db' \<Longrightarrow> documents db' = documents db"
  by (induction cs db rule: chunk_create_many.induct) (fastforce simp: bind_eq_Inr)+

lemma complete_chunking_other:
  assumes "complete_chunking ports u ctx r db = Inr (res, db')" and "i \<noteq> kx_document_id ctx"
  shows "document_get_by_id i db' = document_get_by_id i db"
  using assms
  by (auto simp: complete_chunking_def bind_eq_Inr Let_def save_other block_delete_by_doc_id_def
      chunk_delete_by_doc_id_def document_get_by_id_def [of i] document_save_def table_simps
      dest!: still_owned_id block_create_many_fields chunk_create_many_documents)

lemma complete_indexing_other:
  assumes "complete_indexing now ctx db = Inr (res, db')" and "i \<noteq> ix_document_id ctx"
  shows "document_get_by_id i db' = document_get_by_id i db"
proof -
  have upd: "document_get_by_id i (chunk_mark_indexed_many now cs db) = document_get_by_id i db" for cs
    by (simp add: document_get_by_id_def chunk_mark_indexed_many_def chunk_update_def)
  show ?thesis
    using assms by (auto simp: complete_indexing_def bind_eq_Inr Let_def save_other upd
      dest!: still_owned_id split: if_splits)
qed

section \<open>Runs of the use cases\<close>

lemma execute_processing_id:
  "execute_processing ports st u ctx fs = Inr (r, fs') \<Longrightarrow>
     xr_document_id r = px_document_id ctx \<and> xr_operation_id r = px_operation_id ctx"
  by (auto simp: execute_processing_def bind_eq_Inr Let_def split: if_splits)

lemma promote_processing_id:
  "promote_processing_artifacts st r fs = Inr (r', fs') \<Longrightarrow>
     xr_document_id r' = xr_document_id r \<and> xr_operation_id r' = xr_operation_id r"
  by (auto simp: promote_processing_artifacts_def bind_eq_Inr)

text \<open>Results carry the document they are about.\<close>

lemma complete_processing_id:
  "complete_processing now u r db = Inr (res, db') \<Longrightarrow>
     pdr_document_id res = xr_document_id r \<and> pdr_status res = DOC_PROCESSED"
  by (auto simp: complete_processing_def bind_eq_Inr dest!: still_owned_id)

lemma complete_chunking_id:
  "complete_chunking ports u ctx r db = Inr (res, db') \<Longrightarrow> bcr_document_id res = kx_document_id ctx"
  by (auto simp: complete_chunking_def bind_eq_Inr Let_def dest!: still_owned_id)

lemma complete_indexing_id:
  "complete_indexing now ctx db = Inr (res, db') \<Longrightarrow> ivr_document_id res = ix_document_id ctx"
  by (auto simp: complete_indexing_def bind_eq_Inr Let_def split: if_splits dest!: still_owned_id)

lemma run_process_document_stage:
  assumes "run_process_document sv now u did op s = (r, s')"
  shows "stage_run Process_Capability did op s (\<not> is_error r) s' \<and>
    (\<forall>res. r = Inr res \<longrightarrow> pdr_document_id res = did \<and> pdr_status res = DOC_PROCESSED)"
proof (cases "claim_processing did op (dst_db s)")
  case (Inl e)
  then show ?thesis
    using assms by (auto simp: run_process_document_def process_document_def stage_run_def stage_claim_def)
next
  case (Inr c)
  obtain ctx db1 where c: "c = (ctx, db1)" by force
  note claim = claim_processing_effect [OF Inr [unfolded c]]
  have sc: "stage_claim Process_Capability did op (dst_db s) = Inr db1"
    by (simp add: stage_claim_def Inr c)
  show ?thesis
  proof (cases r)
    case Error: (Inl e)
    then have "dst_db s' = db1"
      using assms by (auto simp: run_process_document_def process_document_def Inr c split: sum.splits)
    then show ?thesis by (simp add: Error stage_run_def sc)
  next
    case Ok: (Inr res)
    from assms obtain xr where xr: "xr_document_id xr = did"
      and fin: "complete_processing now (\<lambda>i. u (i + 1)) xr db1 = Inr (res, dst_db s')"
      using claim by (auto simp: run_process_document_def process_document_def Inr c Ok bind_eq_Inr
        dest!: execute_processing_id promote_processing_id split: sum.splits)
    have "stage_run Process_Capability did op s True s'"
      using complete_processing_effect [OF fin] claim complete_processing_other [OF fin]
        stage_claim_other [OF sc]
      by (intro stage_run_success [OF sc]) (auto simp: settled_status_def xr)
    then show ?thesis using complete_processing_id [OF fin] by (simp add: Ok xr)
  qed
qed

lemma run_build_chunks_stage:
  assumes "run_build_chunks sv u did op s = (r, s')" and ok: "db_ok (dst_db s)"
  shows "stage_run Chunks_Capability did op s (\<not> is_error r) s' \<and>
    (\<forall>res. r = Inr res \<longrightarrow> bcr_document_id res = did)"
proof (cases "claim_chunking did op (dst_db s)")
  case (Inl e)
  then show ?thesis
    using assms by (auto simp: run_build_chunks_def build_document_chunks_def stage_run_def stage_claim_def)
next
  case (Inr c)
  obtain ctx db1 where c: "c = (ctx, db1)" by force
  note claim = claim_chunking_effect [OF Inr [unfolded c]]
  have sc: "stage_claim Chunks_Capability did op (dst_db s) = Inr db1"
    by (simp add: stage_claim_def Inr c)
  show ?thesis
  proof (cases r)
    case Error: (Inl e)
    then have "dst_db s' = db1"
      using assms by (auto simp: run_build_chunks_def build_document_chunks_def Inr c split: sum.splits)
    moreover from Error have "s'\<lparr>dst_db := dst_db s\<rparr> = s"
      using assms by (auto simp: run_build_chunks_def split: prod.splits)
    ultimately show ?thesis by (simp add: Error stage_run_def sc)
  next
    case Ok: (Inr res)
    from assms obtain b where
      fin: "complete_chunking (dsv_ports sv) u ctx b db1 = Inr (res, dst_db s')"
      by (auto simp: run_build_chunks_def build_document_chunks_def Inr c Ok bind_eq_Inr split: sum.splits)
    have "stage_run Chunks_Capability did op s True s'"
      using complete_chunking_effect [OF fin] claim ok complete_chunking_other [OF fin]
        stage_claim_other [OF sc]
      by (intro stage_run_success [OF sc]) (auto simp: settled_status_def)
    then show ?thesis using complete_chunking_id [OF fin] claim by (simp add: Ok)
  qed
qed

lemma run_index_vectors_stage:
  assumes "run_index_vectors sv now did op s = (r, s')" and ok: "db_ok (dst_db s)"
  shows "stage_run Index_Capability did op s (\<not> is_error r) s' \<and>
    (\<forall>res. r = Inr res \<longrightarrow> ivr_document_id res = did)"
proof (cases "claim_indexing did op (dst_db s)")
  case (Inl e)
  then show ?thesis
    using assms by (auto simp: run_index_vectors_def index_document_vectors_def stage_run_def stage_claim_def)
next
  case (Inr c)
  obtain ctx db1 where c: "c = (ctx, db1)" by force
  note claim = claim_indexing_effect [OF Inr [unfolded c] ok]
  have sc: "stage_claim Index_Capability did op (dst_db s) = Inr db1"
    by (simp add: stage_claim_def Inr c)
  show ?thesis
  proof (cases r)
    case Error: (Inl e)
    then have "dst_db s' = db1"
      using assms by (auto simp: run_index_vectors_def index_document_vectors_def Inr c split: sum.splits prod.splits)
    then show ?thesis by (simp add: Error stage_run_def sc)
  next
    case Ok: (Inr res)
    from assms have fin: "complete_indexing now ctx db1 = Inr (res, dst_db s')"
      by (auto simp: run_index_vectors_def index_document_vectors_def Inr c Ok split: sum.splits prod.splits)
    have "stage_run Index_Capability did op s True s'"
      using complete_indexing_effect [OF fin] claim complete_indexing_other [OF fin]
        stage_claim_other [OF sc]
      by (intro stage_run_success [OF sc]) (auto simp: settled_status_def)
    then show ?thesis using complete_indexing_id [OF fin] claim by (simp add: Ok)
  qed
qed

section \<open>The contract of a stage\<close>

text \<open>
  What the executors rely on: a run fails before its claim, fails after it, or settles the document
  and answers a result about it.
\<close>

locale document_stage =
  fixes cap :: document_capability
    and run :: "int \<Rightarrow> ident \<Rightarrow> document_state \<Rightarrow> 'r result \<times> document_state"
    and result_id :: "'r \<Rightarrow> int"
  assumes stage: "run did op s = (r, s') \<Longrightarrow> db_ok (dst_db s) \<Longrightarrow> stage_run cap did op s (\<not> is_error r) s'"
    and about: "run did op s = (Inr res, s') \<Longrightarrow> db_ok (dst_db s) \<Longrightarrow> result_id res = did"
begin

lemma fallback_run:
  assumes pay: "document_payload payload = Inr payload" "payload_document_id payload = Some did"
    and oc: "runtime_operation_context ctx = Inr oc" and ok: "db_ok (dst_db s)"
  shows "deterministic_executor run output result_id payload ctx s =
    (case run did (ctx_operation_id ctx) s of
       (Inl e, s') \<Rightarrow> (document_failure e, s')
     | (Inr v, s') \<Rightarrow> (Returned (output v) [document_ref did], s'))"
proof -
  have "oc_operation_id oc = ctx_operation_id ctx"
    using oc by (auto simp: runtime_operation_context_def checked_operation_context_def split: if_splits)
  then show ?thesis
    using about [OF _ ok, of did "ctx_operation_id ctx"]
    by (cases "run did (ctx_operation_id ctx) s")
       (auto simp: deterministic_executor_def pay under_operation_def oc split: sum.splits)
qed

lemma success_settles:
  "run did op s = (Inr v, s') \<Longrightarrow> db_ok (dst_db s) \<Longrightarrow>
     owner (dst_db s') did = None \<and> state (dst_db s') did = Some (settled_status cap)"
  using stage [of did op s "Inr v" s'] by (auto simp: stage_run_def)

end

interpretation process_stage: document_stage Process_Capability "run_process_document sv now u" pdr_document_id
  for sv now u by unfold_locales (use run_process_document_stage in blast)+

interpretation chunks_stage: document_stage Chunks_Capability "run_build_chunks sv u" bcr_document_id
  for sv u by unfold_locales (use run_build_chunks_stage in blast)+

interpretation index_stage: document_stage Index_Capability "run_index_vectors sv now" ivr_document_id
  for sv now by unfold_locales (use run_index_vectors_stage in blast)+

section \<open>Compensation makes room for the next attempt\<close>

definition usable :: "document \<Rightarrow> bool" where
  "usable d \<longleftrightarrow> doc_lifecycle_status d \<in> set USABLE_LIFECYCLE_STATUSES \<and> doc_storage_status d = ST_ACTIVE"

lemma claimable_iff:
  "claimable ss did db = Inr d \<longleftrightarrow> document_get_by_id did db = Some d \<and>
     doc_active_operation_id d = None \<and> doc_status d \<in> set ss \<and> usable d"
  by (auto simp: claimable_def usable_def split: option.splits)

text \<open>The row of the document after the claim of a stage.\<close>

lemma stage_claim_row:
  assumes "stage_claim cap did op db = Inr db'"
  shows "\<exists>d. document_get_by_id did db = Some d \<and> usable d \<and> doc_id d = did \<and>
    document_get_by_id did db' =
      Some (d\<lparr>doc_status := busy_status cap, doc_active_operation_id := Some op\<rparr>)"
proof -
  have upd: "document_get_by_id i (chunk_mark_indexing cs db) = document_get_by_id i db" for i cs
    by (simp add: document_get_by_id_def chunk_mark_indexing_def chunk_update_def)
  have "\<exists>d ss db0. claimable ss did db = Inr d \<and> db' = take_over (busy_status cap) op d db0 \<and>
      document_get_by_id did db0 = document_get_by_id did db"
    using assms by (cases cap) (auto simp: stage_claim_def claim_processing_def claim_chunking_def
      claim_indexing_def bind_eq_Inr Let_def busy_status_def split: if_splits, metis upd)
  then obtain d ss db0 where d: "claimable ss did db = Inr d" "db' = take_over (busy_status cap) op d db0"
    "document_get_by_id did db0 = document_get_by_id did db" by blast
  then show ?thesis
    using claimable_id [OF d(1)]
    by (auto simp: claimable_iff take_over_def document_repo.fetch_save)
qed

text \<open>What compensation leaves of the row it finds busy under its operation.\<close>

definition freed :: "int \<Rightarrow> document \<Rightarrow> document_db \<Rightarrow> bool" where
  "freed did d db \<longleftrightarrow> (\<exists>d'. document_get_by_id did db = Some d' \<and>
     d' = d\<lparr>doc_status := DOC_FAILED, doc_active_operation_id := None\<rparr>)"

lemma compensate_processing_frees:
  assumes "compensate_processing st did op db fs = (Inr r, db', fs')"
    and "document_get_by_id did db = Some d" "doc_status d = DOC_PROCESSING" "doc_active_operation_id d = Some op"
  shows "freed did d db'"
proof -
  have id: "doc_id d = did" using document_repo.fetch_key [OF assms(2)] .
  have "fail_processing did op db = (\<lparr>fs_state_updated = True, fs_status_before = Some DOC_PROCESSING,
      fs_status_after = Some DOC_FAILED\<rparr>, document_save (d\<lparr>doc_status := DOC_FAILED\<rparr>) db)"
    using assms(2-) by (simp add: fail_processing_def)
  then show ?thesis
    using assms id by (auto simp: compensate_processing_def owns_failed_operation_def release_operation_def
      document_repo.fetch_save freed_def split: sum.splits)
qed

lemma fail_chunking_frees:
  assumes "document_get_by_id did db = Some d" "doc_status d = DOC_CHUNKING" "doc_active_operation_id d = Some op"
  shows "freed did d (snd (fail_chunking did op db))"
    "child_chunks (snd (fail_chunking did op db)) = child_chunks db"
    "artifacts (snd (fail_chunking did op db)) = artifacts db"
  using assms document_repo.fetch_key [OF assms(1)]
  by (auto simp: fail_chunking_def document_repo.fetch_save freed_def view_simps)

text \<open>The columns of a chunk that the pipeline never changes after its insertion.\<close>

definition chunk_key :: "child_chunk \<Rightarrow> int \<times> int \<times> int \<times> string" where
  "chunk_key c = (cc_id c, cc_doc_id c, cc_kb_id c, cc_domain_code c)"

lemma chunk_keys_update:
  assumes "\<And>c. chunk_key (f c) = chunk_key c"
  shows "map chunk_key (child_chunks (chunk_update ids f db)) = map chunk_key (child_chunks db)"
  by (simp add: chunk_update_def assms)

lemma chunk_keys_kept:
  "map chunk_key (child_chunks (chunk_mark_indexing cs db)) = map chunk_key (child_chunks db)"
  "map chunk_key (child_chunks (chunk_mark_failed cs db)) = map chunk_key (child_chunks db)"
  by (auto simp: chunk_mark_indexing_def chunk_mark_failed_def chunk_key_def intro!: chunk_keys_update)

lemma same_key_member:
  assumes "map chunk_key xs = map chunk_key ys" and "c \<in> set xs"
  shows "\<exists>c'\<in>set ys. chunk_key c' = chunk_key c"
  using assms by (metis (no_types, lifting) image_iff image_set)

lemma index_compensation_frees:
  assumes prep: "prepare_index_compensation did op db = (Some sn, db1)" and ok: "db_ok db"
    and row: "document_get_by_id did db = Some d" "doc_status d = DOC_INDEXING" "doc_active_operation_id d = Some op"
    and db2: "db2 = snd (complete_index_compensation sn op db1)"
  shows "freed did d db2 \<and> map chunk_key (child_chunks db2) = map chunk_key (child_chunks db) \<and> db_ok db2 \<and>
    chunk_ids VS_INDEXING db2 did = {} \<and> chunk_ids VS_INDEXED db2 = chunk_ids VS_INDEXED db"
proof -
  note id = document_repo.fetch_key [OF row(1)]
  have db1: "db1 = document_save (d\<lparr>doc_status := DOC_FAILED\<rparr>) db" "sn_document_id sn = did"
    using prep row id by (auto simp: prepare_index_compensation_def)
  have row1: "document_get_by_id did db1 = Some (d\<lparr>doc_status := DOC_FAILED\<rparr>)"
    using row id by (simp add: db1 document_repo.fetch_save)
  note P = prepare_index_effect [OF prep ok]
  let ?cs = "chunk_list_by_ids did (sn_chunk_ids sn) db1"
  have eq: "db2 = document_save (d\<lparr>doc_status := DOC_FAILED, doc_active_operation_id := None\<rparr>)
      (chunk_mark_failed ?cs db1)"
    using row1 row id by (simp add: db2 complete_index_compensation_def db1(2) Let_def)
  have upd: "document_get_by_id i (chunk_mark_failed cs db1) = document_get_by_id i db1" for i cs
    by (simp add: document_get_by_id_def chunk_mark_failed_def chunk_update_def)
  have "freed did d db2" using row1 id by (simp add: eq document_repo.fetch_save upd freed_def)
  moreover have "map chunk_key (child_chunks db2) = map chunk_key (child_chunks db)"
    by (simp add: eq view_simps chunk_keys_kept db1)
  moreover have "owner db2 did = None" using \<open>freed did d db2\<close> by (auto simp: freed_def owner_def)
  then have "db2 \<noteq> db1" using row1 row(3) by (auto simp: owner_def)
  ultimately show ?thesis
    using complete_index_comp_effect [of sn op db1 "fst (complete_index_compensation sn op db1)" db2] P
    by (auto simp: db2 db1(2) chunk_ids_def)
qed

text \<open>The next claim of each stage.\<close>

lemma freed_claimable:
  "freed did d db \<Longrightarrow> usable d \<Longrightarrow> DOC_FAILED \<in> set ss \<Longrightarrow>
     claimable ss did db = Inr (d\<lparr>doc_status := DOC_FAILED, doc_active_operation_id := None\<rparr>)"
  by (auto simp: claimable_iff freed_def usable_def)

lemma reclaim_processing:
  "freed did d db \<Longrightarrow> usable d \<Longrightarrow> \<not> is_error (stage_claim Process_Capability did op db)"
  by (simp add: stage_claim_def claim_processing_def freed_claimable)

lemma reclaim_chunking:
  assumes "freed did d db2" "usable d" "doc_id d = did" and src: "\<not> is_error (cleaned_source d db)"
    and same: "artifacts db2 = artifacts db" "\<not> chunk_exists_by_doc_id did db2"
  shows "\<not> is_error (stage_claim Chunks_Capability did op db2)"
proof -
  let ?d = "d\<lparr>doc_status := DOC_FAILED, doc_active_operation_id := None\<rparr>"
  have "cleaned_source ?d db2 = cleaned_source d db"
    by (auto simp: cleaned_source_def artifact_get_latest_active_def same(1) split: option.split)
  with src obtain v where "cleaned_source ?d db2 = Inr v" by (cases "cleaned_source d db") auto
  then show ?thesis
    using freed_claimable [OF assms(1,2), of "[DOC_PROCESSED, DOC_FAILED]"] same(2) assms(3)
    by (cases v) (simp add: stage_claim_def claim_chunking_def)
qed

lemma reclaim_indexing:
  assumes claim: "stage_claim Index_Capability did op db = Inr db1" and ok: "db_ok db"
    and freed: "freed did d db2" "usable d" "doc_id d = did" "document_get_by_id did db = Some d0"
      "doc_kb_id d = doc_kb_id d0" "doc_domain_code d = doc_domain_code d0"
    and keys: "map chunk_key (child_chunks db2) = map chunk_key (child_chunks db)" and ok2: "db_ok db2"
    and ids: "chunk_ids VS_INDEXING db2 did = {}" "chunk_ids VS_INDEXED db2 = chunk_ids VS_INDEXED db"
  shows "\<not> is_error (stage_claim Index_Capability did op2 db2)"
proof -
  let ?open = "\<lambda>db. chunk_list_indexable did INDEXABLE_VECTOR_STATUSES db"
  let ?d = "d\<lparr>doc_status := DOC_FAILED, doc_active_operation_id := None\<rparr>"
  from claim obtain c where c: "claimable [DOC_CHUNKED, DOC_FAILED] did db = Inr c"
    "\<not> chunk_exists_by_vector_status did VS_INDEXING db" "?open db \<noteq> []"
    "validate_indexing_chunk_ownership c (?open db) = Inr ()"
    by (auto simp: stage_claim_def claim_indexing_def bind_eq_Inr Let_def split: if_splits dest: claimable_id)
  then have "c = d0" using freed(4) by (simp add: claimable_iff)
  have member: "x \<in> set (?open D) \<longleftrightarrow> x \<in> set (child_chunks D) \<and> cc_doc_id x = did \<and>
      cc_vector_status x \<noteq> VS_INDEXED \<and> cc_vector_status x \<noteq> VS_INDEXING" if "db_ok D" for x D
    using that by (cases "cc_vector_status x") (auto simp: indexable_rows INDEXABLE_VECTOR_STATUSES_def)
  have indexed: "cc_vector_status x = VS_INDEXED \<longleftrightarrow> cc_id x \<in> chunk_ids VS_INDEXED D did"
    if "db_ok D" "x \<in> set (child_chunks D)" "cc_doc_id x = did" for x D
    using that db_ok_chunk_eq [OF that(1,2)] unfolding chunk_ids_iff by metis
  have none: "cc_vector_status x \<noteq> VS_INDEXING" if "x \<in> set (child_chunks db2)" "cc_doc_id x = did" for x
    using ids(1) that by (auto simp: chunk_ids_def)
  have none0: "cc_vector_status x \<noteq> VS_INDEXING" if "x \<in> set (child_chunks db)" "cc_doc_id x = did" for x
    using c(2) that ok by (auto simp: chunk_exists_by_vector_status_def db_ok_def list_ex_iff)
  have fwd: "\<exists>y \<in> set (?open db2). chunk_key y = chunk_key x" if "x \<in> set (?open db)" for x
  proof -
    from that have x: "x \<in> set (child_chunks db)" "cc_doc_id x = did" "cc_vector_status x \<noteq> VS_INDEXED"
      by (auto simp: member [OF ok])
    obtain y where y: "y \<in> set (child_chunks db2)" "chunk_key y = chunk_key x"
      using same_key_member [OF keys [symmetric] x(1)] by blast
    then have "cc_doc_id y = did" "cc_id y = cc_id x" using x by (simp_all add: chunk_key_def)
    then have "y \<in> set (?open db2)"
      using y x none [OF y(1)] indexed [OF ok2 y(1)] indexed [OF ok x(1)] ids(2) by (simp add: member [OF ok2])
    with y(2) show ?thesis by blast
  qed
  have bwd: "\<exists>x \<in> set (?open db). chunk_key y = chunk_key x" if "y \<in> set (?open db2)" for y
  proof -
    from that have y: "y \<in> set (child_chunks db2)" "cc_doc_id y = did" "cc_vector_status y \<noteq> VS_INDEXED"
      by (auto simp: member [OF ok2])
    obtain x where x: "x \<in> set (child_chunks db)" "chunk_key x = chunk_key y"
      using same_key_member [OF keys y(1)] by blast
    then have "cc_doc_id x = did" "cc_id y = cc_id x" using y by (simp_all add: chunk_key_def)
    then have "x \<in> set (?open db)"
      using y x none0 [OF x(1)] indexed [OF ok2 y(1)] indexed [OF ok x(1)] ids(2) by (simp add: member [OF ok])
    with x(2) show ?thesis by metis
  qed
  have "?open db2 \<noteq> []" using fwd c(3) by (cases "?open db") (auto, metis list.set_intros(1) list.set(1) empty_iff)
  moreover have "validate_indexing_chunk_ownership ?d (?open db2) = Inr ()"
  proof -
    have "cc_doc_id x = did \<and> cc_kb_id x = doc_kb_id d0 \<and> cc_domain_code x = doc_domain_code d0"
      if "x \<in> set (?open db)" for x
      using c(4) that claimable_id [OF c(1)] unfolding \<open>c = d0\<close>
      by (auto simp: validate_indexing_chunk_ownership_def list_ex_iff split: if_splits)
    then have "cc_doc_id y = did \<and> cc_kb_id y = doc_kb_id d0 \<and> cc_domain_code y = doc_domain_code d0"
      if "y \<in> set (?open db2)" for y using bwd [OF that] by (auto simp: chunk_key_def)
    then show ?thesis using freed(3,5,6) by (auto simp: validate_indexing_chunk_ownership_def list_ex_iff)
  qed
  moreover have "\<not> chunk_exists_by_vector_status did VS_INDEXING db2"
    using none by (auto simp: chunk_exists_by_vector_status_def list_ex_iff)
  ultimately show ?thesis
    using freed_claimable [OF freed(1,2), of "[DOC_CHUNKED, DOC_FAILED]"] freed(3)
    by (simp add: stage_claim_def claim_indexing_def Let_def)
qed

lemma stage_claim_ok:
  assumes claim: "stage_claim cap did op db = Inr db'" and ok: "db_ok db"
  shows "db_ok db'"
proof (cases cap)
  case Process_Capability
  with claim obtain ctx where "claim_processing did op db = Inr (ctx, db')"
    by (auto simp: stage_claim_def bind_eq_Inr)
  from claim_processing_effect [OF this] show ?thesis using ok by blast
next
  case Chunks_Capability
  with claim obtain ctx where "claim_chunking did op db = Inr (ctx, db')"
    by (auto simp: stage_claim_def bind_eq_Inr)
  from claim_chunking_effect [OF this] show ?thesis using ok by blast
next
  case Index_Capability
  with claim obtain ctx where "claim_indexing did op db = Inr (ctx, db')"
    by (auto simp: stage_claim_def bind_eq_Inr)
  from claim_indexing_effect [OF this ok] show ?thesis by blast
qed

text \<open>A claim for the index stage keeps the chunks but for the status of the open ones.\<close>

lemma index_claim_chunks:
  assumes "stage_claim Index_Capability did op db = Inr db'" and ok: "db_ok db"
  shows "map chunk_key (child_chunks db') = map chunk_key (child_chunks db) \<and>
    chunk_ids VS_INDEXED db' = chunk_ids VS_INDEXED db"
proof -
  from assms(1) obtain ctx where c: "claim_indexing did op db = Inr (ctx, db')"
    by (auto simp: stage_claim_def bind_eq_Inr)
  then have "\<exists>d cs. db' = take_over DOC_INDEXING op d (chunk_mark_indexing cs db)"
    by (auto simp: claim_indexing_def bind_eq_Inr Let_def split: if_splits)
  then have "map chunk_key (child_chunks db') = map chunk_key (child_chunks db)"
    by (auto simp: take_over_def view_simps chunk_keys_kept)
  then show ?thesis using claim_indexing_effect [OF c ok] by blast
qed

end
