(* ===== verification/Executor_Properties.thy ===== *)
theory Executor_Properties
  imports Stage_Errors Stage_Runs Runtime_Properties
begin

text \<open>
  The task runtime and the document pipeline together: an agent and the fallback executor agree, an
  execution writes no document but the task's, what is reported as a success is in the database,
  and a compensated attempt can be tried again.
\<close>

section \<open>The executors as runs of one use case\<close>

text \<open>The use case of a capability, with its result as the output of the task.\<close>

definition use_case ::
  "execution_env \<Rightarrow> document_capability \<Rightarrow> int \<Rightarrow> ident \<Rightarrow> document_state \<Rightarrow> json result \<times> document_state" where
  "use_case xv cap did op s =
     (case cap of
        Process_Capability \<Rightarrow>
          apfst (map_sum id process_task_output)
            (run_process_document (xv_services xv) (xv_now xv) (xv_uuids xv) did op s)
      | Chunks_Capability \<Rightarrow>
          apfst (map_sum id chunks_task_output)
            (run_build_chunks (xv_services xv) (xv_uuids xv) did op s)
      | Index_Capability \<Rightarrow>
          apfst (map_sum id index_task_output)
            (run_index_vectors (xv_services xv) (xv_now xv) did op s))"

lemma apfst_run: "apfst f x = (r, s') \<Longrightarrow> \<exists>r0. x = (r0, s') \<and> r = f r0"
  by (cases x) auto

lemma is_error_map_sum [simp]: "is_error (map_sum id f r) = is_error r"
  by (cases r) simp_all

lemma map_sum_Inr: "map_sum id f r0 = Inr j \<longleftrightarrow> (\<exists>v. r0 = Inr v \<and> j = f v)"
  by (cases r0) auto

lemma task_output_document:
  "json_get (process_task_output p) ''document_id'' = Some (JInt (pdr_document_id p))"
  "json_get (chunks_task_output c) ''document_id'' = Some (JInt (bcr_document_id c))"
  "json_get (index_task_output i) ''document_id'' = Some (JInt (ivr_document_id i))"
  by (simp_all add: process_task_output_def chunks_task_output_def index_task_output_def)

lemma use_case_stage:
  assumes run: "use_case xv cap did op s = (r, s')" and ok: "db_ok (dst_db s)"
  shows "stage_run cap did op s (\<not> is_error r) s' \<and>
    (\<forall>j. r = Inr j \<longrightarrow> json_get j ''document_id'' = Some (JInt did))"
proof (cases cap)
  case Process_Capability
  with run obtain r0 where r0: "run_process_document (xv_services xv) (xv_now xv) (xv_uuids xv) did op s = (r0, s')"
    "r = map_sum id process_task_output r0" by (auto simp: use_case_def dest!: apfst_run)
  show ?thesis using run_process_document_stage [OF r0(1)]
    by (auto simp: r0(2) Process_Capability map_sum_Inr task_output_document)
next
  case Chunks_Capability
  with run obtain r0 where r0: "run_build_chunks (xv_services xv) (xv_uuids xv) did op s = (r0, s')"
    "r = map_sum id chunks_task_output r0" by (auto simp: use_case_def dest!: apfst_run)
  show ?thesis using run_build_chunks_stage [OF r0(1) ok]
    by (auto simp: r0(2) Chunks_Capability map_sum_Inr task_output_document)
next
  case Index_Capability
  with run obtain r0 where r0: "run_index_vectors (xv_services xv) (xv_now xv) did op s = (r0, s')"
    "r = map_sum id index_task_output r0" by (auto simp: use_case_def dest!: apfst_run)
  show ?thesis using run_index_vectors_stage [OF r0(1) ok]
    by (auto simp: r0(2) Index_Capability map_sum_Inr task_output_document)
qed

lemma use_case_reports:
  assumes "use_case xv cap did op s = (Inl e, s')" and "ports_expected (dsv_ports (xv_services xv))"
  shows "reported_error e"
  using assms
  by (cases cap) (auto simp: use_case_def run_process_document_def run_build_chunks_def
    run_index_vectors_def map_sum_def split: sum.splits prod.splits
    dest: process_document_reports build_document_chunks_reports index_document_vectors_reports)

text \<open>What an executor makes of the use case, when it gets a valid payload and operation.\<close>

lemma payload_id:
  assumes "document_payload payload = Inr p"
  shows "p = payload \<and> (\<exists>did>0. payload_document_id payload = Some did)"
  using assms by (cases payload rule: document_payload.cases) (auto simp: payload_document_id_def split: if_splits)

lemma deterministic_run:
  assumes pay: "document_payload payload = Inr p" "payload_document_id payload = Some did"
    and oc: "runtime_operation_context ctx = Inr oc" and ok: "db_ok (dst_db s)"
  shows "deterministic_executor_of xv cap payload ctx s =
    (case use_case xv cap did (ctx_operation_id ctx) s of
       (Inl e, s') \<Rightarrow> (document_failure e, s')
     | (Inr j, s') \<Rightarrow> (Returned j [document_ref did], s'))"
proof -
  have p: "document_payload payload = Inr payload" using payload_id [OF pay(1)] pay(1) by simp
  note run = process_stage.fallback_run [OF p pay(2) oc ok] chunks_stage.fallback_run [OF p pay(2) oc ok]
    index_stage.fallback_run [OF p pay(2) oc ok]
  show ?thesis
    by (cases cap) (simp_all add: deterministic_executor_of_def deterministic_process_executor_def
      deterministic_chunks_executor_def deterministic_index_executor_def run use_case_def
      split: prod.split sum.split)
qed

text \<open>How a failure of a command tool ends the task.\<close>

definition tool_verdict :: "tool_error \<Rightarrow> exec_outcome" where
  "tool_verdict d =
     (if te_outcome d = TOOL_REJECTED then task_failure (te_result_code d) (te_message d) False True
      else task_failure (te_result_code d) (te_message d) (te_retryable d) False)"

lemma classify_not_succeeded: "te_outcome (classify_tool_error causes e refs) \<noteq> TOOL_SUCCEEDED"
  by (auto simp: classify_tool_error_def split: option.splits)

lemma outcome_cases: "oc \<noteq> TOOL_SUCCEEDED \<Longrightarrow> oc \<noteq> TOOL_REJECTED \<Longrightarrow> oc = TOOL_FAILED"
  by (cases oc) auto

lemma tool_context_scope:
  assumes "runtime_operation_context ctx = Inr oc"
  shows "require_task_document_scope (agent_tool_context perms ctx did) did = Inr ()"
    and "tool_operation_context u (agent_tool_context perms ctx did) = Inr oc"
proof -
  show "require_task_document_scope (agent_tool_context perms ctx did) did = Inr ()"
    by (simp add: require_task_document_scope_def agent_tool_context_def require_def)
  have "ctx_workflow_id ctx \<noteq> []" "ctx_operation_id ctx \<noteq> []"
    using assms by (auto simp: runtime_operation_context_def checked_operation_context_def py_strip_def split: if_splits)
  then show "tool_operation_context u (agent_tool_context perms ctx did) = Inr oc"
    using assms by (simp add: runtime_operation_context_def tool_operation_context_def
      create_operation_context_def given_or_def agent_tool_context_def)
qed

lemma permitted:
  "require_permissions (executor_permissions Process_Capability) [DOCUMENT_PROCESS_PERMISSION] = Inr ()"
  "require_permissions (executor_permissions Chunks_Capability) [DOCUMENT_BUILD_CHUNKS_PERMISSION] = Inr ()"
  "require_permissions (executor_permissions Index_Capability) [DOCUMENT_INDEX_VECTORS_PERMISSION] = Inr ()"
  by (simp_all add: require_permissions_def require_def)

lemma agent_permissions: "tcx_permissions (agent_tool_context perms ctx did) = perms"
  by (simp add: agent_tool_context_def)

lemma agent_command_run:
  assumes pay: "document_payload payload = Inr p" "payload_document_id payload = Some did"
    and oc: "runtime_operation_context ctx = Inr oc" and ok: "db_ok (dst_db s)"
  shows "agent_executor_of xv cap (Run_Called did) payload ctx s =
    (case use_case xv cap did (ctx_operation_id ctx) s of
       (Inl e, s') \<Rightarrow> (tool_verdict (classify_tool_error (xv_causes xv) e [document_ref did]), s')
     | (Inr j, s') \<Rightarrow> (Returned j [document_ref did], s'))"
proof -
  have op: "oc_operation_id oc = ctx_operation_id ctx"
    using oc by (auto simp: runtime_operation_context_def checked_operation_context_def split: if_splits)
  have pos: "0 < did" using payload_id [OF pay(1)] pay(2) by auto
  note run = agent_task_executor_def pay(2) call_command_def pos
    audited_command_def execute_in_task_scope_def tool_context_scope [OF oc] under_operation_def op
    agent_permissions use_case_def validate_tool_output_def command_verdict_def tool_verdict_def
  note fail = classify_not_succeeded outcome_cases [OF classify_not_succeeded]
  show ?thesis
  proof (cases cap)
    case Process_Capability
    show ?thesis
      using run_process_document_stage [of "xv_services xv" "xv_now xv" "xv_uuids xv" did "ctx_operation_id ctx" s]
      by (cases "run_process_document (xv_services xv) (xv_now xv) (xv_uuids xv) did (ctx_operation_id ctx) s")
         (auto simp: Process_Capability agent_executor_of_def process_document_handler_def permitted run fail
           adapt_process_document_output_def needed_def process_task_output_def Let_def
           simp del: executor_permissions.simps split: sum.splits)
  next
    case Chunks_Capability
    show ?thesis
      using run_build_chunks_stage [OF _ ok, of "xv_services xv" "xv_uuids xv" did "ctx_operation_id ctx"]
      by (cases "run_build_chunks (xv_services xv) (xv_uuids xv) did (ctx_operation_id ctx) s")
         (auto simp: Chunks_Capability agent_executor_of_def build_document_chunks_handler_def permitted run fail
           adapt_build_document_chunks_output_def needed_def chunks_task_output_def Let_def
           simp del: executor_permissions.simps split: sum.splits)
  next
    case Index_Capability
    show ?thesis
      using run_index_vectors_stage [OF _ ok, of "xv_services xv" "xv_now xv" did "ctx_operation_id ctx"]
      by (cases "run_index_vectors (xv_services xv) (xv_now xv) did (ctx_operation_id ctx) s")
         (auto simp: Index_Capability agent_executor_of_def index_document_vectors_handler_def permitted run fail
           adapt_index_document_vectors_output_def needed_def index_task_output_def Let_def
           simp del: executor_permissions.simps split: sum.splits)
  qed
qed

section \<open>What a run may do\<close>

text \<open>The document that a run calls the command on.\<close>

fun called :: "agent_report \<Rightarrow> int option" where
  "called (Run_Called did) = Some did"
| "called (Run_Raised_After did cls) = Some did"
| "called _ = None"

lemma agent_run_state:
  "agent_run command report s = (r, s') \<Longrightarrow>
     s' = s \<or> (\<exists>d out. called report = Some d \<and> command d s = (out, s'))"
  by (cases report) (auto simp: call_command_def apfst_def map_prod_def split: if_splits prod.splits)

lemma scoped_state:
  assumes "audited_command granted required refs code causes
      (execute_in_task_scope (agent_tool_context perms ctx did) d (under_operation oc f)) s = (r, ev, s')"
  shows "s' = s \<or> d = did \<and> (\<exists>op x. f op s = (x, s'))"
  using assms
  by (auto simp: audited_command_def execute_in_task_scope_def require_task_document_scope_def
      agent_tool_context_def under_operation_def require_def Let_def split: sum.splits if_splits prod.splits)

lemma handler_state:
  "process_document_handler sv now u causes (agent_tool_context perms ctx did) d s = (po, ev, s') \<Longrightarrow>
     s' = s \<or> d = did \<and> (\<exists>op r. run_process_document sv now u d op s = (r, s'))"
  "build_document_chunks_handler sv u causes (agent_tool_context perms ctx did) d s = (co, ev, s') \<Longrightarrow>
     s' = s \<or> d = did \<and> (\<exists>op r. run_build_chunks sv u d op s = (r, s'))"
  "index_document_vectors_handler sv now u causes (agent_tool_context perms ctx did) d s = (io, ev, s') \<Longrightarrow>
     s' = s \<or> d = did \<and> (\<exists>op r. run_index_vectors sv now d op s = (r, s'))"
  by (auto simp: process_document_handler_def build_document_chunks_handler_def
      index_document_vectors_handler_def split: prod.splits sum.splits dest!: scoped_state)

lemma agent_task_executor_state:
  assumes "agent_task_executor model adapter perms handler report payload ctx s = (out, s')"
  shows "s' = s \<or> (\<exists>did d o1 ev. payload_document_id payload = Some did \<and> called report = Some d \<and>
    handler (agent_tool_context perms ctx did) d s = (o1, ev, s'))"
proof (cases "payload_document_id payload")
  case (Some did)
  let ?command = "\<lambda>d s. case handler (agent_tool_context perms ctx did) d s of (out, _, s') \<Rightarrow> (out, s')"
  obtain r t where run: "agent_run ?command report s = (r, t)" by force
  then have "s' = t"
    using assms by (auto simp: agent_task_executor_def Some split: run_result.splits sum.splits)
  from agent_run_state [OF run] show ?thesis
  proof (elim disjE exE conjE)
    fix d o1 assume d: "called report = Some d" "?command d s = (o1, t)"
    then obtain ev where "handler (agent_tool_context perms ctx did) d s = (o1, ev, t)"
      by (auto split: prod.splits)
    with d(1) show ?thesis unfolding Some \<open>s' = t\<close> by blast
  qed (simp add: \<open>s' = t\<close>)
qed (use assms in \<open>simp add: agent_task_executor_def\<close>)

lemma agent_executor_state:
  assumes "agent_executor_of xv cap report payload ctx s = (out, s')" and ok: "db_ok (dst_db s)"
  shows "s' = s \<or> (\<exists>did op success. payload_document_id payload = Some did \<and> called report = Some did \<and>
    stage_run cap did op s success s')"
  using assms(1) unfolding agent_executor_of_def
  by (cases cap) (auto dest!: agent_task_executor_state handler_state
    dest: run_process_document_stage run_build_chunks_stage [OF _ ok] run_index_vectors_stage [OF _ ok])

lemma stage_run_other:
  assumes "stage_run cap did op s success s'" and "i \<noteq> did"
  shows "document_get_by_id i (dst_db s') = document_get_by_id i (dst_db s)"
  using assms stage_claim_other [of cap did op "dst_db s"]
  by (auto simp: stage_run_def split: if_splits)

lemma agent_run_result:
  "agent_run command report s = (Run_Finished final, s') \<Longrightarrow>
     (\<exists>d o1. final = Tool_Result o1 \<and> command d s = (o1, s')) \<or>
     final = Output_Text (Some invalid_arguments_json) \<or>
     (\<exists>j. report = Run_Answered j \<and> final = Output_Text j)"
  by (cases report) (auto simp: call_command_def apfst_def map_prod_def split: if_splits prod.splits)

lemma scoped_success:
  assumes "audited_command granted required refs code causes
      (execute_in_task_scope (agent_tool_context perms ctx did) d (under_operation oc f)) s = (Inr v, ev, s')"
  shows "d = did \<and> (\<exists>o1. oc = Inr o1 \<and> f (oc_operation_id o1) s = (Inr v, s'))"
  using assms
  by (auto simp: audited_command_def execute_in_task_scope_def require_task_document_scope_def
      agent_tool_context_def under_operation_def require_def Let_def split: sum.splits if_splits prod.splits)

lemma tool_operation_id:
  assumes "tool_operation_context u (agent_tool_context perms ctx did) = Inr o1" "ctx_operation_id ctx \<noteq> []"
  shows "oc_operation_id o1 = ctx_operation_id ctx"
  using assms by (auto simp: tool_operation_context_def create_operation_context_def given_or_def
      checked_operation_context_def agent_tool_context_def split: if_splits)

lemma audited_failure:
  "audited_command granted required refs code causes op s = (Inl d, ev, s') \<Longrightarrow> te_outcome d \<noteq> TOOL_SUCCEEDED"
  by (auto simp: audited_command_def classify_not_succeeded Let_def split: sum.splits prod.splits)

lemma handler_success:
  "process_document_handler sv now u causes (agent_tool_context perms ctx did) d s = (po, ev, s') \<Longrightarrow>
     tl_outcome po = TOOL_SUCCEEDED \<Longrightarrow> ctx_operation_id ctx \<noteq> [] \<Longrightarrow>
     d = did \<and> (\<exists>r. run_process_document sv now u d (ctx_operation_id ctx) s = (Inr r, s') \<and>
       tl_document_id po = pdr_document_id r)"
  "build_document_chunks_handler sv u causes (agent_tool_context perms ctx did) d s = (co, ev, s') \<Longrightarrow>
     tl_outcome co = TOOL_SUCCEEDED \<Longrightarrow> ctx_operation_id ctx \<noteq> [] \<Longrightarrow>
     d = did \<and> (\<exists>r. run_build_chunks sv u d (ctx_operation_id ctx) s = (Inr r, s') \<and>
       tl_document_id co = bcr_document_id r)"
  "index_document_vectors_handler sv now u causes (agent_tool_context perms ctx did) d s = (io, ev, s') \<Longrightarrow>
     tl_outcome io = TOOL_SUCCEEDED \<Longrightarrow> ctx_operation_id ctx \<noteq> [] \<Longrightarrow>
     d = did \<and> (\<exists>r. run_index_vectors sv now d (ctx_operation_id ctx) s = (Inr r, s') \<and>
       tl_document_id io = ivr_document_id r)"
  by (fastforce dest: tool_operation_id simp: process_document_handler_def build_document_chunks_handler_def
      index_document_vectors_handler_def split: prod.splits sum.splits dest!: scoped_success audited_failure)+

lemma adapted_document:
  "adapt_process_document_output po = Inr (j, refs) \<Longrightarrow> json_get j ''document_id'' = Some (JInt (tl_document_id po))"
  "adapt_build_document_chunks_output co = Inr (j, refs) \<Longrightarrow> json_get j ''document_id'' = Some (JInt (tl_document_id co))"
  "adapt_index_document_vectors_output io = Inr (j, refs) \<Longrightarrow> json_get j ''document_id'' = Some (JInt (tl_document_id io))"
  by (auto simp: adapt_process_document_output_def adapt_build_document_chunks_output_def
      adapt_index_document_vectors_output_def bind_eq_Inr)

lemma invalid_arguments_rejected:
  "is_error (process_output_model invalid_arguments_json)"
  "is_error (chunks_output_model invalid_arguments_json)"
  "is_error (index_output_model invalid_arguments_json)"
  by code_simp+

lemma verdict_returned:
  assumes "command_verdict adapter did o1 = Returned j refs"
  shows "tl_outcome o1 = TOOL_SUCCEEDED \<and> tl_document_id o1 = did \<and> adapter o1 = Inr (j, refs)"
  using assms outcome_cases [of "tl_outcome o1"]
  by (auto simp: command_verdict_def task_failure_def split: if_splits sum.splits)

lemma agent_task_executor_success:
  assumes run: "agent_task_executor model adapter perms handler report payload ctx s = (Returned j refs, s')"
    and no_text: "\<forall>j. report \<noteq> Run_Answered (Some j)" and inv: "is_error (model invalid_arguments_json)"
  shows "\<exists>did d o1 ev. payload_document_id payload = Some did \<and>
    handler (agent_tool_context perms ctx did) d s = (o1, ev, s') \<and>
    tl_outcome o1 = TOOL_SUCCEEDED \<and> adapter o1 = Inr (j, refs)"
proof -
  from run obtain did where did: "payload_document_id payload = Some did"
    by (auto simp: agent_task_executor_def task_failure_def split: option.splits)
  let ?command = "\<lambda>d s. case handler (agent_tool_context perms ctx did) d s of (out, _, s') \<Rightarrow> (out, s')"
  from run obtain final out where fin: "agent_run ?command report s = (Run_Finished final, s')"
    and out: "validate_tool_output model final = Inr out" "command_verdict adapter did out = Returned j refs"
    by (auto simp: agent_task_executor_def did task_failure_def split: prod.splits run_result.splits sum.splits)
  from agent_run_result [OF fin] obtain d o1 where o1: "final = Tool_Result o1" "?command d s = (o1, s')"
    using out(1) no_text inv by (auto simp: validate_tool_output_def split: option.splits)
  then obtain ev where "handler (agent_tool_context perms ctx did) d s = (o1, ev, s')"
    by (auto split: prod.splits)
  moreover have "out = o1" using out(1) o1(1) by (simp add: validate_tool_output_def)
  ultimately show ?thesis using verdict_returned [OF out(2)] did by blast
qed

lemma agent_executor_success:
  assumes run: "agent_executor_of xv cap report payload ctx s = (Returned j refs, s')"
    and ok: "db_ok (dst_db s)" and no_text: "\<forall>j. report \<noteq> Run_Answered (Some j)"
    and op: "ctx_operation_id ctx \<noteq> []"
  shows "\<exists>did. payload_document_id payload = Some did \<and> stage_run cap did (ctx_operation_id ctx) s True s' \<and>
    json_get j ''document_id'' = Some (JInt did)"
proof (cases cap)
  case Process_Capability
  from run [unfolded agent_executor_of_def Process_Capability document_capability.case]
  show ?thesis using invalid_arguments_rejected(1)
    by (fastforce simp: Process_Capability dest!: agent_task_executor_success [OF _ no_text] handler_success [OF _ _ op]
      adapted_document run_process_document_stage)
next
  case Chunks_Capability
  from run [unfolded agent_executor_of_def Chunks_Capability document_capability.case]
  show ?thesis using invalid_arguments_rejected(2)
    by (fastforce simp: Chunks_Capability dest!: agent_task_executor_success [OF _ no_text] handler_success [OF _ _ op]
      adapted_document run_build_chunks_stage [OF _ ok])
next
  case Index_Capability
  from run [unfolded agent_executor_of_def Index_Capability document_capability.case]
  show ?thesis using invalid_arguments_rejected(3)
    by (fastforce simp: Index_Capability dest!: agent_task_executor_success [OF _ no_text] handler_success [OF _ _ op]
      adapted_document run_index_vectors_stage [OF _ ok])
qed

text \<open>
  C9: The blast radius of an executor agent: whatever the model does with its tools, on whichever
  documents it calls the command, an execution changes the row of no document but the one its task
  names, and nothing at all when the command is never called on that document.
\<close>

theorem executor_agent_confined:
  assumes "agent_executor_of xv cap report payload ctx s = (out, s')" and "db_ok (dst_db s)"
  shows "(\<forall>i. payload_document_id payload \<noteq> Some i \<longrightarrow>
      document_get_by_id i (dst_db s') = document_get_by_id i (dst_db s)) \<and>
    (called report = None \<or> called report \<noteq> payload_document_id payload \<longrightarrow> s' = s)"
  using agent_executor_state [OF assms] stage_run_other by (metis option.distinct(1))

text \<open>
  C10: With and without a model: when the run of the agent calls the command on its task's document,
  its execution leaves the state the fallback executor leaves and ends alike. A success
  has the same output and references; a refusal is blocked with the same message in both; a failure is
  retried by the fallback, and by the agent only when a time-out or a lost connection caused it.
\<close>

theorem agent_and_fallback_agree:
  assumes pay: "document_payload payload = Inr p" "payload_document_id payload = Some did"
    and oc: "runtime_operation_context ctx = Inr oc" and ok: "db_ok (dst_db s)"
    and ports: "ports_expected (dsv_ports (xv_services xv))"
    and agent: "agent_executor_of xv cap (Run_Called did) payload ctx s = (a, s1)"
    and fallback: "deterministic_executor_of xv cap payload ctx s = (d, s2)"
  shows "s1 = s2 \<and>
    (case d of
       Returned j refs \<Rightarrow> a = Returned j refs
     | RaisedTask err \<Rightarrow> \<exists>err'. a = RaisedTask err' \<and> err_blocked err' = err_blocked err \<and>
         err_retryable err = (\<not> err_blocked err) \<and>
         (err_blocked err \<longrightarrow> err_message err' = err_message err) \<and>
         (err_retryable err' \<longleftrightarrow> err_retryable err \<and> is_retryable (xv_causes xv) None)
     | _ \<Rightarrow> False)"
proof -
  obtain r s' where run: "use_case xv cap did (ctx_operation_id ctx) s = (r, s')" by force
  note eq = agent [unfolded agent_command_run [OF pay oc ok] run prod.case]
    fallback [unfolded deterministic_run [OF pay oc ok] run prod.case]
  show ?thesis
  proof (cases r)
    case (Inl e)
    then obtain n m where e: "e = DocumentApplicationError n m" "n \<in> {400, 404, 409, 500}"
      using use_case_reports [OF run [unfolded Inl] ports] by (auto simp: reported_error_def)
    then show ?thesis
      using eq by (auto simp: Inl document_failure_def task_failure_def tool_verdict_def
        classify_tool_error_def is_retryable_def)
  qed (use eq in auto)
qed

section \<open>A reported success\<close>

lemma transact_result: "transact tx db = (Inr r, db') \<Longrightarrow> \<exists>db1. tx db = Inr (r, db1)"
  by (auto simp: transact_def split: sum.splits)

lemma compensation_not_success:
  assumes "execute_compensation self env n compensate s c ev db = (Inr r, db')"
  shows "r_outcome r \<noteq> TaskSucceeded"
proof -
  have "r_outcome r \<noteq> TaskSucceeded"
    if "handle_compensation_failure self now u s ev err attempt db = Inr (r, db')" for now u err attempt db db'
    using that by (auto simp: handle_compensation_failure_def Let_def bind_eq_Inr split: if_splits)
  moreover have "r_outcome r \<noteq> TaskSucceeded"
    if "complete_compensation self now u s ev db = Inr (r, db')" for now u db db'
    using that by (auto simp: complete_compensation_def Let_def bind_eq_Inr split: if_splits)
  ultimately show ?thesis
    using assms by (auto simp: execute_compensation_def split: prod.splits sum.splits option.splits
      dest!: transact_result)
qed

lemma failure_not_success:
  assumes "handle_failure self env n compensate s c err db = (Inr r, db')"
  shows "r_outcome r \<noteq> TaskSucceeded"
  using assms
  by (auto simp: handle_failure_def failure_result_def split: prod.splits sum.splits if_splits
    dest: compensation_not_success)

text \<open>Only a completed execution of a claimed task is reported as a success.\<close>

text \<open>Waking up the tasks that wait for a retry only changes their status.\<close>

lemma set_status_keeps:
  "t1 \<in> set (tasks (task_set_status ts st db)) \<Longrightarrow> \<exists>t\<in>set (tasks db) \<union> set ts.
     t_id t = t_id t1 \<and> t_capability_code t = t_capability_code t1 \<and> t_input_json t = t_input_json t1"
proof (induction ts st db rule: task_set_status.induct)
  case (2 t ts st db)
  have "v \<in> set (put_row t_id r rows) \<Longrightarrow> v = r \<or> v \<in> set rows" for v r and rows :: "task list"
    by (auto simp: put_row_def split: if_splits)
  from this [of _ "t\<lparr>t_status := st\<rparr>" "tasks db"] 2 show ?case by (fastforce simp: task_save_def)
qed auto

lemma resume_keeps:
  assumes "t1 \<in> set (tasks (task_set_status (task_list_by_plan_id_and_status pid RETRY_WAIT db) PENDING db))"
  shows "\<exists>t\<in>set (tasks db). t_id t = t_id t1 \<and> t_capability_code t = t_capability_code t1 \<and> t_input_json t = t_input_json t1"
  using set_status_keeps [OF assms] by (auto simp: listed_tasks)

lemma completed_operation:
  assumes "complete now u s out refs db = Inr ((), db')" "execution_get_by_id (s_execution_id s) db' = Some x"
  shows "x_id x = s_execution_id s \<and> x_operation_id x = s_operation_id s"
proof -
  from complete_token [OF assms(1)] obtain p t x0 where l: "lock_execution s db = Inr (p, t, x0)"
    "execution_get_by_id (s_execution_id s) db = Some x0" "x_id x0 = s_execution_id s"
    and "task_executions db' = put_row x_id (succeed_execution now out refs x0) (task_executions db)"
    by (auto simp: Let_def store_simps)
  then have "x = succeed_execution now out refs x0"
    using assms(2) by (simp add: execution_get_by_id_def table_simps succeed_execution_def)
  moreover have "x_operation_id x0 = s_operation_id s"
    using l(1,2) by (auto simp: lock_execution_def split: option.splits if_splits)
  ultimately show ?thesis using l(3) by (simp add: succeed_execution_def)
qed

lemma success_is_completion:
  assumes "execute_next self env run compensate pid ev cx co db = (Inr r, db')" and "r_outcome r = TaskSucceeded"
  shows "\<exists>cl db1 s c out refs db2.
    claim_next self (clock env 0) (hexes env 0) pid ev cx co (others env 0 db) = Inr (cl, db1) \<and> claimed_task cl = Some s \<and>
    require_capability (capabilities self) (s_capability_code s) = Inr c \<and>
    run_executor c run s = Inr (out, refs) \<and> r_task_id r = Some (s_task_id s) \<and>
    r_execution_id r = Some (s_execution_id s) \<and> complete (clock env 1) (hexes env 1) s out refs db2 = Inr ((), db')"
proof -
  have none: "plan_outcome_of oc \<noteq> TaskSucceeded" for oc by (cases oc) simp_all
  from assms obtain cl db1 s where cl: "transact (claim_next self (clock env 0) (hexes env 0) pid ev cx co) (others env 0 db) = (Inr cl, db1)"
      "claimed_task cl = Some s"
    and task: "execute_task self env run compensate s db1 = (Inr r, db')"
    by (auto simp: execute_next_def execute_result_of_def none split: prod.splits sum.splits if_splits option.splits
      dest: compensation_not_success)
  from task assms(2) obtain c out refs where
    "require_capability (capabilities self) (s_capability_code s) = Inr c" "run_executor c run s = Inr (out, refs)"
    "r_task_id r = Some (s_task_id s)" "r_execution_id r = Some (s_execution_id s)"
    "transact (complete (clock env 1) (hexes env 1) s out refs) (others env 1 db1) = (Inr (), db')"
    by (auto simp: execute_task_def split: prod.splits sum.splits dest: failure_not_success)
  then show ?thesis using cl by (fastforce simp: transact_def split: sum.splits)
qed

text \<open>The snapshot of a claim is of a task row that the claim found.\<close>

lemma claimed_snapshot_row:
  assumes step: "claim_next self now u pid ev cx co db = Inr (r, db')" and s: "claimed_task r = Some s"
  shows "s_operation_id s \<noteq> [] \<and> (\<exists>t\<in>set (tasks db). t_id t = s_task_id s \<and>
    t_capability_code t = s_capability_code s \<and> t_input_json t = s_input_json s)"
proof -
  let ?db = "task_set_status (task_list_by_plan_id_and_status pid RETRY_WAIT db) PENDING db"
  from claim_next_claimed [OF step s] obtain p t1 where
    next1: "task_get_next_runnable pid PENDING SUCCEEDED ?db = Some t1"
    and cl: "claim_pending self now u p t1 ev ?db = Inr (r, db')" by blast
  have "\<exists>t\<in>set (tasks db). t_id t = t_id t1 \<and> t_capability_code t = t_capability_code t1 \<and> t_input_json t = t_input_json t1"
    using next_runnable_SomeD(1) [OF next1] resume_keeps [of t1 pid db] by simp
  moreover have "s_task_id s = t_id t1 \<and> s_capability_code s = t_capability_code t1 \<and> s_input_json s = t_input_json t1 \<and>
      s_operation_id s \<noteq> []"
    using cl s by (auto simp: claim_pending_def claim_snapshot_def start_task_def bind_eq_Inr Let_def new_id_def)
  ultimately show ?thesis by metis
qed

lemma output_model_document:
  "output_model ((''document_id'', IntField) # fs) j = Inr out \<Longrightarrow>
     json_get out ''document_id'' = json_get j ''document_id''"
  by (auto simp: output_model_def bind_eq_Inr split: option.splits if_splits)

text \<open>The stage of a capability, by the code a task stores.\<close>

fun task_stage :: "string \<Rightarrow> document_capability option" where
  "task_stage code =
     (if code = ''process_document'' then Some Process_Capability
      else if code = ''build_document_chunks'' then Some Chunks_Capability
      else if code = ''index_document_vectors'' then Some Index_Capability else None)"

lemma builtin_capability:
  assumes "require_capability builtin_capabilities code = Inr c"
  shows "cap_input_model c = document_payload \<and>
    (\<forall>j out. cap_output_model c j = Inr out \<longrightarrow> json_get out ''document_id'' = json_get j ''document_id'') \<and>
    (\<exists>cap. task_stage code = Some cap \<and> capability_of_code (cap_executor_code c) = Some cap)"
proof -
  have "c \<in> set builtin_capabilities" "cap_code c = code"
    using assms by (auto simp: require_capability_def of_option_def dest: get_row_SomeD split: option.splits)
  then show ?thesis
    by (auto simp: builtin_capabilities_def process_document_output_def build_document_chunks_output_def
      index_document_vectors_output_def capability_of_code_def dest: output_model_document)
qed

text \<open>
  C11: What a success is worth: when a step of the runtime with the executor agents reports a task as
  succeeded, and the agent did not answer with a text that is JSON (the executor accepts such a text
  for the output of the command), then the agent was given the payload of the claimed
  task, and the executor was the one of the task's capability; the stage of this capability
  claimed the document that the payload names, under the operation of the task's execution, and
  settled it: it has the status of the stage and belongs to no operation.  The task is stored as succeeded,
  with an output about that document, and so is its execution.
\<close>

theorem task_success_settles_document:
  assumes step: "execute_next self env (agent_executors xv report s) compensate pid ev cx co db = (Inr r, db')"
      "r_outcome r = TaskSucceeded"
    and caps: "capabilities self = builtin_capabilities" and ok: "db_ok (dst_db s)"
    and no_text: "\<forall>j. report \<noteq> Run_Answered (Some j)"
  shows "\<exists>t0 cap payload did x ctx s' t out.
    t0 \<in> set (tasks (others env 0 db)) \<and> r_task_id r = Some (t_id t0) \<and>
    task_stage (t_capability_code t0) = Some cap \<and> document_payload (t_input_json t0) = Inr payload \<and>
    payload_document_id payload = Some did \<and>
    execution_get_by_id (the (r_execution_id r)) db' = Some x \<and> x_status x = EXEC_SUCCEEDED \<and>
    ctx_task_id ctx = t_id t0 \<and> ctx_execution_id ctx = x_id x \<and> ctx_operation_id ctx = x_operation_id x \<and>
    s' = snd (agent_executor_of xv cap report payload ctx s) \<and>
    \<not> is_error (stage_claim cap did (x_operation_id x) (dst_db s)) \<and>
    owner (dst_db s') did = None \<and> state (dst_db s') did = Some (settled_status cap) \<and>
    task_get_by_id (t_id t0) db' = Some t \<and> t_status t = SUCCEEDED \<and>
    t_output_json t = Some out \<and> json_get out ''document_id'' = Some (JInt did)"
proof -
  from success_is_completion [OF step] obtain cl db1 sn c out refs db2 where
    claim: "claim_next self (clock env 0) (hexes env 0) pid ev cx co (others env 0 db) = Inr (cl, db1)" "claimed_task cl = Some sn"
    and c: "require_capability builtin_capabilities (s_capability_code sn) = Inr c"
    and run: "run_executor c (agent_executors xv report s) sn = Inr (out, refs)"
    and id: "r_task_id r = Some (s_task_id sn)" "r_execution_id r = Some (s_execution_id sn)"
    and fin: "complete (clock env 1) (hexes env 1) sn out refs db2 = Inr ((), db')"
    unfolding caps by blast
  from claimed_snapshot_row [OF claim] obtain t0 where t0: "t0 \<in> set (tasks (others env 0 db))" "t_id t0 = s_task_id sn"
    "t_capability_code t0 = s_capability_code sn" "t_input_json t0 = s_input_json sn" and op: "s_operation_id sn \<noteq> []" by blast
  from builtin_capability [OF c] obtain cap where B: "cap_input_model c = document_payload"
    "\<And>j out. cap_output_model c j = Inr out \<Longrightarrow> json_get out ''document_id'' = json_get j ''document_id''"
    and cap: "task_stage (s_capability_code sn) = Some cap" "capability_of_code (cap_executor_code c) = Some cap" by blast
  let ?ctx = "runtime_context_of sn"
  from run B(1) cap(2) obtain p j where p: "document_payload (s_input_json sn) = Inr p"
    and j: "fst (agent_executor_of xv cap report p ?ctx s) = Returned j refs" "cap_output_model c j = Inr out"
    by (auto simp: run_executor_def agent_executors_def split: sum.splits exec_outcome.splits)
  let ?s' = "snd (agent_executor_of xv cap report p ?ctx s)"
  have "agent_executor_of xv cap report p ?ctx s = (Returned j refs, ?s')" using j(1) by (metis prod.collapse)
  from agent_executor_success [OF this ok no_text] op obtain did where
    did: "payload_document_id p = Some did" "stage_run cap did (s_operation_id sn) s True ?s'"
      "json_get j ''document_id'' = Some (JInt did)" by (auto simp: runtime_context_of_def)
  have settled: "\<not> is_error (stage_claim cap did (s_operation_id sn) (dst_db s))" "owner (dst_db ?s') did = None"
    "state (dst_db ?s') did = Some (settled_status cap)"
    using did(2) by (auto simp: stage_run_def)
  from complete_rows [OF fin] completed_operation [OF fin] obtain t x where
    "task_get_by_id (s_task_id sn) db' = Some t" "t_status t = SUCCEEDED" "t_output_json t = Some out"
    "execution_get_by_id (s_execution_id sn) db' = Some x" "x_status x = EXEC_SUCCEEDED"
    "x_id x = s_execution_id sn" "x_operation_id x = s_operation_id sn" by fastforce
  then show ?thesis
    using t0 id cap(1) p did settled B(2) [OF j(2)]
    by (intro exI [of _ t0] exI [of _ cap] exI [of _ p] exI [of _ did] exI [of _ x] exI [of _ ?ctx] exI [of _ ?s']
        exI [of _ t] exI [of _ out]) (simp add: runtime_context_of_def)
qed

text \<open>What a compensator without an error leaves of a document that is busy under its operation.\<close>

lemma compensator_frees:
  assumes pay: "document_payload payload = Inr p" "payload_document_id payload = Some did"
    and comp: "compensator_of xv cap op payload s = (None, s')" and ok: "db_ok (dst_db s)"
    and row: "document_get_by_id did (dst_db s) =
      Some (d\<lparr>doc_status := busy_status cap, doc_active_operation_id := Some op\<rparr>)"
  shows "freed did d (dst_db s') \<and>
    (cap = Chunks_Capability \<longrightarrow> child_chunks (dst_db s') = child_chunks (dst_db s) \<and>
      artifacts (dst_db s') = artifacts (dst_db s)) \<and>
    (cap = Index_Capability \<longrightarrow> db_ok (dst_db s') \<and>
      map chunk_key (child_chunks (dst_db s')) = map chunk_key (child_chunks (dst_db s)) \<and>
      chunk_ids VS_INDEXING (dst_db s') did = {} \<and>
      chunk_ids VS_INDEXED (dst_db s') = chunk_ids VS_INDEXED (dst_db s))"
proof -
  let ?d = "d\<lparr>doc_status := busy_status cap, doc_active_operation_id := Some op\<rparr>"
  have freed: "freed did ?d db \<Longrightarrow> freed did d db" for db by (simp add: freed_def)
  have p: "p = payload" using payload_id [OF pay(1)] by simp
  show ?thesis
  proof (cases cap)
    case Process_Capability
    with comp pay p obtain r fs where
      "compensate_processing (dsv_processing (xv_services xv)) did op (dst_db s) (dst_files s) = (Inr r, dst_db s', fs)"
      by (auto simp: compensator_of_def operation_compensator_def run_compensate_processing_def
        bind_eq_Inr split: sum.splits prod.splits)
    from compensate_processing_frees [OF this row] Process_Capability freed show ?thesis
      by (simp add: busy_status_def)
  next
    case Chunks_Capability
    with comp pay p have "dst_db s' = snd (fail_chunking did op (dst_db s))"
      by (auto simp: compensator_of_def operation_compensator_def run_fail_chunking_def)
    with fail_chunking_frees [OF row] Chunks_Capability freed show ?thesis by (simp add: busy_status_def)
  next
    case Index_Capability
    have busy: "doc_status ?d = DOC_INDEXING" by (simp add: Index_Capability busy_status_def)
    obtain sn db1 where prep: "prepare_index_compensation did op (dst_db s) = (Some sn, db1)"
      using row busy by (auto simp: prepare_index_compensation_def)
    with comp pay p Index_Capability have "dst_db s' = snd (complete_index_compensation sn op db1)"
      by (auto simp: compensator_of_def operation_compensator_def run_compensate_indexing_def
        compensate_indexing_def split: option.splits if_splits prod.splits)
    from index_compensation_frees [OF prep ok row busy _ this] Index_Capability freed show ?thesis by simp
  qed
qed

text \<open>
  C12: A failed attempt does not use a document up: when the fallback executor, or an agent whose run
  calls its command on the document of the task, fails after the stage has claimed the document, and
  the compensator of the stage then ends without an error, the document is free and the next attempt
  can claim it for the same stage.  For the chunk stage this needs that the document had no
  active chunks of an earlier run, which the claim checks only for documents that have failed.
\<close>

theorem compensated_attempt_can_be_retried:
  assumes pay: "document_payload payload = Inr p" "payload_document_id payload = Some did"
    and oc: "runtime_operation_context ctx = Inr oc" and ok: "db_ok (dst_db s)"
    and claim: "stage_claim cap did (ctx_operation_id ctx) (dst_db s) = Inr db1"
    and no_chunks: "cap = Chunks_Capability \<longrightarrow> \<not> chunk_exists_by_doc_id did (dst_db s)"
    and run: "(out, s1) \<in> {deterministic_executor_of xv cap payload ctx s,
        agent_executor_of xv cap (Run_Called did) payload ctx s}" "\<forall>j refs. out \<noteq> Returned j refs"
    and comp: "compensator_of xv cap (ctx_operation_id ctx) payload s1 = (None, s2)"
  shows "owner (dst_db s2) did = None \<and> \<not> is_error (stage_claim cap did op2 (dst_db s2))"
proof -
  let ?op = "ctx_operation_id ctx"
  obtain r where r: "use_case xv cap did ?op s = (r, s1)" "is_error r"
    using run by (auto simp: deterministic_run [OF pay oc ok] agent_command_run [OF pay oc ok]
        split: prod.splits sum.splits)
  have s1: "dst_db s1 = db1" using use_case_stage [OF r(1) ok] r(2) claim by (auto simp: stage_run_def)
  from stage_claim_row [OF claim] obtain d where d: "document_get_by_id did (dst_db s) = Some d"
    "usable d" "doc_id d = did" "document_get_by_id did (dst_db s1) =
      Some (d\<lparr>doc_status := busy_status cap, doc_active_operation_id := Some ?op\<rparr>)"
    by (auto simp: s1)
  have ok1: "db_ok (dst_db s1)" using stage_claim_ok [OF claim ok] by (simp add: s1)
  note F = compensator_frees [OF pay comp ok1 d(4)]
  have "owner (dst_db s2) did = None" using F by (auto simp: freed_def owner_def)
  moreover have "\<not> is_error (stage_claim cap did op2 (dst_db s2))"
  proof (cases cap)
    case Process_Capability
    then show ?thesis using reclaim_processing F d(2) by simp
  next
    case Chunks_Capability
    from claim obtain v where "cleaned_source d (dst_db s) = Inr v"
        "artifacts db1 = artifacts (dst_db s)" "child_chunks db1 = child_chunks (dst_db s)"
      using d(1) by (auto simp: Chunks_Capability stage_claim_def claim_chunking_def bind_eq_Inr
        claimable_iff take_over_def view_simps split: if_splits)
    then show ?thesis
      using reclaim_chunking [of did d "dst_db s2" "dst_db s"] F d(2,3) no_chunks Chunks_Capability
      by (simp add: s1 chunk_exists_by_doc_id_def)
  next
    case Index_Capability
    note keep = index_claim_chunks [OF claim [unfolded Index_Capability] ok]
    show ?thesis
      using reclaim_indexing [OF claim [unfolded Index_Capability] ok _ d(2,3,1) refl refl, of "dst_db s2"]
        F Index_Capability keep by (simp add: s1)
  qed
  ultimately show ?thesis by blast
qed

section \<open>Examples\<close>

text \<open>A stored text file, uploaded as document 7, and services that know no outside.\<close>

definition uploaded_document :: document where
  "uploaded_document =
     \<lparr>doc_id = 7, doc_code = ''doc'', doc_kb_id = 1, doc_domain_code = ''d'', doc_business_scene = None,
      doc_title = ''t'', doc_source_type = ''txt'', doc_source_uri = [''raw'', ''a.txt''],
      doc_cleaned_uri = None, doc_content_hash = ''h'', doc_active_content_hash = Some ''h'',
      doc_lifecycle_status = LC_ACTIVE, doc_storage_status = ST_ACTIVE, doc_version = 1,
      doc_status = DOC_UPLOADED, doc_active_operation_id = None, doc_replaced_by = None,
      doc_risk_level = None, doc_effective_at = None, doc_expired_at = None, doc_created_by = None,
      doc_original_filename = Some ''a.txt'', doc_file_size = Some 2, doc_indexed_at = None\<rparr>"

definition document_store :: "file_system \<Rightarrow> document_state" where
  "document_store fs = \<lparr>dst_db = \<lparr>documents = [uploaded_document, uploaded_document\<lparr>doc_id := 8, doc_code := ''other''\<rparr>],
     artifacts = [], parent_blocks = [], child_chunks = [], next_document_id = 9, next_artifact_id = 1,
     next_block_id = 1, next_chunk_id = 1\<rparr>, dst_files = fs, dst_points = []\<rparr>"

definition stored_file :: file_system where
  "stored_file = [([''raw'', ''a.txt''], [104, 105])]"

definition local_env :: execution_env where
  "local_env = \<lparr>xv_services =
       \<lparr>dsv_ports = \<lparr>port_docling = (\<lambda>_ _. Inl (RuntimeError ''no docling'')),
          port_csv_records = (\<lambda>_. Inl (RuntimeError ''no csv'')), port_file_hash = (\<lambda>_. ''h''),
          port_md5_text = (\<lambda>_. ''m'')\<rparr>,
        dsv_processing = \<lparr>cleaned_storage_dir = [''cleaned''], secondary_text_storage_dir = [''secondary''],
          staging_storage_dir = [''staging'']\<rparr>,
        dsv_indexing = \<lparr>embedding_batch_size = 2, embedding_vector_size = 1\<rparr>,
        dsv_embedder = (\<lambda>ts. Inr (map (\<lambda>_. [7]) ts))\<rparr>,
     xv_now = 5, xv_uuids = (\<lambda>i. replicate (i + 1) CHR ''a''), xv_causes = [], xv_delete_error = None\<rparr>"

definition task_payload :: "int \<Rightarrow> json" where
  "task_payload i = JObj [(''document_id'', JInt i)]"

definition task_context :: runtime_context where
  "task_context = \<lparr>ctx_workflow_id = ''w'', ctx_plan_id = ''P'', ctx_task_id = ''A'', ctx_conversation_id = ''c'',
     ctx_turn_id = ''t'', ctx_execution_id = ''x'', ctx_operation_id = ''op'', ctx_agent_run_id = ''r'',
     ctx_attempt = 1\<rparr>"

lemma document_store_ok: "db_ok (dst_db (document_store fs))"
  by (simp add: db_ok_def document_store_def uploaded_document_def)

lemma local_ports: "ports_expected (dsv_ports (xv_services local_env))"
  by (simp add: ports_expected_def local_env_def)

text \<open>
  An agent without a command call: it answers with a text that reads like the output of its command
  tool.  The output model accepts it, so the task succeeds and the document is still as uploaded.
\<close>

definition forged_output :: json where
  "forged_output = JObj [(''outcome'', JStr ''succeeded''), (''result_code'', JStr ''document_processed''),
     (''message'', JStr ''m''), (''retryable'', JBool False), (''resource_refs'', JList []),
     (''document_id'', JInt 7), (''document_status'', JStr ''processed''), (''cleaned_uri'', JStr ''u'')]"

lemma text_forges_success:
  "agent_executor_of local_env Process_Capability (Run_Answered (Some forged_output)) (task_payload 7) task_context s =
     (Returned (JObj [(''document_id'', JInt 7), (''status'', JStr ''processed''), (''cleaned_uri'', JStr ''u'')]) [], s)"
proof -
  have "process_output_model forged_output = Inr \<lparr>tl_outcome = TOOL_SUCCEEDED,
      tl_result_code = ''document_processed'', tl_message = ''m'', tl_retryable = False, tl_resource_refs = [],
      tl_document_id = 7, tl_document_status = Some ''processed'', tl_cleaned_uri = Some ''u''\<rparr>" by code_simp
  then show ?thesis
    by (simp add: agent_executor_of_def agent_task_executor_def payload_document_id_def task_payload_def
      validate_tool_output_def command_verdict_def
      adapt_process_document_output_def needed_def)
qed

lemma demo_payload:
  "document_payload (task_payload 7) = Inr (task_payload 7)" "payload_document_id (task_payload 7) = Some 7"
  by (simp_all add: task_payload_def payload_document_id_def)

theorem executor_agent_confined_witness:
  "document_get_by_id 8 (dst_db (snd (agent_executor_of local_env Process_Capability
      (Run_Called 7) (task_payload 7) task_context (document_store stored_file)))) =
    document_get_by_id 8 (dst_db (document_store stored_file)) \<and>
   snd (agent_executor_of local_env Process_Capability (Run_Called 8) (task_payload 7) task_context
     (document_store stored_file)) = document_store stored_file"
  using executor_agent_confined [where xv = local_env and cap = Process_Capability and payload = "task_payload 7"
      and ctx = task_context and report = "(Run_Called 7)", OF surjective_pairing document_store_ok]
    executor_agent_confined [where xv = local_env and cap = Process_Capability and payload = "task_payload 7"
      and ctx = task_context and report = "(Run_Called 8)", OF surjective_pairing document_store_ok]
  by (simp add: demo_payload)

lemma demo_operation:
  "runtime_operation_context task_context = Inr \<lparr>oc_workflow_id = ''w'', oc_operation_id = ''op'',
     oc_attempt = 1, oc_parent_operation_id = None\<rparr>"
  by code_simp

theorem agent_and_fallback_agree_witness:
  "\<exists>j refs s'. agent_executor_of local_env Process_Capability (Run_Called 7) (task_payload 7)
      task_context (document_store stored_file) = (Returned j refs, s') \<and>
    deterministic_executor_of local_env Process_Capability (task_payload 7) task_context
      (document_store stored_file) = (Returned j refs, s')"
proof -
  let ?s = "document_store stored_file"
  have "case deterministic_executor_of local_env Process_Capability (task_payload 7) task_context ?s of
      (Returned j refs, _) \<Rightarrow> True | _ \<Rightarrow> False" by code_simp
  then obtain j refs s2 where d: "deterministic_executor_of local_env Process_Capability (task_payload 7)
      task_context ?s = (Returned j refs, s2)" by (auto split: prod.splits exec_outcome.splits)
  obtain a s1 where a: "agent_executor_of local_env Process_Capability (Run_Called 7)
      (task_payload 7) task_context ?s = (a, s1)" by force
  from agent_and_fallback_agree [OF demo_payload demo_operation document_store_ok local_ports a d]
  show ?thesis using a d by simp
qed

theorem task_success_settles_document_witness:
  "\<exists>t0 ctx. t0 \<in> set (tasks demo_db) \<and> t_id t0 = ''A'' \<and> document_payload (t_input_json t0) = Inr (task_payload 7) \<and>
     ctx_task_id ctx = ''A'' \<and>
     state (dst_db (snd (agent_executor_of local_env Process_Capability (Run_Called 7) (task_payload 7) ctx
       (document_store stored_file)))) 7 = Some DOC_PROCESSED"
proof -
  let ?run = "agent_executors local_env (Run_Called 7) (document_store stored_file)"
  have "case execute_next demo_self demo_env ?run (\<lambda>code op j c. None) ''P'' (Some ''e'') None None demo_db of
      (Inr r, db') \<Rightarrow> r_outcome r = TaskSucceeded \<and> r_task_id r = Some ''A'' | _ \<Rightarrow> False" by code_simp
  then obtain r db' where run: "execute_next demo_self demo_env ?run (\<lambda>code op j c. None) ''P'' (Some ''e'') None None demo_db =
      (Inr r, db')" "r_outcome r = TaskSucceeded" and id: "r_task_id r = Some ''A''"
    by (auto split: prod.splits sum.splits)
  have input: "list_all (\<lambda>t. t_id t = ''A'' \<longrightarrow> t_capability_code t = ''process_document'' \<and>
      document_payload (t_input_json t) = Inr (task_payload 7)) (tasks demo_db)" by code_simp
  have env: "others demo_env 0 demo_db = demo_db" by (simp add: demo_env_def)
  have "capabilities demo_self = builtin_capabilities" by (simp add: demo_self_def)
  from task_success_settles_document [OF run this document_store_ok] obtain t0 cap payload did ctx s' where
    t0: "t0 \<in> set (tasks demo_db)" "t_id t0 = ''A''" "task_stage (t_capability_code t0) = Some cap"
      "document_payload (t_input_json t0) = Inr payload" "payload_document_id payload = Some did" "ctx_task_id ctx = ''A''"
    and s': "s' = snd (agent_executor_of local_env cap (Run_Called 7) payload ctx (document_store stored_file))"
      "state (dst_db s') did = Some (settled_status cap)"
    unfolding env id by auto
  have "t_capability_code t0 = ''process_document''" "payload = task_payload 7"
    using input t0(1,2,4) by (auto simp: list_all_iff)
  then have "cap = Process_Capability" "did = 7" using t0(3,5) demo_payload(2) by auto
  then show ?thesis
    using t0 s' \<open>payload = task_payload 7\<close> by (auto simp: settled_status_def intro!: exI [of _ t0] exI [of _ ctx])
qed

theorem compensated_attempt_can_be_retried_witness:
  "\<exists>out s1 s2. deterministic_executor_of local_env Process_Capability (task_payload 7) task_context
      (document_store []) = (out, s1) \<and>
    compensator_of local_env Process_Capability ''op'' (task_payload 7) s1 = (None, s2) \<and>
    state (dst_db s1) 7 = Some DOC_PROCESSING \<and>
    \<not> is_error (stage_claim Process_Capability 7 ''op2'' (dst_db s2))"
proof -
  have c: "\<not> is_error (stage_claim Process_Capability 7 ''op'' (dst_db (document_store [])))" by code_simp
  have "case deterministic_executor_of local_env Process_Capability (task_payload 7) task_context
      (document_store []) of (RaisedTask err, s1) \<Rightarrow> state (dst_db s1) 7 = Some DOC_PROCESSING \<and>
        fst (compensator_of local_env Process_Capability ''op'' (task_payload 7) s1) = None | _ \<Rightarrow> False"
    by code_simp
  then obtain err s1 s2 where run: "deterministic_executor_of local_env Process_Capability (task_payload 7)
      task_context (document_store []) = (RaisedTask err, s1)" "state (dst_db s1) 7 = Some DOC_PROCESSING"
    "compensator_of local_env Process_Capability ''op'' (task_payload 7) s1 = (None, s2)"
    by (auto split: prod.splits exec_outcome.splits simp: prod_eq_iff)
  have op: "ctx_operation_id task_context = ''op''" by (simp add: task_context_def)
  from c obtain cdb where "stage_claim Process_Capability 7 (ctx_operation_id task_context)
      (dst_db (document_store [])) = Inr cdb" by (cases "stage_claim Process_Capability 7 ''op'' (dst_db (document_store []))") (auto simp: op)
  moreover have "(RaisedTask err, s1) \<in> {deterministic_executor_of local_env Process_Capability (task_payload 7) task_context
      (document_store []), agent_executor_of local_env Process_Capability (Run_Called 7) (task_payload 7) task_context
      (document_store [])}" using run(1) by simp
  ultimately show ?thesis
    using run op compensated_attempt_can_be_retried [OF demo_payload demo_operation document_store_ok,
        where cap = Process_Capability and ?db1.0 = cdb and out = "RaisedTask err" and ?s1.0 = s1 and xv = local_env
          and ?s2.0 = s2 and ?op2.0 = "''op2''"] by simp
qed

end
