(* ===== verification/Messaging.thy ===== *)
theory Messaging
  imports Task_Runtime Replan
begin

text \<open>
  Reliable messaging: the outbox publisher (messaging/application/outbox.py), the parsing and
  acknowledging of stream messages (messaging/infrastructure/redis_streams.py) and the routing of
  an event to its consumer (messaging/worker/dispatcher.py).  The stream server is a parameter:
  whether a publication succeeds and which messages a read returns.
\<close>

section \<open>OutboxPublisher\<close>

record event_snapshot =
  es_event_id :: ident
  es_event_type :: string
  es_payload :: json

definition load_batch :: "time \<Rightarrow> nat \<Rightarrow> ident list \<Rightarrow> db \<Rightarrow> event_snapshot list" where
  "load_batch now limit locked db =
     map (\<lambda>e. \<lparr>es_event_id = e_id e, es_event_type = event_type_value (e_type e),
               es_payload = e_payload e\<rparr>)
       (outbox_list_available EV_PENDING now limit locked db)"

definition mark_published :: "time \<Rightarrow> ident \<Rightarrow> db \<Rightarrow> db" where
  "mark_published now eid db =
     (case outbox_get_by_id eid db of
        None \<Rightarrow> db
      | Some e \<Rightarrow>
          if e_status e \<noteq> EV_PENDING then db
          else outbox_save (e\<lparr>e_status := EV_PUBLISHED, e_published_at := Some now\<rparr>) db)"

definition count_failure :: "int \<Rightarrow> outbox_event \<Rightarrow> outbox_event" where
  "count_failure max_attempts e =
     (let e1 = e\<lparr>e_attempts := e_attempts e + 1\<rparr> in
      if max_attempts \<le> e_attempts e1 then e1\<lparr>e_status := EV_DEAD_LETTER\<rparr> else e1)"

definition mark_failed :: "int \<Rightarrow> ident \<Rightarrow> db \<Rightarrow> db" where
  "mark_failed max_attempts eid db =
     (case outbox_get_by_id eid db of
        None \<Rightarrow> db
      | Some e \<Rightarrow>
          if e_status e \<noteq> EV_PENDING then db
          else outbox_save (count_failure max_attempts e) db)"

text \<open>\<open>publish\<close> tells whether the transport accepted the event; the result counts successes.\<close>

fun publish_each ::
  "int \<Rightarrow> time \<Rightarrow> (event_snapshot \<Rightarrow> bool) \<Rightarrow> event_snapshot list \<Rightarrow> db \<Rightarrow> nat \<times> db" where
  "publish_each max_attempts now publish [] db = (0, db)"
| "publish_each max_attempts now publish (s # ss) db =
     (if publish s
      then (case publish_each max_attempts now publish ss (mark_published now (es_event_id s) db) of
              (n, db') \<Rightarrow> (n + 1, db'))
      else publish_each max_attempts now publish ss (mark_failed max_attempts (es_event_id s) db))"

definition publish_batch ::
  "int \<Rightarrow> time \<Rightarrow> (event_snapshot \<Rightarrow> bool) \<Rightarrow> nat \<Rightarrow> ident list \<Rightarrow> db \<Rightarrow> nat \<times> db" where
  "publish_batch max_attempts now publish limit locked db =
     publish_each max_attempts now publish (load_batch now limit locked db) db"

section \<open>Stream messages\<close>

record runtime_event =
  ev_id :: ident
  ev_type :: string
  ev_payload :: json

definition parse_event :: "ident \<Rightarrow> string \<Rightarrow> json \<Rightarrow> runtime_event result" where
  "parse_event eid ty payload =
     (case payload of
        JObj kvs \<Rightarrow> Inr \<lparr>ev_id = eid, ev_type = ty, ev_payload = payload\<rparr>
      | _ \<Rightarrow> Inl (ValueError ''Runtime Event payload must be a JSON object''))"

text \<open>
  \<open>_dispatch_messages\<close>: each message is parsed and handled, and acknowledged only after its handler
  returned; an exception ends the loop and leaves its message and the rest pending.  \<open>handle\<close> gives
  an error or nothing together with the state after it.  The result is the acknowledged message
  ids, the exception that ended the loop if any, and the state.
\<close>

fun dispatch_messages ::
  "(runtime_event \<Rightarrow> 's \<Rightarrow> error option \<times> 's) \<Rightarrow> (ident \<times> ident \<times> string \<times> json) list \<Rightarrow> 's
   \<Rightarrow> ident list \<times> error option \<times> 's" where
  "dispatch_messages handle [] s = ([], None, s)"
| "dispatch_messages handle ((mid, eid, ty, payload) # ms) s =
     (case parse_event eid ty payload of
        Inl e \<Rightarrow> ([], Some e, s)
      | Inr ev \<Rightarrow>
          (case handle ev s of
             (Some e, s') \<Rightarrow> ([], Some e, s')
           | (None, s') \<Rightarrow>
               (case dispatch_messages handle ms s' of
                  (acks, e, s'') \<Rightarrow> (mid # acks, e, s''))))"

section \<open>RuntimeEventDispatcher\<close>

definition dispatcher_consumer :: string where "dispatcher_consumer = ''runtime.dispatcher''"

datatype route =
    RunReplan replan_event
  | RunNext ident ident "ident option" "ident option"
  | RunAggregate ident ident
  | Skip

fun opt_string :: "json option \<Rightarrow> string option" where
  "opt_string (Some (JStr s)) = Some s"
| "opt_string _ = None"

text \<open>\<open>ReplanRequested(event_id=..., **payload)\<close>: unknown and missing fields are type errors.\<close>

definition replan_fields :: "string list" where
  "replan_fields = [''workflow_id'', ''conversation_id'', ''root_turn_id'', ''previous_plan_id'',
     ''next_revision'', ''trigger_type'', ''source_task_id'', ''error_code'', ''error_message'']"

fun payload_keys :: "json \<Rightarrow> string list" where
  "payload_keys (JObj kvs) = map fst kvs"
| "payload_keys _ = []"

definition replan_requested :: "ident \<Rightarrow> json \<Rightarrow> replan_event result" where
  "replan_requested eid j =
     (if \<not> set (payload_keys j) \<subseteq> set replan_fields
      then Inl (OtherException ''TypeError'' ''unexpected keyword argument'')
      else
        (case (json_get j ''workflow_id'', json_get j ''conversation_id'', json_get j ''root_turn_id'',
               json_get j ''previous_plan_id'', json_get j ''next_revision'', json_get j ''trigger_type'')
         of (Some (JStr w), Some (JStr c), Some (JStr t), Some (JStr p), Some (JInt n), Some (JStr k)) \<Rightarrow>
             Inr \<lparr>re_event_id = eid, re_workflow_id = w, re_conversation_id = c, re_root_turn_id = t,
                  re_previous_plan_id = p, re_next_revision = n, re_trigger_type = k,
                  re_source_task_id = opt_string (json_get j ''source_task_id''),
                  re_error_code = opt_string (json_get j ''error_code''),
                  re_error_message = opt_string (json_get j ''error_message'')\<rparr>
          | _ \<Rightarrow> Inl (OtherException ''TypeError'' ''missing required arguments'')))"

definition payload_plan_id :: "json \<Rightarrow> ident result" where
  "payload_plan_id j =
     (case json_get j ''plan_id'' of
        Some (JStr p) \<Rightarrow> Inr p
      | _ \<Rightarrow> Inl (OtherException ''KeyError'' ''plan_id''))"

definition route_event :: "runtime_event \<Rightarrow> db \<Rightarrow> route result" where
  "route_event ev db =
     (if ev_type ev = event_type_value REPLAN_REQUESTED
      then bind (replan_requested (ev_id ev) (ev_payload ev)) (\<lambda>r. Inr (RunReplan r))
      else if ev_type ev = event_type_value PLAN_WAKEUP
      then bind (payload_plan_id (ev_payload ev)) (\<lambda>p.
        Inr (RunNext p (ev_id ev) (opt_string (json_get (ev_payload ev) ''execution_id''))
               (opt_string (json_get (ev_payload ev) ''operation_id''))))
      else if inbox_exists dispatcher_consumer (ev_id ev) db then Inr Skip
      else if ev_type ev = event_type_value AGGREGATION_REQUESTED
      then bind (payload_plan_id (ev_payload ev)) (\<lambda>p. Inr (RunAggregate p (ev_id ev)))
      else Inl (ValueError (''unknown Runtime Event: '' @ ev_type ev)))"

definition record_processed :: "time \<Rightarrow> string \<Rightarrow> ident \<Rightarrow> db \<Rightarrow> (unit \<times> db) result" where
  "record_processed now hex eid db =
     (if inbox_exists dispatcher_consumer eid db then Inr ((), db)
      else bind (inbox_add \<lparr>i_id = new_id ''inbox'' hex, i_consumer_name = dispatcher_consumer,
                   i_event_id = eid, i_processed_at = now\<rparr> db)
             (\<lambda>db'. Inr ((), db')))"

section \<open>What the publisher guarantees\<close>

lemma outbox_rewrite_row:
  assumes "outbox_get_by_id eid db = Some e" and "e_id e' = e_id e"
  shows "outbox_get_by_id k (outbox_save e' db) = (if k = eid then Some e' else outbox_get_by_id k db)"
proof -
  have "e_id e = eid" using assms(1) by (rule outbox_repo.fetch_key)
  with assms show ?thesis by (auto simp: outbox_repo.fetch_save)
qed

lemma mark_published_row:
  assumes "outbox_get_by_id k db = Some e"
  shows "outbox_get_by_id k (mark_published now eid db) =
     Some (if k = eid \<and> e_status e = EV_PENDING
           then e\<lparr>e_status := EV_PUBLISHED, e_published_at := Some now\<rparr> else e)"
proof (cases "outbox_get_by_id eid db")
  case (Some f)
  have "outbox_get_by_id k (outbox_save (f\<lparr>e_status := EV_PUBLISHED, e_published_at := Some now\<rparr>) db) =
    (if k = eid then Some (f\<lparr>e_status := EV_PUBLISHED, e_published_at := Some now\<rparr>)
     else outbox_get_by_id k db)"
    by (rule outbox_rewrite_row [OF Some]) simp
  then show ?thesis using assms Some by (cases "k = eid") (simp_all add: mark_published_def)
qed (use assms in \<open>auto simp: mark_published_def\<close>)

lemma count_failure_id [simp]: "e_id (count_failure n e) = e_id e"
  by (simp add: count_failure_def Let_def)

lemma mark_failed_row:
  assumes "outbox_get_by_id k db = Some e"
  shows "outbox_get_by_id k (mark_failed n eid db) =
     Some (if k = eid \<and> e_status e = EV_PENDING then count_failure n e else e)"
proof (cases "outbox_get_by_id eid db")
  case (Some f)
  have "outbox_get_by_id k (outbox_save (count_failure n f) db) =
    (if k = eid then Some (count_failure n f) else outbox_get_by_id k db)"
    by (rule outbox_rewrite_row [OF Some]) simp
  then show ?thesis using assms Some by (cases "k = eid") (simp_all add: mark_failed_def)
qed (use assms in \<open>auto simp: mark_failed_def\<close>)

text \<open>The life of an event as the publisher drives it.\<close>

definition event_progress :: "int \<Rightarrow> outbox_event \<Rightarrow> outbox_event \<Rightarrow> bool" where
  "event_progress n e e' \<longleftrightarrow>
     e_id e' = e_id e \<and> e_type e' = e_type e \<and> e_payload e' = e_payload e \<and>
     e_aggregate_id e' = e_aggregate_id e \<and> e_available_at e' = e_available_at e \<and>
     e_attempts e \<le> e_attempts e' \<and>
     (e_status e \<noteq> EV_PENDING \<longrightarrow> e' = e) \<and>
     (e_status e' = EV_DEAD_LETTER \<longrightarrow> e_status e = EV_DEAD_LETTER \<or> n \<le> e_attempts e') \<and>
     (e_status e = EV_PENDING \<longrightarrow> e_status e' = EV_PENDING \<longrightarrow> e_attempts e < n \<longrightarrow> e_attempts e' < n)"

lemma event_progress_refl [simp]: "event_progress n e e"
  by (simp add: event_progress_def)

lemma event_progress_trans:
  "event_progress n a b \<Longrightarrow> event_progress n b c \<Longrightarrow> event_progress n a c"
  unfolding event_progress_def by (elim conjE, intro conjI impI; (simp; fail)?) auto

lemma mark_published_progress: "e_status e = EV_PENDING \<Longrightarrow>
    event_progress n e (e\<lparr>e_status := EV_PUBLISHED, e_published_at := Some now\<rparr>)"
  by (simp add: event_progress_def)

lemma count_failure_progress: "e_status e = EV_PENDING \<Longrightarrow> event_progress n e (count_failure n e)"
  by (auto simp: event_progress_def count_failure_def Let_def)

lemma publish_each_row:
  assumes "outbox_get_by_id k db = Some e"
  shows "\<exists>e'. outbox_get_by_id k (snd (publish_each n now publish ss db)) = Some e' \<and>
    event_progress n e e'"
  using assms
proof (induction ss arbitrary: db e)
  case (Cons s ss)
  show ?case
  proof (cases "publish s")
    case True
    let ?db = "mark_published now (es_event_id s) db"
    obtain e1 where e1: "outbox_get_by_id k ?db = Some e1" "event_progress n e e1"
      using Cons.prems mark_published_progress [of e n now] by (auto simp: mark_published_row split: if_splits)
    from Cons.IH [OF e1(1)] e1(2) show ?thesis
      using True by (auto split: prod.splits intro: event_progress_trans)
  next
    case False
    let ?db = "mark_failed n (es_event_id s) db"
    obtain e1 where e1: "outbox_get_by_id k ?db = Some e1" "event_progress n e e1"
      using Cons.prems count_failure_progress [of e n] by (auto simp: mark_failed_row split: if_splits)
    from Cons.IH [OF e1(1)] e1(2) show ?thesis
      using False by (auto intro: event_progress_trans)
  qed
qed simp

end
