(* ===== verification/Stream_Worker.thy ===== *)
theory Stream_Worker
  imports Messaging
begin

text \<open>
  The worker process: the dispatcher with its consumers (messaging/worker/dispatcher.py), one round
  of the stream worker (messaging/infrastructure/redis_streams.py) and the two loops that never
  stop on an error (workers/runtime_main.py).  What a read of the stream returns is an input, as
  are the consumers of the events.
\<close>

section \<open>RuntimeEventDispatcher.handle\<close>

record event_workers =
  ew_replan :: "(replan_event \<Rightarrow> db \<Rightarrow> error option \<times> db) option"
  ew_execute_next :: "ident \<Rightarrow> ident \<Rightarrow> ident option \<Rightarrow> ident option \<Rightarrow> db \<Rightarrow> error option \<times> db"
  ew_aggregate :: "ident \<Rightarrow> db \<Rightarrow> error option \<times> db"

text \<open>An aggregation that went through is recorded in a transaction of its own.\<close>

definition handle_event ::
  "event_workers \<Rightarrow> time \<Rightarrow> string \<Rightarrow> runtime_event \<Rightarrow> db \<Rightarrow> error option \<times> db" where
  "handle_event ws now hex ev db =
     (if ev_type ev = event_type_value REPLAN_REQUESTED \<and> ew_replan ws = None
      then (Some (RuntimeError ''Replan Worker is not configured''), db)
      else case route_event ev db of
        Inl e \<Rightarrow> (Some e, db)
      | Inr Skip \<Rightarrow> (None, db)
      | Inr (RunReplan r) \<Rightarrow> (case ew_replan ws of Some replan \<Rightarrow> replan r db | None \<Rightarrow> (None, db))
      | Inr (RunNext p eid xid op) \<Rightarrow> ew_execute_next ws p eid xid op db
      | Inr (RunAggregate p eid) \<Rightarrow>
          (case ew_aggregate ws p db of
             (Some e, db1) \<Rightarrow> (Some e, db1)
           | (None, db1) \<Rightarrow>
               (case record_processed now hex eid db1 of
                  Inl e \<Rightarrow> (Some e, db1) | Inr (_, db2) \<Rightarrow> (None, db2))))"

section \<open>One round of the stream worker\<close>

type_synonym message = "ident \<times> ident \<times> string \<times> json"

text \<open>What the three reads of a round return: idle messages of others, own backlog, new messages.\<close>

record stream_reads =
  sr_claimed :: "message list"
  sr_backlog :: "message list"
  sr_new :: "message list"

text \<open>
  A round stops at the first read that let it handle something.  The result is the number of handled
  messages or the exception that ended the round, the acknowledged ids, and the state.
\<close>

definition dispatched :: "ident list \<times> error option \<times> 's \<Rightarrow> nat result \<times> ident list \<times> 's" where
  "dispatched r = (case r of
     (acks, Some e, s) \<Rightarrow> (Inl e, acks, s) | (acks, None, s) \<Rightarrow> (Inr (length acks), acks, s))"

definition run_once ::
  "error option \<Rightarrow> (runtime_event \<Rightarrow> 's \<Rightarrow> error option \<times> 's) \<Rightarrow> stream_reads \<Rightarrow> 's \<Rightarrow>
     nat result \<times> ident list \<times> 's" where
  "run_once group_error handle reads s =
     (case group_error of
        Some e \<Rightarrow> (Inl e, [], s)
      | None \<Rightarrow>
          (case dispatched (dispatch_messages handle (sr_claimed reads) s) of
             (Inr 0, acks, s1) \<Rightarrow>
               (case dispatched (dispatch_messages handle (sr_backlog reads) s1) of
                  (Inr 0, acks', s2) \<Rightarrow> dispatched (dispatch_messages handle (sr_new reads) s2)
                | r \<Rightarrow> r)
           | r \<Rightarrow> r))"

section \<open>The loops\<close>

text \<open>
  Times are in milliseconds.  A round either returned (how many) or raised; the trace lists what the
  loop waits for between the rounds.  \<open>run_outbox_loop\<close> rests when nothing was published.
\<close>

definition OUTBOX_IDLE :: int where "OUTBOX_IDLE = 500"
definition INITIAL_RETRY :: int where "INITIAL_RETRY = 1000"
definition MAX_RETRY :: int where "MAX_RETRY = 30000"

fun stream_loop :: "int \<Rightarrow> nat option list \<Rightarrow> int list" where
  "stream_loop retry [] = []"
| "stream_loop retry (Some n # rounds) = stream_loop INITIAL_RETRY rounds"
| "stream_loop retry (None # rounds) = retry # stream_loop (min (retry * 2) MAX_RETRY) rounds"

fun outbox_loop :: "int \<Rightarrow> nat option list \<Rightarrow> int list" where
  "outbox_loop retry [] = []"
| "outbox_loop retry (Some n # rounds) =
     (if n = 0 then OUTBOX_IDLE # outbox_loop INITIAL_RETRY rounds else outbox_loop INITIAL_RETRY rounds)"
| "outbox_loop retry (None # rounds) = retry # outbox_loop (min (retry * 2) MAX_RETRY) rounds"

section \<open>What a round does\<close>

text \<open>The state after handling a list of messages one after the other, while none of them fails.\<close>

fun handled ::
  "(runtime_event \<Rightarrow> 's \<Rightarrow> error option \<times> 's) \<Rightarrow> message list \<Rightarrow> 's \<Rightarrow> 's option" where
  "handled handle [] s = Some s"
| "handled handle ((mid, eid, ty, payload) # ms) s =
     (case parse_event eid ty payload of
        Inl _ \<Rightarrow> None
      | Inr ev \<Rightarrow> (case handle ev s of (Some _, _) \<Rightarrow> None | (None, s') \<Rightarrow> handled handle ms s'))"

text \<open>
  Exactly the longest prefix that goes through is acknowledged; the message after it raised the
  exception, and it and the rest stay pending.
\<close>

lemma dispatch_acknowledges_prefix:
  assumes "dispatch_messages handle ms s = (acks, e, s')"
  shows "\<exists>n s1. n \<le> length ms \<and> acks = map fst (take n ms) \<and> handled handle (take n ms) s = Some s1 \<and>
    (case e of
       None \<Rightarrow> n = length ms \<and> s' = s1
     | Some err \<Rightarrow> n < length ms \<and> handled handle (take (n + 1) ms) s = None)"
  using assms
proof (induction handle ms s arbitrary: acks e s' rule: dispatch_messages.induct)
  case (2 handle mid eid ty payload ms s)
  show ?case
  proof (cases "parse_event eid ty payload")
    case (Inl err)
    then show ?thesis using 2(2) by (intro exI [of _ 0]) auto
  next
    case (Inr ev)
    obtain o1 s1 where h: "handle ev s = (o1, s1)" by force
    show ?thesis
    proof (cases o1)
      case (Some err)
      then show ?thesis using 2(2) Inr h by (intro exI [of _ 0]) auto
    next
      case None
      obtain acks1 e1 s2 where rest: "dispatch_messages handle ms s1 = (acks1, e1, s2)" by (cases "dispatch_messages handle ms s1")
      with 2(2) Inr h None have eq: "acks = mid # acks1" "e = e1" "s' = s2" by simp_all
      from 2(1) [OF Inr h [unfolded None, symmetric] refl rest] obtain n t where
        "n \<le> length ms" "acks1 = map fst (take n ms)" "handled handle (take n ms) s1 = Some t"
        "case e1 of None \<Rightarrow> n = length ms \<and> s2 = t
          | Some err \<Rightarrow> n < length ms \<and> handled handle (take (n + 1) ms) s1 = None" by blast
      then show ?thesis
        by (intro exI [of _ "Suc n"] exI [of _ t]) (auto simp: eq Inr h None split: option.splits)
    qed
  qed
qed simp

text \<open>
  A message of the backlog that cannot be read as an event stops every later round of its consumer: no
  message is acknowledged and no new message is read, until somebody else claims it, which fails alike.
\<close>

lemma poison_message_blocks_consumer:
  assumes "sr_claimed reads = []" and "sr_backlog reads = (mid, eid, ty, payload) # ms"
    and "\<forall>kvs. payload \<noteq> JObj kvs"
  shows "\<exists>e. run_once None handle reads s = (Inl e, [], s)"
  using assms by (cases payload) (auto simp: run_once_def dispatched_def parse_event_def)

text \<open>The waits of both loops stay between the first and the longest delay, whatever the rounds do.\<close>

lemma stream_loop_waits:
  "INITIAL_RETRY \<le> retry \<Longrightarrow> retry \<le> MAX_RETRY \<Longrightarrow> w \<in> set (stream_loop retry rounds) \<Longrightarrow>
     INITIAL_RETRY \<le> w \<and> w \<le> MAX_RETRY"
  by (induction retry rounds rule: stream_loop.induct) (auto simp: INITIAL_RETRY_def MAX_RETRY_def split: if_splits)

lemma outbox_loop_waits:
  "INITIAL_RETRY \<le> retry \<Longrightarrow> retry \<le> MAX_RETRY \<Longrightarrow> w \<in> set (outbox_loop retry rounds) \<Longrightarrow>
     OUTBOX_IDLE \<le> w \<and> w \<le> MAX_RETRY"
  by (induction retry rounds rule: outbox_loop.induct)
     (auto simp: INITIAL_RETRY_def MAX_RETRY_def OUTBOX_IDLE_def split: if_splits)

text \<open>An aggregation event that was handled is skipped when it is delivered again.\<close>

lemma processed_is_recorded:
  "record_processed now hex eid db = Inr ((), db') \<Longrightarrow> inbox_exists dispatcher_consumer eid db'"
  by (auto simp: record_processed_def inbox_add_def inbox_exists_def bind_eq_Inr add_row_Inr list_ex_iff split: if_splits)

lemma aggregation_redelivery_skipped:
  assumes "handle_event ws now hex ev db = (None, db')" and "ev_type ev = event_type_value AGGREGATION_REQUESTED"
  shows "handle_event ws' now' hex' ev db' = (None, db')"
proof -
  have types: "event_type_value AGGREGATION_REQUESTED \<noteq> event_type_value REPLAN_REQUESTED"
    "event_type_value AGGREGATION_REQUESTED \<noteq> event_type_value PLAN_WAKEUP" by simp_all
  have "inbox_exists dispatcher_consumer (ev_id ev) db'"
    using assms types by (auto simp: handle_event_def route_event_def bind_def dest: processed_is_recorded
      split: if_splits sum.splits prod.splits option.splits)
  then show ?thesis using types by (simp add: handle_event_def route_event_def assms(2))
qed

end
