(* ===== verification/Context_Store.thy ===== *)
theory Context_Store
  imports Store
begin

text \<open>
  The tables of the conversation context (modules/context/infrastructure/persistence): context
  chains with their nodes, the current state and the event log of the resources of a chain, and
  the selection records, beside the orchestration tables that hold the turns.  The legacy column
  \<open>context_chains.resources\<close> is never read and left out.
\<close>

datatype selection_mode = NO_CONTEXT | SINGLE_CONTEXT | MULTI_CONTEXT

datatype resource_action = SEEN | REFRESHED | REMOVED | INVALIDATED

section \<open>Rows\<close>

record chain =
  ch_id :: ident
  ch_conversation_id :: ident
  ch_resource_version :: int
  ch_last_active_at :: time
  ch_archived :: bool
  ch_created_at :: time

record chain_node =
  nd_id :: ident
  nd_chain_id :: ident
  nd_turn_id :: ident
  nd_sequence :: int
  nd_related_task_ids :: "ident list"
  nd_related_resource_refs :: "string list"
  nd_created_at :: time

record chain_resource =
  rs_id :: int
  rs_chain_id :: ident
  rs_key :: string
  rs_type :: string
  rs_resource_id :: string
  rs_relation :: "string option"
  rs_summary :: "string option"
  rs_first_seen_turn_id :: ident
  rs_last_seen_turn_id :: ident
  rs_first_seen_at :: time
  rs_last_seen_at :: time
  rs_use_count :: int
  rs_active :: bool
  rs_removed_at :: "time option"

record resource_event =
  re_id :: ident
  re_chain_id :: ident
  re_turn_id :: ident
  re_key :: string
  re_type :: string
  re_resource_id :: string
  re_action :: resource_action
  re_relation :: "string option"
  re_summary :: "string option"
  re_created_at :: time

record selection_record =
  sl_id :: ident
  sl_conversation_id :: ident
  sl_turn_id :: ident
  sl_relevant_chain_ids :: "ident list"
  sl_mode :: selection_mode
  sl_reason_summary :: string
  sl_created_at :: time

record context_db =
  core :: db
  chains :: "chain list"
  chain_nodes :: "chain_node list"
  chain_resources :: "chain_resource list"
  resource_events :: "resource_event list"
  selections :: "selection_record list"
  next_resource_id :: int

section \<open>Turns\<close>

definition create_turn :: "turn \<Rightarrow> context_db \<Rightarrow> context_db result" where
  "create_turn t db = bind
     (add_row [(''PRIMARY'', \<lambda>a b. tn_id a = tn_id b)] t (turns (core db)))
     (\<lambda>rows. Inr (db\<lparr>core := (core db)\<lparr>turns := rows\<rparr>\<rparr>))"

definition get_turn :: "ident \<Rightarrow> context_db \<Rightarrow> turn option" where
  "get_turn tid db = turn_get_by_id tid (core db)"

definition save_turn :: "turn \<Rightarrow> context_db \<Rightarrow> context_db" where
  "save_turn t db = db\<lparr>core := turn_save t (core db)\<rparr>"

definition complete_turn_row ::
  "string option \<Rightarrow> string option \<Rightarrow> ident list \<Rightarrow> string option \<Rightarrow> time \<Rightarrow> turn \<Rightarrow> turn" where
  "complete_turn_row content compact task_ids summary now t =
     t\<lparr>tn_assistant_content := content, tn_assistant_compact := compact, tn_task_ids := task_ids,
       tn_task_result_summary := summary, tn_completed_at := Some now,
       tn_status := TURN_COMPLETED\<rparr>"

section \<open>Chains and nodes\<close>

definition get_chain :: "ident \<Rightarrow> context_db \<Rightarrow> chain option" where
  "get_chain cid db = get_row ch_id cid (chains db)"

definition save_chain :: "chain \<Rightarrow> context_db \<Rightarrow> context_db" where
  "save_chain c db = db\<lparr>chains := put_row ch_id c (chains db)\<rparr>"

definition create_chain :: "chain \<Rightarrow> context_db \<Rightarrow> context_db result" where
  "create_chain c db = bind
     (add_row [(''PRIMARY'', \<lambda>a b. ch_id a = ch_id b)] c (chains db))
     (\<lambda>rows. Inr (db\<lparr>chains := rows\<rparr>))"

definition list_active_chains :: "ident \<Rightarrow> context_db \<Rightarrow> chain list" where
  "list_active_chains conv db = sort_key (\<lambda>c. (- ch_last_active_at c, ch_id c))
     (filter (\<lambda>c. ch_conversation_id c = conv \<and> \<not> ch_archived c) (chains db))"

definition update_chain_activity :: "time \<Rightarrow> ident \<Rightarrow> context_db \<Rightarrow> context_db" where
  "update_chain_activity now cid db =
     (case get_chain cid db of
        None \<Rightarrow> db
      | Some c \<Rightarrow> save_chain (c\<lparr>ch_last_active_at := now, ch_archived := False\<rparr>) db)"

text \<open>\<open>ContextChain.nodes\<close>: the nodes of a chain by sequence.\<close>

definition nodes_of :: "ident \<Rightarrow> context_db \<Rightarrow> chain_node list" where
  "nodes_of cid db = sort_key nd_sequence (filter (\<lambda>n. nd_chain_id n = cid) (chain_nodes db))"

definition get_next_sequence :: "ident \<Rightarrow> context_db \<Rightarrow> int" where
  "get_next_sequence cid db =
     (case latest_by nd_sequence (filter (\<lambda>n. nd_chain_id n = cid) (chain_nodes db)) of
        None \<Rightarrow> 0 | Some n \<Rightarrow> nd_sequence n + 1)"

definition create_node :: "chain_node \<Rightarrow> context_db \<Rightarrow> context_db result" where
  "create_node n db = bind
     (add_row
       [(''PRIMARY'', \<lambda>a b. nd_id a = nd_id b),
        (''uq_context_chain_nodes_chain_sequence'',
          \<lambda>a b. nd_chain_id a = nd_chain_id b \<and> nd_sequence a = nd_sequence b),
        (''uq_context_chain_nodes_chain_turn'',
          \<lambda>a b. nd_chain_id a = nd_chain_id b \<and> nd_turn_id a = nd_turn_id b)]
       n (chain_nodes db))
     (\<lambda>rows. Inr (db\<lparr>chain_nodes := rows\<rparr>))"

definition list_linked_chain_ids :: "ident \<Rightarrow> context_db \<Rightarrow> ident list" where
  "list_linked_chain_ids tid db =
     sort (map nd_chain_id (filter (\<lambda>n. nd_turn_id n = tid) (chain_nodes db)))"

section \<open>Resources\<close>

definition get_chain_resource :: "ident \<Rightarrow> string \<Rightarrow> context_db \<Rightarrow> chain_resource option" where
  "get_chain_resource cid key db =
     get_row (\<lambda>r. (rs_chain_id r, rs_key r)) (cid, key) (chain_resources db)"

definition save_chain_resource :: "chain_resource \<Rightarrow> context_db \<Rightarrow> context_db" where
  "save_chain_resource r db =
     db\<lparr>chain_resources := put_row (\<lambda>r. (rs_chain_id r, rs_key r)) r (chain_resources db)\<rparr>"

text \<open>A resource as the completing side describes it (application/dto.py).\<close>

record resource_input =
  ri_type :: string
  ri_id :: string
  ri_relation :: "string option"
  ri_summary :: "string option"

definition ri_key :: "resource_input \<Rightarrow> string" where
  "ri_key r = ri_type r @ '':'' @ ri_id r"

definition refreshed_row :: "ident \<Rightarrow> time \<Rightarrow> resource_input \<Rightarrow> chain_resource \<Rightarrow> chain_resource" where
  "refreshed_row tid now i r =
     r\<lparr>rs_type := ri_type i, rs_resource_id := ri_id i, rs_relation := ri_relation i,
       rs_summary := ri_summary i, rs_last_seen_turn_id := tid, rs_last_seen_at := now,
       rs_use_count := rs_use_count r + 1, rs_active := True, rs_removed_at := None\<rparr>"

definition new_resource_row :: "int \<Rightarrow> ident \<Rightarrow> ident \<Rightarrow> time \<Rightarrow> resource_input \<Rightarrow> chain_resource" where
  "new_resource_row rid cid tid now i =
     \<lparr>rs_id = rid, rs_chain_id = cid, rs_key = ri_key i, rs_type = ri_type i,
      rs_resource_id = ri_id i, rs_relation = ri_relation i, rs_summary = ri_summary i,
      rs_first_seen_turn_id = tid, rs_last_seen_turn_id = tid, rs_first_seen_at = now,
      rs_last_seen_at = now, rs_use_count = 1, rs_active = True, rs_removed_at = None\<rparr>"

text \<open>The row after the write, and whether it is new.\<close>

definition upsert_chain_resource ::
  "ident \<Rightarrow> ident \<Rightarrow> time \<Rightarrow> resource_input \<Rightarrow> context_db \<Rightarrow> chain_resource \<times> bool \<times> context_db" where
  "upsert_chain_resource cid tid now i db =
     (case get_chain_resource cid (ri_key i) db of
        None \<Rightarrow>
          let r = new_resource_row (next_resource_id db) cid tid now i in
          (r, True, db\<lparr>chain_resources := chain_resources db @ [r],
                       next_resource_id := next_resource_id db + 1\<rparr>)
      | Some old \<Rightarrow>
          let r = refreshed_row tid now i old in (r, False, save_chain_resource r db))"

definition deactivate_chain_resource ::
  "ident \<Rightarrow> time \<Rightarrow> string \<Rightarrow> context_db \<Rightarrow> chain_resource option \<times> context_db" where
  "deactivate_chain_resource cid now key db =
     (case get_chain_resource cid key db of
        None \<Rightarrow> (None, db)
      | Some old \<Rightarrow>
          let r = old\<lparr>rs_active := False, rs_removed_at := Some now\<rparr> in
          (Some r, save_chain_resource r db))"

definition create_resource_event :: "resource_event \<Rightarrow> context_db \<Rightarrow> context_db result" where
  "create_resource_event e db = bind
     (add_row [(''PRIMARY'', \<lambda>a b. re_id a = re_id b)] e (resource_events db))
     (\<lambda>rows. Inr (db\<lparr>resource_events := rows\<rparr>))"

text \<open>Newest first, at most \<open>limit\<close> active rows.\<close>

definition list_resources_for_warmup :: "ident \<Rightarrow> nat \<Rightarrow> context_db \<Rightarrow> chain_resource list" where
  "list_resources_for_warmup cid limit db =
     take limit (rev (sort_key (\<lambda>r. (rs_last_seen_at r, rs_key r))
       (filter (\<lambda>r. rs_chain_id r = cid \<and> rs_active r) (chain_resources db))))"

definition increment_resource_version :: "ident \<Rightarrow> context_db \<Rightarrow> context_db" where
  "increment_resource_version cid db =
     (case get_chain cid db of
        None \<Rightarrow> db
      | Some c \<Rightarrow> save_chain (c\<lparr>ch_resource_version := ch_resource_version c + 1\<rparr>) db)"

section \<open>Selection records\<close>

definition create_selection_record :: "selection_record \<Rightarrow> context_db \<Rightarrow> context_db result" where
  "create_selection_record s db = bind
     (add_row
       [(''PRIMARY'', \<lambda>a b. sl_id a = sl_id b),
        (''uq_context_selection_records_turn'', \<lambda>a b. sl_turn_id a = sl_turn_id b)]
       s (selections db))
     (\<lambda>rows. Inr (db\<lparr>selections := rows\<rparr>))"

definition get_selection_record :: "ident \<Rightarrow> context_db \<Rightarrow> selection_record option" where
  "get_selection_record tid db = get_row sl_turn_id tid (selections db)"

section \<open>The repositories as keyed stores\<close>

interpretation chain_repo: keyed_repository ch_id get_chain save_chain
  by unfold_locales (auto simp: get_chain_def save_chain_def table_simps dest: get_row_SomeD)

interpretation context_turn_repo: keyed_repository tn_id get_turn save_turn
  by unfold_locales
     (auto simp: get_turn_def save_turn_def turn_repo.fetch_save dest: turn_repo.fetch_key)

interpretation resource_repo:
  keyed_repository "\<lambda>r. (rs_chain_id r, rs_key r)" "\<lambda>(c, k). get_chain_resource c k" save_chain_resource
  by unfold_locales
     (auto simp: get_chain_resource_def save_chain_resource_def table_simps dest: get_row_SomeD
       split: if_splits)

end
