(* ===== verification/Context_Query.thy ===== *)
theory Context_Query
  imports Context_Store Listing
begin

text \<open>
  The read-only side of the context: the searches of the repository
  (context/infrastructure/persistence/repository.py), the query service over them and the function
  tools an agent calls (context/agent_tools/query_tools.py), which narrow every query to the
  conversation, chains and turns of the agent run.  The result models copy the columns of a row, so
  an answer holds the rows themselves.
\<close>

section \<open>Search queries (query_dto.py)\<close>

fun selection_mode_value :: "selection_mode \<Rightarrow> string" where
  "selection_mode_value NO_CONTEXT = ''no_context''"
| "selection_mode_value SINGLE_CONTEXT = ''single_context''"
| "selection_mode_value MULTI_CONTEXT = ''multi_context''"

record turn_query =
  tq_conversation_id :: "ident option"
  tq_turn_ids :: "ident list"
  tq_turn_statuses :: "string list"
  tq_from :: "time option"
  tq_to :: "time option"
  tq_completed_from :: "time option"
  tq_completed_to :: "time option"
  tq_limit :: int
  tq_offset :: int

record chain_query =
  cq_conversation_id :: "ident option"
  cq_chain_ids :: "ident list"
  cq_archived :: "bool option"
  cq_from :: "time option"
  cq_to :: "time option"
  cq_limit :: int
  cq_offset :: int

record node_query =
  nq_conversation_id :: "ident option"
  nq_chain_id :: "ident option"
  nq_chain_ids :: "ident list"
  nq_turn_id :: "ident option"
  nq_turn_ids :: "ident list"
  nq_from :: "time option"
  nq_to :: "time option"
  nq_limit :: int
  nq_offset :: int

record resource_query =
  rq_conversation_id :: "ident option"
  rq_chain_id :: "ident option"
  rq_chain_ids :: "ident list"
  rq_resource_type :: "string option"
  rq_resource_id :: "string option"
  rq_active :: "bool option"
  rq_last_seen_from :: "time option"
  rq_last_seen_to :: "time option"
  rq_limit :: int
  rq_offset :: int

record selection_query =
  sq_conversation_id :: "ident option"
  sq_turn_id :: "ident option"
  sq_selection_modes :: "string list"
  sq_from :: "time option"
  sq_to :: "time option"
  sq_limit :: int
  sq_offset :: int

definition text_max :: "nat \<Rightarrow> string option \<Rightarrow> bool" where
  "text_max n s \<longleftrightarrow> (case s of None \<Rightarrow> True | Some t \<Rightarrow> length t \<le> n)"

definition valid_turn_query :: "turn_query \<Rightarrow> bool" where
  "valid_turn_query q \<longleftrightarrow>
     text_max 100 (tq_conversation_id q) \<and> window_ok (tq_limit q) (tq_offset q) \<and>
     range_ok (tq_from q) (tq_to q) \<and> range_ok (tq_completed_from q) (tq_completed_to q)"

definition valid_chain_query :: "chain_query \<Rightarrow> bool" where
  "valid_chain_query q \<longleftrightarrow>
     text_max 100 (cq_conversation_id q) \<and> window_ok (cq_limit q) (cq_offset q) \<and>
     range_ok (cq_from q) (cq_to q)"

definition valid_node_query :: "node_query \<Rightarrow> bool" where
  "valid_node_query q \<longleftrightarrow>
     text_max 100 (nq_conversation_id q) \<and> text_max 100 (nq_chain_id q) \<and> text_max 100 (nq_turn_id q) \<and>
     window_ok (nq_limit q) (nq_offset q) \<and> range_ok (nq_from q) (nq_to q)"

definition valid_resource_query :: "resource_query \<Rightarrow> bool" where
  "valid_resource_query q \<longleftrightarrow>
     text_max 100 (rq_conversation_id q) \<and> text_max 100 (rq_chain_id q) \<and>
     text_max 100 (rq_resource_type q) \<and> text_max 400 (rq_resource_id q) \<and>
     window_ok (rq_limit q) (rq_offset q) \<and> range_ok (rq_last_seen_from q) (rq_last_seen_to q)"

definition valid_selection_query :: "selection_query \<Rightarrow> bool" where
  "valid_selection_query q \<longleftrightarrow>
     text_max 100 (sq_conversation_id q) \<and> text_max 100 (sq_turn_id q) \<and>
     window_ok (sq_limit q) (sq_offset q) \<and> range_ok (sq_from q) (sq_to q)"

section \<open>Searches\<close>

definition turn_matches :: "turn_query \<Rightarrow> turn \<Rightarrow> bool" where
  "turn_matches q t \<longleftrightarrow>
     equals_if (tq_conversation_id q) (tn_conversation_id t) \<and> in_if (tq_turn_ids q) (tn_id t) \<and>
     in_if (tq_turn_statuses q) (turn_status_value (tn_status t)) \<and>
     between (tq_from q) (tq_to q) (tn_created_at t) \<and>
     between_if (tq_completed_from q) (tq_completed_to q) (tn_completed_at t)"

definition found_turns :: "turn_query \<Rightarrow> context_db \<Rightarrow> turn list" where
  "found_turns q db = rev (sort_key (\<lambda>t. (tn_created_at t, tn_id t)) (filter (turn_matches q) (turns (core db))))"

definition chain_matches :: "chain_query \<Rightarrow> chain \<Rightarrow> bool" where
  "chain_matches q c \<longleftrightarrow>
     equals_if (cq_conversation_id q) (ch_conversation_id c) \<and> in_if (cq_chain_ids q) (ch_id c) \<and>
     equals_if (cq_archived q) (ch_archived c) \<and> between (cq_from q) (cq_to q) (ch_created_at c)"

definition found_chains :: "chain_query \<Rightarrow> context_db \<Rightarrow> chain list" where
  "found_chains q db = sort_key (\<lambda>c. (- ch_last_active_at c, ch_id c)) (filter (chain_matches q) (chains db))"

text \<open>The inner join with the chain's row.\<close>

definition chain_in_conversation :: "ident option \<Rightarrow> ident \<Rightarrow> context_db \<Rightarrow> bool" where
  "chain_in_conversation conv cid db \<longleftrightarrow>
     (case conv of None \<Rightarrow> True
      | Some i \<Rightarrow> list_ex (\<lambda>c. ch_id c = cid \<and> ch_conversation_id c = i) (chains db))"

definition node_matches :: "node_query \<Rightarrow> context_db \<Rightarrow> chain_node \<Rightarrow> bool" where
  "node_matches q db n \<longleftrightarrow>
     chain_in_conversation (nq_conversation_id q) (nd_chain_id n) db \<and>
     equals_if (nq_chain_id q) (nd_chain_id n) \<and> in_if (nq_chain_ids q) (nd_chain_id n) \<and>
     equals_if (nq_turn_id q) (nd_turn_id n) \<and> in_if (nq_turn_ids q) (nd_turn_id n) \<and>
     between (nq_from q) (nq_to q) (nd_created_at n)"

definition found_nodes :: "node_query \<Rightarrow> context_db \<Rightarrow> chain_node list" where
  "found_nodes q db =
     sort_key (\<lambda>n. (nd_chain_id n, nd_sequence n, nd_id n)) (filter (node_matches q db) (chain_nodes db))"

definition resource_matches :: "resource_query \<Rightarrow> context_db \<Rightarrow> chain_resource \<Rightarrow> bool" where
  "resource_matches q db r \<longleftrightarrow>
     chain_in_conversation (rq_conversation_id q) (rs_chain_id r) db \<and>
     equals_if (rq_chain_id q) (rs_chain_id r) \<and> in_if (rq_chain_ids q) (rs_chain_id r) \<and>
     equals_if (rq_resource_type q) (rs_type r) \<and> equals_if (rq_resource_id q) (rs_resource_id r) \<and>
     equals_if (rq_active q) (rs_active r) \<and>
     between (rq_last_seen_from q) (rq_last_seen_to q) (rs_last_seen_at r)"

definition found_resources :: "resource_query \<Rightarrow> context_db \<Rightarrow> chain_resource list" where
  "found_resources q db =
     sort_key (\<lambda>r. (- rs_last_seen_at r, - rs_id r)) (filter (resource_matches q db) (chain_resources db))"

definition selection_matches :: "selection_query \<Rightarrow> selection_record \<Rightarrow> bool" where
  "selection_matches q s \<longleftrightarrow>
     equals_if (sq_conversation_id q) (sl_conversation_id s) \<and> equals_if (sq_turn_id q) (sl_turn_id s) \<and>
     in_if (sq_selection_modes q) (selection_mode_value (sl_mode s)) \<and>
     between (sq_from q) (sq_to q) (sl_created_at s)"

definition found_selections :: "selection_query \<Rightarrow> context_db \<Rightarrow> selection_record list" where
  "found_selections q db =
     rev (sort_key (\<lambda>s. (sl_created_at s, sl_id s)) (filter (selection_matches q) (selections db)))"

section \<open>The query service\<close>

definition query_conversation_turn :: "ident \<Rightarrow> context_db \<Rightarrow> turn result" where
  "query_conversation_turn tid db =
     of_option (ContextQueryError 404 ''Context Turn does not exist'') (get_turn tid db)"

definition list_conversation_turns :: "turn_query \<Rightarrow> context_db \<Rightarrow> turn listing" where
  "list_conversation_turns q db = listing_of (tq_offset q) (tq_limit q) (found_turns q db)"

definition query_context_chain :: "ident \<Rightarrow> context_db \<Rightarrow> chain result" where
  "query_context_chain cid db =
     of_option (ContextQueryError 404 ''Context Chain does not exist'') (get_chain cid db)"

definition list_context_chains :: "chain_query \<Rightarrow> context_db \<Rightarrow> chain listing" where
  "list_context_chains q db = listing_of (cq_offset q) (cq_limit q) (found_chains q db)"

definition list_context_chain_nodes :: "node_query \<Rightarrow> context_db \<Rightarrow> chain_node listing" where
  "list_context_chain_nodes q db = listing_of (nq_offset q) (nq_limit q) (found_nodes q db)"

definition list_context_chain_resources :: "resource_query \<Rightarrow> context_db \<Rightarrow> chain_resource listing" where
  "list_context_chain_resources q db = listing_of (rq_offset q) (rq_limit q) (found_resources q db)"

definition list_context_selection_records :: "selection_query \<Rightarrow> context_db \<Rightarrow> selection_record listing" where
  "list_context_selection_records q db = listing_of (sq_offset q) (sq_limit q) (found_selections q db)"

section \<open>The scope of an agent run\<close>

text \<open>
  The part of the agent context these tools read.  \<open>as_service\<close>: a query service or the use cases
  over it are configured.
\<close>

record agent_scope =
  as_permissions :: "string list"
  as_conversation_id :: "ident option"
  as_turn_id :: "ident option"
  as_chain_ids :: "ident list"
  as_turn_ids :: "ident list"
  as_service :: bool

text \<open>
  The scope of a planner run (\<open>_build_agent_context\<close>): the chains it was handed, each with the turns
  of its nodes, and the current turn.
\<close>

definition planner_agent_scope :: "ident \<Rightarrow> ident \<Rightarrow> string list \<Rightarrow> (ident \<times> ident list) list \<Rightarrow> agent_scope" where
  "planner_agent_scope conv tid permissions context_chains =
     \<lparr>as_permissions = permissions, as_conversation_id = Some conv, as_turn_id = Some tid,
      as_chain_ids = map fst context_chains, as_turn_ids = tid # concat (map snd context_chains),
      as_service = True\<rparr>"

definition scope_error :: "string \<Rightarrow> error" where
  "scope_error m = OtherException ''AgentToolScopeError'' m"

definition conversation_scope :: "agent_scope \<Rightarrow> ident option \<Rightarrow> ident result" where
  "conversation_scope sc requested =
     (case as_conversation_id sc of
        None \<Rightarrow> Inl (scope_error ''Context Tool has no Conversation scope'')
      | Some conv \<Rightarrow>
          if requested \<noteq> None \<and> requested \<noteq> Some conv
          then Inl (scope_error ''Context Tool asked for another Conversation'') else Inr conv)"

text \<open>\<open>normalized or sorted(allowed_ids)\<close>.\<close>

definition allowed_ids_of :: "ident list \<Rightarrow> ident list \<Rightarrow> ident list result" where
  "allowed_ids_of requested allowed =
     (let normalized = dedup requested in
      if \<not> set normalized \<subseteq> set allowed then Inl (scope_error ''Context Tool asked for a resource not allowed'')
      else Inr (if normalized = [] then sort (dedup allowed) else normalized))"

definition require_allowed_id :: "ident \<Rightarrow> ident list \<Rightarrow> unit result" where
  "require_allowed_id i allowed =
     require (i \<in> set allowed) (scope_error ''Context Tool asked for a resource not allowed'')"

definition with_service :: "agent_scope \<Rightarrow> 'a result \<Rightarrow> 'a result" where
  "with_service sc r =
     (if as_service sc then r
      else Inl (OtherException ''ToolNotAvailableError'' ''Context query service is not configured''))"

definition scoped_turn :: "agent_scope \<Rightarrow> ident \<Rightarrow> context_db \<Rightarrow> turn result" where
  "scoped_turn sc tid db =
     bind (require_allowed_id tid (as_turn_ids sc)) (\<lambda>_. with_service sc (query_conversation_turn tid db))"

definition scoped_turns :: "agent_scope \<Rightarrow> turn_query \<Rightarrow> context_db \<Rightarrow> turn listing result" where
  "scoped_turns sc q db =
     bind (conversation_scope sc (tq_conversation_id q)) (\<lambda>conv.
     bind (allowed_ids_of (tq_turn_ids q) (as_turn_ids sc)) (\<lambda>ids.
     with_service sc (Inr (list_conversation_turns
       (q\<lparr>tq_conversation_id := Some conv, tq_turn_ids := ids\<rparr>) db))))"

definition scoped_chain :: "agent_scope \<Rightarrow> ident \<Rightarrow> context_db \<Rightarrow> chain result" where
  "scoped_chain sc cid db =
     bind (require_allowed_id cid (as_chain_ids sc)) (\<lambda>_. with_service sc (query_context_chain cid db))"

definition no_items :: "int \<Rightarrow> int \<Rightarrow> 'a listing" where
  "no_items limit offset = \<lparr>ls_items = [], ls_total = 0, ls_limit = limit, ls_offset = offset\<rparr>"

definition scoped_chains :: "agent_scope \<Rightarrow> chain_query \<Rightarrow> context_db \<Rightarrow> chain listing result" where
  "scoped_chains sc q db =
     bind (conversation_scope sc (cq_conversation_id q)) (\<lambda>conv.
     bind (allowed_ids_of (cq_chain_ids q) (as_chain_ids sc)) (\<lambda>ids.
     if ids = [] then Inr (no_items (cq_limit q) (cq_offset q))
     else with_service sc (Inr (list_context_chains
       (q\<lparr>cq_conversation_id := Some conv, cq_chain_ids := ids\<rparr>) db))))"

definition requested_ids :: "ident list \<Rightarrow> ident option \<Rightarrow> ident list" where
  "requested_ids ids one = ids @ (case one of None \<Rightarrow> [] | Some i \<Rightarrow> [i])"

text \<open>Only turns before the one being planned are history.\<close>

definition historical_turn_ids :: "agent_scope \<Rightarrow> ident list" where
  "historical_turn_ids sc = filter (\<lambda>t. as_turn_id sc \<noteq> Some t) (as_turn_ids sc)"

definition scoped_nodes :: "agent_scope \<Rightarrow> node_query \<Rightarrow> context_db \<Rightarrow> chain_node listing result" where
  "scoped_nodes sc q db =
     bind (conversation_scope sc (nq_conversation_id q)) (\<lambda>conv.
     bind (allowed_ids_of (requested_ids (nq_chain_ids q) (nq_chain_id q)) (as_chain_ids sc)) (\<lambda>cs.
     bind (allowed_ids_of (requested_ids (nq_turn_ids q) (nq_turn_id q)) (historical_turn_ids sc)) (\<lambda>ts.
     if cs = [] \<or> ts = [] then Inr (no_items (nq_limit q) (nq_offset q))
     else with_service sc (Inr (list_context_chain_nodes
       (q\<lparr>nq_conversation_id := Some conv, nq_chain_id := None, nq_chain_ids := cs,
          nq_turn_id := None, nq_turn_ids := ts\<rparr>) db)))))"

definition scoped_resources :: "agent_scope \<Rightarrow> resource_query \<Rightarrow> context_db \<Rightarrow> chain_resource listing result" where
  "scoped_resources sc q db =
     bind (conversation_scope sc (rq_conversation_id q)) (\<lambda>conv.
     bind (allowed_ids_of (requested_ids (rq_chain_ids q) (rq_chain_id q)) (as_chain_ids sc)) (\<lambda>cs.
     if cs = [] then Inr (no_items (rq_limit q) (rq_offset q))
     else with_service sc (Inr (list_context_chain_resources
       (q\<lparr>rq_conversation_id := Some conv, rq_chain_id := None, rq_chain_ids := cs\<rparr>) db))))"

definition scoped_selections :: "agent_scope \<Rightarrow> selection_query \<Rightarrow> context_db \<Rightarrow> selection_record listing result" where
  "scoped_selections sc q db =
     bind (conversation_scope sc (sq_conversation_id q)) (\<lambda>conv.
     case as_turn_id sc of
       None \<Rightarrow> Inl (scope_error ''Context Tool has no Turn scope'')
     | Some tid \<Rightarrow>
         if sq_turn_id q \<noteq> None \<and> sq_turn_id q \<noteq> Some tid
         then Inl (scope_error ''Context Tool asked for the Selection of another Turn'')
         else with_service sc (Inr (list_context_selection_records
           (q\<lparr>sq_conversation_id := Some conv, sq_turn_id := Some tid\<rparr>) db)))"

section \<open>The tools\<close>

definition CONTEXT_READ_PERMISSION :: string where
  "CONTEXT_READ_PERMISSION = ''context:read''"

definition id_ok :: "string \<Rightarrow> bool" where
  "id_ok s \<longleftrightarrow> 1 \<le> length s \<and> length s \<le> 100"

definition get_conversation_turn_handler ::
  "agent_scope \<Rightarrow> ident \<Rightarrow> context_db \<Rightarrow> turn tool_reply \<times> audit_event list" where
  "get_conversation_turn_handler sc tid db = validated (id_ok tid)
     (read_tool (as_permissions sc) CONTEXT_READ_PERMISSION [''context_turn:'' @ tid]
        ''conversation_turn_retrieved'' (scoped_turn sc tid) db)"

definition list_conversation_turns_handler ::
  "agent_scope \<Rightarrow> turn_query \<Rightarrow> context_db \<Rightarrow> turn listing tool_reply \<times> audit_event list" where
  "list_conversation_turns_handler sc q db = validated (valid_turn_query q)
     (read_tool (as_permissions sc) CONTEXT_READ_PERMISSION
        (ref_or ''conversation:'' ''context_turn:*'' (tq_conversation_id q))
        ''conversation_turns_listed'' (scoped_turns sc q) db)"

definition get_context_chain_handler ::
  "agent_scope \<Rightarrow> ident \<Rightarrow> context_db \<Rightarrow> chain tool_reply \<times> audit_event list" where
  "get_context_chain_handler sc cid db = validated (id_ok cid)
     (read_tool (as_permissions sc) CONTEXT_READ_PERMISSION [''context_chain:'' @ cid]
        ''context_chain_retrieved'' (scoped_chain sc cid) db)"

definition list_context_chains_handler ::
  "agent_scope \<Rightarrow> chain_query \<Rightarrow> context_db \<Rightarrow> chain listing tool_reply \<times> audit_event list" where
  "list_context_chains_handler sc q db = validated (valid_chain_query q)
     (read_tool (as_permissions sc) CONTEXT_READ_PERMISSION
        (ref_or ''conversation:'' ''context_chain:*'' (cq_conversation_id q))
        ''context_chains_listed'' (scoped_chains sc q) db)"

definition list_context_chain_nodes_handler ::
  "agent_scope \<Rightarrow> node_query \<Rightarrow> context_db \<Rightarrow> chain_node listing tool_reply \<times> audit_event list" where
  "list_context_chain_nodes_handler sc q db = validated (valid_node_query q)
     (read_tool (as_permissions sc) CONTEXT_READ_PERMISSION
        (ref_or ''context_chain:'' ''context_chain_node:*'' (nq_chain_id q))
        ''context_chain_nodes_listed'' (scoped_nodes sc q) db)"

definition list_context_chain_resources_handler ::
  "agent_scope \<Rightarrow> resource_query \<Rightarrow> context_db \<Rightarrow> chain_resource listing tool_reply \<times> audit_event list" where
  "list_context_chain_resources_handler sc q db = validated (valid_resource_query q)
     (read_tool (as_permissions sc) CONTEXT_READ_PERMISSION
        (ref_or ''context_chain:'' ''context_chain_resource:*'' (rq_chain_id q))
        ''context_chain_resources_listed'' (scoped_resources sc q) db)"

definition list_context_selection_records_handler ::
  "agent_scope \<Rightarrow> selection_query \<Rightarrow> context_db \<Rightarrow> selection_record listing tool_reply \<times> audit_event list" where
  "list_context_selection_records_handler sc q db = validated (valid_selection_query q)
     (read_tool (as_permissions sc) CONTEXT_READ_PERMISSION
        (ref_or ''conversation:'' ''context_selection_record:*'' (sq_conversation_id q))
        ''context_selection_records_listed'' (scoped_selections sc q) db)"

end
