(* ===== verification/Log_Store.thy ===== *)
theory Log_Store
  imports Aggregation
begin

text \<open>
  The daily JSONL logs (operations/infrastructure/jsonl_repository.py): ISO times and their order,
  the base64 text of a paging cursor, the files of a log directory and the scan over them.  Reading
  and writing JSON text are the fields of the record \<open>json_library\<close>; a log file is the list of its
  lines or the way reading it fails.
\<close>

section \<open>Times\<close>

text \<open>
  A \<open>datetime\<close>: date, microseconds since midnight, and the UTC offset in microseconds (\<open>None\<close>: a
  naive value).  An \<open>instant\<close> is a \<open>datetime\<close> in UTC, ordered as Python orders them.
\<close>

type_synonym date = "int \<times> int \<times> int"
type_synonym instant = "int \<times> int \<times> int \<times> int"

record datetime =
  dt_date :: date
  dt_micros :: int
  dt_offset :: "int option"

definition leap_year :: "int \<Rightarrow> bool" where
  "leap_year y \<longleftrightarrow> y mod 4 = 0 \<and> (y mod 100 \<noteq> 0 \<or> y mod 400 = 0)"

definition month_days :: "int \<Rightarrow> int \<Rightarrow> int" where
  "month_days y m =
     (if m = 2 then (if leap_year y then 29 else 28) else if m \<in> {4, 6, 9, 11} then 30 else 31)"

fun next_day :: "date \<Rightarrow> date" where
  "next_day (y, m, d) =
     (if d < month_days y m then (y, m, d + 1)
      else if m < 12 then (y, m + 1, 1) else (y + 1, 1, 1))"

fun previous_day :: "date \<Rightarrow> date" where
  "previous_day (y, m, d) =
     (if 1 < d then (y, m, d - 1)
      else if 1 < m then (y, m - 1, month_days y (m - 1)) else (y - 1, 12, 31))"

definition DAY_MICROS :: int where
  "DAY_MICROS = 24 * 60 * 60 * 1000000"

text \<open>\<open>JsonlLogRepository._utc\<close>; \<open>astimezone\<close> overflows outside the years 1 to 9999.\<close>

definition utc_fields :: "datetime \<Rightarrow> instant" where
  "utc_fields t =
     (let u = dt_micros t - (case dt_offset t of None \<Rightarrow> 0 | Some off \<Rightarrow> off);
          day = (if u < 0 then previous_day (dt_date t)
                 else if DAY_MICROS \<le> u then next_day (dt_date t) else dt_date t)
      in (case day of (y, m, d) \<Rightarrow> (y, m, d, u mod DAY_MICROS)))"

definition utc :: "datetime \<Rightarrow> instant result" where
  "utc t = (let i = utc_fields t in
     if 1 \<le> fst i \<and> fst i \<le> 9999 then Inr i
     else Inl (OtherException ''OverflowError'' ''date value out of range''))"

text \<open>\<open>datetime.fromisoformat\<close>: the text forms that the documentation of Python 3.10 lists.\<close>

definition digit :: "char \<Rightarrow> int option" where
  "digit c = (let n = (of_char c :: int) in if 48 \<le> n \<and> n \<le> 57 then Some (n - 48) else None)"

fun digits :: "nat \<Rightarrow> int \<Rightarrow> string \<Rightarrow> (int \<times> string) option" where
  "digits 0 v s = Some (v, s)"
| "digits (Suc n) v [] = None"
| "digits (Suc n) v (c # s) =
     (case digit c of None \<Rightarrow> None | Some d \<Rightarrow> digits n (10 * v + d) s)"

fun expect :: "char \<Rightarrow> string \<Rightarrow> string option" where
  "expect c [] = None"
| "expect c (x # s) = (if x = c then Some s else None)"

fun iso_fraction :: "string \<Rightarrow> int option" where
  "iso_fraction s =
     (if length s = 3 then map_option (\<lambda>r. 1000 * fst r) (digits 3 0 s)
      else if length s = 6 then map_option fst (digits 6 0 s) else None)"

definition iso_seconds :: "string \<Rightarrow> (int \<times> int) option" where
  "iso_seconds s =
     (case digits 2 0 s of None \<Rightarrow> None
      | Some (sec, r) \<Rightarrow>
          if r = [] then Some (sec, 0)
          else case expect (CHR ''.'') r of None \<Rightarrow> None
            | Some f \<Rightarrow> map_option (\<lambda>us. (sec, us)) (iso_fraction f))"

definition iso_clock :: "string \<Rightarrow> (int \<times> int \<times> int \<times> int) option" where
  "iso_clock s =
     (case digits 2 0 s of None \<Rightarrow> None
      | Some (h, r) \<Rightarrow>
          if r = [] then Some (h, 0, 0, 0)
          else case Option.bind (expect (CHR '':'') r) (digits 2 0) of None \<Rightarrow> None
            | Some (mi, r2) \<Rightarrow>
                if r2 = [] then Some (h, mi, 0, 0)
                else map_option (\<lambda>(sec, us). (h, mi, sec, us))
                       (Option.bind (expect (CHR '':'') r2) iso_seconds))"

definition clock_micros :: "int \<times> int \<times> int \<times> int \<Rightarrow> int" where
  "clock_micros c = (case c of (h, mi, s, us) \<Rightarrow> ((h * 60 + mi) * 60 + s) * 1000000 + us)"

definition iso_date :: "string \<Rightarrow> (date \<times> string) option" where
  "iso_date s =
     (case digits 4 0 s of None \<Rightarrow> None
      | Some (y, r) \<Rightarrow> (case Option.bind (expect (CHR ''-'') r) (digits 2 0) of None \<Rightarrow> None
        | Some (m, r2) \<Rightarrow> (case Option.bind (expect (CHR ''-'') r2) (digits 2 0) of None \<Rightarrow> None
          | Some (d, rest) \<Rightarrow>
              if 1 \<le> y \<and> 1 \<le> m \<and> m \<le> 12 \<and> 1 \<le> d \<and> d \<le> month_days y m
              then Some ((y, m, d), rest) else None)))"

definition iso_offset :: "string \<Rightarrow> int option option" where
  "iso_offset s =
     (case s of [] \<Rightarrow> Some None
      | sign # zone \<Rightarrow>
          (case iso_clock zone of None \<Rightarrow> None
           | Some c \<Rightarrow>
               if clock_micros c < DAY_MICROS
               then Some (Some (if sign = CHR ''-'' then - clock_micros c else clock_micros c))
               else None))"

definition fromisoformat :: "string \<Rightarrow> datetime option" where
  "fromisoformat s =
     (case iso_date s of None \<Rightarrow> None
      | Some (day, []) \<Rightarrow> Some \<lparr>dt_date = day, dt_micros = 0, dt_offset = None\<rparr>
      | Some (day, sep # time) \<Rightarrow>
          let zoned = (\<lambda>c. c = CHR ''+'' \<or> c = CHR ''-'') in
          (case (iso_clock (takeWhile (Not \<circ> zoned) time), iso_offset (dropWhile (Not \<circ> zoned) time)) of
             (Some (h, mi, sec, us), Some off) \<Rightarrow>
               if h < 24 \<and> mi < 60 \<and> sec < 60
               then Some \<lparr>dt_date = day, dt_micros = clock_micros (h, mi, sec, us), dt_offset = off\<rparr>
               else None
           | _ \<Rightarrow> None))"

text \<open>\<open>datetime.isoformat\<close> of a value in UTC.\<close>

fun pad :: "nat \<Rightarrow> int \<Rightarrow> string" where
  "pad 0 n = []"
| "pad (Suc w) n = pad w (n div 10) @ [char_of (48 + nat (n mod 10))]"

definition isoformat :: "instant \<Rightarrow> string" where
  "isoformat i = (case i of (y, m, d, u) \<Rightarrow>
     pad 4 y @ ''-'' @ pad 2 m @ ''-'' @ pad 2 d @ ''T'' @
     pad 2 (u div 3600000000) @ '':'' @ pad 2 (u div 60000000 mod 60) @ '':'' @
     pad 2 (u div 1000000 mod 60) @
     (if u mod 1000000 = 0 then [] else ''.'' @ pad 6 (u mod 1000000)) @ ''+00:00'')"

fun replace_z :: "string \<Rightarrow> string" where
  "replace_z [] = []"
| "replace_z (c # s) = (if c = CHR ''Z'' then ''+00:00'' else [c]) @ replace_z s"

text \<open>\<open>_parse_datetime\<close>: a text that is no time gives \<open>None\<close>; the conversion to UTC may overflow.\<close>

definition parse_datetime :: "json option \<Rightarrow> instant option result" where
  "parse_datetime v =
     (case v of
        Some (JStr s) \<Rightarrow>
          (case fromisoformat (replace_z s) of None \<Rightarrow> Inr None
           | Some t \<Rightarrow> bind (utc t) (\<lambda>i. Inr (Some i)))
      | _ \<Rightarrow> Inr None)"

section \<open>Base64\<close>

definition b64_char :: "nat \<Rightarrow> char" where
  "b64_char n =
     (if n < 26 then char_of (65 + n) else if n < 52 then char_of (71 + n)
      else if n < 62 then char_of (n - 4) else if n = 62 then CHR ''-'' else CHR ''_'')"

text \<open>The url-safe reader also takes the two characters of the standard alphabet.\<close>

definition b64_value :: "char \<Rightarrow> nat option" where
  "b64_value c =
     (let n = (of_char c :: nat) in
      if 65 \<le> n \<and> n \<le> 90 then Some (n - 65)
      else if 97 \<le> n \<and> n \<le> 122 then Some (n - 71)
      else if 48 \<le> n \<and> n \<le> 57 then Some (n + 4)
      else if c = CHR ''-'' \<or> c = CHR ''+'' then Some 62
      else if c = CHR ''_'' \<or> c = CHR ''/'' then Some 63 else None)"

text \<open>\<open>base64.urlsafe_b64encode\<close>.\<close>

fun b64encode :: "string \<Rightarrow> string" where
  "b64encode [] = []"
| "b64encode [a] =
     (let x = (of_char a :: nat) in [b64_char (x div 4), b64_char (x mod 4 * 16), CHR ''='', CHR ''=''])"
| "b64encode [a, b] =
     (let x = (of_char a :: nat); y = (of_char b :: nat) in
      [b64_char (x div 4), b64_char (x mod 4 * 16 + y div 16), b64_char (y mod 16 * 4), CHR ''=''])"
| "b64encode (a # b # c # s) =
     (let x = (of_char a :: nat); y = (of_char b :: nat); z = (of_char c :: nat) in
      [b64_char (x div 4), b64_char (x mod 4 * 16 + y div 16), b64_char (y mod 16 * 4 + z div 64),
       b64_char (z mod 64)] @ b64encode s)"

text \<open>
  \<open>base64.urlsafe_b64decode\<close>: characters outside the alphabet are skipped, reading stops at the
  padding that completes a group, an incomplete group at the end is an error.  The state is the
  position in the group, the number of paddings seen and the bits left over.
\<close>

fun b64_read :: "nat \<Rightarrow> nat \<Rightarrow> nat \<Rightarrow> string \<Rightarrow> string option" where
  "b64_read q p l [] = (if q = 0 then Some [] else None)"
| "b64_read q p l (c # s) =
     (if c = CHR ''='' then
        (if 2 \<le> q \<and> 4 \<le> q + (p + 1) then Some [] else b64_read q (if 2 \<le> q then p + 1 else p) l s)
      else case b64_value c of
        None \<Rightarrow> b64_read q p l s
      | Some v \<Rightarrow>
          if q = 0 then b64_read 1 0 v s
          else if q = 1 then map_option (Cons (char_of (l * 4 + v div 16))) (b64_read 2 0 (v mod 16) s)
          else if q = 2 then map_option (Cons (char_of (l * 16 + v div 4))) (b64_read 3 0 (v mod 4) s)
          else map_option (Cons (char_of (l * 64 + v))) (b64_read 0 0 0 s))"

definition b64decode :: "string \<Rightarrow> string option" where
  "b64decode s = b64_read 0 0 0 s"

definition rstrip_pad :: "string \<Rightarrow> string" where
  "rstrip_pad s = rev (dropWhile (\<lambda>c. c = CHR ''='') (rev s))"

text \<open>The number of paddings \<open>-len(cursor) % 4\<close>.\<close>

definition missing_pad :: "string \<Rightarrow> string" where
  "missing_pad s = replicate (nat ((- int (length s)) mod 4)) (CHR ''='')"

section \<open>Log files\<close>

record json_library =
  js_loads :: "string \<Rightarrow> json option"
  js_loads_utf8 :: "string \<Rightarrow> json option"
  js_dumps :: "json \<Rightarrow> string"

record log_source =
  ls_source_id :: string
  ls_directory :: string
  ls_file_prefix :: string

datatype file_content = FileLines "string list" | FileUnreadable | FileNotUtf8

record dir_entry =
  de_name :: string
  de_symlink :: bool
  de_file :: bool
  de_content :: file_content

text \<open>A path that is no directory, a directory whose listing fails, or its entries.\<close>

datatype log_directory = NoDirectory | ListingFails | Entries "dir_entry list"

type_synonym log_files = "string \<Rightarrow> log_directory"

text \<open>The key of an event: its time, id, source, file and line.\<close>

type_synonym log_key = "string \<times> string \<times> string \<times> string \<times> int"

record indexed_event =
  ie_event :: json
  ie_sort_key :: log_key

definition truthy :: "json option \<Rightarrow> bool" where
  "truthy v =
     (case v of None \<Rightarrow> False | Some JNull \<Rightarrow> False | Some (JBool b) \<Rightarrow> b | Some (JInt n) \<Rightarrow> n \<noteq> 0
      | Some (JStr s) \<Rightarrow> s \<noteq> [] | Some (JList xs) \<Rightarrow> xs \<noteq> [] | Some (JObj kvs) \<Rightarrow> kvs \<noteq> [])"

fun py_str :: "json \<Rightarrow> string" where
  "py_str (JStr s) = s"
| "py_str j = py_repr j"

text \<open>\<open>str(value or default)\<close>.\<close>

definition str_or :: "string \<Rightarrow> json option \<Rightarrow> string" where
  "str_or d v = (if truthy v then py_str (the v) else d)"

definition parse_line ::
  "json_library \<Rightarrow> log_source \<Rightarrow> string \<Rightarrow> int \<Rightarrow> string \<Rightarrow> (indexed_event \<times> instant) option result" where
  "parse_line lib src file n line =
     (case js_loads lib line of
        Some (JObj kvs) \<Rightarrow>
          bind (parse_datetime (json_get (JObj kvs) ''created_at'')) (\<lambda>at.
            case at of None \<Rightarrow> Inr None
            | Some i \<Rightarrow> Inr (Some
                (\<lparr>ie_event = JObj kvs,
                  ie_sort_key = (isoformat i, str_or [] (json_get (JObj kvs) ''event_id''),
                    ls_source_id src, file, n)\<rparr>, i)))
      | _ \<Rightarrow> Inr None)"

type_synonym log_predicate = "json \<Rightarrow> bool result"

definition outside :: "(instant \<Rightarrow> instant \<Rightarrow> bool) \<Rightarrow> instant \<Rightarrow> datetime option \<Rightarrow> bool result" where
  "outside cmp i bound = (case bound of None \<Rightarrow> Inr False | Some b \<Rightarrow> bind (utc b) (\<lambda>u. Inr (cmp i u)))"

fun read_lines ::
  "json_library \<Rightarrow> log_source \<Rightarrow> log_predicate \<Rightarrow> datetime option \<Rightarrow> datetime option \<Rightarrow> string \<Rightarrow>
     int \<Rightarrow> string list \<Rightarrow> indexed_event list result" where
  "read_lines lib src pred lo hi file n [] = Inr []"
| "read_lines lib src pred lo hi file n (line # rest) =
     bind (parse_line lib src file n line) (\<lambda>parsed.
     bind (case parsed of None \<Rightarrow> Inr []
       | Some (ev, i) \<Rightarrow>
           bind (outside (<) i lo) (\<lambda>early. if early then Inr [] else
           bind (outside (>) i hi) (\<lambda>late. if late then Inr [] else
           bind (pred (ie_event ev)) (\<lambda>ok. Inr (if ok then [ev] else []))))) (\<lambda>found.
     bind (read_lines lib src pred lo hi file (n + 1) rest) (\<lambda>more. Inr (found @ more))))"

definition operations_error :: "int \<Rightarrow> string \<Rightarrow> error" where
  "operations_error status detail = OperationsQueryError status detail"

definition read_file ::
  "json_library \<Rightarrow> log_source \<Rightarrow> log_predicate \<Rightarrow> datetime option \<Rightarrow> datetime option \<Rightarrow> dir_entry \<Rightarrow>
     indexed_event list result" where
  "read_file lib src pred lo hi e =
     (case de_content e of
        FileLines ls \<Rightarrow> read_lines lib src pred lo hi (de_name e) 1 ls
      | FileUnreadable \<Rightarrow> Inl (operations_error 503 ''log file cannot be read'')
      | FileNotUtf8 \<Rightarrow> Inl (OtherException ''UnicodeDecodeError'' ''invalid start byte''))"

text \<open>\<open>directory.glob(prefix-*.jsonl)\<close>, sorted by name.\<close>

definition log_name :: "string \<Rightarrow> string \<Rightarrow> bool" where
  "log_name prefix name \<longleftrightarrow>
     length prefix + 7 \<le> length name \<and> take (length prefix + 1) name = prefix @ ''-'' \<and>
     drop (length name - 6) name = ''.jsonl''"

fun read_files ::
  "json_library \<Rightarrow> log_source \<Rightarrow> log_predicate \<Rightarrow> datetime option \<Rightarrow> datetime option \<Rightarrow>
     dir_entry list \<Rightarrow> indexed_event list result" where
  "read_files lib src pred lo hi [] = Inr []"
| "read_files lib src pred lo hi (e # es) =
     (if de_symlink e \<or> \<not> de_file e then read_files lib src pred lo hi es
      else bind (read_file lib src pred lo hi e) (\<lambda>xs.
           bind (read_files lib src pred lo hi es) (\<lambda>ys. Inr (xs @ ys))))"

definition log_entries :: "log_source \<Rightarrow> dir_entry list \<Rightarrow> dir_entry list" where
  "log_entries src es = sort_key de_name (filter (\<lambda>e. log_name (ls_file_prefix src) (de_name e)) es)"

definition read_source ::
  "json_library \<Rightarrow> log_files \<Rightarrow> log_predicate \<Rightarrow> datetime option \<Rightarrow> datetime option \<Rightarrow> log_source \<Rightarrow>
     indexed_event list result" where
  "read_source lib fs pred lo hi src =
     (case fs (ls_directory src) of
        NoDirectory \<Rightarrow> Inr []
      | ListingFails \<Rightarrow> Inl (operations_error 503 ''log directory cannot be read'')
      | Entries es \<Rightarrow> read_files lib src pred lo hi (log_entries src es))"

fun read_sources ::
  "json_library \<Rightarrow> log_files \<Rightarrow> log_predicate \<Rightarrow> datetime option \<Rightarrow> datetime option \<Rightarrow>
     log_source list \<Rightarrow> indexed_event list result" where
  "read_sources lib fs pred lo hi [] = Inr []"
| "read_sources lib fs pred lo hi (src # rest) =
     bind (read_source lib fs pred lo hi src) (\<lambda>xs.
     bind (read_sources lib fs pred lo hi rest) (\<lambda>ys. Inr (xs @ ys)))"

section \<open>Cursors and the scan\<close>

definition source_signature :: "log_source list \<Rightarrow> json" where
  "source_signature srcs = JList (map (\<lambda>s. JStr (ls_source_id s @ '':'' @ ls_file_prefix s)) srcs)"

definition cursor_payload :: "log_source list \<Rightarrow> bool \<Rightarrow> log_key \<Rightarrow> json" where
  "cursor_payload srcs ascending key = (case key of (at, eid, sid, file, n) \<Rightarrow>
     JObj [(''version'', JInt 1), (''ascending'', JBool ascending),
           (''sources'', source_signature srcs),
           (''key'', JList [JStr at, JStr eid, JStr sid, JStr file, JInt n])])"

definition encode_cursor :: "json_library \<Rightarrow> log_source list \<Rightarrow> bool \<Rightarrow> log_key \<Rightarrow> string" where
  "encode_cursor lib srcs ascending key =
     rstrip_pad (b64encode (js_dumps lib (cursor_payload srcs ascending key)))"

text \<open>A Python \<open>bool\<close> is an \<open>int\<close>, also as the version and as the line number.\<close>

fun as_key :: "json \<Rightarrow> log_key option" where
  "as_key (JList [JStr at, JStr eid, JStr sid, JStr file, JInt n]) = Some (at, eid, sid, file, n)"
| "as_key (JList [JStr at, JStr eid, JStr sid, JStr file, JBool b]) =
     Some (at, eid, sid, file, of_bool b)"
| "as_key _ = None"

definition payload_key :: "log_source list \<Rightarrow> bool \<Rightarrow> json \<Rightarrow> log_key option" where
  "payload_key srcs ascending j =
     (if json_get j ''version'' \<in> {Some (JInt 1), Some (JBool True)} \<and>
         json_get j ''ascending'' = Some (JBool ascending) \<and>
         json_get j ''sources'' = Some (source_signature srcs)
      then Option.bind (json_get j ''key'') as_key else None)"

definition decode_cursor ::
  "json_library \<Rightarrow> log_source list \<Rightarrow> bool \<Rightarrow> string option \<Rightarrow> log_key option result" where
  "decode_cursor lib srcs ascending cursor =
     (case cursor of None \<Rightarrow> Inr None
      | Some c \<Rightarrow>
          (case Option.bind (Option.bind (b64decode (c @ missing_pad c)) (js_loads_utf8 lib))
                  (payload_key srcs ascending) of
             None \<Rightarrow> Inl (operations_error 400 ''invalid log query cursor'')
           | Some key \<Rightarrow> Inr (Some key)))"

record scan_page =
  pg_events :: "json list"
  pg_next_cursor :: "string option"

text \<open>Sorted by key, newest first unless \<open>ascending\<close>; \<open>reverse=True\<close> keeps equal keys in order.\<close>

definition in_order :: "bool \<Rightarrow> indexed_event list \<Rightarrow> indexed_event list" where
  "in_order ascending xs =
     (if ascending then sort_key ie_sort_key xs else rev (sort_key ie_sort_key (rev xs)))"

definition after_cursor :: "bool \<Rightarrow> log_key option \<Rightarrow> indexed_event list \<Rightarrow> indexed_event list" where
  "after_cursor ascending cursor xs =
     (case cursor of None \<Rightarrow> xs
      | Some k \<Rightarrow> filter (\<lambda>x. if ascending then k < ie_sort_key x else ie_sort_key x < k) xs)"

definition page_of ::
  "json_library \<Rightarrow> log_source list \<Rightarrow> bool \<Rightarrow> nat \<Rightarrow> indexed_event list \<Rightarrow> scan_page" where
  "page_of lib srcs ascending limit xs =
     \<lparr>pg_events = map ie_event (take limit xs),
      pg_next_cursor =
        (if limit < length xs then Some (encode_cursor lib srcs ascending (ie_sort_key (xs ! (limit - 1))))
         else None)\<rparr>"

definition scan ::
  "json_library \<Rightarrow> log_source list \<Rightarrow> log_files \<Rightarrow> log_predicate \<Rightarrow> datetime option \<Rightarrow>
     datetime option \<Rightarrow> int \<Rightarrow> string option \<Rightarrow> bool \<Rightarrow> scan_page result" where
  "scan lib srcs fs pred lo hi limit cursor ascending =
     (if limit < 1 then Inl (operations_error 400 ''limit must be positive'')
      else bind (decode_cursor lib srcs ascending cursor) (\<lambda>key.
           bind (read_sources lib fs pred lo hi srcs) (\<lambda>xs.
           Inr (page_of lib srcs ascending (nat limit) (after_cursor ascending key (in_order ascending xs))))))"

end
