(* ===== verification/Evidence.thy ===== *)
theory Evidence
  imports Prelude
begin

text \<open>
  What the planner takes as evidence (agents/collectors.py): the pairing of tool calls with tool
  outputs in the items of an agent run, the output of a collector agent, and the collector results
  that the planner's evidence run yields.  Agent runs are given by their items; a JSON text is
  given by the value it parses to.
\<close>

section \<open>Items of an agent run\<close>

datatype json_text = BadText | Text json

datatype tool_output = OutObject json | OutText json_text | OutOther

datatype run_item =
    ToolCallItem "string option" "string option" "json_text option"
  | ToolCallOutputItem "string option" tool_output
  | OtherItem

definition extract_tool_arguments :: "json_text option \<Rightarrow> json result" where
  "extract_tool_arguments raw =
     (case raw of
        None \<Rightarrow> Inl (ValueError ''Collector ToolCall has no arguments'')
      | Some BadText \<Rightarrow> Inl (ValueError ''Collector ToolCall arguments are not valid JSON'')
      | Some (Text (JObj kvs)) \<Rightarrow> Inr (JObj kvs)
      | Some (Text _) \<Rightarrow> Inl (ValueError ''Collector ToolCall arguments must be a JSON object''))"

definition normalize_tool_output :: "tool_output \<Rightarrow> json result" where
  "normalize_tool_output out =
     (case out of
        OutObject j \<Rightarrow> Inr j
      | OutText BadText \<Rightarrow> Inl (ValueError ''JSONDecodeError'')
      | OutText (Text (JObj kvs)) \<Rightarrow> Inr (JObj kvs)
      | OutText (Text _) \<Rightarrow> Inl (ValueError ''Collector Tool output must be a JSON object'')
      | OutOther \<Rightarrow> Inl (OtherException ''TypeError'' ''Unsupported Collector Tool output''))"

section \<open>Fields of the result models\<close>

fun as_string :: "json option \<Rightarrow> string result" where
  "as_string (Some (JStr s)) = Inr s"
| "as_string _ = Inl (ValidationError ''string'')"

fun as_text :: "json option \<Rightarrow> string result" where
  "as_text j = bind (as_string j) (\<lambda>s. if s = [] then Inl (ValidationError ''min_length'') else Inr s)"

fun as_strings :: "json list \<Rightarrow> string list result" where
  "as_strings [] = Inr []"
| "as_strings (j # js) =
     bind (as_string (Some j)) (\<lambda>s. bind (as_strings js) (\<lambda>ss. Inr (s # ss)))"

text \<open>A list field with \<open>default_factory=list\<close>.\<close>

fun as_string_list :: "json option \<Rightarrow> string list result" where
  "as_string_list None = Inr []"
| "as_string_list (Some (JList js)) = as_strings js"
| "as_string_list _ = Inl (ValidationError ''list'')"

fun as_object :: "json option \<Rightarrow> json result" where
  "as_object None = Inr (JObj [])"
| "as_object (Some (JObj kvs)) = Inr (JObj kvs)"
| "as_object _ = Inl (ValidationError ''dict'')"

text \<open>Pydantic reads a bool from a bool, from 0 and 1, and from a few words in any case.\<close>

definition ascii_lower :: "string \<Rightarrow> string" where
  "ascii_lower s = map (\<lambda>c. let n = (of_char c :: nat) in
     if 65 \<le> n \<and> n \<le> 90 then char_of (n + 32) else c) s"

fun as_bool :: "json option \<Rightarrow> bool result" where
  "as_bool (Some (JBool b)) = Inr b"
| "as_bool (Some (JInt i)) =
     (if i = 0 then Inr False else if i = 1 then Inr True else Inl (ValidationError ''bool''))"
| "as_bool (Some (JStr s)) =
     (let w = ascii_lower s in
      if w \<in> {''1'', ''on'', ''t'', ''true'', ''y'', ''yes''} then Inr True
      else if w \<in> {''0'', ''off'', ''f'', ''false'', ''n'', ''no''} then Inr False
      else Inl (ValidationError ''bool''))"
| "as_bool _ = Inl (ValidationError ''bool'')"

datatype outcome = Succeeded | Rejected | Failed

fun outcome_value :: "outcome \<Rightarrow> string" where
  "outcome_value Succeeded = ''succeeded''"
| "outcome_value Rejected = ''rejected''"
| "outcome_value Failed = ''failed''"

fun as_outcome :: "json option \<Rightarrow> outcome result" where
  "as_outcome (Some (JStr s)) =
     (if s = ''succeeded'' then Inr Succeeded
      else if s = ''rejected'' then Inr Rejected
      else if s = ''failed'' then Inr Failed
      else Inl (ValidationError ''outcome''))"
| "as_outcome _ = Inl (ValidationError ''outcome'')"

section \<open>Evidence items\<close>

record evidence_item =
  ei_tool_name :: string
  ei_tool_call_id :: string
  ei_arguments :: json
  ei_outcome :: outcome
  ei_result_code :: string
  ei_message :: string
  ei_retryable :: bool
  ei_resource_refs :: "string list"
  ei_payload :: json

definition COMMON_EVIDENCE_FIELDS :: "string list" where
  "COMMON_EVIDENCE_FIELDS =
     [''outcome'', ''result_code'', ''message'', ''retryable'', ''resource_refs'']"

fun object_fields :: "json \<Rightarrow> (string \<times> json) list" where
  "object_fields (JObj kvs) = kvs"
| "object_fields _ = []"

definition validate_tool_output_envelope :: "json \<Rightarrow> unit result" where
  "validate_tool_output_envelope data =
     (if \<not> set COMMON_EVIDENCE_FIELDS \<subseteq> set (map fst (object_fields data))
      then Inl (ValueError ''Collector Tool output misses common fields'')
      else case as_outcome (json_get data ''outcome'') of
        Inl _ \<Rightarrow> Inl (ValueError ''illegal Tool outcome'')
      | Inr _ \<Rightarrow> Inr ())"

definition payload_of :: "json \<Rightarrow> json" where
  "payload_of data =
     JObj (filter (\<lambda>(k, v). k \<notin> set COMMON_EVIDENCE_FIELDS) (object_fields data))"

definition evidence_item_of :: "string \<Rightarrow> string \<Rightarrow> json \<Rightarrow> json \<Rightarrow> evidence_item result" where
  "evidence_item_of call_id tool arguments data =
     bind (as_outcome (json_get data ''outcome'')) (\<lambda>oc.
     bind (as_text (json_get data ''result_code'')) (\<lambda>rc.
     bind (as_string (json_get data ''message'')) (\<lambda>msg.
     bind (as_bool (json_get data ''retryable'')) (\<lambda>rt.
     bind (as_string_list (json_get data ''resource_refs'')) (\<lambda>refs.
       Inr \<lparr>ei_tool_name = tool, ei_tool_call_id = call_id, ei_arguments = arguments,
            ei_outcome = oc, ei_result_code = rc, ei_message = msg, ei_retryable = rt,
            ei_resource_refs = refs, ei_payload = payload_of data\<rparr>)))))"

text \<open>A Python text that is present and not empty.\<close>

definition given :: "string option \<Rightarrow> bool" where
  "given s \<longleftrightarrow> s \<noteq> None \<and> s \<noteq> Some []"

text \<open>
  The two passes over the items, shared by \<open>_extract_evidence_items\<close> and
  \<open>extract_collector_results\<close>: the first collects what \<open>check\<close> makes of every tool call, by call
  id; the second turns every output into a value by \<open>build\<close> with the entry of its call.
\<close>

fun collect_calls ::
  "(string \<Rightarrow> json_text option \<Rightarrow> 'c result) \<Rightarrow> run_item list \<Rightarrow> (string \<times> 'c) list
   \<Rightarrow> (string \<times> 'c) list result" where
  "collect_calls check [] calls = Inr calls"
| "collect_calls check (ToolCallItem cid tool raw # items) calls =
     (if \<not> given cid \<or> \<not> given tool
      then Inl (ValueError ''ToolCall has no call_id or tool_name'')
      else if the cid \<in> fst ` set calls
      then Inl (ValueError (''repeated Tool call_id: '' @ the cid))
      else bind (check (the tool) raw) (\<lambda>c. collect_calls check items (calls @ [(the cid, c)])))"
| "collect_calls check (_ # items) calls = collect_calls check items calls"

fun pair_outputs ::
  "(string \<Rightarrow> 'c \<Rightarrow> tool_output \<Rightarrow> 'r result) \<Rightarrow> (string \<times> 'c) list \<Rightarrow> run_item list
   \<Rightarrow> string list \<Rightarrow> (string \<times> 'r) list result" where
  "pair_outputs build calls [] consumed =
     (if set (map fst calls) \<subseteq> set consumed then Inr []
      else Inl (ValueError ''ToolCall has no Output''))"
| "pair_outputs build calls (ToolCallOutputItem cid out # items) consumed =
     (if \<not> given cid then Inl (ValueError ''ToolCallOutput has no call_id'')
      else case map_of calls (the cid) of
        None \<Rightarrow> Inl (ValueError (''no ToolCall for the ToolCallOutput: '' @ the cid))
      | Some c \<Rightarrow>
          if the cid \<in> set consumed
          then Inl (ValueError (''several Outputs of one ToolCall: '' @ the cid))
          else bind (build (the cid) c out) (\<lambda>r.
            bind (pair_outputs build calls items (the cid # consumed)) (\<lambda>rs.
              Inr ((the cid, r) # rs))))"
| "pair_outputs build calls (_ # items) consumed = pair_outputs build calls items consumed"

definition evidence_call :: "string \<Rightarrow> json_text option \<Rightarrow> (string \<times> json) result" where
  "evidence_call tool raw = bind (extract_tool_arguments raw) (\<lambda>a. Inr (tool, a))"

definition evidence_output ::
  "string \<Rightarrow> string \<times> json \<Rightarrow> tool_output \<Rightarrow> evidence_item result" where
  "evidence_output cid call out =
     bind (normalize_tool_output out) (\<lambda>data.
     bind (validate_tool_output_envelope data) (\<lambda>_.
       evidence_item_of cid (fst call) (snd call) data))"

definition extract_evidence_items :: "run_item list \<Rightarrow> evidence_item list result" where
  "extract_evidence_items items =
     bind (collect_calls evidence_call items []) (\<lambda>calls.
     bind (pair_outputs evidence_output calls items []) (\<lambda>rs. Inr (map snd rs)))"

section \<open>Collector results\<close>

definition COLLECTOR_TOOL_CODES :: "(string \<times> string) list" where
  "COLLECTOR_TOOL_CODES =
     [(''collect_document_information'', ''document_collector''),
      (''collect_context_information'', ''context_collector''),
      (''collect_operation_information'', ''operations_collector'')]"

record collector_result =
  co_collector_code :: string
  co_summary :: string
  co_gaps :: "string list"
  co_resource_refs :: "string list"
  co_evidence_items :: "evidence_item list"

text \<open>\<open>model_dump_json\<close> and \<open>model_validate\<close> of the two models.\<close>

definition dump_item :: "evidence_item \<Rightarrow> json" where
  "dump_item e = JObj
     [(''tool_name'', JStr (ei_tool_name e)), (''tool_call_id'', JStr (ei_tool_call_id e)),
      (''arguments'', ei_arguments e), (''outcome'', JStr (outcome_value (ei_outcome e))),
      (''result_code'', JStr (ei_result_code e)), (''message'', JStr (ei_message e)),
      (''retryable'', JBool (ei_retryable e)),
      (''resource_refs'', JList (map JStr (ei_resource_refs e))), (''payload'', ei_payload e)]"

definition dump_result :: "collector_result \<Rightarrow> json" where
  "dump_result r = JObj
     [(''collector_code'', JStr (co_collector_code r)), (''summary'', JStr (co_summary r)),
      (''gaps'', JList (map JStr (co_gaps r))),
      (''resource_refs'', JList (map JStr (co_resource_refs r))),
      (''evidence_items'', JList (map dump_item (co_evidence_items r)))]"

definition parse_item :: "json \<Rightarrow> evidence_item result" where
  "parse_item j =
     bind (as_text (json_get j ''tool_name'')) (\<lambda>tool.
     bind (as_text (json_get j ''tool_call_id'')) (\<lambda>cid.
     bind (as_object (json_get j ''arguments'')) (\<lambda>args.
     bind (as_outcome (json_get j ''outcome'')) (\<lambda>oc.
     bind (as_text (json_get j ''result_code'')) (\<lambda>rc.
     bind (as_string (json_get j ''message'')) (\<lambda>msg.
     bind (as_bool (json_get j ''retryable'')) (\<lambda>rt.
     bind (as_string_list (json_get j ''resource_refs'')) (\<lambda>refs.
     bind (as_object (json_get j ''payload'')) (\<lambda>payload.
       Inr \<lparr>ei_tool_name = tool, ei_tool_call_id = cid, ei_arguments = args, ei_outcome = oc,
            ei_result_code = rc, ei_message = msg, ei_retryable = rt, ei_resource_refs = refs,
            ei_payload = payload\<rparr>)))))))))"

fun parse_items :: "json list \<Rightarrow> evidence_item list result" where
  "parse_items [] = Inr []"
| "parse_items (j # js) = bind (parse_item j) (\<lambda>e. bind (parse_items js) (\<lambda>es. Inr (e # es)))"

fun as_items :: "json option \<Rightarrow> evidence_item list result" where
  "as_items None = Inr []"
| "as_items (Some (JList js)) = parse_items js"
| "as_items _ = Inl (ValidationError ''list'')"

definition parse_result :: "json \<Rightarrow> collector_result result" where
  "parse_result j =
     bind (as_text (json_get j ''collector_code'')) (\<lambda>code.
     bind (require (code \<in> set (map snd COLLECTOR_TOOL_CODES)) (ValidationError ''literal_error''))
       (\<lambda>_.
     bind (as_text (json_get j ''summary'')) (\<lambda>summary.
     bind (as_string_list (json_get j ''gaps'')) (\<lambda>gaps.
     bind (as_string_list (json_get j ''resource_refs'')) (\<lambda>refs.
     bind (as_items (json_get j ''evidence_items'')) (\<lambda>items.
       Inr \<lparr>co_collector_code = code, co_summary = summary, co_gaps = gaps,
            co_resource_refs = refs, co_evidence_items = items\<rparr>))))))"

text \<open>The output extractor of one collector; the LLM's part is its summary and gaps.\<close>

definition collector_output ::
  "string \<Rightarrow> string \<Rightarrow> string list \<Rightarrow> run_item list \<Rightarrow> collector_result result" where
  "collector_output code summary gaps items =
     bind (require (summary \<noteq> []) (ValidationError ''summary'')) (\<lambda>_.
     bind (extract_evidence_items items) (\<lambda>evs.
       Inr \<lparr>co_collector_code = code, co_summary = summary, co_gaps = gaps,
            co_resource_refs = dedup (concat (map ei_resource_refs evs)),
            co_evidence_items = evs\<rparr>))"

definition collector_call :: "string \<Rightarrow> json_text option \<Rightarrow> string result" where
  "collector_call tool raw =
     of_option (ValueError (''Evidence Run has a Tool that is no Collector: '' @ tool))
       (map_of COLLECTOR_TOOL_CODES tool)"

definition collector_reply :: "string \<Rightarrow> string \<Rightarrow> tool_output \<Rightarrow> collector_result result" where
  "collector_reply cid expected out =
     bind (normalize_tool_output out) (\<lambda>data.
     bind (parse_result data) (\<lambda>r.
       if co_collector_code r \<noteq> expected
       then Inl (ValueError ''CollectorResult does not come from the called Tool'')
       else Inr r))"

definition extract_collector_results :: "run_item list \<Rightarrow> collector_result list result" where
  "extract_collector_results items =
     bind (collect_calls collector_call items []) (\<lambda>calls.
     bind (pair_outputs collector_reply calls items []) (\<lambda>rs. Inr (map snd rs)))"

end
