(* ===== verification/Log_Query.thy ===== *)
theory Log_Query
  imports Log_Store Evidence
begin

text \<open>
  The queries over the logs (operations/application/query_service.py and dto.py): the filters on raw
  events, their conversion to typed events, the document time lines and the pairing of started and
  terminal tool events.  What pydantic accepts for an \<open>int\<close>, a \<open>bool\<close> and a \<open>datetime\<close> is the
  record \<open>validators\<close>; a \<open>str\<close> field takes texts only.
\<close>

section \<open>Query parameters (dto.py)\<close>

definition type_error :: "string \<Rightarrow> error" where
  "type_error m = OtherException ''TypeError'' m"

text \<open>Python compares a naive with an aware \<open>datetime\<close> by raising.\<close>

definition datetime_less :: "datetime \<Rightarrow> datetime \<Rightarrow> bool result" where
  "datetime_less a b =
     (if (dt_offset a = None) \<noteq> (dt_offset b = None)
      then Inl (type_error ''cannot compare offset-naive and offset-aware datetimes'')
      else Inr (utc_fields a < utc_fields b))"

definition validate_created_range :: "datetime option \<Rightarrow> datetime option \<Rightarrow> unit result" where
  "validate_created_range lo hi =
     (case (lo, hi) of
        (Some a, Some b) \<Rightarrow> bind (datetime_less b a) (\<lambda>late.
          require (\<not> late) (ValidationError ''created_from must not be later than created_to''))
      | _ \<Rightarrow> Inr ())"

record log_query =
  lq_workflow_ids :: "string list"
  lq_operation_ids :: "string list"
  lq_attempts :: "int list"
  lq_document_ids :: "int list"
  lq_doc_codes :: "string list"
  lq_kb_ids :: "int list"
  lq_stages :: "string list"
  lq_events :: "string list"
  lq_phases :: "string list"
  lq_levels :: "string list"
  lq_trace_id :: "string option"
  lq_task_id :: "string option"
  lq_failed_only :: bool
  lq_created_from :: "datetime option"
  lq_created_to :: "datetime option"
  lq_limit :: int
  lq_cursor :: "string option"

record audit_query =
  aq_trace_id :: "string option"
  aq_agent_run_id :: "string option"
  aq_conversation_id :: "string option"
  aq_turn_id :: "string option"
  aq_task_id :: "string option"
  aq_agent_names :: "string list"
  aq_tool_names :: "string list"
  aq_actor_code :: "string option"
  aq_result_codes :: "string list"
  aq_retryable :: "bool option"
  aq_events :: "string list"
  aq_created_from :: "datetime option"
  aq_created_to :: "datetime option"
  aq_limit :: int
  aq_cursor :: "string option"

text \<open>The time line queries share the range and the limit; the key is an id, a name or a text.\<close>

record 'k timeline_query =
  tq_key :: 'k
  tq_agent_names :: "string list"
  tq_tool_names :: "string list"
  tq_created_from :: "datetime option"
  tq_created_to :: "datetime option"
  tq_limit :: int

definition limit_ok :: "int \<Rightarrow> bool" where
  "limit_ok n \<longleftrightarrow> 1 \<le> n \<and> n \<le> 500"

definition cursor_ok :: "string option \<Rightarrow> bool" where
  "cursor_ok c = (case c of None \<Rightarrow> True | Some s \<Rightarrow> length s \<le> 2048)"

definition validate_log_query :: "log_query \<Rightarrow> unit result" where
  "validate_log_query q =
     (if limit_ok (lq_limit q) \<and> cursor_ok (lq_cursor q) \<and>
         list_all (\<lambda>n. 0 < n) (lq_attempts q @ lq_document_ids q @ lq_kb_ids q)
      then validate_created_range (lq_created_from q) (lq_created_to q)
      else Inl (ValidationError ''DocumentBusinessLogQuery''))"

definition validate_audit_query :: "audit_query \<Rightarrow> unit result" where
  "validate_audit_query q =
     (if limit_ok (aq_limit q) \<and> cursor_ok (aq_cursor q)
      then validate_created_range (aq_created_from q) (aq_created_to q)
      else Inl (ValidationError ''AgentToolAuditQuery''))"

definition key_text_ok :: "string \<Rightarrow> bool" where
  "key_text_ok s \<longleftrightarrow> 1 \<le> length s \<and> length s \<le> 200"

definition validate_timeline_query :: "('k \<Rightarrow> bool) \<Rightarrow> 'k timeline_query \<Rightarrow> unit result" where
  "validate_timeline_query ok q =
     (if ok (tq_key q) \<and> limit_ok (tq_limit q)
      then validate_created_range (tq_created_from q) (tq_created_to q)
      else Inl (ValidationError ''timeline query''))"

section \<open>Filters\<close>

text \<open>Membership in a Python set of texts or numbers; a list or an object cannot be hashed.\<close>

definition py_eq :: "json \<Rightarrow> json \<Rightarrow> bool" where
  "py_eq a b =
     (case (a, b) of (JBool x, JInt n) \<Rightarrow> of_bool x = n | (JInt n, JBool x) \<Rightarrow> of_bool x = n
      | _ \<Rightarrow> a = b)"

definition in_set :: "json option \<Rightarrow> json list \<Rightarrow> bool result" where
  "in_set v values =
     (case v of
        Some (JList xs) \<Rightarrow> Inl (type_error ''unhashable type: list'')
      | Some (JObj kvs) \<Rightarrow> Inl (type_error ''unhashable type: dict'')
      | Some j \<Rightarrow> Inr (list_ex (py_eq j) values)
      | None \<Rightarrow> Inr False)"

fun set_filters :: "(json list \<times> json option) list \<Rightarrow> bool result" where
  "set_filters [] = Inr True"
| "set_filters ((values, actual) # rest) =
     (if values = [] then set_filters rest
      else bind (in_set actual values) (\<lambda>found. if found then set_filters rest else Inr False))"

definition is_text :: "json option \<Rightarrow> string \<Rightarrow> bool" where
  "is_text v s \<longleftrightarrow> v = Some (JStr s)"

definition scalar_filter :: "json \<Rightarrow> string \<times> string option \<Rightarrow> bool" where
  "scalar_filter ev f = (case f of (field, expected) \<Rightarrow>
     (case expected of None \<Rightarrow> True | Some s \<Rightarrow> is_text (json_get ev field) s))"

definition ends_with :: "string \<Rightarrow> string \<Rightarrow> bool" where
  "ends_with suffix s \<longleftrightarrow> length suffix \<le> length s \<and> drop (length s - length suffix) s = suffix"

definition is_failure :: "json \<Rightarrow> bool" where
  "is_failure ev \<longleftrightarrow>
     ends_with ''_failed'' (str_or [] (json_get ev ''event'')) \<or>
     ascii_lower (str_or [] (json_get ev ''level'')) \<in> {''error'', ''critical''} \<or>
     is_text (json_get ev ''outcome'') ''error''"

text \<open>\<open>a or b\<close>.\<close>

definition operation_id_of :: "json \<Rightarrow> json option" where
  "operation_id_of ev =
     (if truthy (json_get ev ''operation_id'') then json_get ev ''operation_id''
      else json_get ev ''run_id'')"

definition document_predicate :: "log_query \<Rightarrow> log_predicate" where
  "document_predicate q ev =
     bind (set_filters
       [(map JStr (lq_workflow_ids q), json_get ev ''workflow_id''),
        (map JStr (lq_operation_ids q), operation_id_of ev),
        (map JInt (lq_attempts q), json_get ev ''attempt''),
        (map JInt (lq_document_ids q), json_get ev ''document_id''),
        (map JStr (lq_doc_codes q), json_get ev ''doc_code''),
        (map JInt (lq_kb_ids q), json_get ev ''kb_id''),
        (map JStr (lq_stages q), json_get ev ''stage''),
        (map JStr (lq_events q), json_get ev ''event''),
        (map JStr (lq_phases q), json_get ev ''phase''),
        (map JStr (lq_levels q), json_get ev ''level'')]) (\<lambda>passed.
     Inr (passed \<and> scalar_filter ev (''trace_id'', lq_trace_id q) \<and>
          scalar_filter ev (''task_id'', lq_task_id q) \<and> (\<not> lq_failed_only q \<or> is_failure ev)))"

definition audit_predicate :: "audit_query \<Rightarrow> log_predicate" where
  "audit_predicate q ev =
     (if \<not> list_all (scalar_filter ev)
          [(''trace_id'', aq_trace_id q), (''agent_run_id'', aq_agent_run_id q),
           (''conversation_id'', aq_conversation_id q), (''turn_id'', aq_turn_id q),
           (''task_id'', aq_task_id q), (''actor_code'', aq_actor_code q)] then Inr False
      else bind (set_filters
        [(map JStr (aq_agent_names q), json_get ev ''agent_name''),
         (map JStr (aq_tool_names q), json_get ev ''tool_name''),
         (map JStr (aq_result_codes q), json_get ev ''result_code''),
         (map JStr (aq_events q), json_get ev ''event'')]) (\<lambda>passed.
        Inr (passed \<and> (case aq_retryable q of None \<Rightarrow> True
          | Some b \<Rightarrow> json_get ev ''retryable'' = Some (JBool b)))))"

definition tool_predicate :: "string \<Rightarrow> string timeline_query \<Rightarrow> log_predicate" where
  "tool_predicate field q ev =
     (if \<not> is_text (json_get ev field) (tq_key q) then Inr False
      else set_filters
        [(map JStr (tq_agent_names q), json_get ev ''agent_name''),
         (map JStr (tq_tool_names q), json_get ev ''tool_name'')])"

section \<open>Typed events\<close>

record validators =
  va_int :: "json \<Rightarrow> int option"
  va_bool :: "json \<Rightarrow> bool option"
  va_datetime :: "json \<Rightarrow> datetime option"

definition invalid_event :: error where
  "invalid_event = ValidationError ''log event''"

definition optional :: "(json \<Rightarrow> 'a option) \<Rightarrow> json option \<Rightarrow> 'a option result" where
  "optional accept v =
     (case v of None \<Rightarrow> Inr None | Some JNull \<Rightarrow> Inr None
      | Some j \<Rightarrow> map_sum id Some (of_option invalid_event (accept j)))"

fun text_of :: "json \<Rightarrow> string option" where
  "text_of (JStr s) = Some s"
| "text_of _ = None"

text \<open>\<open>int(value or 0)\<close>: a text may have a sign, spaces around it and single underscores inside.\<close>

fun underscored :: "bool \<Rightarrow> int \<Rightarrow> string \<Rightarrow> int option" where
  "underscored ok v [] = (if ok then Some v else None)"
| "underscored ok v (c # s) =
     (if c = CHR ''_'' then (if ok then underscored False v s else None)
      else case digit c of None \<Rightarrow> None | Some d \<Rightarrow> underscored True (10 * v + d) s)"

definition int_of_text :: "string \<Rightarrow> int option" where
  "int_of_text s =
     (case py_strip s of
        [] \<Rightarrow> None
      | c # r \<Rightarrow>
          if c = CHR ''-'' then map_option uminus (underscored False 0 r)
          else if c = CHR ''+'' then underscored False 0 r
          else underscored False 0 (c # r))"

definition int_or_zero :: "json option \<Rightarrow> int result" where
  "int_or_zero v =
     (if \<not> truthy v then Inr 0
      else case the v of
        JInt n \<Rightarrow> Inr n
      | JBool b \<Rightarrow> Inr (of_bool b)
      | JStr s \<Rightarrow> of_option (ValueError ''invalid literal for int()'') (int_of_text s)
      | _ \<Rightarrow> Inl (type_error ''int() argument must be a number''))"

text \<open>\<open>list(value or [])\<close> as a list of texts.\<close>

definition list_or_empty :: "json option \<Rightarrow> json list result" where
  "list_or_empty v =
     (if \<not> truthy v then Inr []
      else case the v of
        JList xs \<Rightarrow> Inr xs
      | JStr s \<Rightarrow> Inr (map (\<lambda>c. JStr [c]) s)
      | JObj kvs \<Rightarrow> Inr (map (JStr \<circ> fst) kvs)
      | _ \<Rightarrow> Inl (type_error ''object is not iterable''))"

definition texts_or_empty :: "json option \<Rightarrow> string list result" where
  "texts_or_empty v = bind (list_or_empty v) (\<lambda>xs.
     if list_all (\<lambda>j. text_of j \<noteq> None) xs then Inr (map (the \<circ> text_of) xs) else Inl invalid_event)"

definition required_time :: "validators \<Rightarrow> json \<Rightarrow> datetime result" where
  "required_time va ev =
     (case json_get ev ''created_at'' of None \<Rightarrow> Inl (OtherException ''KeyError'' ''created_at'')
      | Some j \<Rightarrow> of_option invalid_event (va_datetime va j))"

definition DOCUMENT_EVENT_COMMON_FIELDS :: "string list" where
  "DOCUMENT_EVENT_COMMON_FIELDS =
     [''schema_version'', ''event_id'', ''run_id'', ''workflow_id'', ''operation_id'',
      ''parent_operation_id'', ''attempt'', ''document_id'', ''doc_code'', ''kb_id'', ''stage'',
      ''event'', ''phase'', ''level'', ''message'', ''error_type'', ''error_message'',
      ''status_before'', ''status_after'', ''state_updated'', ''document_state_updated'',
      ''duration_ms'', ''created_at'']"

record document_event =
  de_event_id :: string
  de_workflow_id :: "string option"
  de_operation_id :: "string option"
  de_parent_operation_id :: "string option"
  de_attempt :: "int option"
  de_document_id :: "int option"
  de_doc_code :: "string option"
  de_kb_id :: "int option"
  de_stage :: string
  de_event :: string
  de_phase :: "string option"
  de_level :: "string option"
  de_message :: "string option"
  de_error_type :: "string option"
  de_error_summary :: "string option"
  de_status_before :: "string option"
  de_status_after :: "string option"
  de_state_updated :: "bool option"
  de_duration_ms :: int
  de_created_at :: datetime
  de_details :: "(string \<times> json) list"

fun object_items :: "json \<Rightarrow> (string \<times> json) list" where
  "object_items (JObj kvs) = kvs"
| "object_items _ = []"

definition document_event_of :: "validators \<Rightarrow> json \<Rightarrow> document_event result" where
  "document_event_of va ev =
     bind (int_or_zero (json_get ev ''duration_ms'')) (\<lambda>duration.
     bind (required_time va ev) (\<lambda>at.
     bind (optional text_of (json_get ev ''workflow_id'')) (\<lambda>workflow.
     bind (optional text_of (operation_id_of ev)) (\<lambda>operation.
     bind (optional text_of (json_get ev ''parent_operation_id'')) (\<lambda>parent.
     bind (optional (va_int va) (json_get ev ''attempt'')) (\<lambda>att.
     bind (optional (va_int va) (json_get ev ''document_id'')) (\<lambda>doc.
     bind (optional text_of (json_get ev ''doc_code'')) (\<lambda>code.
     bind (optional (va_int va) (json_get ev ''kb_id'')) (\<lambda>kb.
     bind (optional text_of (json_get ev ''phase'')) (\<lambda>phase.
     bind (optional text_of (json_get ev ''level'')) (\<lambda>level.
     bind (optional text_of (json_get ev ''message'')) (\<lambda>message.
     bind (optional text_of (json_get ev ''error_type'')) (\<lambda>etype.
     bind (optional text_of (json_get ev ''error_message'')) (\<lambda>summary.
     bind (optional text_of (json_get ev ''status_before'')) (\<lambda>before.
     bind (optional text_of (json_get ev ''status_after'')) (\<lambda>after.
     bind (optional (va_bool va)
            (case json_get ev ''state_updated'' of None \<Rightarrow> json_get ev ''document_state_updated''
             | Some j \<Rightarrow> Some j)) (\<lambda>updated.
     Inr \<lparr>de_event_id = str_or [] (json_get ev ''event_id''), de_workflow_id = workflow,
       de_operation_id = operation, de_parent_operation_id = parent, de_attempt = att,
       de_document_id = doc, de_doc_code = code, de_kb_id = kb,
       de_stage = str_or ''unknown'' (json_get ev ''stage''),
       de_event = str_or ''unknown'' (json_get ev ''event''), de_phase = phase, de_level = level,
       de_message = message, de_error_type = etype, de_error_summary = summary,
       de_status_before = before, de_status_after = after, de_state_updated = updated,
       de_duration_ms = duration, de_created_at = at,
       de_details = filter (\<lambda>kv. fst kv \<notin> set DOCUMENT_EVENT_COMMON_FIELDS)
         (object_items ev)\<rparr>)))))))))))))))))"

record failure_event =
  fe_event_id :: string
  fe_stage :: string
  fe_event :: string
  fe_phase :: "string option"
  fe_error_type :: "string option"
  fe_error_summary :: "string option"
  fe_status_before :: "string option"
  fe_status_after :: "string option"
  fe_state_updated :: "bool option"
  fe_created_at :: datetime

definition failure_event_of :: "validators \<Rightarrow> json \<Rightarrow> failure_event result" where
  "failure_event_of va ev = bind (document_event_of va ev) (\<lambda>e.
     Inr \<lparr>fe_event_id = de_event_id e, fe_stage = de_stage e, fe_event = de_event e,
       fe_phase = de_phase e, fe_error_type = de_error_type e, fe_error_summary = de_error_summary e,
       fe_status_before = de_status_before e, fe_status_after = de_status_after e,
       fe_state_updated = de_state_updated e, fe_created_at = de_created_at e\<rparr>)"

text \<open>What an audit event and a paired invocation have in common, read from a raw event.\<close>

record invocation =
  iv_trace_id :: string
  iv_agent_run_id :: string
  iv_conversation_id :: "string option"
  iv_turn_id :: "string option"
  iv_task_id :: "string option"
  iv_agent_name :: string
  iv_tool_name :: string
  iv_actor_code :: string
  iv_resource_refs :: "string list"

definition invocation_of :: "json \<Rightarrow> invocation result" where
  "invocation_of ev =
     bind (texts_or_empty (json_get ev ''resource_refs'')) (\<lambda>refs.
     bind (optional text_of (json_get ev ''conversation_id'')) (\<lambda>conv.
     bind (optional text_of (json_get ev ''turn_id'')) (\<lambda>turn.
     bind (optional text_of (json_get ev ''task_id'')) (\<lambda>task.
     Inr \<lparr>iv_trace_id = str_or [] (json_get ev ''trace_id''),
       iv_agent_run_id = str_or [] (json_get ev ''agent_run_id''),
       iv_conversation_id = conv, iv_turn_id = turn, iv_task_id = task,
       iv_agent_name = str_or [] (json_get ev ''agent_name''),
       iv_tool_name = str_or [] (json_get ev ''tool_name''),
       iv_actor_code = str_or [] (json_get ev ''actor_code''), iv_resource_refs = refs\<rparr>))))"

record audit_event_row = invocation +
  ar_event_id :: string
  ar_invocation_id :: string
  ar_event :: string
  ar_duration_ms :: int
  ar_result_code :: "string option"
  ar_retryable :: "bool option"
  ar_created_at :: datetime

definition audit_event_of :: "validators \<Rightarrow> json \<Rightarrow> audit_event_row result" where
  "audit_event_of va ev =
     bind (invocation_of ev) (\<lambda>iv.
     bind (int_or_zero (json_get ev ''duration_ms'')) (\<lambda>duration.
     bind (required_time va ev) (\<lambda>at.
     bind (optional text_of (json_get ev ''result_code'')) (\<lambda>code.
     bind (optional (va_bool va) (json_get ev ''retryable'')) (\<lambda>retry.
     Inr (invocation.extend iv (audit_event_row.fields
       (str_or [] (json_get ev ''event_id'')) (str_or [] (json_get ev ''invocation_id''))
       (str_or ''unknown'' (json_get ev ''event'')) duration code retry at)))))))"

section \<open>Tool invocations\<close>

record invocation_group =
  ig_first :: json
  ig_started_at :: json
  ig_terminal :: "json option"

definition STARTED :: string where
  "STARTED = ''agent_tool_invocation_started''"

definition INVOCATION_PREFIX :: string where
  "INVOCATION_PREFIX = ''agent_tool_invocation_''"

definition terminal_event :: "json \<Rightarrow> bool" where
  "terminal_event ev \<longleftrightarrow>
     is_text (json_get ev ''event'') ''agent_tool_invocation_succeeded'' \<or>
     is_text (json_get ev ''event'') ''agent_tool_invocation_rejected'' \<or>
     is_text (json_get ev ''event'') ''agent_tool_invocation_failed''"

definition add_event :: "json \<Rightarrow> json \<Rightarrow> invocation_group option \<Rightarrow> invocation_group" where
  "add_event ev at known =
     (let g = (case known of Some g \<Rightarrow> g
                | None \<Rightarrow> \<lparr>ig_first = ev, ig_started_at = at, ig_terminal = None\<rparr>) in
      if is_text (json_get ev ''event'') STARTED then g\<lparr>ig_first := ev, ig_started_at := at\<rparr>
      else if terminal_event ev then g\<lparr>ig_terminal := Some ev\<rparr> else g)"

fun group_events ::
  "json list \<Rightarrow> (string \<times> invocation_group) list \<Rightarrow> (string \<times> invocation_group) list result" where
  "group_events [] groups = Inr groups"
| "group_events (ev # rest) groups =
     (let i = str_or [] (json_get ev ''invocation_id'') in
      if i = [] then group_events rest groups
      else case json_get ev ''created_at'' of
        None \<Rightarrow> Inl (OtherException ''KeyError'' ''created_at'')
      | Some at \<Rightarrow> group_events rest (dict_set i (add_event ev at (map_of groups i)) groups))"

record invocation_item = invocation +
  ti_invocation_id :: string
  ti_started_at :: datetime
  ti_completed_at :: "datetime option"
  ti_outcome :: "string option"
  ti_result_code :: "string option"
  ti_retryable :: "bool option"
  ti_duration_ms :: "int option"

definition outcome_of :: "json \<Rightarrow> string" where
  "outcome_of ev =
     (let s = str_or [] (json_get ev ''event'') in
      if take (length INVOCATION_PREFIX) s = INVOCATION_PREFIX then drop (length INVOCATION_PREFIX) s
      else s)"

definition terminal_field :: "invocation_group \<Rightarrow> string \<Rightarrow> json option" where
  "terminal_field g field = Option.bind (ig_terminal g) (\<lambda>t. json_get t field)"

definition item_of :: "validators \<Rightarrow> string \<times> invocation_group \<Rightarrow> invocation_item result" where
  "item_of va = (\<lambda>(i, g).
     bind (invocation_of (ig_first g)) (\<lambda>iv.
     bind (of_option invalid_event (va_datetime va (ig_started_at g))) (\<lambda>started.
     bind (optional (va_datetime va) (terminal_field g ''created_at'')) (\<lambda>completed.
     bind (optional text_of (terminal_field g ''result_code'')) (\<lambda>code.
     bind (optional (va_bool va) (terminal_field g ''retryable'')) (\<lambda>retry.
     bind (optional (va_int va) (terminal_field g ''duration_ms'')) (\<lambda>duration.
     Inr (invocation.extend iv (invocation_item.fields i started completed
       (map_option outcome_of (ig_terminal g)) code retry duration)))))))))"

fun map_result :: "('a \<Rightarrow> 'b result) \<Rightarrow> 'a list \<Rightarrow> 'b list result" where
  "map_result f [] = Inr []"
| "map_result f (x # xs) = bind (f x) (\<lambda>y. bind (map_result f xs) (\<lambda>ys. Inr (y # ys)))"

definition sort_items :: "invocation_item list \<Rightarrow> invocation_item list result" where
  "sort_items items =
     (if \<not> list_all (\<lambda>x. dt_offset (ti_started_at x) = None) items \<and>
         \<not> list_all (\<lambda>x. dt_offset (ti_started_at x) \<noteq> None) items
      then Inl (type_error ''cannot compare offset-naive and offset-aware datetimes'')
      else Inr (sort_key (\<lambda>x. utc_fields (ti_started_at x)) items))"

definition aggregate_invocations :: "validators \<Rightarrow> json list \<Rightarrow> invocation_item list result" where
  "aggregate_invocations va evs =
     bind (group_events evs []) (\<lambda>groups. bind (map_result (item_of va) groups) sort_items)"

section \<open>The service\<close>

record operations_service =
  os_lib :: json_library
  os_validators :: validators
  os_document_sources :: "log_source list"
  os_tool_sources :: "log_source list"

record 'a log_page =
  lp_items :: "'a list"
  lp_next_cursor :: "string option"

definition query_document_business_logs ::
  "operations_service \<Rightarrow> log_files \<Rightarrow> log_query \<Rightarrow> document_event log_page result" where
  "query_document_business_logs s fs q =
     bind (scan (os_lib s) (os_document_sources s) fs (document_predicate q) (lq_created_from q)
       (lq_created_to q) (lq_limit q) (lq_cursor q) False) (\<lambda>page.
     bind (map_result (document_event_of (os_validators s)) (pg_events page)) (\<lambda>items.
     Inr \<lparr>lp_items = items, lp_next_cursor = pg_next_cursor page\<rparr>))"

text \<open>A time line: its events, oldest first, and whether the limit cut it off.\<close>

definition timeline ::
  "operations_service \<Rightarrow> log_source list \<Rightarrow> log_files \<Rightarrow> log_predicate \<Rightarrow> (json list \<Rightarrow> 'a list result) \<Rightarrow>
     'k timeline_query \<Rightarrow> ('a list \<times> bool) result" where
  "timeline s srcs fs pred f q =
     bind (scan (os_lib s) srcs fs pred (tq_created_from q) (tq_created_to q) (tq_limit q) None True)
       (\<lambda>page. bind (f (pg_events page)) (\<lambda>items. Inr (items, pg_next_cursor page \<noteq> None)))"

definition has_document_id :: "int \<Rightarrow> json \<Rightarrow> bool" where
  "has_document_id i ev = (case json_get ev ''document_id'' of None \<Rightarrow> False | Some j \<Rightarrow> py_eq j (JInt i))"

definition get_document_execution_timeline ::
  "operations_service \<Rightarrow> log_files \<Rightarrow> int timeline_query \<Rightarrow> (document_event list \<times> bool) result" where
  "get_document_execution_timeline s fs q =
     timeline s (os_document_sources s) fs (\<lambda>ev. Inr (has_document_id (tq_key q) ev))
       (map_result (document_event_of (os_validators s))) q"

definition get_document_failure_timeline ::
  "operations_service \<Rightarrow> log_files \<Rightarrow> int timeline_query \<Rightarrow> (failure_event list \<times> bool) result" where
  "get_document_failure_timeline s fs q =
     timeline s (os_document_sources s) fs (\<lambda>ev. Inr (has_document_id (tq_key q) ev \<and> is_failure ev))
       (map_result (failure_event_of (os_validators s))) q"

record operation_timeline =
  ot_workflow_id :: "string option"
  ot_attempt :: "int option"
  ot_events :: "document_event list"
  ot_truncated :: bool

definition get_document_operation_timeline ::
  "operations_service \<Rightarrow> log_files \<Rightarrow> string timeline_query \<Rightarrow> operation_timeline result" where
  "get_document_operation_timeline s fs q =
     bind (timeline s (os_document_sources s) fs (\<lambda>ev. Inr (is_text (operation_id_of ev) (tq_key q)))
       (map_result (document_event_of (os_validators s))) q) (\<lambda>(evs, cut).
     Inr \<lparr>ot_workflow_id = (case evs of [] \<Rightarrow> None | e # es \<Rightarrow> de_workflow_id e),
       ot_attempt = (case evs of [] \<Rightarrow> None | e # es \<Rightarrow> de_attempt e),
       ot_events = evs, ot_truncated = cut\<rparr>)"

definition get_document_workflow_timeline ::
  "operations_service \<Rightarrow> log_files \<Rightarrow> string timeline_query \<Rightarrow> (document_event list \<times> bool) result" where
  "get_document_workflow_timeline s fs q =
     timeline s (os_document_sources s) fs (\<lambda>ev. Inr (is_text (json_get ev ''workflow_id'') (tq_key q)))
       (map_result (document_event_of (os_validators s))) q"

definition query_agent_tool_audits ::
  "operations_service \<Rightarrow> log_files \<Rightarrow> audit_query \<Rightarrow> audit_event_row log_page result" where
  "query_agent_tool_audits s fs q =
     bind (scan (os_lib s) (os_tool_sources s) fs (audit_predicate q) (aq_created_from q)
       (aq_created_to q) (aq_limit q) (aq_cursor q) False) (\<lambda>page.
     bind (map_result (audit_event_of (os_validators s)) (pg_events page)) (\<lambda>items.
     Inr \<lparr>lp_items = items, lp_next_cursor = pg_next_cursor page\<rparr>))"

definition tool_timeline ::
  "string \<Rightarrow> operations_service \<Rightarrow> log_files \<Rightarrow> string timeline_query \<Rightarrow> (invocation_item list \<times> bool) result" where
  "tool_timeline field s fs q =
     timeline s (os_tool_sources s) fs (tool_predicate field q)
       (aggregate_invocations (os_validators s)) q"

definition get_task_tool_timeline ::
  "operations_service \<Rightarrow> log_files \<Rightarrow> string timeline_query \<Rightarrow> (invocation_item list \<times> bool) result" where
  "get_task_tool_timeline = tool_timeline ''task_id''"

definition get_agent_run_tool_timeline ::
  "operations_service \<Rightarrow> log_files \<Rightarrow> string timeline_query \<Rightarrow> (invocation_item list \<times> bool) result" where
  "get_agent_run_tool_timeline = tool_timeline ''agent_run_id''"

end
