(* ===== verification/Operations_Tools.thy ===== *)
theory Operations_Tools
  imports Log_Query Document_Query
begin

text \<open>
  The function tools of the operations collector (operations/agent_tools/query_tools.py): audited,
  read-only calls of the log queries.  \<open>None\<close> in place of the service: neither the query service nor
  the use cases over it are configured.
\<close>

definition OPERATIONS_READ_PERMISSION :: string where
  "OPERATIONS_READ_PERMISSION = ''operations:read''"

definition query_service :: "operations_service option \<Rightarrow> operations_service result" where
  "query_service s =
     of_option (OtherException ''ToolNotAvailableError'' ''Operations query service is not configured'') s"

definition logs_tool ::
  "string list \<Rightarrow> unit result \<Rightarrow> string list \<Rightarrow> string \<Rightarrow> operations_service option \<Rightarrow>
     (operations_service \<Rightarrow> log_files \<Rightarrow> 'a result) \<Rightarrow> log_files \<Rightarrow> 'a tool_reply \<times> audit_event list" where
  "logs_tool granted valid refs code s query fs = validated (\<not> is_error valid)
     (read_tool granted OPERATIONS_READ_PERMISSION refs code
       (\<lambda>fs. bind (query_service s) (\<lambda>svc. query svc fs)) fs)"

definition log_event_refs :: "log_query \<Rightarrow> string list" where
  "log_event_refs q = refs_or ''document_log_event:*''
     (map (\<lambda>i. ''workflow:'' @ i) (lq_workflow_ids q) @ map (\<lambda>i. ''operation:'' @ i) (lq_operation_ids q) @
      map document_ref (lq_document_ids q))"

definition query_document_log_events_handler ::
  "operations_service option \<Rightarrow> string list \<Rightarrow> log_query \<Rightarrow> log_files \<Rightarrow>
     document_event log_page tool_reply \<times> audit_event list" where
  "query_document_log_events_handler s granted q =
     logs_tool granted (validate_log_query q) (log_event_refs q) ''document_log_events_queried'' s
       (\<lambda>svc fs. query_document_business_logs svc fs q)"

definition query_document_business_logs_handler ::
  "operations_service option \<Rightarrow> string list \<Rightarrow> log_query \<Rightarrow> log_files \<Rightarrow>
     document_event log_page tool_reply \<times> audit_event list" where
  "query_document_business_logs_handler s granted q =
     logs_tool granted (validate_log_query q)
       (refs_or ''document_business_log:*'' (map document_ref (lq_document_ids q) @ map kb_ref (lq_kb_ids q)))
       ''document_business_logs_queried'' s (\<lambda>svc fs. query_document_business_logs svc fs q)"

definition get_document_operation_timeline_handler ::
  "operations_service option \<Rightarrow> string list \<Rightarrow> string timeline_query \<Rightarrow> log_files \<Rightarrow>
     operation_timeline tool_reply \<times> audit_event list" where
  "get_document_operation_timeline_handler s granted q =
     logs_tool granted (validate_timeline_query key_text_ok q) [''operation:'' @ tq_key q]
       ''document_operation_timeline_retrieved'' s (\<lambda>svc fs. get_document_operation_timeline svc fs q)"

definition get_document_workflow_timeline_handler ::
  "operations_service option \<Rightarrow> string list \<Rightarrow> string timeline_query \<Rightarrow> log_files \<Rightarrow>
     (document_event list \<times> bool) tool_reply \<times> audit_event list" where
  "get_document_workflow_timeline_handler s granted q =
     logs_tool granted (validate_timeline_query key_text_ok q) [''workflow:'' @ tq_key q]
       ''document_workflow_timeline_retrieved'' s (\<lambda>svc fs. get_document_workflow_timeline svc fs q)"

definition get_document_execution_timeline_handler ::
  "operations_service option \<Rightarrow> string list \<Rightarrow> int timeline_query \<Rightarrow> log_files \<Rightarrow>
     (document_event list \<times> bool) tool_reply \<times> audit_event list" where
  "get_document_execution_timeline_handler s granted q =
     logs_tool granted (validate_timeline_query (\<lambda>i. 0 < i) q) [document_ref (tq_key q)]
       ''document_execution_timeline_retrieved'' s (\<lambda>svc fs. get_document_execution_timeline svc fs q)"

definition get_document_failure_timeline_handler ::
  "operations_service option \<Rightarrow> string list \<Rightarrow> int timeline_query \<Rightarrow> log_files \<Rightarrow>
     (failure_event list \<times> bool) tool_reply \<times> audit_event list" where
  "get_document_failure_timeline_handler s granted q =
     logs_tool granted (validate_timeline_query (\<lambda>i. 0 < i) q) [document_ref (tq_key q)]
       ''document_failure_timeline_retrieved'' s (\<lambda>svc fs. get_document_failure_timeline svc fs q)"

definition query_agent_tool_audits_handler ::
  "operations_service option \<Rightarrow> string list \<Rightarrow> audit_query \<Rightarrow> log_files \<Rightarrow>
     audit_event_row log_page tool_reply \<times> audit_event list" where
  "query_agent_tool_audits_handler s granted q =
     logs_tool granted (validate_audit_query q) [''agent_tool_audit:*''] ''agent_tool_audits_queried'' s
       (\<lambda>svc fs. query_agent_tool_audits svc fs q)"

definition get_task_tool_timeline_handler ::
  "operations_service option \<Rightarrow> string list \<Rightarrow> string timeline_query \<Rightarrow> log_files \<Rightarrow>
     (invocation_item list \<times> bool) tool_reply \<times> audit_event list" where
  "get_task_tool_timeline_handler s granted q =
     logs_tool granted (validate_timeline_query key_text_ok q) [''task:'' @ tq_key q]
       ''task_tool_timeline_retrieved'' s (\<lambda>svc fs. get_task_tool_timeline svc fs q)"

definition get_agent_run_tool_timeline_handler ::
  "operations_service option \<Rightarrow> string list \<Rightarrow> string timeline_query \<Rightarrow> log_files \<Rightarrow>
     (invocation_item list \<times> bool) tool_reply \<times> audit_event list" where
  "get_agent_run_tool_timeline_handler s granted q =
     logs_tool granted (validate_timeline_query key_text_ok q) [''agent_run:'' @ tq_key q]
       ''agent_run_tool_timeline_retrieved'' s (\<lambda>svc fs. get_agent_run_tool_timeline svc fs q)"

text \<open>Without the permission nothing is read, whatever the state of the logs.\<close>

lemma logs_tool_needs_permission:
  assumes "OPERATIONS_READ_PERMISSION \<notin> set granted"
  shows "tr_value (fst (logs_tool granted valid refs code s query fs)) = None"
  using assms
  by (simp add: logs_tool_def validated_def read_tool_def execute_audited_tool_call_def invalid_reply_def
      require_permissions_def require_def Let_def)

end
