(* ===== verification/Planner_Workflow.thy ===== *)
theory Planner_Workflow
  imports Agent_Tools Evidence
begin

text \<open>
  The planner's state graph (agents/planner.py, agents/gap_handler.py): one or two rounds of
  evidence, the gap decision between evidence and commit with its checks, and the commit.  What the
  language models answer is an input of the graph (record \<open>planner_agents\<close>).
\<close>

section \<open>Gap decisions\<close>

datatype gap_action = COMMIT | COLLECT_MORE | RETRY | SYSTEM_FAILURE_ACTION | CLARIFICATION | UNSUPPORTED_ACTION

record evidence_round =
  er_round_number :: nat
  er_collector_results :: "collector_result list"

record gap_decision =
  gd_action :: gap_action
  gd_reason :: string
  gd_follow_up :: "string option"
  gd_clarification_kind :: "string option"
  gd_required_information :: "string list"
  gd_known_resource_refs :: "string list"

definition clarification_kinds :: "string list" where
  "clarification_kinds = [''resource'', ''intent'', ''missing_parameter'']"

text \<open>The field constraints and the model validator of \<open>GapDecision\<close>.\<close>

definition validate_action_fields :: "gap_decision \<Rightarrow> unit result" where
  "validate_action_fields d =
     (if gd_action d = COLLECT_MORE \<and> gd_follow_up d = None
      then Inl (ValidationError ''COLLECT_MORE needs a follow_up'')
      else if gd_action d \<noteq> COLLECT_MORE \<and> gd_follow_up d \<noteq> None
      then Inl (ValidationError ''only COLLECT_MORE may have a follow_up'')
      else if gd_action d = CLARIFICATION
      then (if gd_clarification_kind d = None
            then Inl (ValidationError ''CLARIFICATION needs a clarification_kind'')
            else if gd_required_information d = []
            then Inl (ValidationError ''CLARIFICATION needs required_information'')
            else Inr ())
      else if gd_clarification_kind d \<noteq> None \<or> gd_required_information d \<noteq> []
        \<or> gd_known_resource_refs d \<noteq> []
      then Inl (ValidationError ''only CLARIFICATION may have clarification fields'')
      else Inr ())"

definition gap_fields_ok :: "gap_decision \<Rightarrow> bool" where
  "gap_fields_ok d \<longleftrightarrow> valid_reason (gd_reason d) \<and>
     (case gd_follow_up d of None \<Rightarrow> True | Some f \<Rightarrow> valid_reason f) \<and>
     (case gd_clarification_kind d of None \<Rightarrow> True | Some k \<Rightarrow> k \<in> set clarification_kinds) \<and>
     length (gd_required_information d) \<le> 10 \<and> length (gd_known_resource_refs d) \<le> 50"

definition parse_gap_decision :: "gap_decision \<Rightarrow> gap_decision result" where
  "parse_gap_decision d =
     (if \<not> gap_fields_ok d then Inl (ValidationError ''GapDecision'')
      else bind (validate_action_fields d) (\<lambda>_. Inr d))"

definition all_items :: "evidence_round list \<Rightarrow> evidence_item list" where
  "all_items rounds =
     concat (map (\<lambda>r. concat (map co_evidence_items (er_collector_results r))) rounds)"

definition gap_decision_error :: "string \<Rightarrow> error" where
  "gap_decision_error m = OtherException ''GapDecisionError'' m"

definition validate_gap_decision ::
  "gap_decision \<Rightarrow> evidence_round list \<Rightarrow> bool \<Rightarrow> unit result" where
  "validate_gap_decision d rounds collect_more_allowed =
     (if gd_action d = COLLECT_MORE \<and> \<not> collect_more_allowed
      then Inl (gap_decision_error ''COLLECT_MORE is not allowed after the second round'')
      else if gd_action d \<notin> {RETRY, SYSTEM_FAILURE_ACTION} then Inr ()
      else if list_ex (\<lambda>i. ei_outcome i = Failed \<and> ei_retryable i = (gd_action d = RETRY))
                (all_items rounds) then Inr ()
      else Inl (gap_decision_error ''the action is not supported by failed evidence''))"

definition evidence_is_ready_for_commit :: "collector_result list \<Rightarrow> bool" where
  "evidence_is_ready_for_commit rs \<longleftrightarrow>
     (let items = concat (map co_evidence_items rs) in
      items \<noteq> [] \<and> list_all (\<lambda>i. ei_outcome i = Succeeded) items \<and>
      \<not> list_ex (\<lambda>r. list_ex (\<lambda>g. py_strip g \<noteq> []) (co_gaps r)) rs)"

section \<open>The agents\<close>

record handoff_input =
  hi_kind :: string
  hi_reason :: string
  hi_required_information :: "string list"
  hi_known_resource_refs :: "string list"

definition valid_handoff :: "handoff_input \<Rightarrow> bool" where
  "valid_handoff h \<longleftrightarrow> hi_kind h \<in> set clarification_kinds \<and> valid_reason (hi_reason h) \<and>
     1 \<le> length (hi_required_information h) \<and> length (hi_required_information h) \<le> 10 \<and>
     length (hi_known_resource_refs h) \<le> 50"

text \<open>What the commit agent does: tool calls and hand-offs, each with its clock and fresh ids.\<close>

datatype commit_step =
    Call time uuids planning_call
  | Handoff time uuids handoff_input

record planner_agents =
  evidence_agent :: "nat \<Rightarrow> string option \<Rightarrow> run_item list result"
  gap_agent :: "evidence_round list \<Rightarrow> bool \<Rightarrow> gap_decision result"
  commit_agent :: "gap_decision option \<Rightarrow> commit_step list \<times> string option result"
  clarification_agent :: "handoff_input \<Rightarrow> string option result"
  gap_clock :: time
  gap_uuids :: uuids

definition planner_scope :: "agent_context \<Rightarrow> (ident \<times> ident) result" where
  "planner_scope ctx =
     (case (ac_planning_services ctx, ac_plan_id ctx, ac_conversation_id ctx) of
        (True, Some p, Some c) \<Rightarrow> Inr (p, c)
      | _ \<Rightarrow> Inl (RuntimeError ''the Gap decision has no Planning context''))"

definition mark_gap_unsupported ::
  "time \<Rightarrow> uuids \<Rightarrow> agent_context \<Rightarrow> string \<Rightarrow> db \<Rightarrow> (plan \<times> db) result" where
  "mark_gap_unsupported now u ctx reason db =
     bind (planner_scope ctx) (\<lambda>(pid, _). mark_plan_unsupported now u pid reason db)"

definition mark_gap_clarification ::
  "time \<Rightarrow> uuids \<Rightarrow> agent_context \<Rightarrow> handoff_input \<Rightarrow> db \<Rightarrow> (plan \<times> db) result" where
  "mark_gap_clarification now u ctx h db =
     bind (planner_scope ctx) (\<lambda>(pid, cid).
       mark_plan_needs_clarification now u
         \<lparr>nc_plan_id = pid, nc_conversation_id = cid, nc_kind = hi_kind h, nc_reason = hi_reason h,
          nc_required_information = hi_required_information h,
          nc_known_resource_refs = hi_known_resource_refs h\<rparr> db)"

text \<open>
  The commit run: a rejected tool call goes back to the model, an error in a hand-off ends the run.
\<close>

fun run_commit ::
  "agent_context \<Rightarrow> commit_step list \<Rightarrow> string option result \<Rightarrow> db \<Rightarrow> string option result \<times> db" where
  "run_commit ctx [] final db = (final, db)"
| "run_commit ctx (Call now u c # steps) final db =
     run_commit ctx steps final (snd (snd (run_planning_call now u ctx c db)))"
| "run_commit ctx (Handoff now u h # steps) final db =
     (if \<not> valid_handoff h then (Inl (ValidationError ''ClarificationHandoffInput''), db)
      else case mark_gap_clarification now u ctx h db of
        Inl e \<Rightarrow> (Inl e, db)
      | Inr (_, db') \<Rightarrow> run_commit ctx steps final db')"

section \<open>The graph\<close>

datatype node =
    collect_initial_evidence | assess_initial_gap | collect_follow_up_evidence
  | assess_final_gap | commit_plan | resolve_gap

record workflow_state =
  wf_rounds :: "evidence_round list"
  wf_decision :: "gap_decision option"
  wf_final :: "string option"
  wf_db :: db

text \<open>A node's error ends the run; the database changes it made stay.\<close>

definition add_round ::
  "planner_agents \<Rightarrow> nat \<Rightarrow> string option \<Rightarrow> workflow_state \<Rightarrow> unit result \<times> workflow_state" where
  "add_round ag n follow_up w =
     (case bind (evidence_agent ag n follow_up) extract_collector_results of
        Inl e \<Rightarrow> (Inl e, w)
      | Inr rs \<Rightarrow> (Inr (), w\<lparr>wf_rounds := wf_rounds w @
            [\<lparr>er_round_number = n, er_collector_results = rs\<rparr>]\<rparr>))"

definition run_gap_handler ::
  "planner_agents \<Rightarrow> bool \<Rightarrow> workflow_state \<Rightarrow> unit result \<times> workflow_state" where
  "run_gap_handler ag collect_more_allowed w =
     (case bind (gap_agent ag (wf_rounds w) collect_more_allowed) (\<lambda>d.
            bind (parse_gap_decision d) (\<lambda>d.
            bind (validate_gap_decision d (wf_rounds w) collect_more_allowed) (\<lambda>_. Inr d))) of
        Inl e \<Rightarrow> (Inl e, w)
      | Inr d \<Rightarrow> (Inr (), w\<lparr>wf_decision := Some d\<rparr>))"

definition commit_with ::
  "planner_agents \<Rightarrow> agent_context \<Rightarrow> gap_decision option \<Rightarrow> workflow_state
   \<Rightarrow> unit result \<times> workflow_state" where
  "commit_with ag ctx d w =
     (case commit_agent ag d of (steps, final) \<Rightarrow>
        (case run_commit ctx steps final (wf_db w) of
           (Inl e, db) \<Rightarrow> (Inl e, w\<lparr>wf_db := db\<rparr>)
         | (Inr q, db) \<Rightarrow> (Inr (), w\<lparr>wf_db := db, wf_final := q\<rparr>)))"

definition handoff_of :: "gap_decision \<Rightarrow> handoff_input" where
  "handoff_of d =
     \<lparr>hi_kind = (case gd_clarification_kind d of Some k \<Rightarrow> k | None \<Rightarrow> []),
      hi_reason = gd_reason d, hi_required_information = gd_required_information d,
      hi_known_resource_refs = gd_known_resource_refs d\<rparr>"

definition resolve_gap_decision ::
  "planner_agents \<Rightarrow> agent_context \<Rightarrow> gap_decision \<Rightarrow> workflow_state
   \<Rightarrow> unit result \<times> workflow_state" where
  "resolve_gap_decision ag ctx d w =
     (case gd_action d of
        COMMIT \<Rightarrow> commit_with ag ctx (Some d) w
      | RETRY \<Rightarrow> (Inl (OtherException ''PlanningRetryRequested'' (gd_reason d)), w)
      | SYSTEM_FAILURE_ACTION \<Rightarrow>
          (Inl (RuntimeError (''system failure while collecting evidence: '' @ gd_reason d)), w)
      | UNSUPPORTED_ACTION \<Rightarrow>
          (case mark_gap_unsupported (gap_clock ag) (gap_uuids ag) ctx (gd_reason d) (wf_db w) of
             Inl e \<Rightarrow> (Inl e, w)
           | Inr (_, db) \<Rightarrow> (Inr (), w\<lparr>wf_db := db, wf_final := None\<rparr>))
      | CLARIFICATION \<Rightarrow>
          (if \<not> valid_handoff (handoff_of d)
           then (Inl (ValidationError ''ClarificationHandoffInput''), w)
           else case mark_gap_clarification (gap_clock ag) (gap_uuids ag) ctx (handoff_of d) (wf_db w) of
             Inl e \<Rightarrow> (Inl e, w)
           | Inr (_, db) \<Rightarrow>
               (case clarification_agent ag (handoff_of d) of
                  Inl e \<Rightarrow> (Inl e, w\<lparr>wf_db := db\<rparr>)
                | Inr q \<Rightarrow> (Inr (), w\<lparr>wf_db := db, wf_final := q\<rparr>)))
      | COLLECT_MORE \<Rightarrow> (Inl (gap_decision_error ''COLLECT_MORE was not handled''), w))"

fun run_node ::
  "planner_agents \<Rightarrow> agent_context \<Rightarrow> node \<Rightarrow> workflow_state \<Rightarrow> unit result \<times> workflow_state" where
  "run_node ag ctx collect_initial_evidence w = add_round ag 1 None w"
| "run_node ag ctx assess_initial_gap w = run_gap_handler ag True w"
| "run_node ag ctx collect_follow_up_evidence w =
     add_round ag 2 (case wf_decision w of Some d \<Rightarrow> gd_follow_up d | None \<Rightarrow> None) w"
| "run_node ag ctx assess_final_gap w = run_gap_handler ag False w"
| "run_node ag ctx commit_plan w = commit_with ag ctx None w"
| "run_node ag ctx resolve_gap w =
     (case wf_decision w of
        None \<Rightarrow> (Inl (OtherException ''KeyError'' ''gap_decision''), w)
      | Some d \<Rightarrow> resolve_gap_decision ag ctx d w)"

definition route_initial_evidence :: "workflow_state \<Rightarrow> node" where
  "route_initial_evidence w =
     (case wf_rounds w of
        r # _ \<Rightarrow> if evidence_is_ready_for_commit (er_collector_results r) then commit_plan
                 else assess_initial_gap
      | [] \<Rightarrow> assess_initial_gap)"

definition route_initial_gap :: "workflow_state \<Rightarrow> node" where
  "route_initial_gap w =
     (case wf_decision w of
        Some d \<Rightarrow> if gd_action d = COLLECT_MORE then collect_follow_up_evidence else resolve_gap
      | None \<Rightarrow> resolve_gap)"

fun next_node :: "node \<Rightarrow> workflow_state \<Rightarrow> node option" where
  "next_node collect_initial_evidence w = Some (route_initial_evidence w)"
| "next_node assess_initial_gap w = Some (route_initial_gap w)"
| "next_node collect_follow_up_evidence w = Some assess_final_gap"
| "next_node assess_final_gap w = Some resolve_gap"
| "next_node commit_plan w = None"
| "next_node resolve_gap w = None"

text \<open>The run of the graph from a node; fuel bounds the number of nodes.\<close>

fun run_graph ::
  "nat \<Rightarrow> planner_agents \<Rightarrow> agent_context \<Rightarrow> node \<Rightarrow> workflow_state
   \<Rightarrow> (unit result \<times> workflow_state) option" where
  "run_graph 0 ag ctx nd w = None"
| "run_graph (Suc n) ag ctx nd w =
     (case run_node ag ctx nd w of
        (Inl e, w') \<Rightarrow> Some (Inl e, w')
      | (Inr _, w') \<Rightarrow>
          (case next_node nd w' of
             None \<Rightarrow> Some (Inr (), w')
           | Some nd' \<Rightarrow> run_graph n ag ctx nd' w'))"

definition initial_workflow :: "db \<Rightarrow> workflow_state" where
  "initial_workflow db = \<lparr>wf_rounds = [], wf_decision = None, wf_final = None, wf_db = db\<rparr>"

text \<open>\<open>PlannerAgentRunner.run\<close>: five nodes are always enough (shown in the properties).\<close>

definition planner_run ::
  "planner_agents \<Rightarrow> agent_context \<Rightarrow> db \<Rightarrow> string option result \<times> db" where
  "planner_run ag ctx db =
     (case run_graph 5 ag ctx collect_initial_evidence (initial_workflow db) of
        None \<Rightarrow> (Inl (OtherException ''GraphRecursionError'' []), db)
      | Some (Inl e, w) \<Rightarrow> (Inl e, wf_db w)
      | Some (Inr _, w) \<Rightarrow> (Inr (wf_final w), wf_db w))"

end
