(* ===== verification/Tool_Catalog.thy ===== *)
theory Tool_Catalog
  imports Executors Context_Query Operations_Tools Planner_Workflow
begin

text \<open>
  Which agent sees which tool: the descriptors (agent_runtime/descriptors.py), the catalogs of the
  documents, contexts, operations and of planning (agent_tools/catalog.py of the modules), and the
  agents built on them (agents/collectors.py, planner.py, gap_handler.py, document_executors.py).  A
  function tool is identified by the handler it wraps; its name is the one its decorator gives it.
  Chinese texts are lists of code points.
\<close>

section \<open>Function tools\<close>

datatype document_tool =
    Get_Document_Tool | List_Documents_Tool | Search_Documents_Tool
  | Get_Document_Pipeline_State_Tool | List_Document_Artifacts_Tool
  | Search_Document_Artifacts_Tool | List_Parent_Blocks_Tool | List_Child_Chunks_Tool
  | Get_Document_Chunk_Statistics_Tool | Get_Knowledge_Base_Statistics_Tool
  | Process_Document_Tool | Build_Document_Chunks_Tool | Index_Document_Vectors_Tool

datatype context_tool =
    Get_Conversation_Turn_Tool | List_Conversation_Turns_Tool | Get_Context_Chain_Tool
  | List_Context_Chains_Tool | List_Context_Chain_Nodes_Tool
  | List_Context_Chain_Resources_Tool | List_Context_Selection_Records_Tool

datatype operations_tool =
    Query_Document_Log_Events_Tool | Get_Document_Operation_Timeline_Tool
  | Get_Document_Workflow_Timeline_Tool | Query_Document_Business_Logs_Tool
  | Get_Document_Execution_Timeline_Tool | Get_Document_Failure_Timeline_Tool
  | Query_Agent_Tool_Audits_Tool | Get_Task_Tool_Timeline_Tool
  | Get_Agent_Run_Tool_Timeline_Tool

datatype planning_tool =
    Create_Process_Document_Task_Tool | Create_Build_Chunks_Task_Tool
  | Create_Index_Vectors_Task_Tool | Finalize_Plan_Tool | Mark_Plan_Unsupported_Tool

datatype collector_tool =
    Collect_Document_Information_Tool | Collect_Context_Information_Tool
  | Collect_Operation_Information_Tool

datatype lookup_tool =
    Search_Business_Docs_Tool | List_Evidence_Tools_Tool | Find_Evidence_Tools_Tool

datatype function_tool =
    Document_Tool document_tool | Context_Tool context_tool | Operations_Tool operations_tool
  | Planning_Tool planning_tool | Collector_Tool collector_tool | Lookup_Tool lookup_tool

fun document_tool_name :: "document_tool \<Rightarrow> string" where
  "document_tool_name Get_Document_Tool = ''get_document''"
| "document_tool_name List_Documents_Tool = ''list_documents''"
| "document_tool_name Search_Documents_Tool = ''search_documents''"
| "document_tool_name Get_Document_Pipeline_State_Tool = ''get_document_pipeline_state''"
| "document_tool_name List_Document_Artifacts_Tool = ''list_document_artifacts''"
| "document_tool_name Search_Document_Artifacts_Tool = ''search_document_artifacts''"
| "document_tool_name List_Parent_Blocks_Tool = ''list_parent_blocks''"
| "document_tool_name List_Child_Chunks_Tool = ''list_child_chunks''"
| "document_tool_name Get_Document_Chunk_Statistics_Tool = ''get_document_chunk_statistics''"
| "document_tool_name Get_Knowledge_Base_Statistics_Tool = ''get_knowledge_base_statistics''"
| "document_tool_name Process_Document_Tool = ''process_document''"
| "document_tool_name Build_Document_Chunks_Tool = ''build_document_chunks''"
| "document_tool_name Index_Document_Vectors_Tool = ''index_document_vectors''"

fun context_tool_name :: "context_tool \<Rightarrow> string" where
  "context_tool_name Get_Conversation_Turn_Tool = ''get_conversation_turn''"
| "context_tool_name List_Conversation_Turns_Tool = ''list_conversation_turns''"
| "context_tool_name Get_Context_Chain_Tool = ''get_context_chain''"
| "context_tool_name List_Context_Chains_Tool = ''list_context_chains''"
| "context_tool_name List_Context_Chain_Nodes_Tool = ''list_context_chain_nodes''"
| "context_tool_name List_Context_Chain_Resources_Tool = ''list_context_chain_resources''"
| "context_tool_name List_Context_Selection_Records_Tool = ''list_context_selection_records''"

fun operations_tool_name :: "operations_tool \<Rightarrow> string" where
  "operations_tool_name Query_Document_Log_Events_Tool = ''query_document_log_events''"
| "operations_tool_name Get_Document_Operation_Timeline_Tool = ''get_document_operation_timeline''"
| "operations_tool_name Get_Document_Workflow_Timeline_Tool = ''get_document_workflow_timeline''"
| "operations_tool_name Query_Document_Business_Logs_Tool = ''query_document_business_logs''"
| "operations_tool_name Get_Document_Execution_Timeline_Tool = ''get_document_execution_timeline''"
| "operations_tool_name Get_Document_Failure_Timeline_Tool = ''get_document_failure_timeline''"
| "operations_tool_name Query_Agent_Tool_Audits_Tool = ''query_agent_tool_audits''"
| "operations_tool_name Get_Task_Tool_Timeline_Tool = ''get_task_tool_timeline''"
| "operations_tool_name Get_Agent_Run_Tool_Timeline_Tool = ''get_agent_run_tool_timeline''"

fun planning_tool_name :: "planning_tool \<Rightarrow> string" where
  "planning_tool_name Create_Process_Document_Task_Tool = ''create_process_document_task''"
| "planning_tool_name Create_Build_Chunks_Task_Tool = ''create_build_chunks_task''"
| "planning_tool_name Create_Index_Vectors_Task_Tool = ''create_index_vectors_task''"
| "planning_tool_name Finalize_Plan_Tool = ''finalize_plan''"
| "planning_tool_name Mark_Plan_Unsupported_Tool = ''mark_plan_unsupported''"

fun collector_tool_name :: "collector_tool \<Rightarrow> string" where
  "collector_tool_name Collect_Document_Information_Tool = ''collect_document_information''"
| "collector_tool_name Collect_Context_Information_Tool = ''collect_context_information''"
| "collector_tool_name Collect_Operation_Information_Tool = ''collect_operation_information''"

fun lookup_tool_name :: "lookup_tool \<Rightarrow> string" where
  "lookup_tool_name Search_Business_Docs_Tool = ''search_business_docs''"
| "lookup_tool_name List_Evidence_Tools_Tool = ''list_evidence_tools''"
| "lookup_tool_name Find_Evidence_Tools_Tool = ''find_evidence_tools''"

fun tool_name :: "function_tool \<Rightarrow> string" where
  "tool_name (Document_Tool t) = document_tool_name t"
| "tool_name (Context_Tool t) = context_tool_name t"
| "tool_name (Operations_Tool t) = operations_tool_name t"
| "tool_name (Planning_Tool t) = planning_tool_name t"
| "tool_name (Collector_Tool t) = collector_tool_name t"
| "tool_name (Lookup_Tool t) = lookup_tool_name t"

section \<open>Descriptors and registrations\<close>

datatype operation_type = Query_Operation | Command_Operation | Workflow_Operation

datatype idempotency = Read_Only | State_Guarded | Idempotent | Non_Idempotent

record tool_descriptor =
  td_name :: string
  td_description :: utext
  td_operation_type :: operation_type
  td_side_effect :: bool
  td_idempotency :: idempotency
  td_required_permissions :: "string list"
  td_resource_types :: "string list"
  td_approval_required :: bool

record tool_registration =
  tg_tool :: function_tool
  tg_descriptor :: tool_descriptor

definition read_registration ::
  "string \<Rightarrow> function_tool \<Rightarrow> utext \<Rightarrow> string list \<Rightarrow> tool_registration" where
  "read_registration permission t description resource_types =
     \<lparr>tg_tool = t,
      tg_descriptor =
        \<lparr>td_name = tool_name t, td_description = description, td_operation_type = Query_Operation,
         td_side_effect = False, td_idempotency = Read_Only, td_required_permissions = [permission],
         td_resource_types = resource_types, td_approval_required = False\<rparr>\<rparr>"

text \<open>\<open>resource_types or ["document"]\<close>.\<close>

definition document_query_registration ::
  "document_tool \<Rightarrow> utext \<Rightarrow> string list option \<Rightarrow> tool_registration" where
  "document_query_registration t description resource_types =
     read_registration DOCUMENT_READ_PERMISSION (Document_Tool t) description
       (case resource_types of None \<Rightarrow> [''document''] | Some l \<Rightarrow> if l = [] then [''document''] else l)"

definition document_command_registration ::
  "document_tool \<Rightarrow> utext \<Rightarrow> string \<Rightarrow> tool_registration" where
  "document_command_registration t description permission =
     \<lparr>tg_tool = Document_Tool t,
      tg_descriptor =
        \<lparr>td_name = document_tool_name t, td_description = description,
         td_operation_type = Command_Operation, td_side_effect = True,
         td_idempotency = State_Guarded, td_required_permissions = [permission],
         td_resource_types = [''document''], td_approval_required = False\<rparr>\<rparr>"

definition context_registration ::
  "context_tool \<Rightarrow> utext \<Rightarrow> string list \<Rightarrow> tool_registration" where
  "context_registration t = read_registration CONTEXT_READ_PERMISSION (Context_Tool t)"

definition operations_registration ::
  "operations_tool \<Rightarrow> utext \<Rightarrow> string list \<Rightarrow> tool_registration" where
  "operations_registration t = read_registration OPERATIONS_READ_PERMISSION (Operations_Tool t)"

section \<open>The catalogs\<close>

definition DOCUMENT_COLLECTOR_CATALOG :: "tool_registration list" where
  "DOCUMENT_COLLECTOR_CATALOG =
    [document_query_registration Get_Document_Tool
       [33719, 21462, 25991, 26723, 23436, 25972, 29366, 24577]
       None,
     document_query_registration Search_Documents_Tool
       [25353, 39640, 32423, 26465, 20214, 26597, 35810, 25991, 26723]
       None,
     document_query_registration Get_Document_Pipeline_State_Tool
       [33719, 21462, 25991, 26723, 22788, 29702, 12289, 20999, 22359, 21644, 32034, 24341, 29366, 24577]
       None,
     document_query_registration List_Document_Artifacts_Tool
       [21015, 20986, 25991, 26723, 27966, 29983, 20135, 29289]
       None,
     document_query_registration Search_Document_Artifacts_Tool
       [25353, 39640, 32423, 26465, 20214, 26597, 35810, 25991, 26723, 27966, 29983, 20135, 29289]
       (Some [''document'', ''document_artifact'']),
     document_query_registration List_Parent_Blocks_Tool
       [26597, 35810, 29238, 32423, 35821, 20041, 22359, 26126, 32454]
       (Some [''document'', ''parent_block'']),
     document_query_registration List_Child_Chunks_Tool
       [26597, 35810, 21487, 21521, 37327, 21270, 23376, 22359, 26126, 32454]
       (Some [''document'', ''parent_block'', ''child_chunk'']),
     document_query_registration Get_Document_Chunk_Statistics_Tool
       [33719, 21462, 25991, 26723, 20999, 22359, 19982, 21521, 37327, 29366, 24577, 32479, 35745]
       (Some [''document'', ''parent_block'', ''child_chunk'']),
     document_query_registration Get_Knowledge_Base_Statistics_Tool
       [33719, 21462, 30693, 35782, 24211, 25991, 26723, 19982, 20999, 22359, 32479, 35745]
       (Some [''knowledge_base'', ''document'', ''child_chunk''])]"

definition DOCUMENT_PROCESS_EXECUTOR_CATALOG :: "tool_registration list" where
  "DOCUMENT_PROCESS_EXECUTOR_CATALOG =
    [document_query_registration Get_Document_Tool
       [33719, 21462, 25991, 26723, 23436, 25972, 29366, 24577]
       None,
     document_query_registration Get_Document_Pipeline_State_Tool
       [33719, 21462, 25991, 26723, 22788, 29702, 12289, 20999, 22359, 21644, 32034, 24341, 29366, 24577]
       None,
     document_command_registration Process_Document_Tool
       [22788, 29702, 25110, 36716, 25442, 25991, 26723] DOCUMENT_PROCESS_PERMISSION]"

definition DOCUMENT_BUILD_CHUNKS_EXECUTOR_CATALOG :: "tool_registration list" where
  "DOCUMENT_BUILD_CHUNKS_EXECUTOR_CATALOG =
    [document_query_registration Get_Document_Tool
       [33719, 21462, 25991, 26723, 23436, 25972, 29366, 24577]
       None,
     document_query_registration Get_Document_Pipeline_State_Tool
       [33719, 21462, 25991, 26723, 22788, 29702, 12289, 20999, 22359, 21644, 32034, 24341, 29366, 24577]
       None,
     document_query_registration Get_Document_Chunk_Statistics_Tool
       [33719, 21462, 25991, 26723, 20999, 22359, 19982, 21521, 37327, 29366, 24577, 32479, 35745]
       (Some [''document'', ''parent_block'', ''child_chunk'']),
     document_command_registration Build_Document_Chunks_Tool
       [26500, 24314, 25991, 26723, 29238, 22359, 21644, 23376, 22359] DOCUMENT_BUILD_CHUNKS_PERMISSION]"

definition DOCUMENT_INDEX_VECTORS_EXECUTOR_CATALOG :: "tool_registration list" where
  "DOCUMENT_INDEX_VECTORS_EXECUTOR_CATALOG =
    [document_query_registration Get_Document_Tool
       [33719, 21462, 25991, 26723, 23436, 25972, 29366, 24577]
       None,
     document_query_registration Get_Document_Pipeline_State_Tool
       [33719, 21462, 25991, 26723, 22788, 29702, 12289, 20999, 22359, 21644, 32034, 24341, 29366, 24577]
       None,
     document_query_registration Get_Document_Chunk_Statistics_Tool
       [33719, 21462, 25991, 26723, 20999, 22359, 19982, 21521, 37327, 29366, 24577, 32479, 35745]
       (Some [''document'', ''parent_block'', ''child_chunk'']),
     document_command_registration Index_Document_Vectors_Tool
       [29983, 25104, 24182, 20889, 20837, 25991, 26723, 21521, 37327] DOCUMENT_INDEX_VECTORS_PERMISSION]"

definition CONTEXT_COLLECTOR_CATALOG :: "tool_registration list" where
  "CONTEXT_COLLECTOR_CATALOG =
    [context_registration Get_Conversation_Turn_Tool
       [33719, 21462, 32, 67, 111, 110, 118, 101, 114, 115, 97, 116, 105, 111, 110, 32, 84, 117, 114, 110]
       [''turn''],
     context_registration List_Conversation_Turns_Tool
       [26597, 35810, 32, 67, 111, 110, 118, 101, 114, 115, 97, 116, 105, 111, 110, 32, 84, 117, 114, 110]
       [''turn''],
     context_registration Get_Context_Chain_Tool
       [33719, 21462, 32, 67, 111, 110, 116, 101, 120, 116, 32, 67, 104, 97, 105, 110]
       [''chain''],
     context_registration List_Context_Chains_Tool
       [26597, 35810, 32, 67, 111, 110, 116, 101, 120, 116, 32, 67, 104, 97, 105, 110]
       [''chain''],
     context_registration List_Context_Chain_Nodes_Tool
       [26597, 35810, 32, 67, 111, 110, 116, 101, 120, 116, 32, 67, 104, 97, 105, 110, 32, 78, 111, 100, 101]
       [''chain'', ''turn'', ''node''],
     context_registration List_Context_Chain_Resources_Tool
       [26597, 35810, 32, 67, 111, 110, 116, 101, 120, 116, 32, 67, 104, 97, 105, 110, 32, 82, 101, 115, 111, 117, 114, 99, 101]
       [''chain'', ''resource''],
     context_registration List_Context_Selection_Records_Tool
       [26597, 35810, 32, 67, 111, 110, 116, 101, 120, 116, 32, 83, 101, 108, 101, 99, 116, 105, 111, 110, 82, 101, 99, 111, 114, 100]
       [''conversation'', ''turn'', ''selection_record'']]"

definition OPERATIONS_COLLECTOR_CATALOG :: "tool_registration list" where
  "OPERATIONS_COLLECTOR_CATALOG =
    [operations_registration Query_Document_Log_Events_Tool
       [25353, 32479, 19968, 20851, 32852, 23383, 27573, 26597, 35810, 25991, 26723, 19994, 21153, 20107, 20214]
       [''workflow'', ''operation'', ''document'', ''business_log''],
     operations_registration Get_Document_Operation_Timeline_Tool
       [33719, 21462, 19968, 27425, 25991, 26723, 38454, 27573, 25805, 20316, 30340, 20107, 20214, 26102, 38388, 32447]
       [''operation'', ''document'', ''business_log''],
     operations_registration Get_Document_Workflow_Timeline_Tool
       [33719, 21462, 23436, 25972, 25991, 26723, 22788, 29702, 24037, 20316, 27969, 20107, 20214, 26102, 38388, 32447]
       [''workflow'', ''operation'', ''document'', ''business_log''],
     operations_registration Query_Document_Business_Logs_Tool
       [26597, 35810, 25991, 26723, 19994, 21153, 26085, 24535]
       [''document'', ''business_log''],
     operations_registration Get_Document_Execution_Timeline_Tool
       [33719, 21462, 25991, 26723, 25191, 34892, 26102, 38388, 32447]
       [''document'', ''business_log''],
     operations_registration Get_Document_Failure_Timeline_Tool
       [33719, 21462, 25991, 26723, 22833, 36133, 26102, 38388, 32447]
       [''document'', ''business_log''],
     operations_registration Query_Agent_Tool_Audits_Tool
       [26597, 35810, 32, 65, 103, 101, 110, 116, 32, 84, 111, 111, 108, 32, 23457, 35745]
       [''agent_run'', ''tool_audit''],
     operations_registration Get_Task_Tool_Timeline_Tool
       [33719, 21462, 32, 84, 97, 115, 107, 32, 84, 111, 111, 108, 32, 26102, 38388, 32447]
       [''task'', ''tool_audit''],
     operations_registration Get_Agent_Run_Tool_Timeline_Tool
       [33719, 21462, 32, 65, 103, 101, 110, 116, 32, 82, 117, 110, 32, 84, 111, 111, 108, 32, 26102, 38388, 32447]
       [''agent_run'', ''tool_audit'']]"

definition PLANNER_TOOLS :: "function_tool list" where
  "PLANNER_TOOLS =
     map Planning_Tool
       [Create_Process_Document_Task_Tool, Create_Build_Chunks_Task_Tool,
        Create_Index_Vectors_Task_Tool, Finalize_Plan_Tool, Mark_Plan_Unsupported_Tool]"

definition DOCUMENT_COLLECTOR_TOOLS :: "function_tool list" where
  "DOCUMENT_COLLECTOR_TOOLS = map tg_tool DOCUMENT_COLLECTOR_CATALOG"

definition CONTEXT_COLLECTOR_TOOLS :: "function_tool list" where
  "CONTEXT_COLLECTOR_TOOLS = map tg_tool CONTEXT_COLLECTOR_CATALOG"

definition OPERATIONS_COLLECTOR_TOOLS :: "function_tool list" where
  "OPERATIONS_COLLECTOR_TOOLS = map tg_tool OPERATIONS_COLLECTOR_CATALOG"

section \<open>Looking tools up\<close>

definition not_available :: "string \<Rightarrow> error" where
  "not_available m = OtherException ''ToolNotAvailableError'' m"

definition catalog_for_role :: "string \<Rightarrow> tool_registration list result" where
  "catalog_for_role role =
     (if role = ''document_collector'' then Inr DOCUMENT_COLLECTOR_CATALOG
      else Inl (not_available ''unknown Document Tool role''))"

definition DOCUMENT_EXECUTOR_CATALOGS :: "string \<rightharpoonup> tool_registration list" where
  "DOCUMENT_EXECUTOR_CATALOGS =
     [''document.process'' \<mapsto> DOCUMENT_PROCESS_EXECUTOR_CATALOG,
      ''document.build_chunks'' \<mapsto> DOCUMENT_BUILD_CHUNKS_EXECUTOR_CATALOG,
      ''document.index_vectors'' \<mapsto> DOCUMENT_INDEX_VECTORS_EXECUTOR_CATALOG]"

definition catalog_for_executor :: "string \<Rightarrow> tool_registration list result" where
  "catalog_for_executor capability =
     of_option (not_available ''unknown Document Executor Capability'')
       (DOCUMENT_EXECUTOR_CATALOGS capability)"

text \<open>The first registration with that name, as all resolving functions search it.\<close>

definition resolve_in :: "string \<Rightarrow> tool_registration list \<Rightarrow> function_tool result" where
  "resolve_in name catalog =
     (case find (\<lambda>r. td_name (tg_descriptor r) = name) catalog of
        Some r \<Rightarrow> Inr (tg_tool r)
      | None \<Rightarrow> Inl (not_available ''the tool is not registered''))"

definition get_document_tools :: "string \<Rightarrow> function_tool list result" where
  "get_document_tools role = bind (catalog_for_role role) (\<lambda>c. Inr (map tg_tool c))"

definition get_document_tool_descriptors :: "string \<Rightarrow> tool_descriptor list result" where
  "get_document_tool_descriptors role = bind (catalog_for_role role) (\<lambda>c. Inr (map tg_descriptor c))"

definition resolve_document_tool :: "string \<Rightarrow> string \<Rightarrow> function_tool result" where
  "resolve_document_tool role name = bind (catalog_for_role role) (resolve_in name)"

definition get_document_executor_tools :: "string \<Rightarrow> function_tool list result" where
  "get_document_executor_tools capability =
     bind (catalog_for_executor capability) (\<lambda>c. Inr (map tg_tool c))"

definition get_document_executor_tool_descriptors :: "string \<Rightarrow> tool_descriptor list result" where
  "get_document_executor_tool_descriptors capability =
     bind (catalog_for_executor capability) (\<lambda>c. Inr (map tg_descriptor c))"

definition resolve_document_executor_tool :: "string \<Rightarrow> string \<Rightarrow> function_tool result" where
  "resolve_document_executor_tool capability name =
     bind (catalog_for_executor capability) (resolve_in name)"

definition get_context_tool_descriptors :: "tool_descriptor list" where
  "get_context_tool_descriptors = map tg_descriptor CONTEXT_COLLECTOR_CATALOG"

definition get_operations_tool_descriptors :: "tool_descriptor list" where
  "get_operations_tool_descriptors = map tg_descriptor OPERATIONS_COLLECTOR_CATALOG"

text \<open>These two compare with the name of the tool, not of its descriptor.\<close>

definition resolve_by_tool_name :: "tool_registration list \<Rightarrow> string \<Rightarrow> function_tool result" where
  "resolve_by_tool_name catalog name =
     (case find (\<lambda>r. tool_name (tg_tool r) = name) catalog of
        Some r \<Rightarrow> Inr (tg_tool r)
      | None \<Rightarrow> Inl (not_available ''the tool is not registered''))"

definition resolve_context_tool :: "string \<Rightarrow> function_tool result" where
  "resolve_context_tool = resolve_by_tool_name CONTEXT_COLLECTOR_CATALOG"

definition resolve_operations_tool :: "string \<Rightarrow> function_tool result" where
  "resolve_operations_tool = resolve_by_tool_name OPERATIONS_COLLECTOR_CATALOG"

section \<open>The agents\<close>

text \<open>
  An agent as it is built: its tools and handoffs, the tools whose call ends a run, and whether it
  may call tools in parallel.  Instructions and the model are left out.
\<close>

record agent =
  ag_tools :: "function_tool list"
  ag_handoffs :: "string list"
  ag_stop_at :: "string list"
  ag_parallel :: bool

definition collector_agent :: "function_tool list \<Rightarrow> agent" where
  "collector_agent tools =
     \<lparr>ag_tools = tools, ag_handoffs = [], ag_stop_at = [], ag_parallel = False\<rparr>"

fun collector_agent_of :: "collector_tool \<Rightarrow> agent" where
  "collector_agent_of Collect_Document_Information_Tool = collector_agent DOCUMENT_COLLECTOR_TOOLS"
| "collector_agent_of Collect_Context_Information_Tool = collector_agent CONTEXT_COLLECTOR_TOOLS"
| "collector_agent_of Collect_Operation_Information_Tool = collector_agent OPERATIONS_COLLECTOR_TOOLS"

definition evidence_agent :: agent where
  "evidence_agent =
     \<lparr>ag_tools =
        map Collector_Tool
          [Collect_Document_Information_Tool, Collect_Context_Information_Tool,
           Collect_Operation_Information_Tool],
      ag_handoffs = [], ag_stop_at = [], ag_parallel = True\<rparr>"

definition gap_handler_agent :: agent where
  "gap_handler_agent =
     \<lparr>ag_tools =
        map Lookup_Tool [Search_Business_Docs_Tool, List_Evidence_Tools_Tool, Find_Evidence_Tools_Tool],
      ag_handoffs = [], ag_stop_at = [], ag_parallel = False\<rparr>"

definition commit_agent :: agent where
  "commit_agent =
     \<lparr>ag_tools = PLANNER_TOOLS, ag_handoffs = [''clarification_handoff''],
      ag_stop_at = [''finalize_plan'', ''mark_plan_unsupported''], ag_parallel = False\<rparr>"

definition clarification_agent :: agent where
  "clarification_agent =
     \<lparr>ag_tools = [], ag_handoffs = [], ag_stop_at = [], ag_parallel = False\<rparr>"

definition clone_executor :: "string \<Rightarrow> string \<Rightarrow> agent result" where
  "clone_executor capability primary_tool =
     bind (get_document_executor_tools capability)
       (\<lambda>tools. Inr \<lparr>ag_tools = tools, ag_handoffs = [], ag_stop_at = [primary_tool],
                     ag_parallel = False\<rparr>)"

record executor_agents =
  ea_process :: agent
  ea_build_chunks :: agent
  ea_index_vectors :: agent

definition build_document_executor_agents :: "executor_agents result" where
  "build_document_executor_agents =
     bind (clone_executor ''document.process'' ''process_document'') (\<lambda>p.
     bind (clone_executor ''document.build_chunks'' ''build_document_chunks'') (\<lambda>c.
     bind (clone_executor ''document.index_vectors'' ''index_document_vectors'') (\<lambda>i.
     Inr \<lparr>ea_process = p, ea_build_chunks = c, ea_index_vectors = i\<rparr>)))"

definition require_executor :: "executor_agents \<Rightarrow> string \<Rightarrow> agent result" where
  "require_executor agents code =
     of_option (not_available ''unknown Document Executor'')
       ([''document.process'' \<mapsto> ea_process agents,
         ''document.build_chunks'' \<mapsto> ea_build_chunks agents,
         ''document.index_vectors'' \<mapsto> ea_index_vectors agents] code)"

end
