(* ===== verification/Tool_Search.thy ===== *)
theory Tool_Search
  imports Tool_Catalog
begin

text \<open>
  The two look-ups the gap handler has: the registry of evidence tools
  (agent_runtime/tool_registry.py) and the sections of the business documents
  (agent_runtime/business_docs.py).  \<open>str.casefold\<close> replaces each
  code point by the texts of a Unicode table, which is an argument.  The Markdown files are the list of their
  names without suffix and their texts, in the order of their paths.
\<close>

section \<open>Search terms\<close>

definition u_casefold :: "(int \<Rightarrow> utext) \<Rightarrow> utext \<Rightarrow> utext" where
  "u_casefold cf t = concat (map cf t)"

definition word_code :: "int \<Rightarrow> bool" where
  "word_code c \<longleftrightarrow> 48 \<le> c \<and> c \<le> 57 \<or> 65 \<le> c \<and> c \<le> 90 \<or> c = 95 \<or> 97 \<le> c \<and> c \<le> 122"

definition han_code :: "int \<Rightarrow> bool" where
  "han_code c \<longleftrightarrow> 19968 \<le> c \<and> c \<le> 40959"

text \<open>
  \<open>findall\<close> of the pattern: the runs of word characters and the runs of Chinese characters, each as
  long as it can be.
\<close>

function term_tokens :: "utext \<Rightarrow> utext list" where
  "term_tokens [] = []"
| "term_tokens (c # cs) =
     (if word_code c then (c # takeWhile word_code cs) # term_tokens (dropWhile word_code cs)
      else if han_code c then (c # takeWhile han_code cs) # term_tokens (dropWhile han_code cs)
      else term_tokens cs)"
  by pat_completeness auto
termination term_tokens
  by (relation "measure length") (auto simp: le_imp_less_Suc length_dropWhile_le)

definition u_isascii :: "utext \<Rightarrow> bool" where
  "u_isascii t \<longleftrightarrow> list_all (\<lambda>c. c < 128) t"

definition bigrams :: "utext \<Rightarrow> utext list" where
  "bigrams t = map (\<lambda>i. take 2 (drop i t)) [0..<length t - 1]"

definition token_terms :: "utext \<Rightarrow> utext list" where
  "token_terms t =
     t # (if u_isascii t then filter (\<lambda>p. p \<noteq> []) (u_split 95 t)
          else if 2 < length t then bigrams t else [])"

text \<open>A set in the code; here the list of its elements, each once.\<close>

definition search_terms :: "(int \<Rightarrow> utext) \<Rightarrow> utext \<Rightarrow> utext list" where
  "search_terms cf value =
     filter (\<lambda>t. u_strip t \<noteq> []) (remdups (concat (map token_terms (term_tokens (u_casefold cf value)))))"

definition matched_terms :: "utext list \<Rightarrow> utext \<Rightarrow> int" where
  "matched_terms terms searchable = int (length (filter (\<lambda>t. contains t searchable) terms))"

section \<open>The registry of evidence tools\<close>

datatype evidence_catalog = Document_Catalog | Context_Catalog | Operations_Catalog

fun evidence_catalog_value :: "evidence_catalog \<Rightarrow> string" where
  "evidence_catalog_value Document_Catalog = ''document''"
| "evidence_catalog_value Context_Catalog = ''context''"
| "evidence_catalog_value Operations_Catalog = ''operations''"

record evidence_tool_view =
  ev_catalog :: evidence_catalog
  ev_descriptor :: tool_descriptor

text \<open>The role is a registered one, so its catalog is there.\<close>

definition list_evidence_tool_views :: "evidence_catalog option \<Rightarrow> evidence_tool_view list" where
  "list_evidence_tool_views catalog =
     concat (map (\<lambda>(source, ds). map (\<lambda>d. \<lparr>ev_catalog = source, ev_descriptor = d\<rparr>) ds)
       (filter (\<lambda>(source, ds). catalog = None \<or> Some source = catalog)
         [(Document_Catalog,
           (case get_document_tool_descriptors ''document_collector'' of Inl e \<Rightarrow> [] | Inr ds \<Rightarrow> ds)),
          (Context_Catalog, get_context_tool_descriptors),
          (Operations_Catalog, get_operations_tool_descriptors)]))"

definition list_evidence_tools_handler :: "evidence_catalog option \<Rightarrow> evidence_tool_view list" where
  "list_evidence_tools_handler catalog = list_evidence_tool_views catalog"

record find_tools_input =
  fi_query :: utext
  fi_catalog :: "evidence_catalog option"
  fi_limit :: int

definition valid_find_input :: "find_tools_input \<Rightarrow> bool" where
  "valid_find_input i \<longleftrightarrow>
     1 \<le> length (fi_query i) \<and> length (fi_query i) \<le> 1000 \<and> 1 \<le> fi_limit i \<and> fi_limit i \<le> 25"

text \<open>\<open>re.fullmatch(r"[a-z0-9_]+", query)\<close>.\<close>

definition identifier_query :: "utext \<Rightarrow> bool" where
  "identifier_query q \<longleftrightarrow>
     q \<noteq> [] \<and> list_all (\<lambda>c. 97 \<le> c \<and> c \<le> 122 \<or> 48 \<le> c \<and> c \<le> 57 \<or> c = 95) q"

definition tool_searchable :: "(int \<Rightarrow> utext) \<Rightarrow> tool_descriptor \<Rightarrow> utext" where
  "tool_searchable cf d =
     u_casefold cf (u_join [10] (u_ascii (td_name d) # td_description d # map u_ascii (td_resource_types d)))"

definition tool_score :: "(int \<Rightarrow> utext) \<Rightarrow> utext \<Rightarrow> utext list \<Rightarrow> tool_descriptor \<Rightarrow> int" where
  "tool_score cf q terms d =
     (if q = u_casefold cf (u_ascii (td_name d)) then 100 else 0) +
     (if q \<noteq> [] \<and> contains q (tool_searchable cf d) then 50 else 0) +
     matched_terms terms (tool_searchable cf d)"

definition tool_skipped :: "(int \<Rightarrow> utext) \<Rightarrow> utext \<Rightarrow> tool_descriptor \<Rightarrow> bool" where
  "tool_skipped cf q d \<longleftrightarrow>
     identifier_query q \<and> \<not> contains q (u_casefold cf (u_ascii (td_name d)))"

text \<open>The ranked matches; the sort is stable.\<close>

definition rank_key :: "int \<times> evidence_tool_view \<Rightarrow> int \<times> string \<times> string" where
  "rank_key r =
     (- fst r, evidence_catalog_value (ev_catalog (snd r)), td_name (ev_descriptor (snd r)))"

definition ranked_tools ::
  "(int \<Rightarrow> utext) \<Rightarrow> utext \<Rightarrow> evidence_tool_view list \<Rightarrow> (int \<times> evidence_tool_view) list" where
  "ranked_tools cf q views =
     sort_key rank_key
       (filter (\<lambda>(score, v). score \<noteq> 0)
         (map (\<lambda>v. (tool_score cf q (search_terms cf q) (ev_descriptor v), v))
           (filter (\<lambda>v. \<not> tool_skipped cf q (ev_descriptor v)) views)))"

definition find_evidence_tools_handler ::
  "(int \<Rightarrow> utext) \<Rightarrow> find_tools_input \<Rightarrow> evidence_tool_view list" where
  "find_evidence_tools_handler cf i =
     take (nat (fi_limit i))
       (map snd (ranked_tools cf (u_strip (u_casefold cf (fi_query i)))
         (list_evidence_tool_views (fi_catalog i))))"

section \<open>Business documents\<close>

record doc_section =
  sec_document :: utext
  sec_heading :: utext
  sec_content :: utext

text \<open>\<open>append_section\<close>: the lines collected so far, unless they are blank.\<close>

definition section_of :: "utext \<Rightarrow> utext \<Rightarrow> utext list \<Rightarrow> doc_section list" where
  "section_of doc h body =
     (let content = u_strip (u_join [10] body)
      in if content = [] then []
         else [\<lparr>sec_document = doc, sec_heading = h, sec_content = content\<rparr>])"

text \<open>\<open>line.lstrip("#").strip() or path.stem\<close>.\<close>

definition heading_of :: "utext \<Rightarrow> utext \<Rightarrow> utext" where
  "heading_of stem line =
     (let t = u_strip (dropWhile (\<lambda>c. c = 35) line) in if t = [] then stem else t)"

definition heading_line :: "utext \<Rightarrow> bool" where
  "heading_line line \<longleftrightarrow> take 1 line = [35]"

fun scan_sections ::
  "utext \<Rightarrow> utext \<Rightarrow> utext \<Rightarrow> utext list \<Rightarrow> utext list \<Rightarrow> doc_section list" where
  "scan_sections doc stem h body [] = section_of doc h body"
| "scan_sections doc stem h body (l # ls) =
     (if heading_line l
      then section_of doc h body @ scan_sections doc stem (heading_of stem l) [] ls
      else scan_sections doc stem h (body @ [l]) ls)"

definition file_sections :: "utext \<times> utext \<Rightarrow> doc_section list" where
  "file_sections f =
     scan_sections (fst f @ u_ascii ''.md'') (fst f) (fst f) [] (u_splitlines (snd f))"

text \<open>\<open>None\<close>: the directory is missing.  The answer is cached, so the files are those of the first call.\<close>

definition load_business_doc_sections ::
  "(utext \<times> utext) list option \<Rightarrow> doc_section list result" where
  "load_business_doc_sections files =
     (case files of
        None \<Rightarrow> Inl (RuntimeError ''the directory of business docs does not exist'')
      | Some fs \<Rightarrow>
          let sections = concat (map file_sections fs)
          in if sections = [] then Inl (RuntimeError ''no Markdown content to search'')
             else Inr sections)"

definition load_service_map :: "utext option \<Rightarrow> utext result" where
  "load_service_map file =
     (case file of
        None \<Rightarrow> Inl (RuntimeError ''the service map cannot be read'')
      | Some t \<Rightarrow> if u_strip t = [] then Inl (RuntimeError ''the service map is empty'')
          else Inr (u_strip t))"

record search_docs_input =
  sd_query :: utext
  sd_limit :: int

definition valid_docs_input :: "search_docs_input \<Rightarrow> bool" where
  "valid_docs_input i \<longleftrightarrow>
     1 \<le> length (sd_query i) \<and> length (sd_query i) \<le> 1000 \<and> 1 \<le> sd_limit i \<and> sd_limit i \<le> 8"

definition section_searchable :: "(int \<Rightarrow> utext) \<Rightarrow> doc_section \<Rightarrow> utext" where
  "section_searchable cf s =
     u_casefold cf (sec_document s @ [10] @ sec_heading s @ [10] @ sec_content s)"

definition required_terms :: "utext list \<Rightarrow> int" where
  "required_terms terms = max 1 (min 3 ((int (length terms) + 2) div 3))"

definition exact_match :: "(int \<Rightarrow> utext) \<Rightarrow> utext \<Rightarrow> doc_section \<Rightarrow> bool" where
  "exact_match cf q s \<longleftrightarrow> q \<noteq> [] \<and> contains q (section_searchable cf s)"

definition section_matches :: "(int \<Rightarrow> utext) \<Rightarrow> utext \<Rightarrow> doc_section \<Rightarrow> bool" where
  "section_matches cf q s \<longleftrightarrow>
     exact_match cf q s \<or>
     required_terms (search_terms cf q) \<le>
       matched_terms (search_terms cf q) (section_searchable cf s)"

definition section_score :: "(int \<Rightarrow> utext) \<Rightarrow> utext \<Rightarrow> doc_section \<Rightarrow> int" where
  "section_score cf q s =
     (if exact_match cf q s then 100 else 0) +
     matched_terms (search_terms cf q) (section_searchable cf s)"

definition section_key :: "int \<times> doc_section \<Rightarrow> int \<times> utext \<times> utext" where
  "section_key r = (- fst r, sec_document (snd r), sec_heading (snd r))"

definition ranked_sections ::
  "(int \<Rightarrow> utext) \<Rightarrow> utext \<Rightarrow> doc_section list \<Rightarrow> (int \<times> doc_section) list" where
  "ranked_sections cf q sections =
     sort_key section_key
       (map (\<lambda>s. (section_score cf q s, s)) (filter (section_matches cf q) sections))"

definition search_business_docs_handler ::
  "(int \<Rightarrow> utext) \<Rightarrow> (utext \<times> utext) list option \<Rightarrow> search_docs_input \<Rightarrow> doc_section list result" where
  "search_business_docs_handler cf files i =
     bind (load_business_doc_sections files)
       (\<lambda>sections. Inr (take (nat (sd_limit i))
          (map snd (ranked_sections cf (u_strip (u_casefold cf (sd_query i))) sections))))"

end
