(* ===== verification/Tool_Properties.thy ===== *)
theory Tool_Properties
  imports Tool_Search
begin

text \<open>
  What the agents can reach with their tools, and what the two look-ups return: terms of a query occur
  in it, the name of a tool finds that tool first, no visible text of a business document is lost
  when it is cut into sections.
\<close>

section \<open>Substrings\<close>

lemma contains_iff: "contains s t \<longleftrightarrow> (\<exists>a b. t = a @ s @ b)"
proof (induction s t rule: contains.induct)
  case (2 s c t)
  have "take (length s) (c # t) = s \<longleftrightarrow> (\<exists>b. c # t = s @ b)"
    by (metis append_eq_conv_conj append_take_drop_id)
  moreover have "(\<exists>a b. c # t = a @ s @ b) \<longleftrightarrow> (\<exists>b. c # t = s @ b) \<or> (\<exists>a b. t = a @ s @ b)"
    by (metis append_Cons append_eq_Cons_conv append_self_conv2)
  ultimately show ?case using 2 by simp
qed simp

lemma contains_refl [simp]: "contains t t"
  by (auto simp: contains_iff intro: exI [of _ "[]"])

lemma contains_trans: "contains r s \<Longrightarrow> contains s t \<Longrightarrow> contains r t"
  by (auto simp: contains_iff) (metis append_assoc)

lemma contains_appendI1: "contains s t \<Longrightarrow> contains s (t @ u)"
  by (auto simp: contains_iff) (metis append_assoc)

lemma contains_appendI2: "contains s u \<Longrightarrow> contains s (t @ u)"
  by (auto simp: contains_iff) (metis append_assoc)

lemma contains_ConsI: "contains s t \<Longrightarrow> contains s (c # t)"
  using contains_appendI2 [of s t "[c]"] by simp

lemma contains_take_drop: "contains (take n (drop i t)) t"
  by (metis append_take_drop_id contains_iff)

section \<open>Search terms\<close>

lemma split_parts:
  "\<exists>q qs b. u_split s t = q # qs \<and> t = q @ b \<and> (\<forall>p\<in>set qs. contains p t)"
proof (induction s t rule: u_split.induct)
  case (2 s c cs)
  then obtain q qs b where sp: "u_split s cs = q # qs" "cs = q @ b" "\<forall>p\<in>set qs. contains p cs"
    by blast
  have "contains q cs" using sp(2) by (auto intro: contains_appendI1)
  then show ?case using sp by (cases "c = s") (auto intro: contains_ConsI)
qed simp

lemma contains_split: "p \<in> set (u_split s t) \<Longrightarrow> contains p t"
  using split_parts [of s t] contains_appendI1 [OF contains_refl] by fastforce

lemma term_tokens_contained: "k \<in> set (term_tokens t) \<Longrightarrow> contains k t"
proof (induction t rule: term_tokens.induct)
  case (2 c cs)
  have run: "contains (c # takeWhile P cs) (c # cs)" for P
    unfolding contains_iff by (metis append.left_neutral append_Cons takeWhile_dropWhile_id)
  have rest: "contains k (dropWhile P cs) \<Longrightarrow> contains k (c # cs)" for P
    by (rule contains_ConsI) (metis contains_appendI2 takeWhile_dropWhile_id)
  consider "word_code c" | "\<not> word_code c" "han_code c" | "\<not> word_code c" "\<not> han_code c" by blast
  then show ?case
  proof cases
    case 1
    then have "k = c # takeWhile word_code cs \<or> k \<in> set (term_tokens (dropWhile word_code cs))"
      using 2 by simp
    then show ?thesis using 1 2 run rest by metis
  next
    case 2
    then have "k = c # takeWhile han_code cs \<or> k \<in> set (term_tokens (dropWhile han_code cs))"
      using \<open>k \<in> _\<close> by simp
    then show ?thesis using 2 "2.IH" run rest by metis
  next
    case 3
    then show ?thesis using 2 by (auto intro: contains_ConsI)
  qed
qed simp

lemma token_terms_contained: "p \<in> set (token_terms k) \<Longrightarrow> contains p k"
  by (auto simp: token_terms_def bigrams_def contains_take_drop dest: contains_split split: if_splits)

lemma search_terms_contained:
  assumes "p \<in> set (search_terms cf v)"
  shows "contains p (u_casefold cf v)"
  using assms term_tokens_contained token_terms_contained contains_trans
  by (fastforce simp: search_terms_def)

lemma matched_terms_all:
  assumes "\<forall>p\<in>set ts. contains p t"
  shows "matched_terms ts t = int (length ts)"
  using assms by (simp add: matched_terms_def)

lemma matched_terms_bounds: "0 \<le> matched_terms ts t" "matched_terms ts t \<le> int (length ts)"
  by (auto simp: matched_terms_def length_filter_le)

named_theorems catalog_defs \<open>the catalogs and the functions that read them\<close>

lemmas [catalog_defs] =
  get_document_executor_tool_descriptors_def get_document_executor_tools_def
  catalog_for_executor_def DOCUMENT_EXECUTOR_CATALOGS_def DOCUMENT_PROCESS_EXECUTOR_CATALOG_def
  DOCUMENT_BUILD_CHUNKS_EXECUTOR_CATALOG_def DOCUMENT_INDEX_VECTORS_EXECUTOR_CATALOG_def
  DOCUMENT_COLLECTOR_CATALOG_def CONTEXT_COLLECTOR_CATALOG_def OPERATIONS_COLLECTOR_CATALOG_def
  document_query_registration_def document_command_registration_def context_registration_def
  operations_registration_def read_registration_def

section \<open>The name of a tool\<close>

lemma id_codes_fold:
  assumes "\<forall>c. word_code c \<and> \<not> (65 \<le> c \<and> c \<le> 90) \<longrightarrow> cf c = [c]" "identifier_query q"
  shows "u_casefold cf q = q"
proof -
  have "list_all (\<lambda>c. cf c = [c]) q"
    using assms by (auto simp: identifier_query_def word_code_def list_all_iff)
  then show ?thesis by (induction q) (auto simp: u_casefold_def)
qed

lemma casefold_append: "u_casefold cf (a @ b) = u_casefold cf a @ u_casefold cf b"
  by (simp add: u_casefold_def)

lemma views_of_catalog:
  "list_evidence_tool_views (Some k) =
     filter (\<lambda>v. ev_catalog v = k) (list_evidence_tool_views None)"
  by (cases k) (simp_all add: list_evidence_tool_views_def filter_map o_def)

lemma all_names:
  "list_all (\<lambda>v. identifier_query (u_ascii (td_name (ev_descriptor v)))) (list_evidence_tool_views None)"
  "distinct (map (\<lambda>v. td_name (ev_descriptor v)) (list_evidence_tool_views None))"
  by (simp_all add: list_evidence_tool_views_def get_document_tool_descriptors_def catalog_for_role_def
      get_context_tool_descriptors_def get_operations_tool_descriptors_def catalog_defs
      identifier_query_def u_ascii_def)

lemma registered_names:
  assumes "v \<in> set (list_evidence_tool_views c)"
  shows "v \<in> set (list_evidence_tool_views None)"
    "identifier_query (u_ascii (td_name (ev_descriptor v)))"
  using assms all_names(1) by (cases c; auto simp: views_of_catalog list_all_iff)+

lemma registered_name_unique:
  assumes "v \<in> set (list_evidence_tool_views c)" "w \<in> set (list_evidence_tool_views c)"
    "td_name (ev_descriptor v) = td_name (ev_descriptor w)"
  shows "v = w"
  using registered_names(1) [OF assms(1)] registered_names(1) [OF assms(2)] assms(3) all_names(2)
  by (auto simp: distinct_map dest: inj_onD)

lemma u_ascii_inject: "u_ascii s = u_ascii t \<longleftrightarrow> s = t"
  unfolding u_ascii_def by (rule inj_map_eq_map) (rule inj_onI, simp)

lemma sort_key_first:
  assumes "x \<in> set xs" "\<And>y. y \<in> set xs \<Longrightarrow> y \<noteq> x \<Longrightarrow> f x < f y"
  shows "\<exists>ys. sort_key f xs = x # ys"
proof -
  obtain y ys where s: "sort_key f xs = y # ys"
    by (cases "sort_key f xs") (use assms(1) in \<open>metis empty_iff list.set(1) set_sort\<close>)
  then have y: "y \<in> set xs" by (metis list.set_intros(1) set_sort)
  have "sorted (map f (y # ys))" by (metis s sorted_sort_key)
  moreover have "x \<in> set (y # ys)" by (metis assms(1) s set_sort)
  ultimately have "f y \<le> f x" by auto
  then have "y = x" using assms(2) [OF y] by (meson leD)
  then show ?thesis using s by blast
qed

lemma distinct_views: "distinct (list_evidence_tool_views c)"
  using all_names(2) by (cases c) (auto simp: views_of_catalog distinct_map)

lemma sort_key_first_snd:
  assumes "sort_key f xs = x # ys" "distinct (map snd xs)" "y \<in> set ys"
  shows "y \<in> set xs" "snd y \<noteq> snd x"
proof -
  have "set (sort_key f xs) = set xs" by simp
  then show "y \<in> set xs" using assms by auto
  have "distinct (map snd (sort_key f xs))" using assms(2) by (simp add: distinct_map)
  then show "snd y \<noteq> snd x" using assms(1,3) by (force simp: image_iff)
qed

lemma name_in_searchable:
  "contains (u_casefold cf (u_ascii (td_name d))) (tool_searchable cf d)"
  unfolding tool_searchable_def u_join_def by (simp add: casefold_append contains_appendI1)

text \<open>
  A query that is the name of a registered tool, in any case and with any white space around
  it, is answered with that tool first, whatever else the query matches; and every other tool in the
  answer has the name as a part of its own.  \<open>casefold\<close> must leave digits, underscores and lower-case
  letters alone.
\<close>

theorem find_tool_by_name:
  assumes fold: "\<forall>c. word_code c \<and> \<not> (65 \<le> c \<and> c \<le> 90) \<longrightarrow> cf c = [c]"
    and v: "v \<in> set (list_evidence_tool_views (fi_catalog i))"
    and query: "u_strip (u_casefold cf (fi_query i)) = u_ascii (td_name (ev_descriptor v))"
    and valid: "valid_find_input i"
  shows "\<exists>vs. find_evidence_tools_handler cf i = v # vs \<and>
    (\<forall>w\<in>set vs. w \<noteq> v \<and> contains (u_ascii (td_name (ev_descriptor v))) (u_ascii (td_name (ev_descriptor w))))"
proof -
  let ?views = "list_evidence_tool_views (fi_catalog i)"
  let ?q = "u_ascii (td_name (ev_descriptor v))"
  let ?ts = "search_terms cf ?q"
  let ?score = "\<lambda>w. tool_score cf ?q ?ts (ev_descriptor w)"
  let ?xs = "filter (\<lambda>(score, w). score \<noteq> 0)
    (map (\<lambda>w. (?score w, w)) (filter (\<lambda>w. \<not> tool_skipped cf ?q (ev_descriptor w)) ?views))"
  have name: "u_casefold cf (u_ascii (td_name (ev_descriptor w))) = u_ascii (td_name (ev_descriptor w))"
    if "w \<in> set ?views" for w
    by (rule id_codes_fold [OF fold registered_names(2) [OF that]])
  have id: "identifier_query ?q" by (rule registered_names(2) [OF v])
  then have ne: "?q \<noteq> []" by (simp add: identifier_query_def)
  have terms: "\<forall>p\<in>set ?ts. contains p (tool_searchable cf (ev_descriptor v))"
    using search_terms_contained [of _ cf ?q] name_in_searchable [of cf "ev_descriptor v"]
    unfolding name [OF v] by (blast intro: contains_trans)
  have best: "?score v = 150 + int (length ?ts)"
    using name_in_searchable [of cf "ev_descriptor v"] ne
    by (simp add: tool_score_def name [OF v] matched_terms_all [OF terms])
  have less: "?score w < ?score v" if "w \<in> set ?views" "w \<noteq> v" for w
  proof -
    have "?q \<noteq> u_ascii (td_name (ev_descriptor w))"
      using registered_name_unique [OF v that(1)] that(2) by (auto simp: u_ascii_inject)
    then show ?thesis
      using matched_terms_bounds(2) [of ?ts "tool_searchable cf (ev_descriptor w)"]
      unfolding best by (simp add: tool_score_def name [OF that(1)])
  qed
  have "v \<in> set (filter (\<lambda>w. \<not> tool_skipped cf ?q (ev_descriptor w)) ?views)"
    using v by (simp add: tool_skipped_def name [OF v])
  moreover have "?score v \<noteq> 0" unfolding best by simp
  ultimately have "(?score v, v) \<in> set ?xs" by (auto intro!: image_eqI)
  moreover have "rank_key (?score v, v) < rank_key y" if y: "y \<in> set ?xs" "y \<noteq> (?score v, v)" for y
  proof -
    obtain w where "y = (?score w, w)" "w \<in> set ?views" using y(1) by auto
    then show ?thesis using less [of w] y(2) by (auto simp: rank_key_def)
  qed
  ultimately obtain ys where ys: "sort_key rank_key ?xs = (?score v, v) # ys"
    using sort_key_first [of "(?score v, v)" ?xs rank_key] by blast
  have "distinct (map snd ?xs)"
    using distinct_views by (auto simp: distinct_map inj_on_def)
  then have others: "snd r \<noteq> v \<and> contains ?q (u_ascii (td_name (ev_descriptor (snd r))))"
    if "r \<in> set ys" for r
    using sort_key_first_snd [OF ys _ that] id by (auto simp: tool_skipped_def name)
  have "find_evidence_tools_handler cf i = take (nat (fi_limit i)) (v # map snd ys)"
    by (simp add: find_evidence_tools_handler_def ranked_tools_def query ys)
  moreover have "1 \<le> fi_limit i" using valid by (simp add: valid_find_input_def)
  then have "0 < nat (fi_limit i)" by simp
  then obtain n where "nat (fi_limit i) = Suc n" using gr0_conv_Suc by blast
  ultimately have "find_evidence_tools_handler cf i = v # take n (map snd ys)" by simp
  moreover have "\<forall>w\<in>snd ` set ys. w \<noteq> v \<and> contains ?q (u_ascii (td_name (ev_descriptor w)))"
    using others by blast
  ultimately show ?thesis by (metis in_set_takeD list.set_map)
qed

lemma find_tool_by_name_witness:
  "\<exists>vs. find_evidence_tools_handler (\<lambda>c. if 65 \<le> c \<and> c \<le> 90 then [c + 32] else [c])
      \<lparr>fi_query = u_ascii '' Get_Document'', fi_catalog = None, fi_limit = 3\<rparr> =
    (list_evidence_tool_views None ! 0) # vs"
proof -
  let ?cf = "\<lambda>c. if 65 \<le> c \<and> c \<le> 90 then [c + 32] else [c]"
  let ?i = "\<lparr>fi_query = u_ascii '' Get_Document'', fi_catalog = None, fi_limit = 3\<rparr>"
  let ?v = "list_evidence_tool_views None ! 0"
  have "0 < length (list_evidence_tool_views None)" by code_simp
  then have "?v \<in> set (list_evidence_tool_views (fi_catalog ?i))" by simp
  moreover have "u_strip (u_casefold ?cf (fi_query ?i)) = u_ascii (td_name (ev_descriptor ?v))"
    by code_simp
  moreover have "valid_find_input ?i" by code_simp
  moreover have "\<forall>c. word_code c \<and> \<not> (65 \<le> c \<and> c \<le> 90) \<longrightarrow> ?cf c = [c]" by simp
  ultimately show ?thesis using find_tool_by_name [of ?cf ?v ?i] by blast
qed

section \<open>What the agents can reach\<close>

text \<open>An executor agent has one command, stops at it, and may call what it has and nothing else.\<close>

lemma executor_agent_tools:
  obtains agents ag ds c where
    "build_document_executor_agents = Inr agents"
    "require_executor agents (executor_code_value cap) = Inr ag"
    "get_document_executor_tool_descriptors (executor_code_value cap) = Inr ds"
    "map tool_name (ag_tools ag) = map td_name ds"
    "filter td_side_effect ds = [c]" "ag_stop_at ag = [td_name c]" "ag_handoffs ag = []"
    "(\<Union>d\<in>set ds. set (td_required_permissions d)) = set (executor_permissions cap)"
proof (cases cap)
  case Process_Capability
  then show ?thesis
    by (intro that) (auto simp: catalog_defs build_document_executor_agents_def clone_executor_def
      require_executor_def)
next
  case Chunks_Capability
  then show ?thesis
    by (intro that) (auto simp: catalog_defs build_document_executor_agents_def clone_executor_def
      require_executor_def)
next
  case Index_Capability
  then show ?thesis
    by (intro that) (auto simp: catalog_defs build_document_executor_agents_def clone_executor_def
      require_executor_def)
qed

lemma registry_is_read_only:
  "\<forall>v\<in>set (list_evidence_tool_views c). \<not> td_side_effect (ev_descriptor v) \<and>
     td_operation_type (ev_descriptor v) = Query_Operation \<and>
     set (td_required_permissions (ev_descriptor v)) \<subseteq> set PLANNER_PERMISSIONS"
proof -
  have "list_all (\<lambda>v. \<not> td_side_effect (ev_descriptor v) \<and>
     td_operation_type (ev_descriptor v) = Query_Operation \<and>
     list_all (\<lambda>p. p \<in> set PLANNER_PERMISSIONS) (td_required_permissions (ev_descriptor v)))
    (list_evidence_tool_views None)"
    by code_simp
  then show ?thesis using registered_names(1) by (fastforce simp: list_all_iff)
qed

text \<open>A name resolves within the catalog of the capability only.\<close>

lemma resolve_in_catalog: "resolve_in name catalog = Inr t \<Longrightarrow> t \<in> tg_tool ` set catalog"
  by (auto simp: resolve_in_def find_Some_iff split: option.splits)

lemma resolved_executor_tool_available:
  assumes "resolve_document_executor_tool capability name = Inr t"
  obtains ts where "get_document_executor_tools capability = Inr ts" "t \<in> set ts"
  using assms resolve_in_catalog
  by (fastforce simp: resolve_document_executor_tool_def get_document_executor_tools_def bind_eq_Inr)

section \<open>Business documents\<close>

lemma visible_lines: "visible (u_join [10] ls) = concat (map visible ls)"
  by (cases ls) (simp_all add: u_join_def visible_concat o_def u_space_def)

lemma visible_section_of:
  "concat (map (\<lambda>s. visible (sec_content s)) (section_of doc h body)) = concat (map visible body)"
proof -
  have "u_strip (u_join [10] body) = [] \<longleftrightarrow> concat (map visible body) = []"
    by (simp only: strip_empty visible_lines)
  then show ?thesis by (auto simp: section_of_def Let_def visible_lines)
qed

lemma visible_scan:
  "concat (map (\<lambda>s. visible (sec_content s)) (scan_sections doc stem h body ls)) =
   concat (map visible body) @ concat (map visible (filter (\<lambda>l. \<not> heading_line l) ls))"
  by (induction doc stem h body ls rule: scan_sections.induct)
    (simp_all add: visible_section_of)

text \<open>Every visible character of a document outside its heading lines is in one of its sections, in order.\<close>

lemma business_sections_cover:
  "concat (map (\<lambda>s. visible (sec_content s)) (file_sections f)) =
   concat (map visible (filter (\<lambda>l. \<not> heading_line l) (u_splitlines (snd f))))"
  by (simp add: file_sections_def visible_scan)

lemma section_of_content: "s \<in> set (section_of doc h body) \<Longrightarrow> sec_content s \<noteq> [] \<and> sec_document s = doc"
  by (auto simp: section_of_def Let_def split: if_splits)

lemma file_sections_content:
  "s \<in> set (file_sections f) \<Longrightarrow> sec_content s \<noteq> [] \<and> sec_document s = fst f @ u_ascii ''.md''"
proof -
  have "s \<in> set (scan_sections doc stem h body ls) \<Longrightarrow> sec_content s \<noteq> [] \<and> sec_document s = doc"
    for doc stem h body ls
    by (induction doc stem h body ls rule: scan_sections.induct)
      (auto dest: section_of_content split: if_splits)
  then show "s \<in> set (file_sections f) \<Longrightarrow> ?thesis" unfolding file_sections_def by blast
qed

lemma take_sort_key_best:
  assumes "x \<in> set (take n (sort_key f xs))" "y \<in> set xs" "y \<notin> set (take n (sort_key f xs))"
  shows "f x \<le> f y"
proof -
  have "y \<in> set (drop n (sort_key f xs))"
    using assms(2,3) by (metis Un_iff append_take_drop_id set_append set_sort)
  moreover have "sorted (map f (take n (sort_key f xs) @ drop n (sort_key f xs)))" by simp
  ultimately show ?thesis using assms(1) unfolding map_append sorted_append by auto
qed

lemma top_values:
  assumes "s \<in> set (map snd (take n (sort_key k (map (\<lambda>x. (g x, x)) zs))))"
    "t \<in> set zs" "t \<notin> set (map snd (take n (sort_key k (map (\<lambda>x. (g x, x)) zs))))"
  shows "k (g s, s) \<le> k (g t, t)"
proof -
  let ?xs = "map (\<lambda>x. (g x, x)) zs"
  obtain a where a: "(a, s) \<in> set (take n (sort_key k ?xs))" using assms(1) by auto
  from in_set_takeD [OF this] have "a = g s" by auto
  with a have "(g s, s) \<in> set (take n (sort_key k ?xs))" by simp
  moreover have "(g t, t) \<in> set ?xs" using assms(2) by simp
  moreover have "(g t, t) \<notin> set (take n (sort_key k ?xs))" using assms(3) by force
  ultimately show ?thesis by (rule take_sort_key_best)
qed

text \<open>A search returns the best matching sections: as many as asked for, and none is passed over.\<close>

lemma docs_search_best:
  assumes "search_business_docs_handler cf files i = Inr rs"
  defines "q \<equiv> u_strip (u_casefold cf (sd_query i))"
  obtains sections where
    "load_business_doc_sections files = Inr sections"
    "length rs = min (nat (sd_limit i)) (length (filter (section_matches cf q) sections))"
    "\<forall>s\<in>set rs. s \<in> set sections \<and> section_matches cf q s"
    "\<forall>s\<in>set rs. \<forall>t\<in>set sections - set rs.
       section_matches cf q t \<longrightarrow> section_score cf q t \<le> section_score cf q s"
proof -
  obtain sections where l: "load_business_doc_sections files = Inr sections"
    and rs: "rs = take (nat (sd_limit i)) (map snd (ranked_sections cf q sections))"
    using assms(1) by (auto simp: search_business_docs_handler_def bind_eq_Inr q_def)
  let ?zs = "filter (section_matches cf q) sections"
  have r: "rs = map snd (take (nat (sd_limit i))
      (sort_key section_key (map (\<lambda>s. (section_score cf q s, s)) ?zs)))"
    unfolding rs ranked_sections_def by (simp only: take_map)
  have mem: "s \<in> set sections \<and> section_matches cf q s" if "s \<in> set rs" for s
    using that unfolding r by (auto dest!: in_set_takeD)
  have best: "section_score cf q t \<le> section_score cf q s"
    if s: "s \<in> set rs" and t: "t \<in> set ?zs" "t \<notin> set rs" for s t
    using top_values [OF s [unfolded r] t(1) t(2) [unfolded r]] by (auto simp: section_key_def)
  have len: "length rs = min (nat (sd_limit i)) (length ?zs)"
    unfolding r by (simp only: length_map length_take length_sort min.commute)
  show ?thesis by (rule that [OF l len]) (use mem best in auto)
qed

end
