(* ===== verification/Log_Safety.thy ===== *)
theory Log_Safety
  imports Log_Query
begin

text \<open>
  Lemmas on the logs: base64 texts read back, a cursor reads back as its key, ISO texts are ordered
  as the times they stand for, the keys of a scan are distinct, and the grouping of tool events
  against a reference definition.
\<close>

section \<open>Base64\<close>

lemma char_eq_iff_nat: "c = d \<longleftrightarrow> (of_char c :: nat) = of_char d"
  by (metis char_of_char)

lemma b64_value_char [simp]:
  assumes "n < 64"
  shows "b64_value (b64_char n) = Some n" "b64_char n \<noteq> CHR ''=''"
proof -
  consider "n < 26" | "26 \<le> n" "n < 52" | "52 \<le> n" "n < 62" | "n = 62" | "n = 63"
    using assms by linarith
  then have "b64_value (b64_char n) = Some n \<and> b64_char n \<noteq> CHR ''=''"
  proof cases
    case 3
    define m where "m = n - 52"
    with 3 have "n = m + 52" "m < 10" by simp_all
    then show ?thesis by (simp add: b64_char_def b64_value_def char_eq_iff_nat)
  qed (simp_all add: b64_char_def b64_value_def char_eq_iff_nat)
  then show "b64_value (b64_char n) = Some n" "b64_char n \<noteq> CHR ''=''" by simp_all
qed

fun b64_plain :: "string \<Rightarrow> string" where
  "b64_plain [] = []"
| "b64_plain [a] = (let x = (of_char a :: nat) in [b64_char (x div 4), b64_char (x mod 4 * 16)])"
| "b64_plain [a, b] =
     (let x = (of_char a :: nat); y = (of_char b :: nat) in
      [b64_char (x div 4), b64_char (x mod 4 * 16 + y div 16), b64_char (y mod 16 * 4)])"
| "b64_plain (a # b # c # s) =
     (let x = (of_char a :: nat); y = (of_char b :: nat); z = (of_char c :: nat) in
      [b64_char (x div 4), b64_char (x mod 4 * 16 + y div 16), b64_char (y mod 16 * 4 + z div 64),
       b64_char (z mod 64)] @ b64_plain s)"

lemma sextets: "(of_char a :: nat) div 4 < 64" "(of_char a :: nat) mod 4 * 16 < 64"
  "(of_char a :: nat) mod 4 * 16 + (of_char b :: nat) div 16 < 64" "(of_char b :: nat) mod 16 * 4 < 64"
  "(of_char b :: nat) mod 16 * 4 + (of_char c :: nat) div 64 < 64" "(of_char c :: nat) mod 64 < 64"
proof -
  have "(of_char x :: nat) < 256" for x :: char by simp
  note this [of a] this [of b] this [of c]
  then show "(of_char a :: nat) div 4 < 64" "(of_char a :: nat) mod 4 * 16 < 64"
    "(of_char a :: nat) mod 4 * 16 + (of_char b :: nat) div 16 < 64" "(of_char b :: nat) mod 16 * 4 < 64"
    "(of_char b :: nat) mod 16 * 4 + (of_char c :: nat) div 64 < 64" "(of_char c :: nat) mod 64 < 64"
    by linarith+
qed

lemma rstrip_pad_append:
  "rstrip_pad (xs @ ys) = (if rstrip_pad ys = [] then rstrip_pad xs else xs @ rstrip_pad ys)"
  by (auto simp: rstrip_pad_def dropWhile_append)

lemma rstrip_pad_snoc [simp]:
  "rstrip_pad [] = []" "rstrip_pad (xs @ [c]) = (if c = CHR ''='' then rstrip_pad xs else xs @ [c])"
  by (simp_all add: rstrip_pad_def)

lemma rstrip_pad_quad:
  "d \<noteq> CHR ''='' \<Longrightarrow> rstrip_pad (a # b # c # d # s) = a # b # c # d # rstrip_pad s"
  "c \<noteq> CHR ''='' \<Longrightarrow> rstrip_pad [a, b, c, CHR ''=''] = [a, b, c]"
  "b \<noteq> CHR ''='' \<Longrightarrow> rstrip_pad [a, b, CHR ''='', CHR ''=''] = [a, b]"
  using rstrip_pad_append [of "[a, b, c, d]" s] by (simp_all add: rstrip_pad_def)

lemma rstrip_b64encode: "rstrip_pad (b64encode s) = b64_plain s"
proof (induction s rule: b64encode.induct)
  case (4 a b c s)
  then show ?case by (simp add: Let_def rstrip_pad_quad sextets)
qed (simp_all add: Let_def rstrip_pad_quad sextets)

lemma missing_pad_quad: "missing_pad (a # b # c # d # s) = missing_pad s"
proof -
  have "(- int (length (a # b # c # d # s))) mod 4 = (- int (length s)) mod 4"
    by simp presburger
  then show ?thesis by (simp only: missing_pad_def)
qed

lemma missing_pad_short:
  "missing_pad [] = []" "missing_pad [a, b] = ''==''" "missing_pad [a, b, c] = ''=''"
  by (simp_all add: missing_pad_def numeral_2_eq_2)

lemma plain_padded: "b64_plain s @ missing_pad (b64_plain s) = b64encode s"
  by (induction s rule: b64encode.induct)
    (simp_all add: Let_def missing_pad_quad missing_pad_short)

lemma split_sextet: "k < 16 \<Longrightarrow> (m * 16 + k) div 16 = m" "k < 16 \<Longrightarrow> (m * 16 + k) mod 16 = k"
  "j < 4 \<Longrightarrow> (m * 4 + j) div 4 = m" "j < 4 \<Longrightarrow> (m * 4 + j) mod 4 = j" for m :: nat
  by simp_all

lemma byte_bounds: "(of_char a :: nat) div 16 < 16" "(of_char a :: nat) div 64 < 4"
proof -
  have "(of_char a :: nat) < 256" by simp
  then show "(of_char a :: nat) div 16 < 16" "(of_char a :: nat) div 64 < 4" by linarith+
qed

lemma b64decode_encode: "b64decode (b64encode s) = Some s"
proof -
  have "b64_read 0 0 0 (b64encode s) = Some s"
  proof (induction s rule: b64encode.induct)
    case (2 a) then show ?case by (simp add: Let_def sextets)
  next
    case (3 a b)
    note [simp] = split_sextet(1,2) [OF byte_bounds(1) [of b], of "of_char a mod 4"]
      mod_less [OF byte_bounds(1) [of b]]
    from 3 show ?case by (simp add: Let_def sextets )
  next
    case (4 a b c s)
    note [simp] = split_sextet(1,2) [OF byte_bounds(1) [of b], of "of_char a mod 4"]
      split_sextet(3,4) [OF byte_bounds(2) [of c], of "of_char b mod 16"]
      mod_less [OF byte_bounds(1) [of b]] mod_less [OF byte_bounds(2) [of c]]
    from 4 show ?case by (simp add: Let_def sextets )
  qed simp
  then show ?thesis by (simp add: b64decode_def)
qed

lemma cursor_text_reads_back:
  "b64decode (rstrip_pad (b64encode s) @ missing_pad (rstrip_pad (b64encode s))) = Some s"
  by (simp add: rstrip_b64encode plain_padded b64decode_encode)

lemma payload_key_back: "payload_key srcs asc (cursor_payload srcs asc key) = Some key"
  by (cases key) (simp add: payload_key_def cursor_payload_def)

lemma decode_encode_cursor:
  assumes "js_loads_utf8 lib (js_dumps lib (cursor_payload srcs asc key)) = Some (cursor_payload srcs asc key)"
  shows "decode_cursor lib srcs asc (Some (encode_cursor lib srcs asc key)) = Inr (Some key)"
  by (simp add: decode_cursor_def encode_cursor_def cursor_text_reads_back assms payload_key_back)

section \<open>ISO texts are ordered as times\<close>

lemma lex_append:
  fixes xs ys us vs :: "'a::linorder list"
  assumes "length xs = length ys"
  shows "xs @ us < ys @ vs \<longleftrightarrow> xs < ys \<or> xs = ys \<and> us < vs"
  using assms by (induction xs ys rule: list_induct2) auto

lemma lex_irrefl: "(xs :: 'a::linorder list) < xs \<longleftrightarrow> False" by simp

lemma length_pad [simp]: "length (pad w n) = w"
  by (induction w arbitrary: n) simp_all

lemma pad_digit_less:
  assumes "0 \<le> d" "d < 10" "0 \<le> e" "e < 10"
  shows "char_of (48 + nat d) < (char_of (48 + nat e) :: char) \<longleftrightarrow> d < e"
    "char_of (48 + nat d) = (char_of (48 + nat e) :: char) \<longleftrightarrow> d = e"
proof -
  have "nat d < 10" "nat e < 10" using assms by simp_all
  then have "of_char (char_of (48 + nat d) :: char) = 48 + nat d"
    "of_char (char_of (48 + nat e) :: char) = 48 + nat e"
    by simp_all
  with assms show "char_of (48 + nat d) < (char_of (48 + nat e) :: char) \<longleftrightarrow> d < e"
    "char_of (48 + nat d) = (char_of (48 + nat e) :: char) \<longleftrightarrow> d = e"
    by (auto simp: less_char_def char_eq_iff_nat)
qed

lemma div_mod_less: "a < b \<longleftrightarrow> a div k < b div k \<or> a div k = b div k \<and> a mod k < b mod k"
  if "0 < k" for a b k :: int
proof -
  have *: "x div k < y div k \<Longrightarrow> x < y" for x y :: int
    using that zdiv_mono1 [of y x k] by fastforce
  show ?thesis
  proof (cases "a div k = b div k")
    case True
    then have "a = b div k * k + a mod k" "b = b div k * k + b mod k" by (metis div_mult_mod_eq)+
    with True show ?thesis by linarith
  next
    case False
    then show ?thesis using * [of a b] * [of b a] by linarith
  qed
qed

lemma div_mod_same: "a = b \<longleftrightarrow> a div k = b div k \<and> a mod k = b mod k" for a b k :: int
  by (metis div_mult_mod_eq)

lemma pad_less:
  assumes "0 \<le> a" "a < 10 ^ w" "0 \<le> b" "b < 10 ^ w"
  shows "(pad w a < pad w b \<longleftrightarrow> a < b) \<and> (pad w a = pad w b \<longleftrightarrow> a = b)"
  using assms
proof (induction w arbitrary: a b)
  case (Suc w)
  have "a div 10 < 10 ^ w" "b div 10 < 10 ^ w" using Suc.prems by auto
  note ih = Suc.IH [of "a div 10" "b div 10"]
  note same = div_mod_same [of a b 10]
  from ih Suc.prems \<open>a div 10 < 10 ^ w\<close> \<open>b div 10 < 10 ^ w\<close> show ?case
    by (simp add: lex_append pad_digit_less div_mod_less [of 10 a b] eq_nat_nat_iff same)
qed simp

definition valid_instant :: "instant \<Rightarrow> bool" where
  "valid_instant i = (case i of (y, m, d, u) \<Rightarrow>
     1 \<le> y \<and> y \<le> 9999 \<and> 1 \<le> m \<and> m \<le> 12 \<and> 1 \<le> d \<and> d \<le> 31 \<and> 0 \<le> u \<and> u < DAY_MICROS)"

definition iso_tail :: "int \<Rightarrow> string" where
  "iso_tail f = (if f = 0 then [] else ''.'' @ pad 6 f) @ ''+00:00''"

lemma iso_tail_less:
  assumes "0 \<le> f" "f < 1000000" "0 \<le> g" "g < 1000000"
  shows "iso_tail f < iso_tail g \<longleftrightarrow> f < g"
  using assms pad_less [of f 6 g]
  by (auto simp: iso_tail_def lex_append less_char_def)

lemma micros_less:
  "u < v \<longleftrightarrow>
     u div 3600000000 < v div 3600000000 \<or> u div 3600000000 = v div 3600000000 \<and>
     (u div 60000000 mod 60 < v div 60000000 mod 60 \<or> u div 60000000 mod 60 = v div 60000000 mod 60 \<and>
     (u div 1000000 mod 60 < v div 1000000 mod 60 \<or> u div 1000000 mod 60 = v div 1000000 mod 60 \<and>
      u mod 1000000 < v mod 1000000))" for u v :: int
proof -
  have q: "x div 1000000 div 60 = x div 60000000" "x div 60000000 div 60 = x div 3600000000" for x :: int
    by (simp_all add: zdiv_zmult2_eq [symmetric])
  have l: "u < v \<longleftrightarrow> u div 1000000 < v div 1000000 \<or> u div 1000000 = v div 1000000 \<and> u mod 1000000 < v mod 1000000"
    by (rule div_mod_less) simp
  have l2: "u div 1000000 < v div 1000000 \<longleftrightarrow> u div 60000000 < v div 60000000 \<or>
      u div 60000000 = v div 60000000 \<and> u div 1000000 mod 60 < v div 1000000 mod 60"
    by (rule div_mod_less [of 60 "u div 1000000" "v div 1000000", unfolded q]) simp
  have l3: "u div 60000000 < v div 60000000 \<longleftrightarrow> u div 3600000000 < v div 3600000000 \<or>
      u div 3600000000 = v div 3600000000 \<and> u div 60000000 mod 60 < v div 60000000 mod 60"
    by (rule div_mod_less [of 60 "u div 60000000" "v div 60000000", unfolded q]) simp
  note e2 = div_mod_same [of "u div 1000000" "v div 1000000" 60, unfolded q]
  note e3 = div_mod_same [of "u div 60000000" "v div 60000000" 60, unfolded q]
  show ?thesis using l l2 l3 e2 e3 by argo
qed

lemma lex_segment:
  fixes xs ys us vs :: "'a::linorder list"
  assumes "(xs < ys \<longleftrightarrow> a < b) \<and> (xs = ys \<longleftrightarrow> a = (b :: int))" "us < vs \<longleftrightarrow> c"
    "length xs = length ys"
  shows "xs @ us < ys @ vs \<longleftrightarrow> a < b \<or> a = b \<and> c"
  using assms lex_append [OF assms(3)] by blast

lemma lex_same_prefix: "us < vs \<longleftrightarrow> c \<Longrightarrow> xs @ us < xs @ vs \<longleftrightarrow> c"
  for xs us vs :: "'a::linorder list"
  by (simp add: lex_append)

lemma isoformat_less:
  assumes "valid_instant i" "valid_instant j"
  shows "isoformat i < isoformat j \<longleftrightarrow> i < j"
proof -
  obtain y m d u y' m' d' u' where ij: "i = (y, m, d, u)" "j = (y', m', d', u')"
    by (metis prod_cases4)
  note v = assms [unfolded ij valid_instant_def prod.case]
  have h: "0 \<le> x div 3600000000 \<and> x div 3600000000 < 100" if "0 \<le> x" "x < DAY_MICROS" for x :: int
    using that by (simp add: DAY_MICROS_def pos_imp_zdiv_nonneg_iff) 
  have p2: "(pad 2 a < pad 2 b \<longleftrightarrow> a < b) \<and> (pad 2 a = pad 2 b \<longleftrightarrow> a = b)"
    if "0 \<le> a \<and> a < 100" "0 \<le> b \<and> b < 100" for a b
    using that pad_less [of a 2 b] by simp
  have p4: "(pad 4 y < pad 4 y' \<longleftrightarrow> y < y') \<and> (pad 4 y = pad 4 y' \<longleftrightarrow> y = y')"
    using v pad_less [of y 4 y'] by simp
  have s: "0 \<le> x mod 60 \<and> x mod 60 < 100" for x :: int
    using pos_mod_bound [of 60 x] pos_mod_sign [of 60 x] by linarith
  have t: "iso_tail (u mod 1000000) < iso_tail (u' mod 1000000) \<longleftrightarrow> u mod 1000000 < u' mod 1000000"
    by (rule iso_tail_less) simp_all
  have f: "isoformat (a, b, c, x) = pad 4 a @ ''-'' @ pad 2 b @ ''-'' @ pad 2 c @ ''T'' @
     pad 2 (x div 3600000000) @ '':'' @ pad 2 (x div 60000000 mod 60) @ '':'' @
     pad 2 (x div 1000000 mod 60) @ iso_tail (x mod 1000000)" for a b c x
    by (simp add: isoformat_def iso_tail_def)
  have dates: "0 \<le> m \<and> m < 100" "0 \<le> m' \<and> m' < 100" "0 \<le> d \<and> d < 100" "0 \<le> d' \<and> d' < 100"
    "0 \<le> u" "u < DAY_MICROS" "0 \<le> u'" "u' < DAY_MICROS"
    using v by auto
  note clock = lex_segment [OF p2 [OF h [OF dates(5,6)] h [OF dates(7,8)]] lex_same_prefix [OF
    lex_segment [OF p2 [OF s s] lex_same_prefix [OF lex_segment [OF p2 [OF s s] t]]]]]
  note whole = lex_segment [OF p4 lex_same_prefix [OF lex_segment [OF p2 [OF dates(1,2)]
    lex_same_prefix [OF lex_segment [OF p2 [OF dates(3,4)] lex_same_prefix [OF clock]]]]]]
  have "isoformat i < isoformat j \<longleftrightarrow> y < y' \<or> y = y' \<and> (m < m' \<or> m = m' \<and> (d < d' \<or> d = d' \<and> u < u'))"
    unfolding ij f micros_less [of u u'] by (rule whole) simp_all
  then show ?thesis by (auto simp: ij)
qed

fun month_day_ok :: "date \<Rightarrow> bool" where
  "month_day_ok (y, m, d) \<longleftrightarrow> 1 \<le> m \<and> m \<le> 12 \<and> 1 \<le> d \<and> d \<le> 31"

lemma month_days_bounds: "28 \<le> month_days y m" "month_days y m \<le> 31"
  by (auto simp: month_days_def)

lemma neighbour_day_ok:
  assumes "month_day_ok day"
  shows "month_day_ok (next_day day)" "month_day_ok (previous_day day)"
proof -
  obtain y m d where day: "day = (y, m, d)" by (metis prod_cases3)
  show "month_day_ok (next_day day)" "month_day_ok (previous_day day)"
    using assms month_days_bounds [of y m] month_days_bounds [of y "m - 1"] by (auto simp: day)
qed

lemma iso_date_ok: "iso_date s = Some (day, rest) \<Longrightarrow> month_day_ok day"
  by (auto simp: iso_date_def split: option.splits prod.splits if_splits)
    (meson month_days_bounds(2) order_trans)

lemma fromisoformat_day:
  assumes "fromisoformat s = Some t"
  shows "month_day_ok (dt_date t)"
proof -
  obtain day rest where d: "iso_date s = Some (day, rest)"
    using assms by (auto simp: fromisoformat_def split: option.splits)
  have "dt_date t = day"
  proof (cases rest)
    case Nil
    with assms d show ?thesis by (auto simp: fromisoformat_def)
  next
    case (Cons sep time)
    with assms d show ?thesis
      by (simp add: fromisoformat_def Let_def split: option.splits prod.splits if_splits)
        auto
  qed
  with iso_date_ok [OF d] show ?thesis by simp
qed

lemma utc_valid:
  assumes "utc t = Inr i" "month_day_ok (dt_date t)"
  shows "valid_instant i"
proof -
  have "0 \<le> x mod DAY_MICROS \<and> x mod DAY_MICROS < DAY_MICROS" for x
    by (simp add: DAY_MICROS_def)
  moreover have "month_day_ok (previous_day (dt_date t))" "month_day_ok (next_day (dt_date t))"
    using assms(2) neighbour_day_ok by blast+
  ultimately show ?thesis using assms
    by (auto simp: utc_def utc_fields_def valid_instant_def Let_def split: if_splits prod.splits)
qed

definition event_instant :: "json \<Rightarrow> instant option" where
  "event_instant ev =
     (case parse_datetime (json_get ev ''created_at'') of Inr (Some i) \<Rightarrow> Some i | _ \<Rightarrow> None)"

lemma parse_datetime_valid: "parse_datetime v = Inr (Some i) \<Longrightarrow> valid_instant i"
  using utc_valid fromisoformat_day
  by (fastforce simp: parse_datetime_def bind_eq_Inr split: option.splits json.splits)

section \<open>The keys of a scan\<close>

definition place :: "indexed_event \<Rightarrow> string \<times> string \<times> int" where
  "place x = snd (snd (ie_sort_key x))"

definition timed :: "indexed_event \<Rightarrow> bool" where
  "timed x \<longleftrightarrow> (\<exists>i. event_instant (ie_event x) = Some i \<and> valid_instant i \<and>
     fst (ie_sort_key x) = isoformat i)"

lemma parse_line_key:
  assumes "parse_line lib src file n line = Inr (Some (x, i))"
  shows "timed x" "place x = (ls_source_id src, file, n)"
  using assms parse_datetime_valid
  by (auto simp: parse_line_def timed_def place_def event_instant_def bind_eq_Inr
      split: option.splits json.splits)

lemma read_lines_keys:
  assumes "read_lines lib src pred lo hi file n ls = Inr xs"
  shows "distinct (map place xs) \<and> (\<forall>x\<in>set xs. timed x \<and> (\<exists>k\<ge>n. place x = (ls_source_id src, file, k)))"
  using assms
proof (induction ls arbitrary: n xs)
  case (Cons line ls)
  from Cons.prems obtain parsed found more where
    p: "parse_line lib src file n line = Inr parsed"
    and f: "found = [] \<or> (\<exists>x i. parsed = Some (x, i) \<and> found = [x])"
    and m: "read_lines lib src pred lo hi file (n + 1) ls = Inr more" and xs: "xs = found @ more"
    by (fastforce simp: bind_eq_Inr split: option.splits prod.splits if_splits)
  from Cons.IH [OF m] have ih: "distinct (map place more)"
    "\<forall>x\<in>set more. timed x \<and> (\<exists>k\<ge>n + 1. place x = (ls_source_id src, file, k))" by blast+
  from f show ?case
  proof (elim disjE exE conjE)
    fix x i assume "parsed = Some (x, i)" "found = [x]"
    moreover have "timed x" "place x = (ls_source_id src, file, n)"
      using p \<open>parsed = _\<close> parse_line_key by blast+
    ultimately show ?thesis using ih xs by force
  qed (use ih xs in force)
qed simp

lemma read_files_keys:
  assumes "read_files lib src pred lo hi es = Inr xs" "distinct (map de_name es)"
  shows "distinct (map place xs) \<and>
    (\<forall>x\<in>set xs. timed x \<and> (\<exists>e\<in>set es. \<exists>k. place x = (ls_source_id src, de_name e, k)))"
  using assms
proof (induction es arbitrary: xs)
  case (Cons e es)
  show ?case
  proof (cases "de_symlink e \<or> \<not> de_file e")
    case True
    with Cons show ?thesis by auto
  next
    case False
    with Cons.prems obtain as bs ls where
      a: "read_lines lib src pred lo hi (de_name e) 1 ls = Inr as"
      and b: "read_files lib src pred lo hi es = Inr bs" and xs: "xs = as @ bs"
      by (auto simp: bind_eq_Inr read_file_def split: file_content.splits)
    from read_lines_keys [OF a] Cons.IH [OF b] Cons.prems(2) xs show ?thesis
      by (fastforce simp: image_iff)
  qed
qed simp

definition proper_files :: "log_files \<Rightarrow> bool" where
  "proper_files fs \<longleftrightarrow> (\<forall>d es. fs d = Entries es \<longrightarrow> distinct (map de_name es))"

lemma read_source_keys:
  assumes "read_source lib fs pred lo hi src = Inr xs" "proper_files fs"
  shows "distinct (map place xs) \<and> (\<forall>x\<in>set xs. timed x \<and> fst (place x) = ls_source_id src)"
proof (cases "fs (ls_directory src)")
  case (Entries es)
  have "distinct (map de_name (log_entries src es))"
    using assms(2) Entries
    by (simp add: proper_files_def log_entries_def distinct_map inj_on_def)
  then show ?thesis using assms(1) Entries read_files_keys [of lib src pred lo hi "log_entries src es" xs]
    by (fastforce simp: read_source_def)
qed (use assms in \<open>simp_all add: read_source_def\<close>)

lemma read_sources_keys:
  assumes "read_sources lib fs pred lo hi srcs = Inr xs" "proper_files fs"
    "distinct (map ls_source_id srcs)"
  shows "distinct (map place xs) \<and>
    (\<forall>x\<in>set xs. timed x \<and> fst (place x) \<in> set (map ls_source_id srcs))"
  using assms
proof (induction srcs arbitrary: xs)
  case (Cons src srcs)
  then obtain as bs where a: "read_source lib fs pred lo hi src = Inr as"
    and b: "read_sources lib fs pred lo hi srcs = Inr bs" and xs: "xs = as @ bs"
    by (auto simp: bind_eq_Inr)
  from read_source_keys [OF a Cons.prems(2)] Cons.IH [OF b Cons.prems(2)] Cons.prems(3) xs
  show ?case by (fastforce simp: image_iff)
qed simp

lemma distinct_keys: "distinct (map place xs) \<Longrightarrow> distinct (map ie_sort_key xs)"
  by (auto simp: distinct_map inj_on_def place_def)

definition newest_first :: "indexed_event list \<Rightarrow> bool" where
  "newest_first xs \<longleftrightarrow> sorted_wrt (\<lambda>a b. ie_sort_key b < ie_sort_key a) xs"

lemma strict_sort:
  assumes "distinct (map f xs)"
  shows "sorted_wrt (\<lambda>a b. f a < f b) (sort_key f xs)"
proof -
  have "distinct (map f (sort_key f xs))" using assms
    by (simp add: distinct_map)
  then have "sorted_wrt (<) (map f (sort_key f xs))"
    by (simp only: strict_sorted_iff sorted_sort_key)
  then show ?thesis by (simp add: sorted_wrt_map)
qed

lemma in_order_newest_first:
  assumes "distinct (map place xs)"
  shows "newest_first (in_order False xs)" "set (in_order asc xs) = set xs"
proof -
  have "distinct (map ie_sort_key (rev xs))" using distinct_keys [OF assms] by (simp add: rev_map [symmetric])
  from strict_sort [OF this] show "newest_first (in_order False xs)"
    by (simp add: in_order_def newest_first_def sorted_wrt_rev)
qed (simp add: in_order_def)

lemma newest_first_times:
  assumes "newest_first xs" "\<forall>x\<in>set xs. timed x"
  shows "sorted_wrt (\<lambda>a b. the (event_instant b) \<le> the (event_instant a)) (map ie_event xs)"
  unfolding sorted_wrt_map
proof (rule sorted_wrt_mono_rel [OF _ assms(1) [unfolded newest_first_def]])
  fix a b assume "a \<in> set xs" "b \<in> set xs" and less: "ie_sort_key b < ie_sort_key a"
  with assms(2) obtain i j where ij: "event_instant (ie_event a) = Some i" "valid_instant i"
    "fst (ie_sort_key a) = isoformat i" "event_instant (ie_event b) = Some j" "valid_instant j"
    "fst (ie_sort_key b) = isoformat j" unfolding timed_def by metis
  from less have "fst (ie_sort_key b) \<le> fst (ie_sort_key a)"
    by (cases "ie_sort_key a"; cases "ie_sort_key b") auto
  with ij isoformat_less [of i j] show "the (event_instant (ie_event b)) \<le> the (event_instant (ie_event a))"
    by (auto simp: not_less [symmetric])
qed

section \<open>The pairing of tool events\<close>

lemma dedup_onto_snoc:
  "dedup_onto seen (xs @ [x]) = dedup_onto seen xs @ (if x \<in> set xs \<union> set seen then [] else [x])"
  by (induction seen xs rule: dedup_onto.induct) auto

lemma dedup_snoc: "dedup (xs @ [x]) = dedup xs @ (if x \<in> set xs then [] else [x])"
  by (simp add: dedup_def dedup_onto_snoc)

lemma dict_set_table:
  "distinct ks \<Longrightarrow>
   dict_set k v (map (\<lambda>i. (i, f i)) ks) = map (\<lambda>i. (i, if i = k then v else f i)) (if k \<in> set ks then ks else ks @ [k])"
  by (induction ks) auto

definition invocation_id_of :: "json \<Rightarrow> string" where
  "invocation_id_of ev = str_or [] (json_get ev ''invocation_id'')"

definition events_of :: "string \<Rightarrow> json list \<Rightarrow> json list" where
  "events_of i evs = filter (\<lambda>ev. invocation_id_of ev = i) evs"

definition invocation_ids :: "json list \<Rightarrow> string list" where
  "invocation_ids evs = dedup (filter (\<lambda>i. i \<noteq> []) (map invocation_id_of evs))"

definition is_started :: "json \<Rightarrow> bool" where
  "is_started ev \<longleftrightarrow> is_text (json_get ev ''event'') STARTED"

text \<open>The reference: the last started event, or else the first event, and the last terminal one.\<close>

definition group_of :: "string \<Rightarrow> json list \<Rightarrow> invocation_group" where
  "group_of i evs =
     (let mine = events_of i evs; started = filter is_started mine;
          terminal = filter terminal_event mine;
          first = (if started = [] then hd mine else last started)
      in \<lparr>ig_first = first, ig_started_at = the (json_get first ''created_at''),
          ig_terminal = (if terminal = [] then None else Some (last terminal))\<rparr>)"

definition groups_of :: "json list \<Rightarrow> (string \<times> invocation_group) list" where
  "groups_of evs = map (\<lambda>i. (i, group_of i evs)) (invocation_ids evs)"

lemma started_not_terminal: "is_started ev \<Longrightarrow> \<not> terminal_event ev"
  by (auto simp: is_started_def terminal_event_def is_text_def STARTED_def)

lemma events_of_Nil: "i \<noteq> [] \<Longrightarrow> events_of i evs = [] \<longleftrightarrow> i \<notin> set (invocation_ids evs)"
  by (auto simp: events_of_def invocation_ids_def filter_empty_conv)

lemma map_of_groups:
  "map_of (groups_of evs) i = (if i \<in> set (invocation_ids evs) then Some (group_of i evs) else None)"
  by (simp add: groups_of_def map_of_map_restrict restrict_map_def)

lemma group_of_snoc_other: "invocation_id_of ev \<noteq> i \<Longrightarrow> group_of i (evs @ [ev]) = group_of i evs"
  by (simp add: group_of_def events_of_def)

lemma group_of_snoc:
  assumes "invocation_id_of ev = i" "i \<noteq> []" "json_get ev ''created_at'' = Some at"
  shows "group_of i (evs @ [ev]) = add_event ev at (map_of (groups_of evs) i)"
proof -
  have mine: "events_of i (evs @ [ev]) = events_of i evs @ [ev]"
    using assms(1) by (simp add: events_of_def)
  show ?thesis
    unfolding group_of_def mine map_of_groups
    using assms(3) started_not_terminal [of ev] events_of_Nil [OF assms(2), of evs]
    by (auto simp: add_event_def group_of_def Let_def is_started_def [symmetric])
qed

lemma groups_of_snoc:
  assumes "json_get ev ''created_at'' = Some at" "invocation_id_of ev \<noteq> []"
  shows "groups_of (evs @ [ev]) =
    dict_set (invocation_id_of ev) (add_event ev at (map_of (groups_of evs) (invocation_id_of ev))) (groups_of evs)"
proof -
  let ?i = "invocation_id_of ev"
  have ids: "invocation_ids (evs @ [ev]) =
      (if ?i \<in> set (invocation_ids evs) then invocation_ids evs else invocation_ids evs @ [?i])"
    using assms(2) by (auto simp: invocation_ids_def dedup_snoc)
  have table: "dict_set ?i v (groups_of evs) = map (\<lambda>j. (j, if j = ?i then v else group_of j evs))
      (if ?i \<in> set (invocation_ids evs) then invocation_ids evs else invocation_ids evs @ [?i])" for v
    unfolding groups_of_def by (rule dict_set_table) (simp add: invocation_ids_def)
  show ?thesis
    unfolding table group_of_snoc [OF refl assms(2,1), symmetric]
    unfolding groups_of_def ids by (auto simp: group_of_snoc_other)
qed

lemma groups_of_snoc_skip: "invocation_id_of ev = [] \<Longrightarrow> groups_of (evs @ [ev]) = groups_of evs"
  by (auto simp: groups_of_def invocation_ids_def intro!: group_of_snoc_other)

lemma group_events_from:
  "\<forall>ev\<in>set evs. json_get ev ''created_at'' \<noteq> None \<Longrightarrow>
   group_events evs (groups_of pre) = Inr (groups_of (pre @ evs))"
proof (induction evs arbitrary: pre)
  case (Cons ev evs)
  then obtain at where at: "json_get ev ''created_at'' = Some at" by auto
  have ih: "group_events evs (groups_of (pre @ [ev])) = Inr (groups_of (pre @ ev # evs))"
    using Cons.IH [of "pre @ [ev]"] Cons.prems by simp
  show ?case
  proof (cases "invocation_id_of ev = []")
    case True
    with ih groups_of_snoc_skip [of ev pre] show ?thesis by (simp add: invocation_id_of_def)
  next
    case False
    with ih groups_of_snoc [OF at, of pre] at show ?thesis by (simp add: invocation_id_of_def Let_def)
  qed
qed simp

lemma group_events_reference:
  "\<forall>ev\<in>set evs. json_get ev ''created_at'' \<noteq> None \<Longrightarrow> group_events evs [] = Inr (groups_of evs)"
  using group_events_from [of evs "[]"] by (simp add: groups_of_def invocation_ids_def dedup_def)

lemma map_result_Inr: "map_result f xs = Inr ys \<Longrightarrow> list_all2 (\<lambda>x y. f x = Inr y) xs ys"
  by (induction xs arbitrary: ys) (auto simp: bind_eq_Inr)

lemma item_of_id: "item_of va (i, g) = Inr x \<Longrightarrow> ti_invocation_id x = i"
  by (auto simp: item_of_def bind_eq_Inr invocation.defs invocation_item.defs)

lemma aggregate_invocations_reference:
  assumes "aggregate_invocations va evs = Inr items"
    "\<forall>ev\<in>set evs. json_get ev ''created_at'' \<noteq> None"
  shows "distinct (map ti_invocation_id items) \<and>
    set (map ti_invocation_id items) = set (invocation_ids evs) \<and>
    (\<forall>x\<in>set items. item_of va (ti_invocation_id x, group_of (ti_invocation_id x) evs) = Inr x) \<and>
    sorted (map (\<lambda>x. utc_fields (ti_started_at x)) items)"
proof -
  from assms obtain xs where xs: "map_result (item_of va) (groups_of evs) = Inr xs"
    and items: "items = sort_key (\<lambda>x. utc_fields (ti_started_at x)) xs"
    by (auto simp: aggregate_invocations_def group_events_reference bind_eq_Inr sort_items_def
        split: if_splits)
  have two: "list_all2 (\<lambda>i x. item_of va (i, group_of i evs) = Inr x) (invocation_ids evs) xs"
    using map_result_Inr [OF xs] by (simp add: groups_of_def list_all2_map1)
  then have ids: "map ti_invocation_id xs = invocation_ids evs"
    by (induction rule: list_all2_induct) (auto dest: item_of_id)
  have "\<forall>x\<in>set xs. item_of va (ti_invocation_id x, group_of (ti_invocation_id x) evs) = Inr x"
    using two by (induction rule: list_all2_induct) (auto dest: item_of_id)
  moreover have "distinct (map ti_invocation_id xs)" by (simp add: ids invocation_ids_def)
  moreover have "set (map ti_invocation_id xs) = set (invocation_ids evs)" by (simp only: ids)
  ultimately show ?thesis by (simp add: items distinct_map)
qed

end
