(* ===== verification/Event_Log.thy ===== *)
theory Event_Log
  imports Executors Log_Safety
begin

text \<open>
  Writing the structured logs (shared/observability, agent_runtime/audit.py): the JSONL writer, the
  redaction of error texts, the payload of a stage event, the events of the four stages of the
  document pipeline, of the context service and of audited tool calls.  The files are those the log
  store reads.  A write has an environment: the clock, drawn identifiers, and whether the file system
  refuses it, in which case nothing is written.  Error texts are ASCII.
\<close>

section \<open>The writer (jsonl_writer.py)\<close>

record event_writer =
  ew_log_dir :: string
  ew_file_prefix :: string

record write_env =
  we_event_id :: string
  we_duration :: int
  we_date :: date
  we_at :: instant
  we_refused :: bool

definition date_text :: "date \<Rightarrow> string" where
  "date_text day = (case day of (y, m, d) \<Rightarrow> pad 4 y @ ''-'' @ pad 2 m @ ''-'' @ pad 2 d)"

definition log_file_name :: "event_writer \<Rightarrow> date \<Rightarrow> string" where
  "log_file_name w day = ew_file_prefix w @ ''-'' @ date_text day @ ''.jsonl''"

text \<open>
  Opening for appending creates a missing file.  A directory in its place, or a file that cannot be
  opened, refuses the write; a file that is no UTF-8 text stays so.
\<close>

fun append_line :: "string \<Rightarrow> string \<Rightarrow> dir_entry list \<Rightarrow> dir_entry list option" where
  "append_line name line [] =
     Some [\<lparr>de_name = name, de_symlink = False, de_file = True, de_content = FileLines [line]\<rparr>]"
| "append_line name line (e # es) =
     (if de_name e = name
      then (if de_file e
            then (case de_content e of
                    FileLines ls \<Rightarrow> Some (e\<lparr>de_content := FileLines (ls @ [line])\<rparr> # es)
                  | FileNotUtf8 \<Rightarrow> Some (e # es)
                  | FileUnreadable \<Rightarrow> None)
            else None)
      else map_option (Cons e) (append_line name line es))"

definition set_default :: "'k \<Rightarrow> 'v \<Rightarrow> ('k \<times> 'v) list \<Rightarrow> ('k \<times> 'v) list" where
  "set_default k v kvs = (if k \<in> fst ` set kvs then kvs else kvs @ [(k, v)])"

definition stamped :: "write_env \<Rightarrow> (string \<times> json) list \<Rightarrow> json" where
  "stamped env kvs = JObj (set_default ''created_at'' (JStr (isoformat (we_at env))) kvs)"

text \<open>A directory whose listing fails may take the line all the same; its content stays unknown.\<close>

definition write_event ::
  "json_library \<Rightarrow> write_env \<Rightarrow> event_writer \<Rightarrow> (string \<times> json) list \<Rightarrow> log_files \<Rightarrow> bool \<times> log_files" where
  "write_event lib env w kvs fs =
     (if we_refused env then (False, fs)
      else
        let name = log_file_name w (we_date env); line = js_dumps lib (stamped env kvs) in
        (case fs (ew_log_dir w) of
           ListingFails \<Rightarrow> (True, fs)
         | NoDirectory \<Rightarrow>
             (case append_line name line [] of
                None \<Rightarrow> (False, fs) | Some es \<Rightarrow> (True, fs(ew_log_dir w := Entries es)))
         | Entries es0 \<Rightarrow>
             (case append_line name line es0 of
                None \<Rightarrow> (False, fs) | Some es \<Rightarrow> (True, fs(ew_log_dir w := Entries es)))))"

section \<open>Redaction (logger.py)\<close>

definition word_char :: "char \<Rightarrow> bool" where
  "word_char c \<longleftrightarrow> (let n = (of_char c :: int) in
     48 \<le> n \<and> n \<le> 57 \<or> 65 \<le> n \<and> n \<le> 90 \<or> n = 95 \<or> 97 \<le> n \<and> n \<le> 122)"

text \<open>What is left of \<open>s\<close> after \<open>p\<close>, compared without case; \<open>p\<close> is in lower case.\<close>

fun after_text :: "string \<Rightarrow> string \<Rightarrow> string option" where
  "after_text [] s = Some s"
| "after_text (p # ps) [] = None"
| "after_text (p # ps) (c # s) = (if ascii_lower [c] = [p] then after_text ps s else None)"

text \<open>\<open>(api[_-]?key|token|authorization)\<close> at the start: the key and what follows it.\<close>

definition secret_key :: "string \<Rightarrow> (string \<times> string) option" where
  "secret_key s =
     (case filter (\<lambda>r. r \<noteq> None) (map (\<lambda>k. after_text k s)
        [''api_key'', ''api-key'', ''apikey'', ''token'', ''authorization'']) of
        Some rest # _ \<Rightarrow> Some (take (length s - length rest) s, rest)
      | _ \<Rightarrow> None)"

definition value_char :: "char \<Rightarrow> bool" where
  "value_char c \<longleftrightarrow> \<not> py_space c \<and> c \<noteq> CHR '','' \<and> c \<noteq> CHR '';''"

text \<open>
  \<open>\s*(?:bearer\s+)?[^\s,;]+\<close>: what is left after the longest value; \<open>bearer\<close> itself is the value
  when none follows it.
\<close>

definition after_value :: "string \<Rightarrow> string option" where
  "after_value s =
     (let t = dropWhile py_space s;
          plain = (if takeWhile value_char t = [] then None else Some (dropWhile value_char t))
      in case after_text ''bearer'' t of
           Some r \<Rightarrow>
             (let u = dropWhile py_space r in
              if takeWhile py_space r \<noteq> [] \<and> takeWhile value_char u \<noteq> []
              then Some (dropWhile value_char u) else plain)
         | None \<Rightarrow> plain)"

text \<open>\<open>\s*[:=]\s*\<close> and the value.\<close>

definition after_assignment :: "string \<Rightarrow> string option" where
  "after_assignment s =
     (case dropWhile py_space s of
        c # r \<Rightarrow> if c = CHR '':'' \<or> c = CHR ''='' then after_value r else None
      | [] \<Rightarrow> None)"

definition secret_at :: "string \<Rightarrow> (string \<times> string) option" where
  "secret_at s =
     (case secret_key s of
        None \<Rightarrow> None
      | Some (key, rest) \<Rightarrow> map_option (\<lambda>r. (key, r)) (after_assignment rest))"

lemma after_text_shorter: "after_text p s = Some r \<Longrightarrow> length r + length p = length s"
  by (induction p s rule: after_text.induct) (auto split: if_splits)

lemma dropWhile_shorter: "takeWhile P t \<noteq> [] \<Longrightarrow> length (dropWhile P t) < length t"
  by (cases t) (auto simp: less_Suc_eq_le length_dropWhile_le split: if_splits)

lemma after_value_shorter: "after_value s = Some r \<Longrightarrow> length r < length s"
proof -
  assume a: "after_value s = Some r"
  let ?t = "dropWhile py_space s"
  have t: "length ?t \<le> length s" by (rule length_dropWhile_le)
  show ?thesis
  proof (cases "r = dropWhile value_char ?t \<and> takeWhile value_char ?t \<noteq> []")
    case True
    then show ?thesis using dropWhile_shorter [of value_char ?t] t by simp
  next
    case False
    then obtain q where q: "after_text ''bearer'' ?t = Some q"
      and u: "takeWhile value_char (dropWhile py_space q) \<noteq> []" "r = dropWhile value_char (dropWhile py_space q)"
      using a by (auto simp: after_value_def Let_def split: option.splits if_splits)
    have "length r < length (dropWhile py_space q)" using u dropWhile_shorter by blast
    also have "\<dots> \<le> length q" by (rule length_dropWhile_le)
    also have "\<dots> \<le> length ?t" using after_text_shorter [OF q] by simp
    finally show ?thesis using t by simp
  qed
qed

lemma secret_key_shorter: "secret_key s = Some (k, rest) \<Longrightarrow> length rest < length s"
  by (auto simp: secret_key_def dest!: after_text_shorter split: list.splits option.splits if_splits)

lemma secret_at_shorter: "secret_at s = Some (k, r) \<Longrightarrow> length r < length s"
proof -
  assume "secret_at s = Some (k, r)"
  then obtain rest where k: "secret_key s = Some (k, rest)" and a: "after_assignment rest = Some r"
    by (auto simp: secret_at_def split: option.splits)
  obtain c q where q: "dropWhile py_space rest = c # q" "after_value q = Some r"
    using a by (auto simp: after_assignment_def split: list.splits if_splits)
  have "length r < length q" by (rule after_value_shorter [OF q(2)])
  moreover have "length q < length rest"
    using length_dropWhile_le [of py_space rest] unfolding q(1) by simp
  ultimately show ?thesis using secret_key_shorter [OF k] by simp
qed

text \<open>\<open>word\<close>: the character before is a word character, so no boundary is here.\<close>

function redact_keys :: "bool \<Rightarrow> string \<Rightarrow> string" where
  "redact_keys word [] = []"
| "redact_keys word (c # s) =
     (case (if word then None else secret_at (c # s)) of
        Some (key, rest) \<Rightarrow> key @ ''=<redacted>'' @ redact_keys False rest
      | None \<Rightarrow> c # redact_keys (word_char c) s)"
  by pat_completeness auto
termination redact_keys
  by (relation "measure (length \<circ> snd)") (auto dest!: secret_at_shorter split: if_splits)

text \<open>\<open>(://[^\s:/@]+:)[^\s/@]+(@)\<close>: the text up to the password, and from the @ on.\<close>

definition password_at :: "string \<Rightarrow> (string \<times> string) option" where
  "password_at s =
     (case after_text ''://'' s of
        None \<Rightarrow> None
      | Some r \<Rightarrow>
          let user_char = (\<lambda>c. \<not> py_space c \<and> c \<notin> {CHR '':'', CHR ''/'', CHR ''@''});
              password_char = (\<lambda>c. \<not> py_space c \<and> c \<notin> {CHR ''/'', CHR ''@''});
              user = takeWhile user_char r in
          (case dropWhile user_char r of
             c # p \<Rightarrow>
               (if c = CHR '':'' \<and> user \<noteq> [] \<and> takeWhile password_char p \<noteq> []
                then (case dropWhile password_char p of
                        d # q \<Rightarrow>
                          if d = CHR ''@'' then Some (''://'' @ user @ '':'', d # q) else None
                      | [] \<Rightarrow> None)
                else None)
           | [] \<Rightarrow> None))"

lemma password_at_shorter: "password_at s = Some (pre, rest) \<Longrightarrow> length rest < length s"
proof -
  assume a: "password_at s = Some (pre, rest)"
  obtain r where r: "after_text ''://'' s = Some r"
    using a by (auto simp: password_at_def split: option.splits)
  have suffix: "length (dropWhile P (t :: string)) \<le> length t" for P t by (rule length_dropWhile_le)
  obtain P Q c p where "dropWhile P r = c # p" "dropWhile Q p = rest"
    using a r by (auto simp: password_at_def Let_def split: list.splits if_splits)
  then have "length rest < length r"
    using suffix [of P r] suffix [of Q p] by simp
  then show ?thesis using after_text_shorter [OF r] by simp
qed

function redact_passwords :: "string \<Rightarrow> string" where
  "redact_passwords [] = []"
| "redact_passwords (c # s) =
     (case password_at (c # s) of
        Some (pre, rest) \<Rightarrow> pre @ ''<redacted>@'' @ redact_passwords (drop 1 rest)
      | None \<Rightarrow> c # redact_passwords s)"
  by pat_completeness auto
termination redact_passwords
  by (relation "measure length") (auto dest!: password_at_shorter)

definition redact_sensitive_text :: "string \<Rightarrow> string" where
  "redact_sensitive_text s = redact_passwords (redact_keys False s)"

text \<open>\<open>cause\<close> is the error's \<open>__cause__\<close>.\<close>

definition error_fields :: "error option \<Rightarrow> error \<Rightarrow> (string \<times> json) list" where
  "error_fields cause e =
     (let root = (case cause of Some c \<Rightarrow> c | None \<Rightarrow> e) in
      [(''error_type'', JStr (error_class root)),
       (''error_message'', JStr (redact_sensitive_text (error_text root)))] @
      (case error_status e of Some (status, _) \<Rightarrow> [(''http_status'', JInt status)] | None \<Rightarrow> []))"

section \<open>Stage events (logger.py)\<close>

record stage_logger =
  sl_stage :: string
  sl_document_id :: "int option"
  sl_operation :: operation_context
  sl_writer :: event_writer
  sl_context :: "(string \<times> json) list"

text \<open>A field that is \<open>None\<close> does not overwrite what is bound.\<close>

definition bind_fields ::
  "int option \<Rightarrow> (string \<times> json) list \<Rightarrow> stage_logger \<Rightarrow> stage_logger" where
  "bind_fields document_id kvs l =
     l\<lparr>sl_document_id := (case document_id of Some i \<Rightarrow> Some i | None \<Rightarrow> sl_document_id l),
       sl_context := dict_update (sl_context l) (filter (\<lambda>kv. snd kv \<noteq> JNull) kvs)\<rparr>"

record log_call =
  lc_event :: string
  lc_phase :: string
  lc_level :: string
  lc_message :: string
  lc_fields :: "(string \<times> json) list"

definition json_opt :: "('a \<Rightarrow> json) \<Rightarrow> 'a option \<Rightarrow> json" where
  "json_opt f x = (case x of None \<Rightarrow> JNull | Some v \<Rightarrow> f v)"

definition field_or_null :: "(string \<times> json) list \<Rightarrow> string \<Rightarrow> json" where
  "field_or_null kvs k = (case map_of kvs k of None \<Rightarrow> JNull | Some v \<Rightarrow> v)"

definition stage_fixed_fields :: "write_env \<Rightarrow> stage_logger \<Rightarrow> log_call \<Rightarrow> (string \<times> json) list" where
  "stage_fixed_fields env l c =
     [(''schema_version'', JInt 2), (''event_id'', JStr (we_event_id env)),
      (''workflow_id'', JStr (oc_workflow_id (sl_operation l))),
      (''operation_id'', JStr (oc_operation_id (sl_operation l))),
      (''parent_operation_id'', json_opt JStr (oc_parent_operation_id (sl_operation l))),
      (''attempt'', JInt (oc_attempt (sl_operation l))), (''event'', JStr (lc_event c)),
      (''stage'', JStr (sl_stage l)), (''phase'', JStr (lc_phase c)), (''level'', JStr (lc_level c)),
      (''message'', JStr (lc_message c)), (''duration_ms'', JInt (we_duration env)),
      (''document_id'', json_opt JInt (sl_document_id l)),
      (''status_before'', field_or_null (lc_fields c) ''status_before''),
      (''status_after'', field_or_null (lc_fields c) ''status_after'')]"

definition stage_payload :: "write_env \<Rightarrow> stage_logger \<Rightarrow> log_call \<Rightarrow> (string \<times> json) list" where
  "stage_payload env l c =
     dict_update (dict_update (dict_update [] (sl_context l)) (lc_fields c)) (stage_fixed_fields env l c)"

definition stage_write ::
  "json_library \<Rightarrow> write_env \<Rightarrow> stage_logger \<Rightarrow> log_call \<Rightarrow> log_files \<Rightarrow> bool \<times> log_files" where
  "stage_write lib env l c = write_event lib env (sl_writer l) (stage_payload env l c)"

text \<open>A method of a logger binds fields and makes one call.\<close>

type_synonym log_method = "stage_logger \<Rightarrow> stage_logger \<times> log_call"

definition log_emit ::
  "json_library \<Rightarrow> write_env \<Rightarrow> log_method \<Rightarrow> stage_logger \<Rightarrow> log_files \<Rightarrow> stage_logger \<times> log_files" where
  "log_emit lib env mth l fs =
     (case mth l of (l', c) \<Rightarrow> (l', snd (stage_write lib env l' c fs)))"

definition stage_directory :: "string \<Rightarrow> string \<Rightarrow> string" where
  "stage_directory root stage = root @ ''/document_lifecycle/'' @ stage"

definition stage_writer :: "string \<Rightarrow> string \<Rightarrow> event_writer" where
  "stage_writer root stage = \<lparr>ew_log_dir = stage_directory root stage, ew_file_prefix = stage\<rparr>"

definition new_stage_logger ::
  "string \<Rightarrow> string \<Rightarrow> int option \<Rightarrow> operation_context \<Rightarrow> stage_logger" where
  "new_stage_logger root stage document_id op =
     \<lparr>sl_stage = stage, sl_document_id = document_id, sl_operation = op,
      sl_writer = stage_writer root stage, sl_context = []\<rparr>"

text \<open>The sources the log queries are wired to (bootstrap/lifespan.py).\<close>

definition document_log_sources :: "string \<Rightarrow> log_source list" where
  "document_log_sources root =
     map (\<lambda>stage. \<lparr>ls_source_id = stage, ls_directory = stage_directory root stage, ls_file_prefix = stage\<rparr>)
       [''upload'', ''process'', ''chunk'', ''index'']"

definition agent_tool_log_sources :: "string \<Rightarrow> log_source list" where
  "agent_tool_log_sources root =
     [\<lparr>ls_source_id = ''agent_tool'', ls_directory = root @ ''/agent_tools'',
       ls_file_prefix = ''agent-tool''\<rparr>]"

end
