(* ===== verification/Stage_Log.thy ===== *)
theory Stage_Log
  imports Event_Log
begin

text \<open>
  The events of the four stages of the document pipeline (shared/observability/document_upload_logger.py,
  document_process_logger.py, document_chunk_logger.py, document_index_logger.py), of the context
  service (context_logger.py) and of an audited tool call (agent_runtime/audit.py).  A method answers
  the logger with its bound fields and the call it makes.
\<close>

section \<open>What the stages share\<close>

text \<open>The columns of the claimed document that a logger binds.\<close>

record log_snapshot =
  sn_log_document_id :: int
  sn_log_doc_code :: string
  sn_log_kb_id :: int
  sn_log_domain_code :: "string option"
  sn_log_business_scene :: "string option"
  sn_log_source_type :: string
  sn_log_status_before :: string

definition bind_context :: "log_snapshot \<Rightarrow> stage_logger \<Rightarrow> stage_logger" where
  "bind_context x =
     bind_fields (Some (sn_log_document_id x))
       [(''doc_code'', JStr (sn_log_doc_code x)), (''kb_id'', JInt (sn_log_kb_id x)),
        (''domain_code'', json_opt JStr (sn_log_domain_code x)),
        (''business_scene'', json_opt JStr (sn_log_business_scene x)),
        (''source_type'', JStr (sn_log_source_type x))]"

definition bind_if :: "log_snapshot option \<Rightarrow> stage_logger \<Rightarrow> stage_logger" where
  "bind_if x l = (case x of None \<Rightarrow> l | Some s \<Rightarrow> bind_context s l)"

definition log_call_of ::
  "string \<Rightarrow> string \<Rightarrow> string \<Rightarrow> string \<Rightarrow> (string \<times> json) list \<Rightarrow> log_call" where
  "log_call_of ev phase level message kvs =
     \<lparr>lc_event = ev, lc_phase = phase, lc_level = level, lc_message = message, lc_fields = kvs\<rparr>"

definition status_fields :: "string option \<Rightarrow> string option \<Rightarrow> (string \<times> json) list" where
  "status_fields before after =
     [(''status_before'', json_opt JStr before), (''status_after'', json_opt JStr after)]"

section \<open>Processing\<close>

definition process_claimed :: "log_snapshot \<Rightarrow> log_method" where
  "process_claimed x l =
     (bind_context x l,
      log_call_of ''document_process_claimed'' ''claim'' ''info'' ''processing task claimed''
        (status_fields (Some (sn_log_status_before x)) (Some ''processing'')))"

definition process_completed :: "string \<Rightarrow> string \<Rightarrow> log_method" where
  "process_completed processed_source_type cleaned_uri l =
     (l, log_call_of ''document_process_completed'' ''finalize'' ''info''
        ''document processed, standard artifact registered''
        ([(''processed_source_type'', JStr processed_source_type), (''cleaned_uri'', JStr cleaned_uri)] @
         status_fields (Some ''processing'') (Some ''processed'')))"

definition stage_failed ::
  "string \<Rightarrow> string \<Rightarrow> error option \<Rightarrow> error \<Rightarrow> string \<Rightarrow> log_snapshot option \<Rightarrow> bool \<Rightarrow>
     string option \<Rightarrow> string option \<Rightarrow> log_method" where
  "stage_failed ev message cause e phase x state_updated before after l =
     (bind_if x l,
      log_call_of ev phase ''error'' message
        ((''state_updated'', JBool state_updated) # status_fields before after @ error_fields cause e))"

definition process_failed ::
  "error option \<Rightarrow> error \<Rightarrow> string \<Rightarrow> log_snapshot option \<Rightarrow> bool \<Rightarrow> string option \<Rightarrow> string option \<Rightarrow>
     log_method" where
  "process_failed = stage_failed ''document_process_failed'' ''document processing failed''"

section \<open>Chunking\<close>

definition chunk_claimed :: "log_snapshot \<Rightarrow> string \<Rightarrow> string \<Rightarrow> log_method" where
  "chunk_claimed x chunk_source_type cleaned_path l =
     (bind_context x l,
      log_call_of ''document_chunk_claimed'' ''claim'' ''info'' ''chunking task claimed''
        ([(''chunk_source_type'', JStr chunk_source_type), (''cleaned_uri'', JStr cleaned_path)] @
         status_fields (Some (sn_log_status_before x)) (Some ''chunking'')))"

definition chunk_build_started :: "log_snapshot \<Rightarrow> string \<Rightarrow> string \<Rightarrow> string \<Rightarrow> log_method" where
  "chunk_build_started x chunk_source_type cleaned_path chunker l =
     (bind_context x l,
      log_call_of ''document_chunk_build_started'' ''execute'' ''info'' ''chunker starts''
        [(''chunker'', JStr chunker), (''chunk_source_type'', JStr chunk_source_type),
         (''cleaned_uri'', JStr cleaned_path)])"

text \<open>The children of the built chunks, per parent.\<close>

definition chunk_build_completed :: "utext list \<Rightarrow> utext list list \<Rightarrow> string \<Rightarrow> log_method" where
  "chunk_build_completed parents children chunker l =
     (l, log_call_of ''document_chunk_build_completed'' ''execute'' ''info'' ''chunker finished''
        [(''chunker'', JStr chunker), (''parent_count'', JInt (int (length parents))),
         (''child_count'', JInt (sum_list (map (int \<circ> length) children)))])"

definition chunk_completed :: "int \<Rightarrow> int \<Rightarrow> log_method" where
  "chunk_completed parent_count child_count l =
     (l, log_call_of ''document_chunk_completed'' ''finalize'' ''info'' ''chunks written to the database''
        ([(''parent_count'', JInt parent_count), (''child_count'', JInt child_count)] @
         status_fields (Some ''chunking'') (Some ''chunked'')))"

definition chunk_failed ::
  "error option \<Rightarrow> error \<Rightarrow> string \<Rightarrow> log_snapshot option \<Rightarrow> bool \<Rightarrow> string option \<Rightarrow> string option \<Rightarrow>
     log_method" where
  "chunk_failed = stage_failed ''document_chunk_failed'' ''document chunking failed''"

section \<open>Indexing\<close>

definition index_claimed :: "log_snapshot \<Rightarrow> int list \<Rightarrow> int \<Rightarrow> int \<Rightarrow> log_method" where
  "index_claimed x chunks pending_count retry_count l =
     (bind_context x l,
      log_call_of ''document_index_claimed'' ''claim'' ''info'' ''indexing task claimed''
        ([(''chunk_count'', JInt (int (length chunks))), (''pending_count'', JInt pending_count),
          (''retry_count'', JInt retry_count)] @
         status_fields (Some (sn_log_status_before x)) (Some ''indexing'')))"

definition index_collection_ready :: "string option \<Rightarrow> int \<Rightarrow> log_method" where
  "index_collection_ready collection_name vector_size l =
     (l, log_call_of ''document_index_collection_ready'' ''execute'' ''info'' ''collection checked''
        [(''collection_name'', json_opt JStr collection_name), (''vector_size'', JInt vector_size)])"

definition index_embedding_batch_started :: "int \<Rightarrow> int \<Rightarrow> string \<Rightarrow> log_method" where
  "index_embedding_batch_started batch_index batch_size embedding_model l =
     (l, log_call_of ''document_index_embedding_batch_started'' ''execute'' ''info''
        ''embedding batch starts''
        [(''batch_index'', JInt batch_index), (''batch_size'', JInt batch_size),
         (''embedding_model'', JStr embedding_model)])"

text \<open>\<open>now\<close> and \<open>started\<close> are readings of the clock in milliseconds.\<close>

definition index_embedding_batch_completed ::
  "int \<Rightarrow> int \<Rightarrow> int list list \<Rightarrow> int \<Rightarrow> int \<Rightarrow> log_method" where
  "index_embedding_batch_completed batch_index input_count vectors started now l =
     (l, log_call_of ''document_index_embedding_batch_completed'' ''execute'' ''info''
        ''embedding batch finished''
        [(''batch_index'', JInt batch_index), (''input_count'', JInt input_count),
         (''vector_count'', JInt (int (length vectors))),
         (''vector_size'', JInt (case vectors of [] \<Rightarrow> 0 | v # _ \<Rightarrow> int (length v))),
         (''batch_duration_ms'', JInt (now - started))])"

definition index_qdrant_batch_completed :: "int \<Rightarrow> int \<Rightarrow> int \<Rightarrow> int \<Rightarrow> log_method" where
  "index_qdrant_batch_completed batch_index point_count started now l =
     (l, log_call_of ''document_index_qdrant_batch_completed'' ''execute'' ''info''
        ''vector store batch finished''
        [(''batch_index'', JInt batch_index), (''point_count'', JInt point_count),
         (''batch_duration_ms'', JInt (now - started))])"

definition index_completed :: "int \<Rightarrow> int \<Rightarrow> log_method" where
  "index_completed total_chunks indexed_chunks l =
     (l, log_call_of ''document_index_completed'' ''finalize'' ''info'' ''vector indexing finished''
        ([(''total_chunks'', JInt total_chunks), (''indexed_chunks'', JInt indexed_chunks)] @
         status_fields (Some ''indexing'') (Some ''indexed'')))"

record index_failure_log =
  il_document_state_updated :: bool
  il_chunk_state_updated_count :: int
  il_status_before :: "string option"
  il_status_after :: "string option"
  il_operation :: "string option"
  il_batch_index :: "int option"
  il_batch_size :: "int option"
  il_confirmed_point_count :: int
  il_uncertain_point_count :: int

definition index_failed ::
  "error option \<Rightarrow> error \<Rightarrow> string \<Rightarrow> log_snapshot option \<Rightarrow> index_failure_log \<Rightarrow> log_method" where
  "index_failed cause e phase x f l =
     (bind_if x l,
      log_call_of ''document_index_failed'' phase ''error'' ''vector indexing failed''
        ([(''operation'', json_opt JStr (il_operation f)),
          (''batch_index'', json_opt JInt (il_batch_index f)),
          (''batch_size'', json_opt JInt (il_batch_size f)),
          (''confirmed_point_count'', JInt (il_confirmed_point_count f)),
          (''uncertain_point_count'', JInt (il_uncertain_point_count f)),
          (''document_state_updated'', JBool (il_document_state_updated f)),
          (''chunk_state_updated_count'', JInt (il_chunk_state_updated_count f))] @
         status_fields (il_status_before f) (il_status_after f) @ error_fields cause e))"

definition index_compensation_started :: "int \<Rightarrow> int \<Rightarrow> log_method" where
  "index_compensation_started confirmed uncertain l =
     (l, log_call_of ''document_index_compensation_started'' ''compensate'' ''warning''
        ''deletion of points starts''
        [(''confirmed_point_count'', JInt confirmed), (''uncertain_point_count'', JInt uncertain)])"

definition index_compensation_completed :: "int \<Rightarrow> int \<Rightarrow> int \<Rightarrow> log_method" where
  "index_compensation_completed requested started now l =
     (l, log_call_of ''document_index_compensation_completed'' ''compensate'' ''info''
        ''deletion of points finished''
        [(''requested_point_count'', JInt requested), (''batch_duration_ms'', JInt (now - started))])"

definition index_compensation_failed ::
  "error option \<Rightarrow> error \<Rightarrow> int \<Rightarrow> int \<Rightarrow> int \<Rightarrow> int \<Rightarrow> int \<Rightarrow> log_method" where
  "index_compensation_failed cause e confirmed uncertain points started now l =
     (l, log_call_of ''document_index_compensation_failed'' ''compensate'' ''error''
        ''deletion of points failed''
        ([(''confirmed_point_count'', JInt confirmed), (''uncertain_point_count'', JInt uncertain),
          (''point_count'', JInt points), (''batch_duration_ms'', JInt (now - started))] @
         error_fields cause e))"

section \<open>Upload\<close>

record upload_log =
  ul_doc_code :: "string option"
  ul_kb_id :: int
  ul_domain_code :: "string option"
  ul_business_scene :: "string option"
  ul_title :: string
  ul_filename :: "string option"
  ul_source_type :: "string option"
  ul_source_uri :: "string option"
  ul_file_size :: int

definition upload_started :: "upload_log \<Rightarrow> string \<Rightarrow> string \<Rightarrow> log_method" where
  "upload_started u saved_filename actor l =
     (bind_fields None
        [(''doc_code'', json_opt JStr (ul_doc_code u)), (''kb_id'', JInt (ul_kb_id u)),
         (''domain_code'', json_opt JStr (ul_domain_code u)),
         (''business_scene'', json_opt JStr (ul_business_scene u)),
         (''source_type'', json_opt JStr (ul_source_type u))] l,
      log_call_of ''document_upload_started'' ''execute'' ''info'' ''upload starts''
        [(''title'', JStr (ul_title u)), (''filename'', json_opt JStr (ul_filename u)),
         (''saved_filename'', JStr saved_filename), (''created_by_actor_code'', JStr actor)])"

definition upload_raw_file_saved :: "string \<Rightarrow> int \<Rightarrow> string \<Rightarrow> int \<Rightarrow> log_method" where
  "upload_raw_file_saved code kb uri bytes l =
     (l, log_call_of ''document_upload_raw_file_saved'' ''execute'' ''info'' ''source file saved''
        [(''doc_code'', JStr code), (''kb_id'', JInt kb), (''source_uri'', JStr uri),
         (''file_size'', JInt bytes)])"

definition upload_hash_calculated :: "string \<Rightarrow> int \<Rightarrow> string \<Rightarrow> log_method" where
  "upload_hash_calculated code kb hash l =
     (l, log_call_of ''document_upload_hash_calculated'' ''execute'' ''info'' ''hash of the source calculated''
        [(''doc_code'', JStr code), (''kb_id'', JInt kb), (''content_hash'', JStr hash)])"

definition upload_duplicate_detected ::
  "string \<Rightarrow> int \<Rightarrow> string \<Rightarrow> int \<Rightarrow> string \<Rightarrow> log_method" where
  "upload_duplicate_detected code kb hash duplicated_id duplicated_code l =
     (l, log_call_of ''document_upload_duplicate_detected'' ''finalize'' ''warning''
        ''duplicate document, upload rejected''
        [(''doc_code'', JStr code), (''kb_id'', JInt kb), (''content_hash'', JStr hash),
         (''duplicated_document_id'', JInt duplicated_id), (''duplicated_doc_code'', JStr duplicated_code),
         (''outcome'', JStr ''rejected''), (''document_created'', JBool False), (''status_after'', JNull),
         (''diagnosis_hint'', JStr ''a business rule rejected the upload'')])"

record uploaded_log = log_snapshot +
  ud_title :: string
  ud_original_filename :: string
  ud_source_uri :: string
  ud_file_size :: int
  ud_content_hash :: string
  ud_version :: int
  ud_status :: string
  ud_created_by :: string

definition upload_completed :: "uploaded_log \<Rightarrow> log_method" where
  "upload_completed d l =
     (bind_context (log_snapshot.truncate d) l,
      log_call_of ''document_upload_completed'' ''finalize'' ''info'' ''upload finished''
        [(''title'', JStr (ud_title d)), (''original_filename'', JStr (ud_original_filename d)),
         (''source_uri'', JStr (ud_source_uri d)), (''file_size'', JInt (ud_file_size d)),
         (''content_hash'', JStr (ud_content_hash d)), (''version'', JInt (ud_version d)),
         (''status_after'', JStr (ud_status d)), (''created_by_actor_code'', JStr (ud_created_by d))])"

definition upload_fields :: "upload_log \<Rightarrow> (string \<times> json) list" where
  "upload_fields u =
     [(''doc_code'', json_opt JStr (ul_doc_code u)), (''kb_id'', JInt (ul_kb_id u)),
      (''domain_code'', json_opt JStr (ul_domain_code u)),
      (''business_scene'', json_opt JStr (ul_business_scene u)), (''title'', JStr (ul_title u)),
      (''filename'', json_opt JStr (ul_filename u)), (''source_type'', json_opt JStr (ul_source_type u)),
      (''source_uri'', json_opt JStr (ul_source_uri u)), (''file_size'', JInt (ul_file_size u))]"

definition upload_failed_by_http_exception ::
  "int \<Rightarrow> string \<Rightarrow> string \<Rightarrow> upload_log \<Rightarrow> bool \<Rightarrow> log_method" where
  "upload_failed_by_http_exception status detail phase u cleanup_success l =
     (l, log_call_of ''document_upload_failed'' phase ''warning'' ''upload failed, a check rejected it''
        (upload_fields u @
         [(''error_type'', JStr ''HTTPException''),
          (''error_message'', JStr (redact_sensitive_text detail)), (''http_status'', JInt status),
          (''outcome'', JStr ''rejected''), (''document_created'', JBool False), (''status_after'', JNull),
          (''cleanup_success'', JBool cleanup_success),
          (''diagnosis_hint'', JStr ''check the name, type and size of the file and the parameters'')]))"

definition upload_failed_by_unexpected_exception ::
  "error option \<Rightarrow> error \<Rightarrow> string \<Rightarrow> upload_log \<Rightarrow> bool \<Rightarrow> log_method" where
  "upload_failed_by_unexpected_exception cause e phase u cleanup_success l =
     (l, log_call_of ''document_upload_failed'' phase ''error'' ''upload failed with a system error''
        (upload_fields u @
         [(''outcome'', JStr ''error''), (''document_created'', JBool False), (''status_after'', JNull),
          (''cleanup_success'', JBool cleanup_success),
          (''diagnosis_hint'', JStr ''a system error, ask the administrator'')] @
         error_fields cause e))"

section \<open>Context events (context_logger.py)\<close>

definition context_writer :: "string \<Rightarrow> event_writer" where
  "context_writer root = \<lparr>ew_log_dir = root @ ''/context'', ew_file_prefix = ''context''\<rparr>"

definition context_event_write ::
  "json_library \<Rightarrow> write_env \<Rightarrow> event_writer \<Rightarrow> string \<Rightarrow> string \<Rightarrow> (string \<times> json) list \<Rightarrow>
     log_files \<Rightarrow> bool \<times> log_files" where
  "context_event_write lib env w ev level kvs =
     write_event lib env w
       (dict_update
          [(''schema_version'', JInt 1), (''event_id'', JStr (we_event_id env)), (''event'', JStr ev),
           (''subsystem'', JStr ''context''), (''level'', JStr level)] kvs)"

section \<open>Audited tool calls (agent_runtime/audit.py)\<close>

record audit_context =
  ax_trace_id :: string
  ax_agent_run_id :: string
  ax_conversation_id :: "string option"
  ax_turn_id :: "string option"
  ax_task_id :: "string option"
  ax_workflow_id :: "string option"
  ax_execution_id :: "string option"
  ax_operation_id :: "string option"
  ax_attempt :: "int option"
  ax_agent_name :: string
  ax_actor_code :: string

record audited_invocation =
  ai_writer :: event_writer
  ai_context :: audit_context
  ai_tool_name :: string
  ai_resource_refs :: "string list"
  ai_invocation_id :: string

definition audit_writer :: "string \<Rightarrow> event_writer" where
  "audit_writer root = \<lparr>ew_log_dir = root @ ''/agent_tools'', ew_file_prefix = ''agent-tool''\<rparr>"

definition audit_payload ::
  "write_env \<Rightarrow> audited_invocation \<Rightarrow> string \<Rightarrow> (string \<times> json) list \<Rightarrow> (string \<times> json) list" where
  "audit_payload env v ev kvs =
     (let x = ai_context v in
      dict_update
        [(''schema_version'', JInt 1), (''event_id'', JStr (we_event_id env)),
         (''invocation_id'', JStr (ai_invocation_id v)), (''event'', JStr ev),
         (''trace_id'', JStr (ax_trace_id x)), (''agent_run_id'', JStr (ax_agent_run_id x)),
         (''conversation_id'', json_opt JStr (ax_conversation_id x)),
         (''turn_id'', json_opt JStr (ax_turn_id x)), (''task_id'', json_opt JStr (ax_task_id x)),
         (''workflow_id'', json_opt JStr (ax_workflow_id x)),
         (''execution_id'', json_opt JStr (ax_execution_id x)),
         (''operation_id'', json_opt JStr (ax_operation_id x)),
         (''attempt'', json_opt JInt (ax_attempt x)), (''agent_name'', JStr (ax_agent_name x)),
         (''tool_name'', JStr (ai_tool_name v)), (''actor_code'', JStr (ax_actor_code x)),
         (''resource_refs'', JList (map JStr (ai_resource_refs v))),
         (''duration_ms'', JInt (we_duration env))] kvs)"

fun audit_call :: "audit_event \<Rightarrow> string \<times> (string \<times> json) list" where
  "audit_call InvocationStarted = (''agent_tool_invocation_started'', [])"
| "audit_call (InvocationSucceeded code) =
     (''agent_tool_invocation_succeeded'', [(''result_code'', JStr code), (''retryable'', JBool False)])"
| "audit_call (InvocationRejected code retryable) =
     (''agent_tool_invocation_rejected'', [(''result_code'', JStr code), (''retryable'', JBool retryable)])"
| "audit_call (InvocationFailed code retryable) =
     (''agent_tool_invocation_failed'', [(''result_code'', JStr code), (''retryable'', JBool retryable)])"

definition audit_json :: "audited_invocation \<Rightarrow> write_env \<Rightarrow> audit_event \<Rightarrow> json" where
  "audit_json v env a = (case audit_call a of (ev, kvs) \<Rightarrow> stamped env (audit_payload env v ev kvs))"

definition audit_write ::
  "json_library \<Rightarrow> audited_invocation \<Rightarrow> write_env \<times> audit_event \<Rightarrow> log_files \<Rightarrow> log_files" where
  "audit_write lib v r fs =
     (case r of (env, a) \<Rightarrow> (case audit_call a of (ev, kvs) \<Rightarrow>
        snd (write_event lib env (ai_writer v) (audit_payload env v ev kvs) fs)))"

text \<open>The events of one audited call (\<open>execute_audited_tool_call\<close>) written one after the other.\<close>

definition audit_writes ::
  "json_library \<Rightarrow> audited_invocation \<Rightarrow> (write_env \<times> audit_event) list \<Rightarrow> log_files \<Rightarrow> log_files" where
  "audit_writes lib v rs fs = fold (audit_write lib v) rs fs"

end
