(* ===== verification/Log_Writing.thy ===== *)
theory Log_Writing
  imports Stage_Log "HOL-Library.Multiset"
begin

text \<open>
  What is written is read: the ISO text of a time reads back as that time, a written line adds
  exactly one event to what the log store finds and changes no other, the typed form of a stage event
  tells what the logger knew, and an audited call reads back as one invocation.
\<close>

section \<open>ISO times read back\<close>

definition calendar_instant :: "instant \<Rightarrow> bool" where
  "calendar_instant i \<longleftrightarrow> valid_instant i \<and> (case i of (y, m, d, u) \<Rightarrow> d \<le> month_days y m)"

lemma digit_of_pad: "0 \<le> d \<Longrightarrow> d < 10 \<Longrightarrow> digit (char_of (48 + nat d)) = Some d"
proof -
  assume d: "0 \<le> d" "d < 10"
  have "(of_char (char_of (48 + nat d) :: char) :: int) = int (of_char (char_of (48 + nat d) :: char))"
    by (rule of_nat_of_char [symmetric])
  also have "\<dots> = 48 + d" using d by (simp del: of_nat_of_char)
  finally show ?thesis using d by (simp add: digit_def)
qed

lemma digits_add:
  "digits (a + b) v s = Option.bind (digits a v s) (\<lambda>(v, r). digits b v r)"
  by (induction a v s rule: digits.induct) (auto split: option.splits)

lemma digits_pad:
  "0 \<le> n \<Longrightarrow> n < 10 ^ w \<Longrightarrow> digits w v (pad w n @ r) = Some (10 ^ w * v + n, r)"
proof (induction w arbitrary: n r)
  case (Suc w)
  have "0 \<le> n div 10" "n div 10 < 10 ^ w" using Suc.prems by auto
  from Suc.IH [OF this] have "digits w v (pad (Suc w) n @ r) =
      Some (10 ^ w * v + n div 10, char_of (48 + nat (n mod 10)) # r)" by simp
  then show ?case
    using digits_add [of w 1 v "pad (Suc w) n @ r"] digit_of_pad [of "n mod 10"]
    by (simp add: algebra_simps)
qed simp

lemma pad_digits: "c \<in> set (pad w n) \<Longrightarrow> digit c \<noteq> None"
  by (induction w arbitrary: n) (auto simp: digit_of_pad)

lemma pad_no_mark:
  assumes "digit c = None"
  shows "c \<notin> set (pad w n)"
  using assms pad_digits by blast

lemma marks: "digit (CHR ''+'') = None" "digit (CHR ''-'') = None" "digit (CHR ''Z'') = None"
  by code_simp+

lemma replace_z_same: "CHR ''Z'' \<notin> set s \<Longrightarrow> replace_z s = s"
  by (induction s) auto

definition clock_text :: "int \<Rightarrow> string" where
  "clock_text u =
     pad 2 (u div 3600000000) @ '':'' @ pad 2 (u div 60000000 mod 60) @ '':'' @
     pad 2 (u div 1000000 mod 60) @ (if u mod 1000000 = 0 then [] else ''.'' @ pad 6 (u mod 1000000))"

lemma iso_clock_text:
  assumes "0 \<le> u" "u < DAY_MICROS"
  shows "iso_clock (clock_text u) =
    Some (u div 3600000000, u div 60000000 mod 60, u div 1000000 mod 60, u mod 1000000)"
proof -
  have h: "0 \<le> u div 3600000000" "u div 3600000000 < 10 ^ 2"
    using assms by (auto simp: DAY_MICROS_def)
  have m: "u div 60000000 mod 60 < 10 ^ 2" "u div 1000000 mod 60 < 10 ^ 2" "u mod 1000000 < 10 ^ 6"
    using pos_mod_bound [of 60 "u div 60000000"] pos_mod_bound [of 60 "u div 1000000"]
      pos_mod_bound [of 1000000 u] by simp_all
  have p: "digits 2 0 (pad 2 k @ r) = Some (k, r)" if "0 \<le> k" "k < 10 ^ 2" for k r
    using digits_pad [of k 2 0 r] that by simp
  have p6: "digits 6 0 (pad 6 k) = Some (k, [])" if "0 \<le> k" "k < 10 ^ 6" for k
    using digits_pad [of k 6 0 "[]"] that by simp
  have sec: "iso_seconds (pad 2 (u div 1000000 mod 60) @
      (if u mod 1000000 = 0 then [] else ''.'' @ pad 6 (u mod 1000000))) =
    Some (u div 1000000 mod 60, u mod 1000000)"
    using p [OF _ m(2)] p6 [OF _ m(3)] by (simp add: iso_seconds_def)
  show ?thesis
    unfolding clock_text_def iso_clock_def
    using p [OF h] p [OF _ m(1)] sec by simp
qed

lemma micros_of_clock:
  "clock_micros (u div 3600000000, u div 60000000 mod 60, u div 1000000 mod 60, u mod 1000000) = u"
proof -
  have q: "u div 60000000 = u div 1000000 div 60" "u div 3600000000 = u div 60000000 div 60"
    by (simp_all add: zdiv_zmult2_eq [symmetric])
  have "u div 3600000000 * 60 + u div 60000000 mod 60 = u div 60000000"
    unfolding q(2) by (rule div_mult_mod_eq)
  moreover have "u div 60000000 * 60 + u div 1000000 mod 60 = u div 1000000"
    unfolding q(1) by (rule div_mult_mod_eq)
  ultimately show ?thesis unfolding clock_micros_def prod.case by (simp add: div_mult_mod_eq)
qed

lemma clock_text_marks:
  assumes "c \<in> set (clock_text u)"
  shows "c \<noteq> CHR ''+'' \<and> c \<noteq> CHR ''-'' \<and> c \<noteq> CHR ''Z''"
  using assms pad_no_mark marks by (fastforce simp: clock_text_def split: if_splits)

lemma isoformat_reads_back:
  assumes "calendar_instant i"
  shows "parse_datetime (Some (JStr (isoformat i))) = Inr (Some i)"
proof -
  obtain y m d u where i: "i = (y, m, d, u)" by (metis prod_cases4)
  have v: "1 \<le> y" "y \<le> 9999" "1 \<le> m" "m \<le> 12" "1 \<le> d" "d \<le> month_days y m" "0 \<le> u" "u < DAY_MICROS"
    using assms by (auto simp: calendar_instant_def valid_instant_def i)
  have d2: "d \<le> 31" using v(6) month_days_bounds(2) [of y m] by simp
  let ?s = "isoformat i"
  have s: "?s = pad 4 y @ ''-'' @ pad 2 m @ ''-'' @ pad 2 d @ ''T'' @ clock_text u @ ''+00:00''"
    by (simp add: isoformat_def i clock_text_def)
  have "replace_z ?s = ?s"
    by (rule replace_z_same) (use pad_no_mark [OF marks(3)] clock_text_marks in \<open>fastforce simp: s\<close>)
  moreover have "iso_date ?s = Some ((y, m, d), CHR ''T'' # clock_text u @ ''+00:00'')"
    using v d2 digits_pad [of y 4 0] digits_pad [of m 2 0] digits_pad [of d 2 0]
    by (simp add: s iso_date_def)
  moreover have "takeWhile (Not \<circ> (\<lambda>c. c = CHR ''+'' \<or> c = CHR ''-'')) (clock_text u @ ''+00:00'') = clock_text u"
    by (subst takeWhile_append2) (use clock_text_marks in auto)
  moreover have "dropWhile (Not \<circ> (\<lambda>c. c = CHR ''+'' \<or> c = CHR ''-'')) (clock_text u @ ''+00:00'') = ''+00:00''"
    by (subst dropWhile_append2) (use clock_text_marks in auto)
  moreover have "iso_offset ''+00:00'' = Some (Some 0)" by code_simp
  moreover have "u div 3600000000 < 24" using v(8) by (simp add: DAY_MICROS_def)
  ultimately have "fromisoformat (replace_z ?s) = Some \<lparr>dt_date = (y, m, d), dt_micros = u, dt_offset = Some 0\<rparr>"
    using iso_clock_text [OF v(7,8)] micros_of_clock [of u]
    by (simp add: fromisoformat_def Let_def)
  then show ?thesis using v
    by (simp add: parse_datetime_def utc_def utc_fields_def i)
qed

section \<open>A written line is one more event\<close>

lemma read_lines_append:
  "read_lines lib src pred lo hi file n (ls @ ms) =
   bind (read_lines lib src pred lo hi file n ls) (\<lambda>xs.
   bind (read_lines lib src pred lo hi file (n + int (length ls)) ms) (\<lambda>ys. Inr (xs @ ys)))"
proof (induction ls arbitrary: n)
  case Nil
  then show ?case by (cases "read_lines lib src pred lo hi file n ms") simp_all
next
  case (Cons line ls)
  have "n + 1 + int (length ls) = n + int (length (line # ls))" by simp
  with Cons [of "n + 1"] show ?case
    by (auto split: option.splits prod.splits simp: bind_def split: sum.splits)
qed

text \<open>What the line of a written event is read as, in the \<open>n\<close>th line of a file.\<close>

definition written :: "write_env \<Rightarrow> log_source \<Rightarrow> string \<Rightarrow> int \<Rightarrow> (string \<times> json) list \<Rightarrow> indexed_event" where
  "written env src file n kvs =
     \<lparr>ie_event = stamped env kvs,
      ie_sort_key = (isoformat (we_at env), str_or [] (json_get (stamped env kvs) ''event_id''),
        ls_source_id src, file, n)\<rparr>"

definition passes :: "log_predicate \<Rightarrow> datetime option \<Rightarrow> datetime option \<Rightarrow> write_env \<Rightarrow> json \<Rightarrow> bool" where
  "passes pred lo hi env j \<longleftrightarrow>
     pred j = Inr True \<and> outside (<) (we_at env) lo = Inr False \<and> outside (>) (we_at env) hi = Inr False"

lemma written_line_read:
  assumes "js_loads lib (js_dumps lib (stamped env kvs)) = Some (stamped env kvs)"
    "''created_at'' \<notin> fst ` set kvs" "calendar_instant (we_at env)"
    "passes pred lo hi env (stamped env kvs)"
  shows "read_lines lib src pred lo hi file n [js_dumps lib (stamped env kvs)] =
    Inr [written env src file n kvs]"
proof -
  obtain jvs where j: "stamped env kvs = JObj jvs" by (simp add: stamped_def)
  have "json_get (JObj jvs) ''created_at'' = Some (JStr (isoformat (we_at env)))"
    using assms(2) unfolding j [symmetric]
    by (auto simp: stamped_def set_default_def map_add_def map_of_eq_None_iff [symmetric])
  then have "parse_line lib src file n (js_dumps lib (stamped env kvs)) =
      Inr (Some (written env src file n kvs, we_at env))"
    using isoformat_reads_back [OF assms(3)] assms(1)
    by (simp add: parse_line_def j written_def)
  then show ?thesis using assms(4) by (simp add: passes_def written_def)
qed

section \<open>Files as sums of their events\<close>

definition entry_events ::
  "json_library \<Rightarrow> log_source \<Rightarrow> log_predicate \<Rightarrow> datetime option \<Rightarrow> datetime option \<Rightarrow> dir_entry \<Rightarrow>
     indexed_event list result" where
  "entry_events lib src pred lo hi e =
     (if de_symlink e \<or> \<not> de_file e then Inr [] else read_file lib src pred lo hi e)"

definition result_mset :: "'a list result \<Rightarrow> 'a multiset" where
  "result_mset r = (case r of Inl _ \<Rightarrow> {#} | Inr xs \<Rightarrow> mset xs)"

lemma result_mset_simps [simp]: "result_mset (Inr xs) = mset xs"
  by (simp add: result_mset_def)

lemma read_files_sum:
  "(\<exists>xs. read_files lib src pred lo hi es = Inr xs) \<longleftrightarrow>
     (\<forall>e\<in>set es. \<exists>ys. entry_events lib src pred lo hi e = Inr ys)"
  "read_files lib src pred lo hi es = Inr xs \<Longrightarrow>
     mset xs = sum_list (map (\<lambda>e. result_mset (entry_events lib src pred lo hi e)) es)"
proof -
  have step: "read_files lib src pred lo hi (e # es) =
      bind (entry_events lib src pred lo hi e) (\<lambda>xs.
      bind (read_files lib src pred lo hi es) (\<lambda>ys. Inr (xs @ ys)))" for e es
    by (cases "read_files lib src pred lo hi es") (simp_all add: entry_events_def)
  show "(\<exists>xs. read_files lib src pred lo hi es = Inr xs) \<longleftrightarrow>
     (\<forall>e\<in>set es. \<exists>ys. entry_events lib src pred lo hi e = Inr ys)"
  proof (induction es)
    case (Cons e es)
    then show ?case unfolding step by (auto simp: bind_eq_Inr)
  qed simp
  show "read_files lib src pred lo hi es = Inr xs \<Longrightarrow>
     mset xs = sum_list (map (\<lambda>e. result_mset (entry_events lib src pred lo hi e)) es)"
  proof (induction es arbitrary: xs)
    case (Cons e es)
    then show ?case unfolding step by (auto simp: bind_eq_Inr)
  qed simp
qed

lemma sum_log_entries:
  "sum_list (map f (log_entries src es)) =
   sum_list (map f (filter (\<lambda>e. log_name (ls_file_prefix src) (de_name e)) es))"
  for f :: "dir_entry \<Rightarrow> 'a multiset"
proof -
  have sum: "sum_list (map f xs) = sum_mset (image_mset f (mset xs))" for xs
    by (metis mset_map sum_mset_sum_list)
  show ?thesis unfolding sum log_entries_def by (simp only: mset_sort)
qed

lemma entries_of_log: "set (log_entries src es) = {e \<in> set es. log_name (ls_file_prefix src) (de_name e)}"
  by (auto simp: log_entries_def)

text \<open>What appending a line does to the entry of the file, by the entry's events.\<close>

lemma log_file_name_found: "log_name (ew_file_prefix w) (log_file_name w day)"
  by (auto simp: log_name_def log_file_name_def date_text_def split: prod.splits)

text \<open>
  The writer of an event and a source of the queries fit: directory, prefix, a line that reads back,
  a time stamp of its own that is a real time, and a query that accepts the event.
\<close>

definition recordable ::
  "json_library \<Rightarrow> write_env \<Rightarrow> event_writer \<Rightarrow> (string \<times> json) list \<Rightarrow> log_source \<Rightarrow> log_predicate \<Rightarrow>
     datetime option \<Rightarrow> datetime option \<Rightarrow> bool" where
  "recordable lib env w kvs src pred lo hi \<longleftrightarrow>
     ls_directory src = ew_log_dir w \<and> ls_file_prefix src = ew_file_prefix w \<and>
     js_loads lib (js_dumps lib (stamped env kvs)) = Some (stamped env kvs) \<and>
     ''created_at'' \<notin> fst ` set kvs \<and> calendar_instant (we_at env) \<and>
     passes pred lo hi env (stamped env kvs) \<and> \<not> we_refused env"

lemma line_read:
  assumes "recordable lib env w kvs src pred lo hi"
  shows "read_lines lib src pred lo hi file n [js_dumps lib (stamped env kvs)] =
    Inr [written env src file n kvs]"
  using assms by (intro written_line_read) (simp_all add: recordable_def)

lemma file_found:
  assumes "recordable lib env w kvs src pred lo hi"
  shows "log_name (ls_file_prefix src) (log_file_name w day)"
  using assms log_file_name_found [of w day] by (simp add: recordable_def)

lemma grown_entry:
  assumes r: "recordable lib env w kvs src pred lo hi"
    and "de_file e" "\<not> de_symlink e" "de_content e = FileLines ls"
    "entry_events lib src pred lo hi e = Inr xs"
  shows "entry_events lib src pred lo hi
      (e\<lparr>de_content := FileLines (ls @ [js_dumps lib (stamped env kvs)])\<rparr>) =
    Inr (xs @ [written env src (de_name e) (1 + int (length ls)) kvs])"
  using assms(2-)
  by (simp add: entry_events_def read_file_def read_lines_append line_read [OF r] del: read_lines.simps)

definition found_in ::
  "json_library \<Rightarrow> log_source \<Rightarrow> log_predicate \<Rightarrow> datetime option \<Rightarrow> datetime option \<Rightarrow> dir_entry list \<Rightarrow>
     indexed_event multiset" where
  "found_in lib src pred lo hi es =
     sum_list (map (\<lambda>e. result_mset (entry_events lib src pred lo hi e))
       (filter (\<lambda>e. log_name (ls_file_prefix src) (de_name e)) es))"

definition all_read ::
  "json_library \<Rightarrow> log_source \<Rightarrow> log_predicate \<Rightarrow> datetime option \<Rightarrow> datetime option \<Rightarrow> dir_entry list \<Rightarrow> bool" where
  "all_read lib src pred lo hi es \<longleftrightarrow>
     (\<forall>e\<in>set es. log_name (ls_file_prefix src) (de_name e) \<longrightarrow>
        (\<exists>ys. entry_events lib src pred lo hi e = Inr ys))"

lemma read_log_entries:
  "(\<exists>xs. read_files lib src pred lo hi (log_entries src es) = Inr xs) \<longleftrightarrow> all_read lib src pred lo hi es"
  "read_files lib src pred lo hi (log_entries src es) = Inr xs \<Longrightarrow> mset xs = found_in lib src pred lo hi es"
proof -
  show "(\<exists>xs. read_files lib src pred lo hi (log_entries src es) = Inr xs) \<longleftrightarrow> all_read lib src pred lo hi es"
    unfolding read_files_sum(1) all_read_def by (auto simp: entries_of_log)
  show "read_files lib src pred lo hi (log_entries src es) = Inr xs \<Longrightarrow> mset xs = found_in lib src pred lo hi es"
    unfolding found_in_def by (drule read_files_sum(2)) (simp only: sum_log_entries)
qed

lemma found_in_Cons:
  "found_in lib src pred lo hi (e # es) =
     (if log_name (ls_file_prefix src) (de_name e) then result_mset (entry_events lib src pred lo hi e) else {#}) +
     found_in lib src pred lo hi es"
  "all_read lib src pred lo hi (e # es) \<longleftrightarrow>
     (log_name (ls_file_prefix src) (de_name e) \<longrightarrow> (\<exists>ys. entry_events lib src pred lo hi e = Inr ys)) \<and>
     all_read lib src pred lo hi es"
  by (simp_all add: found_in_def all_read_def)

lemma appended_entries:
  assumes r: "recordable lib env w kvs src pred lo hi"
    and "append_line (log_file_name w (we_date env)) (js_dumps lib (stamped env kvs)) es = Some es'"
    "\<forall>e\<in>set es. de_name e = log_file_name w (we_date env) \<longrightarrow> \<not> de_symlink e"
    "all_read lib src pred lo hi es"
  shows "all_read lib src pred lo hi es' \<and>
    (\<exists>n. found_in lib src pred lo hi es' =
      add_mset (written env src (log_file_name w (we_date env)) n kvs) (found_in lib src pred lo hi es))"
  using assms(2-)
proof (induction es arbitrary: es')
  case Nil
  let ?line = "js_dumps lib (stamped env kvs)"
  let ?e = "\<lparr>de_name = log_file_name w (we_date env), de_symlink = False, de_file = True,
    de_content = FileLines [?line]\<rparr>"
  have "entry_events lib src pred lo hi ?e = Inr [written env src (log_file_name w (we_date env)) 1 kvs]"
    using line_read [OF r] by (simp add: entry_events_def read_file_def del: read_lines.simps)
  moreover have "es' = [?e]" using Nil.prems(1) by simp
  ultimately show ?case
    using file_found [OF r] by (auto simp: found_in_def all_read_def)
next
  case (Cons e es)
  show ?case
  proof (cases "de_name e = log_file_name w (we_date env)")
    case False
    then obtain es1 where es1: "append_line (log_file_name w (we_date env)) (js_dumps lib (stamped env kvs)) es = Some es1"
      "es' = e # es1" using Cons.prems(1) by auto
    from Cons.IH [OF es1(1)] Cons.prems(2,3) show ?thesis
      unfolding es1(2) found_in_Cons by auto
  next
    case True
    have found: "log_name (ls_file_prefix src) (de_name e)"
      unfolding True by (rule file_found [OF r])
    then obtain ys where ys: "entry_events lib src pred lo hi e = Inr ys"
      using Cons.prems(3) unfolding found_in_Cons by blast
    have plain: "\<not> de_symlink e" using Cons.prems(2) True by simp
    have reg: "de_file e" using Cons.prems(1) True by (auto split: if_splits)
    then obtain ls where ls: "de_content e = FileLines ls"
      "es' = e\<lparr>de_content := FileLines (ls @ [js_dumps lib (stamped env kvs)])\<rparr> # es"
      using Cons.prems(1) True ys plain
      by (auto simp: entry_events_def read_file_def split: file_content.splits)
    have "all_read lib src pred lo hi es" using Cons.prems(3) unfolding found_in_Cons by simp
    with grown_entry [OF r reg plain ls(1) ys] ys found show ?thesis
      unfolding ls(2) found_in_Cons by (auto simp: True)
  qed
qed

definition plain_log :: "log_files \<Rightarrow> string \<Rightarrow> string \<Rightarrow> bool" where
  "plain_log fs dir name \<longleftrightarrow>
     (case fs dir of Entries es \<Rightarrow> list_all (\<lambda>e. de_name e = name \<longrightarrow> \<not> de_symlink e) es
      | NoDirectory \<Rightarrow> True | ListingFails \<Rightarrow> False)"

lemma source_grows:
  assumes r: "recordable lib env w kvs src pred lo hi"
    and "write_event lib env w kvs fs = (True, fs')"
    "read_source lib fs pred lo hi src = Inr xs" "plain_log fs (ew_log_dir w) (log_file_name w (we_date env))"
  shows "\<exists>ys n. read_source lib fs' pred lo hi src = Inr ys \<and>
    mset ys = add_mset (written env src (log_file_name w (we_date env)) n kvs) (mset xs)"
proof -
  have dir: "ls_directory src = ew_log_dir w" and ok: "\<not> we_refused env"
    using r by (simp_all add: recordable_def)
  define es where "es = (case fs (ew_log_dir w) of Entries es \<Rightarrow> es | _ \<Rightarrow> [])"
  have old: "read_files lib src pred lo hi (log_entries src es) = Inr xs"
    using assms(3) by (auto simp: dir read_source_def es_def log_entries_def split: log_directory.splits)
  obtain es' where es': "append_line (log_file_name w (we_date env)) (js_dumps lib (stamped env kvs)) es = Some es'"
    and fs': "fs' = fs(ew_log_dir w := Entries es')"
    using assms(2,4) ok
    by (auto simp: write_event_def plain_log_def es_def Let_def split: log_directory.splits option.splits if_splits)
  have plain: "\<forall>e\<in>set es. de_name e = log_file_name w (we_date env) \<longrightarrow> \<not> de_symlink e"
    using assms(4) by (auto simp: plain_log_def es_def list_all_iff split: log_directory.splits)
  have "all_read lib src pred lo hi es" using old read_log_entries(1) by blast
  from appended_entries [OF r es' plain this] obtain n where
    "all_read lib src pred lo hi es'"
    and n: "found_in lib src pred lo hi es' =
      add_mset (written env src (log_file_name w (we_date env)) n kvs) (found_in lib src pred lo hi es)" by blast
  then obtain ys where ys: "read_files lib src pred lo hi (log_entries src es') = Inr ys"
    using read_log_entries(1) by blast
  then have "read_source lib fs' pred lo hi src = Inr ys" by (simp add: fs' dir read_source_def)
  moreover have "mset ys = add_mset (written env src (log_file_name w (we_date env)) n kvs) (mset xs)"
    using n read_log_entries(2) [OF ys] read_log_entries(2) [OF old] by simp
  ultimately show ?thesis by blast
qed

lemma source_untouched:
  assumes "write_event lib env w kvs fs = (ok, fs')" "ls_directory src \<noteq> ew_log_dir w"
  shows "read_source lib' fs' pred lo hi src = read_source lib' fs pred lo hi src"
  using assms
  by (auto simp: write_event_def read_source_def Let_def split: if_splits log_directory.splits option.splits)

lemma sources_grow:
  assumes r: "recordable lib env w kvs src pred lo hi" and w: "write_event lib env w kvs fs = (True, fs')"
    and srcs: "src \<in> set srcs" "distinct (map ls_directory srcs)"
    and old: "read_sources lib fs pred lo hi srcs = Inr xs"
    and plain: "plain_log fs (ew_log_dir w) (log_file_name w (we_date env))"
  shows "\<exists>ys n. read_sources lib fs' pred lo hi srcs = Inr ys \<and>
    mset ys = add_mset (written env src (log_file_name w (we_date env)) n kvs) (mset xs)"
  using srcs old
proof (induction srcs arbitrary: xs)
  case (Cons s srcs)
  obtain as bs where a: "read_source lib fs pred lo hi s = Inr as"
    and b: "read_sources lib fs pred lo hi srcs = Inr bs" and xs: "xs = as @ bs"
    using Cons.prems(3) by (auto simp: bind_eq_Inr)
  have dir: "ls_directory src = ew_log_dir w" using r by (simp add: recordable_def)
  show ?case
  proof (cases "s = src")
    case True
    have "ls_directory t \<noteq> ew_log_dir w" if "t \<in> set srcs" for t
      using Cons.prems(2) that dir True by (auto simp: image_iff)
    then have "read_sources lib fs' pred lo hi ts = read_sources lib fs pred lo hi ts" if "set ts \<subseteq> set srcs" for ts
      using that by (induction ts) (auto simp: source_untouched [OF w])
    with b have "read_sources lib fs' pred lo hi srcs = Inr bs" by simp
    with source_grows [OF r w a [unfolded True] plain] show ?thesis by (auto simp: True xs)
  next
    case False
    then have m: "src \<in> set srcs" using Cons.prems(1) by simp
    then have "ls_directory s \<noteq> ew_log_dir w"
      using Cons.prems(2) dir by (auto simp: image_iff)
    then have "read_source lib fs' pred lo hi s = Inr as" using source_untouched [OF w] a by simp
    with Cons.IH [OF m _ b] Cons.prems(2) show ?thesis by (auto simp: xs)
  qed
qed simp

end
