(* ===== verification/Stage_Log_Properties.thy ===== *)
theory Stage_Log_Properties
  imports Log_Writing
begin

text \<open>
  The composition of the loggers with the log queries: every event of the four stages, written with
  the directories and prefixes the application uses, appears in the time line of its operation with
  what the logger knew; and what the redaction of error texts hides and lets through.
\<close>

section \<open>Dictionaries\<close>

lemma dict_update_Cons: "dict_update d ((k, v) # kvs) = dict_update (dict_set k v d) kvs"
  by (simp add: dict_update_def)

lemma dict_update_Nil [simp]: "dict_update d [] = d"
  by (simp add: dict_update_def)

lemma keys_dict_update: "fst ` set (dict_update d kvs) = fst ` set d \<union> fst ` set kvs"
proof (induction kvs arbitrary: d)
  case (Cons kv kvs)
  obtain k v where "kv = (k, v)" by (cases kv)
  with Cons [of "dict_set k v d"] show ?case by (simp add: dict_update_Cons keys_dict_set)
qed simp

lemma set_dict_update: "set (dict_update d kvs) \<subseteq> set d \<union> set kvs"
  using in_dict_update by fast

lemma lookup_dict_update:
  "distinct (map fst kvs) \<Longrightarrow>
   map_of (dict_update d kvs) k = (case map_of kvs k of Some v \<Rightarrow> Some v | None \<Rightarrow> map_of d k)"
proof (induction kvs arbitrary: d)
  case (Cons kv kvs)
  obtain i v where kv: "kv = (i, v)" by (cases kv)
  with Cons.prems have "map_of kvs i = None" by (auto simp: map_of_eq_None_iff)
  with Cons show ?case by (auto simp: kv dict_update_Cons map_of_dict_set split: option.splits)
qed simp

lemma last_dict_update:
  "map_of (dict_update d kvs) k = (case map_of (rev kvs) k of Some v \<Rightarrow> Some v | None \<Rightarrow> map_of d k)"
  by (simp add: map_of_dict_update map_add_def)

lemma map_of_filter_keys: "map_of (filter (\<lambda>kv. fst kv \<notin> S) kvs) k = (if k \<in> S then None else map_of kvs k)"
  by (induction kvs) auto

section \<open>Well-typed fields\<close>

definition text_or_null :: "json \<Rightarrow> bool" where
  "text_or_null j = (case j of JStr s \<Rightarrow> True | JNull \<Rightarrow> True | _ \<Rightarrow> False)"

definition field_typed :: "string \<times> json \<Rightarrow> bool" where
  "field_typed kv =
     (case kv of (k, v) \<Rightarrow>
        (k \<in> {''doc_code'', ''error_type'', ''error_message'', ''status_before'', ''status_after''} \<longrightarrow>
           text_or_null v) \<and>
        (k = ''kb_id'' \<longrightarrow> (case v of JInt n \<Rightarrow> True | JNull \<Rightarrow> True | _ \<Rightarrow> False)) \<and>
        (k \<in> {''state_updated'', ''document_state_updated''} \<longrightarrow>
           (case v of JBool b \<Rightarrow> True | JNull \<Rightarrow> True | _ \<Rightarrow> False)) \<and>
        k \<noteq> ''created_at'')"

definition fields_typed :: "(string \<times> json) list \<Rightarrow> bool" where
  "fields_typed kvs = list_all field_typed kvs"

lemma fields_typed_simps [simp]:
  "fields_typed []" "fields_typed (kv # kvs) \<longleftrightarrow> field_typed kv \<and> fields_typed kvs"
  "fields_typed (kvs @ kws) \<longleftrightarrow> fields_typed kvs \<and> fields_typed kws"
  by (simp_all add: fields_typed_def)

lemma json_opt_typed [simp]:
  "text_or_null (JStr s)" "text_or_null JNull" "text_or_null (json_opt JStr x)"
  by (simp_all add: text_or_null_def json_opt_def split: option.split)

lemma fields_typed_filter: "fields_typed kvs \<Longrightarrow> fields_typed (filter P kvs)"
  by (auto simp: fields_typed_def list_all_iff)

lemma fields_typed_update: "fields_typed d \<Longrightarrow> fields_typed kvs \<Longrightarrow> fields_typed (dict_update d kvs)"
  using set_dict_update [of d kvs] by (auto simp: fields_typed_def list_all_iff)

lemma status_fields_typed [simp]: "fields_typed (status_fields b a)"
  by (simp add: status_fields_def field_typed_def)

lemma error_fields_typed [simp]: "fields_typed (error_fields c e)"
  by (auto simp: error_fields_def field_typed_def Let_def split: option.split prod.split)

section \<open>The methods of the loggers\<close>

text \<open>Every event the four stages can write.\<close>

inductive stage_method :: "log_method \<Rightarrow> bool" where
  "stage_method (process_claimed x)"
| "stage_method (process_completed t u)"
| "stage_method (process_failed ce e ph xo up b a)"
| "stage_method (chunk_claimed x t u)"
| "stage_method (chunk_build_started x t u chunker)"
| "stage_method (chunk_build_completed ps cs chunker)"
| "stage_method (chunk_completed n m)"
| "stage_method (chunk_failed ce e ph xo up b a)"
| "stage_method (index_claimed x xs n m)"
| "stage_method (index_collection_ready name n)"
| "stage_method (index_embedding_batch_started i n mdl)"
| "stage_method (index_embedding_batch_completed i n vs t0 t1)"
| "stage_method (index_qdrant_batch_completed i n t0 t1)"
| "stage_method (index_completed n m)"
| "stage_method (index_failed ce e ph xo f)"
| "stage_method (index_compensation_started n m)"
| "stage_method (index_compensation_completed n t0 t1)"
| "stage_method (index_compensation_failed ce e n m p t0 t1)"
| "stage_method (upload_started ul sf actor)"
| "stage_method (upload_raw_file_saved code kb uri n)"
| "stage_method (upload_hash_calculated code kb h)"
| "stage_method (upload_duplicate_detected code kb h i dc)"
| "stage_method (upload_completed d)"
| "stage_method (upload_failed_by_http_exception n detail ph ul ok)"
| "stage_method (upload_failed_by_unexpected_exception ce e ph ul ok)"

definition keeps_identity :: "stage_logger \<Rightarrow> stage_logger \<Rightarrow> bool" where
  "keeps_identity l l' \<longleftrightarrow>
     sl_stage l' = sl_stage l \<and> sl_operation l' = sl_operation l \<and> sl_writer l' = sl_writer l \<and>
     (fields_typed (sl_context l) \<longrightarrow> fields_typed (sl_context l'))"

lemma keeps_identity_refl [simp]: "keeps_identity l l"
  by (simp add: keeps_identity_def)

lemma keeps_identity_bind [simp]:
  "fields_typed kvs \<Longrightarrow> keeps_identity l (bind_fields i kvs l)"
  by (simp add: keeps_identity_def bind_fields_def fields_typed_update fields_typed_filter)

lemma keeps_identity_context [simp]: "keeps_identity l (bind_context x l)" "keeps_identity l (bind_if xo l)"
  by (auto simp: bind_context_def bind_if_def field_typed_def split: option.split)

lemmas stage_log_defs =
  process_claimed_def process_completed_def process_failed_def chunk_claimed_def
  chunk_build_started_def chunk_build_completed_def chunk_completed_def chunk_failed_def
  index_claimed_def index_collection_ready_def index_embedding_batch_started_def
  index_embedding_batch_completed_def index_qdrant_batch_completed_def index_completed_def
  index_failed_def index_compensation_started_def index_compensation_completed_def
  index_compensation_failed_def upload_started_def upload_raw_file_saved_def
  upload_hash_calculated_def upload_duplicate_detected_def upload_completed_def
  upload_failed_by_http_exception_def upload_failed_by_unexpected_exception_def
  stage_failed_def upload_fields_def log_call_of_def

lemma stage_method_typed:
  assumes "stage_method mth" "mth l = (l', c)"
  shows "keeps_identity l l'" "fields_typed (lc_fields c)"
  using assms
  by (cases rule: stage_method.cases; auto simp: stage_log_defs field_typed_def)+

section \<open>The payload of a stage event\<close>

lemma fixed_keys: "distinct (map fst (stage_fixed_fields env l c))"
  by (simp add: stage_fixed_fields_def)

lemma typed_lookup:
  assumes "fields_typed kvs" "map_of kvs k = Some v"
  shows "field_typed (k, v)"
  using assms map_of_SomeD [OF assms(2)] by (auto simp: fields_typed_def list_all_iff)

lemma typed_status:
  assumes "fields_typed kvs"
  shows "text_or_null (field_or_null kvs ''status_before'')"
    "text_or_null (field_or_null kvs ''status_after'')"
proof -
  have "field_typed (''status_before'', v)" if "map_of kvs ''status_before'' = Some v" for v
    using typed_lookup [OF assms that] .
  then show "text_or_null (field_or_null kvs ''status_before'')"
    by (simp add: field_or_null_def field_typed_def split: option.split)
  have "field_typed (''status_after'', v)" if "map_of kvs ''status_after'' = Some v" for v
    using typed_lookup [OF assms that] .
  then show "text_or_null (field_or_null kvs ''status_after'')"
    by (simp add: field_or_null_def field_typed_def split: option.split)
qed

lemma payload_typed:
  assumes "fields_typed (sl_context l)" "fields_typed (lc_fields c)"
  shows "fields_typed (stage_payload env l c)"
proof -
  have "fields_typed (stage_fixed_fields env l c)"
    using typed_status [OF assms(2)] by (simp add: stage_fixed_fields_def field_typed_def)
  then show ?thesis
    unfolding stage_payload_def by (intro fields_typed_update fields_typed_simps(1) assms)
qed

lemma payload_unstamped:
  assumes "fields_typed kvs"
  shows "''created_at'' \<notin> fst ` set kvs"
proof
  assume "''created_at'' \<in> fst ` set kvs"
  then obtain v where "(''created_at'', v) \<in> set kvs" by auto
  then have "field_typed (''created_at'', v)" using assms by (auto simp: fields_typed_def list_all_iff)
  then show False by (simp add: field_typed_def)
qed

lemma payload_fixed:
  assumes "map_of (stage_fixed_fields env l c) k = Some v"
  shows "map_of (stage_payload env l c) k = Some v"
  unfolding stage_payload_def by (simp add: lookup_dict_update [OF fixed_keys] assms)

lemma stamped_get:
  assumes "''created_at'' \<notin> fst ` set kvs"
  shows "json_get (stamped env kvs) k =
    (if k = ''created_at'' then Some (JStr (isoformat (we_at env))) else map_of kvs k)"
proof -
  have "map_of kvs ''created_at'' = None" using assms by (simp add: map_of_eq_None_iff)
  with assms show ?thesis
    by (simp add: stamped_def set_default_def map_add_def split: option.split)
qed

text \<open>What pydantic is relied on for: a number, a flag and an ISO text of a time are accepted as such.\<close>

definition accepts_plain :: "validators \<Rightarrow> write_env \<Rightarrow> datetime \<Rightarrow> bool" where
  "accepts_plain va env t \<longleftrightarrow>
     (\<forall>n. va_int va (JInt n) = Some n) \<and> (\<forall>b. va_bool va (JBool b) = Some b) \<and>
     va_datetime va (JStr (isoformat (we_at env))) = Some t"

text \<open>Optional fields of the right type convert, to the value that the event shows.\<close>

definition or_null :: "json option \<Rightarrow> json" where
  "or_null x = (case x of None \<Rightarrow> JNull | Some v \<Rightarrow> v)"

lemma optional_text:
  assumes "\<And>v. x = Some v \<Longrightarrow> text_or_null v"
  shows "\<exists>y. optional text_of x = Inr y \<and> json_opt JStr y = or_null x"
  using assms by (cases x) (auto simp: optional_def text_or_null_def or_null_def json_opt_def split: json.splits)

lemma optional_texts:
  assumes "fields_typed kvs" "k \<in> {''doc_code'', ''error_type'', ''error_message''}"
  shows "\<exists>y. optional text_of (map_of kvs k) = Inr y \<and> json_opt JStr y = or_null (map_of kvs k)"
  by (rule optional_text) (use typed_lookup [OF assms(1)] assms(2) in \<open>fastforce simp: field_typed_def\<close>)

lemma optional_number:
  assumes "fields_typed kvs" "\<forall>n. va_int va (JInt n) = Some n"
  shows "\<exists>y. optional (va_int va) (map_of kvs ''kb_id'') = Inr y \<and> json_opt JInt y = or_null (map_of kvs ''kb_id'')"
  using typed_lookup [OF assms(1), of "''kb_id''"] assms(2)
  by (cases "map_of kvs ''kb_id''")
    (auto simp: optional_def field_typed_def or_null_def json_opt_def split: json.splits)

lemma optional_flag:
  assumes "fields_typed kvs" "\<forall>b. va_bool va (JBool b) = Some b"
    "x = (case map_of kvs ''state_updated'' of None \<Rightarrow> map_of kvs ''document_state_updated'' | Some j \<Rightarrow> Some j)"
  shows "\<exists>y. optional (va_bool va) x = Inr y \<and> json_opt JBool y = or_null x"
  using typed_lookup [OF assms(1), of "''state_updated''"]
    typed_lookup [OF assms(1), of "''document_state_updated''"] assms(2,3)
  by (cases "map_of kvs ''state_updated''"; cases "map_of kvs ''document_state_updated''")
    (auto simp: optional_def field_typed_def or_null_def json_opt_def split: json.splits)

lemma optional_json_opt [simp]:
  "optional text_of (Some (json_opt JStr x)) = Inr x"
  "(\<forall>n. va_int va (JInt n) = Some n) \<Longrightarrow> optional (va_int va) (Some (json_opt JInt y)) = Inr y"
  "optional text_of (Some (JStr t)) = Inr (Some t)"
  "va_int va (JInt n) = Some n \<Longrightarrow> optional (va_int va) (Some (JInt n)) = Inr (Some n)"
  by (auto simp: optional_def json_opt_def split: option.split)

lemma stage_fixed_lookup:
  "map_of (stage_payload env l c) ''event_id'' = Some (JStr (we_event_id env))"
  "map_of (stage_payload env l c) ''workflow_id'' = Some (JStr (oc_workflow_id (sl_operation l)))"
  "map_of (stage_payload env l c) ''operation_id'' = Some (JStr (oc_operation_id (sl_operation l)))"
  "map_of (stage_payload env l c) ''parent_operation_id'' =
     Some (json_opt JStr (oc_parent_operation_id (sl_operation l)))"
  "map_of (stage_payload env l c) ''attempt'' = Some (JInt (oc_attempt (sl_operation l)))"
  "map_of (stage_payload env l c) ''event'' = Some (JStr (lc_event c))"
  "map_of (stage_payload env l c) ''stage'' = Some (JStr (sl_stage l))"
  "map_of (stage_payload env l c) ''phase'' = Some (JStr (lc_phase c))"
  "map_of (stage_payload env l c) ''level'' = Some (JStr (lc_level c))"
  "map_of (stage_payload env l c) ''message'' = Some (JStr (lc_message c))"
  "map_of (stage_payload env l c) ''duration_ms'' = Some (JInt (we_duration env))"
  "map_of (stage_payload env l c) ''document_id'' = Some (json_opt JInt (sl_document_id l))"
  "map_of (stage_payload env l c) ''status_before'' = Some (field_or_null (lc_fields c) ''status_before'')"
  "map_of (stage_payload env l c) ''status_after'' = Some (field_or_null (lc_fields c) ''status_after'')"
  by (rule payload_fixed, simp add: stage_fixed_fields_def)+

text \<open>
  What the logger knows under a name: the field of the call, or what was bound before; where a
  name was given twice the last value counts, as in a Python dictionary.
\<close>

definition knows :: "stage_logger \<Rightarrow> log_call \<Rightarrow> string \<Rightarrow> json option" where
  "knows l c k = (case map_of (rev (lc_fields c)) k of
     Some v \<Rightarrow> Some v | None \<Rightarrow> map_of (rev (sl_context l)) k)"

lemma payload_knows:
  assumes "k \<notin> fst ` set (stage_fixed_fields env l c)"
  shows "map_of (stage_payload env l c) k = knows l c k"
proof -
  have "map_of (stage_fixed_fields env l c) k = None" using assms by (simp add: map_of_eq_None_iff)
  then have "map_of (stage_payload env l c) k = map_of (dict_update (dict_update [] (sl_context l)) (lc_fields c)) k"
    by (simp add: stage_payload_def lookup_dict_update [OF fixed_keys])
  then show ?thesis by (simp add: last_dict_update knows_def split: option.split)
qed

lemma payload_known [simp]:
  "map_of (stage_payload env l c) ''doc_code'' = knows l c ''doc_code''"
  "map_of (stage_payload env l c) ''kb_id'' = knows l c ''kb_id''"
  "map_of (stage_payload env l c) ''error_type'' = knows l c ''error_type''"
  "map_of (stage_payload env l c) ''error_message'' = knows l c ''error_message''"
  "map_of (stage_payload env l c) ''state_updated'' = knows l c ''state_updated''"
  "map_of (stage_payload env l c) ''document_state_updated'' = knows l c ''document_state_updated''"
  by (rule payload_knows, simp add: stage_fixed_fields_def)+

lemma payload_details:
  assumes "''created_at'' \<notin> fst ` set (stage_payload env l c)"
  shows "map_of (filter (\<lambda>kv. fst kv \<notin> set DOCUMENT_EVENT_COMMON_FIELDS)
      (object_items (stamped env (stage_payload env l c)))) k =
    (if k \<in> set DOCUMENT_EVENT_COMMON_FIELDS then None else knows l c k)"
proof -
  have items: "map_of (object_items j) k = json_get j k" for j by (cases j) simp_all
  have "fst ` set (stage_fixed_fields env l c) \<subseteq> set DOCUMENT_EVENT_COMMON_FIELDS" "''created_at'' \<in> set DOCUMENT_EVENT_COMMON_FIELDS"
    by (simp_all add: stage_fixed_fields_def DOCUMENT_EVENT_COMMON_FIELDS_def)
  then have "map_of (stage_payload env l c) k = knows l c k \<and> k \<noteq> ''created_at''"
    if "k \<notin> set DOCUMENT_EVENT_COMMON_FIELDS" using that payload_knows by blast
  then show ?thesis by (simp add: map_of_filter_keys items stamped_get [OF assms])
qed

text \<open>
  An event that shows all of it: the fixed fields, the ones that have a column in the
  query's result, and every other name the logger knows among the details, and nothing else.
\<close>

definition tells :: "write_env \<Rightarrow> stage_logger \<Rightarrow> log_call \<Rightarrow> datetime \<Rightarrow> document_event \<Rightarrow> bool" where
  "tells env l c t d \<longleftrightarrow>
     de_event_id d = we_event_id env \<and> de_workflow_id d = Some (oc_workflow_id (sl_operation l)) \<and>
     de_operation_id d = Some (oc_operation_id (sl_operation l)) \<and>
     de_parent_operation_id d = oc_parent_operation_id (sl_operation l) \<and>
     de_attempt d = Some (oc_attempt (sl_operation l)) \<and> de_document_id d = sl_document_id l \<and>
     de_stage d = sl_stage l \<and> de_event d = lc_event c \<and> de_phase d = Some (lc_phase c) \<and>
     de_level d = Some (lc_level c) \<and> de_message d = Some (lc_message c) \<and>
     de_duration_ms d = we_duration env \<and> de_created_at d = t \<and>
     json_opt JStr (de_status_before d) = field_or_null (lc_fields c) ''status_before'' \<and>
     json_opt JStr (de_status_after d) = field_or_null (lc_fields c) ''status_after'' \<and>
     json_opt JStr (de_doc_code d) = or_null (knows l c ''doc_code'') \<and>
     json_opt JInt (de_kb_id d) = or_null (knows l c ''kb_id'') \<and>
     json_opt JStr (de_error_type d) = or_null (knows l c ''error_type'') \<and>
     json_opt JStr (de_error_summary d) = or_null (knows l c ''error_message'') \<and>
     json_opt JBool (de_state_updated d) = or_null (case knows l c ''state_updated'' of
       None \<Rightarrow> knows l c ''document_state_updated'' | Some v \<Rightarrow> Some v) \<and>
     (\<forall>k. map_of (de_details d) k =
       (if k \<in> set DOCUMENT_EVENT_COMMON_FIELDS then None else knows l c k))"

lemma str_or_text [simp]: "str_or [] (Some (JStr x)) = x" "x \<noteq> [] \<Longrightarrow> str_or d (Some (JStr x)) = x"
  by (auto simp: str_or_def truthy_def)

lemma int_or_zero_number [simp]: "int_or_zero (Some (JInt n)) = Inr n"
  by (simp add: int_or_zero_def truthy_def)

lemma optional_nullable:
  assumes "text_or_null j"
  shows "\<exists>y. optional text_of (Some j) = Inr y \<and> json_opt JStr y = j"
  using assms by (cases j) (auto simp: optional_def text_or_null_def json_opt_def)

lemma stage_event_typed:
  assumes typed: "fields_typed (sl_context l)" "fields_typed (lc_fields c)"
    and names: "oc_operation_id (sl_operation l) \<noteq> []" "sl_stage l \<noteq> []" "lc_event c \<noteq> []"
    and va: "accepts_plain va env t"
  shows "\<exists>d. document_event_of va (stamped env (stage_payload env l c)) = Inr d \<and> tells env l c t d"
proof -
  let ?p = "stage_payload env l c"
  have p: "fields_typed ?p" by (rule payload_typed [OF typed])
  have get: "json_get (stamped env ?p) k = map_of ?p k" if "k \<noteq> ''created_at''" for k
    using stamped_get [OF payload_unstamped [OF p]] that by simp
  have at: "required_time va (stamped env ?p) = Inr t"
    using stamped_get [OF payload_unstamped [OF p]] va by (simp add: required_time_def accepts_plain_def)
  have ints: "\<forall>n. va_int va (JInt n) = Some n" "\<forall>b. va_bool va (JBool b) = Some b"
    using va by (auto simp: accepts_plain_def)
  have op: "operation_id_of (stamped env ?p) = Some (JStr (oc_operation_id (sl_operation l)))"
    using names(1) by (simp add: operation_id_of_def get stage_fixed_lookup truthy_def)
  define flags where "flags = (case knows l c ''state_updated'' of
    None \<Rightarrow> knows l c ''document_state_updated'' | Some j \<Rightarrow> Some j)"
  have "\<exists>y. optional (va_bool va) flags = Inr y \<and> json_opt JBool y = or_null flags"
    by (rule optional_flag [OF p ints(2)]) (simp add: flags_def split: option.split)
  then obtain code etype emsg kb upd where known:
    "optional text_of (knows l c ''doc_code'') = Inr code" "json_opt JStr code = or_null (knows l c ''doc_code'')"
    "optional text_of (knows l c ''error_type'') = Inr etype" "json_opt JStr etype = or_null (knows l c ''error_type'')"
    "optional text_of (knows l c ''error_message'') = Inr emsg" "json_opt JStr emsg = or_null (knows l c ''error_message'')"
    "optional (va_int va) (knows l c ''kb_id'') = Inr kb" "json_opt JInt kb = or_null (knows l c ''kb_id'')"
    "optional (va_bool va) flags = Inr upd" "json_opt JBool upd = or_null flags"
    using optional_texts [OF p, of "''doc_code''"] optional_texts [OF p, of "''error_type''"]
      optional_texts [OF p, of "''error_message''"] optional_number [OF p ints(1)]
    by auto
  obtain before after where status:
    "optional text_of (Some (field_or_null (lc_fields c) ''status_before'')) = Inr before"
    "json_opt JStr before = field_or_null (lc_fields c) ''status_before''"
    "optional text_of (Some (field_or_null (lc_fields c) ''status_after'')) = Inr after"
    "json_opt JStr after = field_or_null (lc_fields c) ''status_after''"
    using typed_status [OF typed(2)] optional_nullable by metis
  have flag: "(case knows l c ''state_updated'' of
       None \<Rightarrow> json_get (stamped env ?p) ''document_state_updated'' | Some j \<Rightarrow> Some j) = flags"
    by (simp add: get flags_def split: option.split)
  show ?thesis
    by (simp add: document_event_of_def get at op flag stage_fixed_lookup ints known status tells_def names
        optional_json_opt payload_details [OF payload_unstamped [OF p]] flags_def [symmetric])
qed

section \<open>Time lines\<close>

lemma map_result_iff:
  "map_result f xs = Inr ys \<longleftrightarrow> (\<forall>x\<in>set xs. \<exists>y. f x = Inr y) \<and> ys = map (projr \<circ> f) xs"
proof (induction xs arbitrary: ys)
  case (Cons x xs)
  then show ?case by (auto simp: bind_eq_Inr)
qed auto

definition of_operation :: "ident \<Rightarrow> log_predicate" where
  "of_operation op = (\<lambda>ev. Inr (is_text (operation_id_of ev) op))"

text \<open>A complete time line is the events of the operation, oldest first.\<close>

definition complete_timeline ::
  "operations_service \<Rightarrow> log_files \<Rightarrow> string timeline_query \<Rightarrow> document_event list \<Rightarrow> bool" where
  "complete_timeline s fs q evs \<longleftrightarrow>
     (\<exists>ot. get_document_operation_timeline s fs q = Inr ot \<and> \<not> ot_truncated ot \<and> ot_events ot = evs)"

lemma timeline_of_read:
  assumes "tq_created_from q = None" "tq_created_to q = None" "1 \<le> tq_limit q"
    "read_sources (os_lib s) fs (of_operation (tq_key q)) None None (os_document_sources s) = Inr xs"
  shows "complete_timeline s fs q evs \<longleftrightarrow>
    int (length xs) \<le> tq_limit q \<and>
    map_result (document_event_of (os_validators s)) (map ie_event (sort_key ie_sort_key xs)) = Inr evs"
proof -
  have "get_document_operation_timeline s fs q =
    bind (map_result (document_event_of (os_validators s))
        (map ie_event (take (nat (tq_limit q)) (sort_key ie_sort_key xs)))) (\<lambda>evs.
      Inr \<lparr>ot_workflow_id = (case evs of [] \<Rightarrow> None | e # es \<Rightarrow> de_workflow_id e),
        ot_attempt = (case evs of [] \<Rightarrow> None | e # es \<Rightarrow> de_attempt e),
        ot_events = evs, ot_truncated = nat (tq_limit q) < length xs\<rparr>)"
    using assms
    by (cases "map_result (document_event_of (os_validators s))
        (map ie_event (take (nat (tq_limit q)) (sort_key ie_sort_key xs)))")
      (simp_all add: get_document_operation_timeline_def timeline_def scan_def decode_cursor_def
        of_operation_def page_of_def after_cursor_def in_order_def)
  moreover have "nat (tq_limit q) < length xs \<longleftrightarrow> \<not> int (length xs) \<le> tq_limit q" using assms(3) by linarith
  ultimately show ?thesis
    by (auto simp: complete_timeline_def bind_eq_Inr)
qed

lemma timeline_read:
  assumes "complete_timeline s fs q evs"
  shows "\<exists>xs. read_sources (os_lib s) fs (of_operation (tq_key q)) (tq_created_from q) (tq_created_to q)
    (os_document_sources s) = Inr xs"
  using assms
  by (auto simp: complete_timeline_def get_document_operation_timeline_def timeline_def scan_def
      of_operation_def bind_eq_Inr split: if_splits)

lemma typed_mset:
  assumes "map_result f xs = Inr ys" "mset xs' = add_mset x (mset xs)" "f x = Inr y"
  shows "\<exists>ys'. map_result f xs' = Inr ys' \<and> mset ys' = add_mset y (mset ys)"
proof -
  have m: "ys = map (projr \<circ> f) xs" "\<forall>x\<in>set xs. \<exists>y. f x = Inr y"
    using assms(1) by (simp_all add: map_result_iff)
  have "set xs' = insert x (set xs)" by (metis assms(2) set_mset_add_mset_insert set_mset_mset)
  then have "map_result f xs' = Inr (map (projr \<circ> f) xs')"
    using m(2) assms(3) by (auto simp: map_result_iff)
  moreover have "mset (map (projr \<circ> f) xs') = add_mset y (mset ys)"
    using assms(2,3) by (simp add: m(1))
  ultimately show ?thesis by blast
qed

text \<open>The event of a stage fits the source of its stage and is accepted by the query of its operation.\<close>

lemma stage_recordable:
  assumes mth: "stage_method mth" "mth l = (l', c)"
    and logger: "sl_stage l \<in> {''upload'', ''process'', ''chunk'', ''index''}"
      "sl_writer l = stage_writer root (sl_stage l)" "fields_typed (sl_context l)"
      "oc_operation_id (sl_operation l) = op" "op \<noteq> []"
    and line: "js_loads lib (js_dumps lib (stamped env (stage_payload env l' c))) =
        Some (stamped env (stage_payload env l' c))" "calendar_instant (we_at env)"
    and ok: "\<not> we_refused env"
  shows "recordable lib env (sl_writer l) (stage_payload env l' c)
    \<lparr>ls_source_id = sl_stage l, ls_directory = stage_directory root (sl_stage l), ls_file_prefix = sl_stage l\<rparr>
    (of_operation op) None None"
proof -
  have "fields_typed (sl_context l')" "fields_typed (lc_fields c)" "sl_operation l' = sl_operation l"
    using stage_method_typed [OF mth] logger(3) by (auto simp: keeps_identity_def)
  then have unstamped: "''created_at'' \<notin> fst ` set (stage_payload env l' c)"
    and id: "oc_operation_id (sl_operation l') = op"
    using payload_unstamped payload_typed logger(4) by auto
  have "operation_id_of (stamped env (stage_payload env l' c)) = Some (JStr op)"
    using id logger(5) by (simp add: operation_id_of_def stamped_get [OF unstamped] stage_fixed_lookup truthy_def)
  then show ?thesis
    using line unstamped ok
    by (simp add: recordable_def passes_def of_operation_def outside_def is_text_def logger(2) stage_writer_def)
qed

text \<open>
  C40: What the application logs is what its log queries show.  Take any event of the four stages of
  the document pipeline, written by a logger that is set up like the application's: if the time line
  of the operation could be read before and was not cut off, it can be read after, and holds exactly
  one event more, which tells all that the logger knew: the identifiers of the operation, the document,
  the stage, the phase, the level, the message, the change of status, the duration, the time, the
  code and the knowledge base of the document, the type and text of the error, whether the state was
  updated, and every other field that was bound or passed, with its value, among the details.  The
  write must not be refused by the file system, the day's file must be no symbolic link, the JSON
  library must read the line back, and pydantic must accept plain numbers, flags and the time.
\<close>

theorem stage_event_in_timeline:
  assumes mth: "stage_method mth" "mth l = (l', c)"
    and logger: "sl_stage l \<in> {''upload'', ''process'', ''chunk'', ''index''}"
      "sl_writer l = stage_writer root (sl_stage l)" "fields_typed (sl_context l)"
      "oc_operation_id (sl_operation l) = tq_key q" "tq_key q \<noteq> []"
    and service: "os_document_sources s = document_log_sources root" "accepts_plain (os_validators s) env t"
    and line: "js_loads (os_lib s) (js_dumps (os_lib s) (stamped env (stage_payload env l' c))) =
        Some (stamped env (stage_payload env l' c))" "calendar_instant (we_at env)"
    and wrote: "stage_write (os_lib s) env l' c fs = (True, fs')"
      "plain_log fs (stage_directory root (sl_stage l)) (log_file_name (sl_writer l) (we_date env))"
    and before: "complete_timeline s fs q old" "int (length old) < tq_limit q"
      "tq_created_from q = None" "tq_created_to q = None"
  shows "\<exists>new d. complete_timeline s fs' q new \<and> mset new = add_mset d (mset old) \<and> tells env l' c t d"
proof -
  let ?p = "stage_payload env l' c" and ?pred = "of_operation (tq_key q)"
  let ?src = "\<lparr>ls_source_id = sl_stage l, ls_directory = stage_directory root (sl_stage l),
    ls_file_prefix = sl_stage l\<rparr>"
  have ok: "\<not> we_refused env" using wrote(1) by (auto simp: stage_write_def write_event_def)
  note rec = stage_recordable [OF mth logger line ok]
  have l': "sl_stage l' = sl_stage l" "sl_operation l' = sl_operation l" "sl_writer l' = sl_writer l"
    and typed: "fields_typed (sl_context l')" "fields_typed (lc_fields c)"
    using stage_method_typed [OF mth] logger(3) by (auto simp: keeps_identity_def)
  have srcs: "?src \<in> set (document_log_sources root)" "distinct (map ls_directory (document_log_sources root))"
    using logger(1) by (auto simp: document_log_sources_def stage_directory_def)
  obtain xs where xs: "read_sources (os_lib s) fs ?pred None None (document_log_sources root) = Inr xs"
    using timeline_read [OF before(1)] before(3,4) service(1) by auto
  have limit: "1 \<le> tq_limit q" using before(2) by linarith
  note read = timeline_of_read [OF before(3,4) limit, where s = s, unfolded service(1)]
  have old: "map_result (document_event_of (os_validators s)) (map ie_event (sort_key ie_sort_key xs)) = Inr old"
    using read [OF xs] before(1) by blast
  then have len: "length old = length xs" by (simp add: map_result_iff)
  have "plain_log fs (ew_log_dir (sl_writer l)) (log_file_name (sl_writer l) (we_date env))"
    using wrote(2) by (simp add: logger(2) stage_writer_def)
  from sources_grow [OF rec wrote(1) [unfolded stage_write_def l'] srcs xs this] obtain ys e where
    ys: "read_sources (os_lib s) fs' ?pred None None (document_log_sources root) = Inr ys"
    and e: "mset ys = add_mset e (mset xs)" "ie_event e = stamped env ?p"
    by (auto simp: written_def)
  have "lc_event c \<noteq> []" using mth by (cases rule: stage_method.cases) (auto simp: stage_log_defs)
  then obtain d where d: "document_event_of (os_validators s) (stamped env ?p) = Inr d" "tells env l' c t d"
    using stage_event_typed [OF typed _ _ _ service(2)] logger(1,4,5) l' by fastforce
  have "mset (map ie_event (sort_key ie_sort_key ys)) =
      add_mset (stamped env ?p) (mset (map ie_event (sort_key ie_sort_key xs)))"
    using e by simp
  from typed_mset [OF old this d(1)] obtain new where
    new: "map_result (document_event_of (os_validators s)) (map ie_event (sort_key ie_sort_key ys)) = Inr new"
    "mset new = add_mset d (mset old)" by blast
  have "length ys = Suc (length xs)" by (metis e(1) size_add_mset size_mset)
  then have "complete_timeline s fs' q new"
    using read [OF ys] new(1) before(2) len by simp
  then show ?thesis using new(2) d(2) by blast
qed

text \<open>A first event in empty logs; the JSON library knows the one line.\<close>

definition demo_logger :: stage_logger where
  "demo_logger = new_stage_logger ''logs'' ''process'' None
     \<lparr>oc_workflow_id = ''w'', oc_operation_id = ''op'', oc_attempt = 1, oc_parent_operation_id = None\<rparr>"

definition demo_snapshot :: log_snapshot where
  "demo_snapshot = \<lparr>sn_log_document_id = 7, sn_log_doc_code = ''D7'', sn_log_kb_id = 2,
     sn_log_domain_code = None, sn_log_business_scene = None, sn_log_source_type = ''txt'',
     sn_log_status_before = ''uploaded''\<rparr>"

definition demo_env :: write_env where
  "demo_env = \<lparr>we_event_id = ''e1'', we_duration = 3, we_date = (2026, 1, 31),
     we_at = (2026, 1, 31, 3723000004), we_refused = False\<rparr>"

definition demo_json :: json where
  "demo_json = stamped demo_env (stage_payload demo_env (fst (process_claimed demo_snapshot demo_logger))
     (snd (process_claimed demo_snapshot demo_logger)))"

definition demo_service :: operations_service where
  "demo_service =
     \<lparr>os_lib = \<lparr>js_loads = (\<lambda>s. if s = ''line'' then Some demo_json else None), js_loads_utf8 = (\<lambda>_. None),
        js_dumps = (\<lambda>_. ''line'')\<rparr>,
      os_validators = \<lparr>va_int = (\<lambda>j. case j of JInt n \<Rightarrow> Some n | _ \<Rightarrow> None),
        va_bool = (\<lambda>j. case j of JBool b \<Rightarrow> Some b | _ \<Rightarrow> None),
        va_datetime = (\<lambda>j. case j of JStr s \<Rightarrow> fromisoformat s | _ \<Rightarrow> None)\<rparr>,
      os_document_sources = document_log_sources ''logs'', os_tool_sources = []\<rparr>"

definition demo_query :: "string timeline_query" where
  "demo_query = \<lparr>tq_key = ''op'', tq_agent_names = [], tq_tool_names = [], tq_created_from = None,
     tq_created_to = None, tq_limit = 100\<rparr>"

lemma stage_event_in_timeline_witness:
  "\<exists>new d. complete_timeline demo_service
      (snd (log_emit (os_lib demo_service) demo_env (process_claimed demo_snapshot) demo_logger (\<lambda>_. NoDirectory)))
      demo_query new \<and> mset new = {#d#} \<and>
    tells demo_env (fst (process_claimed demo_snapshot demo_logger))
      (snd (process_claimed demo_snapshot demo_logger)) (the (fromisoformat (isoformat (we_at demo_env)))) d"
proof -
  let ?l = "fst (process_claimed demo_snapshot demo_logger)"
  let ?c = "snd (process_claimed demo_snapshot demo_logger)"
  let ?fs' = "snd (stage_write (os_lib demo_service) demo_env ?l ?c (\<lambda>_. NoDirectory))"
  have "accepts_plain (os_validators demo_service) demo_env (the (fromisoformat (isoformat (we_at demo_env))))"
  proof -
    have "fromisoformat (isoformat (we_at demo_env)) \<noteq> None" by code_simp
    then show ?thesis by (auto simp: accepts_plain_def demo_service_def)
  qed
  moreover have "complete_timeline demo_service (\<lambda>_. NoDirectory) demo_query []"
    by (simp add: complete_timeline_def demo_service_def demo_query_def get_document_operation_timeline_def
        timeline_def scan_def decode_cursor_def document_log_sources_def read_source_def page_of_def
        after_cursor_def in_order_def)
  moreover have "stage_write (os_lib demo_service) demo_env ?l ?c (\<lambda>_. NoDirectory) = (True, ?fs')"
    by (simp add: stage_write_def write_event_def demo_env_def Let_def)
  moreover have "js_loads (os_lib demo_service) (js_dumps (os_lib demo_service)
      (stamped demo_env (stage_payload demo_env ?l ?c))) = Some (stamped demo_env (stage_payload demo_env ?l ?c))"
    by (simp add: demo_service_def demo_json_def)
  moreover have "calendar_instant (we_at demo_env)" by code_simp
  moreover have "sl_stage demo_logger = ''process''" "sl_writer demo_logger = stage_writer ''logs'' (sl_stage demo_logger)"
    "fields_typed (sl_context demo_logger)" "oc_operation_id (sl_operation demo_logger) = tq_key demo_query"
    "tq_key demo_query \<noteq> []" "tq_limit demo_query = 100" "tq_created_from demo_query = None"
    "tq_created_to demo_query = None" "os_document_sources demo_service = document_log_sources ''logs''"
    by (simp_all add: demo_logger_def new_stage_logger_def demo_query_def demo_service_def)
  ultimately have "\<exists>new d. complete_timeline demo_service ?fs' demo_query new \<and> mset new = add_mset d (mset []) \<and>
      tells demo_env ?l ?c (the (fromisoformat (isoformat (we_at demo_env)))) d"
    using stage_event_in_timeline [of "process_claimed demo_snapshot" demo_logger ?l ?c "''logs''" demo_query
        demo_service demo_env _ "\<lambda>_. NoDirectory" ?fs' "[]", OF stage_method.intros(1)]
    by (simp add: plain_log_def)
  then show ?thesis by (simp add: log_emit_def split_beta)
qed

section \<open>What the redaction hides\<close>

text \<open>A key after a word character is no match, nor is a quoted one; only the scheme of a basic login is hidden.\<close>

lemma redaction_examples:
  "redact_sensitive_text ''api-key : abc, Token=Bearer  xyz; mysql://me:pw@db/x'' =
     ''api-key=<redacted>, Token=<redacted>; mysql://me:<redacted>@db/x''"
  by code_simp

lemma redaction_leaks:
  "redact_sensitive_text ''access_token=abc'' = ''access_token=abc''"
  "redact_sensitive_text ''{\"token\": \"abc\"}'' = ''{\"token\": \"abc\"}''"
  "redact_sensitive_text ''Authorization: Basic YTpi'' = ''Authorization=<redacted> YTpi''"
  by code_simp+

section \<open>Audited calls\<close>

lemma audit_keys:
  "distinct (map fst (snd (audit_call a)))"
  "audit_payload env v ev kvs = dict_update (audit_payload env v ev []) kvs"
  by (cases a; simp) (simp add: audit_payload_def Let_def)

lemma audit_unstamped: "''created_at'' \<notin> fst ` set (audit_payload env v ev (snd (audit_call a)))"
proof -
  have "''created_at'' \<notin> fst ` set (audit_payload env v ev [])" by (simp add: audit_payload_def Let_def)
  moreover have "''created_at'' \<notin> fst ` set (snd (audit_call a))" by (cases a) simp_all
  ultimately show ?thesis by (subst audit_keys(2)) (simp add: keys_dict_update)
qed

lemma audit_created: "json_get (audit_json v env a) ''created_at'' = Some (JStr (isoformat (we_at env)))"
  by (simp add: audit_json_def split_beta stamped_get [OF audit_unstamped])

lemma audit_lookup:
  "k \<noteq> ''created_at'' \<Longrightarrow> json_get (audit_json v env a) k =
    (case map_of (snd (audit_call a)) k of Some j \<Rightarrow> Some j
     | None \<Rightarrow> map_of (audit_payload env v (fst (audit_call a)) []) k)"
  by (simp add: audit_json_def split_beta stamped_get [OF audit_unstamped], subst audit_keys(2))
    (rule lookup_dict_update [OF audit_keys(1)])

lemma audit_base:
  "map_of (audit_payload env v ev []) ''invocation_id'' = Some (JStr (ai_invocation_id v))"
  "map_of (audit_payload env v ev []) ''event'' = Some (JStr ev)"
  "map_of (audit_payload env v ev []) ''trace_id'' = Some (JStr (ax_trace_id (ai_context v)))"
  "map_of (audit_payload env v ev []) ''agent_run_id'' = Some (JStr (ax_agent_run_id (ai_context v)))"
  "map_of (audit_payload env v ev []) ''conversation_id'' = Some (json_opt JStr (ax_conversation_id (ai_context v)))"
  "map_of (audit_payload env v ev []) ''turn_id'' = Some (json_opt JStr (ax_turn_id (ai_context v)))"
  "map_of (audit_payload env v ev []) ''task_id'' = Some (json_opt JStr (ax_task_id (ai_context v)))"
  "map_of (audit_payload env v ev []) ''agent_name'' = Some (JStr (ax_agent_name (ai_context v)))"
  "map_of (audit_payload env v ev []) ''tool_name'' = Some (JStr (ai_tool_name v))"
  "map_of (audit_payload env v ev []) ''actor_code'' = Some (JStr (ax_actor_code (ai_context v)))"
  "map_of (audit_payload env v ev []) ''resource_refs'' = Some (JList (map JStr (ai_resource_refs v)))"
  "map_of (audit_payload env v ev []) ''duration_ms'' = Some (JInt (we_duration env))"
  by (simp_all add: audit_payload_def Let_def)

definition invocation_told :: "audited_invocation \<Rightarrow> invocation \<Rightarrow> bool" where
  "invocation_told v iv \<longleftrightarrow>
     iv_trace_id iv = ax_trace_id (ai_context v) \<and> iv_agent_run_id iv = ax_agent_run_id (ai_context v) \<and>
     iv_conversation_id iv = ax_conversation_id (ai_context v) \<and> iv_turn_id iv = ax_turn_id (ai_context v) \<and>
     iv_task_id iv = ax_task_id (ai_context v) \<and> iv_agent_name iv = ax_agent_name (ai_context v) \<and>
     iv_tool_name iv = ai_tool_name v \<and> iv_actor_code iv = ax_actor_code (ai_context v) \<and>
     iv_resource_refs iv = ai_resource_refs v"

lemma texts_back: "texts_or_empty (Some (JList (map JStr xs))) = Inr xs"
  by (cases xs) (simp_all add: texts_or_empty_def list_or_empty_def truthy_def list_all_iff o_def)

lemma started_told:
  "\<exists>iv. invocation_of (audit_json v env InvocationStarted) = Inr iv \<and> invocation_told v iv"
  by (simp add: invocation_of_def audit_lookup audit_base texts_back invocation_told_def)

lemma audit_group:
  assumes "ai_invocation_id v \<noteq> []" "a \<noteq> InvocationStarted"
  shows "group_events [audit_json v e1 InvocationStarted, audit_json v e2 a] [] =
    Inr [(ai_invocation_id v,
      \<lparr>ig_first = audit_json v e1 InvocationStarted, ig_started_at = JStr (isoformat (we_at e1)),
       ig_terminal = Some (audit_json v e2 a)\<rparr>)]"
  using assms
  by (cases a)
    (simp_all add: audit_lookup audit_created audit_base Let_def add_event_def is_text_def STARTED_def terminal_event_def)

fun audit_outcome :: "audit_event \<Rightarrow> string" where
  "audit_outcome InvocationStarted = ''started''"
| "audit_outcome (InvocationSucceeded code) = ''succeeded''"
| "audit_outcome (InvocationRejected code retryable) = ''rejected''"
| "audit_outcome (InvocationFailed code retryable) = ''failed''"

fun audit_verdict :: "audit_event \<Rightarrow> string option \<times> bool option" where
  "audit_verdict InvocationStarted = (None, None)"
| "audit_verdict (InvocationSucceeded code) = (Some code, Some False)"
| "audit_verdict (InvocationRejected code retryable) = (Some code, Some retryable)"
| "audit_verdict (InvocationFailed code retryable) = (Some code, Some retryable)"

text \<open>
  The two events of an audited call are read by the tool time line as one invocation with the tool,
  the run and the verdict of the call.
\<close>

theorem audited_call_reads_back:
  assumes "ai_invocation_id v \<noteq> []" "a \<noteq> InvocationStarted"
    "accepts_plain va e1 t1" "accepts_plain va e2 t2"
  shows "\<exists>x. aggregate_invocations va [audit_json v e1 InvocationStarted, audit_json v e2 a] = Inr [x] \<and>
    invocation_told v (invocation.truncate x) \<and> ti_invocation_id x = ai_invocation_id v \<and>
    ti_started_at x = t1 \<and> ti_completed_at x = Some t2 \<and> ti_outcome x = Some (audit_outcome a) \<and>
    (ti_result_code x, ti_retryable x) = audit_verdict a \<and> ti_duration_ms x = Some (we_duration e2)"
proof -
  obtain iv where iv: "invocation_of (audit_json v e1 InvocationStarted) = Inr iv" "invocation_told v iv"
    using started_told by blast
  let ?g = "\<lparr>ig_first = audit_json v e1 InvocationStarted, ig_started_at = JStr (isoformat (we_at e1)),
       ig_terminal = Some (audit_json v e2 a)\<rparr>"
  have va: "va_datetime va (JStr (isoformat (we_at e1))) = Some t1"
    "va_datetime va (JStr (isoformat (we_at e2))) = Some t2"
    "\<forall>n. va_int va (JInt n) = Some n" "\<forall>b. va_bool va (JBool b) = Some b"
    using assms(3,4) by (auto simp: accepts_plain_def)
  have outcome: "outcome_of (audit_json v e2 a) = audit_outcome a"
    by (cases a) (simp_all add: outcome_of_def audit_lookup audit_base INVOCATION_PREFIX_def Let_def)
  have verdict: "optional text_of (json_get (audit_json v e2 a) ''result_code'') = Inr (fst (audit_verdict a))"
    "optional (va_bool va) (json_get (audit_json v e2 a) ''retryable'') = Inr (snd (audit_verdict a))"
    using assms(2) va(4) by (cases a; simp add: audit_lookup optional_def)+
  have times: "optional (va_datetime va) (json_get (audit_json v e2 a) ''created_at'') = Inr (Some t2)"
    "optional (va_int va) (json_get (audit_json v e2 a) ''duration_ms'') = Inr (Some (we_duration e2))"
    using va by (simp add: audit_created optional_def)
      (use va in \<open>cases a; simp add: audit_lookup audit_base optional_def\<close>)
  have "item_of va (ai_invocation_id v, ?g) =
      Inr (invocation.extend iv (invocation_item.fields (ai_invocation_id v) t1 (Some t2)
        (Some (audit_outcome a)) (fst (audit_verdict a)) (snd (audit_verdict a)) (Some (we_duration e2))))"
    by (simp add: item_of_def iv va terminal_field_def times verdict outcome)
  then show ?thesis
    using iv(2)
    by (cases "dt_offset t1") (simp_all add: aggregate_invocations_def audit_group [OF assms(1,2)] sort_items_def
        invocation_told_def invocation.defs invocation_item.defs del: group_events.simps)
qed

end
