(* ===== verification/Context_Query_Properties.thy ===== *)
theory Context_Query_Properties
  imports Context_Query
begin

text \<open>
  What the context tools may show an agent: only rows of its conversation and of the chains and
  turns it was given, a page at a time; and the case in which that fails, an agent given no turns.
\<close>

section \<open>Calls and answers\<close>

datatype context_call =
    GetTurn ident | ListTurns turn_query | GetChain ident | ListChains chain_query
  | ListNodes node_query | ListResources resource_query | ListSelections selection_query

datatype context_answer =
    TurnAnswer turn | TurnsAnswer "turn listing" | ChainAnswer chain | ChainsAnswer "chain listing"
  | NodesAnswer "chain_node listing" | ResourcesAnswer "chain_resource listing"
  | SelectionsAnswer "selection_record listing"

definition answer_of :: "('a \<Rightarrow> context_answer) \<Rightarrow> 'a tool_reply \<times> audit_event list \<Rightarrow>
    context_answer option \<times> audit_event list" where
  "answer_of f = map_prod (\<lambda>r. map_option f (tr_value r)) id"

fun context_tool :: "agent_scope \<Rightarrow> context_call \<Rightarrow> context_db \<Rightarrow> context_answer option \<times> audit_event list" where
  "context_tool sc (GetTurn i) db = answer_of TurnAnswer (get_conversation_turn_handler sc i db)"
| "context_tool sc (ListTurns q) db = answer_of TurnsAnswer (list_conversation_turns_handler sc q db)"
| "context_tool sc (GetChain i) db = answer_of ChainAnswer (get_context_chain_handler sc i db)"
| "context_tool sc (ListChains q) db = answer_of ChainsAnswer (list_context_chains_handler sc q db)"
| "context_tool sc (ListNodes q) db = answer_of NodesAnswer (list_context_chain_nodes_handler sc q db)"
| "context_tool sc (ListResources q) db = answer_of ResourcesAnswer (list_context_chain_resources_handler sc q db)"
| "context_tool sc (ListSelections q) db = answer_of SelectionsAnswer (list_context_selection_records_handler sc q db)"

definition chain_visible :: "agent_scope \<Rightarrow> context_db \<Rightarrow> ident \<Rightarrow> bool" where
  "chain_visible sc db cid \<longleftrightarrow> cid \<in> set (as_chain_ids sc) \<and>
     (\<exists>c\<in>set (chains db). ch_id c = cid \<and> as_conversation_id sc = Some (ch_conversation_id c))"

fun in_scope :: "agent_scope \<Rightarrow> context_db \<Rightarrow> context_answer \<Rightarrow> bool" where
  "in_scope sc db (TurnAnswer t) \<longleftrightarrow> t \<in> set (turns (core db)) \<and> tn_id t \<in> set (as_turn_ids sc)"
| "in_scope sc db (TurnsAnswer l) \<longleftrightarrow> page_in (\<lambda>t. t \<in> set (turns (core db)) \<and>
     tn_id t \<in> set (as_turn_ids sc) \<and> as_conversation_id sc = Some (tn_conversation_id t)) l"
| "in_scope sc db (ChainAnswer c) \<longleftrightarrow> c \<in> set (chains db) \<and> ch_id c \<in> set (as_chain_ids sc)"
| "in_scope sc db (ChainsAnswer l) \<longleftrightarrow> page_in (\<lambda>c. c \<in> set (chains db) \<and> chain_visible sc db (ch_id c)) l"
| "in_scope sc db (NodesAnswer l) \<longleftrightarrow> page_in (\<lambda>n. n \<in> set (chain_nodes db) \<and>
     chain_visible sc db (nd_chain_id n) \<and> nd_turn_id n \<in> set (as_turn_ids sc) \<and>
     as_turn_id sc \<noteq> Some (nd_turn_id n)) l"
| "in_scope sc db (ResourcesAnswer l) \<longleftrightarrow> page_in (\<lambda>r. r \<in> set (chain_resources db) \<and>
     chain_visible sc db (rs_chain_id r)) l"
| "in_scope sc db (SelectionsAnswer l) \<longleftrightarrow> page_in (\<lambda>s. s \<in> set (selections db) \<and>
     as_turn_id sc = Some (sl_turn_id s) \<and> as_conversation_id sc = Some (sl_conversation_id s)) l"

section \<open>Lemmas\<close>

lemma page_in_no_items: "page_in P (no_items limit offset)"
  by (simp add: page_in_def no_items_def)

lemma read_tool_value:
  assumes "answer_of f (validated ok (read_tool granted p refs code op db)) = (Some a, ev)"
  shows "\<exists>v. op db = Inr v \<and> a = f v \<and> ok \<and> p \<in> set granted"
  using assms
  by (auto simp: answer_of_def validated_def invalid_reply_def read_tool_def execute_audited_tool_call_def
      require_permissions_def Let_def bind_eq_Inr split: sum.splits if_splits prod.splits)

lemma allowed_ids_in:
  assumes "allowed_ids_of requested allowed = Inr ids"
  shows "set ids \<subseteq> set allowed" "ids = [] \<Longrightarrow> allowed = []"
  using assms by (auto simp: allowed_ids_of_def Let_def split: if_splits)
    (metis empty_set set_dedup set_empty set_sort)+

lemma with_service_Inr: "with_service sc r = Inr v \<longleftrightarrow> as_service sc \<and> r = Inr v"
  by (simp add: with_service_def)

lemma conversation_scope_Inr: "conversation_scope sc r = Inr conv \<Longrightarrow> as_conversation_id sc = Some conv"
  by (auto simp: conversation_scope_def split: option.splits if_splits)

lemma in_if_allowed: "in_if ids v \<Longrightarrow> ids \<noteq> [] \<Longrightarrow> set ids \<subseteq> set allowed \<Longrightarrow> v \<in> set allowed"
  by (auto simp: in_if_def)

lemma scoped_turns_in:
  assumes "scoped_turns sc q db = Inr l" "valid_turn_query q" "as_turn_ids sc \<noteq> []"
  shows "in_scope sc db (TurnsAnswer l)"
proof -
  obtain conv ids where c: "as_conversation_id sc = Some conv" and i: "allowed_ids_of (tq_turn_ids q) (as_turn_ids sc) = Inr ids"
    and l: "l = list_conversation_turns (q\<lparr>tq_conversation_id := Some conv, tq_turn_ids := ids\<rparr>) db"
    using assms(1) by (auto simp: scoped_turns_def bind_eq_Inr with_service_Inr dest: conversation_scope_Inr)
  note ids = allowed_ids_in [OF i]
  have "\<forall>t\<in>set (found_turns (q\<lparr>tq_conversation_id := Some conv, tq_turn_ids := ids\<rparr>) db).
      t \<in> set (turns (core db)) \<and> tn_id t \<in> set (as_turn_ids sc) \<and> as_conversation_id sc = Some (tn_conversation_id t)"
    using c in_if_allowed [OF _ _ ids(1)] ids(2) assms(3)
    by (auto simp: found_turns_def turn_matches_def equals_if_def)
  then show ?thesis unfolding l list_conversation_turns_def in_scope.simps
    using assms(2) by (intro page_in_listing) (auto simp: valid_turn_query_def)
qed

lemma scoped_chains_in:
  assumes "scoped_chains sc q db = Inr l" "valid_chain_query q"
  shows "in_scope sc db (ChainsAnswer l)"
proof -
  obtain conv ids where c: "as_conversation_id sc = Some conv" and i: "allowed_ids_of (cq_chain_ids q) (as_chain_ids sc) = Inr ids"
    and l: "l = no_items (cq_limit q) (cq_offset q) \<or> ids \<noteq> [] \<and>
      l = list_context_chains (q\<lparr>cq_conversation_id := Some conv, cq_chain_ids := ids\<rparr>) db"
    using assms(1) by (auto simp: scoped_chains_def bind_eq_Inr with_service_Inr split: if_splits dest: conversation_scope_Inr)
  note ids = allowed_ids_in(1) [OF i]
  have "\<forall>x\<in>set (found_chains (q\<lparr>cq_conversation_id := Some conv, cq_chain_ids := ids\<rparr>) db).
      x \<in> set (chains db) \<and> chain_visible sc db (ch_id x)" if "ids \<noteq> []"
    using ids that c in_if_allowed
    by (fastforce simp: found_chains_def chain_matches_def equals_if_def chain_visible_def)
  with l assms(2) show ?thesis unfolding list_context_chains_def in_scope.simps
    by (elim disjE conjE) (auto simp: page_in_no_items valid_chain_query_def intro!: page_in_listing)
qed

lemma chain_in_conversation_visible:
  assumes "chain_in_conversation (Some conv) cid db" "as_conversation_id sc = Some conv" "cid \<in> set (as_chain_ids sc)"
  shows "chain_visible sc db cid"
  using assms by (auto simp: chain_in_conversation_def chain_visible_def list_ex_iff)

lemma scoped_nodes_in:
  assumes "scoped_nodes sc q db = Inr l" "valid_node_query q"
  shows "in_scope sc db (NodesAnswer l)"
proof -
  obtain conv cs ts where c: "as_conversation_id sc = Some conv"
    and cs: "allowed_ids_of (requested_ids (nq_chain_ids q) (nq_chain_id q)) (as_chain_ids sc) = Inr cs"
    and ts: "allowed_ids_of (requested_ids (nq_turn_ids q) (nq_turn_id q)) (historical_turn_ids sc) = Inr ts"
    and l: "l = no_items (nq_limit q) (nq_offset q) \<or> cs \<noteq> [] \<and> ts \<noteq> [] \<and>
      l = list_context_chain_nodes (q\<lparr>nq_conversation_id := Some conv, nq_chain_id := None, nq_chain_ids := cs,
        nq_turn_id := None, nq_turn_ids := ts\<rparr>) db"
    using assms(1) by (auto simp: scoped_nodes_def bind_eq_Inr with_service_Inr split: if_splits dest: conversation_scope_Inr)
  note ids = allowed_ids_in(1) [OF cs] allowed_ids_in(1) [OF ts]
  have "\<forall>n\<in>set (found_nodes (q\<lparr>nq_conversation_id := Some conv, nq_chain_id := None, nq_chain_ids := cs,
        nq_turn_id := None, nq_turn_ids := ts\<rparr>) db).
      n \<in> set (chain_nodes db) \<and> chain_visible sc db (nd_chain_id n) \<and> nd_turn_id n \<in> set (as_turn_ids sc) \<and>
      as_turn_id sc \<noteq> Some (nd_turn_id n)" if "cs \<noteq> []" "ts \<noteq> []"
    using ids that chain_in_conversation_visible [OF _ c] in_if_allowed [of cs] in_if_allowed [of ts]
    by (fastforce simp: found_nodes_def node_matches_def historical_turn_ids_def)
  with l assms(2) show ?thesis unfolding list_context_chain_nodes_def in_scope.simps
    by (elim disjE conjE) (auto simp: page_in_no_items valid_node_query_def intro!: page_in_listing)
qed

lemma scoped_resources_in:
  assumes "scoped_resources sc q db = Inr l" "valid_resource_query q"
  shows "in_scope sc db (ResourcesAnswer l)"
proof -
  obtain conv cs where c: "as_conversation_id sc = Some conv"
    and cs: "allowed_ids_of (requested_ids (rq_chain_ids q) (rq_chain_id q)) (as_chain_ids sc) = Inr cs"
    and l: "l = no_items (rq_limit q) (rq_offset q) \<or> cs \<noteq> [] \<and>
      l = list_context_chain_resources (q\<lparr>rq_conversation_id := Some conv, rq_chain_id := None, rq_chain_ids := cs\<rparr>) db"
    using assms(1) by (auto simp: scoped_resources_def bind_eq_Inr with_service_Inr split: if_splits dest: conversation_scope_Inr)
  note ids = allowed_ids_in(1) [OF cs]
  have "\<forall>r\<in>set (found_resources (q\<lparr>rq_conversation_id := Some conv, rq_chain_id := None, rq_chain_ids := cs\<rparr>) db).
      r \<in> set (chain_resources db) \<and> chain_visible sc db (rs_chain_id r)" if "cs \<noteq> []"
    using ids that chain_in_conversation_visible [OF _ c] in_if_allowed [of cs]
    by (fastforce simp: found_resources_def resource_matches_def)
  with l assms(2) show ?thesis unfolding list_context_chain_resources_def in_scope.simps
    by (elim disjE conjE) (auto simp: page_in_no_items valid_resource_query_def intro!: page_in_listing)
qed

lemma scoped_selections_in:
  assumes "scoped_selections sc q db = Inr l" "valid_selection_query q"
  shows "in_scope sc db (SelectionsAnswer l)"
proof -
  obtain conv tid where c: "as_conversation_id sc = Some conv" "as_turn_id sc = Some tid"
    and l: "l = list_context_selection_records (q\<lparr>sq_conversation_id := Some conv, sq_turn_id := Some tid\<rparr>) db"
    using assms(1) by (cases "as_turn_id sc")
      (auto simp: scoped_selections_def bind_eq_Inr with_service_Inr split: if_splits dest: conversation_scope_Inr)
  have "\<forall>s\<in>set (found_selections (q\<lparr>sq_conversation_id := Some conv, sq_turn_id := Some tid\<rparr>) db).
      s \<in> set (selections db) \<and> as_turn_id sc = Some (sl_turn_id s) \<and>
      as_conversation_id sc = Some (sl_conversation_id s)"
    using c by (auto simp: found_selections_def selection_matches_def equals_if_def)
  then show ?thesis unfolding l list_context_selection_records_def in_scope.simps
    using assms(2) by (intro page_in_listing) (auto simp: valid_selection_query_def)
qed

lemma scoped_one_in:
  "scoped_turn sc i db = Inr t \<Longrightarrow> in_scope sc db (TurnAnswer t)"
  "scoped_chain sc i db = Inr c \<Longrightarrow> in_scope sc db (ChainAnswer c)"
  by (auto simp: scoped_turn_def scoped_chain_def bind_eq_Inr with_service_Inr require_allowed_id_def
      query_conversation_turn_def query_context_chain_def get_turn_def get_chain_def turn_get_by_id_def
      dest!: get_row_SomeD)

section \<open>The property\<close>

text \<open>
  C39: A context tool shows an agent only its own scope.  Whatever a tool is asked, an answer is given
  only to an agent that may read the context, and every row in it is a stored row of a chain or turn
  that the run was given: a single turn or chain is one of the allowed ids, listed turns and chains
  are allowed ones of the run's conversation, nodes belong to an allowed chain of the conversation
  and to an earlier allowed turn, resources to an allowed chain of the conversation, and selections
  are those of the current turn.  No page is longer than a hundred rows.  Assumed is that the run was
  given at least one turn, which the planner's always is.
\<close>
theorem context_tools_stay_in_scope:
  assumes "as_turn_ids sc \<noteq> []" "context_tool sc call db = (Some a, ev)"
  shows "in_scope sc db a \<and> CONTEXT_READ_PERMISSION \<in> set (as_permissions sc)"
proof (cases call)
  case (GetTurn i)
  with assms(2) show ?thesis
    by (auto simp: get_conversation_turn_handler_def simp del: in_scope.simps
        dest!: read_tool_value scoped_one_in)
next
  case (ListTurns q)
  with assms(2) show ?thesis using scoped_turns_in [OF _ _ assms(1)]
    by (auto simp: list_conversation_turns_handler_def simp del: in_scope.simps dest!: read_tool_value)
next
  case (GetChain i)
  with assms(2) show ?thesis
    by (auto simp: get_context_chain_handler_def simp del: in_scope.simps
        dest!: read_tool_value scoped_one_in)
next
  case (ListChains q)
  with assms(2) show ?thesis using scoped_chains_in
    by (auto simp: list_context_chains_handler_def simp del: in_scope.simps dest!: read_tool_value)
next
  case (ListNodes q)
  with assms(2) show ?thesis using scoped_nodes_in
    by (auto simp: list_context_chain_nodes_handler_def simp del: in_scope.simps dest!: read_tool_value)
next
  case (ListResources q)
  with assms(2) show ?thesis using scoped_resources_in
    by (auto simp: list_context_chain_resources_handler_def simp del: in_scope.simps dest!: read_tool_value)
next
  case (ListSelections q)
  with assms(2) show ?thesis using scoped_selections_in
    by (auto simp: list_context_selection_records_handler_def simp del: in_scope.simps dest!: read_tool_value)
qed

lemma planner_scope_has_turns: "as_turn_ids (planner_agent_scope conv tid ps cs) \<noteq> []"
  by (simp add: planner_agent_scope_def)

text \<open>Without any allowed turn the narrowing of \<open>list_conversation_turns\<close> is empty, and it lists all.\<close>

lemma no_turns_lists_conversation:
  assumes "as_turn_ids sc = []" "as_conversation_id sc = Some conv" "as_service sc"
    "tq_conversation_id q = None" "tq_turn_ids q = []"
  shows "scoped_turns sc q db = Inr (list_conversation_turns (q\<lparr>tq_conversation_id := Some conv\<rparr>) db)"
proof -
  have same: "q\<lparr>tq_conversation_id := c, tq_turn_ids := []\<rparr> = q\<lparr>tq_conversation_id := c\<rparr>" for c
    using assms(5) by (cases q) simp
  have "scoped_turns sc q db =
      Inr (list_conversation_turns (q\<lparr>tq_conversation_id := Some conv, tq_turn_ids := []\<rparr>) db)"
    using assms by (simp add: scoped_turns_def conversation_scope_def allowed_ids_of_def with_service_def dedup_def)
  then show ?thesis unfolding same .
qed

text \<open>A tool call in a small world: a chain with two turns, of which the first is history.\<close>

definition demo_turn :: "ident \<Rightarrow> turn" where
  "demo_turn i =
     \<lparr>tn_id = i, tn_conversation_id = ''conv'', tn_user_input = ''hi'', tn_clarification_input = None,
      tn_assistant_content = None, tn_assistant_compact = None, tn_task_ids = [],
      tn_task_result_summary = None, tn_status = PROCESSING, tn_created_at = 1, tn_completed_at = None\<rparr>"

definition demo_node :: "ident \<Rightarrow> ident \<Rightarrow> int \<Rightarrow> chain_node" where
  "demo_node i t n =
     \<lparr>nd_id = i, nd_chain_id = ''c'', nd_turn_id = t, nd_sequence = n, nd_related_task_ids = [],
      nd_related_resource_refs = [], nd_created_at = 1\<rparr>"

definition demo_context :: context_db where
  "demo_context =
     \<lparr>core = \<lparr>plans = [], tasks = [], task_dependencies = [], task_executions = [], outbox = [],
        inbox = [], clarifications = [], turns = map demo_turn [''t1'', ''t2'', ''t3'']\<rparr>,
      chains = [\<lparr>ch_id = ''c'', ch_conversation_id = ''conv'', ch_resource_version = 0,
        ch_last_active_at = 1, ch_archived = False, ch_created_at = 1\<rparr>],
      chain_nodes = [demo_node ''n1'' ''t1'' 0, demo_node ''n2'' ''t2'' 1], chain_resources = [],
      resource_events = [], selections = [], next_resource_id = 1\<rparr>"

definition demo_scope :: agent_scope where
  "demo_scope =
     \<lparr>as_permissions = [''context:read''], as_conversation_id = Some ''conv'', as_turn_id = Some ''t2'',
      as_chain_ids = [''c''], as_turn_ids = [''t2'', ''t1''], as_service = True\<rparr>"

definition demo_call :: context_call where
  "demo_call = ListNodes
     \<lparr>nq_conversation_id = None, nq_chain_id = Some ''c'', nq_chain_ids = [], nq_turn_id = None,
      nq_turn_ids = [], nq_from = None, nq_to = None, nq_limit = 50, nq_offset = 0\<rparr>"

lemma demo_query_answer:
  "context_tool demo_scope demo_call demo_context =
     (Some (NodesAnswer \<lparr>ls_items = [demo_node ''n1'' ''t1'' 0], ls_total = 1, ls_limit = 50, ls_offset = 0\<rparr>),
      [InvocationStarted, InvocationSucceeded ''context_chain_nodes_listed''])"
  by code_simp

lemma context_tools_stay_in_scope_witness:
  "in_scope demo_scope demo_context
     (NodesAnswer \<lparr>ls_items = [demo_node ''n1'' ''t1'' 0], ls_total = 1, ls_limit = 50, ls_offset = 0\<rparr>) \<and>
   CONTEXT_READ_PERMISSION \<in> set (as_permissions demo_scope)"
  by (rule context_tools_stay_in_scope [OF _ demo_query_answer]) (simp add: demo_scope_def)

end
