(* ===== verification/Strict_Schema.thy ===== *)
theory Strict_Schema
  imports Aggregation
begin

text \<open>
  The conversion of the selection contract's JSON schema to the subset that the model's strict tools
  accept (context/infrastructure/llm/strict_schema_adapter.py).  The schema pydantic generates is an
  input.  Python's recursion limit is the fuel of the expansion of references.
\<close>

section \<open>Local references\<close>

definition DEFS_PREFIX :: string where
  "DEFS_PREFIX = ''#/$defs/''"

definition local_ref :: "(string \<times> json) list \<Rightarrow> string option" where
  "local_ref kvs =
     (case map_of kvs ''$ref'' of
        Some (JStr s) \<Rightarrow>
          if take (length DEFS_PREFIX) s = DEFS_PREFIX then Some (drop (length DEFS_PREFIX) s) else None
      | _ \<Rightarrow> None)"

definition recursion_error :: error where
  "recursion_error = OtherException ''RecursionError'' ''maximum recursion depth exceeded''"

definition unknown_definition :: "string \<Rightarrow> error" where
  "unknown_definition name =
     OtherException ''ContextAgentOutputError'' (''unknown definition: '' @ name)"

definition without_key :: "string \<Rightarrow> (string \<times> json) list \<Rightarrow> (string \<times> json) list" where
  "without_key k kvs = filter (\<lambda>kv. fst kv \<noteq> k) kvs"

text \<open>The definition that a reference names, with the keys beside the reference put over it.\<close>

definition merged_definition :: "json \<Rightarrow> string \<Rightarrow> (string \<times> json) list \<Rightarrow> (string \<times> json) list result" where
  "merged_definition defs name kvs =
     (case json_get defs name of
        None \<Rightarrow> Inl (unknown_definition name)
      | Some JNull \<Rightarrow> Inl (unknown_definition name)
      | Some (JObj def) \<Rightarrow> Inr (dict_update def (without_key ''$ref'' kvs))
      | Some _ \<Rightarrow> Inl (OtherException ''AttributeError'' ''update''))"

function (sequential) resolve_local_schema_refs :: "nat \<Rightarrow> json \<Rightarrow> json \<Rightarrow> json result"
  and resolve_items :: "nat \<Rightarrow> json \<Rightarrow> json list \<Rightarrow> json list result"
  and resolve_fields :: "nat \<Rightarrow> json \<Rightarrow> (string \<times> json) list \<Rightarrow> (string \<times> json) list result" where
  "resolve_local_schema_refs f defs (JList xs) = bind (resolve_items f defs xs) (\<lambda>ys. Inr (JList ys))"
| "resolve_local_schema_refs f defs (JObj kvs) =
     (case local_ref kvs of
        Some name \<Rightarrow>
          (case f of 0 \<Rightarrow> Inl recursion_error
           | Suc f' \<Rightarrow>
               (case merged_definition defs name kvs of Inl e \<Rightarrow> Inl e
                | Inr m \<Rightarrow> resolve_local_schema_refs f' defs (JObj m)))
      | None \<Rightarrow> bind (resolve_fields f defs kvs) (\<lambda>fs. Inr (JObj fs)))"
| "resolve_local_schema_refs f defs v = Inr v"
| "resolve_items f defs [] = Inr []"
| "resolve_items f defs (x # xs) =
     bind (resolve_local_schema_refs f defs x) (\<lambda>y. bind (resolve_items f defs xs) (\<lambda>ys. Inr (y # ys)))"
| "resolve_fields f defs [] = Inr []"
| "resolve_fields f defs ((k, v) # kvs) =
     (if k = ''$defs'' then resolve_fields f defs kvs
      else bind (resolve_local_schema_refs f defs v) (\<lambda>y.
        bind (resolve_fields f defs kvs) (\<lambda>fs. Inr ((k, y) # fs))))"
  by pat_completeness auto

termination
  by (relation "measures
      [\<lambda>x. case x of Inl (f, _) \<Rightarrow> f | Inr (Inl (f, _)) \<Rightarrow> f | Inr (Inr (f, _)) \<Rightarrow> f,
       \<lambda>x. case x of Inl (_, _, v) \<Rightarrow> size v | Inr (Inl (_, _, xs)) \<Rightarrow> size_list size xs
         | Inr (Inr (_, _, kvs)) \<Rightarrow> size_list (size_prod (\<lambda>_. 0) size) kvs]") auto

section \<open>Normal form\<close>

definition unsupported_or_display_only :: "string list" where
  "unsupported_or_display_only =
     [''title'', ''default'', ''minLength'', ''maxLength'', ''minItems'', ''maxItems'']"

text \<open>What is done to an object schema after its values are normalised.\<close>

definition close_object :: "(string \<times> json) list \<Rightarrow> (string \<times> json) list" where
  "close_object kvs =
     (if map_of kvs ''type'' \<noteq> Some (JStr ''object'') then kvs
      else dict_set ''additionalProperties'' (JBool False)
        (case map_of kvs ''properties'' of
           None \<Rightarrow> dict_set ''required'' (JList []) kvs
         | Some (JObj ps) \<Rightarrow> dict_set ''required'' (JList (map (JStr \<circ> fst) ps)) kvs
         | Some _ \<Rightarrow> kvs))"

fun normalize_strict_tool_schema :: "json \<Rightarrow> json" where
  "normalize_strict_tool_schema (JList xs) = JList (map normalize_strict_tool_schema xs)"
| "normalize_strict_tool_schema (JObj kvs) =
     JObj (close_object (map (\<lambda>(k, v). (k, normalize_strict_tool_schema v))
       (filter (\<lambda>(k, v). k \<notin> set unsupported_or_display_only) kvs)))"
| "normalize_strict_tool_schema v = v"

definition build_context_selection_tool_schema :: "nat \<Rightarrow> json \<Rightarrow> json result" where
  "build_context_selection_tool_schema limit raw =
     bind (resolve_local_schema_refs limit
             (case json_get raw ''$defs'' of None \<Rightarrow> JObj [] | Some d \<Rightarrow> d) raw) (\<lambda>resolved.
       case normalize_strict_tool_schema resolved of
         JObj kvs \<Rightarrow> Inr (JObj kvs)
       | _ \<Rightarrow> Inl (OtherException ''ContextAgentOutputError'' ''schema is not a JSON object''))"

section \<open>Strict schemas\<close>

text \<open>The form strict tools require, at every node of a schema.\<close>

definition closed_object :: "(string \<times> json) list \<Rightarrow> bool" where
  "closed_object kvs \<longleftrightarrow>
     (map_of kvs ''type'' = Some (JStr ''object'') \<longrightarrow>
        map_of kvs ''additionalProperties'' = Some (JBool False) \<and>
        (case map_of kvs ''properties'' of
           None \<Rightarrow> map_of kvs ''required'' = Some (JList [])
         | Some (JObj ps) \<Rightarrow> map_of kvs ''required'' = Some (JList (map (JStr \<circ> fst) ps))
         | Some _ \<Rightarrow> True))"

fun strict :: "json \<Rightarrow> bool" where
  "strict (JList xs) = list_all strict xs"
| "strict (JObj kvs) =
     (list_all (\<lambda>(k, v). k \<notin> set unsupported_or_display_only \<and> strict v) kvs \<and> closed_object kvs)"
| "strict v = True"

fun without_refs :: "json \<Rightarrow> bool" where
  "without_refs (JList xs) = list_all without_refs xs"
| "without_refs (JObj kvs) =
     (list_all (\<lambda>(k, v). k \<noteq> ''$defs'' \<and> without_refs v) kvs \<and> local_ref kvs = None)"
| "without_refs v = True"

declare map_of_dict_set [simp]

lemma dict_set_same: "map_of kvs k = Some v \<Longrightarrow> dict_set k v kvs = kvs"
  by (induction kvs) auto

lemma in_close_object:
  assumes "kv \<in> set (close_object kvs)"
  shows "kv \<in> set kvs \<or> (\<exists>ks. kv = (''required'', JList (map JStr ks))) \<or> kv = (''additionalProperties'', JBool False)"
proof (cases "map_of kvs ''type'' = Some (JStr ''object'')")
  case True
  have "\<exists>ks. JList (map (JStr \<circ> fst) ps) = JList (map JStr ks)" for ps :: "(string \<times> json) list"
    by (rule exI [of _ "map fst ps"]) simp
  moreover have "\<exists>ks. JList [] = JList (map JStr ks)" by (rule exI [of _ "[]"]) simp
  ultimately show ?thesis using assms True
    by (auto simp: close_object_def dest!: in_dict_set split: option.splits json.splits)
next
  case False
  with assms show ?thesis by (simp add: close_object_def)
qed

lemma closed_close_object: "closed_object (close_object kvs)"
  by (auto simp: closed_object_def close_object_def split: option.splits json.splits)

lemma close_object_closed: "closed_object kvs \<Longrightarrow> close_object kvs = kvs"
  by (auto simp: closed_object_def close_object_def dict_set_same split: option.splits json.splits)

lemma new_keys_supported [simp]:
  "''required'' \<notin> set unsupported_or_display_only" "''additionalProperties'' \<notin> set unsupported_or_display_only"
  "''type'' \<notin> set unsupported_or_display_only" "''properties'' \<notin> set unsupported_or_display_only"
  by (simp_all add: unsupported_or_display_only_def)

definition normal_fields :: "(string \<times> json) list \<Rightarrow> (string \<times> json) list" where
  "normal_fields kvs = map (\<lambda>(k, v). (k, normalize_strict_tool_schema v))
    (filter (\<lambda>(k, v). k \<notin> set unsupported_or_display_only) kvs)"

lemma normalize_object: "normalize_strict_tool_schema (JObj kvs) = JObj (close_object (normal_fields kvs))"
  by (simp add: normal_fields_def)

lemma strict_texts: "strict (JList (map JStr ks))"
  by (simp add: list_all_iff)

lemma strict_normalize: "strict (normalize_strict_tool_schema v)"
proof (induction v rule: normalize_strict_tool_schema.induct)
  case (2 kvs)
  have fields: "fst kv \<notin> set unsupported_or_display_only \<and> strict (snd kv)" if "kv \<in> set (normal_fields kvs)" for kv
    using 2 that by (auto simp: normal_fields_def)
  have "fst kv \<notin> set unsupported_or_display_only \<and> strict (snd kv)"
    if "kv \<in> set (close_object (normal_fields kvs))" for kv
    using in_close_object [OF that] fields strict_texts by (elim disjE exE) (simp_all del: strict.simps(1))
  then have "list_all (\<lambda>(k, v). k \<notin> set unsupported_or_display_only \<and> strict v) (close_object (normal_fields kvs))"
    by (auto simp: list_all_iff)
  then show ?case unfolding normalize_object by (simp add: closed_close_object)
qed (auto simp: list_all_iff)

lemma normalize_strict: "strict v \<Longrightarrow> normalize_strict_tool_schema v = v"
proof (induction v rule: normalize_strict_tool_schema.induct)
  case (2 kvs)
  have keep: "filter (\<lambda>(k, v). k \<notin> set unsupported_or_display_only) kvs = kvs"
    using 2(2) by (auto simp: list_all_iff intro: filter_True)
  have "map (\<lambda>(k, v). (k, normalize_strict_tool_schema v)) kvs = kvs"
    using 2 unfolding keep by (intro map_idI) (auto simp: list_all_iff)
  with 2(2) keep show ?case by (simp add: close_object_closed)
qed (auto simp: list_all_iff intro!: map_idI)

lemma resolve_object: "resolve_local_schema_refs f defs (JObj kvs) = Inr w \<Longrightarrow> \<exists>fs. w = JObj fs"
proof (induction f arbitrary: kvs)
  case 0
  then show ?case by (auto simp: bind_eq_Inr split: option.splits)
next
  case (Suc f)
  then show ?case by (auto simp: bind_eq_Inr split: option.splits sum.splits)
qed

lemma resolve_text: "resolve_local_schema_refs f defs v = Inr (JStr s) \<longleftrightarrow> v = JStr s"
proof (cases v)
  case (JObj kvs)
  then show ?thesis using resolve_object [of f defs kvs] by blast
qed (auto simp: bind_eq_Inr)

lemma resolve_field:
  assumes "resolve_fields f defs kvs = Inr fs" "k \<noteq> ''$defs''"
  shows "(map_of kvs k = None \<longleftrightarrow> map_of fs k = None) \<and>
    (\<forall>v y. map_of kvs k = Some v \<longrightarrow> map_of fs k = Some y \<longrightarrow> resolve_local_schema_refs f defs v = Inr y)"
  using assms by (induction kvs arbitrary: fs) (auto simp: bind_eq_Inr split: if_splits)

lemma local_ref_texts:
  assumes "\<And>s. map_of fs ''$ref'' = Some (JStr s) \<Longrightarrow> map_of kvs ''$ref'' = Some (JStr s)"
    "local_ref kvs = None"
  shows "local_ref fs = None"
  using assms by (auto simp: local_ref_def split: option.splits json.splits)

lemma local_ref_resolved:
  assumes "resolve_fields f defs kvs = Inr fs" "local_ref kvs = None"
  shows "local_ref fs = None"
proof (rule local_ref_texts [OF _ assms(2)])
  fix s assume "map_of fs ''$ref'' = Some (JStr s)"
  with resolve_field [OF assms(1), of "''$ref''"] obtain v where
    "map_of kvs ''$ref'' = Some v" "resolve_local_schema_refs f defs v = Inr (JStr s)" by auto
  then show "map_of kvs ''$ref'' = Some (JStr s)" by (simp add: resolve_text)
qed

lemma resolve_without_refs:
  "resolve_local_schema_refs f defs v = Inr w \<Longrightarrow> without_refs w"
  "resolve_items f defs xs = Inr ys \<Longrightarrow> list_all without_refs ys"
  "resolve_fields f defs kvs = Inr fs \<Longrightarrow> list_all (\<lambda>(k, v). k \<noteq> ''$defs'' \<and> without_refs v) fs"
proof (induction f defs v and f defs xs and f defs kvs arbitrary: w and ys and fs
    rule: resolve_local_schema_refs_resolve_items_resolve_fields.induct)
  case (2 f defs kvs)
  show ?case
  proof (cases "local_ref kvs")
    case None
    with 2 local_ref_resolved show ?thesis by (auto simp: bind_eq_Inr)
  next
    case (Some name)
    with 2 show ?thesis by (auto split: nat.splits sum.splits)
  qed
next
  case (7 f defs k v kvs)
  then show ?case by (cases "k = ''$defs''") (auto simp: bind_eq_Inr)
qed (auto simp: bind_eq_Inr)

lemma map_of_normal_fields:
  "k \<notin> set unsupported_or_display_only \<Longrightarrow>
   map_of (normal_fields kvs) k = map_option normalize_strict_tool_schema (map_of kvs k)"
  by (induction kvs) (auto simp: normal_fields_def)

lemma map_of_close_object:
  "k \<noteq> ''required'' \<Longrightarrow> k \<noteq> ''additionalProperties'' \<Longrightarrow> map_of (close_object kvs) k = map_of kvs k"
  by (auto simp: close_object_def split: option.splits json.splits)

lemma normalize_text: "normalize_strict_tool_schema v = JStr s \<longleftrightarrow> v = JStr s"
  by (cases v) auto

lemma without_refs_normalize: "without_refs v \<Longrightarrow> without_refs (normalize_strict_tool_schema v)"
proof (induction v rule: normalize_strict_tool_schema.induct)
  case (2 kvs)
  have fields: "fst kv \<noteq> ''$defs'' \<and> without_refs (snd kv)" if "kv \<in> set (normal_fields kvs)" for kv
    using 2 that by (fastforce simp: normal_fields_def list_all_iff)
  have texts: "without_refs (JList (map JStr ks))" for ks by (simp add: list_all_iff)
  have "fst kv \<noteq> ''$defs'' \<and> without_refs (snd kv)" if "kv \<in> set (close_object (normal_fields kvs))" for kv
    using in_close_object [OF that] fields texts by (elim disjE exE) (simp_all del: without_refs.simps(1))
  moreover have "local_ref (close_object (normal_fields kvs)) = None"
  proof (rule local_ref_texts)
    show "local_ref kvs = None" using 2(2) by simp
    fix s assume "map_of (close_object (normal_fields kvs)) ''$ref'' = Some (JStr s)"
    then show "map_of kvs ''$ref'' = Some (JStr s)"
      by (simp add: map_of_close_object map_of_normal_fields unsupported_or_display_only_def normalize_text)
  qed
  ultimately show ?case unfolding normalize_object by (fastforce simp: list_all_iff)
qed (auto simp: list_all_iff)

section \<open>References that end\<close>

text \<open>
  \<open>refs_below r n v\<close>: every local reference in \<open>v\<close> names a definition of rank below \<open>n\<close>, and
  there is no reference inside the keys that stand beside one.
\<close>

fun refs_below :: "(string \<Rightarrow> nat) \<Rightarrow> nat \<Rightarrow> json \<Rightarrow> bool" where
  "refs_below r n (JList xs) = list_all (refs_below r n) xs"
| "refs_below r n (JObj kvs) =
     (case local_ref kvs of
        None \<Rightarrow> list_all (\<lambda>(k, v). refs_below r n v) kvs
      | Some name \<Rightarrow> r name < n \<and> list_all (\<lambda>(k, v). k = ''$ref'' \<or> refs_below r 0 v) kvs)"
| "refs_below r n v = True"

definition ranked_definitions :: "(string \<Rightarrow> nat) \<Rightarrow> json \<Rightarrow> bool" where
  "ranked_definitions r defs \<longleftrightarrow>
     (\<forall>name d. json_get defs name = Some d \<longrightarrow> (\<exists>kvs. d = JObj kvs) \<and> refs_below r (r name) d)"

lemma refs_below_mono: "refs_below r m v \<Longrightarrow> m \<le> n \<Longrightarrow> refs_below r n v"
proof (induction r m v arbitrary: n rule: refs_below.induct)
  case (2 r m kvs)
  show ?case
  proof (cases "local_ref kvs")
    case None
    with 2 show ?thesis by (fastforce simp: list_all_iff)
  next
    case (Some name)
    with 2(3,4) show ?thesis by auto
  qed
qed (auto simp: list_all_iff)

lemma local_ref_merged: "local_ref (dict_update def (without_key ''$ref'' kvs)) = local_ref def"
proof -
  have "map_of (rev (without_key ''$ref'' kvs)) ''$ref'' = None"
    by (auto simp: map_of_eq_None_iff without_key_def)
  then show ?thesis by (simp add: local_ref_def map_of_dict_update map_add_def)
qed

lemma refs_below_merged:
  assumes "refs_below r m (JObj def)" "local_ref kvs = Some name" "refs_below r n (JObj kvs)"
  shows "refs_below r m (JObj (dict_update def (without_key ''$ref'' kvs)))"
proof -
  have "refs_below r 0 (snd kv)" if "kv \<in> set (without_key ''$ref'' kvs)" for kv
    using assms(2,3) that by (auto simp: without_key_def list_all_iff)
  then have new: "refs_below r j (snd kv)" if "kv \<in> set (without_key ''$ref'' kvs)" for kv j
    using that refs_below_mono by blast
  show ?thesis
    using assms(1) new unfolding refs_below.simps local_ref_merged
    by (fastforce simp: list_all_iff dest: in_dict_update split: option.splits)
qed

definition settled :: "'a result \<Rightarrow> bool" where
  "settled x \<longleftrightarrow> (\<exists>y. x = Inr y) \<or> (\<exists>name. x = Inl (unknown_definition name))"

lemma settled_bind: "settled x \<Longrightarrow> (\<And>y. x = Inr y \<Longrightarrow> settled (g y)) \<Longrightarrow> settled (bind x g)"
  by (auto simp: settled_def)

lemma settled_simps [simp]: "settled (Inr y)" "settled (Inl (unknown_definition name))"
  by (auto simp: settled_def)

lemma merged_definition_settled:
  assumes "ranked_definitions r defs" "local_ref kvs = Some name" "refs_below r n (JObj kvs)"
  shows "merged_definition defs name kvs = Inl (unknown_definition name) \<or>
    (\<exists>m. merged_definition defs name kvs = Inr m \<and> refs_below r (r name) (JObj m))"
proof (cases "json_get defs name")
  case (Some d)
  with assms(1) obtain def where "d = JObj def" "refs_below r (r name) (JObj def)"
    by (auto simp: ranked_definitions_def simp del: refs_below.simps)
  with Some refs_below_merged [OF _ assms(2,3)] show ?thesis
    by (simp add: merged_definition_def del: refs_below.simps)
qed (simp add: merged_definition_def)

lemma resolve_settled:
  "ranked_definitions r defs \<Longrightarrow> refs_below r f v \<Longrightarrow> settled (resolve_local_schema_refs f defs v)"
  "ranked_definitions r defs \<Longrightarrow> list_all (refs_below r f) xs \<Longrightarrow> settled (resolve_items f defs xs)"
  "ranked_definitions r defs \<Longrightarrow> list_all (\<lambda>(k, v). refs_below r f v) kvs \<Longrightarrow>
     settled (resolve_fields f defs kvs)"
proof (induction f defs v and f defs xs and f defs kvs
    rule: resolve_local_schema_refs_resolve_items_resolve_fields.induct)
  case (2 f defs kvs)
  show ?case
  proof (cases "local_ref kvs")
    case None
    with 2 show ?thesis by (auto intro!: settled_bind)
  next
    case (Some name)
    with 2(4) obtain f' where f: "f = Suc f'" and less: "r name \<le> f'" by (cases f) auto
    from merged_definition_settled [OF 2(3) Some 2(4)] show ?thesis
    proof (elim disjE exE conjE)
      fix m assume m: "merged_definition defs name kvs = Inr m" "refs_below r (r name) (JObj m)"
      from 2(2) [OF Some f m(1) 2(3) refs_below_mono [OF m(2) less]] show ?thesis
        using Some f m(1) by simp
    qed (simp add: Some f)
  qed
qed (auto intro!: settled_bind)

section \<open>The schema of the selection\<close>

lemma build_schema:
  assumes "resolve_local_schema_refs n defs (JObj raw) = Inr resolved"
  shows "\<exists>kvs. resolved = JObj kvs \<and> normalize_strict_tool_schema resolved = JObj (close_object (normal_fields kvs))"
  using resolve_object [OF assms] normalize_object by auto

text \<open>
  C36: The tool schema built from the selection contract is strict.  When the references of the
  generated schema and of its definitions end within the recursion limit, the conversion gives a
  schema, unless a reference names no definition.  In that schema every object node forbids further
  keys and requires exactly its properties, no node keeps a key that strict tools do not take, no
  local reference and no definitions are left, and converting it again changes nothing.
\<close>
theorem tool_schema_is_strict:
  assumes "ranked_definitions r (case map_of raw ''$defs'' of None \<Rightarrow> JObj [] | Some d \<Rightarrow> d)"
    "refs_below r limit (JObj raw)"
  shows "(\<exists>name. build_context_selection_tool_schema limit (JObj raw) = Inl (unknown_definition name)) \<or>
    (\<exists>s. build_context_selection_tool_schema limit (JObj raw) = Inr s \<and> strict s \<and> without_refs s \<and>
       normalize_strict_tool_schema s = s)"
proof -
  let ?defs = "case map_of raw ''$defs'' of None \<Rightarrow> JObj [] | Some d \<Rightarrow> d"
  have build: "build_context_selection_tool_schema limit (JObj raw) =
      bind (resolve_local_schema_refs limit ?defs (JObj raw)) (\<lambda>resolved.
        case normalize_strict_tool_schema resolved of JObj kvs \<Rightarrow> Inr (JObj kvs)
        | _ \<Rightarrow> Inl (OtherException ''ContextAgentOutputError'' ''schema is not a JSON object''))"
    by (simp only: build_context_selection_tool_schema_def json_get.simps)
  from resolve_settled(1) [OF assms] show ?thesis unfolding settled_def
  proof (elim disjE exE)
    fix w assume w: "resolve_local_schema_refs limit ?defs (JObj raw) = Inr w"
    let ?s = "normalize_strict_tool_schema w"
    obtain kvs where "?s = JObj kvs" using build_schema [OF w] by auto
    then have "build_context_selection_tool_schema limit (JObj raw) = Inr ?s"
      unfolding build w by (simp only: bind_simps json.case)
    moreover note strict_normalize [of w] normalize_strict [OF strict_normalize [of w]]
      without_refs_normalize [OF resolve_without_refs(1) [OF w]]
    ultimately show ?thesis by blast
  next
    fix name assume "resolve_local_schema_refs limit ?defs (JObj raw) = Inl (unknown_definition name)"
    then show ?thesis unfolding build by (simp only: bind_simps) blast
  qed
qed

definition demo_raw :: "(string \<times> json) list" where
  "demo_raw =
     [(''$defs'', JObj [(''Ids'', JObj [(''type'', JStr ''array''), (''items'', JObj [(''type'', JStr ''string'')]),
         (''title'', JStr ''Ids'')])]),
      (''additionalProperties'', JBool False),
      (''properties'', JObj
        [(''relevant_chain_ids'', JObj [(''$ref'', JStr ''#/$defs/Ids''), (''title'', JStr ''Chains'')]),
         (''reason_summary'', JObj [(''maxLength'', JInt 1000), (''minLength'', JInt 1), (''type'', JStr ''string'')])]),
      (''required'', JList [JStr ''relevant_chain_ids'']), (''type'', JStr ''object'')]"

lemma demo_build:
  "build_context_selection_tool_schema 5 (JObj demo_raw) =
     Inr (JObj
       [(''additionalProperties'', JBool False),
        (''properties'', JObj
          [(''relevant_chain_ids'', JObj [(''type'', JStr ''array''), (''items'', JObj [(''type'', JStr ''string'')])]),
           (''reason_summary'', JObj [(''type'', JStr ''string'')])]),
        (''required'', JList [JStr ''relevant_chain_ids'', JStr ''reason_summary'']), (''type'', JStr ''object'')])"
  by code_simp

lemma demo_ranked: "refs_below (\<lambda>_. 0) 5 (JObj demo_raw)"
  "refs_below (\<lambda>_. 0) 0 (JObj [(''type'', JStr ''array''), (''items'', JObj [(''type'', JStr ''string'')]),
     (''title'', JStr ''Ids'')])"
  by code_simp+

lemma tool_schema_is_strict_witness:
  "\<exists>s. build_context_selection_tool_schema 5 (JObj demo_raw) = Inr s \<and> strict s \<and> without_refs s \<and>
     normalize_strict_tool_schema s = s"
proof -
  have "ranked_definitions (\<lambda>_. 0) (case map_of demo_raw ''$defs'' of None \<Rightarrow> JObj [] | Some d \<Rightarrow> d)"
    using demo_ranked(2) by (simp add: ranked_definitions_def demo_raw_def del: refs_below.simps)
  from tool_schema_is_strict [OF this demo_ranked(1)]
  have "(\<exists>name. build_context_selection_tool_schema 5 (JObj demo_raw) = Inl (unknown_definition name)) \<or> ?thesis" .
  moreover have "build_context_selection_tool_schema 5 (JObj demo_raw) \<noteq> Inl (unknown_definition name)" for name
    unfolding demo_build by simp
  ultimately show ?thesis by blast
qed

end
