(* ===== verification/Operations_Properties.thy ===== *)
theory Operations_Properties
  imports Log_Safety
begin

text \<open>
  The properties of the log queries: following the cursors lists every matching event once, newest
  first, also while the logs grow; and the tool time line pairs events as its reference does.
\<close>

section \<open>Following the cursors\<close>

text \<open>
  A reader who asks for one page per state of the logs, each time with the cursor of the page
  before, until no cursor comes back: the events it got and the cursor it is left with.
\<close>

fun walk ::
  "json_library \<Rightarrow> log_source list \<Rightarrow> log_predicate \<Rightarrow> datetime option \<Rightarrow> datetime option \<Rightarrow> int \<Rightarrow>
     log_files list \<Rightarrow> string option \<Rightarrow> (json list \<times> string option) result" where
  "walk lib srcs pred lo hi limit [] cursor = Inr ([], cursor)"
| "walk lib srcs pred lo hi limit (fs # fss) cursor =
     bind (scan lib srcs fs pred lo hi limit cursor False) (\<lambda>page.
       case pg_next_cursor page of
         None \<Rightarrow> Inr (pg_events page, None)
       | Some c \<Rightarrow> bind (walk lib srcs pred lo hi limit fss (Some c)) (\<lambda>(evs, left).
           Inr (pg_events page @ evs, left)))"

definition below :: "log_key option \<Rightarrow> indexed_event \<Rightarrow> bool" where
  "below c x = (case c of None \<Rightarrow> True | Some k \<Rightarrow> ie_sort_key x < k)"

definition reads_back :: "json_library \<Rightarrow> log_source list \<Rightarrow> indexed_event list \<Rightarrow> bool" where
  "reads_back lib srcs xs \<longleftrightarrow> list_all (\<lambda>x. let j = cursor_payload srcs False (ie_sort_key x) in
     js_loads_utf8 lib (js_dumps lib j) = Some j) xs"

definition cursor_text :: "json_library \<Rightarrow> log_source list \<Rightarrow> log_key option \<Rightarrow> string option" where
  "cursor_text lib srcs c = map_option (encode_cursor lib srcs False) c"

definition remaining :: "log_key option \<Rightarrow> indexed_event list \<Rightarrow> indexed_event list" where
  "remaining c xs = after_cursor False c (in_order False xs)"

lemma remaining_props:
  assumes "distinct (map place xs)"
  shows "newest_first (remaining c xs)" "set (remaining c xs) = {x \<in> set xs. below c x}"
  using in_order_newest_first [OF assms]
  by (auto simp: remaining_def after_cursor_def newest_first_def below_def sorted_wrt_filter
      split: option.splits)

lemma scan_page:
  assumes "1 \<le> limit" "read_sources lib fs pred lo hi srcs = Inr xs"
    "\<And>k. c = Some k \<Longrightarrow> js_loads_utf8 lib (js_dumps lib (cursor_payload srcs False k)) =
       Some (cursor_payload srcs False k)"
  shows "scan lib srcs fs pred lo hi limit (cursor_text lib srcs c) False =
    Inr (page_of lib srcs False (nat limit) (remaining c xs))"
proof -
  have "decode_cursor lib srcs False (cursor_text lib srcs c) = Inr c"
  proof (cases c)
    case None
    then show ?thesis by (simp add: decode_cursor_def cursor_text_def)
  next
    case (Some k)
    then show ?thesis using decode_encode_cursor [OF assms(3) [OF Some]] by (simp add: cursor_text_def)
  qed
  with assms(1,2) show ?thesis by (simp add: scan_def remaining_def)
qed

text \<open>The page taken and what is left after it.\<close>

lemma page_split:
  assumes "newest_first r" "0 < n" "n < length r"
  defines "k \<equiv> Some (ie_sort_key (r ! (n - 1)))"
  shows "\<forall>x\<in>set (take n r). \<not> below k x" "\<forall>x\<in>set (drop n r). below k x"
proof -
  have srt: "ie_sort_key (r ! j) < ie_sort_key (r ! i)" if "i < j" "j < length r" for i j
    using assms(1) that unfolding newest_first_def by (simp add: sorted_wrt_iff_nth_less)
  show "\<forall>x\<in>set (take n r). \<not> below k x"
  proof
    fix x assume "x \<in> set (take n r)"
    then obtain i where i: "i < n" "x = r ! i" using assms(3) by (auto simp: in_set_conv_nth)
    show "\<not> below k x"
    proof (cases "i = n - 1")
      case False
      with i have "i < n - 1" "n - 1 < length r" using assms(3) by linarith+
      from srt [OF this] show ?thesis by (simp add: below_def k_def i)
    qed (simp add: below_def k_def i)
  qed
  show "\<forall>x\<in>set (drop n r). below k x"
  proof
    fix x assume "x \<in> set (drop n r)"
    then obtain i where "i < length r - n" "x = r ! (n + i)" by (auto simp: in_set_conv_nth)
    then have i: "n + i < length r" "x = r ! (n + i)" by simp_all
    from assms(2) have "n - 1 < n + i" by simp
    from srt [OF this i(1)] show "below k x" by (simp add: below_def k_def i)
  qed
qed

definition growing :: "json_library \<Rightarrow> log_source list \<Rightarrow> log_predicate \<Rightarrow> datetime option \<Rightarrow>
    datetime option \<Rightarrow> log_files list \<Rightarrow> indexed_event list list \<Rightarrow> bool" where
  "growing lib srcs pred lo hi fss xss \<longleftrightarrow>
     list_all2 (\<lambda>fs xs. read_sources lib fs pred lo hi srcs = Inr xs) fss xss \<and>
     sorted_wrt (\<lambda>xs ys. set xs \<subseteq> set ys) xss"

lemma below_mono: "below (Some (ie_sort_key y)) x \<Longrightarrow> below c y \<Longrightarrow> below c x"
  by (cases c) (auto simp: below_def)

lemma newest_first_append:
  assumes "newest_first xs" "newest_first ys" "\<forall>x\<in>set xs. \<not> below k x" "\<forall>y\<in>set ys. below k y"
  shows "newest_first (xs @ ys)"
proof -
  have "ie_sort_key y < ie_sort_key x" if "x \<in> set xs" "y \<in> set ys" for x y
    using assms(3,4) that by (force simp: below_def split: option.splits)
  with assms(1,2) show ?thesis by (simp add: newest_first_def sorted_wrt_append)
qed

lemma walk_step:
  assumes "1 \<le> limit" "read_sources lib fs pred lo hi srcs = Inr xs"
    "\<And>k. c = Some k \<Longrightarrow> js_loads_utf8 lib (js_dumps lib (cursor_payload srcs False k)) =
       Some (cursor_payload srcs False k)"
  defines "r \<equiv> remaining c xs" and "n \<equiv> nat limit"
  shows "walk lib srcs pred lo hi limit (fs # fss) (cursor_text lib srcs c) =
    (if length r \<le> n then Inr (map ie_event r, None)
     else bind (walk lib srcs pred lo hi limit fss (cursor_text lib srcs (Some (ie_sort_key (r ! (n - 1))))))
       (\<lambda>(evs, left). Inr (map ie_event (take n r) @ evs, left)))"
  using scan_page [OF assms(1-3)] by (simp add: page_of_def r_def n_def cursor_text_def)

lemma fewer_below:
  assumes "y \<in> set xs" "below c y"
  shows "card {x \<in> set xs. below (Some (ie_sort_key y)) x} < card {x \<in> set xs. below c x}"
proof (rule psubset_card_mono)
  have "\<not> below (Some (ie_sort_key y)) y" by (simp add: below_def)
  with assms show "{x \<in> set xs. below (Some (ie_sort_key y)) x} \<subset> {x \<in> set xs. below c x}"
    by (auto intro: below_mono)
qed simp

lemma walk_lists:
  assumes limit: "1 \<le> limit"
  shows "growing lib srcs pred lo hi fss xss \<Longrightarrow> \<forall>xs\<in>set xss. distinct (map place xs) \<Longrightarrow>
    reads_back lib srcs (last xss) \<Longrightarrow> card {x \<in> set (last xss). below c x} < length fss \<Longrightarrow>
    (\<And>k. c = Some k \<Longrightarrow> js_loads_utf8 lib (js_dumps lib (cursor_payload srcs False k)) =
       Some (cursor_payload srcs False k)) \<Longrightarrow>
    \<exists>ys. walk lib srcs pred lo hi limit fss (cursor_text lib srcs c) = Inr (map ie_event ys, None) \<and>
      newest_first ys \<and> (\<forall>y\<in>set ys. below c y) \<and> {x \<in> set (hd xss). below c x} \<subseteq> set ys \<and>
      set ys \<subseteq> set (last xss)"
proof (induction fss arbitrary: xss c)
  case (Cons fs fss)
  then obtain xs xss' where xss: "xss = xs # xss'" by (cases xss) (auto simp: growing_def)
  let ?r = "remaining c xs" and ?n = "nat limit"
  have read: "read_sources lib fs pred lo hi srcs = Inr xs" and rest: "growing lib srcs pred lo hi fss xss'"
    and sub: "\<forall>ys\<in>set xss'. set xs \<subseteq> set ys" and d: "distinct (map place xs)"
    using Cons.prems(1,2) by (auto simp: growing_def xss)
  have last: "set xs \<subseteq> set (last xss)" using sub by (simp add: xss)
  note r = remaining_props [OF d, of c]
  note step = walk_step [OF limit read Cons.prems(5), where c = c and fss = fss]
  show ?case
  proof (cases "length ?r \<le> ?n")
    case True
    with step r last show ?thesis by (intro exI [of _ ?r]) (auto simp: xss)
  next
    case False
    let ?y = "?r ! (?n - 1)"
    have n: "0 < ?n" "?n < length ?r" using limit False by simp_all
    then have "?y \<in> set ?r" by (meson less_imp_diff_less nth_mem)
    then have y: "?y \<in> set xs" "below c ?y" using r(2) by auto
    let ?c = "Some (ie_sort_key ?y)"
    have fewer: "card {x \<in> set (last xss). below ?c x} < length fss"
      using fewer_below [of ?y "last xss" c] y last Cons.prems(4) by auto
    then have "xss' \<noteq> []" using rest by (auto simp: growing_def)
    then have l: "last xss = last xss'" and hd: "hd xss' \<in> set xss'" by (simp_all add: xss)
    have again: "js_loads_utf8 lib (js_dumps lib (cursor_payload srcs False k)) = Some (cursor_payload srcs False k)"
      if "?c = Some k" for k
      using Cons.prems(3) y(1) last that by (auto simp: reads_back_def list_all_iff Let_def)
    have ds: "\<forall>xs\<in>set xss'. distinct (map place xs)" and rb: "reads_back lib srcs (last xss')"
      using Cons.prems(2,3) l by (simp_all add: xss)
    obtain ys where ys: "walk lib srcs pred lo hi limit fss (cursor_text lib srcs ?c) = Inr (map ie_event ys, None)"
      "newest_first ys" "\<forall>y\<in>set ys. below ?c y" "{x \<in> set (hd xss'). below ?c x} \<subseteq> set ys"
      "set ys \<subseteq> set (last xss')"
      using Cons.IH [OF rest ds rb fewer [unfolded l] again] by blast
    note split = page_split [OF r(1) n]
    have "newest_first (take ?n ?r)" using r(1) by (simp add: newest_first_def sorted_wrt_take)
    from newest_first_append [OF this ys(2) split(1) ys(3)] have "newest_first (take ?n ?r @ ys)" .
    moreover have "{x \<in> set xs. below c x} \<subseteq> set (take ?n ?r @ ys)"
    proof
      fix x assume x: "x \<in> {x \<in> set xs. below c x}"
      then have "x \<in> set (take ?n ?r) \<or> x \<in> set (drop ?n ?r)"
        using r(2) by (metis Un_iff append_take_drop_id set_append)
      with split(2) ys(4) sub hd x show "x \<in> set (take ?n ?r @ ys)" by auto
    qed
    moreover have "below c x \<and> x \<in> set (last xss)" if "x \<in> set (take ?n ?r @ ys)" for x
    proof (cases "x \<in> set ys")
      case True
      with ys(3,5) below_mono [OF _ y(2)] show ?thesis unfolding l by blast
    next
      case False
      with that have "x \<in> set ?r" by (auto dest: in_set_takeD)
      with r(2) last show ?thesis by auto
    qed
    moreover have "walk lib srcs pred lo hi limit (fs # fss) (cursor_text lib srcs c) =
        Inr (map ie_event (take ?n ?r @ ys), None)"
      using step False ys(1) by (simp del: walk.simps)
    ultimately show ?thesis
      by (intro exI [of _ "take ?n ?r @ ys"]) (simp add: xss subset_iff)
  qed
qed simp

text \<open>
  C37: Following the cursors of a log query lists every matching event exactly once, newest first.
  The reader asks for one page after the other; the logs may grow between the requests.  After at
  most one request more than there are matching events no cursor comes back, and the events read
  are in strictly falling key order, which is falling time order, hold every event that matched
  when the first page was read, and none that does not match.  Assumed are that the sources have
  different names, that file names are distinct within a directory and that the JSON library reads
  back what it wrote for a cursor.
\<close>
theorem log_paging_complete:
  assumes "1 \<le> limit" "distinct (map ls_source_id srcs)" "\<forall>fs\<in>set fss. proper_files fs"
    "growing lib srcs pred lo hi fss xss" "reads_back lib srcs (last xss)"
    "length (last xss) < length fss"
  shows "\<exists>ys. walk lib srcs pred lo hi limit fss None = Inr (map ie_event ys, None) \<and>
    sorted_wrt (\<lambda>a b. ie_sort_key b < ie_sort_key a) ys \<and>
    sorted_wrt (\<lambda>a b. the (event_instant b) \<le> the (event_instant a)) (map ie_event ys) \<and>
    set (hd xss) \<subseteq> set ys \<and> set ys \<subseteq> set (last xss)"
proof -
  have keys: "distinct (map place xs)" "\<forall>x\<in>set xs. timed x" if "xs \<in> set xss" for xs
  proof -
    obtain fs where "fs \<in> set fss" "read_sources lib fs pred lo hi srcs = Inr xs"
      using assms(4) \<open>xs \<in> set xss\<close> by (fastforce simp: growing_def list_all2_conv_all_nth in_set_conv_nth)
    from read_sources_keys [OF this(2) _ assms(2)] this(1) assms(3)
    show "distinct (map place xs)" "\<forall>x\<in>set xs. timed x" by blast+
  qed
  have ne: "last xss \<in> set xss" using assms(4,6) by (cases xss) (auto simp: growing_def)
  have "card {x \<in> set (last xss). below None x} < length fss"
    using assms(6) card_length [of "last xss"] by (simp add: below_def)
  from walk_lists [OF assms(1,4) _ assms(5) this] keys(1)
  obtain ys where ys: "walk lib srcs pred lo hi limit fss None = Inr (map ie_event ys, None)"
    "newest_first ys" "set (hd xss) \<subseteq> set ys" "set ys \<subseteq> set (last xss)"
    by (auto simp: cursor_text_def below_def)
  then have "\<forall>y\<in>set ys. timed y" using keys(2) [OF ne] by blast
  with ys newest_first_times [OF ys(2)] show ?thesis
    by (intro exI [of _ ys]) (simp add: newest_first_def)
qed

text \<open>A log of three events, one page each; the JSON library is a table.\<close>

definition demo_source :: log_source where
  "demo_source = \<lparr>ls_source_id = ''docs'', ls_directory = ''logs'', ls_file_prefix = ''index''\<rparr>"

definition demo_event :: "string \<Rightarrow> string \<Rightarrow> string \<Rightarrow> string \<Rightarrow> json" where
  "demo_event eid i kind at =
     JObj [(''event_id'', JStr eid), (''invocation_id'', JStr i), (''event'', JStr kind),
           (''task_id'', JStr ''t''), (''created_at'', JStr at)]"

definition demo_lines :: "(string \<times> json) list" where
  "demo_lines =
     [(''a'', demo_event ''e1'' ''i1'' STARTED ''2026-01-01T00:00:00Z''),
      (''b'', demo_event ''e2'' ''i2'' STARTED ''2026-01-01T00:00:00.500000Z''),
      (''c'', demo_event ''e3'' ''i1'' ''agent_tool_invocation_failed'' ''2026-01-01T00:00:01+00:00'')]"

definition demo_files :: log_files where
  "demo_files d =
     (if d = ''logs''
      then Entries [\<lparr>de_name = ''index-2026-01-01.jsonl'', de_symlink = False, de_file = True,
                      de_content = FileLines [''a'', ''b'', ''bad'', ''c'']\<rparr>]
      else NoDirectory)"

definition demo_payload :: "nat \<Rightarrow> json" where
  "demo_payload n =
     cursor_payload [demo_source] False
       (if n = 1 then (''2026-01-01T00:00:00+00:00'', ''e1'', ''docs'', ''index-2026-01-01.jsonl'', 1)
        else if n = 2 then (''2026-01-01T00:00:00.500000+00:00'', ''e2'', ''docs'', ''index-2026-01-01.jsonl'', 2)
        else (''2026-01-01T00:00:01+00:00'', ''e3'', ''docs'', ''index-2026-01-01.jsonl'', 4))"

definition demo_library :: json_library where
  "demo_library =
     \<lparr>js_loads = map_of demo_lines,
      js_loads_utf8 = map_of [(''x'', demo_payload 1), (''y'', demo_payload 2), (''z'', demo_payload 4)],
      js_dumps = (\<lambda>j. if j = demo_payload 1 then ''x'' else if j = demo_payload 2 then ''y'' else ''z'')\<rparr>"

definition demo_found :: "indexed_event list" where
  "demo_found =
     (case read_sources demo_library demo_files (\<lambda>_. Inr True) None None [demo_source] of
        Inl _ \<Rightarrow> [] | Inr xs \<Rightarrow> xs)"

lemma demo_read:
  "case read_sources demo_library demo_files (\<lambda>_. Inr True) None None [demo_source] of
     Inl _ \<Rightarrow> False | Inr xs \<Rightarrow> length xs = 3 \<and> reads_back demo_library [demo_source] xs"
  by code_simp

lemma demo_proper: "proper_files demo_files"
  by (simp add: proper_files_def demo_files_def)

lemma log_paging_complete_witness:
  "\<exists>ys. walk demo_library [demo_source] (\<lambda>_. Inr True) None None 1 (replicate 4 demo_files) None =
       Inr (map ie_event ys, None) \<and>
     sorted_wrt (\<lambda>a b. ie_sort_key b < ie_sort_key a) ys \<and>
     sorted_wrt (\<lambda>a b. the (event_instant b) \<le> the (event_instant a)) (map ie_event ys) \<and>
     set (hd (replicate 4 demo_found)) \<subseteq> set ys \<and> set ys \<subseteq> set (last (replicate 4 demo_found))"
proof (rule log_paging_complete)
  have found: "read_sources demo_library demo_files (\<lambda>_. Inr True) None None [demo_source] = Inr demo_found"
    "length demo_found = 3" "reads_back demo_library [demo_source] demo_found"
    using demo_read by (auto simp: demo_found_def split: sum.splits)
  show "growing demo_library [demo_source] (\<lambda>_. Inr True) None None (replicate 4 demo_files)
      (replicate 4 demo_found)"
    using found(1) by (simp add: growing_def numeral_eq_Suc)
  show "reads_back demo_library [demo_source] (last (replicate 4 demo_found))"
    "length (last (replicate 4 demo_found)) < length (replicate 4 demo_files)"
    using found(2,3) by simp_all
qed (simp_all add: demo_proper)

section \<open>Tool time lines\<close>

lemma timed_created: "timed x \<Longrightarrow> json_get (ie_event x) ''created_at'' \<noteq> None"
  by (cases "json_get (ie_event x) ''created_at''")
    (simp_all add: timed_def event_instant_def parse_datetime_def)

lemma read_files_timed: "read_files lib src pred lo hi es = Inr xs \<Longrightarrow> \<forall>x\<in>set xs. timed x"
proof (induction es arbitrary: xs)
  case (Cons e es)
  have one: "\<forall>x\<in>set as. timed x" if "read_file lib src pred lo hi e = Inr as" for as
    using that read_lines_keys by (fastforce simp: read_file_def split: file_content.splits)
  with Cons show ?case by (fastforce simp: bind_eq_Inr split: if_splits)
qed simp

lemma read_sources_timed: "read_sources lib fs pred lo hi srcs = Inr xs \<Longrightarrow> \<forall>x\<in>set xs. timed x"
proof (induction srcs arbitrary: xs)
  case (Cons src srcs)
  have one: "\<forall>x\<in>set as. timed x" if "read_source lib fs pred lo hi src = Inr as" for as
    using that read_files_timed by (auto simp: read_source_def split: log_directory.splits)
  with Cons show ?case by (fastforce simp: bind_eq_Inr)
qed simp

lemma scan_events:
  assumes "scan lib srcs fs pred lo hi limit cursor asc = Inr page" "ev \<in> set (pg_events page)"
  shows "json_get ev ''created_at'' \<noteq> None"
proof -
  obtain xs c where xs: "read_sources lib fs pred lo hi srcs = Inr xs"
    "page = page_of lib srcs asc (nat limit) (after_cursor asc c (in_order asc xs))"
    using assms(1) by (auto simp: scan_def bind_eq_Inr split: if_splits)
  have "set (take n (after_cursor asc c (in_order asc xs))) \<subseteq> set xs" for n
    by (auto simp: after_cursor_def in_order_def dest!: in_set_takeD split: option.splits if_splits)
  with read_sources_timed [OF xs(1)] timed_created assms(2) show ?thesis
    unfolding xs(2) page_of_def by (auto simp: subset_iff)
qed

text \<open>
  The port the query service relies on (\<open>JsonlLogQueryPort\<close>): a scan lists only events with a time.
\<close>

locale log_query_port =
  fixes run :: "log_predicate \<Rightarrow> datetime option \<Rightarrow> datetime option \<Rightarrow> int \<Rightarrow> string option \<Rightarrow> bool \<Rightarrow>
    scan_page result"
  assumes created: "run pred lo hi limit cursor asc = Inr page \<Longrightarrow> ev \<in> set (pg_events page) \<Longrightarrow>
    json_get ev ''created_at'' \<noteq> None"
begin

lemma paired:
  assumes "run pred lo hi limit cursor asc = Inr page"
    "aggregate_invocations va (pg_events page) = Inr items"
  shows "distinct (map ti_invocation_id items) \<and>
    set (map ti_invocation_id items) = set (invocation_ids (pg_events page)) \<and>
    (\<forall>x\<in>set items. item_of va (ti_invocation_id x, group_of (ti_invocation_id x) (pg_events page)) = Inr x) \<and>
    sorted (map (\<lambda>x. utc_fields (ti_started_at x)) items)"
  using aggregate_invocations_reference [OF assms(2)] created [OF assms(1)] by blast

end

interpretation jsonl_logs: log_query_port "scan lib srcs fs" for lib srcs fs
  by unfold_locales (rule scan_events)

text \<open>
  C38: The tool time line of a task pairs the raw events of its page: every invocation id of those
  events gets exactly one item, the items are in order of their start, and each is made of the
  group that the reference definition picks by looking at all events of the id: its last started
  event (its first event when it never started) and its last terminal event.
\<close>
theorem tool_timeline_pairs:
  assumes "get_task_tool_timeline s fs q = Inr (items, truncated)"
  shows "\<exists>page. scan (os_lib s) (os_tool_sources s) fs (tool_predicate ''task_id'' q)
      (tq_created_from q) (tq_created_to q) (tq_limit q) None True = Inr page \<and>
    truncated = (pg_next_cursor page \<noteq> None) \<and>
    distinct (map ti_invocation_id items) \<and>
    set (map ti_invocation_id items) = set (invocation_ids (pg_events page)) \<and>
    sorted (map (\<lambda>x. utc_fields (ti_started_at x)) items) \<and>
    (\<forall>x\<in>set items. item_of (os_validators s)
       (ti_invocation_id x, group_of (ti_invocation_id x) (pg_events page)) = Inr x)"
proof -
  obtain page where page: "scan (os_lib s) (os_tool_sources s) fs (tool_predicate ''task_id'' q)
      (tq_created_from q) (tq_created_to q) (tq_limit q) None True = Inr page"
    "aggregate_invocations (os_validators s) (pg_events page) = Inr items" "truncated = (pg_next_cursor page \<noteq> None)"
    using assms by (auto simp: get_task_tool_timeline_def tool_timeline_def timeline_def bind_eq_Inr)
  with jsonl_logs.paired [OF page(1,2)] show ?thesis by blast
qed

definition demo_service :: operations_service where
  "demo_service =
     \<lparr>os_lib = demo_library,
      os_validators = \<lparr>va_int = (\<lambda>j. case j of JInt n \<Rightarrow> Some n | _ \<Rightarrow> None),
        va_bool = (\<lambda>j. case j of JBool b \<Rightarrow> Some b | _ \<Rightarrow> None),
        va_datetime = (\<lambda>j. case j of JStr s \<Rightarrow> fromisoformat (replace_z s) | _ \<Rightarrow> None)\<rparr>,
      os_document_sources = [demo_source], os_tool_sources = [demo_source]\<rparr>"

definition demo_query :: "string timeline_query" where
  "demo_query =
     \<lparr>tq_key = ''t'', tq_agent_names = [], tq_tool_names = [], tq_created_from = None,
      tq_created_to = None, tq_limit = 500\<rparr>"

lemma demo_timeline:
  "case get_task_tool_timeline demo_service demo_files demo_query of
     Inl _ \<Rightarrow> False
   | Inr (items, truncated) \<Rightarrow> map ti_invocation_id items = [''i1'', ''i2''] \<and>
       map ti_outcome items = [Some ''failed'', None] \<and> \<not> truncated"
  by code_simp

lemma tool_timeline_pairs_witness:
  "\<exists>items truncated. get_task_tool_timeline demo_service demo_files demo_query = Inr (items, truncated) \<and>
     map ti_invocation_id items = [''i1'', ''i2''] \<and>
     sorted (map (\<lambda>x. utc_fields (ti_started_at x)) items)"
proof -
  obtain items truncated where ran: "get_task_tool_timeline demo_service demo_files demo_query = Inr (items, truncated)"
    "map ti_invocation_id items = [''i1'', ''i2'']"
    using demo_timeline by (auto split: sum.splits)
  have "sorted (map (\<lambda>x. utc_fields (ti_started_at x)) items)"
    using tool_timeline_pairs [OF ran(1)] by (elim exE conjE)
  with ran show ?thesis by (intro exI conjI)
qed

end
