(* ===== verification/Planning_Safety.thy ===== *)
theory Planning_Safety
  imports Runtime_Safety Planning Replan
begin

text \<open>
  The transactions of planning, replanning and clarification keep the runtime invariant: they only
  work on plans that no task runs in.  Two more moves on the tables are shown to keep it, rows
  that are added and the rework of an idle plan with a change of its tasks; every transaction is
  then an instance.  The effects of the transactions on the tables are stated here once.
\<close>

section \<open>Added plans and tasks\<close>

lemma inv_add_plan:
  assumes inv: "runtime_inv self db" and new: "p_id p \<notin> p_id ` set (plans db)"
    and idle: "p_current_task_id p = None"
    and db': "plans db' = plans db @ [p]" "tasks db' = tasks db"
      "task_executions db' = task_executions db"
  shows "runtime_inv self db'"
proof -
  note R = runtime_inv_rows [OF inv] and D = rows_okD [OF runtime_inv_rows(1) [OF inv]]
  have "rows_ok self (insert p (set (plans db))) (set (tasks db)) (set (task_executions db))"
  proof (rule rows_okI)
    show "q = r" if "q \<in> insert p (set (plans db))" "r \<in> insert p (set (plans db))" "p_id q = p_id r"
      for q r using that new D(1) by (metis image_eqI insert_iff)
    show "plan_ok (set (tasks db)) q" if "q \<in> insert p (set (plans db))" for q
      using that D(4) idle by (auto simp: plan_ok_def)
    show "task_ok self (insert p (set (plans db))) (set (task_executions db)) t"
      if "t \<in> set (tasks db)" for t using D(5) [OF that] by (auto simp: task_ok_def)
  qed (use D in blast)+
  then show ?thesis using R new by (auto simp: runtime_inv_def db')
qed

lemma inv_add_task:
  assumes inv: "runtime_inv self db" and new: "t_id t \<notin> t_id ` set (tasks db)"
    and t: "t_status t \<noteq> RUNNING" "t_attempt_count t = 0"
    and db': "plans db' = plans db" "tasks db' = tasks db @ [t]"
      "task_executions db' = task_executions db"
  shows "runtime_inv self db'"
proof -
  note R = runtime_inv_rows [OF inv] and D = rows_okD [OF runtime_inv_rows(1) [OF inv]]
  have "rows_ok self (set (plans db)) (insert t (set (tasks db))) (set (task_executions db))"
  proof (rule rows_okI)
    show "s = r" if "s \<in> insert t (set (tasks db))" "r \<in> insert t (set (tasks db))" "t_id s = t_id r"
      for s r using that new D(2) by (metis image_eqI insert_iff)
    show "plan_ok (insert t (set (tasks db))) q" if "q \<in> set (plans db)" for q
      using D(4) [OF that] by (auto simp: plan_ok_def split: option.splits)
    have "1 \<le> attempt_limit self t" by (simp add: attempt_limit_def split: sum.split)
    then show "task_ok self (set (plans db)) (set (task_executions db)) s"
      if "s \<in> insert t (set (tasks db))" for s
      using that D(5) t by (auto simp: task_ok_def)
    show "execution_ok (insert t (set (tasks db))) x" if "x \<in> set (task_executions db)" for x
      using D(6) [OF that] by (auto simp: execution_ok_def)
  qed (use D in blast)+
  then show ?thesis using R new by (auto simp: runtime_inv_def db')
qed

section \<open>Rework of an idle plan\<close>

text \<open>A change of tasks that starts none, stops none and revives none.\<close>

definition reworks :: "(task \<Rightarrow> task) \<Rightarrow> bool" where
  "reworks f \<longleftrightarrow>
     (\<forall>t. t_id (f t) = t_id t \<and> t_plan_id (f t) = t_plan_id t \<and>
        t_capability_code (f t) = t_capability_code t \<and>
        t_attempt_count (f t) = t_attempt_count t \<and>
        (t_status (f t) = RUNNING \<longrightarrow> f t = t) \<and>
        (t_status (f t) \<in> {DRAFT, PENDING, RETRY_WAIT} \<longrightarrow>
           t_status t \<in> {DRAFT, PENDING, RETRY_WAIT}))"

lemma reworksD:
  assumes "reworks f"
  shows "t_id (f t) = t_id t" "t_plan_id (f t) = t_plan_id t"
    "t_capability_code (f t) = t_capability_code t" "t_attempt_count (f t) = t_attempt_count t"
    "t_status (f t) = RUNNING \<Longrightarrow> f t = t"
    "t_status (f t) \<in> {DRAFT, PENDING, RETRY_WAIT} \<Longrightarrow> t_status t \<in> {DRAFT, PENDING, RETRY_WAIT}"
  using assms by (auto simp: reworks_def)

lemma rows_ok_rework:
  assumes inv: "rows_ok self P T X" and p: "p \<in> P"
    and p': "p_id p' = p_id p" "p_current_task_id p' = None" "p_current_task_id p = None"
    and f: "reworks f" "\<And>t. t \<in> T \<Longrightarrow> t_status t = RUNNING \<Longrightarrow> f t = t"
  shows "rows_ok self (insert p' (P - {p})) (f ` T) X"
proof (rule rows_okI)
  note D = rows_okD [OF inv] and F = reworksD [OF f(1)]
  show "q = r" if "q \<in> insert p' (P - {p})" "r \<in> insert p' (P - {p})" "p_id q = p_id r" for q r
    using that D(1) [OF _ p] D(1) [of q r] p'(1) by (metis DiffD1 DiffD2 insertE singletonI)
  show "s = t" if "s \<in> f ` T" "t \<in> f ` T" "t_id s = t_id t" for s t
  proof -
    from that obtain s0 t0 where st: "s0 \<in> T" "t0 \<in> T" "s = f s0" "t = f t0" by auto
    then have "t_id s0 = t_id t0" using that(3) F(1) by simp
    then show ?thesis using D(2) [OF st(1,2)] st by simp
  qed
  show "plan_ok (f ` T) q" if "q \<in> insert p' (P - {p})" for q
  proof (cases "p_current_task_id q")
    case (Some tid)
    with that p' have "q \<in> P" by auto
    from D(4) [OF this] Some obtain t where t: "p_status q = PLAN_RUNNING" "t \<in> T" "t_id t = tid"
      "t_plan_id t = p_id q" "t_status t = RUNNING" by (auto simp: plan_ok_def)
    from t f(2) have "t \<in> f ` T" by force
    with t Some show ?thesis by (auto simp: plan_ok_def)
  qed (simp add: plan_ok_def)
  show "task_ok self (insert p' (P - {p})) X s" if s: "s \<in> f ` T" for s
  proof -
    from s obtain t where t: "t \<in> T" "s = f t" by auto
    have lim: "attempt_limit self s = attempt_limit self t" using F(3) t(2) by (simp add: attempt_limit_def)
    show ?thesis
    proof (cases "t_status s = RUNNING")
      case True
      then have "s = t" using F(5) t by simp
      have old: "task_ok self P X t" using D(5) [OF t(1)] .
      then obtain q where q: "q \<in> P" "p_id q = t_plan_id t" "p_current_task_id q = Some (t_id t)"
        using True \<open>s = t\<close> by (auto simp: task_ok_def)
      then have "q \<in> insert p' (P - {p})" using p'(3) by auto
      with q(2,3) old \<open>s = t\<close> show ?thesis unfolding task_ok_def by blast
    next
      case False
      have "t_attempt_count s = t_attempt_count t" using F(4) t(2) by simp
      moreover have "t_status t \<in> {DRAFT, PENDING, RETRY_WAIT}"
        if "t_status s \<in> {DRAFT, PENDING, RETRY_WAIT}" using F(6) that t(2) by blast
      ultimately show ?thesis using D(5) [OF t(1)] False lim unfolding task_ok_def by metis
    qed
  qed
  show "execution_ok (f ` T) x" if "x \<in> X" for x
  proof -
    from D(6) [OF that] obtain t where t: "t \<in> T" "t_id t = x_task_id x" "t_plan_id t = x_plan_id x"
      "1 \<le> x_attempt x" "x_attempt x \<le> t_attempt_count t"
      "live x \<Longrightarrow> t_status t = RUNNING \<and> x_attempt x = t_attempt_count t"
      by (auto simp: execution_ok_def)
    have "t_id (f t) = x_task_id x \<and> t_plan_id (f t) = x_plan_id x \<and> 1 \<le> x_attempt x \<and>
      x_attempt x \<le> t_attempt_count (f t) \<and>
      (live x \<longrightarrow> t_status (f t) = RUNNING \<and> x_attempt x = t_attempt_count (f t))"
      using t F(1,2,4) [of t] f(2) [OF t(1)] by simp
    then show ?thesis using t(1) unfolding execution_ok_def by blast
  qed
  show "x = y" if "x \<in> X" "y \<in> X" "x_task_id x = x_task_id y" "x_attempt x = x_attempt y" for x y
    using D(3) that by blast
qed

lemma inv_rework:
  assumes inv: "runtime_inv self db" and p: "plan_get_by_id (p_id p') db = Some p"
    and idle: "p_current_task_id p = None" "p_current_task_id p' = None"
    and f: "reworks f" "\<And>t. t \<in> set (tasks db) \<Longrightarrow> t_status t = RUNNING \<Longrightarrow> f t = t"
    and db': "plans db' = put_row p_id p' (plans db)" "tasks db' = map f (tasks db)"
      "task_executions db' = task_executions db"
  shows "runtime_inv self db'"
proof -
  note R = runtime_inv_rows [OF inv]
  have "get_row p_id (p_id p') (plans db) = Some p" using p by (simp add: plan_get_by_id_def)
  from set_put_row [OF R(2) this] have
    sets: "set (plans db') = insert p' (set (plans db) - {p})" "set (tasks db') = f ` set (tasks db)"
    by (simp_all add: db')
  have "p_id p' = p_id p" "p \<in> set (plans db)" using p fetched_rows(1) by metis+
  then have "rows_ok self (set (plans db')) (set (tasks db')) (set (task_executions db'))"
    unfolding sets db'(3) by (intro rows_ok_rework [OF R(1)]) (use idle f in auto)
  moreover have "t_id \<circ> f = t_id" using reworksD(1) [OF f(1)] by (simp add: fun_eq_iff)
  ultimately show ?thesis using R db' by (simp add: runtime_inv_def)
qed

text \<open>A plan that is not running is idle and none of its tasks runs.\<close>

lemma not_running_idle:
  assumes inv: "runtime_inv self db" and p: "plan_get_by_id k db = Some p" "p_status p \<noteq> PLAN_RUNNING"
  shows "p_current_task_id p = None"
    and "t \<in> set (tasks db) \<Longrightarrow> t_plan_id t = p_id p \<Longrightarrow> t_status t \<noteq> RUNNING"
proof -
  note D = rows_okD [OF runtime_inv_rows(1) [OF inv]]
  have pm: "p \<in> set (plans db)" using p(1) fetched_rows(1) by blast
  from D(4) [OF pm] p(2) show cur: "p_current_task_id p = None"
    by (auto simp: plan_ok_def split: option.splits)
  show "t_status t \<noteq> RUNNING" if t: "t \<in> set (tasks db)" "t_plan_id t = p_id p"
  proof
    assume "t_status t = RUNNING"
    with D(5) [OF t(1)] obtain q where "q \<in> set (plans db)" "p_id q = t_plan_id t"
      "p_current_task_id q = Some (t_id t)" by (auto simp: task_ok_def)
    with D(1) [of q p] pm t(2) cur show False by auto
  qed
qed

section \<open>Effects on the tables\<close>

lemma require_planning_Inr [simp]: "require_planning p = Inr v \<longleftrightarrow> p_status p = PLANNING"
  by (simp add: require_planning_def)

lemma require_turn_ownership_Inr [simp]:
  "require_turn_ownership p tid = Inr v \<longleftrightarrow> p_turn_id p = tid"
  by (simp add: require_turn_ownership_def)

lemma create_plan_effect:
  assumes "create_plan now u c db = Inr (p, db')"
  shows "db' = db\<lparr>plans := plans db @ [p]\<rparr>" "p_id p \<notin> p_id ` set (plans db)"
    "p_current_task_id p = None" "p_status p = PLANNING" "p_revision p = cp_revision c"
    "p_turn_id p = cp_turn_id c" "p_parent_plan_id p = cp_parent_plan_id c"
    "turn_get_by_id (cp_turn_id c) db \<noteq> None"
    "q \<in> set (plans db) \<Longrightarrow> p_revision q = cp_revision c \<Longrightarrow>
      p_turn_id q \<noteq> p_turn_id p \<and> p_workflow_id q \<noteq> p_workflow_id p"
  using assms
  by (auto simp: create_plan_def Let_def bind_eq_Inr store_simps split: option.splits if_splits)

lemma task_create_checked_Inr:
  "task_create_checked t db = Inr db' \<longleftrightarrow> task_create t db = Inr db'"
  by (auto simp: task_create_checked_def split: sum.splits error.splits)

lemma create_document_task_effect:
  assumes "create_document_task cap u c db = Inr (t, db')"
  obtains p where "plan_get_by_id (ct_plan_id c) db = Some p" "p_status p = PLANNING"
    "p_turn_id p = ct_turn_id c"
    "length (task_list_by_plan_id_and_status (p_id p) DRAFT db) < MAX_TASKS_PER_PLAN"
    "t = new_task cap u p c (dedup (ct_depends_on c))" "ct_task_ref c \<notin> set (ct_depends_on c)"
    "db' = db\<lparr>tasks := tasks db @ [t]\<rparr>" "t_id t \<notin> t_id ` set (tasks db)"
    "\<forall>s\<in>set (tasks db). t_plan_id s = p_id p \<longrightarrow>
       t_sequence s \<noteq> ct_sequence c \<and> t_ref s \<noteq> ct_task_ref c"
proof -
  from assms obtain p where p: "plan_get_by_id (ct_plan_id c) db = Some p"
    by (auto simp: create_document_task_def split: option.splits)
  note s = assms [unfolded create_document_task_def p option.case Let_def]
  show thesis
    by (rule that [OF p])
      (use s in \<open>auto simp: bind_eq_Inr task_create_checked_Inr store_simps new_task_def
          split: if_splits\<close>)
qed

definition edge_of :: "dependency \<Rightarrow> ident \<times> ident" where
  "edge_of d = (d_task_id d, d_depends_on d)"

lemma dependency_add_Inr:
  "dependency_add d db = Inr db' \<longleftrightarrow>
     db' = db\<lparr>task_dependencies := task_dependencies db @ [d]\<rparr> \<and> d_task_id d \<noteq> d_depends_on d \<and>
     d_id d \<notin> d_id ` set (task_dependencies db) \<and> edge_of d \<notin> edge_of ` set (task_dependencies db)"
  by (auto simp: dependency_add_def bind_eq_Inr add_row_Inr image_iff edge_of_def)

lemma dependency_add_all_Inr:
  "dependency_add_all ds db = Inr db' \<Longrightarrow>
     db' = db\<lparr>task_dependencies := task_dependencies db @ ds\<rparr> \<and>
     (\<forall>d\<in>set ds. d_task_id d \<noteq> d_depends_on d) \<and> distinct (map edge_of ds) \<and>
     edge_of ` set ds \<inter> edge_of ` set (task_dependencies db) = {}"
proof (induction ds arbitrary: db)
  case (Cons d ds)
  from Cons.prems have d: "d_task_id d \<noteq> d_depends_on d"
    "edge_of d \<notin> edge_of ` set (task_dependencies db)"
    and rest: "dependency_add_all ds (db\<lparr>task_dependencies := task_dependencies db @ [d]\<rparr>) = Inr db'"
    by (auto simp: bind_eq_Inr dependency_add_Inr)
  from Cons.IH [OF rest] d show ?case by auto
qed simp

text \<open>Publishing turns the drafts of a plan into pending tasks with a clean input.\<close>

definition publish_task :: "ident \<Rightarrow> task \<Rightarrow> task" where
  "publish_task pid t =
     (if t_plan_id t = pid \<and> t_status t = DRAFT then (clean_input t)\<lparr>t_status := PENDING\<rparr> else t)"

lemma task_set_status_rows:
  assumes "distinct (map t_id us)"
  shows "tasks (task_set_status us st db) =
    map (\<lambda>t. case get_row t_id (t_id t) us of None \<Rightarrow> t | Some s \<Rightarrow> s\<lparr>t_status := st\<rparr>) (tasks db)"
  using assms
proof (induction us arbitrary: db)
  case (Cons a us)
  then have "get_row t_id (t_id a) us = None" by (simp add: get_row_None_iff)
  with Cons show ?case
    by (auto simp: store_simps table_simps put_row_def)
qed (simp add: table_simps)

lemma get_row_map_key:
  "(\<And>r. key (f r) = key r) \<Longrightarrow> get_row key k (map f rows) = map_option f (get_row key k rows)"
  by (induction rows) (simp_all add: table_simps)

lemma clean_input_fields [simp]:
  "t_id (clean_input t) = t_id t" "t_plan_id (clean_input t) = t_plan_id t"
  "t_status (clean_input t) = t_status t" "t_ref (clean_input t) = t_ref t"
  "t_sequence (clean_input t) = t_sequence t"
  "t_capability_code (clean_input t) = t_capability_code t"
  "t_attempt_count (clean_input t) = t_attempt_count t"
  by (simp_all add: clean_input_def)

lemma publish_rows:
  assumes "distinct (map t_id (tasks db))"
  shows "tasks (task_set_status
      (map clean_input (task_list_by_plan_id_and_status pid DRAFT db)) PENDING db) =
    map (publish_task pid) (tasks db)"
proof -
  let ?ts = "task_list_by_plan_id_and_status pid DRAFT db"
  have d: "distinct (map t_id ?ts)" using assms by (rule distinct_listed)
  have row: "get_row t_id (t_id t) ?ts =
      (if t_plan_id t = pid \<and> t_status t = DRAFT then Some t else None)" if t: "t \<in> set (tasks db)" for t
  proof (cases "t_plan_id t = pid \<and> t_status t = DRAFT")
    case True
    with t have "t \<in> set ?ts" by (simp add: listed_tasks)
    from get_row_in_set [OF d this] True show ?thesis by simp
  next
    case False
    have "t_id t \<notin> t_id ` set ?ts"
      using False distinct_key_eq [OF assms t] by (auto simp: listed_tasks)
    then have "get_row t_id (t_id t) ?ts = None" by (simp add: get_row_None_iff)
    then show ?thesis using False by auto
  qed
  have "map t_id (map clean_input ?ts) = map t_id ?ts" by simp
  with d have "distinct (map t_id (map clean_input ?ts))" by metis
  from task_set_status_rows [OF this, of PENDING db] row show ?thesis
    by (simp add: get_row_map_key publish_task_def)
qed

lemma finalize_effect:
  assumes "finalize_plan now u pid tid db = Inr (r, db')"
  obtains p tn pairs ts where "plan_get_by_id pid db = Some p" "p_status p = PLANNING"
    "p_turn_id p = tid" "turn_get_by_id tid db = Some tn" "tn_status tn \<in> {CONTEXT_READY, PROCESSING}"
    "ts = task_list_by_plan_id_and_status pid DRAFT db" "ts \<noteq> []" "length ts \<le> MAX_TASKS_PER_PLAN"
    "map t_sequence ts = map int [1..<length ts + 1]" "validate_dag ts = Inr pairs"
    "r = \<lparr>f_plan_id = pid, f_turn_id = tid, f_plan_status = READY, f_task_ids = map t_id ts\<rparr>"
    "plans db' = put_row p_id (plan_set_status p READY None None) (plans db)"
    "tasks db' = tasks (task_set_status (map clean_input ts) PENDING db)"
    "task_executions db' = task_executions db"
    "dependency_add_all (dependency_rows u 0 pid pairs) db =
       Inr (db\<lparr>task_dependencies := task_dependencies db'\<rparr>)"
    "task_dependencies db' = task_dependencies db @ dependency_rows u 0 pid pairs"
    "turns db' = put_row tn_id (turn_set_status (turn_set_task_ids tn (map t_id ts)) PROCESSING) (turns db)"
    "outbox db' = outbox db @ [new_outbox_event now (u (length pairs)) PLAN_WAKEUP pid
        (JObj [(''workflow_id'', JStr (p_workflow_id p)), (''plan_id'', JStr pid)])]"
    "inbox db' = inbox db" "clarifications db' = clarifications db"
proof -
  from assms obtain p where p: "plan_get_by_id pid db = Some p"
    by (auto simp: finalize_plan_def split: option.splits)
  then have pid: "p_id p = pid" by (rule plan_repo.fetch_key)
  let ?ts = "task_list_by_plan_id_and_status pid DRAFT db"
  note s = assms [unfolded finalize_plan_def p option.case Let_def pid]
  from s obtain pairs where v: "p_status p = PLANNING" "p_turn_id p = tid" "?ts \<noteq> []"
    "length ?ts \<le> MAX_TASKS_PER_PLAN" "map t_sequence ?ts = map int [1..<length ?ts + 1]"
    "validate_dag ?ts = Inr pairs"
    by (auto simp: bind_eq_Inr split: if_splits)
  note s = s [unfolded v(5) v(6) bind_simps v(2)]
  from s obtain tn where tn: "turn_get_by_id tid db = Some tn"
    by (auto simp: bind_eq_Inr v(1-4) split: option.splits if_splits)
  note s = s [unfolded tn option.case]
  from s obtain db1 where db1: "dependency_add_all (dependency_rows u 0 pid pairs) db = Inr db1"
    by (auto simp: bind_eq_Inr split: if_splits)
  have db1': "db1 = db\<lparr>task_dependencies := task_dependencies db @ dependency_rows u 0 pid pairs\<rparr>"
    using dependency_add_all_Inr [OF db1] by simp
  have "task_save t (X\<lparr>task_dependencies := D\<rparr>) = (task_save t X)\<lparr>task_dependencies := D\<rparr>" for t X D
    by (simp add: task_save_def)
  then have tasks: "tasks (task_set_status us st (db\<lparr>task_dependencies := D\<rparr>)) =
    tasks (task_set_status us st db)" for us st D
    by (induction us arbitrary: db) simp_all
  have clar: "clarifications (task_set_status us st X) = clarifications X" for us st X
    by (induction us arbitrary: X) (simp_all add: task_save_def)
  show thesis
    by (rule that [OF p v(1,2) tn _ refl v(3-6)])
      (use s v db1 in \<open>auto simp: db1' bind_eq_Inr store_simps tasks clar split: if_splits\<close>)
qed

lemma finalize_tasks:
  assumes inv: "runtime_inv self db" and step: "finalize_plan now u pid tid db = Inr (r, db')"
  shows "tasks db' = map (publish_task pid) (tasks db)"
  using finalize_effect [OF step] publish_rows [OF runtime_inv_rows(3) [OF inv]] by metis

lemma reworks_publish: "reworks (publish_task pid)"
  by (auto simp: reworks_def publish_task_def)

lemma finalize_inv:
  assumes inv: "runtime_inv self db" and step: "finalize_plan now u pid tid db = Inr (r, db')"
  shows "runtime_inv self db'"
proof (rule finalize_effect [OF step])
  fix p assume p: "plan_get_by_id pid db = Some p" "p_status p = PLANNING"
    and db': "plans db' = put_row p_id (plan_set_status p READY None None) (plans db)"
      "task_executions db' = task_executions db"
  have "p_current_task_id p = None" using not_running_idle(1) [OF inv p(1)] p(2) by simp
  moreover have "p_id p = pid" using p(1) by (rule plan_repo.fetch_key)
  ultimately show ?thesis
    by (intro inv_rework [OF inv _ _ _ reworks_publish _ db'(1) finalize_tasks [OF inv step] db'(2)])
      (use p in \<open>auto simp: plan_set_status_def publish_task_def\<close>)
qed

lemma create_plan_inv:
  assumes "runtime_inv self db" "create_plan now u c db = Inr (p, db')"
  shows "runtime_inv self db'"
  by (rule inv_add_plan [OF assms(1) create_plan_effect(2,3) [OF assms(2)]])
    (use create_plan_effect(1) [OF assms(2)] in auto)

lemma create_document_task_inv:
  assumes inv: "runtime_inv self db" and step: "create_document_task cap u c db = Inr (t, db')"
  shows "runtime_inv self db'"
proof (rule create_document_task_effect [OF step])
  fix p assume t: "t = new_task cap u p c (dedup (ct_depends_on c))"
    and db': "db' = db\<lparr>tasks := tasks db @ [t]\<rparr>" and new: "t_id t \<notin> t_id ` set (tasks db)"
  show ?thesis
    by (rule inv_add_task [OF inv new]) (simp_all add: t db' new_task_def)
qed

text \<open>A plan that no task runs in changes its status.\<close>

lemma inv_set_plan:
  assumes inv: "runtime_inv self db" and p: "plan_get_by_id (p_id p') db = Some p"
    and idle: "p_status p \<noteq> PLAN_RUNNING" "p_current_task_id p' = p_current_task_id p"
    and db': "plans db' = put_row p_id p' (plans db)" "tasks db' = tasks db"
      "task_executions db' = task_executions db"
  shows "runtime_inv self db'"
proof -
  have "p_current_task_id p = None" using not_running_idle(1) [OF inv p idle(1)] .
  then show ?thesis
    by (intro inv_rework [OF inv p, of "\<lambda>t. t"]) (use idle db' in \<open>auto simp: reworks_def\<close>)
qed

lemma expire_clarification_tables [store_simps]:
  "plans (expire_clarification now k db) = plans db" "tasks (expire_clarification now k db) = tasks db"
  "task_executions (expire_clarification now k db) = task_executions db"
  "task_dependencies (expire_clarification now k db) = task_dependencies db"
  "turns (expire_clarification now k db) = turns db"
  "outbox (expire_clarification now k db) = outbox db" "inbox (expire_clarification now k db) = inbox db"
  by (auto simp: expire_clarification_def store_simps split: option.splits)

lemma mark_plan_effect:
  assumes "mark_plan target now u pid reason db = Inr (p', db')"
  obtains p where "plan_get_by_id pid db = Some p" "py_strip reason \<noteq> []"
    "p_status p = PLANNING \<or> target = RETRY_PENDING \<and> p_status p = NEEDS_CLARIFICATION"
    "p' = plan_set_status p target (Some (py_strip reason))
       (Some (if target = RETRY_PENDING then ''planner_system_failure'' else ''unsupported''))"
    "plans db' = put_row p_id p' (plans db)" "tasks db' = tasks db"
    "task_executions db' = task_executions db" "task_dependencies db' = task_dependencies db"
    "inbox db' = inbox db"
proof -
  have "py_strip reason \<noteq> []" using assms by (auto simp: mark_plan_def)
  with assms obtain p where p: "plan_get_by_id pid db = Some p"
    by (auto simp: mark_plan_def Let_def split: option.splits)
  note s = assms [unfolded mark_plan_def p option.case Let_def]
  show thesis
    by (rule that [OF p \<open>py_strip reason \<noteq> []\<close>])
      (use s in \<open>auto simp: bind_eq_Inr store_simps split: if_splits option.splits\<close>)
qed

lemma mark_plan_inv:
  assumes inv: "runtime_inv self db" and step: "mark_plan target now u pid reason db = Inr (p', db')"
  shows "runtime_inv self db'"
proof (rule mark_plan_effect [OF step])
  fix p assume p: "plan_get_by_id pid db = Some p"
    "p_status p = PLANNING \<or> target = RETRY_PENDING \<and> p_status p = NEEDS_CLARIFICATION"
    and p': "p' = plan_set_status p target (Some (py_strip reason))
       (Some (if target = RETRY_PENDING then ''planner_system_failure'' else ''unsupported''))"
    and db': "plans db' = put_row p_id p' (plans db)" "tasks db' = tasks db"
      "task_executions db' = task_executions db"
  have "p_id p = pid" using p(1) by (rule plan_repo.fetch_key)
  then show ?thesis
    by (intro inv_set_plan [OF inv _ _ _ db', of p]) (use p in \<open>auto simp: p' plan_set_status_def\<close>)
qed

section \<open>Clarification\<close>

lemma clarification_add_Inr:
  "clarification_add c db = Inr db' \<longleftrightarrow>
     db' = db\<lparr>clarifications := clarifications db @ [c]\<rparr> \<and>
     (\<forall>d\<in>set (clarifications db). c_id d \<noteq> c_id c \<and> c_source_plan_id d \<noteq> c_source_plan_id c \<and>
        c_source_turn_id d \<noteq> c_source_turn_id c)"
  by (auto simp: clarification_add_def bind_eq_Inr add_row_Inr)

definition asked_clarification :: "time \<Rightarrow> uuids \<Rightarrow> needs_clarification_input \<Rightarrow> plan \<Rightarrow> clarification" where
  "asked_clarification now u c p =
     \<lparr>c_id = new_id ''clarification'' (u 0), c_conversation_id = nc_conversation_id c,
      c_source_turn_id = p_turn_id p, c_source_plan_id = p_id p, c_kind = nc_kind c,
      c_reason = nc_reason c, c_question = None,
      c_required_information = nc_required_information c,
      c_known_resource_refs = nc_known_resource_refs c, c_status = CL_OPEN,
      c_answer_turn_id = None, c_created_at = now, c_resolved_at = None\<rparr>"

lemma needs_clarification_effect:
  assumes "mark_plan_needs_clarification now u c db = Inr (p', db')"
  obtains p tn where "plan_get_by_id (nc_plan_id c) db = Some p" "p_status p = PLANNING"
    "turn_get_by_id (p_turn_id p) db = Some tn" "tn_conversation_id tn = nc_conversation_id c"
    "tn_status tn \<in> {CONTEXT_READY, PROCESSING}"
    "p' = plan_set_status p NEEDS_CLARIFICATION (Some (nc_reason c)) (Some ''clarification_required'')"
    "clarification_get_by_source_turn_id (p_turn_id p) db = None"
    "\<forall>d\<in>set (clarifications db). c_source_plan_id d \<noteq> p_id p"
    "db' = db\<lparr>plans := put_row p_id p' (plans db),
       turns := put_row tn_id (turn_set_status tn TURN_NEEDS_CLARIFICATION) (turns db),
       clarifications := clarifications db @ [asked_clarification now u c p]\<rparr>"
proof -
  from assms obtain p where p: "plan_get_by_id (nc_plan_id c) db = Some p"
    by (auto simp: mark_plan_needs_clarification_def split: option.splits)
  note s = assms [unfolded mark_plan_needs_clarification_def p option.case Let_def]
  from s obtain tn where tn: "turn_get_by_id (p_turn_id p) db = Some tn"
    by (auto simp: bind_eq_Inr split: option.splits)
  note s = s [unfolded tn option.case]
  show thesis
    by (rule that [OF p _ tn])
      (use s in \<open>auto simp: bind_eq_Inr clarification_add_Inr plan_save_def turn_save_def
          asked_clarification_def split: if_splits\<close>)
qed

lemma needs_clarification_inv:
  assumes inv: "runtime_inv self db"
    and step: "mark_plan_needs_clarification now u c db = Inr (p', db')"
  shows "runtime_inv self db'"
proof (rule needs_clarification_effect [OF step])
  fix p tn assume p: "plan_get_by_id (nc_plan_id c) db = Some p" "p_status p = PLANNING"
    and p': "p' = plan_set_status p NEEDS_CLARIFICATION (Some (nc_reason c)) (Some ''clarification_required'')"
    and db': "db' = db\<lparr>plans := put_row p_id p' (plans db),
       turns := put_row tn_id (turn_set_status tn TURN_NEEDS_CLARIFICATION) (turns db),
       clarifications := clarifications db @ [asked_clarification now u c p]\<rparr>"
  have "p_id p = nc_plan_id c" using p(1) by (rule plan_repo.fetch_key)
  then show ?thesis
    by (intro inv_set_plan [OF inv, of p' p]) (use p in \<open>auto simp: p' db' plan_set_status_def\<close>)
qed

lemma set_question_effect:
  assumes "set_clarification_question pid q db = Inr (r, db')"
  obtains p c tn where "plan_get_by_id pid db = Some p" "p_status p = NEEDS_CLARIFICATION"
    "clarification_get_by_plan_id pid db = Some c" "turn_get_by_id (p_turn_id p) db = Some tn"
    "tn_status tn = TURN_NEEDS_CLARIFICATION" "r = q"
    "db' = db\<lparr>clarifications := put_row c_id (c\<lparr>c_question := Some q\<rparr>) (clarifications db),
       turns := put_row tn_id (tn\<lparr>tn_assistant_content := Some q, tn_assistant_compact := Some q,
         tn_task_result_summary := Some ''waiting for additional information''\<rparr>) (turns db)\<rparr>"
  using assms
  by (auto simp: set_clarification_question_def clarification_save_def turn_save_def
      split: option.splits if_splits)

lemma answer_effect:
  assumes "answer_clarification now u cid tid answer db = Inr (r, db')"
  obtains c tn p where "clarification_get_by_source_turn_id tid db = Some c"
    "turn_get_by_id tid db = Some tn" "plan_get_by_id (c_source_plan_id c) db = Some p"
    "tn_conversation_id tn = cid" "c_conversation_id c = cid" "p_turn_id p = tid"
    "c_status c = CL_OPEN" "tn_status tn = TURN_NEEDS_CLARIFICATION"
    "p_status p = NEEDS_CLARIFICATION" "tn_clarification_input tn = None"
    "py_strip answer \<noteq> []" "r = p_id p" "new_id ''event'' (u 0) \<notin> e_id ` set (outbox db)"
    "db' = db\<lparr>clarifications := put_row c_id
         (c\<lparr>c_status := CL_ANSWERED, c_answer_turn_id := Some tid\<rparr>) (clarifications db),
       turns := put_row tn_id
         (tn\<lparr>tn_clarification_input := Some (py_strip answer), tn_status := PROCESSING\<rparr>) (turns db),
       outbox := outbox db @ [new_outbox_event now (u 0) REPLAN_REQUESTED (p_id p)
         (answered_payload p cid tid)]\<rparr>"
proof -
  have a: "py_strip answer \<noteq> []" using assms by (auto simp: answer_clarification_def)
  from assms a obtain c tn p where g: "clarification_get_by_source_turn_id tid db = Some c"
    "turn_get_by_id tid db = Some tn" "plan_get_by_id (c_source_plan_id c) db = Some p"
    by (auto simp: answer_clarification_def Let_def split: option.splits)
  note s = assms [unfolded answer_clarification_def g option.case prod.case Let_def]
  show thesis
    by (rule that [OF g])
      (use s a in \<open>auto simp: bind_eq_Inr store_simps clarification_save_def turn_save_def
          new_outbox_event_def split: if_splits\<close>)
qed

lemma set_question_inv:
  assumes "runtime_inv self db" "set_clarification_question pid q db = Inr (r, db')"
  shows "runtime_inv self db'"
  using set_question_effect [OF assms(2)] assms(1) runtime_inv_cong
  by (metis (no_types, lifting) db.ext_inject db.surjective db.update_convs)

lemma answer_inv:
  assumes inv: "runtime_inv self db" and step: "answer_clarification now u cid tid answer db = Inr (r, db')"
  shows "runtime_inv self db'"
  by (rule answer_effect [OF step]) (use inv in \<open>simp add: runtime_inv_def\<close>)

section \<open>Preparing the next revision\<close>

lemma inbox_once_Inr:
  "record_inbox_once now h consumer e db = Inr (b, db') \<longleftrightarrow>
     (if inbox_exists consumer e db then \<not> b \<and> db' = db
      else b \<and> inbox_add \<lparr>i_id = new_id ''inbox'' h, i_consumer_name = consumer, i_event_id = e,
             i_processed_at = now\<rparr> db = Inr db')"
  by (auto simp: record_inbox_once_def bind_eq_Inr)

definition stop_task :: "ident \<Rightarrow> task_status \<Rightarrow> task \<Rightarrow> task" where
  "stop_task pid st t =
     (if t_plan_id t = pid \<and> t_status t \<notin> {SUCCEEDED, FAILED, CANCELLED, SUPERSEDED}
      then t\<lparr>t_status := st\<rparr> else t)"

lemma set_unfinished_tables [store_simps]:
  "tasks (task_set_unfinished_status pid st db) = map (stop_task pid st) (tasks db)"
  "plans (task_set_unfinished_status pid st db) = plans db"
  "task_executions (task_set_unfinished_status pid st db) = task_executions db"
  "task_dependencies (task_set_unfinished_status pid st db) = task_dependencies db"
  "outbox (task_set_unfinished_status pid st db) = outbox db"
  "inbox (task_set_unfinished_status pid st db) = inbox db"
  "clarifications (task_set_unfinished_status pid st db) = clarifications db"
  "turns (task_set_unfinished_status pid st db) = turns db"
  by (simp_all add: task_set_unfinished_status_def stop_task_def)

text \<open>The four outcomes of \<open>_prepare_revision\<close>.\<close>

definition replan_recorded :: "replan_event \<Rightarrow> db \<Rightarrow> db \<Rightarrow> bool" where
  "replan_recorded ev db db' \<longleftrightarrow>
     (\<exists>i. i_consumer_name i = replan_consumer \<and> i_event_id i = re_event_id ev \<and>
        inbox db' = inbox db @ [i])"

lemma replan_recordedI:
  assumes "record_inbox_once now h replan_consumer (re_event_id ev) X = Inr (b, db')"
    and "\<not> inbox_exists replan_consumer (re_event_id ev) db" "inbox X = inbox db"
  shows "replan_recorded ev db db'" "db' = X\<lparr>inbox := inbox db'\<rparr>"
proof -
  have "\<not> inbox_exists replan_consumer (re_event_id ev) X"
    using assms(2,3) by (simp add: inbox_exists_def)
  then have e: "inbox_add \<lparr>i_id = new_id ''inbox'' h, i_consumer_name = replan_consumer,
      i_event_id = re_event_id ev, i_processed_at = now\<rparr> X = Inr db'"
    using assms(1) by (simp add: inbox_once_Inr)
  then show "replan_recorded ev db db'" "db' = X\<lparr>inbox := inbox db'\<rparr>"
    using assms(3) by (auto simp: store_simps replan_recorded_def)
qed

lemma prepare_revision_cases:
  assumes "prepare_revision now u ev db = Inr (r, db')"
  obtains
    (seen) "inbox_exists replan_consumer (re_event_id ev) db"
      "r = None" "db' = db"
  | (resumed) q where "inbox_exists replan_consumer (re_event_id ev) db"
      "plan_get_by_workflow_and_revision (re_workflow_id ev) (re_next_revision ev) db = Some q"
      "p_status q = PLANNING" "p_updated_at q + PLANNER_RUN_LEASE_SECONDS \<le> now"
      "r = Some (p_id q, p_revision q)" "db' = plan_save (q\<lparr>p_updated_at := now\<rparr>) db"
  | (limit) prev tn where "\<not> inbox_exists replan_consumer (re_event_id ev) db"
      "plan_get_by_id (re_previous_plan_id ev) db = Some prev"
      "p_workflow_id prev = re_workflow_id ev"
      "turn_get_by_id (re_root_turn_id ev) db = Some tn"
      "MAX_PLAN_REVISIONS < re_next_revision ev" "r = None" "replan_recorded ev db db'"
      "plans db' = put_row p_id (fail_at_revision_limit now prev) (plans db)"
      "tasks db' = map (stop_task (p_id prev) FAILED) (tasks db)"
      "task_executions db' = task_executions db" "outbox db' = outbox db"
      "task_dependencies db' = task_dependencies db"
      "turns db' = put_row tn_id (turn_set_status tn TURN_FAILED) (turns db)"
  | (exists_already) q where "\<not> inbox_exists replan_consumer (re_event_id ev) db"
      "re_next_revision ev \<le> MAX_PLAN_REVISIONS"
      "plan_get_by_workflow_and_revision (re_workflow_id ev) (re_next_revision ev) db = Some q"
      "r = (if p_status q = PLANNING then Some (p_id q, p_revision q) else None)"
      "replan_recorded ev db db'" "db' = db\<lparr>inbox := inbox db'\<rparr>"
  | (created) prev where "\<not> inbox_exists replan_consumer (re_event_id ev) db"
      "plan_get_by_id (re_previous_plan_id ev) db = Some prev"
      "p_workflow_id prev = re_workflow_id ev" "re_next_revision ev \<le> MAX_PLAN_REVISIONS"
      "plan_get_by_workflow_and_revision (re_workflow_id ev) (re_next_revision ev) db = None"
      "r = Some (new_id ''plan'' (u 0), re_next_revision ev)" "replan_recorded ev db db'"
      "new_id ''plan'' (u 0) \<notin> p_id ` set (plans db)"
      "plans db' = put_row p_id (prev\<lparr>p_status := PLAN_SUPERSEDED, p_completed_at := Some now\<rparr>)
         (plans db) @ [next_plan now (u 0) ev]"
      "tasks db' = map (stop_task (p_id prev) SUPERSEDED) (tasks db)"
      "task_executions db' = task_executions db" "outbox db' = outbox db"
      "task_dependencies db' = task_dependencies db" "turns db' = turns db"
proof (cases "inbox_exists replan_consumer (re_event_id ev) db")
  case True
  with assms have res: "resume_prepared now ev db = Inr (r, db')" by (simp add: prepare_revision_def)
  show thesis
  proof (cases "r = None")
    case None: True
    with res have "db' = db" by (auto simp: resume_prepared_def split: option.splits if_splits)
    with None show thesis by (rule seen [OF True])
  next
    case False
    with res obtain q where q:
      "plan_get_by_workflow_and_revision (re_workflow_id ev) (re_next_revision ev) db = Some q"
      by (auto simp: resume_prepared_def split: option.splits)
    show thesis
      by (rule resumed [OF True q])
        (use res q False in \<open>auto simp: resume_prepared_def split: if_splits\<close>)
  qed
next
  case new: False
  with assms obtain prev tn where g: "plan_get_by_id (re_previous_plan_id ev) db = Some prev"
    "turn_get_by_id (re_root_turn_id ev) db = Some tn"
    by (auto simp: prepare_revision_def split: option.splits)
  note s = assms [unfolded prepare_revision_def g option.case prod.case Let_def]
  from s new have wf: "p_workflow_id prev = re_workflow_id ev" by (auto split: if_splits)
  show thesis
  proof (cases "MAX_PLAN_REVISIONS < re_next_revision ev")
    case True
    let ?X = "turn_save (turn_set_status tn TURN_FAILED) (task_set_unfinished_status (p_id prev) FAILED
       (plan_save (fail_at_revision_limit now prev) db))"
    from s new True obtain b where b: "r = None"
      "record_inbox_once now (u 0) replan_consumer (re_event_id ev) ?X = Inr (b, db')"
      by (auto simp: bind_eq_Inr split: if_splits)
    have X: "inbox ?X = inbox db" by (simp add: store_simps)
    note R = replan_recordedI [OF b(2) new X]
    show thesis
      by (rule limit [OF new g(1) wf g(2) True b(1) R(1)]; subst R(2))
        (simp_all add: store_simps)
  next
    case False
    then have le: "re_next_revision ev \<le> MAX_PLAN_REVISIONS" by simp
    show thesis
    proof (cases "plan_get_by_workflow_and_revision (re_workflow_id ev) (re_next_revision ev) db")
      case (Some q)
      from s new False Some obtain b where
        b: "r = (if p_status q = PLANNING then Some (p_id q, p_revision q) else None)"
        "record_inbox_once now (u 0) replan_consumer (re_event_id ev) db = Inr (b, db')"
        by (auto simp: bind_eq_Inr split: if_splits)
      show thesis
        by (rule exists_already [OF new le Some b(1) replan_recordedI [OF b(2) new refl]])
    next
      case None
      let ?X = "task_set_unfinished_status (p_id prev) SUPERSEDED
        (plan_save (prev\<lparr>p_status := PLAN_SUPERSEDED, p_completed_at := Some now\<rparr>) db)"
      from s new False None obtain b db1 where
        b: "r = Some (new_id ''plan'' (u 0), re_next_revision ev)"
        "plan_create (next_plan now (u 0) ev) ?X = Inr db1"
        "record_inbox_once now (u 1) replan_consumer (re_event_id ev) db1 = Inr (b, db')"
        by (auto simp: bind_eq_Inr split: if_splits)
      have c: "db1 = ?X\<lparr>plans := plans ?X @ [next_plan now (u 0) ev]\<rparr>"
        "p_id (next_plan now (u 0) ev) \<notin> p_id ` set (plans ?X)"
        using b(2) by (auto simp: plan_create_Inr)
      have "p_id ` set (plans ?X) = p_id ` set (plans db)"
        by (simp only: store_simps flip: set_map) (simp only: map_key_put_row)
      with c(2) have fresh: "new_id ''plan'' (u 0) \<notin> p_id ` set (plans db)"
        by (simp add: next_plan_def)
      have X: "inbox db1 = inbox db" by (simp add: c(1) store_simps)
      note R = replan_recordedI [OF b(3) new X]
      show thesis
        by (rule created [OF new g(1) wf le None b(1) R(1) fresh]; subst R(2); subst c(1))
          (simp_all add: store_simps)
    qed
  qed
qed

lemma reworks_stop: "st \<in> {FAILED, SUPERSEDED} \<Longrightarrow> reworks (stop_task pid st)"
  by (auto simp: reworks_def stop_task_def)

lemma inv_stop_plan:
  assumes inv: "runtime_inv self db" and p: "plan_get_by_id k db = Some p" "p_status p \<noteq> PLAN_RUNNING"
    and st: "st \<in> {FAILED, SUPERSEDED}"
    and p': "p_id p' = p_id p" "p_current_task_id p' = p_current_task_id p"
    and db': "plans db' = put_row p_id p' (plans db)"
      "tasks db' = map (stop_task (p_id p) st) (tasks db)" "task_executions db' = task_executions db"
  shows "runtime_inv self db'"
proof -
  note idle = not_running_idle [OF inv p]
  have "plan_get_by_id (p_id p') db = Some p" using p(1) p'(1) plan_repo.fetch_key by metis
  then show ?thesis
    using idle p'(2) by (intro inv_rework [OF inv _ _ _ reworks_stop [OF st] _ db'])
      (auto simp: stop_task_def)
qed

lemma plan_in_table:
  assumes "runtime_inv self db" "p \<in> set (plans db)"
  shows "plan_get_by_id (p_id p) db = Some p"
  using assms runtime_inv_rows(2) by (auto simp: plan_get_by_id_def get_row_in_set)

lemma workflow_revision_row:
  "plan_get_by_workflow_and_revision w n db = Some q \<Longrightarrow>
     q \<in> set (plans db) \<and> p_workflow_id q = w \<and> p_revision q = n"
  by (auto simp: plan_get_by_workflow_and_revision_def dest: find_SomeD)

lemma prepare_revision_inv:
  assumes inv: "runtime_inv self db" and step: "prepare_revision now u ev db = Inr (r, db')"
    and idle: "\<And>p. plan_get_by_id (re_previous_plan_id ev) db = Some p \<Longrightarrow> p_status p \<noteq> PLAN_RUNNING"
  shows "runtime_inv self db'"
  using step
proof (cases rule: prepare_revision_cases)
  case (resumed q)
  have "plan_get_by_id (p_id q) db = Some q"
    using plan_in_table [OF inv] workflow_revision_row [OF resumed(2)] by simp
  then show ?thesis using resumed
    by (intro inv_set_plan [OF inv, of "q\<lparr>p_updated_at := now\<rparr>" q]) (auto simp: store_simps)
next
  case (limit prev tn)
  show ?thesis
    by (rule inv_stop_plan [OF inv limit(2) idle [OF limit(2)] _ _ _ limit(8-10)])
      (simp_all add: fail_at_revision_limit_def)
next
  case (exists_already q)
  then show ?thesis using inv runtime_inv_cong
    by (metis db.ext_inject db.surjective db.update_convs(6))
next
  case (created prev)
  let ?prev = "prev\<lparr>p_status := PLAN_SUPERSEDED, p_completed_at := Some now\<rparr>"
  let ?db = "db\<lparr>plans := put_row p_id ?prev (plans db), tasks := tasks db'\<rparr>"
  have inv1: "runtime_inv self ?db"
    by (rule inv_stop_plan [OF inv created(2) idle [OF created(2)], of SUPERSEDED ?prev])
      (simp_all add: created(10))
  have "p_id ` set (put_row p_id ?prev (plans db)) = p_id ` set (plans db)"
    by (simp only: map_key_put_row flip: set_map)
  then show ?thesis
    by (intro inv_add_plan [OF inv1, of "next_plan now (u 0) ev"])
      (use created in \<open>auto simp: next_plan_def\<close>)
qed (use inv in simp)

end
