(* ===== verification/Context_Resources.thy ===== *)
theory Context_Resources
  imports Context_Store Aggregation
begin

text \<open>
  The resources of a context chain (application/resource_service.py) and their hot queue in Redis
  (infrastructure/cache/redis_resource_queue.py): the database holds the current state and the
  event log, the cache a bounded queue of the most recently used resources, tagged with the
  version of the chain's resources that it reflects.  A resource reference is stored in the cache
  as JSON that reads back as itself; here the hash holds the reference.
\<close>

section \<open>References and updates\<close>

record resource_ref =
  rr_key :: string
  rr_type :: string
  rr_id :: string
  rr_relation :: "string option"
  rr_summary :: "string option"
  rr_source_turn_id :: ident
  rr_last_seen_at :: time

record resource_queue =
  rq_capacity :: nat
  rq_items :: "resource_ref list"

record chain_turn_update =
  cu_chain_id :: ident
  cu_related_task_ids :: "ident list"
  cu_related_resources :: "resource_input list"
  cu_removed_resource_keys :: "string list"

record queue_refresh =
  qr_conversation_id :: ident
  qr_chain_id :: ident
  qr_resources :: "resource_ref list"
  qr_removed_resource_keys :: "string list"
  qr_expected_previous_version :: int
  qr_database_version :: int

text \<open>\<open>re.fullmatch(r"[a-z][a-z0-9_]*", resource_type)\<close>.\<close>

definition lower_letter :: "char \<Rightarrow> bool" where
  "lower_letter c \<longleftrightarrow> 97 \<le> (of_char c :: nat) \<and> (of_char c :: nat) \<le> 122"

definition type_char :: "char \<Rightarrow> bool" where
  "type_char c \<longleftrightarrow> lower_letter c \<or> 48 \<le> (of_char c :: nat) \<and> (of_char c :: nat) \<le> 57 \<or> c = CHR ''_''"

definition resource_type_ok :: "string \<Rightarrow> bool" where
  "resource_type_ok t = (case t of [] \<Rightarrow> False | c # cs \<Rightarrow> lower_letter c \<and> list_all type_char cs)"

definition split_resource_key :: "string \<Rightarrow> (string \<times> string) result" where
  "split_resource_key key =
     (case partition_colon key of (ty, sep, rid) \<Rightarrow>
        if \<not> sep \<or> ty = [] \<or> rid = [] \<or> \<not> resource_type_ok ty \<or> 100 < length ty \<or> 400 < length rid
        then Inl (ValueError (''Invalid Context resource key: '' @ key)) else Inr (ty, rid))"

definition ref_of_row :: "chain_resource \<Rightarrow> resource_ref" where
  "ref_of_row r =
     \<lparr>rr_key = rs_key r, rr_type = rs_type r, rr_id = rs_resource_id r, rr_relation = rs_relation r,
      rr_summary = rs_summary r, rr_source_turn_id = rs_last_seen_turn_id r,
      rr_last_seen_at = rs_last_seen_at r\<rparr>"

section \<open>apply_in_transaction\<close>

text \<open>\<open>n\<close> counts the \<open>uuid4()\<close> calls of the transaction.\<close>

definition seen_event ::
  "string \<Rightarrow> ident \<Rightarrow> ident \<Rightarrow> time \<Rightarrow> resource_action \<Rightarrow> chain_resource \<Rightarrow> resource_event" where
  "seen_event hex cid tid now action r =
     \<lparr>re_id = new_id ''resource_event'' hex, re_chain_id = cid, re_turn_id = tid, re_key = rs_key r,
      re_type = rs_type r, re_resource_id = rs_resource_id r, re_action = action,
      re_relation = rs_relation r, re_summary = rs_summary r, re_created_at = now\<rparr>"

definition removed_event ::
  "string \<Rightarrow> ident \<Rightarrow> ident \<Rightarrow> time \<Rightarrow> string \<Rightarrow> string \<times> string \<Rightarrow> chain_resource option \<Rightarrow> resource_event" where
  "removed_event hex cid tid now key parts existing =
     \<lparr>re_id = new_id ''resource_event'' hex, re_chain_id = cid, re_turn_id = tid, re_key = key,
      re_type = (case existing of Some r \<Rightarrow> rs_type r | None \<Rightarrow> fst parts),
      re_resource_id = (case existing of Some r \<Rightarrow> rs_resource_id r | None \<Rightarrow> snd parts),
      re_action = REMOVED, re_relation = Option.bind existing rs_relation,
      re_summary = Option.bind existing rs_summary, re_created_at = now\<rparr>"

fun refresh_resources ::
  "time \<Rightarrow> uuids \<Rightarrow> nat \<Rightarrow> ident \<Rightarrow> ident \<Rightarrow> resource_input list \<Rightarrow> context_db \<Rightarrow>
     (resource_ref list \<times> nat \<times> context_db) result" where
  "refresh_resources now u n cid tid [] db = Inr ([], n, db)"
| "refresh_resources now u n cid tid (i # is) db =
     (case upsert_chain_resource cid tid now i db of (r, created, db1) \<Rightarrow>
        bind (create_resource_event
          (seen_event (u n) cid tid now (if created then SEEN else REFRESHED) r) db1) (\<lambda>db2.
        bind (refresh_resources now u (n + 1) cid tid is db2) (\<lambda>(refs, n', db').
        Inr (ref_of_row (r\<lparr>rs_last_seen_turn_id := tid, rs_last_seen_at := now\<rparr>) # refs, n', db'))))"

fun remove_resources ::
  "time \<Rightarrow> uuids \<Rightarrow> nat \<Rightarrow> ident \<Rightarrow> ident \<Rightarrow> string list \<Rightarrow> context_db \<Rightarrow> (nat \<times> context_db) result" where
  "remove_resources now u n cid tid [] db = Inr (n, db)"
| "remove_resources now u n cid tid (key # keys) db =
     bind (split_resource_key key) (\<lambda>parts.
     (case deactivate_chain_resource cid now key db of (existing, db1) \<Rightarrow>
        bind (create_resource_event (removed_event (u n) cid tid now key parts existing) db1) (\<lambda>db2.
        remove_resources now u (n + 1) cid tid keys db2)))"

definition apply_in_transaction ::
  "time \<Rightarrow> uuids \<Rightarrow> nat \<Rightarrow> ident \<Rightarrow> chain \<Rightarrow> chain_turn_update option \<Rightarrow> context_db \<Rightarrow>
     (queue_refresh option \<times> nat \<times> context_db) result" where
  "apply_in_transaction now u n tid c update db =
     (case update of
        None \<Rightarrow> Inr (None, n, db)
      | Some up \<Rightarrow>
          bind (refresh_resources now u n (ch_id c) tid (cu_related_resources up) db) (\<lambda>(refs, n1, db1).
          bind (remove_resources now u n1 (ch_id c) tid (cu_removed_resource_keys up) db1) (\<lambda>(n2, db2).
          if refs = [] \<and> cu_removed_resource_keys up = [] then Inr (None, n2, db2)
          else Inr (Some \<lparr>qr_conversation_id = ch_conversation_id c, qr_chain_id = ch_id c,
                      qr_resources = refs, qr_removed_resource_keys = cu_removed_resource_keys up,
                      qr_expected_previous_version = ch_resource_version c,
                      qr_database_version = ch_resource_version c + 1\<rparr>,
                    n2, increment_resource_version (ch_id c) db2))))"

section \<open>The cached queue\<close>

text \<open>The three keys of a chain: list, hash and version; all absent after an invalidation.\<close>

record cached_queue =
  cq_keys :: "string list"
  cq_data :: "(string \<times> resource_ref) list"
  cq_version :: "int option"

definition no_queue :: cached_queue where
  "no_queue = \<lparr>cq_keys = [], cq_data = [], cq_version = None\<rparr>"

definition hset :: "string \<Rightarrow> 'v \<Rightarrow> (string \<times> 'v) list \<Rightarrow> (string \<times> 'v) list" where
  "hset k v h = (k, v) # filter (\<lambda>(k', _). k' \<noteq> k) h"

definition hdel :: "string \<Rightarrow> (string \<times> 'v) list \<Rightarrow> (string \<times> 'v) list" where
  "hdel k h = filter (\<lambda>(k', _). k' \<noteq> k) h"

definition lrem :: "string \<Rightarrow> string list \<Rightarrow> string list" where
  "lrem k ks = filter (\<lambda>k'. k' \<noteq> k) ks"

text \<open>The three loops of the refresh script.\<close>

fun push_all :: "resource_ref list \<Rightarrow> string list \<times> (string \<times> resource_ref) list \<Rightarrow>
    string list \<times> (string \<times> resource_ref) list" where
  "push_all [] (ks, h) = (ks, h)"
| "push_all (r # rs) (ks, h) = push_all rs (lrem (rr_key r) ks @ [rr_key r], hset (rr_key r) r h)"

fun remove_all :: "string list \<Rightarrow> string list \<times> (string \<times> resource_ref) list \<Rightarrow>
    string list \<times> (string \<times> resource_ref) list" where
  "remove_all [] (ks, h) = (ks, h)"
| "remove_all (k # rest) (ks, h) = remove_all rest (lrem k ks, hdel k h)"

fun evict :: "nat \<Rightarrow> string list \<Rightarrow> (string \<times> resource_ref) list \<Rightarrow>
    string list \<times> (string \<times> resource_ref) list" where
  "evict max_size [] h = ([], h)"
| "evict max_size (k # ks) h =
     (if length (k # ks) > max_size then evict max_size ks (hdel k h) else (k # ks, h))"

text \<open>\<open>REFRESH_QUEUE_LUA\<close>: \<open>None\<close> when the version check fails, which changes nothing.\<close>

definition refresh_queue :: "nat \<Rightarrow> queue_refresh \<Rightarrow> cached_queue \<Rightarrow> cached_queue option" where
  "refresh_queue max_size qr q =
     (if (case cq_version q of Some v \<Rightarrow> v \<noteq> qr_expected_previous_version qr
          | None \<Rightarrow> qr_expected_previous_version qr \<noteq> 0) then None
      else
        (case remove_all (qr_removed_resource_keys qr)
                (push_all (qr_resources qr) (cq_keys q, cq_data q)) of (ks, h) \<Rightarrow>
         case evict max_size ks h of (ks', h') \<Rightarrow>
           Some \<lparr>cq_keys = ks', cq_data = h', cq_version = Some (qr_database_version qr)\<rparr>))"

text \<open>\<open>REPLACE_QUEUE_LUA\<close> on the last \<open>capacity\<close> resources; the loop only pushes.\<close>

definition last_items :: "nat \<Rightarrow> 'a list \<Rightarrow> 'a list" where
  "last_items n xs = drop (length xs - n) xs"

definition replace_queue :: "nat \<Rightarrow> resource_ref list \<Rightarrow> int \<Rightarrow> cached_queue" where
  "replace_queue capacity resources version =
     (let rs = last_items capacity resources in
      \<lparr>cq_keys = map rr_key rs, cq_data = fold (\<lambda>r. hset (rr_key r) r) rs [],
       cq_version = Some version\<rparr>)"

text \<open>
  \<open>get\<close>: a complete queue, found under the version asked for, or a miss.  The version, the list and
  the hash are read by three requests; \<open>q1\<close>, \<open>q2\<close> and \<open>q3\<close> are what is stored when each of them
  is served, and between two of them others may write.
\<close>

fun read_items :: "(string \<times> resource_ref) list \<Rightarrow> string list \<Rightarrow> resource_ref list option" where
  "read_items h [] = Some []"
| "read_items h (k # ks) =
     (case map_of h k of
        None \<Rightarrow> None
      | Some r \<Rightarrow> if rr_key r \<noteq> k then None else map_option ((#) r) (read_items h ks))"

definition get_cached ::
  "nat \<Rightarrow> int \<Rightarrow> cached_queue \<Rightarrow> cached_queue \<Rightarrow> cached_queue \<Rightarrow> resource_queue option" where
  "get_cached capacity expected_version q1 q2 q3 =
     (if cq_version q1 \<noteq> Some expected_version then None
      else if cq_keys q2 = [] then Some \<lparr>rq_capacity = capacity, rq_items = []\<rparr>
      else if capacity < length (cq_keys q2) then None
      else map_option (\<lambda>items. \<lparr>rq_capacity = capacity, rq_items = items\<rparr>)
             (read_items (cq_data q3) (cq_keys q2)))"

section \<open>Warm-up\<close>

definition load_resources_for_warmup ::
  "nat \<Rightarrow> ident \<Rightarrow> ident \<Rightarrow> int \<Rightarrow> context_db \<Rightarrow> resource_ref list result" where
  "load_resources_for_warmup capacity conv cid version db =
     (case get_chain cid db of
        None \<Rightarrow> Inl (RuntimeError ''Context Chain does not exist'')
      | Some c \<Rightarrow>
          if ch_conversation_id c \<noteq> conv then Inl (RuntimeError ''Context Chain of another conversation'')
          else if ch_resource_version c \<noteq> version then Inl (RuntimeError ''resource version has changed'')
          else Inr (map ref_of_row (rev (list_resources_for_warmup cid capacity db))))"

text \<open>
  The cache as a whole, by conversation and chain.  \<open>up i\<close> tells whether the i-th Redis call of the
  operation succeeds, for \<open>get\<close> the requests it makes; a call that fails has no effect here.
  \<open>get_queue\<close> answers from the cache or from the database, whose rows it writes back; a failure of
  the cache never reaches the caller.  \<open>reads i\<close> is the cache when the i-th of the three requests of
  \<open>get\<close> is served, \<open>db\<close> the database when it is loaded, \<open>cache\<close> the cache when it is written: a
  caller that is alone gives the same cache for all of them.
\<close>

type_synonym resource_cache = "ident \<times> ident \<Rightarrow> cached_queue"

definition read_queue ::
  "(nat \<Rightarrow> bool) \<Rightarrow> (nat \<Rightarrow> resource_cache) \<Rightarrow> nat \<Rightarrow> ident \<Rightarrow> ident \<Rightarrow> int \<Rightarrow> resource_queue option" where
  "read_queue up reads capacity conv cid version =
     (if up 0 then get_cached capacity version (reads 0 (conv, cid)) (reads 1 (conv, cid)) (reads 2 (conv, cid))
      else None)"

definition get_queue ::
  "(nat \<Rightarrow> bool) \<Rightarrow> (nat \<Rightarrow> resource_cache) \<Rightarrow> nat \<Rightarrow> ident \<Rightarrow> ident \<Rightarrow> int \<Rightarrow> context_db \<Rightarrow> resource_cache \<Rightarrow>
     (resource_queue \<times> resource_cache) result" where
  "get_queue up reads capacity conv cid version db cache =
     (case read_queue up reads capacity conv cid version of
        Some q \<Rightarrow> Inr (q, cache)
      | None \<Rightarrow>
          bind (load_resources_for_warmup capacity conv cid version db) (\<lambda>resources.
          Inr (\<lparr>rq_capacity = capacity, rq_items = resources\<rparr>,
            if up 1 then cache((conv, cid) := replace_queue capacity resources version)
            else if up 2 then cache((conv, cid) := no_queue) else cache)))"

definition refresh_after_commit ::
  "(nat \<Rightarrow> bool) \<Rightarrow> nat \<Rightarrow> queue_refresh \<Rightarrow> resource_cache \<Rightarrow> resource_cache" where
  "refresh_after_commit up capacity qr cache =
     (let key = (qr_conversation_id qr, qr_chain_id qr);
          invalidated = (if up 1 then cache(key := no_queue) else cache) in
      if \<not> up 0 then invalidated
      else case refresh_queue capacity qr (cache key) of
        Some q \<Rightarrow> cache(key := q) | None \<Rightarrow> invalidated)"

end
