(* ===== verification/Context_Service.thy ===== *)
theory Context_Service
  imports Context_Resources
begin

text \<open>
  The context service (application/context_service.py, domain/selection_policy.py,
  application/attribution_policy.py): the lock of a conversation, opening a turn with the chains
  the planner may read, the validated selection of these chains, and the completion of a turn, which
  attributes it to chains and applies the resource changes in one transaction.
\<close>

definition context_conflict :: "string \<Rightarrow> error" where
  "context_conflict detail = OtherException ''ContextConflictError'' detail"

definition context_validation :: "string \<Rightarrow> error" where
  "context_validation detail = OtherException ''ContextValidationError'' detail"

definition context_routing :: "string \<Rightarrow> error" where
  "context_routing detail = OtherException ''ContextRoutingError'' detail"

definition context_turn_not_found :: error where
  "context_turn_not_found = OtherException ''ContextTurnNotFoundError'' ''Context Turn does not exist''"

section \<open>The lock of a conversation\<close>

text \<open>
  \<open>ConversationRouteLockManager.hold\<close> (infrastructure/locking/redis_conversation_lock.py).  The lock is
  a library over Redis; what its two requests may do is an outcome: acquiring gets it, times
  out or raises an error of the connection, releasing gives it back, finds it expired
  (\<open>LockError\<close>) or raises.
\<close>

datatype acquire_outcome = ACQUIRED | TIMED_OUT | ACQUIRE_FAILED

datatype release_outcome = RELEASED | EXPIRED_LOCK | RELEASE_FAILED

record lock_outcome =
  lk_acquire :: acquire_outcome
  lk_release :: release_outcome

definition lock_unavailable :: "string \<Rightarrow> error" where
  "lock_unavailable detail = OtherException ''ConversationLockUnavailable'' detail"

definition redis_error :: error where
  "redis_error = OtherException ''RedisError'' ''request failed''"

definition is_lock_unavailable :: "error \<Rightarrow> bool" where
  "is_lock_unavailable e = (case e of OtherException c _ \<Rightarrow> c = ''ConversationLockUnavailable'' | _ \<Rightarrow> False)"

text \<open>
  The body runs with the lock; whatever it returned or raised, an error of the release replaces it.
\<close>

definition hold :: "lock_outcome \<Rightarrow> ('s \<Rightarrow> 'a result \<times> 's) \<Rightarrow> 's \<Rightarrow> 'a result \<times> 's" where
  "hold lk body s =
     (case lk_acquire lk of
        ACQUIRE_FAILED \<Rightarrow> (Inl redis_error, s)
      | TIMED_OUT \<Rightarrow> (Inl (lock_unavailable ''Conversation route lock unavailable''), s)
      | ACQUIRED \<Rightarrow>
          (case body s of (r, s') \<Rightarrow>
            case lk_release lk of
              RELEASED \<Rightarrow> (r, s')
            | EXPIRED_LOCK \<Rightarrow> (Inl (lock_unavailable ''Conversation route lock expired''), s')
            | RELEASE_FAILED \<Rightarrow> (Inl redis_error, s')))"

section \<open>Selection policy\<close>

record selection_decision =
  sd_relevant_chain_ids :: "ident list"
  sd_reason_summary :: string

text \<open>A chain as the selector sees it: its row, its nodes with their turns, its hot queue.\<close>

record context_chain =
  cx_chain :: chain
  cx_nodes :: "(chain_node \<times> turn) list"
  cx_queue :: resource_queue

definition cx_id :: "context_chain \<Rightarrow> ident" where
  "cx_id c = ch_id (cx_chain c)"

definition derive_context_selection_mode :: "ident list \<Rightarrow> selection_mode" where
  "derive_context_selection_mode ids =
     (if ids = [] then NO_CONTEXT else if length ids = 1 then SINGLE_CONTEXT else MULTI_CONTEXT)"

fun chain_map_of :: "ident \<Rightarrow> context_chain list \<Rightarrow> ident list \<Rightarrow> unit result" where
  "chain_map_of conv [] seen = Inr ()"
| "chain_map_of conv (c # cs) seen =
     (if ch_conversation_id (cx_chain c) \<noteq> conv
      then Inl (ValueError (''Context chain belongs to another conversation: '' @ cx_id c))
      else if cx_id c \<in> set seen then Inl (ValueError (''Duplicate context chain: '' @ cx_id c))
      else chain_map_of conv cs (cx_id c # seen))"

fun check_selected :: "context_chain list \<Rightarrow> ident list \<Rightarrow> unit result" where
  "check_selected cands [] = Inr ()"
| "check_selected cands (i # is) =
     (case find (\<lambda>c. cx_id c = i) cands of
        None \<Rightarrow> Inl (ValueError (''Context Agent selected unknown chain: '' @ i))
      | Some c \<Rightarrow>
          if ch_archived (cx_chain c)
          then Inl (ValueError (''Context Agent selected archived chain: '' @ i))
          else check_selected cands is)"

definition validate_context_selection ::
  "selection_decision \<Rightarrow> context_chain list \<Rightarrow> ident \<Rightarrow> selection_decision result" where
  "validate_context_selection d cands conv =
     bind (chain_map_of conv cands []) (\<lambda>_.
     let selected = dedup (sd_relevant_chain_ids d) in
     bind (check_selected cands selected) (\<lambda>_.
     Inr (d\<lparr>sd_relevant_chain_ids := selected\<rparr>)))"

section \<open>Attribution policy\<close>

record attribution =
  at_existing_chain_ids :: "ident list"
  at_create_new_chain :: bool
  at_new_chain_id :: "ident option"

definition build_read_set_fallback_attribution ::
  "ident list \<Rightarrow> ident option \<Rightarrow> attribution result" where
  "build_read_set_fallback_attribution relevant new_chain_id =
     (let existing = dedup relevant in
      if existing \<noteq> [] then
        (if new_chain_id \<noteq> None
         then Inl (ValueError ''Existing attribution cannot preallocate a new chain'')
         else Inr \<lparr>at_existing_chain_ids = existing, at_create_new_chain = False, at_new_chain_id = None\<rparr>)
      else Inr \<lparr>at_existing_chain_ids = [], at_create_new_chain = True, at_new_chain_id = new_chain_id\<rparr>)"

section \<open>Opening a turn\<close>

definition new_turn :: "time \<Rightarrow> ident \<Rightarrow> ident \<Rightarrow> string \<Rightarrow> turn" where
  "new_turn now tid conv message =
     \<lparr>tn_id = tid, tn_conversation_id = conv, tn_user_input = message,
      tn_clarification_input = None, tn_assistant_content = None, tn_assistant_compact = None,
      tn_task_ids = [], tn_task_result_summary = None, tn_status = ROUTING,
      tn_created_at = now, tn_completed_at = None\<rparr>"

fun nodes_with_turns :: "context_db \<Rightarrow> chain_node list \<Rightarrow> (chain_node \<times> turn) list result" where
  "nodes_with_turns db [] = Inr []"
| "nodes_with_turns db (n # ns) =
     bind (of_option (OtherException ''AttributeError'' ''node without turn'') (get_turn (nd_turn_id n) db))
       (\<lambda>t. bind (nodes_with_turns db ns) (\<lambda>rest. Inr ((n, t) # rest)))"

text \<open>\<open>build_context_chain\<close>.\<close>

definition build_context_chain :: "context_db \<Rightarrow> resource_queue \<Rightarrow> chain \<Rightarrow> context_chain result" where
  "build_context_chain db q c =
     bind (nodes_with_turns db (nodes_of (ch_id c) db)) (\<lambda>ns.
     Inr \<lparr>cx_chain = c, cx_nodes = ns, cx_queue = q\<rparr>)"

fun build_context_chains :: "context_db \<Rightarrow> resource_queue \<Rightarrow> chain list \<Rightarrow> context_chain list result" where
  "build_context_chains db q [] = Inr []"
| "build_context_chains db q (c # cs) =
     bind (build_context_chain db q c) (\<lambda>x. bind (build_context_chains db q cs) (\<lambda>xs. Inr (x # xs)))"

definition empty_queue :: "nat \<Rightarrow> resource_queue" where
  "empty_queue capacity = \<lparr>rq_capacity = capacity, rq_items = []\<rparr>"

definition create_turn_and_load_chains ::
  "time \<Rightarrow> nat \<Rightarrow> ident \<Rightarrow> ident \<Rightarrow> string \<Rightarrow> context_db \<Rightarrow> (context_chain list \<times> context_db) result" where
  "create_turn_and_load_chains now capacity tid conv message db =
     bind (create_turn (new_turn now tid conv message) db) (\<lambda>db1.
     bind (build_context_chains db1 (empty_queue capacity) (list_active_chains conv db1)) (\<lambda>cands.
     Inr (cands, db1)))"

section \<open>Persisting the selection\<close>

fun check_selected_rows :: "ident \<Rightarrow> context_db \<Rightarrow> ident list \<Rightarrow> unit result" where
  "check_selected_rows conv db [] = Inr ()"
| "check_selected_rows conv db (i # is) =
     (case get_chain i db of
        None \<Rightarrow> Inl (RuntimeError (''Selected Context Chain disappeared: '' @ i))
      | Some c \<Rightarrow>
          if ch_conversation_id c \<noteq> conv
          then Inl (RuntimeError (''Selected Context Chain changed conversation: '' @ i))
          else if ch_archived c then Inl (RuntimeError (''Selected Context Chain was archived: '' @ i))
          else check_selected_rows conv db is)"

definition persist_context_selection ::
  "time \<Rightarrow> string \<Rightarrow> ident \<Rightarrow> ident \<Rightarrow> selection_decision \<Rightarrow> context_db \<Rightarrow> context_db result" where
  "persist_context_selection now hex tid conv d db =
     (case get_turn tid db of
        None \<Rightarrow> Inl (RuntimeError ''Context Turn disappeared before selection'')
      | Some t \<Rightarrow>
          if tn_conversation_id t \<noteq> conv then Inl (RuntimeError ''Context Turn conversation changed'')
          else if tn_status t \<noteq> ROUTING then Inl (RuntimeError ''Context Turn is not awaiting selection'')
          else bind (check_selected_rows conv db (sd_relevant_chain_ids d)) (\<lambda>_.
            bind (create_selection_record
              \<lparr>sl_id = new_id ''selection'' hex, sl_conversation_id = conv, sl_turn_id = tid,
               sl_relevant_chain_ids = sd_relevant_chain_ids d,
               sl_mode = derive_context_selection_mode (sd_relevant_chain_ids d),
               sl_reason_summary = sd_reason_summary d, sl_created_at = now\<rparr> db) (\<lambda>db1.
            Inr (save_turn (turn_set_status t CONTEXT_READY) db1))))"

definition mark_turn_failed :: "ident \<Rightarrow> context_db \<Rightarrow> context_db" where
  "mark_turn_failed tid db =
     (case get_turn tid db of
        Some t \<Rightarrow> if tn_status t = ROUTING then save_turn (turn_set_status t TURN_FAILED) db else db
      | None \<Rightarrow> db)"

section \<open>send_message\<close>

record selection_result =
  sr_conversation_id :: ident
  sr_turn_id :: ident
  sr_message :: string
  sr_context_chains :: "context_chain list"
  sr_decision :: selection_decision

fun with_queues ::
  "(nat \<Rightarrow> nat \<Rightarrow> bool) \<Rightarrow> nat \<Rightarrow> ident \<Rightarrow> nat \<Rightarrow> context_chain list \<Rightarrow> context_db \<Rightarrow> resource_cache \<Rightarrow>
     context_chain list result \<times> resource_cache" where
  "with_queues up capacity conv i [] db cache = (Inr [], cache)"
| "with_queues up capacity conv i (c # cs) db cache =
     (case get_queue (up i) (\<lambda>_. cache) capacity conv (cx_id c) (ch_resource_version (cx_chain c)) db cache of
        Inl e \<Rightarrow> (Inl e, cache)
      | Inr (q, cache1) \<Rightarrow>
          (case with_queues up capacity conv (i + 1) cs db cache1 of
             (Inl e, cache2) \<Rightarrow> (Inl e, cache2)
           | (Inr rest, cache2) \<Rightarrow> (Inr (c\<lparr>cx_queue := q\<rparr> # rest), cache2)))"

text \<open>
  What \<open>send_message\<close> does inside the lock, \<open>route\<close> being the selector; the flag is \<open>turn_created\<close>.
\<close>

definition select_context ::
  "(ident \<Rightarrow> string \<Rightarrow> context_chain list \<Rightarrow> selection_decision result) \<Rightarrow> (nat \<Rightarrow> nat \<Rightarrow> bool) \<Rightarrow> nat \<Rightarrow>
     time \<Rightarrow> uuids \<Rightarrow> ident \<Rightarrow> string \<Rightarrow> bool \<times> context_db \<times> resource_cache \<Rightarrow>
     selection_result result \<times> bool \<times> context_db \<times> resource_cache" where
  "select_context route up capacity now u conv message s =
     (case s of (created, db, cache) \<Rightarrow>
      let tid = new_id ''turn'' (u 0) in
      case create_turn_and_load_chains now capacity tid conv message db of
        Inl e \<Rightarrow> (Inl e, created, db, cache)
      | Inr (loaded, db1) \<Rightarrow>
          (case with_queues up capacity conv 0 loaded db1 cache of
             (Inl e, cache1) \<Rightarrow> (Inl e, True, db1, cache1)
           | (Inr cands, cache1) \<Rightarrow>
               (case (case route tid message cands of
                   Inl _ \<Rightarrow> Inl (context_routing ''Context Agent Selection failed'')
                 | Inr raw \<Rightarrow>
                     (case validate_context_selection raw cands conv of
                        Inl _ \<Rightarrow> Inl (context_routing ''illegal Selection'')
                      | Inr d \<Rightarrow> bind (persist_context_selection now (u 1) tid conv d db1)
                                   (\<lambda>db2. Inr (d, db2)))) of
                  Inl e \<Rightarrow> (Inl e, True, db1, cache1)
                | Inr (d, db2) \<Rightarrow>
                    (Inr \<lparr>sr_conversation_id = conv, sr_turn_id = tid, sr_message = message,
                       sr_context_chains = List.map_filter (\<lambda>i. find (\<lambda>c. cx_id c = i) cands)
                         (sd_relevant_chain_ids d),
                       sr_decision = d\<rparr>, True, db2, cache1))))"

text \<open>
  One message, without steps of others between its own: the result, the database and the cache after
  it.  An error other than \<open>ConversationLockUnavailable\<close> marks a created turn failed, as far as this
  transaction succeeds (\<open>marked\<close>); its own failure is swallowed.
\<close>

definition send_message ::
  "lock_outcome \<Rightarrow> bool \<Rightarrow> (ident \<Rightarrow> string \<Rightarrow> context_chain list \<Rightarrow> selection_decision result) \<Rightarrow>
     (nat \<Rightarrow> nat \<Rightarrow> bool) \<Rightarrow> nat \<Rightarrow> time \<Rightarrow> uuids \<Rightarrow> ident \<Rightarrow> string \<Rightarrow> context_db \<Rightarrow> resource_cache \<Rightarrow>
     selection_result result \<times> context_db \<times> resource_cache" where
  "send_message lk marked route up capacity now u conv message db cache =
     (case hold lk (select_context route up capacity now u conv message) (False, db, cache) of
        (Inr r, created, db', cache') \<Rightarrow> (Inr r, db', cache')
      | (Inl e, created, db', cache') \<Rightarrow>
          (Inl e,
           if is_lock_unavailable e \<or> \<not> created \<or> \<not> marked then db'
           else mark_turn_failed (new_id ''turn'' (u 0)) db', cache'))"

section \<open>Completing a turn\<close>

record complete_turn_command =
  ct_assistant_content :: "string option"
  ct_assistant_compact :: "string option"
  ct_task_ids :: "ident list"
  ct_task_result_summary :: "string option"
  ct_attribution :: attribution
  ct_chain_updates :: "chain_turn_update list"

record complete_turn_result =
  cr_turn :: turn
  cr_linked_chain_ids :: "ident list"

fun check_removed_keys :: "string list \<Rightarrow> unit result" where
  "check_removed_keys [] = Inr ()"
| "check_removed_keys (k # ks) =
     (case split_resource_key k of
        Inl (ValueError m) \<Rightarrow> Inl (context_validation m)
      | Inl e \<Rightarrow> Inl e
      | Inr _ \<Rightarrow> check_removed_keys ks)"

definition check_chain_update :: "ident list \<Rightarrow> ident list \<Rightarrow> ident list \<Rightarrow> chain_turn_update \<Rightarrow> unit result" where
  "check_chain_update targets task_ids seen up =
     (let keys = map ri_key (cu_related_resources up); removed = cu_removed_resource_keys up in
      if cu_chain_id up \<in> set seen then Inl (context_validation ''duplicate Context Chain update'')
      else if cu_chain_id up \<notin> set targets
      then Inl (context_validation ''Context Chain is not in the Attribution'')
      else if \<not> set (cu_related_task_ids up) \<subseteq> set task_ids
      then Inl (context_validation ''Task is not in the Turn'')
      else if \<not> distinct keys then Inl (context_validation ''duplicate resource'')
      else if \<not> distinct removed then Inl (context_validation ''duplicate removed resource'')
      else bind (check_removed_keys removed) (\<lambda>_.
        if set keys \<inter> set removed \<noteq> {}
        then Inl (context_validation ''resource refreshed and removed'') else Inr ()))"

fun validate_chain_updates ::
  "ident list \<Rightarrow> ident list \<Rightarrow> ident list \<Rightarrow> chain_turn_update list \<Rightarrow> unit result" where
  "validate_chain_updates targets task_ids seen [] = Inr ()"
| "validate_chain_updates targets task_ids seen (up # ups) =
     bind (check_chain_update targets task_ids seen up) (\<lambda>_.
     validate_chain_updates targets task_ids (cu_chain_id up # seen) ups)"

text \<open>Target chains, and the id of the chain to create if there is one; \<open>hex\<close> for a generated id.\<close>

definition resolve_targets ::
  "string \<Rightarrow> attribution \<Rightarrow> context_db \<Rightarrow> (ident list \<times> ident option) result" where
  "resolve_targets hex a db =
     (let existing = dedup (at_existing_chain_ids a) in
      if at_new_chain_id a \<noteq> None \<and> \<not> at_create_new_chain a
      then Inl (context_validation ''new_chain_id without create_new_chain'')
      else if \<not> (at_create_new_chain a \<or> existing = []) then Inr (existing, None)
      else
        let new = (case at_new_chain_id a of
              Some i \<Rightarrow> if i = [] then new_id ''chain'' hex else i
            | None \<Rightarrow> new_id ''chain'' hex) in
        if new \<in> set existing then Inl (context_validation ''new Chain is an existing attribution'')
        else if get_chain new db \<noteq> None then Inl (context_conflict ''Context Chain exists'')
        else Inr (existing @ [new], Some new))"

fun check_existing_chains :: "ident \<Rightarrow> context_db \<Rightarrow> ident list \<Rightarrow> unit result" where
  "check_existing_chains conv db [] = Inr ()"
| "check_existing_chains conv db (i # is) =
     (case get_chain i db of
        None \<Rightarrow> Inl (context_conflict ''Context Chain does not exist'')
      | Some c \<Rightarrow>
          if ch_conversation_id c \<noteq> conv then Inl (context_conflict ''Context Chain of another conversation'')
          else if ch_archived c then Inl (context_conflict ''Context Chain is archived'')
          else check_existing_chains conv db is)"

definition create_new_chain :: "time \<Rightarrow> ident \<Rightarrow> ident option \<Rightarrow> context_db \<Rightarrow> context_db result" where
  "create_new_chain now conv new db =
     (case new of
        None \<Rightarrow> Inr db
      | Some i \<Rightarrow> create_chain \<lparr>ch_id = i, ch_conversation_id = conv, ch_resource_version = 0,
          ch_last_active_at = now, ch_archived = False, ch_created_at = now\<rparr> db)"

text \<open>The loop over the target chains: node, resources, activity.\<close>

definition related_refs :: "chain_turn_update option \<Rightarrow> string list" where
  "related_refs update = (case update of None \<Rightarrow> []
     | Some up \<Rightarrow> dedup (map ri_key (cu_related_resources up) @ cu_removed_resource_keys up))"

fun link_chains ::
  "time \<Rightarrow> uuids \<Rightarrow> nat \<Rightarrow> ident \<Rightarrow> chain_turn_update list \<Rightarrow> ident list \<Rightarrow> context_db \<Rightarrow>
     (queue_refresh list \<times> context_db) result" where
  "link_chains now u n tid updates [] db = Inr ([], db)"
| "link_chains now u n tid updates (cid # cids) db =
     (let update = find (\<lambda>up. cu_chain_id up = cid) updates in
      bind (of_option (OtherException ''KeyError'' cid) (get_chain cid db)) (\<lambda>c.
      bind (create_node
        \<lparr>nd_id = new_id ''node'' (u n), nd_chain_id = cid, nd_turn_id = tid,
         nd_sequence = get_next_sequence cid db,
         nd_related_task_ids = (case update of None \<Rightarrow> [] | Some up \<Rightarrow> dedup (cu_related_task_ids up)),
         nd_related_resource_refs = related_refs update, nd_created_at = now\<rparr> db) (\<lambda>db1.
      bind (apply_in_transaction now u (n + 1) tid c update db1) (\<lambda>(refresh, n', db2).
      bind (link_chains now u n' tid updates cids (update_chain_activity now cid db2)) (\<lambda>(refreshes, db').
      Inr ((case refresh of None \<Rightarrow> [] | Some r \<Rightarrow> [r]) @ refreshes, db'))))))"

definition complete_turn_in_transaction ::
  "time \<Rightarrow> uuids \<Rightarrow> ident \<Rightarrow> ident \<Rightarrow> complete_turn_command \<Rightarrow> context_db \<Rightarrow>
     ((complete_turn_result \<times> queue_refresh list) \<times> context_db) result" where
  "complete_turn_in_transaction now u tid conv command db =
     (case get_turn tid db of
        None \<Rightarrow> Inl context_turn_not_found
      | Some t \<Rightarrow>
          if tn_conversation_id t \<noteq> conv then Inl (context_conflict ''Context Turn of another conversation'')
          else if tn_status t = TURN_COMPLETED then
            (let linked = list_linked_chain_ids tid db in
             if linked = [] then Inl (context_conflict ''completed Context Turn without Chain'')
             else Inr ((\<lparr>cr_turn = t, cr_linked_chain_ids = linked\<rparr>, []), db))
          else if tn_status t \<notin> {CONTEXT_READY, PROCESSING}
          then Inl (context_conflict ''Context Turn cannot be completed now'')
          else case get_selection_record tid db of
            None \<Rightarrow> Inl (context_conflict ''Context Turn without Context Selection'')
          | Some sl \<Rightarrow>
              if sl_conversation_id sl \<noteq> conv
              then Inl (context_conflict ''Context Selection of another conversation'')
              else
                bind (resolve_targets (u 0) (ct_attribution command) db) (\<lambda>(targets, new).
                bind (validate_chain_updates targets (ct_task_ids command) [] (ct_chain_updates command)) (\<lambda>_.
                bind (check_existing_chains conv db (dedup (at_existing_chain_ids (ct_attribution command))))
                  (\<lambda>_.
                bind (create_new_chain now conv new db) (\<lambda>db1.
                bind (link_chains now u 1 tid (ct_chain_updates command) targets db1) (\<lambda>(refreshes, db2).
                let t' = complete_turn_row (ct_assistant_content command) (ct_assistant_compact command)
                       (dedup (ct_task_ids command)) (ct_task_result_summary command) now t in
                Inr ((\<lparr>cr_turn = t', cr_linked_chain_ids = targets\<rparr>, refreshes), save_turn t' db2)))))))"

text \<open>What \<open>complete_turn\<close> does under the lock: the transaction, then the refresh of the cached queues.\<close>

definition complete_turn ::
  "(nat \<Rightarrow> nat \<Rightarrow> bool) \<Rightarrow> nat \<Rightarrow> time \<Rightarrow> uuids \<Rightarrow> ident \<Rightarrow> complete_turn_command \<Rightarrow> context_db \<Rightarrow>
     resource_cache \<Rightarrow> complete_turn_result result \<times> context_db \<times> resource_cache" where
  "complete_turn up capacity now u tid command db cache =
     (case get_turn tid db of
        None \<Rightarrow> (Inl context_turn_not_found, db, cache)
      | Some t \<Rightarrow>
          (case complete_turn_in_transaction now u tid (tn_conversation_id t) command db of
             Inl e \<Rightarrow> (Inl e, db, cache)
           | Inr ((r, refreshes), db') \<Rightarrow>
               (Inr r, db', fold (\<lambda>(i, qr). refresh_after_commit (up i) capacity qr)
                  (enumerate 0 refreshes) cache)))"

definition locked_complete_turn ::
  "lock_outcome \<Rightarrow> (nat \<Rightarrow> nat \<Rightarrow> bool) \<Rightarrow> nat \<Rightarrow> time \<Rightarrow> uuids \<Rightarrow> ident \<Rightarrow> complete_turn_command \<Rightarrow>
     context_db \<Rightarrow> resource_cache \<Rightarrow> complete_turn_result result \<times> context_db \<times> resource_cache" where
  "locked_complete_turn lk up capacity now u tid command db cache =
     (case get_turn tid db of
        None \<Rightarrow> (Inl context_turn_not_found, db, cache)
      | Some t \<Rightarrow> hold lk (\<lambda>(db, cache). complete_turn up capacity now u tid command db cache) (db, cache))"

section \<open>AggregatePlanUseCase.execute\<close>

text \<open>
  The composition over the completed plan (aggregation/application/aggregate_plan.py): snapshot,
  completion of the turn with the fallback attribution and the resources of all executions, then
  the clarification.  \<open>hex\<close> is the id of a preallocated chain.
\<close>

definition aggregate_updates ::
  "ident list \<Rightarrow> context_resource_input list \<Rightarrow> ident list \<Rightarrow> chain_turn_update list" where
  "aggregate_updates task_ids resources targets = map (\<lambda>cid.
     \<lparr>cu_chain_id = cid, cu_related_task_ids = task_ids,
      cu_related_resources = map (\<lambda>r. \<lparr>ri_type = cr_resource_type r, ri_id = cr_resource_id r,
        ri_relation = Some (cr_relation r), ri_summary = Some (cr_summary r)\<rparr>) resources,
      cu_removed_resource_keys = []\<rparr>) targets"

definition aggregate_plan ::
  "lock_outcome \<Rightarrow> (nat \<Rightarrow> nat \<Rightarrow> bool) \<Rightarrow> nat \<Rightarrow> time \<Rightarrow> uuids \<Rightarrow> string \<Rightarrow> ident \<Rightarrow> context_db \<Rightarrow> resource_cache \<Rightarrow>
     complete_turn_result result \<times> context_db \<times> resource_cache" where
  "aggregate_plan lk up capacity now u hex plan_id db cache =
     (let selection = map_option sl_relevant_chain_ids
            (Option.bind (plan_get_by_id plan_id (core db)) (\<lambda>p. get_selection_record (p_turn_id p) db)) in
      case bind (load_snapshot selection plan_id (core db)) (\<lambda>s.
           bind (resources_of (ag_resource_refs s)) (\<lambda>resources.
           bind (build_read_set_fallback_attribution (ag_relevant_chain_ids s)
                  (if ag_relevant_chain_ids s \<noteq> [] then None else Some (new_id ''chain'' hex))) (\<lambda>a.
           Inr (s, resources, a)))) of
        Inl e \<Rightarrow> (Inl e, db, cache)
      | Inr (s, resources, a) \<Rightarrow>
          (let content = assistant_content s; summary = join ''; '' (ag_summaries s);
               targets = at_existing_chain_ids a @
                 (if at_create_new_chain a then (case at_new_chain_id a of None \<Rightarrow> [] | Some i \<Rightarrow> [i]) else [])
           in case locked_complete_turn lk up capacity now u (ag_turn_id s)
                 \<lparr>ct_assistant_content = Some content, ct_assistant_compact = Some content,
                  ct_task_ids = ag_task_ids s, ct_task_result_summary = Some summary,
                  ct_attribution = a,
                  ct_chain_updates = aggregate_updates (ag_task_ids s) resources targets\<rparr> db cache of
             (Inl e, db1, cache1) \<Rightarrow> (Inl e, db1, cache1)
           | (Inr r, db1, cache1) \<Rightarrow>
               (case resolve_clarification now plan_id (core db1) of
                  Inl e \<Rightarrow> (Inl e, db1, cache1)
                | Inr (_, core') \<Rightarrow> (Inr r, db1\<lparr>core := core'\<rparr>, cache1))))"

end
