(* ===== verification/Planning_Run.thy ===== *)
theory Planning_Run
  imports Context_Service Planner_Workflow
begin

text \<open>
  One planner run (planning/application/run_planning.py): the user's input with the answer to a
  clarification question, the check of an existing revision, the run of the planner graph and the
  final reading of the plan, which turns a plan left open into a request for another revision.
  The selected context chains are loaded with their hot queues, which reads and may write the cache;
  what is loaded is the input of the planner's models.
\<close>

definition compose_current_user_input :: "string \<Rightarrow> string option \<Rightarrow> string" where
  "compose_current_user_input user_input clarification_input =
     (case clarification_input of
        None \<Rightarrow> user_input
      | Some c \<Rightarrow> ''original request:'' @ [CHR 0x0A] @ user_input @ [CHR 0x0A, CHR 0x0A] @
          ''answer to the clarification question:'' @ [CHR 0x0A] @ c)"

record run_planning_input =
  rp_conversation_id :: ident
  rp_turn_id :: ident
  rp_revision :: int
  rp_workflow_id :: "ident option"
  rp_parent_plan_id :: "ident option"

text \<open>
  \<open>_load_plannable_snapshot\<close>: the turn, its selection record and the selected chains with an empty
  queue each.
\<close>

definition conflict :: "string \<Rightarrow> string \<Rightarrow> error" where
  "conflict message code = PlanningApplicationError 409 message code"

fun load_chains :: "context_db \<Rightarrow> resource_queue \<Rightarrow> ident \<Rightarrow> ident list \<Rightarrow> context_chain list result" where
  "load_chains db q conv [] = Inr []"
| "load_chains db q conv (i # is) =
     (case get_chain i db of
        None \<Rightarrow> Inl (conflict (''no such Context Selection Chain: '' @ i)
                  ''context_selection_chain_missing'')
      | Some c \<Rightarrow>
          if ch_conversation_id c \<noteq> conv
          then Inl (conflict (''Context Selection Chain of another conversation: '' @ i)
                  ''context_selection_conflict'')
          else bind (build_context_chain db q c) (\<lambda>x.
            bind (load_chains db q conv is) (\<lambda>rest. Inr (x # rest))))"

definition load_plannable_snapshot ::
  "nat \<Rightarrow> turn_status set \<Rightarrow> run_planning_input \<Rightarrow> context_db \<Rightarrow> (string \<times> context_chain list) result" where
  "load_plannable_snapshot capacity allowed c db =
     (case turn_get_by_id (rp_turn_id c) (core db) of
        None \<Rightarrow> Inl turn_not_found
      | Some tn \<Rightarrow>
          if tn_conversation_id tn \<noteq> rp_conversation_id c
          then Inl (conflict ''Turn of another conversation'' ''turn_conversation_conflict'')
          else if tn_status tn \<notin> allowed
          then Inl (conflict ''Turn has not finished Context Selection'' ''turn_state_conflict'')
          else case get_selection_record (rp_turn_id c) db of
            None \<Rightarrow> Inl (conflict ''Turn has no Context Selection'' ''context_selection_missing'')
          | Some s \<Rightarrow>
              if sl_conversation_id s \<noteq> rp_conversation_id c
              then Inl (conflict ''Context Selection of another conversation''
                     ''context_selection_conflict'')
              else bind (load_chains db (empty_queue capacity) (rp_conversation_id c)
                      (sl_relevant_chain_ids s)) (\<lambda>loaded.
                Inr (compose_current_user_input (tn_user_input tn) (tn_clarification_input tn), loaded)))"

text \<open>
  \<open>_load_plannable_input\<close>: the hot queue of every chain, in order, outside the lock of the
  conversation.  An error of get_queue ends the run; what the queues before it wrote to the cache
  stays.
\<close>

definition load_plannable_input ::
  "(nat \<Rightarrow> nat \<Rightarrow> bool) \<Rightarrow> nat \<Rightarrow> turn_status set \<Rightarrow> run_planning_input \<Rightarrow> context_db \<Rightarrow> resource_cache \<Rightarrow>
     (string \<times> context_chain list) result \<times> resource_cache" where
  "load_plannable_input up capacity allowed c db cache =
     (case load_plannable_snapshot capacity allowed c db of
        Inl e \<Rightarrow> (Inl e, cache)
      | Inr (current_user_input, loaded) \<Rightarrow>
          (case with_queues up capacity (rp_conversation_id c) 0 loaded db cache of
             (Inl e, cache') \<Rightarrow> (Inl e, cache')
           | (Inr context_chains, cache') \<Rightarrow> (Inr (current_user_input, context_chains), cache')))"

definition validate_existing_plan :: "run_planning_input \<Rightarrow> ident \<Rightarrow> db \<Rightarrow> unit result" where
  "validate_existing_plan c pid db =
     (case plan_get_by_id pid db of
        None \<Rightarrow> Inl plan_not_found
      | Some p \<Rightarrow>
          if p_turn_id p \<noteq> rp_turn_id c \<or> p_revision p \<noteq> rp_revision c \<or> p_status p \<noteq> PLANNING
          then Inl (conflict ''Plan revision cannot run now'' ''plan_state_conflict'')
          else Inr ())"

section \<open>The result of a run\<close>

record run_planning_result =
  rr_plan_id :: ident
  rr_turn_id :: ident
  rr_status :: plan_status
  rr_task_ids :: "ident list"
  rr_failure_reason :: "string option"
  rr_clarification_question :: "string option"

definition read_result :: "ident \<Rightarrow> ident \<Rightarrow> db \<Rightarrow> run_planning_result result" where
  "read_result pid tid db =
     (case plan_get_by_id pid db of
        None \<Rightarrow> Inl plan_not_found
      | Some p \<Rightarrow>
          if p_turn_id p \<noteq> tid
          then Inl (conflict ''Plan and Turn do not belong together'' ''plan_turn_conflict'')
          else case turn_get_by_id tid db of
            None \<Rightarrow> Inl turn_not_found
          | Some tn \<Rightarrow>
              let pending = map t_id (filter (\<lambda>t. t_status t = PENDING) (task_list_by_plan_id pid db)) in
              if p_status p = READY \<and> tn_task_ids tn \<noteq> pending
              then Inl (PlanningApplicationError 500 ''Plan, Tasks and Turn are inconsistent''
                     ''planning_state_inconsistent'')
              else Inr \<lparr>rr_plan_id = p_id p, rr_turn_id = p_turn_id p, rr_status = p_status p,
                     rr_task_ids = (if p_status p = READY then pending else []),
                     rr_failure_reason = p_failure_reason p,
                     rr_clarification_question =
                       (case clarification_get_by_plan_id pid db of
                          None \<Rightarrow> None | Some c \<Rightarrow> c_question c)\<rparr>)"

definition needs_retry :: "run_planning_result \<Rightarrow> bool" where
  "needs_retry r \<longleftrightarrow> rr_status r = PLANNING \<or>
     rr_status r = NEEDS_CLARIFICATION \<and> rr_clarification_question r = None"

definition finish_from_database ::
  "time \<Rightarrow> uuids \<Rightarrow> ident \<Rightarrow> ident \<Rightarrow> string \<Rightarrow> db \<Rightarrow> run_planning_result result \<times> db" where
  "finish_from_database now u pid tid reason db =
     (case read_result pid tid db of
        Inl e \<Rightarrow> (Inl e, db)
      | Inr r \<Rightarrow>
          if \<not> needs_retry r then (Inr r, db)
          else case mark_plan_retry_pending now u pid reason db of
            Inl e \<Rightarrow> (Inl e, db)
          | Inr (_, db') \<Rightarrow> (read_result pid tid db', db'))"

text \<open>The reason recorded when the runner raised.\<close>

fun retry_reason :: "error \<Rightarrow> string" where
  "retry_reason (OtherException c m) =
     (if c = ''PlanningRetryRequested'' then m
      else ''Planner Runner or Tool raised a system exception'')"
| "retry_reason _ = ''Planner Runner or Tool raised a system exception''"

definition planner_context :: "run_planning_input \<Rightarrow> ident \<Rightarrow> agent_context" where
  "planner_context c pid =
     \<lparr>ac_permissions = PLANNER_PERMISSIONS, ac_conversation_id = Some (rp_conversation_id c),
      ac_turn_id = Some (rp_turn_id c), ac_plan_id = Some pid, ac_planning_services = True\<rparr>"

definition run_existing_plan ::
  "time \<Rightarrow> uuids \<Rightarrow> planner_agents \<Rightarrow> run_planning_input \<Rightarrow> ident \<Rightarrow> db
   \<Rightarrow> run_planning_result result \<times> db" where
  "run_existing_plan now u ag c pid db =
     (case planner_run ag (planner_context c pid) db of
        (Inl e, db1) \<Rightarrow> finish_from_database now u pid (rp_turn_id c) (retry_reason e) db1
      | (Inr question, db1) \<Rightarrow>
          (case (case question of
                   Some q \<Rightarrow> if py_strip q = [] then Inr db1
                     else if 4000 < length q then Inl (ValidationError ''question'')
                     else bind (set_clarification_question pid q db1) (\<lambda>(_, db2). Inr db2)
                 | None \<Rightarrow> Inr db1) of
             Inl e \<Rightarrow> (Inl e, db1)
           | Inr db2 \<Rightarrow> finish_from_database now u pid (rp_turn_id c)
               ''Planner called neither finalize_plan nor mark_plan_unsupported'' db2))"

text \<open>\<open>ag\<close> gives the answers of the planner's models for its input.\<close>

definition execute_planning ::
  "time \<Rightarrow> uuids \<Rightarrow> (nat \<Rightarrow> nat \<Rightarrow> bool) \<Rightarrow> nat \<Rightarrow> (string \<times> context_chain list \<Rightarrow> planner_agents) \<Rightarrow>
     run_planning_input \<Rightarrow> context_db \<Rightarrow> resource_cache \<Rightarrow>
     run_planning_result result \<times> context_db \<times> resource_cache" where
  "execute_planning now u up capacity ag c db cache =
     (case load_plannable_input up capacity {CONTEXT_READY} c db cache of
        (Inl e, cache') \<Rightarrow> (Inl e, db, cache')
      | (Inr planner_input, cache') \<Rightarrow>
          (case create_plan now u
                 \<lparr>cp_turn_id = rp_turn_id c, cp_revision = rp_revision c,
                  cp_workflow_id = rp_workflow_id c, cp_parent_plan_id = rp_parent_plan_id c\<rparr> (core db) of
             Inl e \<Rightarrow> (Inl e, db, cache')
           | Inr (p, core1) \<Rightarrow>
               (case run_existing_plan now (\<lambda>n. u (n + 2)) (ag planner_input) c (p_id p) core1 of
                  (r, core') \<Rightarrow> (r, db\<lparr>core := core'\<rparr>, cache'))))"

definition execute_existing ::
  "time \<Rightarrow> uuids \<Rightarrow> (nat \<Rightarrow> nat \<Rightarrow> bool) \<Rightarrow> nat \<Rightarrow> (string \<times> context_chain list \<Rightarrow> planner_agents) \<Rightarrow>
     run_planning_input \<Rightarrow> ident \<Rightarrow> context_db \<Rightarrow> resource_cache \<Rightarrow>
     run_planning_result result \<times> context_db \<times> resource_cache" where
  "execute_existing now u up capacity ag c pid db cache =
     (case load_plannable_input up capacity {CONTEXT_READY, PROCESSING, TURN_COMPLETED} c db cache of
        (Inl e, cache') \<Rightarrow> (Inl e, db, cache')
      | (Inr planner_input, cache') \<Rightarrow>
          (case validate_existing_plan c pid (core db) of
             Inl e \<Rightarrow> (Inl e, db, cache')
           | Inr _ \<Rightarrow>
               (case run_existing_plan now u (ag planner_input) c pid (core db) of
                  (r, core') \<Rightarrow> (r, db\<lparr>core := core'\<rparr>, cache'))))"

end
