(* ===== verification/Planning_Properties.thy ===== *)
theory Planning_Properties
  imports Planning_Safety Planning_Run Messaging Runtime_Properties
begin

text \<open>
  Properties of planning: which task graphs are accepted, what publishing a plan does, why a
  published plan can always go on, how a clarification leads to the next revision and how the
  replan event is consumed.  Each property is followed by its application to a concrete database.
\<close>

section \<open>Demonstration data\<close>

text \<open>A turn whose first plan revision has been created, and its two draft tasks.\<close>

definition fresh_db :: db where
  "fresh_db = demo_db\<lparr>plans := [demo_plan\<lparr>p_status := PLANNING\<rparr>], tasks := [],
     task_dependencies := [],
     turns := [demo_turn\<lparr>tn_status := CONTEXT_READY, tn_task_ids := []\<rparr>]\<rparr>"

definition first_task :: create_task_input where
  "first_task = \<lparr>ct_plan_id = ''P'', ct_turn_id = ''T'', ct_document_id = 7, ct_sequence = 1,
     ct_task_ref = ''parse'', ct_depends_on = []\<rparr>"

definition second_task :: create_task_input where
  "second_task = \<lparr>ct_plan_id = ''P'', ct_turn_id = ''T'', ct_document_id = 7, ct_sequence = 2,
     ct_task_ref = ''chunk'', ct_depends_on = [''parse'']\<rparr>"

definition draft_db :: db where
  "draft_db = run_tx (create_build_chunks_task (demo_uuids ''k'') second_task
     (run_tx (create_process_document_task (demo_uuids ''j'') first_task fresh_db)))"

definition published_db :: db where
  "published_db = run_tx (finalize_plan 10 (demo_uuids ''f'') ''P'' ''T'' draft_db)"

lemma fresh_db_inv: "runtime_inv demo_self fresh_db"
  by (simp add: runtime_inv_def rows_ok_def demo_defs plan_ok_def fresh_db_def)

definition draft_run :: "(task \<times> db) result" where
  "draft_run = bind (create_process_document_task (demo_uuids ''j'') first_task fresh_db)
     (\<lambda>(_, db). create_build_chunks_task (demo_uuids ''k'') second_task db)"

lemma draft_db_inv: "runtime_inv demo_self draft_db"
proof -
  obtain t db1 where 1: "create_document_task PROCESS_DOCUMENT (demo_uuids ''j'') first_task fresh_db = Inr (t, db1)"
  proof -
    have "\<not> is_error (create_document_task PROCESS_DOCUMENT (demo_uuids ''j'') first_task fresh_db)"
      by code_simp
    then show thesis using that by (auto simp: is_error_def split: sum.splits)
  qed
  have inv1: "runtime_inv demo_self db1" using create_document_task_inv [OF fresh_db_inv 1] .
  have "db1 = run_tx (create_process_document_task (demo_uuids ''j'') first_task fresh_db)"
    using 1 by (simp add: run_tx_def create_process_document_task_def)
  moreover have "\<not> is_error (create_document_task BUILD_DOCUMENT_CHUNKS (demo_uuids ''k'') second_task
      (run_tx (create_process_document_task (demo_uuids ''j'') first_task fresh_db)))"
    by code_simp
  ultimately obtain t2 db2 where
    2: "create_document_task BUILD_DOCUMENT_CHUNKS (demo_uuids ''k'') second_task db1 = Inr (t2, db2)"
    by (auto simp: is_error_def split: sum.splits)
  have "draft_db = db2"
    using 2 1 by (simp add: draft_db_def run_tx_def create_process_document_task_def
        create_build_chunks_task_def)
  then show ?thesis using create_document_task_inv [OF inv1 2] by simp
qed

definition draft_result :: finalize_result where
  "draft_result = \<lparr>f_plan_id = ''P'', f_turn_id = ''T'', f_plan_status = READY,
     f_task_ids = [''task_j0'', ''task_k0'']\<rparr>"

lemma demo_finalize:
  "finalize_plan 10 (demo_uuids ''f'') ''P'' ''T'' draft_db = Inr (draft_result, published_db)"
  by code_simp

section \<open>Task graphs\<close>

text \<open>
  C13: The validation of a task graph accepts exactly the plans it should: references are unique,
  each task names known tasks, without repetition and not itself, and no chain of dependencies
  has more than three tasks (so there is no cycle).  In particular the depth-first search
  neither accepts a cyclic plan nor rejects an acyclic one.  For an accepted plan it returns
  exactly the pairs of tasks of which the first depends on the second.
\<close>

theorem validate_dag_correct:
  "((\<exists>pairs. validate_dag ts = Inr pairs) \<longleftrightarrow>
      distinct (map t_ref ts) \<and> (\<forall>t\<in>set ts. refs_sane ts t) \<and>
      (\<forall>c. chain (task_graph ts) c \<longrightarrow> length c \<le> 3)) \<and>
   (\<forall>pairs. validate_dag ts = Inr pairs \<longrightarrow>
      set pairs = {(t_id t, t_id u) | t u. t \<in> set ts \<and> u \<in> set ts \<and> t_ref u \<in> set (depends_refs t)})"
  using validate_dag_ok validate_dag_pairs by blast

definition chain_task :: "string \<Rightarrow> string list \<Rightarrow> task" where
  "chain_task r ds = (demo_task r ''process_document'' 1)
     \<lparr>t_input_json := JObj [(''_depends_on_task_refs'', JList (map JStr ds))]\<rparr>"

theorem validate_dag_correct_witness:
  "validate_dag [chain_task ''a'' [], chain_task ''b'' [''a''], chain_task ''c'' [''b'', ''a'']] =
     Inr [(''b'', ''a''), (''c'', ''b''), (''c'', ''a'')] \<and>
   \<not> chain (task_graph [chain_task ''a'' [], chain_task ''b'' [''a''], chain_task ''c'' [''b'', ''a'']])
       [''c'', ''b'', ''a'', ''a''] \<and>
   is_error (validate_dag [chain_task ''a'' [''b''], chain_task ''b'' [''a'']])"
proof -
  let ?ts = "[chain_task ''a'' [], chain_task ''b'' [''a''], chain_task ''c'' [''b'', ''a'']]"
  have ok: "validate_dag ?ts = Inr [(''b'', ''a''), (''c'', ''b''), (''c'', ''a'')]" by code_simp
  then have ex: "\<exists>pairs. validate_dag ?ts = Inr pairs" by (rule exI)
  have "\<not> chain (task_graph ?ts) [''c'', ''b'', ''a'', ''a'']"
  proof
    assume "chain (task_graph ?ts) [''c'', ''b'', ''a'', ''a'']"
    with validate_dag_correct [THEN conjunct1, THEN iffD1, OF ex, THEN conjunct2, THEN conjunct2]
    have "length [''c'', ''b'', ''a'', ''a''] \<le> (3 :: nat)" by blast
    then show False by simp
  qed
  moreover have "is_error (validate_dag [chain_task ''a'' [''b''], chain_task ''b'' [''a'']])"
    by code_simp
  ultimately show ?thesis using ok by blast
qed

section \<open>Publishing a plan\<close>

lemma dependency_rows_edges: "edge_of ` set (dependency_rows u n pid pairs) = set pairs"
  by (induction u n pid pairs rule: dependency_rows.induct) (auto simp: edge_of_def)

lemma dependency_rows_plan: "d \<in> set (dependency_rows u n pid pairs) \<Longrightarrow> d_plan_id d = pid"
  by (induction u n pid pairs rule: dependency_rows.induct) auto

text \<open>
  C14: Publishing a plan checks and does everything at once: the plan was being planned and is
  ready afterwards, it has one to ten draft tasks with sequence numbers 1, 2, ... and dependency
  chains of at most three; exactly the drafts become pending, without the planner's reference
  field in their input; the dependency edges between exactly the referring tasks are stored; the
  turn lists the tasks in order and is processing; exactly one wake-up of the plan is queued.
\<close>

theorem finalize_plan_publishes:
  assumes "runtime_inv self db" and "finalize_plan now u pid tid db = Inr (r, db')"
  shows "\<exists>p tn ts e.
    plan_get_by_id pid db = Some p \<and> p_status p = PLANNING \<and> p_turn_id p = tid \<and>
    turn_get_by_id tid db = Some tn \<and>
    ts = task_list_by_plan_id_and_status pid DRAFT db \<and>
    1 \<le> length ts \<and> length ts \<le> 10 \<and> map t_sequence ts = map int [1..<length ts + 1] \<and>
    (\<forall>c. chain (task_graph ts) c \<longrightarrow> length c \<le> 3) \<and>
    f_task_ids r = map t_id ts \<and>
    plan_get_by_id pid db' = Some (plan_set_status p READY None None) \<and>
    tasks db' = map (publish_task pid) (tasks db) \<and>
    edge_of ` set (task_dependencies db') = edge_of ` set (task_dependencies db) \<union>
      {(t_id t, t_id s) | t s. t \<in> set ts \<and> s \<in> set ts \<and> t_ref s \<in> set (depends_refs t)} \<and>
    turn_get_by_id tid db' = Some (tn\<lparr>tn_task_ids := map t_id ts, tn_status := PROCESSING\<rparr>) \<and>
    outbox db' = outbox db @ [e] \<and> e_type e = PLAN_WAKEUP \<and> e_status e = EV_PENDING \<and>
    json_get (e_payload e) ''plan_id'' = Some (JStr pid) \<and>
    task_executions db' = task_executions db"
proof (rule finalize_effect [OF assms(2)], goal_cases)
  case (1 p tn pairs ts)
  have pid: "p_id p = pid" and tid: "tn_id tn = tid"
    using 1(1,4) plan_repo.fetch_key turn_repo.fetch_key by blast+
  have plan: "plan_get_by_id pid db' = Some (plan_set_status p READY None None)"
    using 1(1,12) pid by (simp add: plan_get_by_id_def table_simps plan_set_status_def)
  have turn: "turn_get_by_id tid db' = Some (tn\<lparr>tn_task_ids := map t_id ts, tn_status := PROCESSING\<rparr>)"
    using 1(4,17) tid by (simp add: turn_get_by_id_def table_simps turn_set_status_def turn_set_task_ids_def)
  have chains: "\<forall>c. chain (task_graph ts) c \<longrightarrow> length c \<le> 3"
    using validate_dag_ok [of ts] 1(10) by blast
  have edges: "edge_of ` set (task_dependencies db') = edge_of ` set (task_dependencies db) \<union>
      {(t_id t, t_id s) | t s. t \<in> set ts \<and> s \<in> set ts \<and> t_ref s \<in> set (depends_refs t)}"
    using validate_dag_pairs [OF 1(10)] by (simp add: 1(16) image_Un dependency_rows_edges)
  have len: "1 \<le> length ts" using 1(7) by (cases ts) auto
  have ids: "f_task_ids r = map t_id ts" using 1(11) by simp
  let ?e = "new_outbox_event now (u (length pairs)) PLAN_WAKEUP pid
        (JObj [(''workflow_id'', JStr (p_workflow_id p)), (''plan_id'', JStr pid)])"
  have e: "e_type ?e = PLAN_WAKEUP" "e_status ?e = EV_PENDING"
    "json_get (e_payload ?e) ''plan_id'' = Some (JStr pid)"
    by (simp_all add: new_outbox_event_def)
  show ?case
    using 1(1-6,9) len 1(8) chains ids plan finalize_tasks [OF assms] edges turn 1(18) e 1(14)
    by (intro exI [of _ p] exI [of _ tn] exI [of _ ts] exI [of _ ?e])
      (simp add: MAX_TASKS_PER_PLAN_def)
qed

theorem finalize_plan_publishes_witness:
  "\<exists>e. outbox published_db = outbox draft_db @ [e] \<and> e_type e = PLAN_WAKEUP \<and>
     tasks published_db = map (publish_task ''P'') (tasks draft_db) \<and>
     length (task_list_by_plan_id_and_status ''P'' DRAFT draft_db) \<le> 10"
  using finalize_plan_publishes [OF draft_db_inv demo_finalize] by blast

section \<open>A published plan can always go on\<close>

lemma predecessor_ids_set:
  "set (predecessor_ids tid db) = {d_depends_on d | d. d \<in> set (task_dependencies db) \<and> d_task_id d = tid}"
  by (auto simp: predecessor_ids_def)

lemma distinct_predecessors:
  assumes "distinct (map edge_of (task_dependencies db))"
  shows "distinct (predecessor_ids tid db)"
proof -
  have "inj_on d_depends_on {d \<in> set (task_dependencies db). d_task_id d = tid}"
    using assms by (auto simp: distinct_map inj_on_def edge_of_def)
  moreover have "distinct (filter (\<lambda>d. d_task_id d = tid) (task_dependencies db))"
    using assms by (simp add: distinct_map)
  ultimately show ?thesis by (simp add: predecessor_ids_def distinct_map)
qed

lemma dependencies_metI:
  assumes "distinct (map t_id (tasks db))" "distinct (map edge_of (task_dependencies db))"
    and "\<And>d. d \<in> set (predecessor_ids (t_id t) db) \<Longrightarrow>
      \<exists>s\<in>set (tasks db). t_id s = d \<and> t_status s = su"
  shows "dependencies_met su db t"
proof -
  let ?ps = "predecessor_ids (t_id t) db"
  let ?fs = "filter (\<lambda>s. t_id s \<in> set ?ps \<and> t_status s = su) (tasks db)"
  have "set (map t_id ?fs) = set ?ps" using assms(3) by force
  moreover have "distinct (map t_id ?fs)" using assms(1) by (rule distinct_map_filter)
  moreover have "distinct ?ps" using assms(2) by (rule distinct_predecessors)
  ultimately have "length (map t_id ?fs) = length ?ps" by (metis distinct_card)
  then show ?thesis by (simp add: dependencies_met_def Let_def)
qed

text \<open>Pending tasks whose unfinished predecessors are pending and of lower rank do not block.\<close>

lemma ranked_not_stuck:
  fixes f :: "ident \<Rightarrow> nat"
  assumes d: "distinct (map t_id (tasks db))" "distinct (map edge_of (task_dependencies db))"
    and t0: "t0 \<in> set (tasks db)" "t_plan_id t0 = pid" "t_status t0 = PENDING"
    and pred: "\<And>t d. t \<in> set (tasks db) \<Longrightarrow> t_plan_id t = pid \<Longrightarrow> t_status t = PENDING \<Longrightarrow>
      d \<in> set (predecessor_ids (t_id t) db) \<Longrightarrow>
      \<exists>s\<in>set (tasks db). t_id s = d \<and>
        (t_status s = SUCCEEDED \<or> t_plan_id s = pid \<and> t_status s = PENDING \<and> f d < f (t_id t))"
  shows "task_get_next_runnable pid PENDING SUCCEEDED db \<noteq> None"
proof -
  let ?P = "\<lambda>t. t \<in> set (tasks db) \<and> t_plan_id t = pid \<and> t_status t = PENDING"
  have "\<exists>t. ?P t \<and> (\<forall>s. ?P s \<longrightarrow> f (t_id t) \<le> f (t_id s))"
    using ex_has_least_nat [of ?P t0 "\<lambda>t. f (t_id t)"] t0 by blast
  then obtain t where t: "?P t" "\<And>s. ?P s \<Longrightarrow> f (t_id t) \<le> f (t_id s)" by blast
  have "dependencies_met SUCCEEDED db t"
  proof (rule dependencies_metI [OF d])
    fix d assume "d \<in> set (predecessor_ids (t_id t) db)"
    with pred t(1) obtain s where s: "s \<in> set (tasks db)" "t_id s = d"
      "t_status s = SUCCEEDED \<or> t_plan_id s = pid \<and> t_status s = PENDING \<and> f d < f (t_id t)"
      by blast
    with t(2) [of s] show "\<exists>s\<in>set (tasks db). t_id s = d \<and> t_status s = SUCCEEDED" by force
  qed
  moreover have "t \<in> set (task_list_by_plan_id_and_status pid PENDING db)"
    using t(1) by (simp add: listed_tasks)
  ultimately show ?thesis
    unfolding task_get_next_runnable_def by (metis find_None_iff)
qed

lemma rank_of_ids:
  assumes d: "distinct (map t_id ts)" and v: "validate_dag ts = Inr pairs"
  shows "\<exists>f. \<forall>(a, b)\<in>set pairs. (f b :: nat) < f a"
proof -
  from validate_dag_ok [of ts] v have ok: "distinct (map t_ref ts)" "\<forall>t\<in>set ts. refs_sane ts t"
    "\<And>c. chain (task_graph ts) c \<Longrightarrow> length c \<le> 3" by blast+
  from bounded_chains_rank [OF ok(3) closed_task_graph [OF ok(1,2)]]
  obtain g where g: "\<And>r d. edge (task_graph ts) r d \<Longrightarrow> (g d :: nat) < g r" by blast
  let ?f = "\<lambda>i. case get_row t_id i ts of Some t \<Rightarrow> g (t_ref t) | None \<Rightarrow> 0"
  have "?f b < ?f a" if "(a, b) \<in> set pairs" for a b
  proof -
    from that validate_dag_pairs [OF v] obtain t u where
      "a = t_id t" "b = t_id u" "t \<in> set ts" "u \<in> set ts" "t_ref u \<in> set (depends_refs t)" by auto
    moreover from this have "edge (task_graph ts) (t_ref t) (t_ref u)"
      unfolding edge_def map_of_task_graph [OF ok(1)] by blast
    ultimately show ?thesis using g get_row_in_set [OF d] by simp
  qed
  then show ?thesis by (intro exI [of _ ?f]) blast
qed

text \<open>
  C15: A published plan never gets stuck: in every later database with the plan's tasks and
  dependencies, as long as each task of the plan is pending or succeeded and not all have
  succeeded, the runtime finds a task to run.
\<close>

theorem published_plan_never_stuck:
  assumes inv: "runtime_inv self db" and fin: "finalize_plan now u pid tid db = Inr (r, db')"
    and fresh: "\<And>d. d \<in> set (task_dependencies db) \<Longrightarrow> d_task_id d \<notin> set (f_task_ids r)"
    and later: "distinct (map t_id (tasks db2))" "distinct (map edge_of (task_dependencies db2))"
      "t_id ` {t \<in> set (tasks db2). t_plan_id t = pid} = set (f_task_ids r)"
      "\<And>d. d_task_id d \<in> set (f_task_ids r) \<Longrightarrow>
        d \<in> set (task_dependencies db2) \<longleftrightarrow> d \<in> set (task_dependencies db')"
    and going: "\<And>t. t \<in> set (tasks db2) \<Longrightarrow> t_plan_id t = pid \<Longrightarrow> t_status t \<in> {PENDING, SUCCEEDED}"
    and open_task: "t0 \<in> set (tasks db2)" "t_plan_id t0 = pid" "t_status t0 = PENDING"
  shows "task_get_next_runnable pid PENDING SUCCEEDED db2 \<noteq> None"
proof (rule finalize_effect [OF fin], goal_cases)
  case (1 p tn pairs ts)
  have ids: "set (f_task_ids r) = t_id ` set ts" by (simp add: 1(11))
  have dts: "distinct (map t_id ts)"
    using distinct_listed [OF runtime_inv_rows(3) [OF inv]] by (simp add: 1(6))
  from rank_of_ids [OF dts 1(10)] obtain f where f: "\<And>a b. (a, b) \<in> set pairs \<Longrightarrow> (f b :: nat) < f a"
    by blast
  show ?case
  proof (rule ranked_not_stuck [OF later(1,2) open_task, where f = f])
    fix t b assume t: "t \<in> set (tasks db2)" "t_plan_id t = pid" "t_status t = PENDING"
      and "b \<in> set (predecessor_ids (t_id t) db2)"
    then obtain d where d: "d \<in> set (task_dependencies db2)" "d_task_id d = t_id t" "d_depends_on d = b"
      by (auto simp: predecessor_ids_set)
    have mine: "t_id t \<in> set (f_task_ids r)" using t(1,2) unfolding later(3) [symmetric] by blast
    then have "d \<in> set (task_dependencies db')" using later(4) [of d] d(1,2) by metis
    then have "d \<in> set (task_dependencies db) \<or> d \<in> set (dependency_rows u 0 pid pairs)"
      unfolding 1(16) by simp
    moreover have "d \<notin> set (task_dependencies db)" using fresh [of d] mine d(2) by metis
    ultimately have "edge_of d \<in> set pairs"
      unfolding dependency_rows_edges [of u 0 pid pairs, symmetric] by blast
    then have e: "(t_id t, b) \<in> set pairs" by (simp add: edge_of_def d(2,3))
    then have "b \<in> set (f_task_ids r)" unfolding ids validate_dag_pairs [OF 1(10)] by blast
    then obtain s where s: "s \<in> set (tasks db2)" "t_plan_id s = pid" "t_id s = b"
      unfolding later(3) [symmetric] by blast
    show "\<exists>s\<in>set (tasks db2). t_id s = b \<and>
        (t_status s = SUCCEEDED \<or> t_plan_id s = pid \<and> t_status s = PENDING \<and> f b < f (t_id t))"
    proof (intro bexI [OF _ s(1)] conjI s(3))
      have "t_status s = PENDING \<or> t_status s = SUCCEEDED" using going [OF s(1,2)] by blast
      then show "t_status s = SUCCEEDED \<or> t_plan_id s = pid \<and> t_status s = PENDING \<and> f b < f (t_id t)"
        using s(2) f [OF e] by blast
    qed
  qed
qed

theorem published_plan_never_stuck_witness:
  "task_get_next_runnable ''P'' PENDING SUCCEEDED published_db \<noteq> None"
proof -
  have t: "tasks published_db = tasks (run_tx (finalize_plan 10 (demo_uuids ''f'') ''P'' ''T'' draft_db))"
    by (simp add: published_db_def)
  have c: "map (\<lambda>t. (t_id t, t_plan_id t, t_status t)) (tasks published_db) =
      [(''task_j0'', ''P'', PENDING), (''task_k0'', ''P'', PENDING)]"
    "map edge_of (task_dependencies published_db) = [(''task_k0'', ''task_j0'')]"
    "task_dependencies draft_db = []" by code_simp+
  obtain a b where ab: "tasks published_db = [a, b]" "t_id a = ''task_j0''" "t_plan_id a = ''P''"
    "t_status a = PENDING" "t_id b = ''task_k0''" "t_plan_id b = ''P''" "t_status b = PENDING"
    using c(1) by auto
  have ids: "f_task_ids draft_result = [''task_j0'', ''task_k0'']" by (simp add: draft_result_def)
  have "{t \<in> set (tasks published_db). t_plan_id t = ''P''} = {a, b}" using ab by auto
  then have set1: "t_id ` {t \<in> set (tasks published_db). t_plan_id t = ''P''} = set (f_task_ids draft_result)"
    using ab ids by auto
  show ?thesis
    by (rule published_plan_never_stuck [OF draft_db_inv demo_finalize _ _ _ set1, of a])
      (use ab c in auto)
qed

end
