(* ===== verification/Replan_Properties.thy ===== *)
theory Replan_Properties
  imports Planning_Properties
begin

text \<open>
  Properties of clarification and replanning: an answer is accepted once and requests exactly the
  next revision; a replan event has its effect once, whatever the number of its deliveries; at the
  revision limit the plan fails.
\<close>

section \<open>The answer to a clarification\<close>

text \<open>An event as the publisher and the stream hand it to the dispatcher.\<close>

definition delivered :: "outbox_event \<Rightarrow> runtime_event" where
  "delivered e = \<lparr>ev_id = e_id e, ev_type = event_type_value (e_type e), ev_payload = e_payload e\<rparr>"

lemma get_row_put_other_key:
  assumes "get_row k2 v rows = Some c" and "k2 c' = v" and "key c' = key c"
  shows "get_row k2 v (put_row key c' rows) = Some c'"
  using assms by (induction rows) (auto simp: table_simps put_row_def split: if_splits)

definition requested_revision :: "ident \<Rightarrow> ident \<Rightarrow> ident \<Rightarrow> plan \<Rightarrow> string \<Rightarrow> replan_event" where
  "requested_revision eid cid tid p trigger =
     \<lparr>re_event_id = eid, re_workflow_id = p_workflow_id p, re_conversation_id = cid,
      re_root_turn_id = tid, re_previous_plan_id = p_id p, re_next_revision = p_revision p + 1,
      re_trigger_type = trigger, re_source_task_id = None, re_error_code = None,
      re_error_message = None\<rparr>"

lemma answered_payload_routes:
  "route_event (delivered (new_outbox_event now h REPLAN_REQUESTED a (answered_payload p cid tid))) db =
     Inr (RunReplan (requested_revision (new_id ''event'' h) cid tid p ''clarification_answered''))"
  by (simp add: delivered_def new_outbox_event_def route_event_def answered_payload_def
      replan_requested_def replan_fields_def requested_revision_def)

text \<open>
  C16: An accepted answer is stored, without surrounding white space, in the turn that asked, marks
  the clarification answered and sets the turn to processing; it queues exactly one event, and the
  dispatcher turns that event into a replanning of exactly the asking plan with the next revision.
  Every second answer is rejected.
\<close>

theorem answer_requests_next_revision:
  assumes "answer_clarification now u cid tid answer db = Inr (r, db')"
  shows "(\<exists>p tn c e. plan_get_by_id r db = Some p \<and> p_status p = NEEDS_CLARIFICATION \<and>
      turn_get_by_id tid db = Some tn \<and> clarification_get_by_source_turn_id tid db = Some c \<and>
      c_status c = CL_OPEN \<and>
      turn_get_by_id tid db' = Some (tn\<lparr>tn_clarification_input := Some (py_strip answer),
        tn_status := PROCESSING\<rparr>) \<and>
      clarification_get_by_source_turn_id tid db' =
        Some (c\<lparr>c_status := CL_ANSWERED, c_answer_turn_id := Some tid\<rparr>) \<and>
      outbox db' = outbox db @ [e] \<and> plans db' = plans db \<and> tasks db' = tasks db \<and>
      (\<forall>db2. route_event (delivered e) db2 =
        Inr (RunReplan (requested_revision (e_id e) cid tid p ''clarification_answered'')))) \<and>
    (\<forall>now2 u2 cid2 answer2. is_error (answer_clarification now2 u2 cid2 tid answer2 db'))"
proof (intro conjI allI)
  obtain c tn p where a: "clarification_get_by_source_turn_id tid db = Some c"
    "turn_get_by_id tid db = Some tn" "plan_get_by_id (c_source_plan_id c) db = Some p"
    "c_status c = CL_OPEN" "p_status p = NEEDS_CLARIFICATION" "r = p_id p"
    "db' = db\<lparr>clarifications := put_row c_id
         (c\<lparr>c_status := CL_ANSWERED, c_answer_turn_id := Some tid\<rparr>) (clarifications db),
       turns := put_row tn_id
         (tn\<lparr>tn_clarification_input := Some (py_strip answer), tn_status := PROCESSING\<rparr>) (turns db),
       outbox := outbox db @ [new_outbox_event now (u 0) REPLAN_REQUESTED (p_id p)
         (answered_payload p cid tid)]\<rparr>"
    by (rule answer_effect [OF assms]) blast
  have "c_source_turn_id c = tid"
    using a(1) by (auto simp: clarification_get_by_source_turn_id_def dest: get_row_SomeD)
  then have c': "clarification_get_by_source_turn_id tid db' =
      Some (c\<lparr>c_status := CL_ANSWERED, c_answer_turn_id := Some tid\<rparr>)"
    using a(1) unfolding clarification_get_by_source_turn_id_def a(7)
    by (simp add: get_row_put_other_key)
  have "tn_id tn = tid" using a(2) by (rule turn_repo.fetch_key)
  then have tn': "turn_get_by_id tid db' =
      Some (tn\<lparr>tn_clarification_input := Some (py_strip answer), tn_status := PROCESSING\<rparr>)"
    using a(2) by (simp add: a(7) turn_get_by_id_def table_simps)
  have eff: "outbox db' = outbox db @ [new_outbox_event now (u 0) REPLAN_REQUESTED (p_id p)
      (answered_payload p cid tid)]" "plans db' = plans db" "tasks db' = tasks db"
    by (simp_all add: a(7))
  have route: "\<forall>db2. route_event (delivered (new_outbox_event now (u 0) REPLAN_REQUESTED (p_id p)
      (answered_payload p cid tid))) db2 = Inr (RunReplan (requested_revision
        (e_id (new_outbox_event now (u 0) REPLAN_REQUESTED (p_id p) (answered_payload p cid tid)))
        cid tid p ''clarification_answered''))"
    unfolding answered_payload_routes by (simp add: new_outbox_event_def)
  have p': "plan_get_by_id r db = Some p" using a(3,6) plan_repo.fetch_key by metis
  show "\<exists>p tn c e. plan_get_by_id r db = Some p \<and> p_status p = NEEDS_CLARIFICATION \<and>
      turn_get_by_id tid db = Some tn \<and> clarification_get_by_source_turn_id tid db = Some c \<and>
      c_status c = CL_OPEN \<and>
      turn_get_by_id tid db' = Some (tn\<lparr>tn_clarification_input := Some (py_strip answer),
        tn_status := PROCESSING\<rparr>) \<and>
      clarification_get_by_source_turn_id tid db' =
        Some (c\<lparr>c_status := CL_ANSWERED, c_answer_turn_id := Some tid\<rparr>) \<and>
      outbox db' = outbox db @ [e] \<and> plans db' = plans db \<and> tasks db' = tasks db \<and>
      (\<forall>db2. route_event (delivered e) db2 =
        Inr (RunReplan (requested_revision (e_id e) cid tid p ''clarification_answered'')))"
    by (intro exI conjI; (rule p' a(1,2,4,5) tn' c' eff route)?)
  show "is_error (answer_clarification now2 u2 cid2 tid answer2 db')" for now2 u2 cid2 answer2
    by (simp add: answer_clarification_def Let_def c' tn' split: option.splits)
qed

text \<open>The turn of the demonstration asks for the document and gets an answer.\<close>

definition question_input :: needs_clarification_input where
  "question_input = \<lparr>nc_plan_id = ''P'', nc_conversation_id = ''C'', nc_kind = ''resource'',
     nc_reason = ''which document'', nc_required_information = [''document''],
     nc_known_resource_refs = []\<rparr>"

definition asked_db :: db where
  "asked_db = run_tx (set_clarification_question ''P'' ''Which document?''
     (run_tx (mark_plan_needs_clarification 20 (demo_uuids ''q'') question_input fresh_db)))"

definition answered_db :: db where
  "answered_db = run_tx (answer_clarification 30 (demo_uuids ''r'') ''C'' ''T'' '' number 7 '' asked_db)"

lemma demo_answer:
  "answer_clarification 30 (demo_uuids ''r'') ''C'' ''T'' '' number 7 '' asked_db = Inr (''P'', answered_db)"
  by code_simp

theorem answer_requests_next_revision_witness:
  "is_error (answer_clarification 31 (demo_uuids ''s'') ''C'' ''T'' ''number 8'' answered_db) \<and>
   (\<exists>e. outbox answered_db = outbox asked_db @ [e])"
  using answer_requests_next_revision [OF demo_answer] by blast

section \<open>Delivery of a replan event\<close>

lemma updated_row_same:
  assumes "distinct (map p_id rows)" "q \<in> set rows"
  shows "map (p_updated_at_update (\<lambda>_. 0)) (put_row p_id (q\<lparr>p_updated_at := now\<rparr>) rows) =
    map (p_updated_at_update (\<lambda>_. 0)) rows"
  using distinct_key_eq [OF assms(1) _ assms(2)] by (auto simp: put_row_def)

text \<open>A recorded event: nothing but the planner's lease can change.\<close>

lemma recorded_event_idle:
  assumes "distinct (map p_id (plans db))" "inbox_exists replan_consumer (re_event_id ev) db"
  shows "\<exists>r db'. prepare_revision now u ev db = Inr (r, db') \<and> tasks db' = tasks db \<and>
    map (p_updated_at_update (\<lambda>_. 0)) (plans db') = map (p_updated_at_update (\<lambda>_. 0)) (plans db) \<and>
    outbox db' = outbox db \<and> turns db' = turns db \<and> inbox db' = inbox db"
proof -
  have "prepare_revision now u ev db = resume_prepared now ev db"
    using assms(2) by (simp add: prepare_revision_def)
  then show ?thesis
    using updated_row_same [OF assms(1)] workflow_revision_row
    by (auto simp: resume_prepared_def store_simps split: option.splits)
qed

lemma inbox_recorded: "replan_recorded ev db db' \<Longrightarrow> inbox_exists replan_consumer (re_event_id ev) db'"
  by (auto simp: replan_recorded_def inbox_exists_def)

lemma prepare_revision_records:
  assumes "prepare_revision now u ev db = Inr (r, db')"
  shows "inbox_exists replan_consumer (re_event_id ev) db'"
proof -
  have *: "inbox_exists k e (plan_save p db) = inbox_exists k e db" for k e p
    by (simp add: inbox_exists_def store_simps)
  show ?thesis
    using assms by (cases rule: prepare_revision_cases) (auto simp: inbox_recorded *)
qed

text \<open>
  C17: A replan event takes effect at its first delivery only: it is then recorded, and any later
  delivery, at any time, succeeds without touching tasks, turns, events or any plan beyond the
  lease time of a revision still being planned.  When the first delivery created a revision, a
  delivery within the planner's lease of 30 minutes starts no second planner run.
\<close>

theorem replan_event_once:
  assumes inv: "runtime_inv self db"
    and first: "prepare_revision now u ev db = Inr (r, db1)"
    and idle: "\<And>p. plan_get_by_id (re_previous_plan_id ev) db = Some p \<Longrightarrow> p_status p \<noteq> PLAN_RUNNING"
  shows "\<exists>r2 db2. prepare_revision now2 u2 ev db1 = Inr (r2, db2) \<and> tasks db2 = tasks db1 \<and>
    map (p_updated_at_update (\<lambda>_. 0)) (plans db2) = map (p_updated_at_update (\<lambda>_. 0)) (plans db1) \<and>
    outbox db2 = outbox db1 \<and> turns db2 = turns db1 \<and> inbox db2 = inbox db1 \<and>
    (\<not> inbox_exists replan_consumer (re_event_id ev) db \<longrightarrow>
     plan_get_by_workflow_and_revision (re_workflow_id ev) (re_next_revision ev) db = None \<longrightarrow>
     now2 < now + 1800 \<longrightarrow> r2 = None)"
proof -
  have d1: "distinct (map p_id (plans db1))"
    using runtime_inv_rows(2) [OF prepare_revision_inv [OF inv first idle]] .
  note rec = prepare_revision_records [OF first]
  have lease: "resume_prepared now2 ev db1 = Inr (None, db1)"
    if new: "\<not> inbox_exists replan_consumer (re_event_id ev) db"
      "plan_get_by_workflow_and_revision (re_workflow_id ev) (re_next_revision ev) db = None"
      and t: "now2 < now + 1800"
    using first
  proof (cases rule: prepare_revision_cases)
    case (limit prev tn)
    let ?m = "\<lambda>p. p_workflow_id p = re_workflow_id ev \<and> p_revision p = re_next_revision ev"
    have none: "\<not> ?m p" if "p \<in> set (plans db)" for p
      using new(2) that by (auto simp: plan_get_by_workflow_and_revision_def find_None_iff)
    have pm: "prev \<in> set (plans db)" using limit(2) fetched_rows(1) by blast
    have "\<not> ?m p" if "p \<in> set (plans db1)" for p
      using that none none [OF pm] unfolding limit(8)
      by (auto simp: put_row_def fail_at_revision_limit_def)
    then have "plan_get_by_workflow_and_revision (re_workflow_id ev) (re_next_revision ev) db1 = None"
      by (auto simp: plan_get_by_workflow_and_revision_def find_None_iff)
    then show ?thesis by (simp add: resume_prepared_def)
  next
    case (created prev)
    let ?m = "\<lambda>p. p_workflow_id p = re_workflow_id ev \<and> p_revision p = re_next_revision ev"
    have none: "\<not> ?m p" if "p \<in> set (plans db)" for p
      using new(2) that by (auto simp: plan_get_by_workflow_and_revision_def find_None_iff)
    have pm: "prev \<in> set (plans db)" using created(2) fetched_rows(1) by blast
    have "plan_get_by_workflow_and_revision (re_workflow_id ev) (re_next_revision ev) db1 = Some q \<Longrightarrow>
        q = next_plan now (u 0) ev" for q
      using none none [OF pm] unfolding plan_get_by_workflow_and_revision_def created(9)
      by (auto simp: put_row_def dest!: find_SomeD)
    then show ?thesis using t
      by (auto simp: resume_prepared_def next_plan_def PLANNER_RUN_LEASE_SECONDS_def split: option.splits)
  qed (use new in auto)
  have "prepare_revision now2 u2 ev db1 = resume_prepared now2 ev db1"
    using rec by (simp add: prepare_revision_def)
  then show ?thesis using recorded_event_idle [OF d1 rec, of now2 u2] lease by (metis sum.inject(2) prod.inject)
qed

text \<open>The answer of the demonstration is delivered.\<close>

definition demo_replan :: replan_event where
  "demo_replan = requested_revision ''event_r0'' ''C'' ''T''
     (demo_plan\<lparr>p_status := NEEDS_CLARIFICATION\<rparr>) ''clarification_answered''"

definition revised_db :: db where
  "revised_db = run_tx (prepare_revision 40 (demo_uuids ''t'') demo_replan answered_db)"

lemma demo_prepare:
  "prepare_revision 40 (demo_uuids ''t'') demo_replan answered_db = Inr (Some (''plan_t0'', 2), revised_db)"
  by code_simp

lemma answered_db_inv: "runtime_inv demo_self answered_db"
proof -
  have q: "mark_plan_needs_clarification 20 (demo_uuids ''q'') question_input fresh_db =
      Inr (the (run_val (mark_plan_needs_clarification 20 (demo_uuids ''q'') question_input fresh_db)),
        run_tx (mark_plan_needs_clarification 20 (demo_uuids ''q'') question_input fresh_db))"
    by code_simp
  have "set_clarification_question ''P'' ''Which document?''
      (run_tx (mark_plan_needs_clarification 20 (demo_uuids ''q'') question_input fresh_db)) =
      Inr (''Which document?'', asked_db)" by code_simp
  from answer_inv [OF set_question_inv [OF needs_clarification_inv [OF fresh_db_inv q] this] demo_answer]
  show ?thesis .
qed

lemma answered_idle: "plan_get_by_id ''P'' answered_db = Some p \<Longrightarrow> p_status p \<noteq> PLAN_RUNNING"
proof -
  have "map_option p_status (plan_get_by_id ''P'' answered_db) = Some NEEDS_CLARIFICATION" by code_simp
  then show "plan_get_by_id ''P'' answered_db = Some p \<Longrightarrow> p_status p \<noteq> PLAN_RUNNING" by simp
qed

theorem replan_event_once_witness:
  "\<exists>r2 db2. prepare_revision 50 (demo_uuids ''v'') demo_replan revised_db = Inr (r2, db2) \<and>
     tasks db2 = tasks revised_db \<and> outbox db2 = outbox revised_db"
proof -
  have "re_previous_plan_id demo_replan = ''P''" by code_simp
  then show ?thesis
    using replan_event_once [OF answered_db_inv demo_prepare, of 50 "demo_uuids ''v''"] answered_idle
    by auto
qed

text \<open>
  C18: The first delivery of a replan event whose revision does not exist yet: above three
  revisions the previous plan and the turn fail and the plan's unfinished tasks with it; otherwise
  the previous plan is superseded with exactly its unfinished tasks, finished tasks and the tasks
  of other plans stay as they are, and the next revision is being planned, with the previous plan
  as its parent.
\<close>

theorem replan_effect:
  assumes inv: "runtime_inv self db" and step: "prepare_revision now u ev db = Inr (r, db')"
    and new: "\<not> inbox_exists replan_consumer (re_event_id ev) db"
      "plan_get_by_workflow_and_revision (re_workflow_id ev) (re_next_revision ev) db = None"
    and prev: "plan_get_by_id (re_previous_plan_id ev) db = Some prev"
  shows "if 3 < re_next_revision ev
    then r = None \<and> plan_get_by_id (p_id prev) db' = Some (fail_at_revision_limit now prev) \<and>
      map_option tn_status (turn_get_by_id (re_root_turn_id ev) db') = Some TURN_FAILED \<and>
      tasks db' = map (stop_task (p_id prev) FAILED) (tasks db)
    else r = Some (new_id ''plan'' (u 0), re_next_revision ev) \<and>
      map_option p_status (plan_get_by_id (p_id prev) db') = Some PLAN_SUPERSEDED \<and>
      plan_get_by_id (new_id ''plan'' (u 0)) db' = Some (next_plan now (u 0) ev) \<and>
      tasks db' = map (stop_task (p_id prev) SUPERSEDED) (tasks db) \<and> turns db' = turns db"
  using step
proof (cases rule: prepare_revision_cases)
  case (limit prev' tn)
  have "prev' = prev" using limit(2) prev by simp
  moreover have "tn_id tn = re_root_turn_id ev" using limit(4) by (rule turn_repo.fetch_key)
  moreover have "p_id prev = re_previous_plan_id ev" using prev by (rule plan_repo.fetch_key)
  ultimately show ?thesis using limit prev
    by (simp add: MAX_PLAN_REVISIONS_def plan_get_by_id_def turn_get_by_id_def table_simps
        fail_at_revision_limit_def turn_set_status_def)
next
  case (created prev')
  have same: "prev' = prev" using created(2) prev by simp
  have id: "p_id prev = re_previous_plan_id ev" using prev by (rule plan_repo.fetch_key)
  let ?prev = "prev\<lparr>p_status := PLAN_SUPERSEDED, p_completed_at := Some now\<rparr>"
  have none: "get_row p_id (new_id ''plan'' (u 0)) (put_row p_id ?prev (plans db)) = None"
    using created(8) by (simp add: get_row_None_iff map_key_put_row flip: set_map)
  have "map_option p_status (plan_get_by_id (p_id prev) db') = Some PLAN_SUPERSEDED"
    using prev id by (simp add: plan_get_by_id_def created(9) same table_simps)
  moreover have "plan_get_by_id (new_id ''plan'' (u 0)) db' = Some (next_plan now (u 0) ev)"
    using none by (simp add: plan_get_by_id_def created(9) same get_row_append table_simps next_plan_def)
  ultimately show ?thesis using created same by (simp add: MAX_PLAN_REVISIONS_def)
qed (use new in auto)

theorem replan_effect_witness:
  "map_option p_status (plan_get_by_id ''P'' revised_db) = Some PLAN_SUPERSEDED \<and>
   turns revised_db = turns answered_db"
proof -
  have e: "re_previous_plan_id demo_replan = ''P''" "re_next_revision demo_replan = 2"
    "\<not> inbox_exists replan_consumer (re_event_id demo_replan) answered_db"
    "plan_get_by_workflow_and_revision (re_workflow_id demo_replan) (re_next_revision demo_replan)
       answered_db = None"
    "map_option p_id (plan_get_by_id ''P'' answered_db) = Some ''P''" by code_simp+
  then obtain p where p: "plan_get_by_id ''P'' answered_db = Some p" "p_id p = ''P''" by auto
  from replan_effect [OF answered_db_inv demo_prepare e(3,4), of p] p e(1,2) show ?thesis by simp
qed

end
