(* ===== verification/Evidence_Properties.thy ===== *)
theory Evidence_Properties
  imports Evidence
begin

text \<open>
  Evidence is faithful: every evidence item comes from exactly one tool call and its output in the
  run, no call is lost, and a collector's result reaches the planner unchanged.
\<close>

section \<open>Pairing calls and outputs\<close>

lemma collect_calls_Inr:
  assumes "collect_calls check items calls = Inr calls'" "distinct (map fst calls)"
  shows "distinct (map fst calls') \<and> set (map fst calls) \<subseteq> set (map fst calls') \<and>
    (\<forall>cid c. (cid, c) \<in> set calls' \<longrightarrow> (cid, c) \<in> set calls \<or>
       (\<exists>tool raw. ToolCallItem (Some cid) (Some tool) raw \<in> set items \<and> check tool raw = Inr c)) \<and>
    (\<forall>cid tool raw. ToolCallItem cid tool raw \<in> set items \<longrightarrow>
       (\<exists>k. cid = Some k \<and> k \<in> set (map fst calls')))"
  using assms
proof (induction check items calls rule: collect_calls.induct)
  case (2 check cid tool raw items calls)
  from "2.prems"(1) have g: "given cid" "given tool" "the cid \<notin> fst ` set calls"
    by (auto split: if_splits)
  then obtain k t where kt: "cid = Some k" "tool = Some t" by (auto simp: given_def)
  from "2.prems"(1) g obtain c where c: "check t raw = Inr c"
    "collect_calls check items (calls @ [(k, c)]) = Inr calls'"
    by (auto simp: kt bind_eq_Inr split: if_splits)
  have "distinct (map fst (calls @ [(k, c)]))" using "2.prems"(2) g(3) kt by auto
  from "2.IH" [of c] this c(2) g kt have IH: "distinct (map fst calls') \<and>
    set (map fst (calls @ [(k, c)])) \<subseteq> set (map fst calls') \<and>
    (\<forall>cid c'. (cid, c') \<in> set calls' \<longrightarrow> (cid, c') \<in> set (calls @ [(k, c)]) \<or>
       (\<exists>tool raw. ToolCallItem (Some cid) (Some tool) raw \<in> set items \<and> check tool raw = Inr c')) \<and>
    (\<forall>cid tool raw. ToolCallItem cid tool raw \<in> set items \<longrightarrow>
       (\<exists>k. cid = Some k \<and> k \<in> set (map fst calls')))"
    by simp
  then show ?case using c(1) kt by (auto 4 4)
qed auto

lemma pair_outputs_Inr:
  assumes "pair_outputs build calls items consumed = Inr rs"
  shows "distinct (map fst rs) \<and> set (map fst rs) \<inter> set consumed = {} \<and>
    set (map fst calls) \<subseteq> set consumed \<union> set (map fst rs) \<and>
    (\<forall>cid r. (cid, r) \<in> set rs \<longrightarrow> (\<exists>c out. map_of calls cid = Some c \<and>
       ToolCallOutputItem (Some cid) out \<in> set items \<and> build cid c out = Inr r))"
  using assms
proof (induction build calls items consumed arbitrary: rs rule: pair_outputs.induct)
  case (2 build calls cid out items consumed)
  then obtain k where k: "cid = Some k" by (auto simp: given_def split: if_splits)
  from "2.prems" k obtain c r rs' where c: "map_of calls k = Some c" "k \<notin> set consumed"
    "build k c out = Inr r" "pair_outputs build calls items (k # consumed) = Inr rs'"
    "rs = (k, r) # rs'" "given cid"
    by (auto simp: bind_eq_Inr split: if_splits option.splits)
  have "distinct (map fst rs') \<and> set (map fst rs') \<inter> set (the cid # consumed) = {} \<and>
    set (map fst calls) \<subseteq> set (the cid # consumed) \<union> set (map fst rs') \<and>
    (\<forall>cid r. (cid, r) \<in> set rs' \<longrightarrow> (\<exists>c out. map_of calls cid = Some c \<and>
       ToolCallOutputItem (Some cid) out \<in> set items \<and> build cid c out = Inr r))"
    using c(1,2,4,6) k by (intro "2.IH") auto
  then show ?case using c k by (auto 4 4)
qed (auto split: if_splits)

section \<open>Evidence items\<close>

text \<open>The calls and the outputs of a run, in their order.\<close>

fun run_calls :: "run_item list \<Rightarrow> (string \<times> string \<times> json_text option) list" where
  "run_calls [] = []"
| "run_calls (ToolCallItem (Some cid) (Some tool) raw # items) = (cid, tool, raw) # run_calls items"
| "run_calls (_ # items) = run_calls items"

fun run_outputs :: "run_item list \<Rightarrow> (string \<times> tool_output) list" where
  "run_outputs [] = []"
| "run_outputs (ToolCallOutputItem (Some cid) out # items) = (cid, out) # run_outputs items"
| "run_outputs (_ # items) = run_outputs items"

lemma in_run_calls: "(cid, tool, raw) \<in> set (run_calls items) \<longleftrightarrow> ToolCallItem (Some cid) (Some tool) raw \<in> set items"
  by (induction items rule: run_calls.induct) auto

lemma collect_calls_keys:
  "collect_calls check items calls = Inr calls' \<Longrightarrow> map fst calls' = map fst calls @ map fst (run_calls items)"
proof (induction check items calls rule: collect_calls.induct)
  case (2 check cid tool raw items calls)
  then obtain k t where kt: "cid = Some k" "tool = Some t" by (auto simp: given_def split: if_splits)
  with 2 show ?case by (auto simp: bind_eq_Inr split: if_splits)
qed auto

lemma pair_outputs_order:
  "pair_outputs build calls items consumed = Inr rs \<Longrightarrow>
     list_all2 (\<lambda>(cid, out) (k, r). k = cid \<and> (\<exists>c. map_of calls cid = Some c \<and> build cid c out = Inr r))
       (run_outputs items) rs"
proof (induction build calls items consumed arbitrary: rs rule: pair_outputs.induct)
  case (2 build calls cid out items consumed)
  then obtain k where k: "cid = Some k" by (auto simp: given_def split: if_splits)
  from "2.prems" k obtain c r rs' where "map_of calls k = Some c" "k \<notin> set consumed" "build k c out = Inr r"
    "pair_outputs build calls items (k # consumed) = Inr rs'" "rs = (k, r) # rs'" "given cid"
    by (auto simp: bind_eq_Inr split: if_splits option.splits)
  moreover from this have "list_all2 (\<lambda>(cid, out) (k, r). k = cid \<and> (\<exists>c. map_of calls cid = Some c \<and> build cid c out = Inr r))
      (run_outputs items) rs'" using k by (intro "2.IH") auto
  ultimately show ?case using k by auto
qed (auto split: if_splits)

lemma as_outcome_Inr: "as_outcome j = Inr oc \<longleftrightarrow> j = Some (JStr (outcome_value oc))"
  by (cases oc; cases j rule: as_outcome.cases) (auto split: if_splits)

lemma as_string_Inr: "as_string j = Inr s \<longleftrightarrow> j = Some (JStr s)"
  by (cases j rule: as_string.cases) auto

lemma as_text_Inr: "as_text j = Inr s \<longleftrightarrow> j = Some (JStr s) \<and> s \<noteq> []"
  by (auto simp: bind_eq_Inr as_string_Inr)

lemma as_strings_Inr: "as_strings js = Inr ss \<longleftrightarrow> js = map JStr ss"
  by (induction js arbitrary: ss) (auto simp: bind_eq_Inr as_string_Inr)

lemma as_string_list_Inr: "as_string_list (Some j) = Inr ss \<longleftrightarrow> j = JList (map JStr ss)"
  by (cases j) (auto simp: as_strings_Inr)

text \<open>
  What an evidence item has to say of a call and of the output that the run has for it.  A flag is
  read from a JSON boolean, or from one of the numbers and words that stand for one.
\<close>

definition tells_output :: "string \<times> json_text option \<Rightarrow> tool_output \<Rightarrow> evidence_item \<Rightarrow> bool" where
  "tells_output call out e \<longleftrightarrow> (case call of (tool, raw) \<Rightarrow>
     ei_tool_name e = tool \<and> extract_tool_arguments raw = Inr (ei_arguments e) \<and>
     (\<exists>data. normalize_tool_output out = Inr data \<and>
       json_get data ''outcome'' = Some (JStr (outcome_value (ei_outcome e))) \<and>
       json_get data ''result_code'' = Some (JStr (ei_result_code e)) \<and>
       json_get data ''message'' = Some (JStr (ei_message e)) \<and>
       (\<forall>b. json_get data ''retryable'' = Some (JBool b) \<longrightarrow> ei_retryable e = b) \<and>
       as_bool (json_get data ''retryable'') = Inr (ei_retryable e) \<and>
       json_get data ''resource_refs'' = Some (JList (map JStr (ei_resource_refs e))) \<and>
       ei_payload e = JObj (filter (\<lambda>(k, v). k \<notin>
         {''outcome'', ''result_code'', ''message'', ''retryable'', ''resource_refs''}) (object_fields data))))"

lemma json_get_field: "k \<in> set (map fst (object_fields data)) \<Longrightarrow> json_get data k \<noteq> None"
  by (cases data) (auto simp: map_of_eq_None_iff)

lemma evidence_output_tells:
  assumes "evidence_output cid cl out = Inr e" "evidence_call tool raw = Inr cl"
  shows "ei_tool_call_id e = cid \<and> tells_output (tool, raw) out e"
proof -
  from assms(1) obtain data where data: "normalize_tool_output out = Inr data"
    "validate_tool_output_envelope data = Inr ()" "evidence_item_of cid (fst cl) (snd cl) data = Inr e"
    by (auto simp: evidence_output_def bind_eq_Inr)
  have "''resource_refs'' \<in> set (map fst (object_fields data))"
    using data(2) by (auto simp: validate_tool_output_envelope_def COMMON_EVIDENCE_FIELDS_def split: if_splits)
  then obtain j where "json_get data ''resource_refs'' = Some j" using json_get_field by blast
  with data(3) have "json_get data ''resource_refs'' = Some (JList (map JStr (ei_resource_refs e)))"
    by (auto simp: evidence_item_of_def bind_eq_Inr as_string_list_Inr simp del: as_string_list.simps)
  with data assms(2) show ?thesis
    by (auto simp: tells_output_def evidence_call_def evidence_item_of_def bind_eq_Inr as_outcome_Inr as_string_Inr
        as_text_Inr payload_of_def COMMON_EVIDENCE_FIELDS_def simp del: as_text.simps)
qed

text \<open>
  C21: The evidence of a run is exactly what its tools returned: no call id is used twice, every call
  has one output, and there is one item per output, in the order of the outputs.  Each item has the
  id, the tool name and the arguments of the call that its output answers, and of the output the
  outcome, the result code, the message, the retryable flag, the resource references and, as
  payload, all the other fields.
\<close>

theorem evidence_is_tool_output:
  assumes "extract_evidence_items items = Inr evs"
  shows "distinct (map fst (run_calls items)) \<and> distinct (map fst (run_outputs items)) \<and>
    set (map fst (run_outputs items)) = set (map fst (run_calls items)) \<and>
    list_all2 (\<lambda>(cid, out) e. ei_tool_call_id e = cid \<and>
        (\<exists>call. (cid, call) \<in> set (run_calls items) \<and> tells_output call out e)) (run_outputs items) evs"
proof -
  from assms obtain calls rs where c: "collect_calls evidence_call items [] = Inr calls"
    "pair_outputs evidence_output calls items [] = Inr rs" "evs = map snd rs"
    by (auto simp: extract_evidence_items_def bind_eq_Inr)
  have nil: "distinct (map fst ([] :: (string \<times> string \<times> json) list))" by simp
  note C = collect_calls_Inr [OF c(1) nil] and P = pair_outputs_Inr [OF c(2), simplified]
  have keys: "map fst calls = map fst (run_calls items)" using collect_calls_keys [OF c(1)] by simp
  note order = pair_outputs_order [OF c(2)]
  have outs: "map fst (run_outputs items) = map fst rs"
    using order by (induction rule: list_all2_induct) auto
  have "\<exists>call. (cid, call) \<in> set (run_calls items) \<and> ei_tool_call_id e = cid \<and> tells_output call out e"
    if "map_of calls cid = Some cl" "evidence_output cid cl out = Inr e" for cid cl out e
  proof -
    from that(1) C obtain tool raw where "ToolCallItem (Some cid) (Some tool) raw \<in> set items"
      "evidence_call tool raw = Inr cl" by (metis empty_iff list.set(1) map_of_SomeD)
    then show ?thesis using evidence_output_tells [OF that(2)] in_run_calls by blast
  qed
  then have "list_all2 (\<lambda>(cid, out) e. ei_tool_call_id e = cid \<and>
      (\<exists>call. (cid, call) \<in> set (run_calls items) \<and> tells_output call out e)) (run_outputs items) evs"
    using order unfolding c(3) list_all2_map2 by (elim list_all2_mono) fastforce
  moreover have "set (map fst rs) = set (map fst calls)"
  proof
    show "set (map fst rs) \<subseteq> set (map fst calls)"
      using P by (force dest: map_of_SomeD intro: rev_image_eqI)
    show "set (map fst calls) \<subseteq> set (map fst rs)" using P by simp
  qed
  ultimately show ?thesis using C P keys outs by metis
qed

definition demo_items :: "run_item list" where
  "demo_items =
     [ToolCallItem (Some ''c1'') (Some ''get_document'') (Some (Text (JObj [(''document_id'', JInt 7)]))),
      OtherItem,
      ToolCallOutputItem (Some ''c1'') (OutObject (JObj
        [(''outcome'', JStr ''succeeded''), (''result_code'', JStr ''document_found''),
         (''message'', JStr ''found''), (''retryable'', JBool False),
         (''resource_refs'', JList [JStr ''document:7'']), (''status'', JStr ''parsed'')]))]"

definition demo_evidence :: "evidence_item list" where
  "demo_evidence = (case extract_evidence_items demo_items of Inr es \<Rightarrow> es | Inl _ \<Rightarrow> [])"

lemma demo_extract: "extract_evidence_items demo_items = Inr demo_evidence"
  by code_simp

theorem evidence_is_tool_output_witness:
  "\<exists>e. demo_evidence = [e] \<and> ei_tool_call_id e = ''c1'' \<and> ei_tool_name e = ''get_document'' \<and> \<not> ei_retryable e \<and>
     ei_resource_refs e = [''document:7''] \<and> ei_payload e = JObj [(''status'', JStr ''parsed'')]"
proof -
  let ?out = "OutObject (JObj [(''outcome'', JStr ''succeeded''), (''result_code'', JStr ''document_found''),
     (''message'', JStr ''found''), (''retryable'', JBool False),
     (''resource_refs'', JList [JStr ''document:7'']), (''status'', JStr ''parsed'')])"
  have calls: "run_calls demo_items = [(''c1'', ''get_document'', Some (Text (JObj [(''document_id'', JInt 7)])))]"
    and out: "run_outputs demo_items = [(''c1'', ?out)]" by (simp_all add: demo_items_def)
  from evidence_is_tool_output [OF demo_extract] have "list_all2 (\<lambda>(cid, out) e. ei_tool_call_id e = cid \<and>
      (\<exists>call. (cid, call) \<in> set (run_calls demo_items) \<and> tells_output call out e)) (run_outputs demo_items) demo_evidence"
    by (elim conjE)
  then obtain e where e: "demo_evidence = [e]" "ei_tool_call_id e = ''c1''"
    "\<exists>call. (''c1'', call) \<in> set (run_calls demo_items) \<and> tells_output call ?out e"
    unfolding out list_all2_Cons1 list_all2_Nil by auto
  have "tells_output (''get_document'', Some (Text (JObj [(''document_id'', JInt 7)]))) ?out e" using e(3) by (simp add: calls)
  then have told: "ei_tool_name e = ''get_document''" "\<not> ei_retryable e" "map JStr (ei_resource_refs e) = [JStr ''document:7'']"
     "ei_payload e = JObj [(''status'', JStr ''parsed'')]"
    by (simp_all add: tells_output_def normalize_tool_output_def)
  from told(3) have "ei_resource_refs e = [''document:7'']" by (auto simp: map_eq_Cons_conv)
  then show ?thesis using e(1,2) told(1,2,4) by blast
qed

section \<open>Collector results\<close>

fun is_object :: "json \<Rightarrow> bool" where
  "is_object (JObj kvs) \<longleftrightarrow> True"
| "is_object _ \<longleftrightarrow> False"

definition valid_item :: "evidence_item \<Rightarrow> bool" where
  "valid_item e \<longleftrightarrow> ei_tool_name e \<noteq> [] \<and> ei_tool_call_id e \<noteq> [] \<and> ei_result_code e \<noteq> [] \<and>
     is_object (ei_arguments e) \<and> is_object (ei_payload e)"

lemma as_strings_map [simp]: "as_strings (map JStr ss) = Inr ss"
  by (induction ss) simp_all

lemma as_object_id [simp]: "is_object j \<Longrightarrow> as_object (Some j) = Inr j"
  by (cases j) simp_all

lemma as_outcome_value [simp]: "as_outcome (Some (JStr (outcome_value oc))) = Inr oc"
  by (cases oc) simp_all

declare as_outcome.simps [simp del]

lemma parse_dump_item: "valid_item e \<Longrightarrow> parse_item (dump_item e) = Inr e"
  by (simp add: parse_item_def dump_item_def valid_item_def)

lemma parse_dump_items: "(\<And>e. e \<in> set es \<Longrightarrow> valid_item e) \<Longrightarrow> parse_items (map dump_item es) = Inr es"
  by (induction es) (simp_all add: parse_dump_item)

lemma as_text_nonempty: "as_text j = Inr s \<Longrightarrow> s \<noteq> []"
  by (auto simp: bind_eq_Inr split: if_splits)

lemma extracted_valid:
  assumes "extract_evidence_items items = Inr evs" "e \<in> set evs"
  shows "valid_item e"
proof -
  from assms obtain calls rs where c: "collect_calls evidence_call items [] = Inr calls"
    "pair_outputs evidence_output calls items [] = Inr rs" "evs = map snd rs"
    by (auto simp: extract_evidence_items_def bind_eq_Inr)
  from assms(2) c(3) obtain cid where "(cid, e) \<in> set rs" by auto
  with pair_outputs_Inr [OF c(2)] obtain cl out where co: "map_of calls cid = Some cl"
    "evidence_output cid cl out = Inr e" by blast
  have calls: "\<forall>(k, v)\<in>set calls'. k \<noteq> [] \<and> fst v \<noteq> [] \<and> is_object (snd v)"
    if "collect_calls evidence_call its acc = Inr calls'"
      "\<forall>(k, v)\<in>set acc. k \<noteq> [] \<and> fst v \<noteq> [] \<and> is_object (snd v)" for its acc calls'
    using that
  proof (induction evidence_call its acc rule: collect_calls.induct)
    case (2 ci tool raw its acc)
    then obtain k t where kt: "ci = Some k" "tool = Some t" "k \<noteq> []" "t \<noteq> []"
      by (auto simp: given_def split: if_splits)
    with "2.prems" obtain v where v: "evidence_call t raw = Inr v"
      "collect_calls evidence_call its (acc @ [(k, v)]) = Inr calls'" "the ci \<notin> fst ` set acc"
      by (auto simp: bind_eq_Inr split: if_splits)
    have "fst v \<noteq> [] \<and> is_object (snd v)"
      using v(1) kt by (auto simp: evidence_call_def bind_eq_Inr extract_tool_arguments_def
          split: option.splits json_text.splits json.splits)
    then show ?case using "2.hyps"(1) [of v] "2.prems" v kt by (auto simp: given_def)
  qed auto
  have cl: "cid \<noteq> [] \<and> fst cl \<noteq> [] \<and> is_object (snd cl)"
    using calls [OF c(1)] map_of_SomeD [OF co(1)] by auto
  from co(2) obtain data where data: "evidence_item_of cid (fst cl) (snd cl) data = Inr e"
    by (auto simp: evidence_output_def bind_eq_Inr)
  then have "ei_result_code e \<noteq> []" using as_text_nonempty
    by (auto simp: evidence_item_of_def bind_eq_Inr simp del: as_text.simps)
  then show ?thesis using data cl
    by (auto simp: evidence_item_of_def bind_eq_Inr valid_item_def payload_of_def simp del: as_text.simps)
qed

text \<open>
  What a collector found reaches the planner unchanged: the result it dumps as JSON is read
  back as the same result by the planner's evidence run that called this collector.
\<close>

theorem collector_result_roundtrip:
  assumes "collector_output code summary gaps items = Inr r"
    and "(tool, code) \<in> set COLLECTOR_TOOL_CODES"
    and "cid \<noteq> []"
  shows "extract_collector_results
    [ToolCallItem (Some cid) (Some tool) raw,
     ToolCallOutputItem (Some cid) (OutText (Text (dump_result r)))] = Inr [r]"
proof -
  from assms(1) obtain evs where e: "summary \<noteq> []" "extract_evidence_items items = Inr evs"
    "r = \<lparr>co_collector_code = code, co_summary = summary, co_gaps = gaps,
      co_resource_refs = dedup (concat (map ei_resource_refs evs)), co_evidence_items = evs\<rparr>"
    by (auto simp: collector_output_def bind_eq_Inr)
  have code: "code \<in> set (map snd COLLECTOR_TOOL_CODES)" "code \<noteq> []" "tool \<noteq> []"
    "map_of COLLECTOR_TOOL_CODES tool = Some code"
    using assms(2) by (auto simp: COLLECTOR_TOOL_CODES_def)
  have items: "parse_items (map dump_item evs) = Inr evs"
    using extracted_valid [OF e(2)] by (rule parse_dump_items)
  have parse: "parse_result (dump_result r) = Inr r"
    using e(1) items code(1,2) by (simp add: parse_result_def dump_result_def e(3) require_def)
  obtain kvs where kvs: "dump_result r = JObj kvs" by (simp add: dump_result_def)
  then have "collector_reply cid code (OutText (Text (dump_result r))) = Inr r"
    using parse by (simp add: collector_reply_def normalize_tool_output_def e(3))
  then show ?thesis using code assms(3)
    by (simp add: extract_collector_results_def given_def collector_call_def)
qed

theorem collector_result_roundtrip_witness:
  "\<exists>r. collector_output ''document_collector'' ''the document is parsed'' [] demo_items = Inr r \<and>
     co_resource_refs r = [''document:7''] \<and>
     extract_collector_results
       [ToolCallItem (Some ''k'') (Some ''collect_document_information'') None,
        ToolCallOutputItem (Some ''k'') (OutText (Text (dump_result r)))] = Inr [r]"
proof -
  let ?r = "\<lparr>co_collector_code = ''document_collector'', co_summary = ''the document is parsed'',
    co_gaps = [], co_resource_refs = [''document:7''], co_evidence_items = demo_evidence\<rparr>"
  have "collector_output ''document_collector'' ''the document is parsed'' [] demo_items = Inr ?r"
    by code_simp
  from collector_result_roundtrip [OF this, of "''collect_document_information''" "''k''" None] this
  show ?thesis by (intro exI [of _ ?r]) (simp add: COLLECTOR_TOOL_CODES_def)
qed

end
