(* ===== verification/Planner_Safety.thy ===== *)
theory Planner_Safety
  imports Planning_Safety Planning_Run
begin

text \<open>
  What a planner run can do to the database: only the transactions of planning, so whatever they
  keep, every run keeps (locale \<open>planning_invariant\<close>); the shape of the graph's runs; the final
  reading of the plan.
\<close>

section \<open>Invariants of planner runs\<close>

text \<open>The contract of a predicate that every planning transaction on the plan \<open>pid\<close> keeps.\<close>

locale planning_invariant =
  fixes I :: "db \<Rightarrow> bool" and pid :: ident
  assumes keep_create_task: "I db \<Longrightarrow> ct_plan_id c = pid \<Longrightarrow>
      create_document_task cap u c db = Inr (t, db') \<Longrightarrow> I db'"
    and keep_finalize: "I db \<Longrightarrow> finalize_plan now u pid tid db = Inr (r, db') \<Longrightarrow> I db'"
    and keep_mark: "target \<in> {UNSUPPORTED, RETRY_PENDING} \<Longrightarrow> I db \<Longrightarrow>
      mark_plan target now u pid reason db = Inr (p, db') \<Longrightarrow> I db'"
    and keep_clarify: "I db \<Longrightarrow> nc_plan_id nc = pid \<Longrightarrow>
      mark_plan_needs_clarification now u nc db = Inr (p, db') \<Longrightarrow> I db'"
    and keep_question: "I db \<Longrightarrow> set_clarification_question pid q db = Inr (s, db') \<Longrightarrow> I db'"
begin

lemma audited_keeps:
  assumes "I db" and "\<And>v db'. op db = Inr (v, db') \<Longrightarrow> I db'"
  shows "I (snd (snd (execute_audited_tool_call granted req refs code op db)))"
  using assms by (auto simp: execute_audited_tool_call_def Let_def bind_def split: sum.splits)

lemma scope_plan:
  "ac_plan_id ctx = Some pid \<Longrightarrow> planning_scope ctx = Inr (p, tid) \<Longrightarrow> p = pid"
  "ac_plan_id ctx = Some pid \<Longrightarrow> planner_scope ctx = Inr (p, cid) \<Longrightarrow> p = pid"
  by (auto simp: planning_scope_def planner_scope_def split: bool.splits option.splits if_splits)

lemma call_keeps:
  assumes "I db" "ac_plan_id ctx = Some pid" shows "I (snd (snd (run_planning_call now u ctx call db)))"
proof (cases call)
  case (CreateTask cap a)
  have "I (snd (snd (execute_audited_tool_call (ac_permissions ctx) [PLANNING_WRITE_PERMISSION]
      (context_refs ctx) (created_code cap) (\<lambda>db. bind (planning_scope ctx) (\<lambda>(pid, tid).
        create_document_task cap u (create_task_input_of pid tid a) db)) db)))"
  proof (rule audited_keeps [OF assms(1)])
    fix t db'
    assume "bind (planning_scope ctx) (\<lambda>(pid, tid).
      create_document_task cap u (create_task_input_of pid tid a) db) = Inr (t, db')"
    then obtain p tid where s: "planning_scope ctx = Inr (p, tid)"
      and c: "create_document_task cap u (create_task_input_of p tid a) db = Inr (t, db')"
      by (auto simp: bind_eq_Inr)
    have "ct_plan_id (create_task_input_of p tid a) = pid"
      using scope_plan(1) [OF assms(2) s] by (simp add: create_task_input_of_def)
    from keep_create_task [OF assms(1) this c] show "I db'" .
  qed
  then show ?thesis using assms
    by (auto simp: CreateTask run_planning_call_def create_task_handler_def split: prod.splits sum.splits)
next
  case FinalizePlan
  have "I (snd (snd (execute_audited_tool_call (ac_permissions ctx) [PLANNING_WRITE_PERMISSION]
      (context_refs ctx) ''plan_finalized''
      (\<lambda>db. bind (planning_scope ctx) (\<lambda>(pid, tid). finalize_plan now u pid tid db)) db)))"
    using assms keep_finalize [OF assms(1)] scope_plan(1) [OF assms(2)]
    by (intro audited_keeps) (auto simp: bind_eq_Inr)
  then show ?thesis
    by (auto simp: FinalizePlan run_planning_call_def finalize_plan_handler_def split: prod.splits sum.splits)
next
  case (MarkUnsupported reason)
  have "I (snd (snd (execute_audited_tool_call (ac_permissions ctx) [PLANNING_WRITE_PERMISSION]
      (context_refs ctx) ''plan_marked_unsupported''
      (\<lambda>db. bind (planning_scope ctx) (\<lambda>(pid, _). mark_plan_unsupported now u pid reason db)) db)))"
    using assms keep_mark [of UNSUPPORTED, OF _ assms(1)] scope_plan(1) [OF assms(2)]
    by (intro audited_keeps) (auto simp: bind_eq_Inr mark_plan_unsupported_def)
  then show ?thesis using assms
    by (auto simp: MarkUnsupported run_planning_call_def mark_plan_unsupported_handler_def
        split: prod.splits sum.splits)
qed

lemma clarify_keeps:
  assumes "I db" "ac_plan_id ctx = Some pid" "mark_gap_clarification now u ctx h db = Inr (p, db')"
  shows "I db'"
proof -
  obtain q cid where s: "planner_scope ctx = Inr (q, cid)"
    and c: "mark_plan_needs_clarification now u
       \<lparr>nc_plan_id = q, nc_conversation_id = cid, nc_kind = hi_kind h, nc_reason = hi_reason h,
        nc_required_information = hi_required_information h,
        nc_known_resource_refs = hi_known_resource_refs h\<rparr> db = Inr (p, db')"
    using assms(3) by (auto simp: mark_gap_clarification_def bind_eq_Inr)
  show ?thesis by (rule keep_clarify [OF assms(1) _ c]) (simp add: scope_plan(2) [OF assms(2) s])
qed

lemma commit_keeps:
  "I db \<Longrightarrow> ac_plan_id ctx = Some pid \<Longrightarrow> I (snd (run_commit ctx steps final db))"
proof (induction ctx steps final db rule: run_commit.induct)
  case (3 ctx now u h steps final db)
  show ?case
  proof (cases "mark_gap_clarification now u ctx h db")
    case (Inr pr)
    then obtain p db' where pr: "mark_gap_clarification now u ctx h db = Inr (p, db')" by (cases pr) auto
    then have "I db'"
      by (rule clarify_keeps [OF 3(2,3)])
    then show ?thesis using 3 pr by auto
  qed (use 3(2) in simp)
qed (auto simp: call_keeps)

lemma node_keeps:
  assumes "I (wf_db w)" "ac_plan_id ctx = Some pid" shows "I (wf_db (snd (run_node ag ctx nd w)))"
proof -
  have commit: "I (wf_db (snd (commit_with ag ctx d w)))" for d
  proof (cases "commit_agent ag d")
    case (Pair steps final)
    have "I (snd (run_commit ctx steps final (wf_db w)))" using assms by (rule commit_keeps)
    then show ?thesis by (auto simp: commit_with_def Pair split: prod.splits sum.splits)
  qed
  have resolve: "I (wf_db (snd (resolve_gap_decision ag ctx d w)))" for d
  proof (cases "gd_action d")
    case UNSUPPORTED_ACTION
    then show ?thesis using assms keep_mark [of UNSUPPORTED, OF _ assms(1)] scope_plan(2) [OF assms(2)]
      by (auto simp: resolve_gap_decision_def mark_gap_unsupported_def mark_plan_unsupported_def
          bind_eq_Inr split: sum.splits)
  next
    case CLARIFICATION
    then show ?thesis using assms clarify_keeps [OF assms]
      by (auto simp: resolve_gap_decision_def split: sum.splits)
  qed (use assms commit in \<open>simp_all add: resolve_gap_decision_def\<close>)
  show ?thesis
    using assms commit resolve
    by (cases nd) (auto simp: add_round_def run_gap_handler_def split: sum.splits option.splits)
qed

lemma graph_keeps:
  "I (wf_db w) \<Longrightarrow> ac_plan_id ctx = Some pid \<Longrightarrow> run_graph n ag ctx nd w = Some (r, w') \<Longrightarrow> I (wf_db w')"
proof (induction n arbitrary: nd w)
  case (Suc n)
  have "I (wf_db (snd (run_node ag ctx nd w)))" using Suc.prems(1,2) by (rule node_keeps)
  then show ?case using Suc by (auto split: prod.splits sum.splits option.splits)
qed (simp add: run_graph.simps)

lemma planner_run_keeps:
  assumes "I db" "ac_plan_id ctx = Some pid" shows "I (snd (planner_run ag ctx db))"
  using assms graph_keeps [of "initial_workflow db"]
  by (auto simp: planner_run_def initial_workflow_def split: option.splits prod.splits sum.splits)

lemma finish_keeps:
  assumes "I db" shows "I (snd (finish_from_database now u pid tid reason db))"
  using assms keep_mark [of RETRY_PENDING, OF _ assms]
  by (auto simp: finish_from_database_def mark_plan_retry_pending_def split: sum.splits)

theorem run_keeps:
  assumes "I db" shows "I (snd (run_existing_plan now u ag c pid db))"
proof -
  obtain r db1 where r: "planner_run ag (planner_context c pid) db = (r, db1)" by force
  have 1: "I db1"
    using planner_run_keeps [OF assms, of "planner_context c pid" ag] r by (simp add: planner_context_def)
  have 2: "I db2" if "set_clarification_question pid q db1 = Inr (s, db2)" for q s db2
    using keep_question [OF 1 that] .
  show ?thesis
    using 1 2 by (auto simp: run_existing_plan_def r bind_def finish_keeps split: sum.splits option.splits)
qed

end

text \<open>The runtime invariant is one.\<close>

interpretation runtime_kept: planning_invariant "runtime_inv self" pid for self pid
  by unfold_locales
    (blast intro: create_document_task_inv finalize_inv mark_plan_inv needs_clarification_inv
      set_question_inv)+

section \<open>Runs of the graph\<close>

text \<open>A run visits at most five nodes and collects at most two rounds of evidence.\<close>

lemma final_nodes:
  "run_graph (Suc n) ag ctx commit_plan w \<noteq> None" "run_graph (Suc n) ag ctx resolve_gap w \<noteq> None"
  by (auto split: prod.splits sum.splits)

declare run_graph.simps [simp del]

lemma step_of_graph:
  assumes "\<And>w' nd'. next_node nd w' = Some nd' \<Longrightarrow> run_graph n ag ctx nd' w' \<noteq> None"
  shows "run_graph (Suc n) ag ctx nd w \<noteq> None"
  using assms by (fastforce simp: run_graph.simps(2) split: prod.splits sum.splits option.splits)

lemma graph_terminates: "run_graph 5 ag ctx collect_initial_evidence w \<noteq> None"
proof -
  have 2: "run_graph (Suc (Suc n)) ag ctx assess_final_gap w \<noteq> None" for n w
    by (rule step_of_graph) (metis final_nodes(2) next_node.simps(4) option.inject)
  have 3: "run_graph (Suc (Suc (Suc n))) ag ctx collect_follow_up_evidence w \<noteq> None" for n w
    by (rule step_of_graph) (metis 2 next_node.simps(3) option.inject)
  have 4: "run_graph (Suc (Suc (Suc (Suc n)))) ag ctx assess_initial_gap w \<noteq> None" for n w
  proof (rule step_of_graph)
    fix w' nd' assume "next_node assess_initial_gap w' = Some nd'"
    then have "nd' = collect_follow_up_evidence \<or> nd' = resolve_gap"
      by (auto simp: route_initial_gap_def split: option.splits if_splits)
    then show "run_graph (Suc (Suc (Suc n))) ag ctx nd' w' \<noteq> None"
      using 3 final_nodes(2) by (elim disjE) simp_all
  qed
  have "run_graph (Suc (Suc (Suc (Suc (Suc n))))) ag ctx collect_initial_evidence w \<noteq> None" for n w
  proof (rule step_of_graph)
    fix w' nd' assume "next_node collect_initial_evidence w' = Some nd'"
    then have "nd' = assess_initial_gap \<or> nd' = commit_plan"
      by (auto simp: route_initial_evidence_def split: list.splits if_splits)
    then show "run_graph (Suc (Suc (Suc (Suc n)))) ag ctx nd' w' \<noteq> None"
      using 4 final_nodes(1) by (elim disjE) simp_all
  qed
  from this [of 0] show ?thesis by (simp add: numeral_eq_Suc)
qed

end
