(* ===== verification/Planner_Properties.thy ===== *)
theory Planner_Properties
  imports Planner_Safety Replan_Properties
begin

text \<open>
  Properties of a planner run: the graph always ends after at most two rounds of evidence, tasks
  are only created on complete evidence or on a decision to commit, a retry needs a matching
  failure in the evidence, evidence is what the tools returned, and a run never leaves its plan
  being planned.
\<close>

section \<open>The graph\<close>

definition first_round_ready :: "workflow_state \<Rightarrow> bool" where
  "first_round_ready w \<longleftrightarrow> (\<exists>rd. wf_rounds w = [rd] \<and> wf_decision w = None \<and>
     evidence_is_ready_for_commit (er_collector_results rd))"

definition backed :: "gap_decision \<Rightarrow> evidence_round list \<Rightarrow> bool" where
  "backed d rounds \<longleftrightarrow> (gd_action d \<in> {RETRY, SYSTEM_FAILURE_ACTION} \<longrightarrow>
     (\<exists>i\<in>set (all_items rounds). ei_outcome i = Failed \<and> ei_retryable i = (gd_action d = RETRY)))"

text \<open>What holds before a node runs.\<close>

definition at_node :: "db \<Rightarrow> node \<Rightarrow> workflow_state \<Rightarrow> bool" where
  "at_node db nd w \<longleftrightarrow> wf_db w = db \<and>
     (case nd of
        collect_initial_evidence \<Rightarrow> wf_rounds w = [] \<and> wf_decision w = None
      | assess_initial_gap \<Rightarrow> length (wf_rounds w) = 1 \<and> wf_decision w = None
      | collect_follow_up_evidence \<Rightarrow> length (wf_rounds w) = 1 \<and>
          (\<exists>d. wf_decision w = Some d \<and> gd_action d = COLLECT_MORE)
      | assess_final_gap \<Rightarrow> length (wf_rounds w) = 2 \<and>
          (\<exists>d. wf_decision w = Some d \<and> gd_action d = COLLECT_MORE)
      | commit_plan \<Rightarrow> first_round_ready w
      | resolve_gap \<Rightarrow> length (wf_rounds w) \<le> 2 \<and>
          (\<exists>d. wf_decision w = Some d \<and> gd_action d \<noteq> COLLECT_MORE \<and> backed d (wf_rounds w)))"

text \<open>What holds when the run ends.\<close>

definition run_ok :: "db \<Rightarrow> workflow_state \<Rightarrow> bool" where
  "run_ok db w \<longleftrightarrow> length (wf_rounds w) \<le> 2 \<and>
     (tasks (wf_db w) \<noteq> tasks db \<longrightarrow> first_round_ready w \<or>
        (\<exists>d. wf_decision w = Some d \<and> gd_action d = COMMIT)) \<and>
     (wf_db w \<noteq> db \<longrightarrow> first_round_ready w \<or>
        (\<exists>d. wf_decision w = Some d \<and>
           gd_action d \<in> {COMMIT, UNSUPPORTED_ACTION, CLARIFICATION})) \<and>
     (\<forall>d. wf_decision w = Some d \<longrightarrow> backed d (wf_rounds w))"

lemma validate_gap_backed:
  "validate_gap_decision d rounds again = Inr v \<Longrightarrow> backed d rounds \<and> (gd_action d = COLLECT_MORE \<longrightarrow> again)"
  by (auto simp: validate_gap_decision_def backed_def list_ex_iff split: if_splits)

lemma gap_handler_cases:
  "run_gap_handler ag again w = (Inl e, w') \<Longrightarrow> w' = w"
  "run_gap_handler ag again w = (Inr v, w') \<Longrightarrow> \<exists>d. w' = w\<lparr>wf_decision := Some d\<rparr> \<and>
     backed d (wf_rounds w) \<and> (gd_action d = COLLECT_MORE \<longrightarrow> again)"
  by (auto simp: run_gap_handler_def bind_eq_Inr split: sum.splits dest!: validate_gap_backed)

lemma add_round_cases:
  "add_round ag n f w = (Inl e, w') \<Longrightarrow> w' = w"
  "add_round ag n f w = (Inr v, w') \<Longrightarrow>
     \<exists>rs. w' = w\<lparr>wf_rounds := wf_rounds w @ [\<lparr>er_round_number = n, er_collector_results = rs\<rparr>]\<rparr>"
  by (auto simp: add_round_def split: sum.splits)

lemma collect_more_backed: "gd_action d = COLLECT_MORE \<Longrightarrow> backed d rounds"
  by (simp add: backed_def)

lemma commit_with_cases:
  "commit_with ag ctx d w = (r, w') \<Longrightarrow> wf_rounds w' = wf_rounds w \<and> wf_decision w' = wf_decision w"
  by (auto simp: commit_with_def split: prod.splits sum.splits)

lemma resolve_ok:
  assumes d: "gd_action d \<noteq> COLLECT_MORE" "backed d (wf_rounds w)" "wf_decision w = Some d"
    "length (wf_rounds w) \<le> 2"
    and run: "resolve_gap_decision ag ctx d w = (r, w')"
  shows "run_ok (wf_db w) w'"
proof (cases "gd_action d")
  case COMMIT
  then show ?thesis using run d commit_with_cases [of ag ctx "Some d" w r w']
    by (auto simp: resolve_gap_decision_def run_ok_def)
next
  case UNSUPPORTED_ACTION
  have "tasks db' = tasks (wf_db w)"
    if "mark_gap_unsupported (gap_clock ag) (gap_uuids ag) ctx (gd_reason d) (wf_db w) = Inr (p, db')" for p db'
    using that by (auto simp: mark_gap_unsupported_def mark_plan_unsupported_def bind_eq_Inr elim: mark_plan_effect)
  then show ?thesis using run d UNSUPPORTED_ACTION
    by (auto simp: resolve_gap_decision_def run_ok_def split: sum.splits)
next
  case CLARIFICATION
  have "tasks db' = tasks (wf_db w)"
    if "mark_gap_clarification (gap_clock ag) (gap_uuids ag) ctx (handoff_of d) (wf_db w) = Inr (p, db')" for p db'
    using that by (auto simp: mark_gap_clarification_def bind_eq_Inr elim: needs_clarification_effect)
  then show ?thesis using run d CLARIFICATION
    by (auto simp: resolve_gap_decision_def run_ok_def split: sum.splits if_splits)
qed (use run d in \<open>auto simp: resolve_gap_decision_def run_ok_def\<close>)

lemma node_ok:
  assumes "at_node db nd w" "run_node ag ctx nd w = (r, w')"
  shows "(case r of Inl e \<Rightarrow> run_ok db w'
    | Inr v \<Rightarrow> (case next_node nd w' of None \<Rightarrow> run_ok db w' | Some nd' \<Rightarrow> at_node db nd' w'))"
proof (cases nd)
  case collect_initial_evidence
  then show ?thesis using assms
    by (cases r) (auto simp: at_node_def run_ok_def route_initial_evidence_def first_round_ready_def
        dest!: add_round_cases)
next
  case assess_initial_gap
  then show ?thesis using assms
    by (cases r) (auto simp: at_node_def run_ok_def route_initial_gap_def dest!: gap_handler_cases)
next
  case collect_follow_up_evidence
  then show ?thesis using assms
    by (cases r) (auto simp: at_node_def run_ok_def collect_more_backed dest!: add_round_cases)
next
  case assess_final_gap
  then show ?thesis using assms
    by (cases r) (auto simp: at_node_def run_ok_def collect_more_backed dest!: gap_handler_cases)
next
  case commit_plan
  then have "wf_rounds w' = wf_rounds w \<and> wf_decision w' = wf_decision w"
    using assms(2) commit_with_cases [of ag ctx None w r w'] by simp
  then show ?thesis using assms(1) commit_plan
    by (cases r) (auto simp: at_node_def run_ok_def first_round_ready_def)
next
  case resolve_gap
  then obtain d where d: "wf_decision w = Some d" "gd_action d \<noteq> COLLECT_MORE" "backed d (wf_rounds w)"
    "length (wf_rounds w) \<le> 2" "wf_db w = db" using assms(1) by (auto simp: at_node_def)
  then have "resolve_gap_decision ag ctx d w = (r, w')" using assms(2) resolve_gap by simp
  from resolve_ok [OF d(2,3,1,4) this] d(5) show ?thesis using resolve_gap by (cases r) auto
qed

lemma graph_ok:
  "at_node db nd w \<Longrightarrow> run_graph n ag ctx nd w = Some (r, w') \<Longrightarrow> run_ok db w'"
proof (induction n arbitrary: nd w)
  case (Suc n)
  obtain r1 w1 where run: "run_node ag ctx nd w = (r1, w1)" by force
  note ok = node_ok [OF Suc.prems(1) run]
  show ?case
  proof (cases r1)
    case (Inl e)
    then show ?thesis using ok Suc.prems(2) by (simp add: run_graph.simps run)
  next
    case (Inr v)
    then show ?thesis using ok Suc
      by (auto simp: run_graph.simps run split: option.splits)
  qed
qed (simp add: run_graph.simps)

text \<open>
  C19: Whatever the language models answer, the planner graph ends, within five nodes and with at
  most two rounds of evidence.  Tasks of the database change only when the first round of evidence
  was complete or a gap decision was to commit, and nothing changes at all for a retry or a system
  failure; a decision to retry is always backed by a failed, retryable query in the evidence, a
  system failure by a failed query that cannot be retried.
\<close>

theorem planner_graph_guarded:
  "\<exists>r w. run_graph 5 ag ctx collect_initial_evidence (initial_workflow db) = Some (r, w) \<and>
     length (wf_rounds w) \<le> 2 \<and>
     (tasks (wf_db w) \<noteq> tasks db \<longrightarrow> first_round_ready w \<or>
        (\<exists>d. wf_decision w = Some d \<and> gd_action d = COMMIT)) \<and>
     (\<forall>d. wf_decision w = Some d \<longrightarrow> gd_action d \<in> {RETRY, SYSTEM_FAILURE_ACTION} \<longrightarrow>
        wf_db w = db \<and>
        (\<exists>i\<in>set (all_items (wf_rounds w)).
           ei_outcome i = Failed \<and> ei_retryable i = (gd_action d = RETRY)))"
proof -
  obtain r w where run: "run_graph 5 ag ctx collect_initial_evidence (initial_workflow db) = Some (r, w)"
    using graph_terminates [of ag ctx "initial_workflow db"] by auto
  have "at_node db collect_initial_evidence (initial_workflow db)"
    by (simp add: at_node_def initial_workflow_def)
  from graph_ok [OF this run] have "run_ok db w" .
  moreover from this have "wf_db w = db" if "wf_decision w = Some d"
      "gd_action d \<in> {RETRY, SYSTEM_FAILURE_ACTION}" for d
    using that by (auto simp: run_ok_def first_round_ready_def)
  ultimately show ?thesis using run unfolding run_ok_def backed_def by blast
qed

text \<open>Agents whose only query failed for now, and that decide to retry.\<close>

definition failed_item :: evidence_item where
  "failed_item = \<lparr>ei_tool_name = ''get_document'', ei_tool_call_id = ''c1'', ei_arguments = JObj [],
     ei_outcome = Failed, ei_result_code = ''tool_execution_failed'', ei_message = ''timeout'',
     ei_retryable = True, ei_resource_refs = [], ei_payload = JObj []\<rparr>"

definition failed_result :: collector_result where
  "failed_result = \<lparr>co_collector_code = ''document_collector'', co_summary = ''no answer'',
     co_gaps = [''state of the document''], co_resource_refs = [], co_evidence_items = [failed_item]\<rparr>"

definition retry_agents :: planner_agents where
  "retry_agents = \<lparr>evidence_agent = (\<lambda>n f. Inr
       [ToolCallItem (Some ''k'') (Some ''collect_document_information'') None,
        ToolCallOutputItem (Some ''k'') (OutObject (dump_result failed_result))]),
     gap_agent = (\<lambda>rounds more. Inr \<lparr>gd_action = RETRY, gd_reason = ''try later'', gd_follow_up = None,
       gd_clarification_kind = None, gd_required_information = [], gd_known_resource_refs = []\<rparr>),
     commit_agent = (\<lambda>d. ([], Inr None)), clarification_agent = (\<lambda>h. Inr None),
     gap_clock = 60, gap_uuids = demo_uuids ''g''\<rparr>"

theorem planner_graph_guarded_witness:
  "\<exists>r w. run_graph 5 retry_agents (planner_context
       \<lparr>rp_conversation_id = ''C'', rp_turn_id = ''T'', rp_revision = 1, rp_workflow_id = None,
        rp_parent_plan_id = None\<rparr> ''P'') collect_initial_evidence (initial_workflow fresh_db) = Some (r, w) \<and>
     is_error r \<and> wf_db w = fresh_db"
proof -
  let ?ctx = "planner_context
       \<lparr>rp_conversation_id = ''C'', rp_turn_id = ''T'', rp_revision = 1, rp_workflow_id = None,
        rp_parent_plan_id = None\<rparr> ''P''"
  let ?run = "run_graph 5 retry_agents ?ctx collect_initial_evidence (initial_workflow fresh_db)"
  have facts: "map_option (\<lambda>(r, w). (is_error r, map_option gd_action (wf_decision w))) ?run =
      Some (True, Some RETRY)" by code_simp
  from planner_graph_guarded [of retry_agents ?ctx fresh_db] obtain r w where
    "?run = Some (r, w)" "\<forall>d. wf_decision w = Some d \<longrightarrow> gd_action d \<in> {RETRY, SYSTEM_FAILURE_ACTION} \<longrightarrow>
        wf_db w = fresh_db" by blast
  with facts show ?thesis by auto
qed

section \<open>The end of a run\<close>

lemma read_result_Inr:
  assumes "read_result pid tid db = Inr r"
  obtains p tn where "plan_get_by_id pid db = Some p" "p_turn_id p = tid"
    "turn_get_by_id tid db = Some tn" "rr_plan_id r = pid" "rr_turn_id r = tid"
    "rr_status r = p_status p" "rr_failure_reason r = p_failure_reason p"
    "rr_task_ids r = (if p_status p = READY then tn_task_ids tn else [])"
    "rr_clarification_question r = (case clarification_get_by_plan_id pid db of
       None \<Rightarrow> None | Some c \<Rightarrow> c_question c)"
proof -
  from assms obtain p where p: "plan_get_by_id pid db = Some p" "p_turn_id p = tid"
    by (auto simp: read_result_def split: option.splits if_splits)
  note s = assms [unfolded read_result_def p(1) option.case Let_def]
  from s p(2) obtain tn where tn: "turn_get_by_id tid db = Some tn" by (auto split: option.splits)
  have "p_id p = pid" using p(1) by (rule plan_repo.fetch_key)
  then show thesis
    by (intro that [OF p tn]) (use s p(2) tn in \<open>auto split: if_splits\<close>)
qed

lemma read_result_status:
  assumes "read_result pid tid db = Inr r"
  shows "map_option p_status (plan_get_by_id pid db) = Some (rr_status r)"
  by (rule read_result_Inr [OF assms]) simp

lemma mark_retry_event:
  assumes "mark_plan_retry_pending now u pid reason db = Inr (p', db')"
  shows "plan_get_by_id pid db' = Some p' \<and> p_status p' = RETRY_PENDING \<and>
    (\<exists>e. outbox db' = outbox db @ [e] \<and> e_type e = REPLAN_REQUESTED \<and>
      json_get (e_payload e) ''previous_plan_id'' = Some (JStr pid) \<and>
      json_get (e_payload e) ''next_revision'' = Some (JInt (p_revision p' + 1)))"
proof -
  from assms obtain p where p: "plan_get_by_id pid db = Some p" and why: "py_strip reason \<noteq> []"
    by (auto simp: mark_plan_retry_pending_def elim: mark_plan_effect)
  have id: "p_id p = pid" using p by (rule plan_repo.fetch_key)
  let ?p = "plan_set_status p RETRY_PENDING (Some (py_strip reason)) (Some ''planner_system_failure'')"
  note s = assms [unfolded mark_plan_retry_pending_def mark_plan_def p option.case Let_def]
  from s why obtain tn where tn: "turn_get_by_id (p_turn_id p) (plan_save ?p db) = Some tn"
    by (auto simp: bind_eq_Inr split: option.splits)
  note s = s [simplified, unfolded tn option.case]
  have "p' = ?p" "plans db' = put_row p_id ?p (plans db)"
    "outbox db' = outbox db @ [new_outbox_event now (u 0) REPLAN_REQUESTED pid
      (planner_failure_payload ?p tn (py_strip reason))]"
    using s why tn by (auto simp: bind_eq_Inr store_simps id split: if_splits)
  then show ?thesis using p id
    by (simp add: plan_get_by_id_def table_simps plan_set_status_def new_outbox_event_def
        planner_failure_payload_def)
qed

lemma finish_settles:
  assumes "finish_from_database now u pid tid reason db = (Inr r, db')"
  shows "\<not> needs_retry r \<and> map_option p_status (plan_get_by_id pid db') = Some (rr_status r) \<and>
    (db' = db \<or> rr_status r = RETRY_PENDING)"
proof -
  from assms obtain r0 where r0: "read_result pid tid db = Inr r0"
    by (auto simp: finish_from_database_def split: sum.splits)
  show ?thesis
  proof (cases "needs_retry r0")
    case False
    then have "r = r0" "db' = db" using assms r0 by (auto simp: finish_from_database_def)
    with False read_result_status [OF r0] show ?thesis by simp
  next
    case True
    then obtain p' where m: "mark_plan_retry_pending now u pid reason db = Inr (p', db')"
      "read_result pid tid db' = Inr r"
      using assms r0 by (auto simp: finish_from_database_def split: sum.splits prod.splits)
    from mark_retry_event [OF m(1)] have "plan_get_by_id pid db' = Some p'" "p_status p' = RETRY_PENDING"
      by auto
    with read_result_status [OF m(2)] show ?thesis by (simp add: needs_retry_def)
  qed
qed

text \<open>
  C20: A planner run that returns has settled its plan, whatever the language models did: the plan
  is no longer being planned, a plan that waits for a clarification has its question, and the
  status reported is the one stored.
\<close>

theorem planner_run_settles_plan:
  assumes "run_existing_plan now u ag c pid db = (Inr r, db')"
  shows "rr_status r \<noteq> PLANNING \<and>
    (rr_status r = NEEDS_CLARIFICATION \<longrightarrow> rr_clarification_question r \<noteq> None) \<and>
    map_option p_status (plan_get_by_id pid db') = Some (rr_status r)"
proof -
  from assms obtain tid reason db1 where "finish_from_database now u pid tid reason db1 = (Inr r, db')"
    by (auto simp: run_existing_plan_def split: prod.splits sum.splits)
  from finish_settles [OF this] show ?thesis by (auto simp: needs_retry_def)
qed

text \<open>Agents that find the document and plan two tasks for it.\<close>

definition good_result :: collector_result where
  "good_result = failed_result\<lparr>co_gaps := [],
     co_evidence_items := [failed_item\<lparr>ei_outcome := Succeeded, ei_retryable := False\<rparr>]\<rparr>"

definition good_agents :: planner_agents where
  "good_agents = retry_agents\<lparr>evidence_agent := (\<lambda>n f. Inr
       [ToolCallItem (Some ''k'') (Some ''collect_document_information'') None,
        ToolCallOutputItem (Some ''k'') (OutObject (dump_result good_result))]),
     commit_agent := (\<lambda>d.
       ([Call 70 (demo_uuids ''x'') (CreateTask PROCESS_DOCUMENT
           \<lparr>ta_task_ref = ''parse'', ta_document_id = 7, ta_sequence = 1, ta_depends_on = []\<rparr>),
         Call 71 (demo_uuids ''y'') (CreateTask BUILD_DOCUMENT_CHUNKS
           \<lparr>ta_task_ref = ''chunk'', ta_document_id = 7, ta_sequence = 2, ta_depends_on = [''parse'']\<rparr>),
         Call 72 (demo_uuids ''z'') FinalizePlan], Inr None))\<rparr>"

definition demo_run_input :: run_planning_input where
  "demo_run_input = \<lparr>rp_conversation_id = ''C'', rp_turn_id = ''T'', rp_revision = 1,
     rp_workflow_id = None, rp_parent_plan_id = None\<rparr>"

definition demo_run_result :: run_planning_result where
  "demo_run_result = \<lparr>rr_plan_id = ''P'', rr_turn_id = ''T'', rr_status = READY,
     rr_task_ids = [''task_x0'', ''task_y0''], rr_failure_reason = None,
     rr_clarification_question = None\<rparr>"

lemma demo_run:
  "run_existing_plan 80 (demo_uuids ''w'') good_agents demo_run_input ''P'' fresh_db =
     (Inr demo_run_result,
      snd (run_existing_plan 80 (demo_uuids ''w'') good_agents demo_run_input ''P'' fresh_db))"
  by code_simp

theorem planner_run_settles_plan_witness:
  "map_option p_status (plan_get_by_id ''P''
     (snd (run_existing_plan 80 (demo_uuids ''w'') good_agents demo_run_input ''P'' fresh_db))) = Some READY"
  using planner_run_settles_plan [OF demo_run] by (simp add: demo_run_result_def)

section \<open>A blank reason\<close>

text \<open>
  A run that is to be retried for a blank reason does not settle its plan: the reason passes
  the length check of the gap decision, but recording it raises, so the run fails and the plan
  stays in planning.
\<close>

theorem blank_retry_reason_unsettled:
  assumes "plan_get_by_id pid db = Some p" "p_status p = PLANNING" "p_turn_id p = rp_turn_id c"
    and "turn_get_by_id (rp_turn_id c) db = Some tn"
    and "planner_run ag (planner_context c pid) db =
      (Inl (OtherException ''PlanningRetryRequested'' reason), db)"
    and "py_strip reason = []"
  shows "\<exists>e. run_existing_plan now u ag c pid db = (Inl e, db)"
proof -
  have "read_result pid (rp_turn_id c) db = Inr
    \<lparr>rr_plan_id = p_id p, rr_turn_id = p_turn_id p, rr_status = PLANNING, rr_task_ids = [],
     rr_failure_reason = p_failure_reason p, rr_clarification_question =
       (case clarification_get_by_plan_id pid db of None \<Rightarrow> None | Some c \<Rightarrow> c_question c)\<rparr>"
    using assms(1-4) by (simp add: read_result_def Let_def)
  then show ?thesis using assms(5,6)
    by (simp add: run_existing_plan_def finish_from_database_def needs_retry_def
        mark_plan_retry_pending_def mark_plan_def Let_def)
qed

definition blank_agents :: planner_agents where
  "blank_agents = retry_agents\<lparr>gap_agent := (\<lambda>rounds again. Inr \<lparr>gd_action = RETRY, gd_reason = '' '',
     gd_follow_up = None, gd_clarification_kind = None, gd_required_information = [],
     gd_known_resource_refs = []\<rparr>)\<rparr>"

theorem blank_retry_reason_unsettled_witness:
  "\<exists>e. run_existing_plan 80 (demo_uuids ''w'') blank_agents demo_run_input ''P'' fresh_db = (Inl e, fresh_db)"
proof -
  have run: "planner_run blank_agents (planner_context demo_run_input ''P'') fresh_db =
      (Inl (OtherException ''PlanningRetryRequested'' '' ''), fresh_db)" by code_simp
  have c: "rp_turn_id demo_run_input = ''T''" by (simp add: demo_run_input_def)
  have p: "plan_get_by_id ''P'' fresh_db = Some (demo_plan\<lparr>p_status := PLANNING\<rparr>)"
    "turn_get_by_id ''T'' fresh_db = Some (demo_turn\<lparr>tn_status := CONTEXT_READY, tn_task_ids := []\<rparr>)"
    by code_simp+
  have "py_strip '' '' = []" by code_simp
  from blank_retry_reason_unsettled [OF p(1) _ _ _ run this, of "demo_turn\<lparr>tn_status := CONTEXT_READY, tn_task_ids := []\<rparr>"] p(2) c
  show ?thesis by (simp add: demo_plan_def)
qed

end
