(* ===== verification/Csv_Properties.thy ===== *)
theory Csv_Properties
  imports Csv_Pipeline
begin

text \<open>
  What happens to the rows of a CSV document: each kept row reaches the index as exactly one child
  chunk with its row number, and the blocks respect their limits.
\<close>

section \<open>Cleaning\<close>

lemma check_headers_Inr:
  "check_headers seen hs = Inr out \<Longrightarrow>
     out = rev seen @ hs \<and> (\<forall>h\<in>set hs. h \<noteq> []) \<and> (distinct seen \<longrightarrow> distinct out)"
  by (induction seen hs rule: check_headers.induct) (auto split: if_splits)

lemma normalize_headers_Inr:
  assumes "normalize_headers headers = Inr out"
  shows "out = map (\<lambda>h. squeeze (clean_cell h)) headers \<and> out \<noteq> [] \<and> distinct out \<and> (\<forall>h\<in>set out. h \<noteq> [])"
  using assms check_headers_Inr [of "[]"]
  by (fastforce simp: normalize_headers_def Let_def split: if_splits)

definition kept_rows :: "utext list list \<Rightarrow> utext list list" where
  "kept_rows rows = filter (\<lambda>row. \<not> is_blank_row row) (map (map clean_cell) rows)"

lemma clean_rows_Inr:
  "clean_rows n rows = Inr (kept, blank) \<Longrightarrow> kept = kept_rows rows \<and>
     (\<forall>row\<in>set kept. length row = n) \<and> length kept + blank = length rows"
proof (induction rows arbitrary: kept blank)
  case (Cons row rows)
  show ?case
  proof (cases "is_blank_row (map clean_cell row)")
    case True
    with Cons.prems obtain b where "clean_rows n rows = Inr (kept, b)" "blank = b + 1"
      by (auto simp: Let_def bind_eq_Inr)
    from Cons.IH [OF this(1)] this(2) True show ?thesis by (auto simp: kept_rows_def filter_map comp_def)
  next
    case False
    with Cons.prems obtain k where "clean_rows n rows = Inr (k, blank)" "kept = map clean_cell row # k"
      "length row = n"
      by (auto simp: Let_def bind_eq_Inr split: if_splits)
    from Cons.IH [OF this(1)] this(2,3) False show ?thesis by (auto simp: kept_rows_def filter_map comp_def)
  qed
qed (simp add: kept_rows_def)

lemma process_csv_Inr:
  assumes "process_csv (raw_headers # rows) = Inr p"
  obtains headers blank where
    "headers = map (\<lambda>h. squeeze (clean_cell h)) raw_headers" "headers \<noteq> []" "distinct headers"
    "\<forall>row\<in>set (kept_rows rows). length row = length headers"
    "pr_cleaned p = csv_write (headers # kept_rows rows)" "pm_headers (pr_metadata p) = Some headers"
    "pm_row_count (pr_metadata p) = Some (length (kept_rows rows))"
    "pm_blank_row_count (pr_metadata p) = Some blank" "length (kept_rows rows) + blank = length rows"
proof -
  from assms obtain headers kept blank where s: "normalize_headers raw_headers = Inr headers"
    "clean_rows (length headers) rows = Inr (kept, blank)"
    "pr_cleaned p = csv_write (headers # kept)" "pm_headers (pr_metadata p) = Some headers"
    "pm_row_count (pr_metadata p) = Some (length kept)" "pm_blank_row_count (pr_metadata p) = Some blank"
    by (auto simp: process_csv_def bind_eq_Inr Let_def)
  from normalize_headers_Inr [OF s(1)] clean_rows_Inr [OF s(2)] s(3-) show thesis
    by (intro that [of headers blank]) auto
qed

section \<open>Records\<close>

lemma record_of_zip:
  assumes "distinct headers" "length row = length headers"
  shows "record_of headers (zip headers row) = zip headers row"
proof -
  have "dict_get (zip headers row) (headers ! i) = Some (row ! i)" if "i < length headers" for i
  proof -
    have "distinct (map fst (rev (zip headers row)))"
      using assms by (simp add: rev_map [symmetric])
    moreover have "(headers ! i, row ! i) \<in> set (rev (zip headers row))"
      using that assms(2) by (auto simp: set_zip)
    ultimately show ?thesis unfolding dict_get_def by (rule map_of_is_SomeI)
  qed
  then show ?thesis using assms
    by (auto simp: record_of_def dedup_distinct list_eq_iff_nth_eq)
qed

lemma embedding_visible:
  assumes "\<not> is_blank_row row" "\<forall>cell\<in>set row. cell = [] \<or> visible cell \<noteq> []"
    and "length row = length headers"
  shows "visible (build_csv_embedding_text (zip headers row)) \<noteq> []"
proof -
  obtain cell where cell: "cell \<in> set row" "cell \<noteq> []"
    using assms(1) by (auto simp: is_blank_row_def list_all_iff)
  then obtain i where i: "i < length row" "row ! i = cell" by (auto simp: in_set_conv_nth)
  then have "(headers ! i, cell) \<in> set (filter (\<lambda>(k, v). v \<noteq> []) (zip headers row))"
    using cell assms(3) by (auto simp: set_zip)
  moreover have "visible cell \<noteq> []" using cell assms(2) by auto
  ultimately have "\<exists>kv\<in>set (filter (\<lambda>(k, v). v \<noteq> []) (zip headers row)). visible (snd kv) \<noteq> []"
    by (metis snd_conv)
  moreover have "visible (build_csv_embedding_text (zip headers row)) =
      concat (map (\<lambda>(k, v). visible (k @ [65306] @ v)) (filter (\<lambda>(k, v). v \<noteq> []) (zip headers row)))"
    by (simp add: build_csv_embedding_text_def visible_join comp_def case_prod_unfold)
  ultimately show ?thesis by auto
qed

lemma clean_cell_visible: "clean_cell v = [] \<or> visible (clean_cell v) \<noteq> []"
  by (auto simp: clean_cell_def strip_empty)

section \<open>Batches\<close>

definition batch_children :: "nat \<Rightarrow> csv_record list \<Rightarrow> child_chunk_data list" where
  "batch_children start rs = map (\<lambda>(i, r). csv_child r i (start + i)) (enumerate 0 rs)"

definition batch_ok :: "utext list \<Rightarrow> csv_batch \<Rightarrow> bool" where
  "batch_ok headers b \<longleftrightarrow> cb_records b \<noteq> [] \<and> length (cb_records b) \<le> 50 \<and>
     cb_row_end b = cb_row_start b + length (cb_records b) - 1 \<and>
     length (build_parent_content headers (cb_row_start b) (cb_row_end b) (cb_records b)) \<le> 12000 \<and>
     (\<forall>r\<in>set (cb_records b). length (build_csv_child_content r) \<le> 8000) \<and>
     cb_children b = batch_children (cb_row_start b) (cb_records b)"

text \<open>The rows of the batches are consecutive from \<open>start\<close>.\<close>

fun consecutive :: "nat \<Rightarrow> csv_batch list \<Rightarrow> bool" where
  "consecutive start [] \<longleftrightarrow> True"
| "consecutive start (b # bs) \<longleftrightarrow> cb_row_start b = start \<and> consecutive (cb_row_end b + 1) bs"

lemma batch_children_snoc:
  "batch_children start rs @ [csv_child r (length rs) (start + length rs)] = batch_children start (rs @ [r])"
  by (simp add: batch_children_def enumerate_append_eq)

lemma csv_batches_Inr:
  assumes "csv_batches headers start rs cs row raws = Inr bs"
    and "row = start + length rs" "cs = batch_children start rs"
    and "rs \<noteq> [] \<Longrightarrow> batch_ok headers \<lparr>cb_row_start = start, cb_row_end = row - 1,
           cb_records = rs, cb_children = cs\<rparr>"
  shows "concat (map cb_records bs) = rs @ map (record_of headers) raws \<and>
    (\<forall>b\<in>set bs. batch_ok headers b) \<and> consecutive start bs"
  using assms
proof (induction headers start rs cs row raws arbitrary: bs rule: csv_batches.induct)
  case (1 headers start rs cs row)
  then show ?case by (auto split: if_splits)
next
  case (2 headers start rs cs row raw raws)
  let ?r = "record_of headers raw"
  let ?cand = "build_parent_content headers start row (rs @ [?r])"
  have child: "length (build_csv_child_content ?r) \<le> 8000"
    using 2(3) by (auto simp: Let_def CSV_CHILD_MAX_CHARS_def split: if_splits)
  consider (full) "rs \<noteq> []" "length rs + 1 > CSV_PARENT_MAX_ROWS \<or> length ?cand > CSV_PARENT_MAX_CHARS"
    | (grow) "\<not> (rs \<noteq> [] \<and> (length rs + 1 > CSV_PARENT_MAX_ROWS \<or> length ?cand > CSV_PARENT_MAX_CHARS))"
    by blast
  then show ?case
  proof cases
    case full
    with 2(3) child obtain bs' where bs': "bs = \<lparr>cb_row_start = start, cb_row_end = row - 1,
        cb_records = rs, cb_children = cs\<rparr> # bs'"
      "csv_batches headers row [?r] [csv_child ?r 0 row] (row + 1) raws = Inr bs'"
      "length (build_parent_content headers row row [?r]) \<le> 12000"
      by (auto simp: Let_def CSV_CHILD_MAX_CHARS_def CSV_PARENT_MAX_CHARS_def bind_eq_Inr split: if_splits)
    have "concat (map cb_records bs') = [?r] @ map (record_of headers) raws \<and>
        (\<forall>b\<in>set bs'. batch_ok headers b) \<and> consecutive row bs'"
      using full child bs'(3)
      by (intro 2(1) [OF refl _ refl refl _ _ bs'(2)])
         (auto simp: CSV_CHILD_MAX_CHARS_def CSV_PARENT_MAX_CHARS_def batch_ok_def batch_children_def
           enumerate_eq_zip)
    moreover have "row = (row - 1) + 1" using 2(4) full(1) by (cases rs) auto
    ultimately show ?thesis using 2(6) [OF full(1)] by (auto simp: bs'(1))
  next
    case grow
    with 2(3) child have rest: "csv_batches headers start (rs @ [?r])
        (cs @ [csv_child ?r (length cs) row]) (row + 1) raws = Inr bs" "length ?cand \<le> 12000"
      by (auto simp: Let_def CSV_CHILD_MAX_CHARS_def CSV_PARENT_MAX_CHARS_def split: if_splits)
    have len: "length cs = length rs" by (simp add: 2(5) batch_children_def)
    have cs: "cs @ [csv_child ?r (length cs) row] = batch_children start (rs @ [?r])"
      unfolding len 2(4) unfolding 2(5) by (rule batch_children_snoc)
    have ok: "batch_ok headers \<lparr>cb_row_start = start, cb_row_end = row + 1 - 1,
        cb_records = rs @ [?r], cb_children = cs @ [csv_child ?r (length cs) row]\<rparr>"
      using 2(6) rest(2) child grow cs
      by (cases "rs = []") (auto simp: batch_ok_def 2(4) CSV_PARENT_MAX_ROWS_def)
    have "concat (map cb_records bs) = (rs @ [?r]) @ map (record_of headers) raws \<and>
        (\<forall>b\<in>set bs. batch_ok headers b) \<and> consecutive start bs"
      by (rule 2(2) [OF refl _ refl refl _ _ rest(1)])
         (use child grow rest(2) cs ok in \<open>auto simp: CSV_CHILD_MAX_CHARS_def CSV_PARENT_MAX_CHARS_def 2(4)\<close>)
    then show ?thesis by simp
  qed
qed


section \<open>The whole way of a row\<close>

lemma kept_rows_not_blank:
  assumes "row \<in> set (kept_rows rows)"
  shows "\<not> is_blank_row row \<and> (\<forall>cell\<in>set row. cell = [] \<or> visible cell \<noteq> [])"
  using assms clean_cell_visible by (fastforce simp: kept_rows_def)

lemma cleaned_dicts:
  assumes "headers \<noteq> []" "\<forall>row\<in>set rows. length row = length headers"
  shows "csv_fieldnames (csv_write (headers # rows)) = headers"
    and "csv_dicts (csv_write (headers # rows)) = map (zip headers) rows"
proof -
  have "filter (\<lambda>row. row \<noteq> []) rows = rows" using assms by (fastforce simp: filter_id_conv)
  then show "csv_dicts (csv_write (headers # rows)) = map (zip headers) rows"
    by (simp add: csv_dicts_def csv_read_write)
qed (simp add: csv_fieldnames_def csv_read_write)

lemma children_rows:
  assumes "\<forall>b\<in>set bs. batch_ok headers b" "consecutive start bs"
  shows "map (\<lambda>c. (cd_source_row_index c, cd_content c, cd_embedding_text c)) (concat (map cb_children bs)) =
    map (\<lambda>(i, r). (Some i, build_csv_child_content r, build_csv_embedding_text r))
      (enumerate start (concat (map cb_records bs)))"
  using assms
proof (induction bs arbitrary: start)
  case (Cons b bs)
  have b: "cb_row_start b = start" "cb_children b = batch_children start (cb_records b)"
    "cb_row_end b + 1 = start + length (cb_records b)"
    using Cons.prems by (auto simp: batch_ok_def)
  have shift: "map (\<lambda>(i, r). (i + k, r)) (enumerate 0 rs) = enumerate k rs" for k and rs :: "csv_record list"
    by (auto simp: list_eq_iff_nth_eq nth_enumerate_eq)
  have "map (\<lambda>c. (cd_source_row_index c, cd_content c, cd_embedding_text c)) (cb_children b) =
      map (\<lambda>(i, r). (Some i, build_csv_child_content r, build_csv_embedding_text r))
        (enumerate start (cb_records b))"
    unfolding b(2) shift [of start, symmetric]
    by (simp add: batch_children_def csv_child_def case_prod_unfold comp_def add.commute)
  then show ?case
    using Cons.IH [of "start + length (cb_records b)"] Cons.prems b(3)
    by (simp add: enumerate_append_eq)
qed simp

text \<open>
  C27: What happens to a CSV source that is cleaned and chunked: the cleaned file parses back to
  exactly the normalised header and the rows that are not blank, which all have one value per
  header.  The chunks are in one-to-one correspondence with these rows, in order, each with its row
  number, the JSON text of its record and a text to embed that is not blank; blocks have at most 50
  rows and 12000 characters, chunks at most 8000.
\<close>

theorem csv_source_chunked:
  assumes "process_csv (raw_headers # rows) = Inr p"
    and "build_csv (pm_headers (pr_metadata p)) (pr_cleaned p) = Inr r"
  shows "\<exists>headers. headers = map (\<lambda>h. squeeze (clean_cell h)) raw_headers \<and> distinct headers \<and>
    csv_records (pr_cleaned p) = headers # kept_rows rows \<and>
    (\<forall>row\<in>set (kept_rows rows). length row = length headers) \<and>
    map (\<lambda>c. (cd_source_row_index c, cd_content c, cd_embedding_text c)) (children_of r) =
      map (\<lambda>(i, row). (Some i, build_csv_child_content (zip headers row),
             build_csv_embedding_text (zip headers row))) (enumerate 1 (kept_rows rows)) \<and>
    (\<forall>c\<in>set (children_of r). length (cd_content c) \<le> 8000 \<and> visible (cd_embedding_text c) \<noteq> []) \<and>
    (\<forall>b\<in>set (br_parents r). length (pd_content b) \<le> 12000) \<and>
    (\<forall>(i, cs)\<in>set (br_children_by_parent_index r). cs \<noteq> [] \<and> length cs \<le> 50)"
proof -
  from assms(1) obtain headers where h: "headers = map (\<lambda>h. squeeze (clean_cell h)) raw_headers"
    "headers \<noteq> []" "distinct headers" "\<forall>row\<in>set (kept_rows rows). length row = length headers"
    "pr_cleaned p = csv_write (headers # kept_rows rows)" "pm_headers (pr_metadata p) = Some headers"
    by (rule process_csv_Inr)
  note dicts = cleaned_dicts [OF h(2,4), folded h(5)]
  from assms(2) obtain bs where bs: "csv_batches headers 1 [] [] 1 (map (zip headers) (kept_rows rows)) = Inr bs"
    and r: "br_parents r = map (\<lambda>(i, b). csv_parent headers i b) (enumerate 0 bs)"
      "br_children_by_parent_index r = map (\<lambda>(i, b). (i, cb_children b)) (enumerate 0 bs)"
    by (auto simp: build_csv_def Let_def dicts h(2,6) bind_eq_Inr)
  have recs: "map (record_of headers) (map (zip headers) (kept_rows rows)) = map (zip headers) (kept_rows rows)"
    using h(3,4) by (simp add: record_of_zip)
  have ok: "concat (map cb_records bs) = map (zip headers) (kept_rows rows)"
    "\<forall>b\<in>set bs. batch_ok headers b" "consecutive 1 bs"
    using csv_batches_Inr [OF bs] unfolding recs by (auto simp: batch_children_def)
  have children: "children_of r = concat (map cb_children bs)"
    by (simp add: children_of_def r case_prod_unfold comp_def flip: map_map [unfolded comp_def])
  have bsD: "b \<in> set bs" if "(i, b) \<in> set (enumerate 0 bs)" for i b
    using that by (auto simp: enumerate_eq_zip dest: set_zip_rightD)
  let ?row = "\<lambda>i row. (Some i, build_csv_child_content (zip headers row), build_csv_embedding_text (zip headers row))"
  have rows: "map (\<lambda>c. (cd_source_row_index c, cd_content c, cd_embedding_text c)) (children_of r) =
      map (\<lambda>(i, row). ?row i row) (enumerate 1 (kept_rows rows))"
    unfolding children children_rows [OF ok(2,3)] ok(1)
    by (auto simp: list_eq_iff_nth_eq nth_enumerate_eq)
  have "length (cd_content c) \<le> 8000 \<and> visible (cd_embedding_text c) \<noteq> []" if "c \<in> set (children_of r)" for c
  proof
    from that obtain b where b: "b \<in> set bs" "c \<in> set (cb_children b)" by (auto simp: children)
    then show "length (cd_content c) \<le> 8000"
      using ok(2) by (force simp: batch_ok_def batch_children_def csv_child_def enumerate_eq_zip dest: set_zip_rightD)
    have "(cd_source_row_index c, cd_content c, cd_embedding_text c) \<in>
        set (map (\<lambda>(i, row). ?row i row) (enumerate 1 (kept_rows rows)))"
      using that rows by (metis (no_types, lifting) image_eqI list.set_map)
    then obtain row where "row \<in> set (kept_rows rows)" "cd_embedding_text c = build_csv_embedding_text (zip headers row)"
      by (auto simp: enumerate_eq_zip dest: set_zip_rightD)
    then show "visible (cd_embedding_text c) \<noteq> []"
      using embedding_visible kept_rows_not_blank h(4) by metis
  qed
  moreover have "\<forall>b\<in>set (br_parents r). length (pd_content b) \<le> 12000"
    using ok(2) bsD by (fastforce simp: r csv_parent_def batch_ok_def)
  moreover have "\<forall>(i, cs)\<in>set (br_children_by_parent_index r). cs \<noteq> [] \<and> length cs \<le> 50"
    using ok(2) bsD by (fastforce simp: r batch_ok_def batch_children_def enumerate_eq_zip)
  ultimately show ?thesis using h(1,3,4) rows h(5) by (simp add: csv_read_write)
qed


text \<open>A table with a blank row, a quoted value and a value spread over two lines.\<close>

definition demo_records :: "utext list list" where
  "demo_records = [[u_ascii '' name'', u_ascii ''note  text''],
     [u_ascii ''ann'', u_ascii ''a,b'' @ [13, 10] @ u_ascii ''c''], [[], u_ascii ''  ''],
     [u_ascii ''bob '', []]]"

theorem csv_source_chunked_witness:
  "\<exists>p r. process_csv demo_records = Inr p \<and>
     build_csv (pm_headers (pr_metadata p)) (pr_cleaned p) = Inr r \<and>
     length (children_of r) = 2 \<and> length (br_parents r) = 1 \<and>
     (\<forall>c\<in>set (children_of r). length (cd_content c) \<le> 8000 \<and> visible (cd_embedding_text c) \<noteq> [])"
proof -
  have "case process_csv demo_records of Inl _ \<Rightarrow> False
    | Inr p \<Rightarrow> (case build_csv (pm_headers (pr_metadata p)) (pr_cleaned p) of Inl _ \<Rightarrow> False
        | Inr r \<Rightarrow> length (children_of r) = 2 \<and> length (br_parents r) = 1)" by code_simp
  then obtain p r where pr: "process_csv demo_records = Inr p"
    "build_csv (pm_headers (pr_metadata p)) (pr_cleaned p) = Inr r"
    "length (children_of r) = 2" "length (br_parents r) = 1"
    by (auto split: sum.splits)
  obtain raw_headers rows where "demo_records = raw_headers # rows" by (simp add: demo_records_def)
  from csv_source_chunked [OF pr(1) [unfolded this] pr(2)] pr show ?thesis by blast
qed

end
