(* ===== verification/Document_Invariant.thy ===== *)
theory Document_Invariant
  imports Document_Safety
begin

text \<open>
  The protocol between database, vector store and fence: at every reachable state, under any
  interleaving of workers, compensators and crashes, each point of the vector store belongs to a
  chunk that is being indexed or is indexed.
\<close>

section \<open>Invariant\<close>

fun busy :: "stage \<Rightarrow> document_status set" where
  "busy Processing = {DOC_PROCESSING, DOC_FAILED}"
| "busy Chunking = {DOC_CHUNKING}"
| "busy Indexing = {DOC_INDEXING, DOC_FAILED}"

definition point_ids :: "doc_world \<Rightarrow> int set" where
  "point_ids w = fst ` set (w_points w)"

abbreviation being_indexed :: "doc_world \<Rightarrow> int \<Rightarrow> int set" where
  "being_indexed w \<equiv> chunk_ids VS_INDEXING (w_db w)"

abbreviation indexed :: "doc_world \<Rightarrow> int \<Rightarrow> int set" where
  "indexed w \<equiv> chunk_ids VS_INDEXED (w_db w)"

definition worker_ok :: "doc_world \<Rightarrow> indexing_context \<Rightarrow> indexing_chunk list list \<Rightarrow> bool" where
  "worker_ok w ctx bs \<longleftrightarrow>
     w_ops w (ix_operation_id ctx) = Some (Indexing, ix_document_id ctx) \<and>
     (owner (w_db w) (ix_document_id ctx) = Some (ix_operation_id ctx) \<longrightarrow>
        being_indexed w (ix_document_id ctx) = set (context_chunk_ids ctx)) \<and>
     ic_chunk_id ` set (concat bs) \<subseteq> set (context_chunk_ids ctx)"

definition comp_ok :: "doc_world \<Rightarrow> ident \<Rightarrow> compensation_snapshot \<Rightarrow> bool" where
  "comp_ok w op sn \<longleftrightarrow>
     w_ops w op = Some (Indexing, sn_document_id sn) \<and>
     (owner (w_db w) (sn_document_id sn) = Some op \<longrightarrow>
        state (w_db w) (sn_document_id sn) = Some DOC_FAILED \<and>
        being_indexed w (sn_document_id sn) = set (sn_chunk_ids sn))"

fun thread_ok :: "doc_world \<Rightarrow> nat \<Rightarrow> thread \<Rightarrow> bool" where
  "thread_ok w a (Index_Claimed ctx bs) \<longleftrightarrow> worker_ok w ctx bs"
| "thread_ok w a (Index_Fenced ctx ps bs) \<longleftrightarrow> worker_ok w ctx bs \<and>
     owner (w_db w) (ix_document_id ctx) = Some (ix_operation_id ctx) \<and>
     fst ` set ps \<subseteq> set (context_chunk_ids ctx) \<and> w_index_fence w (ix_document_id ctx) = Some a"
| "thread_ok w a (Index_Comp_Prepared op sn) \<longleftrightarrow> comp_ok w op sn"
| "thread_ok w a (Index_Comp_Fenced op sn) \<longleftrightarrow> comp_ok w op sn \<and>
     w_index_fence w (sn_document_id sn) = Some a"
| "thread_ok w a (Index_Comp_Deleted op sn) \<longleftrightarrow> comp_ok w op sn \<and>
     w_index_fence w (sn_document_id sn) = Some a \<and>
     (owner (w_db w) (sn_document_id sn) = Some op \<longrightarrow> point_ids w \<inter> set (sn_chunk_ids sn) = {})"
| "thread_ok w a (Process_Comp_Failed did op) \<longleftrightarrow> w_ops w op = Some (Processing, did)"
| "thread_ok w a (Process_Comp_Owned did op) \<longleftrightarrow> w_ops w op = Some (Processing, did)"
| "thread_ok w a (Process_Comp_Cleaned did op) \<longleftrightarrow> w_ops w op = Some (Processing, did)"
| "thread_ok w a _ \<longleftrightarrow> True"

fun worker_op :: "thread \<Rightarrow> ident option" where
  "worker_op (Index_Claimed ctx bs) = Some (ix_operation_id ctx)"
| "worker_op (Index_Fenced ctx ps bs) = Some (ix_operation_id ctx)"
| "worker_op _ = None"

definition owners_ok :: "doc_world \<Rightarrow> bool" where
  "owners_ok w \<longleftrightarrow> (\<forall>did op. owner (w_db w) did = Some op \<longrightarrow>
     (\<exists>s. w_ops w op = Some (s, did) \<and> state (w_db w) did \<in> Some ` busy s))"

definition chunks_ok :: "doc_world \<Rightarrow> bool" where
  "chunks_ok w \<longleftrightarrow>
     (\<forall>did. being_indexed w did \<noteq> {} \<longrightarrow>
        (\<exists>op. owner (w_db w) did = Some op \<and> w_ops w op = Some (Indexing, did))) \<and>
     (\<forall>did. indexed w did \<noteq> {} \<longrightarrow> state (w_db w) did = Some DOC_INDEXED)"

definition points_ok :: "doc_world \<Rightarrow> bool" where
  "points_ok w \<longleftrightarrow> (\<forall>i\<in>point_ids w. \<exists>did. i \<in> being_indexed w did \<or> i \<in> indexed w did)"

definition threads_ok :: "doc_world \<Rightarrow> bool" where
  "threads_ok w \<longleftrightarrow> (\<forall>a t. w_threads w a = Some t \<longrightarrow> thread_ok w a t) \<and>
     (\<forall>a b s t op. w_threads w a = Some s \<longrightarrow> w_threads w b = Some t \<longrightarrow>
        worker_op s = Some op \<longrightarrow> worker_op t = Some op \<longrightarrow> a = b)"

definition index_inv :: "doc_world \<Rightarrow> bool" where
  "index_inv w \<longleftrightarrow> db_ok (w_db w) \<and> owners_ok w \<and> chunks_ok w \<and> points_ok w \<and> threads_ok w"

lemma index_invD:
  assumes "index_inv w"
  shows "db_ok (w_db w)" "owners_ok w" "chunks_ok w" "points_ok w" "threads_ok w"
  using assms by (simp_all add: index_inv_def)

lemma thread_okD: "index_inv w \<Longrightarrow> w_threads w a = Some t \<Longrightarrow> thread_ok w a t"
  by (auto simp: index_inv_def threads_ok_def)

lemma same_workerD:
  assumes "index_inv w" "w_threads w a = Some s" "w_threads w b = Some t"
    and "worker_op s = Some op" "worker_op t = Some op"
  shows "a = b"
  using assms unfolding index_inv_def threads_ok_def by blast

lemma owner_stage:
  assumes "index_inv w" "owner (w_db w) did = Some op"
  obtains s where "w_ops w op = Some (s, did)" "state (w_db w) did \<in> Some ` busy s"
  using assms unfolding index_inv_def owners_ok_def by blast

lemma being_indexed_owner:
  assumes "index_inv w" "i \<in> being_indexed w did"
  obtains op where "owner (w_db w) did = Some op" "w_ops w op = Some (Indexing, did)"
  using assms unfolding index_inv_def chunks_ok_def by blast

lemma indexed_state: "index_inv w \<Longrightarrow> i \<in> indexed w did \<Longrightarrow> state (w_db w) did = Some DOC_INDEXED"
  unfolding index_inv_def chunks_ok_def by blast

lemma index_inv_empty: "index_inv empty_world"
  by (simp add: index_inv_def empty_world_def db_ok_def owners_ok_def chunks_ok_def points_ok_def
      threads_ok_def owner_def document_get_by_id_def get_row_Nil chunk_ids_def point_ids_def)

section \<open>Steps that leave database and points alone\<close>

text \<open>A new value for one thread, with the fences it takes or gives back.\<close>

lemma thread_ok_cong:
  assumes "w_db w' = w_db w" "w_ops w' = w_ops w" "point_ids w' = point_ids w"
    and "\<And>did. w_index_fence w did = Some b \<Longrightarrow> w_index_fence w' did = Some b"
    and "thread_ok w b t"
  shows "thread_ok w' b t"
  using assms by (cases t) (auto simp: worker_ok_def comp_ok_def)

lemma thread_change:
  assumes inv: "index_inv w"
    and same: "w_db w' = w_db w" "w_ops w' = w_ops w" "w_points w' = w_points w"
    and fence: "\<And>b did. b \<noteq> a \<Longrightarrow> w_index_fence w did = Some b \<Longrightarrow> w_index_fence w' did = Some b"
    and threads: "w_threads w' = (w_threads w)(a := t)"
    and t: "\<And>x. t = Some x \<Longrightarrow> thread_ok w' a x"
    and op: "\<And>x op. t = Some x \<Longrightarrow> worker_op x = Some op \<Longrightarrow>
      \<exists>y. w_threads w a = Some y \<and> worker_op y = Some op"
  shows "index_inv w'"
proof -
  have pts: "point_ids w' = point_ids w" by (simp add: point_ids_def same)
  have "thread_ok w' b x" if "w_threads w' b = Some x" for b x
  proof (cases "b = a")
    case True
    then show ?thesis using that t threads by simp
  next
    case False
    then have "thread_ok w b x" using that threads thread_okD [OF inv] by simp
    then show ?thesis using thread_ok_cong [OF same(1,2) pts] fence [OF False] by blast
  qed
  moreover have "b = c" if "w_threads w' b = Some x" "w_threads w' c = Some y"
    "worker_op x = Some q" "worker_op y = Some q" for b c x y q
  proof -
    have "\<exists>z. w_threads w b = Some z \<and> worker_op z = Some q"
      using that(1,3) op threads by (cases "b = a") auto
    moreover have "\<exists>z. w_threads w c = Some z \<and> worker_op z = Some q"
      using that(2,4) op threads by (cases "c = a") auto
    ultimately show ?thesis using same_workerD [OF inv] by blast
  qed
  ultimately show ?thesis
    using index_invD [OF inv] unfolding index_inv_def threads_ok_def
    by (simp add: same pts owners_ok_def chunks_ok_def points_ok_def)
qed

lemma end_thread_inv: "index_inv w \<Longrightarrow> index_inv (end_thread a w)"
  by (rule thread_change [where a = a and t = None]) (auto simp: end_thread_def free_fence_def)

section \<open>Transactions\<close>

text \<open>A document is taken over under a new operation id by a new thread.\<close>

lemma claim_frame:
  assumes inv: "index_inv w" and free: "w_threads w a = None" "w_ops w op = None"
    and before: "owner (w_db w) did = None" "state (w_db w) did \<noteq> Some DOC_INDEXED"
    and after: "owner db' = (owner (w_db w))(did := Some op)" "state db' = (state (w_db w))(did := Some new)"
      "db_ok db'" "chunk_ids VS_INDEXED db' = chunk_ids VS_INDEXED (w_db w)"
      "\<And>x. x \<noteq> did \<Longrightarrow> chunk_ids VS_INDEXING db' x = chunk_ids VS_INDEXING (w_db w) x"
      "chunk_ids VS_INDEXING db' did \<noteq> {} \<longrightarrow> s = Indexing" "new \<in> busy s"
    and w': "w' = set_thread a t (issue op s did (w\<lparr>w_db := db'\<rparr>))"
    and t: "thread_ok w' a t" "worker_op t \<in> {None, Some op}"
  shows "index_inv w'"
proof -
  note inv' = index_invD [OF inv]
  have f: "w_db w' = db'" "w_ops w' = (w_ops w)(op \<mapsto> (s, did))" "w_points w' = w_points w"
    "w_index_fence w' = w_index_fence w" "w_threads w' = (w_threads w)(a \<mapsto> t)"
    by (simp_all add: w' set_thread_def issue_def)
  have known: "w_ops w o' = Some y \<Longrightarrow> w_ops w' o' = Some y" for o' y using free(2) by (auto simp: f)
  have notd: "w_ops w o' = Some y \<Longrightarrow> o' \<noteq> op" for o' y using free(2) by auto
  have none: "being_indexed w did = {}" using inv'(3) before(1) by (auto simp: chunks_ok_def)
  have none2: "indexed w did = {}" using inv'(3) before(2) by (auto simp: chunks_ok_def)
  have pts: "point_ids w' = point_ids w" by (simp add: point_ids_def f)
  have "owners_ok w'"
    unfolding owners_ok_def f(1)
  proof (intro allI impI)
    fix x q assume o: "owner db' x = Some q"
    show "\<exists>s'. w_ops w' q = Some (s', x) \<and> state db' x \<in> Some ` busy s'"
    proof (cases "x = did")
      case True
      then show ?thesis using o after by (auto simp: f)
    next
      case False
      then have "owner (w_db w) x = Some q" using o after(1) by simp
      from owner_stage [OF inv this] obtain s' where "w_ops w q = Some (s', x)"
        "state (w_db w) x \<in> Some ` busy s'" .
      then show ?thesis using known False after(2) by auto
    qed
  qed
  moreover have "chunks_ok w'"
    unfolding chunks_ok_def
  proof (intro conjI allI impI)
    fix x assume "being_indexed w' x \<noteq> {}"
    then obtain i where i: "i \<in> chunk_ids VS_INDEXING db' x" by (auto simp: f)
    show "\<exists>q. owner (w_db w') x = Some q \<and> w_ops w' q = Some (Indexing, x)"
    proof (cases "x = did")
      case True
      then show ?thesis using i after(1,6) by (auto simp: f)
    next
      case False
      then have "i \<in> being_indexed w x" using i after(5) by simp
      from being_indexed_owner [OF inv this] obtain q where "owner (w_db w) x = Some q"
        "w_ops w q = Some (Indexing, x)" .
      then show ?thesis using known False after(1) by (intro exI [of _ q]) (simp add: f(1))
    qed
  next
    fix x assume "indexed w' x \<noteq> {}"
    then have x: "indexed w x \<noteq> {}" by (simp add: f(1) after(4))
    then have "x \<noteq> did" using none2 by auto
    then show "state (w_db w') x = Some DOC_INDEXED" using indexed_state [OF inv] x by (auto simp: f(1) after(2))
  qed
  moreover have "points_ok w'"
    unfolding points_ok_def pts
  proof
    fix i assume "i \<in> point_ids w"
    then obtain x where x: "i \<in> being_indexed w x \<or> i \<in> indexed w x" using inv'(4) by (auto simp: points_ok_def)
    then have "x = did \<Longrightarrow> i \<in> indexed w did" using none by auto
    then show "\<exists>x. i \<in> being_indexed w' x \<or> i \<in> indexed w' x"
      using x after(4,5) none by (intro exI [of _ x], cases "x = did") (simp_all add: f(1))
  qed
  moreover have "thread_ok w' b x" if "w_threads w' b = Some x" for b x
  proof (cases "b = a")
    case False
    then have x: "thread_ok w b x" using that thread_okD [OF inv] by (simp add: f)
    show ?thesis
    proof (cases x)
      case (Index_Claimed ctx bs)
      then show ?thesis using x known notd after by (auto simp: worker_ok_def f)
    next
      case (Index_Fenced ctx ps bs)
      then have "ix_document_id ctx \<noteq> did" using x before(1) by auto
      then show ?thesis using x known notd after Index_Fenced by (auto simp: worker_ok_def f)
    qed (use x known notd after pts in \<open>auto simp: comp_ok_def f\<close>)
  qed (use that t f in simp)
  moreover have "b = c" if "w_threads w' b = Some x" "w_threads w' c = Some y"
    "worker_op x = Some q" "worker_op y = Some q" for b c x y q
  proof -
    have old: "q \<noteq> op" if "w_threads w e = Some z" "worker_op z = Some q" for e z
      using thread_okD [OF inv that(1)] that(2) notd by (cases z) (auto simp: worker_ok_def)
    show ?thesis
      using that t(2) old same_workerD [OF inv] by (auto simp: f split: if_splits)
  qed
  ultimately show ?thesis using after(3) unfolding index_inv_def threads_ok_def by (simp add: f(1))
qed

text \<open>An operation is released: its document gets its next state, or fails.\<close>

lemma release_frame:
  assumes inv: "index_inv w"
    and before: "owner (w_db w) did = Some op"
      "\<And>b ctx ps bs. w_threads w b = Some (Index_Fenced ctx ps bs) \<Longrightarrow> ix_document_id ctx \<noteq> did"
    and after: "owner db' = (owner (w_db w))(did := None)"
      "\<And>x. x \<noteq> did \<Longrightarrow> state db' x = state (w_db w) x" "db_ok db'"
      "\<And>x. x \<noteq> did \<Longrightarrow> chunk_ids VS_INDEXING db' x = being_indexed w x"
      "\<And>x. x \<noteq> did \<Longrightarrow> chunk_ids VS_INDEXED db' x = indexed w x"
      "chunk_ids VS_INDEXING db' did = {}"
      "chunk_ids VS_INDEXED db' did \<noteq> {} \<longrightarrow> state db' did = Some DOC_INDEXED"
      "(being_indexed w did \<union> indexed w did) \<inter> point_ids w \<subseteq> chunk_ids VS_INDEXED db' did"
  shows "index_inv (w\<lparr>w_db := db'\<rparr>)"
proof -
  let ?w = "w\<lparr>w_db := db'\<rparr>"
  note inv' = index_invD [OF inv]
  have "owners_ok ?w" using inv'(2) after by (auto simp: owners_ok_def)
  moreover have "chunks_ok ?w"
    using inv'(3) after by (auto simp: chunks_ok_def) (metis empty_iff)+
  moreover have "points_ok ?w"
    unfolding points_ok_def
  proof
    fix i assume "i \<in> point_ids ?w"
    then have i: "i \<in> point_ids w" by (simp add: point_ids_def)
    then obtain x where "i \<in> being_indexed w x \<or> i \<in> indexed w x" using inv'(4) by (auto simp: points_ok_def)
    then show "\<exists>x. i \<in> being_indexed ?w x \<or> i \<in> indexed ?w x"
    proof (cases "x = did")
      case True
      then have "i \<in> indexed ?w did" using after(8) i \<open>i \<in> being_indexed w x \<or> i \<in> indexed w x\<close> by auto
      then show ?thesis by blast
    next
      case False
      then show ?thesis using after(4,5) [OF False] \<open>i \<in> being_indexed w x \<or> i \<in> indexed w x\<close>
        by (intro exI [of _ x]) simp
    qed
  qed
  moreover have "thread_ok ?w b x" if "w_threads w b = Some x" for b x
  proof -
    have x: "thread_ok w b x" using that by (rule thread_okD [OF inv])
    show ?thesis
    proof (cases x)
      case (Index_Fenced ctx ps bs)
      then show ?thesis using x that before(2) after by (auto simp: worker_ok_def)
    qed (use x after in \<open>auto simp: worker_ok_def comp_ok_def point_ids_def\<close>)
  qed
  ultimately show ?thesis using inv'(5) after(3) by (simp add: index_inv_def threads_ok_def)
qed

text \<open>The state of an owned document changes within its stage.\<close>

lemma state_frame:
  assumes inv: "index_inv w"
    and before: "owner (w_db w) did = Some op" "w_ops w op = Some (s, did)" "new \<in> busy s" "new \<noteq> DOC_INDEXED"
    and after: "owner db' = owner (w_db w)" "state db' = (state (w_db w))(did := Some new)"
      "child_chunks db' = child_chunks (w_db w)" "db_ok db'" "new = DOC_FAILED"
  shows "index_inv (w\<lparr>w_db := db'\<rparr>)"
proof -
  let ?w = "w\<lparr>w_db := db'\<rparr>"
  note inv' = index_invD [OF inv] and chunks = same_chunks [OF after(3)]
  obtain s' where "w_ops w op = Some (s', did)" "state (w_db w) did \<in> Some ` busy s'"
    using owner_stage [OF inv before(1)] .
  then have "state (w_db w) did \<noteq> Some DOC_INDEXED" by (cases s') auto
  then have none: "indexed w did = {}" using inv'(3) by (auto simp: chunks_ok_def)
  have "owners_ok ?w" using inv'(2) before after by (auto simp: owners_ok_def)
  moreover have "chunks_ok ?w" using inv'(3) after none by (auto simp: chunks_ok_def chunks)
  moreover have "points_ok ?w" using inv'(4) by (auto simp: points_ok_def chunks point_ids_def)
  moreover have "thread_ok ?w b x" if "w_threads w b = Some x" for b x
    using thread_okD [OF inv that] after
    by (cases x) (auto simp: worker_ok_def comp_ok_def chunks point_ids_def)
  ultimately show ?thesis using inv'(5) after(4) by (simp add: index_inv_def threads_ok_def)
qed

section \<open>Every step keeps the invariant\<close>

lemma owned:
  assumes inv: "index_inv w" and o: "owner (w_db w) did = Some op"
  shows "indexed w did = {}" "w_ops w op = Some (s, x) \<Longrightarrow> x = did"
    "w_ops w op = Some (s, x) \<Longrightarrow> s \<noteq> Indexing \<Longrightarrow> being_indexed w did = {}"
    "w_ops w op = Some (s, x) \<Longrightarrow> s \<noteq> Indexing \<Longrightarrow>
      w_threads w b = Some (Index_Fenced ctx ps bs) \<Longrightarrow> ix_document_id ctx \<noteq> did"
proof -
  obtain s' where s': "w_ops w op = Some (s', did)" "state (w_db w) did \<in> Some ` busy s'"
    using owner_stage [OF inv o] .
  then have "state (w_db w) did \<noteq> Some DOC_INDEXED" by (cases s') auto
  then show "indexed w did = {}" using indexed_state [OF inv] by blast
  show "w_ops w op = Some (s, x) \<Longrightarrow> x = did" using s' by simp
  assume s: "w_ops w op = Some (s, x)" "s \<noteq> Indexing"
  show "being_indexed w did = {}"
  proof (rule ccontr)
    assume "being_indexed w did \<noteq> {}"
    then obtain i where "i \<in> being_indexed w did" by blast
    then show False using being_indexed_owner [OF inv] o s by (metis option.inject prod.inject)
  qed
  assume "w_threads w b = Some (Index_Fenced ctx ps bs)"
  then show "ix_document_id ctx \<noteq> did"
    using thread_okD [OF inv] o s by (fastforce simp: worker_ok_def)
qed

text \<open>An operation that is not an indexing leaves its stage.\<close>

lemma release_other:
  assumes inv: "index_inv w" and o: "owner (w_db w) did = Some op"
    and s: "w_ops w op = Some (s, did)" "s \<noteq> Indexing"
    and after: "owner db' = (owner (w_db w))(did := None)"
      "\<And>x. x \<noteq> did \<Longrightarrow> state db' x = state (w_db w) x" "db_ok db'"
      "\<And>v x. v \<in> {VS_INDEXING, VS_INDEXED} \<Longrightarrow> chunk_ids v db' x \<subseteq> chunk_ids v (w_db w) x"
      "\<And>v x. v \<in> {VS_INDEXING, VS_INDEXED} \<Longrightarrow> x \<noteq> did \<Longrightarrow> chunk_ids v db' x = chunk_ids v (w_db w) x"
  shows "index_inv (w\<lparr>w_db := db'\<rparr>)"
proof (rule release_frame [OF inv o])
  note none = owned(1) [OF inv o] owned(3) [OF inv o s]
  show "chunk_ids VS_INDEXING db' did = {}" using after(4) [of VS_INDEXING did] none by auto
  have "chunk_ids VS_INDEXED db' did = {}" using after(4) [of VS_INDEXED did] none by auto
  then show "chunk_ids VS_INDEXED db' did \<noteq> {} \<longrightarrow> state db' did = Some DOC_INDEXED" by simp
  show "(being_indexed w did \<union> indexed w did) \<inter> point_ids w \<subseteq> chunk_ids VS_INDEXED db' did"
    using none by simp
qed (use after owned(4) [OF inv o s] in auto)

lemma stage_of_owner:
  assumes "index_inv w" "owner (w_db w) did = Some op" "state (w_db w) did = Some st"
    and "st \<notin> {DOC_INDEXING, DOC_FAILED}"
  shows "\<exists>s. w_ops w op = Some (s, did) \<and> s \<noteq> Indexing"
proof -
  from owner_stage [OF assms(1,2)] obtain s where "w_ops w op = Some (s, did)"
    "state (w_db w) did \<in> Some ` busy s" .
  then show ?thesis using assms(3,4) by (cases s) auto
qed

lemma concat_batches: "0 < n \<Longrightarrow> concat (batches n xs) = xs"
proof (induction n xs rule: batches.induct)
  case (1 n xs)
  then show ?case by (cases "xs = []") (simp_all add: batches.simps [of n xs] batches.simps [of n "[]"])
qed

lemma batch_points_ids:
  "batch_points ist embedder ctx b = Inr ps \<Longrightarrow> fst ` set ps \<subseteq> ic_chunk_id ` set b"
  by (auto simp: batch_points_def build_point_def dest: set_zip_leftD intro!: imageI split: sum.splits)

lemma upsert_points_ids: "fst ` set (upsert_points ps vs) = fst ` set ps \<union> fst ` set vs"
proof (induction ps arbitrary: vs)
  case (Cons p ps)
  obtain i x where p: "p = (i, x)" by (cases p)
  have "fst ` set ((i, x) # filter (\<lambda>(j, _). j \<noteq> i) vs) = insert i (fst ` set vs)" by force
  then show ?case using Cons by (simp add: upsert_points_def p case_prod_unfold)
qed (simp add: upsert_points_def)

lemma delete_points_ids: "fst ` set (delete_points ids vs) = fst ` set vs - set ids"
  by (force simp: delete_points_def)

text \<open>Points are written for chunks that are being indexed, or deleted.\<close>

lemma points_change:
  assumes inv: "index_inv w"
    and new: "\<And>i. i \<in> fst ` set ps \<Longrightarrow> i \<notin> point_ids w \<Longrightarrow> \<exists>did. i \<in> being_indexed w did \<and>
      (\<forall>b op sn. w_threads w b = Some (Index_Comp_Deleted op sn) \<longrightarrow> sn_document_id sn \<noteq> did)"
  shows "index_inv (w\<lparr>w_points := ps\<rparr>)"
proof -
  let ?w = "w\<lparr>w_points := ps\<rparr>"
  note inv' = index_invD [OF inv]
  have ids: "point_ids ?w = fst ` set ps" by (simp add: point_ids_def)
  have "points_ok ?w"
    unfolding points_ok_def ids
  proof
    fix i assume i: "i \<in> fst ` set ps"
    have "\<exists>did. i \<in> being_indexed w did \<or> i \<in> indexed w did"
    proof (cases "i \<in> point_ids w")
      case True
      then show ?thesis using inv'(4) unfolding points_ok_def by blast
    qed (use new i in blast)
    then show "\<exists>did. i \<in> being_indexed ?w did \<or> i \<in> indexed ?w did" by simp
  qed
  moreover have "thread_ok ?w b x" if x: "w_threads w b = Some x" for b x
  proof (cases x)
    case (Index_Comp_Deleted op sn)
    note ok = thread_okD [OF inv x, unfolded Index_Comp_Deleted, simplified]
    have "fst ` set ps \<inter> set (sn_chunk_ids sn) = {}" if o: "owner (w_db w) (sn_document_id sn) = Some op"
    proof (rule ccontr)
      assume "\<not> ?thesis"
      then obtain i where i: "i \<in> fst ` set ps" "i \<in> set (sn_chunk_ids sn)" by blast
      then have "i \<notin> point_ids w" "i \<in> being_indexed w (sn_document_id sn)"
        using ok o by (auto simp: comp_ok_def)
      then show False
        using new [OF i(1)] x Index_Comp_Deleted chunk_ids_disjoint [OF inv'(1)] by blast
    qed
    then show ?thesis using ok by (simp add: Index_Comp_Deleted ids comp_ok_def)
  qed (use thread_okD [OF inv x] in \<open>auto simp: worker_ok_def comp_ok_def\<close>)
  ultimately show ?thesis
    using inv' by (simp add: index_inv_def threads_ok_def owners_ok_def chunks_ok_def)
qed

lemma upsert_inv:
  assumes inv: "index_inv w" and a: "w_threads w a = Some (Index_Fenced ctx ps bs)" and qs: "set qs \<subseteq> set ps"
  shows "index_inv (w\<lparr>w_points := upsert_points qs (w_points w)\<rparr>)"
proof (rule points_change [OF inv])
  fix i assume "i \<in> fst ` set (upsert_points qs (w_points w))" "i \<notin> point_ids w"
  then have i: "i \<in> fst ` set ps" using qs by (auto simp: upsert_points_ids point_ids_def)
  note ok = thread_okD [OF inv a, simplified]
  have "sn_document_id sn \<noteq> ix_document_id ctx" if "w_threads w b = Some (Index_Comp_Deleted op sn)" for b op sn
  proof
    assume "sn_document_id sn = ix_document_id ctx"
    then have "a = b" using ok thread_okD [OF inv that] by simp
    then show False using a that by simp
  qed
  then show "\<exists>did. i \<in> being_indexed w did \<and>
      (\<forall>b op sn. w_threads w b = Some (Index_Comp_Deleted op sn) \<longrightarrow> sn_document_id sn \<noteq> did)"
    using i ok by (intro exI [of _ "ix_document_id ctx"]) (auto simp: worker_ok_def)
qed

lemma delete_inv: "index_inv w \<Longrightarrow> index_inv (w\<lparr>w_points := delete_points ids (w_points w)\<rparr>)"
  by (rule points_change) (auto simp: delete_points_ids point_ids_def)

lemma files_inv: "index_inv (w\<lparr>w_files := fs\<rparr>) = index_inv w"
proof -
  have "thread_ok (w\<lparr>w_files := fs\<rparr>) b x = thread_ok w b x" for b x
    by (cases x) (simp_all add: worker_ok_def comp_ok_def point_ids_def)
  then show ?thesis
    by (simp add: index_inv_def threads_ok_def owners_ok_def chunks_ok_def points_ok_def point_ids_def)
qed

text \<open>A document appears.\<close>

lemma register_frame:
  assumes inv: "index_inv w" and fresh: "document_get_by_id did (w_db w) = None"
    and after: "owner db' = owner (w_db w)" "state db' = (state (w_db w))(did := Some DOC_UPLOADED)"
      "child_chunks db' = child_chunks (w_db w)" "db_ok db'"
  shows "index_inv (w\<lparr>w_db := db'\<rparr>)"
proof -
  let ?w = "w\<lparr>w_db := db'\<rparr>"
  note inv' = index_invD [OF inv] and chunks = same_chunks [OF after(3)]
  have none: "owner (w_db w) did = None" "state (w_db w) did = None"
    using fresh by (simp_all add: owner_def state_def)
  have none2: "indexed w did = {}" using indexed_state [OF inv] none by auto
  have "owners_ok ?w" using inv'(2) after none by (auto simp: owners_ok_def)
  moreover have "chunks_ok ?w" using inv'(3) after none none2 by (auto simp: chunks_ok_def chunks)
  moreover have "points_ok ?w" using inv'(4) by (auto simp: points_ok_def chunks point_ids_def)
  moreover have "thread_ok ?w b x" if x: "w_threads w b = Some x" for b x
    using thread_okD [OF inv x] none after
    by (cases x) (auto simp: worker_ok_def comp_ok_def chunks point_ids_def)
  ultimately show ?thesis using inv'(5) after(4) by (simp add: index_inv_def threads_ok_def)
qed

text \<open>Nothing that the protocol is about changes.\<close>

lemma same_views_frame:
  assumes inv: "index_inv w"
    and after: "owner db' = owner (w_db w)" "state db' = state (w_db w)"
      "child_chunks db' = child_chunks (w_db w)" "db_ok db'"
  shows "index_inv (w\<lparr>w_db := db'\<rparr>)"
proof -
  have "thread_ok (w\<lparr>w_db := db'\<rparr>) b x = thread_ok w b x" for b x
    by (cases x) (simp_all add: worker_ok_def comp_ok_def point_ids_def after same_chunks [OF after(3)])
  then show ?thesis using inv after same_chunks [OF after(3)]
    by (simp add: index_inv_def threads_ok_def owners_ok_def chunks_ok_def points_ok_def point_ids_def)
qed

section \<open>Steps\<close>

lemma process_claim_inv:
  assumes inv: "index_inv w" and free: "w_threads w a = None" "w_ops w op = None"
    and step: "claim_processing did op (w_db w) = Inr (ctx, db')"
  shows "index_inv (set_thread a (Process_Claimed ctx) (issue op Processing did (w\<lparr>w_db := db'\<rparr>)))"
proof (rule claim_frame [OF inv free])
  note E = claim_processing_effect [OF step]
  show "chunk_ids VS_INDEXING db' did \<noteq> {} \<longrightarrow> Processing = Indexing"
  proof -
    have "being_indexed w did = {}"
      using E index_invD(3) [OF inv] by (auto simp: chunks_ok_def)
    then show ?thesis using E by simp
  qed
qed (use claim_processing_effect [OF step] index_invD(1) [OF inv] in auto)

lemma chunk_claim_inv:
  assumes inv: "index_inv w" and free: "w_threads w a = None" "w_ops w op = None"
    and step: "claim_chunking did op (w_db w) = Inr (ctx, db')"
  shows "index_inv (set_thread a (Chunk_Claimed ctx) (issue op Chunking did (w\<lparr>w_db := db'\<rparr>)))"
proof (rule claim_frame [OF inv free])
  note E = claim_chunking_effect [OF step]
  show "chunk_ids VS_INDEXING db' did \<noteq> {} \<longrightarrow> Chunking = Indexing"
  proof -
    have "being_indexed w did = {}"
      using E index_invD(3) [OF inv] by (auto simp: chunks_ok_def)
    then show ?thesis using E by simp
  qed
qed (use claim_chunking_effect [OF step] index_invD(1) [OF inv] in auto)

lemma index_claim_inv:
  assumes inv: "index_inv w" and free: "w_threads w a = None" "w_ops w op = None"
    and step: "claim_indexing did op (w_db w) = Inr (ctx, db')" and n: "0 < n"
  shows "index_inv (set_thread a (Index_Claimed ctx (batches n (ix_chunks ctx)))
    (issue op Indexing did (w\<lparr>w_db := db'\<rparr>)))" (is "index_inv ?w")
proof (rule claim_frame [OF inv free])
  note E = claim_indexing_effect [OF step index_invD(1) [OF inv]]
  show "thread_ok ?w a (Index_Claimed ctx (batches n (ix_chunks ctx)))"
    using E by (simp add: worker_ok_def set_thread_def issue_def concat_batches [OF n] context_chunk_ids_def)
qed (use claim_indexing_effect [OF step index_invD(1) [OF inv]] in auto)

lemma process_complete_inv:
  assumes inv: "index_inv w" and step: "complete_processing now u r (w_db w) = Inr (res, db')"
  shows "index_inv (w\<lparr>w_db := db'\<rparr>)"
proof -
  note E = complete_processing_effect [OF step]
  obtain s where s: "w_ops w (xr_operation_id r) = Some (s, xr_document_id r)" "s \<noteq> Indexing"
    using stage_of_owner [OF inv, of "xr_document_id r" "xr_operation_id r" DOC_PROCESSING] E by auto
  show ?thesis
    by (rule release_other [OF inv _ s]) (use E index_invD(1) [OF inv] in auto)
qed

lemma chunk_complete_inv:
  assumes inv: "index_inv w" and step: "complete_chunking ports u ctx r (w_db w) = Inr (res, db')"
  shows "index_inv (w\<lparr>w_db := db'\<rparr>)"
proof -
  note E = complete_chunking_effect [OF step index_invD(1) [OF inv]]
  obtain s where s: "w_ops w (kx_operation_id ctx) = Some (s, kx_document_id ctx)" "s \<noteq> Indexing"
    using stage_of_owner [OF inv, of "kx_document_id ctx" "kx_operation_id ctx" DOC_CHUNKING] E by auto
  show ?thesis
    by (rule release_other [OF inv _ s]) (use E in \<open>auto split: if_splits\<close>)
qed

lemma chunk_fail_inv:
  assumes inv: "index_inv w" and step: "fail_chunking did op (w_db w) = (r, db')"
  shows "index_inv (w\<lparr>w_db := db'\<rparr>)"
proof (cases "db' = w_db w")
  case False
  then have E: "owner (w_db w) did = Some op" "state (w_db w) did = Some DOC_CHUNKING"
    "owner db' = (owner (w_db w))(did := None)" "state db' = (state (w_db w))(did := Some DOC_FAILED)"
    "child_chunks db' = child_chunks (w_db w)" "db_ok db'"
    using fail_chunking_effect [OF step] index_invD(1) [OF inv] by auto
  obtain s where s: "w_ops w op = Some (s, did)" "s \<noteq> Indexing"
    using stage_of_owner [OF inv E(1,2)] by auto
  show ?thesis
    by (rule release_other [OF inv E(1) s]) (use E same_chunks [OF E(5)] in auto)
qed (use inv in simp)

lemma process_release_inv:
  assumes inv: "index_inv w" and s: "w_ops w op = Some (Processing, did)"
  shows "index_inv (w\<lparr>w_db := release_operation did op (w_db w)\<rparr>)"
proof (cases "release_operation did op (w_db w) = w_db w")
  case False
  let ?db = "release_operation did op (w_db w)"
  have E: "owner (w_db w) did = Some op" "owner ?db = (owner (w_db w))(did := None)" "state ?db = state (w_db w)"
    "child_chunks ?db = child_chunks (w_db w)" "db_ok ?db"
    using release_operation_effect [of did op "w_db w"] index_invD(1) [OF inv] False by auto
  show ?thesis
    by (rule release_other [OF inv E(1) s]) (use E same_chunks [OF E(4)] in auto)
qed (use inv in simp)

lemma process_fail_inv:
  assumes inv: "index_inv w" and s: "w_ops w op = Some (Processing, did)"
    and step: "fail_processing did op (w_db w) = (r, db')"
  shows "index_inv (w\<lparr>w_db := db'\<rparr>)"
proof (cases "db' = w_db w")
  case False
  then show ?thesis
    using fail_processing_effect [OF step] index_invD(1) [OF inv]
    by (intro state_frame [OF inv _ s, where new = DOC_FAILED]) auto
qed (use inv in simp)

lemma index_complete_inv:
  assumes inv: "index_inv w" and a: "w_threads w a = Some (Index_Claimed ctx bs)"
    and step: "complete_indexing now ctx (w_db w) = Inr (res, db')"
  shows "index_inv (w\<lparr>w_db := db'\<rparr>)"
proof -
  let ?did = "ix_document_id ctx"
  note E = complete_indexing_effect [OF step index_invD(1) [OF inv]]
  have o: "owner (w_db w) ?did = Some (ix_operation_id ctx)" using E by simp
  have "ix_document_id ctx' \<noteq> ?did" if b: "w_threads w b = Some (Index_Fenced ctx' ps bs')" for b ctx' ps bs'
  proof
    assume "ix_document_id ctx' = ?did"
    then have "ix_operation_id ctx' = ix_operation_id ctx" using thread_okD [OF inv b] o by simp
    then have "b = a" using same_workerD [OF inv b a] by simp
    then show False using a b by simp
  qed
  then show ?thesis
    by (rule release_frame [OF inv o]) (use E in \<open>auto simp: owned(1) [OF inv o]\<close>)
qed

lemma index_comp_complete_inv:
  assumes inv: "index_inv w" and a: "w_threads w a = Some (Index_Comp_Deleted op sn)"
    and step: "complete_index_compensation sn op (w_db w) = (r, db')"
  shows "index_inv (w\<lparr>w_db := db'\<rparr>)"
proof (cases "db' = w_db w")
  case False
  let ?did = "sn_document_id sn"
  have E: "owner (w_db w) ?did = Some op" "state (w_db w) ?did = Some DOC_FAILED"
    "owner db' = (owner (w_db w))(?did := None)" "state db' = state (w_db w)" "db_ok db'"
    "chunk_ids VS_INDEXING db' = (being_indexed w)(?did := being_indexed w ?did - set (sn_chunk_ids sn))"
    "chunk_ids VS_INDEXED db' = indexed w"
    using complete_index_comp_effect [OF step index_invD(1) [OF inv]] False by auto
  note ok = thread_okD [OF inv a, simplified]
  have "ix_document_id ctx \<noteq> ?did" if b: "w_threads w b = Some (Index_Fenced ctx ps bs)" for b ctx ps bs
  proof
    assume "ix_document_id ctx = ?did"
    then have "b = a" using thread_okD [OF inv b] ok by simp
    then show False using a b by simp
  qed
  then show ?thesis
    by (rule release_frame [OF inv E(1)])
      (use E ok owned(1) [OF inv E(1)] in \<open>auto simp: comp_ok_def\<close>)
qed (use inv in simp)

lemma index_prepare_inv:
  assumes inv: "index_inv w" and s: "w_ops w op = Some (Indexing, did)"
    and step: "prepare_index_compensation did op (w_db w) = (Some sn, db')"
  shows "index_inv (w\<lparr>w_db := db'\<rparr>) \<and> comp_ok (w\<lparr>w_db := db'\<rparr>) op sn"
proof -
  note E = prepare_index_effect [OF step index_invD(1) [OF inv]]
  have "index_inv (w\<lparr>w_db := db'\<rparr>)"
    using E by (intro state_frame [OF inv _ s, where new = DOC_FAILED]) auto
  moreover have "comp_ok (w\<lparr>w_db := db'\<rparr>) op sn"
    using E s same_chunks [of db' "w_db w"] by (simp add: comp_ok_def)
  ultimately show ?thesis ..
qed

lemma set_thread_inv:
  assumes "index_inv w" "w_threads w a = Some x" "thread_ok w a t" "worker_op t \<in> {None, worker_op x}"
  shows "index_inv (set_thread a t w)"
  by (rule thread_change [OF assms(1), where a = a and t = "Some t"])
    (use assms thread_ok_cong [of "set_thread a t w" w] in \<open>auto simp: set_thread_def point_ids_def\<close>)

lemma new_thread_inv:
  assumes "index_inv w" "thread_ok w a t" "worker_op t = None"
  shows "index_inv (set_thread a t w)"
  by (rule thread_change [OF assms(1), where a = a and t = "Some t"])
    (use assms thread_ok_cong [of "set_thread a t w" w] in \<open>auto simp: set_thread_def point_ids_def\<close>)

lemma process_fence_inv: "index_inv (w\<lparr>w_process_fence := f\<rparr>) = index_inv w"
proof -
  have "thread_ok (w\<lparr>w_process_fence := f\<rparr>) b x = thread_ok w b x" for b x
    by (cases x) (simp_all add: worker_ok_def comp_ok_def point_ids_def)
  then show ?thesis
    by (simp add: index_inv_def threads_ok_def owners_ok_def chunks_ok_def points_ok_def point_ids_def)
qed

lemma fence_inv:
  assumes "index_inv w" "w_threads w a = Some x" "w_index_fence w did = None"
    and "thread_ok (w\<lparr>w_index_fence := (w_index_fence w)(did \<mapsto> a)\<rparr>) a t"
    and "worker_op t \<in> {None, worker_op x}"
  shows "index_inv (set_thread a t (w\<lparr>w_index_fence := (w_index_fence w)(did \<mapsto> a)\<rparr>))" (is "index_inv ?w")
proof (rule thread_change [OF assms(1), where a = a and t = "Some t"])
  fix y assume y: "Some t = Some y"
  show "thread_ok ?w a y"
    by (rule thread_ok_cong [of _ "w\<lparr>w_index_fence := (w_index_fence w)(did \<mapsto> a)\<rparr>"])
      (use y assms(4) in \<open>auto simp: set_thread_def point_ids_def\<close>)
qed (use assms in \<open>auto simp: set_thread_def\<close>)

lemma index_enter_inv:
  assumes inv: "index_inv w" and a: "w_threads w a = Some (Index_Claimed ctx (b # bs))"
    and ps: "batch_points ist embedder ctx b = Inr ps" and free: "w_index_fence w (ix_document_id ctx) = None"
    and own: "assert_indexing_owned ctx (w_db w) = Inr ()"
  shows "index_inv (set_thread a (Index_Fenced ctx ps bs)
    (w\<lparr>w_index_fence := (w_index_fence w)(ix_document_id ctx \<mapsto> a)\<rparr>))"
proof (rule fence_inv [OF inv a free])
  note ok = thread_okD [OF inv a, simplified]
  have "fst ` set ps \<subseteq> set (context_chunk_ids ctx)"
    using batch_points_ids [OF ps] ok by (auto simp: worker_ok_def)
  moreover have "owner (w_db w) (ix_document_id ctx) = Some (ix_operation_id ctx)"
    using own by (auto simp: assert_indexing_owned_def owner_def split: option.splits if_splits)
  ultimately show "thread_ok (w\<lparr>w_index_fence := (w_index_fence w)(ix_document_id ctx \<mapsto> a)\<rparr>) a (Index_Fenced ctx ps bs)"
    using ok by (simp add: worker_ok_def image_Un)
qed simp

lemma index_upsert_inv:
  assumes inv: "index_inv w" and a: "w_threads w a = Some (Index_Fenced ctx ps bs)"
  shows "index_inv (set_thread a (Index_Claimed ctx bs)
    (end_thread a (w\<lparr>w_points := upsert_points ps (w_points w)\<rparr>)))"
proof -
  let ?w = "w\<lparr>w_points := upsert_points ps (w_points w)\<rparr>"
  have inv: "index_inv ?w" by (rule upsert_inv [OF inv a subset_refl])
  have a': "w_threads ?w a = Some (Index_Fenced ctx ps bs)" using a by simp
  have "worker_ok ?w ctx bs" using thread_okD [OF inv a'] by simp
  then show ?thesis
    by (intro thread_change [OF inv, where a = a and t = "Some (Index_Claimed ctx bs)"])
      (use a in \<open>auto simp: set_thread_def end_thread_def free_fence_def worker_ok_def\<close>)
qed

lemma index_delete_inv:
  assumes inv: "index_inv w" and a: "w_threads w a = Some (Index_Comp_Fenced op sn)"
  shows "index_inv (set_thread a (Index_Comp_Deleted op sn)
    (w\<lparr>w_points := delete_points (sn_chunk_ids sn) (w_points w)\<rparr>))"
proof -
  let ?w = "w\<lparr>w_points := delete_points (sn_chunk_ids sn) (w_points w)\<rparr>"
  have inv: "index_inv ?w" by (rule delete_inv [OF inv])
  have a': "w_threads ?w a = Some (Index_Comp_Fenced op sn)" using a by simp
  have "point_ids ?w \<inter> set (sn_chunk_ids sn) = {}" by (auto simp: point_ids_def delete_points_ids)
  then show ?thesis
    using thread_okD [OF inv a'] by (intro new_thread_inv [OF inv]) simp_all
qed

lemma doc_step_inv: "doc_step st w w' \<Longrightarrow> index_inv w \<Longrightarrow> index_inv w'"
proof (induction rule: doc_step.induct)
  case (upload ports ust now code f m actor w r db' fs')
  have "index_inv (w\<lparr>w_db := db'\<rparr>)"
    using upload_effect [OF upload(1) index_invD(1) [OF upload(4)]] register_frame [OF upload(4)] upload(4) by auto
  then show ?case using files_inv [where w = "w\<lparr>w_db := db'\<rparr>" and fs = fs'] by simp
next
  case (deactivate now did reason replaced_by w d db')
  from deactivate_effect [OF deactivate(1)] index_invD(1) [OF deactivate(2)] show ?case
    by (intro same_views_frame [OF deactivate(2)]) auto
next
  case (thread_end w a)
  then show ?case by (rule end_thread_inv)
next
  case process_claim
  then show ?case by (intro process_claim_inv)
next
  case (process_enter w a ctx)
  then have "index_inv (w\<lparr>w_process_fence := (w_process_fence w)(px_document_id ctx \<mapsto> a)\<rparr>)"
    by (simp add: process_fence_inv)
  then show ?case by (rule new_thread_inv) simp_all
next
  case (process_promote w a ctx ports u r fs1 r2 fs2)
  have "index_inv (end_thread a (w\<lparr>w_files := fs2\<rparr>))" using process_promote(4) by (simp add: files_inv end_thread_inv)
  then show ?case by (rule new_thread_inv) simp_all
next
  case process_abort
  then show ?case by (simp add: files_inv end_thread_inv)
next
  case process_complete
  then show ?case by (intro end_thread_inv process_complete_inv)
next
  case (process_comp_fail w a op did r db')
  then have "index_inv (w\<lparr>w_db := db'\<rparr>)" by (intro process_fail_inv)
  then show ?case using process_comp_fail by (intro new_thread_inv) simp_all
next
  case (process_comp_enter w a did op)
  then have "index_inv (w\<lparr>w_process_fence := (w_process_fence w)(did \<mapsto> a)\<rparr>)"
    by (simp add: process_fence_inv)
  then show ?case using thread_okD [OF process_comp_enter(4,1)] by (intro new_thread_inv) simp_all
next
  case (process_comp_clean w a did op fs')
  then show ?case using thread_okD [OF process_comp_clean(3,1)]
    by (intro new_thread_inv) (simp_all add: files_inv)
next
  case process_comp_abort
  then show ?case by (simp add: files_inv end_thread_inv)
next
  case (process_comp_release w a did op)
  then show ?case using thread_okD [OF process_comp_release(2,1)]
    by (intro end_thread_inv process_release_inv) simp_all
next
  case chunk_claim
  then show ?case by (intro chunk_claim_inv)
next
  case chunk_build
  then show ?case by (intro new_thread_inv) simp_all
next
  case chunk_complete
  then show ?case by (intro end_thread_inv chunk_complete_inv)
next
  case chunk_fail
  then show ?case by (intro chunk_fail_inv)
next
  case index_claim
  then show ?case by (intro index_claim_inv)
next
  case index_enter
  then show ?case by (intro index_enter_inv)
next
  case index_upsert
  then show ?case by (intro index_upsert_inv)
next
  case index_abort
  then show ?case by (intro end_thread_inv upsert_inv)
next
  case index_complete
  then show ?case by (intro end_thread_inv index_complete_inv)
next
  case (index_comp_prepare w a op did sn db')
  from index_prepare_inv [OF index_comp_prepare(4,2,3)] show ?case by (intro new_thread_inv) simp_all
next
  case (index_comp_enter w a op sn)
  then show ?case using thread_okD [OF index_comp_enter(3,1)]
    by (intro fence_inv [OF index_comp_enter(3,1)]) (simp_all add: comp_ok_def)
next
  case index_comp_delete
  then show ?case by (intro index_delete_inv)
next
  case index_comp_abort
  then show ?case by (intro end_thread_inv delete_inv)
next
  case index_comp_complete
  then show ?case by (intro end_thread_inv index_comp_complete_inv)
qed

lemma doc_reachable_inv:
  assumes "doc_reachable st w"
  shows "index_inv w"
  using assms by (induction rule: rtranclp_induct) (auto intro: doc_step_inv index_inv_empty)

end
