(* ===== verification/Document_Run.thy ===== *)
theory Document_Run
  imports Document_Invariant
begin

text \<open>
  An executable scheduler for the document pipeline: each action names the thread that moves and
  what its outside calls return; a list of actions is one interleaving.  Every run is reachable.
\<close>

record run_env =
  env_ports :: document_ports
  env_upload :: upload_settings
  env_indexing :: indexing_settings
  env_embedder :: "utext list \<Rightarrow> int list list result"
  env_uuids :: uuids

datatype action =
    Act_Upload string upload_file upload_metadata
  | Act_Process_Claim nat int ident
  | Act_Process_Enter nat
  | Act_Process_Promote nat
  | Act_Process_Complete nat
  | Act_Process_Comp_Fail nat ident
  | Act_Process_Comp_Enter nat
  | Act_Process_Comp_Clean nat
  | Act_Process_Comp_Release nat
  | Act_Chunk_Claim nat int ident
  | Act_Chunk_Build nat
  | Act_Chunk_Complete nat
  | Act_Index_Claim nat int ident
  | Act_Index_Enter nat
  | Act_Index_Upsert nat
  | Act_Index_Complete nat
  | Act_Index_Prepare nat ident
  | Act_Index_Comp_Enter nat
  | Act_Index_Comp_Delete nat
  | Act_Index_Comp_Complete nat
  | Act_End nat

text \<open>A claim is a transaction of a free thread under a new operation id.\<close>

definition start_claim ::
  "nat \<Rightarrow> int \<Rightarrow> ident \<Rightarrow> stage \<Rightarrow> (int \<Rightarrow> ident \<Rightarrow> document_db \<Rightarrow> ('c \<times> document_db) result) \<Rightarrow> ('c \<Rightarrow> thread) \<Rightarrow>
     doc_world \<Rightarrow> doc_world option" where
  "start_claim a did op s claim th w =
     (if w_threads w a \<noteq> None \<or> w_ops w op \<noteq> None then None
      else case claim did op (w_db w) of
        Inl _ \<Rightarrow> None
      | Inr (ctx, db') \<Rightarrow> Some (set_thread a (th ctx) (issue op s did (w\<lparr>w_db := db'\<rparr>))))"

definition finish :: "nat \<Rightarrow> ('r \<times> document_db) result \<Rightarrow> doc_world \<Rightarrow> doc_world option" where
  "finish a r w = (case r of Inl _ \<Rightarrow> None | Inr (_, db') \<Rightarrow> Some (end_thread a (w\<lparr>w_db := db'\<rparr>)))"

fun perform :: "processing_settings \<Rightarrow> run_env \<Rightarrow> action \<Rightarrow> doc_world \<Rightarrow> doc_world option" where
  "perform st env (Act_Upload code f m) w =
     (if prefix (cleaned_storage_dir st) (raw_local_storage_dir (env_upload env)) \<or>
         prefix (cleaned_storage_dir st) (raw_external_storage_dir (env_upload env)) then None
      else case upload_document (env_ports env) (env_upload env) 0 code f m None (w_db w) (w_files w) of
        (_, db', fs') \<Rightarrow> Some (w\<lparr>w_db := db', w_files := fs'\<rparr>))"
| "perform st env (Act_Process_Claim a did op) w =
     start_claim a did op Processing claim_processing Process_Claimed w"
| "perform st env (Act_Process_Enter a) w =
     (case w_threads w a of
        Some (Process_Claimed ctx) \<Rightarrow>
          if w_process_fence w (px_document_id ctx) = None \<and> assert_processing_owned ctx (w_db w) = Inr ()
          then Some (set_thread a (Process_Fenced ctx)
            (w\<lparr>w_process_fence := (w_process_fence w)(px_document_id ctx \<mapsto> a)\<rparr>))
          else None
      | _ \<Rightarrow> None)"
| "perform st env (Act_Process_Promote a) w =
     (case w_threads w a of
        Some (Process_Fenced ctx) \<Rightarrow>
          (case bind (execute_processing (env_ports env) st (env_uuids env) ctx (w_files w))
                  (\<lambda>(r, fs1). promote_processing_artifacts st r fs1) of
             Inl _ \<Rightarrow> None
           | Inr (r2, fs2) \<Rightarrow> Some (set_thread a (Process_Promoted r2) (end_thread a (w\<lparr>w_files := fs2\<rparr>))))
      | _ \<Rightarrow> None)"
| "perform st env (Act_Process_Complete a) w =
     (case w_threads w a of
        Some (Process_Promoted r) \<Rightarrow> finish a (complete_processing 0 (env_uuids env) r (w_db w)) w
      | _ \<Rightarrow> None)"
| "perform st env (Act_Process_Comp_Fail a op) w =
     (case w_ops w op of
        Some (Processing, did) \<Rightarrow>
          if w_threads w a \<noteq> None then None
          else (case fail_processing did op (w_db w) of
            (_, db') \<Rightarrow> Some (set_thread a (Process_Comp_Failed did op) (w\<lparr>w_db := db'\<rparr>)))
      | _ \<Rightarrow> None)"
| "perform st env (Act_Process_Comp_Enter a) w =
     (case w_threads w a of
        Some (Process_Comp_Failed did op) \<Rightarrow>
          if w_process_fence w did = None \<and> owns_failed_operation did op (w_db w)
          then Some (set_thread a (Process_Comp_Owned did op)
            (w\<lparr>w_process_fence := (w_process_fence w)(did \<mapsto> a)\<rparr>))
          else None
      | _ \<Rightarrow> None)"
| "perform st env (Act_Process_Comp_Clean a) w =
     (case w_threads w a of
        Some (Process_Comp_Owned did op) \<Rightarrow>
          (case clean_operation_dirs st op (w_files w) of
             Inl _ \<Rightarrow> None
           | Inr fs' \<Rightarrow> Some (set_thread a (Process_Comp_Cleaned did op) (w\<lparr>w_files := fs'\<rparr>)))
      | _ \<Rightarrow> None)"
| "perform st env (Act_Process_Comp_Release a) w =
     (case w_threads w a of
        Some (Process_Comp_Cleaned did op) \<Rightarrow>
          Some (end_thread a (w\<lparr>w_db := release_operation did op (w_db w)\<rparr>))
      | _ \<Rightarrow> None)"
| "perform st env (Act_Chunk_Claim a did op) w =
     start_claim a did op Chunking claim_chunking Chunk_Claimed w"
| "perform st env (Act_Chunk_Build a) w =
     (case w_threads w a of
        Some (Chunk_Claimed ctx) \<Rightarrow>
          (case execute_chunking ctx (w_files w) of
             Inl _ \<Rightarrow> None | Inr r \<Rightarrow> Some (set_thread a (Chunk_Built ctx r) w))
      | _ \<Rightarrow> None)"
| "perform st env (Act_Chunk_Complete a) w =
     (case w_threads w a of
        Some (Chunk_Built ctx r) \<Rightarrow>
          finish a (complete_chunking (env_ports env) (env_uuids env) ctx r (w_db w)) w
      | _ \<Rightarrow> None)"
| "perform st env (Act_Index_Claim a did op) w =
     (if embedding_batch_size (env_indexing env) \<le> 0 then None
      else start_claim a did op Indexing claim_indexing
        (\<lambda>ctx. Index_Claimed ctx (batches (nat (embedding_batch_size (env_indexing env))) (ix_chunks ctx))) w)"
| "perform st env (Act_Index_Enter a) w =
     (case w_threads w a of
        Some (Index_Claimed ctx (b # bs)) \<Rightarrow>
          if w_index_fence w (ix_document_id ctx) = None \<and> assert_indexing_owned ctx (w_db w) = Inr ()
          then (case batch_points (env_indexing env) (env_embedder env) ctx b of
            Inl _ \<Rightarrow> None
          | Inr ps \<Rightarrow> Some (set_thread a (Index_Fenced ctx ps bs)
              (w\<lparr>w_index_fence := (w_index_fence w)(ix_document_id ctx \<mapsto> a)\<rparr>)))
          else None
      | _ \<Rightarrow> None)"
| "perform st env (Act_Index_Upsert a) w =
     (case w_threads w a of
        Some (Index_Fenced ctx ps bs) \<Rightarrow> Some (set_thread a (Index_Claimed ctx bs)
          (end_thread a (w\<lparr>w_points := upsert_points ps (w_points w)\<rparr>)))
      | _ \<Rightarrow> None)"
| "perform st env (Act_Index_Complete a) w =
     (case w_threads w a of
        Some (Index_Claimed ctx []) \<Rightarrow> finish a (complete_indexing 0 ctx (w_db w)) w
      | _ \<Rightarrow> None)"
| "perform st env (Act_Index_Prepare a op) w =
     (case w_ops w op of
        Some (Indexing, did) \<Rightarrow>
          if w_threads w a \<noteq> None then None
          else (case prepare_index_compensation did op (w_db w) of
            (Some sn, db') \<Rightarrow> Some (set_thread a (Index_Comp_Prepared op sn) (w\<lparr>w_db := db'\<rparr>))
          | _ \<Rightarrow> None)
      | _ \<Rightarrow> None)"
| "perform st env (Act_Index_Comp_Enter a) w =
     (case w_threads w a of
        Some (Index_Comp_Prepared op sn) \<Rightarrow>
          if w_index_fence w (sn_document_id sn) = None
          then Some (set_thread a (Index_Comp_Fenced op sn)
            (w\<lparr>w_index_fence := (w_index_fence w)(sn_document_id sn \<mapsto> a)\<rparr>))
          else None
      | _ \<Rightarrow> None)"
| "perform st env (Act_Index_Comp_Delete a) w =
     (case w_threads w a of
        Some (Index_Comp_Fenced op sn) \<Rightarrow> Some (set_thread a (Index_Comp_Deleted op sn)
          (w\<lparr>w_points := delete_points (sn_chunk_ids sn) (w_points w)\<rparr>))
      | _ \<Rightarrow> None)"
| "perform st env (Act_Index_Comp_Complete a) w =
     (case w_threads w a of
        Some (Index_Comp_Deleted op sn) \<Rightarrow>
          (case complete_index_compensation sn op (w_db w) of
             (_, db') \<Rightarrow> Some (end_thread a (w\<lparr>w_db := db'\<rparr>)))
      | _ \<Rightarrow> None)"
| "perform st env (Act_End a) w = Some (end_thread a w)"

fun perform_all :: "processing_settings \<Rightarrow> run_env \<Rightarrow> action list \<Rightarrow> doc_world \<Rightarrow> doc_world option" where
  "perform_all st env [] w = Some w"
| "perform_all st env (x # xs) w = Option.bind (perform st env x w) (perform_all st env xs)"

lemma finish_Some:
  "finish a r w = Some w' \<Longrightarrow> \<exists>res db'. r = Inr (res, db') \<and> w' = end_thread a (w\<lparr>w_db := db'\<rparr>)"
  by (auto simp: finish_def split: sum.splits)

lemma start_claim_Some:
  "start_claim a did op s claim th w = Some w' \<Longrightarrow> w_threads w a = None \<and> w_ops w op = None \<and>
     (\<exists>ctx db'. claim did op (w_db w) = Inr (ctx, db') \<and>
       w' = set_thread a (th ctx) (issue op s did (w\<lparr>w_db := db'\<rparr>)))"
  by (cases "w_ops w op") (auto simp: start_claim_def split: sum.splits if_splits)

lemma perform_step: "perform st env x w = Some w' \<Longrightarrow> doc_step st w w'"
proof (induction st env x w rule: perform.induct)
  case (4 st env a w)
  then show ?case
    by (auto simp: bind_eq_Inr intro!: process_promote split: option.splits thread.splits sum.splits)
qed (auto intro: doc_step.intros dest!: finish_Some start_claim_Some
    split: option.splits thread.splits sum.splits if_splits prod.splits list.splits stage.splits)

lemma perform_all_reachable:
  "doc_reachable st w \<Longrightarrow> perform_all st env xs w = Some w' \<Longrightarrow> doc_reachable st w'"
  by (induction xs arbitrary: w)
    (auto split: Option.bind_splits dest!: perform_step intro: rtranclp.rtrancl_into_rtrancl)

end
