(* ===== verification/Document_Properties.thy ===== *)
theory Document_Properties
  imports Document_Run
begin

text \<open>
  The protocol between database, vector store and fences: what holds in every reachable state,
  and one schedule in which a late compensator destroys the points of a newer operation.
\<close>

section \<open>A concrete pipeline\<close>

definition demo_settings :: processing_settings where
  "demo_settings = \<lparr>cleaned_storage_dir = [''cleaned''], secondary_text_storage_dir = [''secondary''],
     staging_storage_dir = [''staging'']\<rparr>"

definition demo_env :: run_env where
  "demo_env = \<lparr>env_ports = \<lparr>port_docling = (\<lambda>_ _. Inl (RuntimeError ''no docling'')),
       port_csv_records = (\<lambda>_. Inl (RuntimeError ''no csv'')), port_file_hash = (\<lambda>_. ''h''),
       port_md5_text = (\<lambda>_. ''m'')\<rparr>,
     env_upload = \<lparr>raw_local_storage_dir = [''raw''], raw_external_storage_dir = [''raw_external''],
       max_upload_file_size = 100, default_document_version = 1,
       default_created_by_actor_code = ''system''\<rparr>,
     env_indexing = \<lparr>embedding_batch_size = 2, embedding_vector_size = 1\<rparr>,
     env_embedder = (\<lambda>ts. Inr (map (\<lambda>_. [7]) ts)), env_uuids = (\<lambda>i. replicate (i + 1) CHR ''a'')\<rparr>"

definition demo_file :: upload_file where
  "demo_file = \<lparr>uf_filename = Some ''a.txt'', uf_content_type = Some ''text/plain'', uf_content = [104, 105]\<rparr>"

definition demo_metadata :: upload_metadata where
  "demo_metadata = \<lparr>um_title = ''t'', um_kb_id = 1, um_domain_code = ''d'', um_business_scene = None,
     um_risk_level = ''low'', um_effective_at = None, um_expired_at = None\<rparr>"

definition demo_chunked :: "action list" where
  "demo_chunked =
     [Act_Upload ''doc'' demo_file demo_metadata,
      Act_Process_Claim 1 1 ''p'', Act_Process_Enter 1, Act_Process_Promote 1, Act_Process_Complete 1,
      Act_Chunk_Claim 1 1 ''k'', Act_Chunk_Build 1, Act_Chunk_Complete 1]"

definition demo_written :: "action list" where
  "demo_written = demo_chunked @ [Act_Index_Claim 1 1 ''i'', Act_Index_Enter 1, Act_Index_Upsert 1]"

text \<open>
  The worker of operation \<open>i\<close> dies after its write.  Two compensators read its snapshot; one of them
  finishes, a new operation \<open>j\<close> indexes the document, and then the other one deletes.
\<close>

definition late_compensation :: "action list" where
  "late_compensation = demo_written @
     [Act_End 1, Act_Index_Prepare 2 ''i'', Act_Index_Prepare 3 ''i'',
      Act_Index_Comp_Enter 2, Act_Index_Comp_Delete 2, Act_Index_Comp_Complete 2,
      Act_Index_Claim 4 1 ''j'', Act_Index_Enter 4, Act_Index_Upsert 4, Act_Index_Complete 4,
      Act_Index_Comp_Enter 3, Act_Index_Comp_Delete 3]"

definition demo_run :: "action list \<Rightarrow> doc_world option" where
  "demo_run xs = perform_all demo_settings demo_env xs empty_world"

lemma demo_reachable: "demo_run xs = Some w \<Longrightarrow> doc_reachable demo_settings w"
  unfolding demo_run_def by (rule perform_all_reachable [OF rtranclp.rtrancl_refl])

lemma demo_written_run:
  "(case demo_run demo_written of None \<Rightarrow> False | Some w \<Rightarrow>
     map fst (w_points w) = [1] \<and> map (\<lambda>c. (cc_id c, cc_vector_status c)) (child_chunks (w_db w)) = [(1, VS_INDEXING)])"
  by code_simp

lemma late_compensation_run:
  "(case demo_run late_compensation of None \<Rightarrow> False | Some w \<Rightarrow>
     w_points w = [] \<and> map doc_status (documents (w_db w)) = [DOC_INDEXED] \<and>
     map (\<lambda>c. (cc_id c, cc_vector_status c)) (child_chunks (w_db w)) = [(1, VS_INDEXED)])"
  by code_simp

section \<open>Properties\<close>

lemma chunk_of_point:
  assumes inv: "index_inv w" and "i \<in> point_ids w"
  shows "\<exists>c\<in>set (child_chunks (w_db w)). cc_id c = i \<and>
    (cc_vector_status c = VS_INDEXED \<and> state (w_db w) (cc_doc_id c) = Some DOC_INDEXED \<or>
     cc_vector_status c = VS_INDEXING \<and> owner (w_db w) (cc_doc_id c) \<noteq> None)"
proof -
  obtain did where "i \<in> being_indexed w did \<or> i \<in> indexed w did"
    using index_invD(4) [OF inv] assms(2) unfolding points_ok_def by blast
  then show ?thesis
  proof
    assume i: "i \<in> being_indexed w did"
    obtain op where "owner (w_db w) did = Some op" using being_indexed_owner [OF inv i] .
    moreover obtain c where "c \<in> set (child_chunks (w_db w))" "cc_id c = i" "cc_doc_id c = did"
      "cc_vector_status c = VS_INDEXING" using i by (auto simp: chunk_ids_iff)
    ultimately show ?thesis by (intro bexI [of _ c]) simp_all
  next
    assume i: "i \<in> indexed w did"
    then obtain c where "c \<in> set (child_chunks (w_db w))" "cc_id c = i" "cc_doc_id c = did"
      "cc_vector_status c = VS_INDEXED" by (auto simp: chunk_ids_iff)
    then show ?thesis using indexed_state [OF inv i] by (intro bexI [of _ c]) simp_all
  qed
qed

text \<open>
  C22: No orphan vectors.  Whatever the interleaving of workers, compensators, crashes and partly
  failed calls of the vector store, every point of the store has the id of a child chunk that is
  indexed in an indexed document, or is being indexed while an operation owns its document.
\<close>
theorem no_orphan_points:
  assumes "doc_reachable st w" and "(i, p) \<in> set (w_points w)"
  shows "\<exists>c\<in>set (child_chunks (w_db w)). cc_id c = i \<and>
    (cc_vector_status c = VS_INDEXED \<and> state (w_db w) (cc_doc_id c) = Some DOC_INDEXED \<or>
     cc_vector_status c = VS_INDEXING \<and> owner (w_db w) (cc_doc_id c) \<noteq> None)"
proof -
  have "i \<in> point_ids w" using assms(2) by (force simp: point_ids_def)
  then show ?thesis by (rule chunk_of_point [OF doc_reachable_inv [OF assms(1)]])
qed

theorem no_orphan_points_witness:
  "\<exists>w p. doc_reachable demo_settings w \<and> (1, p) \<in> set (w_points w) \<and>
     (\<exists>c\<in>set (child_chunks (w_db w)). cc_id c = 1 \<and>
    (cc_vector_status c = VS_INDEXED \<and> state (w_db w) (cc_doc_id c) = Some DOC_INDEXED \<or>
     cc_vector_status c = VS_INDEXING \<and> owner (w_db w) (cc_doc_id c) \<noteq> None))"
proof -
  obtain w where w: "demo_run demo_written = Some w" "map fst (w_points w) = [1]"
    using demo_written_run by (auto split: option.splits)
  then obtain p where p: "(1, p) \<in> set (w_points w)" by (cases "w_points w") auto
  show ?thesis using no_orphan_points [OF demo_reachable [OF w(1)] p] demo_reachable [OF w(1)] p by blast
qed

text \<open>
  C23: Ownership.  In every reachable state a document that is owned is in the status of the stage
  for which the operation id was issued, or failed on its way out of it; chunks marked as being
  indexed belong to a document owned by an indexing operation, and chunks marked as indexed to a
  document whose status says so.
\<close>
theorem ownership_consistent:
  assumes "doc_reachable st w"
  shows "(\<forall>did op. owner (w_db w) did = Some op \<longrightarrow>
      (\<exists>s. w_ops w op = Some (s, did) \<and> state (w_db w) did \<in> Some ` busy s)) \<and>
    (\<forall>c\<in>set (child_chunks (w_db w)).
      (cc_vector_status c = VS_INDEXING \<longrightarrow> (\<exists>op. owner (w_db w) (cc_doc_id c) = Some op \<and>
        w_ops w op = Some (Indexing, cc_doc_id c))) \<and>
      (cc_vector_status c = VS_INDEXED \<longrightarrow> state (w_db w) (cc_doc_id c) = Some DOC_INDEXED))"
proof -
  note inv = doc_reachable_inv [OF assms]
  have "cc_id c \<in> chunk_ids (cc_vector_status c) (w_db w) (cc_doc_id c)"
    if "c \<in> set (child_chunks (w_db w))" for c
    using that by (auto simp: chunk_ids_iff)
  then show ?thesis
    using index_invD(2) [OF inv] being_indexed_owner [OF inv] indexed_state [OF inv]
    unfolding owners_ok_def by metis
qed

theorem ownership_consistent_witness:
  "\<exists>w. doc_reachable demo_settings w \<and> owner (w_db w) 1 = Some ''i'' \<and>
    (\<exists>s. w_ops w ''i'' = Some (s, 1) \<and> state (w_db w) 1 \<in> Some ` busy s)"
proof -
  obtain w where w: "demo_run demo_written = Some w"
    "map (\<lambda>c. (cc_id c, cc_vector_status c)) (child_chunks (w_db w)) = [(1, VS_INDEXING)]"
    using demo_written_run by (auto split: option.splits)
  have "(case demo_run demo_written of None \<Rightarrow> False | Some w \<Rightarrow> owner (w_db w) 1 = Some ''i'')" by code_simp
  then have o: "owner (w_db w) 1 = Some ''i''" by (simp add: w)
  show ?thesis using ownership_consistent [OF demo_reachable [OF w(1)]] o demo_reachable [OF w(1)] by blast
qed

text \<open>
  C24: The fence protects the writer.  While a worker is inside the fence of a document, about to
  write points, its operation owns the document and exactly the chunks it writes for are being
  indexed, and no second worker and no compensator of that document is inside.
\<close>
theorem fenced_writer_owns_document:
  assumes "doc_reachable st w" and "w_threads w a = Some (Index_Fenced ctx ps bs)"
  shows "owner (w_db w) (ix_document_id ctx) = Some (ix_operation_id ctx) \<and>
    fst ` set ps \<subseteq> chunk_ids VS_INDEXING (w_db w) (ix_document_id ctx) \<and>
    (\<forall>b. b \<noteq> a \<longrightarrow> (\<forall>ctx' ps' bs' op sn.
       (w_threads w b = Some (Index_Fenced ctx' ps' bs') \<longrightarrow> ix_document_id ctx' \<noteq> ix_document_id ctx) \<and>
       (w_threads w b = Some (Index_Comp_Fenced op sn) \<longrightarrow> sn_document_id sn \<noteq> ix_document_id ctx) \<and>
       (w_threads w b = Some (Index_Comp_Deleted op sn) \<longrightarrow> sn_document_id sn \<noteq> ix_document_id ctx)))"
proof -
  note ok = thread_okD [OF doc_reachable_inv [OF assms(1)]]
  have fence: "w_index_fence w (ix_document_id ctx) = Some a" using ok [OF assms(2)] by simp
  show ?thesis
  proof (intro conjI allI impI)
    fix b ctx' ps' bs' assume "b \<noteq> a" "w_threads w b = Some (Index_Fenced ctx' ps' bs')"
    then show "ix_document_id ctx' \<noteq> ix_document_id ctx" using ok [of b] fence by auto
  next
    fix b op sn assume "b \<noteq> a" "w_threads w b = Some (Index_Comp_Fenced op sn)"
    then show "sn_document_id sn \<noteq> ix_document_id ctx" using ok [of b] fence by auto
  next
    fix b op sn assume "b \<noteq> a" "w_threads w b = Some (Index_Comp_Deleted op sn)"
    then show "sn_document_id sn \<noteq> ix_document_id ctx" using ok [of b] fence by auto
  qed (use ok [OF assms(2)] in \<open>auto simp: worker_ok_def\<close>)
qed

theorem fenced_writer_owns_document_witness:
  "\<exists>w ctx ps bs. doc_reachable demo_settings w \<and> w_threads w 1 = Some (Index_Fenced ctx ps bs) \<and>
    owner (w_db w) (ix_document_id ctx) = Some (ix_operation_id ctx) \<and>
    fst ` set ps \<subseteq> chunk_ids VS_INDEXING (w_db w) (ix_document_id ctx)"
proof -
  have "(case demo_run (butlast demo_written) of None \<Rightarrow> False | Some w \<Rightarrow>
      (case w_threads w 1 of Some (Index_Fenced _ _ _) \<Rightarrow> True | _ \<Rightarrow> False))" by code_simp
  then obtain w ctx ps bs where w: "demo_run (butlast demo_written) = Some w"
    "w_threads w 1 = Some (Index_Fenced ctx ps bs)"
    by (auto split: option.splits thread.splits)
  show ?thesis using fenced_writer_owns_document [OF demo_reachable [OF w(1)] w(2)] demo_reachable [OF w(1)] w(2)
    by blast
qed

text \<open>
  The converse of the first property fails.  A compensator checks the ownership before it
  waits for the fence and not inside; when it is late, it deletes the points of a newer operation,
  and the document stays registered as indexed, with an indexed chunk and no point at all.
\<close>
theorem late_compensator_loses_vectors:
  "\<exists>w c. doc_reachable demo_settings w \<and> state (w_db w) (cc_doc_id c) = Some DOC_INDEXED \<and>
     c \<in> set (child_chunks (w_db w)) \<and> cc_vector_status c = VS_INDEXED \<and> w_points w = []"
proof -
  obtain w where w: "demo_run late_compensation = Some w" "w_points w = []"
    "map (\<lambda>c. (cc_id c, cc_vector_status c)) (child_chunks (w_db w)) = [(1, VS_INDEXED)]"
    using late_compensation_run by (auto split: option.splits)
  from w(3) obtain c where c: "c \<in> set (child_chunks (w_db w))" "cc_vector_status c = VS_INDEXED" by auto
  then have "cc_id c \<in> indexed w (cc_doc_id c)" by (auto simp: chunk_ids_iff)
  then show ?thesis
    using indexed_state [OF doc_reachable_inv [OF demo_reachable [OF w(1)]]] c w demo_reachable [OF w(1)] by blast
qed

end
