(* ===== verification/Context_Safety.thy ===== *)
theory Context_Safety
  imports Context_Service
begin

text \<open>
  What the operations on resources, nodes and chains do to the views the properties are about:
  the active resources of a chain, the state that its event log replays to, the numbering of its
  nodes, and the cached queue.
\<close>

named_theorems context_simps \<open>tables after an operation of the context repository\<close>

section \<open>Views\<close>

abbreviation resource_key :: "chain_resource \<Rightarrow> ident \<times> string" where
  "resource_key r \<equiv> (rs_chain_id r, rs_key r)"

definition active_refs :: "ident \<Rightarrow> context_db \<Rightarrow> string \<Rightarrow> resource_ref option" where
  "active_refs cid db key = (case get_chain_resource cid key db of
     Some r \<Rightarrow> if rs_active r then Some (ref_of_row r) else None | None \<Rightarrow> None)"

text \<open>The current state of a resource without its row id and first use.\<close>

record resource_state =
  st_type :: string
  st_id :: string
  st_relation :: "string option"
  st_summary :: "string option"
  st_last_turn :: ident
  st_last_at :: time
  st_use_count :: int
  st_active :: bool

definition state_of_row :: "chain_resource \<Rightarrow> resource_state" where
  "state_of_row r = \<lparr>st_type = rs_type r, st_id = rs_resource_id r, st_relation = rs_relation r,
     st_summary = rs_summary r, st_last_turn = rs_last_seen_turn_id r, st_last_at = rs_last_seen_at r,
     st_use_count = rs_use_count r, st_active = rs_active r\<rparr>"

text \<open>The reference: one event after the other.\<close>

fun replay_event :: "resource_state option \<Rightarrow> resource_event \<Rightarrow> resource_state option" where
  "replay_event st e =
     (case re_action e of
        REMOVED \<Rightarrow> map_option (\<lambda>s. s\<lparr>st_active := False\<rparr>) st
      | INVALIDATED \<Rightarrow> st
      | _ \<Rightarrow> Some \<lparr>st_type = re_type e, st_id = re_resource_id e, st_relation = re_relation e,
          st_summary = re_summary e, st_last_turn = re_turn_id e, st_last_at = re_created_at e,
          st_use_count = (case st of None \<Rightarrow> 1 | Some s \<Rightarrow> st_use_count s + 1), st_active = True\<rparr>)"

definition replayed :: "ident \<Rightarrow> string \<Rightarrow> context_db \<Rightarrow> resource_state option" where
  "replayed cid key db =
     foldl replay_event None (filter (\<lambda>e. re_chain_id e = cid \<and> re_key e = key) (resource_events db))"

definition replay_ok :: "context_db \<Rightarrow> bool" where
  "replay_ok db \<longleftrightarrow>
     (\<forall>cid key. map_option state_of_row (get_chain_resource cid key db) = replayed cid key db)"

text \<open>The nodes of a chain, in the order of their insertion, are numbered from zero.\<close>

definition numbered :: "context_db \<Rightarrow> bool" where
  "numbered db \<longleftrightarrow> (\<forall>cid. let ns = filter (\<lambda>n. nd_chain_id n = cid) (chain_nodes db) in
     map nd_sequence ns = map int [0..<length ns])"

section \<open>Frames\<close>

lemma create_node_Inr [context_simps]:
  "create_node n db = Inr db' \<longleftrightarrow> db' = db\<lparr>chain_nodes := chain_nodes db @ [n]\<rparr> \<and>
     (\<forall>m\<in>set (chain_nodes db). nd_id m \<noteq> nd_id n \<and>
        (nd_chain_id m = nd_chain_id n \<longrightarrow> nd_sequence m \<noteq> nd_sequence n \<and> nd_turn_id m \<noteq> nd_turn_id n))"
  by (auto simp: create_node_def bind_eq_Inr add_row_Inr)

lemma create_resource_event_Inr [context_simps]:
  "create_resource_event e db = Inr db' \<longleftrightarrow> db' = db\<lparr>resource_events := resource_events db @ [e]\<rparr> \<and>
     re_id e \<notin> re_id ` set (resource_events db)"
  by (auto simp: create_resource_event_def bind_eq_Inr add_row_Inr)

lemma create_chain_Inr [context_simps]:
  "create_chain c db = Inr db' \<longleftrightarrow> db' = db\<lparr>chains := chains db @ [c]\<rparr> \<and> get_chain (ch_id c) db = None"
  by (auto simp: create_chain_def bind_eq_Inr add_row_Inr get_chain_def get_row_None_iff)

lemma create_turn_Inr [context_simps]:
  "create_turn t db = Inr db' \<longleftrightarrow>
     db' = db\<lparr>core := (core db)\<lparr>turns := turns (core db) @ [t]\<rparr>\<rparr> \<and> get_turn (tn_id t) db = None"
  by (auto simp: create_turn_def bind_eq_Inr add_row_Inr get_turn_def turn_get_by_id_def get_row_None_iff)

lemma save_chain_resource_fields [context_simps]:
  "core (save_chain_resource r db) = core db" "chains (save_chain_resource r db) = chains db"
  "chain_nodes (save_chain_resource r db) = chain_nodes db"
  "resource_events (save_chain_resource r db) = resource_events db"
  "selections (save_chain_resource r db) = selections db"
  by (simp_all add: save_chain_resource_def)

lemma save_chain_fields [context_simps]:
  "core (save_chain c db) = core db" "chain_resources (save_chain c db) = chain_resources db"
  "chain_nodes (save_chain c db) = chain_nodes db"
  "resource_events (save_chain c db) = resource_events db" "selections (save_chain c db) = selections db"
  by (simp_all add: save_chain_def)

lemma save_turn_fields [context_simps]:
  "chains (save_turn t db) = chains db" "chain_resources (save_turn t db) = chain_resources db"
  "chain_nodes (save_turn t db) = chain_nodes db"
  "resource_events (save_turn t db) = resource_events db" "selections (save_turn t db) = selections db"
  by (simp_all add: save_turn_def)

lemma same_resources:
  assumes "chain_resources db' = chain_resources db"
  shows "get_chain_resource cid key db' = get_chain_resource cid key db" "active_refs cid db' = active_refs cid db"
  using assms by (simp_all add: get_chain_resource_def active_refs_def fun_eq_iff)

lemma same_replay:
  assumes "chain_resources db' = chain_resources db" "resource_events db' = resource_events db"
  shows "replay_ok db' = replay_ok db"
  using assms by (simp add: replay_ok_def replayed_def same_resources(1) [OF assms(1)])

lemma same_numbered: "chain_nodes db' = chain_nodes db \<Longrightarrow> numbered db' = numbered db"
  by (simp add: numbered_def)

section \<open>Resources\<close>

lemma upsert_effect:
  assumes "upsert_chain_resource cid tid now i db = (r, created, db1)"
  shows "(\<forall>c k. get_chain_resource c k db1 =
      (if (c, k) = (cid, ri_key i) then Some r else get_chain_resource c k db)) \<and>
    resource_key r = (cid, ri_key i) \<and> rs_active r \<and> rs_last_seen_turn_id r = tid \<and> rs_last_seen_at r = now \<and>
    rs_type r = ri_type i \<and> rs_resource_id r = ri_id i \<and> rs_relation r = ri_relation i \<and>
    rs_summary r = ri_summary i \<and> created = (get_chain_resource cid (ri_key i) db = None) \<and>
    rs_use_count r = (case get_chain_resource cid (ri_key i) db of None \<Rightarrow> 1 | Some old \<Rightarrow> rs_use_count old + 1) \<and>
    core db1 = core db \<and> chains db1 = chains db \<and> chain_nodes db1 = chain_nodes db \<and>
    resource_events db1 = resource_events db \<and> selections db1 = selections db"
proof (cases "get_chain_resource cid (ri_key i) db")
  case None
  then show ?thesis using assms
    by (auto simp: upsert_chain_resource_def Let_def new_resource_row_def get_chain_resource_def table_simps
        split: option.splits)
next
  case (Some old)
  have key: "resource_key (refreshed_row tid now i old) = (cid, ri_key i)"
    using Some resource_repo.fetch_key [of "(cid, ri_key i)" db old] by (simp add: refreshed_row_def)
  have "get_chain_resource c k (save_chain_resource (refreshed_row tid now i old) db) =
      (if (c, k) = (cid, ri_key i) then Some (refreshed_row tid now i old) else get_chain_resource c k db)" for c k
    using resource_repo.fetch_save [of "(c, k)" "refreshed_row tid now i old" db] Some key by simp
  then show ?thesis using assms Some key
    by (auto simp: upsert_chain_resource_def Let_def context_simps refreshed_row_def)
qed

lemma deactivate_resource_effect:
  assumes "deactivate_chain_resource cid now key db = (existing, db1)"
  shows "(\<forall>c k. get_chain_resource c k db1 =
      (if (c, k) = (cid, key) then existing else get_chain_resource c k db)) \<and>
    existing = map_option (\<lambda>r. r\<lparr>rs_active := False, rs_removed_at := Some now\<rparr>) (get_chain_resource cid key db) \<and>
    core db1 = core db \<and> chains db1 = chains db \<and> chain_nodes db1 = chain_nodes db \<and>
    resource_events db1 = resource_events db \<and> selections db1 = selections db"
proof (cases "get_chain_resource cid key db")
  case (Some old)
  let ?r = "old\<lparr>rs_active := False, rs_removed_at := Some now\<rparr>"
  have key: "resource_key ?r = (cid, key)"
    using Some resource_repo.fetch_key [of "(cid, key)" db old] by simp
  have "get_chain_resource c k (save_chain_resource ?r db) =
      (if (c, k) = (cid, key) then Some ?r else get_chain_resource c k db)" for c k
    using resource_repo.fetch_save [of "(c, k)" ?r db] Some key by simp
  then show ?thesis using assms Some
    by (auto simp: deactivate_chain_resource_def Let_def context_simps)
qed (use assms in \<open>auto simp: deactivate_chain_resource_def\<close>)

lemma replay_append:
  assumes "replay_ok db" "resource_events db' = resource_events db @ [e]"
    and others: "\<And>c k. (c, k) \<noteq> (re_chain_id e, re_key e) \<Longrightarrow> get_chain_resource c k db' = get_chain_resource c k db"
    and changed: "map_option state_of_row (get_chain_resource (re_chain_id e) (re_key e) db') =
      replay_event (map_option state_of_row (get_chain_resource (re_chain_id e) (re_key e) db)) e"
  shows "replay_ok db'"
  unfolding replay_ok_def
proof (intro allI)
  fix c k
  show "map_option state_of_row (get_chain_resource c k db') = replayed c k db'"
  proof (cases "(c, k) = (re_chain_id e, re_key e)")
    case True
    then have "replayed c k db' = replay_event (replayed c k db) e"
      using assms(2) by (simp add: replayed_def del: replay_event.simps)
    moreover have "replayed c k db = map_option state_of_row (get_chain_resource c k db)"
      using assms(1) by (simp add: replay_ok_def)
    ultimately show ?thesis using changed True by (simp del: replay_event.simps)
  next
    case False
    then have "replayed c k db' = replayed c k db" using assms(2) by (auto simp: replayed_def)
    then show ?thesis using others [OF False] assms(1) by (simp add: replay_ok_def)
  qed
qed

definition with_refs :: "resource_ref list \<Rightarrow> (string \<Rightarrow> resource_ref option) \<Rightarrow> string \<Rightarrow> resource_ref option" where
  "with_refs rs m = fold (\<lambda>r m. m(rr_key r \<mapsto> r)) rs m"

definition without_keys :: "string list \<Rightarrow> (string \<Rightarrow> 'v option) \<Rightarrow> string \<Rightarrow> 'v option" where
  "without_keys ks m = (\<lambda>k. if k \<in> set ks then None else m k)"

lemma refresh_resources_effect:
  assumes "refresh_resources now u n cid tid is db = Inr (refs, n', db')"
  shows "active_refs cid db' = with_refs refs (active_refs cid db) \<and>
    (\<forall>c. c \<noteq> cid \<longrightarrow> active_refs c db' = active_refs c db) \<and>
    map rr_key refs = map ri_key is \<and> (replay_ok db \<longrightarrow> replay_ok db') \<and>
    core db' = core db \<and> chains db' = chains db \<and> chain_nodes db' = chain_nodes db \<and>
    selections db' = selections db"
  using assms
proof (induction now u n cid tid "is" db arbitrary: refs n' db' rule: refresh_resources.induct)
  case (2 now u n cid tid i "is" db)
  obtain r created db1 where up: "upsert_chain_resource cid tid now i db = (r, created, db1)" by (metis prod_cases3)
  define e where "e = seen_event (u n) cid tid now (if created then SEEN else REFRESHED) r"
  define db2 where "db2 = db1\<lparr>resource_events := resource_events db1 @ [e]\<rparr>"
  note U = upsert_effect [OF up]
  from 2(2) up obtain rest where rest: "refresh_resources now u (n + 1) cid tid is db2 = Inr (rest, n', db')"
    and ev: "create_resource_event e db1 = Inr db2"
    and refs: "refs = ref_of_row (r\<lparr>rs_last_seen_turn_id := tid, rs_last_seen_at := now\<rparr>) # rest"
    by (auto simp: bind_eq_Inr context_simps e_def db2_def)
  have r: "r\<lparr>rs_last_seen_turn_id := tid, rs_last_seen_at := now\<rparr> = r" using U by simp
  have same: "get_chain_resource c k db2 = get_chain_resource c k db1" for c k
    by (simp add: db2_def get_chain_resource_def)
  have act: "active_refs c db2 = (if c = cid then (active_refs c db)(ri_key i \<mapsto> ref_of_row r) else active_refs c db)" for c
    using U by (auto simp: active_refs_def same fun_eq_iff)
  have "replay_ok db2" if "replay_ok db"
  proof (rule replay_append [OF that])
    show "resource_events db2 = resource_events db @ [e]" using U by (simp add: db2_def)
    show "get_chain_resource c k db2 = get_chain_resource c k db"
      if "(c, k) \<noteq> (re_chain_id e, re_key e)" for c k
      using that U by (auto simp: same e_def seen_event_def)
    show "map_option state_of_row (get_chain_resource (re_chain_id e) (re_key e) db2) =
      replay_event (map_option state_of_row (get_chain_resource (re_chain_id e) (re_key e) db)) e"
      using U by (auto simp: same e_def seen_event_def state_of_row_def split: option.splits)
  qed
  moreover have "rr_key (ref_of_row r) = ri_key i" using U by (simp add: ref_of_row_def)
  ultimately show ?case
    using 2(1) [OF up [symmetric] refl rest] U act
    by (simp add: refs r with_refs_def db2_def)
qed (simp add: with_refs_def)

lemma remove_resources_effect:
  assumes "remove_resources now u n cid tid keys db = Inr (n', db')"
  shows "active_refs cid db' = without_keys keys (active_refs cid db) \<and>
    (\<forall>c. c \<noteq> cid \<longrightarrow> active_refs c db' = active_refs c db) \<and> (replay_ok db \<longrightarrow> replay_ok db') \<and>
    core db' = core db \<and> chains db' = chains db \<and> chain_nodes db' = chain_nodes db \<and>
    selections db' = selections db"
  using assms
proof (induction now u n cid tid keys db arbitrary: n' db' rule: remove_resources.induct)
  case (2 now u n cid tid key keys db)
  obtain existing db1 where de: "deactivate_chain_resource cid now key db = (existing, db1)" by fastforce
  from 2(2) de obtain parts where parts: "split_resource_key key = Inr parts" by (auto simp: bind_eq_Inr)
  define e where "e = removed_event (u n) cid tid now key parts existing"
  define db2 where "db2 = db1\<lparr>resource_events := resource_events db1 @ [e]\<rparr>"
  note D = deactivate_resource_effect [OF de]
  from 2(2) de parts have ev: "create_resource_event e db1 = Inr db2"
    and rest: "remove_resources now u (n + 1) cid tid keys db2 = Inr (n', db')"
    by (auto simp: bind_eq_Inr context_simps e_def db2_def)
  have same: "get_chain_resource c k db2 = get_chain_resource c k db1" for c k
    by (simp add: db2_def get_chain_resource_def)
  have act: "active_refs c db2 = (if c = cid then (active_refs c db)(key := None) else active_refs c db)" for c
    using D by (auto simp: active_refs_def same fun_eq_iff split: option.splits)
  have "replay_ok db2" if "replay_ok db"
  proof (rule replay_append [OF that])
    show "resource_events db2 = resource_events db @ [e]" using D by (simp add: db2_def)
    show "get_chain_resource c k db2 = get_chain_resource c k db"
      if "(c, k) \<noteq> (re_chain_id e, re_key e)" for c k
      using that D by (auto simp: same e_def removed_event_def)
    show "map_option state_of_row (get_chain_resource (re_chain_id e) (re_key e) db2) =
      replay_event (map_option state_of_row (get_chain_resource (re_chain_id e) (re_key e) db)) e"
      using D by (auto simp: same e_def removed_event_def state_of_row_def option.map_comp comp_def)
  qed
  then show ?case
    using 2(1) [OF de [symmetric] rest] D act
    by (auto simp: without_keys_def db2_def fun_eq_iff)
qed (simp add: without_keys_def fun_eq_iff)

section \<open>One target chain\<close>

lemma with_refs_fun_upd: "with_refs (r # rs) m = with_refs rs (m(rr_key r \<mapsto> r))"
  by (simp add: with_refs_def)

text \<open>What a chain's update does to its active resources and its version.\<close>

definition delta :: "queue_refresh \<Rightarrow> (string \<Rightarrow> resource_ref option) \<Rightarrow> string \<Rightarrow> resource_ref option" where
  "delta qr m = without_keys (qr_removed_resource_keys qr) (with_refs (qr_resources qr) m)"

definition version_of :: "ident \<Rightarrow> context_db \<Rightarrow> int option" where
  "version_of cid db = map_option ch_resource_version (get_chain cid db)"

definition conversation_of :: "ident \<Rightarrow> context_db \<Rightarrow> ident option" where
  "conversation_of cid db = map_option ch_conversation_id (get_chain cid db)"

lemma increment_effect:
  "version_of x (increment_resource_version cid db) =
     (if x = cid then map_option (\<lambda>v. v + 1) (version_of cid db) else version_of x db)"
  "conversation_of x (increment_resource_version cid db) = conversation_of x db"
  "core (increment_resource_version cid db) = core db"
  "chain_nodes (increment_resource_version cid db) = chain_nodes db"
  "chain_resources (increment_resource_version cid db) = chain_resources db"
  "resource_events (increment_resource_version cid db) = resource_events db"
  "selections (increment_resource_version cid db) = selections db"
  using chain_repo.fetch_key [of cid db]
  by (auto simp: increment_resource_version_def version_of_def conversation_of_def chain_repo.fetch_save
      context_simps split: option.splits)

lemma activity_effect:
  "version_of x (update_chain_activity now cid db) = version_of x db"
  "conversation_of x (update_chain_activity now cid db) = conversation_of x db"
  "core (update_chain_activity now cid db) = core db"
  "chain_nodes (update_chain_activity now cid db) = chain_nodes db"
  "chain_resources (update_chain_activity now cid db) = chain_resources db"
  "resource_events (update_chain_activity now cid db) = resource_events db"
  "selections (update_chain_activity now cid db) = selections db"
  using chain_repo.fetch_key [of cid db]
  by (auto simp: update_chain_activity_def version_of_def conversation_of_def chain_repo.fetch_save
      context_simps split: option.splits)

lemma same_chains:
  assumes "chains db' = chains db"
  shows "version_of x db' = version_of x db" "conversation_of x db' = conversation_of x db"
    "get_chain x db' = get_chain x db"
  using assms by (simp_all add: version_of_def conversation_of_def get_chain_def)

lemma apply_effect:
  assumes step: "apply_in_transaction now u n tid c update db = Inr (refresh, n', db')"
    and c: "get_chain (ch_id c) db = Some c"
  shows "(\<forall>x. x \<noteq> ch_id c \<longrightarrow> active_refs x db' = active_refs x db \<and> version_of x db' = version_of x db) \<and>
    (\<forall>x. conversation_of x db' = conversation_of x db) \<and>
    (replay_ok db \<longrightarrow> replay_ok db') \<and> core db' = core db \<and> chain_nodes db' = chain_nodes db \<and>
    selections db' = selections db \<and>
    (case refresh of
       None \<Rightarrow> active_refs (ch_id c) db' = active_refs (ch_id c) db \<and> version_of (ch_id c) db' = version_of (ch_id c) db
     | Some qr \<Rightarrow> active_refs (ch_id c) db' = delta qr (active_refs (ch_id c) db) \<and>
         version_of (ch_id c) db = Some (qr_expected_previous_version qr) \<and>
         version_of (ch_id c) db' = Some (qr_database_version qr) \<and>
         qr_database_version qr = qr_expected_previous_version qr + 1 \<and>
         qr_chain_id qr = ch_id c \<and> conversation_of (ch_id c) db = Some (qr_conversation_id qr))"
proof (cases update)
  case None
  then show ?thesis using step by (simp add: apply_in_transaction_def)
next
  case (Some up)
  from step Some obtain refs n1 db1 n2 db2 where
    R: "refresh_resources now u n (ch_id c) tid (cu_related_resources up) db = Inr (refs, n1, db1)"
    and D: "remove_resources now u n1 (ch_id c) tid (cu_removed_resource_keys up) db1 = Inr (n2, db2)"
    and out: "(if refs = [] \<and> cu_removed_resource_keys up = [] then Inr (None, n2, db2)
       else Inr (Some \<lparr>qr_conversation_id = ch_conversation_id c, qr_chain_id = ch_id c,
          qr_resources = refs, qr_removed_resource_keys = cu_removed_resource_keys up,
          qr_expected_previous_version = ch_resource_version c,
          qr_database_version = ch_resource_version c + 1\<rparr>, n2, increment_resource_version (ch_id c) db2))
      = (Inr (refresh, n', db') :: (queue_refresh option \<times> nat \<times> context_db) result)"
    by (auto simp: apply_in_transaction_def bind_eq_Inr)
  note R = refresh_resources_effect [OF R] and D = remove_resources_effect [OF D]
  have act: "active_refs (ch_id c) db2 = without_keys (cu_removed_resource_keys up) (with_refs refs (active_refs (ch_id c) db))"
    "x \<noteq> ch_id c \<Longrightarrow> active_refs x db2 = active_refs x db" for x using R D by simp_all
  have chains: "chains db2 = chains db" using R D by simp
  note same = same_chains [OF chains]
  have v: "version_of (ch_id c) db = Some (ch_resource_version c)"
    "conversation_of (ch_id c) db = Some (ch_conversation_id c)" using c by (simp_all add: version_of_def conversation_of_def)
  show ?thesis
  proof (cases "refs = [] \<and> cu_removed_resource_keys up = []")
    case True
    then show ?thesis using out act R D same
      by (auto simp: without_keys_def with_refs_def fun_eq_iff)
  next
    case False
    let ?db = "increment_resource_version (ch_id c) db2"
    have db': "db' = ?db" and qr: "refresh = Some \<lparr>qr_conversation_id = ch_conversation_id c, qr_chain_id = ch_id c,
          qr_resources = refs, qr_removed_resource_keys = cu_removed_resource_keys up,
          qr_expected_previous_version = ch_resource_version c,
          qr_database_version = ch_resource_version c + 1\<rparr>" using out False by auto
    have res: "active_refs x ?db = active_refs x db2" for x
      by (rule same_resources(2)) (simp add: increment_effect)
    have rep: "replay_ok ?db = replay_ok db2" by (rule same_replay) (simp_all add: increment_effect)
    show ?thesis
      using R D same v act by (simp add: db' qr res rep increment_effect delta_def)
  qed
qed

section \<open>One row per resource\<close>

definition rows_ok :: "context_db \<Rightarrow> bool" where
  "rows_ok db \<longleftrightarrow> distinct (map resource_key (chain_resources db))"

lemma same_rows: "chain_resources db' = chain_resources db \<Longrightarrow> rows_ok db' = rows_ok db"
  by (simp add: rows_ok_def)

lemma rows_ok_save: "rows_ok (save_chain_resource r db) = rows_ok db"
  by (simp add: rows_ok_def save_chain_resource_def)

lemma upsert_rows:
  "upsert_chain_resource cid tid now i db = (r, created, db1) \<Longrightarrow> rows_ok db \<Longrightarrow> rows_ok db1"
  by (auto simp: upsert_chain_resource_def Let_def rows_ok_save new_resource_row_def
      get_chain_resource_def get_row_None_iff split: option.splits) (simp add: rows_ok_def image_iff)

lemma deactivate_rows:
  "deactivate_chain_resource cid now key db = (existing, db1) \<Longrightarrow> rows_ok db1 = rows_ok db"
  by (auto simp: deactivate_chain_resource_def Let_def rows_ok_save split: option.splits)

lemma refresh_resources_rows:
  "refresh_resources now u n cid tid is db = Inr (refs, n', db') \<Longrightarrow> rows_ok db \<Longrightarrow> rows_ok db'"
proof (induction now u n cid tid "is" db arbitrary: refs n' db' rule: refresh_resources.induct)
  case (2 now u n cid tid i "is" db)
  obtain r created db1 where up: "upsert_chain_resource cid tid now i db = (r, created, db1)" by (metis prod_cases3)
  from 2(2) up obtain e rest where
    rest: "refresh_resources now u (n + 1) cid tid is (db1\<lparr>resource_events := resource_events db1 @ [e]\<rparr>) = Inr (rest, n', db')"
    by (auto simp: bind_eq_Inr context_simps)
  have "rows_ok (db1\<lparr>resource_events := resource_events db1 @ [e]\<rparr>)"
    using upsert_rows [OF up 2(3)] by (simp add: rows_ok_def)
  then show ?case using 2(1) [OF up [symmetric] refl rest] by simp
qed simp

lemma remove_resources_rows:
  "remove_resources now u n cid tid keys db = Inr (n', db') \<Longrightarrow> rows_ok db \<Longrightarrow> rows_ok db'"
proof (induction now u n cid tid keys db arbitrary: n' db' rule: remove_resources.induct)
  case (2 now u n cid tid key keys db)
  obtain existing db1 where de: "deactivate_chain_resource cid now key db = (existing, db1)" by fastforce
  from 2(2) de obtain e where
    rest: "remove_resources now u (n + 1) cid tid keys (db1\<lparr>resource_events := resource_events db1 @ [e]\<rparr>) = Inr (n', db')"
    by (auto simp: bind_eq_Inr context_simps)
  have "rows_ok (db1\<lparr>resource_events := resource_events db1 @ [e]\<rparr>)"
    using deactivate_rows [OF de] 2(3) by (simp add: rows_ok_def)
  then show ?case using 2(1) [OF de [symmetric] rest] by simp
qed simp

lemma apply_rows:
  assumes "apply_in_transaction now u n tid c update db = Inr (refresh, n', db')" "rows_ok db"
  shows "rows_ok db'"
proof (cases update)
  case (Some up)
  with assms obtain refs n1 db1 n2 db2 where
    R: "refresh_resources now u n (ch_id c) tid (cu_related_resources up) db = Inr (refs, n1, db1)"
    and D: "remove_resources now u n1 (ch_id c) tid (cu_removed_resource_keys up) db1 = Inr (n2, db2)"
    and out: "db' = db2 \<or> db' = increment_resource_version (ch_id c) db2"
    by (auto simp: apply_in_transaction_def bind_eq_Inr split: if_splits)
  have "rows_ok db2" using remove_resources_rows [OF D] refresh_resources_rows [OF R] assms(2) by simp
  then show ?thesis using out same_rows [OF increment_effect(5)] by auto
qed (use assms in \<open>simp add: apply_in_transaction_def\<close>)

section \<open>All target chains\<close>

text \<open>
  The versions of a chain's resources: \<open>h cid v\<close> is what was active in chain \<open>cid\<close> at version \<open>v\<close>.  It
  agrees with the database at the current version; a refresh in flight leads from one version to
  the next.
\<close>

type_synonym history = "ident \<Rightarrow> int \<Rightarrow> string \<Rightarrow> resource_ref option"

definition history_ok :: "history \<Rightarrow> context_db \<Rightarrow> bool" where
  "history_ok h db \<longleftrightarrow> (\<forall>cid v. version_of cid db = Some v \<longrightarrow> h cid v = active_refs cid db)"

definition past :: "context_db \<Rightarrow> ident \<Rightarrow> int \<Rightarrow> bool" where
  "past db cid v \<longleftrightarrow> (\<exists>v0. version_of cid db = Some v0 \<and> v \<le> v0)"

definition refresh_ok :: "history \<Rightarrow> context_db \<Rightarrow> queue_refresh \<Rightarrow> bool" where
  "refresh_ok h db qr \<longleftrightarrow> past db (qr_chain_id qr) (qr_database_version qr) \<and>
     qr_expected_previous_version qr < qr_database_version qr \<and>
     h (qr_chain_id qr) (qr_database_version qr) = delta qr (h (qr_chain_id qr) (qr_expected_previous_version qr))"

text \<open>\<open>h'\<close> extends \<open>h\<close>, and what was past stays past.\<close>

definition extends :: "context_db \<Rightarrow> history \<Rightarrow> context_db \<Rightarrow> history \<Rightarrow> bool" where
  "extends db h db' h' \<longleftrightarrow> (\<forall>cid v. past db cid v \<longrightarrow> past db' cid v \<and> h' cid v = h cid v)"

lemma history_extends_refl: "extends db h db h"
  by (simp add: extends_def)

lemma history_extends_trans: "extends a f b g \<Longrightarrow> extends b g c h \<Longrightarrow> extends a f c h"
  by (simp add: extends_def)

text \<open>What a transaction adds to the history is what is active before or after it.\<close>

definition grows :: "context_db \<Rightarrow> context_db \<Rightarrow> history \<Rightarrow> bool" where
  "grows db db' h' \<longleftrightarrow> (\<forall>cid v. past db' cid v \<longrightarrow>
     past db cid v \<or> h' cid v = active_refs cid db \<or> h' cid v = active_refs cid db')"

lemma extends_refresh:
  assumes "extends db h db' h'" "refresh_ok h db qr"
  shows "refresh_ok h' db' qr"
proof -
  have "past db (qr_chain_id qr) (qr_expected_previous_version qr)"
    using assms(2) by (auto simp: refresh_ok_def past_def)
  then show ?thesis using assms by (simp add: refresh_ok_def extends_def)
qed

lemma same_history:
  assumes "\<And>x. version_of x db' = version_of x db" "\<And>x. active_refs x db' = active_refs x db"
  shows "history_ok h db' = history_ok h db" "extends db h db' h" "grows db db' h"
  using assms by (simp_all add: history_ok_def extends_def past_def grows_def)

lemma apply_history:
  assumes step: "apply_in_transaction now u n tid c update db = Inr (refresh, n', db')"
    and c: "get_chain (ch_id c) db = Some c" and h: "history_ok h db"
  shows "\<exists>h'. history_ok h' db' \<and> extends db h db' h' \<and> grows db db' h' \<and>
    (\<forall>qr. refresh = Some qr \<longrightarrow> refresh_ok h' db' qr)"
proof (cases refresh)
  case None
  then have "version_of x db' = version_of x db \<and> active_refs x db' = active_refs x db" for x
    using apply_effect [OF step c] by (cases "x = ch_id c") auto
  then show ?thesis using same_history [of db' db] h None by blast
next
  case (Some qr)
  let ?cid = "ch_id c" and ?v = "qr_database_version qr"
  note E = apply_effect [OF step c, unfolded Some option.case]
  define h' where "h' = h(?cid := (h ?cid)(?v := active_refs ?cid db'))"
  have v: "version_of ?cid db = Some (?v - 1)" "version_of ?cid db' = Some ?v" using E by auto
  have "history_ok h' db'"
    using h E by (auto simp: history_ok_def h'_def)
  moreover have "extends db h db' h'"
    unfolding extends_def
  proof (intro allI impI)
    fix x w assume "past db x w"
    then show "past db' x w \<and> h' x w = h x w" using v E by (cases "x = ?cid") (auto simp: past_def h'_def)
  qed
  moreover have "h ?cid (qr_expected_previous_version qr) = active_refs ?cid db"
    using h E by (simp add: history_ok_def)
  then have "refresh_ok h' db' qr" using E by (simp add: refresh_ok_def past_def h'_def)
  moreover have "grows db db' h'"
    unfolding grows_def
  proof (intro allI impI)
    fix x w assume "past db' x w"
    then show "past db x w \<or> h' x w = active_refs x db \<or> h' x w = active_refs x db'"
      using v E by (cases "x = ?cid") (auto simp: past_def h'_def)
  qed
  ultimately show ?thesis using Some by blast
qed

lemma numbered_next:
  assumes "numbered db"
  shows "get_next_sequence cid db = int (length (filter (\<lambda>n. nd_chain_id n = cid) (chain_nodes db)))"
proof -
  let ?ns = "filter (\<lambda>n. nd_chain_id n = cid) (chain_nodes db)"
  have seq: "map nd_sequence ?ns = map int [0..<length ?ns]" using assms by (simp add: numbered_def Let_def)
  show ?thesis
  proof (cases "latest_by nd_sequence ?ns")
    case (Some n)
    then have n: "n \<in> set ?ns" "\<forall>m\<in>set ?ns. nd_sequence m \<le> nd_sequence n" by (auto dest: latest_by_SomeD)
    have "nd_sequence ` set ?ns = int ` {0..<length ?ns}" using seq by (metis list.set_map set_upt)
    moreover have "length ?ns > 0" using n(1) by (cases ?ns) auto
    ultimately have "int (length ?ns - 1) \<in> nd_sequence ` set ?ns" "nd_sequence n \<in> int ` {0..<length ?ns}"
      using n(1) by auto
    then have "nd_sequence n = int (length ?ns) - 1" using n(2) \<open>length ?ns > 0\<close> by fastforce
    then show ?thesis using Some by (simp add: get_next_sequence_def)
  qed (simp add: get_next_sequence_def)
qed

lemma numbered_append:
  assumes "numbered db" "chain_nodes db' = chain_nodes db @ [n]"
    and "nd_sequence n = get_next_sequence (nd_chain_id n) db"
  shows "numbered db'"
  using assms numbered_next [OF assms(1), of "nd_chain_id n"] by (simp add: numbered_def Let_def)

lemma link_chains_effect:
  assumes "link_chains now u n tid updates cids db = Inr (refreshes, db')"
    and "history_ok h db"
  shows "core db' = core db \<and> selections db' = selections db \<and>
    (\<forall>x. conversation_of x db' = conversation_of x db) \<and>
    (replay_ok db \<longrightarrow> replay_ok db') \<and> (numbered db \<longrightarrow> numbered db') \<and> (rows_ok db \<longrightarrow> rows_ok db') \<and>
    (\<forall>cid\<in>set cids. conversation_of cid db \<noteq> None) \<and>
    (\<exists>new. chain_nodes db' = chain_nodes db @ new \<and> map nd_chain_id new = cids \<and>
      (\<forall>m\<in>set new. nd_turn_id m = tid)) \<and>
    (\<forall>x. x \<notin> set cids \<longrightarrow> active_refs x db' = active_refs x db) \<and>
    (\<exists>h'. history_ok h' db' \<and> extends db h db' h' \<and> (distinct cids \<longrightarrow> grows db db' h') \<and>
      (\<forall>qr\<in>set refreshes. refresh_ok h' db' qr))"
  using assms
proof (induction now u n tid updates cids db arbitrary: refreshes db' h rule: link_chains.induct)
  case (1 now u n tid updates db)
  then show ?case using history_extends_refl by (auto simp: grows_def)
next
  case (2 now u n tid updates cid cids db)
  let ?update = "find (\<lambda>up. cu_chain_id up = cid) updates"
  define nd where "nd = \<lparr>nd_id = new_id ''node'' (u n), nd_chain_id = cid, nd_turn_id = tid,
    nd_sequence = get_next_sequence cid db,
    nd_related_task_ids = (case ?update of None \<Rightarrow> [] | Some up \<Rightarrow> dedup (cu_related_task_ids up)),
    nd_related_resource_refs = related_refs ?update, nd_created_at = now\<rparr>"
  from 2(2) obtain c db1 refresh n' db2 rest where
    c: "get_chain cid db = Some c" and node: "create_node nd db = Inr db1"
    and app: "apply_in_transaction now u (n + 1) tid c ?update db1 = Inr (refresh, n', db2)"
    and rest: "link_chains now u n' tid updates cids (update_chain_activity now cid db2) = Inr (rest, db')"
    and out: "refreshes = (case refresh of None \<Rightarrow> [] | Some r \<Rightarrow> [r]) @ rest"
    unfolding link_chains.simps Let_def nd_def [symmetric] by (auto simp: bind_eq_Inr simp del: One_nat_def Suc_eq_plus1)
  have db1: "db1 = db\<lparr>chain_nodes := chain_nodes db @ [nd]\<rparr>" using node by (simp add: context_simps)
  have nd: "nd_chain_id nd = cid" "nd_turn_id nd = tid" "nd_sequence nd = get_next_sequence cid db"
    by (simp_all add: nd_def)
  have cid: "ch_id c = cid" using c chain_repo.fetch_key by blast
  have c1: "get_chain (ch_id c) db1 = Some c" using c cid by (simp add: db1 get_chain_def)
  note E = apply_effect [OF app c1]
  have h1: "history_ok h db1" "extends db h db1 h"
    using same_history [of db1 db h] 2(3) by (simp_all add: db1 version_of_def get_chain_def active_refs_def get_chain_resource_def fun_eq_iff)
  obtain h2 where h2: "history_ok h2 db2" "extends db1 h db2 h2" "grows db1 db2 h2" "\<forall>qr. refresh = Some qr \<longrightarrow> refresh_ok h2 db2 qr"
    using apply_history [OF app c1 h1(1)] by blast
  let ?db3 = "update_chain_activity now cid db2"
  have act: "active_refs x ?db3 = active_refs x db2" for x
    by (rule same_resources(2)) (simp add: activity_effect)
  have h3: "history_ok h2 ?db3" "extends db2 h2 ?db3 h2"
    using same_history [of ?db3 db2 h2] h2(1) act by (simp_all add: activity_effect)
  note IH = 2(1) [OF refl rest h3(1)]
  from IH obtain new h' where new: "chain_nodes db' = chain_nodes ?db3 @ new" "map nd_chain_id new = cids"
      "\<forall>m\<in>set new. nd_turn_id m = tid"
    and h': "history_ok h' db'" "extends ?db3 h2 db' h'" "distinct cids \<longrightarrow> grows ?db3 db' h'"
      "\<forall>qr\<in>set rest. refresh_ok h' db' qr" by blast
  have act1: "active_refs x db1 = active_refs x db" for x by (rule same_resources(2)) (simp add: db1)
  have frame: "active_refs x db2 = active_refs x db" "version_of x db2 = version_of x db" if "x \<noteq> cid" for x
    using E that cid act1 [of x] by (simp_all add: db1 version_of_def get_chain_def)
  have rest_frame: "active_refs x db' = active_refs x db2" if "x \<notin> set cids" for x using IH that act by simp
  have grown: "grows db db' h'" if d: "distinct (cid # cids)"
    unfolding grows_def
  proof (intro allI impI)
    fix x v assume p: "past db' x v"
    have g3: "past ?db3 x v \<or> h' x v = active_refs x db2 \<or> h' x v = active_refs x db'"
      using p h'(3) d act [of x] by (simp add: grows_def) metis
    have p3: "past ?db3 x v = past db2 x v" for x v by (simp add: past_def activity_effect)
    have e3: "h' x v = h2 x v" if "past db2 x v" using that h'(2) p3 by (simp add: extends_def)
    show "past db x v \<or> h' x v = active_refs x db \<or> h' x v = active_refs x db'"
    proof (cases "x = cid")
      case True
      have "past db1 x v = past db x v" by (simp add: past_def db1 version_of_def get_chain_def)
      then have "past db x v \<or> h2 x v = active_refs x db \<or> h2 x v = active_refs x db2" if "past db2 x v"
        using that h2(3) act1 by (simp add: grows_def) metis
      then show ?thesis using g3 e3 p3 rest_frame [of x] True d by auto
    next
      case False
      have "past db2 x v = past db x v" using frame [OF False] by (simp add: past_def)
      then show ?thesis using g3 p3 frame [OF False] by auto
    qed
  qed
  have conv: "conversation_of x ?db3 = conversation_of x db" for x
    using E by (simp add: activity_effect) (simp add: db1 conversation_of_def get_chain_def)
  have "chain_nodes ?db3 = chain_nodes db @ [nd]" using E by (simp add: activity_effect db1)
  then have nodes: "chain_nodes db' = chain_nodes db @ nd # new" "map nd_chain_id (nd # new) = cid # cids"
    "\<forall>m\<in>set (nd # new). nd_turn_id m = tid" using new nd by auto
  have "replay_ok db'" if "replay_ok db"
  proof -
    have "replay_ok db1" using that same_replay [of db1 db] by (simp add: db1)
    then have "replay_ok ?db3" using E same_replay [of ?db3 db2] by (simp add: activity_effect)
    then show ?thesis using IH by blast
  qed
  moreover have "numbered db'" if "numbered db"
  proof -
    have "numbered ?db3"
      using that by (rule numbered_append [where n = nd]) (use \<open>chain_nodes ?db3 = _\<close> nd in simp_all)
    then show ?thesis using IH by blast
  qed
  moreover have "rows_ok db'" if "rows_ok db"
  proof -
    have "rows_ok db1" using that by (simp add: db1 rows_ok_def)
    from apply_rows [OF app this] have "rows_ok ?db3"
      using same_rows [of ?db3 db2] by (simp add: activity_effect)
    then show ?thesis using IH by blast
  qed
  moreover have "\<exists>h'. history_ok h' db' \<and> extends db h db' h' \<and> (distinct (cid # cids) \<longrightarrow> grows db db' h') \<and>
    (\<forall>qr\<in>set refreshes. refresh_ok h' db' qr)"
  proof (intro exI conjI)
    show "history_ok h' db'" by (fact h'(1))
    show "distinct (cid # cids) \<longrightarrow> grows db db' h'" using grown by blast
    show "extends db h db' h'"
      by (rule history_extends_trans [OF history_extends_trans [OF history_extends_trans [OF h1(2) h2(2)] h3(2)] h'(2)])
    show "\<forall>qr\<in>set refreshes. refresh_ok h' db' qr"
      using h'(4) h2(4) extends_refresh [OF history_extends_trans [OF h3(2) h'(2)]]
      by (auto simp: out split: option.splits)
  qed
  moreover have "\<forall>x. x \<notin> set (cid # cids) \<longrightarrow> active_refs x db' = active_refs x db"
    using rest_frame frame(1) by simp
  moreover have "core db' = core db" "selections db' = selections db"
    using IH E by (simp_all add: activity_effect db1)
  moreover have "\<forall>x. conversation_of x db' = conversation_of x db" using IH conv by simp
  moreover have "\<forall>x\<in>set (cid # cids). conversation_of x db \<noteq> None"
  proof -
    have "conversation_of x db \<noteq> None" if "x \<in> set cids" for x
      using IH conv [of x] that by (metis (no_types))
    moreover have "conversation_of cid db \<noteq> None" using c by (simp add: conversation_of_def)
    ultimately show ?thesis by simp
  qed
  moreover have "\<exists>new. chain_nodes db' = chain_nodes db @ new \<and> map nd_chain_id new = cid # cids \<and>
      (\<forall>m\<in>set new. nd_turn_id m = tid)"
    by (rule exI [of _ "nd # new"]) (intro conjI nodes)
  ultimately show ?case by blast
qed

end
