(* ===== verification/Context_Steps.thy ===== *)
theory Context_Steps
  imports Context_Safety
begin

text \<open>
  The context service at work: transactions of messages and completions, the refreshes of the
  cached queues that run after a commit, and warm-ups, which read the database in one step and
  write the cache in a later one.  Any interleaving is a run; a request to Redis may be lost, late or
  repeated.  The other modules change the orchestration tables, but neither add nor remove turns
  and leave it alone whether a turn is completed.
\<close>

section \<open>The step relation\<close>

record warm_read =
  wr_conversation_id :: ident
  wr_chain_id :: ident
  wr_version :: int
  wr_resources :: "resource_ref list"

record context_world =
  cw_db :: context_db
  cw_cache :: resource_cache
  cw_refreshes :: "queue_refresh list"
  cw_reads :: "warm_read list"

definition turn_view :: "ident \<Rightarrow> context_db \<Rightarrow> (ident \<times> bool) option" where
  "turn_view tid db = map_option (\<lambda>t. (tn_conversation_id t, tn_status t = TURN_COMPLETED)) (get_turn tid db)"

definition set_core :: "db \<Rightarrow> context_db \<Rightarrow> context_db" where
  "set_core c db = db\<lparr>core := c\<rparr>"

inductive context_step :: "nat \<Rightarrow> context_world \<Rightarrow> context_world \<Rightarrow> bool" for capacity where
  open_turn: "create_turn_and_load_chains now capacity tid conv message (cw_db w) = Inr (cands, db) \<Longrightarrow>
     context_step capacity w (w\<lparr>cw_db := db\<rparr>)"
| select: "persist_context_selection now hex tid conv d (cw_db w) = Inr db \<Longrightarrow>
     context_step capacity w (w\<lparr>cw_db := db\<rparr>)"
| fail_turn: "context_step capacity w (w\<lparr>cw_db := mark_turn_failed tid (cw_db w)\<rparr>)"
| complete: "complete_turn_in_transaction now u tid conv command (cw_db w) = Inr ((r, refreshes), db) \<Longrightarrow>
     context_step capacity w (w\<lparr>cw_db := db, cw_refreshes := refreshes @ cw_refreshes w\<rparr>)"
| refresh: "qr \<in> set (cw_refreshes w) \<Longrightarrow> key = (qr_conversation_id qr, qr_chain_id qr) \<Longrightarrow>
     refresh_queue capacity qr (cw_cache w key) = Some q \<Longrightarrow>
     context_step capacity w (w\<lparr>cw_cache := (cw_cache w)(key := q)\<rparr>)"
| invalidate: "context_step capacity w (w\<lparr>cw_cache := (cw_cache w)(key := no_queue)\<rparr>)"
| warm_load: "load_resources_for_warmup capacity conv cid version (cw_db w) = Inr rs \<Longrightarrow>
     context_step capacity w (w\<lparr>cw_reads := \<lparr>wr_conversation_id = conv, wr_chain_id = cid,
       wr_version = version, wr_resources = rs\<rparr> # cw_reads w\<rparr>)"
| warm_write: "rd \<in> set (cw_reads w) \<Longrightarrow>
     context_step capacity w (w\<lparr>cw_cache := (cw_cache w)((wr_conversation_id rd, wr_chain_id rd) :=
       replace_queue capacity (wr_resources rd) (wr_version rd))\<rparr>)"
| other: "(\<And>tid. turn_view tid (set_core c (cw_db w)) = turn_view tid (cw_db w)) \<Longrightarrow>
     context_step capacity w (w\<lparr>cw_db := set_core c (cw_db w)\<rparr>)"

inductive context_reachable :: "nat \<Rightarrow> context_world \<Rightarrow> context_world \<Rightarrow> bool" for capacity w0 where
  start: "context_reachable capacity w0 w0"
| more: "context_reachable capacity w0 w \<Longrightarrow> context_step capacity w w' \<Longrightarrow> context_reachable capacity w0 w'"

section \<open>The invariant\<close>

text \<open>
  A queue holds, under distinct keys and with no other data, resources as they were active at its
  version.
\<close>

definition queue_ok :: "nat \<Rightarrow> (string \<Rightarrow> resource_ref option) \<Rightarrow> cached_queue \<Rightarrow> bool" where
  "queue_ok capacity m q \<longleftrightarrow> distinct (cq_keys q) \<and> length (cq_keys q) \<le> capacity \<and>
     dom (map_of (cq_data q)) = set (cq_keys q) \<and> (\<forall>k\<in>set (cq_keys q). map_of (cq_data q) k = m k)"

definition slot_ok :: "nat \<Rightarrow> history \<Rightarrow> context_db \<Rightarrow> ident \<Rightarrow> cached_queue \<Rightarrow> bool" where
  "slot_ok capacity h db cid q \<longleftrightarrow> (case cq_version q of
     None \<Rightarrow> q = no_queue
   | Some v \<Rightarrow> past db cid v \<and> queue_ok capacity (h cid v) q)"

definition cache_ok :: "nat \<Rightarrow> history \<Rightarrow> context_db \<Rightarrow> resource_cache \<Rightarrow> bool" where
  "cache_ok capacity h db cache \<longleftrightarrow> (\<forall>conv cid. slot_ok capacity h db cid (cache (conv, cid)))"

definition read_ok :: "nat \<Rightarrow> history \<Rightarrow> context_db \<Rightarrow> warm_read \<Rightarrow> bool" where
  "read_ok capacity h db rd \<longleftrightarrow> past db (wr_chain_id rd) (wr_version rd) \<and>
     distinct (map rr_key (wr_resources rd)) \<and>
     (\<forall>r\<in>set (wr_resources rd). h (wr_chain_id rd) (wr_version rd) (rr_key r) = Some r)"

text \<open>Completed turns are the ones with nodes; a node's chain is one of its turn's conversation.\<close>

definition attributed :: "context_db \<Rightarrow> bool" where
  "attributed db \<longleftrightarrow>
     (\<forall>n\<in>set (chain_nodes db). \<exists>conv. turn_view (nd_turn_id n) db = Some (conv, True) \<and>
        conversation_of (nd_chain_id n) db = Some conv) \<and>
     (\<forall>tid conv. turn_view tid db = Some (conv, True) \<longrightarrow> list_linked_chain_ids tid db \<noteq> [])"

definition context_db_ok :: "context_db \<Rightarrow> bool" where
  "context_db_ok db \<longleftrightarrow> rows_ok db \<and> numbered db \<and> replay_ok db \<and> attributed db"

definition versions_ok :: "nat \<Rightarrow> history \<Rightarrow> context_world \<Rightarrow> bool" where
  "versions_ok capacity h w \<longleftrightarrow> context_db_ok (cw_db w) \<and>
     history_ok h (cw_db w) \<and> cache_ok capacity h (cw_db w) (cw_cache w) \<and>
     (\<forall>qr\<in>set (cw_refreshes w). refresh_ok h (cw_db w) qr) \<and>
     (\<forall>rd\<in>set (cw_reads w). read_ok capacity h (cw_db w) rd)"

definition context_inv :: "nat \<Rightarrow> context_world \<Rightarrow> bool" where
  "context_inv capacity w \<longleftrightarrow> (\<exists>h. versions_ok capacity h w)"

lemma context_inv_db: "context_inv capacity w \<Longrightarrow> context_db_ok (cw_db w)"
  by (auto simp: context_inv_def versions_ok_def)

section \<open>Database transactions\<close>

text \<open>A transaction keeps the database well formed and extends the history of the versions.\<close>

definition db_transition :: "context_db \<Rightarrow> queue_refresh list \<Rightarrow> context_db \<Rightarrow> bool" where
  "db_transition db refreshes db' \<longleftrightarrow> (context_db_ok db \<longrightarrow> context_db_ok db') \<and>
     (\<forall>h. history_ok h db \<longrightarrow> (\<exists>h'. history_ok h' db' \<and> extends db h db' h' \<and> grows db db' h' \<and>
       (\<forall>qr\<in>set refreshes. refresh_ok h' db' qr)))"

text \<open>Transactions that touch neither chains, nodes nor resources, and complete no turn.\<close>

definition same_context :: "context_db \<Rightarrow> context_db \<Rightarrow> bool" where
  "same_context db db' \<longleftrightarrow> chains db' = chains db \<and> chain_nodes db' = chain_nodes db \<and>
     chain_resources db' = chain_resources db \<and> resource_events db' = resource_events db \<and>
     (\<forall>tid. turn_view tid db = None \<or> turn_view tid db' = turn_view tid db) \<and>
     (\<forall>tid conv. turn_view tid db' = Some (conv, True) \<longrightarrow> turn_view tid db = Some (conv, True))"

lemma same_context_ok:
  assumes "same_context db db'"
  shows "context_db_ok db \<Longrightarrow> context_db_ok db'"
proof -
  assume ok: "context_db_ok db"
  note same = assms [unfolded same_context_def]
  have "attributed db'"
    unfolding attributed_def
  proof (intro conjI ballI allI impI)
    fix n assume "n \<in> set (chain_nodes db')"
    then obtain conv where "turn_view (nd_turn_id n) db = Some (conv, True)"
      "conversation_of (nd_chain_id n) db = Some conv" using ok same by (auto simp: context_db_ok_def attributed_def)
    then show "\<exists>conv. turn_view (nd_turn_id n) db' = Some (conv, True) \<and> conversation_of (nd_chain_id n) db' = Some conv"
      using same same_chains(2) [of db' db] by (metis option.distinct(1))
  next
    fix tid conv assume "turn_view tid db' = Some (conv, True)"
    then have "list_linked_chain_ids tid db \<noteq> []"
      using ok same unfolding context_db_ok_def attributed_def by blast
    then show "list_linked_chain_ids tid db' \<noteq> []" using same by (simp add: list_linked_chain_ids_def)
  qed
  then show "context_db_ok db'"
    using ok same same_rows [of db' db] same_numbered [of db' db] same_replay [of db' db]
    by (simp add: context_db_ok_def)
qed

lemma same_context_transition: "same_context db db' \<Longrightarrow> db_transition db [] db'"
proof -
  assume same: "same_context db db'"
  have v: "version_of x db' = version_of x db" "active_refs x db' = active_refs x db" for x
    using same same_chains(1) [of db' db] same_resources(2) [of db' db] by (simp_all add: same_context_def)
  then show ?thesis
    using same_history [of db' db, OF v] same_context_ok [OF same] by (auto simp: db_transition_def)
qed

lemma save_turn_get:
  "get_turn tid (save_turn t db) = (if tid = tn_id t \<and> get_turn tid db \<noteq> None then Some t else get_turn tid db)"
  using context_turn_repo.fetch_save [of tid t db] by auto

lemma turn_view_save:
  "get_turn (tn_id t) db = Some t0 \<Longrightarrow> turn_view tid (save_turn t db) =
     (if tid = tn_id t then Some (tn_conversation_id t, tn_status t = TURN_COMPLETED) else turn_view tid db)"
  by (auto simp: turn_view_def save_turn_get)

lemma open_turn_same:
  assumes "create_turn_and_load_chains now capacity tid conv message db = Inr (cands, db')"
  shows "same_context db db'"
proof -
  let ?t = "new_turn now tid conv message"
  have db': "db' = db\<lparr>core := (core db)\<lparr>turns := turns (core db) @ [?t]\<rparr>\<rparr>" "get_turn (tn_id ?t) db = None"
    using assms by (auto simp: create_turn_and_load_chains_def bind_eq_Inr context_simps)
  have "get_turn x db' = (if x = tn_id ?t then Some ?t else get_turn x db)" for x
    using db'(2) by (auto simp: db'(1) get_turn_def turn_get_by_id_def table_simps split: option.splits)
  then show ?thesis using db' by (auto simp: same_context_def turn_view_def new_turn_def)
qed

lemma persist_same:
  assumes "persist_context_selection now hex tid conv d db = Inr db'"
  shows "same_context db db'"
proof -
  obtain t s where t: "get_turn tid db = Some t" "tn_status t = ROUTING"
    and db': "db' = save_turn (turn_set_status t CONTEXT_READY) (db\<lparr>selections := s\<rparr>)"
    using assms by (auto simp: persist_context_selection_def create_selection_record_def bind_eq_Inr
        split: option.splits if_splits)
  have id: "tn_id t = tid" using context_turn_repo.fetch_key [OF t(1)] .
  have get: "get_turn x (db\<lparr>selections := s\<rparr>) = get_turn x db" for x by (simp add: get_turn_def)
  show ?thesis
    using t id by (auto simp: same_context_def db' context_simps turn_view_def save_turn_get get turn_set_status_def)
qed

lemma mark_failed_same: "same_context db (mark_turn_failed tid db)"
proof (cases "get_turn tid db")
  case (Some t)
  have "tn_id t = tid" using context_turn_repo.fetch_key [OF Some] .
  then show ?thesis using Some
    by (auto simp: mark_turn_failed_def same_context_def context_simps turn_view_def save_turn_get turn_set_status_def)
qed (simp add: mark_turn_failed_def same_context_def)

lemma set_core_same:
  assumes "\<And>tid. turn_view tid (set_core c db) = turn_view tid db"
  shows "same_context db (set_core c db)"
  using assms by (simp add: same_context_def) (simp add: set_core_def)

lemma create_new_chain_effect:
  assumes "create_new_chain now conv new db = Inr db'"
  shows "core db' = core db \<and> chain_nodes db' = chain_nodes db \<and> chain_resources db' = chain_resources db \<and>
    resource_events db' = resource_events db \<and> selections db' = selections db \<and>
    (\<forall>x. get_chain x db \<noteq> None \<longrightarrow> get_chain x db' = get_chain x db) \<and>
    (\<forall>i. new = Some i \<longrightarrow> conversation_of i db' = Some conv \<and> get_chain i db = None \<and> version_of i db' = Some 0) \<and>
    (\<forall>x. new \<noteq> Some x \<longrightarrow> get_chain x db' = get_chain x db)"
  using assms
  by (auto simp: create_new_chain_def context_simps get_chain_def table_simps conversation_of_def version_of_def
      split: option.splits)

lemma create_new_chain_history:
  assumes step: "create_new_chain now conv new db = Inr db'" and h: "history_ok h db"
  shows "\<exists>h'. history_ok h' db' \<and> extends db h db' h' \<and> grows db db' h'"
proof (cases new)
  case None
  then show ?thesis using assms history_extends_refl by (auto simp: create_new_chain_def grows_def)
next
  case (Some i)
  note E = create_new_chain_effect [OF step]
  define h' where "h' = h(i := (\<lambda>_. active_refs i db'))"
  have "version_of i db = None" using E Some by (simp add: version_of_def)
  moreover have "version_of x db' = version_of x db" "active_refs x db' = active_refs x db" if "x \<noteq> i" for x
    using E Some that same_resources(2) [of db' db] by (simp_all add: version_of_def)
  ultimately have "history_ok h' db'" "extends db h db' h'" "grows db db' h'"
    using E Some h by (auto simp: history_ok_def extends_def past_def grows_def h'_def)
  then show ?thesis by blast
qed

lemma check_existing_Inr: "check_existing_chains conv db is = Inr () \<longleftrightarrow>
   (\<forall>i\<in>set is. \<exists>c. get_chain i db = Some c \<and> ch_conversation_id c = conv \<and> \<not> ch_archived c)"
  by (induction "is") (auto split: option.splits)

lemma resolve_targets_Inr:
  assumes "resolve_targets hex a db = Inr (targets, new)"
  shows "targets \<noteq> [] \<and> distinct targets \<and>
    set targets = set (at_existing_chain_ids a) \<union> (case new of None \<Rightarrow> {} | Some i \<Rightarrow> {i}) \<and>
    (\<forall>i. new = Some i \<longrightarrow> i \<notin> set (at_existing_chain_ids a))"
proof -
  have "dedup (at_existing_chain_ids a) \<noteq> [] \<longleftrightarrow> at_existing_chain_ids a \<noteq> []"
    by (metis set_dedup set_empty)
  then show ?thesis using assms by (auto simp: resolve_targets_def Let_def split: if_splits)
qed

text \<open>A successful completion, taken apart.\<close>

definition fresh_completion ::
  "time \<Rightarrow> uuids \<Rightarrow> ident \<Rightarrow> ident \<Rightarrow> complete_turn_command \<Rightarrow> context_db \<Rightarrow> complete_turn_result \<Rightarrow>
     queue_refresh list \<Rightarrow> turn \<Rightarrow> ident list \<Rightarrow> ident option \<Rightarrow> context_db \<Rightarrow> context_db \<Rightarrow> context_db \<Rightarrow> bool" where
  "fresh_completion now u tid conv command db r refreshes t targets new db1 db2 db' \<longleftrightarrow>
     get_turn tid db = Some t \<and> tn_conversation_id t = conv \<and> tn_status t \<in> {CONTEXT_READY, PROCESSING} \<and>
     resolve_targets (u 0) (ct_attribution command) db = Inr (targets, new) \<and>
     validate_chain_updates targets (ct_task_ids command) [] (ct_chain_updates command) = Inr () \<and>
     check_existing_chains conv db (dedup (at_existing_chain_ids (ct_attribution command))) = Inr () \<and>
     create_new_chain now conv new db = Inr db1 \<and>
     link_chains now u 1 tid (ct_chain_updates command) targets db1 = Inr (refreshes, db2) \<and>
     r = \<lparr>cr_turn = complete_turn_row (ct_assistant_content command) (ct_assistant_compact command)
            (dedup (ct_task_ids command)) (ct_task_result_summary command) now t, cr_linked_chain_ids = targets\<rparr> \<and>
     db' = save_turn (cr_turn r) db2"

lemma complete_cases:
  assumes "complete_turn_in_transaction now u tid conv command db = Inr ((r, refreshes), db')"
  obtains (again) t where "get_turn tid db = Some t" "tn_conversation_id t = conv" "tn_status t = TURN_COMPLETED"
      "list_linked_chain_ids tid db \<noteq> []" "r = \<lparr>cr_turn = t, cr_linked_chain_ids = list_linked_chain_ids tid db\<rparr>"
      "refreshes = []" "db' = db"
    | (fresh) t targets new db1 db2 where
      "fresh_completion now u tid conv command db r refreshes t targets new db1 db2 db'"
proof -
  obtain t where t: "get_turn tid db = Some t" "tn_conversation_id t = conv"
    using assms by (auto simp: complete_turn_in_transaction_def split: option.splits if_splits)
  show thesis
  proof (cases "tn_status t = TURN_COMPLETED")
    case True
    then show thesis using assms t
      by (intro again [of t]) (auto simp: complete_turn_in_transaction_def Let_def split: if_splits)
  next
    case False
    then obtain targets new db1 db2 where
      "fresh_completion now u tid conv command db r refreshes t targets new db1 db2 db'"
      using assms t
      by (auto simp: complete_turn_in_transaction_def Let_def bind_eq_Inr fresh_completion_def
          split: option.splits if_splits)
    then show thesis by (rule fresh)
  qed
qed

lemma fresh_completion_links:
  assumes "fresh_completion now u tid conv command db r refreshes t targets new db1 db2 db'"
  shows "targets \<noteq> [] \<and> distinct targets \<and> (\<forall>cid\<in>set targets. conversation_of cid db' = Some conv) \<and>
    (\<forall>x. conversation_of x db \<noteq> None \<longrightarrow> conversation_of x db' = conversation_of x db) \<and>
    (\<exists>new. chain_nodes db' = chain_nodes db @ new \<and> map nd_chain_id new = targets \<and> (\<forall>m\<in>set new. nd_turn_id m = tid)) \<and>
    (\<forall>x. turn_view x db' = (if x = tid then Some (conv, True) else turn_view x db)) \<and>
    get_turn tid db' = Some (cr_turn r) \<and> selections db' = selections db"
proof -
  note F = assms [unfolded fresh_completion_def]
  note N = create_new_chain_effect [of now conv new db db1]
  obtain h where "history_ok h db1" by (rule that [of "\<lambda>cid v. active_refs cid db1"]) (simp add: history_ok_def)
  then have L: "core db2 = core db1" "selections db2 = selections db1"
    "\<forall>x. conversation_of x db2 = conversation_of x db1"
    "\<exists>new. chain_nodes db2 = chain_nodes db1 @ new \<and> map nd_chain_id new = targets \<and> (\<forall>m\<in>set new. nd_turn_id m = tid)"
    using link_chains_effect [of now u 1 tid "ct_chain_updates command" targets db1 refreshes db2 h] F by blast+
  have T: "targets \<noteq> []" "distinct targets"
    "set targets = set (at_existing_chain_ids (ct_attribution command)) \<union> (case new of None \<Rightarrow> {} | Some i \<Rightarrow> {i})"
    using resolve_targets_Inr [of "u 0" "ct_attribution command" db targets new] F by simp_all
  have id: "tn_id t = tid" using context_turn_repo.fetch_key F by blast
  have kept: "conversation_of x db1 = conversation_of x db" if "conversation_of x db \<noteq> None" for x
    using that N F by (auto simp: conversation_of_def)
  have existing: "conversation_of x db = Some conv" if "x \<in> set (at_existing_chain_ids (ct_attribution command))" for x
    using that F by (auto simp: check_existing_Inr conversation_of_def)
  have "conversation_of cid db1 = Some conv" if "cid \<in> set targets" for cid
    using that T(3) existing [of cid] kept [of cid] N F by (auto split: option.splits)
  moreover have "conversation_of x db' = conversation_of x db2" for x
    using F by (simp add: conversation_of_def get_chain_def context_simps)
  moreover have get: "get_turn x db2 = get_turn x db" for x
    using L(1) N F by (simp add: get_turn_def)
  moreover have "tn_id (cr_turn r) = tid" "tn_conversation_id (cr_turn r) = conv" "tn_status (cr_turn r) = TURN_COMPLETED"
    using F id by (auto simp: complete_turn_row_def)
  moreover have "selections db' = selections db" using L(2) N F by (auto simp: context_simps)
  moreover have "chain_nodes db' = chain_nodes db2" "chain_nodes db1 = chain_nodes db"
    using N F by (auto simp: context_simps)
  moreover have D: "db' = save_turn (cr_turn r) db2" "get_turn tid db2 = Some t" using F get by auto
  ultimately show ?thesis
    using T L kept by (auto simp: turn_view_def save_turn_get)
qed

lemma linked_append:
  assumes "chain_nodes db' = chain_nodes db @ new" "\<forall>m\<in>set new. nd_turn_id m = tid"
  shows "list_linked_chain_ids x db' =
    (if x = tid then sort (map nd_chain_id (filter (\<lambda>m. nd_turn_id m = tid) (chain_nodes db) @ new)) else list_linked_chain_ids x db)"
proof -
  have "filter (\<lambda>m. nd_turn_id m = x) new = (if x = tid then new else [])"
    using assms(2) by (auto simp: filter_id_conv filter_empty_conv)
  then show ?thesis using assms(1) by (simp add: list_linked_chain_ids_def)
qed

lemma fresh_completion_attributed:
  assumes step: "fresh_completion now u tid conv command db r refreshes t targets new db1 db2 db'"
    and ok: "attributed db"
  shows "attributed db'"
proof -
  from fresh_completion_links [OF step] obtain new where L: "targets \<noteq> []"
    "\<forall>cid\<in>set targets. conversation_of cid db' = Some conv"
    "\<forall>x. conversation_of x db \<noteq> None \<longrightarrow> conversation_of x db' = conversation_of x db"
    "\<forall>x. turn_view x db' = (if x = tid then Some (conv, True) else turn_view x db)"
    and new: "chain_nodes db' = chain_nodes db @ new" "map nd_chain_id new = targets" "\<forall>m\<in>set new. nd_turn_id m = tid"
    by blast
  have conv: "tn_conversation_id t = conv" "get_turn tid db = Some t" using step by (simp_all add: fresh_completion_def)
  show ?thesis
    unfolding attributed_def
  proof (intro conjI ballI allI impI)
    fix n assume "n \<in> set (chain_nodes db')"
    then consider "n \<in> set (chain_nodes db)" | "n \<in> set new" using new by auto
    then show "\<exists>conv. turn_view (nd_turn_id n) db' = Some (conv, True) \<and> conversation_of (nd_chain_id n) db' = Some conv"
    proof cases
      case 1
      then obtain c where c: "turn_view (nd_turn_id n) db = Some (c, True)" "conversation_of (nd_chain_id n) db = Some c"
        using ok by (auto simp: attributed_def)
      moreover have "c = conv" if "nd_turn_id n = tid" using c that conv by (simp add: turn_view_def)
      ultimately show ?thesis using L by auto
    next
      case 2
      then show ?thesis using L new by auto
    qed
  next
    fix x c assume x: "turn_view x db' = Some (c, True)"
    then have "list_linked_chain_ids x db \<noteq> []" if "x \<noteq> tid" using that L ok by (auto simp: attributed_def)
    moreover have "sort (a @ targets) \<noteq> []" for a
      using L(1) by (metis append_is_Nil_conv set_empty set_sort)
    ultimately show "list_linked_chain_ids x db' \<noteq> []"
      using linked_append [OF new(1,3)] new(2) by simp
  qed
qed

lemma complete_transition:
  assumes "complete_turn_in_transaction now u tid conv command db = Inr ((r, refreshes), db')"
  shows "db_transition db refreshes db'"
  using assms
proof (cases rule: complete_cases)
  case again
  then show ?thesis using history_extends_refl by (auto simp: db_transition_def grows_def)
next
  case (fresh t targets new db1 db2)
  note F = fresh [unfolded fresh_completion_def]
  note N = create_new_chain_effect [of now conv new db db1]
  from F have step: "create_new_chain now conv new db = Inr db1"
    "link_chains now u 1 tid (ct_chain_updates command) targets db1 = Inr (refreshes, db2)"
    and db': "db' = save_turn (cr_turn r) db2" by auto
  have core: "chains db' = chains db2" "chain_nodes db' = chain_nodes db2" "chain_resources db' = chain_resources db2"
    "resource_events db' = resource_events db2" by (simp_all add: db' context_simps)
  have v: "version_of x db' = version_of x db2" "active_refs x db' = active_refs x db2" for x
    using same_chains(1) [OF core(1)] same_resources(2) [OF core(3)] by simp_all
  have d: "distinct targets"
    using resolve_targets_Inr [of "u 0" "ct_attribution command" db targets new] F by simp
  have hist: "\<exists>h'. history_ok h' db' \<and> extends db h db' h' \<and> grows db db' h' \<and> (\<forall>qr\<in>set refreshes. refresh_ok h' db' qr)"
    if h: "history_ok h db" for h
  proof -
    obtain h1 where h1: "history_ok h1 db1" "extends db h db1 h1" "grows db db1 h1"
      using create_new_chain_history [OF step(1) h] by blast
    from link_chains_effect [OF step(2) h1(1)] obtain h2 where
      h2: "history_ok h2 db2" "extends db1 h1 db2 h2" "\<forall>qr\<in>set refreshes. refresh_ok h2 db2 qr" "grows db1 db2 h2"
      using d by blast
    have act1: "active_refs x db1 = active_refs x db" for x
      by (rule same_resources(2)) (use N step(1) in simp)
    have "grows db db' h2"
      unfolding grows_def
    proof (intro allI impI)
      fix x w assume "past db' x w"
      then have "past db2 x w" by (simp add: past_def v)
      then have "past db1 x w \<or> h2 x w = active_refs x db \<or> h2 x w = active_refs x db'"
        using h2(4) by (simp add: grows_def act1 v)
      moreover have "past db x w \<or> h2 x w = active_refs x db" if "past db1 x w"
        using that h1(3) h2(2) by (simp add: grows_def extends_def act1)
      ultimately show "past db x w \<or> h2 x w = active_refs x db \<or> h2 x w = active_refs x db'" by blast
    qed
    have h3: "history_ok h2 db'" "extends db2 h2 db' h2" using same_history [of db' db2 h2, OF v] h2(1) by simp_all
    show ?thesis
    proof (intro exI conjI)
      show "history_ok h2 db'" by (fact h3(1))
      show "grows db db' h2" by fact
      show "extends db h db' h2" by (rule history_extends_trans [OF history_extends_trans [OF h1(2) h2(2)] h3(2)])
      show "\<forall>qr\<in>set refreshes. refresh_ok h2 db' qr" using h2(3) extends_refresh [OF h3(2)] by blast
    qed
  qed
  have "context_db_ok db'" if ok: "context_db_ok db"
  proof -
    have ok1: "rows_ok db1" "numbered db1" "replay_ok db1"
      using ok N step(1) same_rows [of db1 db] same_numbered [of db1 db] same_replay [of db1 db]
      by (simp_all add: context_db_ok_def)
    obtain h where "history_ok h db1" by (rule that [of "\<lambda>cid v. active_refs cid db1"]) (simp add: history_ok_def)
    from link_chains_effect [OF step(2) this] ok1 have "rows_ok db2" "numbered db2" "replay_ok db2" by blast+
    then show ?thesis
      using fresh_completion_attributed [OF fresh] ok core same_rows [of db' db2] same_numbered [of db' db2]
        same_replay [of db' db2] by (simp add: context_db_ok_def)
  qed
  then show ?thesis using hist by (simp add: db_transition_def)
qed

end
