(* ===== verification/Context_Invariant.thy ===== *)
theory Context_Invariant
  imports Context_Steps
begin

text \<open>
  The cached queue: the scripts that run inside Redis compute a bounded queue of the most recently
  used resources, and whatever is written to the cache, in any order, every queue shows the
  resources of the version it is tagged with.
\<close>

section \<open>The scripts\<close>

lemma map_of_hset: "map_of (hset k v h) = (map_of h)(k \<mapsto> v)"
proof -
  have "map_of (filter (\<lambda>(k', _). k' \<noteq> k) h) x = map_of h x" if "x \<noteq> k" for x
    using that by (induction h) auto
  then show ?thesis by (auto simp: hset_def fun_eq_iff)
qed

lemma map_of_hdel: "map_of (hdel k h) = (map_of h)(k := None)"
proof -
  have "map_of (filter (\<lambda>(k', _). k' \<noteq> k) h) x = (if x = k then None else map_of h x)" for x
    by (induction h) auto
  then show ?thesis by (auto simp: hdel_def fun_eq_iff)
qed

lemma push_all_data: "push_all rs (ks, h) = (ks', h') \<Longrightarrow> map_of h' = with_refs rs (map_of h)"
  by (induction rs arbitrary: ks h) (auto simp: with_refs_def map_of_hset)

lemma push_all_keys:
  "push_all rs (ks, h) = (ks', h') \<Longrightarrow> distinct ks \<Longrightarrow> distinct ks' \<and> set ks' = set ks \<union> rr_key ` set rs"
proof (induction rs arbitrary: ks h)
  case (Cons r rs)
  have "distinct (lrem (rr_key r) ks @ [rr_key r])" "set (lrem (rr_key r) ks @ [rr_key r]) = insert (rr_key r) (set ks)"
    using Cons(3) by (auto simp: lrem_def)
  then show ?case using Cons(1) [of "lrem (rr_key r) ks @ [rr_key r]"] Cons(2) by auto
qed simp

lemma push_all_order:
  "push_all rs (ks, h) = (ks', h') \<Longrightarrow> distinct (map rr_key rs) \<Longrightarrow>
     ks' = filter (\<lambda>k. k \<notin> rr_key ` set rs) ks @ map rr_key rs"
proof (induction rs arbitrary: ks h)
  case (Cons r rs)
  have "filter (\<lambda>k. k \<notin> rr_key ` set rs) (lrem (rr_key r) ks) = filter (\<lambda>k. k \<notin> rr_key ` set (r # rs)) ks"
    by (auto simp: lrem_def intro: filter_cong)
  then show ?case using Cons by force
qed simp

lemma remove_all_eq:
  "remove_all keys (ks, h) = (ks', h') \<Longrightarrow>
     ks' = filter (\<lambda>k. k \<notin> set keys) ks \<and> map_of h' = without_keys keys (map_of h)"
proof (induction keys arbitrary: ks h)
  case (Cons k keys)
  have "filter (\<lambda>x. x \<notin> set keys) (lrem k ks) = filter (\<lambda>x. x \<notin> set (k # keys)) ks"
    by (auto simp: lrem_def intro: filter_cong)
  moreover have "without_keys keys (map_of (hdel k h)) = without_keys (k # keys) (map_of h)"
    by (auto simp: without_keys_def map_of_hdel fun_eq_iff)
  ultimately show ?case using Cons by simp
qed (simp add: without_keys_def)

lemma evict_dom:
  "evict n ks h = (ks', h') \<Longrightarrow> dom (map_of h) \<subseteq> set ks \<Longrightarrow> dom (map_of h') \<subseteq> set ks'"
proof (induction n ks h rule: evict.induct)
  case (2 n k ks h)
  show ?case
  proof (cases "length (k # ks) > n")
    case True
    have "dom (map_of (hdel k h)) \<subseteq> set ks" using 2(3) by (auto simp: map_of_hdel split: if_splits)
    then show ?thesis using 2 True by simp
  qed (use 2 in auto)
qed simp

lemma evict_eq:
  "evict n ks h = (ks', h') \<Longrightarrow> ks' = last_items n ks \<and>
     (distinct ks \<longrightarrow> (\<forall>k\<in>set ks'. map_of h' k = map_of h k))"
proof (induction n ks h rule: evict.induct)
  case (2 n k ks h)
  show ?case
  proof (cases "length (k # ks) > n")
    case True
    then have "ks' = last_items n ks \<and> (distinct ks \<longrightarrow> (\<forall>k'\<in>set ks'. map_of h' k' = map_of (hdel k h) k'))"
      using 2 by simp
    moreover have "last_items n (k # ks) = last_items n ks" using True by (simp add: last_items_def Suc_diff_le)
    moreover have "set (last_items n ks) \<subseteq> set ks" by (simp add: last_items_def set_drop_subset)
    ultimately show ?thesis by (auto simp: map_of_hdel)
  qed (use 2 in \<open>auto simp: last_items_def\<close>)
qed (auto simp: last_items_def)

lemma last_items_facts [simp]:
  "length (last_items n xs) \<le> n" "set (last_items n xs) \<subseteq> set xs" "distinct xs \<Longrightarrow> distinct (last_items n xs)"
  by (auto simp: last_items_def dest: in_set_dropD)

lemma with_refs_find:
  "with_refs rs m k = (case find (\<lambda>r. rr_key r = k) (rev rs) of Some r \<Rightarrow> Some r | None \<Rightarrow> m k)"
  by (induction rs rule: rev_induct) (auto simp: with_refs_def)

lemma with_refs_base:
  "k \<notin> rr_key ` set rs \<Longrightarrow> with_refs rs m k = m k" "k \<in> rr_key ` set rs \<Longrightarrow> with_refs rs m k = with_refs rs m' k"
  by (auto simp: with_refs_find find_None_iff split: option.splits dest!: find_SomeD)

lemma with_refs_hit: "distinct (map rr_key rs) \<Longrightarrow> r \<in> set rs \<Longrightarrow> with_refs rs m (rr_key r) = Some r"
  by (induction rs arbitrary: m) (auto simp: with_refs_fun_upd with_refs_base(1))

lemma with_refs_defined: "k \<in> rr_key ` set rs \<Longrightarrow> with_refs rs m k \<noteq> None"
proof (induction rs arbitrary: m)
  case (Cons r rs)
  then show ?case by (cases "k \<in> rr_key ` set rs") (auto simp: with_refs_fun_upd with_refs_base(1))
qed simp

section \<open>Every queue shows its version\<close>

lemma refresh_queue_ok:
  assumes step: "refresh_queue capacity qr q = Some q'"
    and q: "distinct (cq_keys q)" "\<forall>k\<in>set (cq_keys q). map_of (cq_data q) k \<noteq> None \<and> map_of (cq_data q) k = m k"
    and dom: "dom (map_of (cq_data q)) \<subseteq> set (cq_keys q)"
  shows "queue_ok capacity (delta qr m) q' \<and> cq_version q' = Some (qr_database_version qr)"
proof -
  let ?rs = "qr_resources qr" and ?gone = "qr_removed_resource_keys qr"
  obtain ks1 h1 where push: "push_all ?rs (cq_keys q, cq_data q) = (ks1, h1)" by fastforce
  obtain ks2 h2 where rem: "remove_all ?gone (ks1, h1) = (ks2, h2)" by fastforce
  obtain ks3 h3 where ev: "evict capacity ks2 h2 = (ks3, h3)" by fastforce
  have q': "q' = \<lparr>cq_keys = ks3, cq_data = h3, cq_version = Some (qr_database_version qr)\<rparr>"
    using step push rem ev by (simp add: refresh_queue_def split: if_splits)
  note P = push_all_keys [OF push q(1)] push_all_data [OF push]
  note R = remove_all_eq [OF rem] and V = evict_eq [OF ev]
  have d: "distinct ks2" using P R by simp
  have "map_of h3 k \<noteq> None \<and> map_of h3 k = delta qr m k" if "k \<in> set ks3" for k
  proof -
    have k2: "k \<in> set ks2" using that V by (metis last_items_facts(2) subsetD)
    then have k: "k \<in> set (cq_keys q) \<union> rr_key ` set ?rs" "k \<notin> set ?gone" using P R by auto
    have "map_of h3 k = with_refs ?rs (map_of (cq_data q)) k"
      using V d that k P R by (simp add: without_keys_def)
    moreover have "delta qr m k = with_refs ?rs m k" using k by (simp add: delta_def without_keys_def)
    moreover have "with_refs ?rs (map_of (cq_data q)) k = with_refs ?rs m k \<and> with_refs ?rs m k \<noteq> None"
    proof (cases "k \<in> rr_key ` set ?rs")
      case True
      then show ?thesis using with_refs_base(2) with_refs_defined by blast
    next
      case False
      then show ?thesis using k q(2) by (metis UnE with_refs_base(1))
    qed
    ultimately show ?thesis by simp
  qed
  then have data: "\<forall>k\<in>set ks3. map_of h3 k \<noteq> None \<and> map_of h3 k = delta qr m k" by blast
  have "dom (map_of h1) \<subseteq> set ks1"
    using dom P push_all_data [OF push]
    by (auto simp: dom_def with_refs_find dest!: find_SomeD split: option.splits)
  then have "dom (map_of h2) \<subseteq> set ks2" using R by (auto simp: without_keys_def dom_def split: if_splits)
  from evict_dom [OF ev this] data have "dom (map_of h3) = set ks3" by auto
  moreover have "distinct ks3" "length ks3 \<le> capacity" using V d by simp_all
  ultimately show ?thesis unfolding q' queue_ok_def cached_queue.simps using data by (intro conjI) simp_all
qed

lemma fold_hset: "map_of (fold (\<lambda>r. hset (rr_key r) r) rs h) = with_refs rs (map_of h)"
  by (induction rs arbitrary: h) (simp_all add: with_refs_def map_of_hset)

lemma replace_queue_ok:
  assumes "distinct (map rr_key rs)" "\<forall>r\<in>set rs. m (rr_key r) = Some r"
  shows "queue_ok capacity m (replace_queue capacity rs version) \<and>
    cq_version (replace_queue capacity rs version) = Some version"
proof -
  let ?rs = "last_items capacity rs"
  have sub: "set ?rs \<subseteq> set rs" and d: "distinct (map rr_key ?rs)"
    using assms(1) by (auto simp: last_items_def drop_map [symmetric] dest: in_set_dropD)
  have "with_refs ?rs Map.empty (rr_key r) = Some r" if "r \<in> set ?rs" for r
    using with_refs_hit [OF d that] .
  moreover have "m (rr_key r) = Some r" if "r \<in> set ?rs" for r using assms(2) sub that by blast
  moreover have "dom (with_refs ?rs Map.empty) = rr_key ` set ?rs"
  proof (intro set_eqI)
    fix k show "(k \<in> dom (with_refs ?rs Map.empty)) = (k \<in> rr_key ` set ?rs)"
      using with_refs_base(1) [of k ?rs Map.empty] with_refs_defined [of k ?rs Map.empty]
      by (cases "k \<in> rr_key ` set ?rs") (simp_all add: domIff)
  qed
  ultimately show ?thesis using d by (simp add: replace_queue_def Let_def queue_ok_def fold_hset)
qed

lemma read_items_ok:
  "read_items h ks = Some items \<Longrightarrow> map rr_key items = ks \<and> (\<forall>r\<in>set items. map_of h (rr_key r) = Some r)"
  by (induction ks arbitrary: items) (auto split: option.splits if_splits)

lemma get_cached_ok:
  assumes "get_cached capacity v q1 q2 q3 = Some rq"
  shows "cq_version q1 = Some v \<and> map rr_key (rq_items rq) = cq_keys q2 \<and> length (rq_items rq) \<le> capacity \<and>
    rq_capacity rq = capacity \<and> (\<forall>r\<in>set (rq_items rq). map_of (cq_data q3) (rr_key r) = Some r)"
proof (cases "cq_keys q2 = []")
  case False
  then obtain items where items: "read_items (cq_data q3) (cq_keys q2) = Some items"
    "rq = \<lparr>rq_capacity = capacity, rq_items = items\<rparr>" "cq_version q1 = Some v" "length (cq_keys q2) \<le> capacity"
    using assms by (auto simp: get_cached_def split: if_splits)
  note R = read_items_ok [OF items(1)]
  then have "length items = length (cq_keys q2)" by (metis length_map)
  then show ?thesis using R items by simp
qed (use assms in \<open>auto simp: get_cached_def split: if_splits\<close>)

lemma sorted_warmup_set:
  "set (list_resources_for_warmup cid limit db) \<subseteq> {r \<in> set (chain_resources db). rs_chain_id r = cid \<and> rs_active r}"
  by (auto simp: list_resources_for_warmup_def dest!: in_set_takeD)

lemma warmup_ok:
  assumes "load_resources_for_warmup capacity conv cid version db = Inr rs" "rows_ok db"
  shows "version_of cid db = Some version \<and> conversation_of cid db = Some conv \<and>
    distinct (map rr_key rs) \<and> length rs \<le> capacity \<and> (\<forall>r\<in>set rs. active_refs cid db (rr_key r) = Some r)"
proof -
  let ?rows = "list_resources_for_warmup cid capacity db"
  have rs: "rs = map ref_of_row (rev ?rows)" "version_of cid db = Some version" "conversation_of cid db = Some conv"
    using assms(1) by (auto simp: load_resources_for_warmup_def version_of_def conversation_of_def split: option.splits if_splits)
  have d: "distinct (chain_resources db)" "inj_on resource_key (set (chain_resources db))"
    using assms(2) by (auto simp: rows_ok_def distinct_map)
  have "distinct ?rows" using d(1) by (simp add: list_resources_for_warmup_def)
  moreover have "inj_on rs_key (set ?rows)"
    using d(2) sorted_warmup_set [of cid capacity db] by (auto simp: inj_on_def)
  ultimately have "distinct (map rs_key (rev ?rows))" by (simp add: distinct_map)
  moreover have "map rr_key rs = map rs_key (rev ?rows)" by (simp add: rs(1) ref_of_row_def)
  ultimately have dk: "distinct (map rr_key rs)" by simp
  have "active_refs cid db (rr_key r) = Some r" if "r \<in> set rs" for r
  proof -
    obtain row where row: "row \<in> set ?rows" "r = ref_of_row row" using \<open>r \<in> set rs\<close> rs(1) by auto
    then have in_table: "row \<in> set (chain_resources db)" "rs_chain_id row = cid" "rs_active row"
      using sorted_warmup_set by blast+
    have "get_chain_resource cid (rs_key row) db = Some row"
      using get_row_in_set [of resource_key "chain_resources db" row] assms(2) in_table
      by (simp add: rows_ok_def get_chain_resource_def)
    then show ?thesis using row in_table by (simp add: active_refs_def ref_of_row_def)
  qed
  moreover have "length rs \<le> capacity" by (simp add: rs(1) list_resources_for_warmup_def)
  ultimately show ?thesis using rs dk by blast
qed

section \<open>Preservation\<close>

lemma extends_cache: "extends db h db' h' \<Longrightarrow> cache_ok capacity h db cache \<Longrightarrow> cache_ok capacity h' db' cache"
  unfolding cache_ok_def slot_ok_def extends_def by (fastforce split: option.splits)

lemma extends_read: "extends db h db' h' \<Longrightarrow> read_ok capacity h db rd \<Longrightarrow> read_ok capacity h' db' rd"
  by (simp add: read_ok_def extends_def)

text \<open>
  A step keeps the invariant; what was past is unchanged, and what is new was active before it or is
  active after it.
\<close>

definition versions_step :: "nat \<Rightarrow> history \<Rightarrow> context_world \<Rightarrow> context_world \<Rightarrow> bool" where
  "versions_step capacity h w w' \<longleftrightarrow> (\<exists>h'. versions_ok capacity h' w' \<and>
     extends (cw_db w) h (cw_db w') h' \<and> grows (cw_db w) (cw_db w') h')"

lemma transition_inv:
  assumes "db_transition (cw_db w) refreshes db'" "versions_ok capacity h w"
  shows "versions_step capacity h w (w\<lparr>cw_db := db', cw_refreshes := refreshes @ cw_refreshes w\<rparr>)"
proof -
  from assms(2) have ok: "context_db_ok (cw_db w)" and h: "history_ok h (cw_db w)"
      "cache_ok capacity h (cw_db w) (cw_cache w)" "\<forall>qr\<in>set (cw_refreshes w). refresh_ok h (cw_db w) qr"
      "\<forall>rd\<in>set (cw_reads w). read_ok capacity h (cw_db w) rd" by (auto simp: versions_ok_def)
  from assms(1) ok h(1) obtain h' where h': "context_db_ok db'" "history_ok h' db'" "extends (cw_db w) h db' h'"
    "\<forall>qr\<in>set refreshes. refresh_ok h' db' qr" "grows (cw_db w) db' h'" by (auto simp: db_transition_def)
  note ext = extends_cache [OF h'(3) h(2)] extends_refresh [OF h'(3)] extends_read [OF h'(3)]
  show ?thesis
    unfolding versions_step_def versions_ok_def using h' h ext by (auto intro!: exI [of _ h'])
qed

lemma same_context_inv:
  assumes "same_context (cw_db w) db'" "versions_ok capacity h w"
  shows "versions_step capacity h w (w\<lparr>cw_db := db'\<rparr>)"
  using transition_inv [OF same_context_transition [OF assms(1)] assms(2)] by simp

lemma cache_ok_update:
  assumes "cache_ok capacity h db cache"
    and "slot_ok capacity h db cid q"
  shows "cache_ok capacity h db (cache((conv, cid) := q))"
  using assms by (simp add: cache_ok_def)

lemma versions_same:
  "cw_db w' = cw_db w \<Longrightarrow> versions_ok capacity h w' \<Longrightarrow> versions_step capacity h w w'"
  by (auto simp: versions_step_def grows_def history_extends_refl)

lemma cache_inv:
  assumes "versions_ok capacity h w" "cache_ok capacity h (cw_db w) cache'"
  shows "versions_step capacity h w (w\<lparr>cw_cache := cache'\<rparr>)"
  using assms by (intro versions_same) (simp_all add: versions_ok_def)

lemma refresh_version:
  "refresh_queue capacity qr q = Some q' \<Longrightarrow>
     cq_version q = Some (qr_expected_previous_version qr) \<or> cq_version q = None"
  by (auto simp: refresh_queue_def split: if_splits option.splits)

lemma refresh_inv:
  assumes ok: "versions_ok capacity h w" and qr: "qr \<in> set (cw_refreshes w)"
    and step: "refresh_queue capacity qr (cw_cache w (qr_conversation_id qr, qr_chain_id qr)) = Some q'"
  shows "versions_step capacity h w (w\<lparr>cw_cache := (cw_cache w)((qr_conversation_id qr, qr_chain_id qr) := q')\<rparr>)"
proof (rule cache_inv [OF ok])
  have h: "cache_ok capacity h (cw_db w) (cw_cache w)" "\<forall>qr\<in>set (cw_refreshes w). refresh_ok h (cw_db w) qr"
    using ok by (auto simp: versions_ok_def)
  let ?cid = "qr_chain_id qr" and ?v = "qr_expected_previous_version qr"
  let ?q = "cw_cache w (qr_conversation_id qr, ?cid)"
  note R = h(2) [rule_format, OF qr, unfolded refresh_ok_def]
  have q: "slot_ok capacity h (cw_db w) ?cid ?q" using h(1) by (simp add: cache_ok_def)
  define slot where "slot = ?q"
  have "distinct (cq_keys slot) \<and>
     (\<forall>k\<in>set (cq_keys slot). map_of (cq_data slot) k \<noteq> None \<and> map_of (cq_data slot) k = h ?cid ?v k) \<and>
     dom (map_of (cq_data slot)) \<subseteq> set (cq_keys slot)"
  proof (cases "cq_version slot")
    case None
    then show ?thesis using q by (simp add: slot_def slot_ok_def no_queue_def)
  next
    case (Some v)
    then have "v = ?v" using refresh_version [OF step] by (simp add: slot_def)
    then have "queue_ok capacity (h ?cid ?v) slot" using q Some by (simp add: slot_def slot_ok_def)
    then show ?thesis unfolding queue_ok_def by blast
  qed
  then have "distinct (cq_keys slot)"
    "\<forall>k\<in>set (cq_keys slot). map_of (cq_data slot) k \<noteq> None \<and> map_of (cq_data slot) k = h ?cid ?v k"
    "dom (map_of (cq_data slot)) \<subseteq> set (cq_keys slot)" by blast+
  from refresh_queue_ok [OF step [folded slot_def] this] R
  show "cache_ok capacity h (cw_db w) ((cw_cache w)((qr_conversation_id qr, ?cid) := q'))"
    by (intro cache_ok_update [OF h(1)]) (simp add: slot_ok_def)
qed

lemma versions_ok_step:
  assumes "context_step capacity w w'" "versions_ok capacity h w"
  shows "versions_step capacity h w w'"
  using assms(1)
proof (cases rule: context_step.cases)
  case (open_turn now tid conv message cands db)
  then show ?thesis using same_context_inv [OF open_turn_same] assms(2) by blast
next
  case (select now hex tid conv d db)
  then show ?thesis using same_context_inv [OF persist_same] assms(2) by blast
next
  case (fail_turn tid)
  then show ?thesis using same_context_inv [OF mark_failed_same] assms(2) by blast
next
  case (complete now u tid conv command r refreshes db)
  then show ?thesis using transition_inv [OF complete_transition] assms(2) by blast
next
  case (refresh qr key q)
  then show ?thesis using refresh_inv [OF assms(2)] by blast
next
  case (invalidate key)
  have "cache_ok capacity h (cw_db w) (cw_cache w)" using assms(2) by (simp add: versions_ok_def)
  then have "cache_ok capacity h (cw_db w) ((cw_cache w)((fst key, snd key) := no_queue))"
    by (rule cache_ok_update) (simp add: no_queue_def slot_ok_def)
  from cache_inv [OF assms(2) this] show ?thesis by (simp add: invalidate)
next
  case (warm_load conv cid version rs)
  have h: "rows_ok (cw_db w)" "history_ok h (cw_db w)"
    using assms(2) by (auto simp: versions_ok_def context_db_ok_def)
  from warmup_ok [OF warm_load(2) h(1)] h(2)
  have "read_ok capacity h (cw_db w) \<lparr>wr_conversation_id = conv, wr_chain_id = cid, wr_version = version, wr_resources = rs\<rparr>"
    by (auto simp: read_ok_def past_def history_ok_def)
  then show ?thesis using assms(2) by (intro versions_same) (auto simp: warm_load(1) versions_ok_def)
next
  case (warm_write rd)
  have h: "cache_ok capacity h (cw_db w) (cw_cache w)" "\<forall>rd\<in>set (cw_reads w). read_ok capacity h (cw_db w) rd"
    using assms(2) by (auto simp: versions_ok_def)
  note R = h(2) [rule_format, OF warm_write(2), unfolded read_ok_def]
  have "cache_ok capacity h (cw_db w) ((cw_cache w)((wr_conversation_id rd, wr_chain_id rd) :=
      replace_queue capacity (wr_resources rd) (wr_version rd)))"
    using replace_queue_ok [of "wr_resources rd" "h (wr_chain_id rd) (wr_version rd)" capacity "wr_version rd"] R
    by (intro cache_ok_update [OF h(1)]) (simp add: slot_ok_def)
  then show ?thesis unfolding warm_write(1) by (rule cache_inv [OF assms(2)])
next
  case (other c)
  then show ?thesis using same_context_inv [OF set_core_same] assms(2) by blast
qed

lemma context_step_inv: "context_step capacity w w' \<Longrightarrow> context_inv capacity w \<Longrightarrow> context_inv capacity w'"
  using versions_ok_step unfolding context_inv_def versions_step_def by blast

section \<open>Runs\<close>

text \<open>The empty cache over a well formed database.\<close>

definition start_world :: "context_db \<Rightarrow> context_world" where
  "start_world db = \<lparr>cw_db = db, cw_cache = (\<lambda>_. no_queue), cw_refreshes = [], cw_reads = []\<rparr>"

lemma start_inv: "context_db_ok db \<Longrightarrow> versions_ok capacity (\<lambda>cid v. active_refs cid db) (start_world db)"
  by (simp add: versions_ok_def start_world_def cache_ok_def slot_ok_def no_queue_def history_ok_def)

lemma reachable_trans:
  "context_reachable capacity w1 w2 \<Longrightarrow> context_reachable capacity w0 w1 \<Longrightarrow> context_reachable capacity w0 w2"
  by (induction rule: context_reachable.induct) (auto intro: context_reachable.more)

lemma reachable_step: "context_step capacity w w' \<Longrightarrow> context_reachable capacity w w'"
  by (blast intro: context_reachable.start context_reachable.more)

text \<open>\<open>w\<close> is a state on the way from the start to \<open>w'\<close>.\<close>

definition earlier :: "nat \<Rightarrow> context_world \<Rightarrow> context_world \<Rightarrow> context_world \<Rightarrow> bool" where
  "earlier capacity w0 w w' \<longleftrightarrow> context_reachable capacity w0 w \<and> context_reachable capacity w w'"

text \<open>The versions of a run from \<open>w0\<close>, each of which was active in a state on the way.\<close>

definition run_versions :: "nat \<Rightarrow> context_world \<Rightarrow> history \<Rightarrow> context_world \<Rightarrow> bool" where
  "run_versions capacity w0 h w \<longleftrightarrow> versions_ok capacity h w \<and>
     (\<forall>cid v. past (cw_db w) cid v \<longrightarrow> (\<exists>x. earlier capacity w0 x w \<and> h cid v = active_refs cid (cw_db x)))"

lemma run_versions_step:
  assumes step: "context_step capacity w w'" and reach: "context_reachable capacity w0 w"
    and h: "run_versions capacity w0 h w"
  obtains h' where "run_versions capacity w0 h' w'" "extends (cw_db w) h (cw_db w') h'"
proof -
  have "versions_ok capacity h w" using h by (simp add: run_versions_def)
  from versions_ok_step [OF step this] obtain h' where h': "versions_ok capacity h' w'"
    "extends (cw_db w) h (cw_db w') h'" "grows (cw_db w) (cw_db w') h'"
    unfolding versions_step_def by blast
  have w: "earlier capacity w0 w w'" "earlier capacity w0 w' w'"
    using reach step by (auto simp: earlier_def intro: context_reachable.intros reachable_step)
  have old: "earlier capacity w0 x w'" if "earlier capacity w0 x w" for x
    using that step by (auto simp: earlier_def intro: context_reachable.more)
  have "\<exists>x. earlier capacity w0 x w' \<and> h' cid v = active_refs cid (cw_db x)" if "past (cw_db w') cid v" for cid v
  proof (cases "past (cw_db w) cid v")
    case True
    then obtain x where "earlier capacity w0 x w" "h cid v = active_refs cid (cw_db x)"
      using h unfolding run_versions_def by blast
    moreover have "h' cid v = h cid v" using True h'(2) by (simp add: extends_def)
    ultimately show ?thesis using old [of x] by auto
  next
    case False
    then show ?thesis using that h'(3) w by (auto simp: grows_def)
  qed
  then have "run_versions capacity w0 h' w'" using h'(1) by (simp add: run_versions_def)
  then show thesis using that h'(2) by blast
qed

lemma run_versions_reachable:
  assumes "context_reachable capacity w w'" "context_reachable capacity w0 w" "run_versions capacity w0 h w"
  shows "\<exists>h'. run_versions capacity w0 h' w' \<and> extends (cw_db w) h (cw_db w') h'"
  using assms(1)
proof (induction rule: context_reachable.induct)
  case start
  then show ?case using assms(3) history_extends_refl by blast
next
  case (more x y)
  then obtain h' where h': "run_versions capacity w0 h' x" "extends (cw_db w) h (cw_db x) h'" by blast
  have "context_reachable capacity w0 x" using more(1) assms(2) reachable_trans by blast
  from run_versions_step [OF more(2) this h'(1)] show ?case using h'(2) history_extends_trans by metis
qed

lemma start_versions:
  assumes "context_db_ok db"
  shows "run_versions capacity (start_world db) (\<lambda>cid v. active_refs cid db) (start_world db)"
proof -
  have "earlier capacity (start_world db) (start_world db) (start_world db)"
    by (simp add: earlier_def context_reachable.start)
  moreover have "cw_db (start_world db) = db" by (simp add: start_world_def)
  ultimately show ?thesis unfolding run_versions_def using start_inv [OF assms] by metis
qed

lemma run_versions_from:
  assumes "context_reachable capacity (start_world db) w" "context_db_ok db"
  obtains h where "run_versions capacity (start_world db) h w"
  using run_versions_reachable [OF assms(1) context_reachable.start start_versions [OF assms(2)]] by blast

lemma context_reachable_inv:
  "context_reachable capacity (start_world db) w \<Longrightarrow> context_db_ok db \<Longrightarrow> context_inv capacity w"
  by (metis run_versions_from run_versions_def context_inv_def)

section \<open>A message\<close>

lemma check_selected_rows_Inr: "check_selected_rows conv db is = Inr () \<longleftrightarrow>
   (\<forall>i\<in>set is. \<exists>c. get_chain i db = Some c \<and> ch_conversation_id c = conv \<and> \<not> ch_archived c)"
  by (induction "is") (auto split: option.splits)

lemma check_selected_Inr:
  "check_selected cands is = Inr () \<Longrightarrow> \<forall>i\<in>set is. \<exists>c. find (\<lambda>c. cx_id c = i) cands = Some c"
  by (induction cands "is" rule: check_selected.induct) (auto split: option.splits if_splits)

lemma validate_selection_Inr:
  assumes "validate_context_selection d cands conv = Inr d'"
  shows "distinct (sd_relevant_chain_ids d') \<and> set (sd_relevant_chain_ids d') = set (sd_relevant_chain_ids d) \<and>
    map cx_id (List.map_filter (\<lambda>i. find (\<lambda>c. cx_id c = i) cands) (sd_relevant_chain_ids d')) =
      sd_relevant_chain_ids d'"
proof -
  have ids: "sd_relevant_chain_ids d' = dedup (sd_relevant_chain_ids d)"
    "check_selected cands (dedup (sd_relevant_chain_ids d)) = Inr ()"
    using assms by (auto simp: validate_context_selection_def Let_def bind_eq_Inr)
  have "map cx_id (List.map_filter (\<lambda>i. find (\<lambda>c. cx_id c = i) cands) is) = is"
    if "\<forall>i\<in>set is. \<exists>c. find (\<lambda>c. cx_id c = i) cands = Some c" for "is"
    using that by (induction "is") (auto simp: map_filter_def dest: find_SomeD)
  then show ?thesis using ids check_selected_Inr by simp
qed

lemma persist_effect:
  assumes "persist_context_selection now hex tid conv d db = Inr db'"
  shows "\<exists>s t. get_selection_record tid db' = Some s \<and>
    sl_relevant_chain_ids s = sd_relevant_chain_ids d \<and> sl_conversation_id s = conv \<and>
    sl_mode s = derive_context_selection_mode (sd_relevant_chain_ids d) \<and> get_turn tid db = Some t \<and>
    get_turn tid db' = Some (t\<lparr>tn_status := CONTEXT_READY\<rparr>) \<and>
    (\<forall>i\<in>set (sd_relevant_chain_ids d).
       \<exists>c. get_chain i db' = Some c \<and> ch_conversation_id c = conv \<and> \<not> ch_archived c)"
proof -
  define s where "s = \<lparr>sl_id = new_id ''selection'' hex, sl_conversation_id = conv, sl_turn_id = tid,
    sl_relevant_chain_ids = sd_relevant_chain_ids d,
    sl_mode = derive_context_selection_mode (sd_relevant_chain_ids d),
    sl_reason_summary = sd_reason_summary d, sl_created_at = now\<rparr>"
  obtain t where t: "get_turn tid db = Some t"
    and rows: "check_selected_rows conv db (sd_relevant_chain_ids d) = Inr ()"
    and fresh: "\<forall>x\<in>set (selections db). sl_turn_id x \<noteq> tid"
    and db': "db' = save_turn (turn_set_status t CONTEXT_READY) (db\<lparr>selections := selections db @ [s]\<rparr>)"
    using assms by (auto simp: persist_context_selection_def create_selection_record_def bind_eq_Inr
        add_row_Inr s_def split: option.splits if_splits)
  have id: "tn_id t = tid" using context_turn_repo.fetch_key [OF t] .
  have get: "get_turn x (db\<lparr>selections := selections db @ [s]\<rparr>) = get_turn x db" for x by (simp add: get_turn_def)
  have "get_row sl_turn_id tid (selections db) = None" using fresh by (auto simp: get_row_None_iff)
  then have "get_selection_record tid db' = Some s"
    by (simp add: db' get_selection_record_def context_simps table_simps) (simp add: s_def)
  moreover have "get_turn tid db' = Some (t\<lparr>tn_status := CONTEXT_READY\<rparr>)"
    using t id by (simp add: db' save_turn_get get turn_set_status_def)
  moreover have "get_chain i db' = get_chain i db" for i by (simp add: db' get_chain_def context_simps)
  ultimately show ?thesis using rows t unfolding check_selected_rows_Inr
    by (intro exI [of _ s] exI [of _ t]) (simp add: s_def)
qed

lemma create_turn_effect:
  assumes "create_turn_and_load_chains now capacity tid conv message db = Inr (cands, db')"
  shows "get_turn tid db' = Some (new_turn now tid conv message) \<and> selections db' = selections db"
proof -
  let ?t = "new_turn now tid conv message"
  have db': "db' = db\<lparr>core := (core db)\<lparr>turns := turns (core db) @ [?t]\<rparr>\<rparr>" "get_turn (tn_id ?t) db = None"
    using assms by (auto simp: create_turn_and_load_chains_def bind_eq_Inr context_simps)
  have "tn_id ?t = tid" by (simp add: new_turn_def)
  then show ?thesis using db'(2)
    by (auto simp: db'(1) get_turn_def turn_get_by_id_def table_simps split: option.splits)
qed

section \<open>Only the lock is unavailable\<close>

lemma create_turn_errors:
  assumes "create_turn_and_load_chains now capacity tid conv message db = Inl e"
  shows "\<not> is_lock_unavailable e"
proof -
  have turns: "nodes_with_turns d ns = Inl e \<Longrightarrow> \<not> is_lock_unavailable e" for d ns e
    by (induction ns) (auto simp: bind_def of_option_def is_lock_unavailable_def split: sum.splits option.splits)
  have chains: "build_context_chains d q cs = Inl e \<Longrightarrow> \<not> is_lock_unavailable e" for d q cs e
    by (induction cs) (auto simp: bind_def build_context_chain_def dest: turns split: sum.splits)
  show ?thesis
    using assms chains
    by (auto simp: create_turn_and_load_chains_def create_turn_def bind_def add_row_def is_lock_unavailable_def
        split: sum.splits list.splits)
qed

lemma with_queues_errors:
  "with_queues up capacity conv i cs db cache = (Inl e, cache') \<Longrightarrow> \<not> is_lock_unavailable e"
proof (induction cs arbitrary: i cache cache')
  case (Cons c cs)
  then show ?case
    by (auto simp: get_queue_def load_resources_for_warmup_def bind_def is_lock_unavailable_def
        split: sum.splits prod.splits option.splits if_splits)
qed simp

lemma check_rows_errors: "check_selected_rows conv db is = Inl e \<Longrightarrow> \<not> is_lock_unavailable e"
  by (induction "is") (auto simp: is_lock_unavailable_def split: option.splits if_splits)

lemma persist_errors:
  "persist_context_selection now hex tid conv d db = Inl e \<Longrightarrow> \<not> is_lock_unavailable e"
  by (auto simp: persist_context_selection_def create_selection_record_def bind_def add_row_def is_lock_unavailable_def
      dest: check_rows_errors split: option.splits sum.splits list.splits if_splits)

lemma select_context_errors:
  assumes "select_context route up capacity now u conv message s = (Inl e, s')"
  shows "\<not> is_lock_unavailable e"
proof -
  have "\<not> is_lock_unavailable (context_routing m)" for m
    by (simp add: is_lock_unavailable_def context_routing_def)
  then show ?thesis using assms
    by (auto simp: select_context_def Let_def bind_def dest: create_turn_errors with_queues_errors persist_errors
        split: prod.splits sum.splits)
qed

end
