(* ===== verification/Context_Run.thy ===== *)
theory Context_Run
  imports Context_Invariant
begin

text \<open>
  An executable scheduler of the context service: each action is tried and leaves the world as it
  is when it is not possible; what it computes is a run.
\<close>

datatype context_action =
    Open time ident ident string
  | Select time string ident ident selection_decision
  | Complete time uuids ident ident complete_turn_command
  | Refresh nat
  | Warm_load ident ident int
  | Warm_write nat

fun perform_context :: "nat \<Rightarrow> context_action \<Rightarrow> context_world \<Rightarrow> context_world" where
  "perform_context capacity (Open now tid conv message) w =
     (case create_turn_and_load_chains now capacity tid conv message (cw_db w) of
        Inl e \<Rightarrow> w | Inr (cands, db) \<Rightarrow> w\<lparr>cw_db := db\<rparr>)"
| "perform_context capacity (Select now hex tid conv d) w =
     (case persist_context_selection now hex tid conv d (cw_db w) of
        Inl e \<Rightarrow> w | Inr db \<Rightarrow> w\<lparr>cw_db := db\<rparr>)"
| "perform_context capacity (Complete now u tid conv command) w =
     (case complete_turn_in_transaction now u tid conv command (cw_db w) of
        Inl e \<Rightarrow> w
      | Inr ((r, refreshes), db) \<Rightarrow> w\<lparr>cw_db := db, cw_refreshes := refreshes @ cw_refreshes w\<rparr>)"
| "perform_context capacity (Refresh i) w =
     (if i < length (cw_refreshes w)
      then let qr = cw_refreshes w ! i; key = (qr_conversation_id qr, qr_chain_id qr) in
        (case refresh_queue capacity qr (cw_cache w key) of
           None \<Rightarrow> w | Some q \<Rightarrow> w\<lparr>cw_cache := (cw_cache w)(key := q)\<rparr>)
      else w)"
| "perform_context capacity (Warm_load conv cid version) w =
     (case load_resources_for_warmup capacity conv cid version (cw_db w) of
        Inl e \<Rightarrow> w
      | Inr rs \<Rightarrow> w\<lparr>cw_reads := \<lparr>wr_conversation_id = conv, wr_chain_id = cid,
          wr_version = version, wr_resources = rs\<rparr> # cw_reads w\<rparr>)"
| "perform_context capacity (Warm_write i) w =
     (if i < length (cw_reads w)
      then let rd = cw_reads w ! i in
        w\<lparr>cw_cache := (cw_cache w)((wr_conversation_id rd, wr_chain_id rd) :=
          replace_queue capacity (wr_resources rd) (wr_version rd))\<rparr>
      else w)"

definition perform_context_all :: "nat \<Rightarrow> context_action list \<Rightarrow> context_world \<Rightarrow> context_world" where
  "perform_context_all capacity actions w = fold (perform_context capacity) actions w"

lemma perform_context_step:
  "perform_context capacity a w = w \<or> context_step capacity w (perform_context capacity a w)"
proof (cases a)
  case (Refresh i)
  then show ?thesis
    using context_step.refresh [of "cw_refreshes w ! i" w _ capacity]
    by (auto simp: Let_def split: option.splits)
qed (auto simp: Let_def intro: context_step.intros split: sum.splits)

lemma perform_context_reachable:
  "context_reachable capacity w0 w \<Longrightarrow> context_reachable capacity w0 (perform_context_all capacity actions w)"
proof (induction actions arbitrary: w)
  case (Cons a actions)
  have "context_reachable capacity w0 (perform_context capacity a w)"
    using Cons(2) perform_context_step [of capacity a w] context_reachable.more by metis
  then show ?case using Cons(1) by (simp add: perform_context_all_def)
qed (simp add: perform_context_all_def)

end
