(* ===== verification/Context_Properties.thy ===== *)
theory Context_Properties
  imports Context_Run
begin

text \<open>
  The properties of the conversation context, with runs that show their hypotheses can hold.
\<close>

section \<open>A run\<close>

text \<open>
  Two turns of one conversation: the first is attributed to a new chain and leaves it two
  resources, the second sees one of them again, removes the other and reports a third.  The first
  refresh of the cache is lost; a warm-up that read the first version writes the cache after the
  second turn, whose refresh then finds the version it expects.
\<close>

definition demo_hex :: uuids where
  "demo_hex n = replicate (Suc n) (CHR ''a'')"

definition demo_hex2 :: uuids where
  "demo_hex2 n = replicate (Suc n) (CHR ''b'')"

definition demo_resource :: "string \<Rightarrow> string \<Rightarrow> resource_input" where
  "demo_resource i summary = \<lparr>ri_type = ''document'', ri_id = i, ri_relation = Some ''read'', ri_summary = Some summary\<rparr>"

definition demo_command :: "attribution \<Rightarrow> chain_turn_update list \<Rightarrow> complete_turn_command" where
  "demo_command a ups = \<lparr>ct_assistant_content = Some ''done'', ct_assistant_compact = None,
     ct_task_ids = [''k1''], ct_task_result_summary = None, ct_attribution = a, ct_chain_updates = ups\<rparr>"

definition demo_first :: complete_turn_command where
  "demo_first = demo_command
     \<lparr>at_existing_chain_ids = [], at_create_new_chain = True, at_new_chain_id = Some ''chain1''\<rparr>
     [\<lparr>cu_chain_id = ''chain1'', cu_related_task_ids = [''k1''],
       cu_related_resources = [demo_resource ''1'' ''first'', demo_resource ''2'' ''second''],
       cu_removed_resource_keys = []\<rparr>]"

definition demo_second :: complete_turn_command where
  "demo_second = demo_command
     \<lparr>at_existing_chain_ids = [''chain1''], at_create_new_chain = False, at_new_chain_id = None\<rparr>
     [\<lparr>cu_chain_id = ''chain1'', cu_related_task_ids = [],
       cu_related_resources = [demo_resource ''2'' ''again'', demo_resource ''3'' ''third''],
       cu_removed_resource_keys = [''document:1'']\<rparr>]"

definition demo_core :: db where
  "demo_core = \<lparr>plans = [], tasks = [], task_dependencies = [], task_executions = [], outbox = [], inbox = [],
     clarifications = [], turns = []\<rparr>"

definition demo_start :: context_db where
  "demo_start = \<lparr>core = demo_core, chains = [], chain_nodes = [], chain_resources = [],
     resource_events = [], selections = [], next_resource_id = 1\<rparr>"

definition demo_decision :: "ident list \<Rightarrow> selection_decision" where
  "demo_decision ids = \<lparr>sd_relevant_chain_ids = ids, sd_reason_summary = ''because''\<rparr>"

definition demo_actions :: "context_action list" where
  "demo_actions =
     [Open 1 ''t1'' ''conv1'' ''hello'', Select 2 ''s1'' ''t1'' ''conv1'' (demo_decision []),
      Complete 3 demo_hex ''t1'' ''conv1'' demo_first, Warm_load ''conv1'' ''chain1'' 1,
      Open 4 ''t2'' ''conv1'' ''more'', Select 5 ''s2'' ''t2'' ''conv1'' (demo_decision [''chain1'']),
      Complete 6 demo_hex2 ''t2'' ''conv1'' demo_second, Warm_write 0, Refresh 0]"

definition demo_before :: context_world where
  "demo_before = perform_context_all 2 (take 6 demo_actions) (start_world demo_start)"

definition demo_world :: context_world where
  "demo_world = perform_context_all 2 demo_actions (start_world demo_start)"

lemma demo_start_ok: "context_db_ok demo_start"
  by (simp add: context_db_ok_def rows_ok_def numbered_def replay_ok_def attributed_def demo_start_def demo_core_def
      replayed_def get_chain_resource_def turn_view_def get_turn_def turn_get_by_id_def table_simps)

lemma demo_context_reachable: "context_reachable 2 (start_world demo_start) demo_world"
  "context_reachable 2 (start_world demo_start) demo_before"
  by (simp_all add: demo_world_def demo_before_def perform_context_reachable context_reachable.start)

lemma demo_before_ok: "context_db_ok (cw_db demo_before)"
  using context_inv_db [OF context_reachable_inv [OF demo_context_reachable(2) demo_start_ok]] .

section \<open>Properties\<close>

text \<open>What a cached queue of a run holds was active in a state on the way.\<close>

lemma cached_active:
  assumes ok: "run_versions capacity w0 h w" and hit: "map_of (cq_data (cw_cache w (conv, cid))) k = Some r"
  shows "(\<exists>x. earlier capacity w0 x w \<and> active_refs cid (cw_db x) k = Some r) \<and>
    (\<exists>v. cq_version (cw_cache w (conv, cid)) = Some v \<and> past (cw_db w) cid v \<and> h cid v k = Some r)"
proof -
  let ?q = "cw_cache w (conv, cid)"
  have slot: "slot_ok capacity h (cw_db w) cid ?q"
    using ok by (auto simp: run_versions_def versions_ok_def cache_ok_def)
  then obtain v where v: "cq_version ?q = Some v" "past (cw_db w) cid v" "queue_ok capacity (h cid v) ?q"
    using hit by (auto simp: slot_ok_def no_queue_def split: option.splits)
  have "k \<in> dom (map_of (cq_data ?q))" using hit by blast
  then have "h cid v k = Some r" using v(3) hit by (auto simp: queue_ok_def)
  moreover obtain x where "earlier capacity w0 x w" "h cid v = active_refs cid (cw_db x)"
    using ok v(2) by (auto simp: run_versions_def)
  ultimately show ?thesis using v by metis
qed

text \<open> C28: What a reader gets from the hot queue.  Messages, completions, refreshes of the cache that
  arrive late, twice or never, and warm-ups that write what they read long ago run before get_queue
  and between its requests: ws 0, ws 1 and ws 2 are the states in which the version, the list and the
  hash are read, ws 3 the state in which the database is read after a miss.  In every such run the
  answer is at most the capacity of distinct resources, and each of them was active in the chain,
  exactly as it is shown, in a state on the way to ws 3.  All of them are active in the chain in
  ws 3, with the data shown, when the answer comes from the database, and when it comes from
  the cache, the version asked for is the chain's in ws 3 and the tag that the first request
  found is still there when the hash is read.  (Without that they need not be: see the torn read
  below.)\<close>

theorem context_queue_sound:
  assumes "context_reachable capacity (start_world db0) (ws 0)" "context_db_ok db0"
    and "context_reachable capacity (ws 0) (ws 1)" "context_reachable capacity (ws 1) (ws 2)"
    and "context_reachable capacity (ws 2) (ws 3)"
    and "get_queue up (\<lambda>i. cw_cache (ws i)) capacity conv cid version (cw_db (ws 3)) cache = Inr (q, cache')"
  shows "distinct (map rr_key (rq_items q)) \<and> length (rq_items q) \<le> capacity \<and>
    (\<forall>r\<in>set (rq_items q). \<exists>w. earlier capacity (start_world db0) w (ws 3) \<and>
       active_refs cid (cw_db w) (rr_key r) = Some r) \<and>
    (read_queue up (\<lambda>i. cw_cache (ws i)) capacity conv cid version = None \<or>
     version_of cid (cw_db (ws 3)) = Some version \<and>
     cq_version (cw_cache (ws 2) (conv, cid)) = cq_version (cw_cache (ws 0) (conv, cid)) \<longrightarrow>
       (\<forall>r\<in>set (rq_items q). active_refs cid (cw_db (ws 3)) (rr_key r) = Some r))"
proof -
  let ?w0 = "start_world db0"
  have r1: "context_reachable capacity ?w0 (ws 1)" using assms(1,3) reachable_trans by blast
  then have r2: "context_reachable capacity ?w0 (ws 2)" using assms(4) reachable_trans by blast
  then have r3: "context_reachable capacity ?w0 (ws 3)" using assms(5) reachable_trans by blast
  from run_versions_from [OF r2 assms(2)] obtain h where h: "run_versions capacity ?w0 h (ws 2)" .
  from run_versions_reachable [OF assms(5) r2 h] obtain h3 where
    h3: "run_versions capacity ?w0 h3 (ws 3)" "extends (cw_db (ws 2)) h (cw_db (ws 3)) h3" by blast
  show ?thesis
  proof (cases "read_queue up (\<lambda>i. cw_cache (ws i)) capacity conv cid version")
    case None
    then obtain rs where rs: "load_resources_for_warmup capacity conv cid version (cw_db (ws 3)) = Inr rs"
      "rq_items q = rs" using assms(6) by (auto simp: get_queue_def bind_eq_Inr)
    have "rows_ok (cw_db (ws 3))" using h3(1) by (simp add: run_versions_def versions_ok_def context_db_ok_def)
    note W = warmup_ok [OF rs(1) this]
    have "earlier capacity ?w0 (ws 3) (ws 3)" using r3 by (simp add: earlier_def context_reachable.start)
    then show ?thesis using W rs(2) by auto
  next
    case (Some cached)
    then have "q = cached" using assms(6) by (simp add: get_queue_def)
    then have "get_cached capacity version (cw_cache (ws 0) (conv, cid)) (cw_cache (ws 1) (conv, cid))
        (cw_cache (ws 2) (conv, cid)) = Some q"
      using Some by (simp add: read_queue_def split: if_splits)
    note C = get_cached_ok [OF this]
    from run_versions_from [OF r1 assms(2)] obtain h1 where "run_versions capacity ?w0 h1 (ws 1)" .
    then have "slot_ok capacity h1 (cw_db (ws 1)) cid (cw_cache (ws 1) (conv, cid))"
      by (simp add: run_versions_def versions_ok_def cache_ok_def)
    then have "distinct (cq_keys (cw_cache (ws 1) (conv, cid)))"
      by (auto simp: slot_ok_def queue_ok_def no_queue_def split: option.splits)
    moreover have hit: "map_of (cq_data (cw_cache (ws 2) (conv, cid))) (rr_key r) = Some r"
      if "r \<in> set (rq_items q)" for r using C that by blast
    have "\<exists>w. earlier capacity ?w0 w (ws 3) \<and> active_refs cid (cw_db w) (rr_key r) = Some r"
      if "r \<in> set (rq_items q)" for r
    proof -
      obtain x where "earlier capacity ?w0 x (ws 2)" "active_refs cid (cw_db x) (rr_key r) = Some r"
        using cached_active [OF h hit [OF \<open>r \<in> set (rq_items q)\<close>]] by blast
      then show ?thesis using assms(5) reachable_trans unfolding earlier_def by blast
    qed
    moreover have "active_refs cid (cw_db (ws 3)) (rr_key r) = Some r"
      if "r \<in> set (rq_items q)" "version_of cid (cw_db (ws 3)) = Some version"
        "cq_version (cw_cache (ws 2) (conv, cid)) = cq_version (cw_cache (ws 0) (conv, cid))" for r
    proof -
      have "past (cw_db (ws 2)) cid version" "h cid version (rr_key r) = Some r"
        using cached_active [OF h hit [OF that(1)], THEN conjunct2] that(3) C by simp_all
      then have "h3 cid version (rr_key r) = Some r" using h3(2) by (simp add: extends_def)
      moreover have "h3 cid version = active_refs cid (cw_db (ws 3))"
        using h3(1) that(2) by (auto simp: run_versions_def versions_ok_def history_ok_def)
      ultimately show ?thesis by simp
    qed
    ultimately show ?thesis using C unfolding Some by (intro conjI) (simp, blast+)
  qed
qed

lemma demo_queue:
  "case get_queue (\<lambda>_. True) (\<lambda>_. cw_cache demo_world) 2 ''conv1'' ''chain1'' 2 (cw_db demo_world) (cw_cache demo_world) of
     Inr (q, _) \<Rightarrow> map rr_id (rq_items q) = [''2'', ''3''] | Inl _ \<Rightarrow> False"
  "version_of ''chain1'' (cw_db demo_world) = Some 2" "cq_version (cw_cache demo_world (''conv1'', ''chain1'')) = Some 2"
  by code_simp+

theorem context_queue_sound_witness:
  "\<exists>q cache'. get_queue (\<lambda>_. True) (\<lambda>_. cw_cache demo_world) 2 ''conv1'' ''chain1'' 2 (cw_db demo_world)
       (cw_cache demo_world) = Inr (q, cache') \<and>
     map rr_id (rq_items q) = [''2'', ''3''] \<and>
     (\<forall>r\<in>set (rq_items q). active_refs ''chain1'' (cw_db demo_world) (rr_key r) = Some r)"
proof -
  from demo_queue(1) obtain q cache' where q: "get_queue (\<lambda>_. True) (\<lambda>_. cw_cache demo_world) 2 ''conv1'' ''chain1'' 2
      (cw_db demo_world) (cw_cache demo_world) = Inr (q, cache')" "map rr_id (rq_items q) = [''2'', ''3'']"
    by (auto split: sum.splits)
  have "\<forall>r\<in>set (rq_items q). active_refs ''chain1'' (cw_db demo_world) (rr_key r) = Some r"
    using context_queue_sound [of 2 demo_start "\<lambda>_. demo_world", OF demo_context_reachable(1) demo_start_ok
        context_reachable.start context_reachable.start context_reachable.start q(1)] demo_queue(2,3) by blast
  with q show ?thesis by (intro exI conjI)
qed

text \<open>
  A torn read.  The reader finds the current version 2; then a warm-up that read version 1 writes
  the cache, outside the lock of the conversation as the planner's does; the list and the hash the
  reader goes on to read are those of version 1, and the answer shows a resource that is removed.
\<close>

definition torn_world :: context_world where
  "torn_world = perform_context_all 2 [Warm_write 0] demo_world"

lemma torn_read:
  "context_reachable 2 demo_world torn_world" "version_of ''chain1'' (cw_db torn_world) = Some 2"
  "case get_queue (\<lambda>_. True) (\<lambda>i. cw_cache (if i = 0 then demo_world else torn_world)) 2 ''conv1'' ''chain1'' 2
      (cw_db torn_world) (cw_cache torn_world) of
     Inr (q, _) \<Rightarrow> map rr_id (rq_items q) = [''1'', ''2''] | Inl _ \<Rightarrow> False"
  "active_refs ''chain1'' (cw_db torn_world) ''document:1'' = None"
  subgoal by (simp add: torn_world_def perform_context_reachable context_reachable.start)
  by code_simp+

text \<open> C29: The current state of the resources and their event log agree: in every state the service
  leads to, a chain has one row per resource, and its row is what replaying the events of the
  resource, one after the other, gives: the last description seen, the turn and time it was last
  seen, how often it was seen, and whether it has been removed since.\<close>

theorem resource_log_replays:
  assumes "context_reachable capacity (start_world db0) w" "context_db_ok db0"
  shows "distinct (map resource_key (chain_resources (cw_db w))) \<and>
    (\<forall>cid key. map_option state_of_row (get_chain_resource cid key (cw_db w)) =
      foldl replay_event None
        (filter (\<lambda>e. re_chain_id e = cid \<and> re_key e = key) (resource_events (cw_db w))))"
  using context_inv_db [OF context_reachable_inv [OF assms]]
  by (simp add: context_db_ok_def rows_ok_def replay_ok_def replayed_def)

theorem resource_log_replays_witness:
  "map_option state_of_row (get_chain_resource ''chain1'' ''document:1'' (cw_db demo_world)) =
     foldl replay_event None
       (filter (\<lambda>e. re_chain_id e = ''chain1'' \<and> re_key e = ''document:1'') (resource_events (cw_db demo_world)))"
  using resource_log_replays [OF demo_context_reachable(1) demo_start_ok] by blast

text \<open> C30: Attribution: in every state the service leads to, the nodes of a chain are numbered from
  zero without gaps, in the order they were added; each belongs to a completed turn of the chain's
  own conversation; and every completed turn is attributed to at least one chain.\<close>

theorem turns_attributed:
  assumes "context_reachable capacity (start_world db0) w" "context_db_ok db0"
  shows "(\<forall>cid. let ns = filter (\<lambda>n. nd_chain_id n = cid) (chain_nodes (cw_db w)) in
        map nd_sequence ns = map int [0..<length ns]) \<and>
    (\<forall>n\<in>set (chain_nodes (cw_db w)). \<exists>t c. get_turn (nd_turn_id n) (cw_db w) = Some t \<and>
        get_chain (nd_chain_id n) (cw_db w) = Some c \<and> tn_status t = TURN_COMPLETED \<and>
        tn_conversation_id t = ch_conversation_id c) \<and>
    (\<forall>tid t. get_turn tid (cw_db w) = Some t \<longrightarrow> tn_status t = TURN_COMPLETED \<longrightarrow>
        list_linked_chain_ids tid (cw_db w) \<noteq> [])"
proof -
  have ok: "numbered (cw_db w)" "attributed (cw_db w)"
    using context_inv_db [OF context_reachable_inv [OF assms]] by (simp_all add: context_db_ok_def)
  have "\<exists>t c. get_turn (nd_turn_id n) (cw_db w) = Some t \<and>
        get_chain (nd_chain_id n) (cw_db w) = Some c \<and> tn_status t = TURN_COMPLETED \<and>
        tn_conversation_id t = ch_conversation_id c" if "n \<in> set (chain_nodes (cw_db w))" for n
  proof -
    from that ok(2) obtain conv where "turn_view (nd_turn_id n) (cw_db w) = Some (conv, True)"
      "conversation_of (nd_chain_id n) (cw_db w) = Some conv" unfolding attributed_def by blast
    then show ?thesis by (auto simp: turn_view_def conversation_of_def)
  qed
  moreover have "list_linked_chain_ids tid (cw_db w) \<noteq> []"
    if "get_turn tid (cw_db w) = Some t" "tn_status t = TURN_COMPLETED" for tid t
    using ok(2) that unfolding attributed_def turn_view_def by simp
  ultimately show ?thesis using ok(1) unfolding numbered_def by blast
qed

theorem turns_attributed_witness:
  "(\<exists>t. get_turn ''t2'' (cw_db demo_world) = Some t \<and> tn_status t = TURN_COMPLETED) \<and>
   list_linked_chain_ids ''t2'' (cw_db demo_world) \<noteq> []"
proof -
  have "case get_turn ''t2'' (cw_db demo_world) of Some t \<Rightarrow> tn_status t = TURN_COMPLETED | None \<Rightarrow> False"
    by code_simp
  then obtain t where "get_turn ''t2'' (cw_db demo_world) = Some t" "tn_status t = TURN_COMPLETED"
    by (auto split: option.splits)
  then show ?thesis using turns_attributed [OF demo_context_reachable(1) demo_start_ok] by blast
qed

text \<open> C31: Completing a turn takes effect once: the turn is then completed with the content of the
  command and linked to the chains of the result, and completing it again, at any later time and
  with any other command, changes nothing and answers with the same turn and the same chains,
  then in sorted order.\<close>

theorem complete_turn_once:
  assumes "complete_turn_in_transaction now u tid conv command db = Inr ((r, refreshes), db')"
    and "context_db_ok db"
  shows "tn_status (cr_turn r) = TURN_COMPLETED \<and> get_turn tid db' = Some (cr_turn r) \<and>
    list_linked_chain_ids tid db' = sort (cr_linked_chain_ids r) \<and>
    complete_turn_in_transaction now' u' tid conv command' db' =
      Inr ((\<lparr>cr_turn = cr_turn r, cr_linked_chain_ids = sort (cr_linked_chain_ids r)\<rparr>, []), db')"
  using assms(1)
proof (cases rule: complete_cases)
  case (again t)
  have "sort (list_linked_chain_ids tid db) = list_linked_chain_ids tid db"
    by (simp add: list_linked_chain_ids_def sorted_sort_id)
  then show ?thesis using again by (simp add: complete_turn_in_transaction_def Let_def)
next
  case (fresh t targets new db1 db2)
  note F = fresh [unfolded fresh_completion_def]
  from fresh_completion_links [OF fresh] obtain added where L: "targets \<noteq> []"
    "get_turn tid db' = Some (cr_turn r)" "turn_view tid db' = Some (conv, True)"
    and added: "chain_nodes db' = chain_nodes db @ added" "map nd_chain_id added = targets"
      "\<forall>m\<in>set added. nd_turn_id m = tid" by auto
  have "nd_turn_id n \<noteq> tid" if "n \<in> set (chain_nodes db)" for n
  proof
    assume "nd_turn_id n = tid"
    then have "\<exists>c. turn_view tid db = Some (c, True)"
      using that assms(2) by (auto simp: context_db_ok_def attributed_def)
    then show False using F by (auto simp: turn_view_def)
  qed
  then have "filter (\<lambda>m. nd_turn_id m = tid) (chain_nodes db) = []" by (simp add: filter_empty_conv)
  then have linked: "list_linked_chain_ids tid db' = sort targets"
    using linked_append [OF added(1,3)] added(2) by simp
  moreover have "sort targets \<noteq> []" using L(1) by (metis set_empty set_sort)
  moreover have "cr_linked_chain_ids r = targets" using F by auto
  moreover have "tn_conversation_id (cr_turn r) = conv" "tn_status (cr_turn r) = TURN_COMPLETED"
    using L(2,3) by (simp_all add: turn_view_def)
  ultimately show ?thesis using L(2) by (simp add: complete_turn_in_transaction_def Let_def)
qed

lemma demo_completion:
  "case complete_turn_in_transaction 6 demo_hex2 ''t2'' ''conv1'' demo_second (cw_db demo_before) of
     Inr ((r, refreshes), db') \<Rightarrow> cr_linked_chain_ids r = [''chain1''] | Inl _ \<Rightarrow> False"
  by code_simp

theorem complete_turn_once_witness:
  "\<exists>r refreshes db'. complete_turn_in_transaction 6 demo_hex2 ''t2'' ''conv1'' demo_second (cw_db demo_before) =
       Inr ((r, refreshes), db') \<and>
     complete_turn_in_transaction 9 demo_hex ''t2'' ''conv1'' demo_first db' =
       Inr ((\<lparr>cr_turn = cr_turn r, cr_linked_chain_ids = [''chain1'']\<rparr>, []), db')"
proof -
  from demo_completion obtain r refreshes db' where
    c: "complete_turn_in_transaction 6 demo_hex2 ''t2'' ''conv1'' demo_second (cw_db demo_before) = Inr ((r, refreshes), db')"
    and l: "cr_linked_chain_ids r = [''chain1'']" by (auto split: sum.splits)
  show ?thesis
    using c complete_turn_once [OF c demo_before_ok, of 9 demo_hex demo_first] l by simp
qed

text \<open> C32: The refresh script is a bounded queue of the most recently used resources: applied to a
  queue of the expected version, it keeps the old resources that are neither refreshed nor
  removed in their order, puts the refreshed ones behind them in theirs, drops the removed ones, and
  of this list keeps the last ones up to the capacity, each with its newest data, under the new version.\<close>

theorem refresh_queue_is_lru:
  assumes "distinct (map rr_key (qr_resources qr))" "distinct (cq_keys q)"
    and "cq_version q = Some (qr_expected_previous_version qr)"
  shows "\<exists>q'. refresh_queue capacity qr q = Some q' \<and> cq_version q' = Some (qr_database_version qr) \<and>
    cq_keys q' = last_items capacity (filter (\<lambda>k. k \<notin> set (qr_removed_resource_keys qr))
      (filter (\<lambda>k. k \<notin> rr_key ` set (qr_resources qr)) (cq_keys q) @ map rr_key (qr_resources qr))) \<and>
    (\<forall>k\<in>set (cq_keys q'). map_of (cq_data q') k =
      (case find (\<lambda>r. rr_key r = k) (qr_resources qr) of Some r \<Rightarrow> Some r | None \<Rightarrow> map_of (cq_data q) k))"
proof -
  let ?rs = "qr_resources qr" and ?gone = "qr_removed_resource_keys qr"
  obtain ks1 h1 where push: "push_all ?rs (cq_keys q, cq_data q) = (ks1, h1)" by fastforce
  obtain ks2 h2 where rem: "remove_all ?gone (ks1, h1) = (ks2, h2)" by fastforce
  obtain ks3 h3 where ev: "evict capacity ks2 h2 = (ks3, h3)" by fastforce
  have q': "refresh_queue capacity qr q = Some \<lparr>cq_keys = ks3, cq_data = h3, cq_version = Some (qr_database_version qr)\<rparr>"
    using push rem ev assms(3) by (simp add: refresh_queue_def)
  note R = remove_all_eq [OF rem] and V = evict_eq [OF ev]
  have d: "distinct ks2" using push_all_keys [OF push assms(2)] R by simp
  have "map_of h3 k = (case find (\<lambda>r. rr_key r = k) ?rs of Some r \<Rightarrow> Some r | None \<Rightarrow> map_of (cq_data q) k)"
    if "k \<in> set ks3" for k
  proof -
    have "k \<in> set ks2" using that V by (metis last_items_facts(2) subsetD)
    then have "map_of h3 k = with_refs ?rs (map_of (cq_data q)) k"
      using V d that R push_all_data [OF push] by (simp add: without_keys_def)
    also have "\<dots> = (case find (\<lambda>r. rr_key r = k) ?rs of Some r \<Rightarrow> Some r | None \<Rightarrow> map_of (cq_data q) k)"
    proof (cases "find (\<lambda>r. rr_key r = k) ?rs")
      case None
      then have "k \<notin> rr_key ` set ?rs" by (auto simp: find_None_iff)
      then show ?thesis using None with_refs_base(1) by simp
    next
      case (Some r)
      then show ?thesis using find_SomeD [OF Some] with_refs_hit [OF assms(1)] by auto
    qed
    finally show ?thesis .
  qed
  moreover have "ks3 = last_items capacity (filter (\<lambda>k. k \<notin> set ?gone)
      (filter (\<lambda>k. k \<notin> rr_key ` set ?rs) (cq_keys q) @ map rr_key ?rs))"
    using V R push_all_order [OF push assms(1)] by simp
  ultimately show ?thesis using q' by (intro exI [of _ "\<lparr>cq_keys = ks3, cq_data = h3,
    cq_version = Some (qr_database_version qr)\<rparr>"]) simp
qed

definition demo_ref :: "string \<Rightarrow> resource_ref" where
  "demo_ref k = \<lparr>rr_key = k, rr_type = ''document'', rr_id = k, rr_relation = None, rr_summary = None,
     rr_source_turn_id = ''t1'', rr_last_seen_at = 1\<rparr>"

definition demo_cached :: cached_queue where
  "demo_cached = \<lparr>cq_keys = [''a'', ''b'', ''c''], cq_data = map (\<lambda>k. (k, demo_ref k)) [''a'', ''b'', ''c''],
     cq_version = Some 4\<rparr>"

definition demo_refresh :: queue_refresh where
  "demo_refresh = \<lparr>qr_conversation_id = ''conv1'', qr_chain_id = ''chain1'',
     qr_resources = [demo_ref ''b'', demo_ref ''d''], qr_removed_resource_keys = [''c''],
     qr_expected_previous_version = 4, qr_database_version = 5\<rparr>"

theorem refresh_queue_is_lru_witness:
  "\<exists>q'. refresh_queue 2 demo_refresh demo_cached = Some q' \<and> cq_version q' = Some 5 \<and> cq_keys q' = [''b'', ''d'']"
proof -
  have "distinct (map rr_key (qr_resources demo_refresh))" "distinct (cq_keys demo_cached)"
    "cq_version demo_cached = Some (qr_expected_previous_version demo_refresh)" by code_simp+
  moreover have "last_items 2 (filter (\<lambda>k. k \<notin> set (qr_removed_resource_keys demo_refresh))
      (filter (\<lambda>k. k \<notin> rr_key ` set (qr_resources demo_refresh)) (cq_keys demo_cached) @
        map rr_key (qr_resources demo_refresh))) = [''b'', ''d'']" "qr_database_version demo_refresh = 5" by code_simp+
  ultimately show ?thesis using refresh_queue_is_lru [of demo_refresh demo_cached 2] by auto
qed

text \<open>What the part of send_message under the lock leaves: nothing, an open turn or a selection.\<close>

definition ready_turn :: "ident \<Rightarrow> string \<Rightarrow> selection_result \<Rightarrow> context_db \<Rightarrow> bool" where
  "ready_turn conv message r db \<longleftrightarrow> (\<exists>s t. get_selection_record (sr_turn_id r) db = Some s \<and>
     sl_relevant_chain_ids s = sd_relevant_chain_ids (sr_decision r) \<and>
     map cx_id (sr_context_chains r) = sl_relevant_chain_ids s \<and> distinct (sl_relevant_chain_ids s) \<and>
     (\<forall>i\<in>set (sl_relevant_chain_ids s). \<exists>c. get_chain i db = Some c \<and>
        ch_conversation_id c = conv \<and> \<not> ch_archived c) \<and>
     get_turn (sr_turn_id r) db = Some t \<and> tn_status t = CONTEXT_READY \<and>
     tn_conversation_id t = conv \<and> tn_user_input t = message)"

lemma select_context_cases:
  assumes "select_context route up capacity now u conv message (created0, db, cache) = (r, created, db', cache')"
  obtains (unchanged) e where "r = Inl e" "created = created0" "db' = db"
  | (open_turn) e where "r = Inl e" "created" "same_context db db'" "selections db' = selections db"
      "get_turn (new_id ''turn'' (u 0)) db' = Some (new_turn now (new_id ''turn'' (u 0)) conv message)"
  | (ready) s where "r = Inr s" "created" "same_context db db'" "sr_turn_id s = new_id ''turn'' (u 0)"
      "ready_turn conv message s db'"
proof (cases "create_turn_and_load_chains now capacity (new_id ''turn'' (u 0)) conv message db")
  case (Inl e)
  then show ?thesis using assms by (intro unchanged [of e]) (simp_all add: select_context_def Let_def)
next
  case (Inr p)
  let ?tid = "new_id ''turn'' (u 0)"
  obtain loaded db1 where p: "p = (loaded, db1)" by fastforce
  note open_turn1 = Inr [unfolded p]
  note C = create_turn_effect [OF open_turn1] and same1 = open_turn_same [OF open_turn1]
  obtain queues cache1 where q: "with_queues up capacity conv 0 loaded db1 cache = (queues, cache1)" by fastforce
  show ?thesis
  proof (cases r)
    case (Inl e)
    then have "db' = db1" "created" using assms open_turn1 q
      by (auto simp: select_context_def Let_def split: sum.splits prod.splits)
    then show ?thesis using C same1 Inl by (intro open_turn [of e]) simp_all
  next
    case (Inr s)
    from assms open_turn1 q Inr obtain cands raw d where
      "queues = Inr cands" and d: "validate_context_selection raw cands conv = Inr d"
      and db2: "persist_context_selection now (u 1) ?tid conv d db1 = Inr db'" and "created"
      and r: "s = \<lparr>sr_conversation_id = conv, sr_turn_id = ?tid, sr_message = message,
         sr_context_chains = List.map_filter (\<lambda>i. find (\<lambda>c. cx_id c = i) cands) (sd_relevant_chain_ids d),
         sr_decision = d\<rparr>"
      by (auto simp: select_context_def Let_def bind_eq_Inr bind_def split: sum.splits prod.splits)
    note V = validate_selection_Inr [OF d]
    from persist_effect [OF db2] C obtain row where "get_selection_record ?tid db' = Some row"
      "sl_relevant_chain_ids row = sd_relevant_chain_ids d"
      "get_turn ?tid db' = Some ((new_turn now ?tid conv message)\<lparr>tn_status := CONTEXT_READY\<rparr>)"
      "\<forall>i\<in>set (sd_relevant_chain_ids d).
         \<exists>c. get_chain i db' = Some c \<and> ch_conversation_id c = conv \<and> \<not> ch_archived c" by auto
    then have "ready_turn conv message s db'" using V by (simp add: ready_turn_def r new_turn_def)
    moreover have "same_context db db'"
      using persist_same [OF db2] same1 unfolding same_context_def by metis
    ultimately show ?thesis using \<open>created\<close> Inr r by (intro ready [of s]) simp_all
  qed
qed

text \<open> C33: What a message leaves of its turn, taken on its own, without steps of others in between,
  whatever the selector answers and however the lock ends.  A message that succeeds has a turn that is
  ready, with the one stored selection of the result, distinct chains of the conversation that
  are not archived, in the order the result hands them to the planner.  A message that fails has
  written nothing; or its turn is failed and no selection is stored; or, when the release found the
  lock expired or the turn could not be marked, the turn is still routing and no selection is
  stored; or only the release failed, after the turn was made ready with its selection.  Without
  the lock nothing is written, and with a lock that is released and a turn that can be marked only
  the first two are left.  No chain, node or resource changes.\<close>

theorem send_message_settles:
  assumes "send_message lk marked route up capacity now u conv message db cache = (result, db', cache')"
  shows "chains db' = chains db \<and> chain_nodes db' = chain_nodes db \<and>
    chain_resources db' = chain_resources db \<and> resource_events db' = resource_events db \<and>
    (lk_acquire lk \<noteq> ACQUIRED \<longrightarrow> db' = db) \<and>
    (case result of
       Inr r \<Rightarrow> (\<exists>s t. get_selection_record (sr_turn_id r) db' = Some s \<and>
           sl_relevant_chain_ids s = sd_relevant_chain_ids (sr_decision r) \<and>
           map cx_id (sr_context_chains r) = sl_relevant_chain_ids s \<and> distinct (sl_relevant_chain_ids s) \<and>
           (\<forall>i\<in>set (sl_relevant_chain_ids s). \<exists>c. get_chain i db' = Some c \<and>
              ch_conversation_id c = conv \<and> \<not> ch_archived c) \<and>
           get_turn (sr_turn_id r) db' = Some t \<and> tn_status t = CONTEXT_READY \<and>
           tn_conversation_id t = conv \<and> tn_user_input t = message)
     | Inl e \<Rightarrow> db' = db \<or>
         (\<exists>t. get_turn (new_id ''turn'' (u 0)) db' = Some t \<and> tn_conversation_id t = conv \<and>
           (selections db' = selections db \<and> tn_status t = TURN_FAILED \<or>
            selections db' = selections db \<and> tn_status t = ROUTING \<and>
              (lk_release lk = EXPIRED_LOCK \<or> \<not> marked) \<or>
            get_selection_record (new_id ''turn'' (u 0)) db' \<noteq> None \<and> tn_status t = CONTEXT_READY \<and>
              lk_release lk \<noteq> RELEASED)))"
proof (cases "lk_acquire lk = ACQUIRED")
  case False
  then obtain e where "hold lk (select_context route up capacity now u conv message) (False, db, cache) =
      (Inl e, False, db, cache)" by (cases "lk_acquire lk") (auto simp: hold_def)
  then show ?thesis using assms False by (auto simp: send_message_def)
next
  case True
  let ?tid = "new_id ''turn'' (u 0)"
  obtain r0 created db1 cache1 where
    run: "select_context route up capacity now u conv message (False, db, cache) = (r0, created, db1, cache1)"
    by (metis prod_cases4)
  define r1 where "r1 = (case lk_release lk of RELEASED \<Rightarrow> r0
    | EXPIRED_LOCK \<Rightarrow> Inl (lock_unavailable ''Conversation route lock expired'') | RELEASE_FAILED \<Rightarrow> Inl redis_error)"
  have hold: "hold lk (select_context route up capacity now u conv message) (False, db, cache) =
      (r1, created, db1, cache1)" using True run by (simp add: hold_def r1_def split: release_outcome.split)
  have expired: "r1 = Inl e \<Longrightarrow> is_lock_unavailable e \<Longrightarrow> lk_release lk = EXPIRED_LOCK \<or> r1 = r0" for e
    by (auto simp: r1_def is_lock_unavailable_def redis_error_def split: release_outcome.splits)
  have out: "result = r1" "db' = (if (\<exists>e. r1 = Inl e \<and> \<not> is_lock_unavailable e) \<and> created \<and> marked
      then mark_turn_failed ?tid db1 else db1)"
    using assms hold by (auto simp: send_message_def split: sum.splits if_splits)
  show ?thesis
    using run
  proof (cases rule: select_context_cases)
    case (unchanged e)
    then have "\<exists>e. r1 = Inl e" by (auto simp: r1_def split: release_outcome.split)
    then show ?thesis using out unchanged True by auto
  next
    case (open_turn e)
    then obtain e1 where e1: "r1 = Inl e1" by (cases "lk_release lk") (auto simp: r1_def)
    have "\<not> is_lock_unavailable e" using select_context_errors [OF run [unfolded open_turn(1)]] .
    then have "lk_release lk = EXPIRED_LOCK" if "is_lock_unavailable e1"
      using expired [OF e1 that] e1 that open_turn(1) by auto
    moreover have "chains (mark_turn_failed ?tid db1) = chains db1" "chain_nodes (mark_turn_failed ?tid db1) = chain_nodes db1"
      "chain_resources (mark_turn_failed ?tid db1) = chain_resources db1"
      "resource_events (mark_turn_failed ?tid db1) = resource_events db1"
      "selections (mark_turn_failed ?tid db1) = selections db1"
      "get_turn ?tid (mark_turn_failed ?tid db1) = Some (turn_set_status (new_turn now ?tid conv message) TURN_FAILED)"
      using open_turn(5) by (simp_all add: mark_turn_failed_def new_turn_def context_simps save_turn_get turn_set_status_def)
    ultimately show ?thesis
      using out e1 open_turn True
      by (auto simp: same_context_def new_turn_def turn_set_status_def)
  next
    case (ready s)
    have "mark_turn_failed ?tid db1 = db1"
      using ready(4,5) by (auto simp: ready_turn_def mark_turn_failed_def)
    then have db': "db' = db1" using out by auto
    have "r1 = Inr s \<or> (\<exists>e. r1 = Inl e) \<and> lk_release lk \<noteq> RELEASED"
      using ready(1) by (auto simp: r1_def split: release_outcome.splits)
    then show ?thesis using ready(3-5) out(1) True unfolding db' ready_turn_def same_context_def by auto
  qed
qed

definition held :: lock_outcome where
  "held = \<lparr>lk_acquire = ACQUIRED, lk_release = RELEASED\<rparr>"

definition demo_route :: "ident \<Rightarrow> string \<Rightarrow> context_chain list \<Rightarrow> selection_decision result" where
  "demo_route tid message cands = Inr (demo_decision (map cx_id cands @ map cx_id cands))"

lemma demo_message:
  "case send_message held True demo_route (\<lambda>_ _. True) 2 9 demo_hex ''conv1'' ''next'' (cw_db demo_world) (cw_cache demo_world) of
     (Inr r, db', cache') \<Rightarrow> sd_relevant_chain_ids (sr_decision r) = [''chain1''] | (Inl _, _, _) \<Rightarrow> False"
  by code_simp

theorem send_message_settles_witness:
  "\<exists>r db' cache'. send_message held True demo_route (\<lambda>_ _. True) 2 9 demo_hex ''conv1'' ''next'' (cw_db demo_world)
       (cw_cache demo_world) = (Inr r, db', cache') \<and>
     map cx_id (sr_context_chains r) = [''chain1''] \<and>
     (\<exists>t. get_turn (sr_turn_id r) db' = Some t \<and> tn_status t = CONTEXT_READY)"
proof -
  obtain result db' cache' where m: "send_message held True demo_route (\<lambda>_ _. True) 2 9 demo_hex ''conv1'' ''next''
      (cw_db demo_world) (cw_cache demo_world) = (result, db', cache')" by (metis prod_cases3)
  with demo_message obtain r where r: "result = Inr r" "sd_relevant_chain_ids (sr_decision r) = [''chain1'']"
    by (auto split: sum.splits)
  show ?thesis using m send_message_settles [OF m] r by (intro exI [of _ r] exI [of _ db'] exI [of _ cache']) auto
qed

end
