(* ===== verification/Conversation.thy ===== *)
theory Conversation
  imports Context_Service Planning_Run Replan
begin

text \<open>
  The conversation: a message from the HTTP request to its answer (conversation/application and
  conversation/presentation), over the context service, the planner run and the selector that asks
  the language model for the chains a message needs (context/infrastructure/llm).
\<close>

section \<open>The selector\<close>

text \<open>A chat completion as far as \<open>_parse_response\<close> reads it; \<open>None\<close> is an absent attribute.\<close>

record function_call =
  fn_name :: string
  fn_arguments :: "string option"

record chat_message =
  cm_tool_calls :: "function_call option list"

record chat_response =
  rp_choices :: "chat_message option list"

definition output_error :: "string \<Rightarrow> error" where
  "output_error detail = OtherException ''ContextAgentOutputError'' detail"

definition CONTEXT_SELECTION_TOOL_NAME :: string where
  "CONTEXT_SELECTION_TOOL_NAME = ''submit_context_selection''"

text \<open>
  \<open>decode\<close> reads the arguments as JSON; the contract of a selection is checked here.
\<close>

definition selection_contract :: "selection_decision \<Rightarrow> bool" where
  "selection_contract d \<longleftrightarrow> sd_reason_summary d \<noteq> [] \<and> length (sd_reason_summary d) \<le> 1000"

definition parse_response ::
  "(string \<Rightarrow> selection_decision option) \<Rightarrow> chat_response \<Rightarrow> selection_decision result" where
  "parse_response decode r =
     (case rp_choices r of
        [] \<Rightarrow> Inl (output_error ''no choice'')
      | None # _ \<Rightarrow> Inl (output_error ''choice without message'')
      | Some m # _ \<Rightarrow>
          (case cm_tool_calls m of
             [None] \<Rightarrow> Inl (output_error ''Tool Call without function'')
           | [Some f] \<Rightarrow>
               if fn_name f \<noteq> CONTEXT_SELECTION_TOOL_NAME then Inl (output_error ''unexpected Tool'')
               else (case fn_arguments f of
                   None \<Rightarrow> Inl (output_error ''Tool Call without arguments'')
                 | Some a \<Rightarrow>
                     if py_strip a = [] then Inl (output_error ''Tool Call without arguments'')
                     else (case decode a of
                         None \<Rightarrow> Inl (output_error ''arguments break the Selection contract'')
                       | Some d \<Rightarrow> if selection_contract d then Inr d
                           else Inl (output_error ''arguments break the Selection contract'')))
           | _ \<Rightarrow> Inl (output_error ''exactly one Tool Call is required'')))"

definition empty_selection_without_model :: selection_decision where
  "empty_selection_without_model =
     \<lparr>sd_relevant_chain_ids = [], sd_reason_summary = ''the conversation has no history''\<rparr>"

text \<open>\<open>ask i\<close> is the i-th request to the model; a request that raises is not repeated.\<close>

fun ask_model ::
  "(string \<Rightarrow> selection_decision option) \<Rightarrow> (nat \<Rightarrow> chat_response result) \<Rightarrow> nat \<Rightarrow> nat \<Rightarrow>
     selection_decision result \<times> nat" where
  "ask_model decode ask attempt 0 =
     (Inl (output_error ''illegal strict tool responses''), attempt)"
| "ask_model decode ask attempt (Suc left) =
     (case ask attempt of
        Inl e \<Rightarrow> (Inl e, attempt + 1)
      | Inr r \<Rightarrow>
          (case parse_response decode r of
             Inr d \<Rightarrow> (Inr d, attempt + 1)
           | Inl _ \<Rightarrow> ask_model decode ask (attempt + 1) left))"

text \<open>The decision and the number of requests made.\<close>

definition route_context ::
  "(string \<Rightarrow> selection_decision option) \<Rightarrow> (nat \<Rightarrow> chat_response result) \<Rightarrow> nat \<Rightarrow> context_chain list \<Rightarrow>
     selection_decision result \<times> nat" where
  "route_context decode ask max_output_attempts cands =
     (if cands = [] then (Inr empty_selection_without_model, 0)
      else ask_model decode ask 0 max_output_attempts)"

section \<open>A conversation message\<close>

record selection_metadata =
  sm_mode :: selection_mode
  sm_relevant_chain_ids :: "ident list"
  sm_reason_summary :: string

datatype message_status =
  MSG_PROCESSING | MSG_UNSUPPORTED | MSG_NEEDS_CLARIFICATION | MSG_RETRY_PENDING | MSG_COMPLETED | MSG_FAILED

record message_result =
  mr_conversation_id :: ident
  mr_turn_id :: ident
  mr_plan_id :: "ident option"
  mr_status :: message_status
  mr_assistant_message :: "string option"
  mr_task_ids :: "ident list"
  mr_context_selection :: "selection_metadata option"

text \<open>
  What the use case works with: the selector, the planner's agents for the input loaded for them,
  the outcomes of the lock for the two calls of the context service, whether a failed turn can be
  marked, the requests to Redis that succeed (of the planner's reads apart), the capacity of a queue,
  and the ids and the time of each step.
\<close>

record message_env =
  me_route :: "ident \<Rightarrow> string \<Rightarrow> context_chain list \<Rightarrow> selection_decision result"
  me_agents :: "string \<times> context_chain list \<Rightarrow> planner_agents"
  me_select_lock :: lock_outcome
  me_complete_lock :: lock_outcome
  me_marked :: bool
  me_redis :: "nat \<Rightarrow> nat \<Rightarrow> bool"
  me_plan_redis :: "nat \<Rightarrow> nat \<Rightarrow> bool"
  me_capacity :: nat
  me_now :: time
  me_select_ids :: uuids
  me_plan_ids :: uuids
  me_complete_ids :: uuids

definition metadata_of :: "selection_decision \<Rightarrow> selection_metadata" where
  "metadata_of d = \<lparr>sm_mode = derive_context_selection_mode (sd_relevant_chain_ids d),
     sm_relevant_chain_ids = sd_relevant_chain_ids d, sm_reason_summary = sd_reason_summary d\<rparr>"

definition plan_turn ::
  "message_env \<Rightarrow> ident \<Rightarrow> ident \<Rightarrow> context_db \<Rightarrow> resource_cache \<Rightarrow>
     run_planning_result result \<times> context_db \<times> resource_cache" where
  "plan_turn env conv tid db cache =
     execute_planning (me_now env) (me_plan_ids env) (me_plan_redis env) (me_capacity env) (me_agents env)
       \<lparr>rp_conversation_id = conv, rp_turn_id = tid, rp_revision = 1, rp_workflow_id = None,
        rp_parent_plan_id = None\<rparr> db cache"

definition unsupported_message :: "run_planning_result \<Rightarrow> string" where
  "unsupported_message r =
     (case rr_failure_reason r of
        Some m \<Rightarrow> if m = [] then ''the request is not supported'' else m
      | None \<Rightarrow> ''the request is not supported'')"

definition unsupported_command :: "attribution \<Rightarrow> string \<Rightarrow> complete_turn_command" where
  "unsupported_command a m =
     \<lparr>ct_assistant_content = Some m, ct_assistant_compact = Some m, ct_task_ids = [],
      ct_task_result_summary = Some m, ct_attribution = a, ct_chain_updates = []\<rparr>"

text \<open>The result of a planned message, by the status of the plan.\<close>

definition planned_result ::
  "selection_result \<Rightarrow> run_planning_result \<Rightarrow> message_status \<Rightarrow> string option \<Rightarrow> ident list \<Rightarrow> message_result" where
  "planned_result s r st m task_ids =
     \<lparr>mr_conversation_id = sr_conversation_id s, mr_turn_id = sr_turn_id s, mr_plan_id = Some (rr_plan_id r),
      mr_status = st, mr_assistant_message = m, mr_task_ids = task_ids,
      mr_context_selection = Some (metadata_of (sr_decision s))\<rparr>"

definition dispatch_plan ::
  "message_env \<Rightarrow> selection_result \<Rightarrow> attribution \<Rightarrow> run_planning_result \<Rightarrow> context_db \<Rightarrow> resource_cache \<Rightarrow>
     message_result result \<times> context_db \<times> resource_cache" where
  "dispatch_plan env s a r db cache =
     (case rr_status r of
        READY \<Rightarrow> (Inr (planned_result s r MSG_PROCESSING None (rr_task_ids r)), db, cache)
      | UNSUPPORTED \<Rightarrow>
          (let m = unsupported_message r in
           case locked_complete_turn (me_complete_lock env) (me_redis env) (me_capacity env) (me_now env)
                  (me_complete_ids env) (sr_turn_id s) (unsupported_command a m) db cache of
             (Inl e, db', cache') \<Rightarrow> (Inl e, db', cache')
           | (Inr _, db', cache') \<Rightarrow> (Inr (planned_result s r MSG_UNSUPPORTED (Some m) []), db', cache'))
      | NEEDS_CLARIFICATION \<Rightarrow>
          (case rr_clarification_question r of
             None \<Rightarrow> (Inl (RuntimeError ''Clarification Agent made no question''), db, cache)
           | Some q \<Rightarrow>
               if q = [] then (Inl (RuntimeError ''Clarification Agent made no question''), db, cache)
               else (Inr (planned_result s r MSG_NEEDS_CLARIFICATION (Some q) []), db, cache))
      | RETRY_PENDING \<Rightarrow> (Inr (planned_result s r MSG_RETRY_PENDING None []), db, cache)
      | _ \<Rightarrow> (Inr (planned_result s r MSG_FAILED (rr_failure_reason r) []), db, cache))"

definition send_conversation_message ::
  "message_env \<Rightarrow> ident \<Rightarrow> string \<Rightarrow> ident option \<Rightarrow> context_db \<Rightarrow> resource_cache \<Rightarrow>
     message_result result \<times> context_db \<times> resource_cache" where
  "send_conversation_message env conv message source db cache =
     (case source of
        Some tid \<Rightarrow>
          (case answer_clarification (me_now env) (me_plan_ids env) conv tid message (core db) of
             Inl e \<Rightarrow> (Inl e, db, cache)
           | Inr (pid, core') \<Rightarrow>
               (Inr \<lparr>mr_conversation_id = conv, mr_turn_id = tid, mr_plan_id = Some pid,
                  mr_status = MSG_RETRY_PENDING, mr_assistant_message = None, mr_task_ids = [],
                  mr_context_selection = None\<rparr>, db\<lparr>core := core'\<rparr>, cache))
      | None \<Rightarrow>
          (case send_message (me_select_lock env) (me_marked env) (me_route env) (me_redis env) (me_capacity env)
                  (me_now env) (me_select_ids env) conv message db cache of
             (Inl e, db1, cache1) \<Rightarrow> (Inl e, db1, cache1)
           | (Inr s, db1, cache1) \<Rightarrow>
               (case build_read_set_fallback_attribution (sd_relevant_chain_ids (sr_decision s)) None of
                  Inl e \<Rightarrow> (Inl e, db1, cache1)
                | Inr a \<Rightarrow>
                    (case plan_turn env (sr_conversation_id s) (sr_turn_id s) db1 cache1 of
                       (Inl e, db2, cache2) \<Rightarrow> (Inl e, db2, cache2)
                     | (Inr r, db2, cache2) \<Rightarrow> dispatch_plan env s a r db2 cache2))))"

section \<open>The HTTP interface\<close>

definition context_status_code :: "string \<Rightarrow> int" where
  "context_status_code c =
     (if c = ''ContextRoutingError'' then 502 else if c = ''ContextTurnNotFoundError'' then 404
      else if c = ''ContextConflictError'' \<or> c = ''ConversationLockUnavailable'' then 409
      else if c = ''ContextValidationError'' then 400 else 500)"

text \<open>Errors that the handler does not catch are internal server errors.\<close>

definition http_status :: "message_result result \<Rightarrow> int" where
  "http_status result =
     (case result of
        Inr r \<Rightarrow> if mr_status r \<in> {MSG_PROCESSING, MSG_RETRY_PENDING} then 202 else 200
      | Inl (OtherException c _) \<Rightarrow> context_status_code c
      | Inl (PlanningApplicationError s _ _) \<Rightarrow> s
      | Inl (ClarificationApplicationError s _) \<Rightarrow> s
      | Inl _ \<Rightarrow> 500)"

record turn_status_result =
  ts_conversation_id :: ident
  ts_turn_id :: ident
  ts_turn_status :: turn_status
  ts_plan_id :: "ident option"
  ts_plan_status :: "plan_status option"
  ts_revision :: "int option"
  ts_task_ids :: "ident list"
  ts_assistant_message :: "string option"

definition get_turn_status :: "ident \<Rightarrow> ident \<Rightarrow> db \<Rightarrow> turn_status_result result" where
  "get_turn_status conv tid db =
     (case turn_get_by_id tid db of
        None \<Rightarrow> Inl (ValueError ''Conversation Turn does not exist'')
      | Some t \<Rightarrow>
          if tn_conversation_id t \<noteq> conv then Inl (ValueError ''Conversation Turn does not exist'')
          else let p = plan_get_latest_by_turn tid db in
            Inr \<lparr>ts_conversation_id = conv, ts_turn_id = tid, ts_turn_status = tn_status t,
              ts_plan_id = map_option p_id p, ts_plan_status = map_option p_status p,
              ts_revision = map_option p_revision p, ts_task_ids = tn_task_ids t,
              ts_assistant_message = tn_assistant_content t\<rparr>)"

end
