(* ===== verification/Conversation_Safety.thy ===== *)
theory Conversation_Safety
  imports Conversation Context_Run Planner_Safety
begin

text \<open>
  The conversation on top of the context service and the planner: a planner run keeps the turns'
  conversations and does not complete or reopen one, and what a message does to the context is a run
  of the context steps.
\<close>

section \<open>Planner runs leave the turns' ownership and completion alone\<close>

definition turn_key :: "ident \<Rightarrow> db \<Rightarrow> (ident \<times> bool) option" where
  "turn_key tid db = map_option (\<lambda>t. (tn_conversation_id t, tn_status t = TURN_COMPLETED)) (turn_get_by_id tid db)"

lemma turn_view_key: "turn_view tid db = turn_key tid (core db)"
  by (simp add: turn_view_def turn_key_def get_turn_def)

lemma turn_key_cong: "turns db' = turns db \<Longrightarrow> turn_key tid db' = turn_key tid db"
  by (simp add: turn_key_def turn_get_by_id_def)

lemma turn_key_put:
  assumes "turns db' = put_row tn_id t' (turns db)" "turn_get_by_id i db = Some t"
    and "tn_id t' = tn_id t" "tn_conversation_id t' = tn_conversation_id t"
    and "(tn_status t' = TURN_COMPLETED) = (tn_status t = TURN_COMPLETED)"
  shows "turn_key tid db' = turn_key tid db"
proof -
  have same: "turn_get_by_id tid db' = turn_get_by_id tid (turn_save t' db)"
    using assms(1) by (simp add: turn_get_by_id_def turn_save_def)
  have "tn_id t = i" using turn_repo.fetch_key [OF assms(2)] .
  then show ?thesis using assms(2-5) turn_repo.fetch_save [of tid t' db]
    unfolding turn_key_def same by (auto split: if_splits)
qed

lemma expire_clarification_turns: "turns (expire_clarification now pid db) = turns db"
  by (auto simp: expire_clarification_def store_simps split: option.splits)

lemma mark_plan_turns:
  assumes "mark_plan target now u pid reason db = Inr (p', db')"
  shows "turns db' = turns db \<or> (\<exists>p tn. plan_get_by_id pid db = Some p \<and>
    turn_get_by_id (p_turn_id p) db = Some tn \<and>
    turns db' = put_row tn_id (turn_set_status tn PROCESSING) (turns db))"
proof -
  define why where "why = py_strip reason"
  have why: "why \<noteq> []" using assms by (auto simp: mark_plan_def why_def)
  with assms obtain p where p: "plan_get_by_id pid db = Some p"
    by (auto simp: mark_plan_def Let_def why_def split: option.splits)
  define q where "q = plan_set_status p target (Some why)
    (Some (if target = RETRY_PENDING then ''planner_system_failure'' else ''unsupported''))"
  note s = assms [unfolded mark_plan_def Let_def why_def [symmetric] p option.case q_def [symmetric]]
  show ?thesis
  proof (cases "target = RETRY_PENDING")
    case False
    then have "db' = plan_save q db" using s why by (auto simp: bind_eq_Inr split: if_splits)
    then show ?thesis by (simp add: store_simps)
  next
    case True
    have same: "turn_get_by_id i (plan_save q db) = turn_get_by_id i db" for i
      by (simp add: turn_get_by_id_def store_simps)
    from True s why same obtain tn where tn: "turn_get_by_id (p_turn_id p) db = Some tn"
      by (auto simp: bind_eq_Inr split: option.splits if_splits)
    define ev where "ev = new_outbox_event now (u 0) REPLAN_REQUESTED (p_id p) (planner_failure_payload q tn why)"
    have "outbox_add ev (turn_save (turn_set_status tn PROCESSING)
        (expire_clarification now (p_id p) (plan_save q db))) = Inr db'"
      using s True why tn same by (auto simp: bind_eq_Inr ev_def split: if_splits)
    then have "turns db' = put_row tn_id (turn_set_status tn PROCESSING) (turns db)"
      by (auto simp: store_simps expire_clarification_turns turn_save_def)
    then show ?thesis using p tn by blast
  qed
qed

text \<open>The turns as \<open>v\<close> shows them; the turn of the plan \<open>pid\<close> is \<open>t0\<close> and not completed.\<close>

definition turns_as :: "(ident \<Rightarrow> (ident \<times> bool) option) \<Rightarrow> ident \<Rightarrow> ident \<Rightarrow> db \<Rightarrow> bool" where
  "turns_as v t0 pid db \<longleftrightarrow> (\<forall>tid. turn_key tid db = v tid) \<and> (\<exists>c. v t0 = Some (c, False)) \<and>
     (\<forall>p. plan_get_by_id pid db = Some p \<longrightarrow> p_turn_id p = t0)"

lemma turns_as_put:
  assumes "turns_as v t0 pid db" "turns db' = put_row tn_id t' (turns db)" "turn_get_by_id t0 db = Some t"
    and "tn_id t' = tn_id t" "tn_conversation_id t' = tn_conversation_id t" "tn_status t' \<noteq> TURN_COMPLETED"
    and "\<And>p. plan_get_by_id pid db' = Some p \<Longrightarrow> p_turn_id p = t0"
  shows "turns_as v t0 pid db'"
proof -
  have "tn_status t \<noteq> TURN_COMPLETED"
    using assms(1,3) by (auto simp: turns_as_def turn_key_def) (metis (mono_tags) map_option_eq_Some option.inject prod.inject)
  then show ?thesis using assms turn_key_put [OF assms(2-5)] by (simp add: turns_as_def)
qed

lemma turns_as_same:
  assumes "turns_as v t0 pid db" "turns db' = turns db"
    and "\<And>p. plan_get_by_id pid db' = Some p \<Longrightarrow> p_turn_id p = t0"
  shows "turns_as v t0 pid db'"
  using assms turn_key_cong [OF assms(2)] by (simp add: turns_as_def)

lemma plan_put_turn:
  assumes "plans db' = put_row p_id p' (plans db)" "plan_get_by_id i db = Some p" "p_turn_id p' = p_turn_id p" "p_id p' = p_id p"
    and "\<And>q. plan_get_by_id pid db = Some q \<Longrightarrow> p_turn_id q = t0" "plan_get_by_id pid db' = Some q"
  shows "p_turn_id q = t0"
proof -
  have "plan_get_by_id pid db' = plan_get_by_id pid (plan_save p' db)"
    using assms(1) by (simp add: plan_get_by_id_def plan_save_def)
  moreover have "p_id p = i" using plan_repo.fetch_key [OF assms(2)] .
  ultimately show ?thesis using assms(2-6) plan_repo.fetch_save [of pid p' db] by (auto split: if_splits)
qed

lemma create_task_turns_as:
  assumes "turns_as v t0 pid db" "create_document_task cap u c db = Inr (t, db')"
  shows "turns_as v t0 pid db'"
proof -
  have same: "turns db' = turns db" "plans db' = plans db"
    using assms(2) by (auto elim!: create_document_task_effect)
  show ?thesis
    by (rule turns_as_same [OF assms(1) same(1)])
      (use assms(1) same(2) in \<open>simp add: turns_as_def plan_get_by_id_def\<close>)
qed

lemma finalize_turns:
  assumes "finalize_plan now u pid tid db = Inr (r, db')"
  shows "\<exists>p tn ids. plan_get_by_id pid db = Some p \<and> p_turn_id p = tid \<and> turn_get_by_id tid db = Some tn \<and>
    plans db' = put_row p_id (plan_set_status p READY None None) (plans db) \<and>
    turns db' = put_row tn_id (turn_set_status (turn_set_task_ids tn ids) PROCESSING) (turns db)"
  by (rule finalize_effect [OF assms]) blast

lemma finalize_turns_as:
  assumes "turns_as v t0 pid db" "finalize_plan now u pid tid db = Inr (r, db')"
  shows "turns_as v t0 pid db'"
proof -
  from finalize_turns [OF assms(2)] obtain p tn ids where
    p: "plan_get_by_id pid db = Some p" "p_turn_id p = tid" and tn: "turn_get_by_id tid db = Some tn"
    and plans: "plans db' = put_row p_id (plan_set_status p READY None None) (plans db)"
    and turns: "turns db' = put_row tn_id (turn_set_status (turn_set_task_ids tn ids) PROCESSING) (turns db)"
    by blast
  have t0: "tid = t0" using assms(1) p by (simp add: turns_as_def)
  have "p_turn_id q = t0" if "plan_get_by_id pid db' = Some q" for q
    by (rule plan_put_turn [OF plans p(1) _ _ _ that]) (use assms(1) in \<open>auto simp: plan_set_status_def turns_as_def\<close>)
  then show ?thesis
    using tn t0 by (intro turns_as_put [OF assms(1) turns]) (simp_all add: turn_set_status_def turn_set_task_ids_def)
qed

lemma mark_plan_plans:
  assumes "mark_plan target now u pid reason db = Inr (p', db')"
  shows "\<exists>p why code. plan_get_by_id pid db = Some p \<and> p' = plan_set_status p target why code \<and>
    plans db' = put_row p_id p' (plans db)"
  by (rule mark_plan_effect [OF assms]) blast

lemma mark_plan_turns_as:
  assumes "turns_as v t0 pid db" "mark_plan target now u pid reason db = Inr (p', db')"
  shows "turns_as v t0 pid db'"
proof -
  from mark_plan_plans [OF assms(2)] obtain p why code where p: "plan_get_by_id pid db = Some p"
    and p': "p' = plan_set_status p target why code" and plans: "plans db' = put_row p_id p' (plans db)" by blast
  have q: "p_turn_id q = t0" if "plan_get_by_id pid db' = Some q" for q
    by (rule plan_put_turn [OF plans p _ _ _ that]) (use assms(1) in \<open>auto simp: p' plan_set_status_def turns_as_def\<close>)
  from mark_plan_turns [OF assms(2)] consider "turns db' = turns db"
    | tn where "turn_get_by_id (p_turn_id p) db = Some tn"
        "turns db' = put_row tn_id (turn_set_status tn PROCESSING) (turns db)" using p by auto
  then show ?thesis
  proof cases
    case 1
    then show ?thesis by (rule turns_as_same [OF assms(1) _ q])
  next
    case 2
    have "p_turn_id p = t0" using assms(1) p by (simp add: turns_as_def)
    then show ?thesis
      using 2(1) by (intro turns_as_put [OF assms(1) 2(2) _ _ _ _ q]) (simp_all add: turn_set_status_def)
  qed
qed

lemma clarify_turns_as:
  assumes "turns_as v t0 pid db" "nc_plan_id nc = pid" "mark_plan_needs_clarification now u nc db = Inr (p', db')"
  shows "turns_as v t0 pid db'"
proof -
  have "\<exists>p tn. plan_get_by_id pid db = Some p \<and> turn_get_by_id (p_turn_id p) db = Some tn \<and>
    p_id p' = p_id p \<and> p_turn_id p' = p_turn_id p \<and> plans db' = put_row p_id p' (plans db) \<and>
    turns db' = put_row tn_id (turn_set_status tn TURN_NEEDS_CLARIFICATION) (turns db)"
    by (rule needs_clarification_effect [OF assms(3)]) (simp add: assms(2) plan_set_status_def)
  then obtain p tn where p: "plan_get_by_id pid db = Some p" and tn: "turn_get_by_id (p_turn_id p) db = Some tn"
    and p': "p_id p' = p_id p" "p_turn_id p' = p_turn_id p" and plans: "plans db' = put_row p_id p' (plans db)"
    and turns: "turns db' = put_row tn_id (turn_set_status tn TURN_NEEDS_CLARIFICATION) (turns db)" by blast
  have "p_turn_id p = t0" using assms(1) p by (simp add: turns_as_def)
  moreover have "p_turn_id q = t0" if "plan_get_by_id pid db' = Some q" for q
    by (rule plan_put_turn [OF plans p p'(2,1) _ that]) (use assms(1) in \<open>simp add: turns_as_def\<close>)
  ultimately show ?thesis
    using tn by (intro turns_as_put [OF assms(1) turns]) (simp_all add: turn_set_status_def)
qed

lemma set_question_turns_as:
  assumes "turns_as v t0 pid db" "set_clarification_question pid q db = Inr (r, db')"
  shows "turns_as v t0 pid db'"
proof -
  have "\<exists>p tn tn'. plan_get_by_id pid db = Some p \<and> turn_get_by_id (p_turn_id p) db = Some tn \<and>
    tn_status tn = TURN_NEEDS_CLARIFICATION \<and> plans db' = plans db \<and> tn_id tn' = tn_id tn \<and>
    tn_conversation_id tn' = tn_conversation_id tn \<and> tn_status tn' = tn_status tn \<and>
    turns db' = put_row tn_id tn' (turns db)"
    by (rule set_question_effect [OF assms(2)]) (intro exI conjI, assumption+, simp_all)
  then obtain p tn tn' where p: "plan_get_by_id pid db = Some p" and tn: "turn_get_by_id (p_turn_id p) db = Some tn"
    and tn': "tn_status tn = TURN_NEEDS_CLARIFICATION" "tn_id tn' = tn_id tn"
      "tn_conversation_id tn' = tn_conversation_id tn" "tn_status tn' = tn_status tn"
    and same: "plans db' = plans db" and turns: "turns db' = put_row tn_id tn' (turns db)" by blast
  have "p_turn_id p = t0" using assms(1) p by (simp add: turns_as_def)
  moreover have "p_turn_id q = t0" if "plan_get_by_id pid db' = Some q" for q
    using that same assms(1) by (simp add: turns_as_def plan_get_by_id_def)
  ultimately show ?thesis
    using tn tn' by (intro turns_as_put [OF assms(1) turns]) simp_all
qed

interpretation turns_kept: planning_invariant "turns_as v t0 pid" pid for v t0 pid
  by (unfold_locales; rule create_task_turns_as finalize_turns_as mark_plan_turns_as clarify_turns_as
      set_question_turns_as; assumption)

lemma execute_planning_cases:
  assumes "execute_planning now u up capacity ag c db cache = (r, db', cache')"
  obtains (error) e where "r = Inl e" "db' = db"
  | (run) t p core1 input where "turn_get_by_id (rp_turn_id c) (core db) = Some t" "tn_status t = CONTEXT_READY"
      "create_plan now u \<lparr>cp_turn_id = rp_turn_id c, cp_revision = rp_revision c,
         cp_workflow_id = rp_workflow_id c, cp_parent_plan_id = rp_parent_plan_id c\<rparr> (core db) = Inr (p, core1)"
      "run_existing_plan now (\<lambda>n. u (n + 2)) (ag input) c (p_id p) core1 = (r, core db')"
      "db' = db\<lparr>core := core db'\<rparr>"
proof (cases "fst (load_plannable_input up capacity {CONTEXT_READY} c db cache)")
  case (Inl e)
  then show thesis using assms by (intro error [of e]) (auto simp: execute_planning_def split: prod.splits)
next
  case (Inr input)
  then have "\<exists>t. turn_get_by_id (rp_turn_id c) (core db) = Some t \<and> tn_status t = CONTEXT_READY"
    by (auto simp: load_plannable_input_def load_plannable_snapshot_def split: option.splits if_splits)
  then obtain t where t: "turn_get_by_id (rp_turn_id c) (core db) = Some t" "tn_status t = CONTEXT_READY" by blast
  show thesis
  proof (cases "create_plan now u \<lparr>cp_turn_id = rp_turn_id c, cp_revision = rp_revision c,
      cp_workflow_id = rp_workflow_id c, cp_parent_plan_id = rp_parent_plan_id c\<rparr> (core db)")
    case (Inl e)
    then show thesis using assms Inr by (intro error [of e]) (auto simp: execute_planning_def split: prod.splits)
  next
    case created: (Inr pr)
    then show thesis using assms Inr t
      by (intro run [of t "fst pr" "snd pr" input]) (auto simp: execute_planning_def split: prod.splits)
  qed
qed

lemma execute_planning_turns:
  assumes "execute_planning now u up capacity ag c db cache = (r, db', cache')"
  shows "turn_key tid (core db') = turn_key tid (core db) \<and> db' = db\<lparr>core := core db'\<rparr>"
  using assms
proof (cases rule: execute_planning_cases)
  case (run t p core1 input)
  note E = create_plan_effect [OF run(3)]
  have key: "turn_key x core1 = turn_key x (core db)" for x by (rule turn_key_cong) (simp add: E(1))
  have "plan_get_by_id (p_id p) core1 = Some p"
    using E(2) get_row_None_iff [of p_id "p_id p" "plans (core db)"] by (simp add: E(1) plan_get_by_id_def table_simps)
  then have "turns_as (\<lambda>x. turn_key x (core db)) (rp_turn_id c) (p_id p) core1"
    using key E(6) run(1,2) by (simp add: turns_as_def turn_key_def)
  from turns_kept.run_keeps [OF this, of now "\<lambda>n. u (n + 2)" "ag input" c] show ?thesis
    using run(4,5) unfolding turns_as_def by simp
qed simp

section \<open>A message as a run of the context steps\<close>

text \<open>\<open>w\<close> leads to a database and a cache.\<close>

definition leads :: "nat \<Rightarrow> context_world \<Rightarrow> context_db \<Rightarrow> resource_cache \<Rightarrow> bool" where
  "leads capacity w db cache \<longleftrightarrow> (\<exists>w'. context_reachable capacity w w' \<and> cw_db w' = db \<and> cw_cache w' = cache)"

lemma leads_refl: "leads capacity w (cw_db w) (cw_cache w)"
  by (auto simp: leads_def intro: context_reachable.start)

lemma leads_trans: "context_reachable capacity w w' \<Longrightarrow> leads capacity w' db cache \<Longrightarrow> leads capacity w db cache"
  by (auto simp: leads_def intro: reachable_trans)

lemma leads_step: "context_step capacity w w' \<Longrightarrow> leads capacity w (cw_db w') (cw_cache w')"
  by (auto simp: leads_def intro: reachable_step)

lemma leadsE:
  assumes "leads capacity w db cache"
  obtains w' where "context_reachable capacity w w'" "cw_db w' = db" "cw_cache w' = cache"
  using assms by (auto simp: leads_def)

lemma get_queue_leads:
  assumes "get_queue up reads capacity conv cid version (cw_db w) (cw_cache w) = Inr (q, cache')"
  shows "leads capacity w (cw_db w) cache'"
proof (cases "read_queue up reads capacity conv cid version")
  case None
  then obtain rs where rs: "load_resources_for_warmup capacity conv cid version (cw_db w) = Inr rs"
    and cache': "cache' = (if up 1 then (cw_cache w)((conv, cid) := replace_queue capacity rs version)
       else if up 2 then (cw_cache w)((conv, cid) := no_queue) else cw_cache w)"
    using assms by (auto simp: get_queue_def bind_eq_Inr)
  define rd where "rd = \<lparr>wr_conversation_id = conv, wr_chain_id = cid, wr_version = version, wr_resources = rs\<rparr>"
  define w1 where "w1 = w\<lparr>cw_reads := rd # cw_reads w\<rparr>"
  have 1: "context_reachable capacity w w1"
    unfolding w1_def rd_def by (rule reachable_step [OF warm_load [OF rs]])
  have "rd \<in> set (cw_reads w1)" by (simp add: w1_def)
  from leads_step [OF warm_write [OF this, of capacity]]
  have 2: "leads capacity w1 (cw_db w) ((cw_cache w)((conv, cid) := replace_queue capacity rs version))"
    by (simp add: w1_def rd_def)
  have 3: "leads capacity w1 (cw_db w) ((cw_cache w)((conv, cid) := no_queue))"
    using leads_step [OF invalidate, of capacity w1 "(conv, cid)"] by (simp add: w1_def)
  have 4: "leads capacity w1 (cw_db w) (cw_cache w)" using leads_refl [of capacity w1] by (simp add: w1_def)
  show ?thesis using 1 2 3 4 by (auto simp: cache' intro: leads_trans)
next
  case (Some cached)
  then show ?thesis using assms leads_refl by (auto simp: get_queue_def)
qed

lemma with_queues_leads:
  "with_queues up capacity conv i cs (cw_db w) (cw_cache w) = (r, cache') \<Longrightarrow> leads capacity w (cw_db w) cache'"
proof (induction cs arbitrary: i w r cache')
  case (Cons c cs)
  show ?case
  proof (cases "get_queue (up i) (\<lambda>_. cw_cache w) capacity conv (cx_id c) (ch_resource_version (cx_chain c)) (cw_db w) (cw_cache w)")
    case (Inl e)
    then show ?thesis using Cons(2) leads_refl by auto
  next
    case (Inr p)
    then obtain q cache1 where q: "get_queue (up i) (\<lambda>_. cw_cache w) capacity conv (cx_id c) (ch_resource_version (cx_chain c))
      (cw_db w) (cw_cache w) = Inr (q, cache1)" by (cases p) auto
    from get_queue_leads [OF q] obtain w1 where w1: "context_reachable capacity w w1"
      "cw_db w1 = cw_db w" "cw_cache w1 = cache1" by (rule leadsE)
    obtain r1 where "with_queues up capacity conv (i + 1) cs (cw_db w1) (cw_cache w1) = (r1, cache')"
      using Cons(2) q w1 by (auto split: prod.splits sum.splits)
    from Cons(1) [OF this] show ?thesis using w1 leads_trans by auto
  qed
qed (use leads_refl in auto)

lemma refresh_leads:
  assumes "qr \<in> set (cw_refreshes w)"
  obtains w' where "context_reachable capacity w w'" "cw_db w' = cw_db w" "cw_refreshes w' = cw_refreshes w"
    "cw_cache w' = refresh_after_commit up capacity qr (cw_cache w)"
proof -
  define key where "key = (qr_conversation_id qr, qr_chain_id qr)"
  have inval: "context_step capacity w (w\<lparr>cw_cache := (cw_cache w)(key := no_queue)\<rparr>)" by (rule invalidate)
  note R = refresh_after_commit_def [of up capacity qr "cw_cache w", unfolded Let_def, folded key_def]
  consider (ok) q where "up 0" "refresh_queue capacity qr (cw_cache w key) = Some q"
    | (lost) "\<not> up 1" "refresh_after_commit up capacity qr (cw_cache w) = cw_cache w"
    | (gone) "refresh_after_commit up capacity qr (cw_cache w) = (cw_cache w)(key := no_queue)"
    by (cases "up 0"; cases "refresh_queue capacity qr (cw_cache w key)"; cases "up 1") (auto simp: R)
  then show thesis
  proof cases
    case ok
    from context_step.refresh [OF assms key_def ok(2)] show thesis
      by (rule that [OF reachable_step]) (simp_all add: R ok)
  next
    case lost
    then show thesis by (intro that [OF context_reachable.start]) simp_all
  next
    case gone
    then show thesis by (intro that [OF reachable_step [OF inval]]) simp_all
  qed
qed

lemma refreshes_lead:
  assumes "set qrs \<subseteq> set (cw_refreshes w)"
  shows "leads capacity w (cw_db w)
    (fold (\<lambda>(i, qr). refresh_after_commit (up i) capacity qr) (enumerate n qrs) (cw_cache w))"
  using assms
proof (induction qrs arbitrary: n w)
  case (Cons qr qrs)
  from Cons(2) obtain w1 where w1: "context_reachable capacity w w1" "cw_db w1 = cw_db w"
    "cw_refreshes w1 = cw_refreshes w" "cw_cache w1 = refresh_after_commit (up n) capacity qr (cw_cache w)"
    using refresh_leads [of qr w capacity "up n"] by auto
  from Cons(1) [of w1 "Suc n"] Cons(2) w1 have "leads capacity w1 (cw_db w)
    (fold (\<lambda>(i, qr). refresh_after_commit (up i) capacity qr) (enumerate n (qr # qrs)) (cw_cache w))" by simp
  then show ?case using leads_trans [OF w1(1)] by simp
qed (simp add: leads_refl)

lemma complete_turn_leads:
  assumes "complete_turn up capacity now u tid command (cw_db w) (cw_cache w) = (r, db', cache')"
  shows "leads capacity w db' cache'"
proof -
  consider (none) "db' = cw_db w" "cache' = cw_cache w"
    | (fin) conv res refreshes where
      "complete_turn_in_transaction now u tid conv command (cw_db w) = Inr ((res, refreshes), db')"
      "cache' = fold (\<lambda>(i, qr). refresh_after_commit (up i) capacity qr) (enumerate 0 refreshes) (cw_cache w)"
    using assms by (auto simp: complete_turn_def split: option.splits sum.splits)
  then show ?thesis
  proof cases
    case none
    then show ?thesis by (simp add: leads_refl)
  next
    case fin
    define w1 where "w1 = w\<lparr>cw_db := db', cw_refreshes := refreshes @ cw_refreshes w\<rparr>"
    have "context_reachable capacity w w1" unfolding w1_def by (rule reachable_step [OF complete [OF fin(1)]])
    moreover have "leads capacity w1 db' cache'"
      using refreshes_lead [of refreshes w1 capacity up 0] by (simp add: w1_def fin(2))
    ultimately show ?thesis by (rule leads_trans)
  qed
qed

lemma hold_cases:
  assumes "hold lk body s = (r, s')"
  obtains (refused) e where "s' = s" "r = Inl e"
    | (ran) r0 where "body s = (r0, s')"
  using assms by (cases "lk_acquire lk"; cases "lk_release lk") (auto simp: hold_def split: prod.splits)

lemma locked_complete_leads:
  assumes "locked_complete_turn lk up capacity now u tid command (cw_db w) (cw_cache w) = (r, db', cache')"
  shows "leads capacity w db' cache'"
proof (cases "get_turn tid (cw_db w)")
  case None
  then show ?thesis using assms leads_refl by (auto simp: locked_complete_turn_def)
next
  case (Some t)
  then have "hold lk (\<lambda>(db, cache). complete_turn up capacity now u tid command db cache) (cw_db w, cw_cache w) =
    (r, db', cache')" using assms by (simp add: locked_complete_turn_def)
  then show ?thesis
  proof (cases rule: hold_cases)
    case (refused e)
    then show ?thesis using leads_refl by auto
  next
    case (ran r0)
    then show ?thesis using complete_turn_leads by auto
  qed
qed

lemma select_context_leads:
  assumes "select_context route up capacity now u conv message (created, cw_db w, cw_cache w) = (r, created', db', cache')"
  shows "leads capacity w db' cache'"
proof (cases "create_turn_and_load_chains now capacity (new_id ''turn'' (u 0)) conv message (cw_db w)")
  case (Inl e)
  then show ?thesis using assms leads_refl by (auto simp: select_context_def Let_def)
next
  case (Inr p)
  let ?tid = "new_id ''turn'' (u 0)"
  obtain loaded db1 where p: "create_turn_and_load_chains now capacity ?tid conv message (cw_db w) = Inr (loaded, db1)"
    using Inr by (cases p) auto
  define w1 where "w1 = w\<lparr>cw_db := db1\<rparr>"
  have 1: "context_reachable capacity w w1" unfolding w1_def by (rule reachable_step [OF open_turn [OF p]])
  obtain queues cache1 where q: "with_queues up capacity conv 0 loaded db1 (cw_cache w) = (queues, cache1)" by fastforce
  have "leads capacity w1 db1 cache1"
    using with_queues_leads [of up capacity conv 0 loaded w1] q by (simp add: w1_def)
  then obtain w2 where w2: "context_reachable capacity w1 w2" "cw_db w2 = db1" "cw_cache w2 = cache1" by (rule leadsE)
  have "(db' = db1 \<or> (\<exists>d. persist_context_selection now (u 1) ?tid conv d db1 = Inr db')) \<and> cache' = cache1"
    using assms p q by (auto simp: select_context_def Let_def bind_def split: prod.splits sum.splits)
  then have "leads capacity w2 db' cache'"
    using leads_refl [of capacity w2] leads_step [OF select, of now "u 1" ?tid conv _ w2 db' capacity] w2
    by auto
  then show ?thesis by (intro leads_trans [OF 1] leads_trans [OF w2(1)])
qed

lemma send_message_leads:
  assumes "send_message lk marked route up capacity now u conv message (cw_db w) (cw_cache w) = (r, db', cache')"
  shows "leads capacity w db' cache'"
proof -
  obtain r1 created db1 cache1 where h: "hold lk (select_context route up capacity now u conv message)
      (False, cw_db w, cw_cache w) = (r1, created, db1, cache1)" by (metis prod_cases4)
  have "leads capacity w db1 cache1"
    using h
  proof (cases rule: hold_cases)
    case (refused e)
    then show ?thesis using leads_refl by auto
  next
    case (ran r0)
    then show ?thesis using select_context_leads by auto
  qed
  then obtain w1 where w1: "context_reachable capacity w w1" "cw_db w1 = db1" "cw_cache w1 = cache1" by (rule leadsE)
  have "leads capacity w1 db' cache'"
    using assms h leads_refl [of capacity w1] leads_step [OF fail_turn, of capacity w1 "new_id ''turn'' (u 0)"] w1
    by (auto simp: send_message_def split: sum.splits)
  then show ?thesis by (rule leads_trans [OF w1(1)])
qed

lemma core_leads:
  assumes "\<And>tid. turn_key tid c = turn_key tid (core (cw_db w))"
  shows "leads capacity w ((cw_db w)\<lparr>core := c\<rparr>) (cw_cache w)"
  using leads_step [OF other, of c w capacity] assms by (simp add: turn_view_key set_core_def)

lemma load_input_cache:
  "load_plannable_input up capacity allowed c db cache = (r, cache') \<Longrightarrow>
     cache' = cache \<or> (\<exists>cs qs. with_queues up capacity (rp_conversation_id c) 0 cs db cache = (qs, cache'))"
  by (auto simp: load_plannable_input_def split: sum.splits prod.splits)

lemma execute_planning_leads:
  assumes "execute_planning now u up capacity ag c (cw_db w) (cw_cache w) = (r, db', cache')"
  shows "leads capacity w db' cache'"
proof -
  obtain q where "load_plannable_input up capacity {CONTEXT_READY} c (cw_db w) (cw_cache w) = (q, cache')"
    using assms by (auto simp: execute_planning_def split: prod.splits sum.splits)
  then have "leads capacity w (cw_db w) cache'" using load_input_cache with_queues_leads leads_refl by metis
  then obtain w1 where w1: "context_reachable capacity w w1" "cw_db w1 = cw_db w" "cw_cache w1 = cache'" by (rule leadsE)
  have "turn_key tid (core db') = turn_key tid (core (cw_db w1))" for tid
    using execute_planning_turns [OF assms] w1(2) by simp
  from core_leads [OF this, of capacity] have "leads capacity w1 db' cache'"
    using execute_planning_turns [OF assms] w1(2,3) by simp
  then show ?thesis by (rule leads_trans [OF w1(1)])
qed

lemma plan_turn_leads:
  "plan_turn env conv tid (cw_db w) (cw_cache w) = (r, db', cache') \<Longrightarrow> leads (me_capacity env) w db' cache'"
  unfolding plan_turn_def by (rule execute_planning_leads)

lemma answer_turns:
  assumes "answer_clarification now u cid tid answer db = Inr (r, db')"
  shows "turn_key x db' = turn_key x db"
proof -
  have "\<exists>tn tn'. turn_get_by_id tid db = Some tn \<and> tn_status tn = TURN_NEEDS_CLARIFICATION \<and>
    tn_id tn' = tn_id tn \<and> tn_conversation_id tn' = tn_conversation_id tn \<and> tn_status tn' = PROCESSING \<and>
    turns db' = put_row tn_id tn' (turns db)"
    by (rule answer_effect [OF assms]) (intro exI conjI, assumption+, simp_all)
  then show ?thesis using turn_key_put by fastforce
qed

lemma dispatch_leads:
  assumes "dispatch_plan env s a r (cw_db w) (cw_cache w) = (res, db', cache')"
  shows "leads (me_capacity env) w db' cache'"
proof (cases "rr_status r = UNSUPPORTED")
  case True
  obtain r1 db1 cache1 where c: "locked_complete_turn (me_complete_lock env) (me_redis env) (me_capacity env) (me_now env)
      (me_complete_ids env) (sr_turn_id s) (unsupported_command a (unsupported_message r)) (cw_db w) (cw_cache w) =
      (r1, db1, cache1)" by (metis prod_cases3)
  then have "db' = db1" "cache' = cache1"
    using assms True by (auto simp: dispatch_plan_def Let_def split: sum.splits)
  then show ?thesis using locked_complete_leads [OF c] by simp
next
  case False
  then have "db' = cw_db w" "cache' = cw_cache w"
    using assms by (auto simp: dispatch_plan_def split: plan_status.splits option.splits if_splits)
  then show ?thesis using leads_refl by simp
qed

lemma message_leads:
  assumes "send_conversation_message env conv message source (cw_db w) (cw_cache w) = (r, db', cache')"
  shows "leads (me_capacity env) w db' cache'"
proof (cases source)
  case (Some tid)
  then show ?thesis
    using assms leads_refl [of "me_capacity env" w] core_leads answer_turns
    by (fastforce simp: send_conversation_message_def split: sum.splits)
next
  case None
  obtain r1 db1 cache1 where s: "send_message (me_select_lock env) (me_marked env) (me_route env) (me_redis env)
      (me_capacity env) (me_now env) (me_select_ids env) conv message (cw_db w) (cw_cache w) = (r1, db1, cache1)"
    by (metis prod_cases3)
  from send_message_leads [OF s] obtain w1 where w1: "context_reachable (me_capacity env) w w1"
    "cw_db w1 = db1" "cw_cache w1 = cache1" by (rule leadsE)
  have "leads (me_capacity env) w1 db' cache'"
  proof (cases r1)
    case (Inl e)
    then show ?thesis using assms None s w1 leads_refl [of _ w1] by (auto simp: send_conversation_message_def)
  next
    case (Inr sel)
    obtain r2 db2 cache2 where pl: "plan_turn env (sr_conversation_id sel) (sr_turn_id sel) db1 cache1 = (r2, db2, cache2)"
      by (metis prod_cases3)
    from plan_turn_leads [of env _ _ w1 r2 db2 cache2] pl w1 have "leads (me_capacity env) w1 db2 cache2" by auto
    then obtain w2 where w2: "context_reachable (me_capacity env) w1 w2" "cw_db w2 = db2" "cw_cache w2 = cache2"
      by (rule leadsE)
    have "leads (me_capacity env) w1 db1 cache1" using leads_refl [of _ w1] w1 by simp
    moreover have "leads (me_capacity env) w1 db2 cache2" using w2 by (auto simp: leads_def)
    moreover have "leads (me_capacity env) w1 db' cache'"
      if "dispatch_plan env sel a run db2 cache2 = (r, db', cache')" for a run
      using dispatch_leads [of env sel a run w2] that w2 leads_trans [OF w2(1)] by auto
    ultimately show ?thesis
      using assms None s Inr pl by (auto simp: send_conversation_message_def split: sum.splits)
  qed
  then show ?thesis by (rule leads_trans [OF w1(1)])
qed

end
