(* ===== verification/Conversation_Properties.thy ===== *)
theory Conversation_Properties
  imports Conversation_Safety Context_Properties Planner_Properties
begin

text \<open>
  The properties of the conversation: what a message does is a run of the context steps, what it
  reports is what is stored, and what an expired lock leaves behind.
\<close>

section \<open>The parts of a message\<close>






section \<open>Properties\<close>

text \<open> C34: Whatever the language models answer, whatever fails and whichever lock is lost on the way,
  handling a conversation message, without steps of others between its own, is for the context tables
  and the cache of the hot queues a run of the steps of the context service: the selection, the
  planner's own reads of the queues, which may fill, replace or invalidate them and may end the run
  with an error, the transactions of the planner, none of which completes or reopens a turn, and
  the completion of an unsupported turn.  So what is proved of these runs holds after any
  sequence of messages.\<close>

theorem message_refines_context_steps:
  assumes "send_conversation_message env conv message source (cw_db w) (cw_cache w) = (r, db', cache')"
  shows "\<exists>w'. context_reachable (me_capacity env) w w' \<and> cw_db w' = db' \<and> cw_cache w' = cache'"
  using message_leads [OF assms] by (simp add: leads_def)

definition no_route :: "ident \<Rightarrow> string \<Rightarrow> context_chain list \<Rightarrow> selection_decision result" where
  "no_route tid message cands = Inl (OtherException ''Timeout'' [])"

definition redis_up :: "nat \<Rightarrow> nat \<Rightarrow> bool" where
  "redis_up i j = True"

definition demo_env :: message_env where
  "demo_env = \<lparr>me_route = demo_route, me_agents = (\<lambda>_. good_agents), me_select_lock = held,
     me_complete_lock = held, me_marked = True, me_redis = redis_up, me_plan_redis = redis_up, me_capacity = 2, me_now = 80, me_select_ids = demo_uuids ''m'',
     me_plan_ids = demo_uuids ''p'', me_complete_ids = demo_uuids ''c''\<rparr>"

theorem message_refines_context_steps_witness:
  "\<exists>w'. context_reachable 2 demo_world w' \<and>
     cw_db w' = fst (snd (send_conversation_message demo_env ''conv1'' ''plan it'' None (cw_db demo_world) (cw_cache demo_world)))"
proof -
  obtain r db' cache' where m: "send_conversation_message demo_env ''conv1'' ''plan it'' None (cw_db demo_world)
      (cw_cache demo_world) = (r, db', cache')" by (metis prod_cases3)
  have "me_capacity demo_env = 2" by (simp add: demo_env_def)
  with message_refines_context_steps [OF m] m show ?thesis by auto
qed




text \<open> A lock that expires while the selector fails strands the turn.  The expired lock hides the
  selector's error, the caller gets a conflict, and the turn, which is failed when the lock holds,
  stays in routing, where nothing completes it or fails it any more.\<close>

theorem expired_lock_strands_turn:
  assumes "create_turn_and_load_chains now capacity (new_id ''turn'' (u 0)) conv message db = Inr (loaded, db1)"
    and "\<forall>cands. \<exists>e. route (new_id ''turn'' (u 0)) message cands = Inl e"
  shows "(\<exists>e db' cache'. send_message \<lparr>lk_acquire = ACQUIRED, lk_release = EXPIRED_LOCK\<rparr> True route up capacity now u conv
        message db cache = (Inl e, db', cache') \<and> http_status (Inl e) = 409 \<and>
      (\<exists>t. get_turn (new_id ''turn'' (u 0)) db' = Some t \<and> tn_status t = ROUTING)) \<and>
    (\<exists>e db' cache'. send_message held True route up capacity now u conv
        message db cache = (Inl e, db', cache') \<and>
      (\<exists>t. get_turn (new_id ''turn'' (u 0)) db' = Some t \<and> tn_status t = TURN_FAILED))"
proof -
  let ?tid = "new_id ''turn'' (u 0)"
  note C = create_turn_effect [OF assms(1)]
  have "\<exists>e cache1. select_context route up capacity now u conv message (False, db, cache) = (Inl e, True, db1, cache1)"
  proof -
    obtain queues cache1 where q: "with_queues up capacity conv 0 loaded db1 cache = (queues, cache1)" by fastforce
    show ?thesis
    proof (cases queues)
      case (Inl e)
      then show ?thesis using assms(1) q by (simp add: select_context_def Let_def)
    next
      case (Inr cands)
      moreover obtain e where "route ?tid message cands = Inl e" using assms(2) by blast
      ultimately show ?thesis using assms(1) q by (simp add: select_context_def Let_def)
    qed
  qed
  then obtain e cache1 where sel: "select_context route up capacity now u conv message (False, db, cache) =
      (Inl e, True, db1, cache1)" by blast
  have lost: "send_message \<lparr>lk_acquire = ACQUIRED, lk_release = EXPIRED_LOCK\<rparr> True route up capacity now u conv message db cache =
      (Inl (lock_unavailable ''Conversation route lock expired''), db1, cache1)"
    by (simp add: send_message_def hold_def held_def sel is_lock_unavailable_def lock_unavailable_def)
  have kept: "send_message held True route up capacity now u conv message db cache =
      (Inl e, mark_turn_failed ?tid db1, cache1)"
    using select_context_errors [OF sel] by (simp add: send_message_def hold_def held_def sel)
  have "\<exists>t. get_turn ?tid db1 = Some t \<and> tn_status t = ROUTING" using C by (simp add: new_turn_def)
  moreover have "\<exists>t. get_turn ?tid (mark_turn_failed ?tid db1) = Some t \<and> tn_status t = TURN_FAILED"
    using C by (simp add: mark_turn_failed_def new_turn_def save_turn_get turn_set_status_def)
  ultimately show ?thesis
    unfolding lost kept by (auto simp: http_status_def lock_unavailable_def context_status_code_def)
qed

theorem expired_lock_strands_turn_witness:
  "\<exists>e db' cache'. send_message \<lparr>lk_acquire = ACQUIRED, lk_release = EXPIRED_LOCK\<rparr> True no_route redis_up 2 9 (demo_uuids ''m'')
       ''conv1'' ''plan it'' (cw_db demo_world) (cw_cache demo_world) = (Inl e, db', cache') \<and>
     (\<exists>t. get_turn (new_id ''turn'' (demo_uuids ''m'' 0)) db' = Some t \<and> tn_status t = ROUTING)"
proof -
  have "case create_turn_and_load_chains 9 2 (new_id ''turn'' (demo_uuids ''m'' 0)) ''conv1'' ''plan it'' (cw_db demo_world) of
      Inr (loaded, db1) \<Rightarrow> True | Inl e \<Rightarrow> False" by code_simp
  then obtain loaded db1 where c: "create_turn_and_load_chains 9 2 (new_id ''turn'' (demo_uuids ''m'' 0)) ''conv1''
      ''plan it'' (cw_db demo_world) = Inr (loaded, db1)" by (auto split: sum.splits)
  have "\<forall>cands. \<exists>e. no_route (new_id ''turn'' (demo_uuids ''m'' 0)) ''plan it'' cands = Inl e"
    by (simp add: no_route_def)
  with c expired_lock_strands_turn [where u = "demo_uuids ''m''" and route = no_route and up = redis_up and capacity = 2
      and now = 9 and conv = "''conv1''" and message = "''plan it''" and db = "cw_db demo_world"
      and cache = "cw_cache demo_world"] show ?thesis by blast
qed

end
