(* ===== verification/Spec2Isabelle.thy ===== *)
theory Spec2Isabelle
  imports Runtime_Properties Executor_Properties Stream_Worker Tool_Properties Stage_Log_Properties Operations_Tools Context_Query_Properties Strict_Schema Operations_Properties Planning_Properties Aggregation Replan_Properties Evidence_Properties
    Planner_Properties Csv_Properties Document_Properties Context_Properties
    Conversation_Properties
begin

text \<open>
  DocFlow Agent: a verification development of the document workflow back end under src/app.

  A user's message becomes a turn of a conversation.  The context service chooses the context
  chains the message needs; a planner (a small graph of language model calls) gathers evidence with
  read-only tools, and commits a plan of tasks to the database or asks a clarification question.
  The task runtime executes the tasks of a published plan one at a time, with leases, bounded
  attempts and compensation; a task is one stage of the document pipeline (process, build chunks,
  index vectors), run through an agent with a single command tool or directly.  When a plan ends it
  is aggregated into the turn's answer, or another revision is requested.  The parts talk through
  the database: an outbox that a publisher sends to a Redis stream, an inbox that makes consumers
  idempotent.  The development follows these parts; file names are relative to src/app, and those
  of a module relative to src/app/modules.

  Foundations.  Prelude: exceptions as the datatype error, results as error + value, JSON values,
  tables as lists of rows with key look-up and row replacement, and the locale of a keyed repository
  that each table is an interpretation of.  Store: the orchestration tables (plans, tasks,
  executions, turns, outbox, inbox, clarifications) as the record database, with the repositories'
  queries in their order, their unique constraints, and units of work that roll back without commit
  (planning, task_runtime, messaging and clarification infrastructure/persistence).  Unicode_Text:
  the string methods of Python on lists of code points.  Listing: filters and paging of searches.

  Task runtime.  Task_Runtime: the capability registry, claim, completion, failure and compensation
  transactions and execute_next (task_runtime/application/runtime.py).  Runtime_Invariant and
  Runtime_Safety: the invariant of the plan, task and execution tables and its preservation by every
  transaction.  Runtime_Steps: the runtime as a step relation over the database and the snapshots
  that any number of workers hold; a worker may vanish at any step and a clock may read anything.
  Runtime_Properties: one live execution per plan, life cycle of executions, bounded attempts,
  rejection of workers whose token was taken over, idempotent events, which task a claim starts.

  Executors.  Executors: the command tools with their document scope, agent runs, the executors and
  compensators by the code under which the registry finds them, and their wiring
  (document/agent_tools/command_tools.py, task_runtime/infrastructure, ../bootstrap/lifespan.py).  Stage_Errors: every failure of a stage is an application error with one
  of four statuses.  Stage_Runs: a locale of what the runtime relies on in a stage, interpreted on the
  three stages.  Executor_Properties: runtime and pipeline composed: agents stay within the document
  of their task, agree with the fallback, store what the task of the claim asked for, and can be
  retried, a chunk stage whose text has no chunks apart.

  Planning.  Planning_Dag: the validation of the task graph against reachability.  Planning, Replan:
  the use cases of planning/application, clarification/application/answer.py and the inbox helper.
  Planning_Safety: each keeps the runtime invariant.  Planner_Workflow, Planning_Run: the graph of
  ../agents/planner.py and the run around it (planning/application/run_planning.py), with the
  selected chains and their hot queues, which it reads outside the conversation lock.  Agent_Tools:
  permissions, error classification, audit, planner tools (../agent_runtime).  Evidence: what the
  collectors take from an agent run (../agents/collectors.py).  Planner_Safety, Planning_Properties,
  Replan_Properties, Planner_Properties, Evidence_Properties: publication, clarification, replanning,
  termination of the graph, no plan left in planning, evidence that carries every field of the
  tool outputs, in their order.

  Messaging and aggregation.  Messaging, Stream_Worker: outbox publisher, message parsing,
  dispatching, acknowledgement, the two loops of workers/runtime_main.py.  Aggregation: the answer of
  a turn from its plan (aggregation/application/aggregate_plan.py).

  Document pipeline.  Parsing, Chunking, Csv_Format, Csv_Pipeline: cleaning and chunking of texts,
  Markdown and tables; Chunking_Properties, Csv_Properties: nothing visible is lost, limits hold,
  every chunk carries the path of the headings that enclose it, each CSV row is indexed once.  Document_Store, Document_Lifecycle, Document_Process, Document_Chunks,
  Document_Index: the tables and the four stages with their compensation (document/application/
  use_cases).  Document_Steps: any number of workers and compensators interleaved between their
  transactions, vector store calls and fenced sections; Document_Safety, Document_Invariant,
  Document_Run, Document_Properties: ownership, no vector without its chunk, the fence.
  Document_Query: searches and query tools.

  Context and conversation.  Context_Store, Context_Resources, Context_Service: chains, nodes,
  resources with their event log, the Redis queue with its two scripts and the three requests of a
  read, the conversation lock with the outcomes of acquire and release, opening, selecting and
  completing a turn (context/application and infrastructure).  Context_Steps, Context_Safety,
  Context_Invariant, Context_Run, Context_Properties: any interleaving of transactions with lost, late
  or repeated cache requests; the log replays to the table, the queue shows the version it is tagged
  with, and what a read gets when others write between its requests.  Context_Query, Context_Query_Properties: searches and tools, confined to the run's scope.
  Strict_Schema: the tool schema of the selector.  Conversation, Conversation_Safety,
  Conversation_Properties: a message from request to answer as a run of the context steps.

  Operations.  Log_Writing, Stage_Log: the JSONL writer, the redaction of error texts, and the events of
  the document stages, the context service and audited calls (../shared/observability,
  ../agent_runtime/audit.py).  Event_Log: what is written reads back.
  Log_Store, Log_Query, Operations_Tools: the queries of these logs and their tools (operations/).
  Log_Safety, Operations_Properties: paging lists each event once while the logs grow; the tool time
  line pairs its events as a reference definition does.  Stage_Log_Properties: a stage event is found
  by a document's time line with all the fields that the logger was bound to and called with.
  Tool_Catalog, Tool_Search, Tool_Properties: the catalogs of agent tools and their search.

  Bounds.  Recursion is structural or has a measure.  The planner graph has five nodes and at most
  two rounds of evidence; its fuel is that bound, and planner_graph_guarded shows that it is never
  used up.  The expansion of schema references has Python's recursion limit as fuel.  The digits of
  a number use the number itself.  Integers of Python are int; identifiers are strings; times are
  integers with one unit, as only their order and differences matter, except in the logs, where ISO
  texts are parsed.  String literals in messages are English renderings of the source's.

  Assumptions.  Code outside src/ is an argument or an input: the answers of language models and
  what an agent run called, the embedding service and the vector store's failures, file system
  failures, the JSON and pydantic libraries of the logs, lock outcomes, stream reads, hashing, the
  decoding of bytes and the sniffing of CSV dialects.  Vector components are opaque.  Stored JSON
  reads back.  Text columns compare and sort by code points, not by a collation of the database.  The
  interleaving model takes each transaction as one step (MySQL with row locks); a request of a dead
  process takes effect before its fence is released.  Where an operation of several transactions or
  cache requests is a function (send_message, execute_planning, send_conversation_message), it runs
  without steps of others between its own; the step relations interleave its parts.  The use cases of a stage are modelled twice: as a whole for
  their callers, and step by step in Document_Steps from the same transactions.

  Not modelled.  Alembic migrations, SQL column lengths and foreign keys; settings, container and
  application factory apart from the wiring of executors; HTTP servers; prompt texts and agent
  construction; durations; the clients of Redis, Qdrant,
  Docling, DeepSeek and the embedding service beyond the decisions their callers take; hashing of
  uploads.  These are input and output, declarations without behaviour or calls of a library.
  Simplified: DATETIME columns keep times as given, though MySQL rounds them to seconds, and the
  onupdate of updated_at columns is left out; the redaction of texts is modelled for ASCII, where
  the source's classes of letters and spaces are those of Unicode; a log record whose event field is a
  list or an object, which no logger writes, is no terminal event of a time line, where the source
  raises; files staged by a processing run that fails after staging are not tracked.

  Where modelling contradicted a comment or an evident intention, the case is stated as a lemma or
  as a property with the behaviour the code has.
\<close>

end
